(* ===== verification/EVSE_Prelude.thy ===== *)
theory EVSE_Prelude
  imports Complex_Main "HOL-Library.Word"
begin

text \<open>
  Shared by every component: the machine integers of the target (a 32-bit Arm core, so
  \<open>uint8_t\<close>, \<open>uint16_t\<close>, \<open>uint32_t\<close> and \<open>int32_t\<close> are words of their width and
  \<open>unsigned long\<close> is 32 bits wide), the collections of rewrite rules the component proofs
  draw on, and the lemmas on words, lists and options that more than one component needs.
\<close>

type_synonym u8 = "8 word"
type_synonym u16 = "16 word"
type_synonym u32 = "32 word"

text \<open>
  The status codes of \<open>drivers/fsl_common.h\<close>: the generic group, and the codes of the other
  groups, which no modelled code tells apart.
\<close>

datatype status_t =
    kStatus_Success | kStatus_Fail | kStatus_ReadOnly | kStatus_OutOfRange | kStatus_InvalidArgument
  | kStatus_Timeout | kStatus_NoTransferInProgress | kStatus_Busy | kStatus_NoData
  | kStatus_Group nat nat

named_theorems fsm_simps \<open>equations that evaluate one step of a state machine\<close>

end
