(* ===== verification/C_Float.thy ===== *)
theory C_Float
  imports EVSE_Prelude "HOL-Library.Log_Nat"
begin

text \<open>
  C's \<open>float\<close> and \<open>double\<close>, as the IEEE-754 binary32 and binary64 formats of the
  Cortex-M33 build evaluate them. A finite value is the rational number it denotes, so every
  operation is the exact operation on rationals followed by one rounding to nearest, ties to
  even (\<open>fl_round\<close>), with gradual underflow and overflow to infinity. Infinities and NaN
  are values of their own and comparisons with NaN are false, as in C.

  Not represented: the sign of zero (\<open>+0\<close> and \<open>-0\<close> are the one value \<open>Fin 0\<close>; a
  division by zero is read as a division by \<open>+0\<close>) and the payload and signalling bit of a
  NaN. No function modelled here reads any of these.

  The lemmas show that rounding is monotone (\<open>rnd_mono\<close>), exact on integers within the
  precision (\<open>rnd_exact\<close>), idempotent (\<open>rnd_idem\<close>) and keeps the sign; the component
  theories use them for facts about all values of a float, not about sampled ones.
\<close>

section \<open>Formats and values\<close>

datatype cfloat = Fin rat | Inf bool | NaN

record fmt =
  fp_prec :: int
  fp_emin :: int
  fp_emax :: int

definition f32 :: fmt where
  "f32 = \<lparr>fp_prec = 24, fp_emin = -149, fp_emax = 128\<rparr>"

definition f64 :: fmt where
  "f64 = \<lparr>fp_prec = 53, fp_emin = -1074, fp_emax = 1024\<rparr>"

text \<open>The binary logarithm of a positive rational, rounded down.\<close>

definition ilog2 :: "rat \<Rightarrow> int" where
  "ilog2 x = (let nd = quotient_of x; k = bitlen (fst nd) - bitlen (snd nd)
              in if 2 powi k \<le> x then k else k - 1)"

text \<open>Rounding to an integer: to nearest, ties to even.\<close>

definition rhe :: "rat \<Rightarrow> int" where
  "rhe x = (let f = \<lfloor>x\<rfloor>; r = x - of_int f
            in if r < 1/2 then f else if 1/2 < r then f + 1 else if even f then f else f + 1)"

text \<open>The exponent of the unit in the last place of a positive rational in a format.\<close>

definition qexp :: "fmt \<Rightarrow> rat \<Rightarrow> int" where
  "qexp F x = max (ilog2 x - (fp_prec F - 1)) (fp_emin F)"

definition rnd :: "fmt \<Rightarrow> rat \<Rightarrow> rat" where
  "rnd F x = (if x = 0 then 0
     else sgn x * (of_int (rhe (\<bar>x\<bar> / 2 powi qexp F \<bar>x\<bar>)) * 2 powi qexp F \<bar>x\<bar>))"

definition fl_round :: "fmt \<Rightarrow> rat \<Rightarrow> cfloat" where
  "fl_round F x = (let r = rnd F x in if 2 powi fp_emax F \<le> \<bar>r\<bar> then Inf (r < 0) else Fin r)"

section \<open>Rounding\<close>

lemma powi2_pos [simp]: "0 < (2::rat) powi k"
  by (simp add: zero_less_power_int)

lemma powi2_mono: "j \<le> k \<Longrightarrow> (2::rat) powi j \<le> 2 powi k"
  by (intro power_int_increasing) auto

lemma powi2_strict_mono_iff [simp]: "(2::rat) powi j < 2 powi k \<longleftrightarrow> j < k"
  by (metis linorder_not_less one_less_numeral_iff order_less_irrefl power_int_strict_increasing powi2_mono semiring_norm(76))

lemma powi2_Suc: "(2::rat) powi (k + 1) = 2 * 2 powi k"
  by (simp add: power_int_add)

lemma powi2_int: "0 \<le> k \<Longrightarrow> (2::rat) powi k = of_int (2 ^ nat k)"
  by (simp add: power_int_def)

lemma bitlen_powi:
  assumes "0 < n"
  shows "2 powi (bitlen n - 1) \<le> (of_int n :: rat)" and "(of_int n :: rat) < 2 powi bitlen n"
proof -
  have b: "1 \<le> bitlen n" using assms
    by (metis bitlen_eq_zero_iff bitlen_nonneg int_one_le_iff_zero_less leD order_le_less)
  note bb = bitlen_bounds[OF assms]
  show "2 powi (bitlen n - 1) \<le> (of_int n :: rat)"
    using bb b by (subst powi2_int) (auto simp del: of_int_power simp: of_int_le_iff)
  show "(of_int n :: rat) < 2 powi bitlen n"
    using bb b by (subst powi2_int) (auto simp del: of_int_power simp: of_int_less_iff)
qed

lemma ilog2_bounds:
  assumes "0 < x"
  shows ilog2_le: "2 powi ilog2 x \<le> x" and ilog2_less: "x < 2 powi (ilog2 x + 1)"
proof -
  obtain n d where nd: "quotient_of x = (n, d)" by (cases "quotient_of x")
  have d: "0 < d" using quotient_of_denom_pos[OF nd] .
  have x: "x = of_int n / of_int d" using quotient_of_div[OF nd] .
  have n: "0 < n" using assms d x by (simp add: zero_less_divide_iff)
  define k where "k = bitlen n - bitlen d"
  have "x < 2 powi bitlen n / 2 powi (bitlen d - 1)"
    unfolding x using bitlen_powi[OF n] bitlen_powi[OF d] d n
    by (intro frac_less) (auto simp: zero_less_power_int)
  then have hi: "x < 2 powi (k + 1)"
    by (simp add: k_def power_int_diff[symmetric] algebra_simps)
  have "2 powi (bitlen n - 1) / 2 powi bitlen d \<le> x"
    unfolding x using bitlen_powi[OF n] bitlen_powi[OF d] d n
    by (intro frac_le) auto
  then have lo: "2 powi (k - 1) \<le> x"
    by (simp add: k_def power_int_diff[symmetric] algebra_simps)
  have il: "ilog2 x = (if 2 powi k \<le> x then k else k - 1)"
    by (simp add: ilog2_def nd k_def Let_def)
  show "2 powi ilog2 x \<le> x" using lo by (simp add: il)
  show "x < 2 powi (ilog2 x + 1)" using hi by (auto simp: il)
qed

lemma ilog2_unique:
  assumes "0 < x" "2 powi k \<le> x" "x < 2 powi (k + 1)"
  shows "ilog2 x = k"
proof -
  have "(2::rat) powi ilog2 x < 2 powi (k + 1)" "(2::rat) powi k < 2 powi (ilog2 x + 1)"
    using ilog2_bounds[OF assms(1)] assms(2,3) by linarith+
  then show ?thesis by simp
qed

lemma ilog2_mono: "0 < x \<Longrightarrow> x \<le> y \<Longrightarrow> ilog2 x \<le> ilog2 y"
proof -
  assume "0 < x" "x \<le> y"
  then have "(2::rat) powi ilog2 x < 2 powi (ilog2 y + 1)"
    using ilog2_le[of x] ilog2_less[of y] by linarith
  then show ?thesis by simp
qed

lemma rhe_of_int [simp]: "rhe (of_int n) = n"
  by (simp add: rhe_def)

lemma rhe_lower: "\<lfloor>x\<rfloor> \<le> rhe x" and rhe_upper: "rhe x \<le> \<lfloor>x\<rfloor> + 1"
  by (auto simp: rhe_def Let_def)

lemma rhe_mono: "x \<le> y \<Longrightarrow> rhe x \<le> rhe y"
proof -
  assume xy: "x \<le> y"
  then have f: "\<lfloor>x\<rfloor> \<le> \<lfloor>y\<rfloor>" by (rule floor_mono)
  show ?thesis
  proof (cases "\<lfloor>x\<rfloor> = \<lfloor>y\<rfloor>")
    case True
    then show ?thesis using xy by (auto simp: rhe_def Let_def)
  next
    case False
    then show ?thesis using f rhe_upper[of x] rhe_lower[of y] by linarith
  qed
qed

lemma rhe_le: "x \<le> of_int n \<Longrightarrow> rhe x \<le> n"
  using rhe_mono[of x "of_int n"] by simp

lemma rhe_ge: "of_int n \<le> x \<Longrightarrow> n \<le> rhe x"
  using rhe_mono[of "of_int n" x] by simp

lemma rhe_error: "\<bar>of_int (rhe x) - x\<bar> \<le> 1/2"
proof -
  have "0 \<le> x - of_int \<lfloor>x\<rfloor>" "x - of_int \<lfloor>x\<rfloor> < 1" by linarith+
  then show ?thesis by (auto simp: rhe_def Let_def)
qed

lemma rnd_zero [simp]: "rnd F 0 = 0" by (simp add: rnd_def)

lemma rnd_pos_eq: "0 < x \<Longrightarrow> rnd F x = of_int (rhe (x / 2 powi qexp F x)) * 2 powi qexp F x"
  by (simp add: rnd_def)

lemma rnd_uminus [simp]: "rnd F (- x) = - rnd F x"
  by (simp add: rnd_def)

lemma rnd_nonneg: "0 \<le> x \<Longrightarrow> 0 \<le> rnd F x"
  by (cases "x = 0") (auto simp: rnd_pos_eq less_le intro!: rhe_ge mult_nonneg_nonneg)

lemma qexp_mono: "0 < x \<Longrightarrow> x \<le> y \<Longrightarrow> qexp F x \<le> qexp F y"
  using ilog2_mono[of x y] by (auto simp: qexp_def max_def)

lemma powi2_div_int:
  assumes "e \<le> k" shows "\<exists>n. (2::rat) powi k / 2 powi e = of_int n"
proof -
  have "(2::rat) powi k / 2 powi e = 2 powi (k - e)" by (simp add: power_int_diff)
  also have "\<dots> = of_int (2 ^ nat (k - e))" using assms by (simp add: powi2_int)
  finally show ?thesis by blast
qed

lemma rnd_pos_mono:
  assumes p: "1 \<le> fp_prec F" and x: "0 < x" and xy: "x \<le> y"
  shows "rnd F x \<le> rnd F y"
proof -
  let ?qx = "qexp F x" and ?qy = "qexp F y"
  have y: "0 < y" using x xy by simp
  show ?thesis
  proof (cases "?qx = ?qy")
    case True
    have "x / 2 powi ?qx \<le> y / 2 powi ?qx" using xy by (simp add: divide_right_mono)
    then show ?thesis using True x y by (simp add: rnd_pos_eq rhe_mono mult_right_mono)
  next
    case False
    then have lt: "?qx < ?qy" using qexp_mono[OF x xy, of F] by simp
    have ey: "?qy = ilog2 y - (fp_prec F - 1)" and exy: "ilog2 x < ilog2 y"
      and emin: "fp_emin F < ?qy" and qx: "ilog2 x - (fp_prec F - 1) \<le> ?qx"
      using lt by (auto simp: qexp_def max_def split: if_splits)
    have "?qx \<le> ilog2 y" using lt ey p by linarith
    then obtain n where n: "(2::rat) powi ilog2 y / 2 powi ?qx = of_int n"
      using powi2_div_int by blast
    obtain m where m: "(2::rat) powi ilog2 y / 2 powi ?qy = of_int m"
      using powi2_div_int[of ?qy "ilog2 y"] ey p by auto
    have "x < 2 powi (ilog2 x + 1)" by (rule ilog2_less[OF x])
    also have "\<dots> \<le> 2 powi ilog2 y" using exy by (intro powi2_mono) simp
    finally have "x \<le> 2 powi ilog2 y" by simp
    then have "x / 2 powi ?qx \<le> of_int n" using n
      by (metis divide_right_mono less_imp_le powi2_pos)
    then have "rhe (x / 2 powi ?qx) \<le> n" by (rule rhe_le)
    then have "rnd F x \<le> of_int n * 2 powi ?qx"
      using x by (simp add: rnd_pos_eq mult_right_mono)
    also have "\<dots> = 2 powi ilog2 y" by (simp add: n[symmetric])
    also have "\<dots> = of_int m * 2 powi ?qy" by (simp add: m[symmetric])
    also have "\<dots> \<le> rnd F y"
    proof -
      have "of_int m \<le> y / 2 powi ?qy" unfolding m[symmetric]
        using ilog2_le[OF y] by (simp add: divide_right_mono)
      then have "m \<le> rhe (y / 2 powi ?qy)" by (rule rhe_ge)
      then show ?thesis using y by (simp add: rnd_pos_eq mult_right_mono)
    qed
    finally show ?thesis .
  qed
qed

lemma rnd_mono:
  assumes p: "1 \<le> fp_prec F" and xy: "x \<le> y"
  shows "rnd F x \<le> rnd F y"
proof -
  consider "0 < x" | "x \<le> 0" "0 \<le> y" | "y < 0" using xy by linarith
  then show ?thesis
  proof cases
    case 1 then show ?thesis using rnd_pos_mono[OF p _ xy] by simp
  next
    case 2 then show ?thesis using rnd_nonneg[of "-x" F] rnd_nonneg[of y F] by simp
  next
    case 3 then show ?thesis using rnd_pos_mono[OF p, of "-y" "-x"] xy by simp
  qed
qed

lemma rnd_exact_pos:
  assumes p: "1 \<le> fp_prec F" and m: "0 < m" "m \<le> 2 ^ nat (fp_prec F)" and k: "fp_emin F \<le> k"
  shows "rnd F (of_int m * 2 powi k) = of_int m * 2 powi k"
proof -
  let ?x = "of_int m * 2 powi k :: rat"
  have x: "0 < ?x" using m by simp
  have "\<exists>n. ?x / 2 powi qexp F ?x = of_int n"
  proof (cases "m = 2 ^ nat (fp_prec F)")
    case True
    then have xe: "?x = 2 powi (fp_prec F + k)" using p by (simp add: power_int_add powi2_int)
    have "ilog2 ?x = fp_prec F + k" unfolding xe by (rule ilog2_unique) (auto simp: powi2_mono)
    then have "qexp F ?x \<le> fp_prec F + k" using p k by (simp add: qexp_def)
    then show ?thesis using powi2_div_int unfolding xe by blast
  next
    case False
    then have "of_int m < (of_int (2 ^ nat (fp_prec F)) :: rat)" using m by linarith
    then have "of_int m < (2::rat) powi fp_prec F" using p by (simp add: powi2_int)
    then have "?x < 2 powi (fp_prec F + k)" by (simp add: power_int_add)
    then have "(2::rat) powi ilog2 ?x < 2 powi (fp_prec F + k)" using ilog2_le[OF x] by linarith
    then have "ilog2 ?x < fp_prec F + k" by simp
    then have "qexp F ?x \<le> k" using k by (simp add: qexp_def)
    then obtain n where "(2::rat) powi k / 2 powi qexp F ?x = of_int n" using powi2_div_int by blast
    then have "?x / 2 powi qexp F ?x = of_int (m * n)"
      by (metis of_int_mult times_divide_eq_right)
    then show ?thesis by blast
  qed
  then obtain n where n: "?x / 2 powi qexp F ?x = of_int n" by blast
  have "rnd F ?x = of_int n * 2 powi qexp F ?x" using x by (simp only: rnd_pos_eq n rhe_of_int)
  also have "\<dots> = ?x" by (simp add: n[symmetric])
  finally show ?thesis .
qed

lemma rnd_exact:
  assumes "1 \<le> fp_prec F" and "\<bar>m\<bar> \<le> 2 ^ nat (fp_prec F)" and "fp_emin F \<le> k"
  shows "rnd F (of_int m * 2 powi k) = of_int m * 2 powi k"
proof -
  consider "m = 0" | "0 < m" | "m < 0" by linarith
  then show ?thesis
  proof cases
    case 3
    have "rnd F (of_int (- m) * 2 powi k) = of_int (- m) * 2 powi k"
      using 3 assms by (intro rnd_exact_pos) auto
    then show ?thesis using rnd_uminus[of F "of_int m * 2 powi k"] by simp
  qed (use assms in \<open>auto intro: rnd_exact_pos\<close>)
qed

lemma rnd_form_pos:
  assumes p: "1 \<le> fp_prec F" and x: "0 < x"
  shows "\<exists>m k. rnd F x = of_int m * 2 powi k \<and> \<bar>m\<bar> \<le> 2 ^ nat (fp_prec F) \<and> fp_emin F \<le> k"
proof (intro exI conjI)
  let ?q = "qexp F x" and ?m = "rhe (x / 2 powi qexp F x)"
  show "rnd F x = of_int ?m * 2 powi ?q" by (rule rnd_pos_eq[OF x])
  show "fp_emin F \<le> ?q" by (simp add: qexp_def)
  have "x < 2 powi (ilog2 x + 1)" by (rule ilog2_less[OF x])
  also have "\<dots> \<le> 2 powi (fp_prec F + ?q)" by (intro powi2_mono) (auto simp: qexp_def)
  finally have "x / 2 powi ?q \<le> 2 powi fp_prec F" by (simp add: power_int_add divide_le_eq)
  then have "x / 2 powi ?q \<le> of_int (2 ^ nat (fp_prec F))" using p by (simp add: powi2_int)
  then have "?m \<le> 2 ^ nat (fp_prec F)" by (rule rhe_le)
  moreover have "0 \<le> ?m" by (rule rhe_ge) (use x in simp)
  ultimately show "\<bar>?m\<bar> \<le> 2 ^ nat (fp_prec F)" by simp
qed

lemma rnd_idem:
  assumes p: "1 \<le> fp_prec F" shows "rnd F (rnd F x) = rnd F x"
proof -
  have pos: "rnd F (rnd F y) = rnd F y" if "0 < y" for y
    using rnd_form_pos[OF p that] rnd_exact[OF p] by metis
  consider "x = 0" | "0 < x" | "0 < - x" by linarith
  then show ?thesis
  proof cases
    case 3 then show ?thesis using pos[of "- x"] by simp
  qed (simp_all add: pos)
qed

lemma rnd_of_int:
  assumes "1 \<le> fp_prec F" and "\<bar>n\<bar> \<le> 2 ^ nat (fp_prec F)" and "fp_emin F \<le> 0"
  shows "rnd F (of_int n) = of_int n"
  using rnd_exact[OF assms] by simp

lemma fp_prec_simps [simp]: "1 \<le> fp_prec f32" "1 \<le> fp_prec f64"
  by (simp_all add: f32_def f64_def)

lemma rnd_f32_int: "\<bar>n\<bar> \<le> 2 ^ 24 \<Longrightarrow> rnd f32 (of_int n) = of_int n"
  by (rule rnd_of_int) (auto simp: f32_def)

lemma rnd_f64_int: "\<bar>n\<bar> \<le> 2 ^ 53 \<Longrightarrow> rnd f64 (of_int n) = of_int n"
  by (rule rnd_of_int) (auto simp: f64_def)

text \<open>The error of one rounding is at most half a unit in the last place.\<close>

lemma rnd_error:
  assumes "0 \<le> x" "x < 2 powi (e + 1)" "fp_emin F \<le> e - (fp_prec F - 1)"
  shows "\<bar>rnd F x - x\<bar> \<le> 2 powi (e - fp_prec F)"
proof (cases "x = 0")
  case False
  then have x: "0 < x" using assms(1) by simp
  let ?q = "qexp F x"
  have "(2::rat) powi ilog2 x < 2 powi (e + 1)" using ilog2_le[OF x] assms(2) by linarith
  then have q: "?q \<le> e - fp_prec F + 1" using assms(3) by (simp add: qexp_def)
  have "rnd F x - x = (of_int (rhe (x / 2 powi ?q)) - x / 2 powi ?q) * 2 powi ?q"
    using x by (simp add: rnd_pos_eq algebra_simps)
  then have "\<bar>rnd F x - x\<bar> \<le> 1/2 * 2 powi ?q"
    using rhe_error[of "x / 2 powi ?q"] by (simp add: abs_mult mult_right_mono)
  also have "\<dots> \<le> 1/2 * 2 powi (e - fp_prec F + 1)" using powi2_mono[OF q] by simp
  also have "\<dots> = 2 powi (e - fp_prec F)" by (simp add: powi2_Suc)
  finally show ?thesis .
qed (simp add: less_imp_le)

lemma rnd_f32_error7:
  assumes "0 \<le> x" "x < 128"
  shows "rnd f32 x \<le> x + 1 / 2 ^ 18" and "x - 1 / 2 ^ 18 \<le> rnd f32 x"
proof -
  have "\<bar>rnd f32 x - x\<bar> \<le> 1 / 2 ^ 18"
    using rnd_error[of x 6 f32] assms by (simp add: f32_def power_int_def field_simps)
  then show "rnd f32 x \<le> x + 1 / 2 ^ 18" "x - 1 / 2 ^ 18 \<le> rnd f32 x" by linarith+
qed

section \<open>Arithmetic, comparison and conversion\<close>

fun fl_add :: "fmt \<Rightarrow> cfloat \<Rightarrow> cfloat \<Rightarrow> cfloat" where
  "fl_add F (Fin a) (Fin b) = fl_round F (a + b)"
| "fl_add F (Fin a) (Inf s) = Inf s"
| "fl_add F (Inf s) (Fin b) = Inf s"
| "fl_add F (Inf s) (Inf t) = (if s = t then Inf s else NaN)"
| "fl_add F _ _ = NaN"

fun fl_neg :: "cfloat \<Rightarrow> cfloat" where
  "fl_neg (Fin a) = Fin (- a)"
| "fl_neg (Inf s) = Inf (\<not> s)"
| "fl_neg NaN = NaN"

definition fl_sub :: "fmt \<Rightarrow> cfloat \<Rightarrow> cfloat \<Rightarrow> cfloat" where
  "fl_sub F a b = fl_add F a (fl_neg b)"

fun fl_mul :: "fmt \<Rightarrow> cfloat \<Rightarrow> cfloat \<Rightarrow> cfloat" where
  "fl_mul F (Fin a) (Fin b) = fl_round F (a * b)"
| "fl_mul F (Fin a) (Inf s) = (if a = 0 then NaN else Inf (s \<noteq> (a < 0)))"
| "fl_mul F (Inf s) (Fin b) = (if b = 0 then NaN else Inf (s \<noteq> (b < 0)))"
| "fl_mul F (Inf s) (Inf t) = Inf (s \<noteq> t)"
| "fl_mul F _ _ = NaN"

fun fl_div :: "fmt \<Rightarrow> cfloat \<Rightarrow> cfloat \<Rightarrow> cfloat" where
  "fl_div F (Fin a) (Fin b) =
     (if b = 0 then (if a = 0 then NaN else Inf (a < 0)) else fl_round F (a / b))"
| "fl_div F (Fin a) (Inf s) = Fin 0"
| "fl_div F (Inf s) (Fin b) = Inf (s \<noteq> (b < 0))"
| "fl_div F _ _ = NaN"

fun fl_lt :: "cfloat \<Rightarrow> cfloat \<Rightarrow> bool" where
  "fl_lt (Fin a) (Fin b) \<longleftrightarrow> a < b"
| "fl_lt (Fin a) (Inf s) \<longleftrightarrow> \<not> s"
| "fl_lt (Inf s) (Fin b) \<longleftrightarrow> s"
| "fl_lt (Inf s) (Inf t) \<longleftrightarrow> s \<and> \<not> t"
| "fl_lt _ _ \<longleftrightarrow> False"

fun fl_eq :: "cfloat \<Rightarrow> cfloat \<Rightarrow> bool" where
  "fl_eq (Fin a) (Fin b) \<longleftrightarrow> a = b"
| "fl_eq (Inf s) (Inf t) \<longleftrightarrow> s = t"
| "fl_eq _ _ \<longleftrightarrow> False"

definition fl_le :: "cfloat \<Rightarrow> cfloat \<Rightarrow> bool" where
  "fl_le a b \<longleftrightarrow> fl_lt a b \<or> fl_eq a b"

text \<open>
  Conversions: an integer to a floating value (rounded), a value of one format to another
  (rounded; exact from \<open>float\<close> to \<open>double\<close>), and a floating value to an unsigned
  integer of \<open>w\<close> bits, which truncates towards zero and is undefined in C (\<open>None\<close>) when
  the truncated value does not fit or the operand is not finite.
\<close>

definition fl_of_int :: "fmt \<Rightarrow> int \<Rightarrow> cfloat" where
  "fl_of_int F n = fl_round F (of_int n)"

fun fl_conv :: "fmt \<Rightarrow> cfloat \<Rightarrow> cfloat" where
  "fl_conv F (Fin a) = fl_round F a"
| "fl_conv F (Inf s) = Inf s"
| "fl_conv F NaN = NaN"

definition rtrunc :: "rat \<Rightarrow> int" where
  "rtrunc r = (if 0 \<le> r then \<lfloor>r\<rfloor> else \<lceil>r\<rceil>)"

fun fl_to_uint :: "nat \<Rightarrow> cfloat \<Rightarrow> int option" where
  "fl_to_uint w (Fin a) = (if 0 \<le> rtrunc a \<and> rtrunc a < 2 ^ w then Some (rtrunc a) else None)"
| "fl_to_uint w _ = None"

text \<open>
  Where the guards of the code put the operand in range, the conversion is \<open>fl_trunc\<close>; the
  component that uses it proves so (\<open>fl_to_uint_trunc\<close>).
\<close>

fun fl_trunc :: "cfloat \<Rightarrow> int" where
  "fl_trunc (Fin a) = rtrunc a"
| "fl_trunc _ = 0"

text \<open>The values a variable of a format can hold.\<close>

fun fl_ok :: "fmt \<Rightarrow> cfloat \<Rightarrow> bool" where
  "fl_ok F (Fin a) \<longleftrightarrow> rnd F a = a \<and> \<bar>a\<bar> < 2 powi fp_emax F"
| "fl_ok F _ \<longleftrightarrow> True"

section \<open>Facts about the operations\<close>

lemma fl_round_ok [simp]: "1 \<le> fp_prec F \<Longrightarrow> fl_ok F (fl_round F x)"
  by (auto simp: fl_round_def Let_def rnd_idem)

lemma fl_round_Fin:
  "rnd F x = y \<Longrightarrow> \<bar>y\<bar> < 2 powi fp_emax F \<Longrightarrow> fl_round F x = Fin y"
  by (simp add: fl_round_def)

lemma fl_ok_round: "fl_ok F (Fin a) \<Longrightarrow> fl_round F a = Fin a"
  by (simp add: fl_round_def)

lemma fl_of_int_f32: "\<bar>n\<bar> \<le> 2 ^ 24 \<Longrightarrow> fl_of_int f32 n = Fin (of_int n)"
  unfolding fl_of_int_def
proof (rule fl_round_Fin)
  assume n: "\<bar>n\<bar> \<le> 2 ^ 24"
  then show "rnd f32 (of_int n) = of_int n" by (rule rnd_f32_int)
  have "\<bar>of_int n\<bar> \<le> (of_int (2 ^ 24) :: rat)" using n by linarith
  then show "\<bar>of_int n :: rat\<bar> < 2 powi fp_emax f32" by (simp add: f32_def)
qed

lemma fl_round_f32_small:
  assumes "0 \<le> x" "x \<le> 2 ^ 24" shows "fl_round f32 x = Fin (rnd f32 x)"
proof (rule fl_round_Fin)
  have "rnd f32 x \<le> rnd f32 (of_int (2 ^ 24))" using assms by (intro rnd_mono) auto
  then have "rnd f32 x \<le> 2 ^ 24" using rnd_f32_int[of "2 ^ 24"] by simp
  moreover have "0 \<le> rnd f32 x" using assms(1) by (rule rnd_nonneg)
  ultimately show "\<bar>rnd f32 x\<bar> < 2 powi fp_emax f32" by (simp add: f32_def power_int_def)
qed simp

lemma fl_le_simps [simp]:
  "fl_le (Fin a) (Fin b) \<longleftrightarrow> a \<le> b"
  "fl_le (Fin a) (Inf s) \<longleftrightarrow> \<not> s"
  "fl_le (Inf s) (Fin a) \<longleftrightarrow> s"
  "fl_le (Inf s) (Inf t) \<longleftrightarrow> s \<or> \<not> t"
  "\<not> fl_le x NaN" "\<not> fl_le NaN x"
  by (cases x; auto simp: fl_le_def)+

lemma fl_le_refl [simp]: "fl_le x x \<longleftrightarrow> x \<noteq> NaN"
  by (cases x) auto

lemma fl_le_trans: "fl_le a b \<Longrightarrow> fl_le b c \<Longrightarrow> fl_le a c"
  by (cases a; cases b; cases c) auto

lemma rtrunc_of_int [simp]: "rtrunc (of_int n) = n"
  by (simp add: rtrunc_def)

lemma rtrunc_mono: "x \<le> y \<Longrightarrow> rtrunc x \<le> rtrunc y"
proof -
  assume xy: "x \<le> y"
  have "\<lceil>x\<rceil> \<le> \<lfloor>y\<rfloor>" if "x \<le> 0" "0 \<le> y"
  proof -
    have "\<lceil>x\<rceil> \<le> 0" "0 \<le> \<lfloor>y\<rfloor>" using that by (simp_all add: ceiling_le_iff le_floor_iff)
    then show ?thesis by (rule order_trans)
  qed
  then show ?thesis using xy by (auto simp: rtrunc_def floor_mono ceiling_mono)
qed

lemma rtrunc_bounds: "of_int a \<le> x \<Longrightarrow> x < of_int b \<Longrightarrow> 0 \<le> a \<Longrightarrow> a \<le> rtrunc x \<and> rtrunc x < b"
  by (auto simp: rtrunc_def le_floor_iff floor_less_iff intro: order_trans[of 0 "of_int a"])

lemma fl_to_uint_trunc:
  "0 \<le> r \<Longrightarrow> r < 2 ^ w \<Longrightarrow> fl_to_uint w (Fin r) = Some (fl_trunc (Fin r))"
  using rtrunc_bounds[of 0 r "2 ^ w"] by simp

lemma fl_trunc_mono: "fl_le (Fin 0) x \<Longrightarrow> fl_le x y \<Longrightarrow> y \<noteq> Inf False \<Longrightarrow> fl_trunc x \<le> fl_trunc y"
  by (cases x; cases y) (auto simp: rtrunc_mono)

lemma fl_round_mono:
  "1 \<le> fp_prec F \<Longrightarrow> x \<le> y \<Longrightarrow> fl_le (fl_round F x) (fl_round F y)"
  using rnd_mono[of F x y] by (auto simp: fl_round_def Let_def)

lemma fl_round_not_NaN [simp]: "fl_round F x \<noteq> NaN" "fl_le (fl_round F x) (Inf False)"
  "fl_le (Inf True) (fl_round F x)"
  by (auto simp: fl_round_def Let_def)

lemma fl_add_mono:
  "1 \<le> fp_prec F \<Longrightarrow> fl_le x y \<Longrightarrow> fl_le (fl_add F x (Fin c)) (fl_add F y (Fin c))"
  by (cases x; cases y) (auto intro: fl_round_mono)

lemma fl_div_mono:
  "1 \<le> fp_prec F \<Longrightarrow> fl_le x y \<Longrightarrow> 0 < c \<Longrightarrow> fl_le (fl_div F x (Fin c)) (fl_div F y (Fin c))"
  by (cases x; cases y) (auto simp: fl_round_mono divide_right_mono)

lemma fl_mul_mono:
  "1 \<le> fp_prec F \<Longrightarrow> fl_le x y \<Longrightarrow> 0 < c \<Longrightarrow> fl_le (fl_mul F x (Fin c)) (fl_mul F y (Fin c))"
  by (cases x; cases y) (auto simp: fl_round_mono mult_right_mono)

lemma fl_between_Fin:
  assumes "fl_le (Fin a) x" "fl_le x (Fin b)"
  obtains r where "x = Fin r" "a \<le> r" "r \<le> b"
  using assms by (cases x) auto

lemma fl_between_Fin_less:
  assumes "fl_le (Fin a) x" "fl_lt x (Fin b)"
  obtains r where "x = Fin r" "a \<le> r" "r < b"
  using assms by (cases x) auto

lemma fl_trunc_range:
  assumes "fl_le (Fin (of_int a)) x" "fl_lt x (Fin (of_int b))" "0 \<le> a"
  shows "a \<le> fl_trunc x" and "fl_trunc x < b"
  using assms by (auto elim!: fl_between_Fin_less simp: rtrunc_bounds)

text \<open>Adding a value that is not negative never lowers an accumulator, whatever the rounding.\<close>

lemma fl_add_increases:
  assumes "1 \<le> fp_prec F" and "fl_ok F acc" and "acc \<noteq> NaN" and "acc \<noteq> Inf True"
    and "fl_le (Fin 0) b"
  shows "fl_le acc (fl_add F acc b)"
proof (cases acc)
  case (Fin a)
  show ?thesis
  proof (cases b)
    case (Fin c)
    then have "fl_le (fl_round F a) (fl_round F (a + c))"
      using assms(1,5) by (intro fl_round_mono) auto
    then show ?thesis using fl_ok_round[of F a] assms(2) Fin \<open>acc = Fin a\<close> by simp
  qed (use assms Fin in auto)
next
  case (Inf s)
  then show ?thesis using assms by (cases b) auto
qed (use assms in simp)

lemma fl_round_nonneg: "0 \<le> x \<Longrightarrow> fl_le (Fin 0) (fl_round F x)"
  using rnd_nonneg[of x F] by (auto simp: fl_round_def Let_def)

lemma fl_mul_nonneg:
  assumes "fl_le (Fin 0) a" "fl_le (Fin 0) b" "fl_mul F a b \<noteq> NaN"
  shows "fl_le (Fin 0) (fl_mul F a b)"
  using assms by (cases a; cases b) (auto intro: fl_round_nonneg split: if_splits)

lemma fl_div_nonneg:
  assumes "fl_le (Fin 0) a" "0 < b"
  shows "fl_le (Fin 0) (fl_div F a (Fin b))"
  using assms by (cases a) (auto intro: fl_round_nonneg)

end
