(* ===== verification/EVSE_Types.thy ===== *)
theory EVSE_Types
  imports C_Float
begin

text \<open>
  The enumerations and structures of \<open>source/EVSE_ChargingProtocol.h\<close>, the OCPP events of
  \<open>source/EVSE_Ocpp.h\<close>, and the calls a component makes on the hardware abstraction
  \<open>charging_hal_functions_t\<close>. A call is a value of \<open>hal_call\<close>; a component that calls the
  hardware appends the call to its log, and \<open>Low_Level\<close> runs a log on the drivers.
\<close>

datatype ControlPilotState_t =
    ControlPilot_StateA | ControlPilot_StateB | ControlPilot_StateC | ControlPilot_StateD
  | ControlPilot_StateE | ControlPilot_StateF | ControlPilot_StateUnknown

datatype ProximityPilotState_t =
    ProximityPilot_Unplugged | ProximityPilot_PluggedNotLatched | ProximityPilot_PluggedLatched

datatype charging_directions_t = EVSE_G2V | EVSE_V2G | EVSE_NoChargingDirection

datatype charging_states_t =
    EVSE_ChargingStarted | EVSE_ChargingNone | EVSE_ChargingResumed | EVSE_ChargingPaused

datatype evse_charging_protocol_t =
    EVSE_BasicCharging_J1772 | EVSE_HighLevelCharging_ISO15118
  | EVSE_HighLevelCharging_ISO15118_20 | EVSE_LastChargingProtocol

datatype ocpp_events_t =
    EV_CONNECTED_EVENT | EV_AUTH_NEEDED_EVENT | EV_AUTHORIZED_EVENT
  | EVSE_CHARGING_STARTED_EVENT | EVSE_CHARGING_STOPPED_EVENT | EVSE_TELEMETRY_READY_EVENT
  | EV_DISCONNECTED_EVENT | EVSE_CHARGING_START_REMOTE_EVENT | EVSE_CHARGING_STOP_REMOTE_EVENT
  | EVSE_NETWORK_DOWN_EVENT | EVSE_RECONNECT_EVENT

record vehicle_data_t =
  vehicleID :: string
  protocol :: string
  batteryLevel :: u32
  chargedBatteryUnits :: u32
  batteryCapacity :: u32
  elapsedTime :: u32
  requestedEnergy :: u32
  deliveredEnergy :: u32
  deliveredEnergyHLC :: u32
  energyDeliveryStatus :: u8
  timeToCharge :: u32
  chargeCurrent :: cfloat
  vehicleAuth :: bool
  charging_protocol :: evse_charging_protocol_t

text \<open>
  The table of function pointers. The table of this firmware gives every entry, but the code
  checks \<open>ventilation_state\<close> for null, so whether it is given is part of the model.
\<close>

record charging_hal_functions_t =
  has_ventilation_state :: bool

datatype hal_call =
    Set_pwm_state bool
  | Set_pwm_duty cfloat
  | Set_contactor_state bool
  | Ventilation_state bool
  | OCPP_SetEvent ocpp_events_t

text \<open>
  The contactor after a log of calls, from the argument of the last call that sets it
  (\<open>True\<close> is open, as in the code).
\<close>

fun contactor_open_after :: "bool \<Rightarrow> hal_call list \<Rightarrow> bool" where
  "contactor_open_after c [] = c"
| "contactor_open_after c (Set_contactor_state b # cs) = contactor_open_after b cs"
| "contactor_open_after c (_ # cs) = contactor_open_after c cs"

fun pwm_duty_after :: "cfloat \<Rightarrow> hal_call list \<Rightarrow> cfloat" where
  "pwm_duty_after d [] = d"
| "pwm_duty_after d (Set_pwm_duty x # cs) = pwm_duty_after x cs"
| "pwm_duty_after d (_ # cs) = pwm_duty_after d cs"

lemma contactor_open_after_append [simp]:
  "contactor_open_after c (xs @ ys) = contactor_open_after (contactor_open_after c xs) ys"
  by (induction c xs rule: contactor_open_after.induct) simp_all

lemma pwm_duty_after_append [simp]:
  "pwm_duty_after d (xs @ ys) = pwm_duty_after (pwm_duty_after d xs) ys"
  by (induction d xs rule: pwm_duty_after.induct) simp_all

end
