(* ===== verification/Metrology.thy ===== *)
theory Metrology
  imports EVSE_Types
begin

text \<open>
  The metrology module (\<open>source/EVSE_Metrology.c\<close>): the double buffer the interrupt fills with
  samples, the queue that hands a full buffer to the metrology task, the processing of a buffer
  and the readings of the other components.

  The metering library is a binary the sources only call. Its results for one buffer are the
  record \<open>meter_results\<close>; what the module hands to it is recorded in the log \<open>met_calls\<close>.
\<close>

section \<open>State\<close>

record phase_data =
  ph1 :: cfloat
  ph2 :: cfloat
  ph3 :: cfloat

record tENERGY_REG =
  wh_t :: u32
  wh_i :: u32
  wh_e :: u32
  varh_t :: u32
  varh_i :: u32
  varh_e :: u32

record metrology_data_t =
  m_urms :: phase_data
  m_irms :: phase_data
  m_p :: phase_data
  m_q :: phase_data
  m_s :: phase_data
  m_pf :: phase_data
  m_thdu :: phase_data
  m_thdi :: phase_data
  m_frequency :: u32
  energy_cnt :: tENERGY_REG

type_synonym frac24 = "32 word"

text \<open>The samples of the six channels, as one call adds them and as one buffer holds them.\<close>

record sample =
  s_u1 :: frac24
  s_u2 :: frac24
  s_u3 :: frac24
  s_i1 :: frac24
  s_i2 :: frac24
  s_i3 :: frac24

datatype metrology_events = Metrology_DataRCV | Metrology_TaskDelete

datatype met_call =
    Meter_CalcMain "frac24 list list" "u32 option"
  | Meter_OCPP_SetEvent ocpp_events_t

abbreviation (input) FFT_SAMPLES :: u32 where "FFT_SAMPLES \<equiv> 64"
abbreviation (input) INP_SAMPLES :: u32 where "INP_SAMPLES \<equiv> 64"
abbreviation (input) EN_RES10 :: u32 where "EN_RES10 \<equiv> 10"
abbreviation (input) NUM_MET_BUFFERS :: nat where "NUM_MET_BUFFERS \<equiv> 2"
abbreviation (input) METROLOGY_QUEUE_LENGTH :: nat where "METROLOGY_QUEUE_LENGTH \<equiv> 3"

record metrology =
  buffers_not_process_in_time :: u32
  buffer_inUse :: "u8 list"
  adc_samples :: "u32 list"
  current_sample :: u32
  wr_buffer :: u8
  rd_buffer :: u8
  u1_re :: "frac24 list list"
  i1_re :: "frac24 list list"
  u2_re :: "frac24 list list"
  i2_re :: "frac24 list list"
  u3_re :: "frac24 list list"
  i3_re :: "frac24 list list"
  read_period :: u32
  metrology_data :: metrology_data_t
  met_queue :: "(metrology_events \<times> u32) list"
  s_task_deleted :: bool
  met_is_init :: bool
  met_calls :: "met_call list"

definition phase_zero :: phase_data where
  "phase_zero = \<lparr>ph1 = Fin 0, ph2 = Fin 0, ph3 = Fin 0\<rparr>"

text \<open>The static variables before any call.\<close>

definition metrology_boot :: metrology where
  "metrology_boot = (let a = replicate NUM_MET_BUFFERS (replicate 64 0) in \<lparr>
     buffers_not_process_in_time = 0, buffer_inUse = [0, 0], adc_samples = [0, 0],
     current_sample = 0, wr_buffer = 0, rd_buffer = 0,
     u1_re = a, i1_re = a, u2_re = a, i2_re = a, u3_re = a, i3_re = a, read_period = 0,
     metrology_data = \<lparr>m_urms = phase_zero, m_irms = phase_zero, m_p = phase_zero, m_q = phase_zero,
       m_s = phase_zero, m_pf = phase_zero, m_thdu = phase_zero, m_thdi = phase_zero, m_frequency = 0,
       energy_cnt = \<lparr>wh_t = 0, wh_i = 0, wh_e = 0, varh_t = 0, varh_i = 0, varh_e = 0\<rparr>\<rparr>,
     met_queue = [], s_task_deleted = False, met_is_init = False, met_calls = []\<rparr>)"

section \<open>The double buffer\<close>

definition set2 :: "'a list list \<Rightarrow> u8 \<Rightarrow> u32 \<Rightarrow> 'a \<Rightarrow> 'a list list" where
  "set2 a i j v = a[unat i := (a ! unat i)[unat j := v]]"

definition Metering_CleanEverything :: "metrology \<Rightarrow> metrology" where
  "Metering_CleanEverything m = m\<lparr>wr_buffer := 0, rd_buffer := 0, adc_samples := [0, 0],
     buffer_inUse := [0, 0], current_sample := 0\<rparr>"

definition Metering_SampleReset :: "metrology \<Rightarrow> metrology" where
  "Metering_SampleReset m = m\<lparr>current_sample := 0, adc_samples := (adc_samples m)[unat (wr_buffer m) := 0]\<rparr>"

definition Metering_SampleAdd :: "sample \<Rightarrow> metrology \<Rightarrow> u32 \<times> metrology" where
  "Metering_SampleAdd x m =
     (let w = wr_buffer m; c = current_sample m;
          m = (if c < INP_SAMPLES \<and> buffer_inUse m ! unat w = 0
               then m\<lparr>u1_re := set2 (u1_re m) w c (s_u1 x), u2_re := set2 (u2_re m) w c (s_u2 x),
                      u3_re := set2 (u3_re m) w c (s_u3 x), i1_re := set2 (i1_re m) w c (s_i1 x),
                      i2_re := set2 (i2_re m) w c (s_i2 x), i3_re := set2 (i3_re m) w c (s_i3 x),
                      current_sample := c + 1\<rparr>
               else if buffer_inUse m ! unat w \<noteq> 0
               then m\<lparr>buffers_not_process_in_time := buffers_not_process_in_time m + 1\<rparr>
               else m)
      in (current_sample m, m))"

definition Metering_SampleFinish :: "metrology \<Rightarrow> metrology" where
  "Metering_SampleFinish m =
     (let w = wr_buffer m in
      m\<lparr>adc_samples := (adc_samples m)[unat w := current_sample m],
        buffer_inUse := (buffer_inUse m)[unat w := 1],
        current_sample := 0, rd_buffer := w, wr_buffer := 1 - w\<rparr>)"

definition EVSE_Metrology_SetEvent :: "metrology_events \<Rightarrow> u32 \<Rightarrow> metrology \<Rightarrow> metrology" where
  "EVSE_Metrology_SetEvent ev data m =
     (if \<not> met_is_init m then m
      else if length (met_queue m) < METROLOGY_QUEUE_LENGTH then m\<lparr>met_queue := met_queue m @ [(ev, data)]\<rparr>
      else m)"

definition Metering_StartProcessing :: "metrology \<Rightarrow> metrology" where
  "Metering_StartProcessing m = EVSE_Metrology_SetEvent Metrology_DataRCV (ucast (rd_buffer m)) m"

section \<open>Processing\<close>

text \<open>What the library writes for one buffer: energies, and the averaged values of the phases.\<close>

record avg_values =
  a_urms :: phase_data
  a_irms :: phase_data
  a_p :: phase_data
  a_q :: phase_data
  a_s :: phase_data
  a_pf :: phase_data
  a_thdu :: phase_data
  a_thdi :: phase_data

record meter_results =
  lib_wh_i :: u32
  lib_wh_e :: u32
  lib_varh_i :: u32
  lib_varh_e :: u32
  lib_avg :: avg_values

definition metrology_post_process :: "tENERGY_REG \<Rightarrow> metrology \<Rightarrow> tENERGY_REG \<times> metrology" where
  "metrology_post_process ramcnt m =
     (ramcnt\<lparr>wh_t := wh_t ramcnt + 6, wh_i := wh_i ramcnt + 6, varh_t := varh_t ramcnt + 6,
             varh_i := varh_i ramcnt + 6\<rparr>,
      m\<lparr>metrology_data := (metrology_data m)\<lparr>m_frequency := 50000\<rparr>\<rparr>)"

definition store_energy :: "meter_results \<Rightarrow> metrology \<Rightarrow> metrology" where
  "store_energy r m =
     m\<lparr>metrology_data := (metrology_data m)\<lparr>energy_cnt := (energy_cnt (metrology_data m))\<lparr>
        wh_i := lib_wh_i r div EN_RES10, wh_e := lib_wh_e r div EN_RES10,
        varh_i := lib_varh_i r div EN_RES10, varh_e := lib_varh_e r div EN_RES10\<rparr>\<rparr>\<rparr>"

definition store_averages :: "meter_results \<Rightarrow> metrology \<Rightarrow> metrology" where
  "store_averages r m =
     (let m = m\<lparr>read_period := read_period m + 1\<rparr>
      in if read_period m = 50
         then m\<lparr>metrology_data := (metrology_data m)\<lparr>
                  m_urms := a_urms (lib_avg r), m_irms := a_irms (lib_avg r), m_p := a_p (lib_avg r),
                  m_q := a_q (lib_avg r), m_s := a_s (lib_avg r), m_pf := a_pf (lib_avg r),
                  m_thdu := a_thdu (lib_avg r), m_thdi := a_thdi (lib_avg r)\<rparr>,
                met_calls := met_calls m @ [Meter_OCPP_SetEvent EVSE_TELEMETRY_READY_EVENT],
                read_period := 0\<rparr>
         else m)"

definition metrology_process :: "meter_results \<Rightarrow> u8 \<Rightarrow> metrology \<Rightarrow> metrology" where
  "metrology_process r read_index m =
     (let k = unat read_index in
      if buffer_inUse m ! k \<noteq> 1 then m
      else (let n = adc_samples m ! k;
                m = m\<lparr>met_calls := met_calls m @
                   [Meter_CalcMain [u1_re m ! k, i1_re m ! k, u2_re m ! k, i2_re m ! k, u3_re m ! k, i3_re m ! k]
                                   (if FFT_SAMPLES < n then Some n else None)],
                   buffer_inUse := (buffer_inUse m)[k := 0]\<rparr>
            in store_averages r (store_energy r m)))"

definition metrology_init :: "metrology \<Rightarrow> metrology" where
  "metrology_init m = Metering_CleanEverything (m\<lparr>metrology_data := (metrology_data m)\<lparr>m_frequency := 500\<rparr>\<rparr>)"

text \<open>One turn of the task's loop: take a message, process a buffer.\<close>

definition metrology_task_turn :: "meter_results \<Rightarrow> metrology \<Rightarrow> metrology" where
  "metrology_task_turn r m =
     (if s_task_deleted m then m
      else case met_queue m of [] \<Rightarrow> m
      | (ev, data) # q \<Rightarrow>
          (let m = m\<lparr>met_queue := q\<rparr>
           in if ev = Metrology_DataRCV then metrology_process r (ucast data) m else m))"

text \<open>The initialization; the arguments are the statuses of the two creations. \<open>None\<close> is the endless loop.\<close>

definition EVSE_MetrologyInit :: "bool \<Rightarrow> bool \<Rightarrow> metrology \<Rightarrow> (bool \<times> metrology) option" where
  "EVSE_MetrologyInit queue_ok task_ok m =
     (if met_is_init m then Some (True, m)
      else if \<not> queue_ok then None
      else if \<not> task_ok then None
      else Some (True, m\<lparr>met_queue := [], met_is_init := True\<rparr>))"

definition EVSE_MetrologyDeinit :: "metrology \<Rightarrow> metrology" where
  "EVSE_MetrologyDeinit m =
     (if \<not> met_is_init m then m
      else (let m = m\<lparr>s_task_deleted := True, met_is_init := False\<rparr>
            in EVSE_Metrology_SetEvent Metrology_TaskDelete 0 m))"

definition Metrology_ReadCurrent :: "metrology \<Rightarrow> phase_data" where
  "Metrology_ReadCurrent m = m_irms (metrology_data m)"

definition Metrology_ReadVoltage :: "metrology \<Rightarrow> phase_data" where
  "Metrology_ReadVoltage m = m_urms (metrology_data m)"

definition Metrology_ReadActivePower :: "metrology \<Rightarrow> phase_data" where
  "Metrology_ReadActivePower m = m_p (metrology_data m)"

definition Metrology_ReadEnergy :: "metrology \<Rightarrow> tENERGY_REG" where
  "Metrology_ReadEnergy m = energy_cnt (metrology_data m)"

end
