(* ===== verification/Ocpp_Meter.thy ===== *)
theory Ocpp_Meter
  imports EVSE_Types Metrology
begin

text \<open>
  The meter values of the OCPP task: the types of \<open>ocpp/include/ocpp/common/types.hpp\<close> and
  \<open>ocpp/include/ocpp/v2/ocpp_types.hpp\<close> the code fills, the conversions of
  \<open>source/conversions.cpp\<close>, and \<open>EVSE_VehicleData_to_OcppData\<close> of \<open>source/EVSE_Ocpp.cpp\<close>. The build
  has \<open>EVSE_OCPP_SIGNED_METER_VALUES\<close> 0, so the branches of signed phases are compiled out. Of the
  enumerations of the library the members the code names are constructors, the others are numbered.
  The member \<open>customData\<close>, which the code leaves empty everywhere, is left out.
\<close>

section \<open>Types of the library\<close>

text \<open>An instant: what \<open>ocpp::DateTime\<close> holds, ordered as its comparisons order it.\<close>

type_synonym DateTime = int

datatype ReadingContextEnum =
    Interruption_Begin | Interruption_End | ReadingContext_Other | Sample_Clock | Sample_Periodic
  | Transaction_Begin | Transaction_End | ReadingContext_Trigger

datatype MeasurandEnum =
    Current_Export | Current_Export_Offered | Current_Export_Minimum | Current_Import
  | Current_Import_Offered | Current_Import_Minimum | Current_Offered | Display_PresentSOC
  | Display_MinimumSOC | Display_TargetSOC | Display_MaximumSOC | Display_RemainingTimeToMinimumSOC
  | Display_RemainingTimeToTargetSOC | Display_RemainingTimeToMaximumSOC | Display_ChargingComplete
  | Display_BatteryEnergyCapacity | Display_InletHot | Energy_Active_Export_Interval
  | Energy_Active_Export_Register | Energy_Active_Import_Interval | Energy_Active_Import_Register
  | Energy_Active_Import_CableLoss | Energy_Active_Import_LocalGeneration_Register | Energy_Active_Net
  | Energy_Active_Setpoint_Interval | Energy_Apparent_Export | Energy_Apparent_Import | Energy_Apparent_Net
  | Energy_Reactive_Export_Interval | Energy_Reactive_Export_Register | Energy_Reactive_Import_Interval
  | Energy_Reactive_Import_Register | Energy_Reactive_Net | EnergyRequest_Target | EnergyRequest_Minimum
  | EnergyRequest_Maximum | EnergyRequest_Minimum_V2X | EnergyRequest_Maximum_V2X | EnergyRequest_Bulk
  | Frequency_Measurand | Power_Active_Export | Power_Active_Import | Power_Active_Setpoint
  | Power_Active_Residual | Power_Export_Minimum | Power_Export_Offered | Power_Factor | Power_Import_Offered
  | Power_Import_Minimum | Power_Offered | Power_Reactive_Export | Power_Reactive_Import | SoC
  | Voltage_Measurand | Voltage_Minimum | Voltage_Maximum

datatype PhaseEnum =
    Phase_L1 | Phase_L2 | Phase_L3 | Phase_N | Phase_L1_N | Phase_L2_N | Phase_L3_N
  | Phase_L1_L2 | Phase_L2_L3 | Phase_L3_L1

datatype LocationEnum =
    Location_Body | Location_Cable | Location_EV | Location_Inlet | Location_Outlet | Location_Upstream

record UnitOfMeasure =
  uom_unit :: "string option"
  uom_multiplier :: "int option"

record SignedMeterValue =
  signedMeterData :: string
  encodingMethod :: string
  signingMethod :: "string option"
  publicKey :: "string option"

record SampledValue =
  sv_value :: cfloat
  sv_measurand :: "MeasurandEnum option"
  sv_context :: "ReadingContextEnum option"
  sv_phase :: "PhaseEnum option"
  sv_location :: "LocationEnum option"
  sv_signedMeterValue :: "SignedMeterValue option"
  sv_unitOfMeasure :: "UnitOfMeasure option"

record MeterValue =
  mv_sampledValue :: "SampledValue list"
  mv_timestamp :: DateTime

record Energy =
  energy_total :: cfloat
  energy_L1 :: "cfloat option"
  energy_L2 :: "cfloat option"
  energy_L3 :: "cfloat option"

record Power =
  power_total :: cfloat
  power_L1 :: "cfloat option"
  power_L2 :: "cfloat option"
  power_L3 :: "cfloat option"

record ReactivePower =
  var_total :: cfloat
  VARphA :: "cfloat option"
  VARphB :: "cfloat option"
  VARphC :: "cfloat option"

record Current =
  current_DC :: "cfloat option"
  current_L1 :: "cfloat option"
  current_L2 :: "cfloat option"
  current_L3 :: "cfloat option"
  current_N :: "cfloat option"

record Voltage =
  voltage_DC :: "cfloat option"
  voltage_L1 :: "cfloat option"
  voltage_L2 :: "cfloat option"
  voltage_L3 :: "cfloat option"

record Frequency =
  frequency_L1 :: cfloat
  frequency_L2 :: "cfloat option"
  frequency_L3 :: "cfloat option"

record Powermeter =
  pm_timestamp :: string
  energy_Wh_import :: Energy
  meter_id :: "string option"
  phase_seq_error :: "bool option"
  energy_Wh_export :: "Energy option"
  power_W :: "Power option"
  voltage_V :: "Voltage option"
  VAR :: "ReactivePower option"
  current_A :: "Current option"
  frequency_Hz :: "Frequency option"

section \<open>Conversions\<close>

definition to_ocpp_sampled_value ::
    "ReadingContextEnum \<Rightarrow> MeasurandEnum \<Rightarrow> string \<Rightarrow> PhaseEnum option \<Rightarrow> LocationEnum \<Rightarrow> SampledValue" where
  "to_ocpp_sampled_value reading_context measurand unit phase location =
     \<lparr>sv_value = Fin 0, sv_measurand = Some measurand, sv_context = Some reading_context, sv_phase = phase,
      sv_location = Some location, sv_signedMeterValue = None,
      sv_unitOfMeasure = Some \<lparr>uom_unit = Some unit, uom_multiplier = None\<rparr>\<rparr>"

definition to_ocpp_signed_meter_value :: "SignedMeterValue \<Rightarrow> SignedMeterValue" where
  "to_ocpp_signed_meter_value signed_meter_value = signed_meter_value"

text \<open>The string is not looked at: the result is the present time, the first argument.\<close>

definition to_ocpp_datetime_or_now :: "DateTime \<Rightarrow> string \<Rightarrow> DateTime" where
  "to_ocpp_datetime_or_now now_time datetime_string = now_time"

text \<open>
  The pattern the function repeats: a sample is appended when the optional reading is there. The
  location is the default argument of \<open>conversions.hpp\<close>.
\<close>

definition push_sample ::
    "ReadingContextEnum \<Rightarrow> MeasurandEnum \<Rightarrow> string \<Rightarrow> PhaseEnum option \<Rightarrow> cfloat option \<Rightarrow> SampledValue list \<Rightarrow> SampledValue list" where
  "push_sample reading_context measurand unit phase v svs =
     (case v of None \<Rightarrow> svs
      | Some x \<Rightarrow> svs @ [(to_ocpp_sampled_value reading_context measurand unit phase Location_Outlet)\<lparr>sv_value := x\<rparr>])"

definition to_ocpp_meter_value ::
    "DateTime \<Rightarrow> Powermeter \<Rightarrow> ReadingContextEnum \<Rightarrow> SignedMeterValue option \<Rightarrow> MeterValue" where
  "to_ocpp_meter_value now_time power_meter reading_context signed_meter_value =
     (let sampled_value = (to_ocpp_sampled_value reading_context Energy_Active_Import_Register ''Wh'' None Location_Outlet)
            \<lparr>sv_value := energy_total (energy_Wh_import power_meter)\<rparr>;
          sampled_value = (case signed_meter_value of None \<Rightarrow> sampled_value
            | Some v \<Rightarrow> sampled_value\<lparr>sv_signedMeterValue := Some (to_ocpp_signed_meter_value v)\<rparr>);
          svs = [sampled_value];
          imp = energy_Wh_import power_meter;
          svs = push_sample reading_context Energy_Active_Import_Register ''Wh'' (Some Phase_L1) (energy_L1 imp) svs;
          svs = push_sample reading_context Energy_Active_Import_Register ''Wh'' (Some Phase_L2) (energy_L2 imp) svs;
          svs = push_sample reading_context Energy_Active_Import_Register ''Wh'' (Some Phase_L3) (energy_L3 imp) svs;
          svs = (case energy_Wh_export power_meter of None \<Rightarrow> svs
            | Some e \<Rightarrow>
               (let svs = push_sample reading_context Energy_Active_Export_Register ''Wh'' None (Some (energy_total e)) svs;
                    svs = push_sample reading_context Energy_Active_Export_Register ''Wh'' (Some Phase_L1) (energy_L1 e) svs;
                    svs = push_sample reading_context Energy_Active_Export_Register ''Wh'' (Some Phase_L2) (energy_L2 e) svs
                in push_sample reading_context Energy_Active_Export_Register ''Wh'' (Some Phase_L3) (energy_L3 e) svs));
          svs = (case power_W power_meter of None \<Rightarrow> svs
            | Some p \<Rightarrow>
               (let svs = push_sample reading_context Power_Active_Import ''W'' None (Some (power_total p)) svs;
                    svs = push_sample reading_context Power_Active_Import ''W'' (Some Phase_L1) (power_L1 p) svs;
                    svs = push_sample reading_context Power_Active_Import ''W'' (Some Phase_L2) (power_L2 p) svs
                in push_sample reading_context Power_Active_Import ''W'' (Some Phase_L3) (power_L3 p) svs));
          svs = (case VAR power_meter of None \<Rightarrow> svs
            | Some q \<Rightarrow>
               (let svs = push_sample reading_context Power_Reactive_Import ''var'' None (Some (var_total q)) svs;
                    svs = push_sample reading_context Power_Reactive_Import ''var'' (Some Phase_L1) (VARphA q) svs;
                    svs = push_sample reading_context Power_Reactive_Import ''var'' (Some Phase_L2) (VARphB q) svs
                in push_sample reading_context Power_Reactive_Import ''var'' (Some Phase_L3) (VARphC q) svs));
          svs = (case current_A power_meter of None \<Rightarrow> svs
            | Some c \<Rightarrow>
               (let svs = push_sample reading_context Current_Import ''A'' (Some Phase_L1) (current_L1 c) svs;
                    svs = push_sample reading_context Current_Import ''A'' (Some Phase_L2) (current_L2 c) svs;
                    svs = push_sample reading_context Current_Import ''A'' (Some Phase_L3) (current_L3 c) svs;
                    svs = push_sample reading_context Current_Import ''A'' None (current_DC c) svs
                in push_sample reading_context Current_Import ''A'' (Some Phase_N) (current_N c) svs));
          svs = (case voltage_V power_meter of None \<Rightarrow> svs
            | Some v \<Rightarrow>
               (let svs = push_sample reading_context Voltage_Measurand ''V'' (Some Phase_L1_N) (voltage_L1 v) svs;
                    svs = push_sample reading_context Voltage_Measurand ''V'' (Some Phase_L2_N) (voltage_L2 v) svs;
                    svs = push_sample reading_context Voltage_Measurand ''V'' (Some Phase_L3_N) (voltage_L3 v) svs
                in push_sample reading_context Voltage_Measurand ''V'' None (voltage_DC v) svs))
      in \<lparr>mv_sampledValue = svs, mv_timestamp = to_ocpp_datetime_or_now now_time (pm_timestamp power_meter)\<rparr>)"

section \<open>The readings of the charging session\<close>

text \<open>\<open>Energy\<close>, \<open>Power\<close> and the others initialized with their first members only.\<close>

definition energy_of :: "cfloat \<Rightarrow> Energy" where
  "energy_of x = \<lparr>energy_total = x, energy_L1 = None, energy_L2 = None, energy_L3 = None\<rparr>"

text \<open>
  \<open>ocppCurrentPowerData\<close> before any call: zero. \<open>rfc3339\<close> is the text of the present time.
  \<open>L1\<close> to \<open>L3\<close> of the imported energy are never written.
\<close>

definition powermeter_boot :: Powermeter where
  "powermeter_boot = \<lparr>pm_timestamp = [], energy_Wh_import = energy_of (Fin 0), meter_id = None, phase_seq_error = None,
     energy_Wh_export = None, power_W = None, voltage_V = None, VAR = None, current_A = None, frequency_Hz = None\<rparr>"

definition prvEVSE_OCPP_InitCurrentPowerData :: "string \<Rightarrow> Powermeter \<Rightarrow> Powermeter" where
  "prvEVSE_OCPP_InitCurrentPowerData rfc3339 p =
     p\<lparr>pm_timestamp := rfc3339,
       energy_Wh_import := (energy_Wh_import p)\<lparr>energy_total := Fin 0\<rparr>,
       meter_id := Some ''MTR553'', phase_seq_error := Some False, energy_Wh_export := Some (energy_of (Fin 0)),
       power_W := Some \<lparr>power_total = Fin 0, power_L1 = None, power_L2 = None, power_L3 = None\<rparr>,
       voltage_V := Some \<lparr>voltage_DC = Some (Fin 0), voltage_L1 = None, voltage_L2 = None, voltage_L3 = None\<rparr>,
       VAR := Some \<lparr>var_total = Fin 0, VARphA = None, VARphB = None, VARphC = None\<rparr>,
       current_A := Some \<lparr>current_DC = Some (Fin 0), current_L1 = None, current_L2 = None, current_L3 = None, current_N = None\<rparr>,
       frequency_Hz := Some \<lparr>frequency_L1 = Fin 0, frequency_L2 = None, frequency_L3 = None\<rparr>\<rparr>"

text \<open>
  The arguments: the vehicle data (\<open>None\<close> a null pointer), the readings of the metrology and the
  charging direction. The build has no ISO 15118, so the energy is the one of the pilot's machine.
\<close>

definition EVSE_VehicleData_to_OcppData ::
    "string \<Rightarrow> vehicle_data_t option \<Rightarrow> phase_data \<Rightarrow> phase_data \<Rightarrow> phase_data \<Rightarrow> charging_directions_t \<Rightarrow> Powermeter \<Rightarrow> Powermeter" where
  "EVSE_VehicleData_to_OcppData rfc3339 values urms irms active dir p =
     (case values of None \<Rightarrow> p
      | Some v \<Rightarrow>
         (let p = p\<lparr>pm_timestamp := rfc3339, phase_seq_error := Some False,
                    energy_Wh_import := (energy_Wh_import p)\<lparr>energy_total := Fin 0\<rparr>,
                    energy_Wh_export := Some (energy_of (Fin 0))\<rparr>;
              delivered = fl_of_int f32 (uint (deliveredEnergy v));
              p = (case dir of
                     EVSE_G2V \<Rightarrow> p\<lparr>energy_Wh_import := (energy_Wh_import p)\<lparr>energy_total := delivered\<rparr>\<rparr>
                   | EVSE_V2G \<Rightarrow> p\<lparr>energy_Wh_export := Some (energy_of delivered)\<rparr>
                   | EVSE_NoChargingDirection \<Rightarrow> p)
          in p\<lparr>power_W := Some \<lparr>power_total = fl_add f32 (fl_add f32 (ph1 active) (ph3 active)) (ph2 active),
                               power_L1 = Some (ph1 active), power_L2 = Some (ph2 active), power_L3 = Some (ph3 active)\<rparr>,
               voltage_V := Some \<lparr>voltage_DC = Some (ph1 urms), voltage_L1 = Some (ph1 urms),
                                 voltage_L2 = Some (ph2 urms), voltage_L3 = Some (ph3 urms)\<rparr>,
               current_A := Some \<lparr>current_DC = Some (ph1 irms), current_L1 = Some (ph1 irms),
                                 current_L2 = Some (ph2 irms), current_L3 = Some (ph3 irms), current_N = None\<rparr>,
               frequency_Hz := Some \<lparr>frequency_L1 = Fin 50, frequency_L2 = None, frequency_L3 = None\<rparr>\<rparr>))"

end
