(* ===== verification/Ocpp_Transactions.thy ===== *)
theory Ocpp_Transactions
  imports Ocpp_Meter "HOL-Library.AList"
begin

text \<open>
  \<open>source/transaction_handler.hpp\<close> and \<open>source/transaction_handler.cpp\<close>: when an OCPP transaction
  starts and stops. The maps from EVSE numbers are association lists (\<open>AList.update\<close> for
  \<open>operator[]\<close>), a null \<open>shared_ptr\<close> is \<open>None\<close>, the numbers are unbounded integers, and every throw of
  the code is a value of \<open>ocpp_error\<close>.
\<close>

section \<open>Errors\<close>

datatype ocpp_error =
    Runtime_error string
  | Out_of_range string
  | Invalid_argument string
  | Null_dereference

type_synonym 'a or_error = "ocpp_error + 'a"

fun and_then_ok :: "'a or_error \<Rightarrow> ('a \<Rightarrow> 'b or_error) \<Rightarrow> 'b or_error" where
  "and_then_ok (Inl e) f = Inl e"
| "and_then_ok (Inr x) f = f x"

lemma and_then_ok_Inr: "and_then_ok r f = Inr y \<longleftrightarrow> (\<exists>x. r = Inr x \<and> f x = Inr y)"
  by (cases r) auto

lemma and_then_ok_Inl: "and_then_ok r f = Inl e \<longleftrightarrow> r = Inl e \<or> (\<exists>x. r = Inr x \<and> f x = Inl e)"
  by (cases r) auto

section \<open>Points, events and conditions\<close>

datatype TxStartStopPoint =
    ParkingBayOccupancy | EVConnected | Authorized | PowerPathClosed | EnergyTransfer | DataSigned

datatype TxEvent =
    TxEvent_NONE | EV_CONNECTED | EV_DISCONNECTED | AUTHORIZED | DEAUTHORIZED | PARKING_BAY_OCCUPIED
  | PARKING_BAY_UNOCCUPIED | ENERGY_TRANSFER_STARTED | ENERGY_TRANSFER_STOPPED
  | SIGNED_START_DATA_RECEIVED | IMMEDIATE_RESET

datatype TxEventEffect = START_TRANSACTION | STOP_TRANSACTION | TxEventEffect_NONE

record TxStartStopConditions =
  is_authorized :: bool
  is_ev_connected :: bool
  is_parking_bay_occupied :: bool
  is_energy_transfered :: bool
  is_signed_data_received :: bool
  is_immediate_reset :: bool

definition TxStartStopConditions_default :: TxStartStopConditions where
  "TxStartStopConditions_default = \<lparr>is_authorized = False, is_ev_connected = False, is_parking_bay_occupied = False,
     is_energy_transfered = False, is_signed_data_received = False, is_immediate_reset = False\<rparr>"

fun conditions_submit_event :: "TxEvent \<Rightarrow> TxStartStopConditions \<Rightarrow> TxStartStopConditions" where
  "conditions_submit_event EV_CONNECTED c = c\<lparr>is_ev_connected := True\<rparr>"
| "conditions_submit_event EV_DISCONNECTED c = c\<lparr>is_ev_connected := False, is_energy_transfered := False\<rparr>"
| "conditions_submit_event AUTHORIZED c = c\<lparr>is_authorized := True\<rparr>"
| "conditions_submit_event DEAUTHORIZED c = c\<lparr>is_authorized := False\<rparr>"
| "conditions_submit_event PARKING_BAY_OCCUPIED c = c\<lparr>is_parking_bay_occupied := True\<rparr>"
| "conditions_submit_event PARKING_BAY_UNOCCUPIED c = c\<lparr>is_parking_bay_occupied := False\<rparr>"
| "conditions_submit_event ENERGY_TRANSFER_STARTED c = c\<lparr>is_energy_transfered := True\<rparr>"
| "conditions_submit_event ENERGY_TRANSFER_STOPPED c = c\<lparr>is_energy_transfered := False\<rparr>"
| "conditions_submit_event SIGNED_START_DATA_RECEIVED c = c\<lparr>is_signed_data_received := True\<rparr>"
| "conditions_submit_event IMMEDIATE_RESET c = c\<lparr>is_immediate_reset := True\<rparr>"
| "conditions_submit_event TxEvent_NONE c = c"

fun is_start_condition_fullfilled :: "TxStartStopPoint \<Rightarrow> TxStartStopConditions \<Rightarrow> bool" where
  "is_start_condition_fullfilled ParkingBayOccupancy c = is_parking_bay_occupied c"
| "is_start_condition_fullfilled EVConnected c = is_ev_connected c"
| "is_start_condition_fullfilled Authorized c = is_authorized c"
| "is_start_condition_fullfilled PowerPathClosed c = (is_authorized c \<and> is_ev_connected c)"
| "is_start_condition_fullfilled EnergyTransfer c = is_energy_transfered c"
| "is_start_condition_fullfilled DataSigned c = is_signed_data_received c"

definition is_stop_condition_fullfilled :: "TxStartStopPoint \<Rightarrow> TxStartStopConditions \<Rightarrow> bool" where
  "is_stop_condition_fullfilled tx_stop_point c =
     (if is_immediate_reset c then True
      else (case tx_stop_point of
              ParkingBayOccupancy \<Rightarrow> \<not> is_parking_bay_occupied c
            | EVConnected \<Rightarrow> \<not> is_ev_connected c
            | Authorized \<Rightarrow> \<not> is_authorized c
            | PowerPathClosed \<Rightarrow> \<not> is_authorized c \<or> \<not> is_ev_connected c
            | EnergyTransfer \<Rightarrow> \<not> is_energy_transfered c
            | DataSigned \<Rightarrow> False))"

section \<open>Transaction data\<close>

datatype TriggerReasonEnum =
    Trigger_AbnormalCondition | Trigger_Authorized | Trigger_CablePluggedIn | Trigger_ChargingRateChanged
  | Trigger_ChargingStateChanged | Trigger_CostLimitReached | Trigger_Deauthorized
  | Trigger_EnergyLimitReached | Trigger_EVCommunicationLost | Trigger_EVConnectTimeout | Trigger_EVDeparted
  | Trigger_EVDetected | Trigger_LimitSet | Trigger_MeterValueClock | Trigger_MeterValuePeriodic
  | Trigger_OperationModeChanged | Trigger_RemoteStart | Trigger_RemoteStop | Trigger_ResetCommand
  | Trigger_RunningCost | Trigger_SignedDataReceived | Trigger_SoCLimitReached | Trigger_StopAuthorized
  | Trigger_TariffChanged | Trigger_TariffNotAccepted | Trigger_TimeLimitReached | Trigger_Trigger
  | Trigger_TxResumed | Trigger_UnlockCommand

datatype ChargingStateEnum =
    ChargingState_EVConnected | ChargingState_Charging | ChargingState_SuspendedEV
  | ChargingState_SuspendedEVSE | ChargingState_Idle

datatype ReasonEnum =
    Reason_DeAuthorized | Reason_EmergencyStop | Reason_EnergyLimitReached | Reason_EVDisconnected
  | Reason_GroundFault | Reason_ImmediateReset | Reason_MasterPass | Reason_Local | Reason_LocalOutOfCredit
  | Reason_Other | Reason_OvercurrentFault | Reason_PowerLoss | Reason_PowerQuality | Reason_Reboot
  | Reason_Remote | Reason_SOCLimitReached | Reason_StoppedByEV | Reason_TimeLimitReached | Reason_Timeout
  | Reason_ReqEnergyTransferRejected

record IdToken =
  idToken :: string
  id_type :: string

record TransactionData =
  started :: bool
  connector_id :: int
  session_id :: string
  td_timestamp :: DateTime
  trigger_reason :: TriggerReasonEnum
  meter_value :: MeterValue
  charging_state :: ChargingStateEnum
  stop_reason :: ReasonEnum
  id_token :: "IdToken option"
  group_id_token :: "IdToken option"
  reservation_id :: "int option"
  remote_start_id :: "int option"

text \<open>The constructor; \<open>mv0\<close> is the default constructed meter value, whose time is the present one.\<close>

definition new_TransactionData ::
    "int \<Rightarrow> string \<Rightarrow> DateTime \<Rightarrow> TriggerReasonEnum \<Rightarrow> ChargingStateEnum \<Rightarrow> MeterValue \<Rightarrow> TransactionData" where
  "new_TransactionData connector sid t reason state mv0 =
     \<lparr>started = False, connector_id = connector, session_id = sid, td_timestamp = t, trigger_reason = reason,
      meter_value = mv0, charging_state = state, stop_reason = Reason_Other, id_token = None,
      group_id_token = None, reservation_id = None, remote_start_id = None\<rparr>"

section \<open>The handler\<close>

record TransactionHandler =
  tx_start_points :: "TxStartStopPoint set"
  tx_stop_points :: "TxStartStopPoint set"
  tx_start_stop_conditions :: "(int \<times> TxStartStopConditions) list"
  evse_id_transaction_data_map :: "(int \<times> TransactionData option) list"

definition new_TransactionHandler ::
    "int \<Rightarrow> TxStartStopPoint set \<Rightarrow> TxStartStopPoint set \<Rightarrow> TransactionHandler or_error" where
  "new_TransactionHandler nr_of_evses starts stops =
     (if starts = {} \<or> stops = {}
      then Inl (Runtime_error ''Cannot construct TransactionHandler with either TxStart or TxStop points being empty'')
      else if nr_of_evses \<le> 0
      then Inl (Runtime_error ''Cannot construct TransactionHandler with nr_of_evses <= 0'')
      else Inr \<lparr>tx_start_points = starts, tx_stop_points = stops,
                tx_start_stop_conditions = map (\<lambda>evse_id. (evse_id, TxStartStopConditions_default)) [1..nr_of_evses],
                evse_id_transaction_data_map = map (\<lambda>evse_id. (evse_id, None)) [1..nr_of_evses]\<rparr>)"

definition set_tx_start_points :: "TxStartStopPoint set \<Rightarrow> TransactionHandler \<Rightarrow> TransactionHandler" where
  "set_tx_start_points starts h = h\<lparr>tx_start_points := starts\<rparr>"

definition set_tx_stop_points :: "TxStartStopPoint set \<Rightarrow> TransactionHandler \<Rightarrow> TransactionHandler" where
  "set_tx_stop_points stops h = h\<lparr>tx_stop_points := stops\<rparr>"

text \<open>The conditions \<open>operator[]\<close> gives: the default ones when there are none.\<close>

definition conditions_of :: "int \<Rightarrow> TransactionHandler \<Rightarrow> TxStartStopConditions" where
  "conditions_of evse_id h =
     (case map_of (tx_start_stop_conditions h) evse_id of
        None \<Rightarrow> TxStartStopConditions_default | Some c \<Rightarrow> c)"

definition should_transaction_start :: "int \<Rightarrow> TransactionHandler \<Rightarrow> bool or_error" where
  "should_transaction_start evse_id h =
     (case map_of (evse_id_transaction_data_map h) evse_id of
        None \<Rightarrow> Inl (Out_of_range ''Can not retrieve if transaction should start for invalid evse_id'')
      | Some None \<Rightarrow> Inr False
      | Some (Some d) \<Rightarrow>
          Inr (\<not> started d \<and> (\<exists>p \<in> tx_start_points h. is_start_condition_fullfilled p (conditions_of evse_id h))))"

definition should_transaction_stop :: "int \<Rightarrow> TransactionHandler \<Rightarrow> bool or_error" where
  "should_transaction_stop evse_id h =
     (case map_of (evse_id_transaction_data_map h) evse_id of
        None \<Rightarrow> Inl (Out_of_range ''Can not retrieve if transaction should stop for invalid evse_id'')
      | Some None \<Rightarrow> Inr False
      | Some (Some d) \<Rightarrow>
          Inr (started d \<and> (\<exists>p \<in> tx_stop_points h. is_stop_condition_fullfilled p (conditions_of evse_id h))))"

text \<open>
  The first statement of \<open>submit_event\<close>: \<open>operator[]\<close> creates the conditions of an EVSE that has none,
  and this state is left behind when the rest throws.
\<close>

definition submit_conditions :: "int \<Rightarrow> TxEvent \<Rightarrow> TransactionHandler \<Rightarrow> TransactionHandler" where
  "submit_conditions evse_id tx_event h =
     h\<lparr>tx_start_stop_conditions := AList.update evse_id
         (conditions_submit_event tx_event (conditions_of evse_id h)) (tx_start_stop_conditions h)\<rparr>"

definition submit_event :: "int \<Rightarrow> TxEvent \<Rightarrow> TransactionHandler \<Rightarrow> (TxEventEffect \<times> TransactionHandler) or_error" where
  "submit_event evse_id tx_event h =
     (let h = submit_conditions evse_id tx_event h
      in and_then_ok (should_transaction_start evse_id h) (\<lambda>start.
           if start then Inr (START_TRANSACTION, h)
           else and_then_ok (should_transaction_stop evse_id h) (\<lambda>stop.
             if stop then Inr (STOP_TRANSACTION, h) else Inr (TxEventEffect_NONE, h))))"

definition add_transaction_data :: "int \<Rightarrow> TransactionData option \<Rightarrow> TransactionHandler \<Rightarrow> TransactionHandler or_error" where
  "add_transaction_data evse_id transaction_data h =
     (let no = int (length (tx_start_stop_conditions h))
      in if evse_id \<le> 0 \<or> no < evse_id
         then Inl (Out_of_range ''Can not add transaction data for evse_id <= 0 or > nr_of_evses'')
         else Inr (h\<lparr>evse_id_transaction_data_map := AList.update evse_id transaction_data (evse_id_transaction_data_map h)\<rparr>))"

definition get_transaction_data :: "int \<Rightarrow> TransactionHandler \<Rightarrow> TransactionData option or_error" where
  "get_transaction_data evse_id h =
     (case map_of (evse_id_transaction_data_map h) evse_id of
        None \<Rightarrow> Inl (Out_of_range ''Attempt to get transaction_data for invalid evse_id'')
      | Some d \<Rightarrow> Inr d)"

definition reset_transaction_data :: "int \<Rightarrow> TransactionHandler \<Rightarrow> TransactionHandler or_error" where
  "reset_transaction_data evse_id h =
     (case map_of (evse_id_transaction_data_map h) evse_id of
        None \<Rightarrow> Inl (Out_of_range ''Attempt to reset transaction_data for invalid evse_id'')
      | Some _ \<Rightarrow> Inr (h\<lparr>evse_id_transaction_data_map := AList.update evse_id None (evse_id_transaction_data_map h)\<rparr>))"

text \<open>
  A write through the shared pointer the map holds for an EVSE; the callers check the pointer
  first, and nobody else holds it.
\<close>

definition write_transaction_data :: "int \<Rightarrow> (TransactionData \<Rightarrow> TransactionData) \<Rightarrow> TransactionHandler \<Rightarrow> TransactionHandler" where
  "write_transaction_data evse_id f h =
     (case map_of (evse_id_transaction_data_map h) evse_id of
        Some (Some d) \<Rightarrow> h\<lparr>evse_id_transaction_data_map := AList.update evse_id (Some (f d)) (evse_id_transaction_data_map h)\<rparr>
      | _ \<Rightarrow> h)"

section \<open>What the handler promises\<close>

text \<open>
  An abstract view of one EVSE: its conditions and its transaction, which is absent, waiting to
  start or running.
\<close>

datatype tx_phase = No_transaction | Waiting | Running

definition phase_of :: "TransactionData option \<Rightarrow> tx_phase" where
  "phase_of d = (case d of None \<Rightarrow> No_transaction | Some d \<Rightarrow> (if started d then Running else Waiting))"

definition tx_effect :: "TxStartStopPoint set \<Rightarrow> TxStartStopPoint set \<Rightarrow> tx_phase \<Rightarrow> TxStartStopConditions \<Rightarrow> TxEventEffect" where
  "tx_effect starts stops ph c =
     (case ph of
        No_transaction \<Rightarrow> TxEventEffect_NONE
      | Waiting \<Rightarrow> (if \<exists>p \<in> starts. is_start_condition_fullfilled p c then START_TRANSACTION else TxEventEffect_NONE)
      | Running \<Rightarrow> (if \<exists>p \<in> stops. is_stop_condition_fullfilled p c then STOP_TRANSACTION else TxEventEffect_NONE))"

definition valid_evse :: "int \<Rightarrow> TransactionHandler \<Rightarrow> bool" where
  "valid_evse evse_id h \<longleftrightarrow> map_of (evse_id_transaction_data_map h) evse_id \<noteq> None"

definition data_of :: "int \<Rightarrow> TransactionHandler \<Rightarrow> TransactionData option" where
  "data_of evse_id h = (case map_of (evse_id_transaction_data_map h) evse_id of None \<Rightarrow> None | Some d \<Rightarrow> d)"

text \<open>
  The operations, through that view. \<open>handler_abs\<close> collects them: each is one step of the
  abstract handler and an error for an EVSE that does not exist.
\<close>

lemma map_of_upto: "map_of (map (\<lambda>i. (i, x)) [a..b]) j = (if a \<le> j \<and> j \<le> b then Some x else None)"
proof (cases "j \<in> set [a..b]")
  case True
  then show ?thesis by (simp add: map_of_map_restrict restrict_map_def)
next
  case False
  then show ?thesis by (auto simp: map_of_eq_None_iff)
qed

lemma new_handler:
  "new_TransactionHandler n starts stops = Inr h \<longleftrightarrow> starts \<noteq> {} \<and> stops \<noteq> {} \<and> 0 < n \<and>
     h = \<lparr>tx_start_points = starts, tx_stop_points = stops,
          tx_start_stop_conditions = map (\<lambda>evse_id. (evse_id, TxStartStopConditions_default)) [1..n],
          evse_id_transaction_data_map = map (\<lambda>evse_id. (evse_id, None)) [1..n]\<rparr>"
  by (auto simp: new_TransactionHandler_def)

lemma new_handler_abs:
  "new_TransactionHandler n starts stops = Inr h \<Longrightarrow>
     (valid_evse i h \<longleftrightarrow> 1 \<le> i \<and> i \<le> n) \<and> data_of i h = None \<and> conditions_of i h = TxStartStopConditions_default \<and>
     tx_start_points h = starts \<and> tx_stop_points h = stops"
  by (auto simp: new_handler valid_evse_def data_of_def conditions_of_def map_of_upto)

text \<open>The two updates of the maps, as the lemmas speak of them.\<close>

definition set_conditions :: "int \<Rightarrow> TxStartStopConditions \<Rightarrow> TransactionHandler \<Rightarrow> TransactionHandler" where
  "set_conditions i c h = h\<lparr>tx_start_stop_conditions := AList.update i c (tx_start_stop_conditions h)\<rparr>"

definition set_data :: "int \<Rightarrow> TransactionData option \<Rightarrow> TransactionHandler \<Rightarrow> TransactionHandler" where
  "set_data i d h = h\<lparr>evse_id_transaction_data_map := AList.update i d (evse_id_transaction_data_map h)\<rparr>"

lemma set_conditions_simps [simp]:
  "conditions_of j (set_conditions i c h) = (if j = i then c else conditions_of j h)"
  "data_of j (set_conditions i c h) = data_of j h"
  "valid_evse j (set_conditions i c h) = valid_evse j h"
  "tx_start_points (set_conditions i c h) = tx_start_points h"
  "tx_stop_points (set_conditions i c h) = tx_stop_points h"
  by (simp_all add: set_conditions_def conditions_of_def update_conv' data_of_def valid_evse_def)

lemma set_data_simps [simp]:
  "data_of j (set_data i d h) = (if j = i then d else data_of j h)"
  "valid_evse j (set_data i d h) = (j = i \<or> valid_evse j h)"
  "conditions_of j (set_data i d h) = conditions_of j h"
  "tx_start_points (set_data i d h) = tx_start_points h"
  "tx_stop_points (set_data i d h) = tx_stop_points h"
  by (simp_all add: set_data_def conditions_of_def update_conv' data_of_def valid_evse_def)

lemma submit_abs:
  "valid_evse i h \<Longrightarrow> submit_event i ev h =
     Inr (tx_effect (tx_start_points h) (tx_stop_points h) (phase_of (data_of i h))
            (conditions_submit_event ev (conditions_of i h)),
          set_conditions i (conditions_submit_event ev (conditions_of i h)) h)"
  by (auto simp: submit_event_def submit_conditions_def Let_def should_transaction_start_def should_transaction_stop_def
      set_conditions_def
      conditions_of_def update_conv' tx_effect_def phase_of_def data_of_def valid_evse_def split: option.split)

lemma get_abs: "valid_evse i h \<Longrightarrow> get_transaction_data i h = Inr (data_of i h)"
  by (auto simp: get_transaction_data_def valid_evse_def data_of_def)

lemma reset_abs: "valid_evse i h \<Longrightarrow> reset_transaction_data i h = Inr (set_data i None h)"
  by (auto simp: reset_transaction_data_def valid_evse_def set_data_def)

lemma add_abs:
  "1 \<le> i \<Longrightarrow> i \<le> int (length (tx_start_stop_conditions h)) \<Longrightarrow> add_transaction_data i d h = Inr (set_data i d h)"
  by (auto simp: add_transaction_data_def Let_def set_data_def)

lemma write_abs:
  "write_transaction_data i f h = (case data_of i h of None \<Rightarrow> h | Some d \<Rightarrow> set_data i (Some (f d)) h)"
  by (auto simp: write_transaction_data_def data_of_def set_data_def split: option.split)

text \<open>An EVSE that does not exist: the conditions are created all the same, then the error is thrown.\<close>

lemma invalid_evse_errors:
  "\<not> valid_evse i h \<Longrightarrow> \<exists>m. submit_event i ev h = Inl (Out_of_range m)"
  "\<not> valid_evse i h \<Longrightarrow> \<exists>m. get_transaction_data i h = Inl (Out_of_range m)"
  "\<not> valid_evse i h \<Longrightarrow> \<exists>m. reset_transaction_data i h = Inl (Out_of_range m)"
  by (auto simp: submit_event_def submit_conditions_def Let_def should_transaction_start_def get_transaction_data_def
      reset_transaction_data_def valid_evse_def)

section \<open>The handler of n chargers\<close>

text \<open>The handlers the operations reach, as long as none has thrown.\<close>

inductive handler_reachable :: "int \<Rightarrow> TransactionHandler \<Rightarrow> bool" for n where
  new: "new_TransactionHandler n starts stops = Inr h \<Longrightarrow> handler_reachable n h"
| start_points: "handler_reachable n h \<Longrightarrow> handler_reachable n (set_tx_start_points starts h)"
| stop_points: "handler_reachable n h \<Longrightarrow> handler_reachable n (set_tx_stop_points stops h)"
| submit: "handler_reachable n h \<Longrightarrow> submit_event i ev h = Inr (effect, h') \<Longrightarrow> handler_reachable n h'"
| add: "handler_reachable n h \<Longrightarrow> add_transaction_data i d h = Inr h' \<Longrightarrow> handler_reachable n h'"
| reset: "handler_reachable n h \<Longrightarrow> reset_transaction_data i h = Inr h' \<Longrightarrow> handler_reachable n h'"
| write_data: "handler_reachable n h \<Longrightarrow> handler_reachable n (write_transaction_data i f h)"

definition handler_of :: "int \<Rightarrow> TransactionHandler \<Rightarrow> bool" where
  "handler_of n h \<longleftrightarrow> map fst (tx_start_stop_conditions h) = [1..n] \<and> (\<forall>i. valid_evse i h \<longleftrightarrow> 1 \<le> i \<and> i \<le> n)"

lemma handler_of_keys:
  "handler_of n h \<Longrightarrow> int (length (tx_start_stop_conditions h)) = max n 0"
proof -
  assume "handler_of n h"
  then have "length (tx_start_stop_conditions h) = length [1..n]" by (metis handler_of_def length_map)
  then show ?thesis by simp
qed

lemma handler_of_steps:
  "new_TransactionHandler n starts stops = Inr h \<Longrightarrow> handler_of n h"
  "handler_of n h \<Longrightarrow> 1 \<le> i \<Longrightarrow> i \<le> n \<Longrightarrow> handler_of n (set_conditions i c h)"
  "handler_of n h \<Longrightarrow> 1 \<le> i \<Longrightarrow> i \<le> n \<Longrightarrow> handler_of n (set_data i d h)"
  "handler_of n h \<Longrightarrow> handler_of n (set_tx_start_points starts h)"
  "handler_of n h \<Longrightarrow> handler_of n (set_tx_stop_points stops h)"
proof -
  show "new_TransactionHandler n starts stops = Inr h \<Longrightarrow> handler_of n h"
    using new_handler_abs[of n starts stops h] by (auto simp: handler_of_def new_handler o_def)
  show "handler_of n h \<Longrightarrow> 1 \<le> i \<Longrightarrow> i \<le> n \<Longrightarrow> handler_of n (set_conditions i c h)"
    by (simp add: handler_of_def) (simp add: set_conditions_def update_keys)
  show "handler_of n h \<Longrightarrow> 1 \<le> i \<Longrightarrow> i \<le> n \<Longrightarrow> handler_of n (set_data i d h)"
    by (auto simp: handler_of_def) (simp_all add: set_data_def)
qed (simp_all add: handler_of_def set_tx_start_points_def set_tx_stop_points_def valid_evse_def)

lemma handler_reachable_of: "handler_reachable n h \<Longrightarrow> handler_of n h"
proof (induction rule: handler_reachable.induct)
  case (submit h i ev effect h')
  have v: "valid_evse i h" using submit(2) invalid_evse_errors(1)[of i h ev] by (metis Inl_Inr_False)
  then have "h' = set_conditions i (conditions_submit_event ev (conditions_of i h)) h"
    using submit(2) submit_abs[OF v] by simp
  then show ?case using submit(3) v by (simp add: handler_of_steps handler_of_def[of n h])
next
  case (add h i d h')
  then have i: "1 \<le> i" "i \<le> n"
    using handler_of_keys[of n h] by (auto simp: add_transaction_data_def Let_def split: if_splits)
  then have "h' = set_data i d h" using add(2) handler_of_keys[OF add(3)] add_abs[of i h d] by simp
  then show ?case using add(3) i by (simp add: handler_of_steps)
next
  case (reset h i h')
  have v: "valid_evse i h" using reset(2) invalid_evse_errors(3)[of i h] by (metis Inl_Inr_False)
  then have "h' = set_data i None h" using reset(2) reset_abs[OF v] by simp
  then show ?case using reset(3) v by (simp add: handler_of_steps handler_of_def[of n h])
next
  case (write_data h i f)
  show ?case
  proof (cases "data_of i h")
    case None
    then show ?thesis using write_data by (simp add: write_abs)
  next
    case (Some d)
    then have "valid_evse i h" by (auto simp: valid_evse_def data_of_def split: option.splits)
    then have "1 \<le> i" "i \<le> n" using write_data by (auto simp: handler_of_def)
    then show ?thesis using write_data Some by (simp add: write_abs handler_of_steps)
  qed
qed (auto simp: handler_of_steps)

text \<open>What an operation on one EVSE leaves as it was.\<close>

definition handler_frame :: "int \<Rightarrow> TransactionHandler \<Rightarrow> TransactionHandler \<Rightarrow> bool" where
  "handler_frame i h h' \<longleftrightarrow> tx_start_points h' = tx_start_points h \<and> tx_stop_points h' = tx_stop_points h \<and>
     (\<forall>j. valid_evse j h' = valid_evse j h \<and>
          (j \<noteq> i \<longrightarrow> conditions_of j h' = conditions_of j h \<and> data_of j h' = data_of j h))"

lemma add_errors:
  "handler_of n h \<Longrightarrow> \<not> (1 \<le> i \<and> i \<le> n) \<Longrightarrow> \<exists>m. add_transaction_data i d h = Inl (Out_of_range m)"
  using handler_of_keys[of n h] by (auto simp: add_transaction_data_def Let_def)

text \<open>
  The state an exception leaves is no handler of n chargers any more: the conditions created for an EVSE that
  does not exist count in the bound of \<open>add_transaction_data\<close>, which then accepts an EVSE
  beyond the last one.
\<close>

lemma failed_submit_extends_range:
  assumes "handler_of n h" "0 \<le> n" "i \<notin> {1..n}"
  shows "(\<exists>m. submit_event i ev h = Inl (Out_of_range m)) \<and>
    add_transaction_data (n + 1) d (submit_conditions i ev h) = Inr (set_data (n + 1) d (submit_conditions i ev h))"
proof -
  have "\<not> valid_evse i h" using assms(1,3) by (auto simp: handler_of_def)
  moreover have "int (length (tx_start_stop_conditions (submit_conditions i ev h))) = n + 1"
  proof -
    have k: "map fst (tx_start_stop_conditions (submit_conditions i ev h)) = [1..n] @ [i]"
      using assms(1,3) by (auto simp: submit_conditions_def handler_of_def update_keys)
    have "length (tx_start_stop_conditions (submit_conditions i ev h)) = length ([1..n] @ [i])"
      unfolding k[symmetric] by simp
    then show ?thesis using assms(2) by simp
  qed
  ultimately show ?thesis using assms(2) invalid_evse_errors(1) by (auto simp: add_abs)
qed

end
