(* ===== verification/EVSE_Time.thy ===== *)
theory EVSE_Time
  imports EVSE_Prelude
begin

text \<open>
  The utilities of \<open>source/EVSE_Utils.c\<close> (clock, time formatting, the logging task) and the time
  hook of \<open>source/ocpp_system_time.c\<close>. The kernel's tick count and the outcome of the kernel's
  creation calls are arguments. The queue of the logging task is an allocation of the kernel:
  a handle is a number, and the set of live handles says which may be used.
\<close>

section \<open>Clock\<close>

abbreviation (input) configTICK_RATE_HZ :: u32 where "configTICK_RATE_HZ \<equiv> 1000"

definition EVSE_GetMsSinceBoot :: "bool \<Rightarrow> u32 \<Rightarrow> u32 \<Rightarrow> u32" where
  "EVSE_GetMsSinceBoot fromISR tick_isr tick_task =
     (let offsetTick = (if fromISR then tick_isr else tick_task)
      in offsetTick * (1000 div configTICK_RATE_HZ))"

definition EVSE_GetSecondsSinceBoot :: "bool \<Rightarrow> u32 \<Rightarrow> u32 \<Rightarrow> u32" where
  "EVSE_GetSecondsSinceBoot fromISR tick_isr tick_task =
     EVSE_GetMsSinceBoot fromISR tick_isr tick_task div 1000"

record timeval =
  tv_sec :: u32
  tv_usec :: u32

definition gettimeofday_r :: "u32 \<Rightarrow> u32 \<Rightarrow> timeval option \<Rightarrow> int \<times> timeval option" where
  "gettimeofday_r unix_time ticks tv =
     (case tv of None \<Rightarrow> (- 1, None)
      | Some v \<Rightarrow>
          (let ms_since_boot = uint ticks * 1
           in (0, Some (v\<lparr>tv_sec := unix_time, tv_usec := word_of_int ((ms_since_boot mod 1000) * 1000)\<rparr>))))"

section \<open>Formatting a time\<close>

datatype timestamp_formats_t = HH_MM_SS | HH_MM | MM_SS

abbreviation (input) HOURS_DIVIDER :: u32 where "HOURS_DIVIDER \<equiv> 3600"
abbreviation (input) MINUTES_DIVIDER :: u32 where "MINUTES_DIVIDER \<equiv> 60"
abbreviation (input) MAX_TIME_FORMAT_LENGTH :: nat where "MAX_TIME_FORMAT_LENGTH \<equiv> 14"

text \<open>The conversion \<open>%02d\<close> of \<open>sprintf\<close>, on numbers that are not negative.\<close>

fun show_nat :: "nat \<Rightarrow> string" where
  "show_nat n = (if n < 10 then [char_of (48 + n)] else show_nat (n div 10) @ [char_of (48 + n mod 10)])"

declare show_nat.simps [simp del]

definition pad2 :: "nat \<Rightarrow> string" where
  "pad2 n = (if n < 10 then CHR ''0'' # show_nat n else show_nat n)"

definition split_time :: "u32 \<Rightarrow> u32 \<times> u8 \<times> u8" where
  "split_time seconds =
     (let hours = seconds div HOURS_DIVIDER;
          min = ucast ((seconds mod HOURS_DIVIDER) div MINUTES_DIVIDER) :: u8;
          sec = ucast (seconds - hours * HOURS_DIVIDER - ucast min * MINUTES_DIVIDER) :: u8
      in (hours, min, sec))"

definition convertSecToFormat :: "u32 \<Rightarrow> timestamp_formats_t \<Rightarrow> string" where
  "convertSecToFormat seconds time_format =
     (let (hours, min, sec) = split_time seconds
      in case time_format of
           HH_MM_SS \<Rightarrow> pad2 (unat hours) @ '':'' @ pad2 (unat min) @ '':'' @ pad2 (unat sec)
         | HH_MM \<Rightarrow> pad2 (unat hours) @ '':'' @ pad2 (unat min)
         | MM_SS \<Rightarrow> pad2 (unat min) @ '':'' @ pad2 (unat sec))"

lemma length_show_nat: "n < 10 ^ Suc k \<Longrightarrow> length (show_nat n) \<le> Suc k"
proof (induction k arbitrary: n)
  case 0
  then show ?case by (subst show_nat.simps) simp
next
  case (Suc k)
  then have "length (show_nat (n div 10)) \<le> Suc k" by (intro Suc.IH) (simp add: div_less_iff_less_mult)
  then show ?case by (subst show_nat.simps) simp
qed

lemma length_pad2: "n < 10 ^ Suc (Suc k) \<Longrightarrow> length (pad2 n) \<le> Suc (Suc k)"
proof -
  assume n: "n < 10 ^ Suc (Suc k)"
  have "n < 10 \<Longrightarrow> length (show_nat n) = 1" by (subst show_nat.simps) simp
  then show ?thesis using length_show_nat[OF n] by (simp add: pad2_def)
qed

lemma ucast_of_nat_eq: "unat (m :: u8) = k \<Longrightarrow> ucast m = (of_nat k :: u32)"
  by (auto simp: word_unat_eq_iff unsigned_of_nat unsigned_ucast_eq)

lemma split_time_values:
  assumes "split_time seconds = (h, m, s)"
  shows "unat h = unat seconds div 3600" "unat m = unat seconds mod 3600 div 60" "unat s = unat seconds mod 60"
proof -
  let ?n = "unat seconds"
  have h: "h = seconds div 3600" and m: "m = ucast ((seconds mod 3600) div 60)"
    and s: "s = ucast (seconds - h * 3600 - ucast m * 60)"
    using assms by (auto simp: split_time_def Let_def)
  show uh: "unat h = ?n div 3600" by (simp add: h unat_div)
  have lt: "?n mod 3600 div 60 < 60" using mod_less_divisor[of 3600 ?n] by (simp add: div_less_iff_less_mult)
  have "unat ((seconds mod 3600) div 60) = ?n mod 3600 div 60" by (simp add: unat_div unat_mod)
  then show um: "unat m = ?n mod 3600 div 60" using lt by (simp add: m unsigned_ucast_eq take_bit_nat_eq_self)
  have n: "?n = 3600 * (?n div 3600) + 60 * (?n mod 3600 div 60) + ?n mod 60"
  proof -
    have "?n mod 3600 mod 60 = ?n mod 60" by (simp add: mod_mod_cancel)
    then show ?thesis by (metis add.assoc mult_div_mod_eq)
  qed
  have w: "seconds = word_of_nat ?n" "h = word_of_nat (?n div 3600)"
    "ucast m = (word_of_nat (?n mod 3600 div 60) :: u32)"
    using um uh[symmetric] by (simp_all add: ucast_of_nat_eq)
  have "(word_of_nat ?n :: u32) = word_of_nat (3600 * (?n div 3600) + 60 * (?n mod 3600 div 60) + ?n mod 60)"
    using n by simp
  then have "seconds - h * 3600 - ucast m * 60 = word_of_nat (?n mod 60)"
    unfolding w(2,3) by (subst w(1)) (simp add: algebra_simps)
  then have "unat s = take_bit 8 (take_bit 32 (?n mod 60))"
    unfolding s by (simp add: unsigned_ucast_eq unsigned_of_nat)
  moreover have "?n mod 60 < 60" by simp
  ultimately show "unat s = ?n mod 60" by (simp add: take_bit_nat_eq_self)
qed


text \<open>
  Every number of seconds is split into hours, minutes below 60 and seconds below 60 that
  add up to it, so the narrow variables of the code lose nothing.
\<close>

theorem split_time_exact:
  "case split_time seconds of (h, m, s) \<Rightarrow>
     unat h * 3600 + unat m * 60 + unat s = unat seconds \<and> unat m < 60 \<and> unat s < 60"
proof -
  obtain h m s where t: "split_time seconds = (h, m, s)" by (cases "split_time seconds")
  let ?n = "unat seconds"
  have "?n mod 3600 mod 60 = ?n mod 60" by (simp add: mod_mod_cancel)
  then have "?n = 3600 * (?n div 3600) + (60 * (?n mod 3600 div 60) + ?n mod 60)"
    by (metis mult_div_mod_eq)
  moreover have "?n mod 3600 div 60 < 60" using mod_less_divisor[of 3600 ?n] by (simp add: div_less_iff_less_mult)
  ultimately show ?thesis using split_time_values[OF t] t by (simp add: mult.commute)
qed

text \<open>
  The text of every time in every format fits the buffer of 14 characters with its
  terminating zero.
\<close>

theorem time_format_fits_buffer:
  "length (convertSecToFormat seconds f) < MAX_TIME_FORMAT_LENGTH"
proof -
  obtain h m s where t: "split_time seconds = (h, m, s)" by (cases "split_time seconds")
  note v = split_time_values[OF t]
  have "unat seconds < 2 ^ 32" using unsigned_less[of seconds] by simp
  then have "unat seconds div 3600 < 10 ^ 7" by (simp add: div_less_iff_less_mult)
  then have h: "length (pad2 (unat h)) \<le> 7" using length_pad2[of "unat h" 5] v(1) by simp
  have "unat seconds mod 3600 div 60 < 60" using mod_less_divisor[of 3600 "unat seconds"]
    by (simp add: div_less_iff_less_mult)
  then have m: "length (pad2 (unat m)) \<le> 2" using length_pad2[of "unat m" 0] v(2) by simp
  have "unat s < 60" unfolding v(3) by simp
  then have s: "length (pad2 (unat s)) \<le> 2" using length_pad2[of "unat s" 0] by simp
  show ?thesis using h m s by (cases f) (simp_all add: convertSecToFormat_def t)
qed

section \<open>The logging task\<close>

record logging =
  xQueue :: "nat option"
  live_queues :: "nat set"
  logging_task_running :: bool

definition logging_boot :: logging where
  "logging_boot = \<lparr>xQueue = None, live_queues = {}, logging_task_running = False\<rparr>"

text \<open>\<open>created\<close> is the handle \<open>xQueueCreate\<close> returns, \<open>task_ok\<close> whether the task was created.\<close>

definition xLoggingTaskInitialize :: "nat option \<Rightarrow> bool \<Rightarrow> logging \<Rightarrow> bool \<times> logging" where
  "xLoggingTaskInitialize created task_ok l =
     (if xQueue l = None
      then (let l = l\<lparr>xQueue := created\<rparr>
            in case created of None \<Rightarrow> (False, l)
               | Some q \<Rightarrow>
                   (let l = l\<lparr>live_queues := insert q (live_queues l)\<rparr>
                    in if task_ok then (True, l\<lparr>logging_task_running := True\<rparr>)
                       else (False, l\<lparr>live_queues := live_queues l - {q}\<rparr>)))
      else (False, l))"

text \<open>
  When the task cannot be created the queue is deleted but its handle is kept: afterwards
  \<open>xQueue\<close> refers to a queue that is not live, and every later call fails without a retry.
\<close>

theorem failed_logging_init_leaves_dangling_queue:
  assumes "xQueue l = None"
  shows "case xLoggingTaskInitialize (Some q) False l of (r, l') \<Rightarrow>
    \<not> r \<and> xQueue l' = Some q \<and> q \<notin> live_queues l' \<and>
    xLoggingTaskInitialize created ok l' = (False, l')"
  using assms by (simp add: xLoggingTaskInitialize_def Let_def)

theorem failed_logging_init_leaves_dangling_queue_witness:
  "xLoggingTaskInitialize (Some 2) True (snd (xLoggingTaskInitialize (Some 1) False logging_boot)) =
     (False, snd (xLoggingTaskInitialize (Some 1) False logging_boot))"
  using failed_logging_init_leaves_dangling_queue[of logging_boot 1 "Some 2" True]
  by (simp add: logging_boot_def split: prod.splits)

end
