(* ===== verification/Ocpp_State.thy ===== *)
theory Ocpp_State
  imports Ocpp_Transactions EVSE_Time
begin

text \<open>
  The state of \<open>source/EVSE_Ocpp.cpp\<close> and the functions that need only it: the events, the
  authorization response, the session identifier and the parsing of the configuration of the CSMS.
  What the task asks of the charge point of the OCPP library and of the charging protocol is a log of
  calls. The build has no display, no NFC reader and no ISO 15118.
\<close>

section \<open>State\<close>

datatype ocppConnectionState_t = EVSE_Ocpp_NotConnected | EVSE_Ocpp_Connected | EVSE_Ocpp_Error | EVSE_Ocpp_Last

datatype ocpp_call =
    On_transaction_started int int string DateTime TriggerReasonEnum MeterValue ChargingStateEnum
  | On_transaction_finished int DateTime MeterValue ReasonEnum TriggerReasonEnum ChargingStateEnum
  | On_charging_state_changed int ChargingStateEnum
  | On_session_started int int
  | On_session_finished int int
  | On_authorized int int IdToken
  | On_meter_value int MeterValue
  | On_network_disconnected
  | Charge_point_start
  | Connect_websocket "int option"
  | Charge_point_stop
  | Protocol_StartCharging
  | Protocol_StopCharging

record NetworkConnectionProfile =
  ocppInterface :: string
  ocppTransport :: string
  messageTimeout :: int
  ocppCsmsUrl :: string
  securityProfile :: int

record ocpp =
  s_ocppConnectionState :: ocppConnectionState_t
  is_EV_authorized :: bool
  last_auth_time :: u32
  ocppCurrentPowerData :: Powermeter
  ocppTelemetryCounter :: u32
  totalCost :: cfloat
  runningCost :: cfloat
  EV_plugged_in :: bool
  session_started :: bool
  disconnect_requested :: bool
  iso15118_pnc_enabled :: bool
  ev_connection_timeout :: int
  ocppDisplayMessagesStr :: "string list"
  ocppConnectionProfile :: "NetworkConnectionProfile option"
  ocppHeartbeatInterval :: int
  ocpp_reconnection_attempts :: u8
  ocpp_is_init :: bool
  ocpp_event_bits :: u32
  ocpp_sem :: bool
  transactionHandler :: "TransactionHandler option"
  ocpp_task_left_loop :: bool
  ocpp_calls :: "ocpp_call list"

text \<open>
  \<open>ocpp_event_bits\<close> is the event group, \<open>ocpp_sem\<close> the binary semaphore of the authorization response,
  \<open>ocpp_task_left_loop\<close> that the task has left its loop for the one that only delays.
\<close>

definition ocpp_boot :: ocpp where
  "ocpp_boot = \<lparr>s_ocppConnectionState = EVSE_Ocpp_NotConnected, is_EV_authorized = False, last_auth_time = 0,
     ocppCurrentPowerData = powermeter_boot, ocppTelemetryCounter = 0, totalCost = Fin 0, runningCost = Fin 0,
     EV_plugged_in = False, session_started = False, disconnect_requested = False, iso15118_pnc_enabled = False,
     ev_connection_timeout = 0, ocppDisplayMessagesStr = [], ocppConnectionProfile = None, ocppHeartbeatInterval = 0,
     ocpp_reconnection_attempts = 0, ocpp_is_init = False, ocpp_event_bits = 0, ocpp_sem = False,
     transactionHandler = None, ocpp_task_left_loop = False, ocpp_calls = []\<rparr>"

abbreviation (input) EVSE_ID :: int where "EVSE_ID \<equiv> 1"
abbreviation (input) EVSE_CONNECTOR_ID :: int where "EVSE_CONNECTOR_ID \<equiv> 1"
abbreviation (input) EVSE_OCPP_AUTH_TIMEOUT_S :: u32 where "EVSE_OCPP_AUTH_TIMEOUT_S \<equiv> 3"
abbreviation (input) EVSE_OCPP_SESSION_ID_MAX :: nat where "EVSE_OCPP_SESSION_ID_MAX \<equiv> 40"
abbreviation (input) EVSE_OCPP_UUID_STRING_LENGTH :: nat where "EVSE_OCPP_UUID_STRING_LENGTH \<equiv> 37"
abbreviation (input) EVSE_OCPP_MAX_RECONNECTS :: u8 where "EVSE_OCPP_MAX_RECONNECTS \<equiv> 15"
abbreviation (input) EVSE_OCPP_ALL_EVENTS :: u32 where "EVSE_OCPP_ALL_EVENTS \<equiv> 0xFFFFFF"

definition ocpp_do :: "ocpp_call \<Rightarrow> ocpp \<Rightarrow> ocpp" where
  "ocpp_do c o' = o'\<lparr>ocpp_calls := ocpp_calls o' @ [c]\<rparr>"

definition prvEVSE_OCPP_SetConnectionState :: "ocppConnectionState_t \<Rightarrow> ocpp \<Rightarrow> ocpp" where
  "prvEVSE_OCPP_SetConnectionState st s =
     (if s_ocppConnectionState s = st then s else s\<lparr>s_ocppConnectionState := st\<rparr>)"

fun ocppConnectionStateString :: "ocppConnectionState_t \<Rightarrow> string" where
  "ocppConnectionStateString EVSE_Ocpp_NotConnected = ''Ocpp client not connected''"
| "ocppConnectionStateString EVSE_Ocpp_Connected = ''Ocpp client connected''"
| "ocppConnectionStateString EVSE_Ocpp_Error = ''Failed connection to ocpp server''"
| "ocppConnectionStateString EVSE_Ocpp_Last = ''LAST''"

definition EVSE_OCPP_GetStringFromState :: "ocppConnectionState_t \<Rightarrow> string" where
  "EVSE_OCPP_GetStringFromState st = ocppConnectionStateString st"

definition EVSE_OCPP_GetConnectionState :: "ocpp \<Rightarrow> ocppConnectionState_t" where
  "EVSE_OCPP_GetConnectionState s = s_ocppConnectionState s"

definition EVSE_OCPP_GetTelemetryCount :: "ocpp \<Rightarrow> u32" where
  "EVSE_OCPP_GetTelemetryCount s = ocppTelemetryCounter s"

definition EVSE_OCPP_GetDisplayMessageString :: "ocpp \<Rightarrow> string option" where
  "EVSE_OCPP_GetDisplayMessageString s =
     (if ocppDisplayMessagesStr s = [] then None else Some (ocppDisplayMessagesStr s ! 0))"

text \<open>The address of the server is a constant of the configuration, an argument here.\<close>

definition EVSE_OCPP_SetNetworkConnectionProfile :: "string \<Rightarrow> ocpp \<Rightarrow> ocpp" where
  "EVSE_OCPP_SetNetworkConnectionProfile url s =
     s\<lparr>ocppConnectionProfile := Some \<lparr>ocppInterface = ''Wireless0'', ocppTransport = ''JSON'', messageTimeout = 30,
         ocppCsmsUrl = url, securityProfile = 1\<rparr>\<rparr>"

definition reset_session_state :: "ocpp \<Rightarrow> ocpp" where
  "reset_session_state s =
     s\<lparr>EV_plugged_in := False, is_EV_authorized := False, session_started := False, last_auth_time := 0\<rparr>"

section \<open>Events\<close>

fun event_code :: "ocpp_events_t \<Rightarrow> u32" where
  "event_code EV_CONNECTED_EVENT = 0x2"
| "event_code EV_AUTH_NEEDED_EVENT = 0x4"
| "event_code EV_AUTHORIZED_EVENT = 0x8"
| "event_code EVSE_CHARGING_STARTED_EVENT = 0x10"
| "event_code EVSE_CHARGING_STOPPED_EVENT = 0x20"
| "event_code EVSE_TELEMETRY_READY_EVENT = 0x40"
| "event_code EV_DISCONNECTED_EVENT = 0x80"
| "event_code EVSE_CHARGING_START_REMOTE_EVENT = 0x100"
| "event_code EVSE_CHARGING_STOP_REMOTE_EVENT = 0x200"
| "event_code EVSE_NETWORK_DOWN_EVENT = 0x400"
| "event_code EVSE_RECONNECT_EVENT = 0x800"

definition EVSE_OCPP_SetEvent :: "ocpp_events_t \<Rightarrow> ocpp \<Rightarrow> ocpp" where
  "EVSE_OCPP_SetEvent event s =
     (if \<not> ocpp_is_init s then s else s\<lparr>ocpp_event_bits := or (ocpp_event_bits s) (event_code event)\<rparr>)"

definition EVSE_OCPP_SetReconnectEvent :: "ocpp \<Rightarrow> ocpp" where
  "EVSE_OCPP_SetReconnectEvent s = EVSE_OCPP_SetEvent EVSE_RECONNECT_EVENT s"

text \<open>
  \<open>OSA_EventWait\<close> with the auto-clearing event group of the task: it returns the flags that are set,
  none when the wait times out, and clears them.
\<close>

definition ocpp_event_wait :: "ocpp \<Rightarrow> u32 \<times> ocpp" where
  "ocpp_event_wait s =
     (and (ocpp_event_bits s) EVSE_OCPP_ALL_EVENTS,
      s\<lparr>ocpp_event_bits := and (ocpp_event_bits s) (not EVSE_OCPP_ALL_EVENTS)\<rparr>)"

definition has_event :: "u32 \<Rightarrow> ocpp_events_t \<Rightarrow> bool" where
  "has_event ocppBits e \<longleftrightarrow> and ocppBits (event_code e) = event_code e"

section \<open>The authorization response\<close>

text \<open>
  \<open>auth_response\<close> is the cell of the caller (\<open>None\<close> a null pointer), \<open>unix_time\<close> what
  \<open>EVSE_Connectivity_GetUnixTime\<close> returns, \<open>s\<close> the state when the wait for the semaphore has ended.
\<close>

definition EVSE_OCPP_GetAuthResponse :: "u32 \<Rightarrow> bool option \<Rightarrow> u32 \<Rightarrow> ocpp \<Rightarrow> bool \<times> bool option \<times> ocpp" where
  "EVSE_OCPP_GetAuthResponse timeout_ms auth_response unix_time s =
     (if \<not> ocpp_is_init s then (False, auth_response, s)
      else if ocpp_sem s
      then (True, map_option (\<lambda>_. is_EV_authorized s) auth_response, s\<lparr>ocpp_sem := False, last_auth_time := 0\<rparr>)
      else (let current_time = unix_time;
                elapsed_time = (if 0 < last_auth_time s then current_time - last_auth_time s else 0)
            in if timeout_ms \<noteq> 0 \<or> EVSE_OCPP_AUTH_TIMEOUT_S < elapsed_time
               then (True, map_option (\<lambda>_. False) auth_response, s\<lparr>last_auth_time := 0\<rparr>)
               else (False, auth_response, s)))"

section \<open>The session identifier\<close>

definition hex_char :: "nat \<Rightarrow> char" where
  "hex_char d = ''0123456789ABCDEF'' ! d"

fun show_hex :: "nat \<Rightarrow> string" where
  "show_hex n = (if n < 16 then [hex_char n] else show_hex (n div 16) @ [hex_char (n mod 16)])"

declare show_hex.simps [simp del]

text \<open>The conversion \<open>%0<width>X\<close>.\<close>

definition pad_hex :: "nat \<Rightarrow> u32 \<Rightarrow> string" where
  "pad_hex width x = (let t = show_hex (unat x) in replicate (width - length t) (CHR ''0'') @ t)"

text \<open>
  \<open>buffer_size\<close> is \<open>None\<close> for a null buffer; the result is the text written, without its terminator,
  or \<open>None\<close> when nothing is written. \<open>snprintf\<close> cuts the text to the buffer.
\<close>

definition EVSE_OCPP_GenerateUUID :: "nat option \<Rightarrow> u32 \<Rightarrow> u32 \<Rightarrow> u32 \<Rightarrow> string option" where
  "EVSE_OCPP_GenerateUUID buffer_size tick random1 random2 =
     (case buffer_size of None \<Rightarrow> None
      | Some n \<Rightarrow>
         (if n < EVSE_OCPP_UUID_STRING_LENGTH then None
          else Some (take (n - 1)
            (pad_hex 8 random1 @ ''-'' @ pad_hex 4 (and (drop_bit 16 random2) 0xFFFF) @ ''-'' @
             pad_hex 4 (and random2 0xFFFF) @ ''-'' @ pad_hex 4 (and (drop_bit 16 tick) 0xFFFF) @ ''-'' @
             pad_hex 8 tick @ pad_hex 4 (and (drop_bit 16 random1) 0xFFFF)))))"

section \<open>Configuration from the CSMS\<close>

definition is_blank :: "char \<Rightarrow> bool" where
  "is_blank c \<longleftrightarrow> c = CHR '' '' \<or> c = CHR 0x09"

definition trim :: "string \<Rightarrow> string" where
  "trim item = (let item = dropWhile is_blank item in rev (dropWhile is_blank (rev item)))"

lemma length_after_comma: "dropWhile (\<lambda>c. c \<noteq> CHR '','') s = d # rest \<Longrightarrow> length rest < length s"
  using length_dropWhile_le[of "\<lambda>c. c \<noteq> CHR '','' " s] by simp

text \<open>The loop over the commas; \<open>s\<close> is the list from the position \<open>start\<close> on.\<close>

function extract_loop :: "string \<Rightarrow> string list \<Rightarrow> string list" where
  "extract_loop s points =
     (case dropWhile (\<lambda>c. c \<noteq> CHR '','') s of
        [] \<Rightarrow> (let last_item = trim s in if last_item \<noteq> [] then points @ [last_item] else points)
      | _ # rest \<Rightarrow>
          (let item = trim (takeWhile (\<lambda>c. c \<noteq> CHR '','') s)
           in extract_loop rest (if item \<noteq> [] then points @ [item] else points)))"
  by auto
termination by (relation "measure (\<lambda>(s, _). length s)") (auto simp: length_after_comma)

declare extract_loop.simps [simp del]

definition extractStartStopPoints :: "string \<Rightarrow> string list" where
  "extractStartStopPoints point_list = (if point_list = [] then [] else extract_loop point_list [])"

definition get_tx_start_stop_enum :: "string \<Rightarrow> TxStartStopPoint" where
  "get_tx_start_stop_enum p =
     (if p = ''ParkingBayOccupancy'' then ParkingBayOccupancy
      else if p = ''EVConnected'' then EVConnected
      else if p = ''Authorized'' then Authorized
      else if p = ''PowerPathClosed'' then PowerPathClosed
      else if p = ''EnergyTransfer'' then EnergyTransfer
      else if p = ''DataSigned'' then DataSigned
      else PowerPathClosed)"

text \<open>
  \<open>std::stoi\<close>: blanks, a sign and digits; no digit is an \<open>invalid_argument\<close>, a value that is not an
  \<open>int\<close> is an \<open>out_of_range\<close>.
\<close>

definition is_digit :: "char \<Rightarrow> bool" where
  "is_digit c \<longleftrightarrow> 48 \<le> (of_char c :: nat) \<and> (of_char c :: nat) \<le> 57"

definition digits_value :: "string \<Rightarrow> int" where
  "digits_value ds = foldl (\<lambda>v c. 10 * v + (of_char c - 48)) 0 ds"

definition stoi :: "string \<Rightarrow> int or_error" where
  "stoi s =
     (let s = dropWhile (\<lambda>c. (of_char c :: nat) \<in> {32, 9, 10, 11, 12, 13}) s;
          negative = (s \<noteq> [] \<and> hd s = CHR ''-'');
          s = (if s \<noteq> [] \<and> (hd s = CHR ''-'' \<or> hd s = CHR ''+'') then tl s else s);
          ds = takeWhile is_digit s
      in if ds = [] then Inl (Invalid_argument ''stoi'')
         else (let v = (if negative then - digits_value ds else digits_value ds)
               in if v < - (2 ^ 31) \<or> 2 ^ 31 \<le> v then Inl (Out_of_range ''stoi'') else Inr v))"

text \<open>\<open>ocpp::conversions::string_to_bool\<close> of \<open>ocpp/common/types.cpp\<close>.\<close>

definition to_lower :: "char \<Rightarrow> char" where
  "to_lower c = (if 65 \<le> (of_char c :: nat) \<and> (of_char c :: nat) \<le> 90 then char_of ((of_char c :: nat) + 32) else c)"

definition string_to_bool :: "string \<Rightarrow> bool" where
  "string_to_bool s \<longleftrightarrow> map to_lower s = ''true''"

end
