(* ===== verification/Ocpp_Task.thy ===== *)
theory Ocpp_Task
  imports Ocpp_State
begin

text \<open>
  \<open>ocpp_task\<close> of \<open>source/EVSE_Ocpp.cpp\<close>: one pass of its loop, branch by branch, and its start. The
  task has no handler for exceptions, so an error of the transaction handler or a null dereference
  ends the program: a pass is a value of \<open>or_error\<close>. The set-up of the library's objects (device
  model, database, security configuration) before the loop is not modelled.
\<close>

text \<open>
  What a pass reads from outside: the clocks (\<open>time_now\<close> is \<open>ocpp::DateTime()\<close>, \<open>rfc3339_now\<close> its text),
  the random numbers, and what the charging protocol and the metrology return.
\<close>

record ocpp_env =
  unix_time :: u32
  tick_count :: u32
  random_1 :: u32
  random_2 :: u32
  time_now :: DateTime
  rfc3339_now :: string
  vehicle_values :: "vehicle_data_t option"
  read_urms :: phase_data
  read_irms :: phase_data
  read_power :: phase_data
  read_direction :: charging_directions_t

text \<open>No NFC reader and no ISO 15118 in this build: the token is a constant.\<close>

definition prvEVSE_OCPP_GetLocalAuthorizationToken :: "IdToken option" where
  "prvEVSE_OCPP_GetLocalAuthorizationToken = Some \<lparr>idToken = ''AUTH_FROM_CLI'', id_type = ''Local''\<rparr>"

section \<open>Transactions\<close>

text \<open>
  The handler is the object the caller passes, and is written back to its place. The error of a null
  pointer in the first branch is the exception of the code; the timestamp of a default constructed
  meter value is the present time.
\<close>

definition process_tx_event_effect ::
    "ocpp_env \<Rightarrow> int \<Rightarrow> TxEventEffect \<Rightarrow> TransactionHandler \<Rightarrow> ocpp \<Rightarrow> (TransactionHandler \<times> ocpp) or_error" where
  "process_tx_event_effect e evse_id tx_event_effect h s =
     (if tx_event_effect = TxEventEffect_NONE then Inr (h, s)
      else and_then_ok (get_transaction_data evse_id h) (\<lambda>transaction_data.
        case transaction_data of
          None \<Rightarrow> Inl (Runtime_error ''Could not start transaction because no transaction data is present'')
        | Some d \<Rightarrow>
           (if tx_event_effect = START_TRANSACTION
            then (let mv = to_ocpp_meter_value (time_now e) (ocppCurrentPowerData s) Transaction_Begin None;
                      h = write_transaction_data evse_id (\<lambda>d. d\<lparr>started := True, meter_value := mv\<rparr>) h
                  in Inr (h, ocpp_do (On_transaction_started evse_id (connector_id d) (session_id d) (time_now e)
                                        (trigger_reason d) mv (charging_state d)) s))
            else (let mv = to_ocpp_meter_value (time_now e) (ocppCurrentPowerData s) Transaction_End None;
                      h = write_transaction_data evse_id (\<lambda>d. d\<lparr>meter_value := mv\<rparr>) h;
                      s = ocpp_do (On_transaction_finished evse_id (time_now e) mv (stop_reason d)
                                     (trigger_reason d) (charging_state d)) s
                  in and_then_ok (reset_transaction_data evse_id h) (\<lambda>h. Inr (h, s))))))"

definition process_charging_started ::
    "ocpp_env \<Rightarrow> int \<Rightarrow> int \<Rightarrow> bool \<Rightarrow> TransactionHandler \<Rightarrow> ocpp \<Rightarrow> (TransactionHandler \<times> ocpp) or_error" where
  "process_charging_started e evse_id connector remote_start h s =
     and_then_ok (get_transaction_data evse_id h) (\<lambda>_.
       let h = write_transaction_data evse_id (\<lambda>d. d\<lparr>charging_state := ChargingState_Charging,
                 trigger_reason := (if remote_start then Trigger_RemoteStart else Trigger_ChargingStateChanged)\<rparr>) h
       in and_then_ok (submit_event evse_id ENERGY_TRANSFER_STARTED h) (\<lambda>(tx_event_effect, h).
          and_then_ok (process_tx_event_effect e evse_id tx_event_effect h s) (\<lambda>(h, s).
          Inr (h, ocpp_do (On_charging_state_changed evse_id ChargingState_Charging) s))))"

text \<open>
  The last statement of the code reads the charging state through the local pointer, which is null
  when there was no transaction data; the pointer keeps the object alive when the transaction ends,
  and the functions in between do not change its charging state.
\<close>

definition process_charging_ended ::
    "ocpp_env \<Rightarrow> int \<Rightarrow> int \<Rightarrow> TransactionHandler \<Rightarrow> bool \<Rightarrow> ocpp \<Rightarrow> (TransactionHandler \<times> ocpp) or_error" where
  "process_charging_ended e evse_id connector h remote_stop s =
     and_then_ok (get_transaction_data evse_id h) (\<lambda>transaction_data.
       let upd = (\<lambda>d. d\<lparr>trigger_reason := (if remote_stop then Trigger_RemoteStop else Trigger_StopAuthorized),
                        charging_state := ChargingState_EVConnected\<rparr>);
           h = write_transaction_data evse_id upd h
       in and_then_ok (submit_event evse_id ENERGY_TRANSFER_STOPPED h) (\<lambda>(tx_event_effect, h).
          and_then_ok (process_tx_event_effect e evse_id tx_event_effect h s) (\<lambda>(h, s).
          case transaction_data of
            None \<Rightarrow> Inl Null_dereference
          | Some d \<Rightarrow> Inr (h, ocpp_do (On_charging_state_changed evse_id (charging_state (upd d))) s))))"

section \<open>The branches of the loop\<close>

definition ocpp_start_points :: "TxStartStopPoint set" where
  "ocpp_start_points = {EVConnected, Authorized}"

definition ocpp_stop_points :: "TxStartStopPoint set" where
  "ocpp_stop_points = {PowerPathClosed}"

definition with_handler :: "(TransactionHandler \<times> ocpp) or_error \<Rightarrow> ocpp or_error" where
  "with_handler r = and_then_ok r (\<lambda>(h, s). Inr (s\<lparr>transactionHandler := Some h\<rparr>))"

text \<open>\<open>operator new\<close> does not return null here: without memory it throws, which is not modelled.\<close>

definition on_ev_connected :: "ocpp_env \<Rightarrow> ocpp \<Rightarrow> ocpp or_error" where
  "on_ev_connected e s =
     (let session = (case EVSE_OCPP_GenerateUUID (Some EVSE_OCPP_SESSION_ID_MAX) (tick_count e) (random_1 e) (random_2 e) of
                       None \<Rightarrow> [] | Some t \<Rightarrow> t)
      in if transactionHandler s = None
         then and_then_ok (new_TransactionHandler 1 ocpp_start_points ocpp_stop_points) (\<lambda>h.
              let d = new_TransactionData EVSE_CONNECTOR_ID session (time_now e) Trigger_CablePluggedIn ChargingState_EVConnected
                        \<lparr>mv_sampledValue = [], mv_timestamp = time_now e\<rparr>
              in and_then_ok (add_transaction_data EVSE_ID (Some d) h) (\<lambda>h.
                 and_then_ok (submit_event EVSE_ID EV_CONNECTED h) (\<lambda>(tx_event_effect, h).
                 let s = s\<lparr>ocppCurrentPowerData := prvEVSE_OCPP_InitCurrentPowerData (rfc3339_now e) (ocppCurrentPowerData s)\<rparr>
                 in and_then_ok (with_handler (process_tx_event_effect e EVSE_ID tx_event_effect h s)) (\<lambda>s.
                    Inr ((ocpp_do (On_session_started EVSE_ID EVSE_CONNECTOR_ID) s)\<lparr>EV_plugged_in := True\<rparr>)))))
         else Inr s)"

definition on_auth_needed :: "ocpp_env \<Rightarrow> ocpp \<Rightarrow> ocpp or_error" where
  "on_auth_needed e s =
     (if EV_plugged_in s
      then (case prvEVSE_OCPP_GetLocalAuthorizationToken of
              Some token \<Rightarrow> Inr ((ocpp_do (On_authorized EVSE_ID EVSE_CONNECTOR_ID token) s)\<lparr>last_auth_time := unix_time e\<rparr>)
            | None \<Rightarrow> Inr s)
      else Inr s)"

definition on_ev_authorized :: "ocpp \<Rightarrow> ocpp or_error" where
  "on_ev_authorized s =
     (case transactionHandler s of
        None \<Rightarrow> Inr s
      | Some h \<Rightarrow>
          (let tx_event = (if is_EV_authorized s then AUTHORIZED else DEAUTHORIZED)
           in and_then_ok (submit_event EVSE_ID tx_event h) (\<lambda>(_, h). Inr (s\<lparr>transactionHandler := Some h\<rparr>))))"

definition on_charging_started :: "ocpp_env \<Rightarrow> ocpp \<Rightarrow> ocpp or_error" where
  "on_charging_started e s =
     (case transactionHandler s of
        None \<Rightarrow> Inr s
      | Some h \<Rightarrow>
          (if EV_plugged_in s
           then and_then_ok (with_handler (process_charging_started e EVSE_ID EVSE_CONNECTOR_ID False h s))
                  (\<lambda>s. Inr (s\<lparr>session_started := True\<rparr>))
           else Inr s))"

definition on_start_remote :: "ocpp_env \<Rightarrow> ocpp \<Rightarrow> ocpp or_error" where
  "on_start_remote e s =
     (case transactionHandler s of
        None \<Rightarrow> Inr s
      | Some h \<Rightarrow>
          with_handler (process_charging_started e EVSE_ID EVSE_CONNECTOR_ID True h (ocpp_do Protocol_StartCharging s)))"

definition on_telemetry_ready :: "ocpp_env \<Rightarrow> ocpp \<Rightarrow> ocpp or_error" where
  "on_telemetry_ready e s =
     (if EV_plugged_in s \<and> is_EV_authorized s
      then (let s = s\<lparr>ocppCurrentPowerData := EVSE_VehicleData_to_OcppData (rfc3339_now e) (vehicle_values e) (read_urms e)
                        (read_irms e) (read_power e) (read_direction e) (ocppCurrentPowerData s)\<rparr>;
                mv = to_ocpp_meter_value (time_now e) (ocppCurrentPowerData s) Sample_Periodic None
            in Inr (ocpp_do (On_meter_value EVSE_ID mv) s))
      else Inr s)"

definition on_charging_stopped :: "ocpp_env \<Rightarrow> ocpp \<Rightarrow> ocpp or_error" where
  "on_charging_stopped e s =
     (case transactionHandler s of
        None \<Rightarrow> Inr s
      | Some h \<Rightarrow>
          (if EV_plugged_in s \<and> session_started s
           then and_then_ok (with_handler (process_charging_ended e EVSE_ID EVSE_CONNECTOR_ID h False s))
                  (\<lambda>s. Inr (s\<lparr>session_started := False\<rparr>))
           else Inr s))"

definition on_stop_remote :: "ocpp_env \<Rightarrow> ocpp \<Rightarrow> ocpp or_error" where
  "on_stop_remote e s =
     (case transactionHandler s of
        None \<Rightarrow> Inr s
      | Some h \<Rightarrow>
          with_handler (process_charging_ended e EVSE_ID EVSE_CONNECTOR_ID h True (ocpp_do Protocol_StopCharging s)))"

definition on_ev_disconnected :: "ocpp_env \<Rightarrow> ocpp \<Rightarrow> ocpp or_error" where
  "on_ev_disconnected e s =
     (case transactionHandler s of
        None \<Rightarrow> Inr (reset_session_state s)
      | Some h \<Rightarrow>
          (if EV_plugged_in s
           then and_then_ok (get_transaction_data EVSE_ID h) (\<lambda>_.
                let h = write_transaction_data EVSE_ID (\<lambda>d. d\<lparr>charging_state := ChargingState_Idle,
                          stop_reason := Reason_EVDisconnected, trigger_reason := Trigger_EVCommunicationLost\<rparr>) h
                in and_then_ok (submit_event EVSE_ID DEAUTHORIZED h) (\<lambda>(_, h).
                   and_then_ok (submit_event EVSE_ID EV_DISCONNECTED h) (\<lambda>(tx_event_effect, h).
                   and_then_ok (process_tx_event_effect e EVSE_ID tx_event_effect h s) (\<lambda>(_, s).
                   Inr (reset_session_state
                     ((ocpp_do (On_session_finished EVSE_ID EVSE_CONNECTOR_ID) s)\<lparr>transactionHandler := None\<rparr>))))))
           else Inr s))"

definition on_network_down :: "ocpp \<Rightarrow> ocpp or_error" where
  "on_network_down s =
     (if \<not> disconnect_requested s
      then Inr ((ocpp_do On_network_disconnected s)\<lparr>disconnect_requested := True\<rparr>)
      else Inr s)"

section \<open>One pass\<close>

definition when_event :: "u32 \<Rightarrow> ocpp_events_t \<Rightarrow> (ocpp \<Rightarrow> ocpp or_error) \<Rightarrow> ocpp \<Rightarrow> ocpp or_error" where
  "when_event ocppBits ev f s = (if has_event ocppBits ev then f s else Inr s)"

definition connected_pass :: "ocpp_env \<Rightarrow> u32 \<Rightarrow> ocpp \<Rightarrow> ocpp or_error" where
  "connected_pass e ocppBits s =
     and_then_ok (when_event ocppBits EV_CONNECTED_EVENT (on_ev_connected e) s) (\<lambda>s.
     and_then_ok (when_event ocppBits EV_AUTH_NEEDED_EVENT (on_auth_needed e) s) (\<lambda>s.
     and_then_ok (when_event ocppBits EV_AUTHORIZED_EVENT on_ev_authorized s) (\<lambda>s.
     and_then_ok (when_event ocppBits EVSE_CHARGING_STARTED_EVENT (on_charging_started e) s) (\<lambda>s.
     and_then_ok (when_event ocppBits EVSE_CHARGING_START_REMOTE_EVENT (on_start_remote e) s) (\<lambda>s.
     and_then_ok (when_event ocppBits EVSE_TELEMETRY_READY_EVENT (on_telemetry_ready e) s) (\<lambda>s.
     and_then_ok (when_event ocppBits EVSE_CHARGING_STOPPED_EVENT (on_charging_stopped e) s) (\<lambda>s.
     and_then_ok (when_event ocppBits EVSE_CHARGING_STOP_REMOTE_EVENT (on_stop_remote e) s) (\<lambda>s.
     and_then_ok (when_event ocppBits EV_DISCONNECTED_EVENT (on_ev_disconnected e) s) (\<lambda>s.
     when_event ocppBits EVSE_NETWORK_DOWN_EVENT on_network_down s)))))))))"

definition disconnected_pass :: "u32 \<Rightarrow> ocpp \<Rightarrow> ocpp" where
  "disconnected_pass ocppBits s =
     (if has_event ocppBits EVSE_RECONNECT_EVENT \<and> ocpp_reconnection_attempts s \<le> EVSE_OCPP_MAX_RECONNECTS
      then (if ocpp_reconnection_attempts s = EVSE_OCPP_MAX_RECONNECTS
            then (ocpp_do Charge_point_stop s)\<lparr>ocpp_task_left_loop := True\<rparr>
            else (ocpp_do (Connect_websocket (Some 1)) s)\<lparr>ocpp_reconnection_attempts := ocpp_reconnection_attempts s + 1\<rparr>)
      else s)"

definition ocpp_pass :: "ocpp_env \<Rightarrow> ocpp \<Rightarrow> ocpp or_error" where
  "ocpp_pass e s =
     (if ocpp_task_left_loop s then Inr s
      else (let (ocppBits, s) = ocpp_event_wait s
            in if s_ocppConnectionState s = EVSE_Ocpp_Connected then connected_pass e ocppBits s
               else Inr (disconnected_pass ocppBits s)))"

section \<open>Start\<close>

text \<open>The task up to its loop.\<close>

definition ocpp_task_start :: "string \<Rightarrow> ocpp \<Rightarrow> ocpp" where
  "ocpp_task_start url s =
     (let s = EVSE_OCPP_SetNetworkConnectionProfile url s
      in ocpp_do (Connect_websocket None) (ocpp_do Charge_point_start s))"

text \<open>\<open>None\<close>: one of the endless loops of a failed creation.\<close>

definition EVSE_OCPP_Init :: "bool \<Rightarrow> bool \<Rightarrow> bool \<Rightarrow> ocpp \<Rightarrow> ocpp option" where
  "EVSE_OCPP_Init event_ok sem_ok task_ok s =
     (if ocpp_is_init s then Some s
      else if \<not> event_ok then None
      else if \<not> sem_ok then None
      else if \<not> task_ok then None
      else Some (s\<lparr>ocpp_event_bits := 0, ocpp_sem := False, ocpp_is_init := True\<rparr>))"

end
