(* ===== verification/Ocpp_Callbacks.thy ===== *)
theory Ocpp_Callbacks
  imports Ocpp_State
begin

text \<open>
  The callbacks of \<open>source/EVSE_Ocpp.cpp\<close> that the OCPP library calls with the requests and answers of
  the CSMS. The callbacks that only print are left out. Of the components a variable can belong
  to, those the code names are constructors, the others are numbered.
\<close>

datatype RequestStartStopStatusEnum = Request_Accepted | Request_Rejected

datatype ResetEnum = Reset_Immediate | Reset_OnIdle | Reset_ImmediateAndResume

datatype RegistrationStatusEnum = Registration_Accepted | Registration_Pending | Registration_Rejected

datatype TransactionEventEnum = Event_Ended | Event_Started | Event_Updated

datatype AuthorizationStatusEnum =
    Auth_Accepted | Auth_Blocked | Auth_ConcurrentTx | Auth_Expired | Auth_Invalid | Auth_NoCredit
  | Auth_NotAllowedTypeEVSE | Auth_NotAtThisLocation | Auth_NotAtThisTime | Auth_Unknown

datatype RunningCostState = Cost_Charging | Cost_Idle | Cost_Finished

datatype MessagePriorityEnum = AlwaysFront | InFront | NormalCycle

datatype DisplayMessageStatusEnum =
    Display_Accepted | Display_NotSupportedMessageFormat | Display_Rejected | Display_NotSupportedPriority
  | Display_NotSupportedState | Display_UnknownTransaction | Display_LanguageNotSupported

text \<open>The members of the messages the callbacks read.\<close>

record TransactionEventRequest =
  eventType :: TransactionEventEnum
  triggerReason :: TriggerReasonEnum

record TransactionEventResponse =
  response_totalCost :: "cfloat option"
  idTokenInfo :: "AuthorizationStatusEnum option"

record DisplayMessage =
  priority :: "MessagePriorityEnum option"
  timestamp_from :: "DateTime option"
  timestamp_to :: "DateTime option"
  message_content :: string

datatype ctrlr_component = TxCtrlr | AuthCtrlr | ISO15118Ctrlr | Component_other nat

record SetVariableData =
  component_name :: ctrlr_component
  variable_name :: string
  attributeValue :: string

section \<open>Requests\<close>

definition OCPP_IsResetAllowed_Cb :: "int option \<Rightarrow> ResetEnum \<Rightarrow> bool" where
  "OCPP_IsResetAllowed_Cb evse_id reset_type =
     (if evse_id \<noteq> None then reset_type = Reset_OnIdle else reset_type = Reset_Immediate)"

definition OCPP_StopTransaction_Cb :: "int \<Rightarrow> ReasonEnum \<Rightarrow> ocpp \<Rightarrow> RequestStartStopStatusEnum \<times> ocpp" where
  "OCPP_StopTransaction_Cb evse_id reason s =
     (if evse_id \<noteq> EVSE_ID then (Request_Rejected, s)
      else if reason = Reason_Remote
      then (Request_Accepted, EVSE_OCPP_SetEvent EVSE_CHARGING_STOP_REMOTE_EVENT s)
      else (Request_Accepted, s))"

text \<open>\<open>evseId\<close> is the optional member of the request.\<close>

definition OCPP_RemoteStartTransaction_Cb :: "int option \<Rightarrow> bool \<Rightarrow> ocpp \<Rightarrow> RequestStartStopStatusEnum \<times> ocpp" where
  "OCPP_RemoteStartTransaction_Cb evseId authorize_remote_start s =
     (if (case evseId of None \<Rightarrow> False | Some i \<Rightarrow> i \<noteq> EVSE_ID) then (Request_Rejected, s)
      else if \<not> EV_plugged_in s then (Request_Rejected, s)
      else if authorize_remote_start then (Request_Accepted, s)
      else (Request_Accepted, EVSE_OCPP_SetEvent EVSE_CHARGING_START_REMOTE_EVENT s))"

text \<open>The lists of start and stop points are parsed and dropped.\<close>

definition OCPP_VariableChanged_Cb :: "SetVariableData \<Rightarrow> ocpp \<Rightarrow> ocpp or_error" where
  "OCPP_VariableChanged_Cb d s =
     (if component_name d = TxCtrlr
      then (if variable_name d = ''EVConnectionTimeOut''
            then and_then_ok (stoi (attributeValue d)) (\<lambda>v. Inr (s\<lparr>ev_connection_timeout := v\<rparr>))
            else if variable_name d = ''TxStartPoint''
            then (let _ = extractStartStopPoints (attributeValue d) in Inr s)
            else if variable_name d = ''TxStopPoint''
            then (let _ = extractStartStopPoints (attributeValue d) in Inr s)
            else Inr s)
      else if component_name d = ISO15118Ctrlr
      then (if variable_name d = ''PnCEnabled''
            then Inr (s\<lparr>iso15118_pnc_enabled := string_to_bool (attributeValue d)\<rparr>)
            else Inr s)
      else Inr s)"

section \<open>Answers and reports\<close>

definition OCPP_BootNotification_Cb :: "RegistrationStatusEnum \<Rightarrow> int \<Rightarrow> ocpp \<Rightarrow> ocpp" where
  "OCPP_BootNotification_Cb status interval s =
     (if status = Registration_Accepted
      then (prvEVSE_OCPP_SetConnectionState EVSE_Ocpp_Connected s)
             \<lparr>ocppHeartbeatInterval := interval, disconnect_requested := False, ocpp_reconnection_attempts := 0\<rparr>
      else s)"

definition OCPP_TransactionEventResponse_Cb :: "TransactionEventRequest \<Rightarrow> TransactionEventResponse \<Rightarrow> ocpp \<Rightarrow> ocpp" where
  "OCPP_TransactionEventResponse_Cb transaction_event transaction_event_response s =
     (let s = (if eventType transaction_event = Event_Updated \<and>
                  triggerReason transaction_event = Trigger_MeterValuePeriodic
               then s\<lparr>ocppTelemetryCounter := ocppTelemetryCounter s + 1\<rparr>
               else if eventType transaction_event = Event_Ended
               then (case response_totalCost transaction_event_response of
                       None \<Rightarrow> s | Some c \<Rightarrow> s\<lparr>totalCost := c\<rparr>)
               else s)
      in case idTokenInfo transaction_event_response of
           None \<Rightarrow> s
         | Some validation_result \<Rightarrow>
             EVSE_OCPP_SetEvent EV_AUTHORIZED_EVENT
               (s\<lparr>is_EV_authorized := (validation_result = Auth_Accepted), ocpp_sem := True\<rparr>))"

text \<open>The double of the cost is converted to the float \<open>totalCost\<close>.\<close>

definition OCPP_SetRunningCost_Cb :: "RunningCostState \<Rightarrow> cfloat \<Rightarrow> ocpp \<Rightarrow> ocpp" where
  "OCPP_SetRunningCost_Cb st cost s =
     (if st = Cost_Charging \<or> st = Cost_Idle then s else s\<lparr>totalCost := fl_conv f32 cost\<rparr>)\<lparr>runningCost := cost\<rparr>"

definition OCPP_ConnectionStateChanged_Cb :: "bool \<Rightarrow> ocpp \<Rightarrow> ocpp" where
  "OCPP_ConnectionStateChanged_Cb is_connected s =
     (if \<not> is_connected then prvEVSE_OCPP_SetConnectionState EVSE_Ocpp_NotConnected s
      else (prvEVSE_OCPP_SetConnectionState EVSE_Ocpp_Connected s)
             \<lparr>disconnect_requested := False, ocpp_reconnection_attempts := 0\<rparr>)"

text \<open>One turn of the loop over the messages; \<open>valid_message\<close> lives across the turns, as in the code.\<close>

definition message_in_time :: "DateTime \<Rightarrow> DisplayMessage \<Rightarrow> bool" where
  "message_in_time now_time m \<longleftrightarrow>
     \<not> ((case timestamp_from m of None \<Rightarrow> False | Some t \<Rightarrow> now_time < t) \<or>
        (case timestamp_to m of None \<Rightarrow> False | Some t \<Rightarrow> t < now_time))"

fun display_loop :: "DateTime \<Rightarrow> DisplayMessage list \<Rightarrow> bool \<Rightarrow> DisplayMessageStatusEnum \<Rightarrow> ocpp \<Rightarrow> DisplayMessageStatusEnum \<times> ocpp" where
  "display_loop now_time [] valid_message status s = (status, s)"
| "display_loop now_time (m # ms) valid_message status s =
     (let valid_message = (if \<not> message_in_time now_time m then False else valid_message)
      in if valid_message
         then display_loop now_time ms valid_message status
                (case priority m of
                   None \<Rightarrow> s
                 | Some p \<Rightarrow> (if p = AlwaysFront
                              then s\<lparr>ocppDisplayMessagesStr := ocppDisplayMessagesStr s @ [message_content m]\<rparr> else s))
         else display_loop now_time ms valid_message Display_Rejected s)"

text \<open>The present time is read for every message; it is one argument here.\<close>

definition OCPP_SetDisplayMessage_Cb :: "DateTime \<Rightarrow> DisplayMessage list \<Rightarrow> ocpp \<Rightarrow> DisplayMessageStatusEnum \<times> ocpp" where
  "OCPP_SetDisplayMessage_Cb now_time display_messages s = display_loop now_time display_messages True Display_Accepted s"

end
