(* ===== verification/Ocpp_Session.thy ===== *)
theory Ocpp_Session
  imports Ocpp_Task Ocpp_Callbacks
begin

text \<open>
  What the OCPP task does with a charging session. The abstract machine \<open>view_pass\<close> knows of a session
  only whether its transaction runs, whether the handler holds it for authorized and whether it
  charges; every pass of the task is a step of it, and fails exactly when it does. The calls the task
  makes on the charge point follow the protocol \<open>monitor\<close>: a session with one transaction.
\<close>

section \<open>The abstract session\<close>

record session =
  tx_running :: bool
  tx_authorized :: bool
  charging :: bool

record session_view =
  answer :: bool
  session :: "session option"

definition view_connected :: "session_view \<Rightarrow> session_view" where
  "view_connected v = (case session v of
     None \<Rightarrow> v\<lparr>session := Some \<lparr>tx_running = True, tx_authorized = False, charging = False\<rparr>\<rparr> | Some _ \<Rightarrow> v)"

definition view_authorized :: "session_view \<Rightarrow> session_view" where
  "view_authorized v = v\<lparr>session := map_option (\<lambda>x. x\<lparr>tx_authorized := answer v\<rparr>) (session v)\<rparr>"

definition view_started :: "bool \<Rightarrow> session_view \<Rightarrow> session_view" where
  "view_started remote v = v\<lparr>session := map_option (\<lambda>x. x\<lparr>tx_running := tx_running x \<and> tx_authorized x,
     charging := \<not> remote \<or> charging x\<rparr>) (session v)\<rparr>"

text \<open>The end of charging; \<open>None\<close> is the null dereference of a session without transaction.\<close>

definition view_stopped :: "bool \<Rightarrow> session_view \<Rightarrow> session_view option" where
  "view_stopped remote v =
     (case session v of
        None \<Rightarrow> Some v
      | Some x \<Rightarrow>
          (if \<not> remote \<and> \<not> charging x then Some v
           else if \<not> tx_running x then None
           else Some (v\<lparr>session := Some (x\<lparr>tx_running := tx_authorized x, charging := remote \<and> charging x\<rparr>)\<rparr>)))"

definition view_disconnected :: "session_view \<Rightarrow> session_view" where
  "view_disconnected v = \<lparr>answer = False, session = None\<rparr>"

definition view_when :: "u32 \<Rightarrow> ocpp_events_t \<Rightarrow> (session_view \<Rightarrow> session_view option) \<Rightarrow> session_view \<Rightarrow> session_view option" where
  "view_when ocppBits ev f v = (if has_event ocppBits ev then f v else Some v)"

definition view_pass :: "u32 \<Rightarrow> session_view \<Rightarrow> session_view option" where
  "view_pass ocppBits v =
     Option.bind (view_when ocppBits EV_CONNECTED_EVENT (Some \<circ> view_connected) v) (\<lambda>v.
     Option.bind (view_when ocppBits EV_AUTHORIZED_EVENT (Some \<circ> view_authorized) v) (\<lambda>v.
     Option.bind (view_when ocppBits EVSE_CHARGING_STARTED_EVENT (Some \<circ> view_started False) v) (\<lambda>v.
     Option.bind (view_when ocppBits EVSE_CHARGING_START_REMOTE_EVENT (Some \<circ> view_started True) v) (\<lambda>v.
     Option.bind (view_when ocppBits EVSE_CHARGING_STOPPED_EVENT (view_stopped False) v) (\<lambda>v.
     Option.bind (view_when ocppBits EVSE_CHARGING_STOP_REMOTE_EVENT (view_stopped True) v) (\<lambda>v.
     view_when ocppBits EV_DISCONNECTED_EVENT (Some \<circ> view_disconnected) v))))))"

section \<open>The protocol of the calls\<close>

datatype session_phase = No_session | Starting | In_transaction | After_transaction

fun monitor :: "session_phase \<Rightarrow> ocpp_call \<Rightarrow> session_phase option" where
  "monitor No_session (On_transaction_started _ _ _ _ _ _ _) = Some Starting"
| "monitor Starting (On_session_started _ _) = Some In_transaction"
| "monitor In_transaction (On_transaction_finished _ _ _ _ _ _) = Some After_transaction"
| "monitor After_transaction (On_session_finished _ _) = Some No_session"
| "monitor ph (On_charging_state_changed _ _) = (if ph \<in> {In_transaction, After_transaction} then Some ph else None)"
| "monitor ph (On_authorized _ _ _) = (if ph \<in> {In_transaction, After_transaction} then Some ph else None)"
| "monitor ph (On_meter_value _ _) = (if ph \<in> {In_transaction, After_transaction} then Some ph else None)"
| "monitor ph Protocol_StartCharging = (if ph \<in> {In_transaction, After_transaction} then Some ph else None)"
| "monitor ph Protocol_StopCharging = (if ph \<in> {In_transaction, After_transaction} then Some ph else None)"
| "monitor ph On_network_disconnected = (if ph \<noteq> Starting then Some ph else None)"
| "monitor ph Charge_point_start = (if ph \<noteq> Starting then Some ph else None)"
| "monitor ph Charge_point_stop = (if ph \<noteq> Starting then Some ph else None)"
| "monitor ph (Connect_websocket _) = (if ph \<noteq> Starting then Some ph else None)"
| "monitor _ _ = None"

fun monitor_run :: "session_phase \<Rightarrow> ocpp_call list \<Rightarrow> session_phase option" where
  "monitor_run ph [] = Some ph"
| "monitor_run ph (c # cs) = (case monitor ph c of None \<Rightarrow> None | Some ph' \<Rightarrow> monitor_run ph' cs)"

lemma monitor_run_append [simp]:
  "monitor_run ph (cs @ ds) = Option.bind (monitor_run ph cs) (\<lambda>ph'. monitor_run ph' ds)"
  by (induction ph cs rule: monitor_run.induct) (auto split: option.split)

definition view_phase :: "session_view \<Rightarrow> session_phase" where
  "view_phase v = (case session v of None \<Rightarrow> No_session
     | Some x \<Rightarrow> (if tx_running x then In_transaction else After_transaction))"

section \<open>The invariant of the task\<close>

definition handler_ok :: "TransactionHandler \<Rightarrow> bool" where
  "handler_ok h \<longleftrightarrow> valid_evse EVSE_ID h \<and> tx_start_points h = ocpp_start_points \<and> tx_stop_points h = ocpp_stop_points \<and>
     is_ev_connected (conditions_of EVSE_ID h) \<and> \<not> is_immediate_reset (conditions_of EVSE_ID h) \<and>
     (case data_of EVSE_ID h of None \<Rightarrow> True | Some d \<Rightarrow> started d)"

definition ocpp_inv :: "ocpp \<Rightarrow> bool" where
  "ocpp_inv s \<longleftrightarrow> EV_plugged_in s = (transactionHandler s \<noteq> None) \<and>
     (case transactionHandler s of None \<Rightarrow> \<not> session_started s | Some h \<Rightarrow> handler_ok h)"

definition ocpp_view :: "ocpp \<Rightarrow> session_view" where
  "ocpp_view s = \<lparr>answer = is_EV_authorized s,
     session = map_option (\<lambda>h. \<lparr>tx_running = (data_of EVSE_ID h \<noteq> None),
        tx_authorized = is_authorized (conditions_of EVSE_ID h), charging = session_started s\<rparr>) (transactionHandler s)\<rparr>"

text \<open>The members a pass leaves alone after it has taken its events.\<close>

definition same_frame :: "ocpp \<Rightarrow> ocpp \<Rightarrow> bool" where
  "same_frame s s' \<longleftrightarrow> s_ocppConnectionState s' = s_ocppConnectionState s \<and> ocpp_sem s' = ocpp_sem s \<and>
     ocpp_event_bits s' = ocpp_event_bits s \<and> ocpp_is_init s' = ocpp_is_init s \<and>
     ocpp_reconnection_attempts s' = ocpp_reconnection_attempts s \<and> ocpp_task_left_loop s' = ocpp_task_left_loop s"

text \<open>\<open>follows s v r\<close>: the result \<open>r\<close> of a part of the pass from \<open>s\<close> is the step \<open>v\<close> of the abstract session.\<close>

definition follows :: "ocpp \<Rightarrow> session_view option \<Rightarrow> ocpp or_error \<Rightarrow> bool" where
  "follows s v r \<longleftrightarrow>
     (case v of None \<Rightarrow> r = Inl Null_dereference
      | Some w \<Rightarrow> \<exists>s' cs. r = Inr s' \<and> ocpp_inv s' \<and> ocpp_view s' = w \<and> same_frame s s' \<and>
                   ocpp_calls s' = ocpp_calls s @ cs \<and>
                   monitor_run (view_phase (ocpp_view s)) cs = Some (view_phase w))"

lemma follows_skip: "ocpp_inv s \<Longrightarrow> v = ocpp_view s \<Longrightarrow> follows s (Some v) (Inr s)"
  by (simp add: follows_def same_frame_def)

lemma follows_bind:
  assumes "follows s v r" and "\<And>s'. ocpp_inv s' \<Longrightarrow> v = Some (ocpp_view s') \<Longrightarrow> follows s' (f (ocpp_view s')) (g s')"
  shows "follows s (Option.bind v f) (and_then_ok r g)"
proof (cases v)
  case None
  then show ?thesis using assms(1) by (simp add: follows_def)
next
  case (Some w)
  then obtain s' cs where s': "r = Inr s'" "ocpp_inv s'" "ocpp_view s' = w" "same_frame s s'"
      "ocpp_calls s' = ocpp_calls s @ cs" "monitor_run (view_phase (ocpp_view s)) cs = Some (view_phase w)"
    using assms(1) by (auto simp: follows_def)
  have "follows s' (f w) (g s')" using assms(2)[of s'] s' Some by simp
  then show ?thesis using s' Some by (auto simp: follows_def same_frame_def split: option.splits)
qed

lemma follows_when:
  "ocpp_inv s \<Longrightarrow> follows s (f (ocpp_view s)) (g s) \<Longrightarrow>
     follows s (view_when b ev f (ocpp_view s)) (when_event b ev g s)"
  by (simp add: view_when_def when_event_def follows_skip)

text \<open>A part of the pass the abstract session does not see.\<close>

lemma follows_quiet:
  assumes "follows s (Some (ocpp_view s)) r" and "\<And>s'. ocpp_inv s' \<Longrightarrow> ocpp_view s' = ocpp_view s \<Longrightarrow> follows s' v (g s')"
  shows "follows s v (and_then_ok r g)"
  using follows_bind[of s "Some (ocpp_view s)" r "\<lambda>_. v" g] assms by auto

section \<open>The branches\<close>

text \<open>What the constant start and stop points make of an event.\<close>

lemma effect_running:
  "tx_effect ocpp_start_points ocpp_stop_points Running c =
     (if is_immediate_reset c \<or> \<not> is_authorized c \<or> \<not> is_ev_connected c then STOP_TRANSACTION else TxEventEffect_NONE)"
  by (simp add: tx_effect_def ocpp_stop_points_def is_stop_condition_fullfilled_def)

lemma effect_waiting:
  "tx_effect ocpp_start_points ocpp_stop_points Waiting c =
     (if is_ev_connected c \<or> is_authorized c then START_TRANSACTION else TxEventEffect_NONE)"
  by (simp add: tx_effect_def ocpp_start_points_def)

lemma effect_none: "tx_effect a b No_transaction c = TxEventEffect_NONE"
  by (simp add: tx_effect_def)

lemma effect_is_start: "tx_effect a b Running c \<noteq> START_TRANSACTION"
  by (simp add: tx_effect_def)

lemmas effect_simps = effect_running effect_waiting effect_none

lemmas handler_simps = submit_abs get_abs reset_abs write_abs

text \<open>The start and the end of charging, on a handler whose transaction runs or has ended.\<close>

lemma started_ended:
  assumes "handler_ok h" "data_of 1 h = None"
  shows "\<exists>h'. process_charging_started e 1 1 remote h s =
      Inr (h', ocpp_do (On_charging_state_changed 1 ChargingState_Charging) s) \<and> handler_ok h' \<and>
      data_of 1 h' = None \<and> is_authorized (conditions_of 1 h') = is_authorized (conditions_of 1 h)"
  using assms by (auto simp: process_charging_started_def handler_ok_def handler_simps phase_of_def effect_none
      process_tx_event_effect_def)

lemma started_running:
  assumes "handler_ok h" "data_of 1 h = Some d" "is_authorized (conditions_of 1 h)"
  shows "\<exists>h'. process_charging_started e 1 1 remote h s =
      Inr (h', ocpp_do (On_charging_state_changed 1 ChargingState_Charging) s) \<and> handler_ok h' \<and>
      data_of 1 h' \<noteq> None \<and> is_authorized (conditions_of 1 h')"
  using assms by (auto simp: process_charging_started_def handler_ok_def handler_simps phase_of_def effect_running
      process_tx_event_effect_def)

definition finished_call :: "ocpp_env \<Rightarrow> ocpp \<Rightarrow> ReasonEnum \<Rightarrow> TriggerReasonEnum \<Rightarrow> ChargingStateEnum \<Rightarrow> ocpp_call" where
  "finished_call e s reason trigger state = On_transaction_finished 1 (time_now e)
     (to_ocpp_meter_value (time_now e) (ocppCurrentPowerData s) Transaction_End None) reason trigger state"

lemma started_unauthorized:
  assumes "handler_ok h" "data_of 1 h = Some d" "\<not> is_authorized (conditions_of 1 h)"
  shows "\<exists>h'. process_charging_started e 1 1 remote h s =
      Inr (h', ocpp_do (On_charging_state_changed 1 ChargingState_Charging)
        (ocpp_do (finished_call e s (stop_reason d)
           (if remote then Trigger_RemoteStart else Trigger_ChargingStateChanged) ChargingState_Charging) s)) \<and>
      handler_ok h' \<and> data_of 1 h' = None \<and> \<not> is_authorized (conditions_of 1 h')"
  using assms by (auto simp: process_charging_started_def handler_ok_def handler_simps phase_of_def effect_running
      process_tx_event_effect_def Let_def finished_call_def)

lemma ended_ended:
  assumes "handler_ok h" "data_of 1 h = None"
  shows "process_charging_ended e 1 1 h remote s = Inl Null_dereference"
  using assms by (auto simp: process_charging_ended_def handler_ok_def handler_simps phase_of_def effect_none
      process_tx_event_effect_def Let_def)

lemma ended_running:
  assumes "handler_ok h" "data_of 1 h = Some d" "is_authorized (conditions_of 1 h)"
  shows "\<exists>h'. process_charging_ended e 1 1 h remote s =
      Inr (h', ocpp_do (On_charging_state_changed 1 ChargingState_EVConnected) s) \<and> handler_ok h' \<and>
      data_of 1 h' \<noteq> None \<and> is_authorized (conditions_of 1 h')"
  using assms by (auto simp: process_charging_ended_def handler_ok_def handler_simps phase_of_def effect_running
      process_tx_event_effect_def Let_def)

lemma ended_unauthorized:
  assumes "handler_ok h" "data_of 1 h = Some d" "\<not> is_authorized (conditions_of 1 h)"
  shows "\<exists>h'. process_charging_ended e 1 1 h remote s =
      Inr (h', ocpp_do (On_charging_state_changed 1 ChargingState_EVConnected)
        (ocpp_do (finished_call e s (stop_reason d)
           (if remote then Trigger_RemoteStop else Trigger_StopAuthorized) ChargingState_EVConnected) s)) \<and>
      handler_ok h' \<and> data_of 1 h' = None \<and> \<not> is_authorized (conditions_of 1 h')"
  using assms by (auto simp: process_charging_ended_def handler_ok_def handler_simps phase_of_def effect_running
      process_tx_event_effect_def Let_def finished_call_def)

text \<open>Members of the state after calls and after a new handler.\<close>

lemma do_calls [simp]: "ocpp_calls (ocpp_do c s) = ocpp_calls s @ [c]"
  by (simp add: ocpp_do_def)

lemma do_frame [simp]:
  "transactionHandler (ocpp_do c s) = transactionHandler s" "EV_plugged_in (ocpp_do c s) = EV_plugged_in s"
  "session_started (ocpp_do c s) = session_started s" "is_EV_authorized (ocpp_do c s) = is_EV_authorized s"
  "same_frame s' (ocpp_do c s) = same_frame s' s" "same_frame (ocpp_do c s) s' = same_frame s s'"
  "disconnect_requested (ocpp_do c s) = disconnect_requested s"
  "ocppCurrentPowerData (ocpp_do c s) = ocppCurrentPowerData s"
  "last_auth_time (ocpp_do c s) = last_auth_time s"
  by (simp_all add: ocpp_do_def same_frame_def)

lemma same_frame_updates [simp]:
  "same_frame s (s'\<lparr>transactionHandler := h\<rparr>) = same_frame s s'"
  "same_frame s (s'\<lparr>session_started := b\<rparr>) = same_frame s s'"
  "same_frame s (s'\<lparr>EV_plugged_in := b\<rparr>) = same_frame s s'"
  "same_frame s (s'\<lparr>last_auth_time := t\<rparr>) = same_frame s s'"
  "same_frame s (s'\<lparr>disconnect_requested := b\<rparr>) = same_frame s s'"
  "same_frame s (s'\<lparr>ocppCurrentPowerData := p\<rparr>) = same_frame s s'"
  "same_frame s (reset_session_state s') = same_frame s s'"
  "same_frame s s"
  by (simp_all add: same_frame_def reset_session_state_def)

lemmas view_simps = ocpp_view_def view_phase_def ocpp_inv_def

lemmas branch_simps = with_handler_def follows_def view_simps view_started_def view_stopped_def finished_call_def

lemma follows_started:
  assumes "ocpp_inv s"
  shows "follows s (Some (view_started False (ocpp_view s))) (on_charging_started e s)"
proof (cases "transactionHandler s")
  case None
  then show ?thesis using assms by (simp add: on_charging_started_def branch_simps)
next
  case (Some h)
  then have h: "handler_ok h" "EV_plugged_in s" using assms by (auto simp: ocpp_inv_def)
  note started_ended[OF h(1), of e False s] started_running[OF h(1), of _ e False s]
    started_unauthorized[OF h(1), of _ e False s]
  then show ?thesis using Some h
    by (cases "data_of 1 h"; cases "is_authorized (conditions_of 1 h)") (auto simp: on_charging_started_def branch_simps)
qed

lemma follows_start_remote:
  assumes "ocpp_inv s"
  shows "follows s (Some (view_started True (ocpp_view s))) (on_start_remote e s)"
proof (cases "transactionHandler s")
  case None
  then show ?thesis using assms by (simp add: on_start_remote_def branch_simps)
next
  case (Some h)
  then have h: "handler_ok h" "EV_plugged_in s" using assms by (auto simp: ocpp_inv_def)
  let ?s = "ocpp_do Protocol_StartCharging s"
  note started_ended[OF h(1), of e True ?s] started_running[OF h(1), of _ e True ?s]
    started_unauthorized[OF h(1), of _ e True ?s]
  then show ?thesis using Some h
    by (cases "data_of 1 h"; cases "is_authorized (conditions_of 1 h)") (auto simp: on_start_remote_def branch_simps)
qed

lemma follows_stopped:
  assumes "ocpp_inv s"
  shows "follows s (view_stopped False (ocpp_view s)) (on_charging_stopped e s)"
proof (cases "transactionHandler s")
  case None
  then show ?thesis using assms by (simp add: on_charging_stopped_def branch_simps)
next
  case (Some h)
  then have h: "handler_ok h" "EV_plugged_in s" using assms by (auto simp: ocpp_inv_def)
  note ended_ended[OF h(1), of e False s] ended_running[OF h(1), of _ e False s]
    ended_unauthorized[OF h(1), of _ e False s]
  then show ?thesis using Some h assms
    by (cases "data_of 1 h"; cases "is_authorized (conditions_of 1 h)"; cases "session_started s")
      (auto simp: on_charging_stopped_def branch_simps)
qed

lemma follows_stop_remote:
  assumes "ocpp_inv s"
  shows "follows s (view_stopped True (ocpp_view s)) (on_stop_remote e s)"
proof (cases "transactionHandler s")
  case None
  then show ?thesis using assms by (simp add: on_stop_remote_def branch_simps)
next
  case (Some h)
  then have h: "handler_ok h" "EV_plugged_in s" using assms by (auto simp: ocpp_inv_def)
  let ?s = "ocpp_do Protocol_StopCharging s"
  note ended_ended[OF h(1), of e True ?s] ended_running[OF h(1), of _ e True ?s]
    ended_unauthorized[OF h(1), of _ e True ?s]
  then show ?thesis using Some h
    by (cases "data_of 1 h"; cases "is_authorized (conditions_of 1 h)") (auto simp: on_stop_remote_def branch_simps)
qed

lemma follows_authorized:
  assumes "ocpp_inv s"
  shows "follows s (Some (view_authorized (ocpp_view s))) (on_ev_authorized s)"
proof (cases "transactionHandler s")
  case None
  then show ?thesis using assms by (simp add: on_ev_authorized_def branch_simps view_authorized_def)
next
  case (Some h)
  then have h: "handler_ok h" "EV_plugged_in s" using assms by (auto simp: ocpp_inv_def)
  then have "valid_evse 1 h" by (simp add: handler_ok_def)
  then show ?thesis using Some h
    by (cases "is_EV_authorized s"; cases "data_of 1 h")
      (auto simp: on_ev_authorized_def Let_def submit_abs branch_simps view_authorized_def handler_ok_def split: if_splits)
qed

lemma follows_connected:
  assumes "ocpp_inv s"
  shows "follows s (Some (view_connected (ocpp_view s))) (on_ev_connected e s)"
proof (cases "transactionHandler s")
  case None
  obtain h0 where h0: "new_TransactionHandler 1 ocpp_start_points ocpp_stop_points = Inr h0"
    by (auto simp: new_TransactionHandler_def ocpp_start_points_def ocpp_stop_points_def)
  note new = new_handler_abs[OF h0, of 1]
  have len: "(1::int) \<le> int (length (tx_start_stop_conditions h0))"
    using h0 by (auto simp: new_handler)
  show ?thesis using None assms new len
    by (auto simp: on_ev_connected_def Let_def h0 add_abs submit_abs phase_of_def new_TransactionData_def effect_waiting
        process_tx_event_effect_def get_abs write_abs TxStartStopConditions_default_def branch_simps view_connected_def
        handler_ok_def)
next
  case (Some h)
  then show ?thesis using assms by (auto simp: on_ev_connected_def branch_simps view_connected_def)
qed

lemma follows_disconnected:
  assumes "ocpp_inv s"
  shows "follows s (Some (view_disconnected (ocpp_view s))) (on_ev_disconnected e s)"
proof (cases "transactionHandler s")
  case None
  then show ?thesis using assms
    by (simp add: on_ev_disconnected_def branch_simps view_disconnected_def) (simp add: reset_session_state_def)
next
  case (Some h)
  then have h: "handler_ok h" "EV_plugged_in s" using assms by (auto simp: ocpp_inv_def)
  then have v: "valid_evse 1 h" by (simp add: handler_ok_def)
  show ?thesis
  proof (cases "data_of 1 h")
    case None
    show ?thesis using Some h v None
      by (simp add: on_ev_disconnected_def Let_def handler_simps phase_of_def effect_none process_tx_event_effect_def
          branch_simps view_disconnected_def) (simp add: reset_session_state_def)
  next
    case (Some d)
    then have "started d" using h by (simp add: handler_ok_def)
    then show ?thesis using \<open>transactionHandler s = Some h\<close> h v Some
      by (simp add: on_ev_disconnected_def Let_def handler_simps phase_of_def effect_running process_tx_event_effect_def
          branch_simps view_disconnected_def handler_ok_def) (simp add: reset_session_state_def)
  qed
qed

lemma follows_auth_needed:
  assumes "ocpp_inv s"
  shows "follows s (Some (ocpp_view s)) (on_auth_needed e s)"
  using assms by (cases "transactionHandler s")
    (auto simp: on_auth_needed_def prvEVSE_OCPP_GetLocalAuthorizationToken_def branch_simps)

lemma follows_telemetry:
  assumes "ocpp_inv s"
  shows "follows s (Some (ocpp_view s)) (on_telemetry_ready e s)"
  using assms by (cases "transactionHandler s") (auto simp: on_telemetry_ready_def Let_def branch_simps)

lemma follows_network_down:
  assumes "ocpp_inv s"
  shows "follows s (Some (ocpp_view s)) (on_network_down s)"
  using assms by (cases "transactionHandler s") (auto simp: on_network_down_def branch_simps)

lemmas follows_branches = follows_connected follows_authorized follows_started follows_start_remote follows_stopped
  follows_stop_remote follows_disconnected

section \<open>A pass\<close>

lemma follows_quiet_when:
  assumes "ocpp_inv s" "follows s (Some (ocpp_view s)) (g s)"
  shows "follows s (Some (ocpp_view s)) (when_event b ev g s)"
  using assms by (simp add: when_event_def follows_skip)

lemma follows_quiet_bind:
  assumes "follows s (Some (ocpp_view s)) r"
    and "\<And>s'. ocpp_inv s' \<Longrightarrow> follows s' (Option.bind (view_when b ev F (ocpp_view s')) f) (g s')"
  shows "follows s (Option.bind (view_when b ev F (ocpp_view s)) f) (and_then_ok r g)"
  by (rule follows_quiet[OF assms(1)]) (metis assms(2))

lemma connected_pass_follows:
  assumes "ocpp_inv s"
  shows "follows s (view_pass b (ocpp_view s)) (connected_pass e b s)"
proof -
  have v: "view_pass b v = Option.bind (view_when b EV_CONNECTED_EVENT (Some \<circ> view_connected) v) (\<lambda>v.
     Option.bind (view_when b EV_AUTHORIZED_EVENT (Some \<circ> view_authorized) v) (\<lambda>v.
     Option.bind (view_when b EVSE_CHARGING_STARTED_EVENT (Some \<circ> view_started False) v) (\<lambda>v.
     Option.bind (view_when b EVSE_CHARGING_START_REMOTE_EVENT (Some \<circ> view_started True) v) (\<lambda>v.
     Option.bind (view_when b EVSE_CHARGING_STOPPED_EVENT (view_stopped False) v) (\<lambda>v.
     Option.bind (view_when b EVSE_CHARGING_STOP_REMOTE_EVENT (view_stopped True) v) (\<lambda>v.
     Option.bind (view_when b EV_DISCONNECTED_EVENT (Some \<circ> view_disconnected) v) Some))))))" for v
    by (simp add: view_pass_def)
  show ?thesis unfolding connected_pass_def v
    apply (rule follows_bind[OF follows_when[OF assms]], simp add: follows_connected assms)
    apply (rule follows_quiet_bind[OF follows_quiet_when], assumption, rule follows_auth_needed, assumption)
    apply (rule follows_bind[OF follows_when], assumption, simp add: follows_authorized)
    apply (rule follows_bind[OF follows_when], assumption, simp add: follows_started)
    apply (rule follows_bind[OF follows_when], assumption, simp add: follows_start_remote)
    apply (rule follows_quiet_bind[OF follows_quiet_when], assumption, rule follows_telemetry, assumption)
    apply (rule follows_bind[OF follows_when], assumption, simp add: follows_stopped)
    apply (rule follows_bind[OF follows_when], assumption, simp add: follows_stop_remote)
    apply (rule follows_bind[OF follows_when], assumption, simp add: follows_disconnected)
    apply (rule follows_quiet_when, assumption, rule follows_network_down, assumption)
    done
qed

section \<open>Every run of the task\<close>

text \<open>What the task, the library's callbacks and the other tasks do to the module after its start.\<close>

inductive ocpp_reachable :: "ocpp \<Rightarrow> bool" where
  start: "EVSE_OCPP_Init a b c ocpp_boot = Some s \<Longrightarrow> ocpp_reachable (ocpp_task_start url s)"
| pass: "ocpp_reachable s \<Longrightarrow> ocpp_pass e s = Inr s' \<Longrightarrow> ocpp_reachable s'"
| event: "ocpp_reachable s \<Longrightarrow> ocpp_reachable (EVSE_OCPP_SetEvent ev s)"
| poll: "ocpp_reachable s \<Longrightarrow> ocpp_reachable (snd (snd (EVSE_OCPP_GetAuthResponse t r u s)))"
| stop_cb: "ocpp_reachable s \<Longrightarrow> ocpp_reachable (snd (OCPP_StopTransaction_Cb i reason s))"
| start_cb: "ocpp_reachable s \<Longrightarrow> ocpp_reachable (snd (OCPP_RemoteStartTransaction_Cb i' auth s))"
| variable_cb: "ocpp_reachable s \<Longrightarrow> OCPP_VariableChanged_Cb d s = Inr s' \<Longrightarrow> ocpp_reachable s'"
| boot_cb: "ocpp_reachable s \<Longrightarrow> ocpp_reachable (OCPP_BootNotification_Cb st n s)"
| response_cb: "ocpp_reachable s \<Longrightarrow> ocpp_reachable (OCPP_TransactionEventResponse_Cb q p s)"
| cost_cb: "ocpp_reachable s \<Longrightarrow> ocpp_reachable (OCPP_SetRunningCost_Cb rs x s)"
| connection_cb: "ocpp_reachable s \<Longrightarrow> ocpp_reachable (OCPP_ConnectionStateChanged_Cb up s)"
| display_cb: "ocpp_reachable s \<Longrightarrow> ocpp_reachable (snd (OCPP_SetDisplayMessage_Cb dt ms s))"

definition session_ok :: "ocpp \<Rightarrow> bool" where
  "session_ok s \<longleftrightarrow> ocpp_inv s \<and> monitor_run No_session (ocpp_calls s) = Some (view_phase (ocpp_view s)) \<and>
     ocpp_reconnection_attempts s \<le> 15"

text \<open>What the parts outside the pass leave alone.\<close>

definition same_session :: "ocpp \<Rightarrow> ocpp \<Rightarrow> bool" where
  "same_session s s' \<longleftrightarrow> transactionHandler s' = transactionHandler s \<and> EV_plugged_in s' = EV_plugged_in s \<and>
     session_started s' = session_started s \<and> ocpp_calls s' = ocpp_calls s \<and>
     (ocpp_reconnection_attempts s' = ocpp_reconnection_attempts s \<or> ocpp_reconnection_attempts s' = 0)"

lemma same_session_ok: "same_session s s' \<Longrightarrow> session_ok s \<Longrightarrow> session_ok s'"
  by (auto simp: same_session_def session_ok_def ocpp_inv_def ocpp_view_def view_phase_def split: option.splits)

lemma same_session_SetEvent: "same_session s (EVSE_OCPP_SetEvent ev s)"
  by (simp add: EVSE_OCPP_SetEvent_def same_session_def)

lemma same_session_display: "same_session s s' \<Longrightarrow> same_session s (snd (display_loop n ms v st s'))"
  by (induction n ms v st s' rule: display_loop.induct)
    (auto simp: same_session_def Let_def split: option.splits if_splits)

lemma same_session_callbacks:
  "same_session s (snd (snd (EVSE_OCPP_GetAuthResponse t r u s)))"
  "same_session s (snd (OCPP_StopTransaction_Cb i reason s))"
  "same_session s (snd (OCPP_RemoteStartTransaction_Cb i' auth s))"
  "OCPP_VariableChanged_Cb d s = Inr s' \<Longrightarrow> same_session s s'"
  "same_session s (OCPP_BootNotification_Cb st n s)"
  "same_session s (OCPP_TransactionEventResponse_Cb q p s)"
  "same_session s (OCPP_SetRunningCost_Cb rs x s)"
  "same_session s (OCPP_ConnectionStateChanged_Cb up s)"
  by (auto simp: EVSE_OCPP_GetAuthResponse_def OCPP_StopTransaction_Cb_def OCPP_RemoteStartTransaction_Cb_def
      OCPP_VariableChanged_Cb_def OCPP_BootNotification_Cb_def OCPP_TransactionEventResponse_Cb_def
      OCPP_SetRunningCost_Cb_def OCPP_ConnectionStateChanged_Cb_def
      prvEVSE_OCPP_SetConnectionState_def EVSE_OCPP_SetEvent_def same_session_def Let_def and_then_ok_Inr
      split: option.splits if_splits)

lemma same_session_display_cb: "same_session s (snd (OCPP_SetDisplayMessage_Cb dt ms s))"
  unfolding OCPP_SetDisplayMessage_Cb_def by (rule same_session_display) (simp add: same_session_def)

lemma ocpp_start_ok:
  "EVSE_OCPP_Init a b c ocpp_boot = Some s \<Longrightarrow> session_ok (ocpp_task_start url s)"
  by (auto simp: EVSE_OCPP_Init_def ocpp_boot_def ocpp_task_start_def EVSE_OCPP_SetNetworkConnectionProfile_def
      ocpp_do_def session_ok_def view_simps split: if_splits)

text \<open>A pass, by the state of the connection.\<close>

lemma pass_cases:
  assumes "\<not> ocpp_task_left_loop s"
  defines "b \<equiv> and (ocpp_event_bits s) 0xFFFFFF"
    and "t \<equiv> s\<lparr>ocpp_event_bits := and (ocpp_event_bits s) (not 0xFFFFFF)\<rparr>"
  shows "ocpp_pass e s = (if s_ocppConnectionState s = EVSE_Ocpp_Connected then connected_pass e b t
                          else Inr (disconnected_pass b t))"
    and "ocpp_inv t = ocpp_inv s" "ocpp_view t = ocpp_view s" "ocpp_calls t = ocpp_calls s"
    and "ocpp_reconnection_attempts t = ocpp_reconnection_attempts s" "session_ok t = session_ok s"
  using assms(1) by (simp_all add: ocpp_pass_def ocpp_event_wait_def b_def t_def view_simps session_ok_def cong: option.case_cong)

lemma disconnected_pass_ok:
  assumes "session_ok s"
  shows "session_ok (disconnected_pass b s)"
proof (cases "has_event b EVSE_RECONNECT_EVENT \<and> ocpp_reconnection_attempts s \<le> 15")
  case True
  then show ?thesis using assms
    by (cases "ocpp_reconnection_attempts s = 15"; cases "transactionHandler s")
      (auto simp: disconnected_pass_def session_ok_def view_simps ocpp_do_def inc_le order_less_le)
next
  case False
  then show ?thesis using assms by (auto simp: disconnected_pass_def)
qed

lemma pass_session_ok:
  assumes "session_ok s" "ocpp_pass e s = Inr s'"
  shows "session_ok s'"
proof (cases "ocpp_task_left_loop s")
  case True
  then show ?thesis using assms by (simp add: ocpp_pass_def)
next
  case False
  note p = pass_cases[OF False]
  let ?t = "s\<lparr>ocpp_event_bits := and (ocpp_event_bits s) (not 0xFFFFFF)\<rparr>"
  let ?b = "and (ocpp_event_bits s) 0xFFFFFF"
  show ?thesis
  proof (cases "s_ocppConnectionState s = EVSE_Ocpp_Connected")
    case True
    have "follows ?t (view_pass ?b (ocpp_view ?t)) (Inr s')"
      using connected_pass_follows[of ?t ?b e] assms p True by (simp add: session_ok_def)
    then show ?thesis using assms(1) p
      by (auto simp: follows_def session_ok_def same_frame_def split: option.splits)
  next
    case False
    then show ?thesis using assms p disconnected_pass_ok[of ?t ?b] by auto
  qed
qed

lemma reachable_session_ok: "ocpp_reachable s \<Longrightarrow> session_ok s"
proof (induction rule: ocpp_reachable.induct)
  case (start a b c s url)
  then show ?case by (rule ocpp_start_ok)
next
  case (pass s e s')
  then show ?case using pass_session_ok by blast
qed (auto intro: same_session_ok same_session_SetEvent same_session_callbacks same_session_display_cb)

end
