(* ===== verification/Ocpp_Props.thy ===== *)
theory Ocpp_Props
  imports Ocpp_Session
begin

text \<open>
  Properties of the OCPP task and of the modules it uses: the transaction handler and the task as
  refinements of the abstract session, the protocol of the calls, the failures, the reconnection, the
  display messages, the parsing of the configuration and the session identifier.
\<close>

section \<open>Sessions and transactions\<close>

text \<open>
  (C27) The transaction handler implements the abstract view. In every handler for n chargers that
  calls which did not throw have led to: an event changes the conditions of its charger as told, starts a
  waiting transaction when one of the start points holds, stops a running one when one of the stop points
  does, and keeps the transaction data; adding and resetting set and remove the data of the charger and keep its
  conditions; none of them touches another charger or the points. For any other number every operation
  throws.
\<close>

theorem transaction_handler_refines:
  "handler_reachable n h \<Longrightarrow>
   (if 1 \<le> i \<and> i \<le> n
    then (\<exists>h'. submit_event i ev h = Inr (tx_effect (tx_start_points h) (tx_stop_points h) (phase_of (data_of i h))
                                          (conditions_submit_event ev (conditions_of i h)), h') \<and>
           conditions_of i h' = conditions_submit_event ev (conditions_of i h) \<and> data_of i h' = data_of i h \<and>
           handler_frame i h h') \<and>
         get_transaction_data i h = Inr (data_of i h) \<and>
         (\<exists>h'. add_transaction_data i d h = Inr h' \<and> data_of i h' = d \<and> conditions_of i h' = conditions_of i h \<and>
           handler_frame i h h') \<and>
         (\<exists>h'. reset_transaction_data i h = Inr h' \<and> data_of i h' = None \<and> conditions_of i h' = conditions_of i h \<and>
           handler_frame i h h')
    else (\<exists>m. submit_event i ev h = Inl (Out_of_range m)) \<and> (\<exists>m. get_transaction_data i h = Inl (Out_of_range m)) \<and>
         (\<exists>m. add_transaction_data i d h = Inl (Out_of_range m)) \<and>
         (\<exists>m. reset_transaction_data i h = Inl (Out_of_range m)))"
proof -
  assume "handler_reachable n h"
  then have h: "handler_of n h" by (rule handler_reachable_of)
  then have "valid_evse i h = (1 \<le> i \<and> i \<le> n)" by (simp add: handler_of_def)
  then show ?thesis using handler_of_keys[OF h] add_errors[OF h, of i d]
    by (cases "1 \<le> i \<and> i \<le> n") (auto simp: handler_simps add_abs invalid_evse_errors handler_frame_def)
qed

theorem transaction_handler_refines_witness:
  "\<exists>h h' h''. new_TransactionHandler 2 {EVConnected} {PowerPathClosed} = Inr h \<and>
     submit_event 1 EV_CONNECTED h = Inr (TxEventEffect_NONE, h') \<and> is_ev_connected (conditions_of 1 h') \<and>
     conditions_of 2 h' = conditions_of 2 h \<and> add_transaction_data 2 None h' = Inr h'' \<and> (\<exists>m. add_transaction_data 3 None h' = Inl m)"
proof -
  obtain h where h: "new_TransactionHandler 2 {EVConnected} {PowerPathClosed} = Inr h"
    by (auto simp: new_TransactionHandler_def)
  have r: "handler_reachable 2 h" using h by (rule handler_reachable.new)
  have "data_of 1 h = None" using new_handler_abs[OF h] by blast
  then obtain h' where h': "submit_event 1 EV_CONNECTED h = Inr (TxEventEffect_NONE, h')"
      "is_ev_connected (conditions_of 1 h')" "handler_frame 1 h h'"
    using transaction_handler_refines[OF r, of 1 EV_CONNECTED None] by (auto simp: phase_of_def effect_none)
  have r': "handler_reachable 2 h'" using r h'(1) by (rule handler_reachable.submit)
  show ?thesis using h h' transaction_handler_refines[OF r', of 2 EV_CONNECTED None]
      transaction_handler_refines[OF r', of 3 EV_CONNECTED None]
    by (fastforce simp: handler_frame_def)
qed

text \<open>
  In every state the OCPP task reaches, the calls it has made on the charge point are whole
  sessions of the protocol \<open>monitor\<close> and the part of one that is under way: a session starts with a
  transaction, the transaction is finished once and before the session is, and authorizations, meter
  values, changes of the charging state and commands to the charging protocol fall inside a session. A
  vehicle counts as plugged in exactly while a transaction handler exists.
\<close>

theorem session_calls_follow_protocol:
  assumes "ocpp_reachable s"
  shows "monitor_run No_session (ocpp_calls s) = Some (view_phase (ocpp_view s)) \<and>
    EV_plugged_in s = (transactionHandler s \<noteq> None) \<and> (session_started s \<longrightarrow> EV_plugged_in s)"
  using reachable_session_ok[OF assms] by (auto simp: session_ok_def ocpp_inv_def split: option.splits)

definition sample_ocpp :: ocpp where
  "sample_ocpp = OCPP_ConnectionStateChanged_Cb True
     (ocpp_task_start ''ws://csms'' (ocpp_boot\<lparr>ocpp_event_bits := 0, ocpp_sem := False, ocpp_is_init := True\<rparr>))"

lemma sample_ocpp_reachable: "ocpp_reachable sample_ocpp"
  unfolding sample_ocpp_def
  by (intro ocpp_reachable.connection_cb ocpp_reachable.start[of True True True])
    (simp add: EVSE_OCPP_Init_def ocpp_boot_def)

definition sample_ocpp_env :: ocpp_env where
  "sample_ocpp_env = \<lparr>unix_time = 1700000000, tick_count = 5000, random_1 = 0xDEADBEEF, random_2 = 7, time_now = 1700000000,
     rfc3339_now = ''2025-01-01T00:00:00Z'', vehicle_values = None,
     read_urms = \<lparr>ph1 = Fin 230, ph2 = Fin 231, ph3 = Fin 229\<rparr>, read_irms = \<lparr>ph1 = Fin 6, ph2 = Fin 6, ph3 = Fin 6\<rparr>,
     read_power = \<lparr>ph1 = Fin 1380, ph2 = Fin 1386, ph3 = Fin 1374\<rparr>, read_direction = EVSE_G2V\<rparr>"

lemma sample_ocpp_fields:
  "s_ocppConnectionState sample_ocpp = EVSE_Ocpp_Connected" "ocpp_task_left_loop sample_ocpp = False"
  "ocpp_event_bits sample_ocpp = 0" "ocpp_is_init sample_ocpp = True"
  "ocpp_view sample_ocpp = \<lparr>answer = False, session = None\<rparr>" "transactionHandler sample_ocpp = None"
  by (simp_all add: sample_ocpp_def OCPP_ConnectionStateChanged_Cb_def prvEVSE_OCPP_SetConnectionState_def
      ocpp_task_start_def EVSE_OCPP_SetNetworkConnectionProfile_def ocpp_do_def ocpp_boot_def ocpp_view_def)

theorem session_calls_follow_protocol_witness:
  "monitor_run No_session (ocpp_calls sample_ocpp) = Some No_session"
  using session_calls_follow_protocol[OF sample_ocpp_reachable] by (simp add: sample_ocpp_fields view_phase_def)

text \<open>One pass of a connected task, as a step of the abstract session.\<close>

lemma pass_step:
  assumes "session_ok s" "s_ocppConnectionState s = EVSE_Ocpp_Connected" "\<not> ocpp_task_left_loop s"
  shows "case view_pass (and (ocpp_event_bits s) 0xFFFFFF) (ocpp_view s) of
      None \<Rightarrow> ocpp_pass e s = Inl Null_dereference
    | Some v \<Rightarrow> \<exists>s' cs. ocpp_pass e s = Inr s' \<and> ocpp_view s' = v \<and> s_ocppConnectionState s' = EVSE_Ocpp_Connected \<and>
        and (ocpp_event_bits s') 0xFFFFFF = 0 \<and> ocpp_sem s' = ocpp_sem s \<and> ocpp_is_init s' = ocpp_is_init s \<and>
        ocpp_task_left_loop s' = False \<and> session_ok s' \<and> ocpp_calls s' = ocpp_calls s @ cs \<and>
        monitor_run (view_phase (ocpp_view s)) cs = Some (view_phase v)"
proof -
  note p = pass_cases[OF assms(3)]
  let ?t = "s\<lparr>ocpp_event_bits := and (ocpp_event_bits s) (not 0xFFFFFF)\<rparr>"
  let ?b = "and (ocpp_event_bits s) 0xFFFFFF"
  have z: "and (and x (not 0xFFFFFF)) 0xFFFFFF = 0" for x :: u32
    by (rule bit_word_eqI) (simp add: bit_simps)
  have "follows ?t (view_pass ?b (ocpp_view s)) (ocpp_pass e s)"
    using connected_pass_follows[of ?t ?b e] assms p by (simp add: session_ok_def)
  then show ?thesis using pass_session_ok[OF assms(1), of e] p assms(2,3) z
    by (fastforce simp: follows_def same_frame_def split: option.splits)
qed

text \<open>
  (C7) The OCPP task refines the abstract session: a pass of the connected task takes the step
  \<open>view_pass\<close> of the session it holds, whatever events are pending, and the only way it can fail, in
  any state it reaches, is the null dereference the step is undefined for: a stop of charging,
  local or remote, when the transaction of the session has ended.
\<close>

theorem pass_refines_session:
  assumes "ocpp_reachable s" "s_ocppConnectionState s = EVSE_Ocpp_Connected" "\<not> ocpp_task_left_loop s"
  shows "case view_pass (and (ocpp_event_bits s) 0xFFFFFF) (ocpp_view s) of
      None \<Rightarrow> ocpp_pass e s = Inl Null_dereference
    | Some v \<Rightarrow> \<exists>s'. ocpp_pass e s = Inr s' \<and> ocpp_view s' = v"
  using pass_step[OF reachable_session_ok[OF assms(1)] assms(2,3), of e] by (auto split: option.splits)

lemma has_event_simps:
  "has_event (and (event_code ev) 0xFFFFFF) ev' = (ev' = ev)"
  "has_event 0 ev = False"
  by (cases ev; cases ev'; simp add: has_event_def) (cases ev; simp add: has_event_def)

theorem pass_refines_session_witness:
  "\<exists>s'. ocpp_pass sample_ocpp_env (EVSE_OCPP_SetEvent EV_CONNECTED_EVENT sample_ocpp) = Inr s' \<and>
     ocpp_view s' = \<lparr>answer = False, session = Some \<lparr>tx_running = True, tx_authorized = False, charging = False\<rparr>\<rparr>"
proof -
  let ?s = "EVSE_OCPP_SetEvent EV_CONNECTED_EVENT sample_ocpp"
  have f: "s_ocppConnectionState ?s = EVSE_Ocpp_Connected" "\<not> ocpp_task_left_loop ?s"
    "ocpp_event_bits ?s = event_code EV_CONNECTED_EVENT" "ocpp_view ?s = \<lparr>answer = False, session = None\<rparr>"
    using sample_ocpp_fields by (simp_all add: EVSE_OCPP_SetEvent_def ocpp_view_def)
  have "view_pass (and (ocpp_event_bits ?s) 0xFFFFFF) (ocpp_view ?s) =
      Some \<lparr>answer = False, session = Some \<lparr>tx_running = True, tx_authorized = False, charging = False\<rparr>\<rparr>"
    unfolding f view_pass_def view_when_def has_event_simps by (simp add: view_connected_def)
  then show ?thesis
    using pass_refines_session[OF ocpp_reachable.event[OF sample_ocpp_reachable] f(1,2), of sample_ocpp_env] by simp
qed

text \<open>A transaction that ran and no longer does has been finished in between.\<close>

fun is_finished :: "ocpp_call \<Rightarrow> bool" where
  "is_finished (On_transaction_finished _ _ _ _ _ _) = True"
| "is_finished _ = False"

lemma monitor_finished:
  "monitor_run In_transaction cs = Some ph \<Longrightarrow> ph \<noteq> In_transaction \<Longrightarrow> \<exists>c \<in> set cs. is_finished c"
proof (induction cs)
  case (Cons c cs)
  then show ?case by (cases c) (auto split: if_splits option.splits)
qed simp

lemma set_event_fields:
  "s_ocppConnectionState (EVSE_OCPP_SetEvent ev s) = s_ocppConnectionState s"
  "ocpp_task_left_loop (EVSE_OCPP_SetEvent ev s) = ocpp_task_left_loop s"
  "ocpp_view (EVSE_OCPP_SetEvent ev s) = ocpp_view s" "session_ok (EVSE_OCPP_SetEvent ev s) = session_ok s"
  "ocpp_calls (EVSE_OCPP_SetEvent ev s) = ocpp_calls s" "ocpp_is_init (EVSE_OCPP_SetEvent ev s) = ocpp_is_init s"
  "EV_plugged_in (EVSE_OCPP_SetEvent ev s) = EV_plugged_in s" "ocpp_sem (EVSE_OCPP_SetEvent ev s) = ocpp_sem s"
  by (auto simp: EVSE_OCPP_SetEvent_def ocpp_view_def session_ok_def ocpp_inv_def view_phase_def)

lemma single_event:
  assumes "and (ocpp_event_bits s) 0xFFFFFF = 0" "ocpp_is_init s"
  shows "and (ocpp_event_bits (EVSE_OCPP_SetEvent ev s)) 0xFFFFFF = and (event_code ev) 0xFFFFFF"
  using assms by (simp add: EVSE_OCPP_SetEvent_def bit.conj_disj_distrib2)

lemmas single_pass = view_pass_def view_when_def has_event_simps

text \<open>A task that has seen a vehicle arrive.\<close>

definition sample_session :: ocpp where
  "sample_session = (case ocpp_pass sample_ocpp_env (EVSE_OCPP_SetEvent EV_CONNECTED_EVENT sample_ocpp) of
     Inr s \<Rightarrow> s | Inl _ \<Rightarrow> sample_ocpp)"

lemma sample_session:
  "ocpp_reachable sample_session" "s_ocppConnectionState sample_session = EVSE_Ocpp_Connected"
  "\<not> ocpp_task_left_loop sample_session" "ocpp_is_init sample_session"
  "and (ocpp_event_bits sample_session) 0xFFFFFF = 0"
  "ocpp_view sample_session = \<lparr>answer = False, session = Some \<lparr>tx_running = True, tx_authorized = False, charging = False\<rparr>\<rparr>"
proof -
  let ?s = "EVSE_OCPP_SetEvent EV_CONNECTED_EVENT sample_ocpp"
  have bits: "and (ocpp_event_bits sample_ocpp) 0xFFFFFF = 0" by (simp add: sample_ocpp_fields)
  have init: "ocpp_is_init sample_ocpp" by (simp add: sample_ocpp_fields)
  have ok: "session_ok sample_ocpp" using sample_ocpp_reachable by (rule reachable_session_ok)
  have v: "view_pass (and (ocpp_event_bits ?s) 0xFFFFFF) (ocpp_view ?s) =
      Some \<lparr>answer = False, session = Some \<lparr>tx_running = True, tx_authorized = False, charging = False\<rparr>\<rparr>"
    unfolding single_event[OF bits init] single_pass
    by (simp add: set_event_fields sample_ocpp_fields view_connected_def)
  obtain s' where "ocpp_pass sample_ocpp_env ?s = Inr s'" "s_ocppConnectionState s' = EVSE_Ocpp_Connected"
    "ocpp_task_left_loop s' = False" "ocpp_is_init s' = True" "and (ocpp_event_bits s') 0xFFFFFF = 0"
    "ocpp_view s' = \<lparr>answer = False, session = Some \<lparr>tx_running = True, tx_authorized = False, charging = False\<rparr>\<rparr>"
    using pass_step[of ?s sample_ocpp_env] ok v by (auto simp: set_event_fields sample_ocpp_fields)
  then show "ocpp_reachable sample_session" "s_ocppConnectionState sample_session = EVSE_Ocpp_Connected"
    "\<not> ocpp_task_left_loop sample_session" "ocpp_is_init sample_session" "and (ocpp_event_bits sample_session) 0xFFFFFF = 0"
    "ocpp_view sample_session = \<lparr>answer = False, session = Some \<lparr>tx_running = True, tx_authorized = False, charging = False\<rparr>\<rparr>"
    using ocpp_reachable.pass[OF ocpp_reachable.event[OF sample_ocpp_reachable]]
    by (auto simp: sample_session_def)
qed

section \<open>Without a connection\<close>

lemma disconnected_step:
  assumes "s_ocppConnectionState s \<noteq> EVSE_Ocpp_Connected" "\<not> ocpp_task_left_loop s" "ocpp_is_init s"
    "and (ocpp_event_bits s) 0xFFFFFF = 0"
  shows "\<exists>s'. ocpp_pass e (EVSE_OCPP_SetEvent ev s) = Inr s' \<and> s' = disconnected_pass (and (event_code ev) 0xFFFFFF)
      ((EVSE_OCPP_SetEvent ev s)\<lparr>ocpp_event_bits := and (ocpp_event_bits (EVSE_OCPP_SetEvent ev s)) (not 0xFFFFFF)\<rparr>)"
  using pass_cases(1)[of "EVSE_OCPP_SetEvent ev s" e] single_event[OF assms(4,3), of ev] assms(1,2)
  by (simp add: set_event_fields)

lemma second_arrival:
  "transactionHandler v \<noteq> None \<Longrightarrow> connected_pass e (and (event_code EV_CONNECTED_EVENT) 0xFFFFFF) v = Inr v"
  unfolding connected_pass_def when_event_def has_event_simps by (auto simp: on_ev_connected_def Let_def)

text \<open>The events other tasks and the callbacks post, in the order they are posted.\<close>

definition post_events :: "ocpp_events_t list \<Rightarrow> ocpp \<Rightarrow> ocpp" where
  "post_events evs s = fold EVSE_OCPP_SetEvent evs s"

lemma post_events_frame: "\<exists>b. post_events evs s = s\<lparr>ocpp_event_bits := b\<rparr>"
proof (induction evs arbitrary: s)
  case Nil
  show ?case by (rule exI[of _ "ocpp_event_bits s"]) (simp add: post_events_def)
next
  case (Cons ev evs)
  obtain b where "post_events evs (EVSE_OCPP_SetEvent ev s) = (EVSE_OCPP_SetEvent ev s)\<lparr>ocpp_event_bits := b\<rparr>"
    using Cons by blast
  then have "post_events (ev # evs) s = s\<lparr>ocpp_event_bits := b\<rparr>"
    by (simp add: post_events_def) (simp add: EVSE_OCPP_SetEvent_def)
  then show ?case by blast
qed

lemma event_code_disjoint:
  "and (and (event_code ev') 0xFFFFFF) (event_code ev) = (if ev = ev' then event_code ev else 0)"
  by (cases ev; cases ev') simp_all

lemma has_event_or:
  "has_event (and (or x (event_code ev')) 0xFFFFFF) ev \<longleftrightarrow> ev = ev' \<or> has_event (and x 0xFFFFFF) ev"
proof -
  have "and (and (or x (event_code ev')) 0xFFFFFF) (event_code ev) =
      or (and (and x 0xFFFFFF) (event_code ev)) (if ev = ev' then event_code ev else 0)"
    unfolding event_code_disjoint[symmetric] by (rule bit_word_eqI) (auto simp: bit_simps)
  moreover have "or (and y z) z = z" for y z :: u32 by (rule bit_word_eqI) (auto simp: bit_simps)
  ultimately show ?thesis by (simp add: has_event_def)
qed

lemma has_event_posted:
  "ocpp_is_init s \<Longrightarrow> has_event (and (ocpp_event_bits (post_events evs s)) 0xFFFFFF) ev \<longleftrightarrow>
     ev \<in> set evs \<or> has_event (and (ocpp_event_bits s) 0xFFFFFF) ev"
proof (induction evs arbitrary: s)
  case (Cons ev' evs)
  then show ?case
    using Cons.IH[of "EVSE_OCPP_SetEvent ev' s"] by (auto simp: post_events_def EVSE_OCPP_SetEvent_def has_event_or)
qed (simp add: post_events_def)

text \<open>The wish to connect again, the one event a pass without a connection looks at.\<close>

definition reconnect_pending :: "ocpp_events_t list \<Rightarrow> ocpp \<Rightarrow> bool" where
  "reconnect_pending evs s \<longleftrightarrow>
     EVSE_RECONNECT_EVENT \<in> set evs \<or> has_event (and (ocpp_event_bits s) 0xFFFFFF) EVSE_RECONNECT_EVENT"

lemma connected_pass_idle: "connected_pass e 0 s = Inr s"
  by (simp add: connected_pass_def when_event_def has_event_simps)

lemma connection_cb_fields:
  "s_ocppConnectionState (OCPP_ConnectionStateChanged_Cb True s) = EVSE_Ocpp_Connected"
  "ocpp_event_bits (OCPP_ConnectionStateChanged_Cb True s) = ocpp_event_bits s"
  "ocpp_task_left_loop (OCPP_ConnectionStateChanged_Cb True s) = ocpp_task_left_loop s"
  "ocpp_is_init (OCPP_ConnectionStateChanged_Cb True s) = ocpp_is_init s"
  "ocpp_view (OCPP_ConnectionStateChanged_Cb True s) = ocpp_view s"
  "ocpp_calls (OCPP_ConnectionStateChanged_Cb True s) = ocpp_calls s"
  "transactionHandler (OCPP_ConnectionStateChanged_Cb True s) = transactionHandler s"
  by (simp_all add: OCPP_ConnectionStateChanged_Cb_def prvEVSE_OCPP_SetConnectionState_def ocpp_view_def)

lemma disconnected_posted:
  assumes "s_ocppConnectionState s \<noteq> EVSE_Ocpp_Connected" "\<not> ocpp_task_left_loop s" "ocpp_is_init s"
  shows "\<exists>b. and b 0xFFFFFF = 0 \<and>
    ocpp_pass e (post_events evs s) = Inr (let t = s\<lparr>ocpp_event_bits := b\<rparr>
      in if reconnect_pending evs s \<and> ocpp_reconnection_attempts s \<le> 15
         then (if ocpp_reconnection_attempts s = 15 then (ocpp_do Charge_point_stop t)\<lparr>ocpp_task_left_loop := True\<rparr>
               else (ocpp_do (Connect_websocket (Some 1)) t)\<lparr>ocpp_reconnection_attempts := ocpp_reconnection_attempts s + 1\<rparr>)
         else t)"
proof -
  obtain b where b: "post_events evs s = s\<lparr>ocpp_event_bits := b\<rparr>" using post_events_frame by blast
  have r: "has_event (and b 0xFFFFFF) EVSE_RECONNECT_EVENT = reconnect_pending evs s"
    using has_event_posted[OF assms(3), of evs EVSE_RECONNECT_EVENT] by (simp add: b reconnect_pending_def)
  have z: "and (and b (not 0xFFFFFF)) 0xFFFFFF = 0" by (rule bit_word_eqI) (simp add: bit_simps)
  show ?thesis using assms r
    by (intro exI[of _ "and b (not 0xFFFFFF)"] conjI z)
      (simp add: ocpp_pass_def ocpp_event_wait_def b disconnected_pass_def Let_def)
qed

text \<open>The passes after the connection is there again.\<close>

lemma passes_after_connection:
  assumes "and (ocpp_event_bits s) 0xFFFFFF = 0" "\<not> ocpp_task_left_loop s" "ocpp_is_init s"
  shows "ocpp_pass e (OCPP_ConnectionStateChanged_Cb True s) = Inr (OCPP_ConnectionStateChanged_Cb True s)"
    "transactionHandler s \<noteq> None \<Longrightarrow>
      \<exists>s'. ocpp_pass e (EVSE_OCPP_SetEvent EV_CONNECTED_EVENT (OCPP_ConnectionStateChanged_Cb True s)) = Inr s' \<and>
        ocpp_view s' = ocpp_view s \<and> ocpp_calls s' = ocpp_calls s"
proof -
  let ?u = "OCPP_ConnectionStateChanged_Cb True s"
  let ?v = "EVSE_OCPP_SetEvent EV_CONNECTED_EVENT ?u"
  have "and b (not 0xFFFFFF) = b" if "and b 0xFFFFFF = 0" for b :: u32
  proof -
    have "b = or (and b 0xFFFFFF) (and b (not 0xFFFFFF))" by (rule bit_word_eqI) (auto simp: bit_simps)
    then show ?thesis using that by simp
  qed
  then have "?u\<lparr>ocpp_event_bits := and (ocpp_event_bits s) (not 0xFFFFFF)\<rparr> = ?u"
    using assms(1) by (simp add: OCPP_ConnectionStateChanged_Cb_def prvEVSE_OCPP_SetConnectionState_def)
  then show "ocpp_pass e ?u = Inr ?u"
    using assms by (simp add: ocpp_pass_def ocpp_event_wait_def connection_cb_fields connected_pass_idle)
  show "\<exists>s'. ocpp_pass e ?v = Inr s' \<and> ocpp_view s' = ocpp_view s \<and> ocpp_calls s' = ocpp_calls s"
    if h: "transactionHandler s \<noteq> None"
  proof -
    let ?s2 = "?v\<lparr>ocpp_event_bits := and (ocpp_event_bits ?v) (not 0xFFFFFF)\<rparr>"
    have b: "and (ocpp_event_bits ?v) 0xFFFFFF = and (event_code EV_CONNECTED_EVENT) 0xFFFFFF"
      using single_event[of ?u] assms by (simp add: connection_cb_fields)
    have "transactionHandler ?s2 \<noteq> None"
      using h by (simp add: EVSE_OCPP_SetEvent_def connection_cb_fields)
    then have "ocpp_pass e ?v = Inr ?s2"
      using assms b second_arrival[of ?s2 e]
      by (simp add: ocpp_pass_def ocpp_event_wait_def set_event_fields connection_cb_fields)
    moreover have "ocpp_view ?s2 = ocpp_view ?v" by (simp add: ocpp_view_def)
    ultimately show ?thesis by (simp add: set_event_fields connection_cb_fields)
  qed
qed

text \<open>
  (C29) Events that arrive while the link to the CSMS is down are lost: whatever events are posted,
  in whatever order, the next pass clears them all and the state is what it was, but for the wish to connect again, which is
  counted and answered with a call to connect, or stops the charge point and the loop of the task at the sixteenth.
  When the link is back nothing is made up for: a pass without new events does nothing. So if a session
  was open and its vehicle has left in between, the arrival of the next vehicle changes nothing and
  is not announced to the CSMS.
\<close>

theorem events_are_lost_without_connection:
  assumes "s_ocppConnectionState s \<noteq> EVSE_Ocpp_Connected" "\<not> ocpp_task_left_loop s" "ocpp_is_init s"
  shows "\<exists>b s1. and b 0xFFFFFF = 0 \<and> ocpp_pass e (post_events evs s) = Inr s1 \<and>
    (if reconnect_pending evs s \<and> ocpp_reconnection_attempts s \<le> 15
     then if ocpp_reconnection_attempts s = 15
          then s1 = s\<lparr>ocpp_event_bits := b, ocpp_calls := ocpp_calls s @ [Charge_point_stop], ocpp_task_left_loop := True\<rparr>
          else s1 = s\<lparr>ocpp_event_bits := b, ocpp_calls := ocpp_calls s @ [Connect_websocket (Some 1)],
                       ocpp_reconnection_attempts := ocpp_reconnection_attempts s + 1\<rparr>
     else s1 = s\<lparr>ocpp_event_bits := b\<rparr>) \<and>
    (ocpp_task_left_loop s1 \<or>
      ocpp_pass e' (OCPP_ConnectionStateChanged_Cb True s1) = Inr (OCPP_ConnectionStateChanged_Cb True s1) \<and>
      (session (ocpp_view s) = None \<or>
        (\<exists>s2. ocpp_pass e' (EVSE_OCPP_SetEvent EV_CONNECTED_EVENT (OCPP_ConnectionStateChanged_Cb True s1)) = Inr s2 \<and>
           ocpp_view s2 = ocpp_view s \<and> ocpp_calls s2 = ocpp_calls s1)))"
proof -
  obtain b s1 where s1: "and b 0xFFFFFF = 0" "ocpp_pass e (post_events evs s) = Inr s1"
    "s1 = (let t = s\<lparr>ocpp_event_bits := b\<rparr>
      in if reconnect_pending evs s \<and> ocpp_reconnection_attempts s \<le> 15
         then (if ocpp_reconnection_attempts s = 15 then (ocpp_do Charge_point_stop t)\<lparr>ocpp_task_left_loop := True\<rparr>
               else (ocpp_do (Connect_websocket (Some 1)) t)\<lparr>ocpp_reconnection_attempts := ocpp_reconnection_attempts s + 1\<rparr>)
         else t)"
    using disconnected_posted[OF assms] by blast
  have f: "ocpp_event_bits s1 = b" "ocpp_is_init s1" "transactionHandler s1 = transactionHandler s"
      "ocpp_view s1 = ocpp_view s"
    using assms(3) by (auto simp: s1(3) Let_def ocpp_do_def ocpp_view_def)
  have h: "session (ocpp_view s) = None \<or> transactionHandler s1 \<noteq> None"
    by (auto simp: f(3) ocpp_view_def split: option.splits)
  have "ocpp_task_left_loop s1 \<or>
      ocpp_pass e' (OCPP_ConnectionStateChanged_Cb True s1) = Inr (OCPP_ConnectionStateChanged_Cb True s1) \<and>
      (session (ocpp_view s) = None \<or>
        (\<exists>s2. ocpp_pass e' (EVSE_OCPP_SetEvent EV_CONNECTED_EVENT (OCPP_ConnectionStateChanged_Cb True s1)) = Inr s2 \<and>
           ocpp_view s2 = ocpp_view s \<and> ocpp_calls s2 = ocpp_calls s1))"
    using passes_after_connection[of s1 e'] s1(1) f h by auto
  then show ?thesis using s1
    by (intro exI[of _ b] exI[of _ s1] conjI) (simp_all add: Let_def ocpp_do_def)
qed

theorem events_are_lost_without_connection_witness:
  "\<exists>s1 s2. ocpp_pass sample_ocpp_env (post_events [EV_DISCONNECTED_EVENT, EVSE_CHARGING_STOPPED_EVENT]
        (OCPP_ConnectionStateChanged_Cb False sample_session)) = Inr s1 \<and>
     ocpp_pass sample_ocpp_env (EVSE_OCPP_SetEvent EV_CONNECTED_EVENT (OCPP_ConnectionStateChanged_Cb True s1)) = Inr s2 \<and>
     ocpp_view s2 = ocpp_view sample_session"
proof -
  let ?s = "OCPP_ConnectionStateChanged_Cb False sample_session"
  have s: "s_ocppConnectionState ?s \<noteq> EVSE_Ocpp_Connected" "\<not> ocpp_task_left_loop ?s" "ocpp_is_init ?s"
    "ocpp_event_bits ?s = ocpp_event_bits sample_session" "ocpp_view ?s = ocpp_view sample_session"
    using sample_session
    by (simp_all add: OCPP_ConnectionStateChanged_Cb_def prvEVSE_OCPP_SetConnectionState_def ocpp_view_def)
  then have r: "\<not> reconnect_pending [EV_DISCONNECTED_EVENT, EVSE_CHARGING_STOPPED_EVENT] ?s"
    using sample_session(5) by (simp add: reconnect_pending_def has_event_simps)
  have v: "session (ocpp_view ?s) \<noteq> None" using s(5) sample_session(6) by simp
  show ?thesis
    using events_are_lost_without_connection[OF s(1-3), of sample_ocpp_env "[EV_DISCONNECTED_EVENT, EVSE_CHARGING_STOPPED_EVENT]"
        sample_ocpp_env] r v s(2,5) by auto
qed

text \<open>The state after an accepted answer whose connection breaks before the task has looked at the event.\<close>

definition answered_and_cut :: "TransactionEventRequest \<Rightarrow> TransactionEventResponse \<Rightarrow> ocpp \<Rightarrow> ocpp" where
  "answered_and_cut q r s = OCPP_ConnectionStateChanged_Cb False (OCPP_TransactionEventResponse_Cb q r s)"

lemma answered_and_cut_fields:
  fixes q :: TransactionEventRequest
  assumes "idTokenInfo r = Some Auth_Accepted" "ocpp_is_init s" "and (ocpp_event_bits s) 0xFFFFFF = 0"
  defines "t \<equiv> answered_and_cut q r s"
  shows "s_ocppConnectionState t \<noteq> EVSE_Ocpp_Connected" "ocpp_task_left_loop t = ocpp_task_left_loop s" "ocpp_is_init t"
    "ocpp_sem t" "is_EV_authorized t" "session (ocpp_view t) = session (ocpp_view s)" "ocpp_calls t = ocpp_calls s"
    "\<not> reconnect_pending [] t"
  using assms(1-3)
  by (auto simp: t_def answered_and_cut_def OCPP_ConnectionStateChanged_Cb_def prvEVSE_OCPP_SetConnectionState_def
      OCPP_TransactionEventResponse_Cb_def EVSE_OCPP_SetEvent_def ocpp_view_def reconnect_pending_def has_event_or
      has_event_simps Let_def simp del: event_code.simps split: option.splits)

text \<open>
  (C28) An authorization whose event is lost crashes the charger at the end of the charging. The CSMS
  accepts the token in a session whose transaction runs, and the connection breaks before the task has seen the event: the
  charging protocol is told that the vehicle is authorized, but the transaction handler is not. When the
  connection is back and the charging is reported to start, the task finishes the transaction,
  and when the charging is reported to stop, it dereferences the null pointer to its data.
\<close>

theorem lost_authorization_crashes:
  assumes "ocpp_reachable s" "\<not> ocpp_task_left_loop s" "ocpp_is_init s" "and (ocpp_event_bits s) 0xFFFFFF = 0"
    and "session (ocpp_view s) = Some x" "tx_running x" "\<not> tx_authorized x"
    and "idTokenInfo r = Some Auth_Accepted"
  shows "fst (snd (EVSE_OCPP_GetAuthResponse 0 (Some False) u (answered_and_cut q r s))) = Some True \<and>
    (\<exists>s1 s2. ocpp_pass e (answered_and_cut q r s) = Inr s1 \<and>
      ocpp_pass e' (EVSE_OCPP_SetEvent EVSE_CHARGING_STARTED_EVENT (OCPP_ConnectionStateChanged_Cb True s1)) = Inr s2 \<and>
      (\<exists>c \<in> set (drop (length (ocpp_calls s)) (ocpp_calls s2)). is_finished c) \<and>
      ocpp_pass e'' (EVSE_OCPP_SetEvent EVSE_CHARGING_STOPPED_EVENT s2) = Inl Null_dereference)"
proof -
  let ?t = "answered_and_cut q r s"
  note t = answered_and_cut_fields[OF assms(8,3,4), of q]
  obtain b where b: "and b 0xFFFFFF = 0" "ocpp_pass e ?t = Inr (?t\<lparr>ocpp_event_bits := b\<rparr>)"
    using disconnected_posted[OF t(1) _ t(3), of e "[]"] t(2,8) assms(2) by (auto simp: post_events_def)
  have view_bits: "ocpp_view (?t\<lparr>ocpp_event_bits := b\<rparr>) = ocpp_view ?t" by (simp add: ocpp_view_def)
  let ?u = "OCPP_ConnectionStateChanged_Cb True (?t\<lparr>ocpp_event_bits := b\<rparr>)"
  let ?v = "EVSE_OCPP_SetEvent EVSE_CHARGING_STARTED_EVENT ?u"
  have "ocpp_reachable ?t" unfolding answered_and_cut_def
    using assms(1) by (intro ocpp_reachable.connection_cb ocpp_reachable.response_cb)
  then have "ocpp_reachable ?v"
    using b(2) by (intro ocpp_reachable.event ocpp_reachable.connection_cb) (rule ocpp_reachable.pass)
  then have ok: "session_ok ?v" by (rule reachable_session_ok)
  have u: "session (ocpp_view ?u) = Some x" "ocpp_calls ?u = ocpp_calls s" "ocpp_is_init ?u" "\<not> ocpp_task_left_loop ?u"
    "and (ocpp_event_bits ?u) 0xFFFFFF = 0"
    using t assms(2,5) b(1) view_bits by (simp_all add: connection_cb_fields)
  have v1: "view_pass (and (ocpp_event_bits ?v) 0xFFFFFF) (ocpp_view ?v) = Some (view_started False (ocpp_view ?u))"
    unfolding single_event[OF u(5,3)] single_pass by (simp add: set_event_fields)
  obtain s2 cs where s2: "ocpp_pass e' ?v = Inr s2" "ocpp_view s2 = view_started False (ocpp_view ?u)"
      "s_ocppConnectionState s2 = EVSE_Ocpp_Connected" "and (ocpp_event_bits s2) 0xFFFFFF = 0" "ocpp_is_init s2"
      "\<not> ocpp_task_left_loop s2" "session_ok s2" "ocpp_calls s2 = ocpp_calls s @ cs"
      "monitor_run (view_phase (ocpp_view ?u)) cs = Some (view_phase (view_started False (ocpp_view ?u)))"
    using pass_step[OF ok, of e'] v1 u by (auto simp: set_event_fields connection_cb_fields)
  have "view_phase (ocpp_view ?u) = In_transaction" "view_phase (view_started False (ocpp_view ?u)) = After_transaction"
    using assms(6,7) u(1) by (simp_all add: view_phase_def view_started_def)
  then have fin: "\<exists>c \<in> set cs. is_finished c" using monitor_finished[of cs] s2(9) by simp
  let ?w = "EVSE_OCPP_SetEvent EVSE_CHARGING_STOPPED_EVENT s2"
  have "view_pass (and (ocpp_event_bits ?w) 0xFFFFFF) (ocpp_view s2) = None"
    unfolding single_event[OF s2(4,5)] single_pass using s2(2) assms(7) u(1)
    by (simp add: view_stopped_def view_started_def)
  then have "ocpp_pass e'' ?w = Inl Null_dereference"
    using pass_step[of ?w e''] s2(3,6,7) by (simp add: set_event_fields)
  then show ?thesis using s2(1,8) fin b(2) t(3-5) by (auto simp: EVSE_OCPP_GetAuthResponse_def)
qed

theorem lost_authorization_crashes_witness:
  "\<exists>s1 s2. ocpp_pass sample_ocpp_env (answered_and_cut \<lparr>eventType = Event_Started, triggerReason = Trigger_Authorized\<rparr>
        \<lparr>response_totalCost = None, idTokenInfo = Some Auth_Accepted\<rparr> sample_session) = Inr s1 \<and>
     ocpp_pass sample_ocpp_env (EVSE_OCPP_SetEvent EVSE_CHARGING_STARTED_EVENT (OCPP_ConnectionStateChanged_Cb True s1)) = Inr s2 \<and>
     ocpp_pass sample_ocpp_env (EVSE_OCPP_SetEvent EVSE_CHARGING_STOPPED_EVENT s2) = Inl Null_dereference"
  using lost_authorization_crashes[OF sample_session(1,3,4,5), of _ "\<lparr>response_totalCost = None, idTokenInfo = Some Auth_Accepted\<rparr>"
      0 "\<lparr>eventType = Event_Started, triggerReason = Trigger_Authorized\<rparr>" sample_ocpp_env sample_ocpp_env sample_ocpp_env]
    sample_session(6) by fastforce

text \<open>Turns of the task without a connection, each with the library's wish to connect again.\<close>

fun reconnect_turns :: "nat \<Rightarrow> ocpp_env \<Rightarrow> ocpp \<Rightarrow> ocpp or_error" where
  "reconnect_turns 0 e s = Inr s"
| "reconnect_turns (Suc n) e s =
     and_then_ok (reconnect_turns n e s) (\<lambda>s. ocpp_pass e (EVSE_OCPP_SetReconnectEvent s))"

lemma reconnect_turn:
  assumes "s_ocppConnectionState s \<noteq> EVSE_Ocpp_Connected" "ocpp_is_init s" "and (ocpp_event_bits s) 0xFFFFFF = 0"
    "\<not> ocpp_task_left_loop s"
  shows "\<exists>s'. ocpp_pass e (EVSE_OCPP_SetReconnectEvent s) = Inr s' \<and>
    s_ocppConnectionState s' \<noteq> EVSE_Ocpp_Connected \<and> ocpp_is_init s' \<and> and (ocpp_event_bits s') 0xFFFFFF = 0 \<and>
    (if ocpp_reconnection_attempts s < 15
     then ocpp_calls s' = ocpp_calls s @ [Connect_websocket (Some 1)] \<and> \<not> ocpp_task_left_loop s' \<and>
          ocpp_reconnection_attempts s' = ocpp_reconnection_attempts s + 1
     else if ocpp_reconnection_attempts s = 15 then ocpp_calls s' = ocpp_calls s @ [Charge_point_stop] \<and> ocpp_task_left_loop s'
     else ocpp_calls s' = ocpp_calls s \<and> \<not> ocpp_task_left_loop s')"
proof -
  have z: "and (and x (not 0xFFFFFF)) 0xFFFFFF = 0" for x :: u32
    by (rule bit_word_eqI) (simp add: bit_simps)
  show ?thesis using disconnected_step[OF assms(1,4,2,3), of e EVSE_RECONNECT_EVENT] assms z
    unfolding EVSE_OCPP_SetReconnectEvent_def
    by (auto simp: disconnected_pass_def has_event_def ocpp_do_def EVSE_OCPP_SetEvent_def not_le)
qed

lemma reconnect_after_stop:
  "ocpp_task_left_loop s \<Longrightarrow> \<exists>s'. ocpp_pass e (EVSE_OCPP_SetReconnectEvent s) = Inr s' \<and> ocpp_task_left_loop s' \<and>
     ocpp_calls s' = ocpp_calls s \<and> ocpp_is_init s' = ocpp_is_init s"
  by (simp add: ocpp_pass_def EVSE_OCPP_SetReconnectEvent_def set_event_fields)

text \<open>
  (C30) Without an answer of the CSMS the task tries fifteen times to connect, then stops the OCPP stack
  once and leaves its loop for good: whatever is asked of it afterwards, it makes no further call.
\<close>

theorem reconnection_is_bounded:
  assumes "s_ocppConnectionState s \<noteq> EVSE_Ocpp_Connected" "ocpp_is_init s" "and (ocpp_event_bits s) 0xFFFFFF = 0"
    and "\<not> ocpp_task_left_loop s" "ocpp_reconnection_attempts s = 0"
  shows "\<exists>s'. reconnect_turns n e s = Inr s' \<and>
    (if n \<le> 15 then \<not> ocpp_task_left_loop s' \<and> ocpp_calls s' = ocpp_calls s @ replicate n (Connect_websocket (Some 1))
     else ocpp_task_left_loop s' \<and>
          ocpp_calls s' = ocpp_calls s @ replicate 15 (Connect_websocket (Some 1)) @ [Charge_point_stop])"
proof -
  have "\<exists>s'. reconnect_turns n e s = Inr s' \<and> ocpp_is_init s' \<and>
    (if n \<le> 15 then \<not> ocpp_task_left_loop s' \<and> s_ocppConnectionState s' \<noteq> EVSE_Ocpp_Connected \<and>
        and (ocpp_event_bits s') 0xFFFFFF = 0 \<and> ocpp_reconnection_attempts s' = of_nat n \<and>
        ocpp_calls s' = ocpp_calls s @ replicate n (Connect_websocket (Some 1))
     else ocpp_task_left_loop s' \<and>
          ocpp_calls s' = ocpp_calls s @ replicate 15 (Connect_websocket (Some 1)) @ [Charge_point_stop])"
  proof (induction n)
    case 0
    then show ?case using assms by simp
  next
    case (Suc n)
    then obtain s' where s': "reconnect_turns n e s = Inr s'" "ocpp_is_init s'"
      "if n \<le> 15 then \<not> ocpp_task_left_loop s' \<and> s_ocppConnectionState s' \<noteq> EVSE_Ocpp_Connected \<and>
        and (ocpp_event_bits s') 0xFFFFFF = 0 \<and> ocpp_reconnection_attempts s' = of_nat n \<and>
        ocpp_calls s' = ocpp_calls s @ replicate n (Connect_websocket (Some 1))
       else ocpp_task_left_loop s' \<and>
          ocpp_calls s' = ocpp_calls s @ replicate 15 (Connect_websocket (Some 1)) @ [Charge_point_stop]" by blast
    have step: "reconnect_turns (Suc n) e s = ocpp_pass e (EVSE_OCPP_SetReconnectEvent s')" using s'(1) by simp
    consider "n < 15" | "n = 15" | "15 < n" by linarith
    then show ?case
    proof cases
      case 1
      then have "(of_nat n :: u8) < 15" by (simp add: word_less_nat_alt unat_of_nat)
      then show ?thesis unfolding step using s' 1 reconnect_turn[of s' e]
        by (auto simp: replicate_append_same[symmetric] add.commute)
    next
      case 2
      then show ?thesis unfolding step using s' reconnect_turn[of s' e] by auto
    next
      case 3
      then show ?thesis unfolding step using s' reconnect_after_stop[of s' e] by auto
    qed
  qed
  then show ?thesis by (auto split: if_splits)
qed

theorem reconnection_is_bounded_witness:
  "\<exists>s'. reconnect_turns 20 sample_ocpp_env (OCPP_ConnectionStateChanged_Cb False sample_ocpp) = Inr s' \<and> ocpp_task_left_loop s'"
proof -
  let ?s = "OCPP_ConnectionStateChanged_Cb False sample_ocpp"
  have "s_ocppConnectionState ?s \<noteq> EVSE_Ocpp_Connected" "ocpp_is_init ?s" "and (ocpp_event_bits ?s) 0xFFFFFF = 0"
    "\<not> ocpp_task_left_loop ?s" "ocpp_reconnection_attempts ?s = 0"
    by (simp_all add: sample_ocpp_def OCPP_ConnectionStateChanged_Cb_def prvEVSE_OCPP_SetConnectionState_def
        ocpp_task_start_def EVSE_OCPP_SetNetworkConnectionProfile_def ocpp_do_def ocpp_boot_def)
  then show ?thesis using reconnection_is_bounded[of ?s 20 sample_ocpp_env] by auto
qed

end
