(* ===== verification/Ocpp_Messages.thy ===== *)
theory Ocpp_Messages
  imports Ocpp_Callbacks
begin

text \<open>
  What the OCPP task tells the CSMS and reads from it: the meter values of a session, the session
  identifier, the display messages and the lists of start and stop points.
\<close>

section \<open>Meter values\<close>

text \<open>
  The meter value of a charging session, from the energy of the charging protocol and the readings of
  the metrology: the energy goes to the register of its direction, power, current and voltage are
  reported for each phase with the sum of the powers, and the reactive power is the constant
  zero. Besides, the current and the voltage of the first phase are reported once more without a phase,
  as values of the whole connection, because the code puts them into the members for direct current.
\<close>

theorem meter_value_of_session:
  assumes "p = EVSE_VehicleData_to_OcppData text (Some v) urms irms active dir
      (prvEVSE_OCPP_InitCurrentPowerData text0 powermeter_boot)"
  shows "map (\<lambda>s. (the (sv_measurand s), sv_phase s, sv_value s)) (mv_sampledValue (to_ocpp_meter_value t p Sample_Periodic None)) =
    [(Energy_Active_Import_Register, None, if dir = EVSE_G2V then fl_of_int f32 (uint (deliveredEnergy v)) else Fin 0),
     (Energy_Active_Export_Register, None, if dir = EVSE_V2G then fl_of_int f32 (uint (deliveredEnergy v)) else Fin 0),
     (Power_Active_Import, None, fl_add f32 (fl_add f32 (ph1 active) (ph3 active)) (ph2 active)),
     (Power_Active_Import, Some Phase_L1, ph1 active), (Power_Active_Import, Some Phase_L2, ph2 active),
     (Power_Active_Import, Some Phase_L3, ph3 active),
     (Power_Reactive_Import, None, Fin 0),
     (Current_Import, Some Phase_L1, ph1 irms), (Current_Import, Some Phase_L2, ph2 irms),
     (Current_Import, Some Phase_L3, ph3 irms), (Current_Import, None, ph1 irms),
     (Voltage_Measurand, Some Phase_L1_N, ph1 urms), (Voltage_Measurand, Some Phase_L2_N, ph2 urms),
     (Voltage_Measurand, Some Phase_L3_N, ph3 urms), (Voltage_Measurand, None, ph1 urms)]"
  unfolding assms
  by (cases dir; simp add: EVSE_VehicleData_to_OcppData_def prvEVSE_OCPP_InitCurrentPowerData_def powermeter_boot_def
      energy_of_def to_ocpp_meter_value_def push_sample_def to_ocpp_sampled_value_def)

definition sample_vehicle :: vehicle_data_t where
  "sample_vehicle = \<lparr>vehicleID = ''N/A'', protocol = ''J1772'', batteryLevel = 0, chargedBatteryUnits = 0,
     batteryCapacity = 0, elapsedTime = 60, requestedEnergy = 0, deliveredEnergy = 1500, deliveredEnergyHLC = 0,
     energyDeliveryStatus = 0, timeToCharge = 0, chargeCurrent = Fin 6, vehicleAuth = True,
     charging_protocol = EVSE_BasicCharging_J1772\<rparr>"

theorem meter_value_of_session_witness:
  "length (mv_sampledValue (to_ocpp_meter_value 0 (EVSE_VehicleData_to_OcppData ''t'' (Some sample_vehicle)
      \<lparr>ph1 = Fin 230, ph2 = Fin 0, ph3 = Fin 0\<rparr> \<lparr>ph1 = Fin 6, ph2 = Fin 0, ph3 = Fin 0\<rparr>
      \<lparr>ph1 = Fin 1380, ph2 = Fin 0, ph3 = Fin 0\<rparr> EVSE_G2V (prvEVSE_OCPP_InitCurrentPowerData ''t0'' powermeter_boot))
      Sample_Periodic None)) = 15"
  using arg_cong[OF meter_value_of_session[OF refl, of 0 "''t''" sample_vehicle "\<lparr>ph1 = Fin 230, ph2 = Fin 0, ph3 = Fin 0\<rparr>"
      "\<lparr>ph1 = Fin 6, ph2 = Fin 0, ph3 = Fin 0\<rparr>" "\<lparr>ph1 = Fin 1380, ph2 = Fin 0, ph3 = Fin 0\<rparr>" EVSE_G2V "''t0''"],
      where f = length] by simp

section \<open>The session identifier\<close>

lemma show_hex_length: "n < 16 ^ Suc w \<Longrightarrow> length (show_hex n) \<le> Suc w"
proof (induction w arbitrary: n)
  case 0
  then show ?case by (simp add: show_hex.simps)
next
  case (Suc w)
  show ?case
  proof (cases "n < 16")
    case False
    have "n div 16 < 16 ^ Suc w" using Suc.prems by (simp add: less_mult_imp_div_less mult.commute)
    then show ?thesis using Suc.IH[of "n div 16"] False by (subst show_hex.simps) simp
  qed (simp add: show_hex.simps)
qed

lemma length_pad_hex: "unat x < 16 ^ Suc w \<Longrightarrow> length (pad_hex (Suc w) x) = Suc w"
  using show_hex_length[of "unat x" w] by (simp add: pad_hex_def Let_def)

lemma pad_hex_lengths:
  "length (pad_hex 8 x) = 8" "length (pad_hex 4 (and y 0xFFFF)) = 4"
proof -
  have "unat x < 16 ^ Suc 7" using unsigned_less[of x] by simp
  then show "length (pad_hex 8 x) = 8" using length_pad_hex[of x 7] by simp
  have "and y 0xFFFF \<le> 0xFFFF" by (rule word_and_le1)
  then have "unat (and y 0xFFFF) < 16 ^ Suc 3" by (simp add: word_le_nat_alt)
  then show "length (pad_hex 4 (and y 0xFFFF)) = 4" using length_pad_hex[of "and y 0xFFFF" 3] by simp
qed

text \<open>
  The session identifier always has 36 characters with its dashes at the places of a UUID, whatever
  the random numbers and the clock are: it fits the buffer of 40 and is never cut; a buffer of fewer than 37
  bytes is left alone.
\<close>

theorem session_identifier_fits:
  "case EVSE_OCPP_GenerateUUID (Some n) tick r1 r2 of
     None \<Rightarrow> n < 37
   | Some t \<Rightarrow> 37 \<le> n \<and> length t = 36 \<and> t ! 8 = CHR ''-'' \<and> t ! 13 = CHR ''-'' \<and> t ! 18 = CHR ''-'' \<and> t ! 23 = CHR ''-''"
  by (auto simp: EVSE_OCPP_GenerateUUID_def pad_hex_lengths nth_append)

theorem session_identifier_fits_witness:
  "\<exists>t. EVSE_OCPP_GenerateUUID (Some 40) 5000 0xDEADBEEF 7 = Some t \<and> length t < 40"
  using session_identifier_fits[of 40 5000 "0xDEADBEEF" 7]
  by (auto simp: EVSE_OCPP_GenerateUUID_def)

section \<open>Display messages\<close>

lemma display_loop_invalid:
  "display_loop t ms False st s = (if ms = [] then st else Display_Rejected, s)"
  by (induction ms arbitrary: st) auto

definition shown :: "DateTime \<Rightarrow> DisplayMessage list \<Rightarrow> string list" where
  "shown t ms = map message_content (filter (\<lambda>m. priority m = Some AlwaysFront) (takeWhile (message_in_time t) ms))"

lemma display_loop_valid:
  "display_loop t ms True Display_Accepted s =
     (if list_all (message_in_time t) ms then Display_Accepted else Display_Rejected,
      s\<lparr>ocppDisplayMessagesStr := ocppDisplayMessagesStr s @ shown t ms\<rparr>)"
  by (induction ms arbitrary: s) (auto simp: shown_def display_loop_invalid split: option.split)

text \<open>
  Of the display messages of a request the ones of highest priority up to the first that is not
  valid now are kept for the display; every message after that one is dropped and the request is rejected, also
  when it is valid itself.
\<close>

theorem display_messages_stop_at_invalid:
  "OCPP_SetDisplayMessage_Cb t ms s =
     (if list_all (message_in_time t) ms then Display_Accepted else Display_Rejected,
      s\<lparr>ocppDisplayMessagesStr := ocppDisplayMessagesStr s @ shown t ms\<rparr>)"
  unfolding OCPP_SetDisplayMessage_Cb_def by (rule display_loop_valid)

definition front_message :: "DateTime option \<Rightarrow> string \<Rightarrow> DisplayMessage" where
  "front_message until content = \<lparr>priority = Some AlwaysFront, timestamp_from = None, timestamp_to = until, message_content = content\<rparr>"

theorem display_messages_stop_at_invalid_witness:
  "OCPP_SetDisplayMessage_Cb 10 [front_message (Some 5) ''old'', front_message None ''new''] ocpp_boot = (Display_Rejected, ocpp_boot)"
  using display_messages_stop_at_invalid[of 10 "[front_message (Some 5) ''old'', front_message None ''new'']" ocpp_boot]
  by (simp add: shown_def front_message_def message_in_time_def)

section \<open>Start and stop points\<close>

fun join_points :: "string list \<Rightarrow> string" where
  "join_points [] = []"
| "join_points [x] = x"
| "join_points (x # y # zs) = x @ '','' @ join_points (y # zs)"

lemma no_comma:
  assumes "CHR '','' \<notin> set x"
  shows "takeWhile (\<lambda>c. c \<noteq> CHR '','') (x @ CHR '','' # r) = x" "dropWhile (\<lambda>c. c \<noteq> CHR '','') (x @ CHR '','' # r) = CHR '','' # r"
    "dropWhile (\<lambda>c. c \<noteq> CHR '','') x = []"
  using assms by (induction x) auto

lemma extract_join:
  "\<forall>y \<in> set (x # xs). CHR '','' \<notin> set y \<Longrightarrow>
     extract_loop (join_points (x # xs)) points = points @ filter (\<lambda>p. p \<noteq> []) (map trim (x # xs))"
proof (induction xs arbitrary: x points)
  case Nil
  then show ?case by (subst extract_loop.simps) (simp add: no_comma Let_def)
next
  case (Cons y ys)
  then have "CHR '','' \<notin> set x" by simp
  then show ?case using Cons.IH[of y] Cons.prems
    by (subst extract_loop.simps) (simp add: no_comma Let_def)
qed

definition point_name :: "TxStartStopPoint \<Rightarrow> string" where
  "point_name p = (case p of ParkingBayOccupancy \<Rightarrow> ''ParkingBayOccupancy'' | EVConnected \<Rightarrow> ''EVConnected''
     | Authorized \<Rightarrow> ''Authorized'' | PowerPathClosed \<Rightarrow> ''PowerPathClosed'' | EnergyTransfer \<Rightarrow> ''EnergyTransfer''
     | DataSigned \<Rightarrow> ''DataSigned'')"

lemma trim_point_name:
  "trim (point_name p) = point_name p" "CHR '','' \<notin> set (point_name p)" "point_name p \<noteq> []"
  "get_tx_start_stop_enum (point_name p) = p"
  by (cases p; simp add: point_name_def trim_def is_blank_def get_tx_start_stop_enum_def)+

lemma extract_points:
  assumes "\<forall>x \<in> set items. CHR '','' \<notin> set x"
  shows "extractStartStopPoints (join_points items) = filter (\<lambda>p. p \<noteq> []) (map trim items)"
proof (cases items)
  case Nil
  then show ?thesis by (simp add: extractStartStopPoints_def)
next
  case (Cons x xs)
  show ?thesis
  proof (cases "join_points items = []")
    case True
    then have "items = [[]]" using Cons by (cases xs) auto
    then show ?thesis by (simp add: extractStartStopPoints_def trim_def)
  next
    case False
    then show ?thesis using extract_join[of x xs "[]"] assms Cons by (simp add: extractStartStopPoints_def)
  qed
qed

text \<open>
  A list of points written with commas is read back item by item, without the blanks around the
  items and without the empty ones; a list of the names of OCPP is read back as the points they name.
\<close>

theorem configured_points_are_parsed:
  assumes "\<forall>x \<in> set items. CHR '','' \<notin> set x"
  shows "extractStartStopPoints (join_points items) = filter (\<lambda>p. p \<noteq> []) (map trim items) \<and>
    map get_tx_start_stop_enum (extractStartStopPoints (join_points (map point_name ps))) = ps"
proof -
  have "filter (\<lambda>p. p \<noteq> []) (map trim (map point_name ps)) = map point_name ps"
    by (induction ps) (simp_all add: trim_point_name)
  then have "extractStartStopPoints (join_points (map point_name ps)) = map point_name ps"
    using extract_points[of "map point_name ps"] by (auto simp: trim_point_name)
  moreover have "map get_tx_start_stop_enum (map point_name ps) = ps"
    by (induction ps) (simp_all add: trim_point_name)
  ultimately show ?thesis using extract_points[OF assms] by simp
qed

theorem configured_points_are_parsed_witness:
  "extractStartStopPoints (join_points ['' EVConnected'', [], ''Authorized '']) = [''EVConnected'', ''Authorized'']"
  using configured_points_are_parsed[of "['' EVConnected'', [], ''Authorized '']" "[]"]
  by (simp add: trim_def is_blank_def)

end
