(* ===== verification/J1772_Duty.thy ===== *)
theory J1772_Duty
  imports C_Float
begin

text \<open>
  The two conversions of \<open>charging_protocol/IEC61851.c\<close> between the current an EVSE offers
  and the duty cycle of the control pilot that advertises it. A pointer argument that the
  function writes through is an option: \<open>None\<close> for a null pointer, \<open>Some v\<close> for a cell
  holding \<open>v\<close>; the function returns its status and the cell afterwards.
\<close>

datatype j1772_status = J1772_Succes | J1772_Error | J1772_CP_Req_Digital_mode

definition EVSE_J1772_GetAmpsFromDutyCycle ::
    "cfloat \<Rightarrow> cfloat option \<Rightarrow> j1772_status \<times> cfloat option" where
  "EVSE_J1772_GetAmpsFromDutyCycle dutyCycle amps =
     (case amps of None \<Rightarrow> (J1772_Error, None) | Some old \<Rightarrow>
       if fl_lt dutyCycle (Fin 3) then (J1772_Succes, Some (Fin 0))
       else if fl_le (Fin 3) dutyCycle \<and> fl_le dutyCycle (Fin 7)
         then (J1772_CP_Req_Digital_mode, Some old)
       else if fl_lt (Fin 7) dutyCycle \<and> fl_lt dutyCycle (Fin 8) then (J1772_Succes, Some (Fin 0))
       else if fl_le (Fin 8) dutyCycle \<and> fl_lt dutyCycle (Fin 10) then (J1772_Succes, Some (Fin 6))
       else if fl_lt dutyCycle (Fin 85)
         then (J1772_Succes,
               Some (fl_mul f32 (fl_of_int f32 (fl_trunc dutyCycle)) (fl_round f32 (6/10))))
       else if fl_lt dutyCycle (Fin 97)
         then (J1772_Succes,
               Some (fl_mul f32 (fl_of_int f32 (fl_trunc (fl_sub f32 dutyCycle (Fin 64))))
                                (fl_round f32 (25/10))))
       else if fl_eq dutyCycle (Fin 100) then (J1772_Succes, Some (Fin 0))
       else (J1772_Error, Some old))"

definition EVSE_J1772_GetDutyCycleFromAmps ::
    "cfloat \<Rightarrow> cfloat option \<Rightarrow> j1772_status \<times> cfloat option" where
  "EVSE_J1772_GetDutyCycleFromAmps amps dutyCycle =
     (case dutyCycle of None \<Rightarrow> (J1772_Error, None) | Some old \<Rightarrow>
       if fl_lt amps (Fin 6) then (J1772_Error, Some old)
       else if fl_le (Fin 6) amps \<and> fl_lt amps (Fin 51)
         then (J1772_Succes,
               Some (fl_div f32 (fl_of_int f32 (fl_trunc amps)) (fl_round f32 (6/10))))
       else if fl_le (Fin 51) amps \<and> fl_le amps (Fin 81)
         then (J1772_Succes,
               Some (fl_of_int f32 (fl_trunc
                 (fl_add f32 (fl_div f32 amps (fl_round f32 (25/10))) (Fin 64)))))
       else (J1772_Error, Some (Fin 0)))"

section \<open>The literals and the ends of the two ranges\<close>

lemma f32_literals [simp]:
  "fl_round f32 (6/10) = Fin (5033165/8388608)"
  "fl_round f32 (3/5) = Fin (5033165/8388608)"
  "fl_round f32 (25/10) = Fin (5/2)"
  "fl_round f32 (5/2) = Fin (5/2)"
  by code_simp+

lemma duty_ends:
  "fl_div f32 (Fin 6) (Fin (5033165/8388608)) = Fin 10"
  "fl_div f32 (Fin 50) (Fin (5033165/8388608)) = Fin (5461333/65536)"
  by code_simp+

lemma duty_high_ends:
  "fl_add f32 (fl_div f32 (Fin 51) (Fin (5/2))) (Fin 64) = Fin (11062477/131072)"
  "fl_add f32 (fl_div f32 (Fin 81) (Fin (5/2))) (Fin 64) = Fin (12635341/131072)"
  by code_simp+

text \<open>
  The conversion of the low range: for a truncated current between 6 and 50 the quotient is
  finite and lies between the quotients of the ends, because rounding is monotone.
\<close>

definition duty_low :: "int \<Rightarrow> cfloat" where
  "duty_low n = fl_div f32 (fl_of_int f32 n) (fl_round f32 (6/10))"

definition duty_high :: "cfloat \<Rightarrow> int" where
  "duty_high a = fl_trunc (fl_add f32 (fl_div f32 a (fl_round f32 (25/10))) (Fin 64))"

lemma duty_low_mono: "0 \<le> m \<Longrightarrow> m \<le> n \<Longrightarrow> n \<le> 2 ^ 24 \<Longrightarrow> fl_le (duty_low m) (duty_low n)"
  by (simp add: duty_low_def fl_of_int_f32 fl_round_mono divide_right_mono)

lemma duty_low_range:
  assumes "6 \<le> n" "n \<le> 50"
  shows "fl_le (Fin 10) (duty_low n) \<and> fl_le (duty_low n) (Fin (5461333/65536))"
proof -
  have "fl_le (duty_low 6) (duty_low n)" "fl_le (duty_low n) (duty_low 50)"
    using assms by (auto intro: duty_low_mono)
  moreover have "duty_low 6 = Fin 10" "duty_low 50 = Fin (5461333/65536)"
    using duty_ends fl_of_int_f32[of 6] fl_of_int_f32[of 50] by (simp_all add: duty_low_def)
  ultimately show ?thesis by simp
qed

lemma duty_high_mono:
  assumes "fl_le (Fin 51) a" "fl_le a b" "fl_le b (Fin 81)"
  shows "84 \<le> duty_high a \<and> duty_high a \<le> duty_high b \<and> duty_high b \<le> 96"
proof -
  define g where "g x = fl_add f32 (fl_div f32 x (Fin (5/2))) (Fin 64)" for x
  have mono: "fl_le x y \<Longrightarrow> fl_le (g x) (g y)" for x y
    by (simp add: g_def fl_add_mono fl_div_mono)
  have ends: "g (Fin 51) = Fin (11062477/131072)" "g (Fin 81) = Fin (12635341/131072)"
    using duty_high_ends by (simp_all add: g_def)
  have lo: "fl_le (Fin (11062477/131072)) (g a)" and ab: "fl_le (g a) (g b)"
    and hi: "fl_le (g b) (Fin (12635341/131072))"
    using mono[OF assms(1)] mono[OF assms(2)] mono[OF assms(3)] by (simp_all add: ends)
  obtain r where r: "g b = Fin r" "r \<le> 12635341/131072"
    using hi fl_le_trans[OF lo ab] by (auto elim: fl_between_Fin)
  obtain q where q: "g a = Fin q" "11062477/131072 \<le> q"
    using lo ab r by (auto elim: fl_between_Fin)
  have "q \<le> r" using ab q r by simp
  then show ?thesis
    using q r rtrunc_bounds[of 84 q 97] rtrunc_bounds[of 84 r 97] rtrunc_mono[of q r]
    by (simp add: duty_high_def g_def[symmetric])
qed


section \<open>Properties\<close>

lemma GetDuty_cases:
  "EVSE_J1772_GetDutyCycleFromAmps a (Some old) =
     (if fl_le (Fin 6) a \<and> fl_lt a (Fin 51) then (J1772_Succes, Some (duty_low (fl_trunc a)))
      else if fl_le (Fin 51) a \<and> fl_le a (Fin 81)
        then (J1772_Succes, Some (fl_of_int f32 (duty_high a)))
      else if fl_lt a (Fin 6) then (J1772_Error, Some old)
      else (J1772_Error, Some (Fin 0)))"
  by (cases a) (auto simp: EVSE_J1772_GetDutyCycleFromAmps_def duty_low_def duty_high_def)

lemma GetDuty_low:
  assumes "6 \<le> a" "a < 51"
  shows "EVSE_J1772_GetDutyCycleFromAmps (Fin a) (Some old) = (J1772_Succes, Some (duty_low (rtrunc a)))"
    and "6 \<le> rtrunc a" "rtrunc a \<le> 50"
  using assms rtrunc_bounds[of 6 a 51] by (auto simp: GetDuty_cases)

lemma GetDuty_high:
  assumes "51 \<le> a" "a \<le> 81"
  shows "EVSE_J1772_GetDutyCycleFromAmps (Fin a) (Some old) =
           (J1772_Succes, Some (Fin (of_int (duty_high (Fin a)))))"
    and "84 \<le> duty_high (Fin a)" "duty_high (Fin a) \<le> 96"
  using assms duty_high_mono[of "Fin a" "Fin a"] by (auto simp: GetDuty_cases fl_of_int_f32)

text \<open>
  Encoding a current succeeds exactly for currents between 6 A and 81 A, and then the
  advertised duty cycle lies between 10 and 96 percent; a failed call leaves the cell or
  clears it, so no duty cycle outside the table of the standard is ever produced.
\<close>

theorem duty_cycle_range:
  "EVSE_J1772_GetDutyCycleFromAmps a (Some old) = (s, d) \<Longrightarrow>
     (s = J1772_Succes \<longleftrightarrow> fl_le (Fin 6) a \<and> fl_le a (Fin 81)) \<and>
     (case d of None \<Rightarrow> False
      | Some v \<Rightarrow> if s = J1772_Succes then fl_le (Fin 10) v \<and> fl_le v (Fin 96) else v = old \<or> v = Fin 0)"
proof -
  assume eq: "EVSE_J1772_GetDutyCycleFromAmps a (Some old) = (s, d)"
  consider r where "a = Fin r" "6 \<le> r" "r < 51" | r where "a = Fin r" "51 \<le> r" "r \<le> 81"
    | "\<not> (fl_le (Fin 6) a \<and> fl_le a (Fin 81))"
    by (cases a) (auto, linarith)
  then show ?thesis
  proof cases
    case 1
    have "fl_le (Fin 10) (duty_low (rtrunc r)) \<and> fl_le (duty_low (rtrunc r)) (Fin 96)"
      using duty_low_range[of "rtrunc r"] GetDuty_low(2,3)[OF 1(2,3)]
      by (auto intro: fl_le_trans[of _ "Fin (5461333/65536)"])
    then show ?thesis using eq 1 GetDuty_low(1)[OF 1(2,3), of old] by auto
  next
    case 2
    then show ?thesis using eq GetDuty_high(1)[OF 2(2,3), of old] GetDuty_high(2,3)[OF 2(2,3)] 2 by auto
  next
    case 3
    then show ?thesis using eq by (cases a) (auto simp: GetDuty_cases split: if_splits)
  qed
qed

theorem duty_cycle_range_witness:
  "(case EVSE_J1772_GetDutyCycleFromAmps (Fin 16) (Some (Fin 0)) of (s, d) \<Rightarrow>
     (s = J1772_Succes \<longleftrightarrow> fl_le (Fin 6) (Fin 16) \<and> fl_le (Fin 16) (Fin 81)) \<and>
     (case d of None \<Rightarrow> False
      | Some v \<Rightarrow> if s = J1772_Succes then fl_le (Fin 10) v \<and> fl_le v (Fin 96)
                 else v = Fin 0 \<or> v = Fin 0))"
  using duty_cycle_range[of "Fin 16" "Fin 0"]
  by (cases "EVSE_J1772_GetDutyCycleFromAmps (Fin 16) (Some (Fin 0))") simp

text \<open>
  A larger current never gets a smaller duty cycle, over the whole range the encoder
  accepts and across the change of formula at 51 A.
\<close>

theorem duty_cycle_monotone:
  assumes "fl_le (Fin 6) a" "fl_le a b" "fl_le b (Fin 81)"
    and "EVSE_J1772_GetDutyCycleFromAmps a (Some old) = (s, Some da)"
    and "EVSE_J1772_GetDutyCycleFromAmps b (Some old') = (t, Some db)"
  shows "fl_le da db"
proof -
  obtain x where x: "a = Fin x" "6 \<le> x" using assms(1-3) by (cases a; cases b) auto
  obtain y where y: "b = Fin y" "x \<le> y" "y \<le> 81" using assms(2,3) x by (cases b) auto
  consider "y < 51" | "x < 51" "51 \<le> y" | "51 \<le> x" by linarith
  then show ?thesis
  proof cases
    case 1
    then show ?thesis
      using x y assms(4,5) GetDuty_low(1)[of x old] GetDuty_low(1)[of y old'] GetDuty_low(2,3)[of x] GetDuty_low(2,3)[of y]
      by (auto intro!: duty_low_mono rtrunc_mono)
  next
    case 2
    then show ?thesis
      using x y assms(4,5) GetDuty_low(1)[of x old] GetDuty_high(1)[of y old'] GetDuty_low(2,3)[of x] GetDuty_high(2,3)[of y] duty_low_range[of "rtrunc x"]
      by (auto intro: fl_le_trans[of _ "Fin (5461333/65536)"])
  next
    case 3
    then show ?thesis
      using x y assms(4,5) GetDuty_high(1)[of x old] GetDuty_high(1)[of y old'] duty_high_mono[of a b]
      by auto
  qed
qed

theorem duty_cycle_monotone_witness:
  "\<exists>da db. EVSE_J1772_GetDutyCycleFromAmps (Fin 50) (Some (Fin 0)) = (J1772_Succes, Some da) \<and>
     EVSE_J1772_GetDutyCycleFromAmps (Fin 51) (Some (Fin 0)) = (J1772_Succes, Some db) \<and> fl_le da db"
  using duty_cycle_monotone[of "Fin 50" "Fin 51"] GetDuty_low(1)[of 50] GetDuty_high(1)[of 51] by simp

text \<open>Decoding, on the values the encoder produces.\<close>

lemma GetAmps_low:
  assumes "10 \<le> d" "d < 85"
  shows "EVSE_J1772_GetAmpsFromDutyCycle (Fin d) (Some old) =
    (J1772_Succes, Some (Fin (rnd f32 (of_int (rtrunc d) * (5033165/8388608)))))"
proof -
  have t: "10 \<le> rtrunc d" "rtrunc d < 85" using assms rtrunc_bounds[of 10 d 85] by auto
  have "0 \<le> (of_int (rtrunc d) * (5033165/8388608) :: rat)" using t by simp
  moreover have "(of_int (rtrunc d) * (5033165/8388608) :: rat) \<le> 2 ^ 24"
  proof -
    have "(of_int (rtrunc d) :: rat) \<le> 85" using t by linarith
    then show ?thesis by simp
  qed
  ultimately show ?thesis
    using assms t fl_round_f32_small
    by (simp add: EVSE_J1772_GetAmpsFromDutyCycle_def fl_of_int_f32)
qed

lemma GetAmps_high:
  assumes "85 \<le> k" "k \<le> 96"
  shows "EVSE_J1772_GetAmpsFromDutyCycle (Fin (of_int k)) (Some old) =
    (J1772_Succes, Some (Fin (of_int (k - 64) * (5/2))))"
proof -
  have lt: "(85::rat) \<le> of_int k" "of_int k \<le> (96::rat)" using assms by linarith+
  have i: "fl_round f32 (of_int n) = Fin (of_int n)" if "\<bar>n\<bar> \<le> 2 ^ 24" for n
    using fl_of_int_f32[OF that] by (simp add: fl_of_int_def)
  have sub: "fl_sub f32 (Fin (of_int k)) (Fin 64) = Fin (of_int (k - 64))"
    using i[of "k - 64"] assms by (simp add: fl_sub_def)
  have e: "(of_int (k - 64) * (5/2) :: rat) = of_int (5 * (k - 64)) * 2 powi (-1)"
    by (simp add: power_int_minus)
  have "rnd f32 (of_int (5 * (k - 64)) * 2 powi (-1)) = of_int (5 * (k - 64)) * 2 powi (-1)"
    using assms by (intro rnd_exact) (auto simp: f32_def)
  moreover have "fl_round f32 (of_int (k - 64) * (5/2)) = Fin (rnd f32 (of_int (k - 64) * (5/2)))"
    using lt by (intro fl_round_f32_small) auto
  ultimately have "fl_round f32 (of_int (k - 64) * (5/2)) = Fin (of_int (k - 64) * (5/2))"
    unfolding e by simp
  then show ?thesis
    using lt assms sub
    by (simp add: EVSE_J1772_GetAmpsFromDutyCycle_def fl_of_int_f32 del: of_int_diff)
qed

lemma duty_low_error:
  assumes "6 \<le> n" "n \<le> 50"
  obtains d where "duty_low n = Fin d" "10 \<le> d" "d < 84"
    "d \<le> of_int n * (8388608/5033165) + 1 / 2 ^ 18"
    "of_int n * (8388608/5033165) - 1 / 2 ^ 18 \<le> d"
proof -
  let ?x = "of_int n * (8388608/5033165) :: rat"
  have n: "(6::rat) \<le> of_int n" "of_int n \<le> (50::rat)" using assms by linarith+
  then have x: "0 \<le> ?x" "?x < 128" by auto
  have "duty_low n = Fin (rnd f32 ?x)"
    using fl_round_f32_small[of ?x] x assms by (simp add: duty_low_def fl_of_int_f32)
  moreover from this have "10 \<le> rnd f32 ?x \<and> rnd f32 ?x < 84"
    using duty_low_range[OF assms] by simp
  ultimately show ?thesis using that rnd_f32_error7[OF x] by blast
qed

lemma duty_high_error:
  assumes "51 \<le> a" "a \<le> 81"
  shows "of_int (duty_high (Fin a)) \<le> a * (2/5) + 64 + 1 / 2 ^ 17"
    and "a * (2/5) + 63 - 1 / 2 ^ 17 < of_int (duty_high (Fin a))"
proof -
  define u where "u = rnd f32 (a / (5/2))"
  define v where "v = rnd f32 (u + 64)"
  have q: "0 \<le> a / (5/2)" "a / (5/2) < 33" using assms by auto
  have u: "u \<le> a / (5/2) + 1 / 2 ^ 18" "a / (5/2) - 1 / 2 ^ 18 \<le> u"
    unfolding u_def by (rule rnd_f32_error7; use q in simp)+
  have u0: "0 \<le> u" unfolding u_def using q(1) by (rule rnd_nonneg)
  have ub: "u + 64 < 128" using u(1) q(2) by simp
  have v: "v \<le> u + 64 + 1 / 2 ^ 18" "u + 64 - 1 / 2 ^ 18 \<le> v"
    unfolding v_def by (rule rnd_f32_error7; use u0 ub in simp)+
  have "fl_div f32 (Fin a) (Fin (5/2)) = Fin u"
    using fl_round_f32_small[of "a / (5/2)"] q by (simp add: u_def)
  moreover have "fl_add f32 (Fin u) (Fin 64) = Fin v"
    using fl_round_f32_small[of "u + 64"] u0 ub by (simp add: v_def)
  ultimately have d: "duty_high (Fin a) = rtrunc v" by (simp add: duty_high_def)
  have v0: "0 \<le> v" unfolding v_def using u0 by (intro rnd_nonneg) simp
  then have "of_int (rtrunc v) \<le> v" "v < of_int (rtrunc v) + 1"
    by (simp_all add: rtrunc_def) linarith+
  then show "of_int (duty_high (Fin a)) \<le> a * (2/5) + 64 + 1 / 2 ^ 17"
    and "a * (2/5) + 63 - 1 / 2 ^ 17 < of_int (duty_high (Fin a))"
    using u v by (simp_all add: d)
qed

text \<open>
  Round trip: for every current between 6 A and 81 A, a vehicle that decodes the
  advertised duty cycle computes a current at most 31 micro-ampere (float rounding)
  above the requested one, so it never draws more than the EVSE offered, and less than
  3 A below it.
\<close>

theorem duty_cycle_roundtrip:
  assumes "6 \<le> a" "a \<le> 81"
  shows "\<exists>d b. EVSE_J1772_GetDutyCycleFromAmps (Fin a) (Some old) = (J1772_Succes, Some d) \<and>
    EVSE_J1772_GetAmpsFromDutyCycle d (Some old') = (J1772_Succes, Some (Fin b)) \<and>
    a - 3 \<le> b \<and> b \<le> a + 1 / 2 ^ 15"
proof (cases "a < 51")
  case True
  note low = GetDuty_low[OF assms(1) True]
  have t: "of_int (rtrunc a) \<le> a" "a < of_int (rtrunc a) + 1"
    using assms(1) by (simp_all add: rtrunc_def) linarith+
  obtain d where d: "duty_low (rtrunc a) = Fin d" "10 \<le> d" "d < 84"
      "d \<le> of_int (rtrunc a) * (8388608/5033165) + 1 / 2 ^ 18"
      "of_int (rtrunc a) * (8388608/5033165) - 1 / 2 ^ 18 \<le> d"
    using low(2,3) by (rule duty_low_error)
  have dt: "of_int (rtrunc d) \<le> d" "d < of_int (rtrunc d) + 1"
    using d(2) by (simp_all add: rtrunc_def) linarith+
  have z: "0 \<le> (of_int (rtrunc d) :: rat)" using dt d(2) by linarith
  let ?y = "of_int (rtrunc d) * (5033165/8388608) :: rat"
  have b: "rnd f32 ?y \<le> ?y + 1 / 2 ^ 18" "?y - 1 / 2 ^ 18 \<le> rnd f32 ?y"
    by (rule rnd_f32_error7; use z dt d(3) in simp)+
  have "a - 3 \<le> rnd f32 ?y" "rnd f32 ?y \<le> a + 1 / 2 ^ 15"
    using b dt t d(4,5) by (simp_all add: field_simps)
  then show ?thesis
    using low(1)[of old] d(1-3) GetAmps_low[of d old'] by simp
next
  case False
  then have hi: "51 \<le> a" by simp
  let ?k = "duty_high (Fin a)"
  note high = GetDuty_high[OF hi assms(2)] and err = duty_high_error[OF hi assms(2)]
  show ?thesis
  proof (cases "85 \<le> ?k")
    case True
    have "a - 3 \<le> of_int (?k - 64) * (5/2)" "of_int (?k - 64) * (5/2) \<le> a + 1 / 2 ^ 15"
      using err by simp_all
    then show ?thesis using high(1)[of old] GetAmps_high[OF True high(3), of old'] by blast
  next
    case False
    then have k: "?k = 84" using high(2) by simp
    have "rnd f32 (84 * (5033165/8388608)) = 6606029/131072" by code_simp
    then have "EVSE_J1772_GetAmpsFromDutyCycle (Fin 84) (Some old') = (J1772_Succes, Some (Fin (6606029/131072)))"
      using GetAmps_low[of 84 old'] rtrunc_of_int[of 84] by simp
    moreover have "a - 3 \<le> 6606029/131072" "6606029/131072 \<le> a + 1 / 2 ^ 15"
      using err hi by (simp_all add: k)
    ultimately show ?thesis using high(1)[of old] k by (metis of_int_numeral)
  qed
qed

theorem duty_cycle_roundtrip_witness:
  "(6::rat) \<le> 32 \<and> (32::rat) \<le> 81 \<and>
   (\<exists>d b. EVSE_J1772_GetDutyCycleFromAmps (Fin 32) (Some (Fin 0)) = (J1772_Succes, Some d) \<and>
     EVSE_J1772_GetAmpsFromDutyCycle d (Some (Fin 0)) = (J1772_Succes, Some (Fin b)) \<and>
     32 - 3 \<le> b \<and> b \<le> 32 + 1 / 2 ^ 15)"
  using duty_cycle_roundtrip[of 32 "Fin 0" "Fin 0"] by simp

end
