(* ===== verification/J1772.thy ===== *)
theory J1772
  imports EVSE_Types J1772_Duty
begin

text \<open>
  The state of the basic charging state machine (\<open>charging_protocol/IEC61851.c\<close>), its small
  operations and the entry actions of every state, \<open>EVSE_J1772_SetState\<close>.

  \<open>j1772\<close> is the module's state: the static structure \<open>j1772_simulation\<close>, the hardware table
  given to \<open>EVSE_J1772_Init\<close> and the log of the calls made so far on the hardware table and
  on the OCPP task. What a function reads from outside is the environment \<open>j1772_env\<close>.
\<close>

section \<open>State\<close>

datatype j1772_state =
    STATE_A | STATE_A2 | STATE_B | STATE_B2 | STATE_C | STATE_C2 | STATE_D | STATE_D2
  | STATE_E | STATE_F | J1772_LAST_STATE

text \<open>The enumeration in the order of its codes, and \<open>state + 1\<close>, \<open>state - 1\<close> on it.\<close>

definition j1772_states :: "j1772_state list" where
  "j1772_states = [STATE_A, STATE_A2, STATE_B, STATE_B2, STATE_C, STATE_C2, STATE_D, STATE_D2,
                   STATE_E, STATE_F, J1772_LAST_STATE]"

fun j1772_code :: "j1772_state \<Rightarrow> nat" where
  "j1772_code STATE_A = 0" | "j1772_code STATE_A2 = 1" | "j1772_code STATE_B = 2"
| "j1772_code STATE_B2 = 3" | "j1772_code STATE_C = 4" | "j1772_code STATE_C2 = 5"
| "j1772_code STATE_D = 6" | "j1772_code STATE_D2 = 7" | "j1772_code STATE_E = 8"
| "j1772_code STATE_F = 9" | "j1772_code J1772_LAST_STATE = 10"

lemma j1772_states_code [simp]: "j1772_states ! j1772_code s = s" "j1772_code s < length j1772_states"
  by (cases s; simp add: j1772_states_def)+

instantiation j1772_state :: linorder
begin
definition less_eq_j1772_state :: "j1772_state \<Rightarrow> j1772_state \<Rightarrow> bool" where
  "less_eq_j1772_state a b = (j1772_code a \<le> j1772_code b)"
definition less_j1772_state :: "j1772_state \<Rightarrow> j1772_state \<Rightarrow> bool" where
  "less_j1772_state a b = (j1772_code a < j1772_code b)"
instance
proof
  fix a b :: j1772_state
  assume "a \<le> b" "b \<le> a"
  then have "j1772_code a = j1772_code b" by (simp add: less_eq_j1772_state_def)
  then show "a = b" by (metis j1772_states_code(1))
qed (auto simp: less_eq_j1772_state_def less_j1772_state_def)
end

definition j1772_next :: "j1772_state \<Rightarrow> j1772_state" where
  "j1772_next s = j1772_states ! (j1772_code s + 1)"

definition j1772_prev :: "j1772_state \<Rightarrow> j1772_state" where
  "j1772_prev s = j1772_states ! (j1772_code s - 1)"

lemma j1772_next_prev [simp]:
  "j1772_next STATE_C = STATE_C2" "j1772_next STATE_D = STATE_D2"
  "j1772_prev STATE_C2 = STATE_C" "j1772_prev STATE_D2 = STATE_D"
  by (simp_all add: j1772_next_def j1772_prev_def j1772_states_def)

record j1772_simulation_evse =
  fMeasuredVoltage :: cfloat
  fMeasuredCurrent :: cfloat
  fMeasuredPower :: cfloat
  fMeterEnergyDelivered :: cfloat
  fMeterReading :: cfloat
  uElapseTime :: u32
  uCarDetectTime :: u32

record j1772_faults =
  gfci :: bool
  over_current :: bool

record j1772_timers =
  ulLastCalcTime :: u32
  ulLastDisplayTime :: u32
  ulOverCurrentTime :: u32
  ulRelayClosedTimer :: u32

record j1772_simulation =
  max_current :: cfloat
  max_voltage :: cfloat
  timers :: j1772_timers
  evse_data :: j1772_simulation_evse
  current_state :: j1772_state
  cp_state :: ControlPilotState_t
  last_cp_state :: ControlPilotState_t
  current_pwm :: cfloat
  isCharging :: bool
  auth_needed :: bool
  ready_to_charge :: bool
  faults :: j1772_faults

record j1772 = j1772_simulation +
  s_hal_functions :: "charging_hal_functions_t option"
  calls :: "hal_call list"

record j1772_env =
  now :: u32
  now_relay :: u32
  cp_reading :: ControlPilotState_t
  auth_response :: "bool \<times> bool"
  meas_voltage :: cfloat
  meas_current :: cfloat
  meas_power :: cfloat
  overcurrent_test :: bool

text \<open>
  \<open>now\<close> is the clock read at the start of a loop, \<open>now_relay\<close> the one \<open>EVSE_J1772_DisablePower\<close>
  reads. \<open>auth_response\<close> is what \<open>EVSE_OCPP_GetAuthResponse\<close> returns and writes.
  \<open>overcurrent_test\<close> is the build option \<open>ENABLE_OVERCURRENT_TEST\<close> (off in this build).
\<close>

abbreviation PWM100_MIN_VALUE :: cfloat where "PWM100_MIN_VALUE \<equiv> Fin 980"
abbreviation PWM100_MAX_VALUE :: cfloat where "PWM100_MAX_VALUE \<equiv> Fin 1000"
abbreviation BC_MEASURE_INTERVAL_MS :: u32 where "BC_MEASURE_INTERVAL_MS \<equiv> 100"
abbreviation BC_DISPLAY_INTERVAL_MS :: u32 where "BC_DISPLAY_INTERVAL_MS \<equiv> 2000"
abbreviation J1772_OVERCURRENT_PROTECTION_TIMEOUT_MS :: u32 where
  "J1772_OVERCURRENT_PROTECTION_TIMEOUT_MS \<equiv> 1000"
abbreviation MIN_CURRENT_DRAW_BEFORE_DISCONNECT_SEQ7 :: cfloat where
  "MIN_CURRENT_DRAW_BEFORE_DISCONNECT_SEQ7 \<equiv> Fin 1"

text \<open>The static variables before any call: all zero.\<close>

definition j1772_boot :: j1772 where
  "j1772_boot = \<lparr>
     max_current = Fin 0, max_voltage = Fin 0,
     timers = \<lparr>ulLastCalcTime = 0, ulLastDisplayTime = 0, ulOverCurrentTime = 0, ulRelayClosedTimer = 0\<rparr>,
     evse_data = \<lparr>fMeasuredVoltage = Fin 0, fMeasuredCurrent = Fin 0, fMeasuredPower = Fin 0,
       fMeterEnergyDelivered = Fin 0, fMeterReading = Fin 0, uElapseTime = 0, uCarDetectTime = 0\<rparr>,
     current_state = STATE_A, cp_state = ControlPilot_StateA, last_cp_state = ControlPilot_StateA,
     current_pwm = Fin 0, isCharging = False, auth_needed = False, ready_to_charge = False,
     faults = \<lparr>gfci = False, over_current = False\<rparr>,
     s_hal_functions = None, calls = []\<rparr>"

section \<open>Operations\<close>

definition hal :: "hal_call \<Rightarrow> j1772 \<Rightarrow> j1772" where
  "hal c s = s\<lparr>calls := calls s @ [c]\<rparr>"

definition prvCalculateEnergy :: "cfloat \<Rightarrow> cfloat \<Rightarrow> cfloat \<Rightarrow> cfloat" where
  "prvCalculateEnergy current voltage time_interval =
     fl_div f64 (fl_div f64 (fl_mul f64 (fl_mul f64 current voltage) time_interval)
                            (Fin 1000)) (Fin 3600)"

definition EVSE_J1772_SetMaxCurrent :: "u32 \<Rightarrow> j1772 \<Rightarrow> j1772" where
  "EVSE_J1772_SetMaxCurrent mc s =
     (let c = fl_of_int f32 (uint mc)
      in if \<not> fl_eq (max_current s) c then s\<lparr>max_current := c\<rparr> else s)"

definition EVSE_J1772_SetCPPWM :: "cfloat \<Rightarrow> j1772 \<Rightarrow> j1772_status \<times> j1772" where
  "EVSE_J1772_SetCPPWM pwm s = (J1772_Succes, hal (Set_pwm_duty pwm) s)"

definition j1772_state_prompt :: "string list" where
  "j1772_state_prompt = [''Standby'', ''Standby, PWM ON'', ''Vehicle detected'', ''Vehicle detected'',
     ''Ready (charging)'', ''Ready (No charging)'', ''Ventilation'', ''Ventilation(No charging)'',
     ''No power'', ''Error'']"

text \<open>\<open>None\<close> is a read past the end of the table.\<close>

definition EVSE_J1772_GetCurrentStateString :: "j1772 \<Rightarrow> string option" where
  "EVSE_J1772_GetCurrentStateString s =
     (if j1772_code (current_state s) < length j1772_state_prompt
      then Some (j1772_state_prompt ! j1772_code (current_state s)) else None)"

definition EVSE_J1772_GetCpState :: "j1772 \<Rightarrow> ControlPilotState_t" where
  "EVSE_J1772_GetCpState s = cp_state s"

fun j1772_state_string :: "ControlPilotState_t \<Rightarrow> char" where
  "j1772_state_string ControlPilot_StateA = CHR ''A''"
| "j1772_state_string ControlPilot_StateB = CHR ''B''"
| "j1772_state_string ControlPilot_StateC = CHR ''C''"
| "j1772_state_string ControlPilot_StateD = CHR ''D''"
| "j1772_state_string ControlPilot_StateE = CHR ''E''"
| "j1772_state_string ControlPilot_StateF = CHR ''F''"
| "j1772_state_string ControlPilot_StateUnknown = CHR ''U''"

definition EVSE_J1772_GetCpStateString :: "j1772 \<Rightarrow> char" where
  "EVSE_J1772_GetCpStateString s = j1772_state_string (EVSE_J1772_GetCpState s)"

definition EVSE_J1772_isCharging :: "bool option \<Rightarrow> j1772 \<Rightarrow> bool option" where
  "EVSE_J1772_isCharging bCharging s = map_option (\<lambda>_. isCharging s) bCharging"

definition EVSE_J1772_StopCharging :: "bool \<Rightarrow> j1772 \<Rightarrow> j1772" where
  "EVSE_J1772_StopCharging bCharging s = s\<lparr>ready_to_charge := \<not> bCharging\<rparr>"

text \<open>
  The conversion of the delivered energy to \<open>uint32_t\<close> is undefined in C out of the range of
  the type; then the result is \<open>None\<close>.
\<close>

definition EVSE_J1772_GetVehicleData :: "vehicle_data_t option \<Rightarrow> j1772 \<Rightarrow> vehicle_data_t option option" where
  "EVSE_J1772_GetVehicleData vehicle_data s =
     (case vehicle_data of None \<Rightarrow> Some None
      | Some v \<Rightarrow>
          (case fl_to_uint 32 (fMeterEnergyDelivered (evse_data s)) of None \<Rightarrow> None
           | Some e \<Rightarrow> Some (Some (v\<lparr>
               chargeCurrent := fl_conv f32 (fMeasuredCurrent (evse_data s)),
               deliveredEnergy := word_of_int e,
               elapsedTime := uElapseTime (evse_data s) div 1000\<rparr>))))"

definition EVSE_J1772_Init :: "charging_hal_functions_t option \<Rightarrow> j1772 \<Rightarrow> j1772" where
  "EVSE_J1772_Init hal_functions s =
     (case hal_functions of None \<Rightarrow> s
      | Some h \<Rightarrow>
         (let s = s\<lparr>max_voltage := Fin 230, s_hal_functions := Some h\<rparr>;
              s = (if fl_eq (max_current s) (Fin 0) then EVSE_J1772_SetMaxCurrent 25 s else s);
              s = s\<lparr>ready_to_charge := True, current_state := J1772_LAST_STATE,
                    current_pwm := PWM100_MAX_VALUE\<rparr>;
              s = hal (Set_pwm_state True) s
          in hal (Set_pwm_duty (fl_div f32 (current_pwm s) (Fin 10))) s))"

definition EVSE_J1772_DisablePower :: "j1772_env \<Rightarrow> j1772 \<Rightarrow> j1772" where
  "EVSE_J1772_DisablePower e s =
     (let s = hal (OCPP_SetEvent EVSE_CHARGING_STOPPED_EVENT) s;
          s = s\<lparr>timers := (timers s)\<lparr>ulRelayClosedTimer := now_relay e\<rparr>\<rparr>
      in hal (Set_contactor_state True) s)"

definition EVSE_J1772_EnablePower :: "j1772 \<Rightarrow> j1772" where
  "EVSE_J1772_EnablePower s =
     hal (Set_contactor_state False) (hal (OCPP_SetEvent EVSE_CHARGING_STARTED_EVENT) s)"

definition EVSE_J1772_GetCPValue :: "u16 \<Rightarrow> u32 option \<Rightarrow> j1772_status \<times> u32 option" where
  "EVSE_J1772_GetCPValue pilot_voltage cp_value =
     (J1772_Succes, map_option (\<lambda>_. ucast pilot_voltage) cp_value)"

definition EVSE_J1772_GetState :: "j1772_env \<Rightarrow> ControlPilotState_t" where
  "EVSE_J1772_GetState e = cp_reading e"

definition EVSE_J1772_SetCPPwmFromState :: "j1772_state \<Rightarrow> u16 \<Rightarrow> j1772 \<Rightarrow> j1772_status \<times> j1772" where
  "EVSE_J1772_SetCPPwmFromState st amps s =
     (let (status, pwm) =
        (if st \<in> {STATE_A, STATE_B, STATE_C, STATE_D} then (J1772_Succes, Some (Fin 100))
         else if st \<in> {STATE_A2, STATE_B2, STATE_C2, STATE_D2}
           then EVSE_J1772_GetDutyCycleFromAmps (fl_of_int f32 (uint amps)) (Some (Fin 0))
         else if st = STATE_E then (J1772_Succes, Some (Fin 0))
         else (J1772_Error, Some (Fin 0)))
      in if status = J1772_Succes then EVSE_J1772_SetCPPWM (the pwm) s else (status, s))"

definition EVSE_J1772_ResetVehicleData :: "j1772 \<Rightarrow> j1772" where
  "EVSE_J1772_ResetVehicleData s =
     s\<lparr>evse_data := (evse_data s)\<lparr>fMeasuredVoltage := Fin 0, fMeasuredCurrent := Fin 0,
          fMeasuredPower := Fin 0, fMeterEnergyDelivered := Fin 0, uCarDetectTime := 0,
          fMeterReading := Fin 0, uElapseTime := 0\<rparr>,
       timers := (timers s)\<lparr>ulLastCalcTime := 0\<rparr>\<rparr>"

text \<open>
  The entry actions. A case of the switch that falls through to the next one is written as the
  body both labels share, with the statements of the first label before it.
\<close>

definition enter_A :: "j1772_env \<Rightarrow> j1772_state \<Rightarrow> j1772 \<Rightarrow> j1772" where
  "enter_A e new_state s =
     (let s = (if new_state = STATE_A
               then (hal (OCPP_SetEvent EV_DISCONNECTED_EVENT) s)\<lparr>auth_needed := False\<rparr> else s);
          s = EVSE_J1772_ResetVehicleData s;
          s = EVSE_J1772_DisablePower e s;
          s = s\<lparr>isCharging := False, ready_to_charge := True,
                faults := (faults s)\<lparr>over_current := False\<rparr>\<rparr>
      in EVSE_J1772_StopCharging False s)"

definition enter_B :: "j1772_env \<Rightarrow> j1772_state \<Rightarrow> j1772 \<Rightarrow> j1772" where
  "enter_B e new_state s =
     (let s = (if new_state = STATE_B \<and> (current_state s = STATE_A \<or> current_state s = STATE_A2)
               then (hal (OCPP_SetEvent EV_AUTH_NEEDED_EVENT)
                      (hal (OCPP_SetEvent EV_CONNECTED_EVENT) s))\<lparr>auth_needed := True\<rparr> else s);
          s = s\<lparr>isCharging := False\<rparr>;
          s = (if new_state = STATE_B2 \<and> (current_state s = STATE_C2 \<or> current_state s = STATE_D2)
               then (if fl_lt (fMeasuredCurrent (evse_data s)) MIN_CURRENT_DRAW_BEFORE_DISCONNECT_SEQ7
                     then s else EVSE_J1772_DisablePower e s)
               else if new_state = STATE_B then EVSE_J1772_DisablePower e s else s)
      in EVSE_J1772_StopCharging False s)"

definition enter_CD :: "j1772_env \<Rightarrow> j1772_state \<Rightarrow> j1772 \<Rightarrow> j1772" where
  "enter_CD e new_state s =
     (let s = (if new_state = STATE_C then EVSE_J1772_StopCharging False s else s)
      in if current_state s \<noteq> STATE_C \<and> current_state s \<noteq> STATE_D
         then EVSE_J1772_DisablePower e (s\<lparr>isCharging := False\<rparr>) else s)"

definition enter_CD2 :: "j1772_state \<Rightarrow> j1772 \<Rightarrow> j1772" where
  "enter_CD2 new_state s =
     (let s = (if \<not> has_ventilation_state (the (s_hal_functions s))
               then (if new_state = STATE_D2 then EVSE_J1772_StopCharging True s else s)
               else if new_state = STATE_D2 then hal (Ventilation_state True) s
               else hal (Ventilation_state False) s)
      in if ready_to_charge s = True
         then (let s = EVSE_J1772_EnablePower s
               in s\<lparr>timers := (timers s)\<lparr>ulLastCalcTime := 0\<rparr>, isCharging := True\<rparr>)
         else s)"

definition enter_EF :: "j1772_env \<Rightarrow> j1772 \<Rightarrow> j1772" where
  "enter_EF e s = (EVSE_J1772_DisablePower e s)\<lparr>isCharging := False\<rparr>"

definition EVSE_J1772_SetState :: "j1772_env \<Rightarrow> j1772_state \<Rightarrow> j1772 \<Rightarrow> j1772" where
  "EVSE_J1772_SetState e new_state s =
     (if new_state = current_state s then s
      else (let s = (case new_state of
                STATE_A \<Rightarrow> enter_A e new_state s | STATE_A2 \<Rightarrow> enter_A e new_state s
              | STATE_B \<Rightarrow> enter_B e new_state s | STATE_B2 \<Rightarrow> enter_B e new_state s
              | STATE_C \<Rightarrow> enter_CD e new_state s | STATE_D \<Rightarrow> enter_CD e new_state s
              | STATE_C2 \<Rightarrow> enter_CD2 new_state s | STATE_D2 \<Rightarrow> enter_CD2 new_state s
              | STATE_E \<Rightarrow> enter_EF e s | STATE_F \<Rightarrow> enter_EF e s
              | J1772_LAST_STATE \<Rightarrow> s)
            in s\<lparr>current_state := new_state\<rparr>))"

end
