(* ===== verification/J1772_Loop.thy ===== *)
theory J1772_Loop
  imports J1772
begin

text \<open>
  One pass of the charging state machine, \<open>EVSE_J1772_Loop_EVSE\<close>. Each case of the switch on
  the current state is one definition over the module state and the local variable
  \<open>new_usPWMDutyCyclePerMil\<close>. The cases \<open>STATE_C\<close> and \<open>STATE_C2\<close> fall through to the ones
  below them in the code, and so do their definitions here. As in C, every condition reads the
  state as the statements before it left it (\<open>current_state\<close> after a call of
  \<open>EVSE_J1772_SetState\<close> is the new state).
\<close>

type_synonym loop_st = "j1772 \<times> cfloat"

text \<open>The duty cycle for \<open>max_current\<close>, times ten; the cell is 0 before the call.\<close>

definition new_duty_per_mil :: "j1772 \<Rightarrow> cfloat" where
  "new_duty_per_mil s =
     (case snd (EVSE_J1772_GetDutyCycleFromAmps (max_current s) (Some (Fin 0))) of
        None \<Rightarrow> Fin 0 | Some d \<Rightarrow> fl_mul f32 d (Fin 10))"

definition loop_A :: "j1772_env \<Rightarrow> loop_st \<Rightarrow> loop_st" where
  "loop_A e = (\<lambda>(s, pm).
     if cp_state s = ControlPilot_StateB then (EVSE_J1772_SetState e STATE_B s, PWM100_MAX_VALUE)
     else if cp_state s = ControlPilot_StateF then (EVSE_J1772_SetState e STATE_F s, pm)
     else (s, pm))"

definition loop_A2 :: "j1772_env \<Rightarrow> loop_st \<Rightarrow> loop_st" where
  "loop_A2 e = (\<lambda>(s, pm).
     if cp_state s = ControlPilot_StateA
       then (if fl_lt (current_pwm s) PWM100_MIN_VALUE
             then (EVSE_J1772_SetState e STATE_A s, PWM100_MAX_VALUE) else (s, pm))
     else if cp_state s = ControlPilot_StateB then (EVSE_J1772_SetState e STATE_B2 s, pm)
     else if cp_state s = ControlPilot_StateF then (EVSE_J1772_SetState e STATE_F s, pm)
     else (s, pm))"

definition check_auth :: "j1772_env \<Rightarrow> j1772 \<Rightarrow> j1772" where
  "check_auth e s =
     (if auth_needed s
      then (let s = s\<lparr>ready_to_charge := False\<rparr>
            in if fst (auth_response e) \<and> snd (auth_response e)
               then s\<lparr>ready_to_charge := True, auth_needed := False\<rparr> else s)
      else s)"

definition loop_B :: "j1772_env \<Rightarrow> loop_st \<Rightarrow> loop_st" where
  "loop_B e = (\<lambda>(s, pm).
     if cp_state s = ControlPilot_StateA then (EVSE_J1772_SetState e STATE_A s, PWM100_MAX_VALUE)
     else if cp_state s = ControlPilot_StateB
       then (let s = check_auth e s
             in if fl_eq (current_pwm s) PWM100_MAX_VALUE \<and> ready_to_charge s
                then (EVSE_J1772_SetState e STATE_B2 s, new_duty_per_mil s)
                else if \<not> fl_eq (current_pwm s) PWM100_MAX_VALUE then (s, PWM100_MAX_VALUE)
                else (s, pm))
     else if cp_state s = ControlPilot_StateF then (EVSE_J1772_SetState e STATE_F s, pm)
     else (s, pm))"

definition loop_B2 :: "j1772_env \<Rightarrow> loop_st \<Rightarrow> loop_st" where
  "loop_B2 e = (\<lambda>(s, pm).
     if cp_state s = ControlPilot_StateA then (EVSE_J1772_SetState e STATE_A2 s, pm)
     else if cp_state s = ControlPilot_StateB \<and> \<not> ready_to_charge s
       then (EVSE_J1772_SetState e STATE_B s, PWM100_MAX_VALUE)
     else if cp_state s = ControlPilot_StateC then (EVSE_J1772_SetState e STATE_C2 s, pm)
     else if cp_state s = ControlPilot_StateD then (EVSE_J1772_SetState e STATE_D2 s, pm)
     else if cp_state s = ControlPilot_StateF then (EVSE_J1772_SetState e STATE_F s, pm)
     else (s, pm))"

text \<open>The vehicle asks for power in state C1 or D1: switch the duty cycle to 100 percent, or charge.\<close>

definition loop_D_charge :: "j1772_env \<Rightarrow> loop_st \<Rightarrow> loop_st" where
  "loop_D_charge e = (\<lambda>(s, pm).
     if fl_eq (current_pwm s) PWM100_MAX_VALUE
     then (if ready_to_charge s \<and> \<not> over_current (faults s)
           then (EVSE_J1772_SetState e (j1772_next (current_state s)) s, new_duty_per_mil s)
           else (s, pm))
     else (s, PWM100_MAX_VALUE))"

definition loop_D_cp :: "j1772_env \<Rightarrow> loop_st \<Rightarrow> loop_st" where
  "loop_D_cp e = (\<lambda>(s, pm).
     if cp_state s = ControlPilot_StateB then (EVSE_J1772_SetState e STATE_B s, PWM100_MAX_VALUE)
     else if cp_state s = ControlPilot_StateC \<or> cp_state s = ControlPilot_StateD
       then loop_D_charge e
              (if cp_state s = ControlPilot_StateC \<and> last_cp_state s = ControlPilot_StateD
               then EVSE_J1772_SetState e STATE_C s else s, pm)
     else if cp_state s = ControlPilot_StateA then (EVSE_J1772_SetState e STATE_A s, pm)
     else if cp_state s = ControlPilot_StateF then (EVSE_J1772_SetState e STATE_F s, pm)
     else (s, pm))"

definition loop_D :: "j1772_env \<Rightarrow> loop_st \<Rightarrow> loop_st" where
  "loop_D e = (\<lambda>(s, pm).
     loop_D_cp e (if cp_state s = ControlPilot_StateC then EVSE_J1772_SetState e STATE_C s else s, pm))"

definition loop_C :: "j1772_env \<Rightarrow> loop_st \<Rightarrow> loop_st" where
  "loop_C e = (\<lambda>(s, pm).
     loop_D e (if cp_state s = ControlPilot_StateD \<and> current_state s \<noteq> STATE_D
               then EVSE_J1772_SetState e STATE_D s else s, pm))"

text \<open>
  The measurement block of the charging states: the meter readings are taken at least
  \<open>BC_MEASURE_INTERVAL_MS\<close> apart, and whenever the vehicle stops drawing.
\<close>

definition EVSE_J1772_Measure :: "j1772_env \<Rightarrow> u32 \<Rightarrow> j1772 \<Rightarrow> j1772" where
  "EVSE_J1772_Measure e time_lapse s =
     (let s = s\<lparr>evse_data := (evse_data s)\<lparr>
            uElapseTime := uElapseTime (evse_data s) + time_lapse,
            fMeasuredVoltage := meas_voltage e,
            fMeasuredCurrent := meas_current e,
            fMeasuredPower := meas_power e\<rparr>\<rparr>;
          s = (if overcurrent_test e \<and> fl_lt (fl_conv f64 (max_current s)) (fMeasuredCurrent (evse_data s))
               then s\<lparr>faults := (faults s)\<lparr>over_current := True\<rparr>,
                      timers := (timers s)\<lparr>ulOverCurrentTime := now e\<rparr>\<rparr>
               else s);
          mv = fl_conv f64 (max_voltage s);
          s = s\<lparr>evse_data := (evse_data s)\<lparr>fMeasuredVoltage :=
                 (if fl_lt (fMeasuredVoltage (evse_data s)) mv
                  then fMeasuredVoltage (evse_data s) else mv)\<rparr>\<rparr>;
          energy = prvCalculateEnergy (fMeasuredCurrent (evse_data s)) (fMeasuredVoltage (evse_data s))
                     (fl_of_int f64 (uint time_lapse))
      in s\<lparr>evse_data := (evse_data s)\<lparr>
             fMeterReading := fl_add f64 (fMeterReading (evse_data s)) energy,
             fMeterEnergyDelivered := fl_add f64 (fMeterEnergyDelivered (evse_data s)) energy\<rparr>,
           timers := (timers s)\<lparr>ulLastCalcTime := now e\<rparr>\<rparr>)"

definition EVSE_J1772_UpdateMeter :: "j1772_env \<Rightarrow> j1772 \<Rightarrow> j1772" where
  "EVSE_J1772_UpdateMeter e s =
     (let s = (if ulLastCalcTime (timers s) = 0
               then s\<lparr>timers := (timers s)\<lparr>ulLastCalcTime := now e, ulLastDisplayTime := now e\<rparr>\<rparr>
               else s);
          time_lapse = now e - ulLastCalcTime (timers s);
          time_lapse_display = now e - ulLastDisplayTime (timers s);
          s = (if BC_MEASURE_INTERVAL_MS \<le> time_lapse \<or> cp_state s = ControlPilot_StateB
                   \<or> cp_state s = ControlPilot_StateA
               then EVSE_J1772_Measure e time_lapse s else s)
      in if BC_DISPLAY_INTERVAL_MS \<le> time_lapse_display
         then s\<lparr>timers := (timers s)\<lparr>ulLastDisplayTime := now e\<rparr>\<rparr> else s)"

text \<open>The vehicle keeps drawing in state C2 or D2: stop when asked to.\<close>

definition loop_D2_charge :: "j1772_env \<Rightarrow> loop_st \<Rightarrow> loop_st" where
  "loop_D2_charge e = (\<lambda>(s, pm).
     if \<not> ready_to_charge s \<or> over_current (faults s)
     then (EVSE_J1772_SetState e (j1772_prev (current_state s)) s, PWM100_MAX_VALUE)
     else (s, pm))"

definition loop_D2_cp :: "j1772_env \<Rightarrow> loop_st \<Rightarrow> loop_st" where
  "loop_D2_cp e = (\<lambda>(s, pm).
     if cp_state s = ControlPilot_StateA then (EVSE_J1772_SetState e STATE_A2 s, pm)
     else if cp_state s = ControlPilot_StateB then (EVSE_J1772_SetState e STATE_B2 s, pm)
     else if cp_state s = ControlPilot_StateC \<or> cp_state s = ControlPilot_StateD
       then loop_D2_charge e
              (if cp_state s = ControlPilot_StateC \<and> last_cp_state s = ControlPilot_StateD
               then EVSE_J1772_SetState e STATE_C2 s else s, pm)
     else if cp_state s = ControlPilot_StateF then (EVSE_J1772_SetState e STATE_F s, pm)
     else (s, pm))"

definition loop_D2 :: "j1772_env \<Rightarrow> loop_st \<Rightarrow> loop_st" where
  "loop_D2 e = (\<lambda>(s, pm).
     let new_pm = new_duty_per_mil s
     in loop_D2_cp e (EVSE_J1772_UpdateMeter e s, new_pm))"

definition loop_C2 :: "j1772_env \<Rightarrow> loop_st \<Rightarrow> loop_st" where
  "loop_C2 e = (\<lambda>(s, pm).
     loop_D2 e (if cp_state s = ControlPilot_StateD then EVSE_J1772_SetState e STATE_D2 s else s, pm))"

definition loop_EF :: "j1772_env \<Rightarrow> loop_st \<Rightarrow> loop_st" where
  "loop_EF e = (\<lambda>(s, pm).
     (if cp_state s = ControlPilot_StateA then EVSE_J1772_SetState e STATE_A s
      else if cp_state s = ControlPilot_StateF then EVSE_J1772_SetState e STATE_F s
      else s, PWM100_MAX_VALUE))"

definition loop_LAST :: "j1772_env \<Rightarrow> loop_st \<Rightarrow> loop_st" where
  "loop_LAST e = (\<lambda>(s, pm).
     (if cp_state s \<noteq> ControlPilot_StateUnknown then EVSE_J1772_SetState e STATE_A s else s, pm))"

definition loop_switch :: "j1772_env \<Rightarrow> loop_st \<Rightarrow> loop_st" where
  "loop_switch e sp = (case current_state (fst sp) of
       STATE_A \<Rightarrow> loop_A e sp | STATE_A2 \<Rightarrow> loop_A2 e sp
     | STATE_B \<Rightarrow> loop_B e sp | STATE_B2 \<Rightarrow> loop_B2 e sp
     | STATE_C \<Rightarrow> loop_C e sp | STATE_D \<Rightarrow> loop_D e sp
     | STATE_C2 \<Rightarrow> loop_C2 e sp | STATE_D2 \<Rightarrow> loop_D2 e sp
     | STATE_E \<Rightarrow> loop_EF e sp | STATE_F \<Rightarrow> loop_EF e sp
     | J1772_LAST_STATE \<Rightarrow> loop_LAST e sp)"

text \<open>The statements before and after the switch.\<close>

definition loop_begin :: "j1772_env \<Rightarrow> j1772 \<Rightarrow> loop_st" where
  "loop_begin e s =
     (let pm = current_pwm s;
          s = s\<lparr>cp_state := EVSE_J1772_GetState e\<rparr>
      in (if J1772_OVERCURRENT_PROTECTION_TIMEOUT_MS < now e - ulOverCurrentTime (timers s)
          then s\<lparr>faults := (faults s)\<lparr>over_current := False\<rparr>\<rparr> else s, pm))"

definition loop_end :: "loop_st \<Rightarrow> j1772" where
  "loop_end = (\<lambda>(s, pm).
     let s = s\<lparr>last_cp_state := cp_state s\<rparr>
     in if \<not> fl_eq pm (current_pwm s)
        then (hal (Set_pwm_duty (fl_div f32 pm (Fin 10))) s)\<lparr>current_pwm := pm\<rparr>
        else s)"

definition EVSE_J1772_Loop_EVSE :: "j1772_env \<Rightarrow> j1772 \<Rightarrow> j1772" where
  "EVSE_J1772_Loop_EVSE e s = loop_end (loop_switch e (loop_begin e s))"

definition EVSE_J1772_Loop :: "j1772_env \<Rightarrow> bool option \<Rightarrow> j1772 \<Rightarrow> bool option \<times> j1772" where
  "EVSE_J1772_Loop e stopCharging s =
     (map_option (\<lambda>_. False) stopCharging, EVSE_J1772_Loop_EVSE e s)"

end
