(* ===== verification/J1772_Safety.thy ===== *)
theory J1772_Safety
  imports J1772_Loop
begin

text \<open>
  What the charging state machine guarantees. The reachable states are those the public
  operations lead to after \<open>EVSE_J1772_Init\<close>; the invariant ties the state variable to the
  contactor as the log of hardware calls leaves it.
\<close>

section \<open>Reachable states and the invariant\<close>

definition relay_open :: "j1772 \<Rightarrow> bool" where
  "relay_open s = contactor_open_after True (calls s)"

inductive j1772_reachable :: "j1772 \<Rightarrow> bool" where
  init: "j1772_reachable (EVSE_J1772_Init (Some h) j1772_boot)"
| loop: "j1772_reachable s \<Longrightarrow> j1772_reachable (EVSE_J1772_Loop_EVSE e s)"
| stop: "j1772_reachable s \<Longrightarrow> j1772_reachable (EVSE_J1772_StopCharging b s)"
| set_max: "j1772_reachable s \<Longrightarrow> j1772_reachable (EVSE_J1772_SetMaxCurrent mc s)"

definition j1772_inv :: "j1772 \<Rightarrow> bool" where
  "j1772_inv s \<longleftrightarrow> s_hal_functions s \<noteq> None \<and> current_state s \<noteq> STATE_E \<and>
     (isCharging s \<longrightarrow> current_state s \<in> {STATE_C2, STATE_D2} \<and> \<not> relay_open s) \<and>
     (\<not> relay_open s \<longrightarrow> current_state s \<in> {STATE_B2, STATE_C2, STATE_D2}) \<and>
     (auth_needed s \<longrightarrow> current_state s \<in> {STATE_B, STATE_F})"

lemmas enter_defs =
  enter_A_def enter_B_def enter_CD_def enter_CD2_def enter_EF_def hal_def
  EVSE_J1772_DisablePower_def EVSE_J1772_EnablePower_def EVSE_J1772_ResetVehicleData_def
  EVSE_J1772_StopCharging_def

lemmas loop_defs =
  loop_A_def loop_A2_def loop_B_def loop_B2_def loop_C_def loop_C2_def loop_D_def loop_D2_def
  loop_D_cp_def loop_D_charge_def loop_D2_cp_def loop_D2_charge_def
  loop_EF_def loop_LAST_def

lemma SetState_current_state [simp]: "current_state (EVSE_J1772_SetState e n s) = n"
  by (simp add: EVSE_J1772_SetState_def Let_def)

lemma SetState_frame [simp]:
  "s_hal_functions (EVSE_J1772_SetState e n s) = s_hal_functions s"
  "cp_state (EVSE_J1772_SetState e n s) = cp_state s"
  "last_cp_state (EVSE_J1772_SetState e n s) = last_cp_state s"
  "current_pwm (EVSE_J1772_SetState e n s) = current_pwm s"
  "max_current (EVSE_J1772_SetState e n s) = max_current s"
  "max_voltage (EVSE_J1772_SetState e n s) = max_voltage s"
  by (cases n; simp add: EVSE_J1772_SetState_def enter_defs Let_def)+

lemma SetState_self [simp]: "EVSE_J1772_SetState e (current_state s) s = s"
  by (simp add: EVSE_J1772_SetState_def)

text \<open>What each entry action does to the contactor and the flags of the invariant.\<close>

lemma enter_A_fields:
  "isCharging (enter_A e n s) = False" "relay_open (enter_A e n s) = True"
  "auth_needed (enter_A e n s) = (n \<noteq> STATE_A \<and> auth_needed s)"
  "s_hal_functions (enter_A e n s) = s_hal_functions s"
  by (simp_all add: enter_defs relay_open_def Let_def)

lemma enter_B_fields:
  "isCharging (enter_B e n s) = False"
  "relay_open (enter_B e n s) = (relay_open s \<or> n = STATE_B \<or>
     n = STATE_B2 \<and> (current_state s = STATE_C2 \<or> current_state s = STATE_D2) \<and>
     \<not> fl_lt (fMeasuredCurrent (evse_data s)) (Fin 1))"
  "auth_needed (enter_B e n s) = (auth_needed s \<or>
     n = STATE_B \<and> (current_state s = STATE_A \<or> current_state s = STATE_A2))"
  "s_hal_functions (enter_B e n s) = s_hal_functions s"
  by (auto simp: enter_defs relay_open_def Let_def)

lemma enter_CD_fields:
  "isCharging (enter_CD e n s) = (isCharging s \<and> (current_state s = STATE_C \<or> current_state s = STATE_D))"
  "relay_open (enter_CD e n s) = (relay_open s \<or> \<not> (current_state s = STATE_C \<or> current_state s = STATE_D))"
  "auth_needed (enter_CD e n s) = auth_needed s"
  "s_hal_functions (enter_CD e n s) = s_hal_functions s"
  by (auto simp: enter_defs relay_open_def Let_def)

definition blocked_D2 :: "j1772_state \<Rightarrow> j1772 \<Rightarrow> bool" where
  "blocked_D2 n s \<longleftrightarrow> n = STATE_D2 \<and> \<not> has_ventilation_state (the (s_hal_functions s))"

lemma enter_CD2_fields:
  "isCharging (enter_CD2 n s) = (isCharging s \<or> ready_to_charge s \<and> \<not> blocked_D2 n s)"
  "relay_open (enter_CD2 n s) = (relay_open s \<and> \<not> (ready_to_charge s \<and> \<not> blocked_D2 n s))"
  "auth_needed (enter_CD2 n s) = auth_needed s"
  "ready_to_charge (enter_CD2 n s) = (ready_to_charge s \<and> \<not> blocked_D2 n s)"
  "s_hal_functions (enter_CD2 n s) = s_hal_functions s"
  by (auto simp: enter_defs relay_open_def blocked_D2_def Let_def)

lemma enter_EF_fields:
  "isCharging (enter_EF e s) = False" "relay_open (enter_EF e s) = True"
  "auth_needed (enter_EF e s) = auth_needed s"
  "s_hal_functions (enter_EF e s) = s_hal_functions s"
  by (simp_all add: enter_defs relay_open_def Let_def)

lemmas enter_fields = enter_A_fields enter_B_fields enter_CD_fields enter_CD2_fields enter_EF_fields

lemma SetState_fields:
  "n \<noteq> current_state s \<Longrightarrow> isCharging (EVSE_J1772_SetState e n s) =
     (case n of STATE_C \<Rightarrow> isCharging (enter_CD e n s) | STATE_D \<Rightarrow> isCharging (enter_CD e n s)
      | STATE_C2 \<Rightarrow> isCharging (enter_CD2 n s) | STATE_D2 \<Rightarrow> isCharging (enter_CD2 n s)
      | J1772_LAST_STATE \<Rightarrow> isCharging s | _ \<Rightarrow> False)"
  "n \<noteq> current_state s \<Longrightarrow> relay_open (EVSE_J1772_SetState e n s) =
     (case n of STATE_B \<Rightarrow> True | STATE_B2 \<Rightarrow> relay_open (enter_B e n s)
      | STATE_C \<Rightarrow> relay_open (enter_CD e n s) | STATE_D \<Rightarrow> relay_open (enter_CD e n s)
      | STATE_C2 \<Rightarrow> relay_open (enter_CD2 n s) | STATE_D2 \<Rightarrow> relay_open (enter_CD2 n s)
      | J1772_LAST_STATE \<Rightarrow> relay_open s | _ \<Rightarrow> True)"
  "n \<noteq> current_state s \<Longrightarrow> auth_needed (EVSE_J1772_SetState e n s) =
     (n \<noteq> STATE_A \<and> (auth_needed s \<or>
        n = STATE_B \<and> (current_state s = STATE_A \<or> current_state s = STATE_A2)))"
  by (cases n; simp add: EVSE_J1772_SetState_def enter_fields Let_def relay_open_def[of "_\<lparr>current_state := _\<rparr>"];
      simp add: relay_open_def[symmetric] enter_fields)+

lemma SetState_inv:
  assumes "j1772_inv s" "auth_needed s \<Longrightarrow> n \<in> {STATE_A, STATE_B, STATE_F}"
    and "n \<notin> {STATE_E, J1772_LAST_STATE}"
  shows "j1772_inv (EVSE_J1772_SetState e n s)"
proof (cases "n = current_state s")
  case False
  then show ?thesis using assms
    by (cases n) (auto simp: j1772_inv_def SetState_fields enter_fields)
qed (use assms in simp)

text \<open>The two fields the checks around \<open>SetState\<close> change are outside the invariant's reach.\<close>

lemma UpdateMeter_frame [simp]:
  "current_state (EVSE_J1772_UpdateMeter e s) = current_state s"
  "s_hal_functions (EVSE_J1772_UpdateMeter e s) = s_hal_functions s"
  "cp_state (EVSE_J1772_UpdateMeter e s) = cp_state s"
  "last_cp_state (EVSE_J1772_UpdateMeter e s) = last_cp_state s"
  "current_pwm (EVSE_J1772_UpdateMeter e s) = current_pwm s"
  "max_current (EVSE_J1772_UpdateMeter e s) = max_current s"
  "max_voltage (EVSE_J1772_UpdateMeter e s) = max_voltage s"
  "isCharging (EVSE_J1772_UpdateMeter e s) = isCharging s"
  "auth_needed (EVSE_J1772_UpdateMeter e s) = auth_needed s"
  "ready_to_charge (EVSE_J1772_UpdateMeter e s) = ready_to_charge s"
  "calls (EVSE_J1772_UpdateMeter e s) = calls s"
  by (simp_all add: EVSE_J1772_UpdateMeter_def EVSE_J1772_Measure_def Let_def)

lemma check_auth_frame [simp]:
  "current_state (check_auth e s) = current_state s"
  "s_hal_functions (check_auth e s) = s_hal_functions s"
  "cp_state (check_auth e s) = cp_state s"
  "current_pwm (check_auth e s) = current_pwm s"
  "max_current (check_auth e s) = max_current s"
  "isCharging (check_auth e s) = isCharging s"
  "calls (check_auth e s) = calls s"
  by (simp_all add: check_auth_def Let_def)

lemma check_auth_ready: "ready_to_charge (check_auth e s) \<Longrightarrow> \<not> auth_needed (check_auth e s)"
  by (auto simp: check_auth_def Let_def split: if_splits)

lemma check_auth_needed: "auth_needed (check_auth e s) \<Longrightarrow> auth_needed s"
  by (auto simp: check_auth_def Let_def split: if_splits)

lemma UpdateMeter_inv: "j1772_inv s \<Longrightarrow> j1772_inv (EVSE_J1772_UpdateMeter e s)"
  by (simp add: j1772_inv_def relay_open_def)

lemma check_auth_inv: "j1772_inv s \<Longrightarrow> j1772_inv (check_auth e s)"
  using check_auth_needed[of e s] by (auto simp: j1772_inv_def relay_open_def)

lemma inv_auth: "j1772_inv s \<Longrightarrow> auth_needed s \<Longrightarrow> current_state s = STATE_B \<or> current_state s = STATE_F"
  by (auto simp: j1772_inv_def)

subsection \<open>Every case of the switch keeps the invariant\<close>

lemma loop_A_inv: "j1772_inv s \<Longrightarrow> current_state s = STATE_A \<Longrightarrow> j1772_inv (fst (loop_A e (s, pm)))"
  by (auto simp: loop_defs intro!: SetState_inv)

lemma loop_A2_inv: "j1772_inv s \<Longrightarrow> current_state s = STATE_A2 \<Longrightarrow> j1772_inv (fst (loop_A2 e (s, pm)))"
  by (auto simp: loop_defs intro!: SetState_inv dest: inv_auth)

lemma loop_B_inv: "j1772_inv s \<Longrightarrow> current_state s = STATE_B \<Longrightarrow> j1772_inv (fst (loop_B e (s, pm)))"
  by (auto simp: loop_defs Let_def intro!: SetState_inv check_auth_inv dest: check_auth_ready)

lemma loop_B2_inv: "j1772_inv s \<Longrightarrow> current_state s = STATE_B2 \<Longrightarrow> j1772_inv (fst (loop_B2 e (s, pm)))"
  by (auto simp: loop_defs intro!: SetState_inv dest: inv_auth)

lemma loop_D_charge_inv:
  "j1772_inv s \<Longrightarrow> current_state s = STATE_C \<or> current_state s = STATE_D \<Longrightarrow>
   j1772_inv (fst (loop_D_charge e (s, pm)))"
  by (auto simp: loop_D_charge_def intro!: SetState_inv dest: inv_auth)

lemma loop_D_cp_inv:
  "j1772_inv s \<Longrightarrow> current_state s = STATE_C \<or> current_state s = STATE_D \<Longrightarrow>
   j1772_inv (fst (loop_D_cp e (s, pm)))"
  by (auto simp: loop_D_cp_def intro!: loop_D_charge_inv SetState_inv dest: inv_auth)

lemma loop_D_inv:
  "j1772_inv s \<Longrightarrow> current_state s = STATE_C \<or> current_state s = STATE_D \<Longrightarrow>
   j1772_inv (fst (loop_D e (s, pm)))"
  by (auto simp: loop_D_def intro!: loop_D_cp_inv SetState_inv dest: inv_auth)

lemma loop_C_inv:
  assumes "j1772_inv s" "current_state s = STATE_C"
  shows "j1772_inv (fst (loop_C e (s, pm)))"
  unfolding loop_C_def using assms
  by (auto intro!: loop_D_inv SetState_inv dest: inv_auth)

lemma loop_D2_charge_inv:
  "j1772_inv s \<Longrightarrow> current_state s = STATE_C2 \<or> current_state s = STATE_D2 \<Longrightarrow>
   j1772_inv (fst (loop_D2_charge e (s, pm)))"
  by (auto simp: loop_D2_charge_def intro!: SetState_inv dest: inv_auth)

lemma loop_D2_cp_inv:
  "j1772_inv s \<Longrightarrow> current_state s = STATE_C2 \<or> current_state s = STATE_D2 \<Longrightarrow>
   j1772_inv (fst (loop_D2_cp e (s, pm)))"
  by (auto simp: loop_D2_cp_def intro!: loop_D2_charge_inv SetState_inv dest: inv_auth)

lemma loop_D2_inv:
  "j1772_inv s \<Longrightarrow> current_state s = STATE_C2 \<or> current_state s = STATE_D2 \<Longrightarrow>
   j1772_inv (fst (loop_D2 e (s, pm)))"
  by (auto simp: loop_D2_def Let_def intro!: loop_D2_cp_inv UpdateMeter_inv)

lemma loop_C2_inv:
  assumes "j1772_inv s" "current_state s = STATE_C2"
  shows "j1772_inv (fst (loop_C2 e (s, pm)))"
  unfolding loop_C2_def using assms
  by (auto intro!: loop_D2_inv SetState_inv dest: inv_auth)

lemma loop_EF_inv:
  "j1772_inv s \<Longrightarrow> current_state s = STATE_F \<Longrightarrow> j1772_inv (fst (loop_EF e (s, pm)))"
  by (auto simp: loop_defs intro!: SetState_inv)

lemma loop_LAST_inv:
  "j1772_inv s \<Longrightarrow> current_state s = J1772_LAST_STATE \<Longrightarrow> j1772_inv (fst (loop_LAST e (s, pm)))"
  by (auto simp: loop_defs intro!: SetState_inv)

lemma loop_begin_frame [simp]:
  "current_state (fst (loop_begin e s)) = current_state s"
  "s_hal_functions (fst (loop_begin e s)) = s_hal_functions s"
  "cp_state (fst (loop_begin e s)) = cp_reading e"
  "last_cp_state (fst (loop_begin e s)) = last_cp_state s"
  "current_pwm (fst (loop_begin e s)) = current_pwm s"
  "max_current (fst (loop_begin e s)) = max_current s"
  "max_voltage (fst (loop_begin e s)) = max_voltage s"
  "isCharging (fst (loop_begin e s)) = isCharging s"
  "auth_needed (fst (loop_begin e s)) = auth_needed s"
  "ready_to_charge (fst (loop_begin e s)) = ready_to_charge s"
  "calls (fst (loop_begin e s)) = calls s"
  "evse_data (fst (loop_begin e s)) = evse_data s"
  "timers (fst (loop_begin e s)) = timers s"
  "snd (loop_begin e s) = current_pwm s"
  by (simp_all add: loop_begin_def Let_def EVSE_J1772_GetState_def)

lemma loop_end_frame [simp]:
  "current_state (loop_end sp) = current_state (fst sp)"
  "s_hal_functions (loop_end sp) = s_hal_functions (fst sp)"
  "isCharging (loop_end sp) = isCharging (fst sp)"
  "auth_needed (loop_end sp) = auth_needed (fst sp)"
  "ready_to_charge (loop_end sp) = ready_to_charge (fst sp)"
  "max_current (loop_end sp) = max_current (fst sp)"
  "evse_data (loop_end sp) = evse_data (fst sp)"
  "relay_open (loop_end sp) = relay_open (fst sp)"
  by (simp_all add: loop_end_def Let_def hal_def relay_open_def split: prod.split)

lemma loop_switch_inv:
  assumes "j1772_inv (fst sp)"
  shows "j1772_inv (fst (loop_switch e sp))"
proof (cases sp)
  case (Pair s pm)
  moreover have "current_state s \<noteq> STATE_E" using assms Pair by (simp add: j1772_inv_def)
  ultimately show ?thesis using assms
    by (cases "current_state s") (simp_all add: loop_switch_def loop_A_inv loop_A2_inv loop_B_inv
      loop_B2_inv loop_C_inv loop_C2_inv loop_D_inv loop_D2_inv loop_EF_inv loop_LAST_inv)
qed

lemma loop_inv:
  assumes "j1772_inv s"
  shows "j1772_inv (EVSE_J1772_Loop_EVSE e s)"
proof -
  have "j1772_inv (fst (loop_begin e s))" using assms by (simp add: j1772_inv_def relay_open_def)
  then have "j1772_inv (fst (loop_switch e (loop_begin e s)))" by (rule loop_switch_inv)
  then show ?thesis by (simp add: EVSE_J1772_Loop_EVSE_def j1772_inv_def)
qed

lemma reachable_inv: "j1772_reachable s \<Longrightarrow> j1772_inv s"
proof (induction rule: j1772_reachable.induct)
  case (init h)
  show ?case
    by (simp add: EVSE_J1772_Init_def j1772_boot_def hal_def EVSE_J1772_SetMaxCurrent_def
        j1772_inv_def relay_open_def Let_def)
next
  case (loop s e)
  then show ?case by (simp add: loop_inv)
next
  case (stop s b)
  then show ?case by (simp add: EVSE_J1772_StopCharging_def j1772_inv_def relay_open_def)
next
  case (set_max s mc)
  then show ?case
    by (simp add: EVSE_J1772_SetMaxCurrent_def j1772_inv_def relay_open_def Let_def)
qed


section \<open>Properties\<close>

lemma relay_open_fst: "relay_open (fst (loop_begin e s)) = relay_open s"
  by (simp add: relay_open_def)

lemma Loop_fields:
  "current_state (EVSE_J1772_Loop_EVSE e s) = current_state (fst (loop_switch e (loop_begin e s)))"
  "isCharging (EVSE_J1772_Loop_EVSE e s) = isCharging (fst (loop_switch e (loop_begin e s)))"
  "relay_open (EVSE_J1772_Loop_EVSE e s) = relay_open (fst (loop_switch e (loop_begin e s)))"
  "auth_needed (EVSE_J1772_Loop_EVSE e s) = auth_needed (fst (loop_switch e (loop_begin e s)))"
  "ready_to_charge (EVSE_J1772_Loop_EVSE e s) = ready_to_charge (fst (loop_switch e (loop_begin e s)))"
  "evse_data (EVSE_J1772_Loop_EVSE e s) = evse_data (fst (loop_switch e (loop_begin e s)))"
  by (simp_all add: EVSE_J1772_Loop_EVSE_def)

text \<open>A run that charges: a vehicle is connected, authorized and asks for energy.\<close>

definition sample_env :: "ControlPilotState_t \<Rightarrow> j1772_env" where
  "sample_env cp = \<lparr>now = 5000, now_relay = 5000, cp_reading = cp, auth_response = (True, True),
     meas_voltage = Fin 229, meas_current = Fin 16, meas_power = Fin 3664, overcurrent_test = False\<rparr>"

definition sample_init :: j1772 where
  "sample_init = EVSE_J1772_Init (Some \<lparr>has_ventilation_state = True\<rparr>) j1772_boot"

definition sample_run :: "ControlPilotState_t list \<Rightarrow> j1772" where
  "sample_run cps = foldl (\<lambda>s cp. EVSE_J1772_Loop_EVSE (sample_env cp) s) sample_init cps"

lemma sample_run_reachable: "j1772_reachable (sample_run cps)"
proof -
  have "j1772_reachable s \<Longrightarrow> j1772_reachable (foldl (\<lambda>s cp. EVSE_J1772_Loop_EVSE (sample_env cp) s) s cps)" for s
    by (induction cps arbitrary: s) (auto intro: j1772_reachable.intros)
  then show ?thesis unfolding sample_run_def sample_init_def by (auto intro: j1772_reachable.init)
qed

text \<open>The run to charging, evaluated once.\<close>

abbreviation charging_run :: "ControlPilotState_t list" where
  "charging_run \<equiv> [ControlPilot_StateA, ControlPilot_StateB, ControlPilot_StateB, ControlPilot_StateC]"

definition summary :: "j1772 \<Rightarrow> j1772_state \<times> bool \<times> bool \<times> bool \<times> bool \<times> ControlPilotState_t \<times> cfloat" where
  "summary s = (current_state s, relay_open s, isCharging s, ready_to_charge s,
     over_current (faults s), last_cp_state s, current_pwm s)"

lemma charging_run_summary:
  "summary (sample_run charging_run) =
     (STATE_C2, False, True, True, False, ControlPilot_StateC, Fin (3413333 / 8192))"
  by code_simp

lemma charging_run_fields:
  "current_state (sample_run charging_run) = STATE_C2" "\<not> relay_open (sample_run charging_run)"
  "isCharging (sample_run charging_run)" "ready_to_charge (sample_run charging_run)"
  "\<not> over_current (faults (sample_run charging_run))"
  "last_cp_state (sample_run charging_run) = ControlPilot_StateC"
  using charging_run_summary by (simp_all add: summary_def)

end
