(* ===== verification/J1772_Properties.thy ===== *)
theory J1772_Properties
  imports J1772_Safety
begin

text \<open>
  The properties of the charging state machine: when the contactor may be closed, who has to
  agree before it closes, and that a disconnection or pilot state F opens it.
\<close>

section \<open>Contactor and authorization\<close>

text \<open>
  (C1) In every reachable state the contactor is closed only in the states B2, C2 and D2, and
  the charging flag is set only in C2 and D2 with the contactor closed.
\<close>

theorem contactor_safety:
  "j1772_reachable s \<Longrightarrow>
     (relay_open s \<or> current_state s \<in> {STATE_B2, STATE_C2, STATE_D2}) \<and>
     (if isCharging s then current_state s \<in> {STATE_C2, STATE_D2} \<and> \<not> relay_open s else True)"
  using reachable_inv[of s] by (auto simp: j1772_inv_def)

theorem contactor_safety_witness:
  "j1772_reachable (sample_run charging_run) \<and> isCharging (sample_run charging_run) \<and>
   current_state (sample_run charging_run) \<in> {STATE_C2, STATE_D2} \<and> \<not> relay_open (sample_run charging_run)"
  using contactor_safety[OF sample_run_reachable, of charging_run] sample_run_reachable charging_run_fields
  by simp

lemma table_B_F:
  "current_state s = STATE_B \<Longrightarrow> auth_needed s \<Longrightarrow> \<not> (fst (auth_response e) \<and> snd (auth_response e)) \<Longrightarrow>
     current_state (fst (loop_B e (s, pm))) \<in> {STATE_A, STATE_B, STATE_F}"
  "current_state s = STATE_F \<Longrightarrow> current_state (fst (loop_EF e (s, pm))) \<in> {STATE_A, STATE_F}"
  by (auto simp: loop_B_def loop_EF_def check_auth_def Let_def)

lemma loop_beginE:
  obtains s0 where "loop_begin e s = (s0, current_pwm s)" "current_state s0 = current_state s"
    "cp_state s0 = cp_reading e" "last_cp_state s0 = last_cp_state s"
    "current_pwm s0 = current_pwm s" "max_current s0 = max_current s" "auth_needed s0 = auth_needed s"
    "isCharging s0 = isCharging s" "ready_to_charge s0 = ready_to_charge s" "calls s0 = calls s"
    "evse_data s0 = evse_data s" "relay_open s0 = relay_open s" "s_hal_functions s0 = s_hal_functions s"
    "max_voltage s0 = max_voltage s" "j1772_inv s0 = j1772_inv s"
    "over_current (faults s0) \<Longrightarrow> over_current (faults s)"
  using loop_begin_frame[of e s]
  by (intro that[of "fst (loop_begin e s)"])
     (auto simp: prod_eq_iff relay_open_def j1772_inv_def loop_begin_def Let_def split: if_splits)

lemma closed_state: "j1772_inv s \<Longrightarrow> current_state s \<in> {STATE_A, STATE_B, STATE_F} \<Longrightarrow> relay_open s \<and> \<not> isCharging s"
  by (auto simp: j1772_inv_def)

text \<open>
  (C3) While a vehicle waits for its authorization and the server has not granted it, a pass of
  the state machine leaves the contactor open and does not charge, whatever the pilot shows.
\<close>

theorem no_power_without_authorization:
  assumes "j1772_reachable s" "auth_needed s" "\<not> (fst (auth_response e) \<and> snd (auth_response e))"
  shows "relay_open (EVSE_J1772_Loop_EVSE e s) \<and> \<not> isCharging (EVSE_J1772_Loop_EVSE e s)"
proof -
  have inv: "j1772_inv (EVSE_J1772_Loop_EVSE e s)" using assms(1) reachable_inv loop_inv by blast
  have "current_state s = STATE_B \<or> current_state s = STATE_F"
    using inv_auth[OF reachable_inv] assms by blast
  moreover obtain s0 where s0: "loop_begin e s = (s0, current_pwm s)"
    "current_state s0 = current_state s" "auth_needed s0 = auth_needed s" by (rule loop_beginE)
  ultimately have "current_state (EVSE_J1772_Loop_EVSE e s) \<in> {STATE_A, STATE_B, STATE_F}"
    using table_B_F(1)[of s0 e "current_pwm s"] table_B_F(2)[of s0 e "current_pwm s"] assms(2,3)
    by (elim disjE) (auto simp: Loop_fields loop_switch_def)
  then show ?thesis using closed_state[OF inv] by blast
qed

text \<open>A run with a vehicle that is not authorized.\<close>

definition refused_run :: j1772 where
  "refused_run = EVSE_J1772_Loop_EVSE (sample_env ControlPilot_StateB)
     (EVSE_J1772_Loop_EVSE (sample_env ControlPilot_StateA) sample_init)"

lemma refused_run_reachable: "j1772_reachable refused_run"
  unfolding refused_run_def sample_init_def by (intro j1772_reachable.intros)

lemma refused_run_fields: "(current_state refused_run, auth_needed refused_run) = (STATE_B, True)"
  by code_simp

theorem no_power_without_authorization_witness:
  "auth_needed refused_run \<and>
   relay_open (EVSE_J1772_Loop_EVSE (sample_env ControlPilot_StateC\<lparr>auth_response := (True, False)\<rparr>) refused_run)"
  using no_power_without_authorization[OF refused_run_reachable,
      of "sample_env ControlPilot_StateC\<lparr>auth_response := (True, False)\<rparr>"] refused_run_fields
  by simp

text \<open>
  A vehicle that arrives in standby is announced to the OCPP task and its authorization is
  requested before anything else happens: the pass ends in state B, waiting for the response,
  with exactly the events connected, authorization needed and charging stopped, and the
  contactor is commanded open.
\<close>

theorem connection_requests_authorization:
  assumes "current_state s = STATE_A" "cp_reading e = ControlPilot_StateB"
  shows "current_state (EVSE_J1772_Loop_EVSE e s) = STATE_B \<and> auth_needed (EVSE_J1772_Loop_EVSE e s) \<and>
    take (length (calls s) + 4) (calls (EVSE_J1772_Loop_EVSE e s)) =
      calls s @ [OCPP_SetEvent EV_CONNECTED_EVENT, OCPP_SetEvent EV_AUTH_NEEDED_EVENT,
                 OCPP_SetEvent EVSE_CHARGING_STOPPED_EVENT, Set_contactor_state True]"
  using assms
  by (cases "loop_begin e s")
     (auto simp: EVSE_J1772_Loop_EVSE_def loop_switch_def loop_A_def EVSE_J1772_SetState_def enter_defs
        loop_end_def loop_begin_def EVSE_J1772_GetState_def Let_def)

theorem connection_requests_authorization_witness:
  "current_state (EVSE_J1772_Loop_EVSE (sample_env ControlPilot_StateB)
     (sample_init\<lparr>current_state := STATE_A\<rparr>)) = STATE_B"
  using connection_requests_authorization[of "sample_init\<lparr>current_state := STATE_A\<rparr>" "sample_env ControlPilot_StateB"]
  by (simp add: sample_env_def)

text \<open>The passes that close the contactor.\<close>

lemma SetState_relay_closed:
  assumes "relay_open s" "\<not> relay_open (EVSE_J1772_SetState e n s)"
  shows "n \<in> {STATE_C2, STATE_D2} \<and> ready_to_charge s \<and> \<not> blocked_D2 n s"
  using assms by (cases "n = current_state s"; cases n) (auto simp: SetState_fields enter_fields)

lemma SetState_relay_kept [simp]:
  "relay_open s \<Longrightarrow> n \<notin> {STATE_C2, STATE_D2} \<Longrightarrow> relay_open (EVSE_J1772_SetState e n s)"
  using SetState_relay_closed by blast

lemma UpdateMeter_relay [simp]: "relay_open (EVSE_J1772_UpdateMeter e s) = relay_open s"
  "relay_open (check_auth e s) = relay_open s"
  by (simp_all add: relay_open_def)

lemma closing_cases:
  "relay_open s \<Longrightarrow> \<not> relay_open (fst (loop_A e (s, pm))) \<Longrightarrow> False"
  "relay_open s \<Longrightarrow> \<not> relay_open (fst (loop_A2 e (s, pm))) \<Longrightarrow> False"
  "relay_open s \<Longrightarrow> \<not> relay_open (fst (loop_B e (s, pm))) \<Longrightarrow> False"
  "relay_open s \<Longrightarrow> \<not> relay_open (fst (loop_B2 e (s, pm))) \<Longrightarrow>
     ready_to_charge s \<and> cp_state s \<in> {ControlPilot_StateC, ControlPilot_StateD} \<and>
     current_state (fst (loop_B2 e (s, pm))) \<in> {STATE_C2, STATE_D2}"
  "relay_open s \<Longrightarrow> \<not> relay_open (fst (loop_EF e (s, pm))) \<Longrightarrow> False"
  "relay_open s \<Longrightarrow> \<not> relay_open (fst (loop_LAST e (s, pm))) \<Longrightarrow> False"
  by (auto simp: loop_defs Let_def dest: SetState_relay_closed split: if_splits)

lemma closing_D_charge:
  "relay_open s \<Longrightarrow> \<not> relay_open (fst (loop_D_charge e (s, pm))) \<Longrightarrow>
     current_state (fst (loop_D_charge e (s, pm))) \<in> {STATE_C2, STATE_D2} \<and> \<not> over_current (faults s)"
  by (auto simp: loop_D_charge_def dest: SetState_relay_closed split: if_splits)

lemma closing_D_cp:
  assumes "relay_open s" "\<not> relay_open (fst (loop_D_cp e (s, pm)))"
    and "current_state s = STATE_C \<or> current_state s = STATE_D"
  shows "cp_state s \<in> {ControlPilot_StateC, ControlPilot_StateD} \<and>
     current_state (fst (loop_D_cp e (s, pm))) \<in> {STATE_C2, STATE_D2}"
proof -
  let ?t = "if cp_state s = ControlPilot_StateC \<and> last_cp_state s = ControlPilot_StateD
            then EVSE_J1772_SetState e STATE_C s else s"
  have "relay_open ?t" using assms(1) SetState_relay_closed[of s e STATE_C] by auto
  then show ?thesis using assms closing_D_charge[of ?t e pm]
    by (auto simp: loop_D_cp_def dest: SetState_relay_closed split: if_splits)
qed

lemma closing_D:
  assumes "relay_open s" "\<not> relay_open (fst (loop_D e (s, pm)))"
    and "current_state s = STATE_C \<or> current_state s = STATE_D"
  shows "cp_state s \<in> {ControlPilot_StateC, ControlPilot_StateD} \<and>
     current_state (fst (loop_D e (s, pm))) \<in> {STATE_C2, STATE_D2}"
  using assms SetState_relay_closed[of s e STATE_C]
    closing_D_cp[of "if cp_state s = ControlPilot_StateC then EVSE_J1772_SetState e STATE_C s else s" e pm]
  by (auto simp: loop_D_def split: if_splits)

lemma closing_C:
  assumes "relay_open s" "\<not> relay_open (fst (loop_C e (s, pm)))" and "current_state s = STATE_C"
  shows "cp_state s \<in> {ControlPilot_StateC, ControlPilot_StateD} \<and>
     current_state (fst (loop_C e (s, pm))) \<in> {STATE_C2, STATE_D2}"
  using assms SetState_relay_closed[of s e STATE_D]
    closing_D[of "if cp_state s = ControlPilot_StateD \<and> current_state s \<noteq> STATE_D
                  then EVSE_J1772_SetState e STATE_D s else s" e pm]
  by (auto simp: loop_C_def split: if_splits)


lemma closing_D2_charge:
  "current_state s = STATE_C2 \<or> current_state s = STATE_D2 \<Longrightarrow>
   \<not> relay_open (fst (loop_D2_charge e (s, pm))) \<Longrightarrow>
     \<not> relay_open s \<and> fst (loop_D2_charge e (s, pm)) = s"
  by (auto simp: loop_D2_charge_def SetState_fields enter_fields split: if_splits)

lemma closing_D2_cp:
  assumes "relay_open s" "\<not> relay_open (fst (loop_D2_cp e (s, pm)))"
    and "current_state s = STATE_C2 \<or> current_state s = STATE_D2"
  shows "cp_state s \<in> {ControlPilot_StateC, ControlPilot_StateD} \<and> ready_to_charge s \<and>
     current_state (fst (loop_D2_cp e (s, pm))) \<in> {STATE_C2, STATE_D2}"
proof -
  have cp: "cp_state s = ControlPilot_StateC \<or> cp_state s = ControlPilot_StateD"
    using assms by (auto simp: loop_D2_cp_def split: if_splits)
  obtain t where t: "loop_D2_cp e (s, pm) = loop_D2_charge e (t, pm)"
      "current_state t = STATE_C2 \<or> current_state t = STATE_D2"
      "t = s \<or> t = EVSE_J1772_SetState e STATE_C2 s"
    using cp assms(3) by (elim disjE) (auto simp: loop_D2_cp_def split: if_splits)
  then have "\<not> relay_open t \<and> fst (loop_D2_charge e (t, pm)) = t"
    using assms(2) closing_D2_charge by simp
  then show ?thesis using t cp assms(1) SetState_relay_closed[of s e STATE_C2] by auto
qed

lemma closing_D2:
  "relay_open s \<Longrightarrow> \<not> relay_open (fst (loop_D2 e (s, pm))) \<Longrightarrow>
   current_state s = STATE_C2 \<or> current_state s = STATE_D2 \<Longrightarrow>
     cp_state s \<in> {ControlPilot_StateC, ControlPilot_StateD} \<and> ready_to_charge s \<and>
     current_state (fst (loop_D2 e (s, pm))) \<in> {STATE_C2, STATE_D2}"
  using closing_D2_cp[of "EVSE_J1772_UpdateMeter e s" e "new_duty_per_mil s"]
  by (auto simp: loop_D2_def Let_def)

lemma loop_D2_cp_state:
  "cp_state s \<in> {ControlPilot_StateC, ControlPilot_StateD} \<Longrightarrow>
   current_state s = STATE_C2 \<or> current_state s = STATE_D2 \<Longrightarrow>
   \<not> relay_open (fst (loop_D2 e (s, pm))) \<Longrightarrow> current_state (fst (loop_D2 e (s, pm))) \<in> {STATE_C2, STATE_D2}"
  using closing_D2_charge[of "if cp_state s = ControlPilot_StateC \<and> last_cp_state s = ControlPilot_StateD
            then EVSE_J1772_SetState e STATE_C2 (EVSE_J1772_UpdateMeter e s) else EVSE_J1772_UpdateMeter e s"
            e "new_duty_per_mil s"]
  by (auto simp: loop_D2_def loop_D2_cp_def Let_def split: if_splits)

lemma closing_C2:
  assumes "relay_open s" "\<not> relay_open (fst (loop_C2 e (s, pm)))" "current_state s = STATE_C2"
  shows "cp_state s \<in> {ControlPilot_StateC, ControlPilot_StateD} \<and>
     current_state (fst (loop_C2 e (s, pm))) \<in> {STATE_C2, STATE_D2}"
  using assms closing_D2[of s e pm] loop_D2_cp_state[of "EVSE_J1772_SetState e STATE_D2 s" e pm]
  by (cases "cp_state s = ControlPilot_StateD") (auto simp: loop_C2_def)

text \<open>
  (C4) The contactor closes only in a pass in which the vehicle asks for energy (pilot state C
  or D), which ends in C2 or D2 and with no authorization pending.
\<close>

theorem contactor_closes_only_on_request:
  assumes "j1772_reachable s" "relay_open s" "\<not> relay_open (EVSE_J1772_Loop_EVSE e s)"
  shows "cp_reading e \<in> {ControlPilot_StateC, ControlPilot_StateD} \<and>
    current_state (EVSE_J1772_Loop_EVSE e s) \<in> {STATE_C2, STATE_D2} \<and>
    \<not> auth_needed s \<and> \<not> auth_needed (EVSE_J1772_Loop_EVSE e s)"
proof -
  obtain s0 where s0: "loop_begin e s = (s0, current_pwm s)" "current_state s0 = current_state s"
    "cp_state s0 = cp_reading e" "relay_open s0 = relay_open s" by (rule loop_beginE)
  let ?sp = "loop_switch e (s0, current_pwm s)"
  have inv: "j1772_inv s" and inv': "j1772_inv (EVSE_J1772_Loop_EVSE e s)"
    using assms(1) reachable_inv loop_inv by blast+
  have closed: "relay_open s0" "\<not> relay_open (fst ?sp)" using assms s0 by (simp_all add: Loop_fields)
  have "cp_state s0 \<in> {ControlPilot_StateC, ControlPilot_StateD} \<and>
      current_state (fst ?sp) \<in> {STATE_C2, STATE_D2} \<and> current_state s0 \<notin> {STATE_B, STATE_F}"
    using closed inv s0(2) closing_cases[of s0 e "current_pwm s"] closing_D[of s0 e "current_pwm s"]
      closing_C[of s0 e "current_pwm s"] closing_D2[of s0 e "current_pwm s"] closing_C2[of s0 e "current_pwm s"]
    by (cases "current_state s0") (auto simp: loop_switch_def)
  moreover from this have "\<not> auth_needed s" using inv_auth[OF inv] s0(2) by auto
  moreover have "\<not> auth_needed (EVSE_J1772_Loop_EVSE e s)"
    using calculation(1) inv_auth[OF inv'] s0(1) by (auto simp: Loop_fields)
  ultimately show ?thesis using s0 by (simp add: Loop_fields)
qed

lemma sample_run_snoc: "sample_run (cps @ [cp]) = EVSE_J1772_Loop_EVSE (sample_env cp) (sample_run cps)"
  by (simp add: sample_run_def)

lemma closing_run_fields:
  "summary (sample_run [ControlPilot_StateA, ControlPilot_StateB, ControlPilot_StateB]) =
     (STATE_B2, True, False, True, False, ControlPilot_StateB, Fin (3413333 / 8192))"
  by code_simp

theorem contactor_closes_only_on_request_witness:
  "\<not> auth_needed (sample_run [ControlPilot_StateA, ControlPilot_StateB, ControlPilot_StateB])"
  using contactor_closes_only_on_request[OF sample_run_reachable,
      of "[ControlPilot_StateA, ControlPilot_StateB, ControlPilot_StateB]" "sample_env ControlPilot_StateC"]
    closing_run_fields charging_run_fields(2) sample_run_snoc[of "[ControlPilot_StateA, ControlPilot_StateB, ControlPilot_StateB]" ControlPilot_StateC]
  by (simp add: summary_def)

section \<open>Faults and disconnection\<close>

lemma SetState_relay_open [simp]:
  "n \<in> {STATE_A, STATE_A2, STATE_B, STATE_F} \<Longrightarrow> relay_open s \<or> n \<noteq> current_state s \<Longrightarrow>
     relay_open (EVSE_J1772_SetState e n s)"
  by (cases "n = current_state s"; cases n) (auto simp: SetState_fields)

lemma inv_relay_open: "j1772_inv s \<Longrightarrow> current_state s \<notin> {STATE_B2, STATE_C2, STATE_D2} \<Longrightarrow> relay_open s"
  by (auto simp: j1772_inv_def)

text \<open>
  When the pilot shows a disconnected vehicle (state A) or the fault state F, one pass
  opens the contactor and ends charging, from every reachable state.
\<close>

lemma disconnect_or_fault_opens_contactor:
  assumes "j1772_reachable s" "cp_reading e \<in> {ControlPilot_StateA, ControlPilot_StateF}"
  shows "relay_open (EVSE_J1772_Loop_EVSE e s) \<and> \<not> isCharging (EVSE_J1772_Loop_EVSE e s)"
proof -
  obtain s0 where s0: "loop_begin e s = (s0, current_pwm s)" "current_state s0 = current_state s"
    "cp_state s0 = cp_reading e" "j1772_inv s0 = j1772_inv s" by (rule loop_beginE)
  have inv: "j1772_inv s0" and inv': "j1772_inv (EVSE_J1772_Loop_EVSE e s)"
    using assms(1) reachable_inv loop_inv s0 by blast+
  have "relay_open (fst (loop_switch e (s0, current_pwm s)))"
    using assms(2) s0 inv inv_relay_open[OF inv]
    by (cases "current_state s0") (auto simp: loop_switch_def loop_defs Let_def j1772_inv_def)
  then show ?thesis using inv' s0 by (auto simp: Loop_fields j1772_inv_def)
qed

end
