(* ===== verification/J1772_Behaviour.thy ===== *)
theory J1772_Behaviour
  imports J1772_Properties
begin

text \<open>
  The functional behaviour of the charging state machine: the table of its transitions, how it
  starts and stops charging, the meter and the duty cycle it advertises.
\<close>

section \<open>Transitions\<close>

text \<open>
  The conditions the transitions depend on. An over current is forgotten, at the start of the
  pass, more than a second after it was seen; a vehicle that waits for its authorization is let
  through by the response of the server alone, any other one by the ready flag.
\<close>

definition over_current_now :: "j1772_env \<Rightarrow> j1772 \<Rightarrow> bool" where
  "over_current_now e s \<longleftrightarrow> over_current (faults s) \<and>
     \<not> J1772_OVERCURRENT_PROTECTION_TIMEOUT_MS < now e - ulOverCurrentTime (timers s)"

definition may_advertise :: "j1772_env \<Rightarrow> j1772 \<Rightarrow> bool" where
  "may_advertise e s \<longleftrightarrow> (if auth_needed s then fst (auth_response e) \<and> snd (auth_response e) else ready_to_charge s)"

definition pilot_at_max :: "j1772 \<Rightarrow> bool" where
  "pilot_at_max s \<longleftrightarrow> current_pwm s = PWM100_MAX_VALUE"

text \<open>
  The automaton of the module: the successor of a state for a pilot reading, with the guards of
  each transition. Where a pilot reading is not named the state is kept.
\<close>

fun j1772_target :: "j1772_env \<Rightarrow> j1772 \<Rightarrow> j1772_state \<Rightarrow> ControlPilotState_t \<Rightarrow> j1772_state" where
  "j1772_target e s STATE_A cp = (case cp of ControlPilot_StateB \<Rightarrow> STATE_B
     | ControlPilot_StateF \<Rightarrow> STATE_F | _ \<Rightarrow> STATE_A)"
| "j1772_target e s STATE_A2 cp = (case cp of
       ControlPilot_StateA \<Rightarrow> (if fl_lt (current_pwm s) PWM100_MIN_VALUE then STATE_A else STATE_A2)
     | ControlPilot_StateB \<Rightarrow> STATE_B2 | ControlPilot_StateF \<Rightarrow> STATE_F | _ \<Rightarrow> STATE_A2)"
| "j1772_target e s STATE_B cp = (case cp of ControlPilot_StateA \<Rightarrow> STATE_A
     | ControlPilot_StateB \<Rightarrow> (if pilot_at_max s \<and> may_advertise e s then STATE_B2 else STATE_B)
     | ControlPilot_StateF \<Rightarrow> STATE_F | _ \<Rightarrow> STATE_B)"
| "j1772_target e s STATE_B2 cp = (case cp of ControlPilot_StateA \<Rightarrow> STATE_A2
     | ControlPilot_StateB \<Rightarrow> (if ready_to_charge s then STATE_B2 else STATE_B)
     | ControlPilot_StateC \<Rightarrow> STATE_C2 | ControlPilot_StateD \<Rightarrow> STATE_D2
     | ControlPilot_StateF \<Rightarrow> STATE_F | _ \<Rightarrow> STATE_B2)"
| "j1772_target e s STATE_C cp = (case cp of ControlPilot_StateA \<Rightarrow> STATE_A
     | ControlPilot_StateB \<Rightarrow> STATE_B
     | ControlPilot_StateC \<Rightarrow> (if pilot_at_max s \<and> ready_to_charge s \<and> \<not> over_current_now e s
                               then STATE_C2 else STATE_C)
     | ControlPilot_StateD \<Rightarrow> (if pilot_at_max s \<and> ready_to_charge s \<and> \<not> over_current_now e s
                               then STATE_D2 else STATE_D)
     | ControlPilot_StateF \<Rightarrow> STATE_F | _ \<Rightarrow> STATE_C)"
| "j1772_target e s STATE_D cp = (case cp of ControlPilot_StateA \<Rightarrow> STATE_A
     | ControlPilot_StateB \<Rightarrow> STATE_B
     | ControlPilot_StateC \<Rightarrow> (if pilot_at_max s \<and> \<not> over_current_now e s then STATE_C2 else STATE_C)
     | ControlPilot_StateD \<Rightarrow> (if pilot_at_max s \<and> ready_to_charge s \<and> \<not> over_current_now e s
                               then STATE_D2 else STATE_D)
     | ControlPilot_StateF \<Rightarrow> STATE_F | _ \<Rightarrow> STATE_D)"
| "j1772_target e s STATE_C2 cp = (case cp of ControlPilot_StateA \<Rightarrow> STATE_A2
     | ControlPilot_StateB \<Rightarrow> STATE_B2
     | ControlPilot_StateC \<Rightarrow> (if ready_to_charge s \<and> \<not> over_current_now e s then STATE_C2 else STATE_C)
     | ControlPilot_StateD \<Rightarrow> (if ready_to_charge s \<and> \<not> over_current_now e s \<and>
                                  has_ventilation_state (the (s_hal_functions s)) then STATE_D2 else STATE_D)
     | ControlPilot_StateF \<Rightarrow> STATE_F | _ \<Rightarrow> STATE_C2)"
| "j1772_target e s STATE_D2 cp = (case cp of ControlPilot_StateA \<Rightarrow> STATE_A2
     | ControlPilot_StateB \<Rightarrow> STATE_B2
     | ControlPilot_StateC \<Rightarrow>
         (let on = ready_to_charge s \<and> \<not> over_current_now e s
          in if last_cp_state s = ControlPilot_StateD then (if on then STATE_C2 else STATE_C)
             else (if on then STATE_D2 else STATE_D))
     | ControlPilot_StateD \<Rightarrow> (if ready_to_charge s \<and> \<not> over_current_now e s then STATE_D2 else STATE_D)
     | ControlPilot_StateF \<Rightarrow> STATE_F | _ \<Rightarrow> STATE_D2)"
| "j1772_target e s STATE_E cp = (case cp of ControlPilot_StateA \<Rightarrow> STATE_A
     | ControlPilot_StateF \<Rightarrow> STATE_F | _ \<Rightarrow> STATE_E)"
| "j1772_target e s STATE_F cp = (case cp of ControlPilot_StateA \<Rightarrow> STATE_A | _ \<Rightarrow> STATE_F)"
| "j1772_target e s J1772_LAST_STATE cp =
     (case cp of ControlPilot_StateUnknown \<Rightarrow> J1772_LAST_STATE | _ \<Rightarrow> STATE_A)"

lemma fl_eq_Fin [simp]: "fl_eq x (Fin a) \<longleftrightarrow> x = Fin a" "fl_eq (Fin a) x \<longleftrightarrow> x = Fin a"
  by (cases x; auto)+

lemma charge_state:
  "current_state (fst (loop_D_charge e (s, pm))) =
     (if current_pwm s = PWM100_MAX_VALUE \<and> ready_to_charge s \<and> \<not> over_current (faults s)
      then j1772_next (current_state s) else current_state s)"
  "current_state (fst (loop_D2_charge e (s, pm))) =
     (if \<not> ready_to_charge s \<or> over_current (faults s)
      then j1772_prev (current_state s) else current_state s)"
  by (simp_all add: loop_D_charge_def loop_D2_charge_def)

text \<open>What the guards read, through the steps of a pass that come before the guard.\<close>

lemma SetState_guards:
  "n \<in> {STATE_C, STATE_D, STATE_C2, STATE_D2} \<Longrightarrow>
     over_current (faults (EVSE_J1772_SetState e n s)) = over_current (faults s)"
  "ready_to_charge (EVSE_J1772_SetState e STATE_C s) = (current_state s \<noteq> STATE_C \<or> ready_to_charge s)"
  "ready_to_charge (EVSE_J1772_SetState e STATE_D s) = ready_to_charge s"
  "ready_to_charge (EVSE_J1772_SetState e STATE_C2 s) = ready_to_charge s"
  "ready_to_charge (EVSE_J1772_SetState e STATE_D2 s) =
     (ready_to_charge s \<and> (current_state s = STATE_D2 \<or> has_ventilation_state (the (s_hal_functions s))))"
  by (auto simp: EVSE_J1772_SetState_def enter_defs Let_def split: if_splits)

lemma UpdateMeter_guards:
  "\<not> overcurrent_test e \<Longrightarrow> over_current (faults (EVSE_J1772_UpdateMeter e s)) = over_current (faults s)"
  "ready_to_charge (EVSE_J1772_UpdateMeter e s) = ready_to_charge s"
  by (simp_all add: EVSE_J1772_UpdateMeter_def EVSE_J1772_Measure_def Let_def)

lemma check_auth_guards:
  "ready_to_charge (check_auth e s) = may_advertise e s" "current_pwm (check_auth e s) = current_pwm s"
  by (simp_all add: check_auth_def may_advertise_def Let_def)

lemmas guard_simps = SetState_guards UpdateMeter_guards check_auth_guards

lemma begin_guards:
  "over_current (faults (fst (loop_begin e s))) = over_current_now e s"
  "may_advertise e (fst (loop_begin e s)) = may_advertise e s"
  by (auto simp: loop_begin_def over_current_now_def may_advertise_def Let_def)

lemma target_idle:
  "current_state s \<in> {STATE_A, STATE_A2, STATE_B, STATE_B2, STATE_E, STATE_F, J1772_LAST_STATE} \<Longrightarrow>
     current_state (fst (loop_switch e (s, pm))) = j1772_target e s (current_state s) (cp_state s)"
  by (elim insertE; cases "cp_state s")
     (simp_all add: loop_switch_def loop_A_def loop_A2_def loop_B_def loop_B2_def loop_EF_def loop_LAST_def
        Let_def guard_simps pilot_at_max_def)

lemma target_D_cp:
  assumes "current_state s \<in> {STATE_C, STATE_D}" "cp_state s = ControlPilot_StateC \<longrightarrow> current_state s = STATE_C"
  shows "current_state (fst (loop_D_cp e (s, pm))) =
    (case cp_state s of ControlPilot_StateA \<Rightarrow> STATE_A | ControlPilot_StateB \<Rightarrow> STATE_B
     | ControlPilot_StateF \<Rightarrow> STATE_F | ControlPilot_StateE \<Rightarrow> current_state s
     | ControlPilot_StateUnknown \<Rightarrow> current_state s
     | _ \<Rightarrow> (if pilot_at_max s \<and> ready_to_charge s \<and> \<not> over_current (faults s)
            then j1772_next (current_state s) else current_state s))"
  using assms by (cases "cp_state s") (auto simp: loop_D_cp_def charge_state guard_simps pilot_at_max_def)

lemma target_D2_cp:
  assumes "current_state s \<in> {STATE_C2, STATE_D2}"
  shows "current_state (fst (loop_D2_cp e (s, pm))) =
    (let on = ready_to_charge s \<and> \<not> over_current (faults s)
     in case cp_state s of ControlPilot_StateA \<Rightarrow> STATE_A2 | ControlPilot_StateB \<Rightarrow> STATE_B2
     | ControlPilot_StateC \<Rightarrow>
         (if current_state s = STATE_C2 \<or> last_cp_state s = ControlPilot_StateD
          then (if on then STATE_C2 else STATE_C) else (if on then STATE_D2 else STATE_D))
     | ControlPilot_StateD \<Rightarrow> (if on then current_state s else j1772_prev (current_state s))
     | ControlPilot_StateF \<Rightarrow> STATE_F | _ \<Rightarrow> current_state s)"
  using assms by (cases "cp_state s") (auto simp: loop_D2_cp_def charge_state guard_simps Let_def)

lemma target_charging:
  assumes "current_state s \<in> {STATE_C, STATE_D, STATE_C2, STATE_D2}" "overcurrent_test e \<Longrightarrow> \<not> ready_to_charge s"
    and "over_current_now e s = over_current (faults s)"
  shows "current_state (fst (loop_switch e (s, pm))) = j1772_target e s (current_state s) (cp_state s)"
proof -
  consider "current_state s = STATE_C" | "current_state s = STATE_D" | "current_state s = STATE_C2"
    | "current_state s = STATE_D2" using assms(1) by blast
  then show ?thesis
  proof cases
    case 1
    then show ?thesis using assms(3)
      by (cases "cp_state s")
        (simp_all add: loop_switch_def loop_C_def loop_D_def target_D_cp guard_simps pilot_at_max_def)
  next
    case 2
    then show ?thesis using assms(3)
      by (cases "cp_state s")
        (simp_all add: loop_switch_def loop_D_def target_D_cp guard_simps pilot_at_max_def)
  next
    case 3
    then show ?thesis using assms(2,3)
      by (cases "cp_state s"; cases "overcurrent_test e")
        (simp_all add: loop_switch_def loop_C2_def loop_D2_def target_D2_cp guard_simps Let_def)
  next
    case 4
    then show ?thesis using assms(2,3)
      by (cases "cp_state s"; cases "overcurrent_test e")
        (simp_all add: loop_switch_def loop_D2_def target_D2_cp guard_simps Let_def)
  qed
qed

lemma begin_eq: "loop_begin e s = (fst (loop_begin e s), current_pwm s)"
  by (simp add: prod_eq_iff)

lemma begin_over_current_now:
  "over_current_now e (fst (loop_begin e s)) = over_current_now e s"
  by (auto simp: loop_begin_def over_current_now_def Let_def)

lemma target_begin: "j1772_target e (fst (loop_begin e s)) st cp = j1772_target e s st cp"
  by (cases st; cases cp) (simp_all add: begin_guards begin_over_current_now pilot_at_max_def)

lemma loop_target:
  assumes "overcurrent_test e \<Longrightarrow> \<not> ready_to_charge s"
  shows "current_state (EVSE_J1772_Loop_EVSE e s) = j1772_target e s (current_state s) (cp_reading e)"
proof -
  let ?s = "fst (loop_begin e s)"
  have "current_state (EVSE_J1772_Loop_EVSE e s) = current_state (fst (loop_switch e (?s, current_pwm s)))"
    by (metis Loop_fields(1) begin_eq)
  also have "\<dots> = j1772_target e ?s (current_state ?s) (cp_state ?s)"
  proof (cases "current_state ?s \<in> {STATE_C, STATE_D, STATE_C2, STATE_D2}")
    case True
    then show ?thesis using assms
      by (intro target_charging) (simp_all add: begin_guards begin_over_current_now)
  next
    case False
    then show ?thesis by (intro target_idle) (cases "current_state ?s"; simp)
  qed
  finally show ?thesis by (simp add: target_begin)
qed

text \<open>
  (C8) The code is its automaton: with the over-current test of the measurement not compiled in
  (as in this build), the state after a pass of the loop, from any state of the module and with
  any input, is the one successor the automaton \<open>j1772_target\<close> gives. So the limit is
  advertised (B to B2) only with the response of the server, where one is awaited; C and D are
  left for C2 and D2 only with the pilot at 100 percent and no over current, and the ready flag
  set (coming from D, entering C sets it); C2 and D2 are left for C and D as soon as the flag is
  taken away or an over current was seen. Against the chart of doc/charnging.puml: a pilot in state E keeps
  C2 and D2, where the chart goes to the error state; state F is obeyed in every state; A
  never goes to A2; and C goes to C2, as D to D2.
\<close>

theorem loop_follows_automaton:
  "\<not> overcurrent_test e \<Longrightarrow>
     current_state (EVSE_J1772_Loop_EVSE e s) = j1772_target e s (current_state s) (cp_reading e)"
  by (rule loop_target) simp

theorem loop_follows_automaton_witness:
  "current_state (EVSE_J1772_Loop_EVSE (sample_env ControlPilot_StateC) (sample_run charging_run)) = STATE_C2 \<and>
   current_state (EVSE_J1772_Loop_EVSE (sample_env ControlPilot_StateB) sample_init) = STATE_A"
  using loop_follows_automaton[of "sample_env ControlPilot_StateC" "sample_run charging_run"]
    loop_follows_automaton[of "sample_env ControlPilot_StateB" sample_init] charging_run_fields
  by (simp add: sample_env_def over_current_now_def sample_init_def EVSE_J1772_Init_def Let_def hal_def)

text \<open>
  A pilot in the error state E, or unreadable, is not acted upon while charging: the pass
  keeps the state, the contactor and the charging flag.
\<close>

lemma pilot_E_kept:
  assumes "current_state s \<in> {STATE_C2, STATE_D2}"
    and "cp_reading e \<in> {ControlPilot_StateE, ControlPilot_StateUnknown}"
  shows "current_state (EVSE_J1772_Loop_EVSE e s) = current_state s \<and>
    relay_open (EVSE_J1772_Loop_EVSE e s) = relay_open s \<and>
    isCharging (EVSE_J1772_Loop_EVSE e s) = isCharging s"
proof -
  define s0 where "s0 = fst (loop_begin e s)"
  have s0: "loop_begin e s = (s0, current_pwm s)" "current_state s0 = current_state s"
      "cp_state s0 = cp_reading e" "isCharging s0 = isCharging s" "relay_open s0 = relay_open s"
    by (simp_all add: s0_def prod_eq_iff relay_open_def)
  show ?thesis using assms s0
    by (auto simp: Loop_fields loop_switch_def loop_C2_def loop_D2_def loop_D2_cp_def Let_def
        relay_open_def[of "EVSE_J1772_UpdateMeter _ _"]; simp add: relay_open_def)
qed

text \<open>A pilot error is not acted upon in any other state either, where the contactor is open.\<close>

lemma pilot_E_idle:
  assumes "cp_state s = ControlPilot_StateE \<or> cp_state s = ControlPilot_StateUnknown"
    and "current_state s \<notin> {STATE_C2, STATE_D2, J1772_LAST_STATE}"
  shows "fst (loop_switch e (s, pm)) = s"
  using assms
  by (cases "current_state s")
    (auto simp: loop_switch_def loop_A_def loop_A2_def loop_B_def loop_B2_def loop_C_def loop_D_def
      loop_D_cp_def loop_EF_def)

lemma pilot_E_LAST:
  "j1772_inv s \<Longrightarrow> current_state s = J1772_LAST_STATE \<Longrightarrow>
     relay_open (fst (loop_switch e (s, pm))) = relay_open s \<and>
     isCharging (fst (loop_switch e (s, pm))) = isCharging s"
  by (simp add: loop_switch_def loop_LAST_def SetState_fields j1772_inv_def)

lemma pilot_error_E_keeps_contactor:
  assumes "j1772_reachable s" "cp_reading e \<in> {ControlPilot_StateE, ControlPilot_StateUnknown}"
  shows "relay_open (EVSE_J1772_Loop_EVSE e s) = relay_open s \<and>
    isCharging (EVSE_J1772_Loop_EVSE e s) = isCharging s"
proof -
  obtain s0 where s0: "loop_begin e s = (s0, current_pwm s)" "current_state s0 = current_state s"
    "cp_state s0 = cp_reading e" "relay_open s0 = relay_open s" "isCharging s0 = isCharging s"
    "j1772_inv s0 = j1772_inv s" by (rule loop_beginE)
  have inv: "j1772_inv s0" using reachable_inv[OF assms(1)] s0 by simp
  consider "current_state s \<in> {STATE_C2, STATE_D2}" | "current_state s = J1772_LAST_STATE"
    | "current_state s \<notin> {STATE_C2, STATE_D2, J1772_LAST_STATE}" by blast
  then show ?thesis
  proof cases
    case 1
    show ?thesis using pilot_E_kept[OF 1 assms(2)] by blast
  next
    case 2
    then show ?thesis using pilot_E_LAST[OF inv, of e "current_pwm s"] s0 by (simp add: Loop_fields)
  next
    case 3
    have "fst (loop_switch e (s0, current_pwm s)) = s0" using 3 assms(2) s0 by (intro pilot_E_idle) auto
    then show ?thesis using s0 by (simp add: Loop_fields)
  qed
qed

text \<open>Without the ready flag a charging state is left by every pass that reads A, C, D or F.\<close>

lemma stop_flag_opens_contactor:
  assumes "j1772_reachable s" "current_state s \<in> {STATE_C2, STATE_D2}" "\<not> ready_to_charge s"
    and "cp_reading e \<in> {ControlPilot_StateA, ControlPilot_StateC, ControlPilot_StateD, ControlPilot_StateF}"
  shows "relay_open (EVSE_J1772_Loop_EVSE e s) \<and> \<not> isCharging (EVSE_J1772_Loop_EVSE e s)"
proof -
  have inv: "j1772_inv (EVSE_J1772_Loop_EVSE e s)" using assms(1) reachable_inv loop_inv by blast
  have "current_state (EVSE_J1772_Loop_EVSE e s) \<in> {STATE_A2, STATE_C, STATE_D, STATE_F}"
    using assms(2-4) loop_target[of e s] by (elim insertE emptyE) (simp_all add: Let_def)
  then show ?thesis using inv by (auto simp: j1772_inv_def)
qed

text \<open>
  (C5) What the pilot's fault states do to the contactor, from every reachable state: a pass that
  reads a disconnected vehicle (state A) or state F opens the contactor and ends charging; a pass
  that reads the error state E, or no valid level, leaves the contactor and the charging flag
  as they were, so a vehicle in that state goes on charging.
\<close>

theorem pilot_faults_and_contactor:
  "j1772_reachable s \<Longrightarrow>
   (let s' = EVSE_J1772_Loop_EVSE e s
    in case cp_reading e of
         ControlPilot_StateA \<Rightarrow> relay_open s' \<and> \<not> isCharging s'
       | ControlPilot_StateF \<Rightarrow> relay_open s' \<and> \<not> isCharging s'
       | ControlPilot_StateE \<Rightarrow> relay_open s' = relay_open s \<and> isCharging s' = isCharging s
       | ControlPilot_StateUnknown \<Rightarrow> relay_open s' = relay_open s \<and> isCharging s' = isCharging s
       | _ \<Rightarrow> True)"
  using disconnect_or_fault_opens_contactor[of s e] pilot_error_E_keeps_contactor[of s e]
  by (simp add: Let_def split: ControlPilotState_t.split)

theorem pilot_faults_and_contactor_witness:
  "\<not> relay_open (sample_run charging_run) \<and>
   relay_open (EVSE_J1772_Loop_EVSE (sample_env ControlPilot_StateF) (sample_run charging_run)) \<and>
   \<not> relay_open (EVSE_J1772_Loop_EVSE (sample_env ControlPilot_StateE) (sample_run charging_run))"
  using pilot_faults_and_contactor[OF sample_run_reachable, of "sample_env ControlPilot_StateF" charging_run]
    pilot_faults_and_contactor[OF sample_run_reachable, of "sample_env ControlPilot_StateE" charging_run]
    charging_run_fields by (simp add: sample_env_def Let_def)


section \<open>Starting and stopping\<close>

lemma begin_relay [simp]: "relay_open (fst (loop_begin e s)) = relay_open s"
  by (simp add: relay_open_def)

lemma begin_no_over_current: "\<not> over_current (faults s) \<Longrightarrow> \<not> over_current (faults (fst (loop_begin e s)))"
  by (simp add: loop_begin_def Let_def)

lemma UpdateMeter_no_over_current:
  "\<not> over_current (faults s) \<Longrightarrow> \<not> overcurrent_test e \<Longrightarrow>
   \<not> over_current (faults (EVSE_J1772_UpdateMeter e s))"
  by (simp add: EVSE_J1772_UpdateMeter_def EVSE_J1772_Measure_def Let_def)

lemma Loop_current_pwm:
  "current_pwm (EVSE_J1772_Loop_EVSE e s) =
     (let sp = loop_switch e (loop_begin e s)
      in if fl_eq (snd sp) (current_pwm (fst sp)) then current_pwm (fst sp) else snd sp)"
  "last_cp_state (EVSE_J1772_Loop_EVSE e s) = cp_state (fst (loop_switch e (loop_begin e s)))"
  "faults (EVSE_J1772_Loop_EVSE e s) = faults (fst (loop_switch e (loop_begin e s)))"
  by (simp_all add: EVSE_J1772_Loop_EVSE_def loop_end_def hal_def Let_def split: prod.split)

lemma authorized_vehicle_run:
  assumes "current_state s = STATE_B" "current_pwm s = PWM100_MAX_VALUE"
    and "auth_needed s" "auth_response e = (True, True)"
    and "cp_reading e = ControlPilot_StateB" "cp_reading e' = ControlPilot_StateC"
  shows "let s1 = EVSE_J1772_Loop_EVSE e s; s2 = EVSE_J1772_Loop_EVSE e' s1
    in current_state s1 = STATE_B2 \<and> ready_to_charge s1 \<and> \<not> auth_needed s1 \<and>
       current_state s2 = STATE_C2 \<and> isCharging s2 \<and> \<not> relay_open s2"
proof -
  define s1 where "s1 = EVSE_J1772_Loop_EVSE e s"
  obtain t where t: "loop_begin e s = (t, current_pwm s)" "current_state t = current_state s"
    "cp_state t = cp_reading e" "current_pwm t = current_pwm s" "auth_needed t = auth_needed s"
    by (rule loop_beginE)
  have s1: "current_state s1 = STATE_B2" "ready_to_charge s1" "\<not> auth_needed s1"
    using assms t unfolding s1_def Loop_fields
    by (simp_all add: loop_switch_def loop_B_def check_auth_def Let_def EVSE_J1772_SetState_def enter_defs)
  obtain u where u: "loop_begin e' s1 = (u, current_pwm s1)" "current_state u = current_state s1"
    "cp_state u = cp_reading e'" "ready_to_charge u = ready_to_charge s1" by (rule loop_beginE)
  have "isCharging (EVSE_J1772_Loop_EVSE e' s1)" "\<not> relay_open (EVSE_J1772_Loop_EVSE e' s1)"
    "current_state (EVSE_J1772_Loop_EVSE e' s1) = STATE_C2"
    using assms(6) s1(1,2) u unfolding Loop_fields
    by (simp_all add: loop_switch_def loop_B2_def SetState_fields enter_fields blocked_D2_def)
  then show ?thesis using s1 by (simp add: Let_def s1_def[symmetric])
qed

text \<open>
  (C6) An authorized vehicle gets energy: from state B with the pilot at 100 percent, a pass that
  sees the vehicle with the authorization granted advertises the current limit in B2, and the
  next pass that sees the vehicle ready closes the contactor and charges in C2.
\<close>

theorem authorized_vehicle_is_charged:
  assumes "current_state s = STATE_B" "current_pwm s = PWM100_MAX_VALUE"
    and "auth_needed s" "auth_response e = (True, True)"
    and "cp_reading e = ControlPilot_StateB" "cp_reading e' = ControlPilot_StateC"
  shows "let s1 = EVSE_J1772_Loop_EVSE e s; s2 = EVSE_J1772_Loop_EVSE e' s1
    in current_state s1 = STATE_B2 \<and> ready_to_charge s1 \<and> \<not> auth_needed s1 \<and>
       current_state s2 = STATE_C2 \<and> isCharging s2 \<and> \<not> relay_open s2"
  by (rule authorized_vehicle_run[OF assms])

lemma waiting_run_fields:
  "(\<lambda>s. (current_state s, current_pwm s, auth_needed s)) (sample_run [ControlPilot_StateA, ControlPilot_StateB])
     = (STATE_B, PWM100_MAX_VALUE, True)"
  by code_simp

theorem authorized_vehicle_is_charged_witness:
  "\<exists>s. j1772_reachable s \<and> auth_needed s \<and>
     isCharging (EVSE_J1772_Loop_EVSE (sample_env ControlPilot_StateC)
       (EVSE_J1772_Loop_EVSE (sample_env ControlPilot_StateB) s))"
  using authorized_vehicle_is_charged[of "sample_run [ControlPilot_StateA, ControlPilot_StateB]"
      "sample_env ControlPilot_StateB" "sample_env ControlPilot_StateC"] waiting_run_fields
    sample_run_reachable[of "[ControlPilot_StateA, ControlPilot_StateB]"]
  by (auto simp: sample_env_def Let_def)

text \<open>
  A stop request is obeyed in the next pass: in C2 or D2, with the vehicle still asking for
  energy, the contactor opens, charging ends and the pilot returns to 100 percent.
\<close>

theorem stop_request_opens_contactor:
  assumes "current_state s \<in> {STATE_C2, STATE_D2}"
    and "cp_reading e = (if current_state s = STATE_C2 then ControlPilot_StateC else ControlPilot_StateD)"
  shows "let s' = EVSE_J1772_Loop_EVSE e (EVSE_J1772_StopCharging True s)
    in current_state s' = j1772_prev (current_state s) \<and> relay_open s' \<and> \<not> isCharging s' \<and>
       current_pwm s' = PWM100_MAX_VALUE"
proof -
  define t where "t = fst (loop_begin e (EVSE_J1772_StopCharging True s))"
  have b: "loop_begin e (EVSE_J1772_StopCharging True s) = (t, current_pwm (EVSE_J1772_StopCharging True s))"
    unfolding t_def by (rule begin_eq)
  have t: "current_state t = current_state s" "\<not> ready_to_charge t" "cp_state t = cp_reading e"
    by (simp_all add: t_def EVSE_J1772_StopCharging_def)
  have "last_cp_state t = ControlPilot_StateD \<Longrightarrow> current_state s = STATE_C2 \<Longrightarrow>
      EVSE_J1772_SetState e STATE_C2 (EVSE_J1772_UpdateMeter e t) = EVSE_J1772_UpdateMeter e t"
    by (metis SetState_self UpdateMeter_frame(1) t(1))
  then show ?thesis using assms t
    by (auto simp: Let_def Loop_fields Loop_current_pwm b loop_switch_def loop_C2_def loop_D2_def
        loop_D2_cp_def loop_D2_charge_def SetState_fields enter_fields split: if_splits)
qed

theorem stop_request_opens_contactor_witness:
  "relay_open (EVSE_J1772_Loop_EVSE (sample_env ControlPilot_StateC)
     (EVSE_J1772_StopCharging True (sample_run charging_run)))"
  using stop_request_opens_contactor[of "sample_run charging_run" "sample_env ControlPilot_StateC"]
    charging_run_fields by (simp add: sample_env_def Let_def)

text \<open>
  The stop is not kept: entering state C sets the ready flag again, so with the vehicle
  still asking for energy the pass after the one that stopped closes the contactor again.
\<close>

theorem stop_request_is_undone_in_C:
  assumes "current_state s = STATE_C2" "\<not> over_current (faults s)" "\<not> overcurrent_test e"
    and "cp_reading e = ControlPilot_StateC" "cp_reading e' = ControlPilot_StateC"
  shows "let s1 = EVSE_J1772_Loop_EVSE e (EVSE_J1772_StopCharging True s);
             s2 = EVSE_J1772_Loop_EVSE e' s1
    in current_state s1 = STATE_C \<and> relay_open s1 \<and> ready_to_charge s1 \<and>
       current_state s2 = STATE_C2 \<and> \<not> relay_open s2 \<and> isCharging s2"
proof -
  define t where "t = fst (loop_begin e (EVSE_J1772_StopCharging True s))"
  define u where "u = EVSE_J1772_UpdateMeter e t"
  define s1 where "s1 = EVSE_J1772_Loop_EVSE e (EVSE_J1772_StopCharging True s)"
  have b: "loop_begin e (EVSE_J1772_StopCharging True s) = (t, current_pwm (EVSE_J1772_StopCharging True s))"
    unfolding t_def by (rule begin_eq)
  have t: "current_state t = STATE_C2" "\<not> ready_to_charge t" "cp_state t = ControlPilot_StateC"
      "\<not> over_current (faults t)"
    using assms by (simp_all add: t_def EVSE_J1772_StopCharging_def begin_no_over_current)
  have u: "current_state u = STATE_C2" "\<not> ready_to_charge u" "cp_state u = ControlPilot_StateC"
      "\<not> over_current (faults u)" "EVSE_J1772_SetState e STATE_C2 u = u"
    using t assms(3) SetState_self[of e u] by (simp_all add: u_def UpdateMeter_no_over_current)
  have sw: "loop_switch e (t, pm) = (EVSE_J1772_SetState e STATE_C u, PWM100_MAX_VALUE)" for pm
    using t u by (simp add: loop_switch_def loop_C2_def loop_D2_def loop_D2_cp_def loop_D2_charge_def
        u_def[symmetric] Let_def)
  have c: "ready_to_charge (EVSE_J1772_SetState e STATE_C u)" "relay_open (EVSE_J1772_SetState e STATE_C u)"
      "\<not> over_current (faults (EVSE_J1772_SetState e STATE_C u))"
    using u by (simp_all add: EVSE_J1772_SetState_def enter_defs relay_open_def Let_def)
  have s1: "current_state s1 = STATE_C" "relay_open s1" "ready_to_charge s1" "\<not> over_current (faults s1)"
      "last_cp_state s1 = ControlPilot_StateC" "current_pwm s1 = PWM100_MAX_VALUE"
    using c u by (auto simp: s1_def Loop_fields Loop_current_pwm b sw Let_def)
  define v where "v = fst (loop_begin e' s1)"
  have v: "loop_begin e' s1 = (v, current_pwm s1)" "current_state v = STATE_C" "ready_to_charge v"
      "\<not> over_current (faults v)" "current_pwm v = PWM100_MAX_VALUE" "cp_state v = ControlPilot_StateC"
      "last_cp_state v = ControlPilot_StateC" "EVSE_J1772_SetState e' STATE_C v = v"
    using s1 assms(5) begin_no_over_current[of s1 e'] SetState_self[of e' v] begin_eq[of e' s1]
    by (simp_all add: v_def)
  have sw': "loop_switch e' (v, pm) = (EVSE_J1772_SetState e' STATE_C2 v, new_duty_per_mil v)" for pm
    using v by (simp add: loop_switch_def loop_C_def loop_D_def loop_D_cp_def loop_D_charge_def)
  show ?thesis using s1 v
    by (simp add: Let_def s1_def[symmetric] Loop_fields sw' SetState_fields enter_fields blocked_D2_def)
qed

theorem stop_request_is_undone_in_C_witness:
  "isCharging (EVSE_J1772_Loop_EVSE (sample_env ControlPilot_StateC)
     (EVSE_J1772_Loop_EVSE (sample_env ControlPilot_StateC)
        (EVSE_J1772_StopCharging True (sample_run charging_run))))"
  using stop_request_is_undone_in_C[of "sample_run charging_run" "sample_env ControlPilot_StateC"
      "sample_env ControlPilot_StateC"] charging_run_fields
  by (simp add: sample_env_def Let_def)


section \<open>The advertised duty cycle\<close>

lemma SetState_pwm_calls [simp]:
  "pwm_duty_after d (calls (EVSE_J1772_SetState e n s)) = pwm_duty_after d (calls s)"
  by (cases n; simp add: EVSE_J1772_SetState_def enter_defs Let_def)

lemma new_duty_cong:
  "max_current t = max_current s \<Longrightarrow> new_duty_per_mil t = new_duty_per_mil s"
  by (simp add: new_duty_per_mil_def)

lemma switch_pm:
  assumes "loop_switch e (s, pm) = (t, pm')"
  shows "pm' \<in> {pm, PWM100_MAX_VALUE, new_duty_per_mil s}" and "current_pwm t = current_pwm s"
    and "pwm_duty_after d (calls t) = pwm_duty_after d (calls s)"
proof -
  have D: "loop_D_charge e (r, pm) = (t, pm') \<Longrightarrow> max_current r = max_current s \<Longrightarrow>
      pm' \<in> {pm, PWM100_MAX_VALUE, new_duty_per_mil s}" for r
    using new_duty_cong[of r s] by (auto simp: loop_D_charge_def split: if_splits)
  have D2: "loop_D2_charge e (r, new_duty_per_mil s) = (t, pm') \<Longrightarrow>
      pm' \<in> {pm, PWM100_MAX_VALUE, new_duty_per_mil s}" for r
    by (auto simp: loop_D2_charge_def split: if_splits)
  have n: "new_duty_per_mil (EVSE_J1772_SetState e m s) = new_duty_per_mil s"
    "new_duty_per_mil (check_auth e s) = new_duty_per_mil s" for m
    by (rule new_duty_cong; simp)+
  show "pm' \<in> {pm, PWM100_MAX_VALUE, new_duty_per_mil s}"
  proof (cases "current_state s")
    case STATE_C
    then show ?thesis using assms
      by (auto simp: loop_switch_def loop_C_def loop_D_def loop_D_cp_def split: if_splits dest!: D)
  next
    case STATE_D
    then show ?thesis using assms
      by (auto simp: loop_switch_def loop_D_def loop_D_cp_def split: if_splits dest!: D)
  next
    case STATE_C2
    then show ?thesis using assms
      by (auto simp: loop_switch_def loop_C2_def loop_D2_def loop_D2_cp_def Let_def n split: if_splits dest!: D2)
  next
    case STATE_D2
    then show ?thesis using assms
      by (auto simp: loop_switch_def loop_D2_def loop_D2_cp_def Let_def split: if_splits dest!: D2)
  qed (use assms in \<open>auto simp: loop_switch_def loop_A_def loop_A2_def loop_B_def loop_B2_def
        loop_EF_def loop_LAST_def Let_def n split: if_splits\<close>)
  have Df: "loop_D_charge e (r, q) = (t, pm') \<Longrightarrow> current_pwm t = current_pwm r \<and>
      pwm_duty_after d (calls t) = pwm_duty_after d (calls r)"
    "loop_D2_charge e (r, q) = (t, pm') \<Longrightarrow> current_pwm t = current_pwm r \<and>
      pwm_duty_after d (calls t) = pwm_duty_after d (calls r)" for r q
    by (auto simp: loop_D_charge_def loop_D2_charge_def split: if_splits)
  have "current_pwm t = current_pwm s \<and> pwm_duty_after d (calls t) = pwm_duty_after d (calls s)"
  proof (cases "current_state s")
    case STATE_C
    then show ?thesis using assms
      by (auto simp: loop_switch_def loop_C_def loop_D_def loop_D_cp_def split: if_splits dest!: Df)
  next
    case STATE_D
    then show ?thesis using assms
      by (auto simp: loop_switch_def loop_D_def loop_D_cp_def split: if_splits dest!: Df)
  next
    case STATE_C2
    then show ?thesis using assms
      by (auto simp: loop_switch_def loop_C2_def loop_D2_def loop_D2_cp_def Let_def split: if_splits dest!: Df)
  next
    case STATE_D2
    then show ?thesis using assms
      by (auto simp: loop_switch_def loop_D2_def loop_D2_cp_def Let_def split: if_splits dest!: Df)
  qed (use assms in \<open>auto simp: loop_switch_def loop_A_def loop_A2_def loop_B_def loop_B2_def
        loop_EF_def loop_LAST_def Let_def split: if_splits\<close>)
  then show "current_pwm t = current_pwm s" "pwm_duty_after d (calls t) = pwm_duty_after d (calls s)"
    by simp_all
qed

text \<open>The values the duty cycle takes, times ten.\<close>

definition pwm_in_table :: "cfloat \<Rightarrow> bool" where
  "pwm_in_table pm \<longleftrightarrow> pm = Fin 0 \<or> pm = Fin 1000 \<or> fl_le (Fin 100) pm \<and> fl_le pm (Fin 960)"

lemma pwm_ends: "fl_round f32 100 = Fin 100" "fl_round f32 960 = Fin 960" "1 \<le> fp_prec f32"
  by code_simp+

lemma new_duty_in_table: "pwm_in_table (new_duty_per_mil s)"
proof -
  obtain st d where g: "EVSE_J1772_GetDutyCycleFromAmps (max_current s) (Some (Fin 0)) = (st, d)"
    by (cases "EVSE_J1772_GetDutyCycleFromAmps (max_current s) (Some (Fin 0))")
  have r: "case d of None \<Rightarrow> False
      | Some v \<Rightarrow> if st = J1772_Succes then fl_le (Fin 10) v \<and> fl_le v (Fin 96) else v = Fin 0"
    using duty_cycle_range[OF g] by (auto split: option.splits)
  then obtain v where v: "d = Some v" "v = Fin 0 \<or> fl_le (Fin 10) v \<and> fl_le v (Fin 96)"
    by (auto split: option.splits if_splits)
  have "v = Fin 0 \<Longrightarrow> fl_mul f32 v (Fin 10) = Fin 0" by (simp add: fl_round_def f32_def)
  moreover have "fl_le (Fin 10) v \<and> fl_le v (Fin 96) \<Longrightarrow>
      fl_le (Fin 100) (fl_mul f32 v (Fin 10)) \<and> fl_le (fl_mul f32 v (Fin 10)) (Fin 960)"
    using fl_mul_mono[of f32 "Fin 10" v 10] fl_mul_mono[of f32 v "Fin 96" 10]
    by (simp add: pwm_ends)
  ultimately show ?thesis using v g by (auto simp: new_duty_per_mil_def pwm_in_table_def)
qed

definition pwm_inv :: "j1772 \<Rightarrow> bool" where
  "pwm_inv s \<longleftrightarrow> pwm_in_table (current_pwm s) \<and>
     pwm_duty_after NaN (calls s) = fl_div f32 (current_pwm s) (Fin 10)"

lemma loop_pwm_inv:
  assumes "pwm_inv s"
  shows "pwm_inv (EVSE_J1772_Loop_EVSE e s)"
proof -
  obtain s0 where s0: "loop_begin e s = (s0, current_pwm s)" "current_pwm s0 = current_pwm s"
    "calls s0 = calls s" "max_current s0 = max_current s" by (rule loop_beginE)
  obtain t pm where t: "loop_switch e (s0, current_pwm s) = (t, pm)" by (cases "loop_switch e (s0, current_pwm s)")
  note sw = switch_pm[OF t]
  have "pwm_in_table pm"
    using sw(1) assms new_duty_in_table[of s0] by (auto simp: pwm_inv_def pwm_in_table_def)
  then show ?thesis using assms s0 sw(2,3)
    by (auto simp: EVSE_J1772_Loop_EVSE_def t loop_end_def hal_def Let_def pwm_inv_def)
qed

lemma reachable_pwm_inv: "j1772_reachable s \<Longrightarrow> pwm_inv s"
proof (induction rule: j1772_reachable.induct)
  case (init h)
  show ?case
    by (simp add: EVSE_J1772_Init_def j1772_boot_def hal_def EVSE_J1772_SetMaxCurrent_def
        pwm_inv_def pwm_in_table_def Let_def)
next
  case (loop s e)
  then show ?case by (simp add: loop_pwm_inv)
qed (simp_all add: EVSE_J1772_StopCharging_def EVSE_J1772_SetMaxCurrent_def pwm_inv_def Let_def)


text \<open>
  The duty cycle on the pilot, in every reachable state, is the one the module remembers,
  divided by ten, and the remembered one is 0, 100 percent or between 10 and 96 percent: no
  other value is ever sent to the hardware, whatever current limit was configured.
\<close>

theorem pilot_duty_in_table:
  "j1772_reachable s \<Longrightarrow>
     pwm_duty_after NaN (calls s) = fl_div f32 (current_pwm s) (Fin 10) \<and>
     (current_pwm s = Fin 0 \<or> current_pwm s = Fin 1000 \<or>
      fl_le (Fin 100) (current_pwm s) \<and> fl_le (current_pwm s) (Fin 960))"
  using reachable_pwm_inv[of s] by (simp add: pwm_inv_def pwm_in_table_def)

theorem pilot_duty_in_table_witness:
  "pwm_duty_after NaN (calls (sample_run charging_run)) = fl_div f32 (Fin (3413333 / 8192)) (Fin 10)"
  using pilot_duty_in_table[OF sample_run_reachable, of charging_run] charging_run_summary
  by (simp add: summary_def)

lemma switch_charging_pm:
  assumes "current_state s \<in> {STATE_C2, STATE_D2}" "loop_switch e (s, pm) = (t, pm')"
    and "current_state t \<in> {STATE_C2, STATE_D2}"
  shows "pm' = new_duty_per_mil s"
proof -
  have ch: "loop_D2_charge e (r, q) = (t, pm') \<Longrightarrow> current_state r \<in> {STATE_C2, STATE_D2} \<Longrightarrow> pm' = q" for r q
    using assms(3) by (auto simp: loop_D2_charge_def split: if_splits)
  have d: "loop_D2 e (r, pm) = (t, pm') \<Longrightarrow> current_state r \<in> {STATE_C2, STATE_D2} \<Longrightarrow>
      pm' = new_duty_per_mil r" for r
    using assms(3) by (auto simp: loop_D2_def loop_D2_cp_def Let_def split: if_splits dest!: ch)
  have n: "new_duty_per_mil (EVSE_J1772_SetState e m s) = new_duty_per_mil s" for m
    by (rule new_duty_cong) simp
  show ?thesis using assms(1,2) d[of s] d[of "EVSE_J1772_SetState e STATE_D2 s"]
    by (auto simp: loop_switch_def loop_C2_def n split: if_splits)
qed

text \<open>
  While charging goes on, every pass brings the advertised duty cycle in line with the
  configured current limit, so a change of the limit is advertised in the next pass.
\<close>

theorem charging_advertises_current_limit:
  assumes "j1772_reachable s" "current_state s \<in> {STATE_C2, STATE_D2}"
    and "current_state (EVSE_J1772_Loop_EVSE e s) \<in> {STATE_C2, STATE_D2}"
  shows "current_pwm (EVSE_J1772_Loop_EVSE e s) = new_duty_per_mil s"
proof -
  obtain s0 where s0: "loop_begin e s = (s0, current_pwm s)" "current_pwm s0 = current_pwm s"
    "max_current s0 = max_current s" "current_state s0 = current_state s" by (rule loop_beginE)
  obtain t pm where t: "loop_switch e (s0, current_pwm s) = (t, pm)" by (cases "loop_switch e (s0, current_pwm s)")
  have "pm = new_duty_per_mil s"
    using switch_charging_pm[OF _ t] assms(2,3) s0 new_duty_cong[of s0 s] by (simp add: Loop_fields t)
  moreover have "\<exists>a. current_pwm s = Fin a"
    using reachable_pwm_inv[OF assms(1)] by (auto simp: pwm_inv_def pwm_in_table_def elim: fl_between_Fin)
  ultimately show ?thesis using s0 t switch_pm(2)[OF t] by (auto simp: Loop_current_pwm Let_def)
qed

theorem charging_advertises_current_limit_witness:
  "current_state (EVSE_J1772_Loop_EVSE (sample_env ControlPilot_StateE) (sample_run charging_run)) = STATE_C2 \<and>
   current_pwm (EVSE_J1772_Loop_EVSE (sample_env ControlPilot_StateE) (sample_run charging_run)) =
     new_duty_per_mil (sample_run charging_run)"
proof -
  have "current_state (EVSE_J1772_Loop_EVSE (sample_env ControlPilot_StateE) (sample_run charging_run)) = STATE_C2"
  proof -
    obtain s0 where "loop_begin (sample_env ControlPilot_StateE) (sample_run charging_run) = (s0, current_pwm (sample_run charging_run))"
      "current_state s0 = STATE_C2" "cp_state s0 = ControlPilot_StateE"
      by (rule loop_beginE[of "sample_env ControlPilot_StateE" "sample_run charging_run"])
         (simp add: charging_run_fields sample_env_def)
    then show ?thesis by (simp add: Loop_fields loop_switch_def loop_C2_def loop_D2_def loop_D2_cp_def Let_def)
  qed
  then show ?thesis
    using charging_advertises_current_limit[OF sample_run_reachable, of charging_run "sample_env ControlPilot_StateE"]
      charging_run_fields by simp
qed

section \<open>The energy meter\<close>

text \<open>The readings the meter is defined for: finite, not negative and within the range of the front end.\<close>

definition readings_ok :: "j1772_env \<Rightarrow> bool" where
  "readings_ok e \<longleftrightarrow> fl_le (Fin 0) (meas_current e) \<and> fl_le (meas_current e) (Fin 1000) \<and>
     fl_le (Fin 0) (meas_voltage e) \<and> fl_le (meas_voltage e) (Fin 1000)"

definition meter_ok :: "cfloat \<Rightarrow> bool" where
  "meter_ok x \<longleftrightarrow> fl_ok f64 x \<and> fl_le (Fin 0) x"

lemma f64_prec [simp]: "1 \<le> fp_prec f64" by (simp add: f64_def)

lemma f64_million: "fl_round f64 1000000 = Fin 1000000" "fl_round f64 4294967296 = Fin 4294967296"
  by code_simp+

lemma u32_to_double:
  obtains t where "fl_of_int f64 (uint (n :: u32)) = Fin t" "0 \<le> t"
proof -
  have "uint n \<le> 4294967296" using uint_lt2p[of n] by simp
  then have "(of_int (uint n) :: rat) \<le> 4294967296" by (metis of_int_le_iff of_int_numeral)
  then have "fl_le (fl_of_int f64 (uint n)) (Fin 4294967296)"
    using fl_round_mono[of f64 "of_int (uint n)" 4294967296] by (simp add: f64_million fl_of_int_def)
  moreover have "fl_le (Fin 0) (fl_of_int f64 (uint n))"
    unfolding fl_of_int_def by (rule fl_round_nonneg) (simp only: of_int_0_le_iff uint_ge_0)
  ultimately show ?thesis using that by (auto elim: fl_between_Fin)
qed

lemma energy_nonneg:
  assumes "fl_le (Fin 0) i" "fl_le i (Fin 1000)" "fl_le (Fin 0) v" "fl_le v (Fin 1000)"
  shows "fl_le (Fin 0) (prvCalculateEnergy i v (fl_of_int f64 (uint (n :: u32))))"
proof -
  obtain a where a: "i = Fin a" "0 \<le> a" "a \<le> 1000" using assms(1,2) by (rule fl_between_Fin)
  obtain b where b: "v = Fin b" "0 \<le> b" "b \<le> 1000" using assms(3,4) by (rule fl_between_Fin)
  have "a * b \<le> 1000 * 1000" using a b by (intro mult_mono) auto
  then have "fl_le (fl_round f64 (a * b)) (Fin 1000000)"
    using fl_round_mono[of f64 "a * b" 1000000] by (simp add: f64_million)
  moreover have "fl_le (Fin 0) (fl_round f64 (a * b))" using a b by (simp add: fl_round_nonneg)
  ultimately obtain p where p: "fl_round f64 (a * b) = Fin p" "0 \<le> p"
    by (auto elim: fl_between_Fin)
  obtain t where "fl_of_int f64 (uint n) = Fin t" "0 \<le> t" by (rule u32_to_double)
  then show ?thesis using p a b
    by (auto simp: prvCalculateEnergy_def intro!: fl_div_nonneg fl_round_nonneg)
qed

lemma SetState_evse_data:
  "n \<notin> {STATE_A, STATE_A2} \<Longrightarrow> evse_data (EVSE_J1772_SetState e n s) = evse_data s"
  by (cases n; simp add: EVSE_J1772_SetState_def enter_defs Let_def)

lemma meter_ok_NaN: "meter_ok x \<Longrightarrow> x \<noteq> NaN"
  by (auto simp: meter_ok_def)

lemma energy_add:
  assumes "meter_ok x" "fl_le (Fin 0) y"
  shows "fl_le x (fl_add f64 x y) \<and> meter_ok (fl_add f64 x y)"
proof -
  have "x \<noteq> NaN" "x \<noteq> Inf True" using assms(1) by (auto simp: meter_ok_def)
  then have le: "fl_le x (fl_add f64 x y)"
    using assms fl_add_increases[of f64 x y] by (simp add: meter_ok_def)
  moreover have "fl_ok f64 (fl_add f64 x y)"
    by (cases x; cases y) (auto simp del: fl_ok.simps(1))
  ultimately show ?thesis using assms(1) fl_le_trans[of "Fin 0" x] by (simp add: meter_ok_def)
qed

definition energy_of :: "j1772_env \<Rightarrow> cfloat \<Rightarrow> u32 \<Rightarrow> cfloat" where
  "energy_of e mv n = prvCalculateEnergy (meas_current e)
     (if fl_lt (meas_voltage e) (fl_conv f64 mv) then meas_voltage e else fl_conv f64 mv)
     (fl_of_int f64 (uint n))"

lemma Measure_meter:
  "fMeterReading (evse_data (EVSE_J1772_Measure e n s)) =
     fl_add f64 (fMeterReading (evse_data s)) (energy_of e (max_voltage s) n)"
  "fMeterEnergyDelivered (evse_data (EVSE_J1772_Measure e n s)) =
     fl_add f64 (fMeterEnergyDelivered (evse_data s)) (energy_of e (max_voltage s) n)"
  by (simp_all add: EVSE_J1772_Measure_def Let_def energy_of_def)

lemma UpdateMeter_cases:
  obtains "evse_data (EVSE_J1772_UpdateMeter e s) = evse_data s"
  | n t where "evse_data (EVSE_J1772_UpdateMeter e s) = evse_data (EVSE_J1772_Measure e n t)"
      "evse_data t = evse_data s" "max_voltage t = max_voltage s"
proof -
  define t where "t = (if ulLastCalcTime (timers s) = 0
      then s\<lparr>timers := (timers s)\<lparr>ulLastCalcTime := now e, ulLastDisplayTime := now e\<rparr>\<rparr> else s)"
  have t: "evse_data t = evse_data s" "max_voltage t = max_voltage s" by (simp_all add: t_def)
  have "evse_data (EVSE_J1772_UpdateMeter e s) = evse_data t \<or>
      evse_data (EVSE_J1772_UpdateMeter e s) =
        evse_data (EVSE_J1772_Measure e (now e - ulLastCalcTime (timers t)) t)"
    unfolding EVSE_J1772_UpdateMeter_def t_def[symmetric] by (simp add: Let_def)
  then show ?thesis using that t by metis
qed

lemma UpdateMeter_energy:
  assumes "readings_ok e" "max_voltage s = Fin 230"
    and "meter_ok (fMeterReading (evse_data s))" "meter_ok (fMeterEnergyDelivered (evse_data s))"
  defines "d \<equiv> evse_data (EVSE_J1772_UpdateMeter e s)"
  shows "fl_le (fMeterReading (evse_data s)) (fMeterReading d) \<and> meter_ok (fMeterReading d) \<and>
    fl_le (fMeterEnergyDelivered (evse_data s)) (fMeterEnergyDelivered d) \<and> meter_ok (fMeterEnergyDelivered d)"
proof -
  have c: "fl_conv f64 (Fin 230) = Fin 230" by code_simp
  have en: "fl_le (Fin 0) (energy_of e (Fin 230) n)" for n
    unfolding energy_of_def c using assms(1) by (intro energy_nonneg) (simp_all add: readings_ok_def)
  show ?thesis
  proof (rule UpdateMeter_cases[of e s])
    assume "evse_data (EVSE_J1772_UpdateMeter e s) = evse_data s"
    then show ?thesis using assms(3,4) by (simp add: d_def meter_ok_NaN)
  next
    fix n t
    assume "evse_data (EVSE_J1772_UpdateMeter e s) = evse_data (EVSE_J1772_Measure e n t)"
      "evse_data t = evse_data s" "max_voltage t = max_voltage s"
    then show ?thesis
      using assms(2) energy_add[OF assms(3) en] energy_add[OF assms(4) en] by (simp add: d_def Measure_meter)
  qed
qed

text \<open>
  The energy meter never runs backwards: in a charging state, with readings in the range of
  the front end and no disconnection in the pass, both registers of delivered energy after the
  pass are at least what they were, and are again proper values.
\<close>

theorem energy_meter_monotone:
  assumes "current_state s \<in> {STATE_C2, STATE_D2}" "cp_reading e \<noteq> ControlPilot_StateA"
    and "readings_ok e" "max_voltage s = Fin 230"
    and "meter_ok (fMeterReading (evse_data s))" "meter_ok (fMeterEnergyDelivered (evse_data s))"
  shows "let d = evse_data (EVSE_J1772_Loop_EVSE e s) in
    fl_le (fMeterReading (evse_data s)) (fMeterReading d) \<and> meter_ok (fMeterReading d) \<and>
    fl_le (fMeterEnergyDelivered (evse_data s)) (fMeterEnergyDelivered d) \<and> meter_ok (fMeterEnergyDelivered d)"
proof -
  obtain s0 where s0: "loop_begin e s = (s0, current_pwm s)" "cp_state s0 = cp_reading e"
    "max_voltage s0 = max_voltage s" "current_state s0 = current_state s" "evse_data s0 = evse_data s"
    by (rule loop_beginE)
  define t where "t = (if current_state s0 = STATE_C2 \<and> cp_state s0 = ControlPilot_StateD
                       then EVSE_J1772_SetState e STATE_D2 s0 else s0)"
  have t: "evse_data t = evse_data s" "max_voltage t = max_voltage s" "cp_state t = cp_reading e"
    "current_state t \<in> {STATE_C2, STATE_D2}"
    using s0 assms(1) by (auto simp: t_def SetState_evse_data)
  have sw: "loop_switch e (s0, current_pwm s) = loop_D2 e (t, current_pwm s)"
    using s0(4) assms(1) by (auto simp: loop_switch_def loop_C2_def t_def)
  have ch: "evse_data (fst (loop_D2_charge e (r, q))) = evse_data r"
    if "current_state r = STATE_C2 \<or> current_state r = STATE_D2" for r q
    using that by (auto simp: loop_D2_charge_def SetState_evse_data)
  have "evse_data (fst (loop_D2 e (t, current_pwm s))) = evse_data (EVSE_J1772_UpdateMeter e t)"
    using assms(2) t(3,4) by (auto simp: loop_D2_def loop_D2_cp_def Let_def SetState_evse_data ch)
  then show ?thesis using UpdateMeter_energy[of e t] assms t s0 sw by (simp add: Loop_fields Let_def)
qed

lemma charging_meter_fields:
  "(\<lambda>s. (current_state s, max_voltage s, fMeterReading (evse_data s), fMeterEnergyDelivered (evse_data s)))
     (sample_run charging_run) = (STATE_C2, Fin 230, Fin 0, Fin 0)"
  by code_simp

theorem energy_meter_monotone_witness:
  "fl_le (Fin 0) (fMeterReading (evse_data
     (EVSE_J1772_Loop_EVSE (sample_env ControlPilot_StateC) (sample_run charging_run))))"
  using energy_meter_monotone[of "sample_run charging_run" "sample_env ControlPilot_StateC"] charging_meter_fields
  by (simp add: Let_def readings_ok_def sample_env_def meter_ok_def)

end
