(* ===== verification/Charging_Protocol.thy ===== *)
theory Charging_Protocol
  imports J1772_Behaviour EVSE_Time
begin

text \<open>
  The charging task (\<open>source/EVSE_ChargingProtocol.c\<close>) of the build with basic charging: it waits
  for the low level, initializes the state machine and then alternates one pass of it with one
  wait for events. The kernel's event group is the set of flags \<open>cp_events\<close> (flags are cleared
  when a wait returns them, as the group is created); the results of its creation and locking
  calls are arguments. Strings are C strings without their terminating zero.
\<close>

section \<open>State\<close>

record runtime_state_t =
  button_state :: bool
  last_button_press :: u32
  last_direction_change :: u32

record charging_protocol =
  s_stack_delay :: u16
  s_vehicle_data :: vehicle_data_t
  s_current_charging_protocol :: evse_charging_protocol_t
  s_charging_state :: charging_states_t
  s_runtime_state :: runtime_state_t
  s_charging_handlers :: "charging_hal_functions_t option"
  cprot_is_init :: bool
  cp_events :: "32 word"
  cp_priority_max :: bool
  cp_stop :: bool
  cp_j1772 :: j1772

definition vehicle_data_zero :: vehicle_data_t where
  "vehicle_data_zero = \<lparr>vehicleID = [], protocol = [], batteryLevel = 0, chargedBatteryUnits = 0,
     batteryCapacity = 0, elapsedTime = 0, requestedEnergy = 0, deliveredEnergy = 0,
     deliveredEnergyHLC = 0, energyDeliveryStatus = 0, timeToCharge = 0, chargeCurrent = Fin 0,
     vehicleAuth = False, charging_protocol = EVSE_BasicCharging_J1772\<rparr>"

abbreviation (input) CHARGINGPROTOCOL_TICK_DELAY :: u16 where "CHARGINGPROTOCOL_TICK_DELAY \<equiv> 5"
abbreviation (input) CHARGINGPROTOCOL_SHORTTICK_DELAY :: u16 where "CHARGINGPROTOCOL_SHORTTICK_DELAY \<equiv> 2"
abbreviation (input) CHARGINGPROTOCOL_LONGTICK_DELAY :: u16 where "CHARGINGPROTOCOL_LONGTICK_DELAY \<equiv> 100"
abbreviation (input) BUTTON_DEBOUNCE_MS :: u32 where "BUTTON_DEBOUNCE_MS \<equiv> 100"
abbreviation (input) DIRECTION_CHANGE_DEBOUNCE_MS :: u32 where "DIRECTION_CHANGE_DEBOUNCE_MS \<equiv> 500"
abbreviation (input) CHARGING_PROTOCOL_MAX_DELAY_MS :: u16 where "CHARGING_PROTOCOL_MAX_DELAY_MS \<equiv> 5000"
abbreviation (input) WAIT_FOR_LL_RETRY_COUNT :: nat where "WAIT_FOR_LL_RETRY_COUNT \<equiv> 256"
abbreviation (input) EVSE_Charging_EVSERefreshData :: "32 word" where "EVSE_Charging_EVSERefreshData \<equiv> 2"
abbreviation (input) EVSE_Charging_EVSEStopCharging :: "32 word" where "EVSE_Charging_EVSEStopCharging \<equiv> 4"
abbreviation (input) EVSE_Charging_EVSESuspendCharging :: "32 word" where "EVSE_Charging_EVSESuspendCharging \<equiv> 8"
abbreviation (input) EVSE_Charging_ALL_EVENTS :: "32 word" where "EVSE_Charging_ALL_EVENTS \<equiv> 0xFFFFFF"

definition cprot_boot :: charging_protocol where
  "cprot_boot = \<lparr>s_stack_delay = CHARGINGPROTOCOL_TICK_DELAY, s_vehicle_data = vehicle_data_zero,
     s_current_charging_protocol = EVSE_BasicCharging_J1772, s_charging_state = EVSE_ChargingNone,
     s_runtime_state = \<lparr>button_state = False, last_button_press = 0, last_direction_change = 0\<rparr>,
     s_charging_handlers = None, cprot_is_init = False, cp_events = 0, cp_priority_max = False,
     cp_stop = False, cp_j1772 = j1772_boot\<rparr>"

section \<open>Accessors\<close>

definition EVSE_ChargingProtocol_IsTimeoutExpired :: "u32 \<Rightarrow> u32 \<Rightarrow> u32 \<Rightarrow> bool" where
  "EVSE_ChargingProtocol_IsTimeoutExpired current_time last_time timeout_ms =
     (timeout_ms < current_time - last_time)"

text \<open>The clock is read twice: at the start and in the check.\<close>

definition EVSE_ChargingProtocol_PauseResumeBtn_callback :: "u32 \<Rightarrow> u32 \<Rightarrow> charging_protocol \<Rightarrow> charging_protocol" where
  "EVSE_ChargingProtocol_PauseResumeBtn_callback current_time check_time c =
     (if EVSE_ChargingProtocol_IsTimeoutExpired check_time (last_button_press (s_runtime_state c)) BUTTON_DEBOUNCE_MS
      then c\<lparr>s_runtime_state := (s_runtime_state c)\<lparr>button_state := True, last_button_press := current_time\<rparr>\<rparr>
      else c)"

definition EVSE_ChargingProtocol_ChangeDirection_callback :: "u32 \<Rightarrow> u32 \<Rightarrow> charging_protocol \<Rightarrow> charging_protocol" where
  "EVSE_ChargingProtocol_ChangeDirection_callback current_time check_time c =
     (if EVSE_ChargingProtocol_IsTimeoutExpired check_time (last_direction_change (s_runtime_state c))
           DIRECTION_CHANGE_DEBOUNCE_MS
      then c\<lparr>s_runtime_state := (s_runtime_state c)\<lparr>last_direction_change := current_time\<rparr>\<rparr>
      else c)"

definition EVSE_PROTOCOL_strings :: "evse_charging_protocol_t \<Rightarrow> string" where
  "EVSE_PROTOCOL_strings p = (case p of EVSE_BasicCharging_J1772 \<Rightarrow> ''BASIC''
     | EVSE_HighLevelCharging_ISO15118 \<Rightarrow> ''ISO15118-2''
     | EVSE_HighLevelCharging_ISO15118_20 \<Rightarrow> ''ISO15118-20'' | EVSE_LastChargingProtocol \<Rightarrow> ''LAST'')"

definition CHARGING_DIRECTION_strings :: "charging_directions_t \<Rightarrow> string" where
  "CHARGING_DIRECTION_strings d = (case d of EVSE_NoChargingDirection \<Rightarrow> ''No charging direction''
     | EVSE_G2V \<Rightarrow> ''Grid to Vehicle'' | EVSE_V2G \<Rightarrow> ''Vehicle to Grid'')"

definition EVSE_ChargingProtocol_GetStringFromProtocol :: "evse_charging_protocol_t \<Rightarrow> string option" where
  "EVSE_ChargingProtocol_GetStringFromProtocol p =
     (if p \<noteq> EVSE_LastChargingProtocol then Some (EVSE_PROTOCOL_strings p) else None)"

definition EVSE_ChargingProtocol_GetStringFromCurrentProtocol :: "charging_protocol \<Rightarrow> string option" where
  "EVSE_ChargingProtocol_GetStringFromCurrentProtocol c =
     (if s_current_charging_protocol c \<noteq> EVSE_LastChargingProtocol
      then Some (EVSE_PROTOCOL_strings (s_current_charging_protocol c)) else None)"

definition EVSE_ChargingProtocol_SetProtocol :: "evse_charging_protocol_t \<Rightarrow> charging_protocol \<Rightarrow> charging_protocol" where
  "EVSE_ChargingProtocol_SetProtocol p c =
     (if s_current_charging_protocol c \<noteq> p then c\<lparr>s_current_charging_protocol := p\<rparr> else c)"

definition EVSE_ChargingProtocol_GetProtocol :: "charging_protocol \<Rightarrow> evse_charging_protocol_t" where
  "EVSE_ChargingProtocol_GetProtocol c = s_current_charging_protocol c"

definition EVSE_ChargingProtocol_GetProtocolString :: "charging_protocol \<Rightarrow> string" where
  "EVSE_ChargingProtocol_GetProtocolString c = EVSE_PROTOCOL_strings (s_current_charging_protocol c)"

definition EVSE_ChargingProtocol_isCharging :: "charging_protocol \<Rightarrow> bool" where
  "EVSE_ChargingProtocol_isCharging c = the (EVSE_J1772_isCharging (Some False) (cp_j1772 c))"

definition EVSE_ChargingProtocol_ChargingDirection :: "charging_protocol \<Rightarrow> charging_directions_t" where
  "EVSE_ChargingProtocol_ChargingDirection c =
     (if EVSE_ChargingProtocol_isCharging c
      then (if s_current_charging_protocol c = EVSE_BasicCharging_J1772 then EVSE_G2V
            else EVSE_NoChargingDirection)
      else EVSE_NoChargingDirection)"

definition EVSE_ChargingProtocol_GetStringFromDirection :: "charging_directions_t \<Rightarrow> string" where
  "EVSE_ChargingProtocol_GetStringFromDirection d = CHARGING_DIRECTION_strings d"

definition EVSE_ChargingProtocol_GetChargingState :: "charging_protocol \<Rightarrow> charging_states_t" where
  "EVSE_ChargingProtocol_GetChargingState c = s_charging_state c"

definition EVSE_ChargingProtocol_SetChargingState :: "charging_states_t \<Rightarrow> charging_protocol \<Rightarrow> charging_protocol" where
  "EVSE_ChargingProtocol_SetChargingState st c = c\<lparr>s_charging_state := st\<rparr>"

definition EVSE_ChargingProtocol_isChargingString :: "charging_protocol \<Rightarrow> string" where
  "EVSE_ChargingProtocol_isChargingString c = (if EVSE_ChargingProtocol_isCharging c then ''YES'' else ''NO'')"

definition EVSE_ChargingProtocol_GetCPStateString :: "charging_protocol \<Rightarrow> string" where
  "EVSE_ChargingProtocol_GetCPStateString c = [EVSE_J1772_GetCpStateString (cp_j1772 c)]"

definition EVSE_ChargingProtocol_SetTaskPriority :: "bool \<Rightarrow> charging_protocol \<Rightarrow> charging_protocol" where
  "EVSE_ChargingProtocol_SetTaskPriority max_priority c = c\<lparr>cp_priority_max := max_priority\<rparr>"

definition EVSE_ChargingProtocol_SetTaskDelay :: "u16 \<Rightarrow> charging_protocol \<Rightarrow> charging_protocol" where
  "EVSE_ChargingProtocol_SetTaskDelay new_stack_delay c =
     (if 1 \<le> new_stack_delay \<and> new_stack_delay \<le> CHARGINGPROTOCOL_LONGTICK_DELAY
      then c\<lparr>s_stack_delay := new_stack_delay\<rparr> else c)"

definition EVSE_ChargingProtocol_SetMaxCurrent :: "u32 \<Rightarrow> charging_protocol \<Rightarrow> charging_protocol" where
  "EVSE_ChargingProtocol_SetMaxCurrent mc c = c\<lparr>cp_j1772 := EVSE_J1772_SetMaxCurrent mc (cp_j1772 c)\<rparr>"

definition EVSE_ChargingProtocol_StartCharging :: "charging_protocol \<Rightarrow> charging_protocol" where
  "EVSE_ChargingProtocol_StartCharging c = c"

definition EVSE_ChargingProtocol_StopCharging :: "charging_protocol \<Rightarrow> charging_protocol" where
  "EVSE_ChargingProtocol_StopCharging c = c\<lparr>cp_j1772 := EVSE_J1772_StopCharging True (cp_j1772 c)\<rparr>"

definition EVSE_ChargingProtocol_PauseCharging :: "charging_protocol \<Rightarrow> charging_protocol" where
  "EVSE_ChargingProtocol_PauseCharging c = c"

section \<open>Vehicle data\<close>

text \<open>\<open>SAFE_STRCPY\<close> into an array of \<open>n\<close> characters: truncation to \<open>n - 1\<close>.\<close>

definition SAFE_STRCPY :: "nat \<Rightarrow> string \<Rightarrow> string" where
  "SAFE_STRCPY n src = take (n - 1) src"

definition EVSE_ChargingProtocol_InitializeVehicleData :: "bool \<Rightarrow> charging_protocol \<Rightarrow> charging_protocol" where
  "EVSE_ChargingProtocol_InitializeVehicleData locked c =
     (if locked
      then (let v = vehicle_data_zero\<lparr>vehicleID := SAFE_STRCPY 20 ''N/A''\<rparr>;
                v = (case EVSE_ChargingProtocol_GetStringFromCurrentProtocol c of None \<Rightarrow> v
                     | Some p \<Rightarrow> v\<lparr>protocol := SAFE_STRCPY 20 p\<rparr>)
            in c\<lparr>s_vehicle_data := v\<lparr>charging_protocol := EVSE_ChargingProtocol_GetProtocol c\<rparr>\<rparr>)
      else c)"

text \<open>\<open>None\<close>: the source string is a null pointer, or the energy does not fit its field.\<close>

definition EVSE_ChargingProtocol_RefreshVehicleData :: "bool \<Rightarrow> charging_protocol \<Rightarrow> charging_protocol option" where
  "EVSE_ChargingProtocol_RefreshVehicleData locked c =
     (if locked
      then (case EVSE_J1772_GetVehicleData (Some (s_vehicle_data c)) (cp_j1772 c) of
              Some (Some v) \<Rightarrow>
                (case EVSE_ChargingProtocol_GetStringFromCurrentProtocol c of None \<Rightarrow> None
                 | Some p \<Rightarrow> Some (c\<lparr>s_vehicle_data := v\<lparr>charging_protocol := EVSE_ChargingProtocol_GetProtocol c,
                                                          protocol := SAFE_STRCPY 20 p\<rparr>\<rparr>))
            | _ \<Rightarrow> None)
      else Some c)"

definition EVSE_ChargingProtocol_GetVehicleData :: "bool \<Rightarrow> charging_protocol \<Rightarrow> (vehicle_data_t \<times> charging_protocol) option" where
  "EVSE_ChargingProtocol_GetVehicleData locked c =
     map_option (\<lambda>c. (s_vehicle_data c, c)) (EVSE_ChargingProtocol_RefreshVehicleData locked c)"

section \<open>Events and the task\<close>

definition EVSE_ChargingProtocol_SetEvent :: "32 word \<Rightarrow> charging_protocol \<Rightarrow> charging_protocol" where
  "EVSE_ChargingProtocol_SetEvent event c =
     (if \<not> cprot_is_init c then c else c\<lparr>cp_events := or (cp_events c) event\<rparr>)"

definition EVSE_ChargingWaitEvent :: "bool \<Rightarrow> charging_protocol \<Rightarrow> charging_protocol option" where
  "EVSE_ChargingWaitEvent locked c =
     (let uxBits = and (cp_events c) EVSE_Charging_ALL_EVENTS
      in if uxBits = 0 then Some c
         else (let c = c\<lparr>cp_events := and (cp_events c) (not EVSE_Charging_ALL_EVENTS)\<rparr>
               in case (if and uxBits EVSE_Charging_EVSERefreshData = EVSE_Charging_EVSERefreshData
                        then EVSE_ChargingProtocol_RefreshVehicleData locked c else Some c) of
                    None \<Rightarrow> None
                  | Some c \<Rightarrow>
                     (let c = (if and uxBits EVSE_Charging_EVSEStopCharging = EVSE_Charging_EVSEStopCharging
                               then EVSE_ChargingProtocol_StopCharging c else c);
                          c = (if and uxBits EVSE_Charging_EVSESuspendCharging = EVSE_Charging_EVSESuspendCharging
                               then EVSE_ChargingProtocol_PauseCharging c else c)
                      in Some c)))"

text \<open>
  The wait for the low level: \<open>ready k\<close> is the answer of the \<open>k\<close>-th poll. The result is the number
  of retries, the delay, and the delays waited for, in order.
\<close>

definition next_delay :: "u16 \<Rightarrow> u16" where
  "next_delay d =
     (if d < CHARGING_PROTOCOL_MAX_DELAY_MS
      then (if d < CHARGING_PROTOCOL_MAX_DELAY_MS div 2 then d * 2 else CHARGING_PROTOCOL_MAX_DELAY_MS)
      else d)"

fun wait_for_ready :: "(nat \<Rightarrow> bool) \<Rightarrow> nat \<Rightarrow> nat \<Rightarrow> u16 \<Rightarrow> nat \<times> u16 \<times> u16 list" where
  "wait_for_ready ready retry_count 0 d = (retry_count, d, [])"
| "wait_for_ready ready retry_count (Suc left) d =
     (if ready retry_count then (retry_count, d, [])
      else (let (r, d', ds) = wait_for_ready ready (Suc retry_count) left (next_delay d)
            in (r, d', d # ds)))"

definition EVSE_ChargingProtocol_WaitForLowLevelReady ::
    "(nat \<Rightarrow> bool) \<Rightarrow> charging_protocol \<Rightarrow> u16 list \<times> charging_protocol" where
  "EVSE_ChargingProtocol_WaitForLowLevelReady ready c =
     (if s_charging_handlers c \<noteq> None
      then (let (r, d, ds) = wait_for_ready ready 0 WAIT_FOR_LL_RETRY_COUNT (s_stack_delay c)
            in (ds, c\<lparr>s_stack_delay := d\<rparr>))
      else ([], c))"

definition EVSE_ChargingProtocol_ValidateHandlers :: "charging_protocol \<Rightarrow> bool option" where
  "EVSE_ChargingProtocol_ValidateHandlers c = (if s_charging_handlers c = None then None else Some True)"

definition EVSE_ChargingProtocol_InitializeResources :: "bool \<Rightarrow> bool \<Rightarrow> bool" where
  "EVSE_ChargingProtocol_InitializeResources mutex_ok event_ok =
     (if \<not> mutex_ok then False else if \<not> event_ok then False else True)"

text \<open>\<open>None\<close>: a failed assertion or one of the endless loops of a failed creation.\<close>

definition EVSE_ChargingProtocol_Init ::
    "bool \<Rightarrow> bool \<Rightarrow> bool \<Rightarrow> bool \<Rightarrow> charging_hal_functions_t option \<Rightarrow> charging_protocol \<Rightarrow> charging_protocol option" where
  "EVSE_ChargingProtocol_Init mutex_ok event_ok locked task_ok charging_handlers c =
     (if cprot_is_init c then Some c
      else
       (let c = c\<lparr>s_stack_delay := CHARGINGPROTOCOL_TICK_DELAY, s_charging_handlers := charging_handlers\<rparr>
        in if \<not> EVSE_ChargingProtocol_InitializeResources mutex_ok event_ok then None
           else if EVSE_ChargingProtocol_ValidateHandlers c \<noteq> Some True then None
           else (let c = EVSE_ChargingProtocol_InitializeVehicleData locked (c\<lparr>cp_events := 0\<rparr>)
                 in if \<not> task_ok then None else Some (c\<lparr>cprot_is_init := True\<rparr>))))"

definition chargingprotocol_task_start :: "(nat \<Rightarrow> bool) \<Rightarrow> charging_protocol \<Rightarrow> charging_protocol" where
  "chargingprotocol_task_start ready c =
     (let c = snd (EVSE_ChargingProtocol_WaitForLowLevelReady ready c);
          c = EVSE_ChargingProtocol_SetTaskDelay CHARGINGPROTOCOL_SHORTTICK_DELAY c
      in c\<lparr>cp_stop := False, cp_j1772 := EVSE_J1772_Init (s_charging_handlers c) (cp_j1772 c)\<rparr>)"

definition chargingprotocol_task_turn :: "j1772_env \<Rightarrow> bool \<Rightarrow> charging_protocol \<Rightarrow> charging_protocol option" where
  "chargingprotocol_task_turn e locked c =
     (let c = (if \<not> cp_stop c
               then (let (st, j) = EVSE_J1772_Loop e (Some (cp_stop c)) (cp_j1772 c)
                     in c\<lparr>cp_stop := the st, cp_j1772 := j\<rparr>)
               else c)
      in EVSE_ChargingWaitEvent locked c)"

end
