(* ===== verification/Charging_Protocol_Props.thy ===== *)
theory Charging_Protocol_Props
  imports Charging_Protocol
begin

text \<open>
  The charging task: what it does to the state machine is what the state machine's own
  operations do, so its guarantees carry over; the wait for the low level is bounded; a stop
  request posted as an event opens the contactor in the next turn; the debouncing of the button survives a wrap of the clock.
\<close>

section \<open>The task runs the state machine\<close>

text \<open>Everything the task and the other tasks do to the module after its start.\<close>

inductive cprot_reachable :: "charging_protocol \<Rightarrow> bool" where
  start: "EVSE_ChargingProtocol_Init a b l t (Some h) cprot_boot = Some c \<Longrightarrow>
    cprot_reachable (chargingprotocol_task_start ready c)"
| turn: "cprot_reachable c \<Longrightarrow> chargingprotocol_task_turn e l c = Some c' \<Longrightarrow> cprot_reachable c'"
| event: "cprot_reachable c \<Longrightarrow> cprot_reachable (EVSE_ChargingProtocol_SetEvent ev c)"
| max_current: "cprot_reachable c \<Longrightarrow> cprot_reachable (EVSE_ChargingProtocol_SetMaxCurrent mc c)"
| stop: "cprot_reachable c \<Longrightarrow> cprot_reachable (EVSE_ChargingProtocol_StopCharging c)"
| start_charging: "cprot_reachable c \<Longrightarrow> cprot_reachable (EVSE_ChargingProtocol_StartCharging c)"
| delay: "cprot_reachable c \<Longrightarrow> cprot_reachable (EVSE_ChargingProtocol_SetTaskDelay d c)"
| protocol: "cprot_reachable c \<Longrightarrow> cprot_reachable (EVSE_ChargingProtocol_SetProtocol p c)"
| refresh: "cprot_reachable c \<Longrightarrow> EVSE_ChargingProtocol_RefreshVehicleData l c = Some c' \<Longrightarrow> cprot_reachable c'"
| charging_state: "cprot_reachable c \<Longrightarrow> cprot_reachable (EVSE_ChargingProtocol_SetChargingState st c)"
| priority: "cprot_reachable c \<Longrightarrow> cprot_reachable (EVSE_ChargingProtocol_SetTaskPriority m c)"
| direction: "cprot_reachable c \<Longrightarrow> cprot_reachable (EVSE_ChargingProtocol_ChangeDirection_callback t t' c)"
| button: "cprot_reachable c \<Longrightarrow> cprot_reachable (EVSE_ChargingProtocol_PauseResumeBtn_callback t t' c)"

lemma Refresh_frame:
  "EVSE_ChargingProtocol_RefreshVehicleData l c = Some c' \<Longrightarrow>
     cp_j1772 c' = cp_j1772 c \<and> cp_events c' = cp_events c \<and> cp_stop c' = cp_stop c \<and> cprot_is_init c' = cprot_is_init c"
  by (auto simp: EVSE_ChargingProtocol_RefreshVehicleData_def split: if_splits option.splits)

lemma WaitEvent_j1772:
  "EVSE_ChargingWaitEvent l c = Some c' \<Longrightarrow>
     cp_j1772 c' = cp_j1772 c \<or> cp_j1772 c' = EVSE_J1772_StopCharging True (cp_j1772 c)"
  by (auto simp: EVSE_ChargingWaitEvent_def Let_def EVSE_ChargingProtocol_StopCharging_def
      EVSE_ChargingProtocol_PauseCharging_def split: if_splits option.splits dest!: Refresh_frame)

lemma turn_j1772:
  assumes "chargingprotocol_task_turn e l c = Some c'" "j1772_reachable (cp_j1772 c)"
  shows "j1772_reachable (cp_j1772 c')"
proof -
  define d where "d = (if \<not> cp_stop c
    then (let (st, j) = EVSE_J1772_Loop e (Some (cp_stop c)) (cp_j1772 c) in c\<lparr>cp_stop := the st, cp_j1772 := j\<rparr>)
    else c)"
  have "j1772_reachable (cp_j1772 d)"
    using assms(2) by (auto simp: d_def EVSE_J1772_Loop_def intro: j1772_reachable.loop)
  moreover have "EVSE_ChargingWaitEvent l d = Some c'"
    using assms(1) by (simp add: chargingprotocol_task_turn_def d_def[symmetric] Let_def)
  ultimately show ?thesis using WaitEvent_j1772[of l d c'] by (auto intro: j1772_reachable.stop)
qed

lemma Init_fields:
  "EVSE_ChargingProtocol_Init a b l t h cprot_boot = Some c \<Longrightarrow>
     cp_j1772 c = j1772_boot \<and> s_charging_handlers c = h"
  by (auto simp: EVSE_ChargingProtocol_Init_def cprot_boot_def Let_def
      EVSE_ChargingProtocol_InitializeVehicleData_def split: if_splits)

lemma Init_is_init:
  "EVSE_ChargingProtocol_Init a b l t h cprot_boot = Some c \<Longrightarrow> cprot_is_init c"
  by (auto simp: EVSE_ChargingProtocol_Init_def Let_def split: if_splits)

lemma start_flags:
  "EVSE_ChargingProtocol_Init a b l t h cprot_boot = Some c \<Longrightarrow>
     cprot_is_init (chargingprotocol_task_start ready c) \<and> \<not> cp_stop (chargingprotocol_task_start ready c)"
  using Init_is_init
  by (auto simp: chargingprotocol_task_start_def Let_def EVSE_ChargingProtocol_WaitForLowLevelReady_def
      EVSE_ChargingProtocol_SetTaskDelay_def split: prod.split)

lemma WaitEvent_flags:
  "EVSE_ChargingWaitEvent l c = Some c' \<Longrightarrow> cprot_is_init c' = cprot_is_init c \<and> cp_stop c' = cp_stop c"
  by (auto simp: EVSE_ChargingWaitEvent_def Let_def EVSE_ChargingProtocol_StopCharging_def
      EVSE_ChargingProtocol_PauseCharging_def split: if_splits option.splits dest!: Refresh_frame)

lemma turn_flags:
  "chargingprotocol_task_turn e l c = Some c' \<Longrightarrow> cprot_is_init c \<and> \<not> cp_stop c \<Longrightarrow>
     cprot_is_init c' \<and> \<not> cp_stop c'"
  by (auto simp: chargingprotocol_task_turn_def EVSE_J1772_Loop_def Let_def dest!: WaitEvent_flags)

text \<open>A turn of the running task is a pass of the state machine and then the wait for events.\<close>

lemma turn_eq:
  "\<not> cp_stop c \<Longrightarrow> chargingprotocol_task_turn e l c =
     EVSE_ChargingWaitEvent l (c\<lparr>cp_stop := False, cp_j1772 := EVSE_J1772_Loop_EVSE e (cp_j1772 c)\<rparr>)"
  by (simp add: chargingprotocol_task_turn_def EVSE_J1772_Loop_def)

lemma start_j1772:
  "cp_j1772 (chargingprotocol_task_start ready c) = EVSE_J1772_Init (s_charging_handlers c) (cp_j1772 c)"
  by (auto simp: chargingprotocol_task_start_def Let_def EVSE_ChargingProtocol_WaitForLowLevelReady_def
      EVSE_ChargingProtocol_SetTaskDelay_def split: prod.split)

text \<open>
  Whatever the tasks do through the module's operations, its state machine is in
  a state the operations of the state machine alone reach; the module stays initialized, and
  the task's own flag never keeps it from running the state machine.
\<close>

lemma cprot_invariant:
  assumes "cprot_reachable c"
  shows "j1772_reachable (cp_j1772 c) \<and> cprot_is_init c \<and> \<not> cp_stop c"
  using assms
proof (induction rule: cprot_reachable.induct)
  case (start a b l t h c ready)
  then show ?case using Init_fields j1772_reachable.init by (simp add: start_j1772 start_flags)
next
  case (turn c e l c')
  then show ?case using turn_j1772 turn_flags by blast
qed (auto simp: EVSE_ChargingProtocol_SetEvent_def EVSE_ChargingProtocol_SetMaxCurrent_def
    EVSE_ChargingProtocol_StopCharging_def EVSE_ChargingProtocol_StartCharging_def
    EVSE_ChargingProtocol_SetTaskDelay_def EVSE_ChargingProtocol_SetProtocol_def
    EVSE_ChargingProtocol_SetChargingState_def EVSE_ChargingProtocol_SetTaskPriority_def
    EVSE_ChargingProtocol_ChangeDirection_callback_def EVSE_ChargingProtocol_PauseResumeBtn_callback_def
    intro: j1772_reachable.set_max j1772_reachable.stop dest: Refresh_frame)

definition sample_cprot :: charging_protocol where
  "sample_cprot = the (EVSE_ChargingProtocol_Init True True True True (Some \<lparr>has_ventilation_state = True\<rparr>) cprot_boot)"

lemma sample_cprot_init:
  "EVSE_ChargingProtocol_Init True True True True (Some \<lparr>has_ventilation_state = True\<rparr>) cprot_boot = Some sample_cprot"
  "cprot_is_init sample_cprot" "cp_events sample_cprot = 0"
  by (simp_all add: sample_cprot_def EVSE_ChargingProtocol_Init_def EVSE_ChargingProtocol_ValidateHandlers_def
      EVSE_ChargingProtocol_InitializeResources_def cprot_boot_def Let_def
      EVSE_ChargingProtocol_InitializeVehicleData_def split: option.splits)

section \<open>Waiting for the low level\<close>

lemma next_delay_bound: "d \<le> 5000 \<Longrightarrow> d \<le> next_delay d \<and> next_delay d \<le> 5000"
proof -
  assume d: "d \<le> 5000"
  show ?thesis
  proof (cases "d < 2500")
    case True
    then have "unat d < 2500" by (simp add: word_less_nat_alt)
    then have "unat (d * 2) = 2 * unat d" by (simp add: unat_word_ariths)
    then show ?thesis using True \<open>unat d < 2500\<close> d
      by (simp add: next_delay_def word_le_nat_alt word_less_nat_alt)
  next
    case False
    then show ?thesis using d by (simp add: next_delay_def)
  qed
qed

text \<open>
  The wait for the low level ends: after at most the given number of polls, with as many
  delays as failed polls, none longer than 5 seconds, and before the last poll exactly when the
  poll it stopped at succeeded.
\<close>

theorem wait_for_ready_bounded:
  assumes "d \<le> 5000" "wait_for_ready ready k n d = (r, d', ds)"
  shows "k \<le> r \<and> r \<le> k + n \<and> length ds = r - k \<and> d' \<le> 5000 \<and> (\<forall>x \<in> set ds. x \<le> 5000) \<and>
    (r < k + n \<longrightarrow> ready r) \<and> (\<forall>i \<in> {k..<r}. \<not> ready i)"
  using assms
proof (induction ready k n d arbitrary: r d' ds rule: wait_for_ready.induct)
  case (2 ready k n d)
  show ?case
  proof (cases "ready k")
    case True
    then have "r = k" "d' = d" "ds = []" using 2(3) by simp_all
    then show ?thesis using 2(2) True by simp
  next
    case False
    obtain r1 d1 ds1 where e: "wait_for_ready ready (Suc k) n (next_delay d) = (r1, d1, ds1)"
      by (cases "wait_for_ready ready (Suc k) n (next_delay d)")
    then have eq: "r = r1" "d' = d1" "ds = d # ds1" using 2(3) False by auto
    have IH: "Suc k \<le> r1 \<and> r1 \<le> Suc k + n \<and> length ds1 = r1 - Suc k \<and> d1 \<le> 5000 \<and>
        (\<forall>x \<in> set ds1. x \<le> 5000) \<and> (r1 < Suc k + n \<longrightarrow> ready r1) \<and> (\<forall>i \<in> {Suc k..<r1}. \<not> ready i)"
      using 2(1)[OF False _ e] next_delay_bound[OF 2(2)] by blast
    then have "{k..<r1} = insert k {Suc k..<r1}" by auto
    then show ?thesis using False 2(2) eq IH by (simp add: Suc_diff_Suc)
  qed
qed simp

lemma next_delay_values: "next_delay 5 = 10" "next_delay 10 = 20"
  by (simp_all add: next_delay_def)

theorem wait_for_ready_bounded_witness:
  "wait_for_ready (\<lambda>k. k = 2) 0 3 5 = (2, 20, [5, 10]) \<and> (2::nat) \<le> 0 + 3"
proof -
  have e: "wait_for_ready (\<lambda>k. k = 2) 0 3 5 = (2, 20, [5, 10])"
    by (simp add: numeral_3_eq_3 next_delay_values)
  then show ?thesis using wait_for_ready_bounded[OF _ e] by simp
qed

section \<open>Events\<close>

lemma WaitEvent_stop_eq:
  "and (cp_events d) 0xFFFFFF \<noteq> 0 \<Longrightarrow> and (and (cp_events d) 0xFFFFFF) 4 = 4 \<Longrightarrow>
   EVSE_ChargingWaitEvent l d = map_option EVSE_ChargingProtocol_StopCharging
     (if and (and (cp_events d) 0xFFFFFF) 2 = 2
      then EVSE_ChargingProtocol_RefreshVehicleData l (d\<lparr>cp_events := and (cp_events d) (not 0xFFFFFF)\<rparr>)
      else Some (d\<lparr>cp_events := and (cp_events d) (not 0xFFFFFF)\<rparr>))"
  by (simp add: EVSE_ChargingWaitEvent_def Let_def EVSE_ChargingProtocol_PauseCharging_def split: option.split)

text \<open>
  A stop request posted as an event is carried out by the task's next wait, alone or together
  with the other requests, and the flags are cleared.
\<close>

lemma stop_event_carried_out:
  assumes "cprot_is_init c"
    and "EVSE_ChargingWaitEvent locked (EVSE_ChargingProtocol_SetEvent 4 c) = Some c'"
  shows "ready_to_charge (cp_j1772 c') = False \<and> and (cp_events c') 0xFFFFFF = 0"
proof -
  let ?d = "EVSE_ChargingProtocol_SetEvent 4 c"
  have b: "bit (and (cp_events ?d) 0xFFFFFF) 2"
    using assms(1) by (simp add: EVSE_ChargingProtocol_SetEvent_def bit_simps)
  then have nz: "and (cp_events ?d) 0xFFFFFF \<noteq> 0" by (metis bit_0_eq bot_apply bot_bool_def)
  have "and (or x 4) 4 = 4" for x :: "32 word" by (rule bit_word_eqI) (auto simp: bit_simps)
  then have f: "and (and (cp_events ?d) 0xFFFFFF) 4 = 4"
    using assms(1) by (simp add: EVSE_ChargingProtocol_SetEvent_def and.assoc)
  have z: "and (and x (not 0xFFFFFF)) 0xFFFFFF = 0" for x :: "32 word"
    by (rule bit_word_eqI) (simp add: bit_simps)
  let ?e = "?d\<lparr>cp_events := and (cp_events ?d) (not 0xFFFFFF)\<rparr>"
  obtain d where d: "d = ?e \<or> EVSE_ChargingProtocol_RefreshVehicleData locked ?e = Some d"
      and c': "c' = EVSE_ChargingProtocol_StopCharging d"
    using assms(2) unfolding WaitEvent_stop_eq[OF nz f]
    by (cases "and (and (cp_events ?d) 0xFFFFFF) 2 = 2") auto
  have "cp_events d = cp_events ?e"
    using d
  proof
    assume "EVSE_ChargingProtocol_RefreshVehicleData locked ?e = Some d"
    from Refresh_frame[OF this] show ?thesis by blast
  qed (rule arg_cong)
  moreover have "cp_events ?e = and (cp_events ?d) (not 0xFFFFFF)" by (cases ?d) (simp only: charging_protocol.simps)
  ultimately have "and (cp_events d) 0xFFFFFF = 0" using z[of "cp_events ?d"] by (simp only:)
  then show ?thesis
    by (simp add: c' EVSE_ChargingProtocol_StopCharging_def EVSE_J1772_StopCharging_def)
qed


text \<open>A task that runs with no events posted, its vehicle showing the given pilot states.\<close>

lemma sample_cprot_run:
  "\<exists>c. cprot_reachable c \<and> cp_events c = 0 \<and> cp_j1772 c = sample_run cps"
proof (induction cps rule: rev_induct)
  case Nil
  have "s_charging_handlers sample_cprot = Some \<lparr>has_ventilation_state = True\<rparr>" "cp_j1772 sample_cprot = j1772_boot"
    using Init_fields[OF sample_cprot_init(1)] by simp_all
  then have "cp_j1772 (chargingprotocol_task_start (\<lambda>_. True) sample_cprot) = sample_run []"
    by (simp add: start_j1772 sample_run_def sample_init_def)
  moreover have "cp_events (chargingprotocol_task_start (\<lambda>_. True) sample_cprot) = 0"
    using sample_cprot_init(3)
    by (auto simp: chargingprotocol_task_start_def Let_def EVSE_ChargingProtocol_WaitForLowLevelReady_def
        EVSE_ChargingProtocol_SetTaskDelay_def split: prod.split)
  ultimately show ?case using cprot_reachable.start[OF sample_cprot_init(1)] by blast
next
  case (snoc cp cps)
  then obtain c where c: "cprot_reachable c" "cp_events c = 0" "cp_j1772 c = sample_run cps" by blast
  define c' where "c' = c\<lparr>cp_stop := False, cp_j1772 := EVSE_J1772_Loop_EVSE (sample_env cp) (cp_j1772 c)\<rparr>"
  have "chargingprotocol_task_turn (sample_env cp) True c = Some c'"
    using turn_eq cprot_invariant[OF c(1)] c(2) by (simp add: c'_def EVSE_ChargingWaitEvent_def)
  then have "cprot_reachable c'" by (rule cprot_reachable.turn[OF c(1)])
  moreover have "cp_j1772 c' = sample_run (cps @ [cp])" by (simp add: c'_def c(3) sample_run_snoc)
  moreover have "cp_events c' = 0" by (simp add: c'_def c(2))
  ultimately show ?case by blast
qed


section \<open>Debouncing\<close>

lemma timeout_offset:
  "EVSE_ChargingProtocol_IsTimeoutExpired (t + d) t timeout \<longleftrightarrow> timeout < d"
  by (simp add: EVSE_ChargingProtocol_IsTimeoutExpired_def)

text \<open>
  After an accepted press of the button at any time, also just before the millisecond clock
  wraps, a press within the next 100 ms changes nothing and a later one is accepted.
\<close>

theorem button_debounce_survives_clock_wrap:
  assumes "last_button_press (s_runtime_state c) = t"
  shows "EVSE_ChargingProtocol_PauseResumeBtn_callback (t + d) (t + d) c =
    (if d \<le> 100 then c
     else c\<lparr>s_runtime_state := (s_runtime_state c)\<lparr>button_state := True, last_button_press := t + d\<rparr>\<rparr>)"
  using assms by (simp add: EVSE_ChargingProtocol_PauseResumeBtn_callback_def timeout_offset not_less[symmetric])

theorem button_debounce_survives_clock_wrap_witness:
  "let c = cprot_boot\<lparr>s_runtime_state := \<lparr>button_state = True, last_button_press = - 16, last_direction_change = 0\<rparr>\<rparr>
   in EVSE_ChargingProtocol_PauseResumeBtn_callback 16 16 c = c"
  using button_debounce_survives_clock_wrap[of "cprot_boot\<lparr>s_runtime_state := \<lparr>button_state = True,
    last_button_press = - 16, last_direction_change = 0\<rparr>\<rparr>" "- 16" 32] by (simp add: Let_def)

section \<open>An unchecked null pointer\<close>

text \<open>
  With the protocol set to the last member of the enumeration, which \<open>SetProtocol\<close> accepts,
  a refresh of the vehicle data copies from a null pointer: it has no defined result.
\<close>

theorem refresh_with_last_protocol_is_undefined:
  "EVSE_ChargingProtocol_RefreshVehicleData True (EVSE_ChargingProtocol_SetProtocol EVSE_LastChargingProtocol c) = None"
  by (auto simp: EVSE_ChargingProtocol_RefreshVehicleData_def EVSE_ChargingProtocol_SetProtocol_def
      EVSE_ChargingProtocol_GetStringFromCurrentProtocol_def split: option.splits)

end

