(* ===== verification/Ocpp_System.thy ===== *)
theory Ocpp_System
  imports Ocpp_Props Ocpp_Messages Charging_Protocol_Props J1772_Behaviour
begin

text \<open>
  The charging protocol task and the OCPP task together. The charging task posts the events in its log
  of calls to the OCPP task and polls it for the authorization of the vehicle; the OCPP task starts
  and stops the charging through the interface of the charging protocol; the OCPP library delivers the
  messages of the CSMS. A step of the system is one turn of a task or one message, whole.
\<close>

section \<open>The system\<close>

record evse_system =
  sys_cp :: charging_protocol
  sys_ocpp :: ocpp
  sys_accepted :: bool

text \<open>
  \<open>sys_accepted\<close> is a ghost: whether the CSMS has ever accepted a token. The events of a turn of the
  charging task reach the OCPP task, its other calls the hardware.
\<close>

fun deliver_events :: "hal_call list \<Rightarrow> ocpp \<Rightarrow> ocpp" where
  "deliver_events [] s = s"
| "deliver_events (OCPP_SetEvent ev # cs) s = deliver_events cs (EVSE_OCPP_SetEvent ev s)"
| "deliver_events (_ # cs) s = deliver_events cs s"

fun protocol_commands :: "ocpp_call list \<Rightarrow> charging_protocol \<Rightarrow> charging_protocol" where
  "protocol_commands [] c = c"
| "protocol_commands (Protocol_StartCharging # cs) c = protocol_commands cs (EVSE_ChargingProtocol_StartCharging c)"
| "protocol_commands (Protocol_StopCharging # cs) c = protocol_commands cs (EVSE_ChargingProtocol_StopCharging c)"
| "protocol_commands (_ # cs) c = protocol_commands cs c"

text \<open>The state machine asks for the response only in state B, with the vehicle there and not authorized yet.\<close>

definition asks_for_response :: "j1772_env \<Rightarrow> charging_protocol \<Rightarrow> bool" where
  "asks_for_response e c \<longleftrightarrow> \<not> cp_stop c \<and> current_state (cp_j1772 c) = STATE_B \<and>
     EVSE_J1772_GetState e = ControlPilot_StateB \<and> auth_needed (cp_j1772 c)"

definition charge_turn :: "j1772_env \<Rightarrow> u32 \<Rightarrow> bool \<Rightarrow> evse_system \<Rightarrow> evse_system option" where
  "charge_turn e unix locked y =
     (let c = sys_cp y;
          (ret, cell, s) = (if asks_for_response e c
                            then EVSE_OCPP_GetAuthResponse 0 (Some False) unix (sys_ocpp y)
                            else (False, Some False, sys_ocpp y))
      in case chargingprotocol_task_turn (e\<lparr>auth_response := (ret, the cell)\<rparr>) locked c of
           None \<Rightarrow> None
         | Some c' \<Rightarrow> Some (y\<lparr>sys_cp := c',
             sys_ocpp := deliver_events (drop (length (calls (cp_j1772 c))) (calls (cp_j1772 c'))) s\<rparr>))"

definition ocpp_turn :: "ocpp_env \<Rightarrow> evse_system \<Rightarrow> evse_system option" where
  "ocpp_turn e y =
     (case ocpp_pass e (sys_ocpp y) of
        Inl _ \<Rightarrow> None
      | Inr s \<Rightarrow> Some (y\<lparr>sys_ocpp := s,
          sys_cp := protocol_commands (drop (length (ocpp_calls (sys_ocpp y))) (ocpp_calls s)) (sys_cp y)\<rparr>))"

text \<open>What the library calls back for.\<close>

datatype csms_message =
    Transaction_response TransactionEventRequest TransactionEventResponse
  | Stop_request int ReasonEnum
  | Start_request "int option" bool
  | Variable_changed SetVariableData
  | Boot_response RegistrationStatusEnum int
  | Running_cost RunningCostState cfloat
  | Connection_changed bool
  | Display_messages DateTime "DisplayMessage list"
  | Reconnect

fun receive :: "csms_message \<Rightarrow> ocpp \<Rightarrow> ocpp or_error" where
  "receive (Transaction_response q r) s = Inr (OCPP_TransactionEventResponse_Cb q r s)"
| "receive (Stop_request i reason) s = Inr (snd (OCPP_StopTransaction_Cb i reason s))"
| "receive (Start_request i auth) s = Inr (snd (OCPP_RemoteStartTransaction_Cb i auth s))"
| "receive (Variable_changed d) s = OCPP_VariableChanged_Cb d s"
| "receive (Boot_response st n) s = Inr (OCPP_BootNotification_Cb st n s)"
| "receive (Running_cost st x) s = Inr (OCPP_SetRunningCost_Cb st x s)"
| "receive (Connection_changed up) s = Inr (OCPP_ConnectionStateChanged_Cb up s)"
| "receive (Display_messages t ms) s = Inr (snd (OCPP_SetDisplayMessage_Cb t ms s))"
| "receive Reconnect s = Inr (EVSE_OCPP_SetReconnectEvent s)"

fun accepts_token :: "csms_message \<Rightarrow> bool" where
  "accepts_token (Transaction_response q r) = (idTokenInfo r = Some Auth_Accepted)"
| "accepts_token _ = False"

definition message_turn :: "csms_message \<Rightarrow> evse_system \<Rightarrow> evse_system option" where
  "message_turn m y =
     (case receive m (sys_ocpp y) of
        Inl _ \<Rightarrow> None
      | Inr s \<Rightarrow> Some (y\<lparr>sys_ocpp := s, sys_accepted := sys_accepted y \<or> accepts_token m\<rparr>))"

text \<open>
  The charging task runs from the start; the connectivity task creates the OCPP task later, when the
  network is there. The metrology and the connectivity task post events of their own.
\<close>

inductive evse_reachable :: "evse_system \<Rightarrow> bool" where
  power_up: "EVSE_ChargingProtocol_Init a b l t (Some h) cprot_boot = Some c \<Longrightarrow>
    evse_reachable \<lparr>sys_cp = chargingprotocol_task_start ready c, sys_ocpp = ocpp_boot, sys_accepted = False\<rparr>"
| ocpp_start: "evse_reachable y \<Longrightarrow> \<not> ocpp_is_init (sys_ocpp y) \<Longrightarrow>
    EVSE_OCPP_Init True True True (sys_ocpp y) = Some s \<Longrightarrow> evse_reachable (y\<lparr>sys_ocpp := ocpp_task_start url s\<rparr>)"
| charge: "evse_reachable y \<Longrightarrow> charge_turn e u l y = Some y' \<Longrightarrow> evse_reachable y'"
| ocpp: "evse_reachable y \<Longrightarrow> ocpp_is_init (sys_ocpp y) \<Longrightarrow> ocpp_turn e' y = Some y' \<Longrightarrow> evse_reachable y'"
| message: "evse_reachable y \<Longrightarrow> ocpp_is_init (sys_ocpp y) \<Longrightarrow> message_turn m y = Some y' \<Longrightarrow> evse_reachable y'"
| event: "evse_reachable y \<Longrightarrow> evse_reachable (y\<lparr>sys_ocpp := EVSE_OCPP_SetEvent ev (sys_ocpp y)\<rparr>)"
| cprot_event: "evse_reachable y \<Longrightarrow> evse_reachable (y\<lparr>sys_cp := EVSE_ChargingProtocol_SetEvent w (sys_cp y)\<rparr>)"
| max_current: "evse_reachable y \<Longrightarrow> evse_reachable (y\<lparr>sys_cp := EVSE_ChargingProtocol_SetMaxCurrent mc (sys_cp y)\<rparr>)"

section \<open>No power without the CSMS\<close>

definition unauthorized_state :: "j1772 \<Rightarrow> bool" where
  "unauthorized_state j \<longleftrightarrow> current_state j \<in> {J1772_LAST_STATE, STATE_A, STATE_F} \<or>
     current_state j = STATE_B \<and> auth_needed j"

lemma unauthorized_switch:
  assumes "unauthorized_state s" "\<not> (fst (auth_response e) \<and> snd (auth_response e))"
  shows "unauthorized_state (fst (loop_switch e (s, pm)))"
proof (cases "current_state s")
  case STATE_B
  then have "auth_needed s" using assms(1) by (auto simp: unauthorized_state_def)
  then show ?thesis using STATE_B assms(2)
    by (simp add: loop_switch_def loop_B_def unauthorized_state_def check_auth_def Let_def split: if_split)
      (auto simp: EVSE_J1772_SetState_def enter_defs Let_def)
qed (use assms in \<open>simp_all add: unauthorized_state_def loop_switch_def loop_A_def loop_EF_def loop_LAST_def
    SetState_fields enter_fields split: if_split\<close>)

lemma unauthorized_loop:
  assumes "unauthorized_state j" "\<not> (fst (auth_response e) \<and> snd (auth_response e))"
  shows "unauthorized_state (EVSE_J1772_Loop_EVSE e j)"
proof -
  obtain s0 where s0: "loop_begin e j = (s0, current_pwm j)" "current_state s0 = current_state j"
    "auth_needed s0 = auth_needed j" by (rule loop_beginE)
  have "unauthorized_state (fst (loop_switch e (s0, current_pwm j)))"
    using unauthorized_switch[of s0 e] assms s0 by (simp add: unauthorized_state_def)
  then show ?thesis using s0 by (auto simp: unauthorized_state_def Loop_fields)
qed

text \<open>What one turn of the charging task and the commands of the OCPP task do to the state machine.\<close>

lemma task_turn_j1772:
  assumes "chargingprotocol_task_turn e l c = Some c'"
  shows "cp_j1772 c' \<in> (let j = (if cp_stop c then cp_j1772 c else EVSE_J1772_Loop_EVSE e (cp_j1772 c))
                      in {j, EVSE_J1772_StopCharging True j})"
proof -
  define d where "d = (if \<not> cp_stop c
    then (let (st, j) = EVSE_J1772_Loop e (Some (cp_stop c)) (cp_j1772 c) in c\<lparr>cp_stop := the st, cp_j1772 := j\<rparr>)
    else c)"
  have "cp_j1772 d = (if cp_stop c then cp_j1772 c else EVSE_J1772_Loop_EVSE e (cp_j1772 c))"
    by (simp add: d_def EVSE_J1772_Loop_def)
  moreover have "EVSE_ChargingWaitEvent l d = Some c'"
    using assms by (simp add: chargingprotocol_task_turn_def d_def[symmetric] Let_def)
  ultimately show ?thesis using WaitEvent_j1772[of l d c'] by (simp add: Let_def)
qed

lemma unauthorized_stop [simp]: "unauthorized_state (EVSE_J1772_StopCharging b j) = unauthorized_state j"
  by (simp add: unauthorized_state_def EVSE_J1772_StopCharging_def)

lemma commands_j1772:
  "j1772_reachable (cp_j1772 c) \<Longrightarrow> j1772_reachable (cp_j1772 (protocol_commands cs c))"
  "unauthorized_state (cp_j1772 (protocol_commands cs c)) = unauthorized_state (cp_j1772 c)"
  by (induction cs c rule: protocol_commands.induct)
    (simp_all add: EVSE_ChargingProtocol_StartCharging_def EVSE_ChargingProtocol_StopCharging_def j1772_reachable.stop)

text \<open>The OCPP task, before it is created or in a state it reaches.\<close>

definition ocpp_side :: "ocpp \<Rightarrow> bool" where
  "ocpp_side s \<longleftrightarrow> s = ocpp_boot \<or> ocpp_reachable s"

lemma boot_not_init: "\<not> ocpp_is_init ocpp_boot"
  by (simp add: ocpp_boot_def)

lemma init_frame:
  "ocpp_is_init (EVSE_OCPP_SetEvent ev s) = ocpp_is_init s"
  by (simp add: EVSE_OCPP_SetEvent_def)

lemma receive_init: "receive m s = Inr s' \<Longrightarrow> ocpp_is_init s' = ocpp_is_init s"
  by (cases m)
    (auto simp: OCPP_TransactionEventResponse_Cb_def OCPP_StopTransaction_Cb_def OCPP_RemoteStartTransaction_Cb_def
      OCPP_VariableChanged_Cb_def OCPP_BootNotification_Cb_def OCPP_SetRunningCost_Cb_def OCPP_ConnectionStateChanged_Cb_def
      OCPP_SetDisplayMessage_Cb_def EVSE_OCPP_SetReconnectEvent_def prvEVSE_OCPP_SetConnectionState_def
      display_loop_valid EVSE_OCPP_SetEvent_def and_then_ok_Inr Let_def split: if_splits option.splits)

lemma pass_init:
  assumes "session_ok s" "ocpp_pass e s = Inr s'"
  shows "ocpp_is_init s' = ocpp_is_init s"
proof (cases "ocpp_task_left_loop s \<or> s_ocppConnectionState s \<noteq> EVSE_Ocpp_Connected")
  case True
  then show ?thesis using assms(2)
    by (auto simp: ocpp_pass_def ocpp_event_wait_def disconnected_pass_def ocpp_do_def split: if_splits)
next
  case False
  then show ?thesis using pass_step[OF assms(1), of e] assms(2) by (auto split: option.splits)
qed

lemma ocpp_reachable_init: "ocpp_reachable s \<Longrightarrow> ocpp_is_init s"
proof (induction rule: ocpp_reachable.induct)
  case (start a b c s url)
  then show ?case
    by (auto simp: EVSE_OCPP_Init_def ocpp_task_start_def EVSE_OCPP_SetNetworkConnectionProfile_def ocpp_do_def split: if_splits)
next
  case (pass s e s')
  then show ?case using pass_init[OF reachable_session_ok] by blast
next
  case (poll s t r u)
  then show ?case by (simp add: EVSE_OCPP_GetAuthResponse_def Let_def)
next
  case (variable_cb s d s')
  then show ?case using receive_init[of "Variable_changed d"] by simp
qed (use receive_init[of "Stop_request _ _", simplified] receive_init[of "Start_request _ _", simplified]
    receive_init[of "Boot_response _ _", simplified] receive_init[of "Transaction_response _ _", simplified]
    receive_init[of "Running_cost _ _", simplified] receive_init[of "Connection_changed _", simplified]
    receive_init[of "Display_messages _ _", simplified] in \<open>auto simp: init_frame\<close>)

lemma side_event: "ocpp_side s \<Longrightarrow> ocpp_side (EVSE_OCPP_SetEvent ev s)"
  using boot_not_init by (auto simp: ocpp_side_def EVSE_OCPP_SetEvent_def dest: ocpp_reachable.event[of s ev])

lemma side_deliver: "ocpp_side s \<Longrightarrow> ocpp_side (deliver_events cs s)"
  by (induction cs s rule: deliver_events.induct) (auto intro: side_event)

lemma side_poll: "ocpp_side s \<Longrightarrow> ocpp_side (snd (snd (EVSE_OCPP_GetAuthResponse t r u s)))"
  using boot_not_init ocpp_reachable.poll[of s t r u]
  by (auto simp: ocpp_side_def EVSE_OCPP_GetAuthResponse_def)

lemma side_receive: "ocpp_side s \<Longrightarrow> ocpp_is_init s \<Longrightarrow> receive m s = Inr s' \<Longrightarrow> ocpp_side s'"
  using boot_not_init by (cases m) (auto simp: ocpp_side_def EVSE_OCPP_SetReconnectEvent_def intro: ocpp_reachable.intros)

lemma authorized_deliver [simp]: "is_EV_authorized (deliver_events cs s) = is_EV_authorized s"
  by (induction cs s rule: deliver_events.induct) (auto simp: EVSE_OCPP_SetEvent_def)

lemma authorized_poll [simp]: "is_EV_authorized (snd (snd (EVSE_OCPP_GetAuthResponse t r u s))) = is_EV_authorized s"
  by (simp add: EVSE_OCPP_GetAuthResponse_def Let_def)

lemma authorized_receive:
  "receive m s = Inr s' \<Longrightarrow> is_EV_authorized s' \<Longrightarrow> is_EV_authorized s \<or> accepts_token m"
  by (cases m)
    (auto simp: OCPP_TransactionEventResponse_Cb_def OCPP_StopTransaction_Cb_def OCPP_RemoteStartTransaction_Cb_def
      OCPP_VariableChanged_Cb_def OCPP_BootNotification_Cb_def OCPP_SetRunningCost_Cb_def OCPP_ConnectionStateChanged_Cb_def
      OCPP_SetDisplayMessage_Cb_def EVSE_OCPP_SetReconnectEvent_def display_loop_valid prvEVSE_OCPP_SetConnectionState_def
      EVSE_OCPP_SetEvent_def and_then_ok_Inr Let_def split: if_splits option.splits)

lemma view_answers:
  "view_when b ev (Some \<circ> view_connected) v = Some w \<Longrightarrow> answer w \<Longrightarrow> answer v"
  "view_when b ev (Some \<circ> view_authorized) v = Some w \<Longrightarrow> answer w \<Longrightarrow> answer v"
  "view_when b ev (Some \<circ> view_started r) v = Some w \<Longrightarrow> answer w \<Longrightarrow> answer v"
  "view_when b ev (view_stopped r) v = Some w \<Longrightarrow> answer w \<Longrightarrow> answer v"
  "view_when b ev (Some \<circ> view_disconnected) v = Some w \<Longrightarrow> answer w \<Longrightarrow> answer v"
  by (auto simp: view_when_def view_connected_def view_authorized_def view_started_def view_stopped_def
      view_disconnected_def split: option.splits if_splits)

lemma view_pass_answer: "view_pass b v = Some w \<Longrightarrow> answer w \<Longrightarrow> answer v"
  unfolding view_pass_def bind_eq_Some_conv by (blast dest: view_answers)

lemma authorized_pass:
  assumes "ocpp_reachable s" "ocpp_pass e s = Inr s'" "is_EV_authorized s'"
  shows "is_EV_authorized s"
proof (cases "ocpp_task_left_loop s \<or> s_ocppConnectionState s \<noteq> EVSE_Ocpp_Connected")
  case True
  then show ?thesis using assms(2,3)
    by (auto simp: ocpp_pass_def ocpp_event_wait_def disconnected_pass_def split: if_splits)
next
  case False
  then have "view_pass (and (ocpp_event_bits s) 0xFFFFFF) (ocpp_view s) = Some (ocpp_view s')"
    using pass_step[OF reachable_session_ok[OF assms(1)], of e] assms(2) by (auto split: option.splits)
  then have "answer (ocpp_view s)" using view_pass_answer assms(3) by (fastforce simp: ocpp_view_def)
  then show ?thesis by (simp add: ocpp_view_def)
qed

definition sys_inv :: "evse_system \<Rightarrow> bool" where
  "sys_inv y \<longleftrightarrow> j1772_reachable (cp_j1772 (sys_cp y)) \<and> ocpp_side (sys_ocpp y) \<and>
     (sys_accepted y \<or> unauthorized_state (cp_j1772 (sys_cp y)) \<and> \<not> is_EV_authorized (sys_ocpp y))"

lemma poll_cell: "\<exists>ret cell s'. EVSE_OCPP_GetAuthResponse t (Some b) u s = (ret, Some cell, s')"
  by (auto simp: EVSE_OCPP_GetAuthResponse_def Let_def)

lemma charge_turn_cases:
  assumes "charge_turn e u l y = Some y'"
  obtains ret cell s where "sys_accepted y' = sys_accepted y"
    "chargingprotocol_task_turn (e\<lparr>auth_response := (ret, cell)\<rparr>) l (sys_cp y) = Some (sys_cp y')"
    "s = sys_ocpp y \<and> \<not> ret \<or> (ret, Some cell, s) = EVSE_OCPP_GetAuthResponse 0 (Some False) u (sys_ocpp y)"
    "sys_ocpp y' = deliver_events (drop (length (calls (cp_j1772 (sys_cp y)))) (calls (cp_j1772 (sys_cp y')))) s"
proof (cases "asks_for_response e (sys_cp y)")
  case True
  obtain ret cell s where r: "EVSE_OCPP_GetAuthResponse 0 (Some False) u (sys_ocpp y) = (ret, Some cell, s)"
    using poll_cell by blast
  then show ?thesis using assms True that[of ret cell s] by (auto simp: charge_turn_def Let_def split: option.splits)
next
  case False
  then show ?thesis using assms that[of False False "sys_ocpp y"] by (auto simp: charge_turn_def Let_def split: option.splits)
qed

lemma charge_inv:
  assumes "sys_inv y" "charge_turn e u l y = Some y'"
  shows "sys_inv y'"
proof -
  obtain ret cell s where c: "sys_accepted y' = sys_accepted y"
    "chargingprotocol_task_turn (e\<lparr>auth_response := (ret, cell)\<rparr>) l (sys_cp y) = Some (sys_cp y')"
    "s = sys_ocpp y \<and> \<not> ret \<or> (ret, Some cell, s) = EVSE_OCPP_GetAuthResponse 0 (Some False) u (sys_ocpp y)"
    "sys_ocpp y' = deliver_events (drop (length (calls (cp_j1772 (sys_cp y)))) (calls (cp_j1772 (sys_cp y')))) s"
    using charge_turn_cases[OF assms(2)] by metis
  have s: "ocpp_side s" "is_EV_authorized s = is_EV_authorized (sys_ocpp y)"
    using c(3)
  proof (atomize(full), elim disjE)
    assume "s = sys_ocpp y \<and> \<not> ret"
    then show "ocpp_side s \<and> is_EV_authorized s = is_EV_authorized (sys_ocpp y)" using assms(1) by (simp add: sys_inv_def)
  next
    assume "(ret, Some cell, s) = EVSE_OCPP_GetAuthResponse 0 (Some False) u (sys_ocpp y)"
    then have "s = snd (snd (EVSE_OCPP_GetAuthResponse 0 (Some False) u (sys_ocpp y)))" by (metis snd_conv)
    then show "ocpp_side s \<and> is_EV_authorized s = is_EV_authorized (sys_ocpp y)"
      using assms(1) by (simp add: sys_inv_def side_poll)
  qed
  have "ret \<and> cell \<Longrightarrow> is_EV_authorized (sys_ocpp y)"
    using c(3) by (auto simp: EVSE_OCPP_GetAuthResponse_def Let_def split: if_splits)
  then have "\<not> sys_accepted y \<Longrightarrow> unauthorized_state (EVSE_J1772_Loop_EVSE (e\<lparr>auth_response := (ret, cell)\<rparr>) (cp_j1772 (sys_cp y)))"
    using assms(1) by (intro unauthorized_loop) (auto simp: sys_inv_def)
  then have "\<not> sys_accepted y \<Longrightarrow> unauthorized_state (cp_j1772 (sys_cp y'))"
    using task_turn_j1772[OF c(2)] assms(1) by (auto simp: sys_inv_def Let_def split: if_splits)
  moreover have "j1772_reachable (cp_j1772 (sys_cp y'))" using turn_j1772[OF c(2)] assms(1) by (simp add: sys_inv_def)
  moreover have "ocpp_side (sys_ocpp y')" unfolding c(4) using s(1) by (rule side_deliver)
  moreover have "is_EV_authorized (sys_ocpp y') = is_EV_authorized (sys_ocpp y)" unfolding c(4) using s(2) by simp
  ultimately show ?thesis using assms(1) c(1) by (auto simp: sys_inv_def)
qed

lemma reachable_sys_inv: "evse_reachable y \<Longrightarrow> sys_inv y"
proof (induction rule: evse_reachable.induct)
  case (power_up a b l t h c ready)
  then have c: "cp_j1772 c = j1772_boot" "s_charging_handlers c = Some h" using Init_fields by auto
  have "unauthorized_state (EVSE_J1772_Init (Some h) j1772_boot)"
    by (simp add: unauthorized_state_def EVSE_J1772_Init_def Let_def hal_def)
  then show ?case using j1772_reachable.init[of h] c
    by (simp add: sys_inv_def ocpp_side_def start_j1772 ocpp_boot_def)
next
  case (ocpp_start y s url)
  then have "sys_ocpp y = ocpp_boot"
    by (auto simp: sys_inv_def ocpp_side_def dest: ocpp_reachable_init)
  then show ?case using ocpp_start ocpp_reachable.start[of True True True s url]
    by (auto simp: sys_inv_def ocpp_side_def EVSE_OCPP_Init_def ocpp_task_start_def ocpp_do_def ocpp_boot_def
        EVSE_OCPP_SetNetworkConnectionProfile_def)
next
  case (charge y e u l y')
  then show ?case using charge_inv by blast
next
  case (ocpp y e' y')
  then have r: "ocpp_reachable (sys_ocpp y)" using boot_not_init by (auto simp: sys_inv_def ocpp_side_def)
  obtain s where s: "ocpp_pass e' (sys_ocpp y) = Inr s" "y' = y\<lparr>sys_ocpp := s,
      sys_cp := protocol_commands (drop (length (ocpp_calls (sys_ocpp y))) (ocpp_calls s)) (sys_cp y)\<rparr>"
    using ocpp.hyps(3) by (auto simp: ocpp_turn_def split: sum.splits)
  then show ?case using ocpp.IH r ocpp_reachable.pass[OF r s(1)] authorized_pass[OF r s(1)]
    by (auto simp: sys_inv_def ocpp_side_def commands_j1772)
next
  case (message y m y')
  then obtain s where s: "receive m (sys_ocpp y) = Inr s"
    "y' = y\<lparr>sys_ocpp := s, sys_accepted := sys_accepted y \<or> accepts_token m\<rparr>"
    by (auto simp: message_turn_def split: sum.splits)
  then show ?case using message side_receive[of "sys_ocpp y" m s] authorized_receive[OF s(1)]
    by (auto simp: sys_inv_def)
next
  case (event y ev)
  then show ?case using side_event by (auto simp: sys_inv_def EVSE_OCPP_SetEvent_def)
next
  case (cprot_event y w)
  then show ?case by (auto simp: sys_inv_def EVSE_ChargingProtocol_SetEvent_def)
next
  case (max_current y mc)
  then show ?case using j1772_reachable.set_max[of "cp_j1772 (sys_cp y)" mc]
    by (auto simp: sys_inv_def EVSE_ChargingProtocol_SetMaxCurrent_def EVSE_J1772_SetMaxCurrent_def unauthorized_state_def
        Let_def)
qed

text \<open>
  (C2) End to end: in every state the charger reaches, whatever vehicles, tasks, network and CSMS do and in
  whatever order, the contactor is closed and energy flows only if the CSMS has accepted a token.
\<close>

theorem power_needs_acceptance:
  assumes "evse_reachable y" "\<not> sys_accepted y"
  shows "relay_open (cp_j1772 (sys_cp y)) \<and> \<not> isCharging (cp_j1772 (sys_cp y))"
proof -
  have "unauthorized_state (cp_j1772 (sys_cp y))" "j1772_inv (cp_j1772 (sys_cp y))"
    using reachable_sys_inv[OF assms(1)] assms(2) reachable_inv by (auto simp: sys_inv_def)
  then show ?thesis by (auto simp: unauthorized_state_def j1772_inv_def)
qed

definition sample_system :: evse_system where
  "sample_system = \<lparr>sys_cp = chargingprotocol_task_start (\<lambda>_. True) sample_cprot, sys_ocpp = ocpp_boot, sys_accepted = False\<rparr>"

lemma sample_system_reachable: "evse_reachable sample_system"
  unfolding sample_system_def by (rule evse_reachable.power_up[OF sample_cprot_init(1)])

theorem power_needs_acceptance_witness:
  "relay_open (cp_j1772 (sys_cp sample_system)) \<and> \<not> isCharging (cp_j1772 (sys_cp sample_system))"
  using power_needs_acceptance[OF sample_system_reachable] by (simp add: sample_system_def)

section \<open>The authorization of the next vehicle\<close>

text \<open>A turn of the charging task without pending requests is one pass of the state machine.\<close>

lemma quiet_turn:
  assumes "\<not> cp_stop c" "cp_events c = 0"
  shows "chargingprotocol_task_turn e l c = Some (c\<lparr>cp_stop := False, cp_j1772 := EVSE_J1772_Loop_EVSE e (cp_j1772 c)\<rparr>)"
  using assms by (simp add: chargingprotocol_task_turn_def EVSE_J1772_Loop_def EVSE_ChargingWaitEvent_def Let_def)

lemma deliver_frame [simp]:
  "ocpp_calls (deliver_events cs s) = ocpp_calls s" "ocpp_sem (deliver_events cs s) = ocpp_sem s"
  "ocpp_is_init (deliver_events cs s) = ocpp_is_init s" "transactionHandler (deliver_events cs s) = transactionHandler s"
  "EV_plugged_in (deliver_events cs s) = EV_plugged_in s" "session_started (deliver_events cs s) = session_started s"
  "s_ocppConnectionState (deliver_events cs s) = s_ocppConnectionState s"
  "ocpp_task_left_loop (deliver_events cs s) = ocpp_task_left_loop s"
  by (induction cs s rule: deliver_events.induct) (auto simp: EVSE_OCPP_SetEvent_def)

lemma charge_turn_quiet:
  assumes "\<not> cp_stop (sys_cp y)" "cp_events (sys_cp y) = 0" "\<not> asks_for_response e (sys_cp y)"
  defines "j \<equiv> EVSE_J1772_Loop_EVSE (e\<lparr>auth_response := (False, False)\<rparr>) (cp_j1772 (sys_cp y))"
  shows "charge_turn e u l y = Some (y\<lparr>sys_cp := (sys_cp y)\<lparr>cp_stop := False, cp_j1772 := j\<rparr>,
    sys_ocpp := deliver_events (drop (length (calls (cp_j1772 (sys_cp y)))) (calls j)) (sys_ocpp y)\<rparr>)"
  using assms(1-3) by (simp add: charge_turn_def quiet_turn j_def Let_def)

lemma charge_turn_answered:
  assumes "\<not> cp_stop (sys_cp y)" "cp_events (sys_cp y) = 0" "asks_for_response e (sys_cp y)"
    and "ocpp_is_init (sys_ocpp y)" "ocpp_sem (sys_ocpp y)"
  defines "j \<equiv> EVSE_J1772_Loop_EVSE (e\<lparr>auth_response := (True, is_EV_authorized (sys_ocpp y))\<rparr>) (cp_j1772 (sys_cp y))"
  shows "charge_turn e u l y = Some (y\<lparr>sys_cp := (sys_cp y)\<lparr>cp_stop := False, cp_j1772 := j\<rparr>,
    sys_ocpp := deliver_events (drop (length (calls (cp_j1772 (sys_cp y)))) (calls j))
      ((sys_ocpp y)\<lparr>ocpp_sem := False, last_auth_time := 0\<rparr>)\<rparr>)"
  using assms(1-5) by (simp add: charge_turn_def quiet_turn j_def EVSE_OCPP_GetAuthResponse_def Let_def)

lemma arrival_state:
  assumes "current_state s = STATE_A" "cp_reading e = ControlPilot_StateB"
  shows "current_state (EVSE_J1772_Loop_EVSE e s) = STATE_B" "auth_needed (EVSE_J1772_Loop_EVSE e s)"
    "current_pwm (EVSE_J1772_Loop_EVSE e s) = PWM100_MAX_VALUE"
    "\<exists>b. drop (length (calls s)) (calls (EVSE_J1772_Loop_EVSE e s)) =
      [OCPP_SetEvent EV_CONNECTED_EVENT, OCPP_SetEvent EV_AUTH_NEEDED_EVENT, OCPP_SetEvent EVSE_CHARGING_STOPPED_EVENT,
       Set_contactor_state True] @ b \<and> (\<forall>ev. OCPP_SetEvent ev \<notin> set b)"
proof -
  obtain t where t: "loop_begin e s = (t, current_pwm s)" "current_state t = STATE_A" "cp_state t = ControlPilot_StateB"
      "current_pwm t = current_pwm s" "calls t = calls s"
    using loop_beginE[of e s] assms by metis
  show "current_state (EVSE_J1772_Loop_EVSE e s) = STATE_B" "auth_needed (EVSE_J1772_Loop_EVSE e s)"
    "current_pwm (EVSE_J1772_Loop_EVSE e s) = PWM100_MAX_VALUE"
    using t by (simp_all add: Loop_fields Loop_current_pwm loop_switch_def loop_A_def EVSE_J1772_SetState_def enter_defs Let_def)
  show "\<exists>b. drop (length (calls s)) (calls (EVSE_J1772_Loop_EVSE e s)) =
      [OCPP_SetEvent EV_CONNECTED_EVENT, OCPP_SetEvent EV_AUTH_NEEDED_EVENT, OCPP_SetEvent EVSE_CHARGING_STOPPED_EVENT,
       Set_contactor_state True] @ b \<and> (\<forall>ev. OCPP_SetEvent ev \<notin> set b)"
    using t by (auto simp: EVSE_J1772_Loop_EVSE_def loop_switch_def loop_A_def EVSE_J1772_SetState_def enter_defs
        loop_end_def Let_def)
qed

text \<open>
  (C31) An answer of the CSMS that comes when its vehicle has left authorizes the next one. With the charger
  free and in state A, the acceptance of a token arrives; the vehicle that plugs in then is charged after
  three passes of the state machine, without a single call on the charge point: the CSMS has not been told
  of the vehicle, let alone asked.
\<close>

theorem late_answer_authorizes_next_vehicle:
  assumes "\<not> cp_stop (sys_cp y)" "cp_events (sys_cp y) = 0" "current_state (cp_j1772 (sys_cp y)) = STATE_A"
    and "ocpp_is_init (sys_ocpp y)" "idTokenInfo r = Some Auth_Accepted"
    and "cp_reading e1 = ControlPilot_StateB" "cp_reading e2 = ControlPilot_StateB" "cp_reading e3 = ControlPilot_StateC"
  shows "\<exists>y0 y1 y2 y3. message_turn (Transaction_response q r) y = Some y0 \<and> charge_turn e1 u1 l y0 = Some y1 \<and>
    charge_turn e2 u2 l y1 = Some y2 \<and> charge_turn e3 u3 l y2 = Some y3 \<and>
    \<not> relay_open (cp_j1772 (sys_cp y3)) \<and> isCharging (cp_j1772 (sys_cp y3)) \<and>
    ocpp_calls (sys_ocpp y3) = ocpp_calls (sys_ocpp y)"
proof -
  define y0 where "y0 = y\<lparr>sys_ocpp := OCPP_TransactionEventResponse_Cb q r (sys_ocpp y), sys_accepted := True\<rparr>"
  have m: "message_turn (Transaction_response q r) y = Some y0"
    using assms(5) by (simp add: message_turn_def y0_def)
  have o0: "ocpp_is_init (sys_ocpp y0)" "ocpp_sem (sys_ocpp y0)" "is_EV_authorized (sys_ocpp y0)"
    "ocpp_calls (sys_ocpp y0) = ocpp_calls (sys_ocpp y)" "sys_cp y0 = sys_cp y"
    using assms(4,5) by (simp_all add: y0_def OCPP_TransactionEventResponse_Cb_def Let_def set_event_fields EVSE_OCPP_SetEvent_def
        split: option.split)
  define j1 where "j1 = EVSE_J1772_Loop_EVSE (e1\<lparr>auth_response := (False, False)\<rparr>) (cp_j1772 (sys_cp y))"
  note a = arrival_state[of "cp_j1772 (sys_cp y)" "e1\<lparr>auth_response := (False, False)\<rparr>", folded j1_def]
  have j1: "current_state j1 = STATE_B" "auth_needed j1" "current_pwm j1 = PWM100_MAX_VALUE"
    using a(1-3) assms(3,6) by simp_all
  have n0: "\<not> asks_for_response e1 (sys_cp y0)" using assms(3) o0(5) by (simp add: asks_for_response_def)
  obtain y1 where y1: "charge_turn e1 u1 l y0 = Some y1" "sys_cp y1 = (sys_cp y)\<lparr>cp_stop := False, cp_j1772 := j1\<rparr>"
    "ocpp_sem (sys_ocpp y1)" "is_EV_authorized (sys_ocpp y1)" "ocpp_is_init (sys_ocpp y1)"
    "ocpp_calls (sys_ocpp y1) = ocpp_calls (sys_ocpp y)"
    using charge_turn_quiet[of y0 e1 u1 l] n0 assms(1,2) o0 by (simp add: j1_def)
  have asks: "asks_for_response e2 (sys_cp y1)"
    using j1 assms(7) by (simp add: asks_for_response_def y1(2) EVSE_J1772_GetState_def)
  define j2 where "j2 = EVSE_J1772_Loop_EVSE (e2\<lparr>auth_response := (True, True)\<rparr>) j1"
  obtain y2 where y2: "charge_turn e2 u2 l y1 = Some y2" "sys_cp y2 = (sys_cp y1)\<lparr>cp_stop := False, cp_j1772 := j2\<rparr>"
    "ocpp_calls (sys_ocpp y2) = ocpp_calls (sys_ocpp y)"
    using charge_turn_answered[of y1 e2 u2 l] asks assms(2) y1 by (simp add: j2_def)
  define j3 where "j3 = EVSE_J1772_Loop_EVSE (e3\<lparr>auth_response := (False, False)\<rparr>) j2"
  have run: "current_state j2 = STATE_B2" "isCharging j3" "\<not> relay_open j3"
    using authorized_vehicle_run[of j1 "e2\<lparr>auth_response := (True, True)\<rparr>" "e3\<lparr>auth_response := (False, False)\<rparr>"] j1 assms(7,8)
    by (simp_all add: j2_def j3_def Let_def)
  have "\<not> asks_for_response e3 (sys_cp y2)" using run(1) by (simp add: asks_for_response_def y2(2))
  then obtain y3 where y3: "charge_turn e3 u3 l y2 = Some y3" "cp_j1772 (sys_cp y3) = j3"
    "ocpp_calls (sys_ocpp y3) = ocpp_calls (sys_ocpp y)"
    using charge_turn_quiet[of y2 e3 u3 l] assms(2) y1(2) y2 by (simp add: j3_def)
  then show ?thesis using m y1(1) y2(1) run(2,3) by blast
qed

definition free_system :: evse_system where
  "free_system = \<lparr>sys_cp = sample_cprot\<lparr>cp_stop := False, cp_j1772 := sample_run [ControlPilot_StateA]\<rparr>,
     sys_ocpp = sample_ocpp, sys_accepted = False\<rparr>"

lemma free_system_fields:
  "\<not> cp_stop (sys_cp free_system)" "cp_events (sys_cp free_system) = 0" "current_state (cp_j1772 (sys_cp free_system)) = STATE_A"
  "sys_ocpp free_system = sample_ocpp"
proof -
  have "current_state (sample_run [ControlPilot_StateA]) = STATE_A" by code_simp
  then show "current_state (cp_j1772 (sys_cp free_system)) = STATE_A" by (simp add: free_system_def)
qed (simp_all add: free_system_def sample_cprot_init)

lemma sample_env_cp [simp]: "cp_reading (sample_env cp) = cp"
  by (simp add: sample_env_def)

theorem late_answer_authorizes_next_vehicle_witness:
  "\<exists>y :: evse_system. isCharging (cp_j1772 (sys_cp y)) \<and> ocpp_calls (sys_ocpp y) = ocpp_calls sample_ocpp"
proof -
  let ?r = "\<lparr>response_totalCost = None, idTokenInfo = Some Auth_Accepted\<rparr> :: TransactionEventResponse"
  have "ocpp_is_init (sys_ocpp free_system)" by (simp add: free_system_fields(4) sample_ocpp_fields)
  moreover have "idTokenInfo ?r = Some Auth_Accepted" by simp
  ultimately have "\<exists>y0 y1 y2 y3. message_turn (Transaction_response \<lparr>eventType = Event_Updated, triggerReason = Trigger_Authorized\<rparr> ?r)
        free_system = Some y0 \<and>
      charge_turn (sample_env ControlPilot_StateB) 0 True y0 = Some y1 \<and>
      charge_turn (sample_env ControlPilot_StateB) 0 True y1 = Some y2 \<and>
      charge_turn (sample_env ControlPilot_StateC) 0 True y2 = Some y3 \<and> \<not> relay_open (cp_j1772 (sys_cp y3)) \<and>
      isCharging (cp_j1772 (sys_cp y3)) \<and> ocpp_calls (sys_ocpp y3) = ocpp_calls (sys_ocpp free_system)"
    by (rule late_answer_authorizes_next_vehicle[OF free_system_fields(1-3) _ _ sample_env_cp sample_env_cp sample_env_cp])
  then show ?thesis unfolding free_system_fields(4) by (elim exE conjE) (rule exI, rule conjI, assumption, assumption)
qed

section \<open>A vehicle arrives\<close>

lemma new_session:
  assumes "transactionHandler s = None"
  shows "\<exists>s' sid mv. on_ev_connected e s = Inr s' \<and> transactionHandler s' \<noteq> None \<and> EV_plugged_in s' \<and>
    session_started s' = session_started s \<and>
    ocpp_calls s' = ocpp_calls s @ [On_transaction_started 1 1 sid (time_now e) Trigger_CablePluggedIn mv ChargingState_EVConnected,
                                    On_session_started 1 1]"
proof -
  obtain h0 where h0: "new_TransactionHandler 1 ocpp_start_points ocpp_stop_points = Inr h0"
    by (auto simp: new_TransactionHandler_def ocpp_start_points_def ocpp_stop_points_def)
  have "(1::int) \<le> int (length (tx_start_stop_conditions h0))" using h0 by (auto simp: new_handler)
  then show ?thesis using assms new_handler_abs[OF h0, of 1]
    by (simp add: on_ev_connected_def Let_def h0 add_abs submit_abs phase_of_def new_TransactionData_def effect_waiting
        process_tx_event_effect_def get_abs write_abs with_handler_def)
qed

lemma arrival_events:
  assumes "and x 0xFFFFFF = (0::u32)"
  shows "and (or (or (or x 2) 4) 0x20) 0xFFFFFF = 0x26"
  using assms by (simp add: bit.conj_disj_distrib2)

lemma deliver_other: "\<forall>ev. OCPP_SetEvent ev \<notin> set cs \<Longrightarrow> deliver_events cs s = s"
  by (induction cs s rule: deliver_events.induct) auto

text \<open>
  A vehicle that arrives at a connected, free charger is announced to the CSMS before anything else
  happens: the pass of the state machine that sees it waits for the authorization, and the next pass of
  the OCPP task starts its transaction, then its session, and asks for its authorization, in that order
  and once each, and notes the time of the request.
\<close>

theorem arrival_reaches_the_CSMS:
  assumes "\<not> cp_stop (sys_cp y)" "cp_events (sys_cp y) = 0" "current_state (cp_j1772 (sys_cp y)) = STATE_A"
    and "cp_reading e1 = ControlPilot_StateB"
    and "ocpp_reachable (sys_ocpp y)" "s_ocppConnectionState (sys_ocpp y) = EVSE_Ocpp_Connected"
    and "\<not> ocpp_task_left_loop (sys_ocpp y)" "and (ocpp_event_bits (sys_ocpp y)) 0xFFFFFF = 0" "transactionHandler (sys_ocpp y) = None"
  shows "\<exists>y1 y2 sid mv. charge_turn e1 u l y = Some y1 \<and> auth_needed (cp_j1772 (sys_cp y1)) \<and>
    current_state (cp_j1772 (sys_cp y1)) = STATE_B \<and> ocpp_turn e y1 = Some y2 \<and>
    ocpp_calls (sys_ocpp y2) = ocpp_calls (sys_ocpp y) @
      [On_transaction_started 1 1 sid (time_now e) Trigger_CablePluggedIn mv ChargingState_EVConnected,
       On_session_started 1 1, On_authorized 1 1 (the prvEVSE_OCPP_GetLocalAuthorizationToken)] \<and>
    last_auth_time (sys_ocpp y2) = unix_time e"
proof -
  define j where "j = EVSE_J1772_Loop_EVSE (e1\<lparr>auth_response := (False, False)\<rparr>) (cp_j1772 (sys_cp y))"
  note a = arrival_state[of "cp_j1772 (sys_cp y)" "e1\<lparr>auth_response := (False, False)\<rparr>", folded j_def]
  obtain b where b: "drop (length (calls (cp_j1772 (sys_cp y)))) (calls j) =
      [OCPP_SetEvent EV_CONNECTED_EVENT, OCPP_SetEvent EV_AUTH_NEEDED_EVENT, OCPP_SetEvent EVSE_CHARGING_STOPPED_EVENT,
       Set_contactor_state True] @ b" "\<forall>ev. OCPP_SetEvent ev \<notin> set b"
    using a(4) assms(3,4) by auto
  have init: "ocpp_is_init (sys_ocpp y)" using assms(5) by (rule ocpp_reachable_init)
  define s where "s = (sys_ocpp y)\<lparr>ocpp_event_bits := or (or (or (ocpp_event_bits (sys_ocpp y)) 2) 4) 0x20\<rparr>"
  have "deliver_events (drop (length (calls (cp_j1772 (sys_cp y)))) (calls j)) (sys_ocpp y) = s"
    using init by (simp add: b deliver_other s_def EVSE_OCPP_SetEvent_def)
  moreover have "\<not> asks_for_response e1 (sys_cp y)" using assms(3) by (simp add: asks_for_response_def)
  ultimately obtain y1 where y1: "charge_turn e1 u l y = Some y1" "cp_j1772 (sys_cp y1) = j" "sys_ocpp y1 = s"
    using charge_turn_quiet[OF assms(1,2), of e1 u l] by (simp add: j_def)
  let ?t = "s\<lparr>ocpp_event_bits := and (ocpp_event_bits s) (not 0xFFFFFF)\<rparr>"
  have bits: "and (ocpp_event_bits s) 0xFFFFFF = 0x26" using arrival_events[OF assms(8)] by (simp add: s_def)
  have no: "session_started (sys_ocpp y) = False"
    using reachable_session_ok[OF assms(5)] assms(9) by (simp add: session_ok_def ocpp_inv_def)
  obtain s1 sid mv where s1: "on_ev_connected e ?t = Inr s1" "transactionHandler s1 \<noteq> None" "EV_plugged_in s1" "\<not> session_started s1"
    "ocpp_calls s1 = ocpp_calls (sys_ocpp y) @ [On_transaction_started 1 1 sid (time_now e) Trigger_CablePluggedIn mv ChargingState_EVConnected,
                                    On_session_started 1 1]"
    using new_session[of ?t e] no assms(9) by (auto simp: s_def)
  define s2 where "s2 = (ocpp_do (On_authorized 1 1 (the prvEVSE_OCPP_GetLocalAuthorizationToken)) s1)\<lparr>last_auth_time := unix_time e\<rparr>"
  have s2: "on_auth_needed e s1 = Inr s2" "on_charging_stopped e s2 = Inr s2"
    using s1 by (auto simp: on_auth_needed_def prvEVSE_OCPP_GetLocalAuthorizationToken_def s2_def on_charging_stopped_def)
  have "ocpp_pass e s = connected_pass e 0x26 ?t"
    using pass_cases(1)[of s e] bits assms(6,7) by (simp add: s_def)
  also have "\<dots> = Inr s2"
    using s1(1) s2 by (simp add: connected_pass_def when_event_def has_event_def)
  finally have "ocpp_turn e y1 = Some (y1\<lparr>sys_ocpp := s2, sys_cp := protocol_commands (drop (length (ocpp_calls s)) (ocpp_calls s2)) (sys_cp y1)\<rparr>)"
    by (simp add: ocpp_turn_def y1(3))
  moreover have "auth_needed j" "current_state j = STATE_B" using a(1,2) assms(3,4) by simp_all
  ultimately show ?thesis using y1 s1(5) by (auto simp: s2_def)
qed

theorem arrival_reaches_the_CSMS_witness:
  "\<exists>y1 y2. charge_turn (sample_env ControlPilot_StateB) 0 True free_system = Some y1 \<and> ocpp_turn sample_ocpp_env y1 = Some y2 \<and>
     last_auth_time (sys_ocpp y2) = 1700000000"
  using arrival_reaches_the_CSMS[OF free_system_fields(1-3), of "sample_env ControlPilot_StateB" 0 True sample_ocpp_env]
    sample_ocpp_reachable
  by (auto simp: free_system_fields(4) sample_ocpp_fields sample_env_def sample_ocpp_env_def)

end
