(* ===== verification/Component_States.thy ===== *)
theory Component_States
  imports EVSE_Prelude
begin

text \<open>
  The operational states of the charging station, its chargers (EVSEs) and their connectors, from
  \<open>ocpp/v2/component_state_manager.cpp\<close>, with the persistence of \<open>ocpp/v2/database_handler.cpp\<close>, which the
  firmware stubs out, and the connector of \<open>ocpp/v2/connector.cpp\<close>. The callbacks to the firmware and the
  notifications to the CSMS are values in a log; whether a notification can be sent is an argument.
  \<open>Vector_out_of_range\<close> is the undefined access \<open>operator[]\<close> makes beyond the end of a vector.
\<close>

datatype OperationalStatusEnum = Inoperative | Operative

datatype ConnectorStatusEnum =
    Status_Available | Status_Occupied | Status_Reserved | Status_Unavailable | Status_Faulted

record FullConnectorStatus =
  individual_operational_status :: OperationalStatusEnum
  faulted :: bool
  reserved :: bool
  occupied :: bool
  unavailable :: bool

definition to_connector_status :: "FullConnectorStatus \<Rightarrow> ConnectorStatusEnum" where
  "to_connector_status f =
     (if faulted f then Status_Faulted
      else if unavailable f then Status_Unavailable
      else if occupied f then Status_Occupied
      else if reserved f then Status_Reserved
      else Status_Available)"

datatype csm_error = EvseOutOfRange int | ConnectorOutOfRange int int | Structure_not_counting | Vector_out_of_range

type_synonym 'a csm_result = "csm_error + 'a"

fun csm_bind :: "'a csm_result \<Rightarrow> ('a \<Rightarrow> 'b csm_result) \<Rightarrow> 'b csm_result" where
  "csm_bind (Inl e) f = Inl e"
| "csm_bind (Inr x) f = f x"

fun for_each :: "(int \<Rightarrow> 's \<Rightarrow> 's csm_result) \<Rightarrow> int list \<Rightarrow> 's \<Rightarrow> 's csm_result" where
  "for_each f [] s = Inr s"
| "for_each f (i # is) s = csm_bind (f i s) (for_each f is)"

datatype csm_call =
    Cs_changed OperationalStatusEnum
  | Evse_changed int OperationalStatusEnum
  | Connector_changed int int OperationalStatusEnum
  | Status_notification int int ConnectorStatusEnum bool bool

text \<open>The last two members of a notification: whether a message triggered it, and whether it was sent.\<close>

record component_states =
  cs_individual_status :: OperationalStatusEnum
  individual_statuses :: "(OperationalStatusEnum \<times> FullConnectorStatus list) list"
  last_cs_effective_status :: OperationalStatusEnum
  last_effective_statuses :: "(OperationalStatusEnum \<times> OperationalStatusEnum list) list"
  last_connector_reported_statuses :: "ConnectorStatusEnum list list"
  cs_callback :: bool
  evse_callback :: bool
  connector_callback :: bool
  csm_calls :: "csm_call list"

definition csm_do :: "csm_call \<Rightarrow> component_states \<Rightarrow> component_states" where
  "csm_do c s = s\<lparr>csm_calls := csm_calls s @ [c]\<rparr>"

definition vec_at :: "'a list \<Rightarrow> int \<Rightarrow> 'a csm_result" where
  "vec_at xs i = (if 0 \<le> i \<and> i < int (length xs) then Inr (xs ! nat i) else Inl Vector_out_of_range)"

section \<open>Sizes, checks and references\<close>

definition num_evses :: "component_states \<Rightarrow> int" where
  "num_evses s = int (length (individual_statuses s))"

definition check_evse_id :: "int \<Rightarrow> component_states \<Rightarrow> unit csm_result" where
  "check_evse_id evse_id s = (if evse_id \<le> 0 \<or> num_evses s < evse_id then Inl (EvseOutOfRange evse_id) else Inr ())"

definition num_connectors :: "int \<Rightarrow> component_states \<Rightarrow> int csm_result" where
  "num_connectors evse_id s =
     csm_bind (check_evse_id evse_id s) (\<lambda>_.
     csm_bind (vec_at (individual_statuses s) (evse_id - 1)) (\<lambda>(_, fs). Inr (int (length fs))))"

definition check_evse_and_connector_id :: "int \<Rightarrow> int \<Rightarrow> component_states \<Rightarrow> unit csm_result" where
  "check_evse_and_connector_id evse_id connector s =
     csm_bind (check_evse_id evse_id s) (\<lambda>_.
     csm_bind (num_connectors evse_id s) (\<lambda>n.
     if connector \<le> 0 \<or> n < connector then Inl (ConnectorOutOfRange connector evse_id) else Inr ()))"

text \<open>A function of the code that returns a reference is a pair of functions here, one reads and one writes.\<close>

definition individual_evse_status :: "int \<Rightarrow> component_states \<Rightarrow> OperationalStatusEnum csm_result" where
  "individual_evse_status evse_id s =
     csm_bind (check_evse_id evse_id s) (\<lambda>_.
     csm_bind (vec_at (individual_statuses s) (evse_id - 1)) (\<lambda>(st, _). Inr st))"

definition write_evse_status :: "int \<Rightarrow> OperationalStatusEnum \<Rightarrow> component_states \<Rightarrow> component_states csm_result" where
  "write_evse_status evse_id v s =
     csm_bind (check_evse_id evse_id s) (\<lambda>_.
     csm_bind (vec_at (individual_statuses s) (evse_id - 1)) (\<lambda>(_, fs).
     Inr (s\<lparr>individual_statuses := (individual_statuses s)[nat (evse_id - 1) := (v, fs)]\<rparr>)))"

definition individual_connector_status :: "int \<Rightarrow> int \<Rightarrow> component_states \<Rightarrow> FullConnectorStatus csm_result" where
  "individual_connector_status evse_id connector s =
     csm_bind (check_evse_and_connector_id evse_id connector s) (\<lambda>_.
     csm_bind (vec_at (individual_statuses s) (evse_id - 1)) (\<lambda>(_, fs). vec_at fs (connector - 1)))"

definition write_connector_status ::
    "int \<Rightarrow> int \<Rightarrow> (FullConnectorStatus \<Rightarrow> FullConnectorStatus) \<Rightarrow> component_states \<Rightarrow> component_states csm_result" where
  "write_connector_status evse_id connector u s =
     csm_bind (check_evse_and_connector_id evse_id connector s) (\<lambda>_.
     csm_bind (vec_at (individual_statuses s) (evse_id - 1)) (\<lambda>(st, fs).
     csm_bind (vec_at fs (connector - 1)) (\<lambda>f.
     Inr (s\<lparr>individual_statuses := (individual_statuses s)[nat (evse_id - 1) := (st, fs[nat (connector - 1) := u f])]\<rparr>))))"

definition last_evse_effective_status :: "int \<Rightarrow> component_states \<Rightarrow> OperationalStatusEnum csm_result" where
  "last_evse_effective_status evse_id s =
     csm_bind (check_evse_id evse_id s) (\<lambda>_.
     csm_bind (vec_at (last_effective_statuses s) (evse_id - 1)) (\<lambda>(st, _). Inr st))"

definition write_last_evse :: "int \<Rightarrow> OperationalStatusEnum \<Rightarrow> component_states \<Rightarrow> component_states csm_result" where
  "write_last_evse evse_id v s =
     csm_bind (check_evse_id evse_id s) (\<lambda>_.
     csm_bind (vec_at (last_effective_statuses s) (evse_id - 1)) (\<lambda>(_, cs).
     Inr (s\<lparr>last_effective_statuses := (last_effective_statuses s)[nat (evse_id - 1) := (v, cs)]\<rparr>)))"

definition last_connector_effective_status :: "int \<Rightarrow> int \<Rightarrow> component_states \<Rightarrow> OperationalStatusEnum csm_result" where
  "last_connector_effective_status evse_id connector s =
     csm_bind (check_evse_and_connector_id evse_id connector s) (\<lambda>_.
     csm_bind (vec_at (last_effective_statuses s) (evse_id - 1)) (\<lambda>(_, cs). vec_at cs (connector - 1)))"

definition write_last_connector ::
    "int \<Rightarrow> int \<Rightarrow> OperationalStatusEnum \<Rightarrow> component_states \<Rightarrow> component_states csm_result" where
  "write_last_connector evse_id connector v s =
     csm_bind (check_evse_and_connector_id evse_id connector s) (\<lambda>_.
     csm_bind (vec_at (last_effective_statuses s) (evse_id - 1)) (\<lambda>(st, cs).
     csm_bind (vec_at cs (connector - 1)) (\<lambda>_.
     Inr (s\<lparr>last_effective_statuses := (last_effective_statuses s)[nat (evse_id - 1) := (st, cs[nat (connector - 1) := v])]\<rparr>))))"

definition last_connector_reported_status :: "int \<Rightarrow> int \<Rightarrow> component_states \<Rightarrow> ConnectorStatusEnum csm_result" where
  "last_connector_reported_status evse_id connector s =
     csm_bind (check_evse_and_connector_id evse_id connector s) (\<lambda>_.
     csm_bind (vec_at (last_connector_reported_statuses s) (evse_id - 1)) (\<lambda>cs. vec_at cs (connector - 1)))"

definition write_reported_status ::
    "int \<Rightarrow> int \<Rightarrow> ConnectorStatusEnum \<Rightarrow> component_states \<Rightarrow> component_states csm_result" where
  "write_reported_status evse_id connector v s =
     csm_bind (check_evse_and_connector_id evse_id connector s) (\<lambda>_.
     csm_bind (vec_at (last_connector_reported_statuses s) (evse_id - 1)) (\<lambda>cs.
     csm_bind (vec_at cs (connector - 1)) (\<lambda>_.
     Inr (s\<lparr>last_connector_reported_statuses :=
              (last_connector_reported_statuses s)[nat (evse_id - 1) := cs[nat (connector - 1) := v]]\<rparr>))))"

section \<open>Individual and effective status\<close>

definition get_cs_individual_operational_status :: "component_states \<Rightarrow> OperationalStatusEnum" where
  "get_cs_individual_operational_status s = cs_individual_status s"

definition get_evse_individual_operational_status :: "int \<Rightarrow> component_states \<Rightarrow> OperationalStatusEnum csm_result" where
  "get_evse_individual_operational_status evse_id s = individual_evse_status evse_id s"

definition get_connector_individual_operational_status ::
    "int \<Rightarrow> int \<Rightarrow> component_states \<Rightarrow> OperationalStatusEnum csm_result" where
  "get_connector_individual_operational_status evse_id connector s =
     csm_bind (individual_connector_status evse_id connector s) (\<lambda>f. Inr (individual_operational_status f))"

definition get_evse_effective_operational_status :: "int \<Rightarrow> component_states \<Rightarrow> OperationalStatusEnum csm_result" where
  "get_evse_effective_operational_status evse_id s =
     csm_bind (check_evse_id evse_id s) (\<lambda>_.
     if cs_individual_status s = Inoperative then Inr Inoperative else individual_evse_status evse_id s)"

definition get_connector_effective_status :: "int \<Rightarrow> int \<Rightarrow> component_states \<Rightarrow> ConnectorStatusEnum csm_result" where
  "get_connector_effective_status evse_id connector s =
     csm_bind (check_evse_and_connector_id evse_id connector s) (\<lambda>_.
     csm_bind (get_evse_effective_operational_status evse_id s) (\<lambda>st.
     if st = Inoperative then Inr Status_Unavailable
     else csm_bind (individual_connector_status evse_id connector s) (\<lambda>f. Inr (to_connector_status f))))"

definition get_connector_effective_operational_status ::
    "int \<Rightarrow> int \<Rightarrow> component_states \<Rightarrow> OperationalStatusEnum csm_result" where
  "get_connector_effective_operational_status evse_id connector s =
     csm_bind (get_evse_effective_operational_status evse_id s) (\<lambda>st.
     if st = Inoperative then Inr Inoperative
     else csm_bind (individual_connector_status evse_id connector s) (\<lambda>f. Inr (individual_operational_status f)))"

section \<open>Callbacks of changes\<close>

definition trigger_callbacks_connector ::
    "bool \<Rightarrow> int \<Rightarrow> int \<Rightarrow> component_states \<Rightarrow> component_states csm_result" where
  "trigger_callbacks_connector only_if_state_changed evse_id connector s =
     csm_bind (get_connector_effective_operational_status evse_id connector s) (\<lambda>st.
     csm_bind (last_connector_effective_status evse_id connector s) (\<lambda>last_st.
     if \<not> only_if_state_changed \<or> last_st \<noteq> st
     then write_last_connector evse_id connector st
            (if connector_callback s then csm_do (Connector_changed evse_id connector st) s else s)
     else Inr s))"

definition trigger_callbacks_evse :: "bool \<Rightarrow> int \<Rightarrow> component_states \<Rightarrow> component_states csm_result" where
  "trigger_callbacks_evse only_if_state_changed evse_id s =
     csm_bind (get_evse_effective_operational_status evse_id s) (\<lambda>st.
     csm_bind (if only_if_state_changed then last_evse_effective_status evse_id s else Inr st) (\<lambda>last_st.
     if \<not> only_if_state_changed \<or> last_st \<noteq> st
     then csm_bind (write_last_evse evse_id st (if evse_callback s then csm_do (Evse_changed evse_id st) s else s)) (\<lambda>s.
          csm_bind (num_connectors evse_id s) (\<lambda>n.
          for_each (trigger_callbacks_connector only_if_state_changed evse_id) [1..n] s))
     else Inr s))"

definition trigger_callbacks_cs :: "bool \<Rightarrow> component_states \<Rightarrow> component_states csm_result" where
  "trigger_callbacks_cs only_if_state_changed s =
     (let st = get_cs_individual_operational_status s
      in if \<not> only_if_state_changed \<or> last_cs_effective_status s \<noteq> st
         then (let s = (if cs_callback s then csm_do (Cs_changed st) s else s)\<lparr>last_cs_effective_status := st\<rparr>
               in for_each (trigger_callbacks_evse only_if_state_changed) [1..num_evses s] s)
         else Inr s)"

definition trigger_all_effective_availability_changed_callbacks :: "component_states \<Rightarrow> component_states csm_result" where
  "trigger_all_effective_availability_changed_callbacks s = trigger_callbacks_cs False s"

section \<open>Persistence\<close>

text \<open>The database keeps nothing: what is inserted is dropped, what is read is always Operative.\<close>

definition insert_cs_availability :: "OperationalStatusEnum \<Rightarrow> bool \<Rightarrow> component_states \<Rightarrow> component_states" where
  "insert_cs_availability st replace s = s"

definition get_cs_availability :: OperationalStatusEnum where
  "get_cs_availability = Operative"

definition insert_evse_availability :: "int \<Rightarrow> OperationalStatusEnum \<Rightarrow> bool \<Rightarrow> component_states \<Rightarrow> component_states" where
  "insert_evse_availability evse_id st replace s = s"

definition get_evse_availability :: "int \<Rightarrow> OperationalStatusEnum" where
  "get_evse_availability evse_id = Operative"

definition insert_connector_availability ::
    "int \<Rightarrow> int \<Rightarrow> OperationalStatusEnum \<Rightarrow> bool \<Rightarrow> component_states \<Rightarrow> component_states" where
  "insert_connector_availability evse_id connector st replace s = s"

definition get_connector_availability :: "int \<Rightarrow> int \<Rightarrow> OperationalStatusEnum" where
  "get_connector_availability evse_id connector = Operative"

definition get_cs_persisted_operational_status :: "component_states \<Rightarrow> OperationalStatusEnum" where
  "get_cs_persisted_operational_status s = get_cs_availability"

definition get_evse_persisted_operational_status :: "int \<Rightarrow> component_states \<Rightarrow> OperationalStatusEnum csm_result" where
  "get_evse_persisted_operational_status evse_id s =
     csm_bind (check_evse_id evse_id s) (\<lambda>_. Inr (get_evse_availability evse_id))"

definition get_connector_persisted_operational_status ::
    "int \<Rightarrow> int \<Rightarrow> component_states \<Rightarrow> OperationalStatusEnum csm_result" where
  "get_connector_persisted_operational_status evse_id connector s =
     csm_bind (check_evse_and_connector_id evse_id connector s) (\<lambda>_. Inr (get_connector_availability evse_id connector))"

section \<open>Changing the operational status\<close>

definition set_cs_individual_operational_status ::
    "OperationalStatusEnum \<Rightarrow> bool \<Rightarrow> component_states \<Rightarrow> component_states csm_result" where
  "set_cs_individual_operational_status new_status persist s =
     (let s = s\<lparr>cs_individual_status := new_status\<rparr>;
          s = (if persist then insert_cs_availability new_status True s else s)
      in trigger_callbacks_cs True s)"

definition set_evse_individual_operational_status ::
    "int \<Rightarrow> OperationalStatusEnum \<Rightarrow> bool \<Rightarrow> component_states \<Rightarrow> component_states csm_result" where
  "set_evse_individual_operational_status evse_id new_status persist s =
     csm_bind (write_evse_status evse_id new_status s) (\<lambda>s.
     let s = (if persist
              then insert_evse_availability evse_id new_status True (insert_evse_availability evse_id new_status True s)
              else s)
     in trigger_callbacks_evse True evse_id s)"

definition set_connector_individual_operational_status ::
    "int \<Rightarrow> int \<Rightarrow> OperationalStatusEnum \<Rightarrow> bool \<Rightarrow> component_states \<Rightarrow> component_states csm_result" where
  "set_connector_individual_operational_status evse_id connector new_status persist s =
     csm_bind (write_connector_status evse_id connector (\<lambda>f. f\<lparr>individual_operational_status := new_status\<rparr>) s) (\<lambda>s.
     let s = (if persist then insert_connector_availability evse_id connector new_status True s else s)
     in trigger_callbacks_connector True evse_id connector s)"

section \<open>Status notifications\<close>

text \<open>\<open>sends\<close> is what the callback that sends a notification answers for a connector.\<close>

definition send_status_notification_single_connector_internal ::
    "(int \<Rightarrow> int \<Rightarrow> bool) \<Rightarrow> bool \<Rightarrow> bool \<Rightarrow> int \<Rightarrow> int \<Rightarrow> component_states \<Rightarrow> component_states csm_result" where
  "send_status_notification_single_connector_internal sends only_if_changed triggered evse_id connector s =
     csm_bind (individual_connector_status evse_id connector s) (\<lambda>f.
     csm_bind (last_connector_reported_status evse_id connector s) (\<lambda>last_reported_status.
     let connector_status = to_connector_status f
     in if \<not> only_if_changed \<or> last_reported_status \<noteq> connector_status
        then (let sent = sends evse_id connector;
                  s = csm_do (Status_notification evse_id connector connector_status triggered sent) s
              in if sent then write_reported_status evse_id connector connector_status s else Inr s)
        else Inr s))"

definition send_for_all ::
    "(int \<Rightarrow> int \<Rightarrow> bool) \<Rightarrow> bool \<Rightarrow> component_states \<Rightarrow> component_states csm_result" where
  "send_for_all sends only_if_changed s =
     for_each (\<lambda>evse_id s. csm_bind (num_connectors evse_id s) (\<lambda>n.
        for_each (send_status_notification_single_connector_internal sends only_if_changed False evse_id) [1..n] s))
       [1..num_evses s] s"

definition send_status_notification_all_connectors ::
    "(int \<Rightarrow> int \<Rightarrow> bool) \<Rightarrow> component_states \<Rightarrow> component_states csm_result" where
  "send_status_notification_all_connectors sends s = send_for_all sends False s"

definition send_status_notification_changed_connectors ::
    "(int \<Rightarrow> int \<Rightarrow> bool) \<Rightarrow> component_states \<Rightarrow> component_states csm_result" where
  "send_status_notification_changed_connectors sends s = send_for_all sends True s"

definition send_status_notification_single_connector ::
    "(int \<Rightarrow> int \<Rightarrow> bool) \<Rightarrow> int \<Rightarrow> int \<Rightarrow> component_states \<Rightarrow> component_states csm_result" where
  "send_status_notification_single_connector sends evse_id connector s =
     send_status_notification_single_connector_internal sends False True evse_id connector s"

definition set_connector_occupied ::
    "(int \<Rightarrow> int \<Rightarrow> bool) \<Rightarrow> int \<Rightarrow> int \<Rightarrow> bool \<Rightarrow> component_states \<Rightarrow> component_states csm_result" where
  "set_connector_occupied sends evse_id connector is_occupied s =
     csm_bind (write_connector_status evse_id connector (\<lambda>f. f\<lparr>occupied := is_occupied\<rparr>) s) (\<lambda>s.
     csm_bind (individual_connector_status evse_id connector s) (\<lambda>f.
     if \<not> reserved f
     then send_status_notification_single_connector_internal sends True False evse_id connector s
     else Inr s))"

definition set_connector_reserved ::
    "(int \<Rightarrow> int \<Rightarrow> bool) \<Rightarrow> int \<Rightarrow> int \<Rightarrow> bool \<Rightarrow> component_states \<Rightarrow> component_states csm_result" where
  "set_connector_reserved sends evse_id connector is_reserved s =
     csm_bind (write_connector_status evse_id connector (\<lambda>f. f\<lparr>reserved := is_reserved\<rparr>) s) (\<lambda>s.
     send_status_notification_single_connector_internal sends True False evse_id connector s)"

definition set_connector_faulted ::
    "(int \<Rightarrow> int \<Rightarrow> bool) \<Rightarrow> int \<Rightarrow> int \<Rightarrow> bool \<Rightarrow> component_states \<Rightarrow> component_states csm_result" where
  "set_connector_faulted sends evse_id connector is_faulted s =
     csm_bind (write_connector_status evse_id connector (\<lambda>f. f\<lparr>faulted := is_faulted\<rparr>) s) (\<lambda>s.
     send_status_notification_single_connector_internal sends True False evse_id connector s)"

definition set_connector_unavailable ::
    "(int \<Rightarrow> int \<Rightarrow> bool) \<Rightarrow> int \<Rightarrow> int \<Rightarrow> bool \<Rightarrow> component_states \<Rightarrow> component_states csm_result" where
  "set_connector_unavailable sends evse_id connector is_unavailable s =
     csm_bind (write_connector_status evse_id connector (\<lambda>f. f\<lparr>unavailable := is_unavailable\<rparr>) s) (\<lambda>s.
     send_status_notification_single_connector_internal sends True False evse_id connector s)"

section \<open>Construction\<close>

text \<open>
  \<open>evse_connector_structure\<close> maps each charger to its number of connectors. In the members the constructor
  has not reached yet stand placeholders.
\<close>

definition initial_connector :: FullConnectorStatus where
  "initial_connector = \<lparr>individual_operational_status = Operative, faulted = False, reserved = False,
     occupied = False, unavailable = False\<rparr>"

fun read_evses :: "(int \<times> int) list \<Rightarrow> int list \<Rightarrow> (OperationalStatusEnum \<times> FullConnectorStatus list) list csm_result" where
  "read_evses m [] = Inr []"
| "read_evses m (evse_id # ids) =
     (case map_of m evse_id of
        None \<Rightarrow> Inl Structure_not_counting
      | Some n \<Rightarrow> csm_bind (read_evses m ids) (\<lambda>es. Inr ((Operative, replicate (nat n) initial_connector) # es)))"

definition read_all_states_from_database_or_set_defaults ::
    "(int \<times> int) list \<Rightarrow> component_states \<Rightarrow> component_states csm_result" where
  "read_all_states_from_database_or_set_defaults m s =
     csm_bind (read_evses m [1..int (length m)]) (\<lambda>es.
     Inr (s\<lparr>cs_individual_status := Operative, individual_statuses := individual_statuses s @ es\<rparr>))"

definition cache_connector ::
    "int \<Rightarrow> int \<Rightarrow> (ConnectorStatusEnum list \<times> OperationalStatusEnum list) \<Rightarrow> component_states \<Rightarrow>
       (ConnectorStatusEnum list \<times> OperationalStatusEnum list) csm_result" where
  "cache_connector evse_id connector acc s =
     csm_bind (individual_connector_status evse_id connector s) (\<lambda>f.
     csm_bind (get_connector_effective_operational_status evse_id connector s) (\<lambda>st.
     Inr (fst acc @ [to_connector_status f], snd acc @ [st])))"

definition cache_evse :: "int \<Rightarrow> component_states \<Rightarrow> component_states csm_result" where
  "cache_evse evse_id s =
     csm_bind (num_connectors evse_id s) (\<lambda>n.
     csm_bind (get_evse_effective_operational_status evse_id s) (\<lambda>evse_effective.
     csm_bind (for_each (\<lambda>c acc. cache_connector evse_id c acc s) [1..n] ([], [])) (\<lambda>(connector_statuses, connector_op_statuses).
     Inr (s\<lparr>last_effective_statuses := last_effective_statuses s @ [(evse_effective, connector_op_statuses)],
            last_connector_reported_statuses := last_connector_reported_statuses s @ [connector_statuses]\<rparr>))))"

definition initialize_reported_state_cache :: "component_states \<Rightarrow> component_states csm_result" where
  "initialize_reported_state_cache s =
     for_each cache_evse [1..num_evses s] (s\<lparr>last_cs_effective_status := get_cs_individual_operational_status s\<rparr>)"

definition new_ComponentStateManager :: "(int \<times> int) list \<Rightarrow> component_states csm_result" where
  "new_ComponentStateManager m =
     csm_bind (read_all_states_from_database_or_set_defaults m
       \<lparr>cs_individual_status = Operative, individual_statuses = [], last_cs_effective_status = Operative,
        last_effective_statuses = [], last_connector_reported_statuses = [], cs_callback = False,
        evse_callback = False, connector_callback = False, csm_calls = []\<rparr>) initialize_reported_state_cache"

definition set_cs_effective_availability_changed_callback :: "component_states \<Rightarrow> component_states" where
  "set_cs_effective_availability_changed_callback s = s\<lparr>cs_callback := True\<rparr>"

definition set_evse_effective_availability_changed_callback :: "component_states \<Rightarrow> component_states" where
  "set_evse_effective_availability_changed_callback s = s\<lparr>evse_callback := True\<rparr>"

definition set_connector_effective_availability_changed_callback :: "component_states \<Rightarrow> component_states" where
  "set_connector_effective_availability_changed_callback s = s\<lparr>connector_callback := True\<rparr>"

section \<open>Connectors\<close>

datatype ConnectorEvent =
    PlugIn | PlugOut | Reserve | ReservationCleared | Error_raised | ErrorCleared | Made_unavailable | UnavailableCleared

definition connector_submit_event ::
    "(int \<Rightarrow> int \<Rightarrow> bool) \<Rightarrow> int \<Rightarrow> int \<Rightarrow> ConnectorEvent \<Rightarrow> component_states \<Rightarrow> component_states csm_result" where
  "connector_submit_event sends evse_id connector event s =
     (case event of
        PlugIn \<Rightarrow> set_connector_occupied sends evse_id connector True s
      | PlugOut \<Rightarrow> set_connector_occupied sends evse_id connector False s
      | Reserve \<Rightarrow> set_connector_reserved sends evse_id connector True s
      | ReservationCleared \<Rightarrow> set_connector_reserved sends evse_id connector False s
      | Error_raised \<Rightarrow> set_connector_faulted sends evse_id connector True s
      | ErrorCleared \<Rightarrow> set_connector_faulted sends evse_id connector False s
      | Made_unavailable \<Rightarrow> set_connector_unavailable sends evse_id connector True s
      | UnavailableCleared \<Rightarrow> set_connector_unavailable sends evse_id connector False s)"

definition set_connector_operative_status ::
    "int \<Rightarrow> int \<Rightarrow> OperationalStatusEnum \<Rightarrow> bool \<Rightarrow> component_states \<Rightarrow> component_states csm_result" where
  "set_connector_operative_status evse_id connector new_status persist s =
     set_connector_individual_operational_status evse_id connector new_status persist s"

text \<open>The exceptions end here.\<close>

definition restore_connector_operative_status :: "int \<Rightarrow> int \<Rightarrow> component_states \<Rightarrow> component_states" where
  "restore_connector_operative_status evse_id connector s =
     (case csm_bind (get_connector_persisted_operational_status evse_id connector s) (\<lambda>persisted_status.
             set_connector_individual_operational_status evse_id connector persisted_status False s) of
        Inl _ \<Rightarrow> s
      | Inr s' \<Rightarrow> s')"

definition get_effective_operational_status :: "int \<Rightarrow> int \<Rightarrow> component_states \<Rightarrow> OperationalStatusEnum csm_result" where
  "get_effective_operational_status evse_id connector s = get_connector_effective_operational_status evse_id connector s"

definition get_effective_connector_status :: "int \<Rightarrow> int \<Rightarrow> component_states \<Rightarrow> ConnectorStatusEnum csm_result" where
  "get_effective_connector_status evse_id connector s = get_connector_effective_status evse_id connector s"

end
