(* ===== verification/Component_States_Cache.thy ===== *)
theory Component_States_Cache
  imports Component_States
begin

text \<open>
  The cache of the operational states that were reported to the firmware: every change of a status reports
  exactly the components whose effective status it changes, and leaves the cache equal to the effective states.
\<close>

section \<open>Components by their identifiers\<close>

definition evse_ok :: "component_states \<Rightarrow> int \<Rightarrow> bool" where
  "evse_ok s e \<longleftrightarrow> 1 \<le> e \<and> e \<le> num_evses s"

definition flags_row :: "component_states \<Rightarrow> int \<Rightarrow> FullConnectorStatus list" where
  "flags_row s e = snd (individual_statuses s ! nat (e - 1))"

definition conn_ok :: "component_states \<Rightarrow> int \<Rightarrow> int \<Rightarrow> bool" where
  "conn_ok s e c \<longleftrightarrow> evse_ok s e \<and> 1 \<le> c \<and> c \<le> int (length (flags_row s e))"

definition evse_st :: "component_states \<Rightarrow> int \<Rightarrow> OperationalStatusEnum" where
  "evse_st s e = fst (individual_statuses s ! nat (e - 1))"

definition conn_flags :: "component_states \<Rightarrow> int \<Rightarrow> int \<Rightarrow> FullConnectorStatus" where
  "conn_flags s e c = flags_row s e ! nat (c - 1)"

definition last_e :: "component_states \<Rightarrow> int \<Rightarrow> OperationalStatusEnum" where
  "last_e s e = fst (last_effective_statuses s ! nat (e - 1))"

definition last_c :: "component_states \<Rightarrow> int \<Rightarrow> int \<Rightarrow> OperationalStatusEnum" where
  "last_c s e c = snd (last_effective_statuses s ! nat (e - 1)) ! nat (c - 1)"

definition reported :: "component_states \<Rightarrow> int \<Rightarrow> int \<Rightarrow> ConnectorStatusEnum" where
  "reported s e c = last_connector_reported_statuses s ! nat (e - 1) ! nat (c - 1)"

definition eff_e :: "component_states \<Rightarrow> int \<Rightarrow> OperationalStatusEnum" where
  "eff_e s e = (if cs_individual_status s = Inoperative then Inoperative else evse_st s e)"

definition eff_c :: "component_states \<Rightarrow> int \<Rightarrow> int \<Rightarrow> OperationalStatusEnum" where
  "eff_c s e c = (if eff_e s e = Inoperative then Inoperative else individual_operational_status (conn_flags s e c))"

definition csm_wf :: "component_states \<Rightarrow> bool" where
  "csm_wf s \<longleftrightarrow> length (last_effective_statuses s) = length (individual_statuses s) \<and>
     length (last_connector_reported_statuses s) = length (individual_statuses s) \<and>
     (\<forall>i < length (individual_statuses s).
        length (snd (last_effective_statuses s ! i)) = length (snd (individual_statuses s ! i)) \<and>
        length (last_connector_reported_statuses s ! i) = length (snd (individual_statuses s ! i)))"

definition conn_error :: "component_states \<Rightarrow> int \<Rightarrow> int \<Rightarrow> csm_error" where
  "conn_error s e c = (if evse_ok s e then ConnectorOutOfRange c e else EvseOutOfRange e)"

lemma csm_bind_assoc [simp]: "csm_bind (csm_bind r f) g = csm_bind r (\<lambda>x. csm_bind (f x) g)"
  by (cases r) auto

lemma csm_bind_if [simp]: "csm_bind (if P then a else b) f = (if P then csm_bind a f else csm_bind b f)"
  by simp

lemma index_ok: "evse_ok s e \<Longrightarrow> nat (e - 1) < length (individual_statuses s)"
  by (auto simp: evse_ok_def num_evses_def nat_less_iff)

lemma vec_at_ok [simp]: "1 \<le> i \<Longrightarrow> i \<le> int (length xs) \<Longrightarrow> vec_at xs (i - 1) = Inr (xs ! nat (i - 1))"
  by (simp add: vec_at_def)

lemma row_lengths:
  assumes "csm_wf s" "evse_ok s e"
  shows "length (last_effective_statuses s) = length (individual_statuses s)"
    "length (last_connector_reported_statuses s) = length (individual_statuses s)"
    "length (snd (last_effective_statuses s ! nat (e - 1))) = length (flags_row s e)"
    "length (last_connector_reported_statuses s ! nat (e - 1)) = length (flags_row s e)"
  using assms index_ok[OF assms(2)] by (auto simp: csm_wf_def flags_row_def)

lemma check_evse: "check_evse_id e s = (if evse_ok s e then Inr () else Inl (EvseOutOfRange e))"
  by (auto simp: check_evse_id_def evse_ok_def)

lemma num_connectors_eq:
  "num_connectors e s = (if evse_ok s e then Inr (int (length (flags_row s e))) else Inl (EvseOutOfRange e))"
  by (auto simp: num_connectors_def check_evse flags_row_def evse_ok_def num_evses_def split: prod.split)

lemma check_conn: "check_evse_and_connector_id e c s = (if conn_ok s e c then Inr () else Inl (conn_error s e c))"
  by (auto simp: check_evse_and_connector_id_def check_evse num_connectors_eq conn_ok_def conn_error_def)

lemma get_evse: "individual_evse_status e s = (if evse_ok s e then Inr (evse_st s e) else Inl (EvseOutOfRange e))"
  by (auto simp: individual_evse_status_def check_evse evse_ok_def num_evses_def evse_st_def split: prod.split)

lemma get_conn:
  "individual_connector_status e c s = (if conn_ok s e c then Inr (conn_flags s e c) else Inl (conn_error s e c))"
proof (cases "conn_ok s e c")
  case True
  then have "vec_at (individual_statuses s) (e - 1) = Inr (individual_statuses s ! nat (e - 1))"
    by (simp add: conn_ok_def evse_ok_def num_evses_def)
  then show ?thesis using True
    by (auto simp: individual_connector_status_def check_conn conn_flags_def flags_row_def conn_ok_def split: prod.split)
qed (simp add: individual_connector_status_def check_conn)

lemma get_last_evse:
  "csm_wf s \<Longrightarrow> last_evse_effective_status e s = (if evse_ok s e then Inr (last_e s e) else Inl (EvseOutOfRange e))"
  by (auto simp: last_evse_effective_status_def check_evse csm_wf_def evse_ok_def num_evses_def last_e_def split: prod.split)

lemma get_last_conn:
  assumes "csm_wf s"
  shows "last_connector_effective_status e c s = (if conn_ok s e c then Inr (last_c s e c) else Inl (conn_error s e c))"
proof (cases "conn_ok s e c")
  case True
  then have e: "evse_ok s e" by (simp add: conn_ok_def)
  then have "vec_at (last_effective_statuses s) (e - 1) = Inr (last_effective_statuses s ! nat (e - 1))"
    using row_lengths(1)[OF assms e] by (simp add: evse_ok_def num_evses_def)
  moreover have "vec_at (snd (last_effective_statuses s ! nat (e - 1))) (c - 1) = Inr (last_c s e c)"
    using True row_lengths(3)[OF assms e] by (simp add: conn_ok_def last_c_def)
  ultimately show ?thesis using True by (auto simp: last_connector_effective_status_def check_conn split: prod.split)
qed (simp add: last_connector_effective_status_def check_conn)

lemma get_reported:
  assumes "csm_wf s"
  shows "last_connector_reported_status e c s = (if conn_ok s e c then Inr (reported s e c) else Inl (conn_error s e c))"
proof (cases "conn_ok s e c")
  case True
  then have e: "evse_ok s e" by (simp add: conn_ok_def)
  then have "vec_at (last_connector_reported_statuses s) (e - 1) = Inr (last_connector_reported_statuses s ! nat (e - 1))"
    using row_lengths(2)[OF assms e] by (simp add: evse_ok_def num_evses_def)
  moreover have "vec_at (last_connector_reported_statuses s ! nat (e - 1)) (c - 1) = Inr (reported s e c)"
    using True row_lengths(4)[OF assms e] by (simp add: conn_ok_def reported_def)
  ultimately show ?thesis using True by (simp add: last_connector_reported_status_def check_conn)
qed (simp add: last_connector_reported_status_def check_conn)

lemma get_eff_evse:
  "get_evse_effective_operational_status e s = (if evse_ok s e then Inr (eff_e s e) else Inl (EvseOutOfRange e))"
  by (simp add: get_evse_effective_operational_status_def check_evse get_evse eff_e_def)

lemma get_eff_conn:
  "conn_ok s e c \<Longrightarrow> get_connector_effective_operational_status e c s = Inr (eff_c s e c)"
  by (simp add: get_connector_effective_operational_status_def get_eff_evse get_conn eff_c_def conn_ok_def)

section \<open>Writing\<close>

text \<open>What a write of the cache of effective states leaves as it is.\<close>

definition same_core :: "component_states \<Rightarrow> component_states \<Rightarrow> bool" where
  "same_core s s' \<longleftrightarrow> individual_statuses s' = individual_statuses s \<and> cs_individual_status s' = cs_individual_status s \<and>
     last_connector_reported_statuses s' = last_connector_reported_statuses s \<and> cs_callback s' = cs_callback s \<and>
     evse_callback s' = evse_callback s \<and> connector_callback s' = connector_callback s \<and>
     last_cs_effective_status s' = last_cs_effective_status s"

lemma same_core_refl [simp]: "same_core s s"
  by (simp add: same_core_def)

lemma same_core_trans: "same_core s s' \<Longrightarrow> same_core s' s'' \<Longrightarrow> same_core s s''"
  by (simp add: same_core_def)

lemma same_coreD:
  assumes "same_core s s'"
  shows "num_evses s' = num_evses s" "evse_ok s' = evse_ok s" "flags_row s' = flags_row s" "conn_ok s' = conn_ok s"
    "evse_st s' = evse_st s" "conn_flags s' = conn_flags s" "reported s' = reported s" "eff_e s' = eff_e s" "eff_c s' = eff_c s"
    "evse_callback s' = evse_callback s" "connector_callback s' = connector_callback s"
  using assms by (auto simp: same_core_def num_evses_def evse_ok_def flags_row_def conn_ok_def evse_st_def
      conn_flags_def reported_def eff_e_def eff_c_def fun_eq_iff)

lemma do_fields [simp]:
  "same_core s (csm_do c s)" "csm_wf (csm_do c s) = csm_wf s" "last_e (csm_do c s) = last_e s" "last_c (csm_do c s) = last_c s"
  "csm_calls (csm_do c s) = csm_calls s @ [c]" "evse_ok (csm_do c s) = evse_ok s" "conn_ok (csm_do c s) = conn_ok s"
  "last_effective_statuses (csm_do c s) = last_effective_statuses s" "reported (csm_do c s) = reported s"
  "flags_row (csm_do c s) = flags_row s" "conn_flags (csm_do c s) = conn_flags s" "num_evses (csm_do c s) = num_evses s"
  by (auto simp: csm_do_def same_core_def csm_wf_def last_e_def last_c_def evse_ok_def num_evses_def conn_ok_def flags_row_def
      reported_def conn_flags_def fun_eq_iff)

lemma nat_pred_eq: "1 \<le> i \<Longrightarrow> 1 \<le> (j::int) \<Longrightarrow> nat (j - 1) = nat (i - 1) \<longleftrightarrow> j = i"
  by auto

lemma put_last_evse:
  assumes "csm_wf s" "evse_ok s e"
  shows "\<exists>s'. write_last_evse e v s = Inr s' \<and> same_core s s' \<and> csm_wf s' \<and> csm_calls s' = csm_calls s \<and>
    (\<forall>e'. evse_ok s e' \<longrightarrow> last_e s' e' = (if e' = e then v else last_e s e')) \<and>
    (\<forall>e' c'. evse_ok s e' \<longrightarrow> last_c s' e' c' = last_c s e' c')"
proof -
  have i: "nat (e - 1) < length (last_effective_statuses s)" using row_lengths(1)[OF assms] index_ok[OF assms(2)] by simp
  have v: "vec_at (last_effective_statuses s) (e - 1) = Inr (last_effective_statuses s ! nat (e - 1))"
    using assms(2) row_lengths(1)[OF assms] by (simp add: evse_ok_def num_evses_def)
  show ?thesis
    using assms v i row_lengths[OF assms]
    by (cases "last_effective_statuses s ! nat (e - 1)")
      (auto simp: write_last_evse_def check_evse same_core_def csm_wf_def nth_list_update last_e_def last_c_def evse_ok_def num_evses_def
        flags_row_def nat_pred_eq)
qed

lemma put_last_conn:
  assumes "csm_wf s" "conn_ok s e c"
  shows "\<exists>s'. write_last_connector e c v s = Inr s' \<and> same_core s s' \<and> csm_wf s' \<and> csm_calls s' = csm_calls s \<and>
    (\<forall>e'. evse_ok s e' \<longrightarrow> last_e s' e' = last_e s e') \<and>
    (\<forall>e' c'. conn_ok s e' c' \<longrightarrow> last_c s' e' c' = (if e' = e \<and> c' = c then v else last_c s e' c'))"
proof -
  have e: "evse_ok s e" using assms(2) by (simp add: conn_ok_def)
  note r = row_lengths[OF assms(1) e]
  have i: "nat (e - 1) < length (last_effective_statuses s)" using r index_ok[OF e] by simp
  have v: "vec_at (last_effective_statuses s) (e - 1) = Inr (last_effective_statuses s ! nat (e - 1))"
    using e r by (simp add: evse_ok_def num_evses_def)
  have c: "nat (c - 1) < length (snd (last_effective_statuses s ! nat (e - 1)))"
    "vec_at (snd (last_effective_statuses s ! nat (e - 1))) (c - 1) = Inr (last_c s e c)"
    using assms(2) r by (auto simp: conn_ok_def last_c_def nat_less_iff)
  show ?thesis
    using assms v i c r
    by (cases "last_effective_statuses s ! nat (e - 1)")
      (auto simp: write_last_connector_def check_conn same_core_def csm_wf_def nth_list_update last_e_def last_c_def evse_ok_def
        conn_ok_def num_evses_def flags_row_def nat_pred_eq)
qed

section \<open>The callbacks of one pass\<close>

definition conn_ids :: "component_states \<Rightarrow> int \<Rightarrow> int list" where
  "conn_ids s e = [1..int (length (flags_row s e))]"

definition conn_change :: "bool \<Rightarrow> component_states \<Rightarrow> int \<Rightarrow> int \<Rightarrow> csm_call list" where
  "conn_change only s e c =
     (if (\<not> only \<or> last_c s e c \<noteq> eff_c s e c) \<and> connector_callback s then [Connector_changed e c (eff_c s e c)] else [])"

lemma trigger_connector:
  assumes "csm_wf s" "conn_ok s e c"
  shows "\<exists>s'. trigger_callbacks_connector only e c s = Inr s' \<and> same_core s s' \<and> csm_wf s' \<and>
    csm_calls s' = csm_calls s @ conn_change only s e c \<and>
    (\<forall>e'. evse_ok s e' \<longrightarrow> last_e s' e' = last_e s e') \<and>
    (\<forall>e' c'. conn_ok s e' c' \<longrightarrow> last_c s' e' c' = (if e' = e \<and> c' = c then eff_c s e c else last_c s e' c'))"
proof (cases "\<not> only \<or> last_c s e c \<noteq> eff_c s e c")
  case True
  let ?s = "if connector_callback s then csm_do (Connector_changed e c (eff_c s e c)) s else s"
  have t: "trigger_callbacks_connector only e c s = write_last_connector e c (eff_c s e c) ?s"
    using True assms by (auto simp: trigger_callbacks_connector_def get_eff_conn get_last_conn)
  have s: "csm_wf ?s" "conn_ok ?s e c" "same_core s ?s" "csm_calls ?s = csm_calls s @ conn_change only s e c"
    "evse_ok ?s = evse_ok s" "conn_ok ?s = conn_ok s" "last_e ?s = last_e s" "last_c ?s = last_c s"
    using assms True by (auto simp: conn_change_def)
  show ?thesis
    unfolding t using put_last_conn[OF s(1,2), of "eff_c s e c"] s(3-8) by (auto intro: same_core_trans)
next
  case False
  then show ?thesis using assms by (auto simp: trigger_callbacks_connector_def get_eff_conn get_last_conn conn_change_def)
qed

lemma trigger_connectors:
  assumes "csm_wf s" "\<forall>c\<in>set cs. conn_ok s e c" "distinct cs"
  shows "\<exists>s'. for_each (trigger_callbacks_connector only e) cs s = Inr s' \<and> same_core s s' \<and> csm_wf s' \<and>
    csm_calls s' = csm_calls s @ concat (map (conn_change only s e) cs) \<and>
    (\<forall>e'. evse_ok s e' \<longrightarrow> last_e s' e' = last_e s e') \<and>
    (\<forall>e' c'. conn_ok s e' c' \<longrightarrow> last_c s' e' c' = (if e' = e \<and> c' \<in> set cs then eff_c s e c' else last_c s e' c'))"
  using assms
proof (induction cs arbitrary: s)
  case (Cons c cs)
  obtain s1 where s1: "trigger_callbacks_connector only e c s = Inr s1" "same_core s s1" "csm_wf s1"
    "csm_calls s1 = csm_calls s @ conn_change only s e c" "\<forall>e'. evse_ok s e' \<longrightarrow> last_e s1 e' = last_e s e'"
    "\<forall>e' c'. conn_ok s e' c' \<longrightarrow> last_c s1 e' c' = (if e' = e \<and> c' = c then eff_c s e c else last_c s e' c')"
    using trigger_connector[OF Cons.prems(1), of e c only] Cons.prems(2) by auto
  note d = same_coreD[OF s1(2)]
  have same: "conn_change only s1 e c' = conn_change only s e c'" if "c' \<in> set cs" for c'
    using that Cons.prems(2,3) s1(6) d by (auto simp: conn_change_def)
  obtain s2 where s2: "for_each (trigger_callbacks_connector only e) cs s1 = Inr s2" "same_core s1 s2" "csm_wf s2"
    "csm_calls s2 = csm_calls s1 @ concat (map (conn_change only s1 e) cs)"
    "\<forall>e'. evse_ok s1 e' \<longrightarrow> last_e s2 e' = last_e s1 e'"
    "\<forall>e' c'. conn_ok s1 e' c' \<longrightarrow> last_c s2 e' c' = (if e' = e \<and> c' \<in> set cs then eff_c s1 e c' else last_c s1 e' c')"
    using Cons.IH[OF s1(3)] Cons.prems(2,3) d by auto
  have "map (conn_change only s1 e) cs = map (conn_change only s e) cs" using same by simp
  then have "csm_calls s2 = csm_calls s @ concat (map (conn_change only s e) (c # cs))"
    using s1(4) s2(4) by (simp only: list.map concat.simps append_assoc)
  moreover have "\<forall>e' c'. conn_ok s e' c' \<longrightarrow>
      last_c s2 e' c' = (if e' = e \<and> c' \<in> set (c # cs) then eff_c s e c' else last_c s e' c')"
    using s1(6) s2(6) unfolding d by (simp only: list.set insert_iff) metis
  moreover have "\<forall>e'. evse_ok s e' \<longrightarrow> last_e s2 e' = last_e s e'" using s1(5) s2(5) unfolding d by simp
  ultimately show ?case using s1(1) s2(1,3) same_core_trans[OF s1(2) s2(2)] by (simp only: for_each.simps csm_bind.simps) blast
qed auto

definition evse_change :: "bool \<Rightarrow> component_states \<Rightarrow> int \<Rightarrow> csm_call list" where
  "evse_change only s e =
     (if \<not> only \<or> last_e s e \<noteq> eff_e s e
      then (if evse_callback s then [Evse_changed e (eff_e s e)] else []) @ concat (map (conn_change only s e) (conn_ids s e))
      else [])"

lemma conn_ids_ok: "evse_ok s e \<Longrightarrow> c \<in> set (conn_ids s e) \<longleftrightarrow> conn_ok s e c"
  by (auto simp: conn_ids_def conn_ok_def)

lemma distinct_conn_ids [simp]: "distinct (conn_ids s e)"
  by (simp add: conn_ids_def)

lemma trigger_evse:
  assumes "csm_wf s" "evse_ok s e"
  shows "\<exists>s'. trigger_callbacks_evse only e s = Inr s' \<and> same_core s s' \<and> csm_wf s' \<and>
    csm_calls s' = csm_calls s @ evse_change only s e \<and>
    (\<forall>e'. evse_ok s e' \<longrightarrow> last_e s' e' = (if e' = e then eff_e s e else last_e s e')) \<and>
    (\<forall>e' c'. conn_ok s e' c' \<longrightarrow>
       last_c s' e' c' = (if e' = e \<and> (\<not> only \<or> last_e s e \<noteq> eff_e s e) then eff_c s e c' else last_c s e' c'))"
proof (cases "\<not> only \<or> last_e s e \<noteq> eff_e s e")
  case True
  let ?s = "if evse_callback s then csm_do (Evse_changed e (eff_e s e)) s else s"
  have s: "csm_wf ?s" "evse_ok ?s e" "same_core s ?s"
    "csm_calls ?s = csm_calls s @ (if evse_callback s then [Evse_changed e (eff_e s e)] else [])"
    "evse_ok ?s = evse_ok s" "conn_ok ?s = conn_ok s" "last_e ?s = last_e s" "last_c ?s = last_c s"
    using assms by auto
  obtain s1 where s1: "write_last_evse e (eff_e s e) ?s = Inr s1" "same_core ?s s1" "csm_wf s1" "csm_calls s1 = csm_calls ?s"
    "\<forall>e'. evse_ok s e' \<longrightarrow> last_e s1 e' = (if e' = e then eff_e s e else last_e s e')"
    "\<forall>e' c'. evse_ok s e' \<longrightarrow> last_c s1 e' c' = last_c s e' c'"
    using put_last_evse[OF s(1,2), of "eff_e s e"] unfolding s(5-8) by blast
  have core: "same_core s s1" using s(3) s1(2) by (rule same_core_trans)
  note d = same_coreD[OF core]
  have same: "map (conn_change only s1 e) (conn_ids s e) = map (conn_change only s e) (conn_ids s e)"
    using s1(6) conn_ids_ok[OF assms(2)] assms(2) by (auto simp: conn_change_def d)
  obtain s2 where s2: "for_each (trigger_callbacks_connector only e) (conn_ids s e) s1 = Inr s2" "same_core s1 s2" "csm_wf s2"
    "csm_calls s2 = csm_calls s1 @ concat (map (conn_change only s1 e) (conn_ids s e))"
    "\<forall>e'. evse_ok s e' \<longrightarrow> last_e s2 e' = last_e s1 e'"
    "\<forall>e' c'. conn_ok s e' c' \<longrightarrow> last_c s2 e' c' = (if e' = e \<and> c' \<in> set (conn_ids s e) then eff_c s e c' else last_c s1 e' c')"
    using trigger_connectors[OF s1(3), of "conn_ids s e" e only] conn_ids_ok[OF assms(2)] unfolding d by auto
  have "trigger_callbacks_evse only e s = Inr s2"
    using True assms s1(1) s2(1)
    by (auto simp: trigger_callbacks_evse_def get_eff_evse get_last_evse num_connectors_eq d conn_ids_def)
  moreover have "csm_calls s2 = csm_calls s @ evse_change only s e"
    using True s2(4) s1(4) s(4) same by (simp add: evse_change_def)
  moreover have "\<forall>e' c'. conn_ok s e' c' \<longrightarrow> last_c s2 e' c' = (if e' = e then eff_c s e c' else last_c s e' c')"
    using s2(6) s1(6) conn_ids_ok[OF assms(2)] by (auto simp: conn_ok_def)
  moreover have "\<forall>e'. evse_ok s e' \<longrightarrow> last_e s2 e' = (if e' = e then eff_e s e else last_e s e')"
    using s1(5) s2(5) by simp
  ultimately show ?thesis using s2(3) same_core_trans[OF core s2(2)] True by (intro exI[of _ s2]) simp
next
  case False
  then show ?thesis using assms
    by (intro exI[of _ s]) (auto simp: trigger_callbacks_evse_def get_eff_evse get_last_evse evse_change_def)
qed

lemma trigger_evses:
  assumes "csm_wf s" "\<forall>e\<in>set es. evse_ok s e" "distinct es"
  shows "\<exists>s'. for_each (trigger_callbacks_evse only) es s = Inr s' \<and> same_core s s' \<and> csm_wf s' \<and>
    csm_calls s' = csm_calls s @ concat (map (evse_change only s) es) \<and>
    (\<forall>e'. evse_ok s e' \<longrightarrow> last_e s' e' = (if e' \<in> set es then eff_e s e' else last_e s e')) \<and>
    (\<forall>e' c'. conn_ok s e' c' \<longrightarrow> last_c s' e' c' =
       (if e' \<in> set es \<and> (\<not> only \<or> last_e s e' \<noteq> eff_e s e') then eff_c s e' c' else last_c s e' c'))"
  using assms
proof (induction es arbitrary: s)
  case (Cons e es)
  obtain s1 where s1: "trigger_callbacks_evse only e s = Inr s1" "same_core s s1" "csm_wf s1"
    "csm_calls s1 = csm_calls s @ evse_change only s e"
    "\<forall>e'. evse_ok s e' \<longrightarrow> last_e s1 e' = (if e' = e then eff_e s e else last_e s e')"
    "\<forall>e' c'. conn_ok s e' c' \<longrightarrow>
       last_c s1 e' c' = (if e' = e \<and> (\<not> only \<or> last_e s e \<noteq> eff_e s e) then eff_c s e c' else last_c s e' c')"
    using trigger_evse[OF Cons.prems(1), of e only] Cons.prems(2) by auto
  note d = same_coreD[OF s1(2)]
  have c: "conn_ids s1 = conn_ids s" by (simp add: conn_ids_def d fun_eq_iff)
  have same: "evse_change only s1 e' = evse_change only s e'" if "e' \<in> set es" for e'
  proof -
    have e': "evse_ok s e'" "e' \<noteq> e" using that Cons.prems(2,3) by auto
    have m: "map (conn_change only s1 e') (conn_ids s e') = map (conn_change only s e') (conn_ids s e')"
      using s1(6) e' conn_ids_ok[OF e'(1)] by (auto simp: conn_change_def d)
    have l: "last_e s1 e' = last_e s e'" using s1(5) e' by simp
    show ?thesis by (simp only: evse_change_def c d m l)
  qed
  obtain s2 where s2: "for_each (trigger_callbacks_evse only) es s1 = Inr s2" "same_core s1 s2" "csm_wf s2"
    "csm_calls s2 = csm_calls s1 @ concat (map (evse_change only s1) es)"
    "\<forall>e'. evse_ok s1 e' \<longrightarrow> last_e s2 e' = (if e' \<in> set es then eff_e s1 e' else last_e s1 e')"
    "\<forall>e' c'. conn_ok s1 e' c' \<longrightarrow> last_c s2 e' c' =
       (if e' \<in> set es \<and> (\<not> only \<or> last_e s1 e' \<noteq> eff_e s1 e') then eff_c s1 e' c' else last_c s1 e' c')"
    using Cons.IH[OF s1(3)] Cons.prems(2,3) d by auto
  have "map (evse_change only s1) es = map (evse_change only s) es" using same by simp
  then have "csm_calls s2 = csm_calls s @ concat (map (evse_change only s) (e # es))"
    using s1(4) s2(4) by (simp only: list.map concat.simps append_assoc)
  moreover have "\<forall>e'. evse_ok s e' \<longrightarrow> last_e s2 e' = (if e' \<in> set (e # es) then eff_e s e' else last_e s e')"
    using s1(5) s2(5) unfolding d by (simp only: list.set insert_iff) metis
  moreover have "\<forall>e' c'. conn_ok s e' c' \<longrightarrow> last_c s2 e' c' =
       (if e' \<in> set (e # es) \<and> (\<not> only \<or> last_e s e' \<noteq> eff_e s e') then eff_c s e' c' else last_c s e' c')"
    using s1(5,6) s2(6) Cons.prems(3) unfolding d
    by (auto simp: conn_ok_def)
  ultimately show ?case using s1(1) s2(1,3) same_core_trans[OF s1(2) s2(2)] by (simp only: for_each.simps csm_bind.simps) blast
qed auto

section \<open>Changes are reported exactly once\<close>

definition coherent :: "component_states \<Rightarrow> bool" where
  "coherent s \<longleftrightarrow> csm_wf s \<and> last_cs_effective_status s = cs_individual_status s \<and>
     (\<forall>e. evse_ok s e \<longrightarrow> last_e s e = eff_e s e) \<and> (\<forall>e c. conn_ok s e c \<longrightarrow> last_c s e c = eff_c s e c)"

text \<open>The components whose effective status differs between two states, the station first, in the order of their identifiers.\<close>

definition connector_changes :: "component_states \<Rightarrow> component_states \<Rightarrow> int \<Rightarrow> csm_call list" where
  "connector_changes s s' e =
     concat (map (\<lambda>c. if connector_callback s \<and> eff_c s' e c \<noteq> eff_c s e c then [Connector_changed e c (eff_c s' e c)] else [])
       (conn_ids s e))"

definition evse_changes :: "component_states \<Rightarrow> component_states \<Rightarrow> int \<Rightarrow> csm_call list" where
  "evse_changes s s' e =
     (if evse_callback s \<and> eff_e s' e \<noteq> eff_e s e then [Evse_changed e (eff_e s' e)] else []) @ connector_changes s s' e"

definition status_changes :: "component_states \<Rightarrow> component_states \<Rightarrow> csm_call list" where
  "status_changes s s' =
     (if cs_callback s \<and> cs_individual_status s' \<noteq> cs_individual_status s then [Cs_changed (cs_individual_status s')] else []) @
     concat (map (evse_changes s s') [1..num_evses s])"

definition reports_changes :: "component_states \<Rightarrow> component_states \<Rightarrow> bool" where
  "reports_changes s s' \<longleftrightarrow> coherent s' \<and> csm_calls s' = csm_calls s @ status_changes s s'"

text \<open>What the functions that change a status leave as it is.\<close>

definition same_rest :: "component_states \<Rightarrow> component_states \<Rightarrow> bool" where
  "same_rest s t \<longleftrightarrow> num_evses t = num_evses s \<and> evse_ok t = evse_ok s \<and> conn_ok t = conn_ok s \<and>
     (\<forall>e. evse_ok s e \<longrightarrow> conn_ids t e = conn_ids s e) \<and>
     cs_callback t = cs_callback s \<and> evse_callback t = evse_callback s \<and> connector_callback t = connector_callback s \<and>
     reported t = reported s"

lemma same_rest_refl [simp]: "same_rest s s"
  by (simp add: same_rest_def)

lemma same_rest_core:
  assumes "same_core s t"
  shows "same_rest s t"
  using assms by (simp add: same_rest_def conn_ids_def same_coreD[OF assms]) (simp add: same_core_def)

lemma same_rest_trans: "same_rest s t \<Longrightarrow> same_rest t u \<Longrightarrow> same_rest s u"
  by (simp add: same_rest_def)

lemma changes_core:
  assumes "same_core t s'"
  shows "connector_changes s s' = connector_changes s t" "evse_changes s s' = evse_changes s t"
    "status_changes s s' = status_changes s t"
proof -
  note d = same_coreD[OF assms]
  show c: "connector_changes s s' = connector_changes s t" by (rule ext) (simp add: connector_changes_def d cong: if_cong)
  then show e: "evse_changes s s' = evse_changes s t" by (intro ext) (simp add: evse_changes_def d cong: if_cong)
  then show "status_changes s s' = status_changes s t" using assms by (simp add: status_changes_def same_core_def)
qed

lemma no_connector_changes:
  assumes "evse_ok s e" "\<And>c. conn_ok s e c \<Longrightarrow> eff_c t e c = eff_c s e c"
  shows "connector_changes s t e = []"
  using assms conn_ids_ok[OF assms(1)] by (auto simp: connector_changes_def)

lemma no_evse_changes:
  assumes "evse_ok s e" "eff_e t e = eff_e s e" "\<And>c. conn_ok s e c \<Longrightarrow> eff_c t e c = eff_c s e c"
  shows "evse_changes s t e = []"
  using assms no_connector_changes[OF assms(1,3)] by (simp add: evse_changes_def)

lemma concat_single:
  assumes "distinct xs" "x \<in> set xs" "\<And>y. y \<in> set xs \<Longrightarrow> y \<noteq> x \<Longrightarrow> f y = []"
  shows "concat (map f xs) = f x"
  using assms
proof (induction xs)
  case (Cons y ys)
  then show ?case by (cases "x = y") (auto intro!: concat_eq_Nil_conv[THEN iffD2])
qed simp

lemma evse_ids: "e \<in> set [1..num_evses s] \<longleftrightarrow> evse_ok s e"
  by (auto simp: evse_ok_def)

lemma evse_change_eq:
  assumes "coherent s" "evse_ok s e" "same_rest s t" "last_e t = last_e s" "last_c t = last_c s"
    and "eff_e t e = eff_e s e \<Longrightarrow> \<forall>c. conn_ok s e c \<longrightarrow> eff_c t e c = eff_c s e c"
  shows "evse_change True t e = evse_changes s t e"
proof (cases "eff_e t e = eff_e s e")
  case True
  then have "last_e t e = eff_e t e" using assms(1,2,4) by (simp add: coherent_def)
  then show ?thesis using True assms(6) no_evse_changes[OF assms(2)] by (simp add: evse_change_def)
next
  case False
  have l: "last_e t e = eff_e s e" "\<And>c. conn_ok s e c \<Longrightarrow> last_c t e c = eff_c s e c"
    using assms(1,2,4,5) by (auto simp: coherent_def)
  have "map (conn_change True t e) (conn_ids s e) = map (\<lambda>c. if connector_callback s \<and> eff_c t e c \<noteq> eff_c s e c
      then [Connector_changed e c (eff_c t e c)] else []) (conn_ids s e)"
    using l(2) conn_ids_ok[OF assms(2)] assms(3) by (auto simp: conn_change_def same_rest_def)
  moreover have "conn_ids t e = conn_ids s e" "evse_callback t = evse_callback s" using assms(2,3) by (auto simp: same_rest_def)
  ultimately show ?thesis using False l(1)
    by (simp only: evse_change_def evse_changes_def connector_changes_def) (simp only: not_True_eq_False simp_thms if_True if_False, simp)
qed

section \<open>The three ways to change a status\<close>

lemma set_cs_reports:
  assumes "coherent s"
  shows "\<exists>s'. set_cs_individual_operational_status st p s = Inr s' \<and> reports_changes s s' \<and> same_rest s s' \<and>
    cs_individual_status s' = st \<and> individual_statuses s' = individual_statuses s"
proof (cases "st = cs_individual_status s")
  case True
  have "status_changes s s = []" by (auto simp: status_changes_def evse_changes_def connector_changes_def)
  then show ?thesis using True assms
    by (intro exI[of _ s]) (simp add: set_cs_individual_operational_status_def insert_cs_availability_def Let_def trigger_callbacks_cs_def
        coherent_def reports_changes_def get_cs_individual_operational_status_def)
next
  case False
  define t where "t = (if cs_callback s then csm_do (Cs_changed st) (s\<lparr>cs_individual_status := st\<rparr>) else s\<lparr>cs_individual_status := st\<rparr>)
    \<lparr>last_cs_effective_status := st\<rparr>"
  have t: "same_rest s t" "last_e t = last_e s" "last_c t = last_c s" "csm_wf t" "num_evses t = num_evses s"
    "conn_flags t = conn_flags s" "evse_ok t = evse_ok s" "conn_ok t = conn_ok s" "cs_individual_status t = st"
    "last_cs_effective_status t = st" "individual_statuses t = individual_statuses s" "reported t = reported s"
    using assms
    by (auto simp: t_def same_rest_def coherent_def csm_wf_def csm_do_def last_e_def last_c_def num_evses_def evse_ok_def conn_ok_def
        flags_row_def conn_flags_def conn_ids_def reported_def fun_eq_iff)
  have "cs_individual_status s \<noteq> st" using False by simp
  then have "set_cs_individual_operational_status st p s = for_each (trigger_callbacks_evse True) [1..num_evses t] t"
    using assms by (simp add: t_def set_cs_individual_operational_status_def insert_cs_availability_def Let_def trigger_callbacks_cs_def
        coherent_def get_cs_individual_operational_status_def)
  then have run: "set_cs_individual_operational_status st p s = for_each (trigger_callbacks_evse True) [1..num_evses s] t"
    unfolding t(5) .
  have eff: "evse_change True t e = evse_changes s t e" if "evse_ok s e" for e
    by (rule evse_change_eq[OF assms that t(1-3)]) (use t(6) in \<open>simp add: eff_c_def\<close>)
  then have "map (evse_change True t) [1..num_evses s] = map (evse_changes s t) [1..num_evses s]"
    using evse_ids[of _ s] by simp
  moreover obtain s' where s': "for_each (trigger_callbacks_evse True) [1..num_evses s] t = Inr s'" "same_core t s'" "csm_wf s'"
    "csm_calls s' = csm_calls t @ concat (map (evse_change True t) [1..num_evses s])"
    "\<forall>e. evse_ok s e \<longrightarrow> last_e s' e = eff_e t e"
    "\<forall>e c. conn_ok s e c \<longrightarrow> last_c s' e c = (if last_e s e \<noteq> eff_e t e then eff_c t e c else last_c s e c)"
    using trigger_evses[OF t(4), of "[1..num_evses s]" True] evse_ids[of _ s] unfolding t(2,3,7,8) by (auto simp: conn_ok_def)
  moreover have "csm_calls t = csm_calls s @ (if cs_callback s then [Cs_changed st] else [])" by (simp add: t_def csm_do_def)
  ultimately have "csm_calls s' = csm_calls s @ status_changes s t"
    using False t(9) by (simp only: status_changes_def) (simp add: append_assoc)
  moreover have "\<forall>e c. conn_ok s e c \<longrightarrow> last_c s' e c = eff_c t e c"
    using s'(6) assms t(6) by (auto simp: coherent_def eff_c_def conn_ok_def)
  moreover have "cs_individual_status s' = st" "last_cs_effective_status s' = st" "individual_statuses s' = individual_statuses s"
    using s'(2) t by (simp_all add: same_core_def)
  ultimately have "reports_changes s s'"
    using s'(3,5) same_coreD[OF s'(2)] changes_core(3)[OF s'(2), of s] t
    by (simp only: reports_changes_def coherent_def)
  then show ?thesis using run s'(1,2) t same_rest_trans[OF t(1) same_rest_core[OF s'(2)]]
    by (intro exI[of _ s']) (simp add: same_core_def)
qed

lemma same_restI:
  assumes "length (individual_statuses t) = length (individual_statuses s)"
    and "\<And>i. length (snd (individual_statuses t ! i)) = length (snd (individual_statuses s ! i))"
    and "cs_callback t = cs_callback s" "evse_callback t = evse_callback s" "connector_callback t = connector_callback s"
    and "last_connector_reported_statuses t = last_connector_reported_statuses s"
  shows "same_rest s t"
  using assms by (simp add: same_rest_def num_evses_def evse_ok_def conn_ok_def conn_ids_def flags_row_def reported_def fun_eq_iff)

lemma write_evse:
  assumes "csm_wf s" "evse_ok s e"
  shows "\<exists>t. write_evse_status e v s = Inr t \<and> csm_wf t \<and> same_rest s t \<and> last_e t = last_e s \<and> last_c t = last_c s \<and>
    csm_calls t = csm_calls s \<and> cs_individual_status t = cs_individual_status s \<and>
    last_cs_effective_status t = last_cs_effective_status s \<and>
    (\<forall>e'. evse_ok s e' \<longrightarrow> evse_st t e' = (if e' = e then v else evse_st s e') \<and> flags_row t e' = flags_row s e')"
proof -
  define t where "t = s\<lparr>individual_statuses := (individual_statuses s)[nat (e - 1) := (v, flags_row s e)]\<rparr>"
  have w: "write_evse_status e v s = Inr t"
    using assms(2) by (auto simp: write_evse_status_def check_evse t_def flags_row_def evse_ok_def num_evses_def split: prod.split)
  have l: "length (individual_statuses t) = length (individual_statuses s)" by (simp add: t_def)
  have row: "snd (individual_statuses t ! i) = snd (individual_statuses s ! i)" for i
    using index_ok[OF assms(2)] by (cases "i = nat (e - 1)") (simp_all add: t_def flags_row_def)
  have "csm_wf t" using assms(1) row by (simp add: csm_wf_def l) (simp add: t_def)
  moreover have "same_rest s t" by (rule same_restI[OF l]) (simp_all only: row, simp_all add: t_def)
  moreover have "last_e t = last_e s" "last_c t = last_c s" by (auto simp: last_e_def last_c_def t_def fun_eq_iff)
  moreover have "evse_st t e' = (if e' = e then v else evse_st s e') \<and> flags_row t e' = flags_row s e'" if "evse_ok s e'" for e'
    using that assms(2) index_ok[OF assms(2)] nat_pred_eq[of e' e] row
    by (auto simp: evse_st_def flags_row_def evse_ok_def t_def nth_list_update)
  ultimately show ?thesis using w by (intro exI[of _ t]) (simp add: t_def)
qed

lemma write_conn:
  assumes "csm_wf s" "conn_ok s e c"
  shows "\<exists>t. write_connector_status e c u s = Inr t \<and> csm_wf t \<and> same_rest s t \<and> last_e t = last_e s \<and> last_c t = last_c s \<and>
    csm_calls t = csm_calls s \<and> cs_individual_status t = cs_individual_status s \<and>
    last_cs_effective_status t = last_cs_effective_status s \<and>
    (\<forall>e'. evse_ok s e' \<longrightarrow> evse_st t e' = evse_st s e') \<and>
    (\<forall>e' c'. conn_ok s e' c' \<longrightarrow> conn_flags t e' c' = (if e' = e \<and> c' = c then u (conn_flags s e c) else conn_flags s e' c'))"
proof -
  have e: "evse_ok s e" "nat (c - 1) < length (flags_row s e)" using assms(2) by (auto simp: conn_ok_def nat_less_iff)
  let ?row = "(flags_row s e)[nat (c - 1) := u (conn_flags s e c)]"
  define t where "t = s\<lparr>individual_statuses := (individual_statuses s)[nat (e - 1) := (evse_st s e, ?row)]\<rparr>"
  have v: "vec_at (individual_statuses s) (e - 1) = Inr (evse_st s e, flags_row s e)"
    using e(1) by (simp add: evse_ok_def num_evses_def evse_st_def flags_row_def)
  have w: "write_connector_status e c u s = Inr t"
    using assms(2) v by (simp add: write_connector_status_def check_conn t_def conn_flags_def conn_ok_def)
  have l: "length (individual_statuses t) = length (individual_statuses s)" by (simp add: t_def)
  have row: "length (snd (individual_statuses t ! i)) = length (snd (individual_statuses s ! i))" for i
    using index_ok[OF e(1)] by (cases "i = nat (e - 1)") (simp_all add: t_def flags_row_def)
  have "csm_wf t" using assms(1) row by (simp add: csm_wf_def l) (simp add: t_def)
  moreover have "same_rest s t" by (rule same_restI[OF l]) (simp_all only: row, simp_all add: t_def)
  moreover have "last_e t = last_e s" "last_c t = last_c s" by (auto simp: last_e_def last_c_def t_def fun_eq_iff)
  moreover have "evse_st t e' = evse_st s e'" if "evse_ok s e'" for e'
    using that e(1) index_ok[OF e(1)] nat_pred_eq[of e' e] by (auto simp: evse_st_def evse_ok_def t_def nth_list_update)
  moreover have "conn_flags t e' c' = (if e' = e \<and> c' = c then u (conn_flags s e c) else conn_flags s e' c')" if "conn_ok s e' c'" for e' c'
    using that assms(2) e(2) index_ok[OF e(1)] nat_pred_eq[of e' e] nat_pred_eq[of c' c]
    by (auto simp: conn_flags_def flags_row_def conn_ok_def evse_ok_def t_def nth_list_update)
  ultimately show ?thesis using w by (intro exI[of _ t]) (simp add: t_def)
qed

lemma same_restD:
  assumes "same_rest s t"
  shows "num_evses t = num_evses s" "evse_ok t = evse_ok s" "conn_ok t = conn_ok s" "cs_callback t = cs_callback s"
    "evse_callback t = evse_callback s" "connector_callback t = connector_callback s" "reported t = reported s"
  using assms by (simp_all add: same_rest_def)

lemma flags_of_row: "flags_row t e = flags_row s e \<Longrightarrow> conn_flags t e c = conn_flags s e c"
  by (simp add: conn_flags_def)

lemma set_evse_reports:
  assumes "coherent s" "evse_ok s e"
  shows "\<exists>s'. set_evse_individual_operational_status e st p s = Inr s' \<and> reports_changes s s' \<and> same_rest s s' \<and>
    cs_individual_status s' = cs_individual_status s \<and>
    (\<forall>e'. evse_ok s e' \<longrightarrow> evse_st s' e' = (if e' = e then st else evse_st s e') \<and> flags_row s' e' = flags_row s e')"
proof -
  have wf: "csm_wf s" using assms(1) by (simp add: coherent_def)
  obtain t where t: "write_evse_status e st s = Inr t" "csm_wf t" "same_rest s t" "last_e t = last_e s" "last_c t = last_c s"
    "csm_calls t = csm_calls s" "cs_individual_status t = cs_individual_status s"
    "last_cs_effective_status t = last_cs_effective_status s"
    "\<forall>e'. evse_ok s e' \<longrightarrow> evse_st t e' = (if e' = e then st else evse_st s e') \<and> flags_row t e' = flags_row s e'"
    using write_evse[OF wf assms(2), of st] by blast
  note r = same_restD[OF t(3)]
  have flags: "conn_flags t e' c' = conn_flags s e' c'" if "evse_ok s e'" for e' c'
    using t(9) that flags_of_row by blast
  have change: "evse_change True t e = evse_changes s t e"
    by (rule evse_change_eq[OF assms t(3-5)]) (use flags[OF assms(2)] in \<open>simp add: eff_c_def\<close>)
  obtain s' where s': "trigger_callbacks_evse True e t = Inr s'" "same_core t s'" "csm_wf s'"
    "csm_calls s' = csm_calls t @ evse_change True t e"
    "\<forall>e'. evse_ok s e' \<longrightarrow> last_e s' e' = (if e' = e then eff_e t e else last_e s e')"
    "\<forall>e' c'. conn_ok s e' c' \<longrightarrow> last_c s' e' c' = (if e' = e \<and> last_e s e \<noteq> eff_e t e then eff_c t e c' else last_c s e' c')"
    using trigger_evse[OF t(2), of e True] assms(2) unfolding r t(4,5) by auto
  have other: "eff_e t e' = eff_e s e'" "eff_c t e' c' = eff_c s e' c'" if "evse_ok s e'" "e' \<noteq> e" for e' c'
    using that t(7,9) flags[OF that(1)] by (simp_all add: eff_e_def eff_c_def)
  have "concat (map (evse_changes s t) [1..num_evses s]) = evse_changes s t e"
    using assms(2) other by (intro concat_single) (auto simp: evse_ok_def intro!: no_evse_changes)
  then have "status_changes s s' = evse_changes s t e"
    using t(7) unfolding changes_core(3)[OF s'(2), of s] by (simp add: status_changes_def)
  then have calls: "csm_calls s' = csm_calls s @ status_changes s s'" using s'(4) t(6) change by simp
  have "last_e s' e' = eff_e t e'" if "evse_ok s e'" for e'
    using that s'(5) assms(1) other(1) by (auto simp: coherent_def)
  moreover have "last_c s' e' c' = eff_c t e' c'" if "conn_ok s e' c'" for e' c'
  proof -
    have e': "evse_ok s e'" using that by (simp add: conn_ok_def)
    have l: "last_c s e' c' = eff_c s e' c'" "last_e s e = eff_e s e" using assms that by (auto simp: coherent_def)
    show ?thesis
    proof (cases "e' = e")
      case True
      then show ?thesis using s'(6) that l flags[OF e'] by (auto simp: eff_c_def)
    next
      case False
      then show ?thesis using s'(6) that l(1) other(2)[OF e' False] by simp
    qed
  qed
  ultimately have "coherent s'"
    using s'(2,3) t(7,8) assms(1) same_coreD[OF s'(2)] r by (simp add: coherent_def same_core_def)
  moreover have "set_evse_individual_operational_status e st p s = Inr s'"
    using t(1) s'(1) by (simp add: set_evse_individual_operational_status_def insert_evse_availability_def Let_def)
  ultimately show ?thesis using calls t(7,9) same_rest_trans[OF t(3) same_rest_core[OF s'(2)]] same_coreD[OF s'(2)] s'(2)
    by (intro exI[of _ s']) (simp add: reports_changes_def same_core_def)
qed

lemma set_conn_reports:
  assumes "coherent s" "conn_ok s e c"
  shows "\<exists>s'. set_connector_individual_operational_status e c st p s = Inr s' \<and> reports_changes s s' \<and> same_rest s s' \<and>
    cs_individual_status s' = cs_individual_status s \<and> (\<forall>e'. evse_ok s e' \<longrightarrow> evse_st s' e' = evse_st s e') \<and>
    (\<forall>e' c'. conn_ok s e' c' \<longrightarrow> conn_flags s' e' c' =
       (if e' = e \<and> c' = c then (conn_flags s e c)\<lparr>individual_operational_status := st\<rparr> else conn_flags s e' c'))"
proof -
  have wf: "csm_wf s" and e: "evse_ok s e" using assms by (simp_all add: coherent_def conn_ok_def)
  obtain t where t: "write_connector_status e c (\<lambda>f. f\<lparr>individual_operational_status := st\<rparr>) s = Inr t" "csm_wf t" "same_rest s t"
    "last_e t = last_e s" "last_c t = last_c s" "csm_calls t = csm_calls s" "cs_individual_status t = cs_individual_status s"
    "last_cs_effective_status t = last_cs_effective_status s" "\<forall>e'. evse_ok s e' \<longrightarrow> evse_st t e' = evse_st s e'"
    "\<forall>e' c'. conn_ok s e' c' \<longrightarrow> conn_flags t e' c' =
       (if e' = e \<and> c' = c then (conn_flags s e c)\<lparr>individual_operational_status := st\<rparr> else conn_flags s e' c')"
    using write_conn[OF wf assms(2), of "\<lambda>f. f\<lparr>individual_operational_status := st\<rparr>"] by blast
  note r = same_restD[OF t(3)]
  obtain s' where s': "trigger_callbacks_connector True e c t = Inr s'" "same_core t s'" "csm_wf s'"
    "csm_calls s' = csm_calls t @ conn_change True t e c" "\<forall>e'. evse_ok s e' \<longrightarrow> last_e s' e' = last_e s e'"
    "\<forall>e' c'. conn_ok s e' c' \<longrightarrow> last_c s' e' c' = (if e' = e \<and> c' = c then eff_c t e c else last_c s e' c')"
    using trigger_connector[OF t(2), of e c True] assms(2) unfolding r t(4,5) by auto
  have effe: "eff_e t e' = eff_e s e'" if "evse_ok s e'" for e' using that t(7,9) by (simp add: eff_e_def)
  have effc: "eff_c t e' c' = eff_c s e' c'" if "conn_ok s e' c'" "e' \<noteq> e \<or> c' \<noteq> c" for e' c'
  proof -
    have "evse_ok s e'" using that(1) by (simp add: conn_ok_def)
    then show ?thesis using that t(10) effe[of e'] by (auto simp: eff_c_def)
  qed
  have "connector_changes s t e = conn_change True t e c"
    unfolding connector_changes_def
    using assms effc conn_ids_ok[OF e]
    by (subst concat_single[of _ c]) (auto simp: conn_change_def r coherent_def t(5))
  moreover have "concat (map (evse_changes s t) [1..num_evses s]) = evse_changes s t e"
    using e effe effc by (intro concat_single) (auto simp: evse_ok_def intro!: no_evse_changes)
  ultimately have "status_changes s s' = conn_change True t e c"
    using t(7) effe[OF e] unfolding changes_core(3)[OF s'(2), of s] by (simp add: status_changes_def evse_changes_def)
  then have calls: "csm_calls s' = csm_calls s @ status_changes s s'" using s'(4) t(6) by simp
  have "last_e s' e' = eff_e t e'" if "evse_ok s e'" for e'
    using that s'(5) assms(1) effe by (auto simp: coherent_def)
  moreover have "last_c s' e' c' = eff_c t e' c'" if "conn_ok s e' c'" for e' c'
    using that s'(6) assms(1) effc by (auto simp: coherent_def)
  ultimately have "coherent s'"
    using s'(2,3) t(7,8) assms(1) same_coreD[OF s'(2)] r by (simp add: coherent_def same_core_def)
  moreover have "set_connector_individual_operational_status e c st p s = Inr s'"
    using t(1) s'(1) by (simp add: set_connector_individual_operational_status_def insert_connector_availability_def Let_def)
  ultimately show ?thesis using calls t(7,9,10) same_rest_trans[OF t(3) same_rest_core[OF s'(2)]] same_coreD[OF s'(2)] s'(2)
    by (intro exI[of _ s']) (simp add: reports_changes_def same_core_def)
qed

end
