(* ===== verification/Component_States_Props.thy ===== *)
theory Component_States_Props
  imports Component_States_Cache
begin

text \<open>
  The notifications of the operational states to the CSMS, the connectors, the reachable states, and the
  theorems: what is reported, when, and what is not.
\<close>

section \<open>Notifications to the CSMS\<close>

definition conn_status :: "component_states \<Rightarrow> int \<Rightarrow> int \<Rightarrow> ConnectorStatusEnum" where
  "conn_status s e c = to_connector_status (conn_flags s e c)"

text \<open>What a notification leaves as it is.\<close>

definition same_states :: "component_states \<Rightarrow> component_states \<Rightarrow> bool" where
  "same_states s s' \<longleftrightarrow> individual_statuses s' = individual_statuses s \<and> cs_individual_status s' = cs_individual_status s \<and>
     last_effective_statuses s' = last_effective_statuses s \<and> last_cs_effective_status s' = last_cs_effective_status s \<and>
     cs_callback s' = cs_callback s \<and> evse_callback s' = evse_callback s \<and> connector_callback s' = connector_callback s"

lemma same_states_refl [simp]: "same_states s s"
  by (simp add: same_states_def)

lemma same_states_do [simp]: "same_states s (csm_do c s)"
  by (simp add: same_states_def csm_do_def)

lemma same_states_trans: "same_states s s' \<Longrightarrow> same_states s' s'' \<Longrightarrow> same_states s s''"
  by (simp add: same_states_def)

lemma same_statesD:
  assumes "same_states s s'"
  shows "num_evses s' = num_evses s" "evse_ok s' = evse_ok s" "flags_row s' = flags_row s" "conn_ok s' = conn_ok s"
    "evse_st s' = evse_st s" "conn_flags s' = conn_flags s" "conn_status s' = conn_status s" "eff_e s' = eff_e s" "eff_c s' = eff_c s"
    "last_e s' = last_e s" "last_c s' = last_c s" "conn_ids s' = conn_ids s"
    "last_cs_effective_status s' = last_cs_effective_status s" "cs_individual_status s' = cs_individual_status s"
  using assms by (auto simp: same_states_def num_evses_def evse_ok_def flags_row_def conn_ok_def evse_st_def conn_status_def
      conn_flags_def last_e_def last_c_def eff_e_def eff_c_def conn_ids_def fun_eq_iff)

lemma coherent_same_states: "coherent s \<Longrightarrow> same_states s s' \<Longrightarrow> csm_wf s' \<Longrightarrow> coherent s'"
  using same_statesD[of s s'] by (simp add: coherent_def)

lemma put_reported:
  assumes "csm_wf s" "conn_ok s e c"
  shows "\<exists>s'. write_reported_status e c v s = Inr s' \<and> same_states s s' \<and> csm_wf s' \<and> csm_calls s' = csm_calls s \<and>
    (\<forall>e' c'. conn_ok s e' c' \<longrightarrow> reported s' e' c' = (if e' = e \<and> c' = c then v else reported s e' c'))"
proof -
  have e: "evse_ok s e" using assms(2) by (simp add: conn_ok_def)
  note r = row_lengths[OF assms(1) e]
  have i: "nat (e - 1) < length (last_connector_reported_statuses s)" using r index_ok[OF e] by simp
  have v: "vec_at (last_connector_reported_statuses s) (e - 1) = Inr (last_connector_reported_statuses s ! nat (e - 1))"
    using e r by (simp add: evse_ok_def num_evses_def)
  have c: "nat (c - 1) < length (last_connector_reported_statuses s ! nat (e - 1))"
    "vec_at (last_connector_reported_statuses s ! nat (e - 1)) (c - 1) = Inr (reported s e c)"
    using assms(2) r by (auto simp: conn_ok_def reported_def nat_less_iff)
  show ?thesis
    using assms v i c r
    by (auto simp: write_reported_status_def check_conn same_states_def csm_wf_def nth_list_update reported_def evse_ok_def
        conn_ok_def num_evses_def flags_row_def nat_pred_eq)
qed

definition must_notify :: "bool \<Rightarrow> component_states \<Rightarrow> int \<Rightarrow> int \<Rightarrow> bool" where
  "must_notify only s e c \<longleftrightarrow> \<not> only \<or> reported s e c \<noteq> conn_status s e c"

definition notifications :: "(int \<Rightarrow> int \<Rightarrow> bool) \<Rightarrow> bool \<Rightarrow> bool \<Rightarrow> component_states \<Rightarrow> int \<Rightarrow> int \<Rightarrow> csm_call list" where
  "notifications sends only triggered s e c =
     (if must_notify only s e c then [Status_notification e c (conn_status s e c) triggered (sends e c)] else [])"

lemma notify_connector:
  assumes "csm_wf s" "conn_ok s e c"
  shows "\<exists>s'. send_status_notification_single_connector_internal sends only triggered e c s = Inr s' \<and> same_states s s' \<and> csm_wf s' \<and>
    csm_calls s' = csm_calls s @ notifications sends only triggered s e c \<and>
    (\<forall>e' c'. conn_ok s e' c' \<longrightarrow>
       reported s' e' c' = (if e' = e \<and> c' = c \<and> must_notify only s e c \<and> sends e c then conn_status s e c else reported s e' c'))"
proof (cases "must_notify only s e c \<and> sends e c")
  case True
  let ?s = "csm_do (Status_notification e c (conn_status s e c) triggered True) s"
  have "send_status_notification_single_connector_internal sends only triggered e c s = write_reported_status e c (conn_status s e c) ?s"
    using True assms by (auto simp: send_status_notification_single_connector_internal_def get_conn get_reported must_notify_def
        conn_status_def Let_def)
  moreover have "csm_wf ?s" "conn_ok ?s e c" "same_states s ?s" using assms by simp_all
  moreover have "csm_calls ?s = csm_calls s @ notifications sends only triggered s e c" using True by (simp add: notifications_def)
  ultimately show ?thesis using put_reported[of ?s e c "conn_status s e c"] True same_states_trans[OF same_states_do] by fastforce
next
  case False
  then show ?thesis using assms
    by (auto simp: send_status_notification_single_connector_internal_def get_conn get_reported must_notify_def conn_status_def
        Let_def notifications_def)
qed

lemma notify_connectors:
  assumes "csm_wf s" "\<forall>c\<in>set cs. conn_ok s e c" "distinct cs"
  shows "\<exists>s'. for_each (send_status_notification_single_connector_internal sends only False e) cs s = Inr s' \<and>
    same_states s s' \<and> csm_wf s' \<and>
    csm_calls s' = csm_calls s @ concat (map (notifications sends only False s e) cs) \<and>
    (\<forall>e' c'. conn_ok s e' c' \<longrightarrow> reported s' e' c' =
       (if e' = e \<and> c' \<in> set cs \<and> must_notify only s e c' \<and> sends e c' then conn_status s e c' else reported s e' c'))"
  using assms
proof (induction cs arbitrary: s)
  case (Cons c cs)
  obtain s1 where s1: "send_status_notification_single_connector_internal sends only False e c s = Inr s1" "same_states s s1" "csm_wf s1"
    "csm_calls s1 = csm_calls s @ notifications sends only False s e c"
    "\<forall>e' c'. conn_ok s e' c' \<longrightarrow>
       reported s1 e' c' = (if e' = e \<and> c' = c \<and> must_notify only s e c \<and> sends e c then conn_status s e c else reported s e' c')"
    using notify_connector[OF Cons.prems(1), of e c sends only False] Cons.prems(2) by auto
  note d = same_statesD[OF s1(2)]
  have must: "must_notify only s1 e c' = must_notify only s e c'" if "c' \<in> set cs" for c'
    using that Cons.prems(2,3) s1(5) by (auto simp: must_notify_def d)
  then have same: "map (notifications sends only False s1 e) cs = map (notifications sends only False s e) cs"
    by (simp add: notifications_def d)
  obtain s2 where s2: "for_each (send_status_notification_single_connector_internal sends only False e) cs s1 = Inr s2"
    "same_states s1 s2" "csm_wf s2"
    "csm_calls s2 = csm_calls s1 @ concat (map (notifications sends only False s1 e) cs)"
    "\<forall>e' c'. conn_ok s1 e' c' \<longrightarrow> reported s2 e' c' =
       (if e' = e \<and> c' \<in> set cs \<and> must_notify only s1 e c' \<and> sends e c' then conn_status s1 e c' else reported s1 e' c')"
    using Cons.IH[OF s1(3)] Cons.prems(2,3) d by auto
  have "csm_calls s2 = csm_calls s @ concat (map (notifications sends only False s e) (c # cs))"
    using s1(4) s2(4) same by (simp only: list.map concat.simps append_assoc)
  moreover have "\<forall>e' c'. conn_ok s e' c' \<longrightarrow> reported s2 e' c' =
       (if e' = e \<and> c' \<in> set (c # cs) \<and> must_notify only s e c' \<and> sends e c' then conn_status s e c' else reported s e' c')"
    using s1(5) s2(5) must Cons.prems(3) unfolding d by auto
  ultimately show ?case using s1(1) s2(1,3) same_states_trans[OF s1(2) s2(2)] by (simp only: for_each.simps csm_bind.simps) blast
qed auto

lemma notify_evses:
  assumes "csm_wf s" "\<forall>e\<in>set es. evse_ok s e" "distinct es"
  shows "\<exists>s'. for_each (\<lambda>evse_id s. csm_bind (num_connectors evse_id s) (\<lambda>n.
        for_each (send_status_notification_single_connector_internal sends only False evse_id) [1..n] s)) es s = Inr s' \<and>
    same_states s s' \<and> csm_wf s' \<and>
    csm_calls s' = csm_calls s @ concat (map (\<lambda>e. concat (map (notifications sends only False s e) (conn_ids s e))) es) \<and>
    (\<forall>e' c'. conn_ok s e' c' \<longrightarrow> reported s' e' c' =
       (if e' \<in> set es \<and> must_notify only s e' c' \<and> sends e' c' then conn_status s e' c' else reported s e' c'))"
  using assms
proof (induction es arbitrary: s)
  case (Cons e es)
  have e: "evse_ok s e" using Cons.prems(2) by simp
  obtain s1 where s1: "for_each (send_status_notification_single_connector_internal sends only False e) (conn_ids s e) s = Inr s1"
    "same_states s s1" "csm_wf s1" "csm_calls s1 = csm_calls s @ concat (map (notifications sends only False s e) (conn_ids s e))"
    "\<forall>e' c'. conn_ok s e' c' \<longrightarrow> reported s1 e' c' =
       (if e' = e \<and> c' \<in> set (conn_ids s e) \<and> must_notify only s e c' \<and> sends e c' then conn_status s e c' else reported s e' c')"
    using notify_connectors[OF Cons.prems(1), of "conn_ids s e" e sends only] conn_ids_ok[OF e] by auto
  note d = same_statesD[OF s1(2)]
  have "map (notifications sends only False s1 e') (conn_ids s e') = map (notifications sends only False s e') (conn_ids s e')"
    if "e' \<in> set es" for e'
  proof -
    have "evse_ok s e'" "e' \<noteq> e" using that Cons.prems(2,3) by auto
    then show ?thesis using s1(5) conn_ids_ok[of s e'] by (auto simp: notifications_def must_notify_def d)
  qed
  then have same: "map (\<lambda>e'. concat (map (notifications sends only False s1 e') (conn_ids s e'))) es =
      map (\<lambda>e'. concat (map (notifications sends only False s e') (conn_ids s e'))) es" by (intro map_cong arg_cong[of _ _ concat]) auto
  obtain s2 where s2: "for_each (\<lambda>evse_id s. csm_bind (num_connectors evse_id s) (\<lambda>n.
        for_each (send_status_notification_single_connector_internal sends only False evse_id) [1..n] s)) es s1 = Inr s2"
    "same_states s1 s2" "csm_wf s2"
    "csm_calls s2 = csm_calls s1 @ concat (map (\<lambda>e. concat (map (notifications sends only False s1 e) (conn_ids s1 e))) es)"
    "\<forall>e' c'. conn_ok s1 e' c' \<longrightarrow> reported s2 e' c' =
       (if e' \<in> set es \<and> must_notify only s1 e' c' \<and> sends e' c' then conn_status s1 e' c' else reported s1 e' c')"
    using Cons.IH[OF s1(3)] Cons.prems(2,3) d by auto
  have "csm_calls s2 = csm_calls s @ concat (map (\<lambda>e. concat (map (notifications sends only False s e) (conn_ids s e))) (e # es))"
    using s1(4) s2(4) same by (simp only: list.map concat.simps append_assoc d)
  moreover have "\<forall>e' c'. conn_ok s e' c' \<longrightarrow> reported s2 e' c' =
       (if e' \<in> set (e # es) \<and> must_notify only s e' c' \<and> sends e' c' then conn_status s e' c' else reported s e' c')"
    using s1(5) s2(5) conn_ids_ok[OF e] Cons.prems(3) unfolding d by (auto simp: must_notify_def d)
  moreover have "num_connectors e s = Inr (int (length (flags_row s e)))" using e by (simp add: num_connectors_eq)
  ultimately show ?case using s1(1) s2(1,3) same_states_trans[OF s1(2) s2(2)]
    by (simp only: for_each.simps csm_bind.simps conn_ids_def) blast
qed auto

lemma send_for_all_result:
  assumes "csm_wf s"
  shows "\<exists>s'. send_for_all sends only s = Inr s' \<and> same_states s s' \<and> csm_wf s' \<and>
    csm_calls s' = csm_calls s @ concat (map (\<lambda>e. concat (map (notifications sends only False s e) (conn_ids s e))) [1..num_evses s]) \<and>
    (\<forall>e c. conn_ok s e c \<longrightarrow> reported s' e c =
       (if must_notify only s e c \<and> sends e c then conn_status s e c else reported s e c))"
  using notify_evses[OF assms, of "[1..num_evses s]" sends only] evse_ids[of _ s]
  by (auto simp: send_for_all_def conn_ok_def)

section \<open>Events of a connector\<close>

fun flags_after :: "ConnectorEvent \<Rightarrow> FullConnectorStatus \<Rightarrow> FullConnectorStatus" where
  "flags_after PlugIn f = f\<lparr>occupied := True\<rparr>"
| "flags_after PlugOut f = f\<lparr>occupied := False\<rparr>"
| "flags_after Reserve f = f\<lparr>reserved := True\<rparr>"
| "flags_after ReservationCleared f = f\<lparr>reserved := False\<rparr>"
| "flags_after Error_raised f = f\<lparr>faulted := True\<rparr>"
| "flags_after ErrorCleared f = f\<lparr>faulted := False\<rparr>"
| "flags_after Made_unavailable f = f\<lparr>unavailable := True\<rparr>"
| "flags_after UnavailableCleared f = f\<lparr>unavailable := False\<rparr>"

definition plug_event :: "ConnectorEvent \<Rightarrow> bool" where
  "plug_event ev \<longleftrightarrow> ev = PlugIn \<or> ev = PlugOut"

lemma flags_after_operational [simp]: "individual_operational_status (flags_after ev f) = individual_operational_status f"
  by (cases ev) auto

lemma connector_event_steps:
  "connector_submit_event sends e c ev s =
     csm_bind (write_connector_status e c (flags_after ev) s) (\<lambda>s.
     csm_bind (if plug_event ev then individual_connector_status e c s else Inr initial_connector) (\<lambda>f.
     if plug_event ev \<and> reserved f then Inr s
     else send_status_notification_single_connector_internal sends True False e c s))"
proof -
  have f: "flags_after PlugIn = (\<lambda>f. f\<lparr>occupied := True\<rparr>)" "flags_after PlugOut = (\<lambda>f. f\<lparr>occupied := False\<rparr>)"
    "flags_after Reserve = (\<lambda>f. f\<lparr>reserved := True\<rparr>)" "flags_after ReservationCleared = (\<lambda>f. f\<lparr>reserved := False\<rparr>)"
    "flags_after Error_raised = (\<lambda>f. f\<lparr>faulted := True\<rparr>)" "flags_after ErrorCleared = (\<lambda>f. f\<lparr>faulted := False\<rparr>)"
    "flags_after Made_unavailable = (\<lambda>f. f\<lparr>unavailable := True\<rparr>)" "flags_after UnavailableCleared = (\<lambda>f. f\<lparr>unavailable := False\<rparr>)"
    by auto
  have n: "(if \<not> P then x else y) = (if P then y else x)" for P and x y :: "component_states csm_result" by simp
  show ?thesis
    by (cases ev) (simp_all add: connector_submit_event_def plug_event_def f n set_connector_occupied_def set_connector_reserved_def
        set_connector_faulted_def set_connector_unavailable_def)
qed

lemma connector_event:
  fixes ev sends
  assumes "csm_wf s" "conn_ok s e c"
  defines "f \<equiv> flags_after ev (conn_flags s e c)"
  shows "\<exists>s'. connector_submit_event sends e c ev s = Inr s' \<and> csm_wf s' \<and> conn_ok s' = conn_ok s \<and> evse_ok s' = evse_ok s \<and>
    (\<forall>e' c'. conn_ok s e' c' \<longrightarrow> conn_flags s' e' c' = (if e' = e \<and> c' = c then f else conn_flags s e' c')) \<and>
    (\<forall>e'. evse_ok s e' \<longrightarrow> eff_e s' e' = eff_e s e') \<and> (\<forall>e' c'. conn_ok s e' c' \<longrightarrow> eff_c s' e' c' = eff_c s e' c') \<and>
    last_e s' = last_e s \<and> last_c s' = last_c s \<and> cs_individual_status s' = cs_individual_status s \<and>
    last_cs_effective_status s' = last_cs_effective_status s \<and>
    csm_calls s' = csm_calls s @
      (if plug_event ev \<and> reserved f \<or> reported s e c = to_connector_status f then []
       else [Status_notification e c (to_connector_status f) False (sends e c)]) \<and>
    (\<forall>e' c'. conn_ok s e' c' \<longrightarrow> reported s' e' c' =
       (if e' = e \<and> c' = c \<and> \<not> (plug_event ev \<and> reserved f) \<and> sends e c then to_connector_status f else reported s e' c'))"
proof -
  obtain t where t: "write_connector_status e c (flags_after ev) s = Inr t" "csm_wf t" "same_rest s t"
    "last_e t = last_e s" "last_c t = last_c s" "csm_calls t = csm_calls s" "cs_individual_status t = cs_individual_status s"
    "last_cs_effective_status t = last_cs_effective_status s" "\<forall>e'. evse_ok s e' \<longrightarrow> evse_st t e' = evse_st s e'"
    "\<forall>e' c'. conn_ok s e' c' \<longrightarrow> conn_flags t e' c' = (if e' = e \<and> c' = c then f else conn_flags s e' c')"
    using write_conn[OF assms(1,2), of "flags_after ev"] unfolding f_def by blast
  note r = same_restD[OF t(3)]
  have effe: "eff_e t e' = eff_e s e'" if "evse_ok s e'" for e' using that t(7,9) by (simp add: eff_e_def)
  have effc: "eff_c t e' c' = eff_c s e' c'" if "conn_ok s e' c'" for e' c'
  proof -
    have "evse_ok s e'" using that by (simp add: conn_ok_def)
    then show ?thesis using that t(10) effe[of e'] by (auto simp: eff_c_def f_def)
  qed
  have f: "conn_flags t e c = f" "conn_ok t e c" "individual_connector_status e c t = Inr f"
    using t(10) assms(2) r(3) by (simp_all add: get_conn)
  show ?thesis
  proof (cases "plug_event ev \<and> reserved f")
    case True
    then have "connector_submit_event sends e c ev s = Inr t" using f by (simp add: connector_event_steps t(1))
    then show ?thesis using t effe effc r True by (intro exI[of _ t]) simp
  next
    case False
    then have run: "connector_submit_event sends e c ev s = send_status_notification_single_connector_internal sends True False e c t"
      using f by (auto simp: connector_event_steps t(1))
    have st: "conn_status t e c = to_connector_status f" using f by (simp add: conn_status_def)
    obtain s' where s': "send_status_notification_single_connector_internal sends True False e c t = Inr s'" "same_states t s'" "csm_wf s'"
      "csm_calls s' = csm_calls t @ notifications sends True False t e c"
      "\<forall>e' c'. conn_ok s e' c' \<longrightarrow> reported s' e' c' =
         (if e' = e \<and> c' = c \<and> must_notify True t e c \<and> sends e c then to_connector_status f else reported s e' c')"
      using notify_connector[OF t(2) f(2), of sends True False] unfolding r st by blast
    note d = same_statesD[OF s'(2)]
    have "csm_calls s' = csm_calls s @ (if reported s e c = to_connector_status f then []
        else [Status_notification e c (to_connector_status f) False (sends e c)])"
      using s'(4) t(6) by (auto simp: notifications_def must_notify_def r st)
    moreover have "\<forall>e' c'. conn_ok s e' c' \<longrightarrow> reported s' e' c' = (if e' = e \<and> c' = c \<and> sends e c then to_connector_status f else reported s e' c')"
      using s'(5) by (auto simp: must_notify_def r st)
    ultimately show ?thesis using run s'(1,3) t effe effc r d False by (intro exI[of _ s']) simp
  qed
qed

text \<open>
  What a connector relies on: an event changes the flags as \<open>flags_after\<close> says. Then any sequence of events does.
\<close>

fun submit_all :: "('ev \<Rightarrow> 's \<Rightarrow> 's csm_result) \<Rightarrow> 'ev list \<Rightarrow> 's \<Rightarrow> 's csm_result" where
  "submit_all f [] s = Inr s"
| "submit_all f (ev # evs) s = csm_bind (f ev s) (submit_all f evs)"

locale connector_port =
  fixes submit :: "ConnectorEvent \<Rightarrow> 's \<Rightarrow> 's csm_result"
    and port_ok :: "'s \<Rightarrow> bool"
    and port_flags :: "'s \<Rightarrow> FullConnectorStatus"
  assumes submit_flags: "port_ok s \<Longrightarrow> \<exists>s'. submit ev s = Inr s' \<and> port_ok s' \<and> port_flags s' = flags_after ev (port_flags s)"
begin

lemma submit_all_flags:
  "port_ok s \<Longrightarrow> \<exists>s'. submit_all submit evs s = Inr s' \<and> port_ok s' \<and> port_flags s' = fold flags_after evs (port_flags s)"
proof (induction evs arbitrary: s)
  case (Cons ev evs)
  obtain s1 where s1: "submit ev s = Inr s1" "port_ok s1" "port_flags s1 = flags_after ev (port_flags s)"
    using submit_flags[OF Cons.prems] by blast
  show ?case using Cons.IH[OF s1(2)] s1 by simp
qed simp

end

interpretation connector: connector_port "connector_submit_event sends e c" "\<lambda>s. csm_wf s \<and> conn_ok s e c" "\<lambda>s. conn_flags s e c"
  for sends e c
proof
  fix s ev
  assume "csm_wf s \<and> conn_ok s e c"
  then show "\<exists>s'. connector_submit_event sends e c ev s = Inr s' \<and> (csm_wf s' \<and> conn_ok s' e c) \<and>
      conn_flags s' e c = flags_after ev (conn_flags s e c)"
    using connector_event[of s e c sends ev] by auto
qed

section \<open>Construction\<close>

lemma read_evses_result:
  "read_evses m ids = Inr es \<Longrightarrow> length es = length ids \<and> (\<forall>(st, fs)\<in>set es. st = Operative \<and> set fs \<subseteq> {initial_connector})"
proof (induction m ids arbitrary: es rule: read_evses.induct)
  case (2 m i ids)
  then obtain n es' where "map_of m i = Some n" "read_evses m ids = Inr es'" "es = (Operative, replicate (nat n) initial_connector) # es'"
    by (cases "read_evses m ids") (auto split: option.splits)
  then show ?case using "2.IH"[of n es'] by auto
qed simp

lemma cache_connectors:
  "\<forall>c\<in>set cs. conn_ok s e c \<Longrightarrow>
   for_each (\<lambda>c acc. cache_connector e c acc s) cs acc = Inr (fst acc @ map (conn_status s e) cs, snd acc @ map (eff_c s e) cs)"
  by (induction cs arbitrary: acc) (simp_all add: cache_connector_def get_conn get_eff_conn conn_status_def)

definition cached_effective :: "component_states \<Rightarrow> int \<Rightarrow> OperationalStatusEnum \<times> OperationalStatusEnum list" where
  "cached_effective s e = (eff_e s e, map (eff_c s e) (conn_ids s e))"

definition cached_status :: "component_states \<Rightarrow> int \<Rightarrow> ConnectorStatusEnum list" where
  "cached_status s e = map (conn_status s e) (conn_ids s e)"

lemma cache_evses:
  "\<forall>e\<in>set es. evse_ok s e \<Longrightarrow>
   for_each cache_evse es s = Inr (s\<lparr>last_effective_statuses := last_effective_statuses s @ map (cached_effective s) es,
     last_connector_reported_statuses := last_connector_reported_statuses s @ map (cached_status s) es\<rparr>)"
proof (induction es arbitrary: s)
  case (Cons e es)
  let ?t = "s\<lparr>last_effective_statuses := last_effective_statuses s @ [cached_effective s e],
     last_connector_reported_statuses := last_connector_reported_statuses s @ [cached_status s e]\<rparr>"
  have e: "evse_ok s e" using Cons.prems by simp
  have step: "cache_evse e s = Inr ?t"
    using e conn_ids_ok[OF e] cache_connectors[of "conn_ids s e" s e "([], [])"]
    by (simp add: cache_evse_def num_connectors_eq get_eff_evse cached_effective_def cached_status_def conn_ids_def)
  have t: "evse_ok ?t = evse_ok s" "cached_effective ?t = cached_effective s" "cached_status ?t = cached_status s"
    by (auto simp: evse_ok_def num_evses_def cached_effective_def cached_status_def eff_e_def evse_st_def eff_c_def conn_ids_def
        flags_row_def conn_status_def conn_flags_def fun_eq_iff)
  show ?case using Cons.prems Cons.IH[of ?t] unfolding t by (simp add: step)
qed simp

definition last_sent :: "csm_call list \<Rightarrow> int \<Rightarrow> int \<Rightarrow> ConnectorStatusEnum" where
  "last_sent cs e c = fold (\<lambda>call st. case call of
       Status_notification e' c' st' triggered sent \<Rightarrow> if e' = e \<and> c' = c \<and> sent then st' else st
     | _ \<Rightarrow> st) cs Status_Available"

lemma last_sent_append:
  "last_sent (cs @ [call]) e c = (case call of
       Status_notification e' c' st' triggered sent \<Rightarrow> if e' = e \<and> c' = c \<and> sent then st' else last_sent cs e c
     | _ \<Rightarrow> last_sent cs e c)"
  by (cases call) (simp_all add: last_sent_def)

lemma last_sent_other:
  "\<forall>e' c' st t b. Status_notification e' c' st t b \<notin> set ds \<Longrightarrow> last_sent (cs @ ds) e c = last_sent cs e c"
proof (induction ds rule: rev_induct)
  case (snoc d ds)
  then have i: "last_sent (cs @ ds) e c = last_sent cs e c" by auto
  have d: "d \<noteq> Status_notification e' c' st t b" for e' c' st t b
  proof -
    have "d \<in> set (ds @ [d])" by simp
    then show ?thesis using snoc.prems by metis
  qed
  show ?case
  proof (cases d)
    case (Status_notification e' c' st t b)
    then show ?thesis using d by blast
  qed (use i last_sent_append[of "cs @ ds" d e c] in simp_all)
qed simp

lemma changes_no_notification: "Status_notification e c st t b \<notin> set (status_changes s s')"
  by (auto simp: status_changes_def evse_changes_def connector_changes_def)

definition csm_ok :: "component_states \<Rightarrow> bool" where
  "csm_ok s \<longleftrightarrow> coherent s \<and> (\<forall>e c. conn_ok s e c \<longrightarrow> reported s e c = last_sent (csm_calls s) e c)"

lemma new_csm_ok:
  assumes "new_ComponentStateManager m = Inr s"
  shows "csm_ok s \<and> (\<forall>e c. conn_ok s e c \<longrightarrow> conn_status s e c = Status_Available \<and> reported s e c = Status_Available)"
proof -
  let ?b = "\<lparr>cs_individual_status = Operative, individual_statuses = [], last_cs_effective_status = Operative,
        last_effective_statuses = [], last_connector_reported_statuses = [], cs_callback = False,
        evse_callback = False, connector_callback = False, csm_calls = []\<rparr> :: component_states"
  obtain es where es: "read_evses m [1..int (length m)] = Inr es"
    using assms by (cases "read_evses m [1..int (length m)]")
      (simp_all add: new_ComponentStateManager_def read_all_states_from_database_or_set_defaults_def)
  define r where "r = ?b\<lparr>individual_statuses := es\<rparr>"
  have run: "new_ComponentStateManager m = for_each cache_evse [1..num_evses r] r"
    by (simp add: new_ComponentStateManager_def read_all_states_from_database_or_set_defaults_def es r_def
        initialize_reported_state_cache_def get_cs_individual_operational_status_def num_evses_def)
  have "s = r\<lparr>last_effective_statuses := map (cached_effective r) [1..num_evses r],
      last_connector_reported_statuses := map (cached_status r) [1..num_evses r]\<rparr>"
    using assms cache_evses[of "[1..num_evses r]" r] unfolding run by (simp add: evse_ok_def) (simp add: r_def)
  note s = this
  have same: "evse_ok s = evse_ok r" "conn_ok s = conn_ok r" "eff_e s = eff_e r" "eff_c s = eff_c r" "conn_status s = conn_status r"
    "num_evses s = num_evses r" "flags_row s = flags_row r"
    by (auto simp: s evse_ok_def conn_ok_def num_evses_def flags_row_def eff_e_def eff_c_def evse_st_def conn_flags_def conn_status_def
        fun_eq_iff)
  have nth: "map f [1..num_evses r] ! i = f (int i + 1)" if "i < length es" for i and f :: "int \<Rightarrow> 'b"
    using that by (simp add: num_evses_def r_def nth_upto add.commute)
  have rows: "flags_row r (int i + 1) = snd (es ! i)" for i by (simp add: flags_row_def r_def)
  have len: "length (individual_statuses s) = length es" by (simp add: s r_def)
  have wf: "csm_wf s"
    unfolding csm_wf_def len
    by (auto simp: s num_evses_def r_def) (auto simp: nth[unfolded num_evses_def r_def, simplified] cached_effective_def cached_status_def conn_ids_def flags_row_def)
  have row: "last_effective_statuses s ! nat (e - 1) = cached_effective r e" "last_connector_reported_statuses s ! nat (e - 1) = cached_status r e"
    if "evse_ok r e" for e
    using that nth[of "nat (e - 1)"] by (auto simp: s evse_ok_def num_evses_def r_def nat_less_iff)
  have cid: "conn_ids r e ! nat (c - 1) = c" "nat (c - 1) < length (conn_ids r e)" if "conn_ok r e c" for e c
    using that by (auto simp: conn_ids_def conn_ok_def nth_upto)
  have "last_e s e = eff_e s e" if "evse_ok s e" for e
    using row(1)[of e] that by (simp add: last_e_def cached_effective_def same)
  moreover have "last_c s e c = eff_c s e c" "reported s e c = conn_status r e c" if "conn_ok s e c" for e c
    using row[of e] cid[of e c] that by (simp_all add: last_c_def reported_def cached_effective_def cached_status_def same conn_ok_def)
  moreover have "conn_status r e c = Status_Available" if "conn_ok s e c" for e c
  proof -
    have "evse_ok r e" "nat (c - 1) < length (flags_row r e)" using that by (auto simp: same conn_ok_def)
    moreover have "individual_statuses r ! nat (e - 1) \<in> set es" using index_ok[OF calculation(1)] by (simp add: r_def)
    moreover obtain st fs where "individual_statuses r ! nat (e - 1) = (st, fs)" by (cases "individual_statuses r ! nat (e - 1)")
    ultimately have "conn_flags r e c \<in> set (flags_row r e)" "set (flags_row r e) \<subseteq> {initial_connector}"
      using read_evses_result[OF es] by (auto simp: conn_flags_def flags_row_def)
    then have "conn_flags r e c = initial_connector" by blast
    then show ?thesis by (simp add: conn_status_def initial_connector_def to_connector_status_def)
  qed
  moreover have "last_cs_effective_status s = cs_individual_status s" "csm_calls s = []" by (simp_all add: s r_def)
  ultimately show ?thesis using wf by (simp add: csm_ok_def coherent_def same last_sent_def)
qed

section \<open>Reachable states\<close>

lemma csm_bind_Inr: "csm_bind r f = Inr y \<longleftrightarrow> (\<exists>x. r = Inr x \<and> f x = Inr y)"
  by (cases r) auto

lemma for_each_keeps:
  assumes "\<And>i s s'. P s \<Longrightarrow> f i s = Inr s' \<Longrightarrow> P s'"
  shows "P s \<Longrightarrow> for_each f is s = Inr s' \<Longrightarrow> P s'"
  by (induction "is" arbitrary: s) (auto simp: csm_bind_Inr intro: assms)

lemma csm_ok_wf: "csm_ok s \<Longrightarrow> csm_wf s"
  by (simp add: csm_ok_def coherent_def)

lemma csm_ok_reports:
  assumes "csm_ok s" "reports_changes s s'" "same_rest s s'"
  shows "csm_ok s'"
  using assms last_sent_other[of "status_changes s s'" "csm_calls s"] changes_no_notification same_restD[OF assms(3)]
  by (simp add: csm_ok_def reports_changes_def)

lemma csm_ok_set_cs: "csm_ok s \<Longrightarrow> set_cs_individual_operational_status st p s = Inr s' \<Longrightarrow> csm_ok s'"
  using set_cs_reports[of s st p] csm_ok_reports[of s] by (auto simp: csm_ok_def)

lemma set_evse_error: "\<not> evse_ok s e \<Longrightarrow> set_evse_individual_operational_status e st p s = Inl (EvseOutOfRange e)"
  by (simp add: set_evse_individual_operational_status_def write_evse_status_def check_evse)

lemma set_conn_error:
  "\<not> conn_ok s e c \<Longrightarrow> set_connector_individual_operational_status e c st p s = Inl (conn_error s e c)"
  by (simp add: set_connector_individual_operational_status_def write_connector_status_def check_conn)

lemma csm_ok_set_evse: "csm_ok s \<Longrightarrow> set_evse_individual_operational_status e st p s = Inr s' \<Longrightarrow> csm_ok s'"
  using set_evse_reports[of s e st p] set_evse_error[of s e st p] csm_ok_reports[of s]
  by (cases "evse_ok s e") (auto simp: csm_ok_def)

lemma csm_ok_set_conn: "csm_ok s \<Longrightarrow> set_connector_individual_operational_status e c st p s = Inr s' \<Longrightarrow> csm_ok s'"
  using set_conn_reports[of s e c st p] set_conn_error[of s e c st p] csm_ok_reports[of s]
  by (cases "conn_ok s e c") (auto simp: csm_ok_def)

lemma csm_ok_event:
  assumes "csm_ok s" "connector_submit_event sends e c ev s = Inr s'"
  shows "csm_ok s'"
proof (cases "conn_ok s e c")
  case True
  then show ?thesis
    using connector_event[OF csm_ok_wf[OF assms(1)] True, of sends ev] assms
    by (auto simp: csm_ok_def coherent_def last_sent_append)
next
  case False
  then show ?thesis using assms(2) by (simp add: connector_event_steps write_connector_status_def check_conn)
qed

lemma csm_ok_notify:
  assumes "csm_ok s" "send_status_notification_single_connector_internal sends only triggered e c s = Inr s'"
  shows "csm_ok s'"
proof (cases "conn_ok s e c")
  case True
  obtain s2 where s2: "s2 = s'" "same_states s s2" "csm_wf s2" "csm_calls s2 = csm_calls s @ notifications sends only triggered s e c"
    "\<forall>e' c'. conn_ok s e' c' \<longrightarrow>
       reported s2 e' c' = (if e' = e \<and> c' = c \<and> must_notify only s e c \<and> sends e c then conn_status s e c else reported s e' c')"
    using notify_connector[OF csm_ok_wf[OF assms(1)] True, of sends only triggered] assms(2) by auto
  have "coherent s2" using assms(1) s2(2,3) by (auto simp: csm_ok_def intro: coherent_same_states)
  then show ?thesis using s2 assms(1) same_statesD[OF s2(2)]
    by (auto simp: csm_ok_def notifications_def last_sent_append)
next
  case False
  then show ?thesis using assms(2) by (simp add: send_status_notification_single_connector_internal_def get_conn)
qed

lemma csm_ok_send_for_all:
  assumes "csm_ok s" "send_for_all sends only s = Inr s'"
  shows "csm_ok s'"
proof (rule for_each_keeps[where P = csm_ok, OF _ assms(1) assms(2)[unfolded send_for_all_def]])
  fix i s s'
  assume s: "csm_ok s" and "csm_bind (num_connectors i s) (\<lambda>n.
        for_each (send_status_notification_single_connector_internal sends only False i) [1..n] s) = Inr s'"
  then obtain n where "for_each (send_status_notification_single_connector_internal sends only False i) [1..n] s = Inr s'"
    unfolding csm_bind_Inr by blast
  from for_each_keeps[where P = csm_ok, OF csm_ok_notify s this] show "csm_ok s'" .
qed

lemma evse_change_no_notification: "Status_notification e c st t b \<notin> set (evse_change only s e')"
  by (auto simp: evse_change_def conn_change_def)

lemma csm_ok_trigger_all:
  assumes "csm_ok s" "trigger_all_effective_availability_changed_callbacks s = Inr s'"
  shows "csm_ok s'"
proof -
  define t where "t = (if cs_callback s then csm_do (Cs_changed (cs_individual_status s)) s else s)\<lparr>last_cs_effective_status := cs_individual_status s\<rparr>"
  have t: "csm_wf t" "evse_ok t = evse_ok s" "conn_ok t = conn_ok s" "num_evses t = num_evses s" "reported t = reported s"
    "last_cs_effective_status t = cs_individual_status s" "cs_individual_status t = cs_individual_status s"
    using assms(1) by (auto simp: t_def csm_ok_def coherent_def csm_wf_def csm_do_def evse_ok_def conn_ok_def num_evses_def flags_row_def
        reported_def fun_eq_iff)
  have calls: "last_sent (csm_calls t) e c = last_sent (csm_calls s) e c" for e c
    by (simp add: t_def csm_do_def last_sent_append)
  have run: "for_each (trigger_callbacks_evse False) [1..num_evses s] t = Inr s'"
    using assms(2) t(4) by (simp add: trigger_all_effective_availability_changed_callbacks_def trigger_callbacks_cs_def Let_def
        get_cs_individual_operational_status_def t_def[symmetric])
  obtain s2 where s2: "s2 = s'" "same_core t s2" "csm_wf s2"
    "csm_calls s2 = csm_calls t @ concat (map (evse_change False t) [1..num_evses s])"
    "\<forall>e'. evse_ok s e' \<longrightarrow> last_e s2 e' = eff_e t e'" "\<forall>e' c'. conn_ok s e' c' \<longrightarrow> last_c s2 e' c' = eff_c t e' c'"
    using trigger_evses[OF t(1), of "[1..num_evses s]" False] run evse_ids[of _ s] unfolding t(2,3) by (auto simp: conn_ok_def)
  have "last_sent (csm_calls s2) e c = last_sent (csm_calls t) e c" for e c
    unfolding s2(4) using evse_change_no_notification by (intro last_sent_other) auto
  then show ?thesis
    using s2 t assms(1) same_coreD[OF s2(2)] calls by (simp add: csm_ok_def coherent_def same_core_def)
qed

inductive csm_reachable :: "component_states \<Rightarrow> bool" where
  created: "new_ComponentStateManager m = Inr s \<Longrightarrow> csm_reachable s"
| cs_cb: "csm_reachable s \<Longrightarrow> csm_reachable (set_cs_effective_availability_changed_callback s)"
| evse_cb: "csm_reachable s \<Longrightarrow> csm_reachable (set_evse_effective_availability_changed_callback s)"
| connector_cb: "csm_reachable s \<Longrightarrow> csm_reachable (set_connector_effective_availability_changed_callback s)"
| trigger_all: "csm_reachable s \<Longrightarrow> trigger_all_effective_availability_changed_callbacks s = Inr s' \<Longrightarrow> csm_reachable s'"
| set_cs: "csm_reachable s \<Longrightarrow> set_cs_individual_operational_status st p s = Inr s' \<Longrightarrow> csm_reachable s'"
| set_evse: "csm_reachable s \<Longrightarrow> set_evse_individual_operational_status e st p s = Inr s' \<Longrightarrow> csm_reachable s'"
| set_connector: "csm_reachable s \<Longrightarrow> set_connector_operative_status e c st p s = Inr s' \<Longrightarrow> csm_reachable s'"
| restore: "csm_reachable s \<Longrightarrow> csm_reachable (restore_connector_operative_status e c s)"
| event: "csm_reachable s \<Longrightarrow> connector_submit_event sends e c ev s = Inr s' \<Longrightarrow> csm_reachable s'"
| send_all: "csm_reachable s \<Longrightarrow> send_status_notification_all_connectors sends s = Inr s' \<Longrightarrow> csm_reachable s'"
| send_changed: "csm_reachable s \<Longrightarrow> send_status_notification_changed_connectors sends s = Inr s' \<Longrightarrow> csm_reachable s'"
| send_single: "csm_reachable s \<Longrightarrow> send_status_notification_single_connector sends e c s = Inr s' \<Longrightarrow> csm_reachable s'"

lemma csm_ok_callbacks:
  assumes "csm_ok s"
  shows "csm_ok (s\<lparr>cs_callback := True\<rparr>)" "csm_ok (s\<lparr>evse_callback := True\<rparr>)" "csm_ok (s\<lparr>connector_callback := True\<rparr>)"
  using assms
  by (simp_all add: csm_ok_def coherent_def csm_wf_def evse_ok_def conn_ok_def num_evses_def flags_row_def reported_def last_e_def last_c_def
      eff_e_def eff_c_def evse_st_def conn_flags_def)

lemma reachable_csm_ok: "csm_reachable s \<Longrightarrow> csm_ok s"
proof (induction rule: csm_reachable.induct)
  case (created m s)
  then show ?case using new_csm_ok by blast
next
  case (restore s e c)
  then show ?case using csm_ok_set_conn[OF restore.IH]
    by (auto simp: restore_connector_operative_status_def csm_bind_Inr split: sum.split)
next
  case (event s sends e c ev s')
  then show ?case using csm_ok_event by blast
next
  case (trigger_all s s')
  then show ?case using csm_ok_trigger_all by blast
qed (auto simp: set_cs_effective_availability_changed_callback_def set_evse_effective_availability_changed_callback_def
    set_connector_effective_availability_changed_callback_def csm_ok_callbacks set_connector_operative_status_def
    send_status_notification_all_connectors_def send_status_notification_changed_connectors_def
    send_status_notification_single_connector_def intro: csm_ok_set_cs csm_ok_set_evse csm_ok_set_conn csm_ok_send_for_all csm_ok_notify)

text \<open>
  (C33) The cache of reported states always agrees with the states: in every reachable state the last
  effective status of every component is its present one, and the last reported status of a connector is the
  one in the last notification that was sent for it.
\<close>

theorem reported_states_are_current:
  assumes "csm_reachable s"
  shows "last_cs_effective_status s = get_cs_individual_operational_status s \<and>
    last_evse_effective_status e s = get_evse_effective_operational_status e s \<and>
    last_connector_effective_status e c s =
      csm_bind (check_evse_and_connector_id e c s) (\<lambda>_. get_connector_effective_operational_status e c s) \<and>
    last_connector_reported_status e c s =
      csm_bind (check_evse_and_connector_id e c s) (\<lambda>_. Inr (last_sent (csm_calls s) e c))"
proof -
  have ok: "csm_ok s" using assms by (rule reachable_csm_ok)
  then have wf: "csm_wf s" by (rule csm_ok_wf)
  show ?thesis
    using ok by (simp add: csm_ok_def coherent_def get_cs_individual_operational_status_def get_last_evse[OF wf] get_eff_evse
        get_last_conn[OF wf] get_eff_conn get_reported[OF wf] check_conn)
qed

definition sample_states :: "int \<Rightarrow> component_states csm_result" where
  "sample_states n = new_ComponentStateManager [(1, n)]"

lemma sample_states_run:
  "\<exists>s. sample_states n = Inr s \<and> csm_reachable s \<and> num_evses s = 1 \<and> conn_ids s 1 = [1..int (nat n)] \<and>
     cs_individual_status s = Operative \<and> individual_statuses s = [(Operative, replicate (nat n) initial_connector)]"
proof -
  let ?b = "\<lparr>cs_individual_status = Operative, individual_statuses = [(Operative, replicate (nat n) initial_connector)],
        last_cs_effective_status = Operative, last_effective_statuses = [], last_connector_reported_statuses = [], cs_callback = False,
        evse_callback = False, connector_callback = False, csm_calls = []\<rparr> :: component_states"
  have "sample_states n = for_each cache_evse [1] ?b"
    by (simp add: sample_states_def new_ComponentStateManager_def read_all_states_from_database_or_set_defaults_def
        initialize_reported_state_cache_def get_cs_individual_operational_status_def num_evses_def)
  then have "\<exists>s. sample_states n = Inr s \<and> cs_individual_status s = Operative \<and>
      individual_statuses s = [(Operative, replicate (nat n) initial_connector)]"
    using cache_evses[of "[1]" ?b] by (simp add: evse_ok_def num_evses_def)
  then obtain s where s: "sample_states n = Inr s" "individual_statuses s = [(Operative, replicate (nat n) initial_connector)]"
    "cs_individual_status s = Operative" by blast
  moreover have "csm_reachable s" using s(1) csm_reachable.created unfolding sample_states_def by blast
  ultimately show ?thesis by (simp add: num_evses_def conn_ids_def flags_row_def)
qed

theorem reported_states_are_current_witness:
  "\<exists>s. sample_states 2 = Inr s \<and> last_connector_reported_status 1 2 s = Inr (last_sent (csm_calls s) 1 2)"
proof -
  obtain s where s: "sample_states 2 = Inr s" "csm_reachable s" "num_evses s = 1" "conn_ids s 1 = [1..2]"
    using sample_states_run[of 2] by auto
  have "evse_ok s 1" using s(3) by (simp add: evse_ok_def)
  then have "conn_ok s 1 2" using conn_ids_ok[of s 1 2] s(4) by simp
  then show ?thesis using reported_states_are_current[OF s(2), of 1 2] s(1) by (simp add: check_conn)
qed

text \<open>
  (C32) Every change of the operational status of the station, of a charger or of a connector reports exactly the
  components whose effective status it changes, once each, the station first and each charger before its connectors,
  and an identifier that does not exist is rejected with an exception.
\<close>

theorem availability_changes_are_reported:
  assumes "csm_reachable s"
  shows "(\<exists>s'. set_cs_individual_operational_status st p s = Inr s' \<and> cs_individual_status s' = st \<and>
      csm_calls s' = csm_calls s @ status_changes s s') \<and>
    (if evse_ok s e
     then \<exists>s'. set_evse_individual_operational_status e st p s = Inr s' \<and> evse_st s' e = st \<and>
       csm_calls s' = csm_calls s @ status_changes s s'
     else set_evse_individual_operational_status e st p s = Inl (EvseOutOfRange e)) \<and>
    (if conn_ok s e c
     then \<exists>s'. set_connector_individual_operational_status e c st p s = Inr s' \<and>
       individual_operational_status (conn_flags s' e c) = st \<and> csm_calls s' = csm_calls s @ status_changes s s'
     else set_connector_individual_operational_status e c st p s = Inl (conn_error s e c))"
proof -
  have c: "coherent s" using reachable_csm_ok[OF assms] by (simp add: csm_ok_def)
  have "evse_ok s e \<Longrightarrow> \<exists>s'. set_evse_individual_operational_status e st p s = Inr s' \<and> evse_st s' e = st \<and>
       csm_calls s' = csm_calls s @ status_changes s s'"
    using set_evse_reports[OF c, of e st p] by (auto simp: reports_changes_def)
  moreover have "conn_ok s e c \<Longrightarrow> \<exists>s'. set_connector_individual_operational_status e c st p s = Inr s' \<and>
       individual_operational_status (conn_flags s' e c) = st \<and> csm_calls s' = csm_calls s @ status_changes s s'"
    using set_conn_reports[OF c, of e c st p] by (fastforce simp: reports_changes_def)
  ultimately show ?thesis
    using set_cs_reports[OF c, of st p] set_evse_error set_conn_error by (auto simp: reports_changes_def)
qed

definition with_callbacks :: "component_states \<Rightarrow> component_states" where
  "with_callbacks s = set_connector_effective_availability_changed_callback (set_evse_effective_availability_changed_callback
     (set_cs_effective_availability_changed_callback s))"

lemma status_not_operational: "to_connector_status (f\<lparr>individual_operational_status := v\<rparr>) = to_connector_status f"
  by (simp add: to_connector_status_def)

lemma with_callbacks_fields:
  "evse_ok (with_callbacks s) = evse_ok s" "conn_ok (with_callbacks s) = conn_ok s" "conn_status (with_callbacks s) = conn_status s"
  "reported (with_callbacks s) = reported s" "eff_e (with_callbacks s) = eff_e s" "eff_c (with_callbacks s) = eff_c s"
  "connector_callback (with_callbacks s)"
  by (auto simp: with_callbacks_def set_cs_effective_availability_changed_callback_def set_evse_effective_availability_changed_callback_def
        set_connector_effective_availability_changed_callback_def evse_ok_def conn_ok_def num_evses_def flags_row_def conn_status_def
        conn_flags_def reported_def eff_e_def eff_c_def evse_st_def fun_eq_iff)

lemma sample_with_callbacks:
  "\<exists>s. sample_states 2 = Inr s \<and> csm_reachable (with_callbacks s) \<and> conn_ok (with_callbacks s) 1 1 \<and> conn_ok (with_callbacks s) 1 2 \<and>
     evse_ok (with_callbacks s) 1 \<and>
     conn_status (with_callbacks s) 1 2 = Status_Available \<and> reported (with_callbacks s) 1 2 = Status_Available \<and>
     eff_e (with_callbacks s) 1 = Operative \<and> eff_c (with_callbacks s) 1 2 = Operative"
proof -
  obtain s where s: "sample_states 2 = Inr s" "csm_reachable s" "num_evses s = 1" "conn_ids s 1 = [1..2]"
    "cs_individual_status s = Operative" "individual_statuses s = [(Operative, [initial_connector, initial_connector])]"
    using sample_states_run[of 2] by (auto simp: eval_nat_numeral)
  have "eff_e s 1 = Operative" "eff_c s 1 2 = Operative"
    using s(5,6) by (simp_all add: eff_e_def eff_c_def evse_st_def conn_flags_def flags_row_def initial_connector_def)
  moreover have "evse_ok s 1" using s(3) by (simp add: evse_ok_def)
  moreover have "conn_ok s 1 1" "conn_ok s 1 2"
    using conn_ids_ok[OF calculation(3), of 1] conn_ids_ok[OF calculation(3), of 2] s(4) by simp_all
  moreover have "conn_status s 1 2 = Status_Available" "reported s 1 2 = Status_Available"
    using new_csm_ok[of "[(1, 2)]" s] s(1) calculation unfolding sample_states_def by auto
  moreover have "csm_reachable (with_callbacks s)" unfolding with_callbacks_def
    by (intro csm_reachable.connector_cb csm_reachable.evse_cb csm_reachable.cs_cb s(2))
  ultimately show ?thesis using s(1) by (intro exI[of _ s] conjI) (simp_all add: with_callbacks_fields)
qed

theorem availability_changes_are_reported_witness:
  "\<exists>s s'. csm_reachable s \<and> set_cs_individual_operational_status Inoperative False s = Inr s' \<and>
     set_evse_individual_operational_status 7 Inoperative False s = Inl (EvseOutOfRange 7) \<and>
     csm_calls s' = csm_calls s @ status_changes s s' \<and> Cs_changed Inoperative \<in> set (csm_calls s')"
proof -
  obtain s0 where s0: "csm_reachable s0" "num_evses s0 = 1" "cs_individual_status s0 = Operative"
    using sample_states_run[of 2] by auto
  let ?s = "with_callbacks s0"
  have r: "csm_reachable ?s" unfolding with_callbacks_def
    by (intro csm_reachable.connector_cb csm_reachable.evse_cb csm_reachable.cs_cb s0(1))
  have f: "cs_callback ?s" "cs_individual_status ?s = Operative" "\<not> evse_ok ?s 7"
    using s0(2,3) by (simp_all add: with_callbacks_fields(1)) (simp_all add: with_callbacks_def set_cs_effective_availability_changed_callback_def
        set_evse_effective_availability_changed_callback_def set_connector_effective_availability_changed_callback_def evse_ok_def)
  obtain s' where "set_cs_individual_operational_status Inoperative False ?s = Inr s'" "cs_individual_status s' = Inoperative"
      "csm_calls s' = csm_calls ?s @ status_changes ?s s'" "set_evse_individual_operational_status 7 Inoperative False ?s = Inl (EvseOutOfRange 7)"
    using availability_changes_are_reported[OF r, of Inoperative False 7 1] f(3) by auto
  then show ?thesis using r f(1,2) by (intro exI[of _ ?s] exI[of _ s']) (simp add: status_changes_def)
qed

text \<open>
  The CSMS is never told that a connector it has made inoperative is so: the change sends no notification, a
  notification of all changes leaves the connector out, one that is asked for repeats the status from before, and the
  effective status of the connector is that one too. Only the callback of the firmware, which prints, is called.
\<close>

theorem inoperative_is_never_notified:
  assumes "csm_reachable s" "conn_ok s e c" "last_connector_reported_status e c s = Inr st" "get_connector_effective_status e c s = Inr st"
    and "connector_callback s" "get_connector_effective_operational_status e c s = Inr Operative"
  shows "\<exists>s1 s2 s3 ns. set_connector_operative_status e c Inoperative p s = Inr s1 \<and>
    get_connector_effective_operational_status e c s1 = Inr Inoperative \<and> get_connector_effective_status e c s1 = Inr st \<and>
    csm_calls s1 = csm_calls s @ [Connector_changed e c Inoperative] \<and>
    send_status_notification_changed_connectors sends s1 = Inr s2 \<and> csm_calls s2 = csm_calls s1 @ ns \<and>
    (\<forall>st' t b. Status_notification e c st' t b \<notin> set ns) \<and>
    send_status_notification_single_connector sends e c s1 = Inr s3 \<and>
    csm_calls s3 = csm_calls s1 @ [Status_notification e c st True (sends e c)]"
proof -
  have ok: "csm_ok s" using assms(1) by (rule reachable_csm_ok)
  then have coh: "coherent s" by (simp add: csm_ok_def)
  have e: "evse_ok s e" using assms(2) by (simp add: conn_ok_def)
  have before: "eff_c s e c = Operative" "eff_e s e = Operative" "conn_status s e c = st" "reported s e c = st"
    using assms(2-4,6) e get_eff_conn[OF assms(2)] get_reported[OF csm_ok_wf[OF ok]]
    by (auto simp: eff_c_def get_connector_effective_status_def check_conn get_eff_evse get_conn conn_status_def
        split: if_splits OperationalStatusEnum.splits intro: OperationalStatusEnum.exhaust[of "eff_e s e"])
  obtain s1 where s1: "set_connector_individual_operational_status e c Inoperative p s = Inr s1" "reports_changes s s1" "same_rest s s1"
    "cs_individual_status s1 = cs_individual_status s" "\<forall>e'. evse_ok s e' \<longrightarrow> evse_st s1 e' = evse_st s e'"
    "\<forall>e' c'. conn_ok s e' c' \<longrightarrow> conn_flags s1 e' c' =
       (if e' = e \<and> c' = c then (conn_flags s e c)\<lparr>individual_operational_status := Inoperative\<rparr> else conn_flags s e' c')"
    using set_conn_reports[OF coh assms(2), of Inoperative p] by blast
  note r = same_restD[OF s1(3)]
  have effe: "eff_e s1 e' = eff_e s e'" if "evse_ok s e'" for e' using that s1(4,5) by (simp add: eff_e_def)
  have effc: "eff_c s1 e' c' = (if e' = e \<and> c' = c then Inoperative else eff_c s e' c')" if "conn_ok s e' c'" for e' c'
  proof -
    have "evse_ok s e'" using that by (simp add: conn_ok_def)
    then show ?thesis using that s1(6) effe by (auto simp: eff_c_def)
  qed
  have st: "conn_status s1 e c = st" using s1(6) assms(2) before(3) by (simp add: conn_status_def status_not_operational)
  have wf: "csm_wf s1" and ok1: "conn_ok s1 e c" "evse_ok s1 e" "reported s1 e c = st"
    using s1(2) assms(2) e before r by (simp_all add: reports_changes_def coherent_def)
  have "connector_changes s s1 e = [Connector_changed e c Inoperative]"
    unfolding connector_changes_def using effc before(1) assms(2,5) conn_ids_ok[OF e] by (subst concat_single[of _ c]) auto
  moreover have "concat (map (evse_changes s s1) [1..num_evses s]) = evse_changes s s1 e"
    using e effe effc by (intro concat_single) (auto simp: evse_ok_def intro!: no_evse_changes)
  ultimately have calls: "csm_calls s1 = csm_calls s @ [Connector_changed e c Inoperative]"
    using s1(2,4) effe[OF e] by (simp add: reports_changes_def status_changes_def evse_changes_def)
  have eff: "get_connector_effective_operational_status e c s1 = Inr Inoperative" "get_connector_effective_status e c s1 = Inr st"
    using get_eff_conn[OF ok1(1)] effc[OF assms(2)] ok1(1,2) effe[OF e] before(2) st
    by (simp_all add: get_connector_effective_status_def check_conn get_eff_evse get_conn conn_status_def)
  obtain s3 where "send_status_notification_single_connector sends e c s1 = Inr s3"
    "csm_calls s3 = csm_calls s1 @ [Status_notification e c st True (sends e c)]"
    using notify_connector[OF wf ok1(1), of sends False True] st
    by (auto simp: send_status_notification_single_connector_def notifications_def must_notify_def)
  moreover obtain s2 where "send_status_notification_changed_connectors sends s1 = Inr s2"
    "csm_calls s2 = csm_calls s1 @ concat (map (\<lambda>e. concat (map (notifications sends True False s1 e) (conn_ids s1 e))) [1..num_evses s1])"
    using send_for_all_result[OF wf, of sends True] by (auto simp: send_status_notification_changed_connectors_def)
  moreover have "Status_notification e c st' t b \<notin>
      set (concat (map (\<lambda>e. concat (map (notifications sends True False s1 e) (conn_ids s1 e))) [1..num_evses s1]))" for st' t b
    using ok1(3) st by (auto simp: notifications_def must_notify_def)
  ultimately show ?thesis using s1(1) calls eff by (auto simp: set_connector_operative_status_def)
qed

theorem inoperative_is_never_notified_witness:
  "\<exists>s s1. set_connector_operative_status 1 2 Inoperative True (with_callbacks s) = Inr s1 \<and>
     get_connector_effective_status 1 2 s1 = Inr Status_Available \<and>
     csm_calls s1 = csm_calls (with_callbacks s) @ [Connector_changed 1 2 Inoperative]"
proof -
  obtain s where s: "csm_reachable (with_callbacks s)" "conn_ok (with_callbacks s) 1 2" "evse_ok (with_callbacks s) 1"
    "conn_status (with_callbacks s) 1 2 = Status_Available" "reported (with_callbacks s) 1 2 = Status_Available"
    "eff_e (with_callbacks s) 1 = Operative" "eff_c (with_callbacks s) 1 2 = Operative"
    using sample_with_callbacks by blast
  have "last_connector_reported_status 1 2 (with_callbacks s) = Inr Status_Available"
    "get_connector_effective_status 1 2 (with_callbacks s) = Inr Status_Available"
    "connector_callback (with_callbacks s)"
    "get_connector_effective_operational_status 1 2 (with_callbacks s) = Inr Operative"
    using s get_reported[OF csm_ok_wf[OF reachable_csm_ok[OF s(1)]]] get_eff_conn[OF s(2)]
    by (simp_all add: get_connector_effective_status_def check_conn get_eff_evse get_conn conn_status_def with_callbacks_fields(7))
  then show ?thesis using inoperative_is_never_notified[OF s(1,2), of Status_Available True] by blast
qed

text \<open>
  Whatever events a connector receives, its status is that of its flags after them: a fault takes precedence over
  unavailability, occupation and reservation, in this order.
\<close>

theorem connector_status_after_events:
  assumes "csm_reachable s" "conn_ok s e c"
  shows "\<exists>s'. submit_all (connector_submit_event sends e c) evs s = Inr s' \<and>
    individual_connector_status e c s' = Inr (fold flags_after evs (conn_flags s e c))"
proof -
  obtain s' where "submit_all (connector_submit_event sends e c) evs s = Inr s'" "csm_wf s' \<and> conn_ok s' e c"
    "conn_flags s' e c = fold flags_after evs (conn_flags s e c)"
    using connector.submit_all_flags[of s e c sends evs] csm_ok_wf[OF reachable_csm_ok[OF assms(1)]] assms(2) by blast
  then show ?thesis by (simp add: get_conn)
qed

text \<open>What is made inoperative for good is operative again when its status is restored.\<close>

theorem persisted_status_is_lost:
  assumes "csm_reachable s" "conn_ok s e c" "set_connector_operative_status e c Inoperative True s = Inr s'"
  shows "get_connector_individual_operational_status e c (restore_connector_operative_status e c s') = Inr Operative"
proof -
  have "csm_reachable s'" using assms(1,3) by (rule csm_reachable.set_connector)
  then have coh: "coherent s'" using reachable_csm_ok by (simp add: csm_ok_def)
  have "coherent s" using reachable_csm_ok[OF assms(1)] by (simp add: csm_ok_def)
  then have ok: "conn_ok s' e c"
    using set_conn_reports[OF _ assms(2), of Inoperative True] assms(2,3) by (auto simp: set_connector_operative_status_def same_rest_def)
  obtain s2 where s2: "set_connector_individual_operational_status e c Operative False s' = Inr s2" "same_rest s' s2"
    "conn_flags s2 e c = (conn_flags s' e c)\<lparr>individual_operational_status := Operative\<rparr>"
    using set_conn_reports[OF coh ok, of Operative False] ok by auto
  then show ?thesis using ok same_restD(3)[OF s2(2)]
    by (simp add: restore_connector_operative_status_def get_connector_persisted_operational_status_def check_conn
        get_connector_availability_def get_connector_individual_operational_status_def get_conn)
qed

end
