(* ===== verification/Logging.thy ===== *)
theory Logging
  imports EVSE_Time "HOL-Library.Char_ord"
begin

text \<open>
  The logging of messages: \<open>aws_iot/logging/logging.c\<close>, which \<open>configPRINTF\<close> calls, and the logging task of
  \<open>source/EVSE_Utils.c\<close>, which prints what the calls put into its queue. A buffer of the heap is a number and
  its contents; the heap hands it out with arbitrary contents. What the format of the caller makes of its
  arguments is an argument, \<open>None\<close> for an encoding error, after which the buffer is taken to be unchanged. \<open>None\<close> as a result is an endless loop of
  \<open>configASSERT\<close> or the use of a queue that does not exist.
\<close>

section \<open>Printing into a buffer\<close>

abbreviation (input) configLOGGING_MAX_MESSAGE_LENGTH :: u32 where "configLOGGING_MAX_MESSAGE_LENGTH \<equiv> 256"
abbreviation (input) LOGGING_QUEUE_LENGTH :: nat where "LOGGING_QUEUE_LENGTH \<equiv> 256"
abbreviation (input) NUL :: char where "NUL \<equiv> CHR 0x00"

text \<open>
  What \<open>vsnprintf\<close> answers and writes for a result of the formatting; the comparison of its \<open>int\<close> with the
  \<open>size_t\<close> \<open>n\<close> in \<open>vsnprintf_safe\<close> is one of unsigned numbers.
\<close>

definition vsnprintf_ret :: "string option \<Rightarrow> u32" where
  "vsnprintf_ret r = (case r of None \<Rightarrow> - 1 | Some t \<Rightarrow> of_nat (length t))"

definition vsnprintf_safe :: "u32 \<Rightarrow> string option \<Rightarrow> u32" where
  "vsnprintf_safe n r =
     (let ret = vsnprintf_ret r
      in if n \<le> ret then n - 1
         else if sint ret < 0 then 0
         else ret)"

definition write_text :: "char list \<Rightarrow> nat \<Rightarrow> nat \<Rightarrow> string \<Rightarrow> char list" where
  "write_text buf off n t =
     (let t = take (n - 1) t in take off buf @ t @ [NUL] @ drop (off + length t + 1) buf)"

text \<open>A call of \<open>snprintf_safe\<close> or \<open>vsnprintf_safe\<close> on the rest of the buffer.\<close>

definition print_part :: "string option \<Rightarrow> char list \<times> u32 \<Rightarrow> char list \<times> u32" where
  "print_part r b =
     (let (buf, xLength) = b;
          n = configLOGGING_MAX_MESSAGE_LENGTH - xLength
      in (case r of None \<Rightarrow> buf | Some t \<Rightarrow> write_text buf (unat xLength) (unat n) t, xLength + vsnprintf_safe n r))"

definition print_if :: "bool \<Rightarrow> string option \<Rightarrow> char list \<times> u32 \<Rightarrow> char list \<times> u32" where
  "print_if wanted r b = (if wanted \<and> snd b < configLOGGING_MAX_MESSAGE_LENGTH then print_part r b else b)"

section \<open>State\<close>

record logger = logging +
  message_number :: u32
  log_queue :: "(nat \<times> char list) list"
  log_buffers :: "nat set"
  console :: "string list"

text \<open>
  \<open>log_buffers\<close> are the buffers allocated, \<open>console\<close> the format strings \<open>DbgConsole_Printf\<close> was called with.
\<close>

record logging_env =
  le_task_name :: string
  le_scheduler_started :: bool
  le_ticks :: u32
  le_buffer :: "(nat \<times> char list) option"

definition c_string :: "char list \<Rightarrow> string" where
  "c_string buf = takeWhile (\<lambda>c. c \<noteq> NUL) buf"

definition after_last :: "char \<Rightarrow> string \<Rightarrow> string" where
  "after_last c s = rev (takeWhile (\<lambda>d. d \<noteq> c) (rev s))"

definition file_name :: "string \<Rightarrow> string" where
  "file_name pcFile =
     (if CHR 0x5C \<in> set pcFile then after_last (CHR 0x5C) pcFile
      else if CHR ''/'' \<in> set pcFile then after_last (CHR ''/'') pcFile
      else pcFile)"

definition level_string :: "u8 \<Rightarrow> string option" where
  "level_string level =
     (if level = 1 then Some ''ERROR'' else if level = 2 then Some ''WARN''
      else if level = 3 then Some ''INFO'' else if level = 4 then Some ''DEBUG'' else None)"

section \<open>A message\<close>

definition metadata :: "logging_env \<Rightarrow> u32 \<Rightarrow> string" where
  "metadata e number =
     show_nat (unat number) @ '' '' @ show_nat (unat (le_ticks e)) @ '' ['' @
     (if le_scheduler_started e then le_task_name e else ''None'') @ ''] ''"

definition level_part :: "u8 \<Rightarrow> string" where
  "level_part level = (case level_string level of None \<Rightarrow> [] | Some s \<Rightarrow> ''['' @ s @ ''] '')"

definition file_part :: "string option \<Rightarrow> nat \<Rightarrow> string" where
  "file_part pcFile line = (case pcFile of None \<Rightarrow> [] | Some f \<Rightarrow> ''['' @ file_name f @ '':'' @ show_nat line @ ''] '')"

definition xQueueSend_log :: "nat \<times> char list \<Rightarrow> logger \<Rightarrow> (bool \<times> logger) option" where
  "xQueueSend_log item l =
     (case xQueue l of
        None \<Rightarrow> None
      | Some q \<Rightarrow>
          (if q \<notin> live_queues l then None
           else if length (log_queue l) < LOGGING_QUEUE_LENGTH then Some (True, l\<lparr>log_queue := log_queue l @ [item]\<rparr>)
           else Some (False, l)))"

definition send_buffer :: "nat \<Rightarrow> char list \<times> u32 \<Rightarrow> logger \<Rightarrow> logger option" where
  "send_buffer p b l =
     (let (buf, xLength) = b
      in if \<not> xLength < configLOGGING_MAX_MESSAGE_LENGTH then None
         else (let buf = buf[unat xLength := NUL]
               in if 0 < xLength
                  then (case xQueueSend_log (p, buf) l of
                          None \<Rightarrow> None
                        | Some (True, l) \<Rightarrow> Some l
                        | Some (False, l) \<Rightarrow> Some (l\<lparr>log_buffers := log_buffers l - {p}\<rparr>))
                  else Some (l\<lparr>log_buffers := log_buffers l - {p}\<rparr>)))"

definition print_metadata :: "logging_env \<Rightarrow> string \<Rightarrow> char list \<Rightarrow> logger \<Rightarrow> (char list \<times> u32) \<times> logger" where
  "print_metadata e pcFormat contents l =
     (if pcFormat \<noteq> [CHR 0x0A]
      then (print_part (Some (metadata e (message_number l))) (contents, 0), l\<lparr>message_number := message_number l + 1\<rparr>)
      else ((contents, 0), l))"

text \<open>
  \<open>CRLF\<close> is added unless the characters after the end of the format, of which there are none, are \<open>CRLF\<close>.
  The line number of a source file is not negative as an \<open>int\<close>.
\<close>

definition CRLF :: string where
  "CRLF = [CHR 0x0D, CHR 0x0A]"

definition prvLoggingPrintfCommon ::
    "logging_env \<Rightarrow> u8 \<Rightarrow> string option \<Rightarrow> nat \<Rightarrow> string option \<Rightarrow> string option \<Rightarrow> logger \<Rightarrow> logger option" where
  "prvLoggingPrintfCommon e usLoggingLevel pcFile fileLineNo pcFormat formatted l =
     (if 4 < usLoggingLevel then None
      else case pcFormat of
        None \<Rightarrow> None
      | Some fmt \<Rightarrow>
          (case le_buffer e of
             None \<Rightarrow> Some l
           | Some (p, contents) \<Rightarrow>
               (let l = l\<lparr>log_buffers := insert p (log_buffers l)\<rparr>;
                    (b, l) = print_metadata e fmt contents l;
                    b = print_if (level_string usLoggingLevel \<noteq> None) (Some (level_part usLoggingLevel)) b;
                    file = (pcFile \<noteq> None \<and> snd b < configLOGGING_MAX_MESSAGE_LENGTH);
                    b = print_if (pcFile \<noteq> None) (Some (file_part pcFile fileLineNo)) b
                in if file \<and> snd b = 0 then None
                   else (let b = print_if True formatted b;
                             ulFormatLen = length fmt;
                             b = print_if (2 \<le> ulFormatLen \<and> take 2 (drop ulFormatLen fmt) \<noteq> CRLF) (Some CRLF) b
                         in send_buffer p b l))))"

definition vLoggingPrintfError :: "logging_env \<Rightarrow> string option \<Rightarrow> string option \<Rightarrow> logger \<Rightarrow> logger option" where
  "vLoggingPrintfError e pcFormat formatted l = prvLoggingPrintfCommon e 1 None 0 pcFormat formatted l"

definition vLoggingPrintfWarn :: "logging_env \<Rightarrow> string option \<Rightarrow> string option \<Rightarrow> logger \<Rightarrow> logger option" where
  "vLoggingPrintfWarn e pcFormat formatted l = prvLoggingPrintfCommon e 2 None 0 pcFormat formatted l"

definition vLoggingPrintfInfo :: "logging_env \<Rightarrow> string option \<Rightarrow> string option \<Rightarrow> logger \<Rightarrow> logger option" where
  "vLoggingPrintfInfo e pcFormat formatted l = prvLoggingPrintfCommon e 3 None 0 pcFormat formatted l"

definition vLoggingPrintfDebug :: "logging_env \<Rightarrow> string option \<Rightarrow> string option \<Rightarrow> logger \<Rightarrow> logger option" where
  "vLoggingPrintfDebug e pcFormat formatted l = prvLoggingPrintfCommon e 4 None 0 pcFormat formatted l"

definition vLoggingPrintfWithFileAndLine ::
    "logging_env \<Rightarrow> string option \<Rightarrow> nat \<Rightarrow> string option \<Rightarrow> string option \<Rightarrow> logger \<Rightarrow> logger option" where
  "vLoggingPrintfWithFileAndLine e pcFile fileLineNo pcFormat formatted l =
     (if pcFile = None then None else prvLoggingPrintfCommon e 0 pcFile fileLineNo pcFormat formatted l)"

definition vLoggingPrintf :: "logging_env \<Rightarrow> string option \<Rightarrow> string option \<Rightarrow> logger \<Rightarrow> logger option" where
  "vLoggingPrintf e pcFormat formatted l = prvLoggingPrintfCommon e 0 None 0 pcFormat formatted l"

definition vLoggingPrint :: "logging_env \<Rightarrow> string \<Rightarrow> logger \<Rightarrow> logger" where
  "vLoggingPrint e pcMessage l =
     (case le_buffer e of
        None \<Rightarrow> l
      | Some (p, contents) \<Rightarrow>
          (let l = l\<lparr>log_buffers := insert p (log_buffers l)\<rparr>;
               pcPrintString = pcMessage;
               l = l\<lparr>console := console l @ [pcPrintString]\<rparr>
           in l\<lparr>log_buffers := log_buffers l - {p}\<rparr>))"

text \<open>One turn of the logging task; without a message it waits.\<close>

definition prvLoggingTask :: "logger \<Rightarrow> logger" where
  "prvLoggingTask l =
     (case log_queue l of
        [] \<Rightarrow> l
      | (p, buf) # q \<Rightarrow>
          (let l = l\<lparr>log_queue := q\<rparr>;
               l = l\<lparr>console := console l @ [c_string buf]\<rparr>
           in l\<lparr>log_buffers := log_buffers l - {p}\<rparr>))"

section \<open>What is sent\<close>

definition log_text :: "logging_env \<Rightarrow> u8 \<Rightarrow> string option \<Rightarrow> nat \<Rightarrow> string \<Rightarrow> string \<Rightarrow> logger \<Rightarrow> string" where
  "log_text e level pcFile line fmt text l =
     (if fmt \<noteq> [CHR 0x0A] then metadata e (message_number l) else []) @ level_part level @ file_part pcFile line @ text @
     (if 2 \<le> length fmt then CRLF else [])"

text \<open>\<open>holds T b\<close>: the buffer begins with the text \<open>T\<close>, cut to 255 characters.\<close>

definition holds :: "string \<Rightarrow> char list \<times> u32 \<Rightarrow> bool" where
  "holds T b \<longleftrightarrow> length (fst b) = 256 \<and> unat (snd b) = min 255 (length T) \<and> take (unat (snd b)) (fst b) = take 255 T"

lemma unat_of_length: "length t < 2 ^ 31 \<Longrightarrow> unat (of_nat (length t) :: u32) = length t"
  by (simp add: unsigned_of_nat take_bit_nat_eq_self)

lemma sint_of_length:
  assumes "length t < 2 ^ 31"
  shows "\<not> sint (of_nat (length t) :: u32) < 0"
proof -
  have "uint (of_nat (length t) :: u32) = int (length t)" using unat_of_length[OF assms] by (simp add: uint_nat)
  moreover have "signed_take_bit 31 (int (length t)) = int (length t)" using assms by (intro signed_take_bit_int_eq_self) auto
  ultimately show ?thesis by (simp add: sint_uint)
qed

lemma vsnprintf_safe_text:
  assumes "length t < 2 ^ 31" "0 < n"
  shows "unat (vsnprintf_safe n (Some t)) = min (length t) (unat n - 1)"
proof -
  have c: "n \<le> (of_nat (length t) :: u32) \<longleftrightarrow> unat n \<le> length t"
    using unat_of_length[OF assms(1)] by (simp add: word_le_nat_alt)
  have "unat (n - 1) = unat n - 1" using assms(2) by (simp add: unat_minus_one word_gt_0)
  then show ?thesis using unat_of_length[OF assms(1)] sint_of_length[OF assms(1)] assms(2)
    by (auto simp: vsnprintf_safe_def vsnprintf_ret_def Let_def c min_def word_less_nat_alt)
qed

lemma print_part_holds:
  assumes "holds T b" "length t < 2 ^ 31"
  shows "holds (T @ t) (print_part (Some t) b)"
proof -
  obtain buf n where b: "b = (buf, n)" by (cases b)
  have h: "length buf = 256" "unat n = min 255 (length T)" "take (unat n) buf = take 255 T"
    using assms(1) unfolding holds_def b fst_conv snd_conv by blast+
  have n: "unat n \<le> 255" using h(2) by simp
  have r: "unat (256 - n) = 256 - unat n" using n by (subst unat_sub) (simp_all add: word_le_nat_alt)
  then have pos: "0 < 256 - n" using n by (simp add: word_less_nat_alt)
  let ?k = "min (length t) (255 - unat n)"
  have v: "unat (vsnprintf_safe (256 - n) (Some t)) = ?k"
    using vsnprintf_safe_text[OF assms(2) pos] r by simp
  then have s: "unat (n + vsnprintf_safe (256 - n) (Some t)) = unat n + ?k"
    using n by (subst unat_add_lem[THEN iffD1]) auto
  have "take 255 (T @ t) = take 255 T @ take ?k t"
    using h(2) by (auto simp: min_def)
  moreover have "unat n + ?k = min 255 (length (T @ t))" using h(2) by (auto simp: min_def)
  moreover have "length (write_text buf (unat n) (unat (256 - n)) t) = 256"
    using h(1) n r by (auto simp: write_text_def Let_def min_def)
  moreover have "take (unat n + ?k) (write_text buf (unat n) (unat (256 - n)) t) = take (unat n) buf @ take ?k t"
    using h(1) n r by (simp add: write_text_def Let_def min.commute)
  ultimately show ?thesis using s h(3) by (simp add: holds_def b print_part_def Let_def)
qed

lemma print_if_holds:
  assumes "holds T b" "length t < 2 ^ 31" "\<not> wanted \<Longrightarrow> t = []"
  shows "holds (T @ t) (print_if wanted (Some t) b)"
proof -
  have "snd b < 256" using assms(1) by (simp add: holds_def word_less_nat_alt)
  then show ?thesis using print_part_holds[OF assms(1,2)] assms(1,3) by (auto simp: print_if_def)
qed

lemma crlf_check: "take 2 (drop (length fmt) fmt) \<noteq> CRLF"
  by (simp add: CRLF_def)

definition queue_ready :: "logger \<Rightarrow> bool" where
  "queue_ready l \<longleftrightarrow> (\<exists>q. xQueue l = Some q \<and> q \<in> live_queues l) \<and> length (log_queue l) < LOGGING_QUEUE_LENGTH"

lemma message_buffer:
  assumes "le_buffer e = Some (p, contents)" "length contents = 256" "level \<le> 4"
    and "length text < 2 ^ 31" "length (metadata e (message_number l)) < 2 ^ 31" "length (file_part pcFile line) < 2 ^ 31"
  shows "\<exists>b l1. holds (log_text e level pcFile line fmt text l) b \<and>
    prvLoggingPrintfCommon e level pcFile line (Some fmt) (Some text) l = send_buffer p b l1 \<and>
    l1 = l\<lparr>log_buffers := insert p (log_buffers l),
           message_number := (if fmt \<noteq> [CHR 0x0A] then message_number l + 1 else message_number l)\<rparr>"
proof -
  let ?m = "if fmt \<noteq> [CHR 0x0A] then metadata e (message_number l) else []"
  let ?b0 = "if fmt \<noteq> [CHR 0x0A] then print_part (Some (metadata e (message_number l))) (contents, 0) else (contents, 0)"
  let ?b1 = "print_if (level_string level \<noteq> None) (Some (level_part level)) ?b0"
  let ?b2 = "print_if (pcFile \<noteq> None) (Some (file_part pcFile line)) ?b1"
  let ?b3 = "print_if True (Some text) ?b2"
  let ?b4 = "print_if (2 \<le> length fmt \<and> take 2 (drop (length fmt) fmt) \<noteq> CRLF) (Some CRLF) ?b3"
  have "holds [] (contents, 0)" using assms(2) by (simp add: holds_def)
  then have b0: "holds ?m ?b0" using print_part_holds[of "[]" "(contents, 0)" "metadata e (message_number l)"] assms(5) by simp
  have "length (level_part level) < 2 ^ 31" by (simp add: level_part_def level_string_def)
  then have b1: "holds (?m @ level_part level) ?b1" by (rule print_if_holds[OF b0]) (simp add: level_part_def)
  have b2: "holds ((?m @ level_part level) @ file_part pcFile line) ?b2"
    by (rule print_if_holds[OF b1 assms(6)]) (simp add: file_part_def)
  have b3: "holds (((?m @ level_part level) @ file_part pcFile line) @ text) ?b3"
    by (rule print_if_holds[OF b2 assms(4)]) simp
  have "holds ((((?m @ level_part level) @ file_part pcFile line) @ text) @ (if 2 \<le> length fmt then CRLF else [])) ?b4"
  proof (cases "2 \<le> length fmt")
    case True
    then show ?thesis using print_if_holds[OF b3, of CRLF True] crlf_check[of fmt] by (simp add: CRLF_def)
  next
    case False
    then show ?thesis using b3 by (simp add: print_if_def)
  qed
  then have h: "holds (log_text e level pcFile line fmt text l) ?b4" by (simp add: log_text_def)
  have nonempty: "pcFile \<noteq> None \<Longrightarrow> snd ?b2 \<noteq> 0"
    using b2 by (auto simp: holds_def file_part_def unat_eq_zero[symmetric])
  have "\<not> 4 < level" using assms(3) by (simp add: not_less)
  then have "prvLoggingPrintfCommon e level pcFile line (Some fmt) (Some text) l = send_buffer p ?b4
      (l\<lparr>log_buffers := insert p (log_buffers l),
         message_number := (if fmt \<noteq> [CHR 0x0A] then message_number l + 1 else message_number l)\<rparr>)"
    using assms(1) nonempty by (cases "fmt = [CHR 0x0A]"; cases pcFile) (simp_all add: prvLoggingPrintfCommon_def print_metadata_def Let_def)
  then show ?thesis using h by blast
qed

lemma holds_c_string:
  assumes "holds T (buf, n)" "NUL \<notin> set T"
  shows "c_string (buf[unat n := NUL]) = take 255 T"
proof -
  have h: "length buf = 256" "unat n = min 255 (length T)" "take (unat n) buf = take 255 T"
    using assms(1) unfolding holds_def fst_conv snd_conv by blast+
  have "unat n < length buf" using h(1,2) by simp
  then have b: "buf[unat n := NUL] = take (unat n) buf @ NUL # drop (Suc (unat n)) buf" by (rule upd_conv_take_nth_drop)
  have "\<forall>c\<in>set (take 255 T). c \<noteq> NUL" using assms(2) set_take_subset[of 255 T] by blast
  then show ?thesis unfolding c_string_def b h(3) by (simp add: takeWhile_append takeWhile_eq_all_conv[THEN iffD2])
qed

text \<open>
  A message reaches the queue of the logging task as the concatenation of its number and time, its level, its
  place in the source and its text, with a line end, cut to the 255 characters the buffer holds; with the queue full
  its buffer is freed again. The line end is added also to a format that ends with one.
\<close>

theorem message_is_queued_or_freed:
  assumes "le_buffer e = Some (p, contents)" "length contents = 256" "level \<le> 4"
    and "length text < 2 ^ 31" "length (metadata e (message_number l)) < 2 ^ 31" "length (file_part pcFile line) < 2 ^ 31"
    and "xQueue l = Some q" "q \<in> live_queues l" "NUL \<notin> set (log_text e level pcFile line fmt text l)"
    and "log_text e level pcFile line fmt text l \<noteq> []"
  shows "\<exists>l' buf. prvLoggingPrintfCommon e level pcFile line (Some fmt) (Some text) l = Some l' \<and> length buf = 256 \<and>
    c_string buf = take 255 (log_text e level pcFile line fmt text l) \<and>
    (if length (log_queue l) < LOGGING_QUEUE_LENGTH
     then log_queue l' = log_queue l @ [(p, buf)] \<and> log_buffers l' = insert p (log_buffers l)
     else log_queue l' = log_queue l \<and> log_buffers l' = log_buffers l - {p})"
proof -
  let ?T = "log_text e level pcFile line fmt text l"
  obtain buf n l1 where m: "holds ?T (buf, n)" "prvLoggingPrintfCommon e level pcFile line (Some fmt) (Some text) l = send_buffer p (buf, n) l1"
    "l1 = l\<lparr>log_buffers := insert p (log_buffers l),
       message_number := (if fmt \<noteq> [CHR 0x0A] then message_number l + 1 else message_number l)\<rparr>"
    using message_buffer[OF assms(1-6)] by (metis surj_pair)
  have u: "unat n = min 255 (length ?T)" and len: "length buf = 256"
    using m(1) unfolding holds_def fst_conv snd_conv by blast+
  have "n < 256" using u by (simp add: word_less_nat_alt)
  moreover have "0 < n" using u assms(10) by (simp add: word_less_nat_alt)
  ultimately have "send_buffer p (buf, n) l1 = Some (if length (log_queue l) < LOGGING_QUEUE_LENGTH
      then l1\<lparr>log_queue := log_queue l @ [(p, buf[unat n := NUL])]\<rparr> else l1\<lparr>log_buffers := log_buffers l - {p}\<rparr>)"
    using assms(7,8) m(3) by (simp add: send_buffer_def xQueueSend_log_def)
  then show ?thesis
    using m(2,3) len holds_c_string[OF m(1) assms(9)]
    by (intro exI[of _ "if length (log_queue l) < LOGGING_QUEUE_LENGTH then l1\<lparr>log_queue := log_queue l @ [(p, buf[unat n := NUL])]\<rparr>
          else l1\<lparr>log_buffers := log_buffers l - {p}\<rparr>"] exI[of _ "buf[unat n := NUL]"]) (simp split: if_split)
qed

definition logger_after_init :: logger where
  "logger_after_init = \<lparr>xQueue = Some 0, live_queues = {0}, logging_task_running = True, message_number = 0, log_queue = [],
     log_buffers = {}, console = []\<rparr>"

definition sample_log_env :: logging_env where
  "sample_log_env = \<lparr>le_task_name = ''OCPP'', le_scheduler_started = True, le_ticks = 5, le_buffer = Some (1, replicate 256 (CHR ''x''))\<rparr>"

lemma show_nat_small [simp]: "show_nat 0 = ''0''" "show_nat 5 = ''5''"
  by code_simp+

lemma sample_logger_fields:
  "le_buffer sample_log_env = Some (1, replicate 256 (CHR ''x''))" "xQueue logger_after_init = Some 0"
  "live_queues logger_after_init = {0}" "message_number logger_after_init = 0" "log_queue logger_after_init = []"
  by (simp_all add: sample_log_env_def logger_after_init_def)

lemma sample_metadata: "metadata sample_log_env 0 = ''0 5 [OCPP] ''"
  by (simp add: metadata_def sample_log_env_def)

theorem message_is_queued_or_freed_witness:
  "\<exists>l' buf. vLoggingPrintf sample_log_env (Some ''up'') (Some ''up'') logger_after_init = Some l' \<and>
     log_queue l' = [(1, buf)] \<and> c_string buf = ''0 5 [OCPP] up'' @ CRLF"
proof -
  let ?T = "log_text sample_log_env 0 None 0 ''up'' ''up'' logger_after_init"
  have t: "?T = ''0 5 [OCPP] up'' @ CRLF"
    by (simp add: log_text_def logger_after_init_def sample_metadata level_part_def level_string_def file_part_def)
  have "NUL \<notin> set ?T" "?T \<noteq> []" "take 255 ?T = ?T" unfolding t by (simp_all add: CRLF_def)
  then show ?thesis
    using message_is_queued_or_freed[of sample_log_env 1 "replicate 256 (CHR ''x'')" 0 "''up''" logger_after_init None 0 0 "''up''"] t
    by (auto simp: sample_metadata vLoggingPrintf_def file_part_def sample_logger_fields)
qed

text \<open>
  An encoding error counts as if it had filled the buffer, not as nothing: the \<open>int\<close> -1 is not less than any
  \<open>size_t\<close>, so the case that answers 0 is never taken, and the rest of the message is lost.
\<close>

theorem encoding_error_fills_buffer: "vsnprintf_safe n None = n - 1"
  by (simp add: vsnprintf_safe_def vsnprintf_ret_def Let_def)

section \<open>Buffers\<close>

definition queue_ids :: "logger \<Rightarrow> nat list" where
  "queue_ids l = map fst (log_queue l)"

definition log_ok :: "logger \<Rightarrow> bool" where
  "log_ok l \<longleftrightarrow> distinct (queue_ids l) \<and> log_buffers l = set (queue_ids l)"

lemma queue_ids_simps [simp]:
  "queue_ids (l\<lparr>log_queue := log_queue l @ [x]\<rparr>) = queue_ids l @ [fst x]" "queue_ids (l\<lparr>log_buffers := B\<rparr>) = queue_ids l"
  "queue_ids (l\<lparr>message_number := n\<rparr>) = queue_ids l" "queue_ids (l\<lparr>console := c\<rparr>) = queue_ids l"
  by (simp_all add: queue_ids_def)

lemma send_buffer_ok:
  assumes "distinct (queue_ids l)" "log_buffers l = insert p (set (queue_ids l))" "p \<notin> set (queue_ids l)"
    and "send_buffer p b l = Some l'"
  shows "log_ok l'"
  using assms
  by (auto simp: send_buffer_def xQueueSend_log_def log_ok_def Let_def split: prod.splits if_splits option.splits bool.splits)

lemma print_metadata_result: "\<exists>b n. print_metadata e fmt contents l = (b, l\<lparr>message_number := n\<rparr>)"
proof (cases "fmt = [CHR 0x0A]")
  case True
  have "l = l\<lparr>message_number := message_number l\<rparr>" by simp
  then show ?thesis using True unfolding print_metadata_def by metis
qed (auto simp: print_metadata_def simp del: split_paired_Ex)

lemma if_None_Some: "(if a then None else x) = Some y \<longleftrightarrow> \<not> a \<and> x = Some y"
  by simp

lemma common_ok:
  assumes "log_ok l" "\<forall>p c. le_buffer e = Some (p, c) \<longrightarrow> p \<notin> log_buffers l"
    and "prvLoggingPrintfCommon e level pcFile line pcFormat formatted l = Some l'"
  shows "log_ok l'"
proof (cases "le_buffer e")
  case None
  then show ?thesis using assms(1,3) by (auto simp: prvLoggingPrintfCommon_def split: if_splits option.splits)
next
  case (Some pc)
  obtain p c where pc: "pc = (p, c)" by (cases pc)
  obtain b0 n where m: "print_metadata e (the pcFormat) c (l\<lparr>log_buffers := insert p (log_buffers l)\<rparr>) =
      (b0, l\<lparr>log_buffers := insert p (log_buffers l), message_number := n\<rparr>)"
    using print_metadata_result by blast
  obtain fmt where fmt: "pcFormat = Some fmt"
    using assms(3) by (cases pcFormat) (simp_all add: prvLoggingPrintfCommon_def split: if_splits)
  have "\<exists>b. send_buffer p b (l\<lparr>log_buffers := insert p (log_buffers l), message_number := n\<rparr>) = Some l'"
    using assms(3) m
    by (simp only: prvLoggingPrintfCommon_def Some pc fmt Let_def option.case prod.case option.sel if_None_Some) (elim conjE, rule exI)
  then obtain b where "send_buffer p b (l\<lparr>log_buffers := insert p (log_buffers l), message_number := n\<rparr>) = Some l'" by blast
  moreover have "distinct (queue_ids l)" "log_buffers l = set (queue_ids l)" "p \<notin> set (queue_ids l)"
    using assms(1,2) Some pc by (auto simp: log_ok_def)
  ultimately show ?thesis
    using send_buffer_ok[of "l\<lparr>log_buffers := insert p (log_buffers l), message_number := n\<rparr>" p b l'] by simp
qed

text \<open>Messages from any task, in any order, and turns of the logging task; the heap hands out buffers not in use.\<close>

inductive log_reachable :: "logger \<Rightarrow> bool" where
  boot: "log_ok l \<Longrightarrow> log_queue l = [] \<Longrightarrow> log_reachable l"
| message: "log_reachable l \<Longrightarrow> \<forall>p c. le_buffer e = Some (p, c) \<longrightarrow> p \<notin> log_buffers l \<Longrightarrow>
    prvLoggingPrintfCommon e level pcFile line pcFormat formatted l = Some l' \<Longrightarrow> log_reachable l'"
| print: "log_reachable l \<Longrightarrow> \<forall>p c. le_buffer e = Some (p, c) \<longrightarrow> p \<notin> log_buffers l \<Longrightarrow> log_reachable (vLoggingPrint e m l)"
| logging_task: "log_reachable l \<Longrightarrow> log_reachable (prvLoggingTask l)"

text \<open>No buffer is lost and none is freed twice: those allocated are those in the queue.\<close>

theorem buffers_are_in_the_queue:
  assumes "log_reachable l"
  shows "log_buffers l = set (queue_ids l) \<and> distinct (queue_ids l)"
proof -
  have "log_ok l" using assms
  proof (induction rule: log_reachable.induct)
    case (message l e level pcFile line pcFormat formatted l')
    then show ?case using common_ok by blast
  next
    case (print l e m)
    then show ?case by (auto simp: vLoggingPrint_def log_ok_def Let_def split: option.splits)
  next
    case (logging_task l)
    then show ?case
      by (cases "log_queue l") (auto simp: prvLoggingTask_def log_ok_def queue_ids_def Let_def image_iff split: prod.split)
  qed
  then show ?thesis by (simp add: log_ok_def)
qed

section \<open>The message as a format\<close>

text \<open>The logging task hands a message to the console as its format: what was logged, cut to 255 characters.\<close>

lemma logged_text_is_a_format:
  assumes "le_buffer e = Some (p, contents)" "length contents = 256" "queue_ready l" "log_queue l = []"
    and "fmt \<noteq> [CHR 0x0A]" "length text < 2 ^ 31" "0 < length (metadata e (message_number l))"
    "length (metadata e (message_number l)) < 2 ^ 31"
    and "NUL \<notin> set (metadata e (message_number l))" "NUL \<notin> set text"
  shows "\<exists>l'. vLoggingPrintf e (Some fmt) (Some text) l = Some l' \<and>
    console (prvLoggingTask l') = console l @ [take 255 (log_text e 0 None 0 fmt text l)]"
proof -
  let ?T = "log_text e 0 None 0 fmt text l"
  have t: "?T = metadata e (message_number l) @ text @ (if 2 \<le> length fmt then CRLF else [])"
    using assms(5) by (simp add: log_text_def level_part_def level_string_def file_part_def)
  have nul: "NUL \<notin> set ?T" and ne: "?T \<noteq> []"
    using assms(7,9,10) unfolding t by (auto simp: CRLF_def)
  obtain q where q: "xQueue l = Some q" "q \<in> live_queues l" "length (log_queue l) < LOGGING_QUEUE_LENGTH"
    using assms(3) by (auto simp: queue_ready_def)
  obtain l1 b where m: "holds ?T b" "vLoggingPrintf e (Some fmt) (Some text) l = send_buffer p b l1"
    "l1 = l\<lparr>log_buffers := insert p (log_buffers l), message_number := message_number l + 1\<rparr>"
    using message_buffer[OF assms(1,2), of 0 "text" l None 0 fmt] assms(5,6,8)
    by (auto simp: vLoggingPrintf_def file_part_def simp del: split_paired_Ex)
  obtain buf n where b: "b = (buf, n)" by (cases b)
  have u: "unat n = min 255 (length ?T)" using m(1) by (simp add: holds_def b)
  have "n < 256" using u by (simp add: word_less_nat_alt)
  moreover have "0 < n" using u ne by (simp add: word_less_nat_alt)
  ultimately have "send_buffer p b l1 = Some (l1\<lparr>log_queue := [(p, buf[unat n := NUL])]\<rparr>)"
    using q assms(4) by (simp add: send_buffer_def xQueueSend_log_def b m(3))
  moreover have "c_string (buf[unat n := NUL]) = take 255 ?T" using holds_c_string[of ?T buf n] m(1) nul by (simp add: b)
  ultimately show ?thesis using m(2) by (simp add: prvLoggingTask_def Let_def m(3))
qed

end
