(* ===== verification/Base64.thy ===== *)
theory Base64
  imports EVSE_Prelude
begin

text \<open>
  The encoding of the header of the authorization, \<open>ocpp/include/websocketpp_utils/base64.hpp\<close>. A byte is a word of 8
  bits; the loops fill groups of three and four bytes, of which the last may be incomplete.
\<close>

unbundle bit_operations_syntax

type_synonym byte = "8 word"

definition base64_chars :: "byte list" where
  "base64_chars = map of_char ''ABCDEFGHIJKLMNOPQRSTUVWXYZabcdefghijklmnopqrstuvwxyz0123456789+/''"

definition padding_char :: byte where
  "padding_char = of_char CHR ''=''"

definition is_base64 :: "byte \<Rightarrow> bool" where
  "is_base64 c \<longleftrightarrow> c = 43 \<or> (c \<ge> 47 \<and> c \<le> 57) \<or> (c \<ge> 65 \<and> c \<le> 90) \<or> (c \<ge> 97 \<and> c \<le> 122)"

definition char_array_4 :: "byte \<Rightarrow> byte \<Rightarrow> byte \<Rightarrow> byte list" where
  "char_array_4 a b c =
     [drop_bit 2 (a AND 0xfc), push_bit 4 (a AND 0x03) + drop_bit 4 (b AND 0xf0),
      push_bit 2 (b AND 0x0f) + drop_bit 6 (c AND 0xc0), c AND 0x3f]"

definition encode_sextet :: "byte \<Rightarrow> byte" where
  "encode_sextet x = base64_chars ! unat x"

fun base64_encode :: "byte list \<Rightarrow> byte list" where
  "base64_encode (a # b # c # xs) = map encode_sextet (char_array_4 a b c) @ base64_encode xs"
| "base64_encode [] = []"
| "base64_encode [a] = map encode_sextet (take 2 (char_array_4 a 0 0)) @ replicate 2 padding_char"
| "base64_encode [a, b] = map encode_sextet (take 3 (char_array_4 a b 0)) @ replicate 1 padding_char"

text \<open>\<open>find\<close> answers \<open>npos\<close> for what is not there, of which the lowest byte is kept.\<close>

fun index_of :: "byte \<Rightarrow> byte list \<Rightarrow> nat option" where
  "index_of x [] = None"
| "index_of x (y # ys) = (if x = y then Some 0 else map_option Suc (index_of x ys))"

definition decode_char :: "byte \<Rightarrow> byte" where
  "decode_char c = (case index_of c base64_chars of None \<Rightarrow> 0xff | Some i \<Rightarrow> of_nat i)"

definition char_array_3 :: "byte \<Rightarrow> byte \<Rightarrow> byte \<Rightarrow> byte \<Rightarrow> byte list" where
  "char_array_3 w x y z =
     [push_bit 2 w + drop_bit 4 (x AND 0x30), push_bit 4 (x AND 0xf) + drop_bit 2 (y AND 0x3c), push_bit 6 (y AND 0x3) + z]"

definition decodable :: "byte \<Rightarrow> bool" where
  "decodable c \<longleftrightarrow> c \<noteq> padding_char \<and> is_base64 c"

text \<open>The groups of four, and what is left after the last.\<close>

definition decode_rest :: "byte list \<Rightarrow> byte list" where
  "decode_rest cs =
     (if cs = [] then []
      else (let g = map decode_char (cs @ replicate (4 - length cs) 0)
            in take (length cs - 1) (char_array_3 (g ! 0) (g ! 1) (g ! 2) (g ! 3))))"

fun base64_decode :: "byte list \<Rightarrow> byte list" where
  "base64_decode (w # x # y # z # cs) =
     (if list_all decodable [w, x, y, z]
      then char_array_3 (decode_char w) (decode_char x) (decode_char y) (decode_char z) @ base64_decode cs
      else decode_rest (takeWhile decodable [w, x, y, z]))"
| "base64_decode cs = decode_rest (takeWhile decodable cs)"

lemma byte_bits: "n < 8 \<longleftrightarrow> n = 0 \<or> n = 1 \<or> n = 2 \<or> n = 3 \<or> n = 4 \<or> n = 5 \<or> n = 6 \<or> n = (7 :: nat)"
  by auto

lemma sextet_sums:
  "push_bit 4 (a AND 0x03) + drop_bit 4 (b AND 0xf0) = push_bit 4 (a AND 0x03) OR drop_bit 4 (b AND 0xf0 :: byte)"
  "push_bit 2 (b AND 0x0f) + drop_bit 6 (c AND 0xc0) = push_bit 2 (b AND 0x0f) OR drop_bit 6 (c AND 0xc0 :: byte)"
  by (rule disjunctive_add; auto simp: bit_simps byte_bits)+

lemma byte_sums:
  "push_bit 2 (drop_bit 2 (a AND 0xfc)) + drop_bit 4 ((push_bit 4 (a AND 0x03) OR drop_bit 4 (b AND 0xf0)) AND 0x30) = (a :: byte)"
  "push_bit 4 ((push_bit 4 (a AND 0x03) OR drop_bit 4 (b AND 0xf0)) AND 0xf) + drop_bit 2 ((push_bit 2 (b AND 0x0f) OR drop_bit 6 (c AND 0xc0)) AND 0x3c) = (b :: byte)"
  "push_bit 6 ((push_bit 2 (b AND 0x0f) OR drop_bit 6 (c AND 0xc0)) AND 0x3) + (c AND 0x3f) = (c :: byte)"
proof -
  have "push_bit 2 (drop_bit 2 (a AND 0xfc)) + drop_bit 4 ((push_bit 4 (a AND 0x03) OR drop_bit 4 (b AND 0xf0)) AND 0x30) =
      push_bit 2 (drop_bit 2 (a AND 0xfc)) OR drop_bit 4 ((push_bit 4 (a AND 0x03) OR drop_bit 4 (b AND 0xf0)) AND 0x30)"
    by (rule disjunctive_add) (auto simp: bit_simps byte_bits)
  also have "\<dots> = a" by (rule bit_word_eqI) (auto simp: bit_simps byte_bits numeral_2_eq_2[symmetric])
  finally show "push_bit 2 (drop_bit 2 (a AND 0xfc)) + drop_bit 4 ((push_bit 4 (a AND 0x03) OR drop_bit 4 (b AND 0xf0)) AND 0x30) = (a :: byte)" .
  have "push_bit 4 ((push_bit 4 (a AND 0x03) OR drop_bit 4 (b AND 0xf0)) AND 0xf) + drop_bit 2 ((push_bit 2 (b AND 0x0f) OR drop_bit 6 (c AND 0xc0)) AND 0x3c) =
      push_bit 4 ((push_bit 4 (a AND 0x03) OR drop_bit 4 (b AND 0xf0)) AND 0xf) OR drop_bit 2 ((push_bit 2 (b AND 0x0f) OR drop_bit 6 (c AND 0xc0)) AND 0x3c)"
    by (rule disjunctive_add) (auto simp: bit_simps byte_bits)
  also have "\<dots> = b" by (rule bit_word_eqI) (auto simp: bit_simps byte_bits numeral_2_eq_2[symmetric])
  finally show "push_bit 4 ((push_bit 4 (a AND 0x03) OR drop_bit 4 (b AND 0xf0)) AND 0xf) + drop_bit 2 ((push_bit 2 (b AND 0x0f) OR drop_bit 6 (c AND 0xc0)) AND 0x3c) = (b :: byte)" .
  have "push_bit 6 ((push_bit 2 (b AND 0x0f) OR drop_bit 6 (c AND 0xc0)) AND 0x3) + (c AND 0x3f) =
      push_bit 6 ((push_bit 2 (b AND 0x0f) OR drop_bit 6 (c AND 0xc0)) AND 0x3) OR (c AND 0x3f)"
    by (rule disjunctive_add) (auto simp: bit_simps byte_bits)
  also have "\<dots> = c" by (rule bit_word_eqI) (auto simp: bit_simps byte_bits numeral_2_eq_2[symmetric])
  finally show "push_bit 6 ((push_bit 2 (b AND 0x0f) OR drop_bit 6 (c AND 0xc0)) AND 0x3) + (c AND 0x3f) = (c :: byte)" .
qed

lemma char_arrays:
  "char_array_4 a b c = [w, x, y, z] \<Longrightarrow> char_array_3 w x y z = [a, b, c]"
  unfolding char_array_4_def char_array_3_def sextet_sums using byte_sums by auto

lemma sextets_small: "x \<in> set (char_array_4 a b c) \<Longrightarrow> unat x < 64"
proof -
  have "take_bit 6 (drop_bit 2 (a AND 0xfc)) = drop_bit 2 (a AND 0xfc)"
    "take_bit 6 (push_bit 4 (a AND 0x03) OR drop_bit 4 (b AND 0xf0)) = push_bit 4 (a AND 0x03) OR drop_bit 4 (b AND 0xf0)"
    "take_bit 6 (push_bit 2 (b AND 0x0f) OR drop_bit 6 (c AND 0xc0)) = push_bit 2 (b AND 0x0f) OR drop_bit 6 (c AND 0xc0)"
    "take_bit 6 (c AND 0x3f) = c AND 0x3f"
    by (rule bit_word_eqI; auto simp: bit_simps byte_bits numeral_2_eq_2[symmetric])+
  moreover assume "x \<in> set (char_array_4 a b c)"
  ultimately have "take_bit 6 x = x" unfolding char_array_4_def sextet_sums by auto
  then have "unat x = take_bit 6 (unat x)" by (metis unsigned_take_bit_eq)
  then have "unat x < 2 ^ 6" by (metis take_bit_nat_less_exp)
  then show ?thesis by simp
qed

lemma base64_values:
  "base64_chars =
    [65, 66, 67, 68, 69, 70, 71, 72, 73, 74, 75, 76, 77, 78, 79, 80,
     81, 82, 83, 84, 85, 86, 87, 88, 89, 90, 97, 98, 99, 100, 101, 102,
     103, 104, 105, 106, 107, 108, 109, 110, 111, 112, 113, 114, 115, 116, 117, 118,
     119, 120, 121, 122, 48, 49, 50, 51, 52, 53, 54, 55, 56, 57, 43, 47]"
  by (simp add: base64_chars_def)

lemma base64_distinct: "distinct base64_chars"
  unfolding base64_values by simp

lemma base64_decodable: "list_all decodable base64_chars"
  unfolding base64_values by (simp add: decodable_def padding_char_def is_base64_def word_le_nat_alt)

lemma index_of_nth: "distinct xs \<Longrightarrow> i < length xs \<Longrightarrow> index_of (xs ! i) xs = Some i"
proof (induction xs arbitrary: i)
  case (Cons x xs)
  then show ?case by (cases i) auto
qed simp

lemma base64_length: "length base64_chars = 64"
  by (simp add: base64_chars_def)

lemma char_roundtrip: "unat x < 64 \<Longrightarrow> decode_char (encode_sextet x) = x \<and> decodable (encode_sextet x)"
  using base64_decodable index_of_nth[OF base64_distinct]
  by (auto simp: encode_sextet_def decode_char_def base64_length list_all_length)

lemma sextets_roundtrip:
  assumes "char_array_4 a b c = [w, x, y, z]"
  shows "decode_char (encode_sextet w) = w" "decode_char (encode_sextet x) = x" "decode_char (encode_sextet y) = y"
    "decode_char (encode_sextet z) = z" "decodable (encode_sextet w)" "decodable (encode_sextet x)" "decodable (encode_sextet y)"
    "decodable (encode_sextet z)"
  using char_roundtrip sextets_small[of _ a b c] by (simp_all add: assms)

lemma char_array_4_cases: obtains w x y z where "char_array_4 a b c = [w, x, y, z]"
  by (simp add: char_array_4_def)

lemma padding_not_decodable [simp]: "\<not> decodable padding_char"
  by (simp add: decodable_def)

text \<open>Round trip: what is encoded is decoded to the same bytes, whatever they are and however many.\<close>

theorem base64_roundtrip: "base64_decode (base64_encode xs) = xs"
proof (induction xs rule: base64_encode.induct)
  case (1 a b c xs)
  obtain w x y z where g: "char_array_4 a b c = [w, x, y, z]" by (rule char_array_4_cases)
  show ?case using "1.IH" by (simp add: g sextets_roundtrip[OF g] char_arrays[OF g])
next
  case 2
  show ?case by (simp add: decode_rest_def)
next
  case (3 a)
  obtain w x y z where g: "char_array_4 a 0 0 = [w, x, y, z]" by (rule char_array_4_cases)
  have "hd (char_array_3 w x y z) = a" using char_arrays[OF g] by simp
  then have "take 1 (char_array_3 w x y' z') = [a]" for y' z' by (simp add: char_array_3_def)
  then show ?case by (simp add: g sextets_roundtrip[OF g] decode_rest_def numeral_2_eq_2)
next
  case (4 a b)
  obtain w x y z where g: "char_array_4 a b 0 = [w, x, y, z]" by (rule char_array_4_cases)
  have "take 2 (char_array_3 w x y z) = [a, b]" using char_arrays[OF g] by simp
  then have "take 2 (char_array_3 w x y z') = [a, b]" for z' by (simp add: char_array_3_def)
  then show ?case by (simp add: g sextets_roundtrip[OF g] decode_rest_def numeral_3_eq_3 numeral_2_eq_2)
qed

end
