(* ===== verification/Ocpp_Timepoint.thy ===== *)
theory Ocpp_Timepoint
  imports EVSE_Time "HOL-Library.Signed_Division"
begin

text \<open>
  The points in time of the OCPP library: \<open>ocpp/OcppTimepoint.hpp\<close>, which counts days itself, the class
  \<open>DateTimeImpl\<close> of \<open>ocpp/common/types.cpp\<close> and \<open>types.hpp\<close> on top of it, and the timer
  \<open>ocpp/freertos_steady_timer.hpp\<close>. The time of the clock (\<open>EVSE_Connectivity_GetUnixTime\<close>) is an argument.
  The members of type \<open>char\<close> are bytes; a member that a constructor leaves uninitialized is an argument.
\<close>

section \<open>Points in time\<close>

abbreviation (input) SECONDS_IN_DAY :: nat where "SECONDS_IN_DAY \<equiv> 86400"
abbreviation (input) SECONDS_IN_HOUR :: nat where "SECONDS_IN_HOUR \<equiv> 3600"
abbreviation (input) SECONDS_IN_MINUTE :: nat where "SECONDS_IN_MINUTE \<equiv> 60"

record OcppTimepoint =
  tp_year :: int
  tp_month :: u8
  tp_day :: u8
  tp_hours :: u8
  tp_minutes :: u8
  tp_seconds :: u8
  timestamp_s :: u32

definition is_leap_year :: "int \<Rightarrow> bool" where
  "is_leap_year y \<longleftrightarrow> y mod 4 = 0 \<and> (y mod 100 \<noteq> 0 \<or> y mod 400 = 0)"

definition days_in_year :: "int \<Rightarrow> nat" where
  "days_in_year y = (if is_leap_year y then 366 else 365)"

definition month_days :: "int \<Rightarrow> nat list" where
  "month_days y = [31, if is_leap_year y then 29 else 28, 31, 30, 31, 30, 31, 31, 30, 31, 30, 31]"

text \<open>The loops over the years and the months; \<open>month_loop\<close> is called with the rest of the array of months.\<close>

function year_loop :: "nat \<Rightarrow> int \<Rightarrow> nat \<times> int" where
  "year_loop d y = (if days_in_year y \<le> d then year_loop (d - days_in_year y) (y + 1) else (d, y))"
  by pat_completeness auto
termination by (relation "measure fst") (auto simp: days_in_year_def split: if_splits)

declare year_loop.simps [simp del]

fun month_loop :: "nat \<Rightarrow> nat list \<Rightarrow> nat \<Rightarrow> (nat \<times> nat) option" where
  "month_loop d [] m = None"
| "month_loop d (len # ms) m = (if len < d then month_loop (d - len) ms (m + 1) else Some (d, m))"

definition OcppTimepoint_of :: "u32 \<Rightarrow> OcppTimepoint option" where
  "OcppTimepoint_of timestamp =
     (let d = unat timestamp div SECONDS_IN_DAY;
          seconds_remaining = unat timestamp mod SECONDS_IN_DAY;
          (d, y) = year_loop d 1970
      in case month_loop d (month_days y) 0 of
           None \<Rightarrow> None
         | Some (d, m) \<Rightarrow>
             (let m = m + 1;
                  d = d + 1;
                  hours = seconds_remaining div SECONDS_IN_HOUR;
                  seconds_remaining = seconds_remaining mod SECONDS_IN_HOUR
              in Some \<lparr>tp_year = y, tp_month = of_nat m, tp_day = of_nat d, tp_hours = of_nat hours,
                       tp_minutes = of_nat (seconds_remaining div SECONDS_IN_MINUTE),
                       tp_seconds = of_nat (seconds_remaining mod SECONDS_IN_MINUTE), timestamp_s = timestamp\<rparr>))"

definition timepoint_of_fields :: "u32 \<Rightarrow> int \<Rightarrow> u8 \<Rightarrow> u8 \<Rightarrow> u8 \<Rightarrow> u8 \<Rightarrow> u8 \<Rightarrow> OcppTimepoint" where
  "timepoint_of_fields uninitialized y m d h mi s =
     \<lparr>tp_year = y, tp_month = m, tp_day = d, tp_hours = h, tp_minutes = mi, tp_seconds = s, timestamp_s = uninitialized\<rparr>"

definition to_time_point_s :: "OcppTimepoint \<Rightarrow> u32" where
  "to_time_point_s t = timestamp_s t"

text \<open>
  The sum with a point in time, and with a number of seconds. The first passes day and month in the order of
  month and day. \<open>None\<close> in the second is the access of \<open>month_days\<close> beyond its end.
\<close>

definition timepoint_plus :: "u32 \<Rightarrow> OcppTimepoint \<Rightarrow> OcppTimepoint \<Rightarrow> OcppTimepoint" where
  "timepoint_plus uninitialized t other =
     (let totalMonths = unat (tp_month t) + unat (tp_month other);
          totalDays = unat (tp_day t) + unat (tp_day other);
          totalSeconds = unat (tp_seconds t) + unat (tp_seconds other);
          totalMinutes = unat (tp_minutes t) + unat (tp_minutes other) + totalSeconds div 60;
          totalHours = unat (tp_hours t) + unat (tp_hours other) + totalMinutes div 60;
          totalYear = (if tp_year t < tp_year other then tp_year other else tp_year t)
      in timepoint_of_fields uninitialized totalYear (of_nat (totalDays mod 30)) (of_nat (totalMonths mod 12))
           (of_nat (totalHours mod 24)) (of_nat (totalMinutes mod 60)) (of_nat (totalSeconds mod 60)))"

definition timepoint_plus_seconds :: "OcppTimepoint \<Rightarrow> int \<Rightarrow> OcppTimepoint option" where
  "timepoint_plus_seconds t additionalSeconds =
     (let totalSeconds = uint (tp_seconds t) + additionalSeconds;
          result = t\<lparr>tp_seconds := of_int (totalSeconds smod 60)\<rparr>;
          result = (if tp_seconds result = 0 then result\<lparr>tp_minutes := tp_minutes result + 1\<rparr> else result);
          totalMinutes = uint (tp_minutes result) + totalSeconds sdiv 60;
          result = result\<lparr>tp_minutes := of_int (totalMinutes smod 60)\<rparr>;
          result = (if tp_minutes result = 0 then result\<lparr>tp_hours := tp_hours result + 1\<rparr> else result);
          totalHours = uint (tp_hours result) + totalMinutes sdiv 60;
          result = result\<lparr>tp_hours := of_int (totalHours smod 60)\<rparr>;
          result = (if 24 < totalHours then result\<lparr>tp_day := tp_day result + 1\<rparr> else result);
          ms = month_days (tp_year result)
      in if length ms \<le> unat (tp_month result) then None
         else (let result = (if ms ! unat (tp_month result) < unat (tp_day result)
                             then result\<lparr>tp_day := 1, tp_month := tp_month result + 1\<rparr> else result);
                   result = (if 12 < tp_month result
                             then result\<lparr>tp_year := tp_year result + 1, tp_month := tp_month result mod 12\<rparr> else result)
               in Some result))"

text \<open>The difference is the present time.\<close>

definition timepoint_minus :: "u32 \<Rightarrow> OcppTimepoint \<Rightarrow> OcppTimepoint \<Rightarrow> OcppTimepoint option" where
  "timepoint_minus now t other = OcppTimepoint_of now"

definition timepoint_less :: "OcppTimepoint \<Rightarrow> OcppTimepoint \<Rightarrow> bool" where
  "timepoint_less t u =
     (if tp_year t \<noteq> tp_year u then tp_year t < tp_year u
      else if tp_month t \<noteq> tp_month u then tp_month t < tp_month u
      else if tp_day t \<noteq> tp_day u then tp_day t < tp_day u
      else if tp_hours t \<noteq> tp_hours u then tp_hours t < tp_hours u
      else if tp_minutes t \<noteq> tp_minutes u then tp_minutes t < tp_minutes u
      else tp_seconds t < tp_seconds u)"

definition timepoint_greater :: "OcppTimepoint \<Rightarrow> OcppTimepoint \<Rightarrow> bool" where
  "timepoint_greater t u =
     (if tp_year t \<noteq> tp_year u then tp_year u < tp_year t
      else if tp_month t \<noteq> tp_month u then tp_month u < tp_month t
      else if tp_day t \<noteq> tp_day u then tp_day u < tp_day t
      else if tp_hours t \<noteq> tp_hours u then tp_hours u < tp_hours t
      else if tp_minutes t \<noteq> tp_minutes u then tp_minutes u < tp_minutes t
      else tp_seconds u < tp_seconds t)"

section \<open>The days of the calendar\<close>

lemma days_in_year_pos [simp]: "0 < days_in_year y"
  by (simp add: days_in_year_def)

lemma sum_month_days: "sum_list (month_days y) = days_in_year y"
  by (simp add: month_days_def days_in_year_def)

lemma length_month_days [simp]: "length (month_days y) = 12"
  by (simp add: month_days_def)

lemma month_days_bounds: "m < 12 \<Longrightarrow> 28 \<le> month_days y ! m \<and> month_days y ! m \<le> 31"
proof -
  assume "m < 12"
  then have "m = 0 \<or> m = 1 \<or> m = 2 \<or> m = 3 \<or> m = 4 \<or> m = 5 \<or> m = 6 \<or> m = 7 \<or> m = 8 \<or> m = 9 \<or> m = 10 \<or> m = 11" by arith
  then show ?thesis by (auto simp: month_days_def)
qed

text \<open>Days since the epoch of a date; the months and days count from 1.\<close>

definition year_start :: "int \<Rightarrow> nat" where
  "year_start y = (\<Sum>k\<leftarrow>[0..<nat (y - 1970)]. days_in_year (1970 + int k))"

definition month_start :: "int \<Rightarrow> nat \<Rightarrow> nat" where
  "month_start y m = sum_list (take m (month_days y))"

definition day_number :: "int \<Rightarrow> nat \<Rightarrow> nat \<Rightarrow> nat" where
  "day_number y m d = year_start y + month_start y (m - 1) + (d - 1)"

definition valid_date :: "int \<Rightarrow> nat \<Rightarrow> nat \<Rightarrow> bool" where
  "valid_date y m d \<longleftrightarrow> 1970 \<le> y \<and> 1 \<le> m \<and> m \<le> 12 \<and> 1 \<le> d \<and> d \<le> month_days y ! (m - 1)"

lemma year_start_Suc: "1970 \<le> y \<Longrightarrow> year_start (y + 1) = year_start y + days_in_year y"
proof -
  assume y: "1970 \<le> y"
  then have "nat (y + 1 - 1970) = Suc (nat (y - 1970))" by simp
  then show ?thesis using y by (simp add: year_start_def)
qed

lemma year_loop_result:
  assumes "year_loop d y = (d', y')" "1970 \<le> y"
  shows "y \<le> y' \<and> d' < days_in_year y' \<and> year_start y' + d' = year_start y + d"
  using assms
proof (induction d y rule: year_loop.induct)
  case (1 d y)
  show ?case
  proof (cases "days_in_year y \<le> d")
    case True
    then have "year_loop (d - days_in_year y) (y + 1) = (d', y')" using "1.prems"(1) by (simp add: year_loop.simps[of d y])
    then show ?thesis using "1.IH"[OF True] "1.prems"(2) True by (simp add: year_start_Suc)
  next
    case False
    then show ?thesis using "1.prems" by (simp add: year_loop.simps[of d y])
  qed
qed

lemma month_loop_result:
  assumes "month_loop d ms m = Some (d', m')"
  shows "m \<le> m' \<and> m' < m + length ms \<and> sum_list (take (m' - m) ms) + d' = d \<and> d' \<le> ms ! (m' - m) \<and> (m < m' \<longrightarrow> 0 < d')"
  using assms
proof (induction d ms m rule: month_loop.induct)
  case (2 d len ms m)
  show ?case
  proof (cases "len < d")
    case True
    then have "month_loop (d - len) ms (m + 1) = Some (d', m')" using "2.prems" by simp
    then have i: "Suc m \<le> m'" "m' < Suc m + length ms" "sum_list (take (m' - Suc m) ms) + d' = d - len"
        "d' \<le> ms ! (m' - Suc m)" "Suc m < m' \<longrightarrow> 0 < d'"
      using "2.IH"[OF True] by simp_all
    obtain k where k: "m' = Suc m + k" using i(1) by (auto dest: le_Suc_ex)
    have "0 < d'"
    proof (cases "k = 0")
      case True
      then show ?thesis using i(3) \<open>len < d\<close> k by simp
    next
      case False
      then show ?thesis using i(5) k by simp
    qed
    then show ?thesis using i True k by simp
  next
    case False
    then show ?thesis using "2.prems" by auto
  qed
qed simp

lemma month_loop_ends: "d \<le> sum_list ms \<Longrightarrow> ms \<noteq> [] \<Longrightarrow> month_loop d ms m \<noteq> None"
proof (induction d ms m rule: month_loop.induct)
  case (2 d len ms m)
  show ?case
  proof (cases "len < d")
    case True
    then have "ms \<noteq> []" using "2.prems" by auto
    then show ?thesis using 2 True by simp
  qed simp
qed simp

lemma year_start_mono: "1970 \<le> y \<Longrightarrow> y \<le> z \<Longrightarrow> year_start y \<le> year_start z"
proof -
  assume y: "1970 \<le> y" "y \<le> z"
  have "year_start y \<le> year_start (y + int k)" for k
  proof (induction k)
    case (Suc k)
    then show ?case using year_start_Suc[of "y + int k"] y(1) by (simp add: ac_simps)
  qed simp
  from this[of "nat (z - y)"] show ?thesis using y by simp
qed

lemma year_order:
  assumes "1970 \<le> y" "y < z" "n < days_in_year y"
  shows "year_start y + n < year_start z"
  using year_start_Suc[of y] year_start_mono[of "y + 1" z] assms by simp

lemma month_start_Suc: "m < 12 \<Longrightarrow> month_start y (Suc m) = month_start y m + month_days y ! m"
  by (simp add: month_start_def take_Suc_conv_app_nth)

lemma month_start_mono: "m \<le> n \<Longrightarrow> n \<le> 12 \<Longrightarrow> month_start y m \<le> month_start y n"
proof (induction n)
  case (Suc n)
  then show ?case by (cases "m = Suc n") (simp_all add: month_start_Suc)
qed simp

lemma month_end:
  assumes "1 \<le> m" "m \<le> k" "k \<le> 12"
  shows "month_start y (m - 1) + month_days y ! (m - 1) \<le> month_start y k"
  using month_start_Suc[of "m - 1" y] month_start_mono[of m k y] assms by simp

lemma month_start_12: "month_start y 12 = days_in_year y"
  by (simp add: month_start_def sum_month_days)

lemma valid_in_year: "valid_date y m d \<Longrightarrow> month_start y (m - 1) + (d - 1) < days_in_year y"
  using month_start_Suc[of "m - 1" y] month_start_mono[of m 12 y] by (auto simp: valid_date_def month_start_12)

lemma valid_date_unique:
  assumes "valid_date y m d" "valid_date z n e" "day_number y m d = day_number z n e"
  shows "y = z \<and> m = n \<and> d = e"
proof -
  have y: "\<not> a < b" if "valid_date a p q" "valid_date b r t" "day_number a p q = day_number b r t" for a b p q r t
    using year_order[of a b "month_start a (p - 1) + (q - 1)"] valid_in_year[OF that(1)] that
    by (auto simp: valid_date_def day_number_def)
  have "y = z" using y[OF assms] y[OF assms(2,1) assms(3)[symmetric]] by simp
  have month: "month_start a (p - 1) + (q - 1) < month_start a (r - 1)" if "valid_date a p q" "p < r" "r \<le> 12" for a p q r
  proof -
    have b: "1 \<le> p" "p \<le> r - 1" "r - 1 \<le> 12" "1 \<le> q" "q \<le> month_days a ! (p - 1)"
      using that by (auto simp: valid_date_def)
    show ?thesis using month_end[OF b(1-3), of a] b(4,5) by linarith
  qed
  have "\<not> m < n" "\<not> n < m" using month[of y m d n] month[of z n e m] \<open>y = z\<close> assms by (auto simp: valid_date_def day_number_def)
  then show ?thesis using \<open>y = z\<close> assms by (auto simp: valid_date_def day_number_def)
qed

section \<open>The time of the clock\<close>

text \<open>
  What the constructor makes of a time: a date within its year whose month is the first that reaches it, so that
  the first day of a month is the day after the last of the month before.
\<close>

definition counted_date :: "int \<Rightarrow> nat \<Rightarrow> nat \<Rightarrow> bool" where
  "counted_date y m d \<longleftrightarrow> 1970 \<le> y \<and> 1 \<le> m \<and> m \<le> 12 \<and> 1 \<le> d \<and> d \<le> month_days y ! (m - 1) + 1 \<and> (m = 1 \<or> 2 \<le> d) \<and>
     month_start y (m - 1) + (d - 1) < days_in_year y"

definition day_seconds :: "OcppTimepoint \<Rightarrow> nat" where
  "day_seconds t = unat (tp_hours t) * 3600 + unat (tp_minutes t) * 60 + unat (tp_seconds t)"

definition date_number :: "OcppTimepoint \<Rightarrow> nat" where
  "date_number t = day_number (tp_year t) (unat (tp_month t)) (unat (tp_day t))"

definition counted :: "OcppTimepoint \<Rightarrow> bool" where
  "counted t \<longleftrightarrow> counted_date (tp_year t) (unat (tp_month t)) (unat (tp_day t)) \<and>
     unat (tp_hours t) < 24 \<and> unat (tp_minutes t) < 60 \<and> unat (tp_seconds t) < 60"

lemma unat_of_nat8: "n < 256 \<Longrightarrow> unat (of_nat n :: u8) = n"
  by (simp add: unsigned_of_nat take_bit_nat_eq_self)

lemma clock_time:
  "\<exists>t. OcppTimepoint_of ts = Some t \<and> counted t \<and> date_number t = unat ts div 86400 \<and> day_seconds t = unat ts mod 86400 \<and>
     timestamp_s t = ts"
proof -
  let ?r = "unat ts mod 86400"
  obtain d y where yl: "year_loop (unat ts div 86400) 1970 = (d, y)" by (cases "year_loop (unat ts div 86400) 1970")
  have y: "1970 \<le> y" "d < days_in_year y" "year_start y + d = unat ts div 86400"
    using year_loop_result[OF yl] by (auto simp: year_start_def)
  then have "month_loop d (month_days y) 0 \<noteq> None"
    by (intro month_loop_ends) (auto simp: sum_month_days, simp add: month_days_def)
  then obtain d' m where ml: "month_loop d (month_days y) 0 = Some (d', m)" by auto
  have m: "m < 12" "month_start y m + d' = d" "d' \<le> month_days y ! m" "0 < m \<longrightarrow> 0 < d'"
    using month_loop_result[OF ml] by (simp_all add: month_start_def)
  have d': "d' \<le> 31" using m(1,3) month_days_bounds[of m y] by simp
  have r: "?r < 86400" by simp
  have h: "?r div 3600 < 24" using r by (simp add: div_less_iff_less_mult)
  have mi: "?r mod 3600 div 60 < 60" using mod_less_divisor[of 3600 ?r] by (simp add: div_less_iff_less_mult)
  have se: "?r mod 3600 mod 60 < 60" by simp
  define t where "t = \<lparr>tp_year = y, tp_month = of_nat (m + 1), tp_day = of_nat (d' + 1), tp_hours = of_nat (?r div 3600),
     tp_minutes = of_nat (?r mod 3600 div 60), tp_seconds = of_nat (?r mod 3600 mod 60), timestamp_s = ts\<rparr>"
  have t: "unat (tp_month t) = m + 1" "unat (tp_day t) = d' + 1" "unat (tp_hours t) = ?r div 3600"
      "unat (tp_minutes t) = ?r mod 3600 div 60" "unat (tp_seconds t) = ?r mod 3600 mod 60" "tp_year t = y"
    unfolding t_def using m(1) d' h mi se by (simp_all only: OcppTimepoint.simps) (subst unat_of_nat8; simp)+
  have "OcppTimepoint_of ts = Some t" by (simp add: OcppTimepoint_of_def Let_def yl ml t_def)
  moreover have "counted t"
    unfolding counted_def counted_date_def t using y m h mi se by auto
  moreover have "date_number t = unat ts div 86400" using y(3) m(2) by (simp add: date_number_def t day_number_def)
  moreover have "day_seconds t = ?r" unfolding day_seconds_def t using mult_div_mod_eq[of 3600 ?r] mult_div_mod_eq[of 60 "?r mod 3600"] by simp
  ultimately show ?thesis by (auto simp: t_def)
qed

text \<open>
  (C35) The point in time of a clock value has its day and its time of day. It is a date of the calendar except on the first
  day of every month but January, which is written as one day more than the month before has.
\<close>

theorem first_of_month_is_no_date:
  assumes "OcppTimepoint_of ts = Some t"
  shows "date_number t = unat ts div 86400 \<and> day_seconds t = unat ts mod 86400 \<and>
    (valid_date (tp_year t) (unat (tp_month t)) (unat (tp_day t)) \<longleftrightarrow>
     \<not> (\<exists>y m. 2 \<le> m \<and> valid_date y m 1 \<and> day_number y m 1 = unat ts div 86400))"
proof -
  have t: "counted t" "date_number t = unat ts div 86400" "day_seconds t = unat ts mod 86400"
    using clock_time[of ts] assms by auto
  let ?y = "tp_year t" and ?m = "unat (tp_month t)" and ?d = "unat (tp_day t)"
  have c: "counted_date ?y ?m ?d" using t(1) by (simp add: counted_def)
  have "valid_date ?y ?m ?d \<longleftrightarrow> \<not> (\<exists>y m. 2 \<le> m \<and> valid_date y m 1 \<and> day_number y m 1 = unat ts div 86400)"
  proof
    assume v: "valid_date ?y ?m ?d"
    show "\<not> (\<exists>y m. 2 \<le> m \<and> valid_date y m 1 \<and> day_number y m 1 = unat ts div 86400)"
      using valid_date_unique[OF v] c t(2) by (fastforce simp: date_number_def counted_date_def)
  next
    assume n: "\<not> (\<exists>y m. 2 \<le> m \<and> valid_date y m 1 \<and> day_number y m 1 = unat ts div 86400)"
    show "valid_date ?y ?m ?d"
    proof (rule ccontr)
      assume "\<not> valid_date ?y ?m ?d"
      then have d: "?d = month_days ?y ! (?m - 1) + 1" using c by (auto simp: counted_date_def valid_date_def)
      have m: "1 \<le> ?m" "?m - 1 < 12" using c by (auto simp: counted_date_def)
      have s: "month_start ?y ?m = month_start ?y (?m - 1) + (?d - 1)"
        using month_start_Suc[OF m(2), of ?y] m(1) by (simp add: d)
      then have "?m \<noteq> 12" using c month_start_12[of ?y] by (auto simp: counted_date_def)
      then have "valid_date ?y (?m + 1) 1 \<and> day_number ?y (?m + 1) 1 = unat ts div 86400"
        using c s t(2) month_days_bounds[of ?m ?y] by (auto simp: counted_date_def valid_date_def day_number_def date_number_def)
      then show False using n c by (fastforce simp: counted_date_def)
    qed
  qed
  then show ?thesis using t by simp
qed

text \<open>1769904000 is 2026-02-01 00:00:00 UTC.\<close>

theorem first_of_month_is_no_date_witness:
  "(case OcppTimepoint_of 1769904000 of None \<Rightarrow> False | Some t \<Rightarrow>
      tp_year t = 2026 \<and> tp_month t = 1 \<and> tp_day t = 32 \<and> \<not> valid_date (tp_year t) (unat (tp_month t)) (unat (tp_day t)))"
proof -
  have t: "OcppTimepoint_of 1769904000 = Some \<lparr>tp_year = 2026, tp_month = 1, tp_day = 32, tp_hours = 0, tp_minutes = 0,
      tp_seconds = 0, timestamp_s = 1769904000\<rparr>"
    by (simp add: OcppTimepoint_of_def Let_def year_loop.simps days_in_year_def is_leap_year_def month_days_def)
  have v: "valid_date 2026 2 1" "day_number 2026 2 1 = unat (1769904000 :: u32) div 86400"
    by (simp_all add: valid_date_def day_number_def year_start_def month_start_def days_in_year_def is_leap_year_def month_days_def
        upt_rec)
  then have "\<exists>y m. 2 \<le> m \<and> valid_date y m 1 \<and> day_number y m 1 = unat (1769904000 :: u32) div 86400" by (meson order_refl)
  then have "\<not> valid_date 2026 (unat (1 :: u8)) (unat (32 :: u8))"
    using first_of_month_is_no_date[OF t] by simp
  then show ?thesis using t by simp
qed

section \<open>Order\<close>

lemma counted_date_order:
  assumes "counted_date y m d" "counted_date z n e" "y < z \<or> y = z \<and> (m < n \<or> m = n \<and> d < e)"
  shows "day_number y m d < day_number z n e"
proof -
  consider "y < z" | "y = z" "m < n" | "y = z" "m = n" "d < e" using assms(3) by blast
  then show ?thesis
  proof cases
    case 1
    then show ?thesis
      using year_order[of y z "month_start y (m - 1) + (d - 1)"] assms(1) 1
      unfolding counted_date_def day_number_def by linarith
  next
    case 2
    have b: "1 \<le> m" "m \<le> n - 1" "n - 1 \<le> 12" "1 \<le> d" "d \<le> month_days y ! (m - 1) + 1" "2 \<le> e"
      using assms 2 by (auto simp: counted_date_def)
    then show ?thesis using month_end[OF b(1-3), of y] unfolding day_number_def 2(1) by linarith
  next
    case 3
    moreover have "1 \<le> d" using assms(1) by (simp add: counted_date_def)
    ultimately show ?thesis unfolding day_number_def by simp
  qed
qed

definition clock_number :: "OcppTimepoint \<Rightarrow> nat" where
  "clock_number t = date_number t * 86400 + day_seconds t"

lemma day_seconds_bound: "counted t \<Longrightarrow> day_seconds t < 86400"
  by (auto simp: counted_def day_seconds_def)

lemma timepoint_less_number:
  assumes "counted t" "counted u" "timepoint_less t u"
  shows "clock_number t < clock_number u"
proof -
  have b: "day_seconds t < 86400" using day_seconds_bound[OF assms(1)] .
  have f: "tp_month t = tp_month u \<longleftrightarrow> unat (tp_month t) = unat (tp_month u)" "tp_day t = tp_day u \<longleftrightarrow> unat (tp_day t) = unat (tp_day u)"
    "tp_hours t = tp_hours u \<longleftrightarrow> unat (tp_hours t) = unat (tp_hours u)"
    "tp_minutes t = tp_minutes u \<longleftrightarrow> unat (tp_minutes t) = unat (tp_minutes u)"
    by (simp_all add: word_unat_eq_iff)
  have "date_number t < date_number u \<or> date_number t = date_number u \<and> day_seconds t < day_seconds u"
  proof (cases "tp_year t = tp_year u \<and> tp_month t = tp_month u \<and> tp_day t = tp_day u")
    case True
    then have "day_seconds t < day_seconds u"
      using assms f by (auto simp: timepoint_less_def counted_def day_seconds_def word_less_nat_alt split: if_splits)
    then show ?thesis using True by (simp add: date_number_def)
  next
    case False
    then show ?thesis
      using assms f by (auto simp: timepoint_less_def counted_def date_number_def word_less_nat_alt split: if_splits intro!: counted_date_order)
  qed
  then show ?thesis using b by (auto simp: clock_number_def)
qed

lemma timepoint_greater_less: "timepoint_greater t u \<longleftrightarrow> timepoint_less u t"
  by (auto simp: timepoint_greater_def timepoint_less_def)

lemma timepoint_less_total:
  "timepoint_less t u \<or> timepoint_less u t \<or> (date_number t = date_number u \<and> day_seconds t = day_seconds u)"
  by (auto simp: timepoint_less_def date_number_def day_seconds_def) (metis linorder_cases)

lemma clock_number_of: "OcppTimepoint_of ts = Some t \<Longrightarrow> counted t \<and> clock_number t = unat ts"
  using clock_time[of ts] div_mult_mod_eq[of "unat ts" 86400] by (auto simp: clock_number_def)

text \<open>Although some of them are no dates, points in time of the clock are ordered as the clock values they come from.\<close>

theorem clock_order_is_kept:
  assumes "OcppTimepoint_of a = Some t" "OcppTimepoint_of b = Some u"
  shows "(timepoint_less t u \<longleftrightarrow> a < b) \<and> (timepoint_greater t u \<longleftrightarrow> b < a)"
proof -
  have n: "counted t" "clock_number t = unat a" "counted u" "clock_number u = unat b"
    using clock_number_of assms by blast+
  have "timepoint_less t u \<longleftrightarrow> a < b" "timepoint_less u t \<longleftrightarrow> b < a"
    using timepoint_less_number[of t u] timepoint_less_number[of u t] timepoint_less_total[of t u] n
    by (auto simp: word_less_nat_alt clock_number_def)
  then show ?thesis by (simp add: timepoint_greater_less)
qed

lemma time_2026_02_01:
  "OcppTimepoint_of 1769904000 = Some \<lparr>tp_year = 2026, tp_month = 1, tp_day = 32, tp_hours = 0, tp_minutes = 0,
     tp_seconds = 0, timestamp_s = 1769904000\<rparr>"
  "OcppTimepoint_of 1769990400 = Some \<lparr>tp_year = 2026, tp_month = 2, tp_day = 2, tp_hours = 0, tp_minutes = 0,
     tp_seconds = 0, timestamp_s = 1769990400\<rparr>"
  by (simp_all add: OcppTimepoint_of_def Let_def year_loop.simps days_in_year_def is_leap_year_def month_days_def)

theorem clock_order_is_kept_witness:
  "case (OcppTimepoint_of 1769904000, OcppTimepoint_of 1769990400) of
     (Some t, Some u) \<Rightarrow> timepoint_less t u \<and> \<not> timepoint_greater t u | _ \<Rightarrow> False"
  using clock_order_is_kept[OF time_2026_02_01] by (simp add: time_2026_02_01)

section \<open>Dates of messages\<close>

text \<open>
  The class \<open>DateTime\<close>; \<open>now\<close> is the time of the clock. Its comparisons other than \<open>less\<close> and \<open>greater\<close> answer true.
  The constructor from a point in time leaves the present time, and parsing a text does, too.
\<close>

type_synonym DateTime = OcppTimepoint

definition DateTime_now :: "u32 \<Rightarrow> DateTime option" where
  "DateTime_now now = OcppTimepoint_of now"

definition DateTimeImpl_of_timepoint :: "OcppTimepoint \<Rightarrow> DateTime" where
  "DateTimeImpl_of_timepoint timepoint = timepoint"

definition DateTime_of_timepoint :: "u32 \<Rightarrow> OcppTimepoint option \<Rightarrow> DateTime option" where
  "DateTime_of_timepoint now timepoint = DateTime_now now"

definition from_rfc3339 :: "string \<Rightarrow> DateTime \<Rightarrow> DateTime" where
  "from_rfc3339 timepoint_str d = d"

definition DateTime_of_string :: "u32 \<Rightarrow> string \<Rightarrow> DateTime option" where
  "DateTime_of_string now timepoint_str = map_option (from_rfc3339 timepoint_str) (DateTime_now now)"

definition pad4 :: "int \<Rightarrow> string" where
  "pad4 n = (if n < 0 then CHR ''-'' # (let s = show_nat (nat (- n)) in replicate (3 - length s) (CHR ''0'') @ s)
             else (let s = show_nat (nat n) in replicate (4 - length s) (CHR ''0'') @ s))"

definition rfc3339_text :: "DateTime \<Rightarrow> string" where
  "rfc3339_text d =
     pad4 (tp_year d) @ ''-'' @ pad2 (unat (tp_month d)) @ ''-'' @ pad2 (unat (tp_day d)) @ ''T'' @
     pad2 (unat (tp_hours d)) @ '':'' @ pad2 (unat (tp_minutes d)) @ '':'' @ pad2 (unat (tp_seconds d)) @ ''Z''"

definition to_rfc3339 :: "DateTime \<Rightarrow> string" where
  "to_rfc3339 d = (let n = length (rfc3339_text d) in if 21 \<le> n then [] else take 20 (rfc3339_text d))"

definition to_time_point :: "DateTime \<Rightarrow> OcppTimepoint" where
  "to_time_point d = d"

definition DateTime_greater :: "DateTime \<Rightarrow> DateTime \<Rightarrow> bool" where
  "DateTime_greater lhs rhs = timepoint_greater lhs rhs"

definition DateTime_less :: "DateTime \<Rightarrow> DateTime \<Rightarrow> bool" where
  "DateTime_less lhs rhs = timepoint_less lhs rhs"

definition DateTime_greater_eq :: "DateTime \<Rightarrow> DateTime \<Rightarrow> bool" where
  "DateTime_greater_eq lhs rhs = True"

definition DateTime_less_eq :: "DateTime \<Rightarrow> DateTime \<Rightarrow> bool" where
  "DateTime_less_eq lhs rhs = True"

definition DateTime_equal :: "DateTime \<Rightarrow> DateTime \<Rightarrow> bool" where
  "DateTime_equal lhs rhs = True"

end
