(* ===== verification/Steady_Timer.thy ===== *)
theory Steady_Timer
  imports Ocpp_Timepoint
begin

text \<open>
  The timer of the OCPP library on FreeRTOS software timers, \<open>ocpp/freertos_steady_timer.hpp\<close>. \<open>timerHandle\<close> tells
  whether the handle is set; what the kernel knows of the timer is \<open>timer_active\<close>, its period and whether it starts
  again by itself. Whether the kernel can create and start a timer is an argument. The callback is a value.
\<close>

record 'c steady_timer =
  timerHandle :: bool
  timeoutTicks :: u32
  tCallback :: "'c option"
  timer_active :: "(u32 \<times> bool) option"

record timer_env =
  timer_created :: bool
  timer_started :: bool

definition new_steady_timer :: "'c steady_timer" where
  "new_steady_timer = \<lparr>timerHandle = False, timeoutTicks = 0, tCallback = None, timer_active = None\<rparr>"

definition pdMS_TO_TICKS :: "u32 \<Rightarrow> u32" where
  "pdMS_TO_TICKS ms = ucast ((ucast ms :: 64 word) * 1000 div 1000)"

definition stop_timer :: "'c steady_timer \<Rightarrow> 'c steady_timer" where
  "stop_timer t = (if timerHandle t then t\<lparr>timer_active := None\<rparr> else t)"

definition expires_after :: "timer_env \<Rightarrow> u32 \<Rightarrow> 'c steady_timer \<Rightarrow> 'c steady_timer" where
  "expires_after e timeout_ms t =
     (let t = t\<lparr>timeoutTicks := pdMS_TO_TICKS timeout_ms\<rparr>
      in if timerHandle t then t\<lparr>timer_active := Some (timeoutTicks t, False)\<rparr>
         else (let t = (if timeoutTicks t = 0 then t\<lparr>timeoutTicks := 1\<rparr> else t)
               in t\<lparr>timerHandle := timer_created e\<rparr>))"

text \<open>The part every way to start a timer ends with: the old one is deleted, a new one created and started.\<close>

definition start_new_timer :: "timer_env \<Rightarrow> bool \<Rightarrow> 'c steady_timer \<Rightarrow> 'c steady_timer" where
  "start_new_timer e auto_reload t =
     (let t = (if timeoutTicks t = 0 then t\<lparr>timeoutTicks := 1\<rparr> else t);
          t = (if timerHandle t then t\<lparr>timer_active := None, timerHandle := False\<rparr> else t);
          t = t\<lparr>timerHandle := timer_created e\<rparr>
      in if timerHandle t then (if timer_started e then t\<lparr>timer_active := Some (timeoutTicks t, auto_reload)\<rparr> else t) else t)"

definition timeout_seconds :: "timer_env \<Rightarrow> u32 \<Rightarrow> 'c steady_timer \<Rightarrow> 'c steady_timer" where
  "timeout_seconds e interval_s t = start_new_timer e False (t\<lparr>timeoutTicks := pdMS_TO_TICKS (interval_s * 1000)\<rparr>)"

definition timeout_callback :: "timer_env \<Rightarrow> 'c \<Rightarrow> u32 \<Rightarrow> 'c steady_timer \<Rightarrow> 'c steady_timer" where
  "timeout_callback e callback interval_s t =
     start_new_timer e False (t\<lparr>tCallback := Some callback, timeoutTicks := pdMS_TO_TICKS (interval_s * 1000)\<rparr>)"

text \<open>The duration is a number of seconds of \<open>std::chrono\<close>.\<close>

definition timeout_duration :: "timer_env \<Rightarrow> 'c \<Rightarrow> int \<Rightarrow> 'c steady_timer \<Rightarrow> 'c steady_timer" where
  "timeout_duration e callback interval t =
     start_new_timer e False (t\<lparr>tCallback := Some callback, timeoutTicks := pdMS_TO_TICKS (of_int (interval * 1000))\<rparr>)"

definition timeout_at :: "timer_env \<Rightarrow> u32 \<Rightarrow> 'c \<Rightarrow> OcppTimepoint \<Rightarrow> 'c steady_timer \<Rightarrow> 'c steady_timer" where
  "timeout_at e now callback time_point t =
     (let diff_s = to_time_point_s time_point - now;
          diff_s = (if sint diff_s \<le> 0 then 1 else diff_s)
      in timeout_callback e callback diff_s t)"

definition interval_callback :: "timer_env \<Rightarrow> 'c \<Rightarrow> int \<Rightarrow> 'c steady_timer \<Rightarrow> 'c steady_timer" where
  "interval_callback e callback interval t =
     start_new_timer e True (t\<lparr>tCallback := Some callback, timeoutTicks := pdMS_TO_TICKS (of_int (interval * 1000))\<rparr>)"

definition interval_timer :: "timer_env \<Rightarrow> int \<Rightarrow> 'c steady_timer \<Rightarrow> 'c steady_timer" where
  "interval_timer e interval t = start_new_timer e True (t\<lparr>timeoutTicks := pdMS_TO_TICKS (of_int (interval * 1000))\<rparr>)"

text \<open>
  The kernel lets an active timer expire: it calls the function \<open>timerCallback\<close>, whose answer is the callback it
  runs, and stops the timer unless it starts again by itself.
\<close>

definition timer_expires :: "'c steady_timer \<Rightarrow> 'c option \<times> 'c steady_timer" where
  "timer_expires t =
     (case timer_active t of
        None \<Rightarrow> (None, t)
      | Some (ticks, auto_reload) \<Rightarrow> (tCallback t, if auto_reload then t else t\<lparr>timer_active := None\<rparr>))"

lemma pdMS_TO_TICKS_id [simp]: "pdMS_TO_TICKS ms = ms"
proof -
  have "uint ms * 1000 < 2 ^ 64" using uint_lt2p[of ms] by simp
  then have "uint ((ucast ms :: 64 word) * 1000) = uint ms * 1000"
    by (simp add: uint_word_ariths unsigned_ucast_eq take_bit_int_eq_self)
  then have "uint ((ucast ms :: 64 word) * 1000 div 1000) = uint ms" by (simp add: uint_div)
  moreover have "uint ms < 2 ^ 32" using uint_lt2p[of ms] by simp
  ultimately show ?thesis unfolding pdMS_TO_TICKS_def by (simp add: word_uint_eq_iff unsigned_ucast_eq take_bit_int_eq_self)
qed

lemma start_new_timer_fields:
  "tCallback (start_new_timer e r t) = tCallback t" "timerHandle (start_new_timer e r t) = timer_created e"
  "timer_created e \<Longrightarrow> timer_started e \<Longrightarrow>
     timer_active (start_new_timer e r t) = Some (if timeoutTicks t = 0 then 1 else timeoutTicks t, r)"
  by (simp_all add: start_new_timer_def Let_def)

lemma timeout_callback_active:
  "timer_created e \<Longrightarrow> timer_started e \<Longrightarrow>
     timer_active (timeout_callback e callback s t) = Some (if s * 1000 = 0 then 1 else s * 1000, False)"
  by (simp add: timeout_callback_def start_new_timer_fields)

lemma milliseconds_nonzero: "0 < k \<Longrightarrow> k \<le> 4294967 \<Longrightarrow> (of_nat (k * 1000) :: u32) \<noteq> 0"
proof -
  assume k: "0 < k" "k \<le> 4294967"
  then have "unat (of_nat (k * 1000) :: u32) = k * 1000" by (simp only: unsigned_of_nat) (simp add: take_bit_nat_eq_self)
  then show ?thesis using k by (metis mult_eq_0_iff not_gr_zero unat_0 zero_neq_numeral)
qed

text \<open>
  A timer set to a point in time that has passed fires after a second. One set for the future fires at that time, as
  long as the milliseconds up to it fit 32 bits.
\<close>

theorem timeout_at_time:
  assumes "timer_created e" "timer_started e" "unat now < 2 ^ 31" "unat (timestamp_s time_point) < 2 ^ 31"
    and "unat (timestamp_s time_point) \<le> unat now + 4294967"
  shows "timer_active (timeout_at e now callback time_point t) =
    Some (of_nat (if unat (timestamp_s time_point) \<le> unat now then 1000
                  else (unat (timestamp_s time_point) - unat now) * 1000), False)"
proof -
  let ?s = "timestamp_s time_point"
  have n: "signed_take_bit 31 (int i - int j) = int i - int j" if "i < 2 ^ 31" "j < 2 ^ 31" for i j :: nat
    using that by (intro signed_take_bit_int_eq_self) simp_all
  have "?s - now = of_int (int (unat ?s) - int (unat now))" by simp
  then have "sint (?s - now) = signed_take_bit 31 (int (unat ?s) - int (unat now))" by (simp only: signed_of_int) simp
  then have d: "sint (?s - now) = int (unat ?s) - int (unat now)" using n[OF assms(4,3)] by (rule trans)
  have w: "?s - now = of_nat (unat ?s - unat now)" if "unat now < unat ?s"
    using that by (simp add: of_nat_diff)
  show ?thesis
  proof (cases "unat ?s \<le> unat now")
    case True
    then have "sint (?s - now) \<le> 0" unfolding d by linarith
    then show ?thesis using True
      by (simp add: start_new_timer_fields(3) assms(1,2) timeout_at_def timeout_callback_def to_time_point_s_def Let_def)
  next
    case False
    then have "\<not> sint (?s - now) \<le> 0" unfolding d by linarith
    moreover have "(?s - now) * 1000 = of_nat ((unat ?s - unat now) * 1000)"
      using w False by (simp only: of_nat_mult of_nat_numeral not_le)
    moreover have "(of_nat ((unat ?s - unat now) * 1000) :: u32) \<noteq> 0"
      using False assms(5) by (intro milliseconds_nonzero) auto
    ultimately show ?thesis using False
      by (simp only: timeout_callback_active[OF assms(1,2)] timeout_at_def to_time_point_s_def Let_def if_False)
  qed
qed

end
