(* ===== verification/Ocpp_Uri.thy ===== *)
theory Ocpp_Uri
  imports Steady_Timer Ocpp_State
begin

text \<open>
  The address of the CSMS: the parser of addresses in \<open>ocpp/include/websocketpp_utils/uri.hpp\<close> and the check and
  normal form of \<open>ocpp/common/websocket/websocket_uri.cpp\<close>. A parser of characters is recursion over the rest of the string; an
  address that is not valid is \<open>None\<close>, an exception a value of \<open>uri_error\<close>.
\<close>

section \<open>Addresses\<close>

record parsed_uri =
  m_scheme :: string
  m_host :: string
  m_resource :: string
  m_port :: u16
  m_secure :: bool

definition uri_default_port :: u16 where
  "uri_default_port = 80"

definition uri_default_secure_port :: u16 where
  "uri_default_secure_port = 443"

text \<open>\<open>atoi\<close> of the C library, which stops at the first character that is no digit and stays in the range of \<open>int\<close>.\<close>

definition atoi :: "string \<Rightarrow> int" where
  "atoi s =
     (let s = dropWhile (\<lambda>c. (of_char c :: nat) \<in> {32, 9, 10, 11, 12, 13}) s;
          negative = (s \<noteq> [] \<and> hd s = CHR ''-'');
          s = (if s \<noteq> [] \<and> (hd s = CHR ''-'' \<or> hd s = CHR ''+'') then tl s else s);
          v = digits_value (takeWhile is_digit s)
      in max (- (2 ^ 31)) (min (2 ^ 31 - 1) (if negative then - v else v)))"

definition get_port_from_string :: "bool \<Rightarrow> string \<Rightarrow> u16 \<times> bool" where
  "get_port_from_string secure port =
     (if port = [] then (if secure then uri_default_secure_port else uri_default_port, True)
      else (let t_port = of_int (atoi port) :: u32 in (ucast t_port, t_port \<le> 65535 \<and> t_port \<noteq> 0)))"

text \<open>The scheme: its name, whether it is secure, and the rest of the address.\<close>

definition split_scheme :: "string \<Rightarrow> (string \<times> bool \<times> string) option" where
  "split_scheme s =
     (if 7 \<le> length s \<and> take 6 s = ''wss://'' then Some (''wss'', True, drop 6 s)
      else if 6 \<le> length s \<and> take 5 s = ''ws://'' then Some (''ws'', False, drop 5 s)
      else if 8 \<le> length s \<and> take 7 s = ''http://'' then Some (''http'', False, drop 7 s)
      else if 9 \<le> length s \<and> take 8 s = ''https://'' then Some (''https'', True, drop 8 s)
      else None)"

fun split_bracket :: "string \<Rightarrow> (string \<times> string) option" where
  "split_bracket [] = None"
| "split_bracket (c # cs) = (if c = CHR '']'' then Some ([], cs) else map_option (\<lambda>(h, r). (c # h, r)) (split_bracket cs))"

text \<open>The host, whether a port follows, and the rest.\<close>

fun split_name :: "string \<Rightarrow> string \<times> bool \<times> string" where
  "split_name [] = ([], False, [])"
| "split_name (c # cs) =
     (if c = CHR ''/'' then ([], False, cs)
      else if c = CHR '':'' then ([], True, cs)
      else (let (h, p, r) = split_name cs in (c # h, p, r)))"

definition split_host :: "string \<Rightarrow> (string \<times> bool \<times> string) option" where
  "split_host s =
     (if s \<noteq> [] \<and> hd s = CHR ''[''
      then (case split_bracket (tl s) of
              None \<Rightarrow> None
            | Some (h, r) \<Rightarrow>
                (if r = [] then Some (h, False, [])
                 else if hd r = CHR ''/'' then Some (h, False, tl r)
                 else if hd r = CHR '':'' then Some (h, True, tl r)
                 else None))
      else Some (split_name s))"

fun split_port :: "string \<Rightarrow> string \<times> string" where
  "split_port [] = ([], [])"
| "split_port (c # cs) = (if c = CHR ''/'' then ([], cs) else (let (p, r) = split_port cs in (c # p, r)))"

definition uri_of_string :: "string \<Rightarrow> parsed_uri option" where
  "uri_of_string uri_string =
     (case split_scheme uri_string of
        None \<Rightarrow> None
      | Some (scheme, secure, s) \<Rightarrow>
          (case split_host s of
             None \<Rightarrow> None
           | Some (host, has_port, s) \<Rightarrow>
               (let (port, s) = (if has_port then split_port s else ([], s));
                    (port_number, valid) = get_port_from_string secure port
                in if \<not> valid then None
                   else Some \<lparr>m_scheme = scheme, m_host = host, m_resource = CHR ''/'' # s, m_port = port_number, m_secure = secure\<rparr>)))"

definition new_uri :: "bool \<Rightarrow> string \<Rightarrow> u16 \<Rightarrow> string \<Rightarrow> parsed_uri" where
  "new_uri secure host port resource =
     \<lparr>m_scheme = (if secure then ''wss'' else ''ws''), m_host = host, m_resource = (if resource = [] then ''/'' else resource),
      m_port = port, m_secure = secure\<rparr>"

fun decimal :: "nat \<Rightarrow> string" where
  "decimal n = (if n < 10 then [char_of (48 + n)] else decimal (n div 10) @ [char_of (48 + n mod 10)])"

declare decimal.simps [simp del]

definition uri_str :: "parsed_uri \<Rightarrow> string" where
  "uri_str u =
     m_scheme u @ ''://'' @ m_host u @
     (if m_port u \<noteq> (if m_secure u then uri_default_secure_port else uri_default_port) then '':'' @ decimal (unat (m_port u)) else []) @
     m_resource u"

section \<open>The address of the CSMS\<close>

record Uri =
  uri_secure :: bool
  uri_host :: string
  uri_port :: u16
  path_without_chargepoint_id :: string
  uri_chargepoint_id :: string

definition uri_string :: "Uri \<Rightarrow> string" where
  "uri_string u = uri_str (new_uri (uri_secure u) (uri_host u) (uri_port u) (path_without_chargepoint_id u @ uri_chargepoint_id u))"

fun rfind :: "char \<Rightarrow> string \<Rightarrow> nat option" where
  "rfind c [] = None"
| "rfind c (x # xs) = (case rfind c xs of Some n \<Rightarrow> Some (Suc n) | None \<Rightarrow> if x = c then Some 0 else None)"

fun has_scheme :: "string \<Rightarrow> bool" where
  "has_scheme [] = False"
| "has_scheme (c # cs) = (take 3 (c # cs) = ''://'' \<or> has_scheme cs)"

text \<open>A path of a resource has a slash; the other case is what \<open>substr\<close> makes of \<open>npos\<close>.\<close>

definition path_split_last_segment :: "string \<Rightarrow> string \<times> string" where
  "path_split_last_segment path =
     (if path = ''/'' then (''/'', [])
      else case rfind (CHR ''/'') path of
             None \<Rightarrow> ([], path)
           | Some pos_last_slash \<Rightarrow>
               (let (path, pos_last_slash) =
                      (if pos_last_slash = length path - 1 then (butlast path, pos_last_slash - 1) else (path, pos_last_slash))
                in (take (pos_last_slash + 1) path, drop (pos_last_slash + 1) path)))"

datatype uri_error = Empty_uri | Empty_chargepoint_id | Invalid_uri | Scheme_does_not_fit | Unknown_profile

definition check_scheme :: "bool \<Rightarrow> int \<Rightarrow> uri_error option" where
  "check_scheme secure security_profile =
     (if security_profile \<in> {0, 1} then (if secure then Some Scheme_does_not_fit else None)
      else if security_profile \<in> {2, 3} then (if \<not> secure then Some Scheme_does_not_fit else None)
      else Some Unknown_profile)"

definition parse_and_validate :: "string \<Rightarrow> string \<Rightarrow> int \<Rightarrow> uri_error + Uri" where
  "parse_and_validate uri chargepoint_id security_profile =
     (if uri = [] then Inl Empty_uri
      else if chargepoint_id = [] then Inl Empty_chargepoint_id
      else (let scheme_added_workaround = (\<not> has_scheme uri);
                uri = (if scheme_added_workaround then ''ws://'' @ uri else uri)
            in case uri_of_string uri of
                 None \<Rightarrow> Inl Invalid_uri
               | Some uri_temp \<Rightarrow>
                   (case (if scheme_added_workaround then None else check_scheme (m_secure uri_temp) security_profile) of
                      Some e \<Rightarrow> Inl e
                    | None \<Rightarrow>
                        (let path = m_resource uri_temp;
                             (path_without_base, base) = path_split_last_segment path;
                             path = (if base = chargepoint_id then path_without_base else path);
                             path = (if last path \<noteq> CHR ''/'' then path @ ''/'' else path)
                         in Inr \<lparr>uri_secure = m_secure uri_temp, uri_host = m_host uri_temp, uri_port = m_port uri_temp,
                                 path_without_chargepoint_id = path, uri_chargepoint_id = chargepoint_id\<rparr>))))"

section \<open>Printing and parsing\<close>

lemma digit_char [simp]: "n < 10 \<Longrightarrow> is_digit (char_of (48 + n))" "n < 10 \<Longrightarrow> (of_char (char_of (48 + n) :: char) :: int) = 48 + int n"
  by (simp_all add: is_digit_def of_char_of take_bit_nat_eq_self flip: of_nat_of_char[where 'a = int])

lemma decimal_digits: "(\<forall>c\<in>set (decimal n). is_digit c) \<and> decimal n \<noteq> [] \<and> digits_value (decimal n) = int n"
proof (induction n rule: decimal.induct)
  case (1 n)
  show ?case
  proof (cases "n < 10")
    case False
    have "int (n div 10) * 10 + int (n mod 10) = int n" by (metis mult_div_mod_eq of_nat_add of_nat_mult of_nat_numeral mult.commute)
    then show ?thesis using False 1 by (subst (1 2 3) decimal.simps) (simp add: digits_value_def)
  qed (subst (1 2 3) decimal.simps, simp add: digits_value_def)
qed

lemma digit_code: "is_digit c \<Longrightarrow> (of_char c :: nat) \<notin> {32, 9, 10, 11, 12, 13} \<and> c \<noteq> CHR ''-'' \<and> c \<noteq> CHR ''+'' \<and> c \<noteq> CHR ''/''"
  by (auto simp: is_digit_def)

lemma atoi_decimal:
  assumes "n < 2 ^ 31"
  shows "atoi (decimal n) = int n"
proof -
  obtain c cs where c: "decimal n = c # cs" using decimal_digits[of n] by (cases "decimal n") auto
  have d: "is_digit c" "takeWhile is_digit (c # cs) = c # cs" "digits_value (c # cs) = int n"
    using decimal_digits[of n] by (auto simp: c takeWhile_eq_all_conv)
  have "dropWhile (\<lambda>c. (of_char c :: nat) \<in> {32, 9, 10, 11, 12, 13}) (c # cs) = c # cs" using digit_code[OF d(1)] by simp
  then show ?thesis using digit_code[OF d(1)] d(2,3) assms by (simp add: atoi_def c Let_def)
qed

lemma port_decimal:
  fixes p :: u16
  assumes "p \<noteq> 0"
  shows "get_port_from_string secure (decimal (unat p)) = (p, True)"
proof -
  have u: "unat p < 2 ^ 16" using unsigned_less[of p] by simp
  have a: "(of_int (atoi (decimal (unat p))) :: u32) = ucast p"
    using u by (simp add: atoi_decimal)
  have c: "unat (ucast p :: u32) = unat p" using u by (simp add: unsigned_ucast_eq take_bit_nat_eq_self)
  have "(ucast p :: u32) \<le> 65535" using u by (simp add: word_le_nat_alt c)
  moreover have "(ucast p :: u32) \<noteq> 0"
  proof
    assume "(ucast p :: u32) = 0"
    then have "unat p = 0" using c by simp
    then show False using assms by (simp add: unsigned_eq_0_iff)
  qed
  moreover have "ucast (ucast p :: u32) = p" by (rule bit_word_eqI) (simp add: bit_simps)
  ultimately show ?thesis using decimal_digits[of "unat p"] a by (simp add: get_port_from_string_def Let_def)
qed


text \<open>The host of an address without brackets.\<close>

definition plain_host :: "string \<Rightarrow> bool" where
  "plain_host h \<longleftrightarrow> CHR ''/'' \<notin> set h \<and> CHR '':'' \<notin> set h \<and> (h \<noteq> [] \<longrightarrow> hd h \<noteq> CHR ''['')"

lemma split_name_host: "CHR ''/'' \<notin> set h \<Longrightarrow> CHR '':'' \<notin> set h \<Longrightarrow>
    split_name (h @ CHR ''/'' # r) = (h, False, r) \<and> split_name (h @ CHR '':'' # r) = (h, True, r)"
  by (induction h) auto

lemma split_host_plain: "plain_host h \<Longrightarrow> split_host (h @ CHR ''/'' # r) = Some (h, False, r)"
  "plain_host h \<Longrightarrow> split_host (h @ CHR '':'' # r) = Some (h, True, r)"
  using split_name_host[of h r] by (cases h; simp add: split_host_def plain_host_def)+

lemma split_port_slash: "CHR ''/'' \<notin> set p \<Longrightarrow> split_port (p @ CHR ''/'' # r) = (p, r)"
  by (induction p) auto

lemma parse_printed:
  assumes "plain_host h" "p \<noteq> 0"
  shows "uri_of_string (uri_str (new_uri secure h p (CHR ''/'' # r))) = Some (new_uri secure h p (CHR ''/'' # r))"
proof (cases "p = (if secure then uri_default_secure_port else uri_default_port)")
  case True
  then show ?thesis using assms
    by (cases secure) (simp_all add: uri_str_def new_uri_def uri_of_string_def split_scheme_def split_host_plain get_port_from_string_def Let_def)
next
  case False
  have "CHR ''/'' \<notin> set (decimal (unat p))" using decimal_digits digit_code by blast
  then show ?thesis using assms False
    by (cases secure) (simp_all add: uri_str_def new_uri_def uri_of_string_def split_scheme_def split_host_plain split_port_slash port_decimal Let_def)
qed

lemma rfind_last: "c \<notin> set ys \<Longrightarrow> rfind c (xs @ c # ys) = Some (length xs)"
proof -
  have n: "c \<notin> set ys \<Longrightarrow> rfind c ys = None" for ys by (induction ys) auto
  show "c \<notin> set ys \<Longrightarrow> rfind c (xs @ c # ys) = Some (length xs)" by (induction xs) (simp_all add: n)
qed

lemma split_last_segment:
  assumes "CHR ''/'' \<notin> set s" "s \<noteq> []"
  shows "path_split_last_segment (p @ CHR ''/'' # s) = (p @ ''/'', s)"
  using assms rfind_last[of "CHR ''/''" s p] by (cases p) (simp_all add: path_split_last_segment_def Let_def)

lemma has_scheme_sep: "has_scheme (xs @ '':/'' @ CHR ''/'' # ys)"
  by (induction xs) simp_all

lemma uri_string_has_scheme [simp]: "has_scheme (uri_str u)"
  using has_scheme_sep[of "m_scheme u"] by (simp add: uri_str_def)

lemma uri_str_nonempty [simp]: "uri_str u \<noteq> []"
  by (simp add: uri_str_def)

lemma parse_port_nonzero: "uri_of_string s = Some u \<Longrightarrow> m_port u \<noteq> 0"
proof -
  have z: "get_port_from_string b q = (n, True) \<Longrightarrow> n \<noteq> 0" for b q n
  proof (cases "q = []")
    case False
    let ?t = "of_int (atoi q) :: u32"
    assume "get_port_from_string b q = (n, True)"
    then have t: "n = ucast ?t" "?t \<le> 65535" "?t \<noteq> 0" using False by (auto simp: get_port_from_string_def Let_def)
    have "unat ?t < 2 ^ 16" using t(2) by (simp add: word_le_nat_alt)
    then have "unat (ucast ?t :: u16) = unat ?t" by (simp only: unsigned_ucast_eq) (simp add: take_bit_nat_eq_self)
    then show "n \<noteq> 0" using t(1,3) by (metis unsigned_0 unsigned_eq_0_iff)
  qed (auto simp: get_port_from_string_def uri_default_port_def uri_default_secure_port_def split: if_splits)
  show "uri_of_string s = Some u \<Longrightarrow> m_port u \<noteq> 0"
    by (auto simp: uri_of_string_def Let_def split: option.splits prod.splits if_splits dest: z)
qed


text \<open>What a valid address is made of: its path begins and ends with a slash.\<close>

lemma split_keeps_slash: "\<exists>r. fst (path_split_last_segment (CHR ''/'' # s)) = CHR ''/'' # r"
proof (cases "s = []")
  case False
  then show ?thesis
    by (cases "rfind (CHR ''/'') s") (auto simp: path_split_last_segment_def Let_def neq_Nil_conv split: if_splits)
qed (simp add: path_split_last_segment_def)

lemma parsed_address:
  assumes "parse_and_validate s cid p = Inr u"
  shows "uri_port u \<noteq> 0" "\<exists>r. path_without_chargepoint_id u = CHR ''/'' # r" "\<exists>q. path_without_chargepoint_id u = q @ ''/''"
    "uri_chargepoint_id u = cid" "cid \<noteq> []" "p \<in> {0, 1} \<Longrightarrow> has_scheme s \<Longrightarrow> \<not> uri_secure u" "p \<in> {2, 3} \<Longrightarrow> has_scheme s \<Longrightarrow> uri_secure u"
    "\<not> has_scheme s \<Longrightarrow> \<not> uri_secure u"
proof -
  let ?s = "if \<not> has_scheme s then ''ws://'' @ s else s"
  obtain x where x: "uri_of_string ?s = Some x"
    using assms by (auto simp: parse_and_validate_def Let_def split: if_splits option.splits)
  obtain r where r: "m_resource x = CHR ''/'' # r"
    using x by (auto simp: uri_of_string_def Let_def split: option.splits prod.splits if_splits)
  define path where "path = (if snd (path_split_last_segment (m_resource x)) = cid then fst (path_split_last_segment (m_resource x)) else m_resource x)"
  obtain r' where r': "path = CHR ''/'' # r'" using r split_keeps_slash[of r] by (cases "snd (path_split_last_segment (m_resource x)) = cid") (auto simp: path_def)
  have ne: "s \<noteq> []" "cid \<noteq> []" using assms by (auto simp: parse_and_validate_def split: if_splits)
  have c: "has_scheme s \<Longrightarrow> check_scheme (m_secure x) p = None"
    using assms x ne by (cases "check_scheme (m_secure x) p") (simp_all add: parse_and_validate_def)
  have u: "u = \<lparr>uri_secure = m_secure x, uri_host = m_host x, uri_port = m_port x,
                path_without_chargepoint_id = (if last path \<noteq> CHR ''/'' then path @ ''/'' else path), uri_chargepoint_id = cid\<rparr>"
    using assms x c ne
    by (cases "has_scheme s"; cases "snd (path_split_last_segment (m_resource x)) = cid")
      (auto simp: parse_and_validate_def case_prod_beta Let_def path_def)
  show "uri_port u \<noteq> 0" using u parse_port_nonzero[OF x] by simp
  show "\<exists>r. path_without_chargepoint_id u = CHR ''/'' # r" using u r' by simp
  show "\<exists>q. path_without_chargepoint_id u = q @ ''/''"
  proof (cases "last path = CHR ''/''")
    case True
    have "path \<noteq> []" using r' by simp
    then have "path = butlast path @ ''/''" using append_butlast_last_id[of path] True by simp
    then show ?thesis using u True by simp blast
  qed (use u in simp)
  show "uri_chargepoint_id u = cid" "cid \<noteq> []" using u ne by simp_all
  show "p \<in> {0, 1} \<Longrightarrow> has_scheme s \<Longrightarrow> \<not> uri_secure u" "p \<in> {2, 3} \<Longrightarrow> has_scheme s \<Longrightarrow> uri_secure u"
    using u c by (auto simp: check_scheme_def split: if_splits)
  show "\<not> has_scheme s \<Longrightarrow> \<not> uri_secure u" using u x
    by (auto simp: uri_of_string_def split_scheme_def Let_def split: option.splits prod.splits if_splits)
qed

text \<open>
  (C40) The address the connection uses is a fixed point: printed and parsed again it is the same, for an identity
  without a slash and a host that is not in brackets (those of an address of IPv6 are not printed).
\<close>

theorem csms_address_roundtrip:
  assumes "parse_and_validate s cid p = Inr u" "p \<in> {0, 1, 2, 3}" "plain_host (uri_host u)" "CHR ''/'' \<notin> set cid"
  shows "parse_and_validate (uri_string (u\<lparr>uri_secure := 1 < p\<rparr>)) cid p = Inr (u\<lparr>uri_secure := 1 < p\<rparr>)"
proof -
  note a = parsed_address[OF assms(1)]
  obtain q where q: "path_without_chargepoint_id u = q @ ''/''" using a(3) by blast
  have l: "last (path_without_chargepoint_id u) = CHR ''/''" by (simp add: q)
  obtain r where r: "path_without_chargepoint_id u = CHR ''/'' # r" using a(2) by blast
  let ?n = "new_uri (1 < p) (uri_host u) (uri_port u) (path_without_chargepoint_id u @ cid)"
  have parse: "uri_of_string (uri_str ?n) = Some ?n"
    using parse_printed[OF assms(3) a(1)] r by simp
  have split: "path_split_last_segment (m_resource ?n) = (path_without_chargepoint_id u, cid)"
    using split_last_segment[OF assms(4) a(5)] q by (simp add: new_uri_def)
  have check: "check_scheme (1 < p) p = None" using assms(2) by (auto simp: check_scheme_def)
  have str: "uri_string (u\<lparr>uri_secure := 1 < p\<rparr>) = uri_str ?n" using a(4) by (simp add: uri_string_def)
  have fields: "m_secure ?n = (1 < p)" "m_host ?n = uri_host u" "m_port ?n = uri_port u" by (simp_all add: new_uri_def)
  show ?thesis
    using a(4,5) parse split check l by (simp add: parse_and_validate_def str Let_def fields)
qed

lemma sample_address:
  "parse_and_validate ''wss://10.0.0.2:8443/ocpp'' ''EVSE1'' 2 =
     Inr \<lparr>uri_secure = True, uri_host = ''10.0.0.2'', uri_port = 8443, path_without_chargepoint_id = ''/ocpp/'', uri_chargepoint_id = ''EVSE1''\<rparr>"
  by code_simp

theorem csms_address_roundtrip_witness:
  "parse_and_validate (uri_string \<lparr>uri_secure = True, uri_host = ''10.0.0.2'', uri_port = 8443,
                                   path_without_chargepoint_id = ''/ocpp/'', uri_chargepoint_id = ''EVSE1''\<rparr>) ''EVSE1'' 2 =
     Inr \<lparr>uri_secure = True, uri_host = ''10.0.0.2'', uri_port = 8443, path_without_chargepoint_id = ''/ocpp/'', uri_chargepoint_id = ''EVSE1''\<rparr>"
  using csms_address_roundtrip[OF sample_address] by (simp add: plain_host_def)

section \<open>What the address is not\<close>

text \<open>An address without a scheme has the port of an insecure one, also when the profile asks for TLS.\<close>

lemma schemeless_address:
  assumes "plain_host h" "\<not> has_scheme (h @ ''/'')" "CHR ''/'' \<notin> set cid" "cid \<noteq> []"
  shows "parse_and_validate (h @ ''/'') cid p =
           Inr \<lparr>uri_secure = False, uri_host = h, uri_port = 80, path_without_chargepoint_id = ''/'', uri_chargepoint_id = cid\<rparr>"
  using assms
  by (simp add: parse_and_validate_def uri_of_string_def split_scheme_def split_host_plain get_port_from_string_def uri_default_port_def
      path_split_last_segment_def Let_def)

text \<open>
  The identity at the end of the address is taken from it, but not when a slash follows: then it comes twice in the
  address that is used.
\<close>

lemma identity_is_taken:
  "parse_and_validate ''ws://csms/EVSE1'' ''EVSE1'' 1 =
     Inr \<lparr>uri_secure = False, uri_host = ''csms'', uri_port = 80, path_without_chargepoint_id = ''/'', uri_chargepoint_id = ''EVSE1''\<rparr>"
  by code_simp

lemma rfind_end: "rfind c (xs @ [c]) = Some (length xs)"
  using rfind_last[of c "[]" xs] by simp

lemma trailing_slash_doubles_the_identity:
  assumes "plain_host h" "p \<in> {0, 1}" "cid \<noteq> []"
  shows "\<exists>u. parse_and_validate (''ws://'' @ h @ ''/'' @ cid @ ''/'') cid p = Inr u \<and>
             uri_string u = ''ws://'' @ h @ ''/'' @ cid @ ''/'' @ cid"
proof -
  have u: "uri_of_string (''ws://'' @ h @ ''/'' @ cid @ ''/'') =
      Some \<lparr>m_scheme = ''ws'', m_host = h, m_resource = ''/'' @ cid @ ''/'', m_port = 80, m_secure = False\<rparr>"
    using split_host_plain(1)[OF assms(1), of "cid @ ''/''"]
    by (simp add: uri_of_string_def split_scheme_def get_port_from_string_def uri_default_port_def Let_def)
  have s: "path_split_last_segment (''/'' @ cid @ ''/'') = (''/'' @ cid, [])"
    using rfind_end[of "CHR ''/''" "CHR ''/'' # cid"] by (simp add: path_split_last_segment_def butlast_append)
  have c: "check_scheme False p = None" using assms(2) by (simp add: check_scheme_def)
  have "has_scheme (''ws://'' @ h @ ''/'' @ cid @ ''/'')" by simp
  then have "parse_and_validate (''ws://'' @ h @ ''/'' @ cid @ ''/'') cid p =
      Inr \<lparr>uri_secure = False, uri_host = h, uri_port = 80, path_without_chargepoint_id = ''/'' @ cid @ ''/'', uri_chargepoint_id = cid\<rparr>"
    using u s c assms(3) unfolding parse_and_validate_def by (simp add: Let_def)
  then show ?thesis by (simp add: uri_string_def uri_str_def new_uri_def uri_default_port_def)
qed

end
