(* ===== verification/Websocket.thy ===== *)
theory Websocket
  imports Base64 Ocpp_Uri
begin

text \<open>
  The connection to the CSMS: \<open>ocpp/common/websocket/websocket_base.cpp\<close> and \<open>websocket_libwebsockets.cpp\<close>. The
  libraries for websockets and TLS are what the arguments say: whether a context and a connection are created,
  which callbacks one call of \<open>lws_service\<close> makes, and what \<open>lws_write\<close> answers. The thread of the client is
  a step machine, its place in the loop the field \<open>client_thread\<close>; the callbacks that are deferred to another thread are values in
  a queue. An exception is a value of \<open>ws_error\<close>. The options that only go to the library are left out.
\<close>

section \<open>Options and data of a connection\<close>

datatype OcppProtocolVersion = Version_Unknown | v16 | v201 | v21

definition ocpp_protocol_version_to_string :: "OcppProtocolVersion \<Rightarrow> string" where
  "ocpp_protocol_version_to_string e =
     (case e of v16 \<Rightarrow> ''ocpp1.6'' | v201 \<Rightarrow> ''ocpp2.0.1'' | v21 \<Rightarrow> ''ocpp2.1'' | Version_Unknown \<Rightarrow> ''unknown'')"

definition string_to_ocpp_protocol_version :: "string \<Rightarrow> OcppProtocolVersion option" where
  "string_to_ocpp_protocol_version s =
     (if s = ''ocpp1.6'' then Some v16
      else if s = ''ocpp2.0.1'' then Some v201
      else if s = ''ocpp2.1'' then Some v21
      else if s = ''unknown'' then Some Version_Unknown
      else None)"

record WebsocketConnectionOptions =
  ocpp_versions :: "OcppProtocolVersion list"
  csms_uri :: Uri
  security_profile :: int
  authorization_key :: "string option"
  retry_backoff_random_range_s :: int
  retry_backoff_repeat_times :: int
  retry_backoff_wait_minimum_s :: int
  max_connection_attempts :: int
  ping_interval_s :: int
  ping_payload :: string
  hostName :: "string option"

definition no_uri :: Uri where
  "no_uri = \<lparr>uri_secure = False, uri_host = [], uri_port = 0, path_without_chargepoint_id = [], uri_chargepoint_id = []\<rparr>"

text \<open>The options of the firmware (\<open>source/EVSE_Ocpp.cpp\<close>); the versions, the address and the profile are added later.\<close>

definition EVSE_OCPP_Get_Connection_Options :: "string option \<Rightarrow> WebsocketConnectionOptions" where
  "EVSE_OCPP_Get_Connection_Options key =
     \<lparr>ocpp_versions = [], csms_uri = no_uri, security_profile = 0, authorization_key = key,
      retry_backoff_random_range_s = 2, retry_backoff_repeat_times = 102, retry_backoff_wait_minimum_s = 51,
      max_connection_attempts = 5, ping_interval_s = 100, ping_payload = ''payload'', hostName = None\<rparr>"

datatype WebsocketCloseReason = Close_Normal | ForceTcpDrop | GoingAway | AbnormalClose | ServiceRestart

datatype ConnectionFailedReason = InvalidCSMSCertificate | FailedToAuthenticateAtCsms

datatype EConnectionState = State_INITIALIZE | State_CONNECTING | State_RECONNECTING | State_CONNECTED | State_ERROR | State_FINALIZED

record ConnectionData =
  cd_lws_ctx :: bool
  cd_is_running :: bool
  cd_is_stopped_run :: bool
  cd_state :: EConnectionState

definition new_ConnectionData :: ConnectionData where
  "new_ConnectionData = \<lparr>cd_lws_ctx = False, cd_is_running = True, cd_is_stopped_run = False, cd_state = State_INITIALIZE\<rparr>"

datatype lws_write_protocol = LWS_WRITE_TEXT | LWS_WRITE_PING

text \<open>\<open>wm_object\<close> is the identity of the message, which the sender and the queue share.\<close>

record WebsocketMessage =
  wm_object :: nat
  wm_payload :: string
  wm_protocol :: lws_write_protocol
  wm_sent_bytes :: int

datatype ws_callback = Reconnect_now | Ocpp_ping

datatype deferred =
    Deferred_connected
  | Deferred_stopped_and_disconnected
  | Deferred_disconnected
  | Deferred_connection_failed ConnectionFailedReason

datatype client_thread = Client_connects | Client_serves | Client_waits int | Client_ends | Client_stopped

datatype ws_error = Unknown_security_profile | No_ocpp_version | Unknown_ocpp_version | Header_not_appended | No_authorization_key
  | Context_exists | Already_polled | Join_waits

datatype ws_event =
    Written nat string lws_write_protocol int
  | Authorization_header string
  | On_writable
  | Awakened

record websocket =
  m_is_connected :: bool
  connection_options :: WebsocketConnectionOptions
  callbacks_registered :: bool
  ping_timer :: "ws_callback steady_timer"
  reconnect_timer_tpm :: "ws_callback steady_timer"
  connection_attempts :: int
  reconnect_backoff_ms :: int
  shutting_down :: bool
  reconnecting :: bool
  conn_data :: "ConnectionData option"
  client_thread :: client_thread
  ws_message_queue :: "WebsocketMessage list"
  message_sent :: "nat list"
  recv_message_queue :: "string list"
  recv_buffered_message :: string
  deferred_callback_queue :: "deferred list"
  connected_ocpp_version :: OcppProtocolVersion
  ws_objects :: nat
  ws_log :: "ws_event list"

type_synonym 'a ws_result = "ws_error + 'a"

fun ws_bind :: "'a ws_result \<Rightarrow> ('a \<Rightarrow> 'b ws_result) \<Rightarrow> 'b ws_result" where
  "ws_bind (Inl e) f = Inl e"
| "ws_bind (Inr x) f = f x"

definition ws_do :: "ws_event \<Rightarrow> websocket \<Rightarrow> websocket" where
  "ws_do e w = w\<lparr>ws_log := ws_log w @ [e]\<rparr>"

definition ws_uri_secure :: "bool \<Rightarrow> WebsocketConnectionOptions \<Rightarrow> WebsocketConnectionOptions" where
  "ws_uri_secure b opts = opts\<lparr>csms_uri := (csms_uri opts)\<lparr>uri_secure := b\<rparr>\<rparr>"

definition set_connection_options :: "WebsocketConnectionOptions \<Rightarrow> websocket \<Rightarrow> websocket ws_result" where
  "set_connection_options opts w =
     (if security_profile opts \<notin> {0, 1, 2, 3} then Inl Unknown_security_profile
      else if ocpp_versions opts = [] then Inl No_ocpp_version
      else if Version_Unknown \<in> set (ocpp_versions opts) then Inl Unknown_ocpp_version
      else (let w = w\<lparr>connection_options := opts\<rparr>;
                w = (if 1 < security_profile opts then w\<lparr>connection_options := ws_uri_secure True (connection_options w)\<rparr> else w)
            in Inr (w\<lparr>connection_attempts := 1\<rparr>)))"

definition set_authorization_key :: "string \<Rightarrow> websocket \<Rightarrow> websocket" where
  "set_authorization_key key w = w\<lparr>connection_options := (connection_options w)\<lparr>authorization_key := Some key\<rparr>\<rparr>"

definition fresh_websocket :: "WebsocketConnectionOptions \<Rightarrow> websocket" where
  "fresh_websocket opts =
     \<lparr>m_is_connected = False, connection_options = opts, callbacks_registered = False, ping_timer = new_steady_timer,
      reconnect_timer_tpm = new_steady_timer, connection_attempts = 1, reconnect_backoff_ms = 0, shutting_down = False,
      reconnecting = False, conn_data = None, client_thread = Client_stopped, ws_message_queue = [], message_sent = [],
      recv_message_queue = [], recv_buffered_message = [], deferred_callback_queue = [], connected_ocpp_version = Version_Unknown,
      ws_objects = 0, ws_log = []\<rparr>"

definition new_WebsocketLibwebsockets :: "WebsocketConnectionOptions \<Rightarrow> websocket ws_result" where
  "new_WebsocketLibwebsockets opts = set_connection_options opts (fresh_websocket opts)"

section \<open>The delay of attempts to connect\<close>

text \<open>\<open>random_number\<close> is drawn between 0 and \<open>retry_backoff_random_range_s\<close>. The integers do not overflow with the options of the firmware.\<close>

definition get_reconnect_interval :: "int \<Rightarrow> websocket \<Rightarrow> int \<times> websocket" where
  "get_reconnect_interval random_number w =
     (if retry_backoff_repeat_times (connection_options w) + 1 < connection_attempts w then (reconnect_backoff_ms w, w)
      else if connection_attempts w = 1
      then (let ms = (retry_backoff_wait_minimum_s (connection_options w) + random_number) * 1000 in (ms, w\<lparr>reconnect_backoff_ms := ms\<rparr>))
      else (let ms = reconnect_backoff_ms w * 2 + random_number * 1000 in (ms, w\<lparr>reconnect_backoff_ms := ms\<rparr>)))"

section \<open>Callbacks of the library\<close>

definition update_state :: "EConnectionState \<Rightarrow> websocket \<Rightarrow> websocket" where
  "update_state st w = w\<lparr>conn_data := map_option (\<lambda>d. d\<lparr>cd_state := st\<rparr>) (conn_data w)\<rparr>"

definition is_interupted :: "ConnectionData \<Rightarrow> bool" where
  "is_interupted d \<longleftrightarrow> \<not> cd_is_running d"

definition clear_all_queues :: "websocket \<Rightarrow> websocket" where
  "clear_all_queues w = w\<lparr>ws_message_queue := [], recv_buffered_message := [], recv_message_queue := []\<rparr>"

definition push_deferred_callback :: "deferred \<Rightarrow> websocket \<Rightarrow> websocket" where
  "push_deferred_callback c w = w\<lparr>deferred_callback_queue := deferred_callback_queue w @ [c]\<rparr>"

definition set_websocket_ping_interval :: "timer_env \<Rightarrow> int \<Rightarrow> websocket \<Rightarrow> websocket" where
  "set_websocket_ping_interval e interval_s w =
     (let w = w\<lparr>ping_timer := stop_timer (ping_timer w)\<rparr>;
          w = (if 0 < interval_s then w\<lparr>ping_timer := interval_callback e Ocpp_ping interval_s (ping_timer w)\<rparr> else w)
      in w\<lparr>connection_options := (connection_options w)\<lparr>ping_interval_s := interval_s\<rparr>\<rparr>)"

definition on_conn_connected :: "timer_env \<Rightarrow> websocket \<Rightarrow> websocket" where
  "on_conn_connected e w =
     (let w = w\<lparr>connection_attempts := 1, m_is_connected := True, reconnecting := False\<rparr>;
          w = set_websocket_ping_interval e (ping_interval_s (connection_options w)) w;
          w = w\<lparr>reconnect_timer_tpm := stop_timer (reconnect_timer_tpm w)\<rparr>;
          w = clear_all_queues w
      in push_deferred_callback Deferred_connected w)"

definition on_conn_close :: "websocket \<Rightarrow> websocket" where
  "on_conn_close w =
     (let w = w\<lparr>m_is_connected := False, reconnect_timer_tpm := stop_timer (reconnect_timer_tpm w)\<rparr>;
          w = clear_all_queues w;
          w = push_deferred_callback Deferred_stopped_and_disconnected w
      in w\<lparr>conn_data := map_option (\<lambda>d. d\<lparr>cd_is_stopped_run := True\<rparr>) (conn_data w)\<rparr>)"

definition on_conn_fail :: "websocket \<Rightarrow> websocket" where
  "on_conn_fail w =
     (let w = (if m_is_connected w then push_deferred_callback Deferred_disconnected w else w)
      in clear_all_queues (w\<lparr>m_is_connected := False\<rparr>))"

definition on_conn_message :: "string \<Rightarrow> websocket \<Rightarrow> websocket" where
  "on_conn_message m w = (if \<not> callbacks_registered w then w else w\<lparr>recv_message_queue := recv_message_queue w @ [m]\<rparr>)"

fun pop_sent :: "WebsocketMessage list \<Rightarrow> nat list \<times> WebsocketMessage list" where
  "pop_sent [] = ([], [])"
| "pop_sent (m # ms) =
     (if int (length (wm_payload m)) \<le> wm_sent_bytes m then (let (sent, ms) = pop_sent ms in (wm_object m # sent, ms)) else ([], m # ms))"

text \<open>\<open>sent\<close> is the answer of \<open>lws_write\<close>.\<close>

definition send_internal :: "int \<Rightarrow> WebsocketMessage \<Rightarrow> bool \<times> WebsocketMessage" where
  "send_internal sent m =
     (if sent < 0 then (False, m\<lparr>wm_sent_bytes := 0\<rparr>)
      else (\<not> sent < int (length (wm_payload m)), m\<lparr>wm_sent_bytes := sent\<rparr>))"

definition on_conn_writable :: "int \<Rightarrow> websocket \<Rightarrow> websocket" where
  "on_conn_writable sent w =
     (case conn_data w of
        None \<Rightarrow> w
      | Some d \<Rightarrow>
          (if \<not> callbacks_registered w \<or> \<not> m_is_connected w then w
           else if is_interupted d \<or> cd_state d = State_FINALIZED then w
           else (let (popped, ms) = pop_sent (ws_message_queue w);
                     w = w\<lparr>message_sent := message_sent w @ popped, ws_message_queue := ms\<rparr>
                 in case ms of
                      [] \<Rightarrow> w
                    | m # ms \<Rightarrow>
                        (let w = ws_do (Written (wm_object m) (wm_payload m) (wm_protocol m) sent) w;
                             (ok, m) = send_internal sent m;
                             m = (if \<not> ok then m\<lparr>wm_sent_bytes := 0\<rparr> else m)
                         in w\<lparr>ws_message_queue := m # ms\<rparr>))))"

definition on_writable_if_messages :: "websocket \<Rightarrow> websocket" where
  "on_writable_if_messages w = (if ws_message_queue w \<noteq> [] then ws_do On_writable w else w)"

definition getAuthorizationHeader :: "WebsocketConnectionOptions \<Rightarrow> string option" where
  "getAuthorizationHeader opts =
     (case authorization_key opts of
        None \<Rightarrow> None
      | Some key \<Rightarrow> Some (''Basic '' @ map (char_of \<circ> unat) (base64_encode (map of_char (uri_chargepoint_id (csms_uri opts) @ '':'' @ key)))))"

text \<open>
  The callbacks of \<open>process_callback\<close> that do something, with what the library tells: whether the two headers are appended,
  whether the error is that the CSMS does not authorize, the protocol the CSMS selects, the answer of \<open>lws_write\<close>, and what is received with the length of the rest.
  \<open>Other_callback\<close> are the others.
\<close>

datatype lws_callback =
    Append_handshake_header bool bool
  | Client_connection_error bool
  | Lws_connecting
  | Filter_pre_establish string
  | Established
  | Peer_initiated_close
  | Client_closed
  | Client_writeable int
  | Receive_pong
  | Client_receive string nat
  | Event_wait_cancelled
  | Wsi_destroy
  | Other_callback

definition LWS_CLOSE_SOCKET_RESPONSE_MESSAGE :: int where
  "LWS_CLOSE_SOCKET_RESPONSE_MESSAGE = -1"

definition append_handshake_header :: "bool \<Rightarrow> bool \<Rightarrow> websocket \<Rightarrow> websocket ws_result" where
  "append_handshake_header host_appended authorization_appended w =
     (if hostName (connection_options w) \<noteq> None \<and> \<not> host_appended then Inl Header_not_appended
      else if security_profile (connection_options w) = 1 \<or> security_profile (connection_options w) = 2
      then (case getAuthorizationHeader (connection_options w) of
              None \<Rightarrow> Inl No_authorization_key
            | Some str \<Rightarrow>
                (if \<not> authorization_appended then Inl Header_not_appended else Inr (ws_do (Authorization_header str) w)))
      else Inr w)"

text \<open>The part of the callbacks that comes before the common end, at which an interrupted connection closes the socket.\<close>

definition callback_action :: "timer_env \<Rightarrow> lws_callback \<Rightarrow> websocket \<Rightarrow> websocket" where
  "callback_action e cb w =
     (case cb of
        Lws_connecting \<Rightarrow> update_state State_CONNECTING w
      | Filter_pre_establish s \<Rightarrow>
          w\<lparr>connected_ocpp_version := (case string_to_ocpp_protocol_version s of Some v \<Rightarrow> v | None \<Rightarrow> Version_Unknown)\<rparr>
      | Established \<Rightarrow> ws_do On_writable (on_conn_connected e (update_state State_CONNECTED w))
      | Client_closed \<Rightarrow>
          (case conn_data w of
             None \<Rightarrow> w
           | Some d \<Rightarrow>
               (if is_interupted d then on_conn_close (update_state State_FINALIZED w)
                else on_conn_fail (update_state State_ERROR w)))
      | Client_writeable sent \<Rightarrow> on_writable_if_messages (on_conn_writable sent w)
      | Receive_pong \<Rightarrow> on_writable_if_messages w
      | Client_receive s remaining \<Rightarrow>
          (let w = w\<lparr>recv_buffered_message := recv_buffered_message w @ s\<rparr>;
               w = (if remaining = 0 then (on_conn_message (recv_buffered_message w) w)\<lparr>recv_buffered_message := []\<rparr> else w)
           in on_writable_if_messages w)
      | Event_wait_cancelled \<Rightarrow> on_writable_if_messages w
      | Wsi_destroy \<Rightarrow> on_conn_fail (update_state State_ERROR w)
      | _ \<Rightarrow> w)"

definition process_callback :: "timer_env \<Rightarrow> lws_callback \<Rightarrow> websocket \<Rightarrow> (int \<times> websocket) ws_result" where
  "process_callback e cb w =
     (case conn_data w of
        None \<Rightarrow> Inr (LWS_CLOSE_SOCKET_RESPONSE_MESSAGE, w)
      | Some d \<Rightarrow>
          (case cb of
             Append_handshake_header host_appended authorization_appended \<Rightarrow>
               ws_bind (append_handshake_header host_appended authorization_appended w) (\<lambda>w. Inr (0, w))
           | Client_connection_error unauthorized \<Rightarrow>
               (let w = (if unauthorized then push_deferred_callback (Deferred_connection_failed FailedToAuthenticateAtCsms) w else w)
                in Inr (0, on_conn_fail (update_state State_ERROR w)))
           | Peer_initiated_close \<Rightarrow> Inr (0, on_conn_fail (update_state State_ERROR w))
           | _ \<Rightarrow> Inr (if is_interupted d then LWS_CLOSE_SOCKET_RESPONSE_MESSAGE else 0, callback_action e cb w)))"

fun process_callbacks :: "timer_env \<Rightarrow> lws_callback list \<Rightarrow> websocket \<Rightarrow> websocket ws_result" where
  "process_callbacks e [] w = Inr w"
| "process_callbacks e (cb # cbs) w = ws_bind (process_callback e cb w) (\<lambda>(_, w). process_callbacks e cbs w)"

end
