(* ===== verification/Websocket_Client.thy ===== *)
theory Websocket_Client
  imports Websocket
begin

text \<open>
  The thread of the client and the operations of the connection to the CSMS. A step of the thread is an attempt to
  connect, one call of \<open>lws_service\<close>, the end of a delay, or the end of the thread. An operation that waits for the
  thread takes the surroundings of the steps the thread makes meanwhile, and is \<open>Join_waits\<close> when they do not suffice.
\<close>

section \<open>The thread of the client\<close>

text \<open>
  \<open>lws_service\<close> answers \<open>ce_service\<close> and makes \<open>ce_callbacks\<close>, as does the attempt to connect; the end of the context
  makes \<open>ce_destroy\<close>.
\<close>

record client_env =
  ce_context :: bool
  ce_connect :: bool
  ce_service :: int
  ce_callbacks :: "lws_callback list"
  ce_destroy :: "lws_callback list"
  ce_random :: int
  ce_timer :: timer_env

definition init_connection_context :: "websocket \<Rightarrow> websocket ws_result" where
  "init_connection_context w =
     (case conn_data w of
        None \<Rightarrow> Inr w
      | Some d \<Rightarrow>
          (if cd_lws_ctx d then Inl Context_exists
           else Inr (w\<lparr>conn_data := Some (d\<lparr>cd_is_stopped_run := False, cd_lws_ctx := True\<rparr>)\<rparr>)))"

definition reset_connection_data :: "client_env \<Rightarrow> websocket \<Rightarrow> websocket ws_result" where
  "reset_connection_data e w =
     (let w = w\<lparr>conn_data := map_option (\<lambda>d. d\<lparr>cd_lws_ctx := False\<rparr>) (conn_data w)\<rparr>
      in process_callbacks (ce_timer e) (ce_destroy e) w)"

definition interrupted :: "websocket \<Rightarrow> bool" where
  "interrupted w \<longleftrightarrow> (case conn_data w of None \<Rightarrow> True | Some d \<Rightarrow> is_interupted d)"

definition state_is :: "EConnectionState \<Rightarrow> websocket \<Rightarrow> bool" where
  "state_is st w \<longleftrightarrow> (case conn_data w of None \<Rightarrow> False | Some d \<Rightarrow> cd_state d = st)"

text \<open>The end of the loop: control is given back to the application, unless that has been done.\<close>

definition client_finish :: "websocket \<Rightarrow> websocket" where
  "client_finish w =
     (let w = (case conn_data w of
                 None \<Rightarrow> w
               | Some d \<Rightarrow> (if \<not> cd_is_stopped_run d then push_deferred_callback Deferred_stopped_and_disconnected w else w))
      in w\<lparr>client_thread := Client_ends\<rparr>)"

definition after_attempt :: "client_env \<Rightarrow> websocket \<Rightarrow> websocket" where
  "after_attempt e w =
     (if interrupted w \<or> state_is State_FINALIZED w then client_finish w
      else if \<not> state_is State_CONNECTED w
      then (if max_connection_attempts (connection_options w) = -1 \<or> connection_attempts w \<le> max_connection_attempts (connection_options w)
            then (let w = update_state State_RECONNECTING w;
                      (delay, w) = get_reconnect_interval (ce_random e) w
                  in w\<lparr>connection_attempts := connection_attempts w + 1, client_thread := Client_waits delay\<rparr>)
            else client_finish (update_state State_FINALIZED w))
      else w\<lparr>client_thread := Client_connects\<rparr>)"

definition client_connects :: "client_env \<Rightarrow> websocket \<Rightarrow> websocket ws_result" where
  "client_connects e w =
     (if \<not> ce_context e then Inr (after_attempt e (on_conn_fail (update_state State_ERROR w)))
      else ws_bind (init_connection_context w) (\<lambda>w.
        ws_bind (process_callbacks (ce_timer e) (ce_callbacks e) w) (\<lambda>w.
          if \<not> ce_connect e
          then ws_bind (reset_connection_data e (on_conn_fail (update_state State_ERROR w))) (\<lambda>w. Inr (after_attempt e w))
          else Inr (w\<lparr>client_thread := Client_serves\<rparr>))))"

definition client_serves :: "client_env \<Rightarrow> websocket \<Rightarrow> websocket ws_result" where
  "client_serves e w =
     ws_bind (process_callbacks (ce_timer e) (ce_callbacks e) w) (\<lambda>w.
       let processing = (\<not> interrupted w \<and> \<not> state_is State_FINALIZED w \<and> \<not> state_is State_ERROR w);
           w = (if processing then on_writable_if_messages w else w)
       in if 0 \<le> ce_service e \<and> processing then Inr w
          else ws_bind (reset_connection_data e w) (\<lambda>w. Inr (after_attempt e w)))"

definition client_step :: "client_env \<Rightarrow> websocket \<Rightarrow> websocket ws_result" where
  "client_step e w =
     (case client_thread w of
        Client_connects \<Rightarrow> client_connects e w
      | Client_serves \<Rightarrow> client_serves e w
      | Client_waits d \<Rightarrow> Inr (if interrupted w then client_finish w else w\<lparr>client_thread := Client_connects\<rparr>)
      | Client_ends \<Rightarrow> Inr (if interrupted w then w\<lparr>client_thread := Client_stopped\<rparr> else w)
      | Client_stopped \<Rightarrow> Inr w)"

fun client_steps :: "client_env list \<Rightarrow> websocket \<Rightarrow> websocket ws_result" where
  "client_steps [] w = Inr w"
| "client_steps (e # es) w = ws_bind (client_step e w) (client_steps es)"

section \<open>Starting and closing\<close>

definition do_interrupt_and_exit :: "websocket \<Rightarrow> websocket" where
  "do_interrupt_and_exit w =
     (case conn_data w of
        None \<Rightarrow> w
      | Some d \<Rightarrow>
          (if cd_is_running d
           then (let w = w\<lparr>conn_data := Some (d\<lparr>cd_is_running := False\<rparr>)\<rparr> in if cd_lws_ctx d then ws_do Awakened w else w)
           else w))"

definition request_write :: "websocket \<Rightarrow> websocket" where
  "request_write w =
     (if m_is_connected w
      then (case conn_data w of None \<Rightarrow> w | Some d \<Rightarrow> (if cd_lws_ctx d then ws_do Awakened w else w))
      else w)"

definition join_client :: "client_env list \<Rightarrow> websocket \<Rightarrow> websocket ws_result" where
  "join_client es w =
     ws_bind (client_steps es w) (\<lambda>w. if client_thread w = Client_stopped then Inr w else Inl Join_waits)"

definition safe_close_threads :: "client_env list \<Rightarrow> websocket \<Rightarrow> websocket ws_result" where
  "safe_close_threads es w =
     (let w = clear_all_queues (do_interrupt_and_exit w)
      in if client_thread w = Client_stopped then Inr w else join_client es (request_write w))"

definition is_trying_to_connect :: "websocket \<Rightarrow> bool" where
  "is_trying_to_connect w \<longleftrightarrow> (case conn_data w of None \<Rightarrow> False | Some d \<Rightarrow> cd_state d \<noteq> State_FINALIZED)"

definition start_connecting :: "client_env list \<Rightarrow> websocket \<Rightarrow> (bool \<times> websocket) ws_result" where
  "start_connecting es w =
     (if \<not> callbacks_registered w then Inr (False, w)
      else (let w = w\<lparr>shutting_down := False, connected_ocpp_version := Version_Unknown\<rparr>
            in ws_bind (safe_close_threads es w) (\<lambda>w.
                 Inr (True, w\<lparr>conn_data := Some new_ConnectionData, reconnect_timer_tpm := stop_timer (reconnect_timer_tpm w),
                              connection_attempts := 1, client_thread := Client_connects\<rparr>))))"

definition close_internal :: "client_env list \<Rightarrow> websocket \<Rightarrow> websocket ws_result" where
  "close_internal es w =
     (if \<not> (is_trying_to_connect w \<or> m_is_connected w) then Inr w
      else ws_bind (safe_close_threads es w) (\<lambda>w.
        Inr (w\<lparr>conn_data := None, m_is_connected := False, reconnect_timer_tpm := stop_timer (reconnect_timer_tpm w)\<rparr>)))"

text \<open>What a close tells the other side and the application does not depend on the reason.\<close>

definition ws_disconnect :: "client_env list \<Rightarrow> WebsocketCloseReason \<Rightarrow> websocket \<Rightarrow> websocket ws_result" where
  "ws_disconnect es code w =
     (if \<not> callbacks_registered w then Inr w
      else (let w = (if code = Close_Normal then w\<lparr>shutting_down := True\<rparr> else w);
                w = w\<lparr>ping_timer := stop_timer (ping_timer w)\<rparr>
            in close_internal es w))"

definition ws_reconnect :: "timer_env \<Rightarrow> client_env list \<Rightarrow> int \<Rightarrow> websocket \<Rightarrow> websocket ws_result" where
  "ws_reconnect e es delay w =
     (if shutting_down w then Inr w
      else ws_bind (if m_is_connected w \<or> is_trying_to_connect w then close_internal es w else Inr w) (\<lambda>w.
        Inr (w\<lparr>reconnect_timer_tpm :=
               start_new_timer e False ((reconnect_timer_tpm w)\<lparr>tCallback := Some Reconnect_now, timeoutTicks := pdMS_TO_TICKS (of_int delay)\<rparr>)\<rparr>)))"

text \<open>The timer to connect again expires.\<close>

definition reconnect_now :: "client_env list \<Rightarrow> client_env list \<Rightarrow> websocket \<Rightarrow> (bool \<times> websocket) ws_result" where
  "reconnect_now es es' w =
     ws_bind (if m_is_connected w \<or> is_trying_to_connect w then close_internal es w else Inr w) (start_connecting es')"

definition on_pong_timeout :: "client_env list \<Rightarrow> websocket \<Rightarrow> websocket ws_result" where
  "on_pong_timeout es w = (if \<not> reconnecting w then close_internal es (w\<lparr>reconnecting := True\<rparr>) else Inr w)"

section \<open>Messages\<close>

text \<open>
  The sender waits a second for its message to be sent, in which the thread of the client makes the steps of \<open>es\<close>.
\<close>

definition poll_message :: "client_env list \<Rightarrow> WebsocketMessage \<Rightarrow> websocket \<Rightarrow> websocket ws_result" where
  "poll_message es m w =
     (if \<not> m_is_connected w then Inr w
      else (case conn_data w of
              Some d \<Rightarrow>
                (if is_interupted d \<or> cd_state d = State_FINALIZED then Inr w
                 else client_steps es (request_write (w\<lparr>ws_message_queue := ws_message_queue w @ [m]\<rparr>)))
            | None \<Rightarrow> client_steps es (request_write (w\<lparr>ws_message_queue := ws_message_queue w @ [m]\<rparr>))))"

definition new_WebsocketMessage :: "string \<Rightarrow> lws_write_protocol \<Rightarrow> websocket \<Rightarrow> WebsocketMessage \<times> websocket" where
  "new_WebsocketMessage payload kind w =
     (\<lparr>wm_object = ws_objects w, wm_payload = payload, wm_protocol = kind, wm_sent_bytes = 0\<rparr>, w\<lparr>ws_objects := ws_objects w + 1\<rparr>)"

definition send :: "client_env list \<Rightarrow> string \<Rightarrow> websocket \<Rightarrow> (bool \<times> websocket) ws_result" where
  "send es message w =
     (if \<not> callbacks_registered w then Inr (False, w)
      else (let (m, w) = new_WebsocketMessage message LWS_WRITE_TEXT w
            in ws_bind (poll_message es m w) (\<lambda>w. Inr (wm_object m \<in> set (message_sent w), w))))"

definition ocpp_ping :: "client_env list \<Rightarrow> websocket \<Rightarrow> websocket ws_result" where
  "ocpp_ping es w =
     (let (m, w) = new_WebsocketMessage (ping_payload (connection_options w)) LWS_WRITE_PING w in poll_message es m w)"

text \<open>
  One turn of the thread for received messages, and of the one for deferred callbacks: what it hands to the application.
  \<open>polling\<close>: the first is in the inner loop, which does not look at the interrupt.
\<close>

definition recv_step :: "bool \<Rightarrow> websocket \<Rightarrow> string option \<times> websocket" where
  "recv_step polling w =
     (if \<not> polling \<and> interrupted w then (None, w)
      else case recv_message_queue w of
             [] \<Rightarrow> (None, w)
           | m # ms \<Rightarrow> (Some m, w\<lparr>recv_message_queue := ms\<rparr>))"

definition deferred_step :: "websocket \<Rightarrow> deferred option \<times> websocket" where
  "deferred_step w =
     (case deferred_callback_queue w of
        [] \<Rightarrow> (None, w)
      | c # cs \<Rightarrow> (Some c, w\<lparr>deferred_callback_queue := cs\<rparr>))"

text \<open>The end of the object: the callbacks that still wait are run before their thread ends.\<close>

definition delete_WebsocketLibwebsockets :: "client_env list \<Rightarrow> websocket \<Rightarrow> (deferred list \<times> websocket) ws_result" where
  "delete_WebsocketLibwebsockets es w =
     ws_bind (if m_is_connected w \<or> is_trying_to_connect w then close_internal es w else Inr w) (\<lambda>w.
       Inr (deferred_callback_queue w, w\<lparr>deferred_callback_queue := []\<rparr>))"

end
