(* ===== verification/Websocket_Props.thy ===== *)
theory Websocket_Props
  imports Websocket_Client
begin

text \<open>
  How often and when the client tries to connect, that a message reported as sent was written, and that the
  callbacks given to the application tell whether there is a connection.
\<close>

lemma ws_bind_Inr: "ws_bind r f = Inr y \<longleftrightarrow> (\<exists>x. r = Inr x \<and> f x = Inr y)"
  by (cases r) auto

section \<open>Attempts to connect\<close>

definition attempt_starts :: "websocket \<Rightarrow> nat" where
  "attempt_starts w = (if client_thread w = Client_connects then 1 else 0)"

fun attempts_made :: "client_env list \<Rightarrow> websocket \<Rightarrow> nat" where
  "attempts_made [] w = 0"
| "attempts_made (e # es) w = attempt_starts w + (case client_step e w of Inl _ \<Rightarrow> 0 | Inr w' \<Rightarrow> attempts_made es w')"

definition no_connection :: "client_env \<Rightarrow> bool" where
  "no_connection e \<longleftrightarrow> Established \<notin> set (ce_callbacks e) \<union> set (ce_destroy e)"

text \<open>A client that looks for a connection, and is neither interrupted nor connected.\<close>

definition searching :: "websocket \<Rightarrow> bool" where
  "searching w \<longleftrightarrow> (\<exists>d. conn_data w = Some d \<and> cd_is_running d \<and> cd_state d \<noteq> State_CONNECTED)"

definition same_search :: "websocket \<Rightarrow> websocket \<Rightarrow> bool" where
  "same_search w w' \<longleftrightarrow> client_thread w' = client_thread w \<and> connection_attempts w' = connection_attempts w \<and>
     connection_options w' = connection_options w \<and> reconnect_backoff_ms w' = reconnect_backoff_ms w \<and> (searching w \<longrightarrow> searching w')"

lemma same_search_trans: "same_search w w' \<Longrightarrow> same_search w' w'' \<Longrightarrow> same_search w w''"
  by (simp add: same_search_def)

lemma same_search_self [simp]: "same_search w w"
  by (simp add: same_search_def)

lemma queue_fields [simp]:
  "client_thread (clear_all_queues w) = client_thread w" "connection_attempts (clear_all_queues w) = connection_attempts w"
  "connection_options (clear_all_queues w) = connection_options w" "reconnect_backoff_ms (clear_all_queues w) = reconnect_backoff_ms w"
  "conn_data (clear_all_queues w) = conn_data w"
  "client_thread (push_deferred_callback c w) = client_thread w" "connection_attempts (push_deferred_callback c w) = connection_attempts w"
  "connection_options (push_deferred_callback c w) = connection_options w" "reconnect_backoff_ms (push_deferred_callback c w) = reconnect_backoff_ms w"
  "conn_data (push_deferred_callback c w) = conn_data w"
  "client_thread (ws_do x w) = client_thread w" "connection_attempts (ws_do x w) = connection_attempts w"
  "connection_options (ws_do x w) = connection_options w" "reconnect_backoff_ms (ws_do x w) = reconnect_backoff_ms w"
  "conn_data (ws_do x w) = conn_data w"
  by (simp_all add: clear_all_queues_def push_deferred_callback_def ws_do_def)

lemma message_fields [simp]:
  "client_thread (on_conn_message s w) = client_thread w" "connection_attempts (on_conn_message s w) = connection_attempts w"
  "connection_options (on_conn_message s w) = connection_options w" "reconnect_backoff_ms (on_conn_message s w) = reconnect_backoff_ms w"
  "conn_data (on_conn_message s w) = conn_data w"
  "client_thread (on_writable_if_messages w) = client_thread w" "connection_attempts (on_writable_if_messages w) = connection_attempts w"
  "connection_options (on_writable_if_messages w) = connection_options w" "reconnect_backoff_ms (on_writable_if_messages w) = reconnect_backoff_ms w"
  "conn_data (on_writable_if_messages w) = conn_data w"
  by (simp_all add: on_conn_message_def on_writable_if_messages_def)

lemma writable_fields [simp]:
  "client_thread (on_conn_writable n w) = client_thread w" "connection_attempts (on_conn_writable n w) = connection_attempts w"
  "connection_options (on_conn_writable n w) = connection_options w" "reconnect_backoff_ms (on_conn_writable n w) = reconnect_backoff_ms w"
  "conn_data (on_conn_writable n w) = conn_data w"
  by (simp_all add: on_conn_writable_def Let_def split: option.split list.split prod.split)

lemma end_fields [simp]:
  "client_thread (on_conn_fail w) = client_thread w" "connection_attempts (on_conn_fail w) = connection_attempts w"
  "connection_options (on_conn_fail w) = connection_options w" "reconnect_backoff_ms (on_conn_fail w) = reconnect_backoff_ms w"
  "conn_data (on_conn_fail w) = conn_data w"
  "client_thread (on_conn_close w) = client_thread w" "connection_attempts (on_conn_close w) = connection_attempts w"
  "connection_options (on_conn_close w) = connection_options w" "reconnect_backoff_ms (on_conn_close w) = reconnect_backoff_ms w"
  "conn_data (on_conn_close w) = map_option (\<lambda>d. d\<lparr>cd_is_stopped_run := True\<rparr>) (conn_data w)"
  "client_thread (update_state st w) = client_thread w" "connection_attempts (update_state st w) = connection_attempts w"
  "connection_options (update_state st w) = connection_options w" "reconnect_backoff_ms (update_state st w) = reconnect_backoff_ms w"
  "conn_data (update_state st w) = map_option (\<lambda>d. d\<lparr>cd_state := st\<rparr>) (conn_data w)"
  by (simp_all add: on_conn_fail_def on_conn_close_def update_state_def Let_def)

lemma action_search: "cb \<noteq> Established \<Longrightarrow> same_search w (callback_action e cb w)"
  by (cases cb) (auto simp: callback_action_def same_search_def searching_def Let_def split: option.split)

lemma fail_search: "same_search w (on_conn_fail (update_state State_ERROR w))"
  by (auto simp: same_search_def searching_def)

lemma callback_search:
  assumes "process_callback e cb w = Inr (r, w')" "cb \<noteq> Established"
  shows "same_search w w'"
proof (cases "conn_data w")
  case (Some d)
  have f: "same_search w (on_conn_fail (update_state State_ERROR (push_deferred_callback c w)))" for c
    by (auto simp: same_search_def searching_def)
  have h: "append_handshake_header a b w = Inr w1 \<Longrightarrow> same_search w w1" for a b w1
    by (auto simp: append_handshake_header_def same_search_def searching_def split: if_splits option.splits)
  show ?thesis
    using assms Some fail_search[of w] f h action_search[OF assms(2), of w e]
    by (cases cb) (auto simp: process_callback_def ws_bind_Inr Let_def split: if_splits)
qed (use assms in \<open>simp add: process_callback_def\<close>)

lemma callbacks_search:
  "process_callbacks e cbs w = Inr w' \<Longrightarrow> Established \<notin> set cbs \<Longrightarrow> same_search w w'"
proof (induction cbs arbitrary: w)
  case (Cons cb cbs)
  then obtain r w1 where w1: "process_callback e cb w = Inr (r, w1)" "process_callbacks e cbs w1 = Inr w'"
    by (auto simp: ws_bind_Inr)
  then have "same_search w w1" using callback_search Cons.prems(2) by (metis list.set_intros(1))
  moreover have "same_search w1 w'" using Cons.IH[OF w1(2)] Cons.prems(2) by simp
  ultimately show ?case by (rule same_search_trans)
qed simp

abbreviation max_attempts :: "websocket \<Rightarrow> int" where
  "max_attempts w \<equiv> max_connection_attempts (connection_options w)"

definition search_ok :: "websocket \<Rightarrow> bool" where
  "search_ok w \<longleftrightarrow> searching w \<and> 0 \<le> max_attempts w \<and> 1 \<le> connection_attempts w \<and> connection_attempts w \<le> max_attempts w + 1"

definition chances :: "websocket \<Rightarrow> nat" where
  "chances w =
     (case client_thread w of
        Client_connects \<Rightarrow> nat (max_attempts w + 2 - connection_attempts w)
      | Client_serves \<Rightarrow> nat (max_attempts w + 1 - connection_attempts w)
      | Client_waits d \<Rightarrow> nat (max_attempts w + 2 - connection_attempts w)
      | _ \<Rightarrow> 0)"

lemma interval_fields:
  "get_reconnect_interval r w = (d, w') \<Longrightarrow> client_thread w' = client_thread w \<and> connection_attempts w' = connection_attempts w \<and>
     connection_options w' = connection_options w \<and> conn_data w' = conn_data w"
  by (auto simp: get_reconnect_interval_def Let_def split: if_splits)

lemma ws_finish_fields [simp]:
  "conn_data (client_finish w) = conn_data w" "connection_attempts (client_finish w) = connection_attempts w"
  "connection_options (client_finish w) = connection_options w" "client_thread (client_finish w) = Client_ends"
  by (simp_all add: client_finish_def Let_def split: option.split)

lemma same_search_ok: "same_search w w' \<Longrightarrow> search_ok w \<Longrightarrow> search_ok w' \<and> chances w' = chances w"
  by (auto simp: same_search_def search_ok_def chances_def split: client_thread.split)

lemma after_attempt_search:
  assumes "search_ok w"
  shows "search_ok (after_attempt e w) \<and> chances (after_attempt e w) \<le> nat (max_attempts w + 1 - connection_attempts w)"
proof -
  obtain d where d: "conn_data w = Some d" "cd_is_running d" "cd_state d \<noteq> State_CONNECTED"
    using assms by (auto simp: search_ok_def searching_def)
  obtain i w1 where i: "get_reconnect_interval (ce_random e) (update_state State_RECONNECTING w) = (i, w1)"
    by (cases "get_reconnect_interval (ce_random e) (update_state State_RECONNECTING w)")
  show ?thesis
    using assms d interval_fields[OF i]
    by (auto simp: after_attempt_def i state_is_def search_ok_def searching_def chances_def)
qed

lemma reset_search:
  assumes "reset_connection_data e w = Inr w'" "no_connection e"
  shows "same_search w w'"
proof -
  have "same_search w (w\<lparr>conn_data := map_option (\<lambda>d. d\<lparr>cd_lws_ctx := False\<rparr>) (conn_data w)\<rparr>)"
    by (auto simp: same_search_def searching_def)
  then show ?thesis
    using assms callbacks_search same_search_trans by (auto simp: reset_connection_data_def no_connection_def)
qed

lemma init_search: "init_connection_context w = Inr w' \<Longrightarrow> same_search w w'"
  by (auto simp: init_connection_context_def same_search_def searching_def split: option.splits if_splits)

text \<open>What a step of a searching client comes to, up to changes that do not matter for the search.\<close>

lemma client_step_cases:
  assumes "client_step e w = Inr w'" "search_ok w" "no_connection e"
  obtains (attempted) w1 where "same_search w w1" "w' = after_attempt e w1" "client_thread w = Client_connects \<or> client_thread w = Client_serves"
  | (serves) w1 where "same_search w w1" "w' = w1\<lparr>client_thread := Client_serves\<rparr>" "client_thread w = Client_connects"
  | (again) d where "w' = w\<lparr>client_thread := Client_connects\<rparr>" "client_thread w = Client_waits d"
  | (same) "same_search w w'" "client_thread w \<noteq> Client_connects"
proof (cases "client_thread w")
  case Client_connects
  show ?thesis
  proof (cases "ce_context e")
    case False
    then show ?thesis using assms(1) Client_connects attempted[OF fail_search] by (simp add: client_step_def client_connects_def)
  next
    case True
    then obtain w1 w2 where w: "init_connection_context w = Inr w1" "process_callbacks (ce_timer e) (ce_callbacks e) w1 = Inr w2"
      using assms(1) Client_connects by (auto simp: client_step_def client_connects_def ws_bind_Inr)
    have s: "same_search w w2"
      using same_search_trans[OF init_search[OF w(1)] callbacks_search[OF w(2)]] assms(3) by (simp add: no_connection_def)
    show ?thesis
    proof (cases "ce_connect e")
      case False
      then obtain w3 where "reset_connection_data e (on_conn_fail (update_state State_ERROR w2)) = Inr w3" "w' = after_attempt e w3"
        using assms(1) Client_connects True w by (auto simp: client_step_def client_connects_def ws_bind_Inr)
      then show ?thesis
        using attempted[of w3] same_search_trans[OF s same_search_trans[OF fail_search reset_search]] assms(3) Client_connects by simp
    next
      case True
      then show ?thesis
        using serves[OF s] assms(1) Client_connects \<open>ce_context e\<close> w by (simp add: client_step_def client_connects_def)
    qed
  qed
next
  case Client_serves
  then obtain w1 where w1: "process_callbacks (ce_timer e) (ce_callbacks e) w = Inr w1"
    using assms(1) by (auto simp: client_step_def client_serves_def ws_bind_Inr)
  define w2 where "w2 = (if \<not> interrupted w1 \<and> \<not> state_is State_FINALIZED w1 \<and> \<not> state_is State_ERROR w1
    then on_writable_if_messages w1 else w1)"
  have "same_search w w1" using callbacks_search[OF w1] assms(3) by (simp add: no_connection_def)
  then have s: "same_search w w2" by (simp add: w2_def same_search_def searching_def)
  have "w' = w2 \<or> (\<exists>w3. reset_connection_data e w2 = Inr w3 \<and> w' = after_attempt e w3)"
    using assms(1) Client_serves w1
    by (auto simp: w2_def client_step_def client_serves_def ws_bind_Inr Let_def split: if_splits)
  then show ?thesis
    using same attempted same_search_trans[OF s reset_search[OF _ assms(3)]] s Client_serves by auto
next
  case (Client_waits d)
  then show ?thesis using assms(1,2) again[of d] by (auto simp: client_step_def search_ok_def searching_def interrupted_def is_interupted_def)
next
  case Client_ends
  then show ?thesis using assms(1,2) same by (auto simp: client_step_def search_ok_def searching_def interrupted_def is_interupted_def)
next
  case Client_stopped
  then show ?thesis using assms(1) same by (simp add: client_step_def)
qed

lemma client_step_search:
  assumes "client_step e w = Inr w'" "search_ok w" "no_connection e"
  shows "search_ok w' \<and> chances w' + attempt_starts w \<le> chances w"
  using assms
proof (cases rule: client_step_cases)
  case (attempted w1)
  have "chances w \<ge> nat (max_attempts w + 1 - connection_attempts w) + attempt_starts w"
    using attempted(3) assms(2) by (auto simp: chances_def attempt_starts_def search_ok_def)
  then show ?thesis
    using after_attempt_search[of w1 e] same_search_ok[OF attempted(1) assms(2)] attempted(1,2) by (auto simp: same_search_def)
next
  case (serves w1)
  then show ?thesis
    using same_search_ok[OF serves(1) assms(2)] by (auto simp: search_ok_def searching_def chances_def same_search_def attempt_starts_def)
next
  case (again d)
  then show ?thesis using assms(2) by (auto simp: search_ok_def searching_def chances_def attempt_starts_def)
next
  case same
  then show ?thesis using same_search_ok[OF same(1) assms(2)] by (simp add: attempt_starts_def)
qed

lemma attempts_le_chances:
  "search_ok w \<Longrightarrow> \<forall>e\<in>set es. no_connection e \<Longrightarrow> attempts_made es w \<le> chances w"
proof (induction es arbitrary: w)
  case (Cons e es)
  show ?case
  proof (cases "client_step e w")
    case (Inl x)
    then show ?thesis using Cons.prems(1) by (auto simp: chances_def attempt_starts_def search_ok_def split: client_thread.split)
  next
    case (Inr w')
    then show ?thesis using Cons.IH[of w'] client_step_search[OF Inr Cons.prems(1)] Cons.prems(2) by simp
  qed
qed simp

text \<open>
  (C39) A client that is started makes at most one attempt more than configured before it gives control back, as long as no
  connection comes about.
\<close>

theorem attempts_are_bounded:
  assumes "start_connecting es0 w0 = Inr (True, w)" "0 \<le> max_attempts w" "\<forall>e\<in>set es. no_connection e"
  shows "int (attempts_made es w) \<le> max_attempts w + 1"
proof -
  have "search_ok w" "chances w = nat (max_attempts w + 1)"
    using assms(1,2) by (auto simp: start_connecting_def ws_bind_Inr search_ok_def searching_def new_ConnectionData_def chances_def split: if_splits)
  then show ?thesis using attempts_le_chances[of w es] assms(2,3) by simp
qed

section \<open>The delays\<close>

text \<open>The delay before the next attempt, when \<open>k\<close> attempts after the first have failed.\<close>

definition delay_ok :: "WebsocketConnectionOptions \<Rightarrow> nat \<Rightarrow> int \<Rightarrow> bool" where
  "delay_ok opts k d \<longleftrightarrow>
     retry_backoff_wait_minimum_s opts * 2 ^ k * 1000 \<le> d \<and>
     d \<le> (retry_backoff_wait_minimum_s opts * 2 ^ k + retry_backoff_random_range_s opts * (2 ^ (k + 1) - 1)) * 1000"

definition backoff_ok :: "websocket \<Rightarrow> bool" where
  "backoff_ok w \<longleftrightarrow> search_ok w \<and> max_attempts w \<le> retry_backoff_repeat_times (connection_options w) + 1 \<and>
     (1 < connection_attempts w \<longrightarrow> delay_ok (connection_options w) (nat (connection_attempts w - 2)) (reconnect_backoff_ms w)) \<and>
     (\<forall>d. client_thread w = Client_waits d \<longrightarrow> 1 < connection_attempts w \<and> d = reconnect_backoff_ms w)"

definition random_ok :: "websocket \<Rightarrow> client_env \<Rightarrow> bool" where
  "random_ok w e \<longleftrightarrow> 0 \<le> ce_random e \<and> ce_random e \<le> retry_backoff_random_range_s (connection_options w)"

lemma delay_first:
  "0 \<le> r \<Longrightarrow> r \<le> retry_backoff_random_range_s opts \<Longrightarrow> delay_ok opts 0 ((retry_backoff_wait_minimum_s opts + r) * 1000)"
  by (simp add: delay_ok_def)

lemma delay_next:
  assumes "delay_ok opts k d" "0 \<le> r" "r \<le> retry_backoff_random_range_s opts"
  shows "delay_ok opts (Suc k) (d * 2 + r * 1000)"
proof -
  define A Q R where "A = retry_backoff_wait_minimum_s opts * 2 ^ k" and "Q = retry_backoff_random_range_s opts * 2 ^ (k + 1)"
    and "R = retry_backoff_random_range_s opts"
  have d: "delay_ok opts k x \<longleftrightarrow> A * 1000 \<le> x \<and> x \<le> (A + Q - R) * 1000" for x
    by (simp add: delay_ok_def A_def Q_def R_def algebra_simps)
  have e: "delay_ok opts (Suc k) x \<longleftrightarrow> (2 * A) * 1000 \<le> x \<and> x \<le> (2 * A + 2 * Q - R) * 1000" for x
    by (simp add: delay_ok_def A_def Q_def R_def algebra_simps)
  have x: "A * 1000 \<le> d" "d \<le> (A + Q - R) * 1000" using assms(1) unfolding d by blast+
  have "A * 1000 * 2 \<le> d * 2" using x(1) by simp
  moreover have "d * 2 + r * 1000 \<le> (A + Q - R) * 1000 * 2 + R * 1000" using x(2) assms(3) R_def by (intro add_mono) simp_all
  ultimately show ?thesis unfolding e using assms(2) by (simp add: algebra_simps)
qed

lemma after_attempt_backoff:
  assumes "backoff_ok w" "random_ok w e"
  shows "backoff_ok (after_attempt e w)"
proof -
  have s: "search_ok (after_attempt e w)" using after_attempt_search assms(1) by (simp add: backoff_ok_def)
  let ?w = "update_state State_RECONNECTING w" and ?o = "connection_options w"
  obtain i w1 where i: "get_reconnect_interval (ce_random e) ?w = (i, w1)"
    by (cases "get_reconnect_interval (ce_random e) ?w")
  have c: "1 \<le> connection_attempts w" "0 \<le> max_attempts w" "\<not> state_is State_CONNECTED w"
    "max_attempts w \<le> retry_backoff_repeat_times ?o + 1"
    using assms(1) by (auto simp: backoff_ok_def search_ok_def searching_def state_is_def)
  have d: "delay_ok ?o (nat (connection_attempts w - 1)) i \<and> reconnect_backoff_ms w1 = i" if "connection_attempts w \<le> max_attempts w"
  proof (cases "connection_attempts w = 1")
    case True
    then have "get_reconnect_interval (ce_random e) ?w =
        ((retry_backoff_wait_minimum_s ?o + ce_random e) * 1000, ?w\<lparr>reconnect_backoff_ms := (retry_backoff_wait_minimum_s ?o + ce_random e) * 1000\<rparr>)"
      using c(2,4) that by (simp add: get_reconnect_interval_def Let_def)
    then show ?thesis using i True assms(2) delay_first[of "ce_random e" ?o] by (simp add: random_ok_def)
  next
    case False
    then have "delay_ok ?o (nat (connection_attempts w - 2)) (reconnect_backoff_ms w)"
      using assms(1) c by (simp add: backoff_ok_def)
    then have "delay_ok ?o (Suc (nat (connection_attempts w - 2))) (reconnect_backoff_ms w * 2 + ce_random e * 1000)"
      using delay_next assms(2) by (simp add: random_ok_def)
    moreover have "Suc (nat (connection_attempts w - 2)) = nat (connection_attempts w - 1)" using False c by simp
    moreover have "get_reconnect_interval (ce_random e) ?w =
        (reconnect_backoff_ms w * 2 + ce_random e * 1000, ?w\<lparr>reconnect_backoff_ms := reconnect_backoff_ms w * 2 + ce_random e * 1000\<rparr>)"
      using c(4) that False by (simp add: get_reconnect_interval_def Let_def)
    ultimately show ?thesis using i by simp
  qed
  show ?thesis
  proof (cases "interrupted w \<or> state_is State_FINALIZED w \<or> \<not> connection_attempts w \<le> max_attempts w")
    case True
    then have "after_attempt e w = client_finish w \<or> after_attempt e w = client_finish (update_state State_FINALIZED w)"
      using c by (auto simp: after_attempt_def)
    moreover have "reconnect_backoff_ms (client_finish x) = reconnect_backoff_ms x" for x
      by (simp add: client_finish_def Let_def split: option.split)
    ultimately show ?thesis using s assms(1) by (auto simp: backoff_ok_def)
  next
    case False
    then have "after_attempt e w = w1\<lparr>connection_attempts := connection_attempts w1 + 1, client_thread := Client_waits i\<rparr>"
      using c by (simp add: after_attempt_def i)
    then show ?thesis using s d c interval_fields[OF i] False by (simp add: backoff_ok_def)
  qed
qed

lemma same_search_backoff:
  "same_search w w' \<Longrightarrow> backoff_ok w \<Longrightarrow> backoff_ok w'" "same_search w w' \<Longrightarrow> random_ok w e \<Longrightarrow> random_ok w' e"
  using same_search_ok by (auto simp: backoff_ok_def same_search_def random_ok_def)

lemma client_step_backoff:
  assumes "client_step e w = Inr w'" "backoff_ok w" "no_connection e" "random_ok w e"
  shows "backoff_ok w' \<and> connection_options w' = connection_options w"
proof -
  have so: "search_ok w" using assms(2) by (simp add: backoff_ok_def)
  have o: "connection_options (after_attempt e x) = connection_options x" for x
  proof -
    obtain i x1 where i: "get_reconnect_interval (ce_random e) (update_state State_RECONNECTING x) = (i, x1)"
      by (cases "get_reconnect_interval (ce_random e) (update_state State_RECONNECTING x)")
    then show ?thesis using interval_fields[OF i] by (simp add: after_attempt_def)
  qed
  from assms(1) so assms(3) show ?thesis
  proof (cases rule: client_step_cases)
    case (attempted w1)
    then show ?thesis
      using after_attempt_backoff[of w1 e] same_search_backoff[OF attempted(1)] assms(2,4) o by (simp add: same_search_def)
  next
    case (serves w1)
    then show ?thesis
      using same_search_backoff(1)[OF serves(1) assms(2)] by (auto simp: backoff_ok_def search_ok_def searching_def same_search_def)
  next
    case (again d)
    then show ?thesis using assms(2) by (auto simp: backoff_ok_def search_ok_def searching_def)
  next
    case same
    then show ?thesis using same_search_backoff(1)[OF same(1) assms(2)] by (simp add: same_search_def)
  qed
qed

lemma client_steps_backoff:
  "client_steps es w = Inr w' \<Longrightarrow> backoff_ok w \<Longrightarrow> \<forall>e\<in>set es. no_connection e \<and> random_ok w e \<Longrightarrow>
   backoff_ok w' \<and> connection_options w' = connection_options w"
proof (induction es arbitrary: w)
  case (Cons e es)
  then obtain w1 where w1: "client_step e w = Inr w1" "client_steps es w1 = Inr w'" by (auto simp: ws_bind_Inr)
  have "backoff_ok w1 \<and> connection_options w1 = connection_options w"
    using client_step_backoff[OF w1(1)] Cons.prems(2,3) by simp
  then show ?case using Cons.IH[OF w1(2)] Cons.prems(3) by (simp add: random_ok_def)
qed simp

text \<open>
  The delays before the next attempt double: when \<open>k\<close> attempts have failed, the client waits the configured minimum times
  \<open>2 ^ (k - 1)\<close>, and the random parts that were added, doubled as often.
\<close>

theorem delays_double:
  assumes "start_connecting es0 w0 = Inr (True, w)" "0 \<le> max_attempts w"
    and "max_attempts w \<le> retry_backoff_repeat_times (connection_options w) + 1"
    and "\<forall>e\<in>set es. no_connection e \<and> random_ok w e" "client_steps es w = Inr w'" "client_thread w' = Client_waits d"
  shows "1 < connection_attempts w' \<and> delay_ok (connection_options w) (nat (connection_attempts w' - 2)) d"
proof -
  have "backoff_ok w"
    using assms(1-3) by (auto simp: start_connecting_def ws_bind_Inr backoff_ok_def search_ok_def searching_def new_ConnectionData_def split: if_splits)
  then have "backoff_ok w' \<and> connection_options w' = connection_options w" using client_steps_backoff assms(4,5) by blast
  then show ?thesis using assms(6) by (auto simp: backoff_ok_def)
qed

text \<open>A started connection with the options of the firmware, and attempts for which the library has no memory.\<close>

definition sample_options :: WebsocketConnectionOptions where
  "sample_options = (EVSE_OCPP_Get_Connection_Options None)\<lparr>ocpp_versions := [v21, v201], security_profile := 1\<rparr>"

definition idle_websocket :: websocket where
  "idle_websocket = (fresh_websocket sample_options)\<lparr>callbacks_registered := True\<rparr>"

definition started_websocket :: websocket where
  "started_websocket = idle_websocket\<lparr>conn_data := Some new_ConnectionData, client_thread := Client_connects\<rparr>"

definition no_context :: client_env where
  "no_context = \<lparr>ce_context = False, ce_connect = False, ce_service = 0, ce_callbacks = [], ce_destroy = [], ce_random = 1,
     ce_timer = \<lparr>timer_created = True, timer_started = True\<rparr>\<rparr>"

lemma idle_new: "new_WebsocketLibwebsockets sample_options = Inr (idle_websocket\<lparr>callbacks_registered := False\<rparr>)"
  by (simp add: idle_websocket_def new_WebsocketLibwebsockets_def set_connection_options_def sample_options_def fresh_websocket_def
      EVSE_OCPP_Get_Connection_Options_def Let_def)

lemma idle_fields [simp]:
  "connection_options idle_websocket = sample_options" "callbacks_registered idle_websocket" "conn_data idle_websocket = None"
  "client_thread idle_websocket = Client_stopped" "shutting_down idle_websocket = False" "connected_ocpp_version idle_websocket = Version_Unknown"
  "ws_message_queue idle_websocket = []" "recv_message_queue idle_websocket = []" "recv_buffered_message idle_websocket = []"
  "reconnect_timer_tpm idle_websocket = new_steady_timer" "connection_attempts idle_websocket = 1" "m_is_connected idle_websocket = False"
  "message_sent idle_websocket = []" "ws_objects idle_websocket = 0" "deferred_callback_queue idle_websocket = []" "ws_log idle_websocket = []"
  by (simp_all add: idle_websocket_def fresh_websocket_def)

lemma start_idle: "start_connecting [] idle_websocket = Inr (True, started_websocket)"
  by (simp add: start_connecting_def safe_close_threads_def do_interrupt_and_exit_def clear_all_queues_def started_websocket_def
      new_steady_timer_def stop_timer_def Let_def)

lemma sample_max [simp]: "max_connection_attempts sample_options = 5" "retry_backoff_repeat_times sample_options = 102"
  "retry_backoff_random_range_s sample_options = 2" "retry_backoff_wait_minimum_s sample_options = 51"
  by (simp_all add: sample_options_def EVSE_OCPP_Get_Connection_Options_def)

theorem attempts_are_bounded_witness: "int (attempts_made (replicate 20 no_context) started_websocket) \<le> 6"
  using attempts_are_bounded[OF start_idle, of "replicate 20 no_context"]
  by (simp add: started_websocket_def no_connection_def no_context_def)

lemma three_steps:
  "\<exists>w. client_steps [no_context, no_context, no_context] started_websocket = Inr w \<and> client_thread w = Client_waits 105000 \<and>
     connection_attempts w = 3"
  by (simp add: client_step_def client_connects_def no_context_def started_websocket_def new_ConnectionData_def after_attempt_def
      on_conn_fail_def update_state_def clear_all_queues_def interrupted_def is_interupted_def state_is_def get_reconnect_interval_def Let_def)

theorem delays_double_witness:
  "\<exists>w d. client_steps [no_context, no_context, no_context] started_websocket = Inr w \<and> client_thread w = Client_waits d \<and>
     delay_ok sample_options 1 d \<and> 102000 \<le> d \<and> d \<le> 108000"
proof -
  obtain w where w: "client_steps [no_context, no_context, no_context] started_websocket = Inr w" "client_thread w = Client_waits 105000"
    "connection_attempts w = 3"
    using three_steps by blast
  have "delay_ok sample_options 1 105000"
    using delays_double[OF start_idle _ _ _ w(1,2)] w(3)
    by (simp add: started_websocket_def no_connection_def no_context_def random_ok_def)
  then show ?thesis using w by (auto simp: delay_ok_def)
qed

end
