(* ===== verification/Console_Format.thy ===== *)
theory Console_Format
  imports Logging Websocket_Props
begin

text \<open>
  What the connection to the CSMS logs of the messages it receives, and what becomes of it on the console.
\<close>

abbreviation (input) receive_format :: string where
  "receive_format \<equiv> ''LWS_CALLBACK_CLIENT_RECEIVE recv_buffered_mesage: %s''"

abbreviation (input) receive_prefix :: string where
  "receive_prefix \<equiv> ''LWS_CALLBACK_CLIENT_RECEIVE recv_buffered_mesage: ''"

text \<open>
  The call of \<open>configPRINTF\<close> in the case \<open>LWS_CALLBACK_CLIENT_RECEIVE\<close>, after the part \<open>s\<close> was appended to the
  buffer: its format, and what the format makes of the text up to its first zero.
\<close>

definition log_received :: "logging_env \<Rightarrow> string \<Rightarrow> websocket \<Rightarrow> logger \<Rightarrow> logger option" where
  "log_received e s w l =
     (let w = w\<lparr>recv_buffered_message := recv_buffered_message w @ s\<rparr>
      in vLoggingPrintf e (Some receive_format) (Some (receive_prefix @ c_string (recv_buffered_message w))) l)"

lemma c_string_no_zero: "CHR 0x00 \<notin> set (c_string s)"
  by (auto simp: c_string_def dest: set_takeWhileD)

lemma append_is_nonempty: "0 < length (metadata e n)"
  by (simp add: metadata_def)

text \<open>
  (C34) Text of the CSMS is a format of the console: the connection logs every part of a message it
  receives, and the logging task calls \<open>DbgConsole_Printf\<close> with the logged line, up to 255 characters, as the format and
  with no argument, so a conversion the CSMS puts at the beginning of a message is carried out on
  arguments that were never passed.
\<close>

theorem received_text_is_a_format:
  assumes "le_buffer e = Some (p, contents)" "length contents = 256" "queue_ready l" "log_queue l = []"
    and "CHR 0x00 \<notin> set (metadata e (message_number l))" "length (metadata e (message_number l)) < 2 ^ 31"
    and "length (recv_buffered_message w @ s) < 2 ^ 30"
  shows "\<exists>l'. log_received e s w l = Some l' \<and>
    console (prvLoggingTask l') = console l @
      [take 255 (metadata e (message_number l) @ receive_prefix @ c_string (recv_buffered_message w @ s) @ CRLF)]"
proof -
  let ?text = "receive_prefix @ c_string (recv_buffered_message w @ s)"
  have "length (c_string (recv_buffered_message w @ s)) \<le> length (recv_buffered_message w @ s)"
    by (simp only: c_string_def length_takeWhile_le)
  then have n: "length ?text < 2 ^ 31" using assms(7) by simp
  have z: "CHR 0x00 \<notin> set ?text" using c_string_no_zero by simp
  have "log_text e 0 None 0 receive_format ?text l = metadata e (message_number l) @ ?text @ CRLF"
    by (simp add: log_text_def level_part_def level_string_def file_part_def)
  then show ?thesis
    using logged_text_is_a_format[OF assms(1-4), of receive_format ?text] append_is_nonempty assms(5,6) n z
    by (simp add: log_received_def Let_def)
qed

theorem received_text_is_a_format_witness:
  "\<exists>l'. log_received sample_log_env ''%n%s'' idle_websocket logger_after_init = Some l' \<and>
     console (prvLoggingTask l') = [''0 5 [OCPP] LWS_CALLBACK_CLIENT_RECEIVE recv_buffered_mesage: %n%s'' @ CRLF]"
  using received_text_is_a_format[of sample_log_env 1 "replicate 256 (CHR ''x'')" logger_after_init idle_websocket "''%n%s''"]
  by (simp add: sample_logger_fields sample_metadata queue_ready_def logger_after_init_def c_string_def CRLF_def
      idle_websocket_def fresh_websocket_def)

end
