(* ===== verification/Message_Queue.thy ===== *)
theory Message_Queue
  imports Steady_Timer Ocpp_Callbacks
begin

text \<open>
  The queue of the messages to the CSMS: the template \<open>MessageQueue\<close> of \<open>ocpp/include/ocpp/common/message_queue.hpp\<close>
  at the message types of OCPP 2 (\<open>ocpp/v2/message_queue.cpp\<close>). A call of the firmware is a record of its
  identifier, its action and the members of its payload the queue reads; a message received is the list of its
  elements. What the send callback answers, the time, new identifiers and the answers of the kernel are
  arguments; the messages sent and the promises resolved are a log. The database of messages is compiled out,
  and the members for OCPP 1.6 are not instantiated. An exception or the use of a null pointer is a value of
  \<open>mq_error\<close>.
\<close>

section \<open>Messages\<close>

type_synonym MessageId = string

text \<open>
  The types of messages: the three the queue tells apart, and the others by their names. The name of an answer
  ends with \<open>Response\<close>.
\<close>

datatype MessageType = BootNotification | SecurityEventNotification | TransactionEvent | Other_message string

definition message_names :: "string list" where
  "message_names = [
    ''Authorize'', ''BootNotification'', ''CancelReservation'', ''CertificateSigned'', ''ChangeAvailability'',
    ''ClearCache'', ''ClearChargingProfile'', ''ClearDisplayMessage'', ''ClearedChargingLimit'',
    ''ClearVariableMonitoring'', ''CostUpdated'', ''CustomerInformation'', ''DataTransfer'', ''DeleteCertificate'',
    ''FirmwareStatusNotification'', ''Get15118EVCertificate'', ''GetBaseReport'', ''GetCertificateStatus'',
    ''GetChargingProfiles'', ''GetCompositeSchedule'', ''GetDisplayMessages'', ''GetInstalledCertificateIds'',
    ''GetLocalListVersion'', ''GetLog'', ''GetMonitoringReport'', ''GetReport'', ''GetTransactionStatus'',
    ''GetVariables'', ''Heartbeat'', ''InstallCertificate'', ''LogStatusNotification'', ''MeterValues'',
    ''NotifyChargingLimit'', ''NotifyCustomerInformation'', ''NotifyDisplayMessages'', ''NotifyEVChargingNeeds'',
    ''NotifyEVChargingSchedule'', ''NotifyEvent'', ''NotifyMonitoringReport'', ''NotifyReport'',
    ''PublishFirmware'', ''PublishFirmwareStatusNotification'', ''ReportChargingProfiles'',
    ''RequestStartTransaction'', ''RequestStopTransaction'', ''ReservationStatusUpdate'', ''ReserveNow'',
    ''Reset'', ''SecurityEventNotification'', ''SendLocalList'', ''SetChargingProfile'', ''SetDisplayMessage'',
    ''SetMonitoringBase'', ''SetMonitoringLevel'', ''SetNetworkProfile'', ''SetVariableMonitoring'',
    ''SetVariables'', ''SignCertificate'', ''StatusNotification'', ''TransactionEvent'', ''TriggerMessage'',
    ''UnlockConnector'', ''UnpublishFirmware'', ''UpdateFirmware'', ''AdjustPeriodicEventStream'', ''AFRRSignal'',
    ''BatterySwap'', ''ChangeTransactionTariff'', ''ClearDERControl'', ''ClearTariffs'',
    ''ClosePeriodicEventStream'', ''GetCRL'', ''GetDERControl'', ''GetPeriodicEventStream'', ''GetTariffs'',
    ''NotifyAllowedEnergyTransfer'', ''NotifyCRL'', ''NotifyDERAlarm'', ''NotifyDERStartStop'',
    ''NotifyPeriodicEventStream'', ''NotifyPriorityCharging'', ''NotifyQRCodeScanned'', ''NotifySettlement'',
    ''OpenPeriodicEventStream'', ''PullDynamicScheduleUpdate'', ''RequestBatterySwap'', ''SetDefaultTariff'',
    ''SetDERControl'', ''UpdateDynamicSchedule'', ''UsePriorityCharging'', ''VatNumberValidation'']"

definition Response :: string where
  "Response = ''Response''"

definition string_to_messagetype :: "string \<Rightarrow> MessageType option" where
  "string_to_messagetype s =
     (if s = ''BootNotification'' then Some BootNotification
      else if s = ''SecurityEventNotification'' then Some SecurityEventNotification
      else if s = ''TransactionEvent'' then Some TransactionEvent
      else if s = ''InternalError'' \<or> s \<in> set message_names \<or> s \<in> set (map (\<lambda>n. n @ Response) message_names)
      then Some (Other_message s)
      else None)"

datatype MessageTypeId = CALL | CALLRESULT | CALLERROR | UNKNOWN

datatype json = JString string | JInt int | JOther

datatype received = Not_json | Not_array | Rpc "json list"

record payload =
  p_eventType :: TransactionEventEnum
  p_transactionId :: string
  p_offline :: bool
  p_content :: string

record call_message =
  call_id :: MessageId
  call_action :: string
  call_payload :: payload

text \<open>
  What a promise is given: an answer that only says that the message was offline, or a message received.
\<close>

record enhanced_message =
  em_uniqueId :: MessageId
  em_messageType :: MessageType
  em_messageTypeId :: MessageTypeId
  em_call_message :: "call_message option"

datatype promise_value = Offline_value | Message_value enhanced_message

datatype mq_error =
    Promise_already_satisfied | Null_in_flight | MalformedRpcMessage | Json_exception | StringToEnumException
  | StringConversionException

type_synonym 'a mq_result = "mq_error + 'a"

fun mq_bind :: "'a mq_result \<Rightarrow> ('a \<Rightarrow> 'b mq_result) \<Rightarrow> 'b mq_result" where
  "mq_bind (Inl e) f = Inl e"
| "mq_bind (Inr x) f = f x"

text \<open>A control message; \<open>cm_object\<close> is the identity of the object, which pointers share.\<close>

record control_message =
  cm_object :: nat
  cm_message :: call_message
  messageType :: MessageType
  message_attempts :: int
  cm_promise :: "promise_value option"
  cm_timestamp :: OcppTimepoint
  initial_unique_id :: MessageId
  stall_until_accepted :: bool

definition is_transaction_message :: "MessageType \<Rightarrow> bool" where
  "is_transaction_message message_type \<longleftrightarrow> message_type = TransactionEvent \<or> message_type = SecurityEventNotification"

definition is_start_transaction_message :: "MessageType \<Rightarrow> bool" where
  "is_start_transaction_message message_type = False"

definition is_boot_notification_message :: "MessageType \<Rightarrow> bool" where
  "is_boot_notification_message message_type \<longleftrightarrow> message_type = BootNotification"

definition is_transaction_update_message :: "control_message \<Rightarrow> bool" where
  "is_transaction_update_message m \<longleftrightarrow>
     (if messageType m = TransactionEvent then p_eventType (call_payload (cm_message m)) = Event_Updated else False)"

definition clock_DateTime :: "u32 \<Rightarrow> OcppTimepoint" where
  "clock_DateTime now = the (DateTime_now now)"

definition new_ControlMessage :: "u32 \<Rightarrow> nat \<Rightarrow> call_message \<Rightarrow> bool \<Rightarrow> control_message mq_result" where
  "new_ControlMessage now k message stall =
     (case string_to_messagetype (call_action message) of
        None \<Rightarrow> Inl StringToEnumException
      | Some t \<Rightarrow>
          Inr \<lparr>cm_object = k, cm_message = message, messageType = t, message_attempts = 0, cm_promise = None,
               cm_timestamp = clock_DateTime now, initial_unique_id = call_id message, stall_until_accepted = stall\<rparr>)"

definition uniqueId :: "control_message \<Rightarrow> MessageId" where
  "uniqueId m = call_id (cm_message m)"

definition allowed_to_send_message :: "control_message \<Rightarrow> OcppTimepoint \<Rightarrow> bool \<Rightarrow> bool" where
  "allowed_to_send_message message time registration_status_accepted =
     (if stall_until_accepted message \<and> \<not> registration_status_accepted then False
      else if DateTime_greater (cm_timestamp message) time then False
      else True)"

section \<open>State\<close>

record mq_config =
  transaction_message_attempts :: int
  transaction_message_retry_interval :: int
  queues_total_size_threshold :: int
  queue_all_messages :: bool
  message_types_discard_for_queueing :: "MessageType set"
  message_timeout_seconds :: int
  boot_notification_retry_interval_seconds :: int

definition check_queue :: "mq_config \<Rightarrow> MessageType \<Rightarrow> bool" where
  "check_queue c message_type \<longleftrightarrow> queue_all_messages c \<and> message_type \<notin> message_types_discard_for_queueing c"

datatype mq_callback = Handle_timeout | Notify_queue | Resume_now "64 word"

datatype mq_event =
    Queued nat call_message
  | Sent_call nat call_message bool
  | Sent_result MessageId
  | Sent_error MessageId
  | Resolved nat promise_value
  | Dropped nat

text \<open>
  \<open>worker_alive\<close>: the worker thread has not left its loop; \<open>timer_task\<close>: the callbacks of expired timers the
  timer task has begun and that wait for the lock; \<open>callerrors\<close>: the refusals for which \<open>receive\<close> has given up the
  lock and that it has not handled yet; \<open>created_objects\<close>: the number of control messages made;
  \<open>Queued\<close> and \<open>Dropped\<close> in the log: a message is added to its queue, or leaves it without being sent.
\<close>

record message_queue =
  config :: mq_config
  transaction_message_queue :: "control_message list"
  normal_message_queue :: "control_message list"
  in_flight :: "control_message option"
  paused :: bool
  resuming :: bool
  running :: bool
  new_message :: bool
  is_registration_status_accepted :: bool
  next_message_to_send :: "MessageId option"
  in_flight_timeout_timer :: "mq_callback steady_timer"
  notify_queue_timer :: "mq_callback steady_timer"
  resume_timer :: "mq_callback steady_timer"
  pause_resume_ctr :: "64 word"
  worker_alive :: bool
  timer_task :: "mq_callback list"
  callerrors :: "enhanced_message list"
  created_objects :: nat
  mq_log :: "mq_event list"

definition mq_do :: "mq_event \<Rightarrow> message_queue \<Rightarrow> message_queue" where
  "mq_do e q = q\<lparr>mq_log := mq_log q @ [e]\<rparr>"

definition new_MessageQueue :: "mq_config \<Rightarrow> message_queue" where
  "new_MessageQueue c =
     \<lparr>config = c, transaction_message_queue = [], normal_message_queue = [], in_flight = None, paused = True,
      resuming = False, running = True, new_message = False, is_registration_status_accepted = False,
      next_message_to_send = None, in_flight_timeout_timer = new_steady_timer, notify_queue_timer = new_steady_timer,
      resume_timer = new_steady_timer, pause_resume_ctr = 0, worker_alive = False, timer_task = [], callerrors = [], created_objects = 0,
      mq_log = []\<rparr>"

text \<open>\<open>set_value\<close> throws when the promise has its value.\<close>

definition set_value :: "promise_value \<Rightarrow> control_message \<Rightarrow> message_queue \<Rightarrow> (control_message \<times> message_queue) mq_result" where
  "set_value v m q =
     (if cm_promise m = None then Inr (m\<lparr>cm_promise := Some v\<rparr>, mq_do (Resolved (cm_object m) v) q)
      else Inl Promise_already_satisfied)"

section \<open>The length of the queues\<close>

text \<open>The comparison of the lengths with the \<open>int\<close> threshold is one of \<open>size_t\<close>.\<close>

definition queues_total_size :: "message_queue \<Rightarrow> nat" where
  "queues_total_size q = length (transaction_message_queue q) + length (normal_message_queue q)"

definition exceeds_threshold :: "message_queue \<Rightarrow> bool" where
  "exceeds_threshold q \<longleftrightarrow> queues_total_size_threshold (config q) mod 2 ^ 32 < int (queues_total_size q)"

definition drop_messages_from_normal_message_queue :: "message_queue \<Rightarrow> message_queue" where
  "drop_messages_from_normal_message_queue q =
     (let n = nat (min (int (length (normal_message_queue q))) (max (queues_total_size_threshold (config q) sdiv 10) 1))
      in q\<lparr>normal_message_queue := drop n (normal_message_queue q),
           mq_log := mq_log q @ map (Dropped \<circ> cm_object) (take n (normal_message_queue q))\<rparr>)"

text \<open>The pass over the queue: what is dropped, and what stays.\<close>

fun drop_updates :: "bool \<Rightarrow> control_message list \<Rightarrow> control_message list \<times> control_message list" where
  "drop_updates remove_next [] = ([], [])"
| "drop_updates remove_next (m # ms) =
     (if remove_next \<and> is_transaction_update_message m \<and> 1 < length ms
      then (let (dropped, kept) = drop_updates False ms in (m # dropped, kept))
      else (let (dropped, kept) = drop_updates True ms in (dropped, m # kept)))"

definition drop_update_messages_from_transactional_message_queue :: "message_queue \<Rightarrow> bool \<times> message_queue" where
  "drop_update_messages_from_transactional_message_queue q =
     (let (dropped, kept) = drop_updates True (transaction_message_queue q)
      in (0 < length dropped,
          q\<lparr>transaction_message_queue := kept, mq_log := mq_log q @ map (Dropped \<circ> cm_object) dropped\<rparr>))"

lemma drop_updates_length:
  "drop_updates r ms = (dropped, kept) \<Longrightarrow> length dropped + length kept = length ms"
  by (induction r ms arbitrary: dropped kept rule: drop_updates.induct) (auto simp: Let_def split: prod.splits if_splits)

lemma drop_updates_shorter:
  "drop_updates r ms = (dropped, kept) \<Longrightarrow> dropped \<noteq> [] \<Longrightarrow> length kept < length ms"
  using drop_updates_length[of r ms dropped kept] by (cases dropped) auto

function normal_queue_loop :: "message_queue \<Rightarrow> message_queue" where
  "normal_queue_loop q =
     (if exceeds_threshold q \<and> normal_message_queue q \<noteq> [] then normal_queue_loop (drop_messages_from_normal_message_queue q)
      else q)"
  by pat_completeness auto
termination
  by (relation "measure (\<lambda>q. length (normal_message_queue q))") (auto simp: drop_messages_from_normal_message_queue_def Let_def neq_Nil_conv)

declare normal_queue_loop.simps [simp del]

function update_message_loop :: "message_queue \<Rightarrow> message_queue" where
  "update_message_loop q =
     (if exceeds_threshold q
      then (let (dropped, q') = drop_update_messages_from_transactional_message_queue q
            in if dropped then update_message_loop q' else q')
      else q)"
  by pat_completeness auto
termination
  by (relation "measure (\<lambda>q. length (transaction_message_queue q))")
    (auto simp: drop_update_messages_from_transactional_message_queue_def Let_def dest: drop_updates_shorter split: prod.splits)

declare update_message_loop.simps [simp del]

definition check_queue_sizes :: "message_queue \<Rightarrow> message_queue" where
  "check_queue_sizes q = (if \<not> exceeds_threshold q then q else update_message_loop (normal_queue_loop q))"

end
