(* ===== verification/Message_Queue_Ops.thy ===== *)
theory Message_Queue_Ops
  imports Message_Queue
begin

text \<open>
  The operations of the message queue, of \<open>ocpp/include/ocpp/common/message_queue.hpp\<close>: adding messages, one turn of
  the worker thread, what is received, timeouts and retries, and pausing and resuming; and
  \<open>ocpp/v2/message_dispatcher.cpp\<close>, which decides what is queued. The surroundings of an operation are a record.
  An operation that holds the lock is a step; \<open>receive\<close> gives it up before it handles a refusal, which is a step of
  its own (\<open>handle_callerror\<close>). \<open>Sent_call\<close> keeps the number of the message and the answer of the
  send callback.
\<close>

record mq_env =
  env_now :: u32
  env_sent :: bool
  env_new_id :: MessageId
  env_timer :: timer_env

section \<open>Adding messages\<close>

definition add_to_normal_message_queue :: "control_message \<Rightarrow> message_queue \<Rightarrow> message_queue" where
  "add_to_normal_message_queue message q =
     (let q = mq_do (Queued (cm_object message) (cm_message message)) q;
          q = (if messageType message = BootNotification
               then q\<lparr>normal_message_queue := message # normal_message_queue q\<rparr>
               else q\<lparr>normal_message_queue := normal_message_queue q @ [message]\<rparr>);
          q = q\<lparr>new_message := True\<rparr>
      in check_queue_sizes q)"

definition add_to_transaction_message_queue :: "control_message \<Rightarrow> message_queue \<Rightarrow> message_queue" where
  "add_to_transaction_message_queue message q =
     (let q = mq_do (Queued (cm_object message) (cm_message message)) q;
          q = q\<lparr>transaction_message_queue := transaction_message_queue q @ [message]\<rparr>;
          q = q\<lparr>new_message := True\<rparr>
      in check_queue_sizes q)"

definition push_call :: "mq_env \<Rightarrow> call_message \<Rightarrow> bool \<Rightarrow> message_queue \<Rightarrow> message_queue mq_result" where
  "push_call e message stall q =
     (if \<not> running q then Inr q
      else mq_bind (new_ControlMessage (env_now e) (created_objects q) message stall) (\<lambda>m.
        let q = q\<lparr>created_objects := created_objects q + 1\<rparr>
        in if is_transaction_message (messageType m) then Inr (add_to_transaction_message_queue m q)
           else if \<not> paused q \<or> resuming q \<or> check_queue (config q) (messageType m) \<or> messageType m = BootNotification
           then Inr (add_to_normal_message_queue m q)
           else Inr q))"

text \<open>The number in the answer is the message whose future the caller gets.\<close>

definition push_call_async :: "mq_env \<Rightarrow> call_message \<Rightarrow> message_queue \<Rightarrow> (nat \<times> message_queue) mq_result" where
  "push_call_async e call q =
     mq_bind (new_ControlMessage (env_now e) (created_objects q) call False) (\<lambda>m.
       let k = cm_object m;
           q = q\<lparr>created_objects := created_objects q + 1\<rparr>
       in if \<not> running q then mq_bind (set_value Offline_value m q) (\<lambda>(m, q). Inr (k, q))
          else if is_transaction_message (messageType m) then Inr (k, add_to_transaction_message_queue m q)
          else if paused q \<and> \<not> check_queue (config q) (messageType m) \<and> \<not> resuming q \<and> messageType m \<noteq> BootNotification
          then mq_bind (set_value Offline_value m q) (\<lambda>(m, q). Inr (k, q))
          else Inr (k, add_to_normal_message_queue m q))"

definition push_call_result :: "MessageId \<Rightarrow> message_queue \<Rightarrow> message_queue" where
  "push_call_result result_id q =
     (if \<not> running q then q
      else (let q = mq_do (Sent_result result_id) q
            in case next_message_to_send q of
                 None \<Rightarrow> q
               | Some i \<Rightarrow> (if i = result_id then q\<lparr>next_message_to_send := None\<rparr> else q)))"

definition push_call_error :: "MessageId \<Rightarrow> message_queue \<Rightarrow> message_queue" where
  "push_call_error error_id q =
     (if \<not> running q then q
      else (let q = mq_do (Sent_error error_id) q
            in case next_message_to_send q of
                 None \<Rightarrow> q
               | Some i \<Rightarrow> (if i = error_id then q\<lparr>next_message_to_send := None\<rparr> else q)))"

definition reset_next_message_to_send :: "message_queue \<Rightarrow> message_queue" where
  "reset_next_message_to_send q = q\<lparr>next_message_to_send := None\<rparr>"

section \<open>The worker\<close>

datatype QueueType = Queue_Normal nat | Queue_Transaction | Queue_None

text \<open>The message selected, with its queue; of the normal queue also its place.\<close>

fun find_index :: "('a \<Rightarrow> bool) \<Rightarrow> 'a list \<Rightarrow> nat option" where
  "find_index P [] = None"
| "find_index P (x # xs) = (if P x then Some 0 else map_option Suc (find_index P xs))"

definition select_normal_message :: "OcppTimepoint \<Rightarrow> message_queue \<Rightarrow> (nat \<times> control_message) option" where
  "select_normal_message now q =
     map_option (\<lambda>i. (i, normal_message_queue q ! i))
       (find_index (\<lambda>m. allowed_to_send_message m now (is_registration_status_accepted q)) (normal_message_queue q))"

definition is_transaction_message_available :: "OcppTimepoint \<Rightarrow> bool \<Rightarrow> control_message option \<Rightarrow> control_message \<Rightarrow> bool" where
  "is_transaction_message_available now accepted message msg =
     (if \<not> allowed_to_send_message msg now accepted then False
      else case message of
        None \<Rightarrow> True
      | Some message \<Rightarrow>
          (if messageType message = BootNotification then False
           else if DateTime_less_eq (cm_timestamp msg) (cm_timestamp message) then True
           else False))"

definition select_message :: "OcppTimepoint \<Rightarrow> message_queue \<Rightarrow> (control_message \<times> QueueType) option" where
  "select_message now q =
     (let normal = select_normal_message now q
      in case transaction_message_queue q of
           m # ms \<Rightarrow>
             (if is_transaction_message_available now (is_registration_status_accepted q) (map_option snd normal) m
              then Some (m, Queue_Transaction)
              else map_option (\<lambda>(i, m). (m, Queue_Normal i)) normal)
         | [] \<Rightarrow> map_option (\<lambda>(i, m). (m, Queue_Normal i)) normal)"

text \<open>The object of the message is the one in its queue, where changes of it show.\<close>

definition update_object :: "QueueType \<Rightarrow> control_message \<Rightarrow> message_queue \<Rightarrow> message_queue" where
  "update_object t m q =
     (case t of
        Queue_Normal i \<Rightarrow> q\<lparr>normal_message_queue := (normal_message_queue q)[i := m]\<rparr>
      | Queue_Transaction \<Rightarrow> q\<lparr>transaction_message_queue := (transaction_message_queue q)[0 := m]\<rparr>
      | Queue_None \<Rightarrow> q)"

definition erase_selected :: "QueueType \<Rightarrow> message_queue \<Rightarrow> message_queue" where
  "erase_selected t q =
     (case t of
        Queue_Normal i \<Rightarrow> q\<lparr>normal_message_queue := take i (normal_message_queue q) @ drop (i + 1) (normal_message_queue q)\<rparr>
      | Queue_Transaction \<Rightarrow> q\<lparr>transaction_message_queue := tl (transaction_message_queue q)\<rparr>
      | Queue_None \<Rightarrow> q)"

definition reset_in_flight :: "message_queue \<Rightarrow> message_queue" where
  "reset_in_flight q = q\<lparr>in_flight := None, in_flight_timeout_timer := stop_timer (in_flight_timeout_timer q)\<rparr>"

definition current_message_timeout :: "int \<Rightarrow> message_queue \<Rightarrow> int" where
  "current_message_timeout attempt q =
     (message_timeout_seconds (config q) + transaction_message_retry_interval (config q) * attempt) mod 2 ^ 32"

definition offline_payload :: "control_message \<Rightarrow> control_message" where
  "offline_payload m =
     (if call_action (cm_message m) = ''TransactionEvent''
      then m\<lparr>cm_message := (cm_message m)\<lparr>call_payload := (call_payload (cm_message m))\<lparr>p_offline := True\<rparr>\<rparr>\<rparr>
      else m)"

text \<open>
  What the worker does when the send callback answers false. A message that is neither of a transaction nor
  queued while offline is dropped by taking the first message off the normal queue.
\<close>

definition send_failed :: "QueueType \<Rightarrow> control_message \<Rightarrow> message_queue \<Rightarrow> message_queue mq_result" where
  "send_failed t m q =
     (let q = q\<lparr>paused := True\<rparr>
      in mq_bind
           (if is_transaction_message (messageType m) then Inr (update_object t (offline_payload m) q)
            else if check_queue (config q) (messageType m) then Inr q
            else case t of
                   Queue_Normal i \<Rightarrow>
                     mq_bind (set_value Offline_value m q) (\<lambda>(m, q).
                       let q = update_object t m q;
                           q = mq_do (Dropped (cm_object (hd (normal_message_queue q)))) q
                       in Inr (q\<lparr>normal_message_queue := tl (normal_message_queue q)\<rparr>))
                 | _ \<Rightarrow> Inr q)
           (\<lambda>q. Inr (reset_in_flight q)))"

definition send_succeeded :: "mq_env \<Rightarrow> QueueType \<Rightarrow> control_message \<Rightarrow> message_queue \<Rightarrow> message_queue" where
  "send_succeeded e t m q =
     (let q = q\<lparr>in_flight_timeout_timer :=
                  timeout_duration (env_timer e) Handle_timeout (current_message_timeout (message_attempts m) q)
                    (in_flight_timeout_timer q)\<rparr>
      in erase_selected t q)"

definition send_selected :: "mq_env \<Rightarrow> QueueType \<Rightarrow> control_message \<Rightarrow> message_queue \<Rightarrow> message_queue mq_result" where
  "send_selected e t message q =
     (let m = message\<lparr>message_attempts := message_attempts message + 1\<rparr>;
          q = update_object t m q;
          q = q\<lparr>in_flight := Some m\<rparr>;
          q = mq_do (Sent_call (cm_object m) (cm_message m) (env_sent e)) q
      in mq_bind (if env_sent e then Inr (send_succeeded e t m q) else send_failed t m q) (\<lambda>q.
           Inr (if transaction_message_queue q = [] \<and> normal_message_queue q = [] then q\<lparr>new_message := False\<rparr> else q)))"

definition held_back :: "control_message \<Rightarrow> message_queue \<Rightarrow> bool" where
  "held_back m q \<longleftrightarrow> (case next_message_to_send q of None \<Rightarrow> False | Some i \<Rightarrow> i \<noteq> uniqueId m)"

definition worker_iteration :: "mq_env \<Rightarrow> message_queue \<Rightarrow> message_queue mq_result" where
  "worker_iteration e q =
     (if transaction_message_queue q = [] \<and> normal_message_queue q = [] then Inr q
      else if paused q then Inr q
      else if in_flight q \<noteq> None then Inr q
      else case select_message (clock_DateTime (env_now e)) q of
             None \<Rightarrow> Inr (q\<lparr>new_message := False\<rparr>)
           | Some (m, t) \<Rightarrow> (if held_back m q then Inr q else send_selected e t m q))"

text \<open>
  The worker waits for the condition at the head of its loop. A turn finds the condition true or goes on waiting;
  after the last iteration the thread ends.
\<close>

definition wait_condition :: "message_queue \<Rightarrow> bool" where
  "wait_condition q \<longleftrightarrow> \<not> running q \<or> (\<not> paused q \<and> new_message q \<and> in_flight q = None)"

definition worker_pass :: "mq_env \<Rightarrow> message_queue \<Rightarrow> message_queue mq_result" where
  "worker_pass e q =
     (if \<not> worker_alive q then Inr q
      else if \<not> wait_condition q then Inr q
      else mq_bind (worker_iteration e q) (\<lambda>q. Inr (q\<lparr>worker_alive := running q\<rparr>)))"

definition start_queue :: "message_queue \<Rightarrow> message_queue" where
  "start_queue q = q\<lparr>worker_alive := running q\<rparr>"

definition stop_queue :: "message_queue \<Rightarrow> message_queue" where
  "stop_queue q = q\<lparr>running := False\<rparr>"

section \<open>Answers, timeouts and retries\<close>

definition handle_call_result :: "enhanced_message \<Rightarrow> message_queue \<Rightarrow> message_queue mq_result" where
  "handle_call_result em q =
     (case in_flight q of
        None \<Rightarrow> Inl Null_in_flight
      | Some m \<Rightarrow>
          (if uniqueId m = em_uniqueId em
           then (case string_to_messagetype (call_action (cm_message m) @ Response) of
                   None \<Rightarrow> Inl StringToEnumException
                 | Some t \<Rightarrow>
                     mq_bind (set_value (Message_value (em\<lparr>em_call_message := Some (cm_message m), em_messageType := t\<rparr>)) m q)
                       (\<lambda>(m, q). Inr (reset_in_flight q)))
           else Inr q))"

definition retry_message :: "mq_env \<Rightarrow> control_message \<Rightarrow> message_queue \<Rightarrow> control_message" where
  "retry_message e m q =
     (let m' = m\<lparr>cm_message := (cm_message m)\<lparr>call_id := env_new_id e\<rparr>\<rparr>
      in if 0 < transaction_message_retry_interval (config q)
         then m'\<lparr>cm_timestamp := the (DateTime_of_timepoint (env_now e)
                 (timepoint_plus_seconds (to_time_point (cm_timestamp m))
                    (transaction_message_retry_interval (config q) * message_attempts m)))\<rparr>
         else m'\<lparr>cm_timestamp := clock_DateTime (env_now e)\<rparr>)"

definition notify_queue_at :: "mq_env \<Rightarrow> control_message \<Rightarrow> message_queue \<Rightarrow> message_queue" where
  "notify_queue_at e m q =
     q\<lparr>notify_queue_timer := timeout_at (env_timer e) (env_now e) Notify_queue (to_time_point (cm_timestamp m)) (notify_queue_timer q)\<rparr>"

definition give_up :: "enhanced_message option \<Rightarrow> control_message \<Rightarrow> message_queue \<Rightarrow> message_queue mq_result" where
  "give_up em m q =
     mq_bind (set_value (case em of None \<Rightarrow> Offline_value | Some v \<Rightarrow> Message_value v) m q) (\<lambda>(m, q). Inr q)"

definition handle_timeout_or_callerror :: "mq_env \<Rightarrow> enhanced_message option \<Rightarrow> message_queue \<Rightarrow> message_queue mq_result" where
  "handle_timeout_or_callerror e em q =
     (case in_flight q of
        None \<Rightarrow> Inl Null_in_flight
      | Some m \<Rightarrow>
          mq_bind
            (if is_transaction_message (messageType m) \<or> check_queue (config q) (messageType m)
             then (if message_attempts m < transaction_message_attempts (config q)
                   then (let m = retry_message e m q;
                             q = (if is_transaction_message (messageType m)
                                  then q\<lparr>transaction_message_queue := m # transaction_message_queue q\<rparr>
                                  else q\<lparr>normal_message_queue := m # normal_message_queue q\<rparr>)
                         in Inr (notify_queue_at e m q))
                   else give_up em m q)
             else if is_boot_notification_message (messageType m)
             then (let m' = m\<lparr>cm_message := (cm_message m)\<lparr>call_id := env_new_id e\<rparr>,
                              cm_timestamp := the (DateTime_of_timepoint (env_now e)
                                (timepoint_plus_seconds (to_time_point (cm_timestamp m))
                                   (boot_notification_retry_interval_seconds (config q))))\<rparr>;
                       q = q\<lparr>normal_message_queue := m' # normal_message_queue q\<rparr>
                   in Inr (notify_queue_at e m' q))
             else give_up em m q)
            (\<lambda>q. Inr (reset_in_flight q)))"

text \<open>A string that is too long for a \<open>MessageId\<close> is an exception.\<close>

definition getMessageId :: "json list \<Rightarrow> MessageId mq_result" where
  "getMessageId json_message =
     (if length json_message < 2 then Inl MalformedRpcMessage
      else case json_message ! 1 of
             JString s \<Rightarrow> (if 36 < length s then Inl StringConversionException else Inr s)
           | _ \<Rightarrow> Inl Json_exception)"

definition getMessageTypeId :: "json list \<Rightarrow> MessageTypeId" where
  "getMessageTypeId json_message =
     (if 0 < length json_message
      then (if json_message ! 0 = JInt 2 then CALL
            else if json_message ! 0 = JInt 3 then CALLRESULT
            else if json_message ! 0 = JInt 4 then CALLERROR
            else UNKNOWN)
      else UNKNOWN)"

definition isValidMessageType :: "json list \<Rightarrow> bool" where
  "isValidMessageType json_message \<longleftrightarrow> (if getMessageTypeId json_message \<noteq> UNKNOWN then True else False)"

definition action_of :: "json list \<Rightarrow> MessageType mq_result" where
  "action_of json_message =
     (if length json_message \<le> 2 then Inl Json_exception
      else case json_message ! 2 of
             JString s \<Rightarrow> (case string_to_messagetype s of None \<Rightarrow> Inl StringToEnumException | Some t \<Rightarrow> Inr t)
           | _ \<Rightarrow> Inl Json_exception)"

text \<open>A refusal of the message in flight is kept with that message, and the lock is given up.\<close>

definition receive_answer :: "enhanced_message \<Rightarrow> message_queue \<Rightarrow> message_queue mq_result" where
  "receive_answer em q =
     (let q = q\<lparr>next_message_to_send := None\<rparr>
      in case in_flight q of
           None \<Rightarrow> Inr q
         | Some m \<Rightarrow>
             (if uniqueId m \<noteq> em_uniqueId em then Inr q
              else if em_messageTypeId em = CALLERROR
              then Inr (q\<lparr>callerrors := callerrors q @ [em\<lparr>em_call_message := Some (cm_message m)\<rparr>]\<rparr>)
              else handle_call_result em q))"

definition receive_message :: "received \<Rightarrow> message_queue \<Rightarrow> message_queue mq_result" where
  "receive_message message q =
     (case message of
        Not_json \<Rightarrow> Inl Json_exception
      | Not_array \<Rightarrow> Inl Json_exception
      | Rpc js \<Rightarrow>
          mq_bind (getMessageId js) (\<lambda>i.
            case getMessageTypeId js of
              CALL \<Rightarrow> mq_bind (action_of js) (\<lambda>t. Inr (q\<lparr>next_message_to_send := Some i\<rparr>))
            | UNKNOWN \<Rightarrow> Inr q
            | ty \<Rightarrow> receive_answer \<lparr>em_uniqueId = i, em_messageType = Other_message ''InternalError'', em_messageTypeId = ty,
                      em_call_message = None\<rparr> q))"

text \<open>\<open>receive\<close> goes on with the refusal: it takes the lock again, whatever happened to the message in flight.\<close>

definition handle_callerror :: "mq_env \<Rightarrow> message_queue \<Rightarrow> message_queue mq_result" where
  "handle_callerror e q =
     (case callerrors q of
        [] \<Rightarrow> Inr q
      | em # ems \<Rightarrow> handle_timeout_or_callerror e (Some em) (q\<lparr>callerrors := ems\<rparr>))"

section \<open>Pausing and resuming\<close>

definition resume_now :: "64 word \<Rightarrow> message_queue \<Rightarrow> message_queue" where
  "resume_now expected_pause_resume_ctr q =
     (if pause_resume_ctr q = expected_pause_resume_ctr then q\<lparr>paused := False, resuming := False\<rparr> else q)"

definition pause :: "message_queue \<Rightarrow> message_queue" where
  "pause q =
     q\<lparr>pause_resume_ctr := pause_resume_ctr q + 1, resume_timer := stop_timer (resume_timer q), paused := True, resuming := False\<rparr>"

definition resume :: "mq_env \<Rightarrow> int \<Rightarrow> message_queue \<Rightarrow> message_queue" where
  "resume e delay_on_reconnect q =
     (if \<not> paused q then q
      else (let q = q\<lparr>pause_resume_ctr := pause_resume_ctr q + 1\<rparr>
            in if 1 < pause_resume_ctr q \<and> 0 < delay_on_reconnect
               then q\<lparr>resuming := True,
                      resume_timer := timeout_duration (env_timer e) (Resume_now (pause_resume_ctr q)) delay_on_reconnect (resume_timer q)\<rparr>
               else resume_now (pause_resume_ctr q) q))"

definition set_registration_status_accepted :: "message_queue \<Rightarrow> message_queue" where
  "set_registration_status_accepted q = q\<lparr>is_registration_status_accepted := True\<rparr>"

definition is_transaction_message_queue_empty :: "message_queue \<Rightarrow> bool" where
  "is_transaction_message_queue_empty q \<longleftrightarrow> transaction_message_queue q = []"

definition contains_transaction_messages :: "string \<Rightarrow> message_queue \<Rightarrow> bool" where
  "contains_transaction_messages transaction_id q \<longleftrightarrow>
     (\<exists>m\<in>set (transaction_message_queue q). messageType m = TransactionEvent \<and>
        p_transactionId (call_payload (cm_message m)) = transaction_id)"

definition update_transaction_message_attempts :: "int \<Rightarrow> message_queue \<Rightarrow> message_queue" where
  "update_transaction_message_attempts n q = q\<lparr>config := (config q)\<lparr>transaction_message_attempts := n\<rparr>\<rparr>"

definition update_transaction_message_retry_interval :: "int \<Rightarrow> message_queue \<Rightarrow> message_queue" where
  "update_transaction_message_retry_interval n q = q\<lparr>config := (config q)\<lparr>transaction_message_retry_interval := n\<rparr>\<rparr>"

definition update_message_timeout :: "int \<Rightarrow> message_queue \<Rightarrow> message_queue" where
  "update_message_timeout n q = q\<lparr>config := (config q)\<lparr>message_timeout_seconds := n\<rparr>\<rparr>"

section \<open>Timers\<close>

text \<open>
  A timer of the queue expires: the timer task begins its callback, which first takes the lock, except the one that
  notifies the queue. A callback that has begun runs once the lock is free.
\<close>

datatype queue_timer = In_flight_timeout | Notify | Resume

definition timer_fires :: "queue_timer \<Rightarrow> message_queue \<Rightarrow> message_queue" where
  "timer_fires t q =
     (let (cb, q) = (case t of
            In_flight_timeout \<Rightarrow> (let (cb, x) = timer_expires (in_flight_timeout_timer q) in (cb, q\<lparr>in_flight_timeout_timer := x\<rparr>))
          | Notify \<Rightarrow> (let (cb, x) = timer_expires (notify_queue_timer q) in (cb, q\<lparr>notify_queue_timer := x\<rparr>))
          | Resume \<Rightarrow> (let (cb, x) = timer_expires (resume_timer q) in (cb, q\<lparr>resume_timer := x\<rparr>)))
      in case cb of None \<Rightarrow> q | Some c \<Rightarrow> q\<lparr>timer_task := timer_task q @ [c]\<rparr>)"

definition run_timer_task :: "mq_env \<Rightarrow> message_queue \<Rightarrow> message_queue mq_result" where
  "run_timer_task e q =
     (case timer_task q of
        [] \<Rightarrow> Inr q
      | c # cs \<Rightarrow>
          (let q = q\<lparr>timer_task := cs\<rparr>
           in case c of
                Handle_timeout \<Rightarrow> handle_timeout_or_callerror e None q
              | Notify_queue \<Rightarrow> Inr (q\<lparr>new_message := True\<rparr>)
              | Resume_now n \<Rightarrow> Inr (resume_now n q)))"

section \<open>The dispatcher\<close>

datatype MessageTransmissionPriority = SendImmediately | SendAfterRegistrationStatusAccepted | Discard

definition get_message_transmission_priority :: "bool \<Rightarrow> bool \<Rightarrow> bool \<Rightarrow> bool \<Rightarrow> bool \<Rightarrow> MessageTransmissionPriority" where
  "get_message_transmission_priority is_boot triggered registration_already_accepted is_transaction_related queue_all_message =
     (if registration_already_accepted \<or> is_boot \<or> triggered then SendImmediately
      else if is_transaction_related \<or> queue_all_message then SendAfterRegistrationStatusAccepted
      else Discard)"

text \<open>\<open>queue_all\<close> is the variable \<open>QueueAllMessages\<close> of the device model.\<close>

definition dispatch_call ::
    "mq_env \<Rightarrow> RegistrationStatusEnum \<Rightarrow> bool option \<Rightarrow> call_message \<Rightarrow> bool \<Rightarrow> message_queue \<Rightarrow> message_queue mq_result" where
  "dispatch_call e registration_status queue_all call triggered q =
     (case string_to_messagetype (call_action call) of
        None \<Rightarrow> Inl StringToEnumException
      | Some t \<Rightarrow>
          (case get_message_transmission_priority (is_boot_notification_message t) triggered
                  (registration_status = Registration_Accepted) (is_transaction_message t) (case queue_all of None \<Rightarrow> False | Some b \<Rightarrow> b) of
             SendImmediately \<Rightarrow> push_call e call False q
           | SendAfterRegistrationStatusAccepted \<Rightarrow> push_call e call True q
           | Discard \<Rightarrow> Inr q))"

text \<open>Without a number in the answer the future has its value at once.\<close>

definition dispatch_call_async ::
    "mq_env \<Rightarrow> RegistrationStatusEnum \<Rightarrow> bool option \<Rightarrow> call_message \<Rightarrow> bool \<Rightarrow> message_queue \<Rightarrow> (nat option \<times> message_queue) mq_result" where
  "dispatch_call_async e registration_status queue_all call triggered q =
     (case string_to_messagetype (call_action call) of
        None \<Rightarrow> Inl StringToEnumException
      | Some t \<Rightarrow>
          (case get_message_transmission_priority (is_boot_notification_message t) False
                  (registration_status = Registration_Accepted) (is_transaction_message t) (case queue_all of None \<Rightarrow> False | Some b \<Rightarrow> b) of
             SendImmediately \<Rightarrow> mq_bind (push_call_async e call q) (\<lambda>(k, q). Inr (Some k, q))
           | SendAfterRegistrationStatusAccepted \<Rightarrow> Inr (None, q)
           | Discard \<Rightarrow> Inr (None, q)))"

definition dispatch_call_result :: "MessageId \<Rightarrow> message_queue \<Rightarrow> message_queue" where
  "dispatch_call_result result_id q = push_call_result result_id q"

definition dispatch_call_error :: "MessageId \<Rightarrow> message_queue \<Rightarrow> message_queue" where
  "dispatch_call_error error_id q = push_call_error error_id q"

end
