(* ===== verification/Message_Queue_Inv.thy ===== *)
theory Message_Queue_Inv
  imports Message_Queue_Ops "HOL-Library.Sublist"
begin

text \<open>
  The states the message queue reaches under any operations in any order, and what they keep: every message
  object is in at most one place, those of a transaction stay in the order they were queued in, none of them is
  lost, and none is sent more often than configured.
\<close>

section \<open>Operations and runs\<close>

datatype mq_op =
    Op_push mq_env call_message bool
  | Op_push_async mq_env call_message
  | Op_result MessageId
  | Op_error MessageId
  | Op_reset_next
  | Op_start
  | Op_stop
  | Op_worker mq_env
  | Op_receive received
  | Op_callerror mq_env
  | Op_pause
  | Op_resume mq_env int
  | Op_accept
  | Op_attempts int
  | Op_interval int
  | Op_message_timeout int
  | Op_timer queue_timer
  | Op_timer_task mq_env

fun mq_step :: "mq_op \<Rightarrow> message_queue \<Rightarrow> message_queue mq_result" where
  "mq_step (Op_push e c stall) q = push_call e c stall q"
| "mq_step (Op_push_async e c) q = mq_bind (push_call_async e c q) (\<lambda>(k, q). Inr q)"
| "mq_step (Op_result i) q = Inr (push_call_result i q)"
| "mq_step (Op_error i) q = Inr (push_call_error i q)"
| "mq_step Op_reset_next q = Inr (reset_next_message_to_send q)"
| "mq_step Op_start q = Inr (start_queue q)"
| "mq_step Op_stop q = Inr (stop_queue q)"
| "mq_step (Op_worker e) q = worker_pass e q"
| "mq_step (Op_receive r) q = receive_message r q"
| "mq_step (Op_callerror e) q = handle_callerror e q"
| "mq_step Op_pause q = Inr (pause q)"
| "mq_step (Op_resume e d) q = Inr (resume e d q)"
| "mq_step Op_accept q = Inr (set_registration_status_accepted q)"
| "mq_step (Op_attempts n) q = Inr (update_transaction_message_attempts n q)"
| "mq_step (Op_interval n) q = Inr (update_transaction_message_retry_interval n q)"
| "mq_step (Op_message_timeout n) q = Inr (update_message_timeout n q)"
| "mq_step (Op_timer t) q = Inr (timer_fires t q)"
| "mq_step (Op_timer_task e) q = run_timer_task e q"

fun mq_run :: "mq_op list \<Rightarrow> message_queue \<Rightarrow> message_queue mq_result" where
  "mq_run [] q = Inr q"
| "mq_run (x # xs) q = mq_bind (mq_step x q) (mq_run xs)"

text \<open>\<open>L\<close> is a bound of the attempts that are ever configured.\<close>

definition op_within :: "int \<Rightarrow> mq_op \<Rightarrow> bool" where
  "op_within L op \<longleftrightarrow> (case op of Op_attempts n \<Rightarrow> n \<le> L | _ \<Rightarrow> True)"

inductive mq_reachable :: "int \<Rightarrow> message_queue \<Rightarrow> bool" for L where
  boot: "transaction_message_attempts c \<le> L \<Longrightarrow> mq_reachable L (new_MessageQueue c)"
| step: "mq_reachable L q \<Longrightarrow> op_within L op \<Longrightarrow> mq_step op q = Inr q' \<Longrightarrow> mq_reachable L q'"

lemma mq_run_reachable:
  "mq_reachable L q \<Longrightarrow> list_all (op_within L) ops \<Longrightarrow> mq_run ops q = Inr q' \<Longrightarrow> mq_reachable L q'"
proof (induction ops arbitrary: q)
  case (Cons x xs)
  then show ?case by (cases "mq_step x q") (auto intro: mq_reachable.step)
qed simp

section \<open>The messages and the log\<close>

definition flight_list :: "message_queue \<Rightarrow> control_message list" where
  "flight_list q = (case in_flight q of None \<Rightarrow> [] | Some m \<Rightarrow> [m])"

definition is_tx_call :: "call_message \<Rightarrow> bool" where
  "is_tx_call c \<longleftrightarrow> (case string_to_messagetype (call_action c) of None \<Rightarrow> False | Some t \<Rightarrow> is_transaction_message t)"

definition is_update_call :: "call_message \<Rightarrow> bool" where
  "is_update_call c \<longleftrightarrow> string_to_messagetype (call_action c) = Some TransactionEvent \<and> p_eventType (call_payload c) = Event_Updated"

definition is_boot_call :: "call_message \<Rightarrow> bool" where
  "is_boot_call c \<longleftrightarrow> string_to_messagetype (call_action c) = Some BootNotification"

text \<open>From the log: the messages of transactions in the order they were handed to the send callback, and how often one was sent.\<close>

fun tx_sent :: "mq_event list \<Rightarrow> nat list" where
  "tx_sent [] = []"
| "tx_sent (e # es) = (case e of Sent_call k c ok \<Rightarrow> (if is_tx_call c then [k] else []) | _ \<Rightarrow> []) @ tx_sent es"

fun times_sent :: "nat \<Rightarrow> mq_event list \<Rightarrow> nat" where
  "times_sent k [] = 0"
| "times_sent k (e # es) = (case e of Sent_call j c ok \<Rightarrow> (if j = k \<and> ok then 1 else 0) | _ \<Rightarrow> 0) + times_sent k es"

definition event_object :: "mq_event \<Rightarrow> nat option" where
  "event_object e = (case e of Queued k c \<Rightarrow> Some k | Sent_call k c ok \<Rightarrow> Some k | Resolved k v \<Rightarrow> Some k | Dropped k \<Rightarrow> Some k | _ \<Rightarrow> None)"

lemma tx_sent_append [simp]: "tx_sent (es @ fs) = tx_sent es @ tx_sent fs"
  by (induction es) auto

lemma times_sent_append [simp]: "times_sent k (es @ fs) = times_sent k es + times_sent k fs"
  by (induction es) auto

lemma tx_sent_event: "k \<in> set (tx_sent es) \<Longrightarrow> \<exists>c ok. Sent_call k c ok \<in> set es"
  by (induction es) (auto split: mq_event.splits if_splits)

lemma times_sent_fresh: "\<forall>e\<in>set es. event_object e \<noteq> Some k \<Longrightarrow> times_sent k es = 0"
  by (induction es) (auto simp: event_object_def split: mq_event.splits)

section \<open>The invariant\<close>

text \<open>
  The invariant is about the message in flight (a list of at most one), the two queues, the number of objects and
  the log. The messages of transactions, in their order:
\<close>

abbreviation is_tx :: "control_message \<Rightarrow> bool" where
  "is_tx m \<equiv> is_transaction_message (messageType m)"

definition txs :: "control_message list \<Rightarrow> control_message list \<Rightarrow> control_message list" where
  "txs F T = filter is_tx F @ T"

definition message_ok :: "control_message \<Rightarrow> bool" where
  "message_ok m \<longleftrightarrow> string_to_messagetype (call_action (cm_message m)) = Some (messageType m)"

definition places_ok :: "control_message list \<Rightarrow> control_message list \<Rightarrow> control_message list \<Rightarrow> nat \<Rightarrow> bool" where
  "places_ok F T N n \<longleftrightarrow>
     distinct (map cm_object (F @ T @ N)) \<and> (\<forall>m\<in>set (F @ T @ N). cm_object m < n \<and> message_ok m) \<and>
     (\<forall>m\<in>set T. is_tx m) \<and> (\<forall>m\<in>set N. \<not> is_tx m) \<and> sorted (map cm_object (txs F T))"

definition order_ok :: "control_message list \<Rightarrow> control_message list \<Rightarrow> mq_event list \<Rightarrow> bool" where
  "order_ok F T es \<longleftrightarrow> sorted (tx_sent es) \<and> (\<forall>k\<in>set (tx_sent es). \<forall>m\<in>set (txs F T). k \<le> cm_object m)"

text \<open>How often a message was sent: not more often than it counted, and it is only sent again below the limit.\<close>

definition may_be_sent :: "int \<Rightarrow> mq_event list \<Rightarrow> control_message \<Rightarrow> bool" where
  "may_be_sent L es m \<longleftrightarrow> messageType m = BootNotification \<or> int (times_sent (cm_object m) es) < max 1 L"

definition counted_ok :: "mq_event list \<Rightarrow> control_message \<Rightarrow> bool" where
  "counted_ok es m \<longleftrightarrow> int (times_sent (cm_object m) es) \<le> message_attempts m \<and>
     (\<forall>c ok. Sent_call (cm_object m) c ok \<in> set es \<longrightarrow> is_boot_call c = (messageType m = BootNotification))"

definition counts_ok ::
    "int \<Rightarrow> control_message list \<Rightarrow> control_message list \<Rightarrow> control_message list \<Rightarrow> mq_event list \<Rightarrow> bool" where
  "counts_ok L F T N es \<longleftrightarrow>
     (\<forall>m\<in>set (F @ T @ N). counted_ok es m) \<and> (\<forall>m\<in>set (T @ N). may_be_sent L es m) \<and>
     (\<forall>k c ok. Sent_call k c ok \<in> set es \<longrightarrow> \<not> is_boot_call c \<longrightarrow> int (times_sent k es) \<le> max 1 L)"

text \<open>Every message of a transaction that was queued is there, has its answer, or was an update that was dropped.\<close>

definition accounted :: "control_message list \<Rightarrow> mq_event list \<Rightarrow> nat \<Rightarrow> call_message \<Rightarrow> bool" where
  "accounted Q es k c \<longleftrightarrow>
     (\<exists>m\<in>set Q. cm_object m = k \<and> is_update_call (cm_message m) = is_update_call c) \<or>
     (\<exists>v. Resolved k v \<in> set es) \<or> is_update_call c \<and> Dropped k \<in> set es"

definition accounted_ok :: "control_message list \<Rightarrow> control_message list \<Rightarrow> mq_event list \<Rightarrow> bool" where
  "accounted_ok F T es \<longleftrightarrow> (\<forall>k c. Queued k c \<in> set es \<longrightarrow> is_tx_call c \<longrightarrow> accounted (txs F T) es k c)"

definition objects_ok :: "nat \<Rightarrow> mq_event list \<Rightarrow> bool" where
  "objects_ok n es \<longleftrightarrow> (\<forall>e\<in>set es. \<forall>k. event_object e = Some k \<longrightarrow> k < n)"

definition core_inv ::
    "int \<Rightarrow> control_message list \<Rightarrow> control_message list \<Rightarrow> control_message list \<Rightarrow> nat \<Rightarrow> mq_event list \<Rightarrow> bool" where
  "core_inv L F T N n es \<longleftrightarrow>
     places_ok F T N n \<and> order_ok F T es \<and> counts_ok L F T N es \<and> accounted_ok F T es \<and> objects_ok n es"

definition mq_inv :: "int \<Rightarrow> message_queue \<Rightarrow> bool" where
  "mq_inv L q \<longleftrightarrow> transaction_message_attempts (config q) \<le> L \<and>
     core_inv L (flight_list q) (transaction_message_queue q) (normal_message_queue q) (created_objects q) (mq_log q)"

lemma core_invI:
  "places_ok F T N n \<Longrightarrow> order_ok F T es \<Longrightarrow> counts_ok L F T N es \<Longrightarrow> accounted_ok F T es \<Longrightarrow> objects_ok n es \<Longrightarrow>
   core_inv L F T N n es"
  by (simp add: core_inv_def)

lemma core_invD:
  assumes "core_inv L F T N n es"
  shows "places_ok F T N n" "order_ok F T es" "counts_ok L F T N es" "accounted_ok F T es" "objects_ok n es"
  using assms by (simp_all add: core_inv_def)

lemma txs_simps [simp]: "txs [] T = T" "txs F (T @ T') = txs F T @ T'" "set (txs F T) = {m \<in> set F. is_tx m} \<union> set T"
  "txs [m] T = (if is_tx m then m # T else T)"
  by (auto simp: txs_def)

lemma tx_call_iff: "message_ok m \<Longrightarrow> is_tx_call (cm_message m) = is_tx m"
  by (simp add: message_ok_def is_tx_call_def)

lemma boot_call_iff: "message_ok m \<Longrightarrow> is_boot_call (cm_message m) = (messageType m = BootNotification)"
  by (simp add: message_ok_def is_boot_call_def)

lemma update_call_iff: "message_ok m \<Longrightarrow> is_update_call (cm_message m) = is_transaction_update_message m"
  by (simp add: message_ok_def is_update_call_def is_transaction_update_message_def)

lemma fresh_not_sent:
  assumes "objects_ok n es"
  shows "times_sent n es = 0" "Sent_call n c ok \<notin> set es"
proof -
  have "\<forall>e\<in>set es. event_object e \<noteq> Some n" using assms by (auto simp: objects_ok_def)
  then show "times_sent n es = 0" "Sent_call n c ok \<notin> set es"
    by (auto simp: times_sent_fresh event_object_def)
qed

section \<open>Elementary changes\<close>

text \<open>A new message, which is or is not queued.\<close>

definition new_message_ok :: "nat \<Rightarrow> control_message \<Rightarrow> bool" where
  "new_message_ok n m \<longleftrightarrow> cm_object m = n \<and> message_ok m \<and> message_attempts m = 0 \<and> cm_promise m = None"

lemma objects_ok_mono: "objects_ok n es \<Longrightarrow> n \<le> n' \<Longrightarrow> \<forall>e\<in>set fs. \<forall>k. event_object e = Some k \<longrightarrow> k < n' \<Longrightarrow> objects_ok n' (es @ fs)"
  by (auto simp: objects_ok_def)

lemma counted_ok_fresh: "objects_ok n es \<Longrightarrow> new_message_ok n m \<Longrightarrow> counted_ok es m"
  by (auto simp: counted_ok_def new_message_ok_def fresh_not_sent)

lemma may_be_sent_fresh: "objects_ok n es \<Longrightarrow> new_message_ok n m \<Longrightarrow> may_be_sent L es m"
  by (auto simp: may_be_sent_def new_message_ok_def fresh_not_sent)

lemma add_tx_core:
  assumes "core_inv L F T N n es" "new_message_ok n m" "is_tx m"
  shows "core_inv L F (T @ [m]) N (n + 1) (es @ [Queued n (cm_message m)])"
proof (rule core_invI)
  note d = core_invD[OF assms(1)]
  have b: "\<forall>m'\<in>set (F @ T @ N). cm_object m' < n" using d(1) by (simp add: places_ok_def)
  have "n \<notin> set (map cm_object (F @ T @ N))" using b by auto
  then show "places_ok F (T @ [m]) N (n + 1)"
    using d(1) assms(2,3) b by (auto simp: places_ok_def new_message_ok_def sorted_append txs_def less_Suc_eq_le intro: less_imp_le)
  have "k < n" if "k \<in> set (tx_sent es)" for k
    using tx_sent_event[OF that] d(5) by (fastforce simp: objects_ok_def event_object_def)
  then show "order_ok F (T @ [m]) (es @ [Queued n (cm_message m)])"
    using d(2) assms(2) by (force simp: order_ok_def new_message_ok_def)
  show "counts_ok L F (T @ [m]) N (es @ [Queued n (cm_message m)])"
    using d(3) counted_ok_fresh[OF d(5) assms(2)] may_be_sent_fresh[OF d(5) assms(2), of L]
    by (auto simp: counts_ok_def counted_ok_def may_be_sent_def)
  show "accounted_ok F (T @ [m]) (es @ [Queued n (cm_message m)])"
    using d(4) assms(2,3) by (fastforce simp: accounted_ok_def accounted_def new_message_ok_def)
  show "objects_ok (n + 1) (es @ [Queued n (cm_message m)])"
    using d(5) by (auto intro!: objects_ok_mono simp: event_object_def)
qed

lemma add_normal_core:
  assumes "core_inv L F T (xs @ ys) n es" "new_message_ok n m" "\<not> is_tx m"
  shows "core_inv L F T (xs @ m # ys) (n + 1) (es @ [Queued n (cm_message m)])"
proof (rule core_invI)
  note d = core_invD[OF assms(1)]
  have b: "\<forall>m'\<in>set (F @ T @ xs @ ys). cm_object m' < n" using d(1) by (simp add: places_ok_def)
  have "n \<notin> set (map cm_object (F @ T @ xs @ ys))" using b by auto
  then show "places_ok F T (xs @ m # ys) (n + 1)"
    using d(1) assms(2,3) b by (auto simp: places_ok_def new_message_ok_def less_Suc_eq_le intro: less_imp_le)
  show "order_ok F T (es @ [Queued n (cm_message m)])" using d(2) by (simp add: order_ok_def)
  show "counts_ok L F T (xs @ m # ys) (es @ [Queued n (cm_message m)])"
    using d(3) counted_ok_fresh[OF d(5) assms(2)] may_be_sent_fresh[OF d(5) assms(2), of L]
    by (auto simp: counts_ok_def counted_ok_def may_be_sent_def)
  have "\<not> is_tx_call (cm_message m)" using assms(2,3) by (simp add: tx_call_iff new_message_ok_def)
  then show "accounted_ok F T (es @ [Queued n (cm_message m)])"
    using d(4) by (auto simp: accounted_ok_def accounted_def)
  show "objects_ok (n + 1) (es @ [Queued n (cm_message m)])"
    using d(5) by (auto intro!: objects_ok_mono simp: event_object_def)
qed

text \<open>Events that are neither a message queued nor one sent.\<close>

definition minor :: "mq_event \<Rightarrow> bool" where
  "minor e \<longleftrightarrow> (case e of Queued k c \<Rightarrow> False | Sent_call k c ok \<Rightarrow> False | _ \<Rightarrow> True)"

lemma minor_sent: "\<forall>e\<in>set fs. minor e \<Longrightarrow> tx_sent fs = [] \<and> times_sent k fs = 0"
  by (induction fs) (auto simp: minor_def split: mq_event.splits)

lemma minor_core:
  assumes "core_inv L F T N n es" "\<forall>e\<in>set fs. minor e \<and> (\<forall>k. event_object e = Some k \<longrightarrow> k < n')" "n \<le> n'"
  shows "core_inv L F T N n' (es @ fs)"
proof (rule core_invI)
  note d = core_invD[OF assms(1)]
  have m: "tx_sent fs = []" "\<And>k. times_sent k fs = 0" using minor_sent[of fs] assms(2) by auto
  have f: "Queued k c \<notin> set fs" "Sent_call k c ok \<notin> set fs" for k c ok using assms(2) by (auto simp: minor_def)
  have "\<forall>m\<in>set (F @ T @ N). cm_object m < n" using d(1) by (simp add: places_ok_def)
  then have "\<forall>m\<in>set (F @ T @ N). cm_object m < n'" using assms(3) by (meson less_le_trans)
  then show "places_ok F T N n'" using d(1) by (simp add: places_ok_def)
  show "order_ok F T (es @ fs)" using d(2) m by (simp add: order_ok_def)
  show "counts_ok L F T N (es @ fs)" using d(3) by (simp add: counts_ok_def counted_ok_def may_be_sent_def m f)
  show "accounted_ok F T (es @ fs)" using d(4) by (auto simp: accounted_ok_def accounted_def f)
  show "objects_ok n' (es @ fs)" using objects_ok_mono[OF d(5) assms(3), of fs] assms(2) by auto
qed

lemma minor_simps [simp]:
  "minor (Sent_result i)" "minor (Sent_error i)" "minor (Resolved k v)" "minor (Dropped k)"
  "event_object (Sent_result i) = None" "event_object (Sent_error i) = None" "event_object (Resolved k v) = Some k"
  "event_object (Dropped k) = Some k"
  by (simp_all add: minor_def event_object_def)

lemma subseq_distinct_map: "subseq xs ys \<Longrightarrow> distinct (map f ys) \<Longrightarrow> distinct (map f xs)"
  by (induction xs ys rule: list_emb.induct) (auto dest: list_emb_set)

lemma subseq_sorted_map: "subseq xs ys \<Longrightarrow> sorted (map f ys) \<Longrightarrow> sorted (map f xs)"
  by (induction xs ys rule: list_emb.induct) (auto dest: list_emb_set)

text \<open>Messages leave the queues without being sent; those of transactions only when they are updates.\<close>

lemma shrink_core:
  assumes "core_inv L F T N n es" "subseq T' T" "subseq N' N"
    and "\<forall>m\<in>set T. m \<in> set T' \<or> is_transaction_update_message m \<and> m \<in> set ds" "set ds \<subseteq> set T \<union> set N"
  shows "core_inv L F T' N' n (es @ map (Dropped \<circ> cm_object) ds)"
proof -
  note d = core_invD[OF assms(1)]
  have sub: "set T' \<subseteq> set T" "set N' \<subseteq> set N" using assms(2,3) by (auto dest: list_emb_set)
  have ok: "\<forall>m\<in>set (F @ T @ N). cm_object m < n \<and> message_ok m" using d(1) by (simp add: places_ok_def)
  have "core_inv L F T N n (es @ map (Dropped \<circ> cm_object) ds)"
    using assms(1,5) ok by (intro minor_core) auto
  note d = core_invD[OF this]
  show ?thesis
  proof (rule core_invI)
    have "subseq (F @ T' @ N') (F @ T @ N)" using assms(2,3) by (intro list_emb_append_mono subseq_order.refl)
    moreover have "subseq (txs F T') (txs F T)" unfolding txs_def using assms(2) by (intro list_emb_append_mono subseq_order.refl)
    ultimately have "distinct (map cm_object (F @ T' @ N'))" "sorted (map cm_object (txs F T'))"
      using d(1) unfolding places_ok_def by (blast dest: subseq_distinct_map subseq_sorted_map)+
    moreover have "\<forall>m\<in>set (F @ T' @ N'). cm_object m < n \<and> message_ok m" using ok sub by auto
    moreover have "\<forall>m\<in>set T'. is_tx m" "\<forall>m\<in>set N'. \<not> is_tx m" using d(1) sub unfolding places_ok_def by blast+
    ultimately show "places_ok F T' N' n" unfolding places_ok_def by blast
    show "order_ok F T' (es @ map (Dropped \<circ> cm_object) ds)" using d(2) sub by (auto simp: order_ok_def)
    show "counts_ok L F T' N' (es @ map (Dropped \<circ> cm_object) ds)" using d(3) sub by (auto simp: counts_ok_def)
    show "accounted_ok F T' (es @ map (Dropped \<circ> cm_object) ds)"
      unfolding accounted_ok_def
    proof (intro allI impI)
      fix k c
      assume "Queued k c \<in> set (es @ map (Dropped \<circ> cm_object) ds)" "is_tx_call c"
      then have "accounted (txs F T) (es @ map (Dropped \<circ> cm_object) ds) k c"
        using d(4)[unfolded accounted_ok_def] by blast
      then consider m where "m \<in> set T" "cm_object m = k" "is_update_call (cm_message m) = is_update_call c"
        | "accounted (txs F []) (es @ map (Dropped \<circ> cm_object) ds) k c"
        by (auto simp: accounted_def)
      then show "accounted (txs F T') (es @ map (Dropped \<circ> cm_object) ds) k c"
      proof cases
        case 1
        then have "m \<in> set T' \<or> is_update_call c \<and> m \<in> set ds" using assms(4) ok update_call_iff by auto
        then show ?thesis using 1 by (auto simp: accounted_def)
      next
        case 2
        then show ?thesis by (auto simp: accounted_def)
      qed
    qed
    show "objects_ok n (es @ map (Dropped \<circ> cm_object) ds)" using d(5) .
  qed
qed

text \<open>A message and a later state of the same object.\<close>

definition variant :: "control_message \<Rightarrow> control_message \<Rightarrow> bool" where
  "variant m m' \<longleftrightarrow> cm_object m' = cm_object m \<and> messageType m' = messageType m \<and> message_ok m' \<and>
     is_update_call (cm_message m') = is_update_call (cm_message m)"

lemma places_variant:
  "places_ok F (xs @ m # ys) N n \<Longrightarrow> variant m m' \<Longrightarrow> places_ok F (xs @ m' # ys) N n"
  "places_ok F T (xs @ m # ys) n \<Longrightarrow> variant m m' \<Longrightarrow> places_ok F T (xs @ m' # ys) n"
  "places_ok [m] T N n \<Longrightarrow> variant m m' \<Longrightarrow> places_ok [m'] T N n"
  by (auto simp: places_ok_def variant_def txs_def)

text \<open>The places of a message between its queue and being in flight.\<close>

lemma places_flight:
  "is_tx m \<Longrightarrow> places_ok [] (m # T) N n \<longleftrightarrow> places_ok [m] T N n"
  "\<not> is_tx m \<Longrightarrow> places_ok [] T (xs @ m # ys) n \<longleftrightarrow> places_ok [m] T (xs @ ys) n"
  by (auto simp: places_ok_def)

lemma order_sent:
  assumes "places_ok F T N n" "order_ok F T es" "m \<in> set (F @ T @ N)" "is_tx m \<Longrightarrow> \<exists>ms. txs F T = m # ms"
    and "is_tx_call c = is_tx m"
  shows "order_ok F T (es @ [Sent_call (cm_object m) c ok])"
proof (cases "is_tx m")
  case True
  then obtain ms where ms: "txs F T = m # ms" using assms(4) by blast
  then have "\<forall>m'\<in>set (txs F T). cm_object m \<le> cm_object m'" using assms(1) by (simp add: places_ok_def)
  moreover have "\<forall>k\<in>set (tx_sent es). k \<le> cm_object m" using assms(2) ms unfolding order_ok_def by (metis list.set_intros(1))
  ultimately show ?thesis
    using assms(2,5) True unfolding order_ok_def by (simp add: sorted_append del: txs_simps)
next
  case False
  then show ?thesis using assms(2,5) by (simp add: order_ok_def del: txs_simps)
qed

lemma other_counts:
  assumes "counted_ok es m'" "cm_object m' \<noteq> k"
  shows "counted_ok (es @ [Sent_call k c ok]) m'"
  using assms by (auto simp: counted_ok_def)

lemma other_may:
  assumes "may_be_sent L es m'" "cm_object m' \<noteq> k"
  shows "may_be_sent L (es @ [Sent_call k c ok]) m'"
  using assms by (auto simp: may_be_sent_def)

lemma counts_sent:
  assumes "counts_ok L [] T N es" "distinct (map cm_object (T @ N))" "m \<in> set (T @ N)" "message_ok m" "variant m m'"
    "message_attempts m' = message_attempts m + 1" "is_boot_call c = (messageType m = BootNotification)"
    "set F' \<union> set T' \<union> set N' \<subseteq> insert m' (set T \<union> set N - {m})" "ok \<Longrightarrow> m' \<notin> set (T' @ N')"
  shows "counts_ok L F' T' N' (es @ [Sent_call (cm_object m) c ok])"
proof -
  let ?es = "es @ [Sent_call (cm_object m) c ok]"
  have o: "cm_object x \<noteq> cm_object m" if "x \<in> set T \<union> set N - {m}" for x
    using assms(2,3) that by (metis DiffD1 DiffD2 distinct_map inj_onD set_append singletonI)
  have m: "counted_ok es m" "may_be_sent L es m" using assms(1,3) by (auto simp: counts_ok_def)
  have c: "counted_ok ?es m'"
    using m(1) assms(5,6,7) by (auto simp: counted_ok_def variant_def)
  have all: "\<forall>x\<in>set (F' @ T' @ N'). counted_ok ?es x"
  proof
    fix x
    assume "x \<in> set (F' @ T' @ N')"
    then consider "x = m'" | "x \<in> set T \<union> set N - {m}" using assms(8) by auto
    then show "counted_ok ?es x"
      using c o assms(1) other_counts by cases (auto simp: counts_ok_def)
  qed
  have may: "\<forall>x\<in>set (T' @ N'). may_be_sent L ?es x"
  proof
    fix x
    assume x: "x \<in> set (T' @ N')"
    then consider "x = m'" "\<not> ok" | "x \<in> set T \<union> set N - {m}" using assms(8,9) by auto
    then show "may_be_sent L ?es x"
    proof cases
      case 1
      then show ?thesis using m(2) assms(5) by (simp add: may_be_sent_def variant_def)
    next
      case 2
      then show ?thesis using o assms(1) other_may by (auto simp: counts_ok_def)
    qed
  qed
  have "int (times_sent k ?es) \<le> max 1 L" if "Sent_call k d ok' \<in> set ?es" "\<not> is_boot_call d" for k d ok'
  proof (cases "k = cm_object m")
    case True
    have "messageType m \<noteq> BootNotification" using that m(1) assms(7) True by (auto simp: counted_ok_def)
    then show ?thesis using m(2) True by (auto simp: may_be_sent_def)
  next
    case False
    then have "Sent_call k d ok' \<in> set es" using that(1) by simp
    then have "int (times_sent k es) \<le> max 1 L" using assms(1) that(2) unfolding counts_ok_def by blast
    then show ?thesis using False by simp
  qed
  then show ?thesis using all may by (simp add: counts_ok_def del: set_append)
qed

lemma variant_trans: "variant m m' \<Longrightarrow> variant m' m'' \<Longrightarrow> variant m m''"
  by (simp add: variant_def)

lemma send_core:
  assumes "core_inv L [] T N n es" "m \<in> set (T @ N)" "is_tx m \<Longrightarrow> \<exists>ms. T = m # ms" "variant m m'"
    "message_attempts m' = message_attempts m + 1" "places_ok F' T' N' n"
    "set F' \<union> set T' \<union> set N' \<subseteq> insert m' (set T \<union> set N - {m})" "ok \<Longrightarrow> m' \<notin> set (T' @ N')"
    "set T - {m} \<subseteq> set (txs F' T')" "is_tx m \<Longrightarrow> m' \<in> set (txs F' T')"
    "\<forall>x\<in>set (txs F' T'). \<exists>y\<in>set T. cm_object x = cm_object y"
  shows "core_inv L F' T' N' n (es @ [Sent_call (cm_object m) (cm_message m) ok])"
proof (rule core_invI)
  let ?e = "Sent_call (cm_object m) (cm_message m) ok"
  note d = core_invD[OF assms(1)]
  have m: "cm_object m < n" "message_ok m" using d(1) assms(2) unfolding places_ok_def by auto
  show "places_ok F' T' N' n" by fact
  have "order_ok [] T (es @ [?e])"
    using d(1,2) assms(2,3) m(2) by (intro order_sent) (auto simp: tx_call_iff)
  then show "order_ok F' T' (es @ [?e])" using assms(11) unfolding order_ok_def txs_simps(1) by metis
  have "distinct (map cm_object (T @ N))" using d(1) unfolding places_ok_def append_Nil by blast
  then show "counts_ok L F' T' N' (es @ [?e])"
    using counts_sent[OF d(3) _ assms(2) m(2) assms(4,5) boot_call_iff[OF m(2)] assms(7,8)] by blast
  show "accounted_ok F' T' (es @ [?e])"
    unfolding accounted_ok_def
  proof (intro allI impI)
    fix k c
    assume "Queued k c \<in> set (es @ [?e])" "is_tx_call c"
    then have "accounted T es k c" using d(4) by (simp add: accounted_ok_def)
    then consider x where "x \<in> set T" "cm_object x = k" "is_update_call (cm_message x) = is_update_call c"
      | "(\<exists>v. Resolved k v \<in> set es) \<or> is_update_call c \<and> Dropped k \<in> set es"
      by (auto simp: accounted_def)
    then show "accounted (txs F' T') (es @ [?e]) k c"
    proof cases
      case 1
      have "\<exists>y\<in>set (txs F' T'). cm_object y = k \<and> is_update_call (cm_message y) = is_update_call c"
      proof (cases "x = m")
        case True
        then have "is_tx m" using 1(1) d(1) unfolding places_ok_def by blast
        then show ?thesis using 1 True assms(4,10) unfolding variant_def by metis
      next
        case False
        then show ?thesis using 1 assms(9) by blast
      qed
      then show ?thesis unfolding accounted_def by blast
    qed (auto simp: accounted_def)
  qed
  show "objects_ok n (es @ [?e])" using d(5) m(1) by (auto intro!: objects_ok_mono simp: event_object_def)
qed

lemma send_tx_core:
  assumes "core_inv L [] (m # T) N n es" "variant m m'" "message_attempts m' = message_attempts m + 1"
  shows "core_inv L [m'] T N n (es @ [Sent_call (cm_object m) (cm_message m) True])"
    "core_inv L [] (m' # T) N n (es @ [Sent_call (cm_object m) (cm_message m) False])"
proof -
  have p: "places_ok [] (m # T) N n" using core_invD(1)[OF assms(1)] .
  have m: "is_tx m" "m \<notin> set T" "m \<notin> set N" using p unfolding places_ok_def by auto
  have p': "places_ok [] (m' # T) N n" using places_variant(1)[of "[]" "[]" m T] p assms(2) by simp
  have m': "is_tx m'" "cm_object m' = cm_object m" using m(1) assms(2) by (simp_all add: variant_def)
  have n: "m' \<notin> set T" "m' \<notin> set N" using p' by (auto simp: places_ok_def)
  show "core_inv L [m'] T N n (es @ [Sent_call (cm_object m) (cm_message m) True])"
    using p' m m' n by (intro send_core[OF assms(1) _ _ assms(2,3)]) (auto simp: places_flight)
  show "core_inv L [] (m' # T) N n (es @ [Sent_call (cm_object m) (cm_message m) False])"
    using p' m m' n by (intro send_core[OF assms(1) _ _ assms(2,3)]) auto
qed

lemma send_normal_core:
  assumes "core_inv L [] T (xs @ m # ys) n es" "variant m m'" "message_attempts m' = message_attempts m + 1"
  shows "core_inv L [m'] T (xs @ ys) n (es @ [Sent_call (cm_object m) (cm_message m) True])"
    "core_inv L [] T (xs @ m' # ys) n (es @ [Sent_call (cm_object m) (cm_message m) False])"
proof -
  have p: "places_ok [] T (xs @ m # ys) n" using core_invD(1)[OF assms(1)] .
  have m: "\<not> is_tx m" "m \<notin> set T" "m \<notin> set (xs @ ys)" using p unfolding places_ok_def by auto
  have p': "places_ok [] T (xs @ m' # ys) n" using places_variant(2) p assms(2) by blast
  have m': "\<not> is_tx m'" "cm_object m' = cm_object m" using m(1) assms(2) by (simp_all add: variant_def)
  have n: "m' \<notin> set T" "m' \<notin> set (xs @ ys)" using p' by (auto simp: places_ok_def)
  show "core_inv L [m'] T (xs @ ys) n (es @ [Sent_call (cm_object m) (cm_message m) True])"
    using p' m m' n by (intro send_core[OF assms(1) _ _ assms(2,3)]) (auto simp: places_flight)
  show "core_inv L [] T (xs @ m' # ys) n (es @ [Sent_call (cm_object m) (cm_message m) False])"
    using p' m m' n by (intro send_core[OF assms(1) _ _ assms(2,3)]) auto
qed

lemma flight_done_core:
  assumes "core_inv L [m] T N n es" "is_tx m \<Longrightarrow> \<exists>v. Resolved (cm_object m) v \<in> set es"
  shows "core_inv L [] T N n es"
proof (rule core_invI)
  note d = core_invD[OF assms(1)]
  show "places_ok [] T N n" using d(1) by (auto simp: places_ok_def split: if_splits)
  show "order_ok [] T es" using d(2) by (auto simp: order_ok_def)
  show "counts_ok L [] T N es" using d(3) by (auto simp: counts_ok_def)
  have "accounted T es k c" if "accounted (txs [m] T) es k c" for k c
  proof (cases "is_tx m \<and> k = cm_object m")
    case True
    then show ?thesis using assms(2) by (auto simp: accounted_def)
  next
    case False
    then show ?thesis using that by (auto simp: accounted_def split: if_splits)
  qed
  then show "accounted_ok [] T es" using d(4) unfolding accounted_ok_def txs_simps(1) by blast
  show "objects_ok n es" by fact
qed

lemma retry_core:
  assumes "core_inv L [m] T N n es" "variant m m'" "message_attempts m' = message_attempts m"
    "messageType m = BootNotification \<or> message_attempts m < L"
  shows "is_tx m \<Longrightarrow> core_inv L [] (m' # T) N n es" "\<not> is_tx m \<Longrightarrow> core_inv L [] T (m' # N) n es"
proof -
  note d = core_invD[OF assms(1)]
  have p: "places_ok [m'] T N n" using places_variant(3)[OF d(1) assms(2)] .
  have v: "cm_object m' = cm_object m" "messageType m' = messageType m" "is_update_call (cm_message m') = is_update_call (cm_message m)"
    using assms(2) by (simp_all add: variant_def)
  have c: "counted_ok es m'" "may_be_sent L es m'"
    using d(3) assms(3,4) v by (auto simp: counts_ok_def counted_ok_def may_be_sent_def)
  show "core_inv L [] (m' # T) N n es" if "is_tx m"
  proof (rule core_invI)
    show "places_ok [] (m' # T) N n" using p that v by (simp add: places_flight)
    show "order_ok [] (m' # T) es" using d(2) that v by (auto simp: order_ok_def)
    show "counts_ok L [] (m' # T) N es" using d(3) c by (auto simp: counts_ok_def)
    show "accounted_ok [] (m' # T) es" using d(4) that v by (auto simp: accounted_ok_def accounted_def)
    show "objects_ok n es" by fact
  qed
  show "core_inv L [] T (m' # N) n es" if "\<not> is_tx m"
  proof (rule core_invI)
    show "places_ok [] T (m' # N) n" using p that v places_flight(2)[of m' T "[]" N n] by simp
    show "order_ok [] T es" using d(2) that by (simp add: order_ok_def)
    show "counts_ok L [] T (m' # N) es" using d(3) c by (auto simp: counts_ok_def)
    show "accounted_ok [] T es" using d(4) that by (simp add: accounted_ok_def)
    show "objects_ok n es" by fact
  qed
qed

lemma replace_normal_core:
  assumes "core_inv L F T (xs @ m # ys) n es" "variant m m'" "message_attempts m' = message_attempts m"
  shows "core_inv L F T (xs @ m' # ys) n es"
proof (rule core_invI)
  note d = core_invD[OF assms(1)]
  show "places_ok F T (xs @ m' # ys) n" using places_variant(2) d(1) assms(2) by blast
  show "order_ok F T es" "accounted_ok F T es" "objects_ok n es" by fact+
  have "counted_ok es m'" "may_be_sent L es m'"
    using d(3) assms(2,3) by (auto simp: counts_ok_def counted_ok_def may_be_sent_def variant_def)
  then show "counts_ok L F T (xs @ m' # ys) es" using d(3) by (auto simp: counts_ok_def)
qed

end
