(* ===== verification/Message_Queue_Reach.thy ===== *)
theory Message_Queue_Reach
  imports Message_Queue_Inv
begin

text \<open>Every operation of the message queue keeps the invariant of \<open>Message_Queue_Inv\<close>.\<close>

lemma mq_inv_core: "mq_inv L q \<Longrightarrow> core_inv L (flight_list q) (transaction_message_queue q) (normal_message_queue q) (created_objects q) (mq_log q)"
  by (simp add: mq_inv_def)

lemma flight_list_update [simp]:
  "flight_list (q\<lparr>in_flight := None\<rparr>) = []" "flight_list (q\<lparr>in_flight := Some m\<rparr>) = [m]"
  by (simp_all add: flight_list_def)

text \<open>An operation that changes neither messages nor log nor the number of attempts.\<close>

definition quiet_change :: "message_queue \<Rightarrow> message_queue \<Rightarrow> bool" where
  "quiet_change q q' \<longleftrightarrow> in_flight q' = in_flight q \<and> transaction_message_queue q' = transaction_message_queue q \<and>
     normal_message_queue q' = normal_message_queue q \<and> created_objects q' = created_objects q \<and> mq_log q' = mq_log q \<and>
     transaction_message_attempts (config q') = transaction_message_attempts (config q)"

lemma mq_inv_quiet: "mq_inv L q \<Longrightarrow> quiet_change q q' \<Longrightarrow> mq_inv L q'"
  by (simp add: mq_inv_def quiet_change_def flight_list_def)

section \<open>The length of the queues\<close>

lemma drop_normal_inv: "mq_inv L q \<Longrightarrow> mq_inv L (drop_messages_from_normal_message_queue q)"
  unfolding mq_inv_def drop_messages_from_normal_message_queue_def Let_def
  by (auto simp: flight_list_def intro!: shrink_core dest: in_set_takeD)

lemma normal_queue_loop_inv: "mq_inv L q \<Longrightarrow> mq_inv L (normal_queue_loop q)"
proof (induction q rule: normal_queue_loop.induct)
  case (1 q)
  then show ?case using drop_normal_inv by (subst normal_queue_loop.simps) auto
qed

lemma drop_updates_parts:
  "drop_updates r ms = (dropped, kept) \<Longrightarrow>
     subseq kept ms \<and> set dropped \<subseteq> set ms \<and> (\<forall>m\<in>set ms. m \<in> set kept \<or> is_transaction_update_message m \<and> m \<in> set dropped)"
  by (induction r ms arbitrary: dropped kept rule: drop_updates.induct) (fastforce simp: Let_def split: prod.splits if_splits)+

lemma drop_update_inv:
  "mq_inv L q \<Longrightarrow> mq_inv L (snd (drop_update_messages_from_transactional_message_queue q))"
  unfolding mq_inv_def drop_update_messages_from_transactional_message_queue_def
  by (auto simp: flight_list_def Let_def split: prod.split intro!: shrink_core dest!: drop_updates_parts)

lemma update_message_loop_inv: "mq_inv L q \<Longrightarrow> mq_inv L (update_message_loop q)"
proof (induction q rule: update_message_loop.induct)
  case (1 q)
  obtain d q' where d: "drop_update_messages_from_transactional_message_queue q = (d, q')"
    by (cases "drop_update_messages_from_transactional_message_queue q")
  then have "mq_inv L q'" using drop_update_inv[OF "1.prems"] by simp
  then show ?case using "1.IH"[OF _ d[symmetric]] "1.prems" by (subst update_message_loop.simps) (auto simp: d)
qed

lemma check_queue_sizes_inv: "mq_inv L q \<Longrightarrow> mq_inv L (check_queue_sizes q)"
  by (simp add: check_queue_sizes_def update_message_loop_inv normal_queue_loop_inv)

section \<open>Adding messages\<close>

lemma new_ControlMessage_ok: "new_ControlMessage now k c stall = Inr m \<Longrightarrow> new_message_ok k m \<and> cm_object m = k"
  by (auto simp: new_ControlMessage_def new_message_ok_def message_ok_def split: option.splits)

lemma add_transaction_inv:
  assumes "mq_inv L q" "new_message_ok (created_objects q) m" "is_tx m"
  shows "mq_inv L (add_to_transaction_message_queue m (q\<lparr>created_objects := created_objects q + 1\<rparr>))"
proof -
  have "core_inv L (flight_list q) (transaction_message_queue q @ [m]) (normal_message_queue q) (created_objects q + 1)
      (mq_log q @ [Queued (created_objects q) (cm_message m)])"
    using add_tx_core[OF mq_inv_core[OF assms(1)] assms(2,3)] .
  then show ?thesis
    unfolding add_to_transaction_message_queue_def Let_def mq_do_def
    using assms(1,2) by (intro check_queue_sizes_inv) (simp add: mq_inv_def flight_list_def new_message_ok_def)
qed

lemma add_normal_inv:
  assumes "mq_inv L q" "new_message_ok (created_objects q) m" "\<not> is_tx m"
  shows "mq_inv L (add_to_normal_message_queue m (q\<lparr>created_objects := created_objects q + 1\<rparr>))"
proof -
  note c = mq_inv_core[OF assms(1)]
  have "core_inv L (flight_list q) (transaction_message_queue q) (m # normal_message_queue q) (created_objects q + 1)
      (mq_log q @ [Queued (created_objects q) (cm_message m)])"
    using add_normal_core[of L _ _ "[]", OF _ assms(2,3)] c by simp
  moreover have "core_inv L (flight_list q) (transaction_message_queue q) (normal_message_queue q @ [m]) (created_objects q + 1)
      (mq_log q @ [Queued (created_objects q) (cm_message m)])"
    using add_normal_core[of L _ _ _ "[]", OF _ assms(2,3)] c by simp
  ultimately show ?thesis
    unfolding add_to_normal_message_queue_def Let_def mq_do_def
    using assms(1,2) by (intro check_queue_sizes_inv) (simp add: mq_inv_def flight_list_def new_message_ok_def)
qed

lemma created_inv: "mq_inv L q \<Longrightarrow> mq_inv L (q\<lparr>created_objects := created_objects q + 1\<rparr>)"
  using minor_core[of L _ _ _ "created_objects q" _ "[]" "created_objects q + 1"] by (simp add: mq_inv_def flight_list_def)

lemma created_resolved_inv:
  "mq_inv L q \<Longrightarrow> mq_inv L (mq_do (Resolved (created_objects q) v) (q\<lparr>created_objects := created_objects q + 1\<rparr>))"
  using minor_core[of L _ _ _ "created_objects q" _ "[Resolved (created_objects q) v]" "created_objects q + 1"]
  by (simp add: mq_inv_def flight_list_def mq_do_def)

lemma push_call_inv:
  assumes "mq_inv L q" "push_call e c stall q = Inr q'"
  shows "mq_inv L q'"
proof (cases "running q")
  case True
  then obtain m where m: "new_ControlMessage (env_now e) (created_objects q) c stall = Inr m"
    using assms(2) by (cases "new_ControlMessage (env_now e) (created_objects q) c stall") (auto simp: push_call_def)
  then show ?thesis
    using assms True add_transaction_inv[OF assms(1)] add_normal_inv[OF assms(1)] created_inv[OF assms(1)] new_ControlMessage_ok[OF m]
    by (auto simp: push_call_def Let_def split: if_splits)
next
  case False
  then show ?thesis using assms by (simp add: push_call_def)
qed

lemma push_call_async_inv:
  assumes "mq_inv L q" "push_call_async e c q = Inr (k, q')"
  shows "mq_inv L q'"
proof -
  obtain m where m: "new_ControlMessage (env_now e) (created_objects q) c False = Inr m"
    using assms(2) by (cases "new_ControlMessage (env_now e) (created_objects q) c False") (auto simp: push_call_async_def)
  have ok: "new_message_ok (created_objects q) m" "cm_object m = created_objects q" "cm_promise m = None"
    using new_ControlMessage_ok[OF m] by (auto simp: new_message_ok_def)
  then show ?thesis
    using assms m add_transaction_inv[OF assms(1)] add_normal_inv[OF assms(1)] created_resolved_inv[OF assms(1)]
    by (auto simp: push_call_async_def Let_def set_value_def split: if_splits)
qed

lemma mq_do_reply_inv:
  "mq_inv L q \<Longrightarrow> mq_inv L (mq_do (Sent_result i) q)" "mq_inv L q \<Longrightarrow> mq_inv L (mq_do (Sent_error i) q)"
  using minor_core[of L _ _ _ "created_objects q" _ "[Sent_result i]" "created_objects q"]
    minor_core[of L _ _ _ "created_objects q" _ "[Sent_error i]" "created_objects q"]
  by (simp_all add: mq_inv_def flight_list_def mq_do_def)

lemma next_message_inv: "mq_inv L q \<Longrightarrow> mq_inv L (q\<lparr>next_message_to_send := x\<rparr>)"
  by (erule mq_inv_quiet) (simp add: quiet_change_def)

lemma push_call_result_inv: "mq_inv L q \<Longrightarrow> mq_inv L (push_call_result i q)"
  using mq_do_reply_inv next_message_inv by (auto simp: push_call_result_def Let_def split: option.split)

lemma push_call_error_inv: "mq_inv L q \<Longrightarrow> mq_inv L (push_call_error i q)"
  using mq_do_reply_inv next_message_inv by (auto simp: push_call_error_def Let_def split: option.split)

section \<open>The worker\<close>

lemma find_index_Some: "find_index P xs = Some i \<Longrightarrow> i < length xs \<and> P (xs ! i)"
  by (induction xs arbitrary: i) (auto split: if_splits)

lemma select_message_cases:
  assumes "select_message now q = Some (m, t)"
  obtains ms where "t = Queue_Transaction" "transaction_message_queue q = m # ms"
  | i where "t = Queue_Normal i" "i < length (normal_message_queue q)" "normal_message_queue q ! i = m"
  using assms find_index_Some
  by (fastforce simp: select_message_def select_normal_message_def Let_def split: list.splits if_splits)

lemma attempt_variant: "message_ok m \<Longrightarrow> variant m (m\<lparr>message_attempts := n\<rparr>)"
  by (simp add: variant_def message_ok_def)

lemma offline_variant: "message_ok m \<Longrightarrow> variant m (offline_payload m)" "message_attempts (offline_payload m) = message_attempts m"
  by (auto simp: offline_payload_def variant_def message_ok_def is_update_call_def)

lemma promise_variant: "message_ok m \<Longrightarrow> variant m (m\<lparr>cm_promise := v\<rparr>)"
  by (simp add: variant_def message_ok_def)

lemma list_update_split:
  assumes "i < length xs" "xs ! i = x"
  shows "xs = take i xs @ x # drop (i + 1) xs" "xs[i := y] = take i xs @ y # drop (i + 1) xs"
    "take i (xs[i := y]) @ drop (i + 1) (xs[i := y]) = take i xs @ drop (i + 1) xs"
  using assms by (auto simp: id_take_nth_drop upd_conv_take_nth_drop)

lemma send_transaction_inv:
  assumes "mq_inv L q" "in_flight q = None" "transaction_message_queue q = m # ms" "send_selected e Queue_Transaction m q = Inr q'"
  shows "mq_inv L q'"
proof -
  let ?m = "m\<lparr>message_attempts := message_attempts m + 1\<rparr>"
  have c: "core_inv L [] (m # ms) (normal_message_queue q) (created_objects q) (mq_log q)"
    using mq_inv_core[OF assms(1)] assms(2,3) by (simp add: flight_list_def)
  have ok: "message_ok m" "is_tx m" using core_invD(1)[OF c] by (auto simp: places_ok_def)
  note v = attempt_variant[OF ok(1)]
  have v': "variant m (offline_payload ?m)" using variant_trans[OF v] offline_variant(1)[of ?m] v by (auto simp: variant_def)
  have sent: "core_inv L [?m] ms (normal_message_queue q) (created_objects q) (mq_log q @ [Sent_call (cm_object m) (cm_message m) True])"
    using send_tx_core(1)[OF c v] by simp
  have failed: "core_inv L [] (offline_payload ?m # ms) (normal_message_queue q) (created_objects q)
      (mq_log q @ [Sent_call (cm_object m) (cm_message m) False])"
    using send_tx_core(2)[OF c v'] offline_variant(2)[of ?m] by simp
  have a: "transaction_message_attempts (config q) \<le> L" using assms(1) by (simp add: mq_inv_def)
  show ?thesis
    using assms(3,4) sent failed a ok(2)
    by (auto simp: send_selected_def Let_def send_succeeded_def send_failed_def erase_selected_def update_object_def
        reset_in_flight_def mq_do_def mq_inv_def flight_list_def split: if_splits)
qed

lemma update_middle: "i < length xs \<Longrightarrow> (take i xs @ a # ys)[i := b] = take i xs @ b # ys"
  by (simp add: list_update_append)

lemma drop_first_core:
  assumes "core_inv L F T N n es" "N \<noteq> []"
  shows "core_inv L F T (tl N) n (es @ [Dropped (cm_object (hd N))])"
proof -
  have "N = hd N # tl N" using assms(2) by simp
  then have "subseq (tl N) N" by (metis list_emb_Cons subseq_order.refl)
  then show ?thesis using shrink_core[OF assms(1) subseq_order.refl, of "tl N" "[hd N]"] assms(2) by simp
qed

lemma send_normal_inv:
  assumes "mq_inv L q" "in_flight q = None" "i < length (normal_message_queue q)" "normal_message_queue q ! i = m"
    "send_selected e (Queue_Normal i) m q = Inr q'"
  shows "mq_inv L q'"
proof -
  let ?m = "m\<lparr>message_attempts := message_attempts m + 1\<rparr>" and ?N = "normal_message_queue q"
  let ?r = "?m\<lparr>cm_promise := Some Offline_value\<rparr>" and ?s = "Sent_call (cm_object m) (cm_message m)"
  let ?xs = "take i ?N" and ?ys = "drop (i + 1) ?N"
  note sp = list_update_split[OF assms(3,4)]
  have c: "core_inv L [] (transaction_message_queue q) (?xs @ m # ?ys) (created_objects q) (mq_log q)"
    using mq_inv_core[OF assms(1)] assms(2) sp(1) by (simp add: flight_list_def)
  have ok: "message_ok m" "\<not> is_tx m" "cm_object m < created_objects q" using core_invD(1)[OF c] by (auto simp: places_ok_def)
  note v = attempt_variant[OF ok(1)]
  have sent: "core_inv L [?m] (transaction_message_queue q) (?xs @ ?ys) (created_objects q) (mq_log q @ [?s True])"
    using send_normal_core(1)[OF c v] by simp
  have kept: "core_inv L [] (transaction_message_queue q) (?xs @ ?m # ?ys) (created_objects q) (mq_log q @ [?s False])"
    using send_normal_core(2)[OF c v] by simp
  have "core_inv L [] (transaction_message_queue q) (?xs @ ?m # ?ys) (created_objects q)
      ((mq_log q @ [?s False]) @ [Resolved (cm_object m) Offline_value])"
    using ok(3) by (intro minor_core[OF kept]) auto
  then have r: "core_inv L [] (transaction_message_queue q) (?xs @ ?r # ?ys) (created_objects q)
      (mq_log q @ [?s False, Resolved (cm_object m) Offline_value])"
    using replace_normal_core[of L "[]" _ ?xs ?m ?ys _ _ ?r] promise_variant[of ?m] v by (simp add: variant_def)
  let ?h = "hd (?xs @ ?r # ?ys)"
  have dropped: "core_inv L [] (transaction_message_queue q) (tl (?xs @ ?r # ?ys)) (created_objects q)
      (mq_log q @ [?s False, Resolved (cm_object m) Offline_value, Dropped (cm_object ?h)])"
    using drop_first_core[OF r] by simp
  have a: "transaction_message_attempts (config q) \<le> L" using assms(1) by (simp add: mq_inv_def)
  show ?thesis
    using assms(5) sent kept dropped a ok(2) assms(3)
    by (auto simp: send_selected_def Let_def send_succeeded_def send_failed_def erase_selected_def update_object_def set_value_def
        reset_in_flight_def mq_do_def mq_inv_def flight_list_def sp(2,3) update_middle split: if_splits)
qed

lemma worker_inv:
  assumes "mq_inv L q" "worker_pass e q = Inr q'"
  shows "mq_inv L q'"
proof -
  have it: "mq_inv L q''" if i: "worker_iteration e q = Inr q''" for q''
  proof (cases "in_flight q = None \<and> (\<exists>m t. select_message (clock_DateTime (env_now e)) q = Some (m, t) \<and> send_selected e t m q = Inr q'')")
    case True
    then obtain m t where t: "in_flight q = None" "select_message (clock_DateTime (env_now e)) q = Some (m, t)"
      "send_selected e t m q = Inr q''"
      by blast
    from t(2) show ?thesis
    proof (cases rule: select_message_cases)
      case (1 ms)
      then show ?thesis using send_transaction_inv[OF assms(1) t(1)] t(3) by blast
    next
      case (2 i)
      then show ?thesis using send_normal_inv[OF assms(1) t(1)] t(3) by blast
    qed
  next
    case False
    then have "quiet_change q q''"
      using i by (auto simp: worker_iteration_def quiet_change_def split: if_splits option.splits)
    then show ?thesis using mq_inv_quiet[OF assms(1)] by blast
  qed
  have "mq_inv L (q''\<lparr>worker_alive := b\<rparr>)" if "mq_inv L q''" for q'' b
    using mq_inv_quiet[OF that] by (simp add: quiet_change_def)
  then show ?thesis
    using assms it by (cases "worker_iteration e q") (auto simp: worker_pass_def split: if_splits)
qed

section \<open>Answers and timeouts\<close>

lemma resolved_inv:
  assumes "mq_inv L q" "in_flight q = Some m"
  shows "mq_inv L (reset_in_flight (mq_do (Resolved (cm_object m) v) q))"
proof -
  have c: "core_inv L [m] (transaction_message_queue q) (normal_message_queue q) (created_objects q) (mq_log q)"
    using mq_inv_core[OF assms(1)] assms(2) by (simp add: flight_list_def)
  then have "cm_object m < created_objects q" by (auto simp: core_inv_def places_ok_def)
  then have "core_inv L [m] (transaction_message_queue q) (normal_message_queue q) (created_objects q) (mq_log q @ [Resolved (cm_object m) v])"
    by (intro minor_core[OF c]) auto
  then have "core_inv L [] (transaction_message_queue q) (normal_message_queue q) (created_objects q) (mq_log q @ [Resolved (cm_object m) v])"
    by (rule flight_done_core) auto
  then show ?thesis using assms(1) by (simp add: mq_inv_def reset_in_flight_def mq_do_def flight_list_def)
qed

lemma handle_call_result_inv:
  assumes "mq_inv L q" "handle_call_result em q = Inr q'"
  shows "mq_inv L q'"
proof (cases "q' = q")
  case False
  then obtain m v where "in_flight q = Some m" "q' = reset_in_flight (mq_do (Resolved (cm_object m) v) q)"
    using assms(2) by (auto simp: handle_call_result_def set_value_def split: option.splits if_splits)
  then show ?thesis using resolved_inv[OF assms(1)] by simp
qed (simp add: assms(1))

lemma retry_inv:
  assumes "mq_inv L q" "in_flight q = Some m" "variant m m'" "message_attempts m' = message_attempts m"
    "messageType m = BootNotification \<or> message_attempts m < L"
  shows "is_tx m \<Longrightarrow> mq_inv L (reset_in_flight (notify_queue_at e m' (q\<lparr>transaction_message_queue := m' # transaction_message_queue q\<rparr>)))"
    "\<not> is_tx m \<Longrightarrow> mq_inv L (reset_in_flight (notify_queue_at e m' (q\<lparr>normal_message_queue := m' # normal_message_queue q\<rparr>)))"
proof -
  have c: "core_inv L [m] (transaction_message_queue q) (normal_message_queue q) (created_objects q) (mq_log q)"
    using mq_inv_core[OF assms(1)] assms(2) by (simp add: flight_list_def)
  have a: "transaction_message_attempts (config q) \<le> L" using assms(1) by (simp add: mq_inv_def)
  show "is_tx m \<Longrightarrow> mq_inv L (reset_in_flight (notify_queue_at e m' (q\<lparr>transaction_message_queue := m' # transaction_message_queue q\<rparr>)))"
    using retry_core(1)[OF c assms(3-5)] a by (simp add: mq_inv_def reset_in_flight_def notify_queue_at_def flight_list_def)
  show "\<not> is_tx m \<Longrightarrow> mq_inv L (reset_in_flight (notify_queue_at e m' (q\<lparr>normal_message_queue := m' # normal_message_queue q\<rparr>)))"
    using retry_core(2)[OF c assms(3-5)] a by (simp add: mq_inv_def reset_in_flight_def notify_queue_at_def flight_list_def)
qed

lemma retry_variant:
  assumes "message_ok m"
  shows "variant m (retry_message e m q)" "message_attempts (retry_message e m q) = message_attempts m"
    "variant m (m\<lparr>cm_message := (cm_message m)\<lparr>call_id := i\<rparr>, cm_timestamp := t\<rparr>)"
    "messageType (retry_message e m q) = messageType m"
  using assms by (auto simp: retry_message_def Let_def variant_def message_ok_def is_update_call_def)

lemma give_up_result: "give_up em m q = Inr q' \<Longrightarrow> \<exists>v. q' = mq_do (Resolved (cm_object m) v) q"
  by (auto simp: give_up_def set_value_def split: if_splits)

lemma handle_timeout_inv:
  assumes "mq_inv L q" "handle_timeout_or_callerror e em q = Inr q'"
  shows "mq_inv L q'"
proof -
  obtain m where m: "in_flight q = Some m" using assms(2) by (cases "in_flight q") (auto simp: handle_timeout_or_callerror_def)
  have ok: "message_ok m" using mq_inv_core[OF assms(1)] m by (auto simp: core_inv_def places_ok_def flight_list_def)
  have a: "transaction_message_attempts (config q) \<le> L" using assms(1) by (simp add: mq_inv_def)
  note v = retry_variant[OF ok]
  consider
      (retry) "message_attempts m < transaction_message_attempts (config q)"
        "is_tx m \<and> q' = reset_in_flight (notify_queue_at e (retry_message e m q) (q\<lparr>transaction_message_queue := retry_message e m q # transaction_message_queue q\<rparr>))
         \<or> \<not> is_tx m \<and> q' = reset_in_flight (notify_queue_at e (retry_message e m q) (q\<lparr>normal_message_queue := retry_message e m q # normal_message_queue q\<rparr>))"
    | (boot) t where "messageType m = BootNotification"
        "q' = reset_in_flight (notify_queue_at e (m\<lparr>cm_message := (cm_message m)\<lparr>call_id := env_new_id e\<rparr>, cm_timestamp := t\<rparr>)
           (q\<lparr>normal_message_queue := m\<lparr>cm_message := (cm_message m)\<lparr>call_id := env_new_id e\<rparr>, cm_timestamp := t\<rparr> # normal_message_queue q\<rparr>))"
    | (gone) x where "q' = reset_in_flight (mq_do (Resolved (cm_object m) x) q)"
    using assms(2) m v(4)
    by (cases "give_up em m q")
      (auto simp: handle_timeout_or_callerror_def Let_def is_boot_notification_message_def dest!: give_up_result split: if_splits)
  then show ?thesis
  proof cases
    case retry
    then show ?thesis using retry_inv[OF assms(1) m v(1,2), of e] a by fastforce
  next
    case boot
    have "\<not> is_tx m" using boot(1) by (simp add: is_transaction_message_def)
    then show ?thesis using retry_inv(2)[OF assms(1) m v(3)] boot by simp
  next
    case gone
    then show ?thesis using resolved_inv[OF assms(1) m] by simp
  qed
qed

lemma callerrors_inv: "mq_inv L q \<Longrightarrow> mq_inv L (q\<lparr>callerrors := ems\<rparr>)"
  by (erule mq_inv_quiet) (simp add: quiet_change_def)

lemma handle_callerror_inv:
  assumes "mq_inv L q" "handle_callerror e q = Inr q'"
  shows "mq_inv L q'"
  using assms handle_timeout_inv[OF callerrors_inv[OF assms(1)]] by (auto simp: handle_callerror_def split: list.splits)

lemma receive_inv:
  assumes "mq_inv L q" "receive_message r q = Inr q'"
  shows "mq_inv L q'"
proof -
  have n: "mq_inv L (q\<lparr>next_message_to_send := x\<rparr>)" for x using next_message_inv[OF assms(1)] .
  have ans: "mq_inv L q'" if "receive_answer em q = Inr q'" for em
    using that n[of None] callerrors_inv[OF n[of None]] handle_call_result_inv[OF n[of None]]
    by (auto simp: receive_answer_def Let_def split: option.splits if_splits)
  obtain js where js: "r = Rpc js" using assms(2) by (cases r) (auto simp: receive_message_def)
  obtain i where i: "getMessageId js = Inr i" using assms(2) js by (cases "getMessageId js") (auto simp: receive_message_def)
  show ?thesis
  proof (cases "getMessageTypeId js")
    case CALL
    then show ?thesis using assms(2) js i n by (cases "action_of js") (auto simp: receive_message_def)
  next
    case UNKNOWN
    then show ?thesis using assms js i by (auto simp: receive_message_def)
  next
    case CALLRESULT
    then show ?thesis using assms(2) js i ans by (auto simp: receive_message_def)
  next
    case CALLERROR
    then show ?thesis using assms(2) js i ans by (auto simp: receive_message_def)
  qed
qed

section \<open>All operations\<close>

lemma resume_now_quiet: "quiet_change q (resume_now n q)"
  by (simp add: resume_now_def quiet_change_def)

lemma resume_quiet: "quiet_change q (resume e d q)"
  using resume_now_quiet by (auto simp: resume_def resume_now_def quiet_change_def Let_def)

lemma timer_fires_quiet: "quiet_change q (timer_fires t q)"
  by (auto simp: timer_fires_def quiet_change_def Let_def split: queue_timer.split prod.split option.split)

lemma run_timer_task_inv:
  assumes "mq_inv L q" "run_timer_task e q = Inr q'"
  shows "mq_inv L q'"
proof (cases "timer_task q")
  case (Cons c cs)
  have t: "mq_inv L (q\<lparr>timer_task := cs\<rparr>)" using mq_inv_quiet[OF assms(1)] by (simp add: quiet_change_def)
  show ?thesis
    using assms(2) Cons handle_timeout_inv[OF t] mq_inv_quiet[OF t resume_now_quiet] mq_inv_quiet[OF t]
    by (cases c) (auto simp: run_timer_task_def quiet_change_def)
qed (use assms in \<open>simp add: run_timer_task_def\<close>)

lemma quiet_ops:
  "quiet_change q (reset_next_message_to_send q)" "quiet_change q (start_queue q)" "quiet_change q (stop_queue q)"
  "quiet_change q (pause q)" "quiet_change q (set_registration_status_accepted q)"
  "quiet_change q (update_transaction_message_retry_interval n q)" "quiet_change q (update_message_timeout n q)"
  by (simp_all add: quiet_change_def reset_next_message_to_send_def start_queue_def stop_queue_def pause_def
      set_registration_status_accepted_def update_transaction_message_retry_interval_def update_message_timeout_def)

lemma mq_step_inv:
  assumes "mq_inv L q" "op_within L op" "mq_step op q = Inr q'"
  shows "mq_inv L q'"
proof (cases op)
  case (Op_push_async e c)
  then show ?thesis using assms push_call_async_inv[OF assms(1)] by (cases "push_call_async e c q") auto
next
  case (Op_attempts n)
  then show ?thesis using assms by (auto simp: op_within_def update_transaction_message_attempts_def mq_inv_def flight_list_def)
next
  case (Op_push e c st)
  then show ?thesis using push_call_inv[OF assms(1)] assms(3) by auto
next
  case (Op_result i)
  then show ?thesis using push_call_result_inv[OF assms(1)] assms(3) by auto
next
  case (Op_error i)
  then show ?thesis using push_call_error_inv[OF assms(1)] assms(3) by auto
next
  case (Op_worker e)
  then show ?thesis using worker_inv[OF assms(1)] assms(3) by auto
next
  case (Op_receive r)
  then show ?thesis using receive_inv[OF assms(1)] assms(3) by auto
next
  case (Op_callerror e)
  then show ?thesis using handle_callerror_inv[OF assms(1)] assms(3) by auto
next
  case (Op_timer_task e)
  then show ?thesis using run_timer_task_inv[OF assms(1)] assms(3) by auto
next
  case (Op_resume e d)
  then show ?thesis using mq_inv_quiet[OF assms(1) resume_quiet] assms(3) by auto
next
  case (Op_timer t)
  then show ?thesis using mq_inv_quiet[OF assms(1) timer_fires_quiet] assms(3) by auto
next
  case Op_reset_next
  then show ?thesis using mq_inv_quiet[OF assms(1) quiet_ops(1)] assms(3) by auto
next
  case Op_start
  then show ?thesis using mq_inv_quiet[OF assms(1) quiet_ops(2)] assms(3) by auto
next
  case Op_stop
  then show ?thesis using mq_inv_quiet[OF assms(1) quiet_ops(3)] assms(3) by auto
next
  case Op_pause
  then show ?thesis using mq_inv_quiet[OF assms(1) quiet_ops(4)] assms(3) by auto
next
  case Op_accept
  then show ?thesis using mq_inv_quiet[OF assms(1) quiet_ops(5)] assms(3) by auto
next
  case (Op_interval n)
  then show ?thesis using mq_inv_quiet[OF assms(1) quiet_ops(6)] assms(3) by auto
next
  case (Op_message_timeout n)
  then show ?thesis using mq_inv_quiet[OF assms(1) quiet_ops(7)] assms(3) by auto
qed

lemma new_MessageQueue_inv: "transaction_message_attempts c \<le> L \<Longrightarrow> mq_inv L (new_MessageQueue c)"
  by (simp add: mq_inv_def new_MessageQueue_def flight_list_def core_inv_def places_ok_def order_ok_def counts_ok_def accounted_ok_def
      objects_ok_def)

lemma reachable_mq_inv: "mq_reachable L q \<Longrightarrow> mq_inv L q"
  by (induction rule: mq_reachable.induct) (auto intro: new_MessageQueue_inv mq_step_inv)

end
