(* ===== verification/Message_Queue_Props.thy ===== *)
theory Message_Queue_Props
  imports Message_Queue_Reach
begin

text \<open>
  What the message queue guarantees whatever is pushed, received, sent or not, in whatever order: the messages of
  transactions are sent in order, none is lost, and none is sent more often than configured.
\<close>

section \<open>The configuration of the firmware\<close>

definition firmware_mq_config :: "MessageType set \<Rightarrow> mq_config" where
  "firmware_mq_config message_types_discard =
     \<lparr>transaction_message_attempts = 3, transaction_message_retry_interval = 2, queues_total_size_threshold = 3,
      queue_all_messages = False, message_types_discard_for_queueing = message_types_discard, message_timeout_seconds = 3,
      boot_notification_retry_interval_seconds = 5\<rparr>"

definition websocket_connected_queue :: "mq_env \<Rightarrow> int \<Rightarrow> message_queue \<Rightarrow> message_queue" where
  "websocket_connected_queue e message_queue_resume_delay q = resume e message_queue_resume_delay q"

definition websocket_disconnected_queue :: "message_queue \<Rightarrow> message_queue" where
  "websocket_disconnected_queue q = pause q"

section \<open>Runs\<close>

definition sample_mq_env :: "bool \<Rightarrow> MessageId \<Rightarrow> mq_env" where
  "sample_mq_env sent i = \<lparr>env_now = 0, env_sent = sent, env_new_id = i, env_timer = \<lparr>timer_created = True, timer_started = True\<rparr>\<rparr>"

definition sample_call :: "MessageId \<Rightarrow> string \<Rightarrow> TransactionEventEnum \<Rightarrow> call_message" where
  "sample_call i a t = \<lparr>call_id = i, call_action = a, call_payload = \<lparr>p_eventType = t, p_transactionId = ''T'', p_offline = False, p_content = []\<rparr>\<rparr>"

definition queue_after :: "mq_op list \<Rightarrow> message_queue" where
  "queue_after ops = (case mq_run ops (new_MessageQueue (firmware_mq_config {})) of Inl _ \<Rightarrow> new_MessageQueue (firmware_mq_config {}) | Inr q \<Rightarrow> q)"

lemma queue_after_reachable: "list_all (op_within 3) ops \<Longrightarrow> mq_reachable 3 (queue_after ops)"
  using mq_reachable.boot[of "firmware_mq_config {}" 3] mq_run_reachable[of 3 "new_MessageQueue (firmware_mq_config {})" ops]
  by (auto simp: queue_after_def firmware_mq_config_def split: sum.split)

text \<open>A transaction starts while connected, its first message is not answered in time, and it ends.\<close>

definition transaction_run :: "mq_op list" where
  "transaction_run =
     [Op_start, Op_resume (sample_mq_env True []) 0,
      Op_push (sample_mq_env True []) (sample_call ''a'' ''TransactionEvent'' Event_Started) False,
      Op_worker (sample_mq_env True []),
      Op_push (sample_mq_env True []) (sample_call ''b'' ''TransactionEvent'' Event_Ended) False,
      Op_timer In_flight_timeout, Op_timer_task (sample_mq_env True ''c''), Op_worker (sample_mq_env True []),
      Op_receive (Rpc [JInt 3, JString ''c'', JOther]), Op_worker (sample_mq_env True [])]"

lemma transaction_run_within: "list_all (op_within 3) transaction_run"
  by (simp add: transaction_run_def op_within_def)

lemma message_types [simp]:
  "string_to_messagetype ''TransactionEvent'' = Some TransactionEvent"
  "string_to_messagetype ''TransactionEventResponse'' = Some (Other_message ''TransactionEventResponse'')"
  "string_to_messagetype ''StatusNotification'' = Some (Other_message ''StatusNotification'')"
  "string_to_messagetype ''Heartbeat'' = Some (Other_message ''Heartbeat'')"
  "string_to_messagetype ''HeartbeatResponse'' = Some (Other_message ''HeartbeatResponse'')"
  by (simp_all add: string_to_messagetype_def message_names_def Response_def)

lemma timepoint_greater_self [simp]: "timepoint_greater t t = False"
  by (simp add: timepoint_greater_def)

definition sample_cm :: "nat \<Rightarrow> call_message \<Rightarrow> MessageType \<Rightarrow> int \<Rightarrow> promise_value option \<Rightarrow> MessageId \<Rightarrow> bool \<Rightarrow> control_message" where
  "sample_cm k c t n v i stall =
     \<lparr>cm_object = k, cm_message = c, messageType = t, message_attempts = n, cm_promise = v, cm_timestamp = clock_DateTime 0,
      initial_unique_id = i, stall_until_accepted = stall\<rparr>"

definition sample_queue :: "control_message list \<Rightarrow> control_message list \<Rightarrow> control_message option \<Rightarrow> bool \<Rightarrow> bool \<Rightarrow>
    mq_callback steady_timer \<Rightarrow> mq_callback steady_timer \<Rightarrow> 64 word \<Rightarrow> mq_callback list \<Rightarrow> nat \<Rightarrow> mq_event list \<Rightarrow> message_queue" where
  "sample_queue T N F p new tm nt ctr task k es =
     \<lparr>config = firmware_mq_config {}, transaction_message_queue = T, normal_message_queue = N, in_flight = F, paused = p,
      resuming = False, running = True, new_message = new, is_registration_status_accepted = False,
      next_message_to_send = None, in_flight_timeout_timer = tm, notify_queue_timer = nt, resume_timer = new_steady_timer,
      pause_resume_ctr = ctr, worker_alive = True, timer_task = task, callerrors = [], created_objects = k, mq_log = es\<rparr>"

definition sample_timer :: "u32 \<Rightarrow> mq_callback \<Rightarrow> bool \<Rightarrow> mq_callback steady_timer" where
  "sample_timer ticks c active =
     \<lparr>timerHandle = True, timeoutTicks = ticks, tCallback = Some c, timer_active = (if active then Some (ticks, False) else None)\<rparr>"

lemma timestamp_of_zero [simp]: "timestamp_s (clock_DateTime 0) = 0"
  using clock_time[of 0] by (auto simp: clock_DateTime_def DateTime_now_def)

lemma connected_queue:
  "mq_run (Op_start # Op_resume (sample_mq_env b []) 0 # ops) (new_MessageQueue (firmware_mq_config {})) =
   mq_run ops (sample_queue [] [] None False False new_steady_timer new_steady_timer 1 [] 0 [])"
  by (simp add: sample_queue_def new_MessageQueue_def start_queue_def resume_def resume_now_def)

lemmas sample_defs = sample_queue_def sample_cm_def sample_call_def sample_mq_env_def sample_timer_def firmware_mq_config_def Let_def mq_do_def

lemma transaction_pushed:
  "length T < 3 \<Longrightarrow>
   mq_step (Op_push (sample_mq_env b j) (sample_call i ''TransactionEvent'' ev) False) (sample_queue T [] F False new tm nt ctr task k es) =
     Inr (sample_queue (T @ [sample_cm k (sample_call i ''TransactionEvent'' ev) TransactionEvent 0 None i False]) [] F False True
          tm nt ctr task (k + 1) (es @ [Queued k (sample_call i ''TransactionEvent'' ev)]))"
  by (simp add: sample_defs push_call_def new_ControlMessage_def is_transaction_message_def add_to_transaction_message_queue_def
      check_queue_sizes_def exceeds_threshold_def queues_total_size_def)

lemma sample_select:
  "select_message (clock_DateTime 0) (sample_queue (sample_cm k c TransactionEvent n v i False # T) [] F p new tm nt ctr task k' es) =
     Some (sample_cm k c TransactionEvent n v i False, Queue_Transaction)"
  by (simp add: select_message_def select_normal_message_def is_transaction_message_available_def allowed_to_send_message_def
      DateTime_greater_def sample_queue_def sample_cm_def)

lemma sample_timer_started:
  "of_int (d * 1000) \<noteq> (0 :: u32) \<Longrightarrow>
   timeout_duration \<lparr>timer_created = True, timer_started = True\<rparr> cb d tm = sample_timer (of_int (d * 1000)) cb True"
  by (simp add: timeout_duration_def start_new_timer_def sample_timer_def Let_def)

lemma sample_send:
  "n = 0 \<or> n = 1 \<Longrightarrow>
   send_selected (sample_mq_env True j) Queue_Transaction (sample_cm k c TransactionEvent n v i False)
     (sample_queue (sample_cm k c TransactionEvent n v i False # T) [] None False True tm nt ctr task k' es) =
   Inr (sample_queue T [] (Some (sample_cm k c TransactionEvent (n + 1) v i False)) False (T \<noteq> [])
          (sample_timer (if n = 0 then 5000 else 7000) Handle_timeout True) nt ctr task k' (es @ [Sent_call k c True]))"
proof -
  assume n: "n = 0 \<or> n = 1"
  have t: "timeout_duration \<lparr>timer_created = True, timer_started = True\<rparr> Handle_timeout 5 tm = sample_timer 5000 Handle_timeout True"
    "timeout_duration \<lparr>timer_created = True, timer_started = True\<rparr> Handle_timeout 7 tm = sample_timer 7000 Handle_timeout True"
    by (simp_all add: sample_timer_started)
  show ?thesis
    using n by (elim disjE)
      (simp_all add: send_selected_def send_succeeded_def Let_def update_object_def erase_selected_def current_message_timeout_def
        sample_queue_def sample_cm_def sample_mq_env_def mq_do_def firmware_mq_config_def t)
qed

lemma transaction_sent:
  assumes "n = 0 \<or> n = 1"
  shows "mq_step (Op_worker (sample_mq_env True j)) (sample_queue (sample_cm k c TransactionEvent n v i False # T) [] None False True tm nt ctr task k' es) =
     Inr (sample_queue T [] (Some (sample_cm k c TransactionEvent (n + 1) v i False)) False (T \<noteq> [])
          (sample_timer (if n = 0 then 5000 else 7000) Handle_timeout True) nt ctr task k' (es @ [Sent_call k c True]))"
proof -
  let ?q = "sample_queue (sample_cm k c TransactionEvent n v i False # T) [] None False True tm nt ctr task k' es"
  have "worker_iteration (sample_mq_env True j) ?q = send_selected (sample_mq_env True j) Queue_Transaction (sample_cm k c TransactionEvent n v i False) ?q"
    using sample_select[of k c n v i T None False True tm nt ctr task k' es]
    by (simp add: worker_iteration_def sample_mq_env_def held_back_def) (simp add: sample_queue_def)
  then show ?thesis
    unfolding mq_step.simps worker_pass_def sample_send[OF assms, of j k c v i T tm nt ctr task k' es]
    by (simp add: wait_condition_def sample_queue_def)
qed

lemma transaction_timed_out:
  "mq_step (Op_timer In_flight_timeout) (sample_queue T [] F False new (sample_timer t Handle_timeout True) nt ctr [] k es) =
     Inr (sample_queue T [] F False new (sample_timer t Handle_timeout False) nt ctr [Handle_timeout] k es)"
  by (simp add: sample_defs timer_fires_def timer_expires_def)

lemma transaction_retried:
  "mq_step (Op_timer_task (sample_mq_env b j))
     (sample_queue T [] (Some (sample_cm k (sample_call i ''TransactionEvent'' ev) TransactionEvent 1 v i False)) False new
       (sample_timer t Handle_timeout False) new_steady_timer ctr [Handle_timeout] k' es) =
     Inr (sample_queue (sample_cm k (sample_call j ''TransactionEvent'' ev) TransactionEvent 1 v i False # T) [] None False new
       (sample_timer t Handle_timeout False) (sample_timer 1000 Notify_queue True) ctr [] k' es)"
  by (simp add: sample_defs run_timer_task_def handle_timeout_or_callerror_def is_transaction_message_def retry_message_def
      notify_queue_at_def timeout_at_def timeout_callback_def start_new_timer_def reset_in_flight_def stop_timer_def
      DateTime_of_timepoint_def clock_DateTime_def[symmetric] to_time_point_s_def to_time_point_def new_steady_timer_def)

lemma transaction_answered:
  "length j < 36 \<Longrightarrow>
   mq_step (Op_receive (Rpc [JInt 3, JString j, JOther]))
     (sample_queue T [] (Some (sample_cm k (sample_call j ''TransactionEvent'' ev) TransactionEvent n None i False)) False new
       (sample_timer t Handle_timeout True) nt ctr [] k' es) =
     Inr (sample_queue T [] None False new (sample_timer t Handle_timeout False) nt ctr [] k'
       (es @ [Resolved k (Message_value \<lparr>em_uniqueId = j, em_messageType = Other_message ''TransactionEventResponse'',
          em_messageTypeId = CALLRESULT, em_call_message = Some (sample_call j ''TransactionEvent'' ev)\<rparr>)]))"
  by (simp add: sample_defs receive_message_def getMessageId_def getMessageTypeId_def receive_answer_def handle_call_result_def uniqueId_def
      Response_def set_value_def reset_in_flight_def stop_timer_def)

lemma transaction_run_result:
  "tx_sent (mq_log (queue_after transaction_run)) = [0, 0, 1] \<and> times_sent 0 (mq_log (queue_after transaction_run)) = 2 \<and>
   Queued 0 (sample_call ''a'' ''TransactionEvent'' Event_Started) \<in> set (mq_log (queue_after transaction_run)) \<and>
   Sent_call 0 (sample_call ''a'' ''TransactionEvent'' Event_Started) True \<in> set (mq_log (queue_after transaction_run))"
proof -
  have c: "is_tx_call (sample_call i ''TransactionEvent'' ev)" for i ev
    by (simp add: is_tx_call_def sample_call_def is_transaction_message_def)
  have l: "mq_log (sample_queue T N F p new tm nt ctr task k es) = es" for T N F p new tm nt ctr task k es
    by (simp add: sample_queue_def)
  show ?thesis
    unfolding queue_after_def transaction_run_def connected_queue
    by (simp add: transaction_pushed transaction_sent transaction_timed_out transaction_retried transaction_answered l c
        del: mq_step.simps)
qed

section \<open>Guarantees\<close>

text \<open>
  (C9) The messages of transactions are handed to the connection in the order they were queued in, in every reachable
  state: one may be repeated, but never after a later one.
\<close>

theorem transactions_are_sent_in_order:
  assumes "mq_reachable L q"
  shows "sorted (tx_sent (mq_log q))"
  using reachable_mq_inv[OF assms] by (simp add: mq_inv_def core_inv_def order_ok_def)

theorem transactions_are_sent_in_order_witness:
  "sorted (tx_sent (mq_log (queue_after transaction_run))) \<and> tx_sent (mq_log (queue_after transaction_run)) = [0, 0, 1]"
  using transactions_are_sent_in_order[OF queue_after_reachable[OF transaction_run_within]] transaction_run_result by simp

text \<open>
  (C10) No message of a transaction is lost, whatever happens to the connection: one that was queued and is not an update is in
  the queue or in flight until its promise has a value, an answer or that it could not be delivered.
\<close>

theorem no_transaction_message_is_lost:
  assumes "mq_reachable L q" "Queued k c \<in> set (mq_log q)" "is_tx_call c" "\<not> is_update_call c"
  shows "(\<exists>m\<in>set (flight_list q) \<union> set (transaction_message_queue q). cm_object m = k) \<or> (\<exists>v. Resolved k v \<in> set (mq_log q))"
proof -
  have "accounted (txs (flight_list q) (transaction_message_queue q)) (mq_log q) k c"
    using reachable_mq_inv[OF assms(1)] assms(2,3) by (simp add: mq_inv_def core_inv_def accounted_ok_def)
  then show ?thesis using assms(4) by (auto simp: accounted_def)
qed

theorem no_transaction_message_is_lost_witness:
  "(\<exists>m\<in>set (flight_list (queue_after transaction_run)) \<union> set (transaction_message_queue (queue_after transaction_run)). cm_object m = 0) \<or>
   (\<exists>v. Resolved 0 v \<in> set (mq_log (queue_after transaction_run)))"
proof -
  have "is_tx_call (sample_call ''a'' ''TransactionEvent'' Event_Started)" "\<not> is_update_call (sample_call ''a'' ''TransactionEvent'' Event_Started)"
    by (simp_all add: is_tx_call_def is_update_call_def sample_call_def is_transaction_message_def)
  then show ?thesis
    using no_transaction_message_is_lost[OF queue_after_reachable[OF transaction_run_within]] transaction_run_result by blast
qed

text \<open>
  (C11) A message other than the notification of the boot is sent at most as often as attempts are configured (once, if
  that is none), counting the times the connection took it.
\<close>

theorem sends_are_bounded:
  assumes "mq_reachable L q" "Sent_call k c ok \<in> set (mq_log q)" "\<not> is_boot_call c"
  shows "int (times_sent k (mq_log q)) \<le> max 1 L"
  using reachable_mq_inv[OF assms(1)] assms(2,3) unfolding mq_inv_def core_inv_def counts_ok_def by blast

theorem sends_are_bounded_witness:
  "int (times_sent 0 (mq_log (queue_after transaction_run))) \<le> 3 \<and> times_sent 0 (mq_log (queue_after transaction_run)) = 2"
proof -
  have "\<not> is_boot_call (sample_call ''a'' ''TransactionEvent'' Event_Started)" by (simp add: is_boot_call_def sample_call_def)
  then show ?thesis
    using sends_are_bounded[OF queue_after_reachable[OF transaction_run_within]] transaction_run_result by fastforce
qed

end
