(* ===== verification/Message_Queue_Limits.thy ===== *)
theory Message_Queue_Limits
  imports Message_Queue_Props
begin

text \<open>
  Where the message queue does not keep its promises: a full queue, a failed send, a late acceptance, the delay of a
  retry, and a timeout at the time of the answer.
\<close>

section \<open>A full queue\<close>

lemma sdiv_small: "0 \<le> n \<Longrightarrow> n < 20 \<Longrightarrow> max ((n :: int) sdiv 10) 1 = 1"
proof -
  assume n: "0 \<le> n" "n < 20"
  then have "n div 10 \<le> 1" by linarith
  then show ?thesis using n by (auto simp: signed_divide_int_def sgn_if)
qed

lemma drops_the_first:
  assumes "normal_message_queue q = m # ms" "0 \<le> queues_total_size_threshold (config q)" "queues_total_size_threshold (config q) < 20"
  shows "drop_messages_from_normal_message_queue q =
    q\<lparr>normal_message_queue := ms, mq_log := mq_log q @ [Dropped (cm_object m)]\<rparr>"
  using assms by (simp add: drop_messages_from_normal_message_queue_def sdiv_small Let_def)

lemma first_dropped_when_full:
  assumes "normal_message_queue q = m # ms" "0 \<le> queues_total_size_threshold (config q)" "queues_total_size_threshold (config q) < 20"
    and "int (queues_total_size q) = queues_total_size_threshold (config q) + 1"
  shows "check_queue_sizes q = q\<lparr>normal_message_queue := ms, mq_log := mq_log q @ [Dropped (cm_object m)]\<rparr>"
proof -
  let ?q = "q\<lparr>normal_message_queue := ms, mq_log := mq_log q @ [Dropped (cm_object m)]\<rparr>"
  have "exceeds_threshold q" using assms(2-4) by (simp add: exceeds_threshold_def)
  moreover have "\<not> exceeds_threshold ?q" using assms by (simp add: exceeds_threshold_def queues_total_size_def)
  moreover have "normal_queue_loop ?q = ?q" "update_message_loop ?q = ?q"
    using calculation(2) by (simp_all add: normal_queue_loop.simps update_message_loop.simps)
  ultimately show ?thesis
    using assms(1) drops_the_first[OF assms(1-3)] by (simp add: check_queue_sizes_def normal_queue_loop.simps[of q])
qed

text \<open>
  A notification of the boot that is pushed when the queue is full is what is dropped to make room, as it is put
  to the front: it is never sent, its promise gets no value, and the other messages stay.
\<close>

theorem full_queue_drops_the_boot_notification:
  assumes "running q" "string_to_messagetype (call_action c) = Some BootNotification"
    and "0 \<le> queues_total_size_threshold (config q)" "queues_total_size_threshold (config q) < 20"
    and "int (queues_total_size q) = queues_total_size_threshold (config q)"
  shows "\<exists>q'. push_call e c stall q = Inr q' \<and> normal_message_queue q' = normal_message_queue q \<and>
    transaction_message_queue q' = transaction_message_queue q \<and>
    mq_log q' = mq_log q @ [Queued (created_objects q) c, Dropped (created_objects q)]"
proof -
  obtain m where m: "new_ControlMessage (env_now e) (created_objects q) c stall = Inr m" "messageType m = BootNotification"
    "cm_object m = created_objects q" "cm_message m = c"
    using assms(2) by (simp add: new_ControlMessage_def)
  let ?q = "q\<lparr>created_objects := created_objects q + 1, mq_log := mq_log q @ [Queued (created_objects q) c],
    normal_message_queue := m # normal_message_queue q, new_message := True\<rparr>"
  have "push_call e c stall q = Inr (check_queue_sizes ?q)"
    using assms(1) m by (simp add: push_call_def add_to_normal_message_queue_def is_transaction_message_def mq_do_def Let_def)
  moreover have "check_queue_sizes ?q = ?q\<lparr>normal_message_queue := normal_message_queue q, mq_log := mq_log ?q @ [Dropped (cm_object m)]\<rparr>"
    using assms(3-5) by (intro first_dropped_when_full) (simp_all add: queues_total_size_def)
  ultimately show ?thesis using m(3) by simp
qed

text \<open>What the size check reaches.\<close>

lemma nothing_dropped: "drop_updates True ms = ([], kept) \<Longrightarrow> kept = ms \<and> (\<forall>i. i + 2 < length ms \<longrightarrow> \<not> is_transaction_update_message (ms ! i))"
proof (induction ms arbitrary: kept)
  case (Cons m ms)
  then have u: "\<not> (is_transaction_update_message m \<and> 1 < length ms)"
    by (auto simp: Let_def split: prod.splits)
  then obtain k where "drop_updates True ms = ([], k)" "kept = m # k"
    using Cons.prems by (cases "drop_updates True ms") auto
  then have k: "kept = m # ms" "\<forall>i. i + 2 < length ms \<longrightarrow> \<not> is_transaction_update_message (ms ! i)"
    using Cons.IH by auto
  have "\<not> is_transaction_update_message ((m # ms) ! i)" if "i + 2 < length (m # ms)" for i
    using that u k(2) by (cases i) auto
  then show ?case using k(1) by blast
qed simp

lemma normal_queue_loop_ends: "exceeds_threshold (normal_queue_loop q) \<Longrightarrow> normal_message_queue (normal_queue_loop q) = []"
proof (induction q rule: normal_queue_loop.induct)
  case (1 q)
  then show ?case by (metis normal_queue_loop.simps)
qed

lemma update_message_loop_ends:
  "normal_message_queue (update_message_loop q) = normal_message_queue q \<and>
   (exceeds_threshold (update_message_loop q) \<longrightarrow>
      (\<forall>i. i + 2 < length (transaction_message_queue (update_message_loop q)) \<longrightarrow>
         \<not> is_transaction_update_message (transaction_message_queue (update_message_loop q) ! i)))"
proof (induction q rule: update_message_loop.induct)
  case (1 q)
  obtain d k where dk: "drop_updates True (transaction_message_queue q) = (d, k)" by (cases "drop_updates True (transaction_message_queue q)")
  let ?q = "q\<lparr>transaction_message_queue := k, mq_log := mq_log q @ map (Dropped \<circ> cm_object) d\<rparr>"
  have r: "drop_update_messages_from_transactional_message_queue q = (0 < length d, ?q)"
    by (simp add: drop_update_messages_from_transactional_message_queue_def dk)
  consider (fits) "\<not> exceeds_threshold q" | (dropped) "exceeds_threshold q" "d \<noteq> []" | (stuck) "exceeds_threshold q" "d = []" by blast
  then show ?case
  proof cases
    case fits
    then show ?thesis by (simp add: update_message_loop.simps)
  next
    case dropped
    then have "update_message_loop q = update_message_loop ?q" by (subst update_message_loop.simps) (simp add: r)
    then show ?thesis using "1.IH"[OF dropped(1) r[symmetric]] dropped(2) by simp
  next
    case stuck
    then have "update_message_loop q = ?q" by (subst update_message_loop.simps) (simp add: r)
    then show ?thesis using nothing_dropped[of "transaction_message_queue q" k] dk stuck(2) by simp
  qed
qed

text \<open>
  A queue that is still too long after the size check has no other messages left than those of transactions, and among
  these no update but the last two: nothing more could be dropped.
\<close>

theorem only_transactions_exceed_the_threshold:
  assumes "exceeds_threshold (check_queue_sizes q)"
  shows "normal_message_queue (check_queue_sizes q) = [] \<and>
    (\<forall>i. i + 2 < length (transaction_message_queue (check_queue_sizes q)) \<longrightarrow>
       \<not> is_transaction_update_message (transaction_message_queue (check_queue_sizes q) ! i))"
proof -
  let ?q = "normal_queue_loop q"
  have e: "exceeds_threshold q" "check_queue_sizes q = update_message_loop ?q"
    using assms by (auto simp: check_queue_sizes_def split: if_splits)
  have "exceeds_threshold ?q"
    using assms e(2) by (metis update_message_loop.simps)
  then show ?thesis
    using e(2) assms normal_queue_loop_ends[of q] update_message_loop_ends[of ?q] by simp
qed

definition started_message :: "nat \<Rightarrow> control_message" where
  "started_message k = sample_cm k (sample_call ''t'' ''TransactionEvent'' Event_Started) TransactionEvent 0 None ''t'' False"

theorem only_transactions_exceed_the_threshold_witness:
  "exceeds_threshold (check_queue_sizes (sample_queue (map started_message [0, 1, 2, 3]) [] None True True new_steady_timer new_steady_timer 2 [] 4 [])) \<and>
   normal_message_queue (check_queue_sizes (sample_queue (map started_message [0, 1, 2, 3]) [] None True True new_steady_timer new_steady_timer 2 [] 4 [])) = []"
proof -
  let ?q = "sample_queue (map started_message [0, 1, 2, 3]) [] None True True new_steady_timer new_steady_timer 2 [] 4 []"
  have u: "\<not> is_transaction_update_message (started_message k)" for k
    by (simp add: is_transaction_update_message_def started_message_def sample_cm_def sample_call_def)
  have e: "exceeds_threshold ?q"
    by (simp add: exceeds_threshold_def queues_total_size_def sample_queue_def firmware_mq_config_def)
  have "normal_queue_loop ?q = ?q" by (subst normal_queue_loop.simps) (simp add: sample_queue_def)
  moreover have "update_message_loop ?q = ?q"
    by (subst update_message_loop.simps)
      (simp add: e drop_update_messages_from_transactional_message_queue_def u sample_queue_def)
  ultimately have "exceeds_threshold (check_queue_sizes ?q)" using e by (simp add: check_queue_sizes_def)
  then show ?thesis using only_transactions_exceed_the_threshold by blast
qed

definition full_queue :: message_queue where
  "full_queue = sample_queue (map started_message [0, 1, 2])
     [] None True True new_steady_timer new_steady_timer 2 [] 3 []"

lemma boot_message_type [simp]: "string_to_messagetype ''BootNotification'' = Some BootNotification"
  by (simp add: string_to_messagetype_def)

theorem full_queue_drops_the_boot_notification_witness:
  "\<exists>q'. push_call (sample_mq_env True []) (sample_call ''b'' ''BootNotification'' Event_Started) False full_queue = Inr q' \<and>
     mq_log q' = [Queued 3 (sample_call ''b'' ''BootNotification'' Event_Started), Dropped 3]"
proof -
  have "running full_queue" "queues_total_size_threshold (config full_queue) = 3" "queues_total_size full_queue = 3"
    "mq_log full_queue = []" "created_objects full_queue = 3"
    by (simp_all add: full_queue_def sample_queue_def firmware_mq_config_def queues_total_size_def)
  moreover have "string_to_messagetype (call_action (sample_call ''b'' ''BootNotification'' Event_Started)) = Some BootNotification"
    by (simp add: sample_call_def)
  ultimately show ?thesis
    using full_queue_drops_the_boot_notification[of full_queue "sample_call ''b'' ''BootNotification'' Event_Started" "sample_mq_env True []" False]
    by fastforce
qed

section \<open>A failed send\<close>

lemma select_later_message:
  assumes "transaction_message_queue q = []" "normal_message_queue q = m # ms" "stall_until_accepted m"
    "\<not> is_registration_status_accepted q"
    "find_index (\<lambda>m. allowed_to_send_message m now False) ms = Some i" "ms ! i = m'"
  shows "select_message now q = Some (m', Queue_Normal (Suc i))"
  using assms by (simp add: select_message_def select_normal_message_def allowed_to_send_message_def Let_def)

text \<open>
  (C38) When the first message of the queue has to wait for the registration and a later one cannot be sent, it is the first
  that is dropped, and its promise gets no value. The later one stays in the queue to be sent again, although its promise has
  one.
\<close>

theorem failed_send_drops_another_message:
  assumes "worker_alive q" "running q" "\<not> paused q" "new_message q" "in_flight q = None" "next_message_to_send q = None"
    and "\<not> is_registration_status_accepted q" "\<not> queue_all_messages (config q)" "env_sent e = False"
    and "transaction_message_queue q = []" "normal_message_queue q = waiting # ms" "stall_until_accepted waiting"
    and "find_index (\<lambda>m. allowed_to_send_message m (clock_DateTime (env_now e)) False) ms = Some i" "ms ! i = m"
    and "messageType m = Other_message name" "cm_promise m = None"
  shows "\<exists>q'. worker_pass e q = Inr q' \<and>
    normal_message_queue q' = ms[i := m\<lparr>message_attempts := message_attempts m + 1, cm_promise := Some Offline_value\<rparr>] \<and>
    mq_log q' = mq_log q @ [Sent_call (cm_object m) (cm_message m) False, Resolved (cm_object m) Offline_value, Dropped (cm_object waiting)]"
proof -
  have "select_message (clock_DateTime (env_now e)) q = Some (m, Queue_Normal (Suc i))"
    using select_later_message[OF assms(10,11,12,7,13,14)] .
  then have "worker_iteration e q = send_selected e (Queue_Normal (Suc i)) m q"
    using assms(3,5,6,10,11) by (simp add: worker_iteration_def held_back_def)
  moreover have "\<exists>q'. send_selected e (Queue_Normal (Suc i)) m q = Inr q' \<and>
    normal_message_queue q' = ms[i := m\<lparr>message_attempts := message_attempts m + 1, cm_promise := Some Offline_value\<rparr>] \<and>
    mq_log q' = mq_log q @ [Sent_call (cm_object m) (cm_message m) False, Resolved (cm_object m) Offline_value, Dropped (cm_object waiting)]"
    using assms(8,9,10,11,15,16)
    by (simp add: send_selected_def send_failed_def update_object_def mq_do_def set_value_def reset_in_flight_def Let_def
        is_transaction_message_def check_queue_def)
  ultimately show ?thesis
    using assms(1-5) by (auto simp: worker_pass_def wait_condition_def)
qed

definition waiting_status :: control_message where
  "waiting_status = sample_cm 0 (sample_call ''s'' ''StatusNotification'' Event_Started) (Other_message ''StatusNotification'') 0 None ''s'' True"

definition heartbeat :: "int \<Rightarrow> promise_value option \<Rightarrow> control_message" where
  "heartbeat n v = sample_cm 1 (sample_call ''h'' ''Heartbeat'' Event_Started) (Other_message ''Heartbeat'') n v ''h'' False"

lemma sample_message_fields [simp]:
  "cm_object (sample_cm k c t n v i st) = k" "cm_message (sample_cm k c t n v i st) = c" "messageType (sample_cm k c t n v i st) = t"
  "message_attempts (sample_cm k c t n v i st) = n" "cm_promise (sample_cm k c t n v i st) = v"
  "stall_until_accepted (sample_cm k c t n v i st) = st" "cm_timestamp (sample_cm k c t n v i st) = clock_DateTime 0"
  "(sample_cm k c t n v i st)\<lparr>message_attempts := n', cm_promise := v'\<rparr> = sample_cm k c t n' v' i st"
  by (simp_all add: sample_cm_def)

lemma sample_queue_fields [simp]:
  "worker_alive (sample_queue T N F p new tm nt ctr task k es)" "running (sample_queue T N F p new tm nt ctr task k es)"
  "paused (sample_queue T N F p new tm nt ctr task k es) = p" "new_message (sample_queue T N F p new tm nt ctr task k es) = new"
  "in_flight (sample_queue T N F p new tm nt ctr task k es) = F"
  "next_message_to_send (sample_queue T N F p new tm nt ctr task k es) = None"
  "\<not> is_registration_status_accepted (sample_queue T N F p new tm nt ctr task k es)"
  "config (sample_queue T N F p new tm nt ctr task k es) = firmware_mq_config {}"
  "transaction_message_queue (sample_queue T N F p new tm nt ctr task k es) = T"
  "normal_message_queue (sample_queue T N F p new tm nt ctr task k es) = N"
  "created_objects (sample_queue T N F p new tm nt ctr task k es) = k"
  "timer_task (sample_queue T N F p new tm nt ctr task k es) = task"
  "mq_log (sample_queue T N F p new tm nt ctr task k es) = es"
  by (simp_all add: sample_queue_def)

lemma sample_env_fields [simp]:
  "env_now (sample_mq_env b i) = 0" "env_sent (sample_mq_env b i) = b"
  "env_timer (sample_mq_env b i) = \<lparr>timer_created = True, timer_started = True\<rparr>"
  by (simp_all add: sample_mq_env_def)

theorem failed_send_drops_another_message_witness:
  "\<exists>q'. worker_pass (sample_mq_env False [])
      (sample_queue [] [waiting_status, heartbeat 0 None] None False True new_steady_timer new_steady_timer 1 [] 2 []) = Inr q' \<and>
     normal_message_queue q' = [heartbeat 1 (Some Offline_value)] \<and>
     mq_log q' = [Sent_call 1 (cm_message (heartbeat 0 None)) False, Resolved 1 Offline_value, Dropped 0]"
proof -
  have "find_index (\<lambda>m. allowed_to_send_message m (clock_DateTime 0) False) [heartbeat 0 None] = Some 0"
    by (simp add: heartbeat_def allowed_to_send_message_def DateTime_greater_def)
  then show ?thesis
    using failed_send_drops_another_message[of "sample_queue [] [waiting_status, heartbeat 0 None] None False True new_steady_timer new_steady_timer 1 [] 2 []"
        "sample_mq_env False []" waiting_status "[heartbeat 0 None]" 0 "heartbeat 0 None" "''Heartbeat''"]
    by (simp add: firmware_mq_config_def waiting_status_def heartbeat_def)
qed

text \<open>When such a message is sent again and answered, \<open>set_value\<close> throws.\<close>

lemma answered_twice:
  assumes "in_flight q = Some m" "cm_promise m \<noteq> None" "uniqueId m = i" "length i \<le> 36"
    and "string_to_messagetype (call_action (cm_message m) @ Response) \<noteq> None"
  shows "receive_message (Rpc [JInt 3, JString i, r]) q = Inl Promise_already_satisfied"
  using assms by (auto simp: receive_message_def getMessageId_def getMessageTypeId_def receive_answer_def handle_call_result_def set_value_def Let_def uniqueId_def)

section \<open>A late acceptance\<close>

text \<open>
  An acceptance of the registration after the worker has found that every message has to wait for it wakes the
  worker without effect, and the message goes on waiting; the same acceptance before that turn of the worker lets it be sent.
\<close>

theorem acceptance_wakes_nobody:
  assumes "worker_alive q" "running q" "\<not> paused q" "new_message q" "in_flight q = None" "next_message_to_send q = None"
    and "\<not> is_registration_status_accepted q" "transaction_message_queue q = m # ms" "normal_message_queue q = []" "stall_until_accepted m"
    and "\<not> DateTime_greater (cm_timestamp m) (clock_DateTime (env_now e))" "env_sent e"
  shows "(\<exists>q'. worker_pass e q = Inr q' \<and> transaction_message_queue q' = m # ms \<and>
            worker_pass e (set_registration_status_accepted q') = Inr (set_registration_status_accepted q')) \<and>
    (\<exists>q'. worker_pass e (set_registration_status_accepted q) = Inr q' \<and> transaction_message_queue q' = ms \<and>
            mq_log q' = mq_log q @ [Sent_call (cm_object m) (cm_message m) True])"
proof
  have "worker_pass e q = Inr (q\<lparr>new_message := False, worker_alive := True\<rparr>)"
    using assms by (simp add: worker_pass_def wait_condition_def worker_iteration_def select_message_def select_normal_message_def
        is_transaction_message_available_def allowed_to_send_message_def Let_def)
  then show "\<exists>q'. worker_pass e q = Inr q' \<and> transaction_message_queue q' = m # ms \<and>
      worker_pass e (set_registration_status_accepted q') = Inr (set_registration_status_accepted q')"
    using assms(2,8) by (auto simp: worker_pass_def wait_condition_def set_registration_status_accepted_def)
  let ?q = "set_registration_status_accepted q"
  have "select_message (clock_DateTime (env_now e)) ?q = Some (m, Queue_Transaction)"
    using assms(8,9,11) by (simp add: select_message_def select_normal_message_def is_transaction_message_available_def
        allowed_to_send_message_def set_registration_status_accepted_def Let_def)
  then have "worker_iteration e ?q = send_selected e Queue_Transaction m ?q"
    using assms(3,5,6,8) by (simp add: worker_iteration_def held_back_def set_registration_status_accepted_def)
  moreover have "\<exists>q'. send_selected e Queue_Transaction m ?q = Inr q' \<and> transaction_message_queue q' = ms \<and>
      mq_log q' = mq_log q @ [Sent_call (cm_object m) (cm_message m) True]"
    using assms(8,12) by (simp add: send_selected_def send_succeeded_def update_object_def erase_selected_def mq_do_def Let_def
        set_registration_status_accepted_def)
  ultimately show "\<exists>q'. worker_pass e ?q = Inr q' \<and> transaction_message_queue q' = ms \<and>
      mq_log q' = mq_log q @ [Sent_call (cm_object m) (cm_message m) True]"
    using assms(1-5) by (auto simp: worker_pass_def wait_condition_def set_registration_status_accepted_def)
qed

definition stalled_message :: control_message where
  "stalled_message = sample_cm 0 (sample_call ''t'' ''TransactionEvent'' Event_Started) TransactionEvent 0 None ''t'' True"

theorem acceptance_wakes_nobody_witness:
  "\<exists>q'. worker_pass (sample_mq_env True []) (sample_queue [stalled_message] [] None False True new_steady_timer new_steady_timer 1 [] 1 []) = Inr q' \<and>
     transaction_message_queue q' = [stalled_message] \<and>
     worker_pass (sample_mq_env True []) (set_registration_status_accepted q') = Inr (set_registration_status_accepted q')"
  using acceptance_wakes_nobody[of "sample_queue [stalled_message] [] None False True new_steady_timer new_steady_timer 1 [] 1 []"
      stalled_message "[]" "sample_mq_env True []"]
  by (simp add: stalled_message_def DateTime_greater_def)

section \<open>The delay of a retry\<close>

lemma clock_DateTime_s [simp]: "timestamp_s (clock_DateTime now) = now"
  using clock_time[of now] by (auto simp: clock_DateTime_def DateTime_now_def)

text \<open>
  A message of a transaction that was not answered, or was refused, is put back to the front with a new identifier, and
  the queue is notified a second later, whatever retry interval is configured and however often it was tried.
\<close>

theorem retries_come_after_a_second:
  assumes "in_flight q = Some m" "is_transaction_message (messageType m)" "message_attempts m < transaction_message_attempts (config q)"
    and "timer_created (env_timer e)" "timer_started (env_timer e)" "unat (env_now e) < 2 ^ 31"
  shows "\<exists>q'. handle_timeout_or_callerror e em q = Inr q' \<and> in_flight q' = None \<and>
    transaction_message_queue q' =
      m\<lparr>cm_message := (cm_message m)\<lparr>call_id := env_new_id e\<rparr>, cm_timestamp := clock_DateTime (env_now e)\<rparr> # transaction_message_queue q \<and>
    timer_active (notify_queue_timer q') = Some (1000, False)"
proof -
  have "timer_active (timeout_at (env_timer e) (env_now e) Notify_queue (clock_DateTime (env_now e)) t) = Some (1000, False)" for t
    using timeout_at_time[OF assms(4,5,6), of "clock_DateTime (env_now e)" Notify_queue t] assms(6) by simp
  then show ?thesis
    using assms(1-3)
    by (simp add: handle_timeout_or_callerror_def retry_message_def notify_queue_at_def reset_in_flight_def to_time_point_def
        DateTime_of_timepoint_def clock_DateTime_def[symmetric] Let_def)
qed

definition flying_message :: control_message where
  "flying_message = sample_cm 0 (sample_call ''t'' ''TransactionEvent'' Event_Started) TransactionEvent 2 None ''t'' False"

definition queue_in_flight :: message_queue where
  "queue_in_flight = sample_queue [] [] (Some flying_message) False False (sample_timer 7000 Handle_timeout True) new_steady_timer 1 [] 1 []"

theorem retries_come_after_a_second_witness:
  "\<exists>q'. handle_timeout_or_callerror (sample_mq_env True ''u'') None queue_in_flight = Inr q' \<and>
     map cm_object (transaction_message_queue q') = [0] \<and> timer_active (notify_queue_timer q') = Some (1000, False)"
  using retries_come_after_a_second[of queue_in_flight flying_message "sample_mq_env True ''u''" None]
  by (auto simp: queue_in_flight_def flying_message_def is_transaction_message_def firmware_mq_config_def)

section \<open>A timeout at the time of the answer\<close>

text \<open>
  (C37) When the timer of the message in flight expires while its answer is being handled, the callback, which waited for the
  lock, uses the null pointer that the answer left.
\<close>

theorem timeout_during_the_answer_is_fatal:
  assumes "in_flight q = Some m" "cm_promise m = None" "uniqueId m = i" "length i \<le> 36"
    and "string_to_messagetype (call_action (cm_message m) @ Response) = Some t"
    and "timer_active (in_flight_timeout_timer q) = Some (ticks, False)" "tCallback (in_flight_timeout_timer q) = Some Handle_timeout"
    and "timer_task q = []"
  shows "mq_run [Op_timer In_flight_timeout, Op_receive (Rpc [JInt 3, JString i, r]), Op_timer_task e'] q = Inl Null_in_flight"
  using assms by (simp add: timer_fires_def timer_expires_def receive_message_def getMessageId_def getMessageTypeId_def receive_answer_def
      handle_call_result_def set_value_def mq_do_def reset_in_flight_def run_timer_task_def handle_timeout_or_callerror_def uniqueId_def Let_def)

theorem timeout_during_the_answer_is_fatal_witness:
  "mq_run [Op_timer In_flight_timeout, Op_receive (Rpc [JInt 3, JString ''t'', JOther]), Op_timer_task (sample_mq_env True [])]
     queue_in_flight = Inl Null_in_flight"
  by (rule timeout_during_the_answer_is_fatal[where m = flying_message])
    (simp_all add: queue_in_flight_def flying_message_def sample_queue_def sample_cm_def sample_call_def sample_timer_def uniqueId_def Response_def)

end
