(* ===== verification/Message_Queue_Timers.thy ===== *)
theory Message_Queue_Timers
  imports Message_Queue_Limits
begin

text \<open>
  The null pointer of \<open>timeout_during_the_answer_is_fatal\<close> needs that interleaving: when the callback of a timer runs
  as the timer expires, and not while \<open>receive\<close> has given up the lock before it handles a refusal, the message in flight
  is there whenever it is used. One thread calls \<open>receive\<close>. In that moment the other threads may do anything else:
  \<open>timeout_during_the_refusal_is_fatal\<close> shows that the timer of the message in flight is the exception.
\<close>

inductive mq_calm :: "message_queue \<Rightarrow> bool" where
  boot: "mq_calm (new_MessageQueue c)"
| step: "mq_calm q \<Longrightarrow> \<forall>t. op \<noteq> Op_timer t \<Longrightarrow> \<forall>r. op \<noteq> Op_receive r \<Longrightarrow> mq_step op q = Inr q' \<Longrightarrow> mq_calm q'"
| receive: "mq_calm q \<Longrightarrow> callerrors q = [] \<Longrightarrow> mq_step (Op_receive r) q = Inr q' \<Longrightarrow> mq_calm q'"
| timer: "mq_calm q \<Longrightarrow> callerrors q = [] \<or> t \<noteq> In_flight_timeout \<Longrightarrow> mq_run [Op_timer t, Op_timer_task e] q = Inr q' \<Longrightarrow>
    mq_calm q'"

text \<open>The timers hold their own callbacks, and the one of the message in flight is active only while there is one.\<close>

definition timer_wf :: "mq_callback steady_timer \<Rightarrow> bool" where
  "timer_wf t \<longleftrightarrow> timer_active t = None \<or> timerHandle t"

definition callbacks_ok :: "message_queue \<Rightarrow> bool" where
  "callbacks_ok q \<longleftrightarrow> timer_task q = [] \<and> timer_wf (in_flight_timeout_timer q) \<and>
     tCallback (in_flight_timeout_timer q) \<in> {None, Some Handle_timeout} \<and>
     tCallback (notify_queue_timer q) \<noteq> Some Handle_timeout \<and> tCallback (resume_timer q) \<noteq> Some Handle_timeout"

definition timers_ok :: "message_queue \<Rightarrow> bool" where
  "timers_ok q \<longleftrightarrow> callbacks_ok q \<and> (in_flight q = None \<longrightarrow> timer_active (in_flight_timeout_timer q) = None)"

text \<open>Of the one refusal that waits, the message is still in flight.\<close>

definition refusals_ok :: "message_queue \<Rightarrow> bool" where
  "refusals_ok q \<longleftrightarrow> length (callerrors q) \<le> 1 \<and> (callerrors q \<noteq> [] \<longrightarrow> in_flight q \<noteq> None)"

definition same_timers :: "message_queue \<Rightarrow> message_queue \<Rightarrow> bool" where
  "same_timers q q' \<longleftrightarrow> timer_task q' = timer_task q \<and> callerrors q' = callerrors q \<and> in_flight q' = in_flight q \<and>
     in_flight_timeout_timer q' = in_flight_timeout_timer q \<and> notify_queue_timer q' = notify_queue_timer q \<and> resume_timer q' = resume_timer q"

lemma timers_same: "timers_ok q \<Longrightarrow> same_timers q q' \<Longrightarrow> timers_ok q'"
  by (simp add: timers_ok_def callbacks_ok_def same_timers_def)

lemma refusals_same: "refusals_ok q \<Longrightarrow> same_timers q q' \<Longrightarrow> refusals_ok q'"
  by (simp add: refusals_ok_def same_timers_def)

lemma same_timers_trans: "same_timers q q' \<Longrightarrow> same_timers q' q'' \<Longrightarrow> same_timers q q''"
  by (simp add: same_timers_def)

section \<open>The operations\<close>

lemma started_timer [simp]:
  "timer_wf t \<Longrightarrow> timer_wf (timeout_duration e c d t)" "tCallback (timeout_duration e c d t) = Some c"
  "tCallback (timeout_at e now c tp t) = Some c"
  by (auto simp: timer_wf_def timeout_duration_def timeout_at_def timeout_callback_def start_new_timer_def Let_def)

lemma stopped_timer [simp]:
  "timer_wf t \<Longrightarrow> timer_active (stop_timer t) = None" "timer_wf t \<Longrightarrow> timer_wf (stop_timer t)" "tCallback (stop_timer t) = tCallback t"
  by (auto simp: timer_wf_def stop_timer_def)

lemma expired_timer:
  assumes "timer_expires t = (c, t')"
  shows "tCallback t' = tCallback t" "timer_wf t \<Longrightarrow> timer_wf t'" "c \<noteq> None \<Longrightarrow> tCallback t = c" "timer_active t = None \<Longrightarrow> c = None \<and> t' = t"
  using assms by (auto simp: timer_expires_def timer_wf_def split: option.splits prod.splits if_splits)

lemma drops_same:
  "same_timers q (drop_messages_from_normal_message_queue q)"
  "same_timers q (snd (drop_update_messages_from_transactional_message_queue q))"
  by (simp_all add: same_timers_def drop_messages_from_normal_message_queue_def
      drop_update_messages_from_transactional_message_queue_def Let_def split: prod.split)

lemma normal_queue_loop_same: "same_timers q (normal_queue_loop q)"
proof (induction q rule: normal_queue_loop.induct)
  case (1 q)
  then show ?case
    using drops_same(1) same_timers_trans by (subst normal_queue_loop.simps) (auto simp: same_timers_def)
qed

lemma update_message_loop_same: "same_timers q (update_message_loop q)"
proof (induction q rule: update_message_loop.induct)
  case (1 q)
  obtain d q' where d: "drop_update_messages_from_transactional_message_queue q = (d, q')"
    by (cases "drop_update_messages_from_transactional_message_queue q")
  then have "same_timers q q'" using drops_same(2)[of q] by simp
  then show ?case
    using "1.IH"[OF _ d[symmetric]] same_timers_trans[of q q'] d
    by (subst update_message_loop.simps) (auto simp: same_timers_def)
qed

lemma check_queue_sizes_same: "same_timers q (check_queue_sizes q)"
  using same_timers_trans[OF normal_queue_loop_same update_message_loop_same]
  by (simp add: check_queue_sizes_def same_timers_def)

lemma add_same:
  "same_timers q (add_to_normal_message_queue m (q\<lparr>created_objects := n\<rparr>))"
  "same_timers q (add_to_transaction_message_queue m (q\<lparr>created_objects := n\<rparr>))"
  unfolding add_to_normal_message_queue_def add_to_transaction_message_queue_def Let_def
  by (rule same_timers_trans[OF _ check_queue_sizes_same]; simp add: same_timers_def mq_do_def)+

lemma new_ControlMessage_fresh: "new_ControlMessage now k c stall = Inr m \<Longrightarrow> cm_promise m = None"
  "new_ControlMessage now k c stall \<noteq> Inl Null_in_flight"
  by (auto simp: new_ControlMessage_def split: option.splits)

lemma push_same:
  "push_call e c stall q = Inr q' \<Longrightarrow> same_timers q q'" "push_call e c stall q \<noteq> Inl Null_in_flight"
  using add_same new_ControlMessage_fresh
  by (cases "new_ControlMessage (env_now e) (created_objects q) c stall"; auto simp: push_call_def same_timers_def Let_def split: if_splits)+

lemma push_async_same:
  "push_call_async e c q = Inr (k, q') \<Longrightarrow> same_timers q q'" "push_call_async e c q \<noteq> Inl Null_in_flight"
  using add_same new_ControlMessage_fresh
  by (cases "new_ControlMessage (env_now e) (created_objects q) c False";
      auto simp: push_call_async_def same_timers_def set_value_def mq_do_def Let_def split: if_splits)+

lemma quiet_timers:
  "same_timers q (push_call_result i q)" "same_timers q (push_call_error i q)"
  "same_timers q (reset_next_message_to_send q)" "same_timers q (start_queue q)" "same_timers q (stop_queue q)"
  "same_timers q (set_registration_status_accepted q)" "same_timers q (update_transaction_message_attempts n q)"
  "same_timers q (update_transaction_message_retry_interval n q)" "same_timers q (update_message_timeout n q)"
  by (simp_all add: same_timers_def push_call_result_def push_call_error_def reset_next_message_to_send_def start_queue_def stop_queue_def
      set_registration_status_accepted_def update_transaction_message_attempts_def update_transaction_message_retry_interval_def
      update_message_timeout_def mq_do_def Let_def split: option.split)

lemma reset_ok: "callbacks_ok q \<Longrightarrow> timers_ok (reset_in_flight q)"
  by (simp add: timers_ok_def callbacks_ok_def reset_in_flight_def)

lemma send_ok:
  assumes "timers_ok q" "in_flight q = None"
  shows "send_selected e t m q = Inr q' \<Longrightarrow> timers_ok q'" "send_selected e t m q \<noteq> Inl Null_in_flight"
proof -
  have c: "callbacks_ok q" using assms(1) by (simp add: timers_ok_def)
  let ?q = "mq_do (Sent_call (cm_object m) (cm_message m) (env_sent e))
      ((update_object t (m\<lparr>message_attempts := message_attempts m + 1\<rparr>) q)\<lparr>in_flight := Some (m\<lparr>message_attempts := message_attempts m + 1\<rparr>)\<rparr>)"
  have c': "callbacks_ok ?q" using c by (simp add: callbacks_ok_def mq_do_def update_object_def split: QueueType.split)
  have f: "send_failed t m' q0 = Inr q1 \<Longrightarrow> callbacks_ok q0 \<Longrightarrow> timers_ok q1" for m' q0 q1
    using reset_ok
    by (auto simp: send_failed_def Let_def set_value_def mq_do_def update_object_def callbacks_ok_def split: if_splits QueueType.splits)
  have s: "callbacks_ok q0 \<Longrightarrow> in_flight q0 \<noteq> None \<Longrightarrow> timers_ok (send_succeeded e t m' q0)" for m' q0
    by (auto simp: timers_ok_def callbacks_ok_def send_succeeded_def erase_selected_def Let_def split: QueueType.split)
  have n: "timers_ok (q0\<lparr>new_message := b\<rparr>) = timers_ok q0" for q0 b by (simp add: timers_ok_def callbacks_ok_def)
  show "timers_ok q'" if *: "send_selected e t m q = Inr q'"
  proof -
    obtain q0 where q0: "(if env_sent e then Inr (send_succeeded e t (m\<lparr>message_attempts := message_attempts m + 1\<rparr>) ?q)
          else send_failed t (m\<lparr>message_attempts := message_attempts m + 1\<rparr>) ?q) = Inr q0" "q' = q0 \<or> q' = q0\<lparr>new_message := False\<rparr>"
      using * unfolding send_selected_def Let_def
      by (cases "if env_sent e then Inr (send_succeeded e t (m\<lparr>message_attempts := message_attempts m + 1\<rparr>) ?q)
          else send_failed t (m\<lparr>message_attempts := message_attempts m + 1\<rparr>) ?q") (auto split: if_splits)
    have "in_flight ?q \<noteq> None" by (simp add: mq_do_def)
    then have "timers_ok q0" using q0(1) s[OF c'] f[OF _ c'] by (auto split: if_splits)
    then show ?thesis using q0(2) n by metis
  qed
  show "send_selected e t m q \<noteq> Inl Null_in_flight"
    by (auto simp: send_selected_def Let_def send_failed_def set_value_def split: QueueType.split)
qed

lemma worker_ok:
  assumes "timers_ok q"
  shows "worker_pass e q = Inr q' \<Longrightarrow> timers_ok q'" "worker_pass e q \<noteq> Inl Null_in_flight"
proof -
  have n: "timers_ok (q0\<lparr>worker_alive := b\<rparr>) = timers_ok q0" "timers_ok (q0\<lparr>new_message := b\<rparr>) = timers_ok q0" for q0 b
    by (simp_all add: timers_ok_def callbacks_ok_def)
  have it: "worker_iteration e q \<noteq> Inl Null_in_flight \<and> (\<forall>q''. worker_iteration e q = Inr q'' \<longrightarrow> timers_ok q'')"
    using assms send_ok[OF assms] n by (auto simp: worker_iteration_def split: option.split prod.split)
  show "timers_ok q'" if "worker_pass e q = Inr q'"
    using that it assms n by (cases "worker_iteration e q") (auto simp: worker_pass_def split: if_splits)
  show "worker_pass e q \<noteq> Inl Null_in_flight"
    using it by (cases "worker_iteration e q") (auto simp: worker_pass_def)
qed

lemma handle_timeout_ok:
  assumes "callbacks_ok q" "in_flight q \<noteq> None"
  shows "handle_timeout_or_callerror e em q = Inr q' \<Longrightarrow> timers_ok q'" "handle_timeout_or_callerror e em q \<noteq> Inl Null_in_flight"
proof -
  obtain m where m: "in_flight q = Some m" using assms(2) by blast
  have g: "give_up em m q = Inr q0 \<Longrightarrow> callbacks_ok q0" "give_up em m q \<noteq> Inl Null_in_flight" for q0
    using assms(1) by (auto simp: give_up_def set_value_def mq_do_def callbacks_ok_def split: if_splits)
  have n: "callbacks_ok (notify_queue_at e x (q\<lparr>transaction_message_queue := T\<rparr>))" "callbacks_ok (notify_queue_at e x (q\<lparr>normal_message_queue := T\<rparr>))" for x T
    using assms(1) by (simp_all add: callbacks_ok_def notify_queue_at_def)
  show "timers_ok q'" if "handle_timeout_or_callerror e em q = Inr q'"
    using that m g(1) n reset_ok
    by (cases "give_up em m q") (auto simp: handle_timeout_or_callerror_def Let_def split: if_splits)
  show "handle_timeout_or_callerror e em q \<noteq> Inl Null_in_flight"
    using m g(2) by (cases "give_up em m q") (auto simp: handle_timeout_or_callerror_def Let_def)
qed

lemma handle_call_result_timers:
  assumes "timers_ok q" "in_flight q \<noteq> None"
  shows "handle_call_result em q = Inr q' \<Longrightarrow> timers_ok q'" "handle_call_result em q \<noteq> Inl Null_in_flight"
  using assms reset_ok[of "mq_do x q" for x]
  by (auto simp: handle_call_result_def set_value_def timers_ok_def callbacks_ok_def mq_do_def split: option.splits if_splits)

lemma handle_callerror_ok:
  assumes "timers_ok q" "refusals_ok q"
  shows "handle_callerror e q = Inr q' \<Longrightarrow> timers_ok q'" "handle_callerror e q \<noteq> Inl Null_in_flight"
  using assms handle_timeout_ok[of "q\<lparr>callerrors := []\<rparr>" e]
  by (auto simp: handle_callerror_def timers_ok_def callbacks_ok_def refusals_ok_def split: list.splits)

lemma receive_ok:
  assumes "timers_ok q"
  shows "receive_message r q = Inr q' \<Longrightarrow> timers_ok q'" "receive_message r q \<noteq> Inl Null_in_flight"
proof -
  have n: "timers_ok (q\<lparr>next_message_to_send := x\<rparr>)" for x
    using timers_same[OF assms] by (simp add: same_timers_def)
  have a: "receive_answer em q \<noteq> Inl Null_in_flight \<and> (\<forall>q'. receive_answer em q = Inr q' \<longrightarrow> timers_ok q')" for em
    using n[of None] handle_call_result_timers[OF n[of None]]
    by (auto simp: receive_answer_def Let_def timers_ok_def callbacks_ok_def split: option.split)
  have i: "getMessageId js \<noteq> Inl Null_in_flight" "action_of js \<noteq> Inl Null_in_flight" for js
    by (auto simp: getMessageId_def action_of_def split: json.split option.split)
  have all: "receive_message (Rpc js) q \<noteq> Inl Null_in_flight \<and> (\<forall>q'. receive_message (Rpc js) q = Inr q' \<longrightarrow> timers_ok q')" for js
    using i[of js] a n assms
    by (cases "getMessageId js"; cases "getMessageTypeId js"; cases "action_of js") (auto simp: receive_message_def)
  show "timers_ok q'" if "receive_message r q = Inr q'" using that all by (cases r) (auto simp: receive_message_def)
  show "receive_message r q \<noteq> Inl Null_in_flight" using all by (cases r) (auto simp: receive_message_def)
qed

lemma pause_resume_ok: "timers_ok q \<Longrightarrow> timers_ok (pause q)" "timers_ok q \<Longrightarrow> timers_ok (resume e d q)"
  by (simp_all add: timers_ok_def callbacks_ok_def pause_def resume_def resume_now_def Let_def)

lemma timer_fires_ok:
  assumes "timers_ok q"
  shows "timers_ok (timer_fires t q) \<or>
    (\<exists>c. timer_task (timer_fires t q) = [c] \<and> callbacks_ok ((timer_fires t q)\<lparr>timer_task := []\<rparr>) \<and>
       in_flight (timer_fires t q) = in_flight q \<and> (c = Handle_timeout \<longrightarrow> in_flight q \<noteq> None) \<and>
       (c \<noteq> Handle_timeout \<longrightarrow> timers_ok ((timer_fires t q)\<lparr>timer_task := []\<rparr>)))"
proof (cases t)
  case In_flight_timeout
  obtain c t' where e: "timer_expires (in_flight_timeout_timer q) = (c, t')" by (cases "timer_expires (in_flight_timeout_timer q)")
  show ?thesis
    using assms In_flight_timeout expired_timer[OF e]
    by (cases c) (auto simp: e timer_fires_def timers_ok_def callbacks_ok_def)
next
  case Notify
  obtain c t' where e: "timer_expires (notify_queue_timer q) = (c, t')" by (cases "timer_expires (notify_queue_timer q)")
  show ?thesis
    using assms Notify expired_timer[OF e]
    by (cases c) (auto simp: e timer_fires_def timers_ok_def callbacks_ok_def)
next
  case Resume
  obtain c t' where e: "timer_expires (resume_timer q) = (c, t')" by (cases "timer_expires (resume_timer q)")
  show ?thesis
    using assms Resume expired_timer[OF e]
    by (cases c) (auto simp: e timer_fires_def timers_ok_def callbacks_ok_def)
qed

lemma empty_timer_task: "timers_ok q \<Longrightarrow> run_timer_task e q = Inr q"
  by (simp add: run_timer_task_def timers_ok_def callbacks_ok_def)

lemma timer_ok:
  assumes "timers_ok q"
  shows "mq_run [Op_timer t, Op_timer_task e] q = Inr q' \<Longrightarrow> timers_ok q'" "mq_run [Op_timer t, Op_timer_task e] q \<noteq> Inl Null_in_flight"
proof -
  let ?q = "timer_fires t q" and ?r = "run_timer_task e (timer_fires t q)"
  have r: "?r \<noteq> Inl Null_in_flight \<and> (\<forall>q'. ?r = Inr q' \<longrightarrow> timers_ok q')"
    using timer_fires_ok[OF assms, of t]
  proof (elim disjE exE conjE)
    fix c
    assume c: "timer_task ?q = [c]" "callbacks_ok (?q\<lparr>timer_task := []\<rparr>)" "in_flight ?q = in_flight q"
      "c = Handle_timeout \<longrightarrow> in_flight q \<noteq> None" "c \<noteq> Handle_timeout \<longrightarrow> timers_ok (?q\<lparr>timer_task := []\<rparr>)"
    then show ?thesis
      using handle_timeout_ok[OF c(2), of e None]
      by (cases c) (auto simp: run_timer_task_def timers_ok_def callbacks_ok_def resume_now_def Let_def)
  qed (simp add: empty_timer_task)
  then show "mq_run [Op_timer t, Op_timer_task e] q = Inr q' \<Longrightarrow> timers_ok q'" "mq_run [Op_timer t, Op_timer_task e] q \<noteq> Inl Null_in_flight"
    by (cases ?r; simp)+
qed

section \<open>The refusal that waits\<close>

lemma worker_refusals: "refusals_ok q \<Longrightarrow> worker_pass e q = Inr q' \<Longrightarrow> refusals_ok q'"
proof -
  assume a: "refusals_ok q" "worker_pass e q = Inr q'"
  have s: "callerrors q1 = callerrors q" if "send_selected e t m q = Inr q1" for t m q1
    using that
    by (auto simp: send_selected_def send_succeeded_def send_failed_def set_value_def update_object_def erase_selected_def reset_in_flight_def
        mq_do_def Let_def split: if_splits QueueType.splits)
  have "refusals_ok q1" if "worker_iteration e q = Inr q1" for q1
    using that a(1) s by (auto simp: worker_iteration_def refusals_ok_def split: if_splits option.splits prod.splits)
  then show ?thesis
    using a by (cases "worker_iteration e q") (auto simp: worker_pass_def refusals_ok_def split: if_splits)
qed

lemma handle_timeout_callerrors: "handle_timeout_or_callerror e em q = Inr q' \<Longrightarrow> callerrors q' = callerrors q"
  by (cases "in_flight q")
    (auto simp: handle_timeout_or_callerror_def give_up_def set_value_def notify_queue_at_def reset_in_flight_def mq_do_def Let_def split: if_splits)

lemma handle_callerror_refusals: "refusals_ok q \<Longrightarrow> handle_callerror e q = Inr q' \<Longrightarrow> refusals_ok q'"
  by (auto simp: handle_callerror_def refusals_ok_def dest!: handle_timeout_callerrors split: list.splits)

lemma receive_refusals: "callerrors q = [] \<Longrightarrow> receive_message r q = Inr q' \<Longrightarrow> refusals_ok q'"
proof -
  assume a: "callerrors q = []" "receive_message r q = Inr q'"
  have "refusals_ok q1" if "receive_answer em q = Inr q1" for em q1
    using that a(1)
    by (auto simp: receive_answer_def handle_call_result_def set_value_def reset_in_flight_def mq_do_def refusals_ok_def Let_def
        split: option.splits if_splits)
  then show ?thesis
    using a by (cases r; cases "getMessageId (case r of Rpc js \<Rightarrow> js | _ \<Rightarrow> [])"; cases "action_of (case r of Rpc js \<Rightarrow> js | _ \<Rightarrow> [])")
      (auto simp: receive_message_def refusals_ok_def split: MessageTypeId.splits)
qed

lemma timer_refusals:
  assumes "timers_ok q" "refusals_ok q" "callerrors q = [] \<or> t \<noteq> In_flight_timeout" "mq_run [Op_timer t, Op_timer_task e] q = Inr q'"
  shows "refusals_ok q'"
proof -
  let ?q = "timer_fires t q"
  have f: "callerrors ?q = callerrors q" "in_flight ?q = in_flight q"
    by (auto simp: timer_fires_def Let_def split: queue_timer.split prod.split option.split)
  have run: "run_timer_task e ?q = Inr q'" using assms(4) by (cases "run_timer_task e ?q") auto
  have c: "callerrors q' = callerrors q"
    using run f(1) by (auto simp: run_timer_task_def resume_now_def Let_def dest!: handle_timeout_callerrors split: list.splits mq_callback.splits if_splits)
  have "in_flight q' = in_flight q" if "t \<noteq> In_flight_timeout"
  proof -
    have "timer_task ?q = [] \<or> (\<exists>cb. timer_task ?q = [cb] \<and> cb \<noteq> Handle_timeout)"
      using that assms(1) expired_timer(3)
      by (cases t) (auto simp: timer_fires_def timers_ok_def callbacks_ok_def Let_def split: prod.split option.split)
    then show ?thesis
      using run f(2) by (auto simp: run_timer_task_def resume_now_def Let_def split: mq_callback.splits if_splits)
  qed
  then show ?thesis using assms(2,3) c by (auto simp: refusals_ok_def)
qed

lemma pause_resume_refusals: "refusals_ok q \<Longrightarrow> refusals_ok (pause q)" "refusals_ok q \<Longrightarrow> refusals_ok (resume e d q)"
  by (simp_all add: refusals_ok_def pause_def resume_def resume_now_def Let_def)

section \<open>The result\<close>

lemma step_ok:
  assumes "timers_ok q" "refusals_ok q"
  shows "mq_step op q \<noteq> Inl Null_in_flight"
    "\<forall>t. op \<noteq> Op_timer t \<Longrightarrow> mq_step op q = Inr q' \<Longrightarrow> timers_ok q'"
    "\<forall>t. op \<noteq> Op_timer t \<Longrightarrow> (\<forall>r. op \<noteq> Op_receive r) \<or> callerrors q = [] \<Longrightarrow> mq_step op q = Inr q' \<Longrightarrow> refusals_ok q'"
proof -
  note s = timers_same[OF assms(1)] refusals_same[OF assms(2)]
  have "mq_step op q \<noteq> Inl Null_in_flight \<and> (\<forall>q'. (\<forall>t. op \<noteq> Op_timer t) \<longrightarrow> mq_step op q = Inr q' \<longrightarrow>
      timers_ok q' \<and> ((\<forall>r. op \<noteq> Op_receive r) \<or> callerrors q = [] \<longrightarrow> refusals_ok q'))"
  proof (cases op)
    case (Op_push e c stall)
    then show ?thesis using push_same s by auto
  next
    case (Op_push_async e c)
    then show ?thesis using push_async_same s by (cases "push_call_async e c q") auto
  next
    case (Op_worker e)
    then show ?thesis using worker_ok[OF assms(1)] worker_refusals[OF assms(2)] by simp
  next
    case (Op_receive r)
    then show ?thesis using receive_ok[OF assms(1)] receive_refusals by simp
  next
    case (Op_callerror e)
    then show ?thesis using handle_callerror_ok[OF assms] handle_callerror_refusals[OF assms(2)] by simp
  next
    case (Op_timer_task e)
    then show ?thesis using assms by (simp add: empty_timer_task)
  qed (use assms s quiet_timers pause_resume_ok pause_resume_refusals in auto)
  then show "mq_step op q \<noteq> Inl Null_in_flight"
    "\<forall>t. op \<noteq> Op_timer t \<Longrightarrow> mq_step op q = Inr q' \<Longrightarrow> timers_ok q'"
    "\<forall>t. op \<noteq> Op_timer t \<Longrightarrow> (\<forall>r. op \<noteq> Op_receive r) \<or> callerrors q = [] \<Longrightarrow> mq_step op q = Inr q' \<Longrightarrow> refusals_ok q'"
    by blast+
qed

lemma calm_ok: "mq_calm q \<Longrightarrow> timers_ok q \<and> refusals_ok q"
proof (induction rule: mq_calm.induct)
  case (boot c)
  then show ?case
    by (simp add: timers_ok_def callbacks_ok_def refusals_ok_def timer_wf_def new_MessageQueue_def new_steady_timer_def)
next
  case (step q op q')
  then show ?case using step_ok(2,3) by blast
next
  case (receive q r q')
  then show ?case using step_ok(2,3)[of q "Op_receive r" q'] by blast
next
  case (timer q t e q')
  then show ?case using timer_ok(1) timer_refusals by blast
qed

text \<open>
  (C36) When the callbacks of timers run as the timers expire, and the one of the message in flight does not run while
  \<open>receive\<close> has given up the lock before it handles a refusal, no operation uses the pointer to the message in flight while
  it is null, in every state the queue reaches that way, whatever else happens in that moment.
\<close>

theorem no_null_without_that_race:
  assumes "mq_calm q"
  shows "mq_step op q \<noteq> Inl Null_in_flight \<and> mq_run [Op_timer t, Op_timer_task e] q \<noteq> Inl Null_in_flight"
  using step_ok(1) timer_ok(2) calm_ok[OF assms] by blast

lemma calm_run:
  "mq_calm q \<Longrightarrow> list_all (\<lambda>op. (\<forall>t. op \<noteq> Op_timer t) \<and> (\<forall>r. op \<noteq> Op_receive r)) ops \<Longrightarrow> mq_run ops q = Inr q' \<Longrightarrow> mq_calm q'"
proof (induction ops arbitrary: q)
  case (Cons x xs)
  then show ?case by (cases "mq_step x q") (auto intro: mq_calm.step)
qed simp

text \<open>The exception: the timer of the message in flight expires before the refusal is handled.\<close>

lemma timeout_leaves_no_message:
  assumes "in_flight q = Some m" "cm_promise m = None"
  shows "\<exists>q'. handle_timeout_or_callerror e em q = Inr q' \<and> in_flight q' = None \<and> callerrors q' = callerrors q"
  using assms
  by (auto simp: handle_timeout_or_callerror_def give_up_def set_value_def notify_queue_at_def reset_in_flight_def mq_do_def Let_def)

theorem timeout_during_the_refusal_is_fatal:
  assumes "in_flight q = Some m" "cm_promise m = None" "uniqueId m = i" "length i \<le> 36"
    and "timer_active (in_flight_timeout_timer q) = Some (ticks, False)" "tCallback (in_flight_timeout_timer q) = Some Handle_timeout"
    and "timer_task q = []" "callerrors q = []"
  shows "mq_run [Op_receive (Rpc (JInt 4 # JString i # js)), Op_timer In_flight_timeout, Op_timer_task e, Op_callerror e'] q =
    Inl Null_in_flight"
proof -
  let ?em = "\<lparr>em_uniqueId = i, em_messageType = Other_message ''InternalError'', em_messageTypeId = CALLERROR,
    em_call_message = Some (cm_message m)\<rparr>"
  let ?q = "q\<lparr>next_message_to_send := None, callerrors := [?em]\<rparr>"
  have r: "receive_message (Rpc (JInt 4 # JString i # js)) q = Inr ?q"
    using assms by (simp add: receive_message_def getMessageId_def getMessageTypeId_def receive_answer_def Let_def)
  obtain x where x: "timer_fires In_flight_timeout ?q = ?q\<lparr>in_flight_timeout_timer := x, timer_task := [Handle_timeout]\<rparr>"
    using assms by (simp add: timer_fires_def timer_expires_def)
  obtain q' where q': "handle_timeout_or_callerror e None (?q\<lparr>in_flight_timeout_timer := x, timer_task := []\<rparr>) = Inr q'"
    "in_flight q' = None" "callerrors q' = [?em]"
    using timeout_leaves_no_message[of "?q\<lparr>in_flight_timeout_timer := x, timer_task := []\<rparr>" m e None] assms(1,2) by auto
  have "run_timer_task e (timer_fires In_flight_timeout ?q) = Inr q'"
    using q'(1) by (simp add: x run_timer_task_def)
  moreover have "handle_callerror e' q' = Inl Null_in_flight"
    using q'(2,3) by (simp add: handle_callerror_def handle_timeout_or_callerror_def)
  ultimately show ?thesis using r by simp
qed

definition run_to_flight :: "mq_op list" where
  "run_to_flight =
     [Op_start, Op_resume (sample_mq_env True []) 0,
      Op_push (sample_mq_env True []) (sample_call ''t'' ''TransactionEvent'' Event_Started) False, Op_worker (sample_mq_env True [])]"

text \<open>The message in flight is refused with some code.\<close>

definition sample_refusal :: received where
  "sample_refusal = Rpc [JInt 4, JString ''t'', JOther]"

lemma run_to_flight_result:
  "\<exists>q q'. mq_run run_to_flight (new_MessageQueue (firmware_mq_config {})) = Inr q \<and> in_flight q \<noteq> None \<and>
     callerrors q = [] \<and> mq_step (Op_receive sample_refusal) q = Inr q' \<and> callerrors q' \<noteq> []"
  unfolding run_to_flight_def connected_queue
  by (simp add: transaction_pushed transaction_sent del: mq_step.simps)
    (simp add: sample_queue_def sample_cm_def sample_call_def sample_refusal_def receive_message_def getMessageId_def getMessageTypeId_def
      receive_answer_def uniqueId_def Let_def)

theorem no_null_without_that_race_witness:
  "\<exists>q q'. mq_run run_to_flight (new_MessageQueue (firmware_mq_config {})) = Inr q \<and> in_flight q \<noteq> None \<and>
     mq_run [Op_timer In_flight_timeout, Op_timer_task (sample_mq_env True [])] q \<noteq> Inl Null_in_flight \<and>
     mq_step (Op_receive sample_refusal) q = Inr q' \<and> callerrors q' \<noteq> [] \<and>
     mq_step (Op_callerror (sample_mq_env True [])) q' \<noteq> Inl Null_in_flight"
proof -
  obtain q q' where q: "mq_run run_to_flight (new_MessageQueue (firmware_mq_config {})) = Inr q" "in_flight q \<noteq> None"
    "callerrors q = []" "mq_step (Op_receive sample_refusal) q = Inr q'" "callerrors q' \<noteq> []"
    using run_to_flight_result by blast
  have c: "mq_calm q" using calm_run[OF mq_calm.boot _ q(1)] by (simp add: run_to_flight_def)
  have "mq_calm q'" using mq_calm.receive[OF c q(3,4)] .
  then show ?thesis using no_null_without_that_race c q by blast
qed

end
