(* ===== verification/Websocket_Reach.thy ===== *)
theory Websocket_Reach
  imports Websocket_Props
begin

text \<open>
  The states the connection to the CSMS reaches, that a message reported as sent was handed to the library as a whole, and
  that the callbacks the application has got tell whether there is a connection.
\<close>

section \<open>Operations\<close>

datatype ws_op =
    Ws_register
  | Ws_options WebsocketConnectionOptions
  | Ws_key string
  | Ws_start "client_env list"
  | Ws_disconnect "client_env list" WebsocketCloseReason
  | Ws_send "client_env list" string
  | Ws_ping "client_env list"
  | Ws_ping_interval timer_env int
  | Ws_client client_env
  | Ws_reconnect timer_env "client_env list" int
  | Ws_reconnect_now "client_env list" "client_env list"
  | Ws_pong_timeout "client_env list"
  | Ws_recv bool
  | Ws_deferred

fun ws_step :: "ws_op \<Rightarrow> websocket \<Rightarrow> websocket ws_result" where
  "ws_step Ws_register w = Inr (w\<lparr>callbacks_registered := True\<rparr>)"
| "ws_step (Ws_options opts) w = set_connection_options opts w"
| "ws_step (Ws_key key) w = Inr (set_authorization_key key w)"
| "ws_step (Ws_start es) w = ws_bind (start_connecting es w) (\<lambda>(_, w). Inr w)"
| "ws_step (Ws_disconnect es code) w = ws_disconnect es code w"
| "ws_step (Ws_send es s) w = ws_bind (send es s w) (\<lambda>(_, w). Inr w)"
| "ws_step (Ws_ping es) w = ocpp_ping es w"
| "ws_step (Ws_ping_interval e n) w = Inr (set_websocket_ping_interval e n w)"
| "ws_step (Ws_client e) w = client_step e w"
| "ws_step (Ws_reconnect e es delay) w = ws_reconnect e es delay w"
| "ws_step (Ws_reconnect_now es es') w = ws_bind (reconnect_now es es' w) (\<lambda>(_, w). Inr w)"
| "ws_step (Ws_pong_timeout es) w = on_pong_timeout es w"
| "ws_step (Ws_recv polling) w = Inr (snd (recv_step polling w))"
| "ws_step Ws_deferred w = Inr (snd (deferred_step w))"

inductive ws_reachable :: "websocket \<Rightarrow> bool" where
  boot: "new_WebsocketLibwebsockets opts = Inr w \<Longrightarrow> ws_reachable w"
| step: "ws_reachable w \<Longrightarrow> ws_step op w = Inr w' \<Longrightarrow> ws_reachable w'"

section \<open>Messages that were sent\<close>

definition confirmed :: "nat \<Rightarrow> string \<Rightarrow> lws_write_protocol \<Rightarrow> websocket \<Rightarrow> bool" where
  "confirmed k p pr w \<longleftrightarrow> (\<exists>n. Written k p pr n \<in> set (ws_log w) \<and> int (length p) \<le> n)"

definition tracked :: "nat \<Rightarrow> string \<Rightarrow> lws_write_protocol \<Rightarrow> websocket \<Rightarrow> bool" where
  "tracked k p pr w \<longleftrightarrow>
     (\<forall>m\<in>set (ws_message_queue w). wm_object m = k \<longrightarrow>
        wm_payload m = p \<and> wm_protocol m = pr \<and> (int (length p) \<le> wm_sent_bytes m \<longrightarrow> confirmed k p pr w)) \<and>
     (k \<in> set (message_sent w) \<longrightarrow> confirmed k p pr w)"

definition objects_below :: "websocket \<Rightarrow> bool" where
  "objects_below w \<longleftrightarrow> (\<forall>m\<in>set (ws_message_queue w). wm_object m < ws_objects w) \<and> (\<forall>k\<in>set (message_sent w). k < ws_objects w)"

text \<open>What keeps track of the messages: nearly every step only takes messages away.\<close>

definition shrinks :: "websocket \<Rightarrow> websocket \<Rightarrow> bool" where
  "shrinks w w' \<longleftrightarrow> set (ws_message_queue w') \<subseteq> set (ws_message_queue w) \<and> message_sent w' = message_sent w \<and>
     set (ws_log w) \<subseteq> set (ws_log w') \<and> ws_objects w' = ws_objects w"

definition keeps_track :: "websocket \<Rightarrow> websocket \<Rightarrow> bool" where
  "keeps_track w w' \<longleftrightarrow> (\<forall>k p pr. p \<noteq> [] \<longrightarrow> tracked k p pr w \<longrightarrow> tracked k p pr w') \<and> (objects_below w \<longrightarrow> objects_below w') \<and>
     ws_objects w' = ws_objects w"

lemma keeps_track_trans: "keeps_track w w' \<Longrightarrow> keeps_track w' w'' \<Longrightarrow> keeps_track w w''"
  by (simp add: keeps_track_def)

lemma keeps_track_self [simp]: "keeps_track w w"
  by (simp add: keeps_track_def)

lemma shrinks_track: "shrinks w w' \<Longrightarrow> keeps_track w w'"
  by (force simp: shrinks_def keeps_track_def tracked_def objects_below_def confirmed_def)

lemma shrinks_trans: "shrinks w w' \<Longrightarrow> shrinks w' w'' \<Longrightarrow> shrinks w w''"
  by (auto simp: shrinks_def)

lemma shrinking [simp]:
  "shrinks w w" "shrinks w (clear_all_queues w)" "shrinks w (push_deferred_callback c w)" "shrinks w (ws_do x w)" "shrinks w (update_state st w)"
  "shrinks w (on_conn_message s w)" "shrinks w (on_writable_if_messages w)" "shrinks w (on_conn_fail w)" "shrinks w (on_conn_close w)"
  "shrinks w (on_conn_connected e w)" "shrinks w (client_finish w)" "shrinks w (do_interrupt_and_exit w)" "shrinks w (request_write w)"
  "shrinks w (set_websocket_ping_interval e i w)"
  by (auto simp: shrinks_def clear_all_queues_def push_deferred_callback_def ws_do_def update_state_def on_conn_message_def
      on_writable_if_messages_def on_conn_fail_def on_conn_close_def on_conn_connected_def client_finish_def do_interrupt_and_exit_def
      request_write_def set_websocket_ping_interval_def Let_def split: option.split)

lemma pop_sent_parts:
  "pop_sent ms = (popped, rest) \<Longrightarrow> set rest \<subseteq> set ms \<and>
     (\<forall>k\<in>set popped. \<exists>m\<in>set ms. wm_object m = k \<and> int (length (wm_payload m)) \<le> wm_sent_bytes m)"
  by (induction ms arbitrary: popped rest) (fastforce split: if_splits prod.splits)+

lemma writable_track: "keeps_track w (on_conn_writable n w)"
proof (cases "\<exists>d. conn_data w = Some d \<and> callbacks_registered w \<and> m_is_connected w \<and> \<not> is_interupted d \<and> cd_state d \<noteq> State_FINALIZED")
  case False
  then have "on_conn_writable n w = w" by (auto simp: on_conn_writable_def split: option.split)
  then show ?thesis by simp
next
  case True
  then obtain d where d: "conn_data w = Some d" "callbacks_registered w" "m_is_connected w" "\<not> is_interupted d" "cd_state d \<noteq> State_FINALIZED"
    by blast
  obtain popped rest where p: "pop_sent (ws_message_queue w) = (popped, rest)" by (cases "pop_sent (ws_message_queue w)")
  note parts = pop_sent_parts[OF p]
  let ?w = "w\<lparr>message_sent := message_sent w @ popped, ws_message_queue := rest\<rparr>"
  have pop: "keeps_track w ?w"
    using parts by (fastforce simp: keeps_track_def tracked_def objects_below_def confirmed_def)
  show ?thesis
  proof (cases rest)
    case Nil
    then show ?thesis using pop d p by (simp add: on_conn_writable_def)
  next
    case (Cons m ms)
    define s where "s = (if int (length (wm_payload m)) \<le> n then n else 0)"
    let ?v = "(ws_do (Written (wm_object m) (wm_payload m) (wm_protocol m) n) ?w)\<lparr>ws_message_queue := m\<lparr>wm_sent_bytes := s\<rparr> # ms\<rparr>"
    have "on_conn_writable n w = ?v"
      using d p Cons by (auto simp: on_conn_writable_def send_internal_def s_def ws_do_def)
    moreover have "keeps_track ?w ?v"
      unfolding keeps_track_def
    proof (intro conjI allI impI)
      fix k p pr
      assume ne: "p \<noteq> []" and t: "tracked k p pr ?w"
      have c: "confirmed k p pr ?w \<Longrightarrow> confirmed k p pr ?v" by (auto simp: confirmed_def ws_do_def)
      have "wm_object m = k \<Longrightarrow> int (length p) \<le> s \<Longrightarrow> confirmed k p pr ?v"
      proof (cases "int (length (wm_payload m)) \<le> n")
        case True
        assume "wm_object m = k" "int (length p) \<le> s"
        then show ?thesis using t Cons True by (auto simp: tracked_def confirmed_def ws_do_def s_def)
      next
        case False
        assume a: "wm_object m = k" "int (length p) \<le> s"
        then show ?thesis using False ne by (simp add: s_def)
      qed
      then show "tracked k p pr ?v" using t Cons c by (auto simp: tracked_def ws_do_def)
    qed (auto simp: objects_below_def ws_do_def Cons)
    ultimately show ?thesis using keeps_track_trans[OF pop] by simp
  qed
qed

lemma callback_track:
  assumes "process_callback e cb w = Inr (r, w')"
  shows "keeps_track w w'"
proof (cases "conn_data w")
  case (Some d)
  have f: "shrinks w (on_conn_fail (update_state State_ERROR x))" if "shrinks w x" for x
    using shrinks_trans[OF shrinks_trans[OF that shrinking(5)] shrinking(8)] .
  have h: "append_handshake_header a b w = Inr w1 \<Longrightarrow> shrinks w w1" for a b w1
    by (auto simp: append_handshake_header_def split: if_splits option.splits)
  have r: "shrinks w ((on_conn_message t w1)\<lparr>recv_buffered_message := u\<rparr>)" if "shrinks w w1" for t u w1
    using shrinks_trans[OF that shrinking(6)[of w1 t]] by (simp add: shrinks_def)
  have a: "keeps_track w (callback_action e cb w)"
  proof (cases cb)
    case (Client_writeable n)
    then show ?thesis
      using keeps_track_trans[OF writable_track shrinks_track[OF shrinking(7)]] by (simp add: callback_action_def)
  next
    case Established
    then show ?thesis
      using shrinks_track[OF shrinks_trans[OF shrinks_trans[OF shrinking(5) shrinking(10)] shrinking(4)]] by (simp add: callback_action_def)
  next
    case (Client_receive t n)
    have "shrinks w (w\<lparr>recv_buffered_message := u\<rparr>)" for u by (simp add: shrinks_def)
    then show ?thesis
      using Client_receive shrinks_track[OF shrinks_trans[OF _ shrinking(7)]] r by (simp add: callback_action_def Let_def)
  next
    case Client_closed
    then show ?thesis
      using Some f[of w] shrinks_track shrinks_trans[OF shrinking(5)[of w] shrinking(9)] by (simp add: callback_action_def)
  next
    case (Filter_pre_establish t)
    have "shrinks w (w\<lparr>connected_ocpp_version := v\<rparr>)" for v by (simp add: shrinks_def)
    then show ?thesis using Filter_pre_establish shrinks_track by (simp add: callback_action_def)
  qed (use f[of w] in \<open>simp_all add: callback_action_def shrinks_track\<close>)
  show ?thesis
    using assms Some a f[of w] f[of "push_deferred_callback c w" for c] h shrinks_track
    by (cases cb) (auto simp: process_callback_def ws_bind_Inr Let_def split: if_splits)
qed (use assms in \<open>simp add: process_callback_def\<close>)

lemma callbacks_track: "process_callbacks e cbs w = Inr w' \<Longrightarrow> keeps_track w w'"
proof (induction cbs arbitrary: w)
  case (Cons cb cbs)
  then obtain r w1 where "process_callback e cb w = Inr (r, w1)" "process_callbacks e cbs w1 = Inr w'"
    by (auto simp: ws_bind_Inr)
  then show ?case using callback_track Cons.IH keeps_track_trans by blast
qed simp

lemma reset_track: "reset_connection_data e w = Inr w' \<Longrightarrow> keeps_track w w'"
  using callbacks_track keeps_track_trans[OF shrinks_track, of w "w\<lparr>conn_data := map_option (\<lambda>d. d\<lparr>cd_lws_ctx := False\<rparr>) (conn_data w)\<rparr>" w']
  by (simp add: reset_connection_data_def shrinks_def)

lemma init_track: "init_connection_context w = Inr w' \<Longrightarrow> keeps_track w w'"
  by (rule shrinks_track) (auto simp: init_connection_context_def shrinks_def split: option.splits if_splits)

lemma after_track: "keeps_track w (after_attempt e w)"
proof -
  obtain i x where i: "get_reconnect_interval (ce_random e) (update_state State_RECONNECTING w) = (i, x)"
    by (cases "get_reconnect_interval (ce_random e) (update_state State_RECONNECTING w)")
  have "shrinks w x" using i shrinking(5)[of w State_RECONNECTING]
    by (auto simp: get_reconnect_interval_def Let_def shrinks_def split: if_splits)
  define y where "y = x\<lparr>connection_attempts := connection_attempts x + 1, client_thread := Client_waits i\<rparr>"
  have "after_attempt e w \<in> {client_finish w, client_finish (update_state State_FINALIZED w), y, w\<lparr>client_thread := Client_connects\<rparr>}"
    by (simp add: after_attempt_def i y_def)
  moreover have "shrinks w y" "shrinks w (w\<lparr>client_thread := Client_connects\<rparr>)" using \<open>shrinks w x\<close> by (simp_all add: y_def shrinks_def)
  ultimately have "shrinks w (after_attempt e w)"
    using shrinking(11)[of w] shrinks_trans[OF shrinking(5) shrinking(11)] by auto
  then show ?thesis by (rule shrinks_track)
qed

lemma client_step_track:
  assumes "client_step e w = Inr w'"
  shows "keeps_track w w'"
proof (cases "client_thread w")
  case Client_connects
  have f: "keeps_track x (on_conn_fail (update_state State_ERROR x))" for x
    using shrinks_track[OF shrinks_trans[OF shrinking(5) shrinking(8)]] .
  have c: "keeps_track x (x\<lparr>client_thread := t\<rparr>)" for x t by (rule shrinks_track) (simp add: shrinks_def)
  show ?thesis
  proof (cases "ce_context e")
    case False
    then show ?thesis using assms Client_connects keeps_track_trans[OF f after_track] by (auto simp: client_step_def client_connects_def)
  next
    case True
    then obtain w1 w2 where w: "init_connection_context w = Inr w1" "process_callbacks (ce_timer e) (ce_callbacks e) w1 = Inr w2"
      "(if \<not> ce_connect e then ws_bind (reset_connection_data e (on_conn_fail (update_state State_ERROR w2))) (\<lambda>w. Inr (after_attempt e w))
        else Inr (w2\<lparr>client_thread := Client_serves\<rparr>)) = Inr w'"
      using assms Client_connects by (auto simp: client_step_def client_connects_def ws_bind_Inr)
    have s: "keeps_track w w2" using keeps_track_trans[OF init_track[OF w(1)] callbacks_track[OF w(2)]] .
    show ?thesis
    proof (cases "ce_connect e")
      case True
      then show ?thesis using keeps_track_trans[OF s c[of w2 Client_serves]] w(3) by auto
    next
      case False
      then obtain w3 where "reset_connection_data e (on_conn_fail (update_state State_ERROR w2)) = Inr w3" "w' = after_attempt e w3"
        using w(3) by (auto simp: ws_bind_Inr)
      then show ?thesis using keeps_track_trans[OF s keeps_track_trans[OF f keeps_track_trans[OF reset_track after_track]]] by simp
    qed
  qed
next
  case Client_serves
  then obtain w1 where w1: "process_callbacks (ce_timer e) (ce_callbacks e) w = Inr w1"
    using assms by (auto simp: client_step_def client_serves_def ws_bind_Inr)
  define x where "x = (if \<not> interrupted w1 \<and> \<not> state_is State_FINALIZED w1 \<and> \<not> state_is State_ERROR w1
    then on_writable_if_messages w1 else w1)"
  have "keeps_track w1 x" using shrinks_track[OF shrinking(7)[of w1]] by (simp add: x_def)
  moreover have "w' = x \<or> (\<exists>w3. reset_connection_data e x = Inr w3 \<and> w' = after_attempt e w3)"
    using assms Client_serves w1 by (auto simp: client_step_def client_serves_def ws_bind_Inr Let_def x_def split: if_splits)
  ultimately have x: "keeps_track w1 x" "w' = x \<or> (\<exists>w3. reset_connection_data e x = Inr w3 \<and> w' = after_attempt e w3)" by blast+
  then show ?thesis
    using keeps_track_trans[OF callbacks_track[OF w1]] keeps_track_trans[OF x(1)] keeps_track_trans[OF reset_track after_track] by blast
next
  case (Client_waits d)
  have c: "keeps_track w (w\<lparr>client_thread := Client_connects\<rparr>)" by (rule shrinks_track) (simp add: shrinks_def)
  show ?thesis using assms Client_waits c shrinks_track[OF shrinking(11)] by (auto simp: client_step_def)
next
  case Client_ends
  have "keeps_track w (w\<lparr>client_thread := Client_stopped\<rparr>)" by (rule shrinks_track) (simp add: shrinks_def)
  then show ?thesis using assms Client_ends by (auto simp: client_step_def)
next
  case Client_stopped
  then show ?thesis using assms by (simp add: client_step_def)
qed

lemma client_steps_track: "client_steps es w = Inr w' \<Longrightarrow> keeps_track w w'"
proof (induction es arbitrary: w)
  case (Cons e es)
  then obtain w1 where "client_step e w = Inr w1" "client_steps es w1 = Inr w'" by (auto simp: ws_bind_Inr)
  then show ?case using client_step_track Cons.IH keeps_track_trans by blast
qed simp

lemma safe_close_track:
  assumes "safe_close_threads es w = Inr w'"
  shows "keeps_track w w'"
proof -
  let ?w = "clear_all_queues (do_interrupt_and_exit w)"
  have "keeps_track w ?w" using shrinks_track[OF shrinks_trans[OF shrinking(12) shrinking(2)]] .
  moreover have "keeps_track ?w w'"
    using assms client_steps_track keeps_track_trans[OF shrinks_track[OF shrinking(13)]]
    by (auto simp: safe_close_threads_def join_client_def ws_bind_Inr Let_def split: if_splits)
  ultimately show ?thesis by (rule keeps_track_trans)
qed

text \<open>Records that differ in other fields.\<close>

lemma same_messages:
  "ws_message_queue w' = ws_message_queue w \<Longrightarrow> message_sent w' = message_sent w \<Longrightarrow> ws_log w' = ws_log w \<Longrightarrow>
   ws_objects w' = ws_objects w \<Longrightarrow> keeps_track w w'"
  by (rule shrinks_track) (simp add: shrinks_def)

lemma start_track:
  assumes "start_connecting es w = Inr (b, w')"
  shows "keeps_track w w'"
proof (cases "callbacks_registered w")
  case True
  let ?w = "w\<lparr>shutting_down := False, connected_ocpp_version := Version_Unknown\<rparr>"
  obtain x where x: "safe_close_threads es ?w = Inr x"
    "w' = x\<lparr>conn_data := Some new_ConnectionData, reconnect_timer_tpm := stop_timer (reconnect_timer_tpm x),
            connection_attempts := 1, client_thread := Client_connects\<rparr>"
    using assms True by (auto simp: start_connecting_def ws_bind_Inr Let_def)
  have "keeps_track w ?w" "keeps_track x w'" using x(2) by (simp_all add: same_messages)
  then show ?thesis using keeps_track_trans safe_close_track[OF x(1)] by blast
qed (use assms in \<open>simp add: start_connecting_def\<close>)

lemma close_track:
  assumes "close_internal es w = Inr w'"
  shows "keeps_track w w'"
proof (cases "is_trying_to_connect w \<or> m_is_connected w")
  case True
  then obtain x where x: "safe_close_threads es w = Inr x"
    "w' = x\<lparr>conn_data := None, m_is_connected := False, reconnect_timer_tpm := stop_timer (reconnect_timer_tpm x)\<rparr>"
    using assms by (auto simp: close_internal_def ws_bind_Inr)
  have "keeps_track x w'" using x(2) by (simp add: same_messages)
  then show ?thesis using keeps_track_trans safe_close_track[OF x(1)] by blast
qed (use assms in \<open>simp add: close_internal_def\<close>)

lemma disconnect_track:
  assumes "ws_disconnect es code w = Inr w'"
  shows "keeps_track w w'"
proof (cases "callbacks_registered w")
  case True
  define x where "x = (if code = Close_Normal then w\<lparr>shutting_down := True\<rparr> else w)\<lparr>ping_timer := stop_timer (ping_timer w)\<rparr>"
  have "close_internal es x = Inr w'" using assms True by (auto simp: ws_disconnect_def x_def Let_def)
  moreover have "keeps_track w x" by (simp add: same_messages x_def)
  ultimately show ?thesis using keeps_track_trans close_track by blast
qed (use assms in \<open>simp add: ws_disconnect_def\<close>)

lemma reconnect_track:
  assumes "ws_reconnect e es delay w = Inr w'"
  shows "keeps_track w w'"
proof (cases "shutting_down w")
  case False
  then obtain x where x: "(if m_is_connected w \<or> is_trying_to_connect w then close_internal es w else Inr w) = Inr x"
    "w' = x\<lparr>reconnect_timer_tpm :=
            start_new_timer e False ((reconnect_timer_tpm x)\<lparr>tCallback := Some Reconnect_now, timeoutTicks := pdMS_TO_TICKS (of_int delay)\<rparr>)\<rparr>"
    using assms by (auto simp: ws_reconnect_def ws_bind_Inr)
  have "keeps_track w x" using x(1) close_track by (auto split: if_splits)
  moreover have "keeps_track x w'" using x(2) by (simp add: same_messages)
  ultimately show ?thesis by (rule keeps_track_trans)
qed (use assms in \<open>simp add: ws_reconnect_def\<close>)

lemma reconnect_now_track:
  assumes "reconnect_now es es' w = Inr (b, w')"
  shows "keeps_track w w'"
proof -
  obtain x where x: "(if m_is_connected w \<or> is_trying_to_connect w then close_internal es w else Inr w) = Inr x" "start_connecting es' x = Inr (b, w')"
    using assms by (auto simp: reconnect_now_def ws_bind_Inr)
  have "keeps_track w x" using x(1) close_track by (auto split: if_splits)
  then show ?thesis using start_track[OF x(2)] keeps_track_trans by blast
qed

lemma pong_track:
  assumes "on_pong_timeout es w = Inr w'"
  shows "keeps_track w w'"
proof (cases "reconnecting w")
  case False
  have "keeps_track w (w\<lparr>reconnecting := True\<rparr>)" by (simp add: same_messages)
  then show ?thesis using assms False close_track keeps_track_trans by (auto simp: on_pong_timeout_def)
qed (use assms in \<open>simp add: on_pong_timeout_def\<close>)

lemma poll_objects:
  assumes "poll_message es m w = Inr w'" "objects_below w" "wm_object m < ws_objects w"
  shows "objects_below w'"
proof -
  have "objects_below (request_write (w\<lparr>ws_message_queue := ws_message_queue w @ [m]\<rparr>))"
    using shrinks_track[OF shrinking(13)[of "w\<lparr>ws_message_queue := ws_message_queue w @ [m]\<rparr>"]] assms(2,3)
    by (auto simp: keeps_track_def objects_below_def)
  then show ?thesis
    using assms(1,2) client_steps_track
    by (auto simp: poll_message_def keeps_track_def split: if_splits option.splits)
qed

lemma ws_step_objects:
  assumes "ws_step op w = Inr w'" "objects_below w"
  shows "objects_below w'"
proof -
  have k: "keeps_track w w' \<Longrightarrow> objects_below w'" using assms(2) by (simp add: keeps_track_def)
  have new: "objects_below (w\<lparr>ws_objects := ws_objects w + 1\<rparr>)" using assms(2) by (auto simp: objects_below_def)
  show ?thesis
  proof (cases op)
    case (Ws_send es s)
    then show ?thesis
      using assms poll_objects[OF _ new]
      by (auto simp: send_def new_WebsocketMessage_def ws_bind_Inr Let_def split: if_splits)
  next
    case (Ws_ping es)
    then show ?thesis using assms poll_objects[OF _ new] by (auto simp: ocpp_ping_def new_WebsocketMessage_def Let_def)
  next
    case (Ws_start es)
    then show ?thesis using assms(1) k start_track by (auto simp: ws_bind_Inr)
  next
    case (Ws_disconnect es code)
    then show ?thesis using assms(1) k disconnect_track by simp
  next
    case (Ws_client e)
    then show ?thesis using assms(1) k client_step_track by simp
  next
    case (Ws_reconnect e es delay)
    then show ?thesis using assms(1) k reconnect_track by simp
  next
    case (Ws_reconnect_now es es')
    then show ?thesis using assms(1) k reconnect_now_track by (auto simp: ws_bind_Inr)
  next
    case (Ws_pong_timeout es)
    then show ?thesis using assms(1) k pong_track by simp
  next
    case (Ws_options opts)
    then show ?thesis using assms by (auto simp: set_connection_options_def objects_below_def Let_def split: if_splits)
  next
    case (Ws_ping_interval e i)
    then show ?thesis using assms(1) k shrinks_track[OF shrinking(14)] by auto
  qed (use assms in \<open>auto simp: objects_below_def set_authorization_key_def recv_step_def deferred_step_def split: list.splits if_splits\<close>)
qed

lemma reachable_objects: "ws_reachable w \<Longrightarrow> objects_below w"
proof (induction rule: ws_reachable.induct)
  case (boot opts w)
  then show ?case
    by (auto simp: new_WebsocketLibwebsockets_def set_connection_options_def fresh_websocket_def objects_below_def Let_def split: if_splits)
next
  case (step w op w')
  then show ?case using ws_step_objects by blast
qed

text \<open>
  (C13) A message that \<open>send\<close> reports as sent was handed to the library, which took all its bytes in one call, whatever
  happens on the connection meanwhile. (An empty message is reported without that.)
\<close>

theorem sent_means_written:
  assumes "ws_reachable w" "send es s w = Inr (True, w')" "s \<noteq> []"
  shows "\<exists>n. Written (ws_objects w) s LWS_WRITE_TEXT n \<in> set (ws_log w') \<and> int (length s) \<le> n"
proof -
  let ?k = "ws_objects w" and ?v = "w\<lparr>ws_objects := ws_objects w + 1\<rparr>"
  let ?m = "\<lparr>wm_object = ws_objects w, wm_payload = s, wm_protocol = LWS_WRITE_TEXT, wm_sent_bytes = 0\<rparr>"
  let ?q = "?v\<lparr>ws_message_queue := ws_message_queue ?v @ [?m]\<rparr>"
  have o: "objects_below w" using reachable_objects[OF assms(1)] .
  have p: "poll_message es ?m ?v = Inr w'" "?k \<in> set (message_sent w')"
    using assms(2) by (auto simp: send_def new_WebsocketMessage_def ws_bind_Inr Let_def split: if_splits)
  have "?k \<notin> set (message_sent ?v)" using o by (auto simp: objects_below_def)
  then have "client_steps es (request_write ?q) = Inr w'"
    using p by (auto simp: poll_message_def split: if_splits option.splits)
  then have "keeps_track (request_write ?q) w'" by (rule client_steps_track)
  then have "keeps_track ?q w'" by (rule keeps_track_trans[OF shrinks_track[OF shrinking(13)]])
  moreover have "tracked ?k s LWS_WRITE_TEXT ?q"
    using o assms(3) by (auto simp: tracked_def objects_below_def)
  ultimately have "tracked ?k s LWS_WRITE_TEXT w'" using assms(3) by (simp add: keeps_track_def)
  then show ?thesis using p(2) by (auto simp: tracked_def confirmed_def)
qed

text \<open>A connection that is established, and a thread of the client that writes as soon as it can.\<close>

definition serving :: "lws_callback list \<Rightarrow> client_env" where
  "serving cbs = \<lparr>ce_context = True, ce_connect = True, ce_service = 0, ce_callbacks = cbs, ce_destroy = [], ce_random = 1,
     ce_timer = \<lparr>timer_created = True, timer_started = True\<rparr>\<rparr>"

lemmas serving_defs = serving_def started_websocket_def idle_websocket_def fresh_websocket_def new_ConnectionData_def client_step_def
  client_connects_def client_serves_def init_connection_context_def process_callback_def callback_action_def on_conn_connected_def
  set_websocket_ping_interval_def clear_all_queues_def push_deferred_callback_def update_state_def ws_do_def interrupted_def
  is_interupted_def state_is_def on_writable_if_messages_def on_conn_writable_def send_internal_def

definition connected_websocket :: websocket where
  "connected_websocket = (case client_step (serving [Established]) started_websocket of Inr w \<Rightarrow> w | Inl _ \<Rightarrow> started_websocket)"

lemma connected_step: "client_step (serving [Established]) started_websocket = Inr connected_websocket"
  by (simp add: connected_websocket_def serving_defs Let_def)

lemma connected_reachable: "ws_reachable connected_websocket"
proof -
  have "ws_reachable (idle_websocket\<lparr>callbacks_registered := False\<rparr>)" using idle_new by (rule ws_reachable.boot)
  then have "ws_reachable idle_websocket" by (rule ws_reachable.step[where op = Ws_register]) (simp add: idle_websocket_def)
  then have "ws_reachable started_websocket" by (rule ws_reachable.step[where op = "Ws_start []"]) (simp add: start_idle)
  then show ?thesis by (rule ws_reachable.step[where op = "Ws_client (serving [Established])"]) (simp add: connected_step)
qed

lemma sample_ws_send:
  "\<exists>w. send [serving [Client_writeable 5], serving [Client_writeable 0]] ''hello'' connected_websocket = Inr (True, w)"
  by (simp add: send_def new_WebsocketMessage_def poll_message_def request_write_def connected_websocket_def serving_defs Let_def)

theorem sent_means_written_witness:
  "\<exists>w n. send [serving [Client_writeable 5], serving [Client_writeable 0]] ''hello'' connected_websocket = Inr (True, w) \<and>
     Written (ws_objects connected_websocket) ''hello'' LWS_WRITE_TEXT n \<in> set (ws_log w) \<and> 5 \<le> n"
  using sample_ws_send sent_means_written[OF connected_reachable, of _ "''hello''"] by fastforce

end
