(* ===== verification/Websocket_View.thy ===== *)
theory Websocket_View
  imports Websocket_Reach
begin

text \<open>
  What the application knows of the connection: the callbacks it has got, with those that wait in the queue, tell whether the
  connection stands, as long as the library says that a connection is gone before it destroys its context.
\<close>

section \<open>Callbacks and connection\<close>

fun view_step :: "bool \<Rightarrow> deferred \<Rightarrow> bool" where
  "view_step b Deferred_connected = True"
| "view_step b Deferred_stopped_and_disconnected = False"
| "view_step b Deferred_disconnected = False"
| "view_step b (Deferred_connection_failed r) = b"

definition app_view :: "deferred list \<Rightarrow> bool" where
  "app_view cs = foldl view_step False cs"

definition told :: "websocket \<Rightarrow> websocket \<Rightarrow> bool" where
  "told w w' \<longleftrightarrow> (\<exists>cs. deferred_callback_queue w' = deferred_callback_queue w @ cs \<and> foldl view_step (m_is_connected w) cs = m_is_connected w') \<and>
     client_thread w' = client_thread w \<and> (conn_data w' = None \<longleftrightarrow> conn_data w = None)"

definition same_view :: "websocket \<Rightarrow> websocket \<Rightarrow> bool" where
  "same_view w w' \<longleftrightarrow> deferred_callback_queue w' = deferred_callback_queue w \<and> m_is_connected w' = m_is_connected w \<and>
     client_thread w' = client_thread w \<and> (conn_data w' = None \<longleftrightarrow> conn_data w = None)"

lemma same_view_told: "same_view w w' \<Longrightarrow> told w w'"
  by (simp add: same_view_def told_def)

lemma told_trans: "told w w' \<Longrightarrow> told w' w'' \<Longrightarrow> told w w''"
  by (force simp: told_def)

lemma told_views [simp]:
  "same_view w w" "same_view w (clear_all_queues w)" "same_view w (ws_do x w)" "same_view w (update_state st w)"
  "same_view w (on_conn_message s w)" "same_view w (on_writable_if_messages w)" "same_view w (do_interrupt_and_exit w)"
  "same_view w (request_write w)" "same_view w (set_websocket_ping_interval e i w)" "same_view w (on_conn_writable n w)"
  by (auto simp: same_view_def clear_all_queues_def ws_do_def update_state_def on_conn_message_def on_writable_if_messages_def
      do_interrupt_and_exit_def request_write_def set_websocket_ping_interval_def on_conn_writable_def Let_def
      split: option.split list.split prod.split)

lemma told_connected: "told w (on_conn_connected e w)" "m_is_connected (on_conn_connected e w)"
  by (simp_all add: told_def on_conn_connected_def push_deferred_callback_def clear_all_queues_def set_websocket_ping_interval_def Let_def)

lemma told_close: "told w (on_conn_close w)" "\<not> m_is_connected (on_conn_close w)"
  by (simp_all add: told_def on_conn_close_def push_deferred_callback_def clear_all_queues_def Let_def)

lemma told_fail: "told w (on_conn_fail w)" "\<not> m_is_connected (on_conn_fail w)"
  by (simp_all add: told_def on_conn_fail_def push_deferred_callback_def clear_all_queues_def Let_def)

lemma told_failed: "told w (push_deferred_callback (Deferred_connection_failed r) w)"
  by (simp add: told_def push_deferred_callback_def)

lemma callback_told:
  assumes "process_callback e cb w = Inr (r, w')"
  shows "told w w'"
proof (cases "conn_data w")
  case (Some d)
  have f: "told w (on_conn_fail (update_state State_ERROR x))" if "told w x" for x
    using told_trans[OF that told_trans[OF same_view_told[OF told_views(4)] told_fail(1)]] .
  have a: "told w (callback_action e cb w)"
  proof (cases cb)
    case (Client_writeable n)
    then show ?thesis
      using told_trans[OF same_view_told[OF told_views(10)] same_view_told[OF told_views(6)]] by (simp add: callback_action_def)
  next
    case Established
    then show ?thesis
      using told_trans[OF same_view_told[OF told_views(4)] told_trans[OF told_connected(1) same_view_told[OF told_views(3)]]]
      by (simp add: callback_action_def)
  next
    case Client_closed
    then show ?thesis
      using Some f[of w] told_trans[OF same_view_told[OF told_views(4)] told_close(1)] same_view_told[OF told_views(1)]
      by (simp add: callback_action_def)
  next
    case (Client_receive t n)
    let ?w = "w\<lparr>recv_buffered_message := recv_buffered_message w @ t\<rparr>"
    let ?v = "if n = 0 then (on_conn_message (recv_buffered_message ?w) ?w)\<lparr>recv_buffered_message := []\<rparr> else ?w"
    have "same_view w ?v" by (simp add: same_view_def on_conn_message_def)
    then show ?thesis
      using Client_receive told_trans[OF same_view_told same_view_told[OF told_views(6)], of w ?v] by (simp add: callback_action_def Let_def)
  next
    case (Filter_pre_establish t)
    then show ?thesis by (auto simp: callback_action_def same_view_def intro!: same_view_told)
  qed (use f[OF same_view_told[OF told_views(1)]] in \<open>simp_all add: callback_action_def same_view_told\<close>)
  have h: "append_handshake_header x y w = Inr w1 \<Longrightarrow> told w w1" for x y w1
    by (auto simp: append_handshake_header_def same_view_told split: if_splits option.splits)
  show ?thesis
    using assms Some a f[OF same_view_told[OF told_views(1)]] f[OF told_failed] h
    by (cases cb) (auto simp: process_callback_def ws_bind_Inr Let_def split: if_splits)
qed (use assms in \<open>simp add: process_callback_def same_view_told\<close>)

lemma callbacks_told: "process_callbacks e cbs w = Inr w' \<Longrightarrow> told w w'"
proof (induction cbs arbitrary: w)
  case (Cons cb cbs)
  then obtain r w1 where "process_callback e cb w = Inr (r, w1)" "process_callbacks e cbs w1 = Inr w'"
    by (auto simp: ws_bind_Inr)
  then show ?case using callback_told Cons.IH told_trans by blast
qed (simp add: same_view_told)

text \<open>A callback other than \<open>Established\<close> makes no connection, and the end of the socket ends it.\<close>

lemma callback_ends:
  assumes "process_callback e cb w = Inr (r, w')" "cb \<noteq> Established" "conn_data w \<noteq> None"
    "\<not> m_is_connected w \<or> cb = Wsi_destroy"
  shows "\<not> m_is_connected w'"
proof -
  have u: "m_is_connected (update_state st x) = m_is_connected x" for st x by (simp add: update_state_def)
  have n: "m_is_connected (on_writable_if_messages x) = m_is_connected x" "m_is_connected (on_conn_writable i x) = m_is_connected x"
    "m_is_connected (on_conn_message s x) = m_is_connected x" for x i s
    using told_views(6)[of x] told_views(10)[of x i] told_views(5)[of x s] by (simp_all add: same_view_def)
  have h: "append_handshake_header x y w = Inr w1 \<Longrightarrow> m_is_connected w1 = m_is_connected w" for x y w1
    by (auto simp: append_handshake_header_def ws_do_def split: if_splits option.splits)
  show ?thesis
    using assms told_fail(2) told_close(2) h
    by (cases cb) (auto simp: process_callback_def callback_action_def ws_bind_Inr Let_def u n split: if_splits option.splits)
qed

lemma callbacks_end:
  "process_callbacks e cbs w = Inr w' \<Longrightarrow> Established \<notin> set cbs \<Longrightarrow> conn_data w \<noteq> None \<Longrightarrow>
   \<not> m_is_connected w \<or> Wsi_destroy \<in> set cbs \<Longrightarrow> \<not> m_is_connected w'"
proof (induction cbs arbitrary: w)
  case (Cons cb cbs)
  then obtain r w1 where s: "process_callback e cb w = Inr (r, w1)" "process_callbacks e cbs w1 = Inr w'"
    by (auto simp: ws_bind_Inr)
  have "conn_data w1 \<noteq> None" using callback_told[OF s(1)] Cons.prems(3) by (simp add: told_def)
  moreover have "\<not> m_is_connected w1 \<or> Wsi_destroy \<in> set cbs" using callback_ends[OF s(1)] Cons.prems by auto
  ultimately show ?case using Cons.IH[OF s(2)] Cons.prems(2) by simp
qed simp

section \<open>Steps of the client\<close>

text \<open>
  What the library promises: destroying the context destroys the socket, with its callback, and connects nothing. (For an
  attempt that failed the callback changes nothing any more.)
\<close>

definition ends_socket :: "client_env \<Rightarrow> bool" where
  "ends_socket e \<longleftrightarrow> Established \<notin> set (ce_destroy e) \<and> Wsi_destroy \<in> set (ce_destroy e)"

text \<open>Only a client that serves has a connection, and a client that runs has its data.\<close>

definition client_ok :: "websocket \<Rightarrow> bool" where
  "client_ok w \<longleftrightarrow> (client_thread w \<noteq> Client_serves \<longrightarrow> \<not> m_is_connected w) \<and> (client_thread w \<noteq> Client_stopped \<longrightarrow> conn_data w \<noteq> None)"

text \<open>As \<open>told\<close>, for steps that also move the thread.\<close>

definition informs :: "websocket \<Rightarrow> websocket \<Rightarrow> bool" where
  "informs w w' \<longleftrightarrow> (\<exists>cs. deferred_callback_queue w' = deferred_callback_queue w @ cs \<and> foldl view_step (m_is_connected w) cs = m_is_connected w')"

lemma informs_trans: "informs w w' \<Longrightarrow> informs w' w'' \<Longrightarrow> informs w w''"
  by (force simp: informs_def)

lemma told_informs: "told w w' \<Longrightarrow> informs w w'"
  by (auto simp: told_def informs_def)

lemma same_informs: "deferred_callback_queue w' = deferred_callback_queue w \<Longrightarrow> m_is_connected w' = m_is_connected w \<Longrightarrow> informs w w'"
  by (simp add: informs_def)

lemma finish_view:
  "\<not> m_is_connected w \<Longrightarrow> informs w (client_finish w) \<and> \<not> m_is_connected (client_finish w) \<and>
     client_thread (client_finish w) = Client_ends \<and> (conn_data (client_finish w) = None \<longleftrightarrow> conn_data w = None)"
  by (simp add: client_finish_def informs_def push_deferred_callback_def Let_def split: option.split)

lemma after_attempt_view:
  assumes "\<not> m_is_connected w" "conn_data w \<noteq> None"
  shows "informs w (after_attempt e w) \<and> client_ok (after_attempt e w)"
proof -
  have u: "m_is_connected (update_state st w) = m_is_connected w" "deferred_callback_queue (update_state st w) = deferred_callback_queue w"
    "conn_data (update_state st w) = None \<longleftrightarrow> conn_data w = None" for st
    by (simp_all add: update_state_def)
  obtain i x where i: "get_reconnect_interval (ce_random e) (update_state State_RECONNECTING w) = (i, x)"
    by (cases "get_reconnect_interval (ce_random e) (update_state State_RECONNECTING w)")
  have x: "m_is_connected x = m_is_connected w" "deferred_callback_queue x = deferred_callback_queue w" "\<exists>d. conn_data x = Some d"
    using i u assms(2) by (auto simp: get_reconnect_interval_def Let_def split: if_splits)
  show ?thesis
    using assms finish_view[OF assms(1)] finish_view[of "update_state State_FINALIZED w"]
    by (auto simp: after_attempt_def i x u client_ok_def informs_def)
qed

lemma reset_view:
  assumes "reset_connection_data e w = Inr w'" "ends_socket e" "conn_data w \<noteq> None"
  shows "informs w w'" "\<not> m_is_connected w'" "conn_data w' \<noteq> None"
proof -
  let ?w = "w\<lparr>conn_data := map_option (\<lambda>d. d\<lparr>cd_lws_ctx := False\<rparr>) (conn_data w)\<rparr>"
  have p: "process_callbacks (ce_timer e) (ce_destroy e) ?w = Inr w'" using assms(1) by (simp add: reset_connection_data_def Let_def)
  have t: "told ?w w'" using callbacks_told[OF p] .
  then have "informs ?w w'" by (rule told_informs)
  then show "informs w w'" by (rule informs_trans[OF same_informs, rotated 2]) simp_all
  show "\<not> m_is_connected w'" using callbacks_end[OF p] assms(2,3) by (simp add: ends_socket_def)
  show "conn_data w' \<noteq> None" using t assms(3) by (auto simp: told_def)
qed

lemma connects_view:
  assumes "client_connects e w = Inr w'" "ends_socket e" "conn_data w \<noteq> None"
  shows "informs w w' \<and> client_ok w'"
proof (cases "ce_context e")
  case False
  let ?x = "on_conn_fail (update_state State_ERROR w)"
  have t: "told w ?x" using told_trans[OF same_view_told[OF told_views(4)] told_fail(1)] .
  then have "conn_data ?x \<noteq> None" using assms(3) by (simp add: told_def)
  then show ?thesis using assms(1) False after_attempt_view[OF told_fail(2)] informs_trans[OF told_informs[OF t]]
    by (auto simp: client_connects_def)
next
  case True
  then obtain w1 w2 where w: "init_connection_context w = Inr w1" "process_callbacks (ce_timer e) (ce_callbacks e) w1 = Inr w2"
    "(if \<not> ce_connect e then ws_bind (reset_connection_data e (on_conn_fail (update_state State_ERROR w2))) (\<lambda>w. Inr (after_attempt e w))
      else Inr (w2\<lparr>client_thread := Client_serves\<rparr>)) = Inr w'"
    using assms(1) by (auto simp: client_connects_def ws_bind_Inr)
  have s: "same_view w w1" using w(1) by (auto simp: init_connection_context_def same_view_def split: option.splits if_splits)
  have t: "told w w2" using told_trans[OF same_view_told[OF s] callbacks_told[OF w(2)]] .
  show ?thesis
  proof (cases "ce_connect e")
    case True
    then show ?thesis using w(3) t assms(3) by (auto simp: told_def informs_def client_ok_def)
  next
    case False
    let ?x = "on_conn_fail (update_state State_ERROR w2)"
    obtain w3 where w3: "reset_connection_data e ?x = Inr w3" "w' = after_attempt e w3"
      using w(3) False by (auto simp: ws_bind_Inr)
    have x: "told w ?x" using told_trans[OF t told_trans[OF same_view_told[OF told_views(4)] told_fail(1)]] .
    then have "conn_data ?x \<noteq> None" using assms(3) by (simp add: told_def)
    note r = reset_view[OF w3(1) assms(2) this]
    show ?thesis using informs_trans[OF informs_trans[OF told_informs[OF x] r(1)]] after_attempt_view[OF r(2,3)] w3(2) by blast
  qed
qed

lemma serves_view:
  assumes "client_serves e w = Inr w'" "ends_socket e" "conn_data w \<noteq> None" "client_thread w = Client_serves"
  shows "informs w w' \<and> client_ok w'"
proof -
  obtain w1 where w1: "process_callbacks (ce_timer e) (ce_callbacks e) w = Inr w1"
    using assms(1) by (auto simp: client_serves_def ws_bind_Inr)
  define x where "x = (if \<not> interrupted w1 \<and> \<not> state_is State_FINALIZED w1 \<and> \<not> state_is State_ERROR w1
    then on_writable_if_messages w1 else w1)"
  have t: "told w x" using told_trans[OF callbacks_told[OF w1] same_view_told[of w1 x]] told_views(1,6)[of w1] by (simp add: x_def)
  then have d: "conn_data x \<noteq> None" "client_thread x = Client_serves" using assms(3,4) by (auto simp: told_def)
  have "w' = x \<or> (\<exists>w3. reset_connection_data e x = Inr w3 \<and> w' = after_attempt e w3)"
    using assms(1) w1 by (auto simp: client_serves_def ws_bind_Inr Let_def x_def split: if_splits)
  then show ?thesis
  proof (elim disjE exE conjE)
    assume "w' = x"
    then show ?thesis using told_informs[OF t] d by (simp add: client_ok_def)
  next
    fix w3
    assume "reset_connection_data e x = Inr w3" "w' = after_attempt e w3"
    then show ?thesis
      using reset_view[OF _ assms(2) d(1)] informs_trans[OF informs_trans[OF told_informs[OF t]]] after_attempt_view by blast
  qed
qed

lemma client_step_view:
  assumes "client_step e w = Inr w'" "ends_socket e" "client_ok w"
  shows "informs w w' \<and> client_ok w'"
proof (cases "client_thread w")
  case Client_connects
  then show ?thesis using assms connects_view by (auto simp: client_step_def client_ok_def)
next
  case Client_serves
  then show ?thesis using assms serves_view by (auto simp: client_step_def client_ok_def)
next
  case (Client_waits d)
  then have "\<not> m_is_connected w" "conn_data w \<noteq> None" using assms(3) by (auto simp: client_ok_def)
  then show ?thesis using assms(1) Client_waits finish_view[of w]
    by (cases "interrupted w") (auto simp: client_step_def client_ok_def informs_def)
qed (use assms in \<open>auto simp: client_step_def client_ok_def informs_def split: if_splits\<close>)

lemma client_steps_view:
  "client_steps es w = Inr w' \<Longrightarrow> \<forall>e\<in>set es. ends_socket e \<Longrightarrow> client_ok w \<Longrightarrow> informs w w' \<and> client_ok w'"
proof (induction es arbitrary: w)
  case (Cons e es)
  then obtain w1 where "client_step e w = Inr w1" "client_steps es w1 = Inr w'" by (auto simp: ws_bind_Inr)
  then show ?case using client_step_view[of e w w1] Cons informs_trans by simp blast
qed (simp add: informs_def)

section \<open>Operations\<close>

lemma same_view_ok: "same_view w w' \<Longrightarrow> informs w w' \<and> (client_ok w \<longrightarrow> client_ok w')"
  by (auto simp: same_view_def informs_def client_ok_def)

lemma safe_close_view:
  assumes "safe_close_threads es w = Inr w'" "\<forall>e\<in>set es. ends_socket e" "client_ok w"
  shows "informs w w'" "client_thread w' = Client_stopped" "\<not> m_is_connected w'"
proof -
  let ?w = "clear_all_queues (do_interrupt_and_exit w)"
  have s: "same_view w ?w" using told_views(7)[of w] told_views(2)[of "do_interrupt_and_exit w"] by (simp add: same_view_def)
  have v: "informs w ?w" "client_ok ?w" using same_view_ok[OF s] assms(3) by simp_all
  have r: "informs ?w (request_write ?w)" "client_ok (request_write ?w)" using same_view_ok[OF told_views(8)[of ?w]] v(2) by simp_all
  have "informs ?w w' \<and> client_ok w' \<and> client_thread w' = Client_stopped"
  proof (cases "client_thread ?w = Client_stopped")
    case True
    then show ?thesis using assms(1) v(2) by (auto simp: safe_close_threads_def Let_def informs_def)
  next
    case False
    then have "client_steps es (request_write ?w) = Inr w'" "client_thread w' = Client_stopped"
      using assms(1) by (auto simp: safe_close_threads_def join_client_def ws_bind_Inr Let_def split: if_splits)
    then show ?thesis using client_steps_view[OF _ assms(2) r(2)] informs_trans[OF r(1)] by blast
  qed
  then show "informs w w'" "client_thread w' = Client_stopped" "\<not> m_is_connected w'"
    using informs_trans[OF v(1)] by (auto simp: client_ok_def)
qed

lemma start_view:
  assumes "start_connecting es w = Inr (b, w')" "\<forall>e\<in>set es. ends_socket e" "client_ok w"
  shows "informs w w' \<and> client_ok w'"
proof (cases "callbacks_registered w")
  case True
  let ?w = "w\<lparr>shutting_down := False, connected_ocpp_version := Version_Unknown\<rparr>"
  obtain x where x: "safe_close_threads es ?w = Inr x"
    "w' = x\<lparr>conn_data := Some new_ConnectionData, reconnect_timer_tpm := stop_timer (reconnect_timer_tpm x),
            connection_attempts := 1, client_thread := Client_connects\<rparr>"
    using assms(1) True by (auto simp: start_connecting_def ws_bind_Inr Let_def)
  have "informs w ?w \<and> client_ok ?w" using same_view_ok[of w ?w] assms(3) by (simp add: same_view_def)
  note c = safe_close_view[OF x(1) assms(2) conjunct2[OF this]] conjunct1[OF this]
  then show ?thesis using informs_trans[OF c(4) c(1)] x(2) by (simp add: informs_def client_ok_def)
qed (use assms in \<open>simp add: start_connecting_def informs_def\<close>)

lemma close_view:
  assumes "close_internal es w = Inr w'" "\<forall>e\<in>set es. ends_socket e" "client_ok w"
  shows "informs w w' \<and> client_ok w'"
proof (cases "is_trying_to_connect w \<or> m_is_connected w")
  case True
  then obtain x where x: "safe_close_threads es w = Inr x"
    "w' = x\<lparr>conn_data := None, m_is_connected := False, reconnect_timer_tpm := stop_timer (reconnect_timer_tpm x)\<rparr>"
    using assms(1) by (auto simp: close_internal_def ws_bind_Inr)
  then show ?thesis using safe_close_view[OF x(1) assms(2,3)] by (simp add: informs_def client_ok_def)
qed (use assms in \<open>simp add: close_internal_def informs_def\<close>)

lemma disconnect_view:
  assumes "ws_disconnect es code w = Inr w'" "\<forall>e\<in>set es. ends_socket e" "client_ok w"
  shows "informs w w' \<and> client_ok w'"
proof (cases "callbacks_registered w")
  case True
  define x where "x = (if code = Close_Normal then w\<lparr>shutting_down := True\<rparr> else w)\<lparr>ping_timer := stop_timer (ping_timer w)\<rparr>"
  have c: "close_internal es x = Inr w'" using assms(1) True by (auto simp: ws_disconnect_def x_def Let_def)
  have "same_view w x" by (simp add: same_view_def x_def)
  then have "informs w x" "client_ok x" using same_view_ok[of w x] assms(3) by simp_all
  then show ?thesis using close_view[OF c assms(2)] informs_trans by blast
qed (use assms in \<open>simp add: ws_disconnect_def informs_def\<close>)

lemma maybe_close_view:
  assumes "(if m_is_connected w \<or> is_trying_to_connect w then close_internal es w else Inr w) = Inr w'" "\<forall>e\<in>set es. ends_socket e" "client_ok w"
  shows "informs w w' \<and> client_ok w'"
  using assms close_view[of es w w'] by (auto simp: informs_def split: if_splits)

lemma reconnect_view:
  assumes "ws_reconnect e es delay w = Inr w'" "\<forall>e\<in>set es. ends_socket e" "client_ok w"
  shows "informs w w' \<and> client_ok w'"
proof (cases "shutting_down w")
  case False
  then obtain x t where x: "(if m_is_connected w \<or> is_trying_to_connect w then close_internal es w else Inr w) = Inr x"
    "w' = x\<lparr>reconnect_timer_tpm := t\<rparr>"
    using assms(1) by (auto simp: ws_reconnect_def ws_bind_Inr)
  then show ?thesis using maybe_close_view[OF x(1) assms(2,3)] by (simp add: informs_def client_ok_def)
qed (use assms in \<open>simp add: ws_reconnect_def informs_def\<close>)

lemma reconnect_now_view:
  assumes "reconnect_now es es' w = Inr (b, w')" "\<forall>e\<in>set es \<union> set es'. ends_socket e" "client_ok w"
  shows "informs w w' \<and> client_ok w'"
proof -
  obtain x where x: "(if m_is_connected w \<or> is_trying_to_connect w then close_internal es w else Inr w) = Inr x" "start_connecting es' x = Inr (b, w')"
    using assms(1) by (auto simp: reconnect_now_def ws_bind_Inr)
  then show ?thesis using maybe_close_view[OF x(1)] start_view[OF x(2)] assms(2,3) informs_trans by blast
qed

lemma pong_view:
  assumes "on_pong_timeout es w = Inr w'" "\<forall>e\<in>set es. ends_socket e" "client_ok w"
  shows "informs w w' \<and> client_ok w'"
proof -
  have "same_view w (w\<lparr>reconnecting := True\<rparr>)" by (simp add: same_view_def)
  note v = same_view_ok[OF this]
  show ?thesis
    using assms v informs_trans[of w "w\<lparr>reconnecting := True\<rparr>" w'] close_view[of es "w\<lparr>reconnecting := True\<rparr>" w']
    by (auto simp: on_pong_timeout_def informs_def split: if_splits)
qed

lemma poll_view:
  assumes "poll_message es m w = Inr w'" "\<forall>e\<in>set es. ends_socket e" "client_ok w"
  shows "informs w w' \<and> client_ok w'"
proof -
  let ?q = "request_write (w\<lparr>ws_message_queue := ws_message_queue w @ [m]\<rparr>)"
  have "same_view w ?q" using told_views(8)[of "w\<lparr>ws_message_queue := ws_message_queue w @ [m]\<rparr>"] by (simp add: same_view_def)
  then have q: "informs w ?q" "client_ok ?q" using same_view_ok[of w ?q] assms(3) by simp_all
  have "w' = w \<or> client_steps es ?q = Inr w'" using assms(1) by (auto simp: poll_message_def split: if_splits option.splits)
  then show ?thesis using client_steps_view[OF _ assms(2) q(2)] informs_trans[OF q(1)] assms(3) by (auto simp: informs_def)
qed

section \<open>The application\<close>

fun waits_for :: "ws_op \<Rightarrow> client_env list" where
  "waits_for (Ws_start es) = es"
| "waits_for (Ws_disconnect es code) = es"
| "waits_for (Ws_send es s) = es"
| "waits_for (Ws_ping es) = es"
| "waits_for (Ws_client e) = [e]"
| "waits_for (Ws_reconnect e es delay) = es"
| "waits_for (Ws_reconnect_now es es') = es @ es'"
| "waits_for (Ws_pong_timeout es) = es"
| "waits_for _ = []"

definition delivered :: "ws_op \<Rightarrow> websocket \<Rightarrow> deferred list" where
  "delivered op w = (if op = Ws_deferred then (case fst (deferred_step w) of None \<Rightarrow> [] | Some c \<Rightarrow> [c]) else [])"

text \<open>A connection, and the callbacks the application has got from it.\<close>

inductive ws_delivers :: "websocket \<Rightarrow> deferred list \<Rightarrow> bool" where
  boot: "new_WebsocketLibwebsockets opts = Inr w \<Longrightarrow> ws_delivers w []"
| step: "ws_delivers w cs \<Longrightarrow> \<forall>e\<in>set (waits_for op). ends_socket e \<Longrightarrow> ws_step op w = Inr w' \<Longrightarrow>
           ws_delivers w' (cs @ delivered op w)"

lemma ws_step_view:
  assumes "ws_step op w = Inr w'" "\<forall>e\<in>set (waits_for op). ends_socket e" "client_ok w" "op \<noteq> Ws_deferred"
  shows "informs w w' \<and> client_ok w'"
proof -
  have q: "same_view w (w\<lparr>ws_objects := n\<rparr>)" for n by (simp add: same_view_def)
  have new: "client_ok (w\<lparr>ws_objects := n\<rparr>)" "informs w w1" if "informs (w\<lparr>ws_objects := n\<rparr>) w1" for n w1
    using same_view_ok[OF q] assms(3) that by (simp_all add: informs_def)
  have ok: "client_ok (w\<lparr>ws_objects := n\<rparr>)" for n using same_view_ok[OF q] assms(3) by simp
  show ?thesis
  proof (cases op)
    case (Ws_send es s)
    then have "w' = w \<or> (\<exists>m n. poll_message es m (w\<lparr>ws_objects := n\<rparr>) = Inr w')"
      using assms(1) by (auto simp: send_def new_WebsocketMessage_def ws_bind_Inr Let_def split: if_splits)
    then show ?thesis using poll_view[OF _ _ ok] new(2) assms(2,3) Ws_send by (fastforce simp: informs_def)
  next
    case (Ws_ping es)
    then have "\<exists>m n. poll_message es m (w\<lparr>ws_objects := n\<rparr>) = Inr w'"
      using assms(1) by (auto simp: ocpp_ping_def new_WebsocketMessage_def Let_def)
    then show ?thesis using poll_view[OF _ _ ok] new(2) assms(2) Ws_ping by fastforce
  next
    case (Ws_start es)
    then show ?thesis using assms start_view by (auto simp: ws_bind_Inr)
  next
    case (Ws_disconnect es code)
    then show ?thesis using assms disconnect_view by simp
  next
    case (Ws_client e)
    then show ?thesis using assms client_step_view by simp
  next
    case (Ws_reconnect e es delay)
    then show ?thesis using assms reconnect_view by simp
  next
    case (Ws_reconnect_now es es')
    then show ?thesis using assms reconnect_now_view by (auto simp: ws_bind_Inr)
  next
    case (Ws_pong_timeout es)
    then show ?thesis using assms pong_view by simp
  next
    case (Ws_ping_interval e i)
    then show ?thesis using assms same_view_ok[OF told_views(9)] by auto
  next
    case (Ws_options opts)
    then have "same_view w w'"
      using assms(1) by (auto simp: set_connection_options_def same_view_def Let_def split: if_splits)
    then show ?thesis using same_view_ok assms(3) by blast
  next
    case (Ws_recv polling)
    then have "same_view w w'" using assms(1) by (auto simp: recv_step_def same_view_def split: if_splits list.splits)
    then show ?thesis using same_view_ok assms(3) by blast
  qed (use assms in \<open>auto simp: informs_def client_ok_def set_authorization_key_def\<close>)
qed

lemma view_informs:
  "informs w w' \<Longrightarrow> app_view (cs @ deferred_callback_queue w) = m_is_connected w \<Longrightarrow>
   app_view (cs @ deferred_callback_queue w') = m_is_connected w'"
  by (auto simp: informs_def app_view_def)

text \<open>
  (C12) The callbacks the application has got, followed by those still in the queue, tell whether the connection stands:
  the last of them is of a connection just when there is one. Once the queue is empty the application knows the state of the connection.
\<close>

theorem application_knows_the_connection:
  assumes "ws_delivers w cs"
  shows "app_view (cs @ deferred_callback_queue w) = m_is_connected w"
proof -
  have "client_ok w \<and> app_view (cs @ deferred_callback_queue w) = m_is_connected w"
    using assms
  proof (induction rule: ws_delivers.induct)
    case (boot opts w)
    then show ?case
      by (auto simp: new_WebsocketLibwebsockets_def set_connection_options_def fresh_websocket_def client_ok_def app_view_def Let_def split: if_splits)
  next
    case (step w cs op w')
    show ?case
    proof (cases "op = Ws_deferred")
      case True
      then show ?thesis using step
        by (cases "deferred_callback_queue w") (auto simp: delivered_def deferred_step_def client_ok_def app_view_def)
    next
      case False
      then show ?thesis
        using ws_step_view[OF step.hyps(3,2)] step.IH view_informs[of w w' cs] by (simp add: delivered_def)
    qed
  qed
  then show ?thesis by simp
qed

text \<open>A connection is established, and lost again; the application has only got the first callback.\<close>

definition ending :: "lws_callback list \<Rightarrow> client_env" where
  "ending cbs = (serving cbs)\<lparr>ce_destroy := [Wsi_destroy]\<rparr>"

lemma ending_ends: "ends_socket (ending cbs)"
  by (simp add: ends_socket_def ending_def)

lemma lost_connection:
  "\<exists>w. ws_delivers w [Deferred_connected] \<and> \<not> m_is_connected w \<and> deferred_callback_queue w = [Deferred_disconnected]"
proof -
  have c: "client_step (ending [Established]) started_websocket = Inr connected_websocket"
    using connected_step by (simp add: ending_def connected_websocket_def serving_defs Let_def)
  have l: "\<exists>w. client_step (ending [Client_closed]) (snd (deferred_step connected_websocket)) = Inr w \<and> \<not> m_is_connected w \<and>
      deferred_callback_queue w = [Deferred_disconnected]"
    by (simp add: ending_def connected_websocket_def serving_defs deferred_step_def on_conn_fail_def reset_connection_data_def after_attempt_def
        get_reconnect_interval_def Let_def)
  then obtain w where w: "client_step (ending [Client_closed]) (snd (deferred_step connected_websocket)) = Inr w" "\<not> m_is_connected w"
      "deferred_callback_queue w = [Deferred_disconnected]" by blast
  have "ws_delivers (idle_websocket\<lparr>callbacks_registered := False\<rparr>) []" using idle_new by (rule ws_delivers.boot)
  then have "ws_delivers idle_websocket ([] @ delivered Ws_register (idle_websocket\<lparr>callbacks_registered := False\<rparr>))"
    by (rule ws_delivers.step) (simp_all add: idle_websocket_def)
  then have "ws_delivers started_websocket ([] @ delivered (Ws_start []) idle_websocket)"
    by (simp only: delivered_def) (rule ws_delivers.step[where op = "Ws_start []" and cs = "[]" and w = idle_websocket, unfolded delivered_def]; simp add: start_idle)
  then have "ws_delivers connected_websocket ([] @ delivered (Ws_client (ending [Established])) started_websocket)"
    by (intro ws_delivers.step[where cs = "[]" and w = started_websocket]) (simp_all add: delivered_def c ending_ends)
  then have "ws_delivers (snd (deferred_step connected_websocket)) ([] @ delivered Ws_deferred connected_websocket)"
    by (intro ws_delivers.step[where cs = "[]" and w = connected_websocket]) (simp_all add: delivered_def)
  moreover have "delivered Ws_deferred connected_websocket = [Deferred_connected]"
    by (simp add: delivered_def deferred_step_def connected_websocket_def serving_defs Let_def)
  ultimately have "ws_delivers (snd (deferred_step connected_websocket)) [Deferred_connected]" by simp
  then have "ws_delivers w ([Deferred_connected] @ delivered (Ws_client (ending [Client_closed])) (snd (deferred_step connected_websocket)))"
    by (rule ws_delivers.step) (simp_all add: ending_ends w(1))
  then show ?thesis using w by (auto simp: delivered_def)
qed

theorem application_knows_the_connection_witness:
  "\<exists>w. ws_delivers w [Deferred_connected] \<and> \<not> app_view ([Deferred_connected] @ deferred_callback_queue w)"
  using lost_connection application_knows_the_connection by blast

end
