(* ===== verification/Connectivity_Manager.thy ===== *)
theory Connectivity_Manager
  imports Websocket_Client
begin

text \<open>
  The manager of the connection to the CSMS, \<open>ocpp/v2/connectivity_manager.cpp\<close>: the profile of the network, which the
  build takes from the firmware, the object of the connection, and the attempts to connect again. The calls on the
  charge point are a log. The results of the profile callback, which the firmware does not register, are an argument,
  as is the identity the firmware is configured with.
\<close>

datatype cm_error = Websocket_error ws_error | Out_of_range | No_network_profile

type_synonym 'a cm_result = "cm_error + 'a"

fun cm_bind :: "'a cm_result \<Rightarrow> ('a \<Rightarrow> 'b cm_result) \<Rightarrow> 'b cm_result" where
  "cm_bind (Inl e) f = Inl e"
| "cm_bind (Inr x) f = f x"

definition of_ws :: "'a ws_result \<Rightarrow> 'a cm_result" where
  "of_ws r = (case r of Inl e \<Rightarrow> Inl (Websocket_error e) | Inr x \<Rightarrow> Inr x)"

datatype cm_timer_callback = Try_again WebsocketCloseReason

datatype cm_event =
    Cp_connected int NetworkConnectionProfile OcppProtocolVersion
  | Cp_disconnected int NetworkConnectionProfile OcppProtocolVersion
  | Cp_connection_failed ConnectionFailedReason
  | Cp_message string
  | Set_reconnect_event

record connectivity_manager =
  cm_websocket :: "websocket option"
  websocket_connected_callback :: bool
  websocket_disconnected_callback :: bool
  websocket_connection_failed_callback :: bool
  configure_network_connection_profile_callback :: bool
  websocket_timer :: "cm_timer_callback steady_timer"
  pending_configuration_slot :: "int option"
  wants_to_be_connected :: bool
  active_network_configuration_priority :: int
  cached_network_connection_profiles :: "(int \<times> NetworkConnectionProfile) list"
  network_connection_slots :: "int list"
  cm_ocpp_version :: OcppProtocolVersion
  cm_log :: "cm_event list"

text \<open>What the surroundings answer: the steps of the client while an operation waits for it, and the rest.\<close>

record cm_env =
  ev_client :: "client_env list"
  ev_timer :: timer_env
  ev_identity :: string
  ev_options :: WebsocketConnectionOptions
  ev_configured :: "bool option"

definition cm_do :: "cm_event \<Rightarrow> connectivity_manager \<Rightarrow> connectivity_manager" where
  "cm_do x m = m\<lparr>cm_log := cm_log m @ [x]\<rparr>"

definition cache_network_connection_profiles :: "NetworkConnectionProfile \<Rightarrow> connectivity_manager \<Rightarrow> connectivity_manager" where
  "cache_network_connection_profiles p m =
     m\<lparr>cached_network_connection_profiles := cached_network_connection_profiles m @ [(1, p)],
       network_connection_slots := network_connection_slots m @ [1]\<rparr>"

definition new_ConnectivityManager :: "NetworkConnectionProfile \<Rightarrow> connectivity_manager" where
  "new_ConnectivityManager p =
     cache_network_connection_profiles p
       \<lparr>cm_websocket = None, websocket_connected_callback = False, websocket_disconnected_callback = False,
        websocket_connection_failed_callback = False, configure_network_connection_profile_callback = False,
        websocket_timer = new_steady_timer, pending_configuration_slot = None, wants_to_be_connected = False,
        active_network_configuration_priority = 0, cached_network_connection_profiles = [], network_connection_slots = [],
        cm_ocpp_version = Version_Unknown, cm_log = []\<rparr>"

definition set_websocket_connected_callback :: "connectivity_manager \<Rightarrow> connectivity_manager" where
  "set_websocket_connected_callback m = m\<lparr>websocket_connected_callback := True\<rparr>"

definition set_websocket_disconnected_callback :: "connectivity_manager \<Rightarrow> connectivity_manager" where
  "set_websocket_disconnected_callback m = m\<lparr>websocket_disconnected_callback := True\<rparr>"

definition set_websocket_connection_failed_callback :: "connectivity_manager \<Rightarrow> connectivity_manager" where
  "set_websocket_connection_failed_callback m = m\<lparr>websocket_connection_failed_callback := True\<rparr>"

definition set_configure_network_connection_profile_callback :: "connectivity_manager \<Rightarrow> connectivity_manager" where
  "set_configure_network_connection_profile_callback m = m\<lparr>configure_network_connection_profile_callback := True\<rparr>"

definition get_network_connection_profile :: "int \<Rightarrow> connectivity_manager \<Rightarrow> NetworkConnectionProfile option" where
  "get_network_connection_profile configuration_slot m =
     map_option snd (List.find (\<lambda>(slot, p). slot = configuration_slot) (cached_network_connection_profiles m))"

fun position :: "int \<Rightarrow> int list \<Rightarrow> nat option" where
  "position x [] = None"
| "position x (y # ys) = (if x = y then Some 0 else map_option Suc (position x ys))"

definition get_priority_from_configuration_slot :: "int \<Rightarrow> connectivity_manager \<Rightarrow> int option" where
  "get_priority_from_configuration_slot configuration_slot m = map_option int (position configuration_slot (network_connection_slots m))"

definition get_configuration_slot_from_priority :: "int \<Rightarrow> connectivity_manager \<Rightarrow> int cm_result" where
  "get_configuration_slot_from_priority priority m =
     (if 0 \<le> priority \<and> priority < int (length (network_connection_slots m))
      then Inr (network_connection_slots m ! nat priority) else Inl Out_of_range)"

definition get_active_network_configuration_slot :: "connectivity_manager \<Rightarrow> int cm_result" where
  "get_active_network_configuration_slot m = get_configuration_slot_from_priority (active_network_configuration_priority m) m"

definition get_next_configuration_slot :: "int \<Rightarrow> connectivity_manager \<Rightarrow> int cm_result" where
  "get_next_configuration_slot configuration_slot m =
     get_configuration_slot_from_priority
       (case get_priority_from_configuration_slot configuration_slot m of
          Some p \<Rightarrow> (p + 1) mod int (length (network_connection_slots m))
        | None \<Rightarrow> 0) m"

definition is_websocket_connected :: "connectivity_manager \<Rightarrow> bool" where
  "is_websocket_connected m \<longleftrightarrow> (case cm_websocket m of None \<Rightarrow> False | Some w \<Rightarrow> m_is_connected w)"

text \<open>Runs an operation of the connection, when there is one.\<close>

definition on_websocket :: "(websocket \<Rightarrow> websocket ws_result) \<Rightarrow> connectivity_manager \<Rightarrow> connectivity_manager cm_result" where
  "on_websocket f m =
     (case cm_websocket m of
        None \<Rightarrow> Inr m
      | Some w \<Rightarrow> cm_bind (of_ws (f w)) (\<lambda>w. Inr (m\<lparr>cm_websocket := Some w\<rparr>)))"

definition set_websocket_authorization_key :: "cm_env \<Rightarrow> string \<Rightarrow> connectivity_manager \<Rightarrow> connectivity_manager cm_result" where
  "set_websocket_authorization_key e key m =
     on_websocket (\<lambda>w. ws_disconnect (ev_client e) ServiceRestart (set_authorization_key key w)) m"

definition set_websocket_connection_options :: "WebsocketConnectionOptions \<Rightarrow> connectivity_manager \<Rightarrow> connectivity_manager cm_result" where
  "set_websocket_connection_options opts m = on_websocket (set_connection_options opts) m"

definition get_ws_connection_options :: "cm_env \<Rightarrow> int \<Rightarrow> connectivity_manager \<Rightarrow> WebsocketConnectionOptions option cm_result" where
  "get_ws_connection_options e configuration_slot m =
     (case get_network_connection_profile configuration_slot m of
        None \<Rightarrow> Inl No_network_profile
      | Some p \<Rightarrow>
          (case parse_and_validate (ocppCsmsUrl p) (ev_identity e) (securityProfile p) of
             Inl _ \<Rightarrow> Inr None
           | Inr uri \<Rightarrow>
               Inr (Some ((ev_options e)\<lparr>csms_uri := uri, ocpp_versions := ocpp_versions (ev_options e) @ [v21, v201],
                                         security_profile := securityProfile p\<rparr>))))"

definition set_websocket_connection_options_without_reconnect :: "cm_env \<Rightarrow> connectivity_manager \<Rightarrow> connectivity_manager cm_result" where
  "set_websocket_connection_options_without_reconnect e m =
     cm_bind (get_active_network_configuration_slot m) (\<lambda>slot.
       cm_bind (get_ws_connection_options e slot m) (\<lambda>opts.
         case opts of None \<Rightarrow> Inr m | Some opts \<Rightarrow> set_websocket_connection_options opts m))"

definition handle_configure_network_connection_profile_callback :: "cm_env \<Rightarrow> connectivity_manager \<Rightarrow> bool option" where
  "handle_configure_network_connection_profile_callback e m =
     (if \<not> configure_network_connection_profile_callback m then None else ev_configured e)"

text \<open>
  The slot and the priority are those of the only profile. The object of the connection is made at the first attempt,
  with its callbacks.
\<close>

definition open_websocket :: "cm_env \<Rightarrow> WebsocketConnectionOptions \<Rightarrow> connectivity_manager \<Rightarrow> connectivity_manager cm_result" where
  "open_websocket e opts m =
     cm_bind (of_ws (case cm_websocket m of
                       None \<Rightarrow> new_WebsocketLibwebsockets opts
                     | Some w \<Rightarrow> set_connection_options opts w)) (\<lambda>w.
       cm_bind (of_ws (start_connecting (ev_client e) (w\<lparr>callbacks_registered := True\<rparr>))) (\<lambda>(_, w).
         Inr (m\<lparr>cm_websocket := Some w\<rparr>)))"

definition try_connect_websocket :: "cm_env \<Rightarrow> connectivity_manager \<Rightarrow> connectivity_manager cm_result" where
  "try_connect_websocket e m =
     (let configuration_slot_to_set = 1; m = m\<lparr>pending_configuration_slot := Some 1\<rparr>; priority_to_set = 0
      in cm_bind (get_ws_connection_options e configuration_slot_to_set m) (\<lambda>connection_options.
           case connection_options of
             None \<Rightarrow> Inr m
           | Some opts \<Rightarrow>
               (if configure_network_connection_profile_callback m \<and>
                   handle_configure_network_connection_profile_callback e m \<noteq> Some True
                then Inr m
                else open_websocket e opts
                       (m\<lparr>pending_configuration_slot := None, active_network_configuration_priority := priority_to_set\<rparr>))))"

definition connect :: "cm_env \<Rightarrow> int option \<Rightarrow> connectivity_manager \<Rightarrow> connectivity_manager cm_result" where
  "connect e configuration_slot_opt m =
     (if network_connection_slots m = [] then Inr m
      else cm_bind (get_active_network_configuration_slot m) (\<lambda>active.
        let configuration_slot = (case configuration_slot_opt of Some s \<Rightarrow> s | None \<Rightarrow> active)
        in if get_network_connection_profile configuration_slot m = None then Inr m
           else (let m = m\<lparr>wants_to_be_connected := True, pending_configuration_slot := Some configuration_slot\<rparr>
                 in if is_websocket_connected m then on_websocket (ws_disconnect (ev_client e) ServiceRestart) m
                    else try_connect_websocket e m)))"

definition cm_disconnect :: "cm_env \<Rightarrow> connectivity_manager \<Rightarrow> connectivity_manager cm_result" where
  "cm_disconnect e m =
     on_websocket (ws_disconnect (ev_client e) Close_Normal)
       (m\<lparr>wants_to_be_connected := False, websocket_timer := stop_timer (websocket_timer m)\<rparr>)"

definition confirm_successful_connection :: "connectivity_manager \<Rightarrow> connectivity_manager cm_result" where
  "confirm_successful_connection m = cm_bind (get_active_network_configuration_slot m) (\<lambda>_. Inr m)"

definition send_to_websocket :: "client_env list \<Rightarrow> string \<Rightarrow> connectivity_manager \<Rightarrow> (bool \<times> connectivity_manager) cm_result" where
  "send_to_websocket es message m =
     (case cm_websocket m of
        None \<Rightarrow> Inr (False, m)
      | Some w \<Rightarrow> cm_bind (of_ws (send es message w)) (\<lambda>(sent, w). Inr (sent, m\<lparr>cm_websocket := Some w\<rparr>)))"

definition on_network_disconnected :: "cm_env \<Rightarrow> string \<Rightarrow> connectivity_manager \<Rightarrow> connectivity_manager cm_result" where
  "on_network_disconnected e ocpp_interface m =
     cm_bind (get_active_network_configuration_slot m) (\<lambda>slot.
       case get_network_connection_profile slot m of
         None \<Rightarrow> Inr m
       | Some p \<Rightarrow> (if ocpp_interface = ocppInterface p then on_websocket (ws_disconnect (ev_client e) GoingAway) m else Inr m))"

definition on_charging_station_certificate_changed :: "cm_env \<Rightarrow> connectivity_manager \<Rightarrow> connectivity_manager cm_result" where
  "on_charging_station_certificate_changed e m = on_websocket (ws_disconnect (ev_client e) ServiceRestart) m"

section \<open>Callbacks of the connection\<close>

definition on_websocket_connected :: "OcppProtocolVersion \<Rightarrow> connectivity_manager \<Rightarrow> connectivity_manager cm_result" where
  "on_websocket_connected version m =
     (let m = m\<lparr>cm_ocpp_version := version\<rparr>
      in cm_bind (get_active_network_configuration_slot m) (\<lambda>slot.
           Inr (case get_network_connection_profile slot m of
                  None \<Rightarrow> m
                | Some p \<Rightarrow> (if websocket_connected_callback m then cm_do (Cp_connected slot p (cm_ocpp_version m)) m else m))))"

definition on_websocket_disconnected :: "connectivity_manager \<Rightarrow> connectivity_manager cm_result" where
  "on_websocket_disconnected m =
     cm_bind (get_active_network_configuration_slot m) (\<lambda>slot.
       Inr (case get_network_connection_profile slot m of
              None \<Rightarrow> m
            | Some p \<Rightarrow> (if websocket_disconnected_callback m then cm_do (Cp_disconnected slot p (cm_ocpp_version m)) m else m)))"

definition WEBSOCKET_INIT_DELAY :: int where
  "WEBSOCKET_INIT_DELAY = 30"

definition on_websocket_stopped_connecting :: "timer_env \<Rightarrow> WebsocketCloseReason \<Rightarrow> connectivity_manager \<Rightarrow> connectivity_manager" where
  "on_websocket_stopped_connecting e reason m =
     (if wants_to_be_connected m
      then m\<lparr>websocket_timer := timeout_duration e (Try_again reason) WEBSOCKET_INIT_DELAY (websocket_timer m)\<rparr>
      else m)"

text \<open>The timer for the next attempt expires: the OCPP task is told to connect again.\<close>

definition websocket_timer_fires :: "connectivity_manager \<Rightarrow> connectivity_manager" where
  "websocket_timer_fires m =
     (let (cb, t) = timer_expires (websocket_timer m);
          m = m\<lparr>websocket_timer := t\<rparr>
      in case cb of
           None \<Rightarrow> m
         | Some (Try_again reason) \<Rightarrow>
             cm_do Set_reconnect_event (if reason \<noteq> ServiceRestart then m\<lparr>pending_configuration_slot := Some 1\<rparr> else m))"

definition run_deferred_callback :: "timer_env \<Rightarrow> OcppProtocolVersion \<Rightarrow> deferred \<Rightarrow> connectivity_manager \<Rightarrow> connectivity_manager cm_result" where
  "run_deferred_callback e version c m =
     (case c of
        Deferred_connected \<Rightarrow> on_websocket_connected version m
      | Deferred_stopped_and_disconnected \<Rightarrow> on_websocket_disconnected (on_websocket_stopped_connecting e Close_Normal m)
      | Deferred_disconnected \<Rightarrow> on_websocket_disconnected m
      | Deferred_connection_failed reason \<Rightarrow>
          Inr (if websocket_connection_failed_callback m then cm_do (Cp_connection_failed reason) m else m))"

definition deferred_turn :: "timer_env \<Rightarrow> connectivity_manager \<Rightarrow> connectivity_manager cm_result" where
  "deferred_turn e m =
     (case cm_websocket m of
        None \<Rightarrow> Inr m
      | Some w \<Rightarrow>
          (let (c, w') = deferred_step w; m = m\<lparr>cm_websocket := Some w'\<rparr>
           in case c of None \<Rightarrow> Inr m | Some c \<Rightarrow> run_deferred_callback e (connected_ocpp_version w) c m))"

definition recv_turn :: "bool \<Rightarrow> connectivity_manager \<Rightarrow> connectivity_manager" where
  "recv_turn polling m =
     (case cm_websocket m of
        None \<Rightarrow> m
      | Some w \<Rightarrow>
          (let (s, w) = recv_step polling w; m = m\<lparr>cm_websocket := Some w\<rparr>
           in case s of None \<Rightarrow> m | Some s \<Rightarrow> cm_do (Cp_message s) m))"

definition client_turn :: "client_env \<Rightarrow> connectivity_manager \<Rightarrow> connectivity_manager cm_result" where
  "client_turn e m = on_websocket (client_step e) m"

end
