(* ===== verification/Connectivity_Manager_Props.thy ===== *)
theory Connectivity_Manager_Props
  imports Connectivity_Manager
begin

text \<open>
  The states the manager of the connection reaches: it has the one profile of the firmware, so no look-up of a profile fails, the
  timer for the next attempt runs only while the charge point wants a connection, and a connection that has stopped is tried
  again.
\<close>

section \<open>Operations\<close>

datatype cm_op =
    Cm_connected_callback
  | Cm_disconnected_callback
  | Cm_failed_callback
  | Cm_profile_callback
  | Cm_connect cm_env "int option"
  | Cm_disconnect cm_env
  | Cm_authorization_key cm_env string
  | Cm_options WebsocketConnectionOptions
  | Cm_options_again cm_env
  | Cm_confirm
  | Cm_send "client_env list" string
  | Cm_network_disconnected cm_env string
  | Cm_certificate_changed cm_env
  | Cm_client client_env
  | Cm_recv bool
  | Cm_deferred timer_env
  | Cm_timer

fun cm_step :: "cm_op \<Rightarrow> connectivity_manager \<Rightarrow> connectivity_manager cm_result" where
  "cm_step Cm_connected_callback m = Inr (set_websocket_connected_callback m)"
| "cm_step Cm_disconnected_callback m = Inr (set_websocket_disconnected_callback m)"
| "cm_step Cm_failed_callback m = Inr (set_websocket_connection_failed_callback m)"
| "cm_step Cm_profile_callback m = Inr (set_configure_network_connection_profile_callback m)"
| "cm_step (Cm_connect e slot) m = connect e slot m"
| "cm_step (Cm_disconnect e) m = cm_disconnect e m"
| "cm_step (Cm_authorization_key e key) m = set_websocket_authorization_key e key m"
| "cm_step (Cm_options opts) m = set_websocket_connection_options opts m"
| "cm_step (Cm_options_again e) m = set_websocket_connection_options_without_reconnect e m"
| "cm_step Cm_confirm m = confirm_successful_connection m"
| "cm_step (Cm_send es s) m = cm_bind (send_to_websocket es s m) (\<lambda>(_, m). Inr m)"
| "cm_step (Cm_network_disconnected e i) m = on_network_disconnected e i m"
| "cm_step (Cm_certificate_changed e) m = on_charging_station_certificate_changed e m"
| "cm_step (Cm_client e) m = client_turn e m"
| "cm_step (Cm_recv polling) m = Inr (recv_turn polling m)"
| "cm_step (Cm_deferred e) m = deferred_turn e m"
| "cm_step Cm_timer m = Inr (websocket_timer_fires m)"

inductive cm_reachable :: "NetworkConnectionProfile \<Rightarrow> connectivity_manager \<Rightarrow> bool" for p where
  boot: "cm_reachable p (new_ConnectivityManager p)"
| step: "cm_reachable p m \<Longrightarrow> cm_step op m = Inr m' \<Longrightarrow> cm_reachable p m'"

section \<open>Invariants\<close>

definition one_profile :: "NetworkConnectionProfile \<Rightarrow> connectivity_manager \<Rightarrow> bool" where
  "one_profile p m \<longleftrightarrow> cached_network_connection_profiles m = [(1, p)] \<and> network_connection_slots m = [1] \<and>
     active_network_configuration_priority m = 0"

definition timer_ok :: "connectivity_manager \<Rightarrow> bool" where
  "timer_ok m \<longleftrightarrow> (timer_active (websocket_timer m) \<noteq> None \<longrightarrow>
     timerHandle (websocket_timer m) \<and> wants_to_be_connected m \<and> tCallback (websocket_timer m) = Some (Try_again Close_Normal))"

lemma cm_bind_Inr: "cm_bind r f = Inr y \<longleftrightarrow> (\<exists>x. r = Inr x \<and> f x = Inr y)"
  by (cases r) simp_all

lemma profile_lookups:
  assumes "one_profile p m"
  shows "get_active_network_configuration_slot m = Inr 1" "get_network_connection_profile 1 m = Some p"
    "get_network_connection_profile s m = (if s = 1 then Some p else None)"
  using assms
  by (simp_all add: one_profile_def get_active_network_configuration_slot_def get_configuration_slot_from_priority_def get_network_connection_profile_def)

text \<open>What leaves profile, timer and wish alone.\<close>

definition same_plan :: "connectivity_manager \<Rightarrow> connectivity_manager \<Rightarrow> bool" where
  "same_plan m m' \<longleftrightarrow> cached_network_connection_profiles m' = cached_network_connection_profiles m \<and>
     network_connection_slots m' = network_connection_slots m \<and>
     active_network_configuration_priority m' = active_network_configuration_priority m \<and>
     websocket_timer m' = websocket_timer m \<and> (wants_to_be_connected m \<longrightarrow> wants_to_be_connected m')"

lemma same_plan_keeps: "same_plan m m' \<Longrightarrow> one_profile p m \<and> timer_ok m \<Longrightarrow> one_profile p m' \<and> timer_ok m'"
  by (auto simp: same_plan_def one_profile_def timer_ok_def)

lemma same_plan_trans: "same_plan m m' \<Longrightarrow> same_plan m' m'' \<Longrightarrow> same_plan m m''"
  by (simp add: same_plan_def)

lemma on_websocket_plan: "on_websocket f m = Inr m' \<Longrightarrow> same_plan m m'"
  by (auto simp: on_websocket_def cm_bind_Inr same_plan_def split: option.splits)

lemma open_plan: "open_websocket e opts m = Inr m' \<Longrightarrow> same_plan m m'"
  by (auto simp: open_websocket_def cm_bind_Inr same_plan_def)

lemma try_plan:
  assumes "try_connect_websocket e m = Inr m'" "one_profile p m"
  shows "same_plan m m'"
proof -
  let ?m = "m\<lparr>pending_configuration_slot := Some 1\<rparr>"
  let ?n = "?m\<lparr>pending_configuration_slot := None, active_network_configuration_priority := 0\<rparr>"
  have n: "same_plan m ?m" "same_plan m ?n" using assms(2) by (simp_all add: same_plan_def one_profile_def)
  have "m' = ?m \<or> (\<exists>opts. open_websocket e opts ?n = Inr m')"
    using assms(1) by (auto simp: try_connect_websocket_def Let_def cm_bind_Inr split: option.splits if_splits)
  then show ?thesis using n same_plan_trans[OF n(2) open_plan] by blast
qed

lemma connect_plan:
  assumes "connect e slot m = Inr m'" "one_profile p m"
  shows "same_plan m m'"
proof -
  have "m' = m \<or> (\<exists>s. let x = m\<lparr>wants_to_be_connected := True, pending_configuration_slot := Some s\<rparr>
      in on_websocket (ws_disconnect (ev_client e) ServiceRestart) x = Inr m' \<or> try_connect_websocket e x = Inr m')"
    using assms(1) by (auto simp: connect_def Let_def cm_bind_Inr split: if_splits)
  then consider "m' = m"
    | s where "on_websocket (ws_disconnect (ev_client e) ServiceRestart) (m\<lparr>wants_to_be_connected := True, pending_configuration_slot := Some s\<rparr>) = Inr m'"
    | s where "try_connect_websocket e (m\<lparr>wants_to_be_connected := True, pending_configuration_slot := Some s\<rparr>) = Inr m'"
    by (auto simp: Let_def)
  then show ?thesis
  proof cases
    case (2 s)
    have "same_plan m (m\<lparr>wants_to_be_connected := True, pending_configuration_slot := Some s\<rparr>)" by (simp add: same_plan_def)
    then show ?thesis using on_websocket_plan[OF 2] by (rule same_plan_trans)
  next
    case (3 s)
    have "same_plan m (m\<lparr>wants_to_be_connected := True, pending_configuration_slot := Some s\<rparr>)" by (simp add: same_plan_def)
    moreover have "one_profile p (m\<lparr>wants_to_be_connected := True, pending_configuration_slot := Some s\<rparr>)"
      using assms(2) by (simp add: one_profile_def)
    ultimately show ?thesis using try_plan[OF 3] same_plan_trans by blast
  qed (simp add: same_plan_def)
qed

lemma deferred_cases:
  assumes "deferred_turn e m = Inr m'" "one_profile p m"
  shows "same_plan m m' \<or> (\<exists>x. same_plan m x \<and> same_plan (on_websocket_stopped_connecting e Close_Normal x) m')"
proof (cases "cm_websocket m")
  case (Some w)
  obtain c w' where d: "deferred_step w = (c, w')" by (cases "deferred_step w")
  let ?x = "m\<lparr>cm_websocket := Some w'\<rparr>"
  have x: "same_plan m ?x" by (simp add: same_plan_def)
  have con: "same_plan y z" if on: "on_websocket_connected v y = Inr z" for v y z
  proof -
    let ?y = "y\<lparr>cm_ocpp_version := v\<rparr>"
    obtain slot where "z = (case get_network_connection_profile slot ?y of None \<Rightarrow> ?y
        | Some q \<Rightarrow> if websocket_connected_callback ?y then cm_do (Cp_connected slot q (cm_ocpp_version ?y)) ?y else ?y)"
      using on by (auto simp: on_websocket_connected_def cm_bind_Inr Let_def)
    then show ?thesis by (simp add: same_plan_def cm_do_def split: option.split)
  qed
  have dis: "same_plan y z" if on: "on_websocket_disconnected y = Inr z" for y z
  proof -
    obtain slot where "z = (case get_network_connection_profile slot y of None \<Rightarrow> y
        | Some q \<Rightarrow> if websocket_disconnected_callback y then cm_do (Cp_disconnected slot q (cm_ocpp_version y)) y else y)"
      using on by (auto simp: on_websocket_disconnected_def cm_bind_Inr)
    then show ?thesis by (simp add: same_plan_def cm_do_def split: option.split)
  qed
  show ?thesis
  proof (cases c)
    case None
    then show ?thesis using assms(1) Some d x by (auto simp: deferred_turn_def)
  next
    case (Some c')
    then have r: "run_deferred_callback e (connected_ocpp_version w) c' ?x = Inr m'"
      using assms(1) \<open>cm_websocket m = Some w\<close> d by (simp add: deferred_turn_def)
    then show ?thesis
    proof (cases c')
      case Deferred_connected
      then have "on_websocket_connected (connected_ocpp_version w) ?x = Inr m'" using r by (simp add: run_deferred_callback_def)
      then show ?thesis using same_plan_trans[OF x con] by blast
    next
      case Deferred_stopped_and_disconnected
      then have "on_websocket_disconnected (on_websocket_stopped_connecting e Close_Normal ?x) = Inr m'"
        using r by (simp add: run_deferred_callback_def)
      then show ?thesis using x dis by blast
    next
      case Deferred_disconnected
      then have "on_websocket_disconnected ?x = Inr m'" using r by (simp add: run_deferred_callback_def)
      then show ?thesis using same_plan_trans[OF x dis] by blast
    next
      case (Deferred_connection_failed q)
      then show ?thesis using r by (auto simp: run_deferred_callback_def same_plan_def cm_do_def)
    qed
  qed
qed (use assms in \<open>simp add: deferred_turn_def same_plan_def\<close>)

lemma stopped_keeps: "one_profile p m \<and> timer_ok m \<Longrightarrow>
    one_profile p (on_websocket_stopped_connecting e Close_Normal m) \<and> timer_ok (on_websocket_stopped_connecting e Close_Normal m)"
  by (auto simp: on_websocket_stopped_connecting_def one_profile_def timer_ok_def timeout_duration_def start_new_timer_def Let_def)

lemma cm_step_keeps:
  assumes "cm_step op m = Inr m'" "one_profile p m \<and> timer_ok m"
  shows "one_profile p m' \<and> timer_ok m'"
proof -
  have p: "same_plan m m' \<Longrightarrow> ?thesis" using same_plan_keeps assms(2) by blast
  show ?thesis
  proof (cases op)
    case (Cm_connect e slot)
    then show ?thesis using assms connect_plan p by auto
  next
    case (Cm_disconnect e)
    let ?m = "m\<lparr>wants_to_be_connected := False, websocket_timer := stop_timer (websocket_timer m)\<rparr>"
    have "one_profile p ?m \<and> timer_ok ?m" using assms(2) by (auto simp: one_profile_def timer_ok_def stop_timer_def)
    moreover have "same_plan ?m m'" using assms(1) Cm_disconnect on_websocket_plan by (simp add: cm_disconnect_def)
    ultimately show ?thesis using same_plan_keeps by blast
  next
    case (Cm_authorization_key e key)
    then show ?thesis using assms(1) on_websocket_plan p by (auto simp: set_websocket_authorization_key_def)
  next
    case (Cm_options opts)
    then show ?thesis using assms(1) on_websocket_plan p by (auto simp: set_websocket_connection_options_def)
  next
    case (Cm_options_again e)
    then have "m' = m \<or> (\<exists>opts. on_websocket (set_connection_options opts) m = Inr m')"
      using assms(1) by (auto simp: set_websocket_connection_options_without_reconnect_def set_websocket_connection_options_def cm_bind_Inr split: option.splits)
    then show ?thesis using on_websocket_plan p assms(2) by blast
  next
    case Cm_confirm
    then show ?thesis using assms by (auto simp: confirm_successful_connection_def cm_bind_Inr)
  next
    case (Cm_send es s)
    then have "same_plan m m'" using assms(1) by (auto simp: send_to_websocket_def cm_bind_Inr same_plan_def split: option.splits)
    then show ?thesis by (rule p)
  next
    case (Cm_network_disconnected e i)
    then have "m' = m \<or> on_websocket (ws_disconnect (ev_client e) GoingAway) m = Inr m'"
      using assms(1) by (auto simp: on_network_disconnected_def cm_bind_Inr split: option.splits if_splits)
    then show ?thesis using on_websocket_plan p assms(2) by blast
  next
    case (Cm_certificate_changed e)
    then show ?thesis using assms(1) on_websocket_plan p by (auto simp: on_charging_station_certificate_changed_def)
  next
    case (Cm_client e)
    then show ?thesis using assms(1) on_websocket_plan p by (auto simp: client_turn_def)
  next
    case (Cm_recv polling)
    then have "same_plan m m'"
      using assms(1) by (auto simp: recv_turn_def same_plan_def cm_do_def Let_def split: option.splits prod.splits)
    then show ?thesis by (rule p)
  next
    case (Cm_deferred e)
    then show ?thesis using assms deferred_cases[of e m m' p] p same_plan_keeps stopped_keeps by (metis cm_step.simps(16))
  next
    case Cm_timer
    then show ?thesis using assms
      by (auto simp: websocket_timer_fires_def timer_expires_def one_profile_def timer_ok_def cm_do_def Let_def
          split: option.splits prod.splits cm_timer_callback.splits)
  qed (use assms(1) p in \<open>auto simp: same_plan_def set_websocket_connected_callback_def set_websocket_disconnected_callback_def
        set_websocket_connection_failed_callback_def set_configure_network_connection_profile_callback_def\<close>)
qed

lemma cm_reachable_keeps: "cm_reachable p m \<Longrightarrow> one_profile p m \<and> timer_ok m"
proof (induction rule: cm_reachable.induct)
  case boot
  then show ?case
    by (simp add: new_ConnectivityManager_def cache_network_connection_profiles_def one_profile_def timer_ok_def new_steady_timer_def)
next
  case (step m op m')
  then show ?case using cm_step_keeps by blast
qed

section \<open>Attempts to connect again\<close>

text \<open>The timer for the next attempt runs only while the charge point wants to be connected.\<close>

lemma attempts_are_wanted:
  "cm_reachable p m \<Longrightarrow> timer_active (websocket_timer m) \<noteq> None \<Longrightarrow> wants_to_be_connected m"
  using cm_reachable_keeps[of p m] by (simp add: timer_ok_def)

text \<open>
  When the connection has stopped, for whatever reason, and the charge point wants one, the callback starts the
  timer of thirty seconds, and when that expires the task of OCPP is told to connect again.
\<close>

theorem stopped_connection_is_tried_again:
  assumes "cm_reachable p m" "cm_websocket m = Some w" "deferred_callback_queue w = Deferred_stopped_and_disconnected # cs"
    "wants_to_be_connected m" "timer_created e" "timer_started e"
  shows "\<exists>m'. deferred_turn e m = Inr m' \<and> timer_active (websocket_timer m') = Some (30000, False) \<and>
              cm_log (websocket_timer_fires m') = cm_log m' @ [Set_reconnect_event]"
proof -
  let ?x = "on_websocket_stopped_connecting e Close_Normal (m\<lparr>cm_websocket := Some (w\<lparr>deferred_callback_queue := cs\<rparr>)\<rparr>)"
  have t: "websocket_timer ?x = timeout_duration e (Try_again Close_Normal) WEBSOCKET_INIT_DELAY (websocket_timer m)"
    using assms(4) by (simp add: on_websocket_stopped_connecting_def)
  then have a: "timer_active (websocket_timer ?x) = Some (30000, False)" "tCallback (websocket_timer ?x) = Some (Try_again Close_Normal)"
    using assms(5,6) by (simp_all add: timeout_duration_def start_new_timer_def WEBSOCKET_INIT_DELAY_def Let_def)
  have "one_profile p ?x" using cm_reachable_keeps[OF assms(1)] by (simp add: on_websocket_stopped_connecting_def one_profile_def)
  then obtain m' where m': "on_websocket_disconnected ?x = Inr m'" "websocket_timer m' = websocket_timer ?x"
    using profile_lookups[of p ?x] by (simp add: on_websocket_disconnected_def cm_do_def)
  have "deferred_turn e m = Inr m'" using assms(2,3) m'(1) by (simp add: deferred_turn_def deferred_step_def run_deferred_callback_def)
  moreover have "cm_log (websocket_timer_fires m') = cm_log m' @ [Set_reconnect_event]"
    using a m'(2) by (simp add: websocket_timer_fires_def timer_expires_def cm_do_def)
  ultimately show ?thesis using a(1) m'(2) by auto
qed

text \<open>A connection that is interrupted for a new certificate before it is established.\<close>

definition sample_profile :: NetworkConnectionProfile where
  "sample_profile = \<lparr>ocppInterface = ''Wireless0'', ocppTransport = ''JSON'', messageTimeout = 30,
     ocppCsmsUrl = ''ws://csms:8082'', securityProfile = 1\<rparr>"

definition no_memory :: client_env where
  "no_memory = \<lparr>ce_context = False, ce_connect = False, ce_service = 0, ce_callbacks = [], ce_destroy = [], ce_random = 1,
     ce_timer = \<lparr>timer_created = True, timer_started = True\<rparr>\<rparr>"

definition sample_cm_env :: cm_env where
  "sample_cm_env = \<lparr>ev_client = [no_memory, no_memory], ev_timer = \<lparr>timer_created = True, timer_started = True\<rparr>, ev_identity = ''EVSE1'',
     ev_options = EVSE_OCPP_Get_Connection_Options (Some ''secret''), ev_configured = None\<rparr>"

lemma sample_uri:
  "parse_and_validate ''ws://csms:8082'' ''EVSE1'' 1 =
     Inr \<lparr>uri_secure = False, uri_host = ''csms'', uri_port = 8082, path_without_chargepoint_id = ''/'', uri_chargepoint_id = ''EVSE1''\<rparr>"
  by code_simp

lemma sample_get_options:
  "get_ws_connection_options sample_cm_env 1 m = Inr (Some ((EVSE_OCPP_Get_Connection_Options (Some ''secret''))\<lparr>csms_uri :=
       \<lparr>uri_secure = False, uri_host = ''csms'', uri_port = 8082, path_without_chargepoint_id = ''/'', uri_chargepoint_id = ''EVSE1''\<rparr>,
       ocpp_versions := [v21, v201], security_profile := 1\<rparr>))"
  if "one_profile sample_profile m"
  using profile_lookups(2)[OF that] sample_uri
  by (simp add: get_ws_connection_options_def sample_cm_env_def sample_profile_def EVSE_OCPP_Get_Connection_Options_def)

lemma sample_connect:
  "\<exists>m w. cm_step (Cm_connect sample_cm_env None) (new_ConnectivityManager sample_profile) = Inr m \<and> cm_websocket m = Some w \<and>
     wants_to_be_connected m \<and> client_thread w = Client_connects \<and> conn_data w = Some new_ConnectionData \<and>
     callbacks_registered w \<and> deferred_callback_queue w = [] \<and> \<not> m_is_connected w"
proof -
  let ?m = "new_ConnectivityManager sample_profile"
  have o: "one_profile sample_profile ?m"
    by (simp add: new_ConnectivityManager_def cache_network_connection_profiles_def one_profile_def)
  have f: "network_connection_slots ?m \<noteq> []" "cm_websocket ?m = None" "\<not> configure_network_connection_profile_callback ?m"
    by (simp_all add: new_ConnectivityManager_def cache_network_connection_profiles_def)
  have o': "one_profile sample_profile (?m\<lparr>wants_to_be_connected := True, pending_configuration_slot := Some 1\<rparr>)"
    using o by (simp add: one_profile_def)
  show ?thesis
    using f profile_lookups(1,2)[OF o] sample_get_options[OF o']
    by (simp add: connect_def is_websocket_connected_def try_connect_websocket_def open_websocket_def new_WebsocketLibwebsockets_def
        set_connection_options_def fresh_websocket_def start_connecting_def safe_close_threads_def do_interrupt_and_exit_def
        clear_all_queues_def of_ws_def EVSE_OCPP_Get_Connection_Options_def Let_def)
qed

lemma sample_interrupt:
  assumes "client_thread w = Client_connects" "conn_data w = Some new_ConnectionData" "callbacks_registered w" "deferred_callback_queue w = []"
    "\<not> m_is_connected w"
  shows "\<exists>w'. ws_disconnect [no_memory, no_memory] ServiceRestart w = Inr w' \<and> deferred_callback_queue w' = [Deferred_stopped_and_disconnected]"
  using assms
  by (simp add: ws_disconnect_def close_internal_def is_trying_to_connect_def new_ConnectionData_def safe_close_threads_def do_interrupt_and_exit_def
      clear_all_queues_def request_write_def join_client_def client_step_def client_connects_def no_memory_def after_attempt_def on_conn_fail_def
      update_state_def interrupted_def is_interupted_def client_finish_def push_deferred_callback_def Let_def)

theorem stopped_connection_is_tried_again_witness:
  "\<exists>m m'. cm_reachable sample_profile m \<and> deferred_turn (ev_timer sample_cm_env) m = Inr m' \<and>
          timer_active (websocket_timer m') = Some (30000, False) \<and> cm_log (websocket_timer_fires m') = cm_log m' @ [Set_reconnect_event]"
proof -
  obtain m w where m: "cm_step (Cm_connect sample_cm_env None) (new_ConnectivityManager sample_profile) = Inr m" "cm_websocket m = Some w"
    "wants_to_be_connected m" "client_thread w = Client_connects" "conn_data w = Some new_ConnectionData" "callbacks_registered w"
    "deferred_callback_queue w = []" "\<not> m_is_connected w"
    using sample_connect by blast
  have "cm_reachable sample_profile m" using cm_reachable.step[OF cm_reachable.boot m(1)] .
  moreover obtain w' where w': "ws_disconnect [no_memory, no_memory] ServiceRestart w = Inr w'"
    "deferred_callback_queue w' = [Deferred_stopped_and_disconnected]"
    using sample_interrupt[OF m(4-8)] by blast
  moreover have "cm_step (Cm_certificate_changed sample_cm_env) m = Inr (m\<lparr>cm_websocket := Some w'\<rparr>)"
    using m(2) w'(1) by (simp add: on_charging_station_certificate_changed_def on_websocket_def of_ws_def sample_cm_env_def)
  ultimately have r: "cm_reachable sample_profile (m\<lparr>cm_websocket := Some w'\<rparr>)" using cm_reachable.step by blast
  show ?thesis
    using stopped_connection_is_tried_again[OF r, of w' "[]" "ev_timer sample_cm_env"] m(3) w'(2) r by (auto simp: sample_cm_env_def)
qed

end
