(* ===== verification/Control_Pilot.thy ===== *)
theory Control_Pilot
  imports EVSE_Types
begin

text \<open>
  The control pilot driver (\<open>source/ControlPilot_Process.c\<close>): the timer that generates the pilot's
  pulse width modulation, the point at which the converter samples the pilot, and the raw value
  the interrupt stores. The timer and converter peripherals are driven through the vendor's
  drivers; each call is recorded in the log \<open>cp_hw\<close> in the order the code makes them. The timer
  clock, the default prescaler and the calibration status are arguments.
\<close>

section \<open>State\<close>

datatype cp_call =
    CTIMER_SetupPwmPeriod u32 u32
  | CTIMER_StartTimer
  | CTIMER_StopTimer
  | CTIMER_UpdatePwmOutput u32
  | CTIMER_UpdateAdcTrigger u32
  | CTIMER_SetupMatch u32
  | CTIMER_SetEM1
  | CTIMER_ClearEM1
  | ADC_DoSoftwareTrigger
  | ADC_ClearStatusFlags
  | ADC_StopConversion
  | ADC_Enabled

record control_pilot =
  s_u8CtimerInit :: u8
  s_u32CtimerPrescale :: u32
  s_u32PWMPeriod :: u32
  s_u32PulseWidth :: u32
  s_bConversionDataReady :: bool
  s_u16AdcCPRawValue :: u16
  s_fCPDutyCycle :: cfloat
  cp_hw :: "cp_call list"

definition cp_boot :: control_pilot where
  "cp_boot = \<lparr>s_u8CtimerInit = 0, s_u32CtimerPrescale = 0, s_u32PWMPeriod = 0, s_u32PulseWidth = 0,
     s_bConversionDataReady = False, s_u16AdcCPRawValue = 0, s_fCPDutyCycle = Fin 0, cp_hw = []\<rparr>"

abbreviation (input) CP_PWM_FREQ :: u32 where "CP_PWM_FREQ \<equiv> 1000"
abbreviation (input) CP_PWM_DEFAULT_DUTYCYCLE :: cfloat where "CP_PWM_DEFAULT_DUTYCYCLE \<equiv> Fin 100"

definition cp_do :: "cp_call \<Rightarrow> control_pilot \<Rightarrow> control_pilot" where
  "cp_do c s = s\<lparr>cp_hw := cp_hw s @ [c]\<rparr>"

section \<open>Operations\<close>

definition CTIMER3_IRQHandler_Match1CB :: "control_pilot \<Rightarrow> control_pilot" where
  "CTIMER3_IRQHandler_Match1CB s = cp_do ADC_DoSoftwareTrigger (cp_do CTIMER_SetEM1 s)"

text \<open>The sum is computed in \<open>int\<close> and truncated to 16 bits.\<close>

definition ADC_IRQHANDLER :: "bool \<Rightarrow> u16 \<Rightarrow> control_pilot \<Rightarrow> control_pilot" where
  "ADC_IRQHANDLER data_ready tmp_value s =
     (if data_ready
      then (let s = cp_do CTIMER_ClearEM1 s;
                s = s\<lparr>s_u16AdcCPRawValue := push_bit 1 (and tmp_value 0x7FFF) + 1200\<rparr>;
                s = cp_do ADC_StopConversion (cp_do ADC_ClearStatusFlags s)
            in s\<lparr>s_bConversionDataReady := True\<rparr>)
      else s)"

definition CTIMER_CalculateADCTriggerPoint :: "u32 \<Rightarrow> u32 \<Rightarrow> u32" where
  "CTIMER_CalculateADCTriggerPoint pwm_period pulse_width =
     (let w = (if pulse_width = 0 \<or> pulse_width = pwm_period + 1 then pwm_period div 2 else pulse_width)
      in w + (pwm_period - w) div 2)"

definition CTIMER_CalculatePWMPeriod :: "u32 \<Rightarrow> u32 \<Rightarrow> u32" where
  "CTIMER_CalculatePWMPeriod pwmFreqHz timerClock_Hz = timerClock_Hz div pwmFreqHz - 1"

definition pulse_width_value :: "cfloat \<Rightarrow> u32 \<Rightarrow> cfloat" where
  "pulse_width_value dutyCyclePercent pwm_period =
     (let d = (if fl_lt dutyCyclePercent (Fin 0) then Fin 0
               else if fl_lt (Fin 100) dutyCyclePercent then Fin 100 else dutyCyclePercent)
      in fl_div f32 (fl_mul f32 (fl_of_int f32 (uint (pwm_period + 1))) (fl_sub f32 (Fin 100) d)) (Fin 100))"

definition CTIMER_CalculatePWMPulseWidth :: "cfloat \<Rightarrow> u32 \<Rightarrow> u32" where
  "CTIMER_CalculatePWMPulseWidth dutyCyclePercent pwm_period =
     word_of_int (fl_trunc (pulse_width_value dutyCyclePercent pwm_period))"

definition ControlPilot_SetPWM_1kHZ :: "u32 \<Rightarrow> control_pilot \<Rightarrow> control_pilot" where
  "ControlPilot_SetPWM_1kHZ clk s =
     (let timerClock_Hz = clk div s_u32CtimerPrescale s;
          period = CTIMER_CalculatePWMPeriod CP_PWM_FREQ timerClock_Hz;
          width = CTIMER_CalculatePWMPulseWidth CP_PWM_DEFAULT_DUTYCYCLE period
      in cp_do (CTIMER_SetupPwmPeriod period width) (s\<lparr>s_u32PWMPeriod := period, s_u32PulseWidth := width\<rparr>))"

definition ControlPilot_PWM_Init :: "u32 \<Rightarrow> u32 \<Rightarrow> control_pilot \<Rightarrow> control_pilot" where
  "ControlPilot_PWM_Init clk prescale s =
     (let s = s\<lparr>s_u32CtimerPrescale := prescale + 1\<rparr>;
          s = ControlPilot_SetPWM_1kHZ clk s;
          s = cp_do CTIMER_StartTimer s
      in s\<lparr>s_u8CtimerInit := 1\<rparr>)"

definition ADC_Manager_UpdateADCTriggerPeriod :: "u32 \<Rightarrow> u32 \<Rightarrow> control_pilot \<Rightarrow> control_pilot" where
  "ADC_Manager_UpdateADCTriggerPeriod pulse_width pwm_period s =
     cp_do (CTIMER_UpdateAdcTrigger (CTIMER_CalculateADCTriggerPoint pwm_period pulse_width)) s"

definition ADC_Manager_ConfigureADCTrigger :: "control_pilot \<Rightarrow> int \<times> control_pilot" where
  "ADC_Manager_ConfigureADCTrigger s =
     (if s_u8CtimerInit s = 0 then (- 1, s)
      else (0, cp_do (CTIMER_SetupMatch (CTIMER_CalculateADCTriggerPoint (s_u32PWMPeriod s) (s_u32PulseWidth s))) s))"

definition ADC_Manager_Init :: "status_t \<Rightarrow> control_pilot \<Rightarrow> status_t \<times> control_pilot" where
  "ADC_Manager_Init calibration s =
     (if calibration \<noteq> kStatus_Success then (calibration, s)
      else (calibration, cp_do ADC_Enabled (cp_do ADC_ClearStatusFlags s)))"

definition ControlPilot_UpdatePWM :: "cfloat \<Rightarrow> control_pilot \<Rightarrow> status_t \<times> control_pilot" where
  "ControlPilot_UpdatePWM dutyCyclePercent s =
     (if fl_lt dutyCyclePercent (Fin 0) \<or> fl_lt (Fin 100) dutyCyclePercent then (kStatus_InvalidArgument, s)
      else if fl_eq (s_fCPDutyCycle s) dutyCyclePercent then (kStatus_Success, s)
      else
       (let w = CTIMER_CalculatePWMPulseWidth dutyCyclePercent (s_u32PWMPeriod s);
            s = s\<lparr>s_fCPDutyCycle := dutyCyclePercent, s_u32PulseWidth := w\<rparr>;
            s = cp_do (CTIMER_UpdatePwmOutput w) s
        in (kStatus_Success, ADC_Manager_UpdateADCTriggerPeriod w (s_u32PWMPeriod s) s)))"

definition ControlPilot_GetDutyCycle :: "cfloat option \<Rightarrow> control_pilot \<Rightarrow> cfloat option" where
  "ControlPilot_GetDutyCycle dutyCyclePercent s = map_option (\<lambda>_. s_fCPDutyCycle s) dutyCyclePercent"

definition ControlPilot_PWM_SetState :: "bool \<Rightarrow> control_pilot \<Rightarrow> status_t \<times> control_pilot" where
  "ControlPilot_PWM_SetState enable s =
     (kStatus_Success, cp_do (if enable then CTIMER_StartTimer else CTIMER_StopTimer) s)"

definition ADC_Manager_ReadControlPilotVoltage :: "control_pilot \<Rightarrow> u16" where
  "ADC_Manager_ReadControlPilotVoltage s = s_u16AdcCPRawValue s"

section \<open>Pulse width and sampling point\<close>

lemma fl_sub_range:
  assumes "fl_le (Fin 0) d" "fl_le d (Fin 100)"
  obtains r where "fl_sub f32 (Fin 100) d = Fin r" "0 \<le> r" "r \<le> 100"
proof -
  obtain x where x: "d = Fin x" "0 \<le> x" "x \<le> 100" using assms by (rule fl_between_Fin)
  have e: "fl_round f32 100 = Fin 100" "fl_round f32 0 = Fin 0" "1 \<le> fp_prec f32" by code_simp+
  have "fl_le (fl_round f32 0) (fl_round f32 (100 - x))" "fl_le (fl_round f32 (100 - x)) (fl_round f32 100)"
    using x e(3) by (auto intro!: fl_round_mono)
  then have "fl_le (Fin 0) (fl_sub f32 (Fin 100) d)" "fl_le (fl_sub f32 (Fin 100) d) (Fin 100)"
    using x by (simp_all add: e fl_sub_def)
  then show ?thesis using that by (auto elim: fl_between_Fin)
qed

lemma f32_int [simp]: "\<bar>n\<bar> \<le> 2 ^ 24 \<Longrightarrow> fl_round f32 (of_int n) = Fin (of_int n)"
  using fl_of_int_f32[of n] by (simp add: fl_of_int_def)

lemma f32_prec [simp]: "1 \<le> fp_prec f32" by (simp add: f32_def)

text \<open>For a period of up to 167771 timer ticks the product and the quotient are exact at the ends.\<close>

lemma pulse_width_value_range:
  assumes n: "pwm_period < 167772" and d: "fl_le (Fin 0) d" "fl_le d (Fin 100)"
  obtains r where "pulse_width_value d pwm_period = Fin r" "0 \<le> r" "r \<le> of_int (uint pwm_period + 1)"
proof -
  define N where "N = uint pwm_period + 1"
  have p: "uint pwm_period < 167772" using n by (simp add: word_less_alt)
  have N: "0 < N" "N \<le> 167772" using p uint_ge_0[of pwm_period] by (simp_all add: N_def del: uint_ge_0)
  have u: "uint (pwm_period + 1) = N" using p by (simp add: N_def uint_word_ariths)
  obtain r where r: "fl_sub f32 (Fin 100) d = Fin r" "0 \<le> r" "r \<le> 100" using d by (rule fl_sub_range)
  have clamp: "\<not> fl_lt d (Fin 0)" "\<not> fl_lt (Fin 100) d" using d by (cases d; auto)+
  have rN: "0 \<le> of_int N * r" "of_int N * r \<le> of_int (N * 100)"
    using N r(2,3) by (auto intro!: mult_left_mono)
  have "fl_le (Fin 0) (fl_round f32 (of_int N * r))" using rN(1) by (rule fl_round_nonneg)
  moreover have "fl_le (fl_round f32 (of_int N * r)) (fl_round f32 (of_int (N * 100)))"
    using rN(2) by (intro fl_round_mono) simp_all
  moreover have "fl_round f32 (of_int (N * 100)) = Fin (of_int (N * 100))" using N by (intro f32_int) simp
  ultimately obtain m where m: "fl_round f32 (of_int N * r) = Fin m" "0 \<le> m" "m \<le> of_int (N * 100)"
    by (auto elim: fl_between_Fin)
  have "fl_le (fl_round f32 (m / 100)) (fl_round f32 (of_int N))"
    using m(3) by (intro fl_round_mono) simp_all
  moreover have "fl_round f32 (of_int N) = Fin (of_int N)" using N by (intro f32_int) simp
  moreover have "fl_le (Fin 0) (fl_round f32 (m / 100))" using m(2) by (intro fl_round_nonneg) simp
  ultimately obtain q where q: "fl_round f32 (m / 100) = Fin q" "0 \<le> q" "q \<le> of_int N"
    by (auto elim: fl_between_Fin)
  have "pulse_width_value d pwm_period = Fin q"
    using clamp N m q r u by (simp add: pulse_width_value_def Let_def fl_of_int_def)
  then show ?thesis using that q by (simp add: N_def)
qed


text \<open>
  For every duty cycle from 0 to 100 percent the conversion of the pulse width to an integer
  is defined and the pulse is at most one period plus one tick, the value the timer reads as a
  constant level, for periods up to 167771 ticks (the pilot's period is 15999).
\<close>

theorem pulse_width_in_period:
  assumes "pwm_period < 167772" "fl_le (Fin 0) d" "fl_le d (Fin 100)"
  shows "fl_to_uint 32 (pulse_width_value d pwm_period) = Some (uint (CTIMER_CalculatePWMPulseWidth d pwm_period)) \<and>
    CTIMER_CalculatePWMPulseWidth d pwm_period \<le> pwm_period + 1"
proof -
  obtain r where r: "pulse_width_value d pwm_period = Fin r" "0 \<le> r" "r \<le> of_int (uint pwm_period + 1)"
    using assms by (rule pulse_width_value_range)
  have p: "uint pwm_period < 167772" using assms(1) by (simp add: word_less_alt)
  have t: "0 \<le> rtrunc r" "rtrunc r \<le> uint pwm_period + 1"
    using r(2,3) rtrunc_mono[of 0 r] rtrunc_mono[of r "of_int (uint pwm_period + 1)"]
    by (simp_all del: of_int_add of_int_uint) (simp_all add: rtrunc_def)
  have u: "uint (pwm_period + 1) = uint pwm_period + 1" using p by (simp add: uint_word_ariths)
  have w: "uint (word_of_int (rtrunc r) :: u32) = rtrunc r"
    using t p by (simp add: uint_word_of_int take_bit_int_eq_self)
  then show ?thesis using t p u by (simp add: CTIMER_CalculatePWMPulseWidth_def r(1) word_le_def)
qed

theorem pulse_width_in_period_witness:
  "CTIMER_CalculatePWMPulseWidth (Fin 40) 15999 \<le> 15999 + 1"
  using pulse_width_in_period[of 15999 "Fin 40"] by simp

text \<open>
  The converter samples the pilot in the high part of the pulse: the trigger point is
  between the end of the low part (or half the period for a constant level) and the end of the
  period, and nothing in its computation wraps around.
\<close>

theorem adc_trigger_in_high_phase:
  assumes "pulse_width \<le> pwm_period + 1" "uint pwm_period < 2 ^ 32 - 1"
  shows "let t = CTIMER_CalculateADCTriggerPoint pwm_period pulse_width;
             w = (if pulse_width = 0 \<or> pulse_width = pwm_period + 1 then pwm_period div 2 else pulse_width)
    in w \<le> t \<and> t \<le> pwm_period \<and> uint t = uint w + (uint pwm_period - uint w) div 2"
proof -
  define w where "w = (if pulse_width = 0 \<or> pulse_width = pwm_period + 1 then pwm_period div 2 else pulse_width)"
  have u1: "uint (pwm_period + 1) = uint pwm_period + 1"
    using assms(2) by (simp add: uint_word_ariths)
  have "uint w \<le> uint pwm_period"
  proof (cases "pulse_width = 0 \<or> pulse_width = pwm_period + 1")
    case True
    then have "uint w = uint pwm_period div 2" by (auto simp: w_def uint_div)
    then show ?thesis using uint_ge_0[of pwm_period] by linarith
  next
    case False
    then have "uint pulse_width \<noteq> uint pwm_period + 1" using u1 by (metis word_uint_eq_iff)
    then show ?thesis using False assms(1) u1 by (simp add: w_def word_le_def)
  qed
  moreover have "uint (pwm_period - w) = uint pwm_period - uint w"
    using calculation by (simp add: uint_minus_simple_iff[THEN iffD1] word_le_def uint_sub_lem[THEN iffD1])
  moreover have "uint pwm_period < 2 ^ 32" using assms(2) by simp
  ultimately have t: "uint (w + (pwm_period - w) div 2) = uint w + (uint pwm_period - uint w) div 2"
    by (simp add: uint_word_ariths uint_div)
  then show ?thesis using \<open>uint w \<le> uint pwm_period\<close>
    by (simp add: CTIMER_CalculateADCTriggerPoint_def w_def[symmetric] Let_def word_le_def)
qed

theorem adc_trigger_in_high_phase_witness:
  "CTIMER_CalculateADCTriggerPoint 15999 9600 \<le> 15999 \<and> 9600 \<le> CTIMER_CalculateADCTriggerPoint 15999 9600"
  using adc_trigger_in_high_phase[of 9600 15999] by (simp add: Let_def)

text \<open>
  A request for a duty cycle outside 0 to 100 percent is rejected without touching the timer;
  a valid one leaves the driver remembering it, and when it differs from the current one the
  output and the sampling point are both reprogrammed, the sampling point for the new width.
\<close>

theorem update_pwm_behaviour:
  "case ControlPilot_UpdatePWM d s of (st, s') \<Rightarrow>
     if fl_lt d (Fin 0) \<or> fl_lt (Fin 100) d then st = kStatus_InvalidArgument \<and> s' = s
     else st = kStatus_Success \<and>
       (if fl_eq (s_fCPDutyCycle s) d then s' = s
        else s_fCPDutyCycle s' = d \<and>
          cp_hw s' = cp_hw s @ [CTIMER_UpdatePwmOutput (s_u32PulseWidth s'),
            CTIMER_UpdateAdcTrigger (CTIMER_CalculateADCTriggerPoint (s_u32PWMPeriod s) (s_u32PulseWidth s'))] \<and>
          s_u32PulseWidth s' = CTIMER_CalculatePWMPulseWidth d (s_u32PWMPeriod s))"
  by (auto simp: ControlPilot_UpdatePWM_def ADC_Manager_UpdateADCTriggerPeriod_def cp_do_def Let_def)

text \<open>
  The stored converter value is twice the 15-bit result plus 1200, and it wraps around at 16
  bits exactly for results from 32168 on, where a high pilot would read as a very low one.
\<close>

theorem adc_value_wraps:
  "unat (s_u16AdcCPRawValue (ADC_IRQHANDLER True v s)) = (2 * (unat v mod 2 ^ 15) + 1200) mod 2 ^ 16 \<and>
   (unat (s_u16AdcCPRawValue (ADC_IRQHANDLER True v s)) < 1200 \<longleftrightarrow> 32168 \<le> unat v mod 2 ^ 15)"
proof -
  have "and v 0x7FFF = take_bit 15 v" by (simp add: take_bit_eq_mask mask_eq_exp_minus_1)
  then have m: "unat (and v 0x7FFF) = unat v mod 2 ^ 15"
    by (metis take_bit_eq_mod unsigned_take_bit_eq)
  have "unat v mod 2 ^ 15 < 2 ^ 15" by simp
  then have "unat (push_bit 1 (and v 0x7FFF)) = 2 * (unat v mod 2 ^ 15)"
    using m by (simp add: push_bit_eq_mult unat_word_ariths)
  then have e: "unat (s_u16AdcCPRawValue (ADC_IRQHANDLER True v s)) = (2 * (unat v mod 2 ^ 15) + 1200) mod 2 ^ 16"
    by (simp add: ADC_IRQHANDLER_def cp_do_def Let_def unat_word_ariths)
  have wrap: "(2 * n + 1200) mod 2 ^ 16 < 1200 \<longleftrightarrow> 32168 \<le> n" if "n < 2 ^ 15" for n :: nat
  proof (cases "32168 \<le> n")
    case True
    then have "(2 * n + 1200) mod 2 ^ 16 = 2 * n + 1200 - 2 ^ 16"
      using that by (subst le_mod_geq) auto
    then show ?thesis using True that by simp
  qed simp
  show ?thesis unfolding e using wrap[of "unat v mod 2 ^ 15"] by simp
qed

end
