(* ===== verification/AFE.thy ===== *)
theory AFE
  imports Metrology
begin

text \<open>
  The front end driver (\<open>source/ext_afe_mkm.c\<close>): the callback at the end of a transfer puts the
  six samples together, checks their checksum and adds them to the metering buffer. The CRC
  engine of the microcontroller is the parameter \<open>crc\<close>, a function of the bytes.
\<close>

record afe =
  met :: metrology
  isTransferCompleted :: bool
  AFE_data :: "u32 list"
  CRC_err_count :: u32
  buf_samples :: u32

abbreviation (input) AFE_PARAMETER_COUNT :: nat where "AFE_PARAMETER_COUNT \<equiv> 6"
abbreviation (input) AFE_INP_SAMPLES :: u32 where "AFE_INP_SAMPLES \<equiv> 64"

text \<open>A 32-bit value from the two halves of a pair of transfers, and its bytes in memory order.\<close>

definition join16 :: "u16 \<Rightarrow> u16 \<Rightarrow> u32" where
  "join16 hi lo = or (push_bit 16 (ucast hi)) (ucast lo)"

definition bytes_le :: "u32 \<Rightarrow> u8 list" where
  "bytes_le w = [ucast w, ucast (drop_bit 8 w), ucast (drop_bit 16 w), ucast (drop_bit 24 w)]"

definition AFE_GetCRC :: "(u8 list \<Rightarrow> u16) \<Rightarrow> u32 list \<Rightarrow> u32" where
  "AFE_GetCRC crc data = ucast (crc (concat (map bytes_le data)))"

definition afe_sample :: "u32 list \<Rightarrow> sample" where
  "afe_sample d = \<lparr>s_u1 = d ! 0, s_u2 = d ! 1, s_u3 = d ! 2, s_i1 = d ! 3, s_i2 = d ! 4, s_i3 = d ! 5\<rparr>"

definition AFE_SPIRxDMACallback ::
    "(u8 list \<Rightarrow> u16) \<Rightarrow> u16 list \<Rightarrow> u16 list \<Rightarrow> bool \<Rightarrow> afe \<Rightarrow> afe" where
  "AFE_SPIRxDMACallback crc masterRxData masterRxCRC transferDone a =
     (if \<not> transferDone then a
      else
       (let data = map (\<lambda>k. join16 (masterRxData ! (2 * k)) (masterRxData ! (2 * k + 1))) [0..<AFE_PARAMETER_COUNT];
            a = a\<lparr>isTransferCompleted := True, AFE_data := data\<rparr>;
            calculated = AFE_GetCRC crc data;
            received = join16 (masterRxCRC ! 0) (masterRxCRC ! 1)
        in if calculated \<noteq> received
           then a\<lparr>CRC_err_count := CRC_err_count a + 1, met := Metering_SampleReset (met a)\<rparr>
           else (let (n, m) = Metering_SampleAdd (afe_sample data) (met a)
                 in a\<lparr>met := if n = buf_samples a
                              then Metering_StartProcessing (Metering_SampleFinish m) else m\<rparr>)))"

end
