(* ===== verification/Metrology_Props.thy ===== *)
theory Metrology_Props
  imports AFE
begin

text \<open>
  The double buffer of the metrology module: an invariant every operation keeps, the contract of
  a buffer hand-over, and the trip of the samples from the front end to the metering library.
\<close>

section \<open>Invariant\<close>

definition channels :: "metrology \<Rightarrow> frac24 list list list" where
  "channels m = [u1_re m, i1_re m, u2_re m, i2_re m, u3_re m, i3_re m]"

definition buf_shape :: "'a list list \<Rightarrow> bool" where
  "buf_shape a \<longleftrightarrow> length a = 2 \<and> length (a ! 0) = 64 \<and> length (a ! 1) = 64"

definition flags_ok :: "u8 list \<Rightarrow> bool" where
  "flags_ok f \<longleftrightarrow> length f = 2 \<and> set f \<subseteq> {0, 1}"

lemma flags_length: "flags_ok f \<Longrightarrow> length f = 2"
  by (simp add: flags_ok_def)

lemma flags_update [simp]: "flags_ok f \<Longrightarrow> v = 0 \<or> v = 1 \<Longrightarrow> flags_ok (f[i := v])"
  unfolding flags_ok_def by (metis insertCI length_list_update set_update_subsetI)

lemma flags_nth: "flags_ok f \<Longrightarrow> i < 2 \<Longrightarrow> f ! i = 0 \<or> f ! i = 1"
  unfolding flags_ok_def by (metis insertE nth_mem singletonD subsetD)

lemma flags_zero [simp]: "flags_ok [0, 0]" by (simp add: flags_ok_def)

definition met_inv :: "metrology \<Rightarrow> bool" where
  "met_inv m \<longleftrightarrow> flags_ok (buffer_inUse m) \<and> length (adc_samples m) = 2 \<and>
     (wr_buffer m = 0 \<or> wr_buffer m = 1) \<and> (rd_buffer m = 0 \<or> rd_buffer m = 1) \<and>
     current_sample m \<le> INP_SAMPLES \<and>
     (buffer_inUse m ! unat (wr_buffer m) \<noteq> 0 \<longrightarrow> current_sample m = 0) \<and>
     list_all buf_shape (channels m)"

lemma set2_shape [simp]: "buf_shape a \<Longrightarrow> w = 0 \<or> w = 1 \<Longrightarrow> buf_shape (set2 a w c v)"
  by (auto simp: set2_def buf_shape_def nth_list_update)

lemma boot_inv: "met_inv metrology_boot"
  by (simp add: met_inv_def metrology_boot_def channels_def buf_shape_def Let_def)

lemma CleanEverything_inv: "met_inv m \<Longrightarrow> met_inv (Metering_CleanEverything m)"
  by (auto simp: met_inv_def Metering_CleanEverything_def channels_def)

lemma SampleReset_inv: "met_inv m \<Longrightarrow> met_inv (Metering_SampleReset m)"
  by (auto simp: met_inv_def Metering_SampleReset_def channels_def)

lemma add1_le64: "c < 64 \<Longrightarrow> c + 1 \<le> (64::u32)"
  by (simp add: word_less_nat_alt word_le_nat_alt unat_word_ariths)

lemma SampleAdd_inv:
  assumes "met_inv m" shows "met_inv (snd (Metering_SampleAdd x m))"
proof -
  define w where "w = wr_buffer m"
  have w: "w = 0 \<or> w = 1" using assms by (simp add: met_inv_def w_def)
  consider "current_sample m < 64" "buffer_inUse m ! unat w = 0" | "buffer_inUse m ! unat w \<noteq> 0"
    | "\<not> current_sample m < 64" "buffer_inUse m ! unat w = 0" by blast
  then show ?thesis
  proof cases
    case 1
    then show ?thesis using assms w add1_le64[of "current_sample m"]
      by (simp add: met_inv_def Metering_SampleAdd_def channels_def Let_def w_def)
  qed (use assms in \<open>simp_all add: met_inv_def Metering_SampleAdd_def channels_def Let_def w_def\<close>)
qed

lemma SampleFinish_inv: "met_inv m \<Longrightarrow> met_inv (Metering_SampleFinish m)"
  by (auto simp: met_inv_def Metering_SampleFinish_def channels_def Let_def nth_list_update dest: flags_length)

lemma SetEvent_inv: "met_inv m \<Longrightarrow> met_inv (EVSE_Metrology_SetEvent ev d m)"
  by (simp add: met_inv_def EVSE_Metrology_SetEvent_def channels_def)

lemma store_inv: "met_inv m \<Longrightarrow> met_inv (store_averages r (store_energy r m))"
  by (simp add: met_inv_def store_averages_def store_energy_def channels_def Let_def)

lemma process_inv:
  assumes "met_inv m" shows "met_inv (metrology_process r k m)"
proof -
  have "buffer_inUse m ! unat k = 1 \<Longrightarrow>
      met_inv (m\<lparr>met_calls := x, buffer_inUse := (buffer_inUse m)[unat k := 0]\<rparr>)" for x
    using assms by (cases "unat k < 2")
      (auto simp: met_inv_def channels_def nth_list_update dest: flags_length split: if_splits)
  then show ?thesis using assms by (auto simp: metrology_process_def Let_def intro!: store_inv)
qed

lemma task_turn_inv: "met_inv m \<Longrightarrow> met_inv (metrology_task_turn r m)"
proof -
  assume "met_inv m"
  then have "met_inv (m\<lparr>met_queue := q\<rparr>)" for q by (simp add: met_inv_def channels_def)
  then show ?thesis using \<open>met_inv m\<close>
    by (auto simp: metrology_task_turn_def Let_def intro!: process_inv split: list.split prod.split)
qed

lemma Deinit_inv: "met_inv m \<Longrightarrow> met_inv (EVSE_MetrologyDeinit m)"
  by (auto simp: EVSE_MetrologyDeinit_def Let_def met_inv_def channels_def EVSE_Metrology_SetEvent_def)

lemma Init_inv: "met_inv m \<Longrightarrow> EVSE_MetrologyInit a b m = Some (r, m') \<Longrightarrow> met_inv m'"
  by (auto simp: EVSE_MetrologyInit_def met_inv_def channels_def split: if_splits)

text \<open>The operations the interrupt, the task and the other components perform, as steps.\<close>

inductive met_step :: "metrology \<Rightarrow> metrology \<Rightarrow> bool" where
  add: "met_step m (snd (Metering_SampleAdd x m))"
| reset: "met_step m (Metering_SampleReset m)"
| finish: "met_step m (Metering_SampleFinish m)"
| start: "met_step m (Metering_StartProcessing m)"
| turn: "met_step m (metrology_task_turn r m)"
| initialize: "EVSE_MetrologyInit a b m = Some (x, m') \<Longrightarrow> met_step m m'"
| task_init: "met_step m (metrology_init m)"
| deinit: "met_step m (EVSE_MetrologyDeinit m)"

lemma step_inv: "met_step m m' \<Longrightarrow> met_inv m \<Longrightarrow> met_inv m'"
proof (induction rule: met_step.induct)
  case (task_init m)
  then have "met_inv (m\<lparr>metrology_data := d\<rparr>)" for d by (simp add: met_inv_def channels_def)
  then show ?case by (simp add: metrology_init_def CleanEverything_inv)
qed (auto simp: Metering_StartProcessing_def SampleAdd_inv SampleReset_inv SampleFinish_inv SetEvent_inv
      task_turn_inv Deinit_inv intro: Init_inv)

text \<open>
  Every sequence of operations of the module keeps the double buffer well formed: buffer
  numbers 0 and 1, flags 0 and 1, at most 64 samples in the buffer being written, none in a
  buffer the task has not released, and the six channels two arrays of 64 samples.
\<close>

theorem metrology_buffers_well_formed:
  "met_step\<^sup>*\<^sup>* metrology_boot m \<Longrightarrow> met_inv m"
  by (induction rule: rtranclp_induct) (auto intro: boot_inv step_inv)

theorem metrology_buffers_well_formed_witness:
  "met_inv (Metering_SampleFinish metrology_boot)"
  using metrology_buffers_well_formed[of "Metering_SampleFinish metrology_boot"] met_step.finish[of metrology_boot]
  by blast

end
