(* ===== verification/Metrology_Buffers.thy ===== *)
theory Metrology_Buffers
  imports Metrology_Props
begin

text \<open>
  The contract of the metering buffer as an interface: a producer appends samples, finishing
  hands over exactly what was appended. It is interpreted on the double buffer of the metrology
  module, and the path from the front end to the metering library follows from it.
\<close>

section \<open>The interface\<close>

locale sample_sink =
  fixes add :: "'x \<Rightarrow> 's \<Rightarrow> 's" and reset :: "'s \<Rightarrow> 's" and finish :: "'s \<Rightarrow> 's"
    and ready :: "'s \<Rightarrow> bool" and pending :: "'s \<Rightarrow> 'x list" and handed :: "'s \<Rightarrow> 'x list"
    and capacity :: nat
  assumes add_ready: "ready s \<Longrightarrow> length (pending s) < capacity \<Longrightarrow> ready (add x s)"
    and add_pending: "ready s \<Longrightarrow> length (pending s) < capacity \<Longrightarrow> pending (add x s) = pending s @ [x]"
    and reset_ready: "ready s \<Longrightarrow> ready (reset s)"
    and reset_pending: "ready s \<Longrightarrow> pending (reset s) = []"
    and finish_handed: "ready s \<Longrightarrow> handed (finish s) = pending s"
begin

lemma fold_add:
  "ready s \<Longrightarrow> length (pending s) + length xs \<le> capacity \<Longrightarrow>
     ready (fold add xs s) \<and> pending (fold add xs s) = pending s @ xs"
  by (induction xs arbitrary: s) (simp_all add: add_ready add_pending)

lemma collect:
  "ready s \<Longrightarrow> pending s = [] \<Longrightarrow> length xs \<le> capacity \<Longrightarrow> handed (finish (fold add xs s)) = xs"
  using fold_add[of s xs] by (simp add: finish_handed)

text \<open>A reset drops what was appended since the last hand-over, and nothing else.\<close>

lemma reset_collect:
  "ready s \<Longrightarrow> length (pending s) + length ys \<le> capacity \<Longrightarrow> length xs \<le> capacity \<Longrightarrow>
     handed (finish (fold add xs (reset (fold add ys s)))) = xs"
  using fold_add[of s ys] collect[of "reset (fold add ys s)" xs] by (simp add: reset_ready reset_pending)

end

section \<open>The double buffer provides it\<close>

definition sample_at :: "metrology \<Rightarrow> nat \<Rightarrow> nat \<Rightarrow> sample" where
  "sample_at m k j = \<lparr>s_u1 = u1_re m ! k ! j, s_u2 = u2_re m ! k ! j, s_u3 = u3_re m ! k ! j,
                      s_i1 = i1_re m ! k ! j, s_i2 = i2_re m ! k ! j, s_i3 = i3_re m ! k ! j\<rparr>"

definition met_ready :: "metrology \<Rightarrow> bool" where
  "met_ready m \<longleftrightarrow> met_inv m \<and> buffer_inUse m ! unat (wr_buffer m) = 0"

definition met_pending :: "metrology \<Rightarrow> sample list" where
  "met_pending m = map (sample_at m (unat (wr_buffer m))) [0..<unat (current_sample m)]"

definition met_handed :: "metrology \<Rightarrow> sample list" where
  "met_handed m = map (sample_at m (unat (rd_buffer m))) [0..<unat (adc_samples m ! unat (rd_buffer m))]"

lemma length_pending [simp]: "length (met_pending m) = unat (current_sample m)"
  by (simp add: met_pending_def)

lemma unat_lt64: "unat c < 64 \<longleftrightarrow> c < (64 :: u32)" by (simp add: word_less_nat_alt)

lemma unat_add1: "c < (64 :: u32) \<Longrightarrow> unat (c + 1) = Suc (unat c)"
  by (simp add: word_less_nat_alt unat_word_ariths)

lemma set2_nth:
  "buf_shape a \<Longrightarrow> w = 0 \<or> w = 1 \<Longrightarrow> unat c < 64 \<Longrightarrow>
     set2 a w c v ! unat w ! j = (if j = unat c then v else a ! unat w ! j)"
  by (auto simp: set2_def buf_shape_def nth_list_update)

lemma SampleAdd_sample_at:
  assumes "met_ready m" "current_sample m < 64"
  shows "sample_at (snd (Metering_SampleAdd x m)) (unat (wr_buffer m)) j =
    (if j = unat (current_sample m) then x else sample_at m (unat (wr_buffer m)) j)"
proof -
  have w: "wr_buffer m = 0 \<or> wr_buffer m = 1" and c: "unat (current_sample m) < 64"
    and sh: "buf_shape (u1_re m)" "buf_shape (u2_re m)" "buf_shape (u3_re m)"
      "buf_shape (i1_re m)" "buf_shape (i2_re m)" "buf_shape (i3_re m)"
    using assms by (simp_all add: met_ready_def met_inv_def channels_def unat_lt64)
  note n = sh[THEN set2_nth, OF w c]
  show ?thesis using assms by (simp add: Metering_SampleAdd_def met_ready_def Let_def sample_at_def n)
qed

lemma SampleAdd_frame:
  "wr_buffer (snd (Metering_SampleAdd x m)) = wr_buffer m"
  "buffer_inUse (snd (Metering_SampleAdd x m)) = buffer_inUse m"
  "adc_samples (snd (Metering_SampleAdd x m)) = adc_samples m"
  "met_queue (snd (Metering_SampleAdd x m)) = met_queue m"
  "met_is_init (snd (Metering_SampleAdd x m)) = met_is_init m"
  by (simp_all add: Metering_SampleAdd_def Let_def)

lemma SampleAdd_count:
  "met_ready m \<Longrightarrow> current_sample m < 64 \<Longrightarrow> current_sample (snd (Metering_SampleAdd x m)) = current_sample m + 1"
  "fst (Metering_SampleAdd x m) = current_sample (snd (Metering_SampleAdd x m))"
  by (simp_all add: Metering_SampleAdd_def met_ready_def Let_def)

interpretation met_sink: sample_sink
  "\<lambda>x m. snd (Metering_SampleAdd x m)" Metering_SampleReset Metering_SampleFinish
  met_ready met_pending met_handed 64
proof unfold_locales
  fix s x assume r: "met_ready s" and l: "length (met_pending s) < 64"
  then have c: "current_sample s < 64" by (simp add: unat_lt64)
  show "met_ready (snd (Metering_SampleAdd x s))"
    using r by (simp add: met_ready_def SampleAdd_inv SampleAdd_frame)
  show "met_pending (snd (Metering_SampleAdd x s)) = met_pending s @ [x]"
    using r c by (simp add: met_pending_def SampleAdd_frame SampleAdd_count unat_add1 SampleAdd_sample_at)
next
  fix s assume r: "met_ready s"
  then show "met_ready (Metering_SampleReset s)"
    by (simp add: met_ready_def SampleReset_inv) (simp add: Metering_SampleReset_def)
  show "met_pending (Metering_SampleReset s) = []" by (simp add: met_pending_def Metering_SampleReset_def)
  have "unat (wr_buffer s) < 2" "length (adc_samples s) = 2"
    using r by (auto simp: met_ready_def met_inv_def)
  then show "met_handed (Metering_SampleFinish s) = met_pending s"
    by (simp add: met_handed_def met_pending_def Metering_SampleFinish_def Let_def sample_at_def cong: map_cong)
qed

section \<open>Properties\<close>

lemma list64: "length xs = 64 \<Longrightarrow> map ((!) xs) [0..<64] = xs"
  using map_nth[of xs] by simp

lemma handed_channels:
  assumes "met_handed m = xs" "length xs = 64" "met_inv m"
  shows "adc_samples m ! unat (rd_buffer m) = 64"
    "u1_re m ! unat (rd_buffer m) = map s_u1 xs" "i1_re m ! unat (rd_buffer m) = map s_i1 xs"
    "u2_re m ! unat (rd_buffer m) = map s_u2 xs" "i2_re m ! unat (rd_buffer m) = map s_i2 xs"
    "u3_re m ! unat (rd_buffer m) = map s_u3 xs" "i3_re m ! unat (rd_buffer m) = map s_i3 xs"
proof -
  have "unat (adc_samples m ! unat (rd_buffer m)) = 64"
    using assms(1,2) by (auto simp: met_handed_def)
  then show n: "adc_samples m ! unat (rd_buffer m) = 64" by (simp add: word_unat_eq_iff)
  have sh: "length (a ! unat (rd_buffer m)) = 64" if "a \<in> set (channels m)" for a
  proof -
    have "buf_shape a" using assms(3) that by (auto simp: met_inv_def list_all_iff)
    moreover have "rd_buffer m = 0 \<or> rd_buffer m = 1" using assms(3) by (simp add: met_inv_def)
    ultimately show ?thesis by (auto simp: buf_shape_def)
  qed
  have m: "map f xs = map (\<lambda>j. f (sample_at m (unat (rd_buffer m)) j)) [0..<64]" for f :: "sample \<Rightarrow> frac24"
    using assms(1) n by (auto simp: met_handed_def)
  show "u1_re m ! unat (rd_buffer m) = map s_u1 xs" "i1_re m ! unat (rd_buffer m) = map s_i1 xs"
    "u2_re m ! unat (rd_buffer m) = map s_u2 xs" "i2_re m ! unat (rd_buffer m) = map s_i2 xs"
    "u3_re m ! unat (rd_buffer m) = map s_u3 xs" "i3_re m ! unat (rd_buffer m) = map s_i3 xs"
    unfolding m using sh by (simp_all add: sample_at_def list64 channels_def)
qed


lemma fold_add_frame:
  "met_inv m \<Longrightarrow> met_inv (fold (\<lambda>x m. snd (Metering_SampleAdd x m)) xs m)"
  "wr_buffer (fold (\<lambda>x m. snd (Metering_SampleAdd x m)) xs m) = wr_buffer m"
  "met_queue (fold (\<lambda>x m. snd (Metering_SampleAdd x m)) xs m) = met_queue m"
  "met_is_init (fold (\<lambda>x m. snd (Metering_SampleAdd x m)) xs m) = met_is_init m"
  by (induction xs arbitrary: m) (simp_all add: SampleAdd_inv SampleAdd_frame)

lemma finish_fields:
  "met_inv m \<Longrightarrow> buffer_inUse (Metering_SampleFinish m) ! unat (rd_buffer (Metering_SampleFinish m)) = 1"
  "rd_buffer (Metering_SampleFinish m) = wr_buffer m"
  "met_queue (Metering_SampleFinish m) = met_queue m" "met_is_init (Metering_SampleFinish m) = met_is_init m"
  by (auto simp: met_inv_def Metering_SampleFinish_def Let_def dest: flags_length)

text \<open>
  (C17) A period of 64 samples goes through the double buffer unchanged: what the metrology task
  hands to the metering library for the finished buffer is, channel by channel and in order,
  what was added, without interpolation, and the buffer is released.
\<close>

theorem samples_reach_the_library:
  assumes "met_ready m" "met_pending m = []" "length xs = 64"
  defines "m1 \<equiv> Metering_SampleFinish (fold (\<lambda>x m. snd (Metering_SampleAdd x m)) xs m)"
  shows "\<exists>t. met_calls (metrology_process r (rd_buffer m1) m1) = met_calls m1 @
      Meter_CalcMain [map s_u1 xs, map s_i1 xs, map s_u2 xs, map s_i2 xs, map s_u3 xs, map s_i3 xs] None # t \<and>
    buffer_inUse (metrology_process r (rd_buffer m1) m1) ! unat (rd_buffer m1) = 0"
proof -
  have h: "met_handed m1 = xs" unfolding m1_def by (rule met_sink.collect) (use assms in simp_all)
  have inv0: "met_inv (fold (\<lambda>x m. snd (Metering_SampleAdd x m)) xs m)"
    using assms(1) by (simp add: fold_add_frame(1) met_ready_def)
  then have inv: "met_inv m1" unfolding m1_def by (rule SampleFinish_inv)
  have u: "buffer_inUse m1 ! unat (rd_buffer m1) = 1"
    unfolding m1_def by (rule finish_fields(1)[OF inv0])
  have l: "unat (rd_buffer m1) < length (buffer_inUse m1)"
    using inv by (auto simp: met_inv_def dest: flags_length)
  show ?thesis using handed_channels[OF h assms(3) inv] u l
    by (simp add: metrology_process_def store_averages_def store_energy_def Let_def)
qed

lemma boot_ready: "met_ready metrology_boot" "met_pending metrology_boot = []"
  using boot_inv by (simp_all add: met_ready_def met_pending_def metrology_boot_def Let_def)

theorem samples_reach_the_library_witness:
  "met_ready metrology_boot \<and> met_pending metrology_boot = [] \<and>
   (let x = \<lparr>s_u1 = 7, s_u2 = 0, s_u3 = 0, s_i1 = 3, s_i2 = 0, s_i3 = 0\<rparr>;
        m1 = Metering_SampleFinish (fold (\<lambda>x m. snd (Metering_SampleAdd x m)) (replicate 64 x) metrology_boot)
    in \<exists>r. buffer_inUse (metrology_process r (rd_buffer m1) m1) ! unat (rd_buffer m1) = 0)"
  unfolding Let_def
  using samples_reach_the_library[OF boot_ready,
      of "replicate 64 \<lparr>s_u1 = 7, s_u2 = 0, s_u3 = 0, s_i1 = 3, s_i2 = 0, s_i3 = 0\<rparr>"] boot_ready
  by (metis length_replicate)

text \<open>
  A buffer the task has not released is never overwritten: adding a sample leaves all six
  channels of every buffer in use, its flag and its sample count as they are.
\<close>

theorem buffer_in_use_is_not_overwritten:
  assumes "met_inv m" "k < 2" "buffer_inUse m ! k = 1"
  shows "map (\<lambda>a. a ! k) (channels (snd (Metering_SampleAdd x m))) = map (\<lambda>a. a ! k) (channels m) \<and>
    buffer_inUse (snd (Metering_SampleAdd x m)) = buffer_inUse m \<and>
    adc_samples (snd (Metering_SampleAdd x m)) = adc_samples m"
proof -
  have "k \<noteq> unat (wr_buffer m)" if "buffer_inUse m ! unat (wr_buffer m) = 0" using assms(3) that by auto
  then show ?thesis by (auto simp: Metering_SampleAdd_def channels_def Let_def set2_def nth_list_update)
qed

theorem buffer_in_use_is_not_overwritten_witness:
  "let m = Metering_SampleFinish metrology_boot; x = \<lparr>s_u1 = 7, s_u2 = 0, s_u3 = 0, s_i1 = 3, s_i2 = 0, s_i3 = 0\<rparr>
   in map (\<lambda>a. a ! 0) (channels (snd (Metering_SampleAdd x m))) = map (\<lambda>a. a ! 0) (channels m)"
proof -
  have "buffer_inUse (Metering_SampleFinish metrology_boot) ! 0 = 1"
    by (simp add: metrology_boot_def Metering_SampleFinish_def Let_def)
  then show ?thesis
    using buffer_in_use_is_not_overwritten[OF SampleFinish_inv[OF boot_inv], of 0] by (simp add: Let_def)
qed

section \<open>The front end\<close>

text \<open>A transfer: the twelve half words and the checksum as received.\<close>

type_synonym afe_frame = "u16 list \<times> u16 list"

definition frame_data :: "afe_frame \<Rightarrow> u32 list" where
  "frame_data f = map (\<lambda>k. join16 (fst f ! (2 * k)) (fst f ! (2 * k + 1))) [0..<6]"

definition frame_valid :: "(u8 list \<Rightarrow> u16) \<Rightarrow> afe_frame \<Rightarrow> bool" where
  "frame_valid crc f \<longleftrightarrow> AFE_GetCRC crc (frame_data f) = join16 (snd f ! 0) (snd f ! 1)"

abbreviation receive :: "(u8 list \<Rightarrow> u16) \<Rightarrow> afe_frame \<Rightarrow> afe \<Rightarrow> afe" where
  "receive crc f a \<equiv> AFE_SPIRxDMACallback crc (fst f) (snd f) True a"

lemma receive_valid:
  "frame_valid crc f \<Longrightarrow> met (receive crc f a) =
     (let (n, m) = Metering_SampleAdd (afe_sample (frame_data f)) (met a)
      in if n = buf_samples a then Metering_StartProcessing (Metering_SampleFinish m) else m)"
  "buf_samples (receive crc f a) = buf_samples a"
  by (simp_all add: AFE_SPIRxDMACallback_def frame_valid_def frame_data_def Let_def split: prod.split)

lemma receive_add:
  assumes "frame_valid crc f" "met_ready (met a)" "unat (current_sample (met a)) < 63" "buf_samples a = 64"
  shows "met (receive crc f a) = snd (Metering_SampleAdd (afe_sample (frame_data f)) (met a))"
proof -
  have c: "current_sample (met a) < 64" using assms(3) by (simp add: word_less_nat_alt)
  have "unat (current_sample (met a) + 1) \<noteq> unat (64 :: u32)"
    using assms(3) unat_add1[OF c] by simp
  then have "current_sample (met a) + 1 \<noteq> 64" by auto
  then show ?thesis using assms SampleAdd_count(1)[of "met a" "afe_sample (frame_data f)"] SampleAdd_count(2)[of "afe_sample (frame_data f)" "met a"] c
    by (auto simp: receive_valid Let_def split: prod.split)
qed

lemma receive_many:
  assumes "met_ready (met a)" "unat (current_sample (met a)) + length fs \<le> 63" "buf_samples a = 64"
    and "list_all (frame_valid crc) fs"
  shows "met (fold (receive crc) fs a) =
      fold (\<lambda>x m. snd (Metering_SampleAdd x m)) (map (afe_sample \<circ> frame_data) fs) (met a) \<and>
    buf_samples (fold (receive crc) fs a) = 64"
  using assms
proof (induction fs arbitrary: a)
  case (Cons f fs)
  have c: "current_sample (met a) < 64" using Cons.prems(2) by (simp add: word_less_nat_alt)
  have r: "met (receive crc f a) = snd (Metering_SampleAdd (afe_sample (frame_data f)) (met a))"
    using Cons.prems by (intro receive_add) auto
  have "met_ready (met (receive crc f a))" "unat (current_sample (met (receive crc f a))) = Suc (unat (current_sample (met a)))"
    using met_sink.add_ready[where s = "met a"] Cons.prems c SampleAdd_count(1)[of "met a"] unat_add1
    by (simp_all add: r unat_lt64)
  then show ?case using Cons.IH[of "receive crc f a"] Cons.prems r by (simp add: receive_valid)
qed simp

text \<open>
  From the wire to the task: 64 transfers with a correct checksum fill one buffer with
  exactly the samples of the transfers, in order, and post one message with its number.
\<close>

theorem valid_period_is_handed_over:
  assumes "met_ready (met a)" "met_pending (met a) = []" "buf_samples a = 64"
    and "met_is_init (met a)" "length (met_queue (met a)) < 3"
    and "length fs = 64" "list_all (frame_valid crc) fs"
  shows "let m = met (fold (receive crc) fs a) in
    met_handed m = map (afe_sample \<circ> frame_data) fs \<and>
    met_queue m = met_queue (met a) @ [(Metrology_DataRCV, ucast (rd_buffer m))]"
proof -
  obtain gs g where fs: "fs = gs @ [g]" using assms(6) by (cases fs rule: rev_cases) auto
  let ?add = "\<lambda>x m. snd (Metering_SampleAdd x m)"
  define b where "b = fold (receive crc) gs a"
  have c0: "current_sample (met a) = 0" using assms(2) by (simp add: met_pending_def unat_eq_0)
  have b: "met b = fold ?add (map (afe_sample \<circ> frame_data) gs) (met a)" "buf_samples b = 64"
    using receive_many[of a gs crc] assms fs c0 by (simp_all add: b_def)
  have p: "met_ready (met b)" "met_pending (met b) = map (afe_sample \<circ> frame_data) gs"
    unfolding b(1) using met_sink.fold_add[of "met a" "map (afe_sample \<circ> frame_data) gs"] assms fs by simp_all
  have "unat (current_sample (met b)) = 63" using arg_cong[OF p(2), of length] assms(6) fs by simp
  then have c: "current_sample (met b) = 63" by (simp add: word_unat_eq_iff)
  let ?m = "?add (afe_sample (frame_data g)) (met b)"
  have "fst (Metering_SampleAdd (afe_sample (frame_data g)) (met b)) = 64"
    using SampleAdd_count(1)[of "met b" "afe_sample (frame_data g)"] SampleAdd_count(2)[of "afe_sample (frame_data g)" "met b"] p(1) c
    by simp
  then have m: "met (fold (receive crc) fs a) = Metering_StartProcessing (Metering_SampleFinish ?m)"
    using receive_valid(1)[of crc g b] assms(7) b(2) fs by (simp add: b_def[symmetric] case_prod_beta)
  have h: "met_handed (Metering_SampleFinish ?m) = map (afe_sample \<circ> frame_data) fs"
    using met_sink.finish_handed[of ?m] met_sink.add_ready[where s = "met b"] met_sink.add_pending[where s = "met b"] p c fs assms(6)
    by simp
  have q: "met_queue (Metering_SampleFinish ?m) = met_queue (met a)" "met_is_init (Metering_SampleFinish ?m)"
    using assms(4) by (simp_all add: finish_fields SampleAdd_frame b(1) fold_add_frame)
  have e: "met_handed (n\<lparr>met_queue := z\<rparr>) = met_handed n" for n z by (simp add: met_handed_def sample_at_def)
  show ?thesis using h q assms(5)
    by (simp add: Let_def m Metering_StartProcessing_def EVSE_Metrology_SetEvent_def e)
qed

text \<open>Sixty-four transfers of zeros, with a checksum that is always zero.\<close>

definition sample_afe :: afe where
  "sample_afe = \<lparr>met = metrology_boot\<lparr>met_is_init := True\<rparr>, isTransferCompleted = False, AFE_data = [],
     CRC_err_count = 0, buf_samples = 64\<rparr>"

theorem valid_period_is_handed_over_witness:
  "length (met_queue (met (fold (receive (\<lambda>_. 0)) (replicate 64 (replicate 12 0, [0, 0])) sample_afe))) = 1"
proof -
  have "met_inv (metrology_boot\<lparr>met_is_init := True\<rparr>)" using boot_inv by (simp add: met_inv_def channels_def)
  then have r: "met_ready (met sample_afe)" "met_pending (met sample_afe) = []"
    by (simp_all add: sample_afe_def met_ready_def met_pending_def metrology_boot_def Let_def)
  have v: "list_all (frame_valid (\<lambda>_. 0)) (replicate 64 (replicate 12 0, [0, 0]))"
    by (simp add: list_all_iff frame_valid_def AFE_GetCRC_def join16_def)
  show ?thesis
    using valid_period_is_handed_over[OF r, of "replicate 64 (replicate 12 0, [0, 0])" "\<lambda>_. 0"] v
    by (simp add: Let_def sample_afe_def metrology_boot_def)
qed

text \<open>
  A transfer with a wrong checksum is counted and drops the samples of its period: nothing
  is pending afterwards, no buffer changes hands and no message is posted.
\<close>

theorem checksum_error_drops_period:
  assumes "met_ready (met a)" "\<not> frame_valid crc f"
  shows "CRC_err_count (receive crc f a) = CRC_err_count a + 1 \<and>
    met_ready (met (receive crc f a)) \<and> met_pending (met (receive crc f a)) = [] \<and>
    met_queue (met (receive crc f a)) = met_queue (met a) \<and>
    buffer_inUse (met (receive crc f a)) = buffer_inUse (met a)"
proof -
  have "met (receive crc f a) = Metering_SampleReset (met a)" "CRC_err_count (receive crc f a) = CRC_err_count a + 1"
    using assms(2) by (simp_all add: AFE_SPIRxDMACallback_def frame_valid_def frame_data_def Let_def)
  then show ?thesis using met_sink.reset_ready[OF assms(1)] met_sink.reset_pending[OF assms(1)]
    by (simp add: Metering_SampleReset_def)
qed

theorem checksum_error_drops_period_witness:
  "CRC_err_count (receive (\<lambda>_. 1) (replicate 12 0, [0, 0]) sample_afe) = 1"
proof -
  have "met_inv (metrology_boot\<lparr>met_is_init := True\<rparr>)" using boot_inv by (simp add: met_inv_def channels_def)
  then have "met_ready (met sample_afe)"
    by (simp add: sample_afe_def met_ready_def metrology_boot_def Let_def)
  then show ?thesis
    using checksum_error_drops_period[of sample_afe "\<lambda>_. 1" "(replicate 12 0, [0, 0])"]
    by (simp add: frame_valid_def AFE_GetCRC_def join16_def sample_afe_def)
qed

section \<open>Two shortcomings\<close>

lemma step_wh_t:
  "met_step m m' \<Longrightarrow> wh_t (energy_cnt (metrology_data m')) = wh_t (energy_cnt (metrology_data m))"
proof (induction rule: met_step.induct)
  case (turn m r)
  have "wh_t (energy_cnt (metrology_data (metrology_process r k n))) = wh_t (energy_cnt (metrology_data n))" for k n
    by (simp add: metrology_process_def store_averages_def store_energy_def Let_def)
  then show ?case by (simp add: metrology_task_turn_def Let_def split: list.split prod.split)
qed (auto simp: Metering_SampleAdd_def Metering_SampleReset_def Metering_SampleFinish_def
      Metering_StartProcessing_def EVSE_Metrology_SetEvent_def EVSE_MetrologyInit_def metrology_init_def
      Metering_CleanEverything_def EVSE_MetrologyDeinit_def Let_def split: if_splits)

text \<open>
  The total energy register the low level reads (\<open>wh_t\<close>) is never written: it is zero after
  every sequence of operations, however many buffers were processed.
\<close>

theorem total_energy_register_is_never_written:
  "met_step\<^sup>*\<^sup>* metrology_boot m \<Longrightarrow> wh_t (Metrology_ReadEnergy m) = 0"
  unfolding Metrology_ReadEnergy_def
  by (induction rule: rtranclp_induct) (simp_all add: step_wh_t metrology_boot_def Let_def)

theorem total_energy_register_is_never_written_witness:
  "wh_t (Metrology_ReadEnergy (metrology_task_turn r (Metering_SampleFinish metrology_boot))) = 0"
proof -
  have "met_step\<^sup>*\<^sup>* metrology_boot (metrology_task_turn r (Metering_SampleFinish metrology_boot))"
    using met_step.finish[of metrology_boot] met_step.turn[of "Metering_SampleFinish metrology_boot" r]
    by (meson rtranclp.rtrancl_into_rtrancl r_into_rtranclp)
  then show ?thesis by (rule total_energy_register_is_never_written)
qed

text \<open>
  Deinitializing the module marks the task as deleted but posts no message: the ready flag
  is cleared first, and the event function does nothing once it is clear, so a task blocked on
  an empty queue is not woken.
\<close>

theorem deinit_posts_no_message:
  "met_queue (EVSE_MetrologyDeinit m) = met_queue m \<and> met_is_init (EVSE_MetrologyDeinit m) = False"
  by (simp add: EVSE_MetrologyDeinit_def EVSE_Metrology_SetEvent_def Let_def)

end
