(* ===== verification/Low_Level.thy ===== *)
theory Low_Level
  imports Control_Pilot Metrology_Buffers J1772_Behaviour
begin

text \<open>
  The low level handlers (\<open>source/EVSE_LowLevel_Handles.c\<close>): the pilot state from a converter
  value, the contactor variable, the readings, and the table \<open>ll_charging_hal\<close> the charging
  components call. The contract of that table is the locale \<open>charging_hal\<close>; it is interpreted on
  the handlers, and connects the log of the state machine with the drivers.
\<close>

section \<open>State and handlers\<close>

record ll_state =
  contactor_state :: bool
  latest_state_returned :: ControlPilotState_t
  latest_state_detected :: ControlPilotState_t
  consecutive_same_state_returned :: u8
  ll_cp :: control_pilot
  ll_met :: metrology
  ll_prints :: "(string \<times> bool) list"

definition ll_boot :: ll_state where
  "ll_boot = \<lparr>contactor_state = True, latest_state_returned = ControlPilot_StateUnknown,
     latest_state_detected = ControlPilot_StateA, consecutive_same_state_returned = 0,
     ll_cp = cp_boot, ll_met = metrology_boot, ll_prints = []\<rparr>"

abbreviation (input) CP_SUCCESIVE_SAME_STATE :: u8 where "CP_SUCCESIVE_SAME_STATE \<equiv> 2"

text \<open>\<open>CP_MAX_VOLTAGE / CP_REFERENCE_SIGNAL_VOLTAGE\<close>, a constant of type \<open>float\<close>.\<close>

definition SCALING_FACTOR :: cfloat where
  "SCALING_FACTOR = fl_div f32 (fl_round f32 (16/10)) (fl_round f32 (18/10))"

definition scale_cp_value :: "u32 \<Rightarrow> u32" where
  "scale_cp_value cp_value = word_of_int (fl_trunc (fl_div f32 (fl_of_int f32 (uint cp_value)) SCALING_FACTOR))"

definition classify_cp :: "u32 \<Rightarrow> ControlPilotState_t" where
  "classify_cp v =
     (if 60000 < v \<and> v < 62000 then ControlPilot_StateA
      else if 54000 < v \<and> v < 56000 then ControlPilot_StateB
      else if 47000 < v \<and> v < 49000 then ControlPilot_StateC
      else if 43000 < v \<and> v < 45000 then ControlPilot_StateD
      else if 30000 < v \<and> v < 32000 then ControlPilot_StateE
      else if 25000 < v \<and> v < 29000 then ControlPilot_StateF
      else ControlPilot_StateUnknown)"

definition EVSE_J1772_GetStateFromCPValue :: "u32 \<Rightarrow> ll_state \<Rightarrow> ControlPilotState_t \<times> ll_state" where
  "EVSE_J1772_GetStateFromCPValue cp_value s =
     (let state = classify_cp (scale_cp_value cp_value);
          s = s\<lparr>latest_state_detected := state\<rparr>;
          s = (if ControlPilot_StateUnknown = state then s\<lparr>consecutive_same_state_returned := 0\<rparr>
               else if CP_SUCCESIVE_SAME_STATE = consecutive_same_state_returned s
                 then s\<lparr>latest_state_returned := state\<rparr>
               else if latest_state_detected s = state
                 then s\<lparr>consecutive_same_state_returned := consecutive_same_state_returned s + 1\<rparr>
               else s\<lparr>consecutive_same_state_returned := 0\<rparr>)
      in (latest_state_returned s, s))"

definition EVSE_LL_Init :: "u32 \<Rightarrow> u32 \<Rightarrow> status_t \<Rightarrow> ll_state \<Rightarrow> ll_state" where
  "EVSE_LL_Init clk prescale calibration s =
     s\<lparr>ll_cp := snd (ADC_Manager_ConfigureADCTrigger (snd (ADC_Manager_Init calibration
                   (ControlPilot_PWM_Init clk prescale (ll_cp s)))))\<rparr>"

definition EVSE_LL_Deinit :: "ll_state \<Rightarrow> ll_state" where
  "EVSE_LL_Deinit s = s"

definition EVSE_LL_IsReady :: "ll_state \<Rightarrow> bool" where
  "EVSE_LL_IsReady s = True"

definition EVSE_LL_SetPwmDuty :: "cfloat \<Rightarrow> ll_state \<Rightarrow> ll_state" where
  "EVSE_LL_SetPwmDuty duty s = s\<lparr>ll_cp := snd (ControlPilot_UpdatePWM duty (ll_cp s))\<rparr>"

definition EVSE_LL_GetPwmDuty :: "ll_state \<Rightarrow> cfloat" where
  "EVSE_LL_GetPwmDuty s = the (ControlPilot_GetDutyCycle (Some (Fin 0)) (ll_cp s))"

definition EVSE_LL_SetPwmState :: "bool \<Rightarrow> ll_state \<Rightarrow> ll_state" where
  "EVSE_LL_SetPwmState enable s = s\<lparr>ll_cp := snd (ControlPilot_PWM_SetState enable (ll_cp s))\<rparr>"

definition EVSE_LL_ReadPilotVoltage :: "ll_state \<Rightarrow> u16" where
  "EVSE_LL_ReadPilotVoltage s = ADC_Manager_ReadControlPilotVoltage (ll_cp s)"

definition EVSE_LL_ReadControlPilot :: "ll_state \<Rightarrow> ControlPilotState_t \<times> ll_state" where
  "EVSE_LL_ReadControlPilot s = EVSE_J1772_GetStateFromCPValue (ucast (EVSE_LL_ReadPilotVoltage s)) s"

definition EVSE_LL_ReadProximityVoltage :: "ll_state \<Rightarrow> u16" where
  "EVSE_LL_ReadProximityVoltage s = 0"

definition EVSE_LL_ReadProximityPilot :: "ll_state \<Rightarrow> ProximityPilotState_t" where
  "EVSE_LL_ReadProximityPilot s = ProximityPilot_Unplugged"

definition EVSE_LL_SetContactorState :: "bool \<Rightarrow> ll_state \<Rightarrow> ll_state" where
  "EVSE_LL_SetContactorState is_open s =
     s\<lparr>ll_prints := ll_prints s @ [(''Relay Open'', is_open)], contactor_state := is_open\<rparr>"

definition EVSE_LL_GetContactorStatus :: "ll_state \<Rightarrow> bool" where
  "EVSE_LL_GetContactorStatus s = contactor_state s"

text \<open>The three cells a reading is written to; a null pointer is \<open>None\<close>.\<close>

definition write_phases :: "phase_data \<Rightarrow> cfloat option \<Rightarrow> cfloat option \<Rightarrow> cfloat option
    \<Rightarrow> cfloat option \<times> cfloat option \<times> cfloat option" where
  "write_phases d a b c = (map_option (\<lambda>_. ph1 d) a, map_option (\<lambda>_. ph2 d) b, map_option (\<lambda>_. ph3 d) c)"

definition EVSE_LL_ReadCurrent where
  "EVSE_LL_ReadCurrent IL1 IL2 IL3 s = write_phases (Metrology_ReadCurrent (ll_met s)) IL1 IL2 IL3"

definition EVSE_LL_ReadVoltage where
  "EVSE_LL_ReadVoltage VL1 VL2 VL3 s = write_phases (Metrology_ReadVoltage (ll_met s)) VL1 VL2 VL3"

definition EVSE_LL_ReadPower where
  "EVSE_LL_ReadPower P1 P2 P3 s = write_phases (Metrology_ReadActivePower (ll_met s)) P1 P2 P3"

definition EVSE_LL_ReadEnergy :: "ll_state \<Rightarrow> cfloat" where
  "EVSE_LL_ReadEnergy s = fl_of_int f32 (uint (wh_t (Metrology_ReadEnergy (ll_met s))))"

definition EVSE_LL_SetVentilation :: "bool \<Rightarrow> ll_state \<Rightarrow> ll_state" where
  "EVSE_LL_SetVentilation enable s = s\<lparr>ll_prints := ll_prints s @ [(''Ventilation started'', enable)]\<rparr>"

section \<open>The table of handlers and its contract\<close>

record 's hal_ops =
  set_pwm_state :: "bool \<Rightarrow> 's \<Rightarrow> 's"
  set_pwm_duty :: "cfloat \<Rightarrow> 's \<Rightarrow> 's"
  get_pwm_duty :: "'s \<Rightarrow> cfloat"
  set_contactor_state :: "bool \<Rightarrow> 's \<Rightarrow> 's"
  get_contactor_status :: "'s \<Rightarrow> bool"
  ventilation_state :: "bool \<Rightarrow> 's \<Rightarrow> 's"

definition ll_charging_hal :: "ll_state hal_ops" where
  "ll_charging_hal = \<lparr>set_pwm_state = EVSE_LL_SetPwmState, set_pwm_duty = EVSE_LL_SetPwmDuty,
     get_pwm_duty = EVSE_LL_GetPwmDuty, set_contactor_state = EVSE_LL_SetContactorState,
     get_contactor_status = EVSE_LL_GetContactorStatus, ventilation_state = EVSE_LL_SetVentilation\<rparr>"

text \<open>A logged call, run on a table; events of the OCPP task do not reach the hardware.\<close>

fun run_hal_call :: "'s hal_ops \<Rightarrow> hal_call \<Rightarrow> 's \<Rightarrow> 's" where
  "run_hal_call ops (Set_pwm_state b) s = set_pwm_state ops b s"
| "run_hal_call ops (Set_pwm_duty d) s = set_pwm_duty ops d s"
| "run_hal_call ops (Set_contactor_state b) s = set_contactor_state ops b s"
| "run_hal_call ops (Ventilation_state b) s = ventilation_state ops b s"
| "run_hal_call ops (OCPP_SetEvent e) s = s"

definition duty_valid :: "cfloat \<Rightarrow> bool" where
  "duty_valid d \<longleftrightarrow> fl_le (Fin 0) d \<and> fl_le d (Fin 100)"

fun call_valid :: "hal_call \<Rightarrow> bool" where
  "call_valid (Set_pwm_duty d) = duty_valid d"
| "call_valid _ = True"

locale charging_hal =
  fixes ops :: "'s hal_ops"
  assumes contactor_set: "get_contactor_status ops (set_contactor_state ops b s) = b"
    and contactor_pwm_state: "get_contactor_status ops (set_pwm_state ops b s) = get_contactor_status ops s"
    and contactor_pwm_duty: "get_contactor_status ops (set_pwm_duty ops d s) = get_contactor_status ops s"
    and contactor_ventilation: "get_contactor_status ops (ventilation_state ops b s) = get_contactor_status ops s"
    and duty_set: "duty_valid d \<Longrightarrow> get_pwm_duty ops (set_pwm_duty ops d s) = d"
    and duty_pwm_state: "get_pwm_duty ops (set_pwm_state ops b s) = get_pwm_duty ops s"
    and duty_contactor: "get_pwm_duty ops (set_contactor_state ops b s) = get_pwm_duty ops s"
    and duty_ventilation: "get_pwm_duty ops (ventilation_state ops b s) = get_pwm_duty ops s"
begin

lemma run_contactor:
  "get_contactor_status ops (fold (run_hal_call ops) cs s) = contactor_open_after (get_contactor_status ops s) cs"
proof (induction cs arbitrary: s)
  case (Cons c cs)
  then show ?case
    by (cases c) (simp_all add: contactor_set contactor_pwm_state contactor_pwm_duty contactor_ventilation)
qed simp

lemma run_duty:
  "list_all call_valid cs \<Longrightarrow>
     get_pwm_duty ops (fold (run_hal_call ops) cs s) = pwm_duty_after (get_pwm_duty ops s) cs"
proof (induction cs arbitrary: s)
  case (Cons c cs)
  then show ?case by (cases c) (simp_all add: duty_set duty_pwm_state duty_contactor duty_ventilation)
qed simp

end

lemma UpdatePWM_duty:
  "duty_valid d \<Longrightarrow> s_fCPDutyCycle (snd (ControlPilot_UpdatePWM d s)) = d"
  by (cases d; cases "s_fCPDutyCycle s")
     (auto simp: duty_valid_def ControlPilot_UpdatePWM_def ADC_Manager_UpdateADCTriggerPeriod_def cp_do_def Let_def)

interpretation ll_hal: charging_hal ll_charging_hal
  by unfold_locales
     (simp_all add: ll_charging_hal_def EVSE_LL_GetContactorStatus_def EVSE_LL_SetContactorState_def
        EVSE_LL_SetPwmState_def EVSE_LL_SetPwmDuty_def EVSE_LL_SetVentilation_def EVSE_LL_GetPwmDuty_def
        ControlPilot_GetDutyCycle_def UpdatePWM_duty ControlPilot_PWM_SetState_def cp_do_def)

section \<open>The state machine on the drivers\<close>

lemma SetState_calls_valid:
  "list_all call_valid (calls s) \<Longrightarrow> list_all call_valid (calls (EVSE_J1772_SetState e n s))"
  by (cases n; simp add: EVSE_J1772_SetState_def enter_defs Let_def)


lemma switch_calls_valid:
  "list_all call_valid (calls s) \<Longrightarrow> list_all call_valid (calls (fst (loop_switch e (s, pm))))"
  by (cases "current_state s")
     (auto simp: loop_switch_def loop_defs Let_def intro!: SetState_calls_valid)

lemma table_duty_valid:
  assumes "pwm_in_table pm" shows "duty_valid (fl_div f32 pm (Fin 10))"
proof -
  have e: "fl_round f32 0 = Fin 0" "fl_round f32 100 = Fin 100" by code_simp+
  have "fl_le (Fin 0) pm \<and> fl_le pm (Fin 1000)"
    using assms by (auto simp: pwm_in_table_def elim!: fl_between_Fin)
  then show ?thesis
    using fl_div_mono[of f32 "Fin 0" pm 10] fl_div_mono[of f32 pm "Fin 1000" 10] by (simp add: duty_valid_def e)
qed

lemma loop_calls_valid:
  assumes "pwm_inv s" "list_all call_valid (calls s)"
  shows "list_all call_valid (calls (EVSE_J1772_Loop_EVSE e s))"
proof -
  obtain s0 where s0: "loop_begin e s = (s0, current_pwm s)" "current_pwm s0 = current_pwm s"
    "calls s0 = calls s" by (rule loop_beginE)
  obtain t pm where t: "loop_switch e (s0, current_pwm s) = (t, pm)" by (cases "loop_switch e (s0, current_pwm s)")
  have v: "list_all call_valid (calls t)" using switch_calls_valid[of s0 e "current_pwm s"] assms s0 t by simp
  have "pwm_in_table pm"
    using switch_pm(1)[OF t] assms(1) new_duty_in_table[of s0] by (auto simp: pwm_inv_def pwm_in_table_def)
  then have "duty_valid (fl_div f32 pm (Fin 10))" by (rule table_duty_valid)
  then show ?thesis using v s0 by (simp add: EVSE_J1772_Loop_EVSE_def t loop_end_def hal_def Let_def)
qed

lemma reachable_calls_valid: "j1772_reachable s \<Longrightarrow> list_all call_valid (calls s)"
proof (induction rule: j1772_reachable.induct)
  case (init h)
  have "duty_valid (fl_div f32 (Fin 1000) (Fin 10))" by (rule table_duty_valid) (simp add: pwm_in_table_def)
  then show ?case
    by (simp add: EVSE_J1772_Init_def j1772_boot_def hal_def EVSE_J1772_SetMaxCurrent_def Let_def)
next
  case (loop s e)
  then show ?case using reachable_pwm_inv loop_calls_valid by blast
qed (simp_all add: EVSE_J1772_StopCharging_def EVSE_J1772_SetMaxCurrent_def Let_def)

text \<open>The drivers after the calls of the state machine, starting from the initial variables.\<close>

definition drive :: "hal_call list \<Rightarrow> ll_state \<Rightarrow> ll_state" where
  "drive cs s = fold (run_hal_call ll_charging_hal) cs s"

lemma drive_contactor: "EVSE_LL_GetContactorStatus (drive cs s) = contactor_open_after (contactor_state s) cs"
  using ll_hal.run_contactor[of cs s] by (simp add: drive_def ll_charging_hal_def EVSE_LL_GetContactorStatus_def)

lemma drive_duty:
  "list_all call_valid cs \<Longrightarrow> EVSE_LL_GetPwmDuty (drive cs s) = pwm_duty_after (EVSE_LL_GetPwmDuty s) cs"
  using ll_hal.run_duty[of cs s] by (simp add: drive_def ll_charging_hal_def)

text \<open>
  End to end: running the calls of the charging state machine on the low level handlers, the
  handler's contactor variable says closed only while the state machine is in B2, C2 or D2, and
  whenever the state machine charges it is closed.
\<close>

lemma drivers_contactor_follows_state_machine:
  assumes "j1772_reachable s"
  shows "(EVSE_LL_GetContactorStatus (drive (calls s) ll_boot) \<or>
      current_state s \<in> {STATE_B2, STATE_C2, STATE_D2}) \<and>
    (\<not> isCharging s \<or> \<not> EVSE_LL_GetContactorStatus (drive (calls s) ll_boot))"
  using reachable_inv[OF assms] drive_contactor[of "calls s" ll_boot]
  by (auto simp: j1772_inv_def relay_open_def ll_boot_def)

lemma pwm_duty_after_any:
  "pwm_duty_after NaN cs \<noteq> NaN \<Longrightarrow> pwm_duty_after d cs = pwm_duty_after NaN cs"
  by (induction d cs rule: pwm_duty_after.induct) auto

text \<open>
  (C14) End to end: whatever the state machine has done since start-up, the handler of the pilot,
  which refuses values out of its range, holds exactly the duty cycle the state machine remembers, divided by ten, and it is
  in range: no duty cycle the state machine sends is refused and lost.
\<close>

theorem drivers_duty_follows_state_machine:
  assumes "j1772_reachable s"
  shows "EVSE_LL_GetPwmDuty (drive (calls s) ll_boot) = fl_div f32 (current_pwm s) (Fin 10) \<and>
    duty_valid (EVSE_LL_GetPwmDuty (drive (calls s) ll_boot))"
proof -
  have p: "pwm_duty_after NaN (calls s) = fl_div f32 (current_pwm s) (Fin 10)" "pwm_in_table (current_pwm s)"
    using reachable_pwm_inv[OF assms] by (simp_all add: pwm_inv_def)
  then have v: "duty_valid (pwm_duty_after NaN (calls s))" using table_duty_valid by simp
  then have "pwm_duty_after NaN (calls s) \<noteq> NaN" by (auto simp: duty_valid_def)
  then show ?thesis
    using drive_duty[OF reachable_calls_valid[OF assms], of ll_boot] pwm_duty_after_any v p(1) by metis
qed

theorem drivers_duty_follows_state_machine_witness:
  "duty_valid (EVSE_LL_GetPwmDuty (drive (calls (sample_run charging_run)) ll_boot))"
  using drivers_duty_follows_state_machine[OF sample_run_reachable, of charging_run] by blast

section \<open>Reading the pilot\<close>

text \<open>
  Once two readings in a row could be classified, every further reading that can be
  classified is returned at once: the counter stays at two, and a single reading of another
  state changes the returned state. An unreadable value returns the previous state.
\<close>

theorem pilot_reading_is_not_debounced:
  assumes "consecutive_same_state_returned s = 2"
  shows "case EVSE_J1772_GetStateFromCPValue v s of (r, s') \<Rightarrow>
    if classify_cp (scale_cp_value v) = ControlPilot_StateUnknown
    then r = latest_state_returned s \<and> consecutive_same_state_returned s' = 0
    else r = classify_cp (scale_cp_value v) \<and> consecutive_same_state_returned s' = 2"
  using assms by (auto simp: EVSE_J1772_GetStateFromCPValue_def Let_def)

lemma scaled_values: "scale_cp_value 54222 = 60999" "scale_cp_value 42667 = 48000"
  by code_simp+

theorem pilot_reading_is_not_debounced_witness:
  "let s = ll_boot\<lparr>consecutive_same_state_returned := 2, latest_state_returned := ControlPilot_StateA\<rparr>
   in fst (EVSE_J1772_GetStateFromCPValue 42667 s) = ControlPilot_StateC"
  using pilot_reading_is_not_debounced[of "ll_boot\<lparr>consecutive_same_state_returned := 2,
      latest_state_returned := ControlPilot_StateA\<rparr>" 42667] scaled_values
  by (simp add: Let_def classify_cp_def split: prod.splits)

end
