(* ===== verification/Pilot_Windows.thy ===== *)
theory Pilot_Windows
  imports Low_Level
begin

text \<open>
  The converter values that stand for each pilot state. Scaling a value is a float division and a
  truncation, both monotone, so each window of the code is a window of converter values whose
  ends are computed here.
\<close>

definition scaled :: "int \<Rightarrow> int" where
  "scaled n = fl_trunc (fl_div f32 (fl_of_int f32 n) SCALING_FACTOR)"

lemma SCALING_FACTOR_value: "SCALING_FACTOR = Fin (7456541/8388608)"
  by code_simp

lemma scaled_quot: "\<bar>n\<bar> \<le> 2 ^ 24 \<Longrightarrow> scaled n = fl_trunc (fl_round f32 (of_int n / (7456541/8388608)))"
  by (simp add: scaled_def SCALING_FACTOR_value fl_of_int_def)

lemma scaled_max: "fl_round f32 131072 = Fin 131072"
  by code_simp

lemma scaled_mono:
  assumes "0 \<le> m" "m \<le> n" "n \<le> 65535" shows "scaled m \<le> scaled n"
proof -
  have mn: "(of_int m :: rat) \<le> of_int n" "(0::rat) \<le> of_int m" "(of_int n :: rat) \<le> 65535"
    using assms by linarith+
  have a: "fl_le (fl_round f32 (of_int m / (7456541/8388608))) (fl_round f32 (of_int n / (7456541/8388608)))"
    using mn by (intro fl_round_mono divide_right_mono) simp_all
  have b: "fl_le (fl_round f32 (of_int n / (7456541/8388608))) (Fin 131072)"
    unfolding scaled_max[symmetric] using mn by (intro fl_round_mono) simp_all
  have c: "fl_le (Fin 0) (fl_round f32 (of_int m / (7456541/8388608)))"
    using mn by (intro fl_round_nonneg) simp
  show ?thesis using assms a b c by (auto simp: scaled_quot intro!: fl_trunc_mono)
qed

text \<open>Enough of the values: rounding moves a quotient below \<open>2 ^ 16\<close> by at most \<open>1 / 2 ^ 9\<close>.\<close>

lemma scaled_range:
  assumes "0 \<le> n" "n \<le> 65535" shows "0 \<le> scaled n" "scaled n \<le> 131072"
proof -
  have mn: "(0::rat) \<le> of_int n" "(of_int n :: rat) \<le> 65535" using assms by linarith+
  have "fl_le (fl_round f32 (of_int n / (7456541/8388608))) (Fin 131072)"
    unfolding scaled_max[symmetric] using mn by (intro fl_round_mono) simp_all
  moreover have "fl_le (Fin 0) (fl_round f32 (of_int n / (7456541/8388608)))"
    using mn by (intro fl_round_nonneg) simp
  ultimately obtain r where r: "fl_round f32 (of_int n / (7456541/8388608)) = Fin r" "0 \<le> r" "r \<le> 131072"
    by (auto elim: fl_between_Fin)
  then show "0 \<le> scaled n" "scaled n \<le> 131072"
    using assms rtrunc_mono[of 0 r] rtrunc_mono[of r 131072] rtrunc_of_int[of 131072]
    by (simp_all add: scaled_quot rtrunc_def)
qed

lemma scaled_error:
  assumes "0 \<le> n" "n \<le> 55112"
  obtains r :: rat where "scaled n = \<lfloor>r\<rfloor>" "0 \<le> r" "\<bar>r - of_int n / (7456541/8388608)\<bar> \<le> 1 / 2 ^ 9"
proof -
  let ?x = "of_int n / (7456541/8388608) :: rat"
  have mn: "(0::rat) \<le> of_int n" "(of_int n :: rat) \<le> 55112" using assms by linarith+
  have x: "0 \<le> ?x" "?x < 2 powi (15 + 1)" "?x \<le> 2 ^ 24" using mn by simp_all
  have e: "\<bar>rnd f32 ?x - ?x\<bar> \<le> 1 / 2 ^ 9"
    using rnd_error[of ?x 15 f32] x(1,2) by (simp add: f32_def power_int_minus)
  have "fl_round f32 ?x = Fin (rnd f32 ?x)" using x by (intro fl_round_f32_small) simp_all
  moreover have "0 \<le> rnd f32 ?x" using x(1) by (rule rnd_nonneg)
  ultimately show ?thesis using that[of "rnd f32 ?x"] e assms
    by (simp add: scaled_quot rtrunc_def)
qed

lemma scaled_ge:
  assumes "0 \<le> n" "n \<le> 65535" "of_int k \<le> (of_int n / (7456541/8388608) :: rat)" "0 \<le> k" "k \<le> 2 ^ 24"
  shows "k \<le> scaled n"
proof -
  have mn: "(of_int n :: rat) \<le> 65535" using assms by linarith
  have "fl_le (fl_round f32 (of_int k)) (fl_round f32 (of_int n / (7456541/8388608)))"
    using assms(3) by (intro fl_round_mono) simp_all
  then have l: "fl_le (Fin (of_int k)) (fl_round f32 (of_int n / (7456541/8388608)))"
    using assms(4,5) by simp
  have "fl_le (fl_round f32 (of_int n / (7456541/8388608))) (Fin 131072)"
    unfolding scaled_max[symmetric] using mn by (intro fl_round_mono) simp_all
  with l obtain r where "fl_round f32 (of_int n / (7456541/8388608)) = Fin r" "of_int k \<le> r"
    by (auto elim: fl_between_Fin)
  then show ?thesis using assms rtrunc_mono[of "of_int k" r] by (simp add: scaled_quot)
qed

lemma scaled_lt:
  assumes "0 \<le> n" "n \<le> 55112" "of_int n / (7456541/8388608) < (of_int k - 1 / 2 ^ 9 :: rat)"
  shows "scaled n < k"
proof -
  obtain r :: rat where r: "scaled n = \<lfloor>r\<rfloor>" "\<bar>r - of_int n / (7456541/8388608)\<bar> \<le> 1 / 2 ^ 9"
    using scaled_error[OF assms(1,2)] by blast
  then have "r < of_int k" using assms(3) by linarith
  then show ?thesis by (simp add: r(1) floor_less_iff)
qed

lemma scaled_less_iff:
  assumes n: "0 \<le> n" "n \<le> 65535" and k: "0 \<le> k" "k < 55112" and c: "0 \<le> c" "c < 65536"
    and "of_int k / (7456541/8388608) < (of_int (c + 1) - 1 / 2 ^ 9 :: rat)"
    and "of_int (c + 1) \<le> (of_int (k + 1) / (7456541/8388608) :: rat)"
  shows "c < scaled n \<longleftrightarrow> k < n"
proof -
  have "scaled k < c + 1" using k assms(7) by (intro scaled_lt) simp_all
  moreover have "c + 1 \<le> scaled (k + 1)" using k c assms(8) by (intro scaled_ge) simp_all
  ultimately show ?thesis
    using scaled_mono[of n k] scaled_mono[of "k + 1" n] n k by (cases "k < n") auto
qed

lemma scale_cp_value_scaled:
  "uint (scale_cp_value (ucast (raw :: u16))) = scaled (uint raw)"
proof -
  have r: "uint raw \<le> 65535" using uint_lt2p[of raw] by simp
  have "0 \<le> scaled (uint raw)" "scaled (uint raw) \<le> 131072"
    using scaled_range[of "uint raw"] r by simp_all
  then have "uint (word_of_int (scaled (uint raw)) :: u32) = scaled (uint raw)"
    by (simp add: uint_word_of_int take_bit_int_eq_self)
  moreover have "uint (ucast raw :: u32) = uint raw" by (simp add: uint_up_ucast is_up)
  ultimately show ?thesis by (simp add: scale_cp_value_def scaled_def)
qed

definition window :: "u16 \<Rightarrow> int \<Rightarrow> int \<Rightarrow> bool" where
  "window raw lo hi \<longleftrightarrow> lo \<le> uint raw \<and> uint raw \<le> hi"

text \<open>
  (C16) The pilot state is classified by these windows of the converter value, which do not
  overlap; every other value is not a state.
\<close>

theorem pilot_windows:
  "classify_cp (scale_cp_value (ucast raw)) =
     (if window raw 53335 55111 then ControlPilot_StateA
      else if window raw 48001 49777 then ControlPilot_StateB
      else if window raw 41779 43555 then ControlPilot_StateC
      else if window raw 38224 40000 then ControlPilot_StateD
      else if window raw 26668 28444 then ControlPilot_StateE
      else if window raw 22224 25777 then ControlPilot_StateF
      else ControlPilot_StateUnknown)"
proof -
  let ?n = "uint raw" and ?v = "scale_cp_value (ucast raw)"
  have n: "0 \<le> ?n" "?n \<le> 65535" using uint_lt2p[of raw] by simp_all
  have cmp: "word_of_int c < ?v \<longleftrightarrow> c < scaled ?n" "?v < word_of_int c \<longleftrightarrow> scaled ?n < c"
    if "0 \<le> c" "c < 2 ^ 32" for c
    using that by (simp_all add: word_less_def scale_cp_value_scaled uint_word_of_int take_bit_int_eq_self)
  have c: "60000 < ?v \<longleftrightarrow> 60000 < scaled ?n" "?v < 62000 \<longleftrightarrow> scaled ?n < 62000"
    "54000 < ?v \<longleftrightarrow> 54000 < scaled ?n" "?v < 56000 \<longleftrightarrow> scaled ?n < 56000"
    "47000 < ?v \<longleftrightarrow> 47000 < scaled ?n" "?v < 49000 \<longleftrightarrow> scaled ?n < 49000"
    "43000 < ?v \<longleftrightarrow> 43000 < scaled ?n" "?v < 45000 \<longleftrightarrow> scaled ?n < 45000"
    "30000 < ?v \<longleftrightarrow> 30000 < scaled ?n" "?v < 32000 \<longleftrightarrow> scaled ?n < 32000"
    "25000 < ?v \<longleftrightarrow> 25000 < scaled ?n" "?v < 29000 \<longleftrightarrow> scaled ?n < 29000"
    using cmp[of 60000] cmp[of 62000] cmp[of 54000] cmp[of 56000] cmp[of 47000] cmp[of 49000]
      cmp[of 43000] cmp[of 45000] cmp[of 30000] cmp[of 32000] cmp[of 25000] cmp[of 29000] by simp_all
  note l = scaled_less_iff[OF n]
  have b: "60000 < scaled ?n \<longleftrightarrow> 53334 < ?n" "54000 < scaled ?n \<longleftrightarrow> 48000 < ?n"
    "47000 < scaled ?n \<longleftrightarrow> 41778 < ?n" "43000 < scaled ?n \<longleftrightarrow> 38223 < ?n"
    "30000 < scaled ?n \<longleftrightarrow> 26667 < ?n" "25000 < scaled ?n \<longleftrightarrow> 22223 < ?n"
    using l[of 53334 60000] l[of 48000 54000] l[of 41778 47000] l[of 38223 43000] l[of 26667 30000]
      l[of 22223 25000] by simp_all
  have "61999 < scaled ?n \<longleftrightarrow> 55111 < ?n" "55999 < scaled ?n \<longleftrightarrow> 49777 < ?n"
    "48999 < scaled ?n \<longleftrightarrow> 43555 < ?n" "44999 < scaled ?n \<longleftrightarrow> 40000 < ?n"
    "31999 < scaled ?n \<longleftrightarrow> 28444 < ?n" "28999 < scaled ?n \<longleftrightarrow> 25777 < ?n"
    using l[of 55111 61999] l[of 49777 55999] l[of 43555 48999] l[of 40000 44999] l[of 28444 31999]
      l[of 25777 28999] by simp_all
  then have b': "scaled ?n < 62000 \<longleftrightarrow> ?n \<le> 55111" "scaled ?n < 56000 \<longleftrightarrow> ?n \<le> 49777"
    "scaled ?n < 49000 \<longleftrightarrow> ?n \<le> 43555" "scaled ?n < 45000 \<longleftrightarrow> ?n \<le> 40000"
    "scaled ?n < 32000 \<longleftrightarrow> ?n \<le> 28444" "scaled ?n < 29000 \<longleftrightarrow> ?n \<le> 25777" by arith+
  show ?thesis unfolding classify_cp_def c b b' window_def by (auto simp: not_le not_less)
qed

end
