(* ===== verification/Mflash_Drv.thy ===== *)
theory Mflash_Drv
  imports EVSE_Prelude "HOL-Library.Monad_Syntax"
begin

text \<open>
  The flash driver of the board, \<open>flash/mflash/frdmrw612/mflash_drv.c\<close>: the command sequences it
  sends to the NOR flash and its address translation. A transfer on the FlexSPI controller
  (\<open>FLEXSPI_TransferBlocking\<close> of the vendor's driver, and the flash chip behind it) is an argument of
  the model; the locale \<open>nor_flash\<close> states what the driver relies on, which is the documented
  behaviour of a NOR flash: erasing sets a sector to ones, programming can only clear bits, both
  need the write enable latch and leave the chip busy for a while. The driver of the controller starts
  a command before it fills the queue of its data: an erasure that fails may have been carried out, and
  of a page whose programming fails any number of bytes may have been programmed. \<open>None\<close> is a call
  that does not return.
\<close>

section \<open>Transfers\<close>

datatype flexspi_command_type_t = kFLEXSPI_Command | kFLEXSPI_Config | kFLEXSPI_Read | kFLEXSPI_Write

text \<open>The port and the number of sequences are the same in every transfer and are left out.\<close>

record flexspi_transfer_t =
  deviceAddress :: u32
  cmdType :: flexspi_command_type_t
  seqIndex :: u8
  xfer_data :: "u8 list"
  dataSize :: u32

text \<open>
  The controller: a transfer gives the status and the bytes read; \<open>SoftwareReset\<close> is
  \<open>FLEXSPI_SoftwareReset\<close>, and \<open>flexspi_setup\<close> the set-up calls of \<open>mflash_drv_init\<close> on the
  controller and the cache.
\<close>

record 'd flexspi =
  TransferBlocking :: "flexspi_transfer_t \<Rightarrow> 'd \<Rightarrow> status_t \<times> u8 list \<times> 'd"
  SoftwareReset :: "'d \<Rightarrow> 'd"
  flexspi_setup :: "'d \<Rightarrow> 'd"

abbreviation (input) NOR_CMD_LUT_SEQ_IDX_READ_FAST_QUAD :: u8 where "NOR_CMD_LUT_SEQ_IDX_READ_FAST_QUAD \<equiv> 0"
abbreviation (input) NOR_CMD_LUT_SEQ_IDX_WRITESTATUSREG :: u8 where "NOR_CMD_LUT_SEQ_IDX_WRITESTATUSREG \<equiv> 1"
abbreviation (input) NOR_CMD_LUT_SEQ_IDX_WRITEENABLE :: u8 where "NOR_CMD_LUT_SEQ_IDX_WRITEENABLE \<equiv> 2"
abbreviation (input) NOR_CMD_LUT_SEQ_IDX_ERASESECTOR :: u8 where "NOR_CMD_LUT_SEQ_IDX_ERASESECTOR \<equiv> 3"
abbreviation (input) NOR_CMD_LUT_SEQ_IDX_PAGEPROGRAM_QUAD :: u8 where "NOR_CMD_LUT_SEQ_IDX_PAGEPROGRAM_QUAD \<equiv> 4"
abbreviation (input) NOR_CMD_LUT_SEQ_IDX_READSTATUSREG :: u8 where "NOR_CMD_LUT_SEQ_IDX_READSTATUSREG \<equiv> 12"
abbreviation (input) FLASH_QUAD_ENABLE :: u8 where "FLASH_QUAD_ENABLE \<equiv> 2"
abbreviation (input) MFLASH_SECTOR_SIZE :: u32 where "MFLASH_SECTOR_SIZE \<equiv> 4096"
abbreviation (input) MFLASH_PAGE_SIZE :: u32 where "MFLASH_PAGE_SIZE \<equiv> 256"
abbreviation (input) MFLASH_BASE_ADDRESS :: u32 where "MFLASH_BASE_ADDRESS \<equiv> 0x08000000"
abbreviation (input) MFLASH_BSIZE :: u32 where "MFLASH_BSIZE \<equiv> 0x04000000"
abbreviation (input) MFLASH_INVALID_ADDRESS :: u32 where "MFLASH_INVALID_ADDRESS \<equiv> 0xFFFFFFFF"

definition read_status_xfer :: flexspi_transfer_t where
  "read_status_xfer = \<lparr>deviceAddress = 0, cmdType = kFLEXSPI_Read, seqIndex = NOR_CMD_LUT_SEQ_IDX_READSTATUSREG,
     xfer_data = [], dataSize = 1\<rparr>"

definition write_enable_xfer :: "u32 \<Rightarrow> flexspi_transfer_t" where
  "write_enable_xfer a = \<lparr>deviceAddress = a, cmdType = kFLEXSPI_Command, seqIndex = NOR_CMD_LUT_SEQ_IDX_WRITEENABLE,
     xfer_data = [], dataSize = 0\<rparr>"

definition erase_xfer :: "u32 \<Rightarrow> flexspi_transfer_t" where
  "erase_xfer a = \<lparr>deviceAddress = a, cmdType = kFLEXSPI_Command, seqIndex = NOR_CMD_LUT_SEQ_IDX_ERASESECTOR,
     xfer_data = [], dataSize = 0\<rparr>"

definition program_xfer :: "u32 \<Rightarrow> u8 list \<Rightarrow> flexspi_transfer_t" where
  "program_xfer a ds = \<lparr>deviceAddress = a, cmdType = kFLEXSPI_Write,
     seqIndex = NOR_CMD_LUT_SEQ_IDX_PAGEPROGRAM_QUAD, xfer_data = ds, dataSize = MFLASH_PAGE_SIZE\<rparr>"

section \<open>Command sequences\<close>

partial_function (option) flexspi_nor_wait_bus_busy :: "'d flexspi \<Rightarrow> 'd \<Rightarrow> (status_t \<times> 'd) option" where
  "flexspi_nor_wait_bus_busy f d =
     (case TransferBlocking f read_status_xfer d of (status, readValue, d) \<Rightarrow>
        if status \<noteq> kStatus_Success then Some (status, d)
        else if bit (hd readValue) 0 then flexspi_nor_wait_bus_busy f d
        else Some (status, d))"

definition flexspi_nor_write_enable :: "'d flexspi \<Rightarrow> u32 \<Rightarrow> 'd \<Rightarrow> status_t \<times> 'd" where
  "flexspi_nor_write_enable f baseAddr d =
     (case TransferBlocking f (write_enable_xfer baseAddr) d of (status, _, d) \<Rightarrow> (status, d))"

definition flexspi_nor_enable_quad_mode :: "'d flexspi \<Rightarrow> 'd \<Rightarrow> (status_t \<times> 'd) option" where
  "flexspi_nor_enable_quad_mode f d =
     (let (status, d) = flexspi_nor_write_enable f 0 d in
      if status \<noteq> kStatus_Success then Some (status, d) else
      let (status, _, d) = TransferBlocking f \<lparr>deviceAddress = 0, cmdType = kFLEXSPI_Write,
             seqIndex = NOR_CMD_LUT_SEQ_IDX_WRITESTATUSREG, xfer_data = [FLASH_QUAD_ENABLE], dataSize = 1\<rparr> d in
      if status \<noteq> kStatus_Success then Some (status, d) else
      do {
        (status, d) \<leftarrow> flexspi_nor_wait_bus_busy f d;
        Some (status, SoftwareReset f d)
      })"

definition flexspi_nor_flash_sector_erase :: "'d flexspi \<Rightarrow> u32 \<Rightarrow> 'd \<Rightarrow> (status_t \<times> 'd) option" where
  "flexspi_nor_flash_sector_erase f address d =
     (let (status, _, d) = TransferBlocking f (write_enable_xfer address) d in
      if status \<noteq> kStatus_Success then Some (status, d) else
      let (status, _, d) = TransferBlocking f (erase_xfer address) d in
      if status \<noteq> kStatus_Success then Some (status, d) else
      do {
        (status, d) \<leftarrow> flexspi_nor_wait_bus_busy f d;
        Some (status, SoftwareReset f d)
      })"

definition flexspi_nor_flash_page_program :: "'d flexspi \<Rightarrow> u32 \<Rightarrow> u8 list \<Rightarrow> 'd \<Rightarrow> (status_t \<times> 'd) option" where
  "flexspi_nor_flash_page_program f dstAddr src d =
     do {
       (status, d) \<leftarrow> flexspi_nor_wait_bus_busy f d;
       if status \<noteq> kStatus_Success then Some (status, d) else
       let (status, d) = flexspi_nor_write_enable f dstAddr d in
       if status \<noteq> kStatus_Success then Some (status, d) else
       let (status, _, d) = TransferBlocking f (program_xfer dstAddr src) d in
       if status \<noteq> kStatus_Success then Some (status, d) else
       do {
         (status, d) \<leftarrow> flexspi_nor_wait_bus_busy f d;
         Some (status, SoftwareReset f d)
       }
     }"

definition flexspi_nor_read_data :: "'d flexspi \<Rightarrow> u32 \<Rightarrow> u32 \<Rightarrow> 'd \<Rightarrow> (status_t \<times> u8 list \<times> 'd) option" where
  "flexspi_nor_read_data f startAddress len d =
     (let (status, buffer, d) = TransferBlocking f \<lparr>deviceAddress = startAddress, cmdType = kFLEXSPI_Read,
             seqIndex = NOR_CMD_LUT_SEQ_IDX_READ_FAST_QUAD, xfer_data = [], dataSize = len\<rparr> d in
      if status = kStatus_Success
      then do {
        (status, d) \<leftarrow> flexspi_nor_wait_bus_busy f d;
        Some (status, buffer, d)
      }
      else Some (status, buffer, d))"

section \<open>The interface of the driver\<close>

text \<open>Interrupt masking and cache maintenance do not change the flash and are left out.\<close>

definition mflash_drv_init_internal :: "'d flexspi \<Rightarrow> 'd \<Rightarrow> (status_t \<times> 'd) option" where
  "mflash_drv_init_internal f d =
     do {
       (_, d) \<leftarrow> flexspi_nor_enable_quad_mode f (flexspi_setup f d);
       Some (kStatus_Success, d)
     }"

definition mflash_drv_init :: "'d flexspi \<Rightarrow> 'd \<Rightarrow> (status_t \<times> 'd) option" where
  "mflash_drv_init f d = mflash_drv_init_internal f d"

definition mflash_drv_is_page_aligned :: "u32 \<Rightarrow> bool" where
  "mflash_drv_is_page_aligned x \<longleftrightarrow> x mod MFLASH_PAGE_SIZE = 0"

definition mflash_drv_is_sector_aligned :: "u32 \<Rightarrow> bool" where
  "mflash_drv_is_sector_aligned x \<longleftrightarrow> x mod MFLASH_SECTOR_SIZE = 0"

definition mflash_drv_sector_erase :: "'d flexspi \<Rightarrow> u32 \<Rightarrow> 'd \<Rightarrow> (status_t \<times> 'd) option" where
  "mflash_drv_sector_erase f sector_addr d =
     (if \<not> mflash_drv_is_sector_aligned sector_addr then Some (kStatus_InvalidArgument, d)
      else flexspi_nor_flash_sector_erase f sector_addr d)"

definition mflash_drv_page_program :: "'d flexspi \<Rightarrow> u32 \<Rightarrow> u8 list \<Rightarrow> 'd \<Rightarrow> (status_t \<times> 'd) option" where
  "mflash_drv_page_program f page_addr ds d =
     (if \<not> mflash_drv_is_page_aligned page_addr then Some (kStatus_InvalidArgument, d)
      else flexspi_nor_flash_page_program f page_addr ds d)"

text \<open>The address of the buffer counts only for its alignment.\<close>

definition mflash_drv_read :: "'d flexspi \<Rightarrow> u32 \<Rightarrow> u32 \<Rightarrow> u32 \<Rightarrow> 'd \<Rightarrow> (status_t \<times> u8 list \<times> 'd) option" where
  "mflash_drv_read f addr buffer len d =
     (if buffer mod 4 \<noteq> 0 \<or> len mod 4 \<noteq> 0 then Some (kStatus_InvalidArgument, [], d)
      else do {
        (status, ds, d) \<leftarrow> flexspi_nor_read_data f addr len d;
        Some (status, ds, SoftwareReset f d)
      })"

section \<open>Address translation\<close>

text \<open>The remapping registers of the controller, as the macros \<open>MFLASH_REMAP_...\<close> read them.\<close>

record flexspi_remap =
  remap_offset :: u32
  remap_start :: u32
  remap_end :: u32

definition mflash_drv_phys2log :: "flexspi_remap \<Rightarrow> u32 \<Rightarrow> u32 \<Rightarrow> u32" where
  "mflash_drv_phys2log r addr len =
     (if addr \<ge> MFLASH_BSIZE then 0
      else let bus_addr = addr + MFLASH_BASE_ADDRESS in
      if remap_offset r = 0 \<or> remap_end r \<le> remap_start r then bus_addr
      else if remap_start r \<ge> bus_addr + len \<or> remap_end r \<le> bus_addr then bus_addr
      else if remap_start r + remap_offset r \<le> bus_addr \<and> remap_end r + remap_offset r \<ge> bus_addr + len
      then bus_addr - remap_offset r
      else 0)"

definition mflash_drv_log2phys :: "flexspi_remap \<Rightarrow> u32 \<Rightarrow> u32 \<Rightarrow> u32" where
  "mflash_drv_log2phys r bus_addr len =
     (if bus_addr < MFLASH_BASE_ADDRESS then MFLASH_INVALID_ADDRESS
      else let ret = bus_addr - MFLASH_BASE_ADDRESS in
      if ret \<ge> MFLASH_BSIZE then MFLASH_INVALID_ADDRESS
      else if remap_offset r = 0 \<or> remap_end r \<le> remap_start r then ret
      else if remap_start r \<ge> bus_addr + len \<or> remap_end r \<le> bus_addr then ret
      else if remap_start r \<le> bus_addr \<and> remap_end r \<ge> bus_addr + len then ret + remap_offset r
      else MFLASH_INVALID_ADDRESS)"

end
