(* ===== verification/Mflash_Nor.thy ===== *)
theory Mflash_Nor
  imports Mflash_Drv
begin

text \<open>
  What the flash driver promises: the contract of \<open>flash/mflash/mflash_common.h\<close> as the locale
  \<open>mflash_driver\<close>, the assumptions on the flash chip as the locale \<open>nor_flash\<close>, the proof that the
  board's driver implements the contract (\<open>sublocale\<close>), and a NOR device on which both are
  interpreted. The device carries a schedule of transfers that fail, and of how much of them reached it.
\<close>

section \<open>The interface of the drivers\<close>

text \<open>
  The functions of \<open>mflash_common.h\<close> that the file system calls, which every board implements, and
  the byte that a read through a pointer gives.
\<close>

record 'd mflash_drv =
  drv_init :: "'d \<Rightarrow> (status_t \<times> 'd) option"
  drv_sector_erase :: "u32 \<Rightarrow> 'd \<Rightarrow> (status_t \<times> 'd) option"
  drv_page_program :: "u32 \<Rightarrow> u8 list \<Rightarrow> 'd \<Rightarrow> (status_t \<times> 'd) option"
  drv_phys2log :: "u32 \<Rightarrow> u32 \<Rightarrow> u32"
  drv_log2phys :: "u32 \<Rightarrow> u32 \<Rightarrow> u32"
  bus_read :: "'d \<Rightarrow> u32 \<Rightarrow> u8"

definition nor_erase :: "u32 \<Rightarrow> (u32 \<Rightarrow> u8) \<Rightarrow> u32 \<Rightarrow> u8" where
  "nor_erase a m x = (if x div MFLASH_SECTOR_SIZE = a div MFLASH_SECTOR_SIZE then 0xFF else m x)"

definition nor_program :: "u32 \<Rightarrow> u8 list \<Rightarrow> (u32 \<Rightarrow> u8) \<Rightarrow> u32 \<Rightarrow> u8" where
  "nor_program a ds m x = (if unat (x - a) < length ds then and (m x) (ds ! unat (x - a)) else m x)"

text \<open>
  The contract. An operation always returns; when it succeeds it has been carried out and the next
  operation can start. An erasure that fails has been carried out or not, a program operation that
  fails up to some byte of the page. On a healthy device an operation succeeds.
\<close>

locale mflash_driver =
  fixes drv :: "'d mflash_drv"
    and flash :: "'d \<Rightarrow> u32 \<Rightarrow> u8"
    and ready :: "'d \<Rightarrow> bool"
    and healthy :: "'d \<Rightarrow> bool"
  assumes erase_law: "ready d \<Longrightarrow> a mod MFLASH_SECTOR_SIZE = 0 \<Longrightarrow>
      \<exists>st d'. drv_sector_erase drv a d = Some (st, d') \<and>
        (flash d' = flash d \<or> flash d' = nor_erase a (flash d)) \<and>
        (st = kStatus_Success \<longrightarrow> flash d' = nor_erase a (flash d) \<and> ready d') \<and>
        (healthy d \<longrightarrow> st = kStatus_Success \<and> healthy d')"
    and program_law: "ready d \<Longrightarrow> a mod MFLASH_PAGE_SIZE = 0 \<Longrightarrow> length ds = 256 \<Longrightarrow>
      \<exists>st d'. drv_page_program drv a ds d = Some (st, d') \<and>
        (\<exists>k \<le> 256. flash d' = nor_program a (take k ds) (flash d)) \<and>
        (st = kStatus_Success \<longrightarrow> flash d' = nor_program a ds (flash d) \<and> ready d') \<and>
        (healthy d \<longrightarrow> st = kStatus_Success \<and> healthy d')"
    and init_law: "\<exists>st d'. drv_init drv d = Some (st, d') \<and> flash d' = flash d"
    and bus_law: "drv_log2phys drv p 1 \<noteq> MFLASH_INVALID_ADDRESS \<Longrightarrow>
      bus_read drv d p = flash d (drv_log2phys drv p 1)"
    and bus_cong: "flash d' = flash d \<Longrightarrow> bus_read drv d' p = bus_read drv d p"

section \<open>The flash chip\<close>

text \<open>
  What the driver relies on. The controller starts a command before it has got all its data, and may
  stop with an error in between: of a page the chip then has programmed the bytes it had received.
  \<open>busy\<close> is the number of status reads after which the chip is ready
  again, \<open>healthy\<close> a device whose transfers do not fail.
\<close>

locale nor_flash =
  fixes f :: "'d flexspi"
    and mem :: "'d \<Rightarrow> u32 \<Rightarrow> u8"
    and wel :: "'d \<Rightarrow> bool"
    and busy :: "'d \<Rightarrow> nat"
    and healthy :: "'d \<Rightarrow> bool"
    and r :: flexspi_remap
  assumes failed: "TransferBlocking f t d = (st, rd, d') \<Longrightarrow> st \<noteq> kStatus_Success \<Longrightarrow>
      seqIndex t \<noteq> NOR_CMD_LUT_SEQ_IDX_ERASESECTOR \<Longrightarrow> seqIndex t \<noteq> NOR_CMD_LUT_SEQ_IDX_PAGEPROGRAM_QUAD \<Longrightarrow>
      mem d' = mem d"
    and failed_erase: "TransferBlocking f (erase_xfer a) d = (st, rd, d') \<Longrightarrow> st \<noteq> kStatus_Success \<Longrightarrow>
      mem d' = mem d \<or> mem d' = nor_erase a (mem d)"
    and failed_program: "TransferBlocking f (program_xfer a ds) d = (st, rd, d') \<Longrightarrow> st \<noteq> kStatus_Success \<Longrightarrow>
      length ds = 256 \<Longrightarrow> \<exists>k \<le> 256. mem d' = nor_program a (take k ds) (mem d)"
    and other: "TransferBlocking f t d = (kStatus_Success, rd, d') \<Longrightarrow>
      seqIndex t \<noteq> NOR_CMD_LUT_SEQ_IDX_ERASESECTOR \<Longrightarrow> seqIndex t \<noteq> NOR_CMD_LUT_SEQ_IDX_PAGEPROGRAM_QUAD \<Longrightarrow>
      mem d' = mem d"
    and status: "TransferBlocking f read_status_xfer d = (kStatus_Success, rd, d') \<Longrightarrow>
      (bit (hd rd) 0 \<longleftrightarrow> 0 < busy d) \<and> busy d' = busy d - 1"
    and write_enable: "TransferBlocking f (write_enable_xfer a) d = (kStatus_Success, rd, d') \<Longrightarrow>
      busy d = 0 \<Longrightarrow> wel d' \<and> busy d' = 0"
    and erase: "TransferBlocking f (erase_xfer a) d = (kStatus_Success, rd, d') \<Longrightarrow>
      busy d = 0 \<Longrightarrow> wel d \<Longrightarrow> a mod MFLASH_SECTOR_SIZE = 0 \<Longrightarrow> mem d' = nor_erase a (mem d)"
    and program_page: "TransferBlocking f (program_xfer a ds) d = (kStatus_Success, rd, d') \<Longrightarrow>
      busy d = 0 \<Longrightarrow> wel d \<Longrightarrow> a mod MFLASH_PAGE_SIZE = 0 \<Longrightarrow> length ds = 256 \<Longrightarrow>
      mem d' = nor_program a ds (mem d)"
    and healthy: "TransferBlocking f t d = (st, rd, d') \<Longrightarrow> healthy d \<Longrightarrow> st = kStatus_Success \<and> healthy d'"
    and reset: "mem (SoftwareReset f d) = mem d" "busy (SoftwareReset f d) = busy d"
      "healthy (SoftwareReset f d) = healthy d"
    and setup_mem: "mem (flexspi_setup f d) = mem d"
begin

lemma transfer_mem:
  "seqIndex t \<noteq> NOR_CMD_LUT_SEQ_IDX_ERASESECTOR \<Longrightarrow> seqIndex t \<noteq> NOR_CMD_LUT_SEQ_IDX_PAGEPROGRAM_QUAD \<Longrightarrow>
   TransferBlocking f t d = (st, rd, d') \<Longrightarrow> mem d' = mem d"
  using failed[of t d st rd d'] other[of t d rd d'] by (cases "st = kStatus_Success") auto

lemma wait_returns:
  "\<exists>st d'. flexspi_nor_wait_bus_busy f d = Some (st, d') \<and> mem d' = mem d \<and> (st = kStatus_Success \<longrightarrow> busy d' = 0) \<and>
    (healthy d \<longrightarrow> st = kStatus_Success \<and> healthy d')"
proof (induction "busy d" arbitrary: d)
  case 0
  obtain st rd d' where t: "TransferBlocking f read_status_xfer d = (st, rd, d')" by (cases "TransferBlocking f read_status_xfer d")
  then have "mem d' = mem d" by (rule transfer_mem[rotated 2]) (simp_all add: read_status_xfer_def)
  then show ?case using t 0 status[of d rd d']
      healthy[OF t] by (subst flexspi_nor_wait_bus_busy.simps) auto
next
  case (Suc n)
  obtain st rd d' where t: "TransferBlocking f read_status_xfer d = (st, rd, d')" by (cases "TransferBlocking f read_status_xfer d")
  then have m: "mem d' = mem d" by (rule transfer_mem[rotated 2]) (simp_all add: read_status_xfer_def)
  show ?case
  proof (cases "st = kStatus_Success")
    case True
    then have b: "bit (hd rd) 0" "n = busy d'" using status[of d rd d'] t Suc(2) by auto
    have h: "healthy d \<longrightarrow> healthy d'" using healthy[OF t] by blast
    have "flexspi_nor_wait_bus_busy f d = flexspi_nor_wait_bus_busy f d'"
      using t True b(1) by (subst flexspi_nor_wait_bus_busy.simps) simp
    then show ?thesis using Suc(1)[OF b(2)] m h by metis
  next
    case False
    have "\<not> healthy d" using healthy[OF t] False by blast
    then show ?thesis using False t m by (subst flexspi_nor_wait_bus_busy.simps) simp
  qed
qed

lemma waitE:
  obtains st d' where "flexspi_nor_wait_bus_busy f d = Some (st, d')" "mem d' = mem d"
    "st = kStatus_Success \<longrightarrow> busy d' = 0" "healthy d \<longrightarrow> st = kStatus_Success \<and> healthy d'"
  using wait_returns[of d] by blast

lemma write_enableE:
  obtains st rd d' where "TransferBlocking f (write_enable_xfer a) d = (st, rd, d')" "mem d' = mem d"
    "st = kStatus_Success \<and> busy d = 0 \<longrightarrow> wel d' \<and> busy d' = 0"
proof -
  obtain st rd d' where t: "TransferBlocking f (write_enable_xfer a) d = (st, rd, d')"
    by (cases "TransferBlocking f (write_enable_xfer a) d")
  have m: "mem d' = mem d" by (rule transfer_mem[OF _ _ t]) (simp_all add: write_enable_xfer_def)
  show ?thesis by (rule that[OF t m]) (use write_enable[of a d rd d'] t in auto)
qed

lemma sector_erase:
  assumes "busy d = 0" "a mod MFLASH_SECTOR_SIZE = 0"
  shows "\<exists>st d'. mflash_drv_sector_erase f a d = Some (st, d') \<and> (mem d' = mem d \<or> mem d' = nor_erase a (mem d)) \<and>
    (st = kStatus_Success \<longrightarrow> mem d' = nor_erase a (mem d) \<and> busy d' = 0) \<and>
    (healthy d \<longrightarrow> st = kStatus_Success \<and> healthy d')"
proof -
  obtain s1 r1 d1 where w: "TransferBlocking f (write_enable_xfer a) d = (s1, r1, d1)" "mem d1 = mem d"
    "s1 = kStatus_Success \<and> busy d = 0 \<longrightarrow> wel d1 \<and> busy d1 = 0" by (rule write_enableE[of a d])
  obtain s2 r2 d2 where e: "TransferBlocking f (erase_xfer a) d1 = (s2, r2, d2)" by (cases "TransferBlocking f (erase_xfer a) d1")
  obtain s3 d3 where b: "flexspi_nor_wait_bus_busy f d2 = Some (s3, d3)" "mem d3 = mem d2"
    "s3 = kStatus_Success \<longrightarrow> busy d3 = 0" "healthy d2 \<longrightarrow> s3 = kStatus_Success \<and> healthy d3" by (rule waitE[of d2])
  note code = mflash_drv_sector_erase_def mflash_drv_is_sector_aligned_def flexspi_nor_flash_sector_erase_def
  show ?thesis
  proof (cases "s1 = kStatus_Success \<and> s2 = kStatus_Success")
    case True
    then have "mem d2 = nor_erase a (mem d)"
      using erase[of a d1 r2 d2] e w assms by simp
    then show ?thesis using assms w e b True healthy[OF w(1)] healthy[OF e] by (simp add: code reset)
  next
    case False
    then show ?thesis using assms w e failed_erase[OF e] healthy[OF w(1)] healthy[OF e] by (auto simp: code)
  qed
qed

lemma program_nothing: "nor_program a (take 0 ds) m = m" "length ds = 256 \<Longrightarrow> nor_program a (take 256 ds) m = nor_program a ds m"
  by (simp_all add: nor_program_def fun_eq_iff)

lemma page_program:
  assumes "a mod MFLASH_PAGE_SIZE = 0" "length ds = 256"
  shows "\<exists>st d'. mflash_drv_page_program f a ds d = Some (st, d') \<and> (\<exists>k \<le> 256. mem d' = nor_program a (take k ds) (mem d)) \<and>
    (st = kStatus_Success \<longrightarrow> mem d' = nor_program a ds (mem d) \<and> busy d' = 0) \<and>
    (healthy d \<longrightarrow> st = kStatus_Success \<and> healthy d')"
proof -
  obtain s0 d0 where i: "flexspi_nor_wait_bus_busy f d = Some (s0, d0)" "mem d0 = mem d"
    "s0 = kStatus_Success \<longrightarrow> busy d0 = 0" "healthy d \<longrightarrow> s0 = kStatus_Success \<and> healthy d0" by (rule waitE[of d])
  obtain s1 r1 d1 where w: "TransferBlocking f (write_enable_xfer a) d0 = (s1, r1, d1)" "mem d1 = mem d0"
    "s1 = kStatus_Success \<and> busy d0 = 0 \<longrightarrow> wel d1 \<and> busy d1 = 0" by (rule write_enableE[of a d0])
  obtain s2 r2 d2 where e: "TransferBlocking f (program_xfer a ds) d1 = (s2, r2, d2)" by (cases "TransferBlocking f (program_xfer a ds) d1")
  obtain s3 d3 where b: "flexspi_nor_wait_bus_busy f d2 = Some (s3, d3)" "mem d3 = mem d2"
    "s3 = kStatus_Success \<longrightarrow> busy d3 = 0" "healthy d2 \<longrightarrow> s3 = kStatus_Success \<and> healthy d3" by (rule waitE[of d2])
  note code = mflash_drv_page_program_def mflash_drv_is_page_aligned_def flexspi_nor_flash_page_program_def
    flexspi_nor_write_enable_def
  show ?thesis
  proof (cases "s0 = kStatus_Success \<and> s1 = kStatus_Success \<and> s2 = kStatus_Success")
    case True
    then have "mem d2 = nor_program a ds (mem d)"
      using program_page[of a ds d1 r2 d2] e w i assms by simp
    then show ?thesis using assms i w e b True healthy[OF w(1)] healthy[OF e] program_nothing(2)[OF assms(2)]
      by (auto simp: code reset intro!: exI[of _ 256])
  next
    case F: False
    have none: "\<exists>k \<le> 256. mem d = nor_program a (take k ds) (mem d)" using program_nothing(1) by (intro exI[of _ 0]) simp
    show ?thesis
    proof (cases "s0 = kStatus_Success \<and> s1 = kStatus_Success")
      case True
      then show ?thesis using F assms i w e failed_program[OF e _ assms(2)] healthy[OF w(1)] healthy[OF e] by (auto simp: code)
    next
      case False
      then show ?thesis using assms i w none healthy[OF w(1)] by (auto simp: code)
    qed
  qed
qed

lemma init_keeps_flash: "\<exists>st d'. mflash_drv_init f d = Some (st, d') \<and> mem d' = mem d"
proof -
  let ?t = "\<lparr>deviceAddress = 0, cmdType = kFLEXSPI_Write, seqIndex = 1, xfer_data = [2], dataSize = 1\<rparr>"
  obtain s1 r1 d1 where w: "TransferBlocking f (write_enable_xfer 0) (flexspi_setup f d) = (s1, r1, d1)"
    "mem d1 = mem (flexspi_setup f d)" by (rule write_enableE[of 0 "flexspi_setup f d"])
  obtain s2 r2 d2 where e: "TransferBlocking f ?t d1 = (s2, r2, d2)" by (cases "TransferBlocking f ?t d1")
  have m: "mem d2 = mem d1" by (rule transfer_mem[OF _ _ e]) simp_all
  obtain s3 d3 where b: "flexspi_nor_wait_bus_busy f d2 = Some (s3, d3)" "mem d3 = mem d2" by (rule waitE[of d2])
  show ?thesis using w e b m
    by (simp add: mflash_drv_init_def mflash_drv_init_internal_def flexspi_nor_enable_quad_mode_def
        flexspi_nor_write_enable_def setup_mem reset)
qed

end

section \<open>The driver of the board implements the interface\<close>

definition frdmrw612_drv :: "'d flexspi \<Rightarrow> ('d \<Rightarrow> u32 \<Rightarrow> u8) \<Rightarrow> flexspi_remap \<Rightarrow> 'd mflash_drv" where
  "frdmrw612_drv f mem r = \<lparr>drv_init = mflash_drv_init f, drv_sector_erase = mflash_drv_sector_erase f,
     drv_page_program = mflash_drv_page_program f, drv_phys2log = mflash_drv_phys2log r,
     drv_log2phys = mflash_drv_log2phys r, bus_read = (\<lambda>d p. mem d (mflash_drv_log2phys r p 1))\<rparr>"

sublocale nor_flash \<subseteq> board: mflash_driver "frdmrw612_drv f mem r" mem "\<lambda>d. busy d = 0" healthy
proof
qed (simp_all add: frdmrw612_drv_def sector_erase page_program init_keeps_flash)

section \<open>A flash device\<close>

text \<open>
  A NOR flash: \<open>nor_fail\<close> says what becomes of the next transfers, \<open>nor_delay\<close> for how many status
  reads an operation keeps it busy. A command sent while it is busy is ignored. Of a transfer that
  fails, nothing has reached the chip (\<open>Lost\<close>), or the command with the first bytes of its data
  (\<open>Torn\<close>). A read through the bus is one of the chip at rest.
\<close>

datatype nor_outcome = Done | Lost | Torn nat

record nor_dev =
  nor_mem :: "u32 \<Rightarrow> u8"
  nor_wel :: bool
  nor_busy :: nat
  nor_delay :: nat
  nor_fail :: "nor_outcome list"

definition nor_command :: "flexspi_transfer_t \<Rightarrow> nor_dev \<Rightarrow> status_t \<times> u8 list \<times> nor_dev" where
  "nor_command t d =
     (if seqIndex t = NOR_CMD_LUT_SEQ_IDX_READSTATUSREG
      then (kStatus_Success, [if 0 < nor_busy d then 1 else 0], d\<lparr>nor_busy := nor_busy d - 1\<rparr>)
      else if 0 < nor_busy d then (kStatus_Success, [], d)
      else if seqIndex t = NOR_CMD_LUT_SEQ_IDX_WRITEENABLE then (kStatus_Success, [], d\<lparr>nor_wel := True\<rparr>)
      else if seqIndex t = NOR_CMD_LUT_SEQ_IDX_ERASESECTOR \<and> nor_wel d
      then (kStatus_Success, [], d\<lparr>nor_mem := nor_erase (deviceAddress t) (nor_mem d), nor_wel := False,
                                   nor_busy := nor_delay d\<rparr>)
      else if seqIndex t = NOR_CMD_LUT_SEQ_IDX_PAGEPROGRAM_QUAD \<and> nor_wel d
      then (kStatus_Success, [], d\<lparr>nor_mem := nor_program (deviceAddress t) (xfer_data t) (nor_mem d),
                                   nor_wel := False, nor_busy := nor_delay d\<rparr>)
      else if seqIndex t = NOR_CMD_LUT_SEQ_IDX_READ_FAST_QUAD
      then (kStatus_Success, map (\<lambda>i. nor_mem d (deviceAddress t + of_nat i)) [0..<unat (dataSize t)], d)
      else (kStatus_Success, [], d))"

definition nor_transfer :: "flexspi_transfer_t \<Rightarrow> nor_dev \<Rightarrow> status_t \<times> u8 list \<times> nor_dev" where
  "nor_transfer t d =
     (case nor_fail d of
        [] \<Rightarrow> nor_command t d
      | Done # rest \<Rightarrow> nor_command t (d\<lparr>nor_fail := rest\<rparr>)
      | Lost # rest \<Rightarrow> (kStatus_Fail, [], d\<lparr>nor_fail := rest\<rparr>)
      | Torn k # rest \<Rightarrow>
          (case nor_command (t\<lparr>xfer_data := take k (xfer_data t)\<rparr>) (d\<lparr>nor_fail := rest\<rparr>) of
             (_, _, d) \<Rightarrow> (kStatus_Fail, [], d)))"

definition nor_flexspi :: "nor_dev flexspi" where
  "nor_flexspi = \<lparr>TransferBlocking = nor_transfer, SoftwareReset = (\<lambda>d. d), flexspi_setup = (\<lambda>d. d)\<rparr>"

definition nor_board :: "flexspi_remap \<Rightarrow> nor_dev mflash_drv" where
  "nor_board r = frdmrw612_drv nor_flexspi nor_mem r"

lemmas nor_device = nor_flexspi_def nor_transfer_def nor_command_def

lemma torn_program:
  "length ds = 256 \<Longrightarrow> \<exists>k \<le> 256. nor_program a (take n ds) m = nor_program a (take k ds) m"
  "length ds = 256 \<Longrightarrow> \<exists>k \<le> 256. m = nor_program a (take k ds) m"
  by (cases "n \<le> 256", blast, intro exI[of _ 256], simp) (intro exI[of _ 0], simp add: nor_program_def fun_eq_iff)

interpretation nor: nor_flash nor_flexspi nor_mem nor_wel nor_busy "\<lambda>d. nor_fail d = []" r for r
  by unfold_locales
    (auto simp: nor_device read_status_xfer_def write_enable_xfer_def erase_xfer_def program_xfer_def torn_program
      split: list.splits nor_outcome.splits if_splits)

end
