(* ===== verification/Mflash_File.thy ===== *)
theory Mflash_File
  imports Mflash_Nor
begin

text \<open>
  The file system \<open>flash/mflash/mflash_file.c\<close>: a directory of pre-allocated files in a flash area,
  written through the driver interface of \<open>mflash_common.h\<close>. Structures are read and written as the
  little-endian bytes the code puts in memory. The page integrity checks are not compiled in, so
  \<open>mflash_readable_check\<close> always succeeds. \<open>None\<close> is a call that does not return or dereferences a
  null template; whether the page buffer can be allocated is an argument.
\<close>

section \<open>Bytes\<close>

definition bytes_of_u32 :: "u32 \<Rightarrow> u8 list" where
  "bytes_of_u32 w = [ucast w, ucast (drop_bit 8 w), ucast (drop_bit 16 w), ucast (drop_bit 24 w)]"

definition u32_of_bytes :: "u8 \<Rightarrow> u8 \<Rightarrow> u8 \<Rightarrow> u8 \<Rightarrow> u32" where
  "u32_of_bytes a b c d =
     or (ucast a) (or (push_bit 8 (ucast b)) (or (push_bit 16 (ucast c)) (push_bit 24 (ucast d))))"

definition read32 :: "'d mflash_drv \<Rightarrow> 'd \<Rightarrow> u32 \<Rightarrow> u32" where
  "read32 drv d p = u32_of_bytes (bus_read drv d p) (bus_read drv d (p + 1)) (bus_read drv d (p + 2)) (bus_read drv d (p + 3))"

definition read_bytes :: "'d mflash_drv \<Rightarrow> 'd \<Rightarrow> u32 \<Rightarrow> nat \<Rightarrow> u8 list" where
  "read_bytes drv d p n = map (\<lambda>i. bus_read drv d (p + of_nat i)) [0..<n]"

definition put_bytes :: "nat \<Rightarrow> u8 list \<Rightarrow> u8 list \<Rightarrow> u8 list" where
  "put_bytes o' bs buf = take o' buf @ bs @ drop (o' + length bs) buf"

section \<open>Structures\<close>

abbreviation (input) MFLASH_DIR_MAGIC_NO :: u32 where "MFLASH_DIR_MAGIC_NO \<equiv> 0xF17E07AB"
abbreviation (input) MFLASH_META_MAGIC_NO :: u32 where "MFLASH_META_MAGIC_NO \<equiv> 0xABECEDA8"
abbreviation (input) MFLASH_FS_VERSION :: u32 where "MFLASH_FS_VERSION \<equiv> 0x00010000"
abbreviation (input) sizeof_dir_record :: u32 where "sizeof_dir_record \<equiv> 64"
abbreviation (input) sizeof_fs_header :: u32 where "sizeof_fs_header \<equiv> 64"
abbreviation (input) sizeof_file_meta :: u32 where "sizeof_file_meta \<equiv> 8"

text \<open>A path is the bytes of the C string without its terminator.\<close>

record mflash_file_t =
  f_path :: "u8 list option"
  f_max_size :: u32

record mflash_dir_record_t =
  file_offset :: u32
  alloc_size :: u32
  dr_path :: "u8 list"

definition read_dir_record :: "'d mflash_drv \<Rightarrow> 'd \<Rightarrow> u32 \<Rightarrow> mflash_dir_record_t" where
  "read_dir_record drv d p =
     \<lparr>file_offset = read32 drv d p, alloc_size = read32 drv d (p + 4), dr_path = read_bytes drv d (p + 8) 56\<rparr>"

record mflash_fs_header_t =
  h_magic_no :: u32
  h_version :: u32
  h_page_size :: u32
  h_sector_size :: u32
  h_file_count :: u32
  h_total_size :: u32

definition read_fs_header :: "'d mflash_drv \<Rightarrow> 'd \<Rightarrow> u32 \<Rightarrow> mflash_fs_header_t" where
  "read_fs_header drv d fs =
     \<lparr>h_magic_no = read32 drv d fs, h_version = read32 drv d (fs + 4), h_page_size = read32 drv d (fs + 8),
      h_sector_size = read32 drv d (fs + 12), h_file_count = read32 drv d (fs + 16),
      h_total_size = read32 drv d (fs + 20)\<rparr>"

record mflash_file_meta_t =
  meta_file_size :: u32
  meta_magic_no :: u32

definition read_file_meta :: "'d mflash_drv \<Rightarrow> 'd \<Rightarrow> u32 \<Rightarrow> mflash_file_meta_t" where
  "read_file_meta drv d p = \<lparr>meta_file_size = read32 drv d p, meta_magic_no = read32 drv d (p + 4)\<rparr>"

text \<open>The state of the module: the flash and the pointer to the file system.\<close>

record 'd mflash =
  mflash_dev :: 'd
  g_mflash_fs :: u32

definition mflash_is_initialized :: "'d mflash \<Rightarrow> bool" where
  "mflash_is_initialized m \<longleftrightarrow> g_mflash_fs m \<noteq> 0"

section \<open>Paths\<close>

fun dir_path_store :: "u8 list \<Rightarrow> u8 list \<Rightarrow> u8 list \<times> bool" where
  "dir_path_store [] path = ([], path = [])"
| "dir_path_store (b # dr) [] = (0 # dr, True)"
| "dir_path_store (b # dr) (c # path) = (let (dr', ok) = dir_path_store dr path in (c # dr', ok))"

fun dir_path_match :: "u8 list \<Rightarrow> u8 list \<Rightarrow> bool" where
  "dir_path_match [] path \<longleftrightarrow> path = []"
| "dir_path_match (b # dr) [] \<longleftrightarrow> b = 0"
| "dir_path_match (b # dr) (c # path) \<longleftrightarrow> b = c \<and> dir_path_match dr path"

section \<open>Access to the flash\<close>

definition mflash_fs_sector_erase :: "'d mflash_drv \<Rightarrow> u32 \<Rightarrow> u32 \<Rightarrow> 'd \<Rightarrow> (status_t \<times> 'd) option" where
  "mflash_fs_sector_erase drv fs sector_offset d =
     (let phys_addr = drv_log2phys drv (fs + sector_offset) MFLASH_SECTOR_SIZE in
      if phys_addr = MFLASH_INVALID_ADDRESS then Some (kStatus_Fail, d)
      else drv_sector_erase drv phys_addr d)"

definition mflash_fs_page_program :: "'d mflash_drv \<Rightarrow> u32 \<Rightarrow> u32 \<Rightarrow> u8 list \<Rightarrow> 'd \<Rightarrow> (status_t \<times> 'd) option" where
  "mflash_fs_page_program drv fs page_offset ds d =
     (let phys_addr = drv_log2phys drv (fs + page_offset) MFLASH_PAGE_SIZE in
      if phys_addr = MFLASH_INVALID_ADDRESS then Some (kStatus_Fail, d)
      else drv_page_program drv phys_addr ds d)"

definition mflash_fs_check :: "'d mflash_drv \<Rightarrow> 'd \<Rightarrow> u32 \<Rightarrow> status_t" where
  "mflash_fs_check drv d fs =
     (if fs = 0 then kStatus_InvalidArgument
      else let h = read_fs_header drv d fs in
      if h_magic_no h \<noteq> MFLASH_DIR_MAGIC_NO then kStatus_Fail
      else if and (h_version h) 0xFFFF0000 \<noteq> and MFLASH_FS_VERSION 0xFFFF0000 then kStatus_Fail
      else if h_page_size h \<noteq> MFLASH_PAGE_SIZE \<or> h_sector_size h \<noteq> MFLASH_SECTOR_SIZE then kStatus_Fail
      else kStatus_Success)"

definition mflash_file_check :: "'d mflash_drv \<Rightarrow> 'd \<Rightarrow> u32 \<Rightarrow> mflash_dir_record_t \<Rightarrow> status_t" where
  "mflash_file_check drv d fs dr =
     (if fs = 0 then kStatus_InvalidArgument
      else let meta = read_file_meta drv d (fs + file_offset dr) in
      if meta_magic_no meta \<noteq> MFLASH_META_MAGIC_NO then kStatus_Fail
      else if meta_file_size meta + sizeof_file_meta > alloc_size dr then kStatus_Fail
      else kStatus_Success)"

primrec dir_lookup_loop :: "'d mflash_drv \<Rightarrow> 'd \<Rightarrow> u8 list \<Rightarrow> u32 \<Rightarrow> nat \<Rightarrow> mflash_dir_record_t option" where
  "dir_lookup_loop drv d path dr 0 = None"
| "dir_lookup_loop drv d path dr (Suc n) =
     (if dir_path_match (dr_path (read_dir_record drv d dr)) path then Some (read_dir_record drv d dr)
      else dir_lookup_loop drv d path (dr + sizeof_dir_record) n)"

text \<open>\<open>None\<close> is \<open>kStatus_Fail\<close>.\<close>

definition mflash_dir_lookup :: "'d mflash_drv \<Rightarrow> 'd \<Rightarrow> u32 \<Rightarrow> u8 list \<Rightarrow> mflash_dir_record_t option" where
  "mflash_dir_lookup drv d fs path =
     dir_lookup_loop drv d path (fs + sizeof_fs_header) (unat (h_file_count (read_fs_header drv d fs)))"

section \<open>Saving a file\<close>

partial_function (option) save_erase_loop ::
    "'d mflash_drv \<Rightarrow> u32 \<Rightarrow> mflash_dir_record_t \<Rightarrow> u32 \<Rightarrow> 'd \<Rightarrow> (status_t \<times> 'd) option" where
  "save_erase_loop drv fs dr sector_offset d =
     (if sector_offset < alloc_size dr
      then Option.bind (mflash_fs_sector_erase drv fs (file_offset dr + sector_offset) d)
             (\<lambda>r. if fst r \<noteq> kStatus_Success then Some r
                  else save_erase_loop drv fs dr (sector_offset + MFLASH_SECTOR_SIZE) (snd r))
      else Some (kStatus_Success, d))"

definition blank_page :: "u8 list" where
  "blank_page = replicate 256 0xFF"

definition data_page :: "u8 list \<Rightarrow> u32 \<Rightarrow> u32 \<Rightarrow> u8 list" where
  "data_page ds data_offset size' =
     (let copy_size = (if size' - data_offset > MFLASH_PAGE_SIZE then MFLASH_PAGE_SIZE else size' - data_offset)
      in put_bytes 0 (take (unat copy_size) (drop (unat data_offset) ds)) blank_page)"

partial_function (option) save_data_loop ::
    "'d mflash_drv \<Rightarrow> u32 \<Rightarrow> mflash_dir_record_t \<Rightarrow> u8 list \<Rightarrow> u32 \<Rightarrow> u32 \<Rightarrow> 'd \<Rightarrow> (status_t \<times> 'd) option" where
  "save_data_loop drv fs dr ds size' data_offset d =
     (if data_offset < size'
      then Option.bind (mflash_fs_page_program drv fs (file_offset dr + data_offset + sizeof_file_meta)
                          (data_page ds data_offset size') d)
             (\<lambda>r. if fst r \<noteq> kStatus_Success then Some r
                  else save_data_loop drv fs dr ds size' (data_offset + MFLASH_PAGE_SIZE) (snd r))
      else Some (kStatus_Success, d))"

definition first_page :: "u8 list \<Rightarrow> u32 \<Rightarrow> u8 list" where
  "first_page ds size' =
     (let copy_size = (if size' > MFLASH_PAGE_SIZE - sizeof_file_meta then MFLASH_PAGE_SIZE - sizeof_file_meta else size')
      in put_bytes 0 (bytes_of_u32 size' @ bytes_of_u32 MFLASH_META_MAGIC_NO)
           (put_bytes 8 (take (unat copy_size) ds) blank_page))"

definition mflash_file_save_internal ::
    "'d mflash_drv \<Rightarrow> u32 \<Rightarrow> mflash_dir_record_t \<Rightarrow> u8 list \<Rightarrow> u32 \<Rightarrow> 'd \<Rightarrow> (status_t \<times> 'd) option" where
  "mflash_file_save_internal drv fs dr ds size' d =
     (if size' + sizeof_file_meta > alloc_size dr then Some (kStatus_OutOfRange, d)
      else do {
        (status, d) \<leftarrow> save_erase_loop drv fs dr 0 d;
        if status \<noteq> kStatus_Success then Some (status, d) else do {
          (status, d) \<leftarrow> save_data_loop drv fs dr ds size' (MFLASH_PAGE_SIZE - sizeof_file_meta) d;
          if status \<noteq> kStatus_Success then Some (status, d)
          else mflash_fs_page_program drv fs (file_offset dr) (first_page ds size') d
        }
      })"

text \<open>\<open>None\<close> as path or data is a null pointer.\<close>

definition mflash_file_save ::
    "'d mflash_drv \<Rightarrow> bool \<Rightarrow> u8 list option \<Rightarrow> u8 list option \<Rightarrow> u32 \<Rightarrow> 'd mflash \<Rightarrow> (status_t \<times> 'd mflash) option" where
  "mflash_file_save drv page_buf path data size' m =
     (case path of
        None \<Rightarrow> Some (kStatus_InvalidArgument, m)
      | Some path \<Rightarrow>
          if data = None \<and> size' \<noteq> 0 then Some (kStatus_InvalidArgument, m)
          else case mflash_dir_lookup drv (mflash_dev m) (g_mflash_fs m) path of
            None \<Rightarrow> Some (kStatus_Fail, m)
          | Some dr \<Rightarrow>
              if \<not> page_buf then Some (kStatus_Fail, m)
              else do {
                (status, d) \<leftarrow> mflash_file_save_internal drv (g_mflash_fs m) dr (case data of None \<Rightarrow> [] | Some ds \<Rightarrow> ds)
                                 size' (mflash_dev m);
                Some (status, m\<lparr>mflash_dev := d\<rparr>)
              })"

section \<open>Reading a file\<close>

text \<open>The result is the status and the pointer and size it stores when it succeeds.\<close>

definition mflash_file_mmap_internal ::
    "'d mflash_drv \<Rightarrow> 'd \<Rightarrow> u32 \<Rightarrow> mflash_dir_record_t \<Rightarrow> status_t \<times> (u32 \<times> u32) option" where
  "mflash_file_mmap_internal drv d fs dr =
     (let status = mflash_file_check drv d fs dr in
      if status \<noteq> kStatus_Success then (status, None)
      else (kStatus_Success, Some (fs + file_offset dr + sizeof_file_meta,
              meta_file_size (read_file_meta drv d (fs + file_offset dr)))))"

definition mflash_file_mmap ::
    "'d mflash_drv \<Rightarrow> u8 list option \<Rightarrow> bool \<Rightarrow> 'd mflash \<Rightarrow> status_t \<times> (u32 \<times> u32) option" where
  "mflash_file_mmap drv path ptrs_given m =
     (case path of
        None \<Rightarrow> (kStatus_InvalidArgument, None)
      | Some path \<Rightarrow>
          if \<not> ptrs_given then (kStatus_InvalidArgument, None)
          else case mflash_dir_lookup drv (mflash_dev m) (g_mflash_fs m) path of
            None \<Rightarrow> (kStatus_Fail, None)
          | Some dr \<Rightarrow> mflash_file_mmap_internal drv (mflash_dev m) (g_mflash_fs m) dr)"

section \<open>Formatting\<close>

text \<open>The entries of a template before the terminating one.\<close>

definition template_entries :: "mflash_file_t list \<Rightarrow> (u8 list \<times> u32) list" where
  "template_entries ts = map (\<lambda>t. (the (f_path t), f_max_size t))
     (takeWhile (\<lambda>t. f_path t \<noteq> None \<and> f_path t \<noteq> Some [] \<and> f_max_size t \<noteq> 0) ts)"

definition file_sectors :: "u32 \<Rightarrow> u32" where
  "file_sectors max_size = (max_size + MFLASH_SECTOR_SIZE - 1) div MFLASH_SECTOR_SIZE"

primrec format_erase_loop :: "'d mflash_drv \<Rightarrow> u32 \<Rightarrow> u32 \<Rightarrow> nat \<Rightarrow> 'd \<Rightarrow> (status_t \<times> 'd) option" where
  "format_erase_loop drv fs i 0 d = Some (kStatus_Success, d)"
| "format_erase_loop drv fs i (Suc n) d =
     do {
       (status, d) \<leftarrow> mflash_fs_sector_erase drv fs (i * MFLASH_SECTOR_SIZE) d;
       if status \<noteq> kStatus_Success then Some (status, d) else format_erase_loop drv fs (i + 1) n d
     }"

definition put_dir_record :: "nat \<Rightarrow> u32 \<Rightarrow> u32 \<Rightarrow> u8 list \<Rightarrow> u8 list \<Rightarrow> u8 list" where
  "put_dir_record o' offset alloc path buf =
     (let buf = put_bytes o' (bytes_of_u32 offset @ bytes_of_u32 alloc) buf
      in put_bytes (o' + 8) (fst (dir_path_store (take 56 (drop (o' + 8) buf)) path)) buf)"

text \<open>The entries in reverse order; the result carries the page buffer that remains.\<close>

primrec format_dir_loop ::
    "'d mflash_drv \<Rightarrow> u32 \<Rightarrow> (u8 list \<times> u32) list \<Rightarrow> u32 \<Rightarrow> u32 \<Rightarrow> u8 list \<Rightarrow> 'd \<Rightarrow> (status_t \<times> u8 list \<times> 'd) option" where
  "format_dir_loop drv fs [] dir_offset file_off buf d = Some (kStatus_Success, buf, d)"
| "format_dir_loop drv fs (t # ts) dir_offset file_off buf d =
     (let dir_offset = dir_offset - sizeof_dir_record;
          alloc = file_sectors (snd t) * MFLASH_SECTOR_SIZE;
          file_off = file_off - alloc;
          buf = put_dir_record (unat (dir_offset mod MFLASH_PAGE_SIZE)) file_off alloc (fst t) buf
      in if dir_offset mod MFLASH_PAGE_SIZE = 0
         then do {
           (status, d) \<leftarrow> mflash_fs_page_program drv fs dir_offset buf d;
           if status \<noteq> kStatus_Success then Some (status, buf, d)
           else format_dir_loop drv fs ts dir_offset file_off blank_page d
         }
         else format_dir_loop drv fs ts dir_offset file_off buf d)"

definition header_bytes :: "u32 \<Rightarrow> u32 \<Rightarrow> u8 list" where
  "header_bytes file_count total_size =
     bytes_of_u32 MFLASH_DIR_MAGIC_NO @ bytes_of_u32 MFLASH_FS_VERSION @ bytes_of_u32 MFLASH_PAGE_SIZE @
     bytes_of_u32 MFLASH_SECTOR_SIZE @ bytes_of_u32 file_count @ bytes_of_u32 total_size"

definition mflash_format_internal ::
    "'d mflash_drv \<Rightarrow> u32 \<Rightarrow> u32 \<Rightarrow> mflash_file_t list \<Rightarrow> 'd \<Rightarrow> (status_t \<times> 'd) option" where
  "mflash_format_internal drv fs fs_size_limit dir_template d =
     (let es = template_entries dir_template;
          file_count = of_nat (length es);
          dir_size = file_count * sizeof_dir_record + sizeof_fs_header;
          total_sectors = sum_list (map (file_sectors \<circ> snd) es) + (dir_size + MFLASH_SECTOR_SIZE - 1) div MFLASH_SECTOR_SIZE
      in if fs_size_limit \<noteq> 0 \<and> fs_size_limit < total_sectors * MFLASH_SECTOR_SIZE then Some (kStatus_OutOfRange, d)
         else do {
           (status, d) \<leftarrow> format_erase_loop drv fs 0 (unat total_sectors) d;
           if status \<noteq> kStatus_Success then Some (status, d) else do {
             (status, buf, d) \<leftarrow> format_dir_loop drv fs (rev es) dir_size (total_sectors * MFLASH_SECTOR_SIZE) blank_page d;
             if status \<noteq> kStatus_Success then Some (status, d)
             else mflash_fs_page_program drv fs 0
                    (put_bytes 0 (header_bytes file_count (total_sectors * MFLASH_SECTOR_SIZE)) buf) d
           }
         })"

definition mflash_format ::
    "'d mflash_drv \<Rightarrow> bool \<Rightarrow> u32 \<Rightarrow> u32 \<Rightarrow> mflash_file_t list option \<Rightarrow> 'd \<Rightarrow> (status_t \<times> 'd) option" where
  "mflash_format drv page_buf fs fs_size_limit dir_template d =
     (case dir_template of
        None \<Rightarrow> Some (kStatus_InvalidArgument, d)
      | Some ts \<Rightarrow> if \<not> page_buf then Some (kStatus_Fail, d) else mflash_format_internal drv fs fs_size_limit ts d)"

section \<open>Initialization\<close>

primrec template_match_loop :: "'d mflash_drv \<Rightarrow> 'd \<Rightarrow> u32 \<Rightarrow> (u8 list \<times> u32) list \<Rightarrow> status_t" where
  "template_match_loop drv d fs [] = kStatus_Success"
| "template_match_loop drv d fs (t # ts) =
     (case mflash_dir_lookup drv d fs (fst t) of
        None \<Rightarrow> kStatus_Fail
      | Some dr \<Rightarrow> if alloc_size dr < snd t then kStatus_Fail else template_match_loop drv d fs ts)"

definition mflash_template_match :: "'d mflash_drv \<Rightarrow> 'd \<Rightarrow> u32 \<Rightarrow> mflash_file_t list \<Rightarrow> status_t" where
  "mflash_template_match drv d fs dir_template = template_match_loop drv d fs (template_entries dir_template)"

definition mflash_fs_init ::
    "'d mflash_drv \<Rightarrow> bool \<Rightarrow> u32 \<Rightarrow> u32 \<Rightarrow> mflash_file_t list option \<Rightarrow> 'd mflash \<Rightarrow> (status_t \<times> 'd mflash) option" where
  "mflash_fs_init drv page_buf fs fs_size_limit dir_template m =
     do {
       status \<leftarrow> (let s = mflash_fs_check drv (mflash_dev m) fs in
                  if s = kStatus_Success then map_option (mflash_template_match drv (mflash_dev m) fs) dir_template
                  else Some s);
       (status, d) \<leftarrow> (if status = kStatus_Fail then mflash_format drv page_buf fs fs_size_limit dir_template (mflash_dev m)
                       else Some (status, mflash_dev m));
       Some (status, if status = kStatus_Success then m\<lparr>mflash_dev := d, g_mflash_fs := fs\<rparr> else m\<lparr>mflash_dev := d\<rparr>)
     }"

definition mflash_init ::
    "'d mflash_drv \<Rightarrow> bool \<Rightarrow> u32 \<Rightarrow> mflash_file_t list option \<Rightarrow> bool \<Rightarrow> 'd mflash \<Rightarrow> (status_t \<times> 'd mflash) option" where
  "mflash_init drv page_buf fs_start dir_template init_drv m =
     do {
       (status, d) \<leftarrow> (if init_drv then drv_init drv (mflash_dev m) else Some (kStatus_Success, mflash_dev m));
       if status = kStatus_Fail then Some (status, m\<lparr>mflash_dev := d\<rparr>)
       else if fs_start = 0 then Some (kStatus_Fail, m\<lparr>mflash_dev := d\<rparr>)
       else mflash_fs_init drv page_buf fs_start 0 dir_template (m\<lparr>mflash_dev := d\<rparr>)
     }"

end
