(* ===== verification/Mflash_Area.thy ===== *)
theory Mflash_Area
  imports Mflash_File
begin

text \<open>
  The flash area of the file system as bytes indexed by their offset: what erasing and programming
  through \<open>mflash_fs_sector_erase\<close> and \<open>mflash_fs_page_program\<close> do to it, and what the structure
  reads give. These lemmas are proved for every driver that keeps the contract.
\<close>

section \<open>Bytes and words\<close>

lemma u32_bytes: "u32_of_bytes (ucast w) (ucast (drop_bit 8 w)) (ucast (drop_bit 16 w)) (ucast (drop_bit 24 w)) = w"
  unfolding u32_of_bytes_def
  by (rule bit_word_eqI, rename_tac n,
      case_tac "n < 16", (auto simp: bit_simps)[1], case_tac "n < 24") (auto simp: bit_simps)

lemma length_bytes_of_u32 [simp]: "length (bytes_of_u32 w) = 4"
  by (simp add: bytes_of_u32_def)

lemma u32_of_bytes_of_u32:
  "u32_of_bytes (bytes_of_u32 w ! 0) (bytes_of_u32 w ! 1) (bytes_of_u32 w ! 2) (bytes_of_u32 w ! 3) = w"
  using u32_bytes[of w] by (simp add: bytes_of_u32_def numeral_2_eq_2 numeral_3_eq_3)

lemma and_FF [simp]: "and (0xFF :: u8) x = x"
  by (rule bit_word_eqI) (auto simp: bit_simps less_Suc_eq numeral_eq_Suc)

section \<open>The area\<close>

text \<open>
  The file system at the address \<open>fs\<close> has \<open>len\<close> bytes that the bus maps to consecutive flash
  addresses from the sector boundary \<open>base\<close>.
\<close>

definition fs_area :: "'d mflash_drv \<Rightarrow> u32 \<Rightarrow> u32 \<Rightarrow> nat \<Rightarrow> bool" where
  "fs_area drv fs base len \<longleftrightarrow>
     (\<forall>o' n. 0 < n \<longrightarrow> o' + n \<le> len \<longrightarrow> drv_log2phys drv (fs + of_nat o') (of_nat n) = base + of_nat o') \<and>
     unat base mod 4096 = 0 \<and> unat base + len < 2 ^ 32 \<and> len \<le> 2 ^ 31 \<and> fs \<noteq> 0"

text \<open>What reading, erasing and programming mean for the bytes of the area.\<close>

definition blanked :: "nat \<Rightarrow> nat \<Rightarrow> nat \<Rightarrow> (nat \<Rightarrow> u8) \<Rightarrow> (nat \<Rightarrow> u8) \<Rightarrow> bool" where
  "blanked len lo hi c c' \<longleftrightarrow> (\<forall>i < len. c' i = (if lo \<le> i \<and> i < hi then 0xFF else c i))"

definition written :: "nat \<Rightarrow> nat \<Rightarrow> u8 list \<Rightarrow> (nat \<Rightarrow> u8) \<Rightarrow> (nat \<Rightarrow> u8) \<Rightarrow> bool" where
  "written len p ds c c' \<longleftrightarrow> (\<forall>i < len. c' i = (if p \<le> i \<and> i < p + length ds then and (c i) (ds ! (i - p)) else c i))"

definition area :: "'d mflash_drv \<Rightarrow> u32 \<Rightarrow> 'd \<Rightarrow> nat \<Rightarrow> u8" where
  "area drv fs d i = bus_read drv d (fs + of_nat i)"

lemma blanked_trans:
  "blanked len a b c c' \<Longrightarrow> blanked len b e c' c'' \<Longrightarrow> a \<le> b \<Longrightarrow> b \<le> e \<Longrightarrow> blanked len a e c c''"
  by (auto simp: blanked_def)

lemma blanked_refl: "blanked len a a c c"
  by (auto simp: blanked_def)

lemma same_sector: "a mod 4096 = 0 \<Longrightarrow> i div 4096 = a div 4096 \<longleftrightarrow> a \<le> i \<and> i < a + (4096 :: nat)"
proof -
  assume "a mod 4096 = 0"
  then have a: "a div 4096 * 4096 = a" by (simp add: mod_0_imp_dvd)
  have "i div 4096 = a div 4096 \<longleftrightarrow> a div 4096 \<le> i div 4096 \<and> i div 4096 < Suc (a div 4096)" by auto
  also have "\<dots> \<longleftrightarrow> a div 4096 * 4096 \<le> i \<and> i < Suc (a div 4096) * 4096"
    by (simp add: less_eq_div_iff_mult_less_eq div_less_iff_less_mult)
  finally show ?thesis using a by (simp add: add.commute)
qed

lemma word_div_plus:
  fixes b :: u32
  assumes "unat b mod k = 0" "unat b + i < 2 ^ 32" "0 < k" "k < 2 ^ 32"
  shows "unat ((b + of_nat i) div of_nat k) = unat b div k + i div k"
proof -
  have "unat (b + of_nat i) = unat b + i"
    using assms(2) by (simp add: unat_word_ariths unsigned_of_nat take_bit_nat_eq_self)
  moreover have "(unat b + i) div k = unat b div k + i div k"
    using assms(1) by (metis add.commute add_0 div_plus_div_distrib_dvd_right mod_0_imp_dvd)
  ultimately show ?thesis
    using assms(3,4) by (simp add: unat_div unsigned_of_nat take_bit_nat_eq_self)
qed

context mflash_driver
begin

lemma area_flash:
  assumes "fs_area drv fs base len" "i < len"
  shows "area drv fs d i = flash d (base + of_nat i)"
proof -
  have l: "drv_log2phys drv (fs + of_nat i) 1 = base + of_nat i"
    using assms unfolding fs_area_def by (metis Suc_eq_plus1 Suc_leI of_nat_1 zero_less_one)
  have "unat (base + of_nat i) = unat base + i"
    using assms by (simp add: fs_area_def unat_word_ariths unsigned_of_nat take_bit_nat_eq_self)
  then have "base + of_nat i \<noteq> MFLASH_INVALID_ADDRESS"
    using assms by (auto simp: fs_area_def)
  then show ?thesis using bus_law[of "fs + of_nat i" d] l by (simp add: area_def)
qed

lemma area_cong: "flash d' = flash d \<Longrightarrow> area drv fs d' = area drv fs d"
  unfolding area_def by (rule ext, rule bus_cong)

lemma erase_area:
  assumes "fs_area drv fs base len" "a mod 4096 = 0" "a + 4096 \<le> len" "flash d' = nor_erase (base + of_nat a) (flash d)"
  shows "blanked len a (a + 4096) (area drv fs d) (area drv fs d')"
  unfolding blanked_def
proof (intro allI impI)
  fix i assume i: "i < len"
  have b: "unat base mod 4096 = 0" "unat base + len < 2 ^ 32" using assms(1) by (auto simp: fs_area_def)
  have "unat ((base + of_nat j) div 4096) = unat base div 4096 + j div 4096" if "j < len" for j
    using word_div_plus[of base 4096 j] b that by simp
  then have "(base + of_nat i) div 4096 = (base + of_nat a) div 4096 \<longleftrightarrow> i div 4096 = a div 4096"
    using i assms(3) by (simp add: word_unat_eq_iff)
  also have "\<dots> \<longleftrightarrow> a \<le> i \<and> i < a + 4096"
    by (rule same_sector[OF assms(2)])
  finally show "area drv fs d' i = (if a \<le> i \<and> i < a + 4096 then 0xFF else area drv fs d i)"
    using area_flash[OF assms(1) i] assms(4) by (simp add: nor_erase_def)
qed

lemma program_area:
  assumes "fs_area drv fs base len" "a + length ds \<le> len" "flash d' = nor_program (base + of_nat a) ds (flash d)"
  shows "written len a ds (area drv fs d) (area drv fs d')"
  unfolding written_def
proof (intro allI impI)
  fix i assume i: "i < len"
  have len: "len \<le> 2 ^ 31" using assms(1) by (simp add: fs_area_def)
  have d: "base + of_nat i - (base + of_nat a) = (of_nat i - of_nat a :: u32)" by simp
  have "area drv fs d' i = (if unat (of_nat i - of_nat a :: u32) < length ds
      then and (area drv fs d i) (ds ! unat (of_nat i - of_nat a :: u32)) else area drv fs d i)"
    using area_flash[OF assms(1) i] assms(3) unfolding nor_program_def d by simp
  moreover have "unat (of_nat i - of_nat a :: u32) = (if a \<le> i then i - a else i + 2 ^ 32 - a)"
    using i len assms(2) by (auto simp: unat_sub_if' unsigned_of_nat take_bit_nat_eq_self)
  ultimately show "area drv fs d' i = (if a \<le> i \<and> i < a + length ds then and (area drv fs d i) (ds ! (i - a)) else area drv fs d i)"
    using len assms(2) by (cases "a \<le> i") auto
qed

end

end
