(* ===== verification/Mflash_Save.thy ===== *)
theory Mflash_Save
  imports Mflash_Area
begin

text \<open>
  Saving a file (\<open>mflash_file_save\<close>), proved for every driver that keeps the contract and then stated
  for the board's driver on a NOR device whose transfers may fail at any point: the save returns, the
  file then reads as before, as the new data, as the new data with a torn first page, or as no file at
  all, and nothing else has changed.
\<close>

section \<open>Operations on the area\<close>

lemma unat_of_nat_small: "n < 2 ^ 32 \<Longrightarrow> unat (of_nat n :: u32) = n"
  by (simp add: unsigned_of_nat take_bit_nat_eq_self)

lemma unat_bound32: "unat (w :: u32) < 4294967296"
  by (rule order_less_le_trans[OF unsigned_less]) simp

lemma mod0_add: "a mod k = 0 \<Longrightarrow> b mod k = 0 \<Longrightarrow> (a + b) mod k = 0" for a b k :: nat
  by (metis add_0 mod_add_left_eq)

lemma sector_page: "a mod 4096 = 0 \<Longrightarrow> a mod 256 = 0" for a :: nat
  using mod_mod_cancel[of 256 4096 a] by simp

lemma aligned_less: "a mod k = 0 \<Longrightarrow> b mod k = 0 \<Longrightarrow> a < b \<Longrightarrow> a + k \<le> b" for a b k :: nat
  using dvd_imp_le[of k "b - a"] by (simp add: mod_0_imp_dvd dvd_diff_nat)

context mflash_driver
begin

lemma fs_phys:
  assumes "fs_area drv fs base len" "0 < n" "a + n \<le> len"
  shows "drv_log2phys drv (fs + of_nat a) (of_nat n) = base + of_nat a" "base + of_nat a \<noteq> MFLASH_INVALID_ADDRESS"
    "unat (base + of_nat a) = unat base + a"
proof -
  show "drv_log2phys drv (fs + of_nat a) (of_nat n) = base + of_nat a" using assms by (simp add: fs_area_def)
  show u: "unat (base + of_nat a) = unat base + a"
    using assms by (simp add: fs_area_def unat_word_ariths unsigned_of_nat take_bit_nat_eq_self)
  show "base + of_nat a \<noteq> MFLASH_INVALID_ADDRESS"
    using u assms by (auto simp: fs_area_def)
qed

lemma sector_erase_area:
  assumes "fs_area drv fs base len" "ready d" "a mod 4096 = 0" "a + 4096 \<le> len"
  shows "\<exists>st d'. mflash_fs_sector_erase drv fs (of_nat a) d = Some (st, d') \<and>
    (flash d' = flash d \<or> blanked len a (a + 4096) (area drv fs d) (area drv fs d')) \<and>
    (st = kStatus_Success \<longrightarrow> blanked len a (a + 4096) (area drv fs d) (area drv fs d') \<and> ready d') \<and>
    (healthy d \<longrightarrow> st = kStatus_Success \<and> healthy d')"
proof -
  note p = fs_phys[OF assms(1), of 4096 a]
  have "unat (base + of_nat a) mod 4096 = 0"
    using p(3) assms mod0_add by (simp add: fs_area_def)
  then have "(base + of_nat a) mod MFLASH_SECTOR_SIZE = 0" by (simp add: word_unat_eq_iff unat_mod)
  then obtain st d' where e: "drv_sector_erase drv (base + of_nat a) d = Some (st, d')"
      "flash d' = flash d \<or> flash d' = nor_erase (base + of_nat a) (flash d)"
      "st = kStatus_Success \<longrightarrow> flash d' = nor_erase (base + of_nat a) (flash d) \<and> ready d'" "healthy d \<longrightarrow> st = kStatus_Success \<and> healthy d'"
    using erase_law[OF assms(2)] by (metis (no_types, lifting))
  have "mflash_fs_sector_erase drv fs (of_nat a) d = Some (st, d')"
    using p(1,2) assms(4) e(1) by (simp add: mflash_fs_sector_erase_def)
  then show ?thesis using e(2,3,4) erase_area[OF assms(1,3,4)] by blast
qed

lemma page_program_area:
  assumes "fs_area drv fs base len" "ready d" "a mod 256 = 0" "a + 256 \<le> len" "length ds = 256"
  shows "\<exists>st d'. mflash_fs_page_program drv fs (of_nat a) ds d = Some (st, d') \<and>
    (\<exists>k \<le> 256. written len a (take k ds) (area drv fs d) (area drv fs d')) \<and>
    (st = kStatus_Success \<longrightarrow> written len a ds (area drv fs d) (area drv fs d') \<and> ready d') \<and>
    (healthy d \<longrightarrow> st = kStatus_Success \<and> healthy d')"
proof -
  note p = fs_phys[OF assms(1), of 256 a]
  have "unat base mod 4096 = 0" using assms(1) by (simp add: fs_area_def)
  then have "unat base mod 256 = 0" by (rule sector_page)
  then have "unat (base + of_nat a) mod 256 = 0"
    using p(3) assms mod0_add by simp
  then have "(base + of_nat a) mod MFLASH_PAGE_SIZE = 0" by (simp add: word_unat_eq_iff unat_mod)
  then obtain st d' where e: "drv_page_program drv (base + of_nat a) ds d = Some (st, d')"
      "\<exists>k \<le> 256. flash d' = nor_program (base + of_nat a) (take k ds) (flash d)"
      "st = kStatus_Success \<longrightarrow> flash d' = nor_program (base + of_nat a) ds (flash d) \<and> ready d'" "healthy d \<longrightarrow> st = kStatus_Success \<and> healthy d'"
    using program_law[OF assms(2) _ assms(5)] by (metis (no_types, lifting))
  have "mflash_fs_page_program drv fs (of_nat a) ds d = Some (st, d')"
    using p(1,2) assms(4) e(1) by (simp add: mflash_fs_page_program_def)
  moreover have "written len a ds (area drv fs d) (area drv fs d')" if "flash d' = nor_program (base + of_nat a) ds (flash d)"
    using program_area[OF assms(1) _ that] assms(4,5) by simp
  moreover have "\<exists>k \<le> 256. written len a (take k ds) (area drv fs d) (area drv fs d')"
    using e(2) program_area[OF assms(1), of a "take k ds" d' d for k] assms(4,5) by auto
  ultimately show ?thesis using e(3,4) by blast
qed

section \<open>The loops of a save\<close>

text \<open>A file record that lies in the area.\<close>

lemma erase_loop:
  assumes fs: "fs_area drv fs base len"
    and dr: "unat (file_offset dr) mod 4096 = 0" "unat (alloc_size dr) mod 4096 = 0"
      "unat (file_offset dr) + unat (alloc_size dr) \<le> len"
  shows "so mod 4096 = 0 \<Longrightarrow> so \<le> unat (alloc_size dr) \<Longrightarrow> ready d \<Longrightarrow>
    \<exists>st d' e. save_erase_loop drv fs dr (of_nat so) d = Some (st, d') \<and> so \<le> e \<and> e \<le> unat (alloc_size dr) \<and>
      e mod 4096 = 0 \<and> (e = so \<longrightarrow> flash d' = flash d) \<and>
      blanked len (unat (file_offset dr) + so) (unat (file_offset dr) + e) (area drv fs d) (area drv fs d') \<and>
      (st = kStatus_Success \<longrightarrow> e = unat (alloc_size dr) \<and> ready d') \<and>
      (healthy d \<longrightarrow> st = kStatus_Success \<and> healthy d')"
proof (induction "unat (alloc_size dr) - so" arbitrary: so d rule: less_induct)
  case less
  let ?off = "unat (file_offset dr)" and ?al = "unat (alloc_size dr)"
  have so: "unat (of_nat so :: u32) = so"
    using less.prems(2) unat_bound32[of "alloc_size dr"] by (intro unat_of_nat_small) simp
  show ?case
  proof (cases "so < ?al")
    case False
    then have "save_erase_loop drv fs dr (of_nat so) d = Some (kStatus_Success, d)"
      using so by (subst save_erase_loop.simps) (simp add: word_less_nat_alt)
    then show ?thesis using False less.prems blanked_refl by (intro exI[of _ kStatus_Success] exI[of _ d] exI[of _ so]) auto
  next
    case True
    have le: "so + 4096 \<le> ?al" by (rule aligned_less[OF less.prems(1) dr(2) True])
    have a: "file_offset dr + of_nat so = of_nat (?off + so)" "of_nat so + 4096 = (of_nat (so + 4096) :: u32)" by simp_all
    have am: "(?off + so) mod 4096 = 0" by (rule mod0_add[OF dr(1) less.prems(1)])
    have al: "?off + so + 4096 \<le> len" using le dr(3) by simp
    obtain st d' where e: "mflash_fs_sector_erase drv fs (of_nat (?off + so)) d = Some (st, d')"
        "flash d' = flash d \<or> blanked len (?off + so) (?off + so + 4096) (area drv fs d) (area drv fs d')"
        "st = kStatus_Success \<longrightarrow> blanked len (?off + so) (?off + so + 4096) (area drv fs d) (area drv fs d') \<and> ready d'"
        "healthy d \<longrightarrow> st = kStatus_Success \<and> healthy d'"
      using sector_erase_area[OF fs less.prems(3) am al] by - (elim exE conjE, rule that)
    have step: "save_erase_loop drv fs dr (of_nat so) d = (if st \<noteq> kStatus_Success then Some (st, d')
        else save_erase_loop drv fs dr (of_nat (so + 4096)) d')"
      using True so e(1) by (subst save_erase_loop.simps) (simp add: word_less_nat_alt a add.commute del: of_nat_add)
    show ?thesis
    proof (cases "st = kStatus_Success")
      case True
      then have b: "blanked len (?off + so) (?off + so + 4096) (area drv fs d) (area drv fs d')" "ready d'" using e(3) by auto
      have s4: "(so + 4096) mod 4096 = 0" using less.prems(1) by simp
      have lt: "?al - (so + 4096) < ?al - so" using le by simp
      obtain st' d'' x where "save_erase_loop drv fs dr (of_nat (so + 4096)) d' = Some (st', d'')" "so + 4096 \<le> x" "x \<le> ?al"
          "x mod 4096 = 0" "blanked len (?off + (so + 4096)) (?off + x) (area drv fs d') (area drv fs d'')"
          "st' = kStatus_Success \<longrightarrow> x = ?al \<and> ready d''" "healthy d' \<longrightarrow> st' = kStatus_Success \<and> healthy d''"
        using less.hyps[OF lt s4 le b(2)] by - (elim exE conjE, rule that)
      then show ?thesis using step True e(4) blanked_trans[OF b(1), of "?off + x"]
        by (intro exI[of _ st'] exI[of _ d''] exI[of _ x]) (auto simp: add.assoc)
    next
      case False
      then show ?thesis
      proof (cases "flash d' = flash d")
        case True
        then show ?thesis using step False less.prems le e(4) area_cong[OF True] blanked_refl
          by (intro exI[of _ st] exI[of _ d'] exI[of _ so]) simp
      next
        case nf: False
        then show ?thesis using step False less.prems le e(2,4)
          by (intro exI[of _ st] exI[of _ d'] exI[of _ "so + 4096"]) (simp add: add.assoc)
      qed
    qed
  qed
qed

lemma data_loop:
  assumes fs: "fs_area drv fs base len"
    and dr: "unat (file_offset dr) mod 4096 = 0" "unat (alloc_size dr) mod 4096 = 0"
      "unat (file_offset dr) + unat (alloc_size dr) \<le> len" "length ds + 8 \<le> unat (alloc_size dr)"
  shows "(o' + 8) mod 256 = 0 \<Longrightarrow> o' + 8 \<le> length ds + 264 \<Longrightarrow> ready d \<Longrightarrow>
      (\<forall>i. unat (file_offset dr) + o' + 8 \<le> i \<and> i < unat (file_offset dr) + unat (alloc_size dr) \<longrightarrow> area drv fs d i = 0xFF) \<Longrightarrow>
    \<exists>st d'. save_data_loop drv fs dr ds (of_nat (length ds)) (of_nat o') d = Some (st, d') \<and>
      (\<forall>i < len. i < unat (file_offset dr) + o' + 8 \<or> unat (file_offset dr) + unat (alloc_size dr) \<le> i \<longrightarrow>
         area drv fs d' i = area drv fs d i) \<and>
      (st = kStatus_Success \<longrightarrow> ready d' \<and>
         (\<forall>j. o' \<le> j \<and> j < length ds \<longrightarrow> area drv fs d' (unat (file_offset dr) + 8 + j) = ds ! j)) \<and>
      (healthy d \<longrightarrow> st = kStatus_Success \<and> healthy d')"
proof (induction "length ds + 256 - o'" arbitrary: o' d rule: less_induct)
  case less
  let ?off = "unat (file_offset dr)" and ?al = "unat (alloc_size dr)" and ?n = "length ds"
  have len: "len \<le> 2 ^ 31" using fs by (simp add: fs_area_def)
  then have un: "unat (of_nat o' :: u32) = o'" "unat (of_nat ?n :: u32) = ?n"
    using less.prems(2) dr by (auto intro!: unat_of_nat_small)
  show ?case
  proof (cases "o' < ?n")
    case False
    then have "save_data_loop drv fs dr ds (of_nat ?n) (of_nat o') d = Some (kStatus_Success, d)"
      using un by (subst save_data_loop.simps) (simp add: word_less_nat_alt)
    then show ?thesis using False less.prems(3) by auto
  next
    case True
    let ?p = "data_page ds (of_nat o') (of_nat ?n)"
    have sub: "unat (of_nat ?n - of_nat o' :: u32) = ?n - o'"
      using True un by (simp add: unat_sub_if')
    have pg: "?p = take (min 256 (?n - o')) (drop o' ds) @ replicate (256 - min 256 (?n - o')) 0xFF"
      using True un sub by (auto simp: data_page_def put_bytes_def blank_page_def Let_def word_less_nat_alt min_def)
    then have pl: "length ?p = 256" and pn: "\<And>j. j < 256 \<Longrightarrow> ?p ! j = (if o' + j < ?n then ds ! (o' + j) else 0xFF)"
      by (auto simp: nth_append min_def)
    have al: "(?off + o' + 8) mod 256 = 0"
      using mod0_add[OF sector_page[OF dr(1)] less.prems(1)] by (simp add: add.assoc)
    have al': "(?off + ?al) mod 256 = 0" by (rule mod0_add[OF sector_page[OF dr(1)] sector_page[OF dr(2)]])
    have "?off + o' + 8 < ?off + ?al" using True dr(4) by simp
    then have le: "?off + o' + 8 + 256 \<le> ?off + ?al" by (rule aligned_less[OF al al'])
    have ll: "?off + o' + 8 + 256 \<le> len" using le dr(3) by simp
    obtain st d' where e: "mflash_fs_page_program drv fs (of_nat (?off + o' + 8)) ?p d = Some (st, d')"
        "\<exists>k \<le> 256. written len (?off + o' + 8) (take k ?p) (area drv fs d) (area drv fs d')"
        "st = kStatus_Success \<longrightarrow> written len (?off + o' + 8) ?p (area drv fs d) (area drv fs d') \<and> ready d'"
        "healthy d \<longrightarrow> st = kStatus_Success \<and> healthy d'"
      using page_program_area[OF fs less.prems(3) al ll pl] by - (elim exE, elim conjE, rule that)
    have frame: "\<forall>i < len. i < ?off + o' + 8 \<or> ?off + o' + 8 + 256 \<le> i \<longrightarrow> area drv fs d' i = area drv fs d i"
      using e(2) pl by (auto simp: written_def)
    have a: "file_offset dr + of_nat o' + 8 = of_nat (?off + o' + 8)" "of_nat o' + 256 = (of_nat (o' + 256) :: u32)"
      by simp_all
    have step: "save_data_loop drv fs dr ds (of_nat ?n) (of_nat o') d = (if st \<noteq> kStatus_Success then Some (st, d')
        else save_data_loop drv fs dr ds (of_nat ?n) (of_nat (o' + 256)) d')"
      using True un e(1) by (subst save_data_loop.simps) (simp add: word_less_nat_alt a del: of_nat_add)
    show ?thesis
    proof (cases "st = kStatus_Success")
      case False
      then show ?thesis using step frame le e(4) by auto
    next
      case True
      then have w: "written len (?off + o' + 8) ?p (area drv fs d) (area drv fs d')" "ready d'" using e(3) by auto
      have p1: "(o' + 256 + 8) mod 256 = 0"
        using less.prems(1) mod_add_self2[of "o' + 8" 256] by (simp only: add.assoc add.commute[of 256 8])
      have p2: "\<forall>i. ?off + (o' + 256) + 8 \<le> i \<and> i < ?off + ?al \<longrightarrow> area drv fs d' i = 0xFF"
        using less.prems(4) frame dr(3) by auto
      have m: "?n + 256 - (o' + 256) < ?n + 256 - o'" "o' + 256 + 8 \<le> ?n + 264" using \<open>o' < ?n\<close> by auto
      obtain st' d'' where r: "save_data_loop drv fs dr ds (of_nat ?n) (of_nat (o' + 256)) d' = Some (st', d'')"
          "\<forall>i < len. i < ?off + (o' + 256) + 8 \<or> ?off + ?al \<le> i \<longrightarrow> area drv fs d'' i = area drv fs d' i"
          "st' = kStatus_Success \<longrightarrow> ready d'' \<and> (\<forall>j. o' + 256 \<le> j \<and> j < ?n \<longrightarrow> area drv fs d'' (?off + 8 + j) = ds ! j)"
          "healthy d' \<longrightarrow> st' = kStatus_Success \<and> healthy d''"
        using less.hyps[OF m(1) p1 m(2) w(2) p2] by - (elim exE conjE, rule that)
      have page: "area drv fs d'' (?off + 8 + j) = ds ! j" if j: "o' \<le> j" "j < o' + 256" "j < ?n" for j
      proof -
        have i: "?off + 8 + j < len" using j dr(3,4) by simp
        then have "area drv fs d'' (?off + 8 + j) = area drv fs d' (?off + 8 + j)" using r(2) j by simp
        also have "\<dots> = and 0xFF (?p ! (j - o'))"
          using w(1) i j less.prems(4) dr(4) pl by (simp add: written_def)
        also have "\<dots> = ds ! j" using pn[of "j - o'"] j by simp
        finally show ?thesis .
      qed
      have "\<forall>j. o' \<le> j \<and> j < ?n \<longrightarrow> area drv fs d'' (?off + 8 + j) = ds ! j" if "st' = kStatus_Success"
        using r(3) that page by (metis not_le)
      moreover have "\<forall>i < len. i < ?off + o' + 8 \<or> ?off + ?al \<le> i \<longrightarrow> area drv fs d'' i = area drv fs d i"
        using r(2) frame le by auto
      ultimately show ?thesis using step True r(1,3,4) e(4) by auto
    qed
  qed
qed

end

section \<open>A whole save\<close>

text \<open>The bytes of the area hold the file \<open>ds\<close> at \<open>off\<close>.\<close>

definition holds_file :: "(nat \<Rightarrow> u8) \<Rightarrow> nat \<Rightarrow> u8 list \<Rightarrow> bool" where
  "holds_file c off ds \<longleftrightarrow>
     (\<forall>j < 4. c (off + j) = bytes_of_u32 (of_nat (length ds)) ! j) \<and>
     (\<forall>j < 4. c (off + 4 + j) = bytes_of_u32 MFLASH_META_MAGIC_NO ! j) \<and>
     (\<forall>j < length ds. c (off + 8 + j) = ds ! j)"

lemma first_page_nth:
  assumes "length ds < 2 ^ 31"
  shows "length (first_page ds (of_nat (length ds))) = 256"
    and "j < 4 \<Longrightarrow> first_page ds (of_nat (length ds)) ! j = bytes_of_u32 (of_nat (length ds)) ! j"
    and "j < 4 \<Longrightarrow> first_page ds (of_nat (length ds)) ! (4 + j) = bytes_of_u32 MFLASH_META_MAGIC_NO ! j"
    and "j < length ds \<Longrightarrow> j < 248 \<Longrightarrow> first_page ds (of_nat (length ds)) ! (8 + j) = ds ! j"
proof -
  have u: "unat (of_nat (length ds) :: u32) = length ds" using assms by (intro unat_of_nat_small) simp
  have l: "(if of_nat (length ds) > MFLASH_PAGE_SIZE - sizeof_file_meta then MFLASH_PAGE_SIZE - sizeof_file_meta else of_nat (length ds)) = (of_nat (min 248 (length ds)) :: u32)"
    using u by (auto simp: word_less_nat_alt min_def)
  have m: "unat (of_nat (min 248 (length ds)) :: u32) = min 248 (length ds)" by (intro unat_of_nat_small) simp
  have c: "MFLASH_PAGE_SIZE - sizeof_file_meta = 248" by simp
  have e: "first_page ds (of_nat (length ds)) = bytes_of_u32 (of_nat (length ds)) @ bytes_of_u32 MFLASH_META_MAGIC_NO @
      take (min 248 (length ds)) ds @ replicate (248 - min 248 (length ds)) 0xFF"
    unfolding first_page_def Let_def l m by (simp add: put_bytes_def blank_page_def)
  show "length (first_page ds (of_nat (length ds))) = 256" unfolding e by simp
  show "j < 4 \<Longrightarrow> first_page ds (of_nat (length ds)) ! j = bytes_of_u32 (of_nat (length ds)) ! j"
    unfolding e by (simp add: nth_append)
  show "j < 4 \<Longrightarrow> first_page ds (of_nat (length ds)) ! (4 + j) = bytes_of_u32 MFLASH_META_MAGIC_NO ! j"
    unfolding e by (simp add: nth_append)
  show "j < length ds \<Longrightarrow> j < 248 \<Longrightarrow> first_page ds (of_nat (length ds)) ! (8 + j) = ds ! j"
    unfolding e by (simp add: nth_append)
qed

lemma first_page_holds:
  assumes "written len off (first_page ds (of_nat (length ds))) c c'" "off + 256 \<le> len" "off + 8 + length ds \<le> len"
    and "length ds < 2 ^ 31" "\<forall>i. off \<le> i \<and> i < off + 256 \<longrightarrow> c i = 0xFF"
    and "\<forall>j. 248 \<le> j \<and> j < length ds \<longrightarrow> c (off + 8 + j) = ds ! j"
  shows "holds_file c' off ds"
proof -
  have p: "c' (off + j) = first_page ds (of_nat (length ds)) ! j" if "j < 256" for j
    using assms(1,2,5) that first_page_nth(1)[OF assms(4)] by (simp add: written_def)
  have q: "c' (off + 8 + j) = c (off + 8 + j)" if "248 \<le> j" "j < length ds" for j
    using assms(1,3) that first_page_nth(1)[OF assms(4)] by (simp add: written_def)
  have "c' (off + 8 + j) = ds ! j" if "j < length ds" for j
  proof (cases "j < 248")
    case True
    then show ?thesis using p[of "8 + j"] first_page_nth(4)[OF assms(4) that] by (simp add: add.assoc)
  next
    case False
    then show ?thesis using q[of j] assms(6) that by simp
  qed
  moreover have "c' (off + 4 + j) = bytes_of_u32 MFLASH_META_MAGIC_NO ! j" if "j < 4" for j
    using p[of "4 + j"] first_page_nth(3)[OF assms(4) that] that by (simp add: add.assoc)
  ultimately show ?thesis using p first_page_nth(2)[OF assms(4)] by (simp add: holds_file_def)
qed

text \<open>
  A save that fails while the first page is programmed: the page holds its first bytes. Without the
  last byte of the magic number there is no file; otherwise the file is there, and its bytes in the
  first page are blank from some byte on.
\<close>

definition torn_file :: "nat \<Rightarrow> u8 list \<Rightarrow> u8 list" where
  "torn_file k ds = take k ds @ replicate (min 248 (length ds) - k) 0xFF @ drop 248 ds"

lemma torn_file_length [simp]: "k \<le> 248 \<Longrightarrow> length (torn_file k ds) = length ds"
  by (auto simp: torn_file_def)

lemma torn_file_nth:
  "k \<le> 248 \<Longrightarrow> j < length ds \<Longrightarrow> torn_file k ds ! j = (if k \<le> j \<and> j < 248 then 0xFF else ds ! j)"
  by (auto simp: torn_file_def nth_append min_def)

lemma torn_file_whole: "torn_file 248 ds = ds"
  by (simp add: torn_file_def)

lemma first_page_torn:
  assumes "written len off (take k (first_page ds (of_nat (length ds)))) c c'" "k \<le> 256" "off + 256 \<le> len" "off + 8 + length ds \<le> len"
    and "length ds < 2 ^ 31" "\<forall>i. off \<le> i \<and> i < off + 256 \<longrightarrow> c i = 0xFF"
    and "\<forall>j. 248 \<le> j \<and> j < length ds \<longrightarrow> c (off + 8 + j) = ds ! j"
  shows "if k < 8 then c' (off + 7) = 0xFF else holds_file c' off (torn_file (k - 8) ds)"
proof -
  let ?p = "first_page ds (of_nat (length ds))"
  note l = first_page_nth(1)[OF assms(5)]
  have p: "c' (off + j) = (if j < k then ?p ! j else 0xFF)" if "j < 256" for j
    using assms(1,2,3,6) that l by (simp add: written_def)
  show ?thesis
  proof (cases "k < 8")
    case True
    then show ?thesis using p[of 7] by simp
  next
    case False
    have q: "c' (off + 8 + j) = c (off + 8 + j)" if "248 \<le> j" "j < length ds" for j
      using assms(1,2,4) that l by (simp add: written_def)
    have k: "k - 8 \<le> 248" using assms(2) by simp
    have "c' (off + 8 + j) = torn_file (k - 8) ds ! j" if "j < length ds" for j
    proof (cases "j < 248")
      case True
      then show ?thesis
        using p[of "8 + j"] first_page_nth(4)[OF assms(5) that] False torn_file_nth[OF k that] by (auto simp: add.assoc)
    next
      case F: False
      then show ?thesis using q[of j] assms(7) that torn_file_nth[OF k that] by simp
    qed
    moreover have "c' (off + 4 + j) = bytes_of_u32 MFLASH_META_MAGIC_NO ! j" if "j < 4" for j
      using p[of "4 + j"] first_page_nth(3)[OF assms(5) that] that False by (simp add: add.assoc)
    moreover have "c' (off + j) = bytes_of_u32 (of_nat (length ds)) ! j" if "j < 4" for j
      using p[of j] first_page_nth(2)[OF assms(5) that] that False by simp
    ultimately show ?thesis using False k by (simp add: holds_file_def)
  qed
qed

definition save_outcome :: "nat \<Rightarrow> nat \<Rightarrow> nat \<Rightarrow> u8 list \<Rightarrow> (nat \<Rightarrow> u8) \<Rightarrow> (nat \<Rightarrow> u8) \<Rightarrow> bool" where
  "save_outcome len off al ds c c' \<longleftrightarrow>
     (\<forall>i < len. i < off \<or> off + al \<le> i \<longrightarrow> c' i = c i) \<and>
     (c' (off + 7) = 0xFF \<or> (\<exists>k \<le> 248. holds_file c' off (torn_file k ds)))"

context mflash_driver
begin

lemma save_internal:
  assumes fs: "fs_area drv fs base len"
    and dr: "unat (file_offset dr) mod 4096 = 0" "unat (alloc_size dr) mod 4096 = 0"
      "unat (file_offset dr) + unat (alloc_size dr) \<le> len" "length ds + 8 \<le> unat (alloc_size dr)"
    and d: "ready d"
  shows "\<exists>st d'. mflash_file_save_internal drv fs dr ds (of_nat (length ds)) d = Some (st, d') \<and>
    (flash d' = flash d \<or> save_outcome len (unat (file_offset dr)) (unat (alloc_size dr)) ds (area drv fs d) (area drv fs d')) \<and>
    (st = kStatus_Success \<longrightarrow> ready d' \<and> holds_file (area drv fs d') (unat (file_offset dr)) ds) \<and>
    (healthy d \<longrightarrow> st = kStatus_Success)"
proof -
  let ?off = "unat (file_offset dr)" and ?al = "unat (alloc_size dr)" and ?n = "length ds"
  have len: "len \<le> 2 ^ 31" using fs by (simp add: fs_area_def)
  have n: "?n < 2 ^ 31" using dr(3,4) len by simp
  have "unat (of_nat ?n + 8 :: u32) = ?n + 8"
    using unat_of_nat_small[of "?n + 8"] n by simp
  then have guard: "\<not> of_nat ?n + 8 > alloc_size dr" using dr(4) by (simp add: word_less_nat_alt)
  have al: "4096 \<le> ?al" using aligned_less[of 0 4096 ?al] dr(2,4) by simp
  obtain st d1 e where er: "save_erase_loop drv fs dr (of_nat 0) d = Some (st, d1)" "0 \<le> e" "e \<le> ?al" "e mod 4096 = 0"
      "e = 0 \<longrightarrow> flash d1 = flash d" "blanked len (?off + 0) (?off + e) (area drv fs d) (area drv fs d1)"
      "st = kStatus_Success \<longrightarrow> e = ?al \<and> ready d1" "healthy d \<longrightarrow> st = kStatus_Success \<and> healthy d1"
    using erase_loop[OF fs dr(1-3) mod_0 le0 d] by - (elim exE conjE, rule that)
  show ?thesis
  proof (cases "st = kStatus_Success")
    case False
    then have "mflash_file_save_internal drv fs dr ds (of_nat ?n) d = Some (st, d1)"
      using er(1) guard by (simp add: mflash_file_save_internal_def)
    moreover have "save_outcome len ?off ?al ds (area drv fs d) (area drv fs d1)" if "e \<noteq> 0"
    proof -
      have "8 \<le> e" using aligned_less[of 0 4096 e] er(4) that by simp
      then show ?thesis using er(3,6) dr(3) by (simp add: save_outcome_def blanked_def)
    qed
    ultimately show ?thesis using er(5,8) False by blast
  next
    case True
    then have b: "blanked len ?off (?off + ?al) (area drv fs d) (area drv fs d1)" "ready d1" using er(6,7) by auto
    have blank: "area drv fs d1 i = 0xFF" if "?off \<le> i" "i < ?off + ?al" for i
      using b(1) that dr(3) by (simp add: blanked_def)
    have bl: "\<forall>i. ?off + 248 + 8 \<le> i \<and> i < ?off + ?al \<longrightarrow> area drv fs d1 i = 0xFF" using blank by simp
    have h1: "(248 + 8) mod 256 = (0 :: nat)" "248 + 8 \<le> ?n + 264" by simp_all
    obtain st2 d2 where dl: "save_data_loop drv fs dr ds (of_nat ?n) (of_nat 248) d1 = Some (st2, d2)"
        "\<forall>i < len. i < ?off + 248 + 8 \<or> ?off + ?al \<le> i \<longrightarrow> area drv fs d2 i = area drv fs d1 i"
        "st2 = kStatus_Success \<longrightarrow> ready d2 \<and> (\<forall>j. 248 \<le> j \<and> j < ?n \<longrightarrow> area drv fs d2 (?off + 8 + j) = ds ! j)"
        "healthy d1 \<longrightarrow> st2 = kStatus_Success \<and> healthy d2"
      using data_loop[OF fs dr h1 b(2) bl] by - (elim exE conjE, rule that)
    have frame2: "area drv fs d2 i = area drv fs d i" if "i < len" "i < ?off \<or> ?off + ?al \<le> i" for i
      using dl(2) b(1) that by (auto simp: blanked_def)
    have blank2: "area drv fs d2 i = 0xFF" if "?off \<le> i" "i < ?off + 256" for i
      using dl(2) blank[of i] that al dr(3) by simp
    have out2: "save_outcome len ?off ?al ds (area drv fs d) (area drv fs d2)"
      using frame2 blank2 by (simp add: save_outcome_def)
    show ?thesis
    proof (cases "st2 = kStatus_Success")
      case False
      then have "mflash_file_save_internal drv fs dr ds (of_nat ?n) d = Some (st2, d2)"
        using er(1) dl(1) guard True by (simp add: mflash_file_save_internal_def)
      then show ?thesis using out2 False er(8) dl(4) by blast
    next
      case T2: True
      have off: "of_nat ?off = file_offset dr" by simp
      have r2: "ready d2" using dl(3) T2 by simp
      have l: "?off + 256 \<le> len" using al dr(3) by simp
      obtain st3 d3 where pp: "mflash_fs_page_program drv fs (of_nat ?off) (first_page ds (of_nat ?n)) d2 = Some (st3, d3)"
          "\<exists>k \<le> 256. written len ?off (take k (first_page ds (of_nat ?n))) (area drv fs d2) (area drv fs d3)"
          "st3 = kStatus_Success \<longrightarrow> written len ?off (first_page ds (of_nat ?n)) (area drv fs d2) (area drv fs d3) \<and> ready d3"
          "healthy d2 \<longrightarrow> st3 = kStatus_Success \<and> healthy d3"
        using page_program_area[OF fs r2 sector_page[OF dr(1)] l first_page_nth(1)[OF n]]
        by - (elim exE, elim conjE, rule that)
      have sv: "mflash_file_save_internal drv fs dr ds (of_nat ?n) d = Some (st3, d3)"
        using er(1) dl(1) guard True T2 pp(1) by (simp add: mflash_file_save_internal_def)
      have h: "holds_file (area drv fs d3) ?off ds"
        if w: "written len ?off (first_page ds (of_nat ?n)) (area drv fs d2) (area drv fs d3)"
        by (rule first_page_holds[OF w l _ n]) (use dr(3,4) blank2 dl(3) T2 in auto)
      obtain k where k: "k \<le> 256" "written len ?off (take k (first_page ds (of_nat ?n))) (area drv fs d2) (area drv fs d3)"
        using pp(2) by blast
      have t: "if k < 8 then area drv fs d3 (?off + 7) = 0xFF else holds_file (area drv fs d3) ?off (torn_file (k - 8) ds)"
        by (rule first_page_torn[OF k(2,1) l _ n]) (use dr(3,4) blank2 dl(3) T2 in auto)
      have o: "area drv fs d3 (?off + 7) = 0xFF \<or> (\<exists>k \<le> 248. holds_file (area drv fs d3) ?off (torn_file k ds))"
      proof (cases "k < 8")
        case False
        then show ?thesis using t k(1) by (intro disjI2 exI[of _ "k - 8"]) simp
      qed (use t in simp)
      have "save_outcome len ?off ?al ds (area drv fs d) (area drv fs d3)"
        using o k frame2 al first_page_nth(1)[OF n] by (auto simp: save_outcome_def written_def)
      moreover have "healthy d \<longrightarrow> st3 = kStatus_Success" using er(8) dl(4) pp(4) by blast
      ultimately show ?thesis using sv pp(3) h by blast
    qed
  qed
qed

end

end
