(* ===== verification/Mflash_Props.thy ===== *)
theory Mflash_Props
  imports Mflash_Save
begin

text \<open>
  The file system as a client sees it: well-formed directories, reading a file through
  \<open>mflash_file_mmap\<close>, and the properties of \<open>mflash_file_save\<close> on the board's driver.
\<close>

section \<open>Well-formed file systems\<close>

definition dir_count :: "'d mflash_drv \<Rightarrow> 'd mflash \<Rightarrow> nat" where
  "dir_count drv m = unat (h_file_count (read_fs_header drv (mflash_dev m) (g_mflash_fs m)))"

definition dir_record :: "'d mflash_drv \<Rightarrow> 'd mflash \<Rightarrow> nat \<Rightarrow> mflash_dir_record_t" where
  "dir_record drv m i = read_dir_record drv (mflash_dev m) (g_mflash_fs m + of_nat (64 + 64 * i))"

definition file_begin :: "mflash_dir_record_t \<Rightarrow> nat" where
  "file_begin r = unat (file_offset r)"

definition file_end :: "mflash_dir_record_t \<Rightarrow> nat" where
  "file_end r = unat (file_offset r) + unat (alloc_size r)"

definition meta_fits :: "'d mflash_drv \<Rightarrow> 'd mflash \<Rightarrow> mflash_dir_record_t \<Rightarrow> bool" where
  "meta_fits drv m r \<longleftrightarrow>
     (let meta = read_file_meta drv (mflash_dev m) (g_mflash_fs m + file_offset r)
      in meta_magic_no meta = MFLASH_META_MAGIC_NO \<longrightarrow> unat (meta_file_size meta) + 8 < 2 ^ 32)"

text \<open>
  Records are aligned, lie behind the directory and in the area, and do not overlap. The last part
  excludes sizes that wrap in the code's check of the file size.
\<close>

definition mflash_wf :: "'d mflash_drv \<Rightarrow> u32 \<Rightarrow> nat \<Rightarrow> 'd mflash \<Rightarrow> bool" where
  "mflash_wf drv base len m \<longleftrightarrow>
     fs_area drv (g_mflash_fs m) base len \<and> 64 + 64 * dir_count drv m \<le> len \<and>
     (\<forall>i < dir_count drv m. let r = dir_record drv m i in
        file_begin r mod 4096 = 0 \<and> unat (alloc_size r) mod 4096 = 0 \<and> 0 < unat (alloc_size r) \<and>
        64 + 64 * dir_count drv m \<le> file_begin r \<and> file_end r \<le> len \<and> meta_fits drv m r) \<and>
     (\<forall>i < dir_count drv m. \<forall>j < dir_count drv m. i \<noteq> j \<longrightarrow>
        file_end (dir_record drv m i) \<le> file_begin (dir_record drv m j) \<or>
        file_end (dir_record drv m j) \<le> file_begin (dir_record drv m i))"

text \<open>The content of a file, through the interface.\<close>

definition mflash_read :: "'d mflash_drv \<Rightarrow> u8 list \<Rightarrow> 'd mflash \<Rightarrow> u8 list option" where
  "mflash_read drv path m =
     (case snd (mflash_file_mmap drv (Some path) True m) of
        None \<Rightarrow> None
      | Some (p, n) \<Rightarrow> Some (read_bytes drv (mflash_dev m) p (unat n)))"

definition mflash_file_of :: "'d mflash_drv \<Rightarrow> 'd mflash \<Rightarrow> u8 list \<Rightarrow> mflash_dir_record_t option" where
  "mflash_file_of drv m path = mflash_dir_lookup drv (mflash_dev m) (g_mflash_fs m) path"

section \<open>Reads depend on the bytes they cover\<close>

lemma read32_area:
  "read32 drv d (fs + of_nat a) = u32_of_bytes (area drv fs d a) (area drv fs d (a + 1)) (area drv fs d (a + 2)) (area drv fs d (a + 3))"
  by (simp add: read32_def area_def ac_simps)

lemma read_bytes_area: "read_bytes drv d (fs + of_nat a) n = map (\<lambda>i. area drv fs d (a + i)) [0..<n]"
  by (simp add: read_bytes_def area_def add.assoc)

lemma read_dir_record_cong:
  assumes "\<forall>i. a \<le> i \<and> i < a + 64 \<longrightarrow> area drv fs d' i = area drv fs d i"
  shows "read_dir_record drv d' (fs + of_nat a) = read_dir_record drv d (fs + of_nat a)"
proof -
  have p: "fs + of_nat a + 4 = fs + of_nat (a + 4)" "fs + of_nat a + 8 = fs + of_nat (a + 8)" by simp_all
  show ?thesis using assms unfolding read_dir_record_def p read32_area read_bytes_area by simp
qed

lemma read_fs_header_cong:
  assumes "\<forall>i < 24. area drv fs d' i = area drv fs d i"
  shows "read_fs_header drv d' fs = read_fs_header drv d fs"
proof -
  have p: "fs + 4 = fs + of_nat 4" "fs + 8 = fs + of_nat 8" "fs + 12 = fs + of_nat 12" "fs + 16 = fs + of_nat 16"
    "fs + 20 = fs + of_nat 20" by simp_all
  have z: "read32 drv e fs = read32 drv e (fs + of_nat 0)" for e by simp
  show ?thesis using assms unfolding read_fs_header_def p z[of d'] z[of d] read32_area by simp
qed

lemma read_file_meta_cong:
  assumes "\<forall>i. unat a \<le> i \<and> i < unat a + 8 \<longrightarrow> area drv fs d' i = area drv fs d i"
  shows "read_file_meta drv d' (fs + a) = read_file_meta drv d (fs + a)"
proof -
  have p: "fs + a = fs + of_nat (unat a)" "fs + of_nat (unat a) + 4 = fs + of_nat (unat a + 4)" by simp_all
  show ?thesis using assms unfolding read_file_meta_def p read32_area by simp
qed

lemma dir_lookup_loop_cong:
  assumes "\<forall>i. a \<le> i \<and> i < a + 64 * n \<longrightarrow> area drv fs d' i = area drv fs d i"
  shows "dir_lookup_loop drv d' path (fs + of_nat a) n = dir_lookup_loop drv d path (fs + of_nat a) n"
  using assms
proof (induction n arbitrary: a)
  case (Suc n)
  have "read_dir_record drv d' (fs + of_nat a) = read_dir_record drv d (fs + of_nat a)"
    using Suc.prems by (intro read_dir_record_cong) simp
  moreover have "fs + of_nat a + 64 = fs + of_nat (a + 64)" by simp
  moreover have "dir_lookup_loop drv d' path (fs + of_nat (a + 64)) n = dir_lookup_loop drv d path (fs + of_nat (a + 64)) n"
    using Suc.prems by (intro Suc.IH) simp
  ultimately show ?case by (simp only: dir_lookup_loop.simps)
qed simp

lemma dir_lookup_loop_Some:
  "dir_lookup_loop drv d path p n = Some r \<Longrightarrow> \<exists>i < n. r = read_dir_record drv d (p + of_nat (64 * i))"
proof (induction n arbitrary: p)
  case (Suc n)
  show ?case
  proof (cases "dir_path_match (dr_path (read_dir_record drv d p)) path")
    case True
    then show ?thesis using Suc.prems by (intro exI[of _ 0]) simp
  next
    case False
    then obtain i where "i < n" "r = read_dir_record drv d (p + 64 + of_nat (64 * i))"
      using Suc.IH[of "p + 64"] Suc.prems by auto
    then show ?thesis by (intro exI[of _ "Suc i"]) (simp add: add.assoc)
  qed
qed simp

lemma file_of_record:
  assumes "mflash_file_of drv m path = Some r"
  obtains i where "i < dir_count drv m" "r = dir_record drv m i"
proof -
  have "dir_lookup_loop drv (mflash_dev m) path (g_mflash_fs m + 64) (dir_count drv m) = Some r"
    using assms by (simp add: mflash_file_of_def mflash_dir_lookup_def dir_count_def)
  from dir_lookup_loop_Some[OF this] obtain i where "i < dir_count drv m"
      "r = read_dir_record drv (mflash_dev m) (g_mflash_fs m + 64 + of_nat (64 * i))" by blast
  then show thesis using that by (simp add: dir_record_def add.assoc)
qed

text \<open>Two states whose directories have the same bytes.\<close>

lemma same_directory:
  assumes "g_mflash_fs m' = g_mflash_fs m"
    and "\<forall>i < 64 + 64 * dir_count drv m. area drv (g_mflash_fs m) (mflash_dev m') i = area drv (g_mflash_fs m) (mflash_dev m) i"
  shows "dir_count drv m' = dir_count drv m"
    and "i < dir_count drv m \<Longrightarrow> dir_record drv m' i = dir_record drv m i"
    and "mflash_file_of drv m' path = mflash_file_of drv m path"
proof -
  have h: "read_fs_header drv (mflash_dev m') (g_mflash_fs m) = read_fs_header drv (mflash_dev m) (g_mflash_fs m)"
    using assms(2) by (intro read_fs_header_cong) simp
  then show c: "dir_count drv m' = dir_count drv m" using assms(1) by (simp add: dir_count_def)
  show "dir_record drv m' i = dir_record drv m i" if "i < dir_count drv m"
    unfolding dir_record_def assms(1) using assms(2) that by (intro read_dir_record_cong) auto
  have e: "g_mflash_fs m + 64 = g_mflash_fs m + of_nat 64" by simp
  show "mflash_file_of drv m' path = mflash_file_of drv m path"
    unfolding mflash_file_of_def mflash_dir_lookup_def assms(1) h e
    by (rule dir_lookup_loop_cong) (use assms(2) in \<open>auto simp: dir_count_def\<close>)
qed

lemma mflash_read_file_of:
  "mflash_read drv path m =
     (case mflash_file_of drv m path of
        None \<Rightarrow> None
      | Some r \<Rightarrow> (case snd (mflash_file_mmap_internal drv (mflash_dev m) (g_mflash_fs m) r) of
            None \<Rightarrow> None | Some (p, n) \<Rightarrow> Some (read_bytes drv (mflash_dev m) p (unat n))))"
  by (simp add: mflash_read_def mflash_file_mmap_def mflash_file_of_def split: option.split)

text \<open>The same file in both states.\<close>

lemma same_file:
  assumes "g_mflash_fs m' = g_mflash_fs m" "mflash_file_of drv m' path = mflash_file_of drv m path"
    and "mflash_file_of drv m path = Some r" "meta_fits drv m r" "8 \<le> unat (alloc_size r)"
    and "\<forall>i. file_begin r \<le> i \<and> i < file_end r \<longrightarrow>
      area drv (g_mflash_fs m) (mflash_dev m') i = area drv (g_mflash_fs m) (mflash_dev m) i"
  shows "mflash_read drv path m' = mflash_read drv path m" "meta_fits drv m' r"
proof -
  let ?fs = "g_mflash_fs m"
  have meta: "read_file_meta drv (mflash_dev m') (?fs + file_offset r) = read_file_meta drv (mflash_dev m) (?fs + file_offset r)"
    using assms(5,6) by (intro read_file_meta_cong) (simp add: file_begin_def file_end_def)
  then show "meta_fits drv m' r" using assms(1,4) by (simp add: meta_fits_def)
  have chk: "mflash_file_check drv (mflash_dev m') ?fs r = mflash_file_check drv (mflash_dev m) ?fs r"
    using meta by (simp add: mflash_file_check_def)
  let ?n = "meta_file_size (read_file_meta drv (mflash_dev m) (?fs + file_offset r))"
  have bytes: "read_bytes drv (mflash_dev m') (?fs + file_offset r + 8) (unat ?n) =
      read_bytes drv (mflash_dev m) (?fs + file_offset r + 8) (unat ?n)"
    if "mflash_file_check drv (mflash_dev m) ?fs r = kStatus_Success"
  proof -
    have "unat ?n + 8 < 2 ^ 32" "?n + 8 \<le> alloc_size r"
      using that assms(4) by (auto simp: mflash_file_check_def meta_fits_def Let_def split: if_splits)
    then have "unat ?n + 8 \<le> unat (alloc_size r)"
      by (simp add: word_le_nat_alt unat_word_ariths)
    moreover have "?fs + file_offset r + 8 = ?fs + of_nat (unat (file_offset r) + 8)" by simp
    ultimately show ?thesis using assms(6) by (simp only: read_bytes_area) (simp add: file_begin_def file_end_def)
  qed
  show "mflash_read drv path m' = mflash_read drv path m"
    using assms(1,2,3) chk meta bytes by (simp add: mflash_read_file_of mflash_file_mmap_internal_def Let_def)
qed

section \<open>What a save leaves\<close>

lemma holds_file_read:
  assumes "holds_file (area drv (g_mflash_fs m) (mflash_dev m)) (unat (file_offset r)) ds"
    and "length ds + 8 \<le> unat (alloc_size r)" "g_mflash_fs m \<noteq> 0" "mflash_file_of drv m path = Some r"
  shows "mflash_read drv path m = Some ds" "meta_fits drv m r"
proof -
  let ?fs = "g_mflash_fs m" and ?d = "mflash_dev m" and ?o = "unat (file_offset r)"
  have n: "length ds + 8 < 2 ^ 32" using assms(2) unat_bound32[of "alloc_size r"] by simp
  have u: "unat (of_nat (length ds) :: u32) = length ds" using n by (intro unat_of_nat_small) simp
  have p: "?fs + file_offset r = ?fs + of_nat ?o" "?fs + of_nat ?o + 4 = ?fs + of_nat (?o + 4)"
    "?fs + of_nat ?o + 8 = ?fs + of_nat (?o + 8)" by simp_all
  have h: "\<And>j. j < 4 \<Longrightarrow> area drv ?fs ?d (?o + j) = bytes_of_u32 (of_nat (length ds)) ! j"
      "\<And>j. j < 4 \<Longrightarrow> area drv ?fs ?d (?o + 4 + j) = bytes_of_u32 MFLASH_META_MAGIC_NO ! j"
      "\<And>j. j < length ds \<Longrightarrow> area drv ?fs ?d (?o + 8 + j) = ds ! j"
    using assms(1) by (auto simp: holds_file_def)
  have r1: "read32 drv ?d (?fs + of_nat ?o) = of_nat (length ds)"
    unfolding read32_area using h(1)[of 0] h(1)[of 1] h(1)[of 2] h(1)[of 3] u32_of_bytes_of_u32 by simp
  have r2: "read32 drv ?d (?fs + of_nat (?o + 4)) = MFLASH_META_MAGIC_NO"
    unfolding read32_area using h(2)[of 0] h(2)[of 1] h(2)[of 2] h(2)[of 3] u32_of_bytes_of_u32[of MFLASH_META_MAGIC_NO]
    by (simp add: add.assoc)
  have meta: "read_file_meta drv ?d (?fs + file_offset r) = \<lparr>meta_file_size = of_nat (length ds), meta_magic_no = MFLASH_META_MAGIC_NO\<rparr>"
    unfolding read_file_meta_def p r1 r2 ..
  show "meta_fits drv m r" using n u by (simp add: meta_fits_def meta)
  have "\<not> of_nat (length ds) + 8 > alloc_size r"
    using assms(2) u n by (simp add: word_less_nat_alt unat_word_ariths)
  then have chk: "mflash_file_check drv ?d ?fs r = kStatus_Success"
    using assms(3) meta by (simp add: mflash_file_check_def)
  have "read_bytes drv ?d (?fs + file_offset r + 8) (length ds) = ds"
    unfolding p read_bytes_area using h(3) by (intro nth_equalityI) auto
  then show "mflash_read drv path m = Some ds"
    using assms(4) chk meta u by (simp add: mflash_read_file_of mflash_file_mmap_internal_def Let_def)
qed

lemma blank_read:
  assumes "area drv (g_mflash_fs m) (mflash_dev m) (unat (file_offset r) + 7) = 0xFF"
    and "mflash_file_of drv m path = Some r"
  shows "mflash_read drv path m = None" "meta_fits drv m r"
proof -
  let ?fs = "g_mflash_fs m" and ?d = "mflash_dev m" and ?o = "unat (file_offset r)"
  have p: "?fs + file_offset r = ?fs + of_nat ?o" "?fs + of_nat ?o + 4 = ?fs + of_nat (?o + 4)" by simp_all
  have top: "ucast (drop_bit 24 (u32_of_bytes a b c e)) = e" for a b c e
    unfolding u32_of_bytes_def by (rule bit_word_eqI) (auto simp: bit_simps dest: bit_imp_le_length)
  have "ucast (drop_bit 24 (read32 drv ?d (?fs + of_nat (?o + 4)))) = (0xFF :: u8)"
    unfolding read32_area top using assms(1) by (simp add: add.assoc)
  then have "read32 drv ?d (?fs + of_nat (?o + 4)) \<noteq> MFLASH_META_MAGIC_NO" by auto
  then have meta: "meta_magic_no (read_file_meta drv ?d (?fs + file_offset r)) \<noteq> MFLASH_META_MAGIC_NO"
    unfolding read_file_meta_def p by simp
  show "meta_fits drv m r" by (simp add: meta_fits_def meta)
  have "mflash_file_check drv ?d ?fs r \<noteq> kStatus_Success" by (simp add: mflash_file_check_def meta)
  then show "mflash_read drv path m = None"
    using assms(2) by (simp add: mflash_read_file_of mflash_file_mmap_internal_def Let_def)
qed

section \<open>A save on a driver that keeps the contract\<close>

lemma wf_record:
  assumes "mflash_wf drv base len m" "mflash_file_of drv m path = Some r"
  shows "fs_area drv (g_mflash_fs m) base len" "file_begin r mod 4096 = 0" "unat (alloc_size r) mod 4096 = 0"
    "4096 \<le> unat (alloc_size r)" "64 + 64 * dir_count drv m \<le> file_begin r" "file_end r \<le> len" "meta_fits drv m r"
    "g_mflash_fs m \<noteq> 0"
proof -
  obtain i where i: "i < dir_count drv m" "r = dir_record drv m i" using assms(2) by (rule file_of_record)
  have w: "file_begin r mod 4096 = 0 \<and> unat (alloc_size r) mod 4096 = 0 \<and> 0 < unat (alloc_size r) \<and>
      64 + 64 * dir_count drv m \<le> file_begin r \<and> file_end r \<le> len \<and> meta_fits drv m r"
    using assms(1) i by (simp add: mflash_wf_def Let_def)
  show "fs_area drv (g_mflash_fs m) base len" using assms(1) unfolding mflash_wf_def by blast
  then show "g_mflash_fs m \<noteq> 0" by (simp add: fs_area_def)
  show "file_begin r mod 4096 = 0" "unat (alloc_size r) mod 4096 = 0" "64 + 64 * dir_count drv m \<le> file_begin r"
      "file_end r \<le> len" "meta_fits drv m r" using w by blast+
  show "4096 \<le> unat (alloc_size r)" using w aligned_less[of 0 4096 "unat (alloc_size r)"] by simp
qed

lemma wf_disjoint:
  assumes "mflash_wf drv base len m" "mflash_file_of drv m p = Some r" "mflash_file_of drv m p' = Some r'" "r \<noteq> r'"
  shows "file_end r \<le> file_begin r' \<or> file_end r' \<le> file_begin r"
proof -
  obtain i where i: "i < dir_count drv m" "r = dir_record drv m i" using assms(2) by (rule file_of_record)
  obtain j where j: "j < dir_count drv m" "r' = dir_record drv m j" using assms(3) by (rule file_of_record)
  have "i \<noteq> j" using i j assms(4) by auto
  then show ?thesis using assms(1) i j unfolding mflash_wf_def by blast
qed

lemma same_flash:
  assumes "\<And>p. bus_read drv d' p = bus_read drv (mflash_dev m) p"
  shows "mflash_read drv path (m\<lparr>mflash_dev := d'\<rparr>) = mflash_read drv path m"
    and "mflash_wf drv base len (m\<lparr>mflash_dev := d'\<rparr>) = mflash_wf drv base len m"
proof -
  have r: "read32 drv d' = read32 drv (mflash_dev m)" "read_bytes drv d' = read_bytes drv (mflash_dev m)"
    using assms by (auto simp: read32_def read_bytes_def fun_eq_iff)
  have s: "read_dir_record drv d' = read_dir_record drv (mflash_dev m)"
      "read_fs_header drv d' = read_fs_header drv (mflash_dev m)" "read_file_meta drv d' = read_file_meta drv (mflash_dev m)"
    by (simp_all add: r fun_eq_iff read_dir_record_def read_fs_header_def read_file_meta_def)
  have l: "dir_lookup_loop drv d' path q n = dir_lookup_loop drv (mflash_dev m) path q n" for q n
    by (induction n arbitrary: q) (simp_all add: s)
  have mi: "mflash_file_mmap_internal drv d' = mflash_file_mmap_internal drv (mflash_dev m)"
    by (intro ext) (simp only: mflash_file_mmap_internal_def mflash_file_check_def s)
  show "mflash_read drv path (m\<lparr>mflash_dev := d'\<rparr>) = mflash_read drv path m"
    unfolding mflash_read_def mflash_file_mmap_def mflash_dir_lookup_def by (simp add: l s r mi cong: option.case_cong)
  show "mflash_wf drv base len (m\<lparr>mflash_dev := d'\<rparr>) = mflash_wf drv base len m"
    by (simp add: mflash_wf_def dir_count_def dir_record_def meta_fits_def s)
qed

lemma wf_save:
  assumes wf: "mflash_wf drv base len m" and r: "mflash_file_of drv m path = Some r"
    and g: "g_mflash_fs m' = g_mflash_fs m"
    and frame: "\<forall>i < len. i < file_begin r \<or> file_end r \<le> i \<longrightarrow>
      area drv (g_mflash_fs m) (mflash_dev m') i = area drv (g_mflash_fs m) (mflash_dev m) i"
    and meta: "meta_fits drv m' r"
  shows "mflash_wf drv base len m'" "mflash_file_of drv m' path' = mflash_file_of drv m path'"
    "mflash_file_of drv m path' \<noteq> Some r \<Longrightarrow> mflash_read drv path' m' = mflash_read drv path' m"
proof -
  note w = wf_record[OF wf r]
  have dir: "\<forall>i < 64 + 64 * dir_count drv m. area drv (g_mflash_fs m) (mflash_dev m') i = area drv (g_mflash_fs m) (mflash_dev m) i"
    using frame w(4,5,6) by (simp add: file_end_def file_begin_def)
  note sd = same_directory[OF g dir]
  show fo: "mflash_file_of drv m' p = mflash_file_of drv m p" for p by (rule sd(3))
  have other: "\<forall>j. file_begin q \<le> j \<and> j < file_end q \<longrightarrow>
      area drv (g_mflash_fs m) (mflash_dev m') j = area drv (g_mflash_fs m) (mflash_dev m) j"
    if "file_end r \<le> file_begin q \<or> file_end q \<le> file_begin r" "file_end q \<le> len" for q
    using frame that by auto
  have rec_meta: "meta_fits drv m' (dir_record drv m i)" if i: "i < dir_count drv m" for i
  proof (cases "dir_record drv m i = r")
    case True
    then show ?thesis using meta by simp
  next
    case False
    let ?q = "dir_record drv m i"
    obtain k where k: "k < dir_count drv m" "r = dir_record drv m k" using r by (rule file_of_record)
    have d: "file_end r \<le> file_begin ?q \<or> file_end ?q \<le> file_begin r"
      using wf i k False unfolding mflash_wf_def by metis
    have q: "file_end ?q \<le> len" "meta_fits drv m ?q" "unat (alloc_size ?q) mod 4096 = 0" "0 < unat (alloc_size ?q)"
      using wf i by (simp_all add: mflash_wf_def Let_def)
    have "8 \<le> unat (alloc_size ?q)" using aligned_less[of 0 4096 "unat (alloc_size ?q)"] q(3,4) by simp
    then have "read_file_meta drv (mflash_dev m') (g_mflash_fs m + file_offset ?q) =
        read_file_meta drv (mflash_dev m) (g_mflash_fs m + file_offset ?q)"
      using other[OF d q(1)] by (intro read_file_meta_cong) (simp add: file_begin_def file_end_def)
    then show ?thesis using q(2) g by (simp add: meta_fits_def)
  qed
  show "mflash_wf drv base len m'"
    using wf rec_meta unfolding mflash_wf_def g sd(1) Let_def by (simp add: sd(2))
  show "mflash_read drv path' m' = mflash_read drv path' m" if ne: "mflash_file_of drv m path' \<noteq> Some r"
  proof (cases "mflash_file_of drv m path'")
    case None
    then show ?thesis using fo by (simp add: mflash_read_file_of)
  next
    case (Some q)
    note wq = wf_record[OF wf Some]
    have "q \<noteq> r" using ne Some by simp
    then have "file_end r \<le> file_begin q \<or> file_end q \<le> file_begin r"
      using wf_disjoint[OF wf r Some] by blast
    then show ?thesis
      using same_file(1)[OF g fo Some wq(7) _ other] wq(4,6) by simp
  qed
qed

context mflash_driver
begin

lemma save_correct:
  assumes wf: "mflash_wf drv base len m" and r: "mflash_file_of drv m path = Some r"
    and n: "length ds + 8 \<le> unat (alloc_size r)" and rdy: "ready (mflash_dev m)"
  shows "\<exists>st m'. mflash_file_save drv True (Some path) (Some ds) (of_nat (length ds)) m = Some (st, m') \<and>
    mflash_wf drv base len m' \<and> mflash_read drv path m' \<in> {mflash_read drv path m, None} \<union> {Some (torn_file k ds) |k. k \<le> 248} \<and>
    (st = kStatus_Success \<longrightarrow> mflash_read drv path m' = Some ds \<and> ready (mflash_dev m')) \<and>
    (healthy (mflash_dev m) \<longrightarrow> st = kStatus_Success) \<and>
    (\<forall>path'. mflash_file_of drv m path' \<noteq> Some r \<longrightarrow> mflash_read drv path' m' = mflash_read drv path' m)"
proof -
  note w = wf_record[OF wf r]
  let ?fs = "g_mflash_fs m" and ?d = "mflash_dev m"
  obtain st d' where s: "mflash_file_save_internal drv ?fs r ds (of_nat (length ds)) ?d = Some (st, d')"
      "flash d' = flash ?d \<or> save_outcome len (unat (file_offset r)) (unat (alloc_size r)) ds (area drv ?fs ?d) (area drv ?fs d')"
      "st = kStatus_Success \<longrightarrow> ready d' \<and> holds_file (area drv ?fs d') (unat (file_offset r)) ds" "healthy ?d \<longrightarrow> st = kStatus_Success"
    using save_internal[OF w(1) _ w(3) _ n rdy] w(2,6)
    by - (simp only: file_begin_def file_end_def simp_thms True_implies_equals, elim exE conjE, rule that)
  let ?m' = "m\<lparr>mflash_dev := d'\<rparr>"
  have save: "mflash_file_save drv True (Some path) (Some ds) (of_nat (length ds)) m = Some (st, ?m')"
    using r s(1) by (simp add: mflash_file_save_def mflash_file_of_def)
  have read_torn: "mflash_read drv path ?m' = Some bs \<and> meta_fits drv ?m' r"
    if "holds_file (area drv ?fs d') (unat (file_offset r)) bs" "length bs = length ds" "mflash_file_of drv ?m' path = Some r" for bs
    using holds_file_read[of drv ?m' r bs path] that n w(8) by simp
  note read_new = read_torn[OF _ refl]
  from s(2) show ?thesis
  proof
    assume e: "flash d' = flash ?d"
    have b: "bus_read drv d' p = bus_read drv ?d p" for p using e by (rule bus_cong)
    note sf = same_flash[of drv d' m, OF b]
    have "mflash_file_of drv ?m' path = mflash_file_of drv m path"
      by (rule same_directory(3)) (simp_all add: area_def b)
    then have "mflash_read drv path ?m' = Some ds" if "st = kStatus_Success"
      using that s(3) read_new r by simp
    then show ?thesis using save sf wf s(3,4) by auto
  next
    assume o: "save_outcome len (unat (file_offset r)) (unat (alloc_size r)) ds (area drv ?fs ?d) (area drv ?fs d')"
    then have frame: "\<forall>i < len. i < file_begin r \<or> file_end r \<le> i \<longrightarrow> area drv ?fs (mflash_dev ?m') i = area drv ?fs ?d i"
      by (simp add: save_outcome_def file_begin_def file_end_def)
    have "\<forall>i < 64 + 64 * dir_count drv m. area drv ?fs (mflash_dev ?m') i = area drv ?fs ?d i"
      using frame w(4,5,6) by (simp add: file_end_def file_begin_def)
    then have fo: "mflash_file_of drv ?m' path = Some r" using same_directory(3)[of ?m' m drv path] r by simp
    have res: "(mflash_read drv path ?m' = None \<or> (\<exists>k \<le> 248. mflash_read drv path ?m' = Some (torn_file k ds))) \<and> meta_fits drv ?m' r"
      using o read_torn[OF _ torn_file_length fo] blank_read[OF _ fo] by (auto simp: save_outcome_def)
    note ws = wf_save[OF wf r _ frame conjunct2[OF res]]
    have "mflash_read drv path ?m' = Some ds" if "st = kStatus_Success"
      using that s(3) read_new[OF _ fo] by simp
    then show ?thesis using save res ws s(3,4) by auto
  qed
qed

end

end
