(* ===== verification/Mflash_Board.thy ===== *)
theory Mflash_Board
  imports Mflash_Props
begin

text \<open>
  The file system on the board: the address translation of \<open>mflash_drv.c\<close>, and the properties of
  saving and reading files for the board's driver on a NOR device.
\<close>

section \<open>Address translation\<close>

text \<open>
  Translating a flash address to a pointer and back gives the address, whatever the remapping
  window, for any range in the flash; a window that ends beyond the address space when shifted by
  its offset is excluded.
\<close>

theorem address_translation_roundtrip:
  assumes "0 < len" "unat addr + unat len \<le> unat MFLASH_BSIZE" "mflash_drv_phys2log r addr len \<noteq> 0"
    and "MFLASH_BASE_ADDRESS \<le> remap_start r" "unat (remap_end r) + unat (remap_offset r) < 2 ^ 32"
  shows "mflash_drv_log2phys r (mflash_drv_phys2log r addr len) len = addr"
proof -
  let ?b = "addr + MFLASH_BASE_ADDRESS"
  have n: "0 < unat len" using assms(1) by (simp add: word_less_nat_alt)
  have a: "unat addr < 0x04000000" using assms(2) n by simp
  have b: "unat ?b = unat addr + 0x08000000" using a by (simp add: unat_word_ariths)
  have bl: "unat (?b + len) = unat addr + 0x08000000 + unat len" using assms(2) b by (simp add: unat_word_ariths)
  have in_flash: "\<not> addr \<ge> MFLASH_BSIZE" "\<not> ?b < MFLASH_BASE_ADDRESS" "?b - MFLASH_BASE_ADDRESS = addr"
    using a b by (simp_all add: word_le_nat_alt word_less_nat_alt)
  show ?thesis
  proof (cases "remap_offset r = 0 \<or> remap_end r \<le> remap_start r \<or> remap_start r \<ge> ?b + len \<or> remap_end r \<le> ?b")
    case True
    then have "mflash_drv_phys2log r addr len = ?b" using in_flash by (auto simp: mflash_drv_phys2log_def Let_def)
    then show ?thesis using True in_flash by (auto simp: mflash_drv_log2phys_def Let_def)
  next
    case False
    let ?s = "remap_start r" and ?e = "remap_end r" and ?o = "remap_offset r"
    have cov: "?s + ?o \<le> ?b \<and> ?e + ?o \<ge> ?b + len" and p: "mflash_drv_phys2log r addr len = ?b - ?o"
      using False in_flash assms(3) by (auto simp: mflash_drv_phys2log_def Let_def split: if_splits)
    have se: "unat ?s < unat ?e" using False by (simp add: word_le_nat_alt)
    have so: "unat (?s + ?o) = unat ?s + unat ?o" "unat (?e + ?o) = unat ?e + unat ?o"
      using assms(5) se by (simp_all add: unat_word_ariths)
    have c: "unat ?s + unat ?o \<le> unat ?b" "unat ?b + unat len \<le> unat ?e + unat ?o"
      using cov so b bl by (simp_all add: word_le_nat_alt)
    have q: "unat (?b - ?o) = unat ?b - unat ?o" using c(1) by (simp add: unat_sub_if')
    have ql: "unat (?b - ?o + len) = unat ?b - unat ?o + unat len"
      using q c b assms(2) by (simp add: unat_word_ariths)
    have base: "0x08000000 \<le> unat ?s" using assms(4) by (simp add: word_le_nat_alt)
    have "\<not> ?b - ?o < MFLASH_BASE_ADDRESS" using q c base by (simp add: word_less_nat_alt)
    moreover have r: "unat (?b - ?o - MFLASH_BASE_ADDRESS) = unat ?b - unat ?o - 0x08000000"
      using q c base b by (simp add: unat_sub_if')
    moreover have "\<not> ?b - ?o - MFLASH_BASE_ADDRESS \<ge> MFLASH_BSIZE"
      using r a b by (simp add: word_le_nat_alt)
    moreover have "\<not> ?s \<ge> ?b - ?o + len" "\<not> ?e \<le> ?b - ?o" "?s \<le> ?b - ?o" "?e \<ge> ?b - ?o + len"
      using q ql c n by (simp_all add: word_le_nat_alt)
    moreover have "?b - ?o - MFLASH_BASE_ADDRESS + ?o = addr" by simp
    ultimately show ?thesis using False unfolding p mflash_drv_log2phys_def Let_def by simp
  qed
qed

theorem address_translation_roundtrip_witness:
  "mflash_drv_log2phys \<lparr>remap_offset = 0x2000, remap_start = 0x08001000, remap_end = 0x08003000\<rparr>
     (mflash_drv_phys2log \<lparr>remap_offset = 0x2000, remap_start = 0x08001000, remap_end = 0x08003000\<rparr> 0x4000 0x1000) 0x1000 = 0x4000"
  by (rule address_translation_roundtrip) (simp_all add: mflash_drv_phys2log_def)

text \<open>
  An area of the flash that the remapping window does not touch is seen by the bus as it is, and one
  that lies in the window with the offset of the window.
\<close>

lemma area_not_remapped:
  assumes "unat MFLASH_BASE_ADDRESS \<le> unat fs" "unat fs + len \<le> unat MFLASH_BASE_ADDRESS + unat MFLASH_BSIZE"
    and "unat fs mod 4096 = 0"
    and "remap_offset r = 0 \<or> remap_end r \<le> remap_start r \<or> unat fs + len \<le> unat (remap_start r) \<or> remap_end r \<le> fs"
  shows "fs_area (nor_board r) fs (fs - MFLASH_BASE_ADDRESS) len"
proof -
  have u: "unat (fs - MFLASH_BASE_ADDRESS) = unat fs - 0x08000000" using assms(1) by (simp add: unat_sub_if')
  have "mflash_drv_log2phys r (fs + of_nat a) (of_nat n) = fs - MFLASH_BASE_ADDRESS + of_nat a"
    if n: "0 < n" "a + n \<le> len" for a n
  proof -
    have x: "unat (fs + of_nat a) = unat fs + a" "unat (fs + of_nat a + of_nat n) = unat fs + a + n"
      using n assms(2) by (simp_all add: unat_word_ariths unsigned_of_nat take_bit_nat_eq_self)
    have y: "unat (fs + of_nat a - MFLASH_BASE_ADDRESS) = unat fs + a - 0x08000000"
      using x assms(1) by (simp add: unat_sub_if')
    have "\<not> fs + of_nat a < MFLASH_BASE_ADDRESS" "\<not> fs + of_nat a - MFLASH_BASE_ADDRESS \<ge> MFLASH_BSIZE"
      using x y n assms(1,2) by (simp_all add: word_less_nat_alt word_le_nat_alt)
    moreover have "remap_offset r = 0 \<or> remap_end r \<le> remap_start r \<or>
        remap_start r \<ge> fs + of_nat a + of_nat n \<or> remap_end r \<le> fs + of_nat a"
      using assms(4) x n by (auto simp: word_le_nat_alt)
    ultimately show ?thesis by (auto simp: mflash_drv_log2phys_def Let_def)
  qed
  moreover have "(unat fs - 0x08000000) mod 4096 = 0"
    using dvd_diff_nat[of 4096 "unat fs" "0x08000000"] assms(3) by (simp add: dvd_eq_mod_eq_0)
  ultimately show ?thesis
    using u assms(1,2) unfolding fs_area_def by (auto simp: nor_board_def frdmrw612_drv_def)
qed

section \<open>Saving and reading files\<close>

text \<open>
  (C18) A save on a device whose transfers do not fail succeeds, and the file then reads as exactly the
  bytes that were saved.
\<close>

theorem saved_file_is_read_back:
  assumes "mflash_wf (nor_board r) base len m" "mflash_file_of (nor_board r) m path = Some f"
    and "length ds + 8 \<le> unat (alloc_size f)" "nor_busy (mflash_dev m) = 0" "nor_fail (mflash_dev m) = []"
  shows "\<exists>m'. mflash_file_save (nor_board r) True (Some path) (Some ds) (of_nat (length ds)) m = Some (kStatus_Success, m') \<and>
    mflash_read (nor_board r) path m' = Some ds \<and> mflash_wf (nor_board r) base len m'"
  using nor.board.save_correct[OF assms(1-3)[unfolded nor_board_def] assms(4)] assms(5) unfolding nor_board_def by blast

text \<open>
  (C19) Whichever transfers of a save fail, and however much of them had reached the chip, the save
  returns, and afterwards the file reads as before, or as not written, or as the new bytes of which
  those in the first page are blank from some byte on; never as a mixture of the old and the new. When
  the save reports success it is the new bytes.
\<close>

theorem interrupted_save_never_mixes:
  assumes "mflash_wf (nor_board r) base len m" "mflash_file_of (nor_board r) m path = Some f"
    and "length ds + 8 \<le> unat (alloc_size f)" "nor_busy (mflash_dev m) = 0"
  shows "\<exists>st m'. mflash_file_save (nor_board r) True (Some path) (Some ds) (of_nat (length ds)) m = Some (st, m') \<and>
    mflash_read (nor_board r) path m' \<in> {mflash_read (nor_board r) path m, None} \<union> {Some (torn_file k ds) |k. k \<le> 248} \<and>
    (st = kStatus_Success \<longrightarrow> mflash_read (nor_board r) path m' = Some ds)"
  using nor.board.save_correct[OF assms(1-3)[unfolded nor_board_def] assms(4)] unfolding nor_board_def by blast

text \<open>
  (C20) A save, also one that fails, keeps the directory well formed and leaves every other file as it
  was.
\<close>

theorem save_keeps_other_files:
  assumes "mflash_wf (nor_board r) base len m" "mflash_file_of (nor_board r) m path = Some f"
    and "length ds + 8 \<le> unat (alloc_size f)" "nor_busy (mflash_dev m) = 0"
    and "mflash_file_of (nor_board r) m path' \<noteq> Some f"
  shows "\<exists>st m'. mflash_file_save (nor_board r) True (Some path) (Some ds) (of_nat (length ds)) m = Some (st, m') \<and>
    mflash_wf (nor_board r) base len m' \<and> mflash_read (nor_board r) path' m' = mflash_read (nor_board r) path' m"
  using nor.board.save_correct[OF assms(1-3)[unfolded nor_board_def] assms(4)] assms(5) unfolding nor_board_def by blast

section \<open>A file system with two files\<close>

definition no_remap :: flexspi_remap where
  "no_remap = \<lparr>remap_offset = 0, remap_start = 0, remap_end = 0\<rparr>"

definition sample_dir :: "u8 list" where
  "sample_dir = header_bytes 2 12288 @ replicate 40 0xFF @
     put_dir_record 0 4096 4096 [0x61] (replicate 64 0xFF) @ put_dir_record 0 8192 4096 [0x62] (replicate 64 0xFF)"

definition sample_fs :: "nor_outcome list \<Rightarrow> nor_dev mflash" where
  "sample_fs fails = \<lparr>mflash_dev = \<lparr>nor_mem = (\<lambda>x. if x - 0x100000 < 192 then sample_dir ! unat (x - 0x100000) else 0xFF),
     nor_wel = False, nor_busy = 0, nor_delay = 3, nor_fail = fails\<rparr>, g_mflash_fs = 0x08100000\<rparr>"

lemma sample_bus:
  assumes "a < 12288"
  shows "area (nor_board no_remap) 0x08100000 (mflash_dev (sample_fs fails)) a = (if a < 192 then sample_dir ! a else 0xFF)"
proof -
  have "fs_area (nor_board no_remap) 0x08100000 (0x08100000 - MFLASH_BASE_ADDRESS) 12288"
    by (rule area_not_remapped) (simp_all add: no_remap_def)
  then have "area (nor_board no_remap) 0x08100000 (mflash_dev (sample_fs fails)) a =
      nor_mem (mflash_dev (sample_fs fails)) (0x08100000 - MFLASH_BASE_ADDRESS + of_nat a)"
    using nor.board.area_flash[of no_remap "0x08100000"] assms unfolding nor_board_def by blast
  then show ?thesis using assms
    by (simp add: sample_fs_def word_less_nat_alt unsigned_of_nat take_bit_nat_eq_self)
qed

end
