(* ===== verification/Mflash_Sample.thy ===== *)
theory Mflash_Sample
  imports Mflash_Board
begin

text \<open>
  A concrete file system with two files on a NOR device, on which the properties of \<open>Mflash_Board\<close>
  are applied: without failing transfers, and with transfers that are torn during the erasing and the
  programming.
\<close>

definition sample_word :: "nat \<Rightarrow> u32" where
  "sample_word a = u32_of_bytes (sample_dir ! a) (sample_dir ! (a + 1)) (sample_dir ! (a + 2)) (sample_dir ! (a + 3))"

lemma sample_values:
  "sample_word 16 = 2" "sample_word 64 = 4096" "sample_word 68 = 4096" "sample_word 128 = 8192" "sample_word 132 = 4096"
  "map (\<lambda>i. sample_dir ! (72 + i)) [0..<56] = 0x61 # 0 # replicate 54 0xFF"
  "map (\<lambda>i. sample_dir ! (136 + i)) [0..<56] = 0x62 # 0 # replicate 54 0xFF"
  by code_simp+

lemma sample_read32:
  assumes "a + 4 \<le> 192"
  shows "read32 (nor_board no_remap) (mflash_dev (sample_fs fails)) (0x08100000 + of_nat a) = sample_word a"
  unfolding read32_area using assms by (simp add: sample_bus sample_word_def)

lemma sample_count: "dir_count (nor_board no_remap) (sample_fs fails) = 2"
  using sample_read32[of 16 fails] by (simp add: dir_count_def read_fs_header_def sample_values sample_fs_def)

lemma sample_record:
  assumes "a + 64 \<le> 192"
  shows "read_dir_record (nor_board no_remap) (mflash_dev (sample_fs fails)) (0x08100000 + of_nat a) =
    \<lparr>file_offset = sample_word a, alloc_size = sample_word (a + 4), dr_path = map (\<lambda>i. sample_dir ! (a + 8 + i)) [0..<56]\<rparr>"
proof -
  have p: "0x08100000 + of_nat a + 4 = (0x08100000 + of_nat (a + 4) :: u32)"
      "0x08100000 + of_nat a + 8 = (0x08100000 + of_nat (a + 8) :: u32)" by simp_all
  show ?thesis
    unfolding read_dir_record_def p read_bytes_area using assms sample_read32[of a fails] sample_read32[of "a + 4" fails]
    by (simp add: sample_bus)
qed

lemma sample_records:
  "dir_record (nor_board no_remap) (sample_fs fails) 0 = \<lparr>file_offset = 4096, alloc_size = 4096, dr_path = 0x61 # 0 # replicate 54 0xFF\<rparr>"
  "dir_record (nor_board no_remap) (sample_fs fails) (Suc 0) = \<lparr>file_offset = 8192, alloc_size = 4096, dr_path = 0x62 # 0 # replicate 54 0xFF\<rparr>"
proof -
  have g: "g_mflash_fs (sample_fs fails) = 0x08100000" by (simp add: sample_fs_def)
  show "dir_record (nor_board no_remap) (sample_fs fails) 0 = \<lparr>file_offset = 4096, alloc_size = 4096, dr_path = 0x61 # 0 # replicate 54 0xFF\<rparr>"
    using sample_record[of 64 fails] sample_values unfolding dir_record_def g by (simp del: map_eq_conv)
  show "dir_record (nor_board no_remap) (sample_fs fails) (Suc 0) = \<lparr>file_offset = 8192, alloc_size = 4096, dr_path = 0x62 # 0 # replicate 54 0xFF\<rparr>"
    using sample_record[of 128 fails] sample_values unfolding dir_record_def g by (simp del: map_eq_conv)
qed

lemma sample_file_of:
  "mflash_file_of (nor_board no_remap) (sample_fs fails) [0x61] = Some (dir_record (nor_board no_remap) (sample_fs fails) 0)"
  "mflash_file_of (nor_board no_remap) (sample_fs fails) [0x62] = Some (dir_record (nor_board no_remap) (sample_fs fails) (Suc 0))"
proof -
  have n: "unat (h_file_count (read_fs_header (nor_board no_remap) (mflash_dev (sample_fs fails)) (g_mflash_fs (sample_fs fails)))) = Suc (Suc 0)"
    using sample_count by (simp add: dir_count_def)
  have r: "read_dir_record (nor_board no_remap) (mflash_dev (sample_fs fails)) (g_mflash_fs (sample_fs fails) + 64) = dir_record (nor_board no_remap) (sample_fs fails) 0"
    "read_dir_record (nor_board no_remap) (mflash_dev (sample_fs fails)) (g_mflash_fs (sample_fs fails) + 64 + 64) = dir_record (nor_board no_remap) (sample_fs fails) (Suc 0)"
    by (simp_all add: dir_record_def add.assoc)
  show "mflash_file_of (nor_board no_remap) (sample_fs fails) [0x61] = Some (dir_record (nor_board no_remap) (sample_fs fails) 0)"
    "mflash_file_of (nor_board no_remap) (sample_fs fails) [0x62] = Some (dir_record (nor_board no_remap) (sample_fs fails) (Suc 0))"
    unfolding mflash_file_of_def mflash_dir_lookup_def n dir_lookup_loop.simps r by (simp_all add: sample_records)
qed

lemma sample_meta:
  assumes "a + 8 \<le> 12288" "192 \<le> a"
  shows "read_file_meta (nor_board no_remap) (mflash_dev (sample_fs fails)) (g_mflash_fs (sample_fs fails) + of_nat a) =
    \<lparr>meta_file_size = 0xFFFFFFFF, meta_magic_no = 0xFFFFFFFF\<rparr>"
proof -
  have p: "g_mflash_fs (sample_fs fails) = 0x08100000"
      "0x08100000 + of_nat a + 4 = (0x08100000 + of_nat (a + 4) :: u32)" by (simp_all add: sample_fs_def)
  show ?thesis unfolding read_file_meta_def p read32_area using assms by (simp add: sample_bus u32_of_bytes_def)
qed

lemma all2: "(\<forall>i < (2 :: nat). P i) \<longleftrightarrow> P 0 \<and> P (Suc 0)"
  by (auto simp: numeral_2_eq_2 less_Suc_eq)

lemma sample_wf: "mflash_wf (nor_board no_remap) 0x100000 12288 (sample_fs fails)"
proof -
  let ?r = "\<lambda>i. dir_record (nor_board no_remap) (sample_fs fails) i"
  have "fs_area (nor_board no_remap) 0x08100000 (0x08100000 - MFLASH_BASE_ADDRESS) 12288"
    by (rule area_not_remapped) (simp_all add: no_remap_def)
  then have area: "fs_area (nor_board no_remap) (g_mflash_fs (sample_fs fails)) 0x100000 12288" by (simp add: sample_fs_def)
  have "meta_fits (nor_board no_remap) (sample_fs fails) (?r 0)" "meta_fits (nor_board no_remap) (sample_fs fails) (?r (Suc 0))"
    using sample_meta[of 4096 fails] sample_meta[of 8192 fails] by (simp_all add: meta_fits_def sample_records)
  then show ?thesis
    using area by (simp add: mflash_wf_def sample_count sample_records all2 file_begin_def file_end_def Let_def)
qed

lemmas sample_facts = sample_wf sample_file_of(1)[unfolded sample_records]

theorem saved_file_is_read_back_witness:
  "\<exists>m'. mflash_file_save (nor_board no_remap) True (Some [0x61]) (Some [1, 2, 3]) 3 (sample_fs []) = Some (kStatus_Success, m') \<and>
    mflash_read (nor_board no_remap) [0x61] m' = Some [1, 2, 3]"
  using saved_file_is_read_back[OF sample_facts, of "[1, 2, 3]" "[]"] by (auto simp: sample_fs_def)

theorem interrupted_save_never_mixes_witness:
  "\<exists>st m'. mflash_file_save (nor_board no_remap) True (Some [0x61]) (Some [1, 2, 3]) 3 (sample_fs (replicate 8 Done @ [Torn 9])) = Some (st, m') \<and>
    mflash_read (nor_board no_remap) [0x61] m' \<in>
      {mflash_read (nor_board no_remap) [0x61] (sample_fs (replicate 8 Done @ [Torn 9])), None} \<union> {Some (torn_file k [1, 2, 3]) |k. k \<le> 248}"
  using interrupted_save_never_mixes[OF sample_facts, of "[1, 2, 3]" "replicate 8 Done @ [Torn 9]"] by (auto simp: sample_fs_def)

theorem save_keeps_other_files_witness:
  "\<exists>st m'. mflash_file_save (nor_board no_remap) True (Some [0x61]) (Some [1, 2, 3]) 3 (sample_fs [Done, Torn 0]) = Some (st, m') \<and>
    mflash_read (nor_board no_remap) [0x62] m' = mflash_read (nor_board no_remap) [0x62] (sample_fs [Done, Torn 0])"
proof -
  have "mflash_file_of (nor_board no_remap) (sample_fs [Done, Torn 0]) [0x62] \<noteq>
      Some \<lparr>file_offset = 4096, alloc_size = 4096, dr_path = 0x61 # 0 # replicate 54 0xFF\<rparr>"
    by (simp add: sample_file_of(2) sample_records)
  then show ?thesis
    using save_keeps_other_files[OF sample_facts, of "[1, 2, 3]" "[Done, Torn 0]" "[0x62]"] by (auto simp: sample_fs_def)
qed

end
