(* ===== verification/Mflash_Torn.thy ===== *)
theory Mflash_Torn
  imports Mflash_Sample
begin

text \<open>
  The exception that \<open>interrupted_save_never_mixes\<close> leaves is met: how a save of a few bytes to a file
  of one sector ends when its last transfer, the ninth, is torn.
\<close>

definition sample_dev :: "(u32 \<Rightarrow> u8) \<Rightarrow> bool \<Rightarrow> nat \<Rightarrow> nor_outcome list \<Rightarrow> nor_dev" where
  "sample_dev c w b fails = \<lparr>nor_mem = c, nor_wel = w, nor_busy = b, nor_delay = 3, nor_fail = fails\<rparr>"

lemma sample_transfers:
  "TransferBlocking nor_flexspi read_status_xfer (sample_dev c w b (Done # rest)) =
     (kStatus_Success, [if 0 < b then 1 else 0], sample_dev c w (b - 1) rest)"
  "TransferBlocking nor_flexspi (write_enable_xfer a) (sample_dev c w 0 (Done # rest)) = (kStatus_Success, [], sample_dev c True 0 rest)"
  "TransferBlocking nor_flexspi (erase_xfer a) (sample_dev c True 0 (Done # rest)) =
     (kStatus_Success, [], sample_dev (nor_erase a c) False 3 rest)"
  "TransferBlocking nor_flexspi (program_xfer a ds) (sample_dev c True 0 (Torn k # rest)) =
     (kStatus_Fail, [], sample_dev (nor_program a (take k ds) c) False 3 rest)"
  "SoftwareReset nor_flexspi d = d"
  by (simp_all add: nor_device sample_dev_def read_status_xfer_def write_enable_xfer_def erase_xfer_def program_xfer_def)

lemma sample_wait:
  "flexspi_nor_wait_bus_busy nor_flexspi (sample_dev c w b (Done # rest)) =
     (if 0 < b then flexspi_nor_wait_bus_busy nor_flexspi (sample_dev c w (b - 1) rest)
      else Some (kStatus_Success, sample_dev c w 0 rest))"
  by (subst flexspi_nor_wait_bus_busy.simps) (simp add: sample_transfers)

lemma sample_erase:
  "mflash_drv_sector_erase nor_flexspi 0x101000 (sample_dev c w 0 (Done # Done # Done # Done # Done # Done # rest)) =
    Some (kStatus_Success, sample_dev (nor_erase 0x101000 c) False 0 rest)"
  by (simp add: mflash_drv_sector_erase_def mflash_drv_is_sector_aligned_def flexspi_nor_flash_sector_erase_def sample_transfers sample_wait)

lemma sample_torn_page:
  "mflash_drv_page_program nor_flexspi 0x101000 ds (sample_dev c w 0 [Done, Done, Torn k]) =
    Some (kStatus_Fail, sample_dev (nor_program 0x101000 (take k ds) c) False 3 [])"
  by (simp add: mflash_drv_page_program_def mflash_drv_is_page_aligned_def flexspi_nor_flash_page_program_def flexspi_nor_write_enable_def
      sample_transfers sample_wait)

lemma sample_area: "fs_area (nor_board no_remap) 0x08100000 0x100000 12288"
  using area_not_remapped[of "0x08100000" 12288 no_remap] by (simp add: no_remap_def)

lemma sample_log2phys: "mflash_drv_log2phys no_remap 0x08101000 n = 0x101000" "mflash_drv_log2phys no_remap 0x08101000 n \<noteq> MFLASH_INVALID_ADDRESS"
  by (simp_all add: mflash_drv_log2phys_def no_remap_def)

text \<open>The save leaves this device.\<close>

definition torn_dev :: "nat \<Rightarrow> u8 list \<Rightarrow> nor_dev" where
  "torn_dev k ds = sample_dev (nor_program 0x101000 (take k (first_page ds (of_nat (length ds))))
     (nor_erase 0x101000 (nor_mem (mflash_dev (sample_fs []))))) False 3 []"

lemma torn_save:
  assumes "length ds \<le> 248"
  shows "mflash_file_save (nor_board no_remap) True (Some [0x61]) (Some ds) (of_nat (length ds)) (sample_fs (replicate 8 Done @ [Torn k])) =
    Some (kStatus_Fail, (sample_fs [])\<lparr>mflash_dev := torn_dev k ds\<rparr>)"
proof -
  let ?fs = "0x08100000 :: u32" and ?r = "\<lparr>file_offset = 4096, alloc_size = 4096, dr_path = 0x61 # 0 # replicate 54 0xFF\<rparr>"
  let ?d = "sample_dev (nor_mem (mflash_dev (sample_fs []))) False 0 (replicate 8 Done @ [Torn k])"
  let ?e = "sample_dev (nor_erase 0x101000 (nor_mem (mflash_dev (sample_fs [])))) False 0 [Done, Done, Torn k]"
  have dev: "mflash_dev (sample_fs (replicate 8 Done @ [Torn k])) = ?d" by (simp add: sample_fs_def sample_dev_def)
  have u: "unat (of_nat (length ds) :: u32) = length ds" using assms by (intro unat_of_nat_small) simp
  then have g: "\<not> of_nat (length ds) + 8 > (4096 :: u32)" "\<not> (248 :: u32) < of_nat (length ds)"
    using assms by (simp_all add: word_less_nat_alt unat_word_ariths)
  have lk: "mflash_dir_lookup (nor_board no_remap) ?d ?fs [0x61] = Some ?r"
    using sample_file_of(1)[of "replicate 8 Done @ [Torn k]"] sample_records(1)[of "replicate 8 Done @ [Torn k]"]
    by (simp add: mflash_file_of_def dev) (simp add: sample_fs_def)
  have se: "mflash_fs_sector_erase (nor_board no_remap) ?fs 4096 ?d = Some (kStatus_Success, ?e)"
    using sample_log2phys sample_erase by (simp add: mflash_fs_sector_erase_def nor_board_def frdmrw612_drv_def numeral_eq_Suc)
  have el: "save_erase_loop (nor_board no_remap) ?fs ?r 0 ?d = Some (kStatus_Success, ?e)"
    by (subst save_erase_loop.simps, simp add: se, subst save_erase_loop.simps, simp)
  have dl: "save_data_loop (nor_board no_remap) ?fs ?r ds (of_nat (length ds)) 248 ?e = Some (kStatus_Success, ?e)"
    using g(2) by (subst save_data_loop.simps) simp
  have pp: "mflash_fs_page_program (nor_board no_remap) ?fs 4096 p ?e =
      Some (kStatus_Fail, sample_dev (nor_program 0x101000 (take k p) (nor_erase 0x101000 (nor_mem (mflash_dev (sample_fs []))))) False 3 [])" for p
    using sample_log2phys sample_torn_page by (simp add: mflash_fs_page_program_def nor_board_def frdmrw612_drv_def)
  have "mflash_file_save_internal (nor_board no_remap) ?fs ?r ds (of_nat (length ds)) ?d = Some (kStatus_Fail, torn_dev k ds)"
    using g(1) by (simp add: mflash_file_save_internal_def el dl pp torn_dev_def)
  moreover have "g_mflash_fs (sample_fs f) = ?fs" "(sample_fs f)\<lparr>mflash_dev := x\<rparr> = (sample_fs [])\<lparr>mflash_dev := x\<rparr>" for f x
    by (simp_all add: sample_fs_def)
  ultimately show ?thesis using lk unfolding mflash_file_save_def by (simp add: dev)
qed

lemma torn_read:
  assumes "length ds \<le> 248" "8 \<le> k" "k \<le> 256"
  shows "mflash_read (nor_board no_remap) [0x61] ((sample_fs [])\<lparr>mflash_dev := torn_dev k ds\<rparr>) = Some (torn_file (k - 8) ds)"
proof -
  let ?m = "sample_fs []" and ?m' = "(sample_fs [])\<lparr>mflash_dev := torn_dev k ds\<rparr>" and ?b = "nor_board no_remap"
  let ?fs = "0x08100000 :: u32" and ?r = "\<lparr>file_offset = 4096, alloc_size = 4096, dr_path = 0x61 # 0 # replicate 54 0xFF\<rparr>"
  let ?e = "sample_dev (nor_erase 0x101000 (nor_mem (mflash_dev ?m))) False 0 []" and ?p = "first_page ds (of_nat (length ds))"
  have g: "g_mflash_fs ?m = ?fs" "g_mflash_fs ?m' = ?fs" by (simp_all add: sample_fs_def)
  note ar = sample_area[unfolded nor_board_def]
  have l: "length ds < 2 ^ 31" using assms(1) by simp
  have bl: "blanked 12288 4096 8192 (area ?b ?fs (mflash_dev ?m)) (area ?b ?fs ?e)"
    using nor.board.erase_area[OF ar, of 4096 ?e "mflash_dev ?m"] by (simp add: sample_dev_def nor_board_def)
  have wr: "written 12288 4096 (take k ?p) (area ?b ?fs ?e) (area ?b ?fs (torn_dev k ds))"
    using nor.board.program_area[OF ar, of 4096 "take k ?p" "torn_dev k ds" ?e] assms(3) first_page_nth(1)[OF l]
    by (simp add: torn_dev_def sample_dev_def nor_board_def)
  have none: "\<forall>j. 248 \<le> j \<and> j < length ds \<longrightarrow> area ?b ?fs ?e (4096 + 8 + j) = ds ! j" using assms(1) by auto
  have "holds_file (area ?b ?fs (torn_dev k ds)) 4096 (torn_file (k - 8) ds)"
    using first_page_torn[OF wr assms(3) _ _ l _ none] bl assms(1,2) by (simp add: blanked_def)
  moreover have "area ?b ?fs (torn_dev k ds) i = area ?b ?fs (mflash_dev ?m) i" if "i < 192" for i
    using bl wr that by (simp add: blanked_def written_def)
  then have "mflash_file_of ?b ?m' [0x61] = mflash_file_of ?b ?m [0x61]"
    using sample_count g(1) by (intro same_directory(3)) (simp_all add: sample_fs_def)
  ultimately show ?thesis
    using holds_file_read(1)[of ?b ?m' ?r "torn_file (k - 8) ds" "[0x61]"] sample_file_of(1)[of "[]"] sample_records(1)[of "[]"] assms g(2)
    by simp
qed

text \<open>
  A save of which the last transfer is torn reports a failure, but the file is there, with blank bytes
  that were never saved: the metadata that marks it as valid comes before the data of its page.
\<close>

theorem torn_first_page_is_taken_for_a_file:
  "\<exists>m'. mflash_file_save (nor_board no_remap) True (Some [0x61]) (Some [1, 2, 3]) 3 (sample_fs (replicate 8 Done @ [Torn 9])) =
      Some (kStatus_Fail, m') \<and> mflash_read (nor_board no_remap) [0x61] m' = Some [1, 0xFF, 0xFF]"
  using torn_save[of "[1, 2, 3]" 9] torn_read[of "[1, 2, 3]" 9] by (simp add: torn_file_def numeral_eq_Suc)

end
