(* ===== verification/Generic_List.thy ===== *)
theory Generic_List
  imports EVSE_Prelude "HOL-Library.Monad_Syntax"
begin

text \<open>
  The linked list \<open>component/lists/fsl_component_generic_list.c\<close> in the light variant the build
  selects (no \<open>prev\<close> pointer, no check for duplicates). Elements and lists are addresses in a store;
  \<open>None\<close> as a pointer is a null pointer, and \<open>None\<close> as the result of an operation is a null pointer
  that is dereferenced or a loop that does not end. The critical sections are left out: each operation
  is one step.
\<close>

section \<open>The store\<close>

datatype list_status_t =
    kLIST_Ok | kLIST_DuplicateError | kLIST_Full | kLIST_Empty | kLIST_OrphanElement | kLIST_NotSupport

record list_label_t =
  l_head :: "nat option"
  l_tail :: "nat option"
  l_size :: u32
  l_max :: u32

text \<open>The fields \<open>next\<close> and \<open>list\<close> of every element, and the list structures.\<close>

record list_store =
  e_next :: "nat \<Rightarrow> nat option"
  e_list :: "nat \<Rightarrow> nat option"
  label :: "nat \<Rightarrow> list_label_t"

definition set_next :: "nat \<Rightarrow> nat option \<Rightarrow> list_store \<Rightarrow> list_store" where
  "set_next e p h = h\<lparr>e_next := (e_next h)(e := p)\<rparr>"

definition set_list :: "nat \<Rightarrow> nat option \<Rightarrow> list_store \<Rightarrow> list_store" where
  "set_list e p h = h\<lparr>e_list := (e_list h)(e := p)\<rparr>"

definition set_head :: "nat \<Rightarrow> nat option \<Rightarrow> list_store \<Rightarrow> list_store" where
  "set_head l p h = h\<lparr>label := (label h)(l := (label h l)\<lparr>l_head := p\<rparr>)\<rparr>"

definition set_tail :: "nat \<Rightarrow> nat option \<Rightarrow> list_store \<Rightarrow> list_store" where
  "set_tail l p h = h\<lparr>label := (label h)(l := (label h l)\<lparr>l_tail := p\<rparr>)\<rparr>"

definition set_size :: "nat \<Rightarrow> u32 \<Rightarrow> list_store \<Rightarrow> list_store" where
  "set_size l n h = h\<lparr>label := (label h)(l := (label h l)\<lparr>l_size := n\<rparr>)\<rparr>"

lemmas list_store_defs = set_next_def set_list_def set_head_def set_tail_def set_size_def

section \<open>Operations\<close>

definition LIST_Error_Check :: "nat \<Rightarrow> list_store \<Rightarrow> list_status_t" where
  "LIST_Error_Check l h =
     (if l_max (label h l) \<noteq> 0 \<and> l_max (label h l) = l_size (label h l) then kLIST_Full else kLIST_Ok)"

definition LIST_Init :: "nat \<Rightarrow> u32 \<Rightarrow> list_store \<Rightarrow> list_store" where
  "LIST_Init l m h = h\<lparr>label := (label h)(l := \<lparr>l_head = None, l_tail = None, l_size = 0, l_max = m\<rparr>)\<rparr>"

definition LIST_GetList :: "nat \<Rightarrow> list_store \<Rightarrow> nat option" where
  "LIST_GetList e h = e_list h e"

definition LIST_AddTail :: "nat \<Rightarrow> nat \<Rightarrow> list_store \<Rightarrow> (list_status_t \<times> list_store) option" where
  "LIST_AddTail l e h =
     (let listStatus = LIST_Error_Check l h in
      if listStatus = kLIST_Ok
      then do {
        h \<leftarrow> (if l_size (label h l) = 0 then Some (set_head l (Some e) h)
              else do { t \<leftarrow> l_tail (label h l); Some (set_next t (Some e) h) });
        let h = set_tail l (Some e) (set_next e None (set_list e (Some l) h));
        Some (listStatus, set_size l (l_size (label h l) + 1) h)
      }
      else Some (listStatus, h))"

definition LIST_AddHead :: "nat \<Rightarrow> nat \<Rightarrow> list_store \<Rightarrow> list_status_t \<times> list_store" where
  "LIST_AddHead l e h =
     (let listStatus = LIST_Error_Check l h in
      if listStatus = kLIST_Ok
      then let h = (if l_size (label h l) = 0 then set_tail l (Some e) h else h);
               h = set_list e (Some l) h;
               h = set_next e (l_head (label h l)) h;
               h = set_head l (Some e) h
           in (listStatus, set_size l (l_size (label h l) + 1) h)
      else (listStatus, h))"

definition LIST_RemoveHead :: "nat option \<Rightarrow> list_store \<Rightarrow> (nat option \<times> list_store) option" where
  "LIST_RemoveHead list h =
     (case list of
        None \<Rightarrow> Some (None, h)
      | Some l \<Rightarrow>
          if l_size (label h l) = 0 then Some (None, h)
          else do {
            e \<leftarrow> l_head (label h l);
            let h = set_size l (l_size (label h l) - 1) h;
            let h = (if l_size (label h l) = 0 then set_tail l None h else h);
            let h = set_list e None h;
            Some (Some e, set_head l (e_next h e) h)
          })"

definition LIST_GetHead :: "nat \<Rightarrow> list_store \<Rightarrow> nat option" where
  "LIST_GetHead l h = l_head (label h l)"

definition LIST_GetNext :: "nat \<Rightarrow> list_store \<Rightarrow> nat option" where
  "LIST_GetNext e h = e_next h e"

definition LIST_GetPrev :: "nat \<Rightarrow> list_store \<Rightarrow> nat option" where
  "LIST_GetPrev e h = None"

text \<open>The search for the predecessor; the result carries \<open>element_Prev\<close>.\<close>

partial_function (option) remove_loop :: "nat \<Rightarrow> nat \<Rightarrow> nat option \<Rightarrow> list_store \<Rightarrow> (nat option \<times> list_store) option" where
  "remove_loop l e element_list h =
     (case element_list of
        None \<Rightarrow> Some (None, h)
      | Some x \<Rightarrow>
          if l_head (label h l) = Some e then Some (None, set_head l (e_next h x) h)
          else if e_next h x = Some e then Some (Some x, set_next x (e_next h e) h)
          else remove_loop l e (e_next h x) h)"

definition LIST_RemoveElement :: "nat \<Rightarrow> list_store \<Rightarrow> (list_status_t \<times> list_store) option" where
  "LIST_RemoveElement e h =
     (case e_list h e of
        None \<Rightarrow> Some (kLIST_OrphanElement, h)
      | Some l \<Rightarrow> do {
          (element_Prev, h) \<leftarrow> remove_loop l e (l_head (label h l)) h;
          let h = (if e_next h e = None then set_tail l element_Prev h else h);
          let h = set_size l (l_size (label h l) - 1) h;
          Some (kLIST_Ok, set_list e None h)
        })"

partial_function (option) add_prev_loop :: "nat \<Rightarrow> nat \<Rightarrow> nat \<Rightarrow> nat option \<Rightarrow> list_store \<Rightarrow> list_store option" where
  "add_prev_loop l e new element_list h =
     (case element_list of
        None \<Rightarrow> Some h
      | Some x \<Rightarrow>
          if e_next h x = Some e \<or> x = e
          then let h = (if x = e then set_head l (Some new) h else set_next x (Some new) h);
                   h = set_next new (Some e) (set_list new (Some l) h)
               in Some (set_size l (l_size (label h l) + 1) h)
          else add_prev_loop l e new (e_next h x) h)"

definition LIST_AddPrevElement :: "nat \<Rightarrow> nat \<Rightarrow> list_store \<Rightarrow> (list_status_t \<times> list_store) option" where
  "LIST_AddPrevElement e new h =
     (case e_list h e of
        None \<Rightarrow> Some (kLIST_OrphanElement, h)
      | Some l \<Rightarrow>
          let listStatus = LIST_Error_Check l h in
          if listStatus = kLIST_Ok
          then do { h \<leftarrow> add_prev_loop l e new (l_head (label h l)) h; Some (listStatus, h) }
          else Some (listStatus, h))"

definition LIST_GetSize :: "nat \<Rightarrow> list_store \<Rightarrow> u32" where
  "LIST_GetSize l h = l_size (label h l)"

definition LIST_GetAvailableSize :: "nat \<Rightarrow> list_store \<Rightarrow> u32" where
  "LIST_GetAvailableSize l h = l_max (label h l) - l_size (label h l)"

section \<open>What the store represents\<close>

fun chain :: "(nat \<Rightarrow> nat option) \<Rightarrow> nat option \<Rightarrow> nat list \<Rightarrow> bool" where
  "chain n p [] \<longleftrightarrow> p = None"
| "chain n p (x # xs) \<longleftrightarrow> p = Some x \<and> chain n (n x) xs"

definition represents :: "list_store \<Rightarrow> nat \<Rightarrow> nat list \<Rightarrow> bool" where
  "represents h l xs \<longleftrightarrow>
     chain (e_next h) (l_head (label h l)) xs \<and> l_tail (label h l) = (if xs = [] then None else Some (last xs)) \<and>
     l_size (label h l) = of_nat (length xs) \<and> length xs < 2 ^ 32 \<and> distinct xs \<and>
     (\<forall>e. e_list h e = Some l \<longleftrightarrow> e \<in> set xs)"

lemma chain_upd [simp]: "e \<notin> set xs \<Longrightarrow> chain (n(e := q)) p xs = chain n p xs"
  by (induction xs arbitrary: p) auto


lemma chain_cong: "chain n p xs \<Longrightarrow> (\<And>x. x \<in> set xs \<Longrightarrow> n' x = n x) \<Longrightarrow> chain n' p xs"
  by (induction xs arbitrary: p) auto

lemma chain_snoc:
  "chain n p xs \<Longrightarrow> xs \<noteq> [] \<Longrightarrow> distinct xs \<Longrightarrow> e \<notin> set xs \<Longrightarrow> chain (n(last xs := Some e, e := None)) p (xs @ [e])"
proof (induction xs arbitrary: p)
  case (Cons x xs)
  show ?case
  proof (cases "xs = []")
    case True
    then show ?thesis using Cons.prems by auto
  next
    case False
    then have "x \<noteq> last xs" using Cons.prems(3) by auto
    then show ?thesis using Cons False by auto
  qed
qed simp

lemma chain_remove:
  "chain n p (as @ e # bs) \<Longrightarrow> as \<noteq> [] \<Longrightarrow> distinct (as @ e # bs) \<Longrightarrow> chain (n(last as := n e)) p (as @ bs)"
proof (induction as arbitrary: p)
  case (Cons a as)
  show ?case
  proof (cases "as = []")
    case True
    then show ?thesis using Cons.prems by (auto elim!: chain_cong)
  next
    case False
    then have "a \<noteq> last as" using Cons.prems(3) by auto
    then show ?thesis using Cons False by auto
  qed
qed simp

lemma chain_insert:
  "chain n p (as @ e # bs) \<Longrightarrow> as \<noteq> [] \<Longrightarrow> distinct (as @ e # bs) \<Longrightarrow> new \<notin> set (as @ e # bs) \<Longrightarrow>
   chain (n(last as := Some new, new := Some e)) p (as @ new # e # bs)"
proof (induction as arbitrary: p)
  case (Cons a as)
  show ?case
  proof (cases "as = []")
    case True
    then show ?thesis using Cons.prems by (auto elim!: chain_cong)
  next
    case False
    then have "a \<noteq> last as" using Cons.prems(3) by auto
    then show ?thesis using Cons False by auto
  qed
qed simp

lemma chain_next: "chain n p (as @ e # bs) \<Longrightarrow> chain n (n e) bs"
  by (induction as arbitrary: p) auto

lemma chain_None: "chain n None xs \<longleftrightarrow> xs = []"
  by (cases xs) auto

lemma chain_head: "chain n p (x # xs) \<Longrightarrow> p = Some x"
  by simp

lemma remove_loop_finds:
  "chain (e_next h) p (ys @ e # bs) \<Longrightarrow> ys \<noteq> [] \<Longrightarrow> e \<notin> set ys \<Longrightarrow> l_head (label h l) \<noteq> Some e \<Longrightarrow>
   remove_loop l e p h = Some (Some (last ys), set_next (last ys) (e_next h e) h)"
proof (induction ys arbitrary: p)
  case (Cons y ys)
  then have p: "p = Some y" "chain (e_next h) (e_next h y) (ys @ e # bs)" by auto
  show ?case
  proof (cases ys)
    case Nil
    then show ?thesis using Cons.prems p by (subst remove_loop.simps) simp
  next
    case (Cons z zs)
    then have "e_next h y \<noteq> Some e" using p(2) Cons.prems(3) by auto
    then have "remove_loop l e p h = remove_loop l e (e_next h y) h"
      using p Cons.prems(4) by (subst remove_loop.simps) simp
    then show ?thesis using Cons.IH[OF p(2)] Cons.prems(3,4) Cons by simp
  qed
qed simp

lemma add_prev_loop_finds:
  "chain (e_next h) p (ys @ e # bs) \<Longrightarrow> ys \<noteq> [] \<Longrightarrow> e \<notin> set ys \<Longrightarrow>
   add_prev_loop l e new p h =
     (let h = set_next new (Some e) (set_list new (Some l) (set_next (last ys) (Some new) h))
      in Some (set_size l (l_size (label h l) + 1) h))"
proof (induction ys arbitrary: p)
  case (Cons y ys)
  then have p: "p = Some y" "chain (e_next h) (e_next h y) (ys @ e # bs)" by auto
  show ?case
  proof (cases ys)
    case Nil
    then show ?thesis using Cons.prems p by (subst add_prev_loop.simps) simp
  next
    case (Cons z zs)
    then have "e_next h y \<noteq> Some e" "y \<noteq> e" using p(2) Cons.prems(3) by auto
    then have "add_prev_loop l e new p h = add_prev_loop l e new (e_next h y) h"
      using p by (subst add_prev_loop.simps) simp
    then show ?thesis using Cons.IH[OF p(2)] Cons.prems(3) Cons by simp
  qed
qed simp

section \<open>Refinement of lists\<close>

datatype list_op = Add_tail nat | Add_head nat | Remove_head | Remove_element nat | Add_prev nat nat

fun run_op :: "nat \<Rightarrow> list_op \<Rightarrow> list_store \<Rightarrow> ((list_status_t \<times> nat option) \<times> list_store) option" where
  "run_op l (Add_tail e) h = map_option (\<lambda>(st, h). ((st, None), h)) (LIST_AddTail l e h)"
| "run_op l (Add_head e) h = (case LIST_AddHead l e h of (st, h) \<Rightarrow> Some ((st, None), h))"
| "run_op l Remove_head h = map_option (\<lambda>(e, h). ((kLIST_Ok, e), h)) (LIST_RemoveHead (Some l) h)"
| "run_op l (Remove_element e) h = map_option (\<lambda>(st, h). ((st, None), h)) (LIST_RemoveElement e h)"
| "run_op l (Add_prev e new) h = map_option (\<lambda>(st, h). ((st, None), h)) (LIST_AddPrevElement e new h)"

definition list_full :: "u32 \<Rightarrow> nat list \<Rightarrow> bool" where
  "list_full m xs \<longleftrightarrow> m \<noteq> 0 \<and> unat m = length xs"

text \<open>The operations on the list that is represented; \<open>m\<close> is the maximal length, 0 for none.\<close>

fun list_step :: "u32 \<Rightarrow> list_op \<Rightarrow> nat list \<Rightarrow> (list_status_t \<times> nat option) \<times> nat list" where
  "list_step m (Add_tail e) xs = (if list_full m xs then ((kLIST_Full, None), xs) else ((kLIST_Ok, None), xs @ [e]))"
| "list_step m (Add_head e) xs = (if list_full m xs then ((kLIST_Full, None), xs) else ((kLIST_Ok, None), e # xs))"
| "list_step m Remove_head xs = (case xs of [] \<Rightarrow> ((kLIST_Ok, None), []) | x # xs \<Rightarrow> ((kLIST_Ok, Some x), xs))"
| "list_step m (Remove_element e) xs =
     (if e \<in> set xs then ((kLIST_Ok, None), remove1 e xs) else ((kLIST_OrphanElement, None), xs))"
| "list_step m (Add_prev e new) xs =
     (if e \<notin> set xs then ((kLIST_OrphanElement, None), xs)
      else if list_full m xs then ((kLIST_Full, None), xs)
      else ((kLIST_Ok, None), takeWhile (\<lambda>x. x \<noteq> e) xs @ new # dropWhile (\<lambda>x. x \<noteq> e) xs))"

text \<open>Elements that are added are in no list, and elements that are named are in this list or in none.\<close>

fun op_allowed :: "list_store \<Rightarrow> nat \<Rightarrow> list_op \<Rightarrow> bool" where
  "op_allowed h l (Add_tail e) \<longleftrightarrow> e_list h e = None"
| "op_allowed h l (Add_head e) \<longleftrightarrow> e_list h e = None"
| "op_allowed h l Remove_head \<longleftrightarrow> True"
| "op_allowed h l (Remove_element e) \<longleftrightarrow> e_list h e \<in> {None, Some l}"
| "op_allowed h l (Add_prev e new) \<longleftrightarrow> e_list h e \<in> {None, Some l} \<and> e_list h new = None"

lemma size_zero: "length xs < 2 ^ 32 \<Longrightarrow> (of_nat (length xs) :: u32) = 0 \<longleftrightarrow> xs = []"
  by (simp add: word_unat_eq_iff unsigned_of_nat take_bit_nat_eq_self)

lemma check_full:
  assumes "represents h l xs"
  shows "LIST_Error_Check l h = (if list_full (l_max (label h l)) xs then kLIST_Full else kLIST_Ok)"
  using assms by (auto simp: LIST_Error_Check_def list_full_def represents_def word_unat_eq_iff
      unsigned_of_nat take_bit_nat_eq_self)

lemma other_list:
  assumes "represents h l' ys" "l' \<noteq> l" "label h' l' = label h l'"
    and "\<And>e. e_list h e = Some l' \<Longrightarrow> e_next h' e = e_next h e" "\<And>e. e_list h' e = Some l' \<longleftrightarrow> e_list h e = Some l'"
  shows "represents h' l' ys"
proof -
  have "chain (e_next h') p ys = chain (e_next h) p ys" for p
    using assms(1,4) unfolding represents_def
  proof -
    have "\<forall>e \<in> set ys. e_next h' e = e_next h e" using assms(1,4) by (auto simp: represents_def)
    then show ?thesis by (induction ys arbitrary: p) auto
  qed
  then show ?thesis using assms by (simp add: represents_def)
qed

definition simulated :: "list_store \<Rightarrow> nat \<Rightarrow> list_op \<Rightarrow> nat list \<Rightarrow> bool" where
  "simulated h l op xs \<longleftrightarrow>
     (\<exists>h'. run_op l op h = Some (fst (list_step (l_max (label h l)) op xs), h') \<and>
        represents h' l (snd (list_step (l_max (label h l)) op xs)) \<and> l_max (label h' l) = l_max (label h l) \<and>
        (\<forall>l' ys. l' \<noteq> l \<longrightarrow> represents h l' ys \<longrightarrow> represents h' l' ys))"

lemma simulatedI:
  assumes "run_op l op h = Some (fst (list_step (l_max (label h l)) op xs), h')"
    and "represents h' l (snd (list_step (l_max (label h l)) op xs))" "l_max (label h' l) = l_max (label h l)"
    and "\<And>l'. l' \<noteq> l \<Longrightarrow> label h' l' = label h l'"
    and "\<And>l' e. l' \<noteq> l \<Longrightarrow> e_list h e = Some l' \<Longrightarrow> e_next h' e = e_next h e"
    and "\<And>l' e. l' \<noteq> l \<Longrightarrow> e_list h' e = Some l' \<longleftrightarrow> e_list h e = Some l'"
  shows "simulated h l op xs"
  unfolding simulated_def
proof (intro exI conjI allI impI)
  fix l' ys assume "l' \<noteq> l" "represents h l' ys"
  then show "represents h' l' ys" using assms(4,5,6)[of l'] by (intro other_list[of h l' ys l h']) auto
qed (use assms in auto)

lemma unchanged:
  assumes "represents h l xs" "run_op l op h = Some (fst (list_step (l_max (label h l)) op xs), h)"
    "snd (list_step (l_max (label h l)) op xs) = xs"
  shows "simulated h l op xs"
  using assms by (intro simulatedI[where h' = h]) auto

lemma in_list: "represents h l xs \<Longrightarrow> e_list h e = Some l \<longleftrightarrow> e \<in> set xs"
  by (simp add: represents_def)

lemma add_tail_simulated:
  assumes R: "represents h l xs" and fresh: "e_list h e = None" and n: "length xs + 1 < 2 ^ 32"
  shows "simulated h l (Add_tail e) xs"
proof (cases "list_full (l_max (label h l)) xs")
  case True
  then show ?thesis using R by (intro unchanged) (auto simp: LIST_AddTail_def check_full)
next
  case False
  have e: "e \<notin> set xs" using R fresh in_list[OF R, of e] by auto
  have c: "LIST_Error_Check l h = kLIST_Ok" using R False by (simp add: check_full)
  let ?h0 = "if xs = [] then set_head l (Some e) h else set_next (last xs) (Some e) h"
  let ?h1 = "set_tail l (Some e) (set_next e None (set_list e (Some l) ?h0))"
  let ?h' = "set_size l (l_size (label ?h1 l) + 1) ?h1"
  have run: "LIST_AddTail l e h = Some (kLIST_Ok, ?h')"
    using R c size_zero[of xs] by (auto simp: LIST_AddTail_def Let_def represents_def)
  show ?thesis
  proof (rule simulatedI[where h' = ?h'])
    show "run_op l (Add_tail e) h = Some (fst (list_step (l_max (label h l)) (Add_tail e) xs), ?h')"
      using run False by simp
    show "represents ?h' l (snd (list_step (l_max (label h l)) (Add_tail e) xs))"
    proof (cases "xs = []")
      case True
      then show ?thesis using R False by (auto simp: represents_def list_store_defs)
    next
      case ne: False
      have "chain ((e_next h)(last xs := Some e, e := None)) (l_head (label h l)) (xs @ [e])"
        using R e ne by (intro chain_snoc) (auto simp: represents_def)
      then show ?thesis using R False ne e n by (auto simp: represents_def list_store_defs)
    qed
    show "e_next ?h' x = e_next h x" if "l' \<noteq> l" "e_list h x = Some l'" for l' x
    proof -
      have "x \<noteq> e" "xs \<noteq> [] \<longrightarrow> x \<noteq> last xs" using that fresh in_list[OF R, of x] by auto
      then show ?thesis by (auto simp: list_store_defs)
    qed
  qed (use fresh in \<open>auto simp: list_store_defs\<close>)
qed

lemma add_head_simulated:
  assumes R: "represents h l xs" and fresh: "e_list h e = None" and n: "length xs + 1 < 2 ^ 32"
  shows "simulated h l (Add_head e) xs"
proof (cases "list_full (l_max (label h l)) xs")
  case True
  then show ?thesis using R by (intro unchanged) (auto simp: LIST_AddHead_def check_full)
next
  case False
  have e: "e \<notin> set xs" using R fresh in_list[OF R, of e] by auto
  have c: "LIST_Error_Check l h = kLIST_Ok" using R False by (simp add: check_full)
  let ?h' = "snd (LIST_AddHead l e h)"
  have z: "l_size (label h l) = 0 \<longleftrightarrow> xs = []" using R size_zero[of xs] by (auto simp: represents_def)
  have run: "fst (LIST_AddHead l e h) = kLIST_Ok" using c by (simp add: LIST_AddHead_def Let_def)
  have nx: "e_next ?h' = (e_next h)(e := l_head (label h l))" and ls: "e_list ?h' = (e_list h)(e := Some l)"
    and lb: "label ?h' = (label h)(l := \<lparr>l_head = Some e, l_tail = (if xs = [] then Some e else l_tail (label h l)),
        l_size = l_size (label h l) + 1, l_max = l_max (label h l)\<rparr>)"
    using c z by (auto simp: LIST_AddHead_def Let_def list_store_defs)
  have R': "represents ?h' l (e # xs)"
    using R e n unfolding represents_def nx ls lb by auto
  show ?thesis
    by (rule simulatedI[where h' = ?h'])
      (use run R' False fresh nx ls lb in \<open>auto split: prod.split\<close>)
qed

lemma remove_head_simulated:
  assumes R: "represents h l xs"
  shows "simulated h l Remove_head xs"
proof (cases xs)
  case Nil
  then have "LIST_RemoveHead (Some l) h = Some (None, h)" using R by (simp add: LIST_RemoveHead_def represents_def)
  then show ?thesis using R Nil by (intro unchanged) auto
next
  case (Cons x ys)
  have z: "l_size (label h l) \<noteq> 0" using R size_zero[of xs] Cons by (auto simp: represents_def)
  have hd: "l_head (label h l) = Some x" using R Cons by (simp add: represents_def)
  have sz: "l_size (label h l) - 1 = of_nat (length ys)" and len: "length ys < 2 ^ 32"
    using R Cons by (auto simp: represents_def)
  have z': "l_size (label h l) - 1 = 0 \<longleftrightarrow> ys = []" unfolding sz by (rule size_zero[OF len])
  let ?h1 = "set_size l (l_size (label h l) - 1) h"
  let ?h2 = "set_list x None (if ys = [] then set_tail l None ?h1 else ?h1)"
  let ?h' = "set_head l (e_next ?h2 x) ?h2"
  have run: "LIST_RemoveHead (Some l) h = Some (Some x, ?h')"
    using z hd z' by (simp add: LIST_RemoveHead_def Let_def) (simp add: list_store_defs)
  have nx: "e_next ?h' = e_next h" and ls: "e_list ?h' = (e_list h)(x := None)"
    and lb: "label ?h' = (label h)(l := \<lparr>l_head = e_next h x, l_tail = (if ys = [] then None else l_tail (label h l)),
        l_size = of_nat (length ys), l_max = l_max (label h l)\<rparr>)"
    using sz by (auto simp: list_store_defs)
  have R': "represents ?h' l ys"
    using R len unfolding represents_def nx ls lb Cons by auto
  show ?thesis
  proof (rule simulatedI[where h' = ?h'])
    show "e_list ?h' e = Some l' \<longleftrightarrow> e_list h e = Some l'" if "l' \<noteq> l" for l' e
      using that in_list[OF R, of x] Cons by (auto simp: ls)
  qed (use run R' Cons nx lb in auto)
qed

lemma remove_element_simulated:
  assumes R: "represents h l xs" and m: "e_list h e \<in> {None, Some l}"
  shows "simulated h l (Remove_element e) xs"
proof (cases "e \<in> set xs")
  case False
  then have "e_list h e = None" using m in_list[OF R, of e] by auto
  then show ?thesis using R False by (intro unchanged) (auto simp: LIST_RemoveElement_def)
next
  case True
  then obtain as bs where xs: "xs = as @ e # bs" "e \<notin> set as" by (metis split_list_first)
  have l: "e_list h e = Some l" using in_list[OF R] True by simp
  have ch: "chain (e_next h) (l_head (label h l)) (as @ e # bs)" and d: "distinct (as @ e # bs)"
    and len: "length xs < 2 ^ 32" and sz: "l_size (label h l) = of_nat (length xs)"
    and tl: "l_tail (label h l) = Some (last xs)"
    using R xs by (auto simp: represents_def)
  have r1: "remove1 e xs = as @ bs" using xs by (simp add: remove1_append)
  have nb: "e_next h e = None \<longleftrightarrow> bs = []" using chain_next[OF ch] by (cases bs) auto
  let ?prev = "if as = [] then None else Some (last as)"
  let ?h1 = "if as = [] then set_head l (e_next h e) h else set_next (last as) (e_next h e) h"
  have loop: "remove_loop l e (l_head (label h l)) h = Some (?prev, ?h1)"
  proof (cases "as = []")
    case True
    then show ?thesis using ch by (subst remove_loop.simps) simp
  next
    case False
    then have "l_head (label h l) \<noteq> Some e" using ch xs(2) by (cases as) auto
    then show ?thesis using remove_loop_finds[OF ch False xs(2)] False by simp
  qed
  have e1: "e_next ?h1 e = e_next h e" using xs(2) last_in_set[of as] by (auto simp: list_store_defs)
  let ?h2 = "if bs = [] then set_tail l ?prev ?h1 else ?h1"
  let ?h' = "set_list e None (set_size l (l_size (label ?h2 l) - 1) ?h2)"
  have run: "LIST_RemoveElement e h = Some (kLIST_Ok, ?h')"
    using l loop e1 nb by (simp add: LIST_RemoveElement_def Let_def)
  have nx: "e_next ?h' = (if as = [] then e_next h else (e_next h)(last as := e_next h e))"
    and ls: "e_list ?h' = (e_list h)(e := None)"
    and lb: "label ?h' = (label h)(l := \<lparr>l_head = (if as = [] then e_next h e else l_head (label h l)),
        l_tail = (if bs = [] then ?prev else l_tail (label h l)), l_size = l_size (label h l) - 1, l_max = l_max (label h l)\<rparr>)"
    by (auto simp: list_store_defs)
  have "chain (e_next ?h') (l_head (label ?h' l)) (as @ bs)"
    unfolding nx lb using chain_remove[OF ch _ d] chain_next[OF ch] by auto
  moreover have "l_tail (label ?h' l) = (if as @ bs = [] then None else Some (last (as @ bs)))"
    unfolding lb using tl xs(1) by auto
  moreover have "l_size (label ?h' l) = of_nat (length (as @ bs))" unfolding lb using sz xs(1) by simp
  moreover have "e_list ?h' x = Some l \<longleftrightarrow> x \<in> set (as @ bs)" for x
    unfolding ls using in_list[OF R, of x] xs d by auto
  ultimately have R': "represents ?h' l (as @ bs)"
    using d len xs(1) by (simp add: represents_def)
  show ?thesis
  proof (rule simulatedI[where h' = ?h'])
    show "e_next ?h' x = e_next h x" if "l' \<noteq> l" "e_list h x = Some l'" for l' x
    proof -
      have "as \<noteq> [] \<longrightarrow> x \<noteq> last as" using that in_list[OF R, of x] xs(1) by auto
      then show ?thesis unfolding nx by auto
    qed
    show "e_list ?h' x = Some l' \<longleftrightarrow> e_list h x = Some l'" if "l' \<noteq> l" for l' x
      using that l by (auto simp: ls)
  qed (use run R' True r1 lb in auto)
qed

lemma split_at_first:
  "e \<notin> set as \<Longrightarrow> takeWhile (\<lambda>x. x \<noteq> e) (as @ e # bs) = as \<and> dropWhile (\<lambda>x. x \<noteq> e) (as @ e # bs) = e # bs"
  by (induction as) auto

lemma add_prev_simulated:
  assumes R: "represents h l xs" and m: "e_list h e \<in> {None, Some l}" and fresh: "e_list h new = None"
    and n: "length xs + 1 < 2 ^ 32"
  shows "simulated h l (Add_prev e new) xs"
proof (cases "e \<in> set xs \<and> \<not> list_full (l_max (label h l)) xs")
  case False
  show ?thesis
  proof (cases "e \<in> set xs")
    case True
    then show ?thesis using R False in_list[OF R, of e] by (intro unchanged) (auto simp: LIST_AddPrevElement_def check_full)
  next
    case False
    then have "e_list h e = None" using m in_list[OF R, of e] by auto
    then show ?thesis using R False by (intro unchanged) (auto simp: LIST_AddPrevElement_def)
  qed
next
  case True
  then obtain as bs where xs: "xs = as @ e # bs" "e \<notin> set as" by (metis split_list_first)
  have l: "e_list h e = Some l" using in_list[OF R] True by simp
  have new: "new \<notin> set xs" "new \<noteq> e" using in_list[OF R, of new] fresh l by auto
  have ch: "chain (e_next h) (l_head (label h l)) (as @ e # bs)" and d: "distinct (as @ e # bs)"
    and sz: "l_size (label h l) = of_nat (length xs)" and tl: "l_tail (label h l) = Some (last xs)"
    using R xs by (auto simp: represents_def)
  have tw: "takeWhile (\<lambda>x. x \<noteq> e) xs = as" "dropWhile (\<lambda>x. x \<noteq> e) xs = e # bs"
    using xs split_at_first[of e as bs] by auto
  have c: "LIST_Error_Check l h = kLIST_Ok" using R True by (simp add: check_full)
  let ?h1 = "if as = [] then set_head l (Some new) h else set_next (last as) (Some new) h"
  let ?h2 = "set_next new (Some e) (set_list new (Some l) ?h1)"
  let ?h' = "set_size l (l_size (label ?h2 l) + 1) ?h2"
  have "add_prev_loop l e new (l_head (label h l)) h = Some ?h'"
  proof (cases "as = []")
    case True
    then show ?thesis using ch by (subst add_prev_loop.simps) (simp add: Let_def)
  next
    case False
    then show ?thesis using add_prev_loop_finds[OF ch False xs(2)] by (simp add: Let_def)
  qed
  then have run: "LIST_AddPrevElement e new h = Some (kLIST_Ok, ?h')"
    using l c by (simp add: LIST_AddPrevElement_def Let_def)
  have nx: "e_next ?h' = (if as = [] then e_next h else (e_next h)(last as := Some new))(new := Some e)"
    and ls: "e_list ?h' = (e_list h)(new := Some l)"
    and lb: "label ?h' = (label h)(l := (label h l)\<lparr>l_head := (if as = [] then Some new else l_head (label h l)),
        l_size := l_size (label h l) + 1\<rparr>)"
    by (auto simp: list_store_defs)
  have "chain (e_next ?h') (l_head (label ?h' l)) (as @ new # e # bs)"
  proof (cases "as = []")
    case True
    then show ?thesis unfolding nx lb using ch new xs by (auto elim!: chain_cong)
  next
    case False
    then show ?thesis unfolding nx lb using chain_insert[OF ch False d] new(1) xs(1) by simp
  qed
  moreover have "l_tail (label ?h' l) = Some (last (as @ new # e # bs))" unfolding lb using tl xs(1) by auto
  moreover have "l_size (label ?h' l) = of_nat (length (as @ new # e # bs))" unfolding lb using sz xs(1) by simp
  moreover have "e_list ?h' x = Some l \<longleftrightarrow> x \<in> set (as @ new # e # bs)" for x
    unfolding ls using in_list[OF R, of x] xs by auto
  ultimately have R': "represents ?h' l (as @ new # e # bs)"
    using d n xs(1) new by (auto simp: represents_def)
  show ?thesis
  proof (rule simulatedI[where h' = ?h'])
    show "e_next ?h' x = e_next h x" if "l' \<noteq> l" "e_list h x = Some l'" for l' x
    proof -
      have "as \<noteq> [] \<longrightarrow> x \<noteq> last as" "x \<noteq> new" using that in_list[OF R, of x] xs(1) fresh by auto
      then show ?thesis unfolding nx by auto
    qed
    show "e_list ?h' x = Some l' \<longleftrightarrow> e_list h x = Some l'" if "l' \<noteq> l" for l' x
      using that fresh by (auto simp: ls)
  qed (use run R' True tw lb in auto)
qed

text \<open>
  (C21) Refinement: on a store that represents a list, every operation of the module ends, gives the
  status and element the operation on the list gives, and leaves a store that represents the
  resulting list; every other list is untouched.
\<close>

theorem list_operations_refine:
  assumes "represents h l xs" "op_allowed h l op" "length xs + 1 < 2 ^ 32"
  shows "\<exists>h'. run_op l op h = Some (fst (list_step (l_max (label h l)) op xs), h') \<and>
    represents h' l (snd (list_step (l_max (label h l)) op xs)) \<and> l_max (label h' l) = l_max (label h l) \<and>
    (\<forall>l' ys. l' \<noteq> l \<longrightarrow> represents h l' ys \<longrightarrow> represents h' l' ys)"
proof -
  have "simulated h l op xs"
    using assms by (cases op) (simp_all only: op_allowed.simps add_tail_simulated add_head_simulated
        remove_head_simulated remove_element_simulated add_prev_simulated conj_imp_eq_imp_imp simp_thms)
  then show ?thesis by (simp add: simulated_def)
qed

definition empty_store :: list_store where
  "empty_store = LIST_Init 0 2 \<lparr>e_next = (\<lambda>_. None), e_list = (\<lambda>_. None),
     label = (\<lambda>_. \<lparr>l_head = None, l_tail = None, l_size = 0, l_max = 0\<rparr>)\<rparr>"

lemma empty_store_represents: "represents empty_store 0 []"
  by (simp add: represents_def empty_store_def LIST_Init_def)

theorem list_operations_refine_witness:
  "\<exists>h'. run_op 0 (Add_tail 7) empty_store = Some ((kLIST_Ok, None), h') \<and> represents h' 0 [7]"
  using list_operations_refine[OF empty_store_represents, of "Add_tail 7"]
  by (auto simp: list_full_def empty_store_def LIST_Init_def)

text \<open>
  In a list without a maximal length the number of free places, which the header describes as
  available size, is the negated size: not a limit.
\<close>

lemma available_size_of_unlimited_list:
  "l_max (label h l) = 0 \<Longrightarrow> LIST_GetAvailableSize l h = - LIST_GetSize l h"
  by (simp add: LIST_GetAvailableSize_def LIST_GetSize_def)

end
