(* ===== verification/WPL.thy ===== *)
theory WPL
  imports EVSE_Time "HOL-Library.Monad_Syntax"
begin

unbundle bit_operations_syntax

text \<open>
  The Wi-Fi platform layer \<open>edgefast_wifi/source/wpl_nxp.c\<close>. The Wi-Fi driver, the DHCP server and the
  kernel's allocations answer as the argument \<open>env\<close> says, and every call on them is logged. What the
  driver delivers while a function waits on the event group is a list of events, taken in order by
  the driver's callback; the wait ends at the first event that sets a bit it waits for. \<open>None\<close> is a
  wait that does not end, a null pointer that is used, or a write beyond a buffer.
\<close>

section \<open>Types\<close>

datatype wpl_ret_t =
    WPLRET_SUCCESS | WPLRET_FAIL | WPLRET_NOT_FOUND | WPLRET_AUTH_FAILED | WPLRET_ADDR_FAILED
  | WPLRET_NOT_CONNECTED | WPLRET_NOT_READY | WPLRET_TIMEOUT | WPLRET_BAD_PARAM

datatype wpl_security_t = WPL_SECURITY_WILDCARD | WPL_SECURITY_WPA3_SAE

datatype wpl_state_t = WPL_NOT_INITIALIZED | WPL_INITIALIZED | WPL_STARTED

datatype wlan_event_reason =
    WLAN_REASON_SUCCESS | WLAN_REASON_AUTH_SUCCESS | WLAN_REASON_CONNECT_FAILED
  | WLAN_REASON_NETWORK_NOT_FOUND | WLAN_REASON_NETWORK_AUTH_FAILED | WLAN_REASON_ADDRESS_SUCCESS
  | WLAN_REASON_ADDRESS_FAILED | WLAN_REASON_LINK_LOST | WLAN_REASON_CHAN_SWITCH
  | WLAN_REASON_WPS_DISCONNECT | WLAN_REASON_USER_DISCONNECT | WLAN_REASON_INITIALIZED
  | WLAN_REASON_INITIALIZATION_FAILED | WLAN_REASON_FW_HANG | WLAN_REASON_FW_RESET
  | WLAN_REASON_PS_ENTER | WLAN_REASON_PS_EXIT | WLAN_REASON_UAP_SUCCESS
  | WLAN_REASON_UAP_CLIENT_ASSOC | WLAN_REASON_UAP_CLIENT_CONN | WLAN_REASON_UAP_CLIENT_DISSOC
  | WLAN_REASON_UAP_START_FAILED | WLAN_REASON_UAP_STOP_FAILED | WLAN_REASON_UAP_STOPPED
  | WLAN_REASON_RSSI_LOW

datatype wlan_connection_state =
    WLAN_DISCONNECTED | WLAN_CONNECTING | WLAN_ASSOCIATED | WLAN_AUTHENTICATED | WLAN_CONNECTED
  | WLAN_UAP_STARTED | WLAN_UAP_STOPPED | WLAN_SCANNING | WLAN_ASSOCIATING

datatype wlan_security_type = WLAN_SECURITY_NONE | WLAN_SECURITY_WPA2 | WLAN_SECURITY_WILDCARD | WLAN_SECURITY_WPA3_SAE

text \<open>The fields of \<open>struct wlan_network\<close> that the layer writes.\<close>

record wlan_network =
  net_name :: string
  net_ssid :: string
  net_address :: "string option"
  net_dhcp :: bool
  net_channel :: int
  net_security :: wlan_security_type
  net_mfpc :: bool
  net_mfpr :: bool
  net_password :: string
  net_psk :: string
  net_psk_len :: u8
  net_ssid_specific :: bool

definition network_zero :: wlan_network where
  "network_zero = \<lparr>net_name = [], net_ssid = [], net_address = None, net_dhcp = False, net_channel = 0,
     net_security = WLAN_SECURITY_NONE, net_mfpc = False, net_mfpr = False, net_password = [], net_psk = [],
     net_psk_len = 0, net_ssid_specific = False\<rparr>"

record wlan_scan_result =
  scan_ssid :: string
  scan_bssid :: "u8 list"
  scan_channel :: u32
  scan_rssi :: u8
  scan_wpa2_entp :: bool
  scan_wep :: bool
  scan_wpa :: bool
  scan_wpa2 :: bool
  scan_wpa3_sae :: bool

text \<open>
  What the driver delivers: an event, or the results of a scan. A result is \<open>None\<close> when it cannot be
  retrieved; the flag says whether the buffer of the results can be allocated.
\<close>

datatype wlan_event = Reason wlan_event_reason | Scan_results bool "wlan_scan_result option list"

datatype wlan_call =
    Wlan_init | Wlan_start | Wlan_stop | Wlan_add_network wlan_network | Wlan_remove_network string
  | Wlan_start_network string | Wlan_stop_network string | Dhcp_server_start | Dhcp_server_stop
  | Wlan_scan | Wlan_connect string | Wlan_disconnect | Link_lost_cb bool

text \<open>The answers of the driver: whether each call succeeds.\<close>

record wlan_env =
  r_event_group :: bool
  r_init :: bool
  r_start :: bool
  r_stop :: bool
  r_add_network :: bool
  r_remove_network :: bool
  r_start_network :: bool
  r_stop_network :: bool
  r_dhcp_start :: bool
  r_scan :: bool
  r_connect :: bool
  r_disconnect :: bool
  r_connection_state :: "wlan_connection_state option"
  r_address :: "string option"
  r_uap_address :: "string option"
  r_uap_network :: wlan_network

text \<open>
  The state of the module. \<open>s_wplSyncEvent\<close> is \<open>None\<close> before the event group is created and then its
  bits; of the link callback it matters whether it is null.
\<close>

record wpl =
  s_wplState :: wpl_state_t
  s_wplStaConnected :: bool
  s_wplUapActivated :: bool
  s_wplSyncEvent :: "u32 option"
  s_linkLostCb :: bool
  ssids_json :: "string option"
  wpl_calls :: "wlan_call list"

definition wpl_boot :: wpl where
  "wpl_boot = \<lparr>s_wplState = WPL_NOT_INITIALIZED, s_wplStaConnected = False, s_wplUapActivated = False,
     s_wplSyncEvent = None, s_linkLostCb = False, ssids_json = None, wpl_calls = []\<rparr>"

definition wpl_do :: "wlan_call \<Rightarrow> wpl \<Rightarrow> wpl" where
  "wpl_do c s = s\<lparr>wpl_calls := wpl_calls s @ [c]\<rparr>"

section \<open>Events\<close>

definition EVENT_BIT :: "nat \<Rightarrow> u32" where
  "EVENT_BIT event = push_bit event 1"

abbreviation (input) WPL_EVENT_UNUSED :: nat where "WPL_EVENT_UNUSED \<equiv> 0"
abbreviation (input) WPL_EVENT_INITIALIZED :: nat where "WPL_EVENT_INITIALIZED \<equiv> 1"
abbreviation (input) WPL_EVENT_INITIALIZATION_FAILED :: nat where "WPL_EVENT_INITIALIZATION_FAILED \<equiv> 2"
abbreviation (input) WPL_EVENT_SUCCESS :: nat where "WPL_EVENT_SUCCESS \<equiv> 3"
abbreviation (input) WPL_EVENT_CONNECT_FAILED :: nat where "WPL_EVENT_CONNECT_FAILED \<equiv> 4"
abbreviation (input) WPL_EVENT_NETWORK_NOT_FOUND :: nat where "WPL_EVENT_NETWORK_NOT_FOUND \<equiv> 5"
abbreviation (input) WPL_EVENT_NETWORK_AUTH_FAILED :: nat where "WPL_EVENT_NETWORK_AUTH_FAILED \<equiv> 6"
abbreviation (input) WPL_EVENT_ADDRESS_FAILED :: nat where "WPL_EVENT_ADDRESS_FAILED \<equiv> 7"
abbreviation (input) WPL_EVENT_USER_DISCONNECT :: nat where "WPL_EVENT_USER_DISCONNECT \<equiv> 8"
abbreviation (input) WPL_EVENT_UAP_SUCCESS :: nat where "WPL_EVENT_UAP_SUCCESS \<equiv> 9"
abbreviation (input) WPL_EVENT_UAP_START_FAILED :: nat where "WPL_EVENT_UAP_START_FAILED \<equiv> 10"
abbreviation (input) WPL_EVENT_UAP_STOPPED :: nat where "WPL_EVENT_UAP_STOPPED \<equiv> 11"
abbreviation (input) WPL_EVENT_UAP_STOP_FAILED :: nat where "WPL_EVENT_UAP_STOP_FAILED \<equiv> 12"
abbreviation (input) WPL_EVENT_SCAN_DONE :: nat where "WPL_EVENT_SCAN_DONE \<equiv> 13"

definition WPL_SYNC_INIT_GROUP :: u32 where
  "WPL_SYNC_INIT_GROUP = EVENT_BIT WPL_EVENT_INITIALIZED OR EVENT_BIT WPL_EVENT_INITIALIZATION_FAILED"

definition WPL_SYNC_CONNECT_GROUP :: u32 where
  "WPL_SYNC_CONNECT_GROUP = EVENT_BIT WPL_EVENT_SUCCESS OR EVENT_BIT WPL_EVENT_CONNECT_FAILED OR
     EVENT_BIT WPL_EVENT_NETWORK_NOT_FOUND OR EVENT_BIT WPL_EVENT_NETWORK_AUTH_FAILED OR EVENT_BIT WPL_EVENT_ADDRESS_FAILED"

definition WPL_SYNC_DISCONNECT_GROUP :: u32 where
  "WPL_SYNC_DISCONNECT_GROUP = EVENT_BIT WPL_EVENT_USER_DISCONNECT"

definition WPL_SYNC_UAP_START_GROUP :: u32 where
  "WPL_SYNC_UAP_START_GROUP = EVENT_BIT WPL_EVENT_UAP_SUCCESS OR EVENT_BIT WPL_EVENT_UAP_START_FAILED"

definition WPL_SYNC_UAP_STOP_GROUP :: u32 where
  "WPL_SYNC_UAP_STOP_GROUP = EVENT_BIT WPL_EVENT_UAP_STOPPED OR EVENT_BIT WPL_EVENT_UAP_STOP_FAILED"

definition WPL_SYNC_SCAN_GROUP :: u32 where
  "WPL_SYNC_SCAN_GROUP = EVENT_BIT WPL_EVENT_SCAN_DONE"

fun WPL_map_event :: "wlan_event_reason \<Rightarrow> nat" where
  "WPL_map_event WLAN_REASON_INITIALIZED = WPL_EVENT_INITIALIZED"
| "WPL_map_event WLAN_REASON_INITIALIZATION_FAILED = WPL_EVENT_INITIALIZATION_FAILED"
| "WPL_map_event WLAN_REASON_SUCCESS = WPL_EVENT_SUCCESS"
| "WPL_map_event WLAN_REASON_CONNECT_FAILED = WPL_EVENT_CONNECT_FAILED"
| "WPL_map_event WLAN_REASON_NETWORK_NOT_FOUND = WPL_EVENT_NETWORK_NOT_FOUND"
| "WPL_map_event WLAN_REASON_NETWORK_AUTH_FAILED = WPL_EVENT_NETWORK_AUTH_FAILED"
| "WPL_map_event WLAN_REASON_ADDRESS_FAILED = WPL_EVENT_ADDRESS_FAILED"
| "WPL_map_event WLAN_REASON_USER_DISCONNECT = WPL_EVENT_USER_DISCONNECT"
| "WPL_map_event WLAN_REASON_UAP_SUCCESS = WPL_EVENT_UAP_SUCCESS"
| "WPL_map_event WLAN_REASON_UAP_START_FAILED = WPL_EVENT_UAP_START_FAILED"
| "WPL_map_event WLAN_REASON_UAP_STOPPED = WPL_EVENT_UAP_STOPPED"
| "WPL_map_event WLAN_REASON_UAP_STOP_FAILED = WPL_EVENT_UAP_STOP_FAILED"
| "WPL_map_event _ = WPL_EVENT_UNUSED"

definition set_bits :: "u32 \<Rightarrow> wpl \<Rightarrow> wpl option" where
  "set_bits b s = do { x \<leftarrow> s_wplSyncEvent s; Some (s\<lparr>s_wplSyncEvent := Some (x OR b)\<rparr>) }"

definition clear_bits :: "u32 \<Rightarrow> wpl \<Rightarrow> wpl option" where
  "clear_bits b s = do { x \<leftarrow> s_wplSyncEvent s; Some (s\<lparr>s_wplSyncEvent := Some (x AND NOT b)\<rparr>) }"

definition call_link_cb :: "bool \<Rightarrow> wpl \<Rightarrow> wpl option" where
  "call_link_cb b s =
     (if s_wplStaConnected s then (if s_linkLostCb s then Some (wpl_do (Link_lost_cb b) s) else None) else Some s)"

definition wlan_event_callback :: "wlan_event_reason \<Rightarrow> wpl \<Rightarrow> wpl option" where
  "wlan_event_callback reason s =
     do {
       s \<leftarrow> (if s_wplState s \<noteq> WPL_NOT_INITIALIZED \<and> WPL_map_event reason \<noteq> WPL_EVENT_UNUSED
             then set_bits (EVENT_BIT (WPL_map_event reason)) s else Some s);
       (case reason of
          WLAN_REASON_SUCCESS \<Rightarrow> call_link_cb True s
        | WLAN_REASON_CONNECT_FAILED \<Rightarrow> call_link_cb False s
        | WLAN_REASON_NETWORK_NOT_FOUND \<Rightarrow> call_link_cb False s
        | WLAN_REASON_NETWORK_AUTH_FAILED \<Rightarrow> call_link_cb False s
        | WLAN_REASON_LINK_LOST \<Rightarrow> call_link_cb False s
        | _ \<Rightarrow> Some s)
     }"

section \<open>Scan results\<close>

abbreviation (input) MAX_JSON_NETWORK_RECORD_LENGTH :: u32 where "MAX_JSON_NETWORK_RECORD_LENGTH \<equiv> 185"

text \<open>The conversions \<open>%d\<close> and \<open>%02X\<close> of \<open>snprintf\<close>.\<close>

definition show_int :: "int \<Rightarrow> string" where
  "show_int i = (if i < 0 then CHR ''-'' # show_nat (nat (- i)) else show_nat (nat i))"

definition hex_digit :: "nat \<Rightarrow> char" where
  "hex_digit n = (if n < 10 then char_of (48 + n) else char_of (55 + n))"

definition hex2 :: "u8 \<Rightarrow> string" where
  "hex2 b = [hex_digit (unat b div 16), hex_digit (unat b mod 16)]"

definition scan_security :: "wlan_scan_result \<Rightarrow> string" where
  "scan_security r =
     (if scan_wpa2_entp r then ''WPA2_ENTP '' else []) @ (if scan_wep r then ''WEP '' else []) @
     (if scan_wpa r then ''WPA '' else []) @ (if scan_wpa2 r then ''WPA2 '' else []) @
     (if scan_wpa3_sae r then ''WPA3_SAE '' else [])"

definition quote :: char where
  "quote = char_of (34 :: nat)"

definition json_key :: "string \<Rightarrow> string" where
  "json_key k = quote # k @ [quote, CHR '':'']"

definition json_entry :: "wlan_scan_result \<Rightarrow> string" where
  "json_entry r =
     ''{'' @ json_key ''ssid'' @ quote # scan_ssid r @ quote # '','' @
     json_key ''bssid'' @ quote # hex2 (scan_bssid r ! 0) @ '':'' @ hex2 (scan_bssid r ! 1) @ '':'' @
       hex2 (scan_bssid r ! 2) @ '':'' @ hex2 (scan_bssid r ! 3) @ '':'' @ hex2 (scan_bssid r ! 4) @ '':'' @
       hex2 (scan_bssid r ! 5) @ quote # '','' @
     json_key ''signal'' @ quote # show_int (- uint (scan_rssi r)) @ ''dBm'' @ quote # '','' @
     json_key ''channel'' @ show_int (sint (scan_channel r)) @ '','' @
     json_key ''security'' @ quote # scan_security r @ quote # ''}''"

text \<open>
  The loop over the results, with the length of the buffer. It is undefined when the separator is
  written beyond the buffer, and when \<open>snprintf\<close> truncates, because the index then runs ahead of the
  text and the next copy can end beyond the buffer.
\<close>

fun json_loop :: "nat \<Rightarrow> nat \<Rightarrow> wlan_scan_result option list \<Rightarrow> string \<Rightarrow> string option" where
  "json_loop len i [] js = Some js"
| "json_loop len i (None # rs) js = json_loop len (Suc i) rs js"
| "json_loop len i (Some r # rs) js =
     (let js = (if i \<noteq> 0 then js @ '','' else js)
      in if length js + 1 + length (json_entry r) < len then json_loop len (Suc i) rs (js @ json_entry r)
         else None)"

definition json_begin :: string where
  "json_begin = ''{'' @ json_key ''networks'' @ ''[''"

definition WLP_process_results :: "bool \<Rightarrow> wlan_scan_result option list \<Rightarrow> wpl \<Rightarrow> wpl option" where
  "WLP_process_results malloc results s =
     (let len = unat (of_nat (length results) * MAX_JSON_NETWORK_RECORD_LENGTH + 15) in
      if \<not> malloc then set_bits (EVENT_BIT WPL_EVENT_SCAN_DONE) (s\<lparr>ssids_json := None\<rparr>)
      else if \<not> length json_begin + 1 \<le> len then None
      else do {
        js \<leftarrow> json_loop len 0 results json_begin;
        (if length js + 3 \<le> len
         then set_bits (EVENT_BIT WPL_EVENT_SCAN_DONE) (s\<lparr>ssids_json := Some (js @ '']}'')\<rparr>)
         else None)
      })"

section \<open>Waiting\<close>

definition deliver :: "wlan_event \<Rightarrow> wpl \<Rightarrow> wpl option" where
  "deliver e s = (case e of Reason r \<Rightarrow> wlan_event_callback r s | Scan_results malloc rs \<Rightarrow> WLP_process_results malloc rs s)"

text \<open>
  \<open>xEventGroupWaitBits\<close> for any bit of a group, without a limit, clearing the group's bits when it
  returns. The result is the bits before they are cleared, and the events not yet delivered.
\<close>

fun wait_bits :: "u32 \<Rightarrow> wlan_event list \<Rightarrow> wpl \<Rightarrow> (u32 \<times> wlan_event list \<times> wpl) option" where
  "wait_bits g es s =
     (case s_wplSyncEvent s of
        None \<Rightarrow> None
      | Some b \<Rightarrow>
          if b AND g \<noteq> 0 then Some (b, es, s\<lparr>s_wplSyncEvent := Some (b AND NOT g)\<rparr>)
          else (case es of [] \<Rightarrow> None | e # es \<Rightarrow> (case deliver e s of None \<Rightarrow> None | Some s \<Rightarrow> wait_bits g es s)))"

declare wait_bits.simps [simp del]

definition has_bit :: "u32 \<Rightarrow> nat \<Rightarrow> bool" where
  "has_bit syncBit event \<longleftrightarrow> syncBit AND EVENT_BIT event \<noteq> 0"

section \<open>Starting and stopping\<close>

definition WPL_Init :: "wlan_env \<Rightarrow> wpl \<Rightarrow> wpl_ret_t \<times> wpl" where
  "WPL_Init env s =
     (let status = (if s_wplState s \<noteq> WPL_NOT_INITIALIZED then WPLRET_FAIL else WPLRET_SUCCESS);
          s = (if status = WPLRET_SUCCESS \<and> s_wplSyncEvent s = None
               then s\<lparr>s_wplSyncEvent := (if r_event_group env then Some 0 else None)\<rparr> else s);
          status = (if status = WPLRET_SUCCESS \<and> s_wplSyncEvent s = None then WPLRET_FAIL else status);
          (status, s) = (if status = WPLRET_SUCCESS
                         then (if r_init env then WPLRET_SUCCESS else WPLRET_FAIL, wpl_do Wlan_init s) else (status, s))
      in (status, if status = WPLRET_SUCCESS then s\<lparr>s_wplState := WPL_INITIALIZED\<rparr> else s))"

text \<open>
  The operations that wait take the events delivered meanwhile and give those that are left. In
  \<open>WPL_Start\<close> the flag says whether the callback is given.
\<close>

definition WPL_Start :: "wlan_env \<Rightarrow> bool \<Rightarrow> wlan_event list \<Rightarrow> wpl \<Rightarrow> (wpl_ret_t \<times> wlan_event list \<times> wpl) option" where
  "WPL_Start env callbackFunction es s =
     (if s_wplState s \<noteq> WPL_INITIALIZED then Some (WPLRET_NOT_READY, es, s)
      else do {
        s \<leftarrow> clear_bits WPL_SYNC_INIT_GROUP s;
        let s = wpl_do Wlan_start s;
        if \<not> r_start env then Some (WPLRET_FAIL, es, s)
        else do {
          (syncBit, es, s) \<leftarrow> wait_bits WPL_SYNC_INIT_GROUP es s;
          Some (if has_bit syncBit WPL_EVENT_INITIALIZED
                then (WPLRET_SUCCESS, es, s\<lparr>s_linkLostCb := callbackFunction, s_wplState := WPL_STARTED\<rparr>)
                else if has_bit syncBit WPL_EVENT_INITIALIZATION_FAILED then (WPLRET_FAIL, es, s)
                else (WPLRET_TIMEOUT, es, s))
        }
      })"

definition WPL_Stop :: "wlan_env \<Rightarrow> wpl \<Rightarrow> wpl_ret_t \<times> wpl" where
  "WPL_Stop env s =
     (if s_wplState s \<noteq> WPL_STARTED then (WPLRET_NOT_READY, s)
      else let s = wpl_do Wlan_stop s
           in if r_stop env then (WPLRET_SUCCESS, s\<lparr>s_wplState := WPL_INITIALIZED\<rparr>) else (WPLRET_FAIL, s))"

section \<open>Access point\<close>

abbreviation (input) IEEEtypes_SSID_SIZE :: nat where "IEEEtypes_SSID_SIZE \<equiv> 32"
abbreviation (input) WLAN_NETWORK_NAME_MAX_LENGTH :: nat where "WLAN_NETWORK_NAME_MAX_LENGTH \<equiv> 32"
abbreviation (input) WPL_WIFI_PASSWORD_MIN_LEN :: nat where "WPL_WIFI_PASSWORD_MIN_LEN \<equiv> 8"
abbreviation (input) WPL_WIFI_PASSWORD_LENGTH :: nat where "WPL_WIFI_PASSWORD_LENGTH \<equiv> 63"
abbreviation (input) UAP_NETWORK_NAME :: string where "UAP_NETWORK_NAME \<equiv> ''uap-network''"
abbreviation (input) WPL_WIFI_AP_IP_ADDR :: string where "WPL_WIFI_AP_IP_ADDR \<equiv> ''192.168.1.1''"

definition bad_ssid :: "string \<Rightarrow> bool" where
  "bad_ssid ssid \<longleftrightarrow> length ssid = 0 \<or> length ssid > IEEEtypes_SSID_SIZE"

definition bad_password :: "string \<Rightarrow> bool" where
  "bad_password p \<longleftrightarrow> (0 < length p \<and> length p < WPL_WIFI_PASSWORD_MIN_LEN) \<or> length p > WPL_WIFI_PASSWORD_LENGTH"

definition bad_label :: "string \<Rightarrow> bool" where
  "bad_label l \<longleftrightarrow> length l = 0 \<or> length l > WLAN_NETWORK_NAME_MAX_LENGTH"

text \<open>\<open>memcpy\<close> and \<open>strncpy\<close> of a string without its terminator: what was behind it stays.\<close>

definition overlay :: "string \<Rightarrow> string \<Rightarrow> string" where
  "overlay new old = new @ drop (length new) old"

definition uap_network :: "wlan_env \<Rightarrow> string \<Rightarrow> string \<Rightarrow> int \<Rightarrow> wlan_network" where
  "uap_network env ssid password chan =
     (r_uap_network env)\<lparr>net_ssid := overlay ssid (net_ssid (r_uap_network env)), net_address := Some WPL_WIFI_AP_IP_ADDR, net_channel := chan,
        net_security := (if length password = 0 then WLAN_SECURITY_NONE else WLAN_SECURITY_WPA2),
        net_psk_len := of_nat (length password), net_psk := overlay password (net_psk (r_uap_network env))\<rparr>"

definition WPL_Start_AP ::
    "wlan_env \<Rightarrow> string \<Rightarrow> string \<Rightarrow> int \<Rightarrow> wlan_event list \<Rightarrow> wpl \<Rightarrow> (wpl_ret_t \<times> wlan_event list \<times> wpl) option" where
  "WPL_Start_AP env ssid password chan es s =
     (let status = (if s_wplState s \<noteq> WPL_STARTED \<or> s_wplUapActivated s then WPLRET_NOT_READY else WPLRET_SUCCESS);
          status = (if bad_ssid ssid then WPLRET_BAD_PARAM else status);
          status = (if bad_password password then WPLRET_BAD_PARAM else status);
          net = uap_network env ssid password chan
      in if status \<noteq> WPLRET_SUCCESS then Some (status, es, s)
         else let s = wpl_do (Wlan_add_network net) s in
         if \<not> r_add_network env then Some (WPLRET_FAIL, es, s)
         else do {
           s \<leftarrow> clear_bits WPL_SYNC_UAP_START_GROUP s;
           let s = wpl_do (Wlan_start_network (net_name net)) s;
           (status, es, s) \<leftarrow>
             (if \<not> r_start_network env then Some (WPLRET_FAIL, es, s)
              else do {
                (syncBit, es, s) \<leftarrow> wait_bits WPL_SYNC_UAP_START_GROUP es s;
                Some (if has_bit syncBit WPL_EVENT_UAP_SUCCESS then WPLRET_SUCCESS
                      else if has_bit syncBit WPL_EVENT_UAP_START_FAILED then WPLRET_FAIL else WPLRET_TIMEOUT, es, s)
              });
           if status \<noteq> WPLRET_SUCCESS then Some (status, es, wpl_do (Wlan_remove_network (net_name net)) s)
           else let s = wpl_do Dhcp_server_start s in
           if \<not> r_dhcp_start env
           then Some (WPLRET_FAIL, es, wpl_do (Wlan_remove_network (net_name net)) (wpl_do (Wlan_stop_network (net_name net)) s))
           else Some (WPLRET_SUCCESS, es, s\<lparr>s_wplUapActivated := True\<rparr>)
         })"

definition WPL_Stop_AP :: "wlan_env \<Rightarrow> wlan_event list \<Rightarrow> wpl \<Rightarrow> (wpl_ret_t \<times> wlan_event list \<times> wpl) option" where
  "WPL_Stop_AP env es s =
     (if s_wplState s \<noteq> WPL_STARTED \<or> \<not> s_wplUapActivated s then Some (WPLRET_NOT_READY, es, s)
      else do {
        s \<leftarrow> clear_bits WPL_SYNC_UAP_START_GROUP (wpl_do Dhcp_server_stop s);
        let s = wpl_do (Wlan_stop_network UAP_NETWORK_NAME) s;
        (status, es, s) \<leftarrow>
          (if \<not> r_stop_network env then Some (WPLRET_FAIL, es, s)
           else do {
             (syncBit, es, s) \<leftarrow> wait_bits WPL_SYNC_UAP_STOP_GROUP es s;
             Some (if has_bit syncBit WPL_EVENT_UAP_STOPPED then WPLRET_SUCCESS
                   else if has_bit syncBit WPL_EVENT_UAP_STOP_FAILED then WPLRET_FAIL else WPLRET_TIMEOUT, es, s)
           });
        if status \<noteq> WPLRET_SUCCESS then Some (status, es, s)
        else let s = wpl_do (Wlan_remove_network UAP_NETWORK_NAME) s in
        if \<not> r_remove_network env then Some (WPLRET_FAIL, es, s)
        else Some (WPLRET_SUCCESS, es, s\<lparr>s_wplUapActivated := False\<rparr>)
      })"

section \<open>Station\<close>

definition WPL_Scan :: "wlan_env \<Rightarrow> wlan_event list \<Rightarrow> wpl \<Rightarrow> (string option \<times> wlan_event list \<times> wpl) option" where
  "WPL_Scan env es s =
     (if s_wplState s \<noteq> WPL_STARTED then Some (None, es, s)
      else let s = wpl_do Wlan_scan s in
      if \<not> r_scan env then Some (None, es, s)
      else do {
        (syncBit, es, s) \<leftarrow> wait_bits WPL_SYNC_SCAN_GROUP es s;
        Some (if has_bit syncBit WPL_EVENT_SCAN_DONE then ssids_json s else None, es, s)
      })"

definition sta_network :: "string \<Rightarrow> string \<Rightarrow> string \<Rightarrow> wpl_security_t \<Rightarrow> wlan_network" where
  "sta_network ssid password label' security =
     (let net = (if length password = 0 then network_zero\<lparr>net_security := WLAN_SECURITY_NONE\<rparr>
                 else case security of
                   WPL_SECURITY_WILDCARD \<Rightarrow> network_zero\<lparr>net_security := WLAN_SECURITY_WILDCARD, net_mfpc := True,
                     net_mfpr := True, net_password := password, net_psk_len := of_nat (length password), net_psk := password\<rparr>
                 | WPL_SECURITY_WPA3_SAE \<Rightarrow> network_zero\<lparr>net_security := WLAN_SECURITY_WPA3_SAE, net_mfpc := True,
                     net_mfpr := True, net_password := password\<rparr>)
      in net\<lparr>net_name := label', net_ssid := ssid, net_dhcp := True, net_ssid_specific := True\<rparr>)"

definition WPL_AddNetworkWithSecurity ::
    "wlan_env \<Rightarrow> string \<Rightarrow> string \<Rightarrow> string \<Rightarrow> wpl_security_t \<Rightarrow> wpl \<Rightarrow> wpl_ret_t \<times> wpl" where
  "WPL_AddNetworkWithSecurity env ssid password label' security s =
     (let status = (if s_wplState s \<noteq> WPL_STARTED then WPLRET_NOT_READY else WPLRET_SUCCESS);
          status = (if bad_label label' then WPLRET_BAD_PARAM else status);
          status = (if bad_ssid ssid then WPLRET_BAD_PARAM else status);
          status = (if bad_password password then WPLRET_BAD_PARAM else status)
      in if status \<noteq> WPLRET_SUCCESS then (status, s)
         else (if r_add_network env then WPLRET_SUCCESS else WPLRET_FAIL,
               wpl_do (Wlan_add_network (sta_network ssid password label' security)) s))"

definition WPL_AddNetwork :: "wlan_env \<Rightarrow> string \<Rightarrow> string \<Rightarrow> string \<Rightarrow> wpl \<Rightarrow> wpl_ret_t \<times> wpl" where
  "WPL_AddNetwork env ssid password label' s = WPL_AddNetworkWithSecurity env ssid password label' WPL_SECURITY_WILDCARD s"

definition WPL_RemoveNetwork :: "wlan_env \<Rightarrow> string \<Rightarrow> wpl \<Rightarrow> wpl_ret_t \<times> wpl" where
  "WPL_RemoveNetwork env label' s =
     (let status = (if s_wplState s \<noteq> WPL_STARTED then WPLRET_NOT_READY else WPLRET_SUCCESS);
          status = (if bad_label label' then WPLRET_BAD_PARAM else status)
      in if status \<noteq> WPLRET_SUCCESS then (status, s)
         else (if r_remove_network env then WPLRET_SUCCESS else WPLRET_FAIL, wpl_do (Wlan_remove_network label') s))"

definition WPL_Leave :: "wlan_env \<Rightarrow> wlan_event list \<Rightarrow> wpl \<Rightarrow> (wpl_ret_t \<times> wlan_event list \<times> wpl) option" where
  "WPL_Leave env es s =
     (let status = (if s_wplState s \<noteq> WPL_STARTED then WPLRET_NOT_READY else WPLRET_SUCCESS);
          status = (if r_connection_state env = None then WPLRET_FAIL else status)
      in if r_connection_state env = Some WLAN_DISCONNECTED
         then Some (WPLRET_SUCCESS, es, s\<lparr>s_wplStaConnected := False\<rparr>)
         else do {
           (status, es, s) \<leftarrow>
             (if status \<noteq> WPLRET_SUCCESS then Some (status, es, s)
              else do {
                s \<leftarrow> clear_bits WPL_SYNC_DISCONNECT_GROUP s;
                let s = wpl_do Wlan_disconnect s;
                if \<not> r_disconnect env then Some (WPLRET_FAIL, es, s)
                else do {
                  (syncBit, es, s) \<leftarrow> wait_bits WPL_SYNC_DISCONNECT_GROUP es s;
                  Some (if has_bit syncBit WPL_EVENT_USER_DISCONNECT then WPLRET_SUCCESS else WPLRET_TIMEOUT, es, s)
                }
              });
           Some (status, es, s\<lparr>s_wplStaConnected := False\<rparr>)
         })"

definition join_result :: "u32 \<Rightarrow> wpl_ret_t" where
  "join_result syncBit =
     (if has_bit syncBit WPL_EVENT_SUCCESS then WPLRET_SUCCESS
      else if has_bit syncBit WPL_EVENT_CONNECT_FAILED then WPLRET_FAIL
      else if has_bit syncBit WPL_EVENT_NETWORK_NOT_FOUND then WPLRET_NOT_FOUND
      else if has_bit syncBit WPL_EVENT_NETWORK_AUTH_FAILED then WPLRET_AUTH_FAILED
      else if has_bit syncBit WPL_EVENT_ADDRESS_FAILED then WPLRET_ADDR_FAILED
      else WPLRET_TIMEOUT)"

definition WPL_Join :: "wlan_env \<Rightarrow> string \<Rightarrow> wlan_event list \<Rightarrow> wpl \<Rightarrow> (wpl_ret_t \<times> wlan_event list \<times> wpl) option" where
  "WPL_Join env label' es s =
     (let status = (if s_wplState s \<noteq> WPL_STARTED \<or> s_wplStaConnected s then WPLRET_NOT_READY else WPLRET_SUCCESS);
          status = (if bad_label label' then WPLRET_BAD_PARAM else status)
      in if status \<noteq> WPLRET_SUCCESS then Some (status, es, s)
         else do {
           s \<leftarrow> clear_bits WPL_SYNC_CONNECT_GROUP s;
           let s = wpl_do (Wlan_connect label') s;
           if \<not> r_connect env then Some (WPLRET_FAIL, es, s)
           else do {
             (syncBit, es, s) \<leftarrow> wait_bits WPL_SYNC_CONNECT_GROUP es s;
             if join_result syncBit = WPLRET_SUCCESS then Some (WPLRET_SUCCESS, es, s\<lparr>s_wplStaConnected := True\<rparr>)
             else do {
               (_, es, s) \<leftarrow> WPL_Leave env es s;
               Some (join_result syncBit, es, s)
             }
           }
         })"

text \<open>The flag says whether the buffer for the address is given; \<open>client\<close> is 1 for the station.\<close>

definition WPL_GetIP :: "wlan_env \<Rightarrow> bool \<Rightarrow> int \<Rightarrow> wpl_ret_t \<times> string option" where
  "WPL_GetIP env ip client =
     (if \<not> ip then (WPLRET_FAIL, None)
      else case (if client = 1 then r_address env else r_uap_address env) of
        None \<Rightarrow> (WPLRET_FAIL, None)
      | Some a \<Rightarrow> (WPLRET_SUCCESS, Some a))"

end
