(* ===== verification/Connectivity.thy ===== *)
theory Connectivity
  imports WPL
begin

text \<open>
  The connectivity task \<open>source/EVSE_Connectivity.c\<close>, in the build's configuration (Wi-Fi and OCPP
  enabled, no EdgeLock agent and no display). The task drives the Wi-Fi layer of \<open>WPL\<close>, whose state is
  part of its own; a report of the link by that layer runs \<open>LinkStatusChangeCallback\<close>. What lwIP, the
  network and the kernel answer is the argument \<open>env\<close>, and every call on them is logged.
\<close>

section \<open>Types\<close>

datatype connectionState_t =
    EVSE_Network_NotConnected | EVSE_Network_InitComunicationModule | EVSE_Network_InitComunicationModuleError
  | EVSE_Network_InitCommunicationStack | EVSE_Network_InitCommunicationStackError | EVSE_Network_APConnectTry
  | EVSE_Network_APConnected | EVSE_Network_APConnectError | EVSE_Network_DHCPRequest | EVSE_Network_DHCPError
  | EVSE_Network_SNTPRequest | EVSE_Network_SNTPError | EVSE_Network_NetworkConnected
  | EVSE_Network_NetworkDisconnected | EVSE_Network_EdgelockInit | EVSE_Network_WaitEdgelock
  | EVSE_Network_OCPP_Init | EVSE_Network_Last

datatype connectionModule_t = EVSE_ConnectionModule_None | EVSE_ConnectionModule_ETH | EVSE_ConnectionModule_WiFi

text \<open>
  The names are arrays of fixed size, filled with zeros first: the string is what precedes the first
  zero.
\<close>

record evse_wifi_cred_t =
  ssid_name :: string
  ssid_length :: u8
  pass_name :: string
  pass_length :: u8

datatype conn_call =
    Ping_open | Dns_query | Sntp_setserver | Sntp_init | Sntp_stop | Ping_send | Delay nat
  | Ocpp_network_down | Ocpp_init

record conn =
  conn_wpl :: wpl
  evse_wifi_credentials :: evse_wifi_cred_t
  s_IPv4 :: string
  s_unixTimeBase :: u32
  s_connectionState :: connectionState_t
  connectionModule :: connectionModule_t
  ping_socket :: int
  ping_fails :: u8
  conn_is_init :: bool
  conn_calls :: "conn_call list"

definition conn_boot :: conn where
  "conn_boot = \<lparr>conn_wpl = wpl_boot, evse_wifi_credentials = \<lparr>ssid_name = [], ssid_length = 0, pass_name = [], pass_length = 0\<rparr>,
     s_IPv4 = [], s_unixTimeBase = 0, s_connectionState = EVSE_Network_NotConnected,
     connectionModule = EVSE_ConnectionModule_None, ping_socket = 0, ping_fails = 0, conn_is_init = False, conn_calls = []\<rparr>"

definition conn_do :: "conn_call \<Rightarrow> conn \<Rightarrow> conn" where
  "conn_do k c = c\<lparr>conn_calls := conn_calls c @ [k]\<rparr>"

text \<open>
  What the outside answers in one turn of the task: the configured network, the Wi-Fi driver at the
  start and in each attempt to join (with the events delivered meanwhile), the address, whether the
  \<open>i\<close>-th query of the name server resolves, which time (with the tick count) arrives in the \<open>j\<close>-th
  wait of the \<open>i\<close>-th synchronization, and the ping.
\<close>

record conn_env =
  WIFI_SSID :: string
  WIFI_PASS :: string
  e_wlan :: wlan_env
  e_start_events :: "wlan_event list"
  e_attempts :: "(wlan_env \<times> wlan_event list) list"
  e_address :: "string option"
  e_dns :: "nat \<Rightarrow> bool"
  e_time :: "nat \<Rightarrow> nat \<Rightarrow> (u32 \<times> u32) option"
  e_socket :: int
  e_ping_send :: bool
  e_ping_recv :: bool

text \<open>A step of the task ends, or enters the endless loop of \<open>ERROR_LOOP\<close>.\<close>

datatype conn_outcome = Goes_on conn | Error_loop conn

fun and_then :: "conn_outcome \<Rightarrow> (conn \<Rightarrow> conn_outcome option) \<Rightarrow> conn_outcome option" where
  "and_then (Goes_on c) f = f c"
| "and_then (Error_loop c) f = Some (Error_loop c)"

fun networkConnectionStateString :: "connectionState_t \<Rightarrow> string" where
  "networkConnectionStateString EVSE_Network_NotConnected = ''No network''"
| "networkConnectionStateString EVSE_Network_InitComunicationModule = ''Init communication module''"
| "networkConnectionStateString EVSE_Network_InitComunicationModuleError = ''Init communication module error''"
| "networkConnectionStateString EVSE_Network_InitCommunicationStack = ''Init communication stack''"
| "networkConnectionStateString EVSE_Network_InitCommunicationStackError = ''Init communication stack error''"
| "networkConnectionStateString EVSE_Network_APConnectTry = ''Trying to connect to AP''"
| "networkConnectionStateString EVSE_Network_APConnected = ''Connected to AP''"
| "networkConnectionStateString EVSE_Network_APConnectError = ''Failed connection to AP''"
| "networkConnectionStateString EVSE_Network_DHCPRequest = ''Waiting for DHCP response''"
| "networkConnectionStateString EVSE_Network_DHCPError = ''Failed DHCP''"
| "networkConnectionStateString EVSE_Network_SNTPRequest = ''Waiting for UnixTime''"
| "networkConnectionStateString EVSE_Network_SNTPError = ''Failed SNTP''"
| "networkConnectionStateString EVSE_Network_NetworkConnected = ''Connected to network''"
| "networkConnectionStateString EVSE_Network_NetworkDisconnected = ''Disconnected from network''"
| "networkConnectionStateString EVSE_Network_EdgelockInit = ''Initializing EdgeLock2GO''"
| "networkConnectionStateString EVSE_Network_WaitEdgelock = ''Waiting for EdgeLock2GO''"
| "networkConnectionStateString EVSE_Network_OCPP_Init = ''Initializing OCPP''"
| "networkConnectionStateString EVSE_Network_Last = ''LAST''"

section \<open>State changes and reports of the link\<close>

definition prvConnectivity_SetState :: "connectionState_t \<Rightarrow> conn \<Rightarrow> conn" where
  "prvConnectivity_SetState connectionState c =
     (if s_connectionState c = connectionState then c
      else (if connectionState = EVSE_Network_NetworkDisconnected then c\<lparr>s_IPv4 := []\<rparr> else c)
        \<lparr>s_connectionState := connectionState\<rparr>)"

definition LinkStatusChangeCallback :: "bool \<Rightarrow> conn \<Rightarrow> conn" where
  "LinkStatusChangeCallback link_lost c =
     (if link_lost then prvConnectivity_SetState EVSE_Network_NetworkDisconnected c
      else prvConnectivity_SetState EVSE_Network_APConnected c)"

text \<open>
  A step of the Wi-Fi layer: its new state, and the callback for every report of the link it made.
\<close>

definition link_reports :: "wpl \<Rightarrow> wpl \<Rightarrow> bool list" where
  "link_reports w w' = List.map_filter (\<lambda>k. case k of Link_lost_cb b \<Rightarrow> Some b | _ \<Rightarrow> None)
     (drop (length (wpl_calls w)) (wpl_calls w'))"

definition update_wpl :: "wpl \<Rightarrow> conn \<Rightarrow> conn" where
  "update_wpl w c = fold LinkStatusChangeCallback (link_reports (conn_wpl c) w) (c\<lparr>conn_wpl := w\<rparr>)"

text \<open>A report of the driver while the task is elsewhere.\<close>

definition driver_report :: "wlan_event_reason \<Rightarrow> conn \<Rightarrow> conn option" where
  "driver_report r c = do { w \<leftarrow> wlan_event_callback r (conn_wpl c); Some (update_wpl w c) }"

section \<open>Start of the module and the stack\<close>

abbreviation (input) SSID_MAX_SIZE :: nat where "SSID_MAX_SIZE \<equiv> 32"
abbreviation (input) PASS_MAX_SIZE :: nat where "PASS_MAX_SIZE \<equiv> 64"
abbreviation (input) PING_MAX_FAILS :: int where "PING_MAX_FAILS \<equiv> 4"
abbreviation (input) EVSE_SNTP_SYNC_MAX :: u8 where "EVSE_SNTP_SYNC_MAX \<equiv> 9"
abbreviation (input) EVSE_SNTP_UPDATE_MAX :: u8 where "EVSE_SNTP_UPDATE_MAX \<equiv> 10"
abbreviation (input) EVSE_SNTP_UPDATE_INTERVAL :: nat where "EVSE_SNTP_UPDATE_INTERVAL \<equiv> 200"

definition ConnectivityModule_Init :: "conn_env \<Rightarrow> conn \<Rightarrow> conn_outcome" where
  "ConnectivityModule_Init env c =
     (let c = prvConnectivity_SetState EVSE_Network_InitComunicationModule c;
          (ret, w) = WPL_Init (e_wlan env) (conn_wpl c);
          c = update_wpl w c
      in if ret \<noteq> WPLRET_SUCCESS
         then Error_loop (prvConnectivity_SetState EVSE_Network_InitComunicationModuleError c)
         else Goes_on c)"

definition ping_setup :: "conn_env \<Rightarrow> conn \<Rightarrow> conn" where
  "ping_setup env c = (conn_do Ping_open c)\<lparr>ping_socket := e_socket env\<rparr>"

definition ConnectivityStack_Init :: "conn_env \<Rightarrow> conn \<Rightarrow> conn_outcome option" where
  "ConnectivityStack_Init env c =
     do {
       let c = prvConnectivity_SetState EVSE_Network_InitCommunicationStack c;
       (ret, _, w) \<leftarrow> WPL_Start (e_wlan env) True (e_start_events env) (conn_wpl c);
       let c = update_wpl w c;
       Some (if ret \<noteq> WPLRET_SUCCESS
             then Error_loop (prvConnectivity_SetState EVSE_Network_InitCommunicationStackError c)
             else Goes_on (ping_setup env c))
     }"

definition WiFi_LoadPredefinedCredentials :: "conn_env \<Rightarrow> evse_wifi_cred_t \<Rightarrow> evse_wifi_cred_t" where
  "WiFi_LoadPredefinedCredentials env cred =
     (let cred = cred\<lparr>ssid_name := [], pass_name := []\<rparr>
      in if length (WIFI_SSID env) \<ge> SSID_MAX_SIZE \<or> length (WIFI_PASS env) \<ge> PASS_MAX_SIZE then cred
         else cred\<lparr>ssid_name := WIFI_SSID env, ssid_length := of_nat (length (WIFI_SSID env)),
                pass_name := WIFI_PASS env, pass_length := of_nat (length (WIFI_PASS env))\<rparr>)"

text \<open>
  The attempts to join, without a limit: \<open>None\<close> when the attempts given are used up, or an attempt
  does not end.
\<close>

fun join_loop :: "string \<Rightarrow> (wlan_env \<times> wlan_event list) list \<Rightarrow> conn \<Rightarrow> conn option" where
  "join_loop label' [] c = None"
| "join_loop label' ((we, es) # as) c =
     do {
       (ret, _, w) \<leftarrow> WPL_Join we label' es (conn_wpl c);
       let c = update_wpl w c;
       if ret = WPLRET_SUCCESS then Some c
       else join_loop label' as (conn_do (Delay 1000) (prvConnectivity_SetState EVSE_Network_APConnectError c))
     }"

definition ConnectivityAP_Connect :: "conn_env \<Rightarrow> conn \<Rightarrow> conn_outcome option" where
  "ConnectivityAP_Connect env c =
     (let c = prvConnectivity_SetState EVSE_Network_APConnectTry c;
          c = c\<lparr>evse_wifi_credentials := WiFi_LoadPredefinedCredentials env (evse_wifi_credentials c)\<rparr>;
          (ret, w) = WPL_AddNetwork (e_wlan env) (ssid_name (evse_wifi_credentials c)) (pass_name (evse_wifi_credentials c))
                       (WIFI_SSID env) (conn_wpl c);
          c = update_wpl w c
      in if ret \<noteq> WPLRET_SUCCESS
         then Some (Error_loop (prvConnectivity_SetState EVSE_Network_APConnectError c))
         else do {
           c \<leftarrow> join_loop (WIFI_SSID env) (e_attempts env) c;
           Some (Goes_on (prvConnectivity_SetState EVSE_Network_APConnected c))
         })"

definition DHCP_StartClient :: "conn_env \<Rightarrow> conn \<Rightarrow> conn" where
  "DHCP_StartClient env c =
     (let c = prvConnectivity_SetState EVSE_Network_DHCPRequest c
      in case e_address env of None \<Rightarrow> c | Some a \<Rightarrow> c\<lparr>s_IPv4 := a\<rparr>)"

section \<open>Time\<close>

definition EVSE_Connectivity_SetUnixTime :: "u32 \<Rightarrow> u32 \<Rightarrow> conn \<Rightarrow> conn" where
  "EVSE_Connectivity_SetUnixTime ticks sec c =
     (let currentOffsetSec = EVSE_GetSecondsSinceBoot False 0 ticks
      in c\<lparr>s_unixTimeBase := sec - currentOffsetSec\<rparr>)"

definition EVSE_Connectivity_GetUnixTime :: "u32 \<Rightarrow> conn \<Rightarrow> u32" where
  "EVSE_Connectivity_GetUnixTime ticks c =
     (let currentOffsetSec = EVSE_GetSecondsSinceBoot False 0 ticks
      in s_unixTimeBase c + currentOffsetSec)"

lemma less_9_next: "x < (9 :: u8) \<Longrightarrow> 9 - unat (x + 1) < 9 - unat x"
  by (simp add: word_less_nat_alt unat_word_ariths)

lemma less_10_next: "x < (10 :: u8) \<Longrightarrow> 10 - unat (x + 1) < 10 - unat x"
  by (simp add: word_less_nat_alt unat_word_ariths)

text \<open>The first loop of \<open>SNTP_Connection\<close>: the tries, the result, and the state.\<close>

function (sequential) dns_loop :: "conn_env \<Rightarrow> u8 \<Rightarrow> u8 \<Rightarrow> conn \<Rightarrow> u8 \<times> u8 \<times> conn" where
  "dns_loop env sntp_tries ret c =
     (if sntp_tries < EVSE_SNTP_SYNC_MAX
      then let c = conn_do Dns_query c
           in if \<not> e_dns env (unat sntp_tries)
              then dns_loop env (sntp_tries + 1) 1 (conn_do (Delay EVSE_SNTP_UPDATE_INTERVAL) c)
              else (0, 0, conn_do Sntp_setserver c)
      else (sntp_tries, ret, c))"
  by pat_completeness auto

termination
  by (relation "measure (\<lambda>(env, t, r, c). 9 - unat t)") (auto intro: less_9_next)

declare dns_loop.simps [simp del]

text \<open>The inner loop of the second: it waits for a time, which lwIP sets while the task is delayed.\<close>

function (sequential) update_loop :: "conn_env \<Rightarrow> u8 \<Rightarrow> u8 \<Rightarrow> conn \<Rightarrow> conn" where
  "update_loop env sntp_tries sntp_update_tries c =
     (if sntp_update_tries < EVSE_SNTP_UPDATE_MAX \<and> s_unixTimeBase c = 0
      then let c = conn_do (Delay EVSE_SNTP_UPDATE_INTERVAL) c;
               c = (case e_time env (unat sntp_tries) (unat sntp_update_tries) of
                      None \<Rightarrow> c | Some (sec, ticks) \<Rightarrow> EVSE_Connectivity_SetUnixTime ticks sec c)
           in update_loop env sntp_tries (sntp_update_tries + 1) c
      else c)"
  by pat_completeness auto

termination
  by (relation "measure (\<lambda>(env, t, u, c). 10 - unat u)") (auto intro: less_10_next)

declare update_loop.simps [simp del]

function (sequential) sync_loop :: "conn_env \<Rightarrow> u8 \<Rightarrow> u8 \<Rightarrow> conn \<Rightarrow> u8 \<times> u8 \<times> conn" where
  "sync_loop env sntp_tries ret c =
     (if sntp_tries < EVSE_SNTP_SYNC_MAX
      then let c = conn_do Sntp_stop (update_loop env sntp_tries 0 (conn_do Sntp_init c))
           in if s_unixTimeBase c \<noteq> 0 then (0, 0, c)
              else sync_loop env (sntp_tries + 1) ret c
      else (sntp_tries, ret, c))"
  by pat_completeness auto

termination
  by (relation "measure (\<lambda>(env, t, r, c). 9 - unat t)") (auto intro: less_9_next)

declare sync_loop.simps [simp del]

abbreviation (input) ERR_TIMEOUT :: u8 where "ERR_TIMEOUT \<equiv> - 3"

definition SNTP_Connection :: "conn_env \<Rightarrow> conn \<Rightarrow> conn_outcome" where
  "SNTP_Connection env c =
     (let c = prvConnectivity_SetState EVSE_Network_SNTPRequest c;
          (sntp_tries, ret, c) = dns_loop env 0 0 c;
          (sntp_tries, ret, c) = sync_loop env sntp_tries ret c;
          ret = (if sntp_tries = EVSE_SNTP_SYNC_MAX then ERR_TIMEOUT else ret)
      in if ret \<noteq> 0 then Error_loop (prvConnectivity_SetState EVSE_Network_SNTPError c)
         else Goes_on (prvConnectivity_SetState EVSE_Network_OCPP_Init c))"

section \<open>Checking the network\<close>

definition EVSE_Connectivity_CheckNetwork :: "conn_env \<Rightarrow> conn \<Rightarrow> conn" where
  "EVSE_Connectivity_CheckNetwork env c =
     (let c = conn_do Ping_send c
      in if e_ping_send env
         then if e_ping_recv env
              then let c = c\<lparr>ping_fails := 0\<rparr>
                   in if s_connectionState c = EVSE_Network_NetworkDisconnected
                      then prvConnectivity_SetState EVSE_Network_APConnected c else c
              else let c = c\<lparr>ping_fails := ping_fails c + 1\<rparr>
                   in if sint (ping_fails c) > PING_MAX_FAILS
                      then (prvConnectivity_SetState EVSE_Network_NetworkDisconnected c)\<lparr>ping_fails := 0\<rparr> else c
         else c)"

section \<open>The task\<close>

text \<open>One turn of the endless loop of the task, by the state it finds.\<close>

definition connectivity_pass :: "conn_env \<Rightarrow> conn \<Rightarrow> conn_outcome option" where
  "connectivity_pass env c =
     (case s_connectionState c of
        EVSE_Network_NotConnected \<Rightarrow> Some (ConnectivityModule_Init env c)
      | EVSE_Network_InitComunicationModule \<Rightarrow> ConnectivityStack_Init env c
      | EVSE_Network_InitCommunicationStack \<Rightarrow>
          do { r \<leftarrow> ConnectivityAP_Connect env c; and_then r (\<lambda>c. Some (Goes_on (DHCP_StartClient env c))) }
      | EVSE_Network_APConnected \<Rightarrow> Some (Goes_on (DHCP_StartClient env c))
      | EVSE_Network_DHCPRequest \<Rightarrow> Some (SNTP_Connection env c)
      | EVSE_Network_NetworkDisconnected \<Rightarrow>
          Some (Goes_on (conn_do (Delay 1000) (EVSE_Connectivity_CheckNetwork env (conn_do Ocpp_network_down c))))
      | EVSE_Network_NetworkConnected \<Rightarrow>
          Some (Goes_on (conn_do (Delay 1000) (EVSE_Connectivity_CheckNetwork env c)))
      | EVSE_Network_EdgelockInit \<Rightarrow> Some (Goes_on c)
      | EVSE_Network_WaitEdgelock \<Rightarrow>
          Some (Goes_on (conn_do (Delay 100) (prvConnectivity_SetState EVSE_Network_OCPP_Init c)))
      | EVSE_Network_OCPP_Init \<Rightarrow>
          Some (Goes_on (prvConnectivity_SetState EVSE_Network_NetworkConnected (conn_do Ocpp_init c)))
      | _ \<Rightarrow> Some (Goes_on c))"

section \<open>Interface\<close>

definition EVSE_Connectivity_GetStringFromState :: "connectionState_t \<Rightarrow> string" where
  "EVSE_Connectivity_GetStringFromState connectivityState = networkConnectionStateString connectivityState"

definition EVSE_Connectivity_GetConnectionState :: "conn \<Rightarrow> connectionState_t" where
  "EVSE_Connectivity_GetConnectionState c = s_connectionState c"

definition EVSE_Connectivity_IsConnectedToInternet :: "conn \<Rightarrow> bool" where
  "EVSE_Connectivity_IsConnectedToInternet c \<longleftrightarrow> s_connectionState c = EVSE_Network_NetworkConnected"

definition EVSE_Connectivity_GetIPv4 :: "conn \<Rightarrow> string option" where
  "EVSE_Connectivity_GetIPv4 c = (if s_IPv4 c = [] then None else Some (s_IPv4 c))"

definition EVSE_Connectivity_GetAPName :: "conn \<Rightarrow> string option" where
  "EVSE_Connectivity_GetAPName c =
     (if EVSE_Connectivity_IsConnectedToInternet c then Some (ssid_name (evse_wifi_credentials c)) else None)"

definition EVSE_Connectivity_GetConnectionModule :: "conn \<Rightarrow> connectionModule_t" where
  "EVSE_Connectivity_GetConnectionModule c = connectionModule c"

text \<open>The flag says whether the task can be created; otherwise the function does not return.\<close>

definition EVSE_Connectivity_Init :: "bool \<Rightarrow> conn \<Rightarrow> conn option" where
  "EVSE_Connectivity_Init created c =
     (if conn_is_init c then Some c
      else let c = c\<lparr>connectionModule := EVSE_ConnectionModule_WiFi\<rparr>
           in if \<not> created then None else Some (c\<lparr>conn_is_init := True\<rparr>))"

end
