(* ===== verification/WPL_Props.thy ===== *)
theory WPL_Props
  imports WPL
begin

text \<open>
  The Wi-Fi layer: the text of a scan fits its buffer, no operation is misled by what the driver
  reported before it, and the state that keeps the callback safe is kept by every operation.
\<close>

section \<open>Scan results\<close>

definition scan_ok :: "wlan_scan_result \<Rightarrow> bool" where
  "scan_ok r \<longleftrightarrow> length (scan_ssid r) \<le> 32"

lemma length_show_int:
  assumes "\<bar>i\<bar> < 10 ^ Suc k"
  shows "length (show_int i) \<le> Suc (Suc k)"
proof -
  have "nat \<bar>i\<bar> < 10 ^ Suc k" using assms by (metis nat_less_iff abs_ge_zero of_nat_numeral of_nat_power)
  then have "length (show_nat (nat \<bar>i\<bar>)) \<le> Suc k" by (rule length_show_nat)
  then show ?thesis by (cases "i < 0") (simp_all add: show_int_def le_SucI)
qed

lemma length_hex2 [simp]: "length (hex2 b) = 2"
  by (simp add: hex2_def)

lemma length_scan_security: "length (scan_security r) \<le> 32"
  by (simp add: scan_security_def)

lemma length_json_key [simp]: "length (json_key k) = length k + 3"
  by (simp add: json_key_def)

lemma length_json_entry:
  assumes "scan_ok r"
  shows "length (json_entry r) \<le> 158"
proof -
  have "uint (scan_rssi r) < 2 ^ 8" using uint_bounded[of "scan_rssi r"] by simp
  then have r: "length (show_int (- uint (scan_rssi r))) \<le> Suc (Suc 2)"
    by (intro length_show_int) simp
  have "- (2 ^ 31) \<le> sint (scan_channel r)" "sint (scan_channel r) < 2 ^ 31"
    using sint_ge[of "scan_channel r"] sint_lt[of "scan_channel r"] by simp_all
  then have c: "length (show_int (sint (scan_channel r))) \<le> Suc (Suc 9)"
    by (intro length_show_int) (simp add: abs_if)
  show ?thesis
    using assms r c length_scan_security[of r] by (simp add: json_entry_def scan_ok_def)
qed

text \<open>The text for a list of results, numbered from \<open>i\<close>.\<close>

definition scan_entries :: "nat \<Rightarrow> wlan_scan_result option list \<Rightarrow> string" where
  "scan_entries i rs =
     concat (map (\<lambda>(k, r). case r of None \<Rightarrow> [] | Some r \<Rightarrow> (if k \<noteq> 0 then '','' else []) @ json_entry r) (enumerate i rs))"

definition scan_json :: "wlan_scan_result option list \<Rightarrow> string" where
  "scan_json rs = json_begin @ scan_entries 0 rs @ '']}''"

lemma scan_entries_simps [simp]:
  "scan_entries i [] = []"
  "scan_entries i (None # rs) = scan_entries (Suc i) rs"
  "scan_entries i (Some r # rs) = (if i \<noteq> 0 then '','' else []) @ json_entry r @ scan_entries (Suc i) rs"
  by (simp_all add: scan_entries_def)

lemma length_scan_entries:
  assumes "\<forall>r \<in> set rs. pred_option scan_ok r"
  shows "length (scan_entries i rs) \<le> 159 * length rs"
  using assms
proof (induction rs arbitrary: i)
  case (Cons a rs)
  then have IH: "length (scan_entries (Suc i) rs) \<le> 159 * length rs" by simp
  show ?case
  proof (cases a)
    case (Some r)
    then have "length (json_entry r) \<le> 158" using Cons.prems by (simp add: length_json_entry)
    then show ?thesis using IH Some by (cases "i = 0") simp_all
  qed (use IH in simp)
qed simp

lemma json_loop_eq:
  assumes "\<forall>r \<in> set rs. pred_option scan_ok r" "length js + 159 * length rs + 2 \<le> len"
  shows "json_loop len i rs js = Some (js @ scan_entries i rs)"
  using assms
proof (induction rs arbitrary: i js)
  case (Cons a rs)
  show ?case
  proof (cases a)
    case None
    then show ?thesis using Cons by simp
  next
    case (Some r)
    then have r: "length (json_entry r) \<le> 158" using Cons.prems by (simp add: length_json_entry)
    let ?js = "if i \<noteq> 0 then js @ '','' else js"
    have len: "length ?js \<le> length js + 1" by simp
    then have "length ?js + 1 + length (json_entry r) < len" using r Cons.prems(2) by simp
    moreover have "json_loop len (Suc i) rs (?js @ json_entry r) = Some ((?js @ json_entry r) @ scan_entries (Suc i) rs)"
      using Cons.prems r by (intro Cons.IH) (auto split: if_splits)
    ultimately show ?thesis using Some by (simp add: Let_def)
  qed
qed simp

lemma length_json_begin [simp]: "length json_begin = 13"
  by (simp add: json_begin_def)

lemma scan_length_no_wrap:
  assumes "n * 185 + 15 < (2 :: nat) ^ 32"
  shows "unat (of_nat n * 185 + 15 :: u32) = n * 185 + 15"
proof -
  have "of_nat n * 185 + 15 = (of_nat (n * 185 + 15) :: u32)" by simp
  then show ?thesis using assms by (simp only: unat_of_nat) (simp add: take_bit_eq_mod)
qed

text \<open>
  (C23) The buffer for the text of a scan is long enough whenever there is at least one result: the
  network name of a result has at most 32 characters, and a result then takes at most 159 of the 185
  bytes reserved for it. The text is the one of the reference \<open>scan_json\<close>. Without results the
  terminator is written one byte beyond the buffer, because the 15 bytes reserved for the frame leave
  out the terminator.
\<close>

theorem scan_results_fit:
  assumes "\<forall>r \<in> set rs. pred_option scan_ok r" "length rs * 185 + 15 < 2 ^ 32" "s_wplSyncEvent s = Some b"
  shows "WLP_process_results True rs s =
    (if rs = [] then None
     else Some (s\<lparr>ssids_json := Some (scan_json rs), s_wplSyncEvent := Some (b OR EVENT_BIT WPL_EVENT_SCAN_DONE)\<rparr>))"
proof -
  have len: "unat (of_nat (length rs) * 185 + 15 :: u32) = length rs * 185 + 15"
    using assms(2) by (rule scan_length_no_wrap)
  show ?thesis
  proof (cases "rs = []")
    case True
    then show ?thesis by (simp add: WLP_process_results_def)
  next
    case False
    then have n: "1 \<le> length rs" by (cases rs) auto
    have "json_loop (length rs * 185 + 15) 0 rs json_begin = Some (json_begin @ scan_entries 0 rs)"
      using assms(1) n by (intro json_loop_eq) auto
    moreover have "length (scan_entries 0 rs) \<le> 159 * length rs" using assms(1) by (rule length_scan_entries)
    ultimately show ?thesis
      using False n assms(3) unfolding WLP_process_results_def Let_def len
      by (simp add: set_bits_def scan_json_def)
  qed
qed

text \<open>The separator is left out for the result with number 0 only: when that one cannot be retrieved, the text starts with a separator.\<close>

lemma lost_first_result_leaves_separator:
  "scan_json [None, Some r] = json_begin @ '','' @ json_entry r @ '']}''"
  by (simp add: scan_json_def)

definition sample_result :: wlan_scan_result where
  "sample_result = \<lparr>scan_ssid = ''evse'', scan_bssid = [0, 17, 34, 51, 68, 255], scan_channel = 11, scan_rssi = 60,
     scan_wpa2_entp = False, scan_wep = False, scan_wpa = False, scan_wpa2 = True, scan_wpa3_sae = False\<rparr>"

theorem scan_results_fit_witness:
  "WLP_process_results True [Some sample_result] (wpl_boot\<lparr>s_wplSyncEvent := Some 0\<rparr>) =
     Some (wpl_boot\<lparr>ssids_json := Some (scan_json [Some sample_result]), s_wplSyncEvent := Some (EVENT_BIT WPL_EVENT_SCAN_DONE)\<rparr>)
   \<and> WLP_process_results True [] (wpl_boot\<lparr>s_wplSyncEvent := Some 0\<rparr>) = None"
  using scan_results_fit[of "[Some sample_result]" "wpl_boot\<lparr>s_wplSyncEvent := Some 0\<rparr>" 0]
    scan_results_fit[of "[]" "wpl_boot\<lparr>s_wplSyncEvent := Some 0\<rparr>" 0]
  by (simp add: scan_ok_def sample_result_def)

section \<open>Events of the past\<close>

text \<open>
  Two states that differ in the bits of the event group only, and not in those of the group \<open>g\<close>.
\<close>

definition agree :: "u32 \<Rightarrow> wpl \<Rightarrow> wpl \<Rightarrow> bool" where
  "agree g s t \<longleftrightarrow> (\<exists>b c. s_wplSyncEvent s = Some b \<and> t = s\<lparr>s_wplSyncEvent := Some c\<rparr> \<and> b AND g = c AND g)"

lemma agreeE:
  assumes "agree g s t"
  obtains b c where "s_wplSyncEvent s = Some b" "t = s\<lparr>s_wplSyncEvent := Some c\<rparr>" "b AND g = c AND g"
  using assms unfolding agree_def by blast

lemma agree_weaken: "agree g s t \<Longrightarrow> agree 0 s t"
  by (auto simp: agree_def)

lemma and_or_agree: "b AND g = c AND g \<Longrightarrow> (b OR m) AND g = (c OR m) AND (g :: u32)"
  by (simp add: bit.conj_disj_distrib2)

lemma agree_set_bits: "agree g s t \<Longrightarrow> rel_option (agree g) (set_bits m s) (set_bits m t)"
  by (cases s) (clarsimp simp: set_bits_def agree_def, erule and_or_agree)

lemma agree_do: "agree g s t \<Longrightarrow> agree g (wpl_do c s) (wpl_do c t)"
  by (cases s) (clarsimp simp: agree_def wpl_do_def)

lemma agree_json: "agree g s t \<Longrightarrow> agree g (s\<lparr>ssids_json := j\<rparr>) (t\<lparr>ssids_json := j\<rparr>)"
  by (cases s) (clarsimp simp: agree_def)

lemma agree_fields:
  assumes "agree g s t"
  shows "s_wplState t = s_wplState s" "s_wplStaConnected t = s_wplStaConnected s" "s_linkLostCb t = s_linkLostCb s"
    "s_wplUapActivated t = s_wplUapActivated s" "ssids_json t = ssids_json s" "wpl_calls t = wpl_calls s"
  using assms by (auto simp: agree_def)

lemma agree_link_cb: "agree g s t \<Longrightarrow> rel_option (agree g) (call_link_cb b s) (call_link_cb b t)"
  by (auto simp: call_link_cb_def agree_do agree_fields)

lemma rel_option_bind_agree:
  assumes "rel_option R x y" "\<And>s t. R s t \<Longrightarrow> rel_option Q (f s) (k t)"
  shows "rel_option Q (x \<bind> f) (y \<bind> k)"
  using assms by (auto simp: option_rel_Some1 option_rel_Some2 elim!: option.rel_cases)

lemma agree_event_callback:
  assumes "agree g s t"
  shows "rel_option (agree g) (wlan_event_callback r s) (wlan_event_callback r t)"
  unfolding wlan_event_callback_def
proof (rule rel_option_bind_agree)
  show "rel_option (agree g)
     (if s_wplState s \<noteq> WPL_NOT_INITIALIZED \<and> WPL_map_event r \<noteq> WPL_EVENT_UNUSED
      then set_bits (EVENT_BIT (WPL_map_event r)) s else Some s)
     (if s_wplState t \<noteq> WPL_NOT_INITIALIZED \<and> WPL_map_event r \<noteq> WPL_EVENT_UNUSED
      then set_bits (EVENT_BIT (WPL_map_event r)) t else Some t)"
    using assms by (simp add: agree_fields agree_set_bits)
qed (cases r; simp add: agree_link_cb)

lemma agree_process_results:
  assumes "agree g s t"
  shows "rel_option (agree g) (WLP_process_results m rs s) (WLP_process_results m rs t)"
proof -
  have j: "rel_option (agree g) (set_bits b (s\<lparr>ssids_json := j\<rparr>)) (set_bits b (t\<lparr>ssids_json := j\<rparr>))" for b j
    using assms by (intro agree_set_bits agree_json)
  show ?thesis
    by (auto simp: WLP_process_results_def Let_def j split: option.splits bind_splits)
qed

lemma agree_deliver: "agree g s t \<Longrightarrow> rel_option (agree g) (deliver e s) (deliver e t)"
  by (cases e) (simp_all add: deliver_def agree_event_callback agree_process_results)

lemma and_self_not: "b AND NOT g AND g = 0" "(b AND NOT g) AND g = (0 :: u32)"
  by (simp_all add: bit_eq_iff bit_simps)

lemma agree_update: "x AND g = y AND g \<Longrightarrow> agree g (s\<lparr>s_wplSyncEvent := Some x\<rparr>) (s\<lparr>s_wplSyncEvent := Some y\<rparr>)"
  by (cases s) (simp add: agree_def)

text \<open>A wait for a group gives the same events and, within the group, the same bits.\<close>

definition agree_wait :: "u32 \<Rightarrow> u32 \<times> wlan_event list \<times> wpl \<Rightarrow> u32 \<times> wlan_event list \<times> wpl \<Rightarrow> bool" where
  "agree_wait g x y \<longleftrightarrow> fst x AND g = fst y AND g \<and> fst (snd x) = fst (snd y) \<and> agree g (snd (snd x)) (snd (snd y))"

lemma agree_wait_bits:
  assumes "agree g s t"
  shows "rel_option (agree_wait g) (wait_bits g es s) (wait_bits g es t)"
  using assms
proof (induction es arbitrary: s t)
  case Nil
  then obtain b c where "s_wplSyncEvent s = Some b" "t = s\<lparr>s_wplSyncEvent := Some c\<rparr>" "b AND g = c AND g" by (rule agreeE)
  then show ?case
    by (simp add: wait_bits.simps[of g "[]"] agree_wait_def agree_update and_self_not)
next
  case (Cons e es)
  then obtain b c where bc: "s_wplSyncEvent s = Some b" "t = s\<lparr>s_wplSyncEvent := Some c\<rparr>" "b AND g = c AND g"
    using agreeE by blast
  have d: "rel_option (agree g) (deliver e s) (deliver e t)" using Cons.prems by (rule agree_deliver)
  show ?case
  proof (cases "b AND g = 0")
    case True
    then show ?thesis using bc d Cons.IH
      by (auto simp: wait_bits.simps[of g "e # es"] split: option.splits elim!: option.rel_cases)
  next
    case False
    then show ?thesis using bc
      by (simp add: wait_bits.simps[of g "e # es"] agree_wait_def agree_update and_self_not)
  qed
qed

lemma agree_clear_bits: "agree h s t \<Longrightarrow> rel_option (agree g) (clear_bits g s) (clear_bits g t)"
  by (cases s) (clarsimp simp: clear_bits_def agree_def and_self_not)

lemma has_bit_agree:
  assumes "b AND g = c AND g" "EVENT_BIT e AND g = EVENT_BIT e"
  shows "has_bit b e = has_bit c e"
proof -
  have x: "x AND EVENT_BIT e = (x AND g) AND EVENT_BIT e" for x
    using assms(2) by (metis and.assoc and.commute)
  show ?thesis unfolding has_bit_def x[of b] x[of c] assms(1) ..
qed

lemmas group_defs =
  WPL_SYNC_INIT_GROUP_def WPL_SYNC_CONNECT_GROUP_def WPL_SYNC_DISCONNECT_GROUP_def WPL_SYNC_UAP_START_GROUP_def
  WPL_SYNC_UAP_STOP_GROUP_def WPL_SYNC_SCAN_GROUP_def EVENT_BIT_def

lemma agree_waitE:
  assumes "agree_wait g x y"
  obtains b c es s t where "x = (b, es, s)" "y = (c, es, t)" "b AND g = c AND g" "agree g s t"
  using assms by (cases x; cases y) (auto simp: agree_wait_def)

text \<open>The same answer, the same events left, and the same state but for the bits.\<close>

definition same_outcome :: "wpl_ret_t \<times> wlan_event list \<times> wpl \<Rightarrow> wpl_ret_t \<times> wlan_event list \<times> wpl \<Rightarrow> bool" where
  "same_outcome x y \<longleftrightarrow> fst x = fst y \<and> fst (snd x) = fst (snd y) \<and> agree 0 (snd (snd x)) (snd (snd y))"

lemma same_outcomeI: "agree g s t \<Longrightarrow> same_outcome (r, es, s) (r, es, t)"
  by (simp add: same_outcome_def agree_weaken)

lemma same_outcome_iff [simp]: "same_outcome (r, es, s) (q, fs, t) \<longleftrightarrow> r = q \<and> es = fs \<and> agree 0 s t"
  by (simp add: same_outcome_def)

lemma same_outcomeE:
  assumes "same_outcome x y"
  obtains r es s t where "x = (r, es, s)" "y = (r, es, t)" "agree 0 s t"
  using assms by (cases x; cases y) (auto simp: same_outcome_def)

lemma rel_option_bind:
  assumes "rel_option R x y" "\<And>a b. R a b \<Longrightarrow> rel_option Q (f a) (k b)"
  shows "rel_option Q (x \<bind> f) (y \<bind> k)"
  using assms by (auto elim!: option.rel_cases)

text \<open>What the operations have in common: a group is cleared, the driver is called, a group is waited for.\<close>

definition request :: "u32 \<Rightarrow> u32 \<Rightarrow> wlan_call \<Rightarrow> bool \<Rightarrow> (u32 \<Rightarrow> wpl_ret_t) \<Rightarrow> wlan_event list \<Rightarrow> wpl
    \<Rightarrow> (wpl_ret_t \<times> wlan_event list \<times> wpl) option" where
  "request g h c accepted verdict es s =
     clear_bits g s \<bind> (\<lambda>s.
       if \<not> accepted then Some (WPLRET_FAIL, es, wpl_do c s)
       else wait_bits h es (wpl_do c s) \<bind> (\<lambda>(b, es, s). Some (verdict b, es, s)))"

text \<open>
  The contract of such an operation: its verdict reads the bits of the group it waits for, which it has
  cleared. It then ends the same way whatever the bits were before.
\<close>

locale sync_group =
  fixes g :: u32 and verdict :: "u32 \<Rightarrow> wpl_ret_t"
  assumes verdict_of_group: "b AND g = c AND g \<Longrightarrow> verdict b = verdict c"
begin

lemma ignores_past:
  assumes "agree h s t"
  shows "rel_option same_outcome (request g g c accepted verdict es s) (request g g c accepted verdict es t)"
  unfolding request_def
proof (rule rel_option_bind[OF agree_clear_bits[OF assms]])
  fix s t :: wpl
  assume "agree g s t"
  then have d: "agree g (wpl_do c s) (wpl_do c t)" by (rule agree_do)
  show "rel_option same_outcome
     (if \<not> accepted then Some (WPLRET_FAIL, es, wpl_do c s)
      else wait_bits g es (wpl_do c s) \<bind> (\<lambda>(b, es, s). Some (verdict b, es, s)))
     (if \<not> accepted then Some (WPLRET_FAIL, es, wpl_do c t)
      else wait_bits g es (wpl_do c t) \<bind> (\<lambda>(b, es, s). Some (verdict b, es, s)))"
  proof (cases accepted)
    case True
    have "rel_option same_outcome (wait_bits g es (wpl_do c s) \<bind> (\<lambda>(b, es, s). Some (verdict b, es, s)))
       (wait_bits g es (wpl_do c t) \<bind> (\<lambda>(b, es, s). Some (verdict b, es, s)))"
      by (rule rel_option_bind[OF agree_wait_bits[OF d]])
         (clarsimp elim!: agree_waitE, drule verdict_of_group, simp add: agree_weaken)
    then show ?thesis using True by simp
  qed (use d in \<open>simp add: agree_weaken\<close>)
qed

end

definition leave_verdict :: "u32 \<Rightarrow> wpl_ret_t" where
  "leave_verdict b = (if has_bit b WPL_EVENT_USER_DISCONNECT then WPLRET_SUCCESS else WPLRET_TIMEOUT)"

lemma Leave_request:
  "WPL_Leave env es s =
     (let left = (\<lambda>s. s\<lparr>s_wplStaConnected := False\<rparr>)
      in if r_connection_state env = Some WLAN_DISCONNECTED then Some (WPLRET_SUCCESS, es, left s)
         else if r_connection_state env = None then Some (WPLRET_FAIL, es, left s)
         else if s_wplState s \<noteq> WPL_STARTED then Some (WPLRET_NOT_READY, es, left s)
         else request WPL_SYNC_DISCONNECT_GROUP WPL_SYNC_DISCONNECT_GROUP Wlan_disconnect (r_disconnect env) leave_verdict es s
           \<bind> (\<lambda>(r, es, s). Some (r, es, left s)))"
  by (auto simp: WPL_Leave_def request_def leave_verdict_def Let_def split: bind_splits)

lemma leave_verdict_agree: "b AND WPL_SYNC_DISCONNECT_GROUP = c AND WPL_SYNC_DISCONNECT_GROUP \<Longrightarrow> leave_verdict b = leave_verdict c"
  unfolding leave_verdict_def using has_bit_agree[of b WPL_SYNC_DISCONNECT_GROUP c WPL_EVENT_USER_DISCONNECT]
  by (simp add: WPL_SYNC_DISCONNECT_GROUP_def and.idem)

interpretation leave_sync: sync_group WPL_SYNC_DISCONNECT_GROUP leave_verdict
  by unfold_locales (rule leave_verdict_agree)

lemma agree_left: "agree g s t \<Longrightarrow> agree g (s\<lparr>s_wplStaConnected := b\<rparr>) (t\<lparr>s_wplStaConnected := b\<rparr>)"
  by (cases s) (clarsimp simp: agree_def)

lemma agree_Leave:
  assumes "agree h s t"
  shows "rel_option same_outcome (WPL_Leave env es s) (WPL_Leave env es t)"
proof -
  let ?left = "\<lambda>(r, es, s). Some (r, es, s\<lparr>s_wplStaConnected := False\<rparr>)"
  have "rel_option same_outcome
      (request WPL_SYNC_DISCONNECT_GROUP WPL_SYNC_DISCONNECT_GROUP Wlan_disconnect (r_disconnect env) leave_verdict es s \<bind> ?left)
      (request WPL_SYNC_DISCONNECT_GROUP WPL_SYNC_DISCONNECT_GROUP Wlan_disconnect (r_disconnect env) leave_verdict es t \<bind> ?left)"
    by (rule rel_option_bind[OF leave_sync.ignores_past[OF assms]])
       (clarsimp elim!: same_outcomeE, erule agree_left)
  moreover have "same_outcome (r, es, s\<lparr>s_wplStaConnected := False\<rparr>) (r, es, t\<lparr>s_wplStaConnected := False\<rparr>)" for r
    using agree_weaken[OF agree_left[OF assms]] by simp
  ultimately show ?thesis
    using agree_fields(1)[OF assms] by (simp add: Leave_request Let_def)
qed

lemma Join_request:
  "WPL_Join env label' es s =
     (if bad_label label' then Some (WPLRET_BAD_PARAM, es, s)
      else if s_wplState s \<noteq> WPL_STARTED \<or> s_wplStaConnected s then Some (WPLRET_NOT_READY, es, s)
      else request WPL_SYNC_CONNECT_GROUP WPL_SYNC_CONNECT_GROUP (Wlan_connect label') (r_connect env) join_result es s
        \<bind> (\<lambda>(r, es, s).
          if \<not> r_connect env then Some (r, es, s)
          else if r = WPLRET_SUCCESS then Some (r, es, s\<lparr>s_wplStaConnected := True\<rparr>)
          else WPL_Leave env es s \<bind> (\<lambda>(_, es, s). Some (r, es, s))))"
  by (auto simp: WPL_Join_def request_def Let_def split: bind_splits)

lemma join_result_agree: "b AND WPL_SYNC_CONNECT_GROUP = c AND WPL_SYNC_CONNECT_GROUP \<Longrightarrow> join_result b = join_result c"
proof -
  assume a: "b AND WPL_SYNC_CONNECT_GROUP = c AND WPL_SYNC_CONNECT_GROUP"
  have "has_bit b e = has_bit c e" if "e \<in> {3, 4, 5, 6, 7}" for e
    using a by (rule has_bit_agree) (use that in \<open>auto simp: group_defs and.idem\<close>)
  then show ?thesis by (simp add: join_result_def)
qed

interpretation join_sync: sync_group WPL_SYNC_CONNECT_GROUP join_result
  by unfold_locales (rule join_result_agree)

lemma agree_Join:
  assumes "agree h s t"
  shows "rel_option same_outcome (WPL_Join env l es s) (WPL_Join env l es t)"
proof -
  let ?k = "\<lambda>(r, es, s). if \<not> r_connect env then Some (r, es, s)
      else if r = WPLRET_SUCCESS then Some (r, es, s\<lparr>s_wplStaConnected := True\<rparr>)
      else WPL_Leave env es s \<bind> (\<lambda>(_, es, s). Some (r, es, s))"
  have k: "rel_option same_outcome (?k x) (?k y)" if xy: "same_outcome x y" for x y
  proof -
    obtain r es s t where x: "x = (r, es, s)" "y = (r, es, t)" and a: "agree 0 s t" using xy by (rule same_outcomeE)
    have "rel_option same_outcome (WPL_Leave env es s \<bind> (\<lambda>(_, es, s). Some (r, es, s)))
        (WPL_Leave env es t \<bind> (\<lambda>(_, es, s). Some (r, es, s)))"
      by (rule rel_option_bind[OF agree_Leave[OF a]]) (clarsimp elim!: same_outcomeE)
    then show ?thesis using x a by (simp add: agree_left)
  qed
  have "rel_option same_outcome
      (request WPL_SYNC_CONNECT_GROUP WPL_SYNC_CONNECT_GROUP (Wlan_connect l) (r_connect env) join_result es s \<bind> ?k)
      (request WPL_SYNC_CONNECT_GROUP WPL_SYNC_CONNECT_GROUP (Wlan_connect l) (r_connect env) join_result es t \<bind> ?k)"
    by (rule rel_option_bind[OF join_sync.ignores_past[OF assms]]) (simp_all add: k)
  then show ?thesis
    using assms agree_fields(1,2)[OF assms] by (simp add: Join_request agree_weaken)
qed

definition start_verdict :: "u32 \<Rightarrow> wpl_ret_t" where
  "start_verdict b = (if has_bit b WPL_EVENT_INITIALIZED then WPLRET_SUCCESS
     else if has_bit b WPL_EVENT_INITIALIZATION_FAILED then WPLRET_FAIL else WPLRET_TIMEOUT)"

lemma Start_request:
  "WPL_Start env cb es s =
     (if s_wplState s \<noteq> WPL_INITIALIZED then Some (WPLRET_NOT_READY, es, s)
      else request WPL_SYNC_INIT_GROUP WPL_SYNC_INIT_GROUP Wlan_start (r_start env) start_verdict es s
        \<bind> (\<lambda>(r, es, s). Some (r, es, if r = WPLRET_SUCCESS then s\<lparr>s_linkLostCb := cb, s_wplState := WPL_STARTED\<rparr> else s)))"
  by (auto simp: WPL_Start_def request_def start_verdict_def Let_def split: bind_splits)

lemma start_verdict_agree: "b AND WPL_SYNC_INIT_GROUP = c AND WPL_SYNC_INIT_GROUP \<Longrightarrow> start_verdict b = start_verdict c"
proof -
  assume a: "b AND WPL_SYNC_INIT_GROUP = c AND WPL_SYNC_INIT_GROUP"
  have "has_bit b e = has_bit c e" if "e \<in> {1, 2}" for e
    using a by (rule has_bit_agree) (use that in \<open>auto simp: group_defs and.idem\<close>)
  then show ?thesis by (simp add: start_verdict_def)
qed

interpretation start_sync: sync_group WPL_SYNC_INIT_GROUP start_verdict
  by unfold_locales (rule start_verdict_agree)

lemma agree_Start:
  assumes "agree h s t"
  shows "rel_option same_outcome (WPL_Start env cb es s) (WPL_Start env cb es t)"
proof -
  have u: "agree g s t \<Longrightarrow> agree g (s\<lparr>s_linkLostCb := cb, s_wplState := WPL_STARTED\<rparr>) (t\<lparr>s_linkLostCb := cb, s_wplState := WPL_STARTED\<rparr>)" for g s t
    by (cases s) (clarsimp simp: agree_def)
  let ?k = "\<lambda>(r, es, s). Some (r, es, if r = WPLRET_SUCCESS then s\<lparr>s_linkLostCb := cb, s_wplState := WPL_STARTED\<rparr> else s)"
  have "rel_option same_outcome (request WPL_SYNC_INIT_GROUP WPL_SYNC_INIT_GROUP Wlan_start (r_start env) start_verdict es s \<bind> ?k)
      (request WPL_SYNC_INIT_GROUP WPL_SYNC_INIT_GROUP Wlan_start (r_start env) start_verdict es t \<bind> ?k)"
    by (rule rel_option_bind[OF start_sync.ignores_past[OF assms]])
       (auto elim!: same_outcomeE simp: u)
  then show ?thesis
    using assms agree_fields(1)[OF assms] by (simp add: Start_request agree_weaken)
qed

definition start_ap_verdict :: "u32 \<Rightarrow> wpl_ret_t" where
  "start_ap_verdict b = (if has_bit b WPL_EVENT_UAP_SUCCESS then WPLRET_SUCCESS
     else if has_bit b WPL_EVENT_UAP_START_FAILED then WPLRET_FAIL else WPLRET_TIMEOUT)"

definition start_ap_rest :: "wlan_env \<Rightarrow> string \<Rightarrow> wpl_ret_t \<times> wlan_event list \<times> wpl \<Rightarrow> (wpl_ret_t \<times> wlan_event list \<times> wpl) option" where
  "start_ap_rest env name = (\<lambda>(r, es, s).
     Some (if r \<noteq> WPLRET_SUCCESS then (r, es, wpl_do (Wlan_remove_network name) s)
           else if \<not> r_dhcp_start env
           then (WPLRET_FAIL, es, wpl_do (Wlan_remove_network name) (wpl_do (Wlan_stop_network name) (wpl_do Dhcp_server_start s)))
           else (WPLRET_SUCCESS, es, (wpl_do Dhcp_server_start s)\<lparr>s_wplUapActivated := True\<rparr>)))"

lemma Start_AP_request:
  "WPL_Start_AP env ssid pw chan es s =
     (let net = uap_network env ssid pw chan; s' = wpl_do (Wlan_add_network net) s
      in if bad_ssid ssid \<or> bad_password pw then Some (WPLRET_BAD_PARAM, es, s)
         else if s_wplState s \<noteq> WPL_STARTED \<or> s_wplUapActivated s then Some (WPLRET_NOT_READY, es, s)
         else if \<not> r_add_network env then Some (WPLRET_FAIL, es, s')
         else request WPL_SYNC_UAP_START_GROUP WPL_SYNC_UAP_START_GROUP (Wlan_start_network (net_name net)) (r_start_network env) start_ap_verdict es s'
           \<bind> start_ap_rest env (net_name net))"
proof -
  have r: "(clear_bits g s1 \<bind> (\<lambda>s. (if \<not> ok then Some (WPLRET_FAIL, es, wpl_do c s)
       else wait_bits g es (wpl_do c s) \<bind> (\<lambda>(b, es, s). Some (v b, es, s))) \<bind> k)) = request g g c ok v es s1 \<bind> k"
    for g s1 ok c v k by (auto simp: request_def split: bind_splits)
  show ?thesis
    unfolding WPL_Start_AP_def Let_def r[symmetric] start_ap_verdict_def start_ap_rest_def
    by (auto split: bind_splits)
qed

lemma start_ap_verdict_agree:
  "b AND WPL_SYNC_UAP_START_GROUP = c AND WPL_SYNC_UAP_START_GROUP \<Longrightarrow> start_ap_verdict b = start_ap_verdict c"
proof -
  assume a: "b AND WPL_SYNC_UAP_START_GROUP = c AND WPL_SYNC_UAP_START_GROUP"
  have "has_bit b e = has_bit c e" if "e \<in> {9, 10}" for e
    using a by (rule has_bit_agree) (use that in \<open>auto simp: group_defs and.idem\<close>)
  then show ?thesis by (simp add: start_ap_verdict_def)
qed

interpretation start_ap_sync: sync_group WPL_SYNC_UAP_START_GROUP start_ap_verdict
  by unfold_locales (rule start_ap_verdict_agree)

lemma agree_Start_AP:
  assumes "agree h s t"
  shows "rel_option same_outcome (WPL_Start_AP env ssid pw chan es s) (WPL_Start_AP env ssid pw chan es t)"
proof -
  let ?net = "uap_network env ssid pw chan"
  have u: "agree g s t \<Longrightarrow> agree g (s\<lparr>s_wplUapActivated := b\<rparr>) (t\<lparr>s_wplUapActivated := b\<rparr>)" for g s t b
    by (cases s) (clarsimp simp: agree_def)
  have k: "rel_option same_outcome (start_ap_rest env n x) (start_ap_rest env n y)" if "same_outcome x y" for x y n
    using that by (auto elim!: same_outcomeE simp: start_ap_rest_def agree_do u)
  have d: "agree h (wpl_do (Wlan_add_network ?net) s) (wpl_do (Wlan_add_network ?net) t)" using assms by (rule agree_do)
  have "rel_option same_outcome
      (request WPL_SYNC_UAP_START_GROUP WPL_SYNC_UAP_START_GROUP (Wlan_start_network (net_name ?net)) (r_start_network env) start_ap_verdict es
        (wpl_do (Wlan_add_network ?net) s) \<bind> start_ap_rest env (net_name ?net))
      (request WPL_SYNC_UAP_START_GROUP WPL_SYNC_UAP_START_GROUP (Wlan_start_network (net_name ?net)) (r_start_network env) start_ap_verdict es
        (wpl_do (Wlan_add_network ?net) t) \<bind> start_ap_rest env (net_name ?net))"
    by (rule rel_option_bind[OF start_ap_sync.ignores_past[OF d]]) (simp_all add: k)
  then show ?thesis
    using agree_fields(1,4)[OF assms] agree_weaken[OF assms] agree_weaken[OF d]
    by (simp add: Start_AP_request Let_def)
qed

text \<open>
  Starting the layer, joining and leaving a network and starting the access point do not depend
  on what the driver reported before: whatever bits the event group holds when the operation begins,
  it ends with the same answer, after the same events, and in the same state but for the bits.
\<close>

theorem past_events_are_ignored:
  assumes "s_wplSyncEvent s = Some b"
  shows "rel_option same_outcome (WPL_Start env cb es s) (WPL_Start env cb es (s\<lparr>s_wplSyncEvent := Some c\<rparr>))
    \<and> rel_option same_outcome (WPL_Join env l es s) (WPL_Join env l es (s\<lparr>s_wplSyncEvent := Some c\<rparr>))
    \<and> rel_option same_outcome (WPL_Leave env es s) (WPL_Leave env es (s\<lparr>s_wplSyncEvent := Some c\<rparr>))
    \<and> rel_option same_outcome (WPL_Start_AP env ssid pw chan es s) (WPL_Start_AP env ssid pw chan es (s\<lparr>s_wplSyncEvent := Some c\<rparr>))"
proof -
  have a: "agree 0 s (s\<lparr>s_wplSyncEvent := Some c\<rparr>)" using assms by (auto simp: agree_def)
  show ?thesis
    by (intro conjI agree_Start[OF a] agree_Join[OF a] agree_Leave[OF a] agree_Start_AP[OF a])
qed

definition started :: wpl where
  "started = wpl_boot\<lparr>s_wplState := WPL_STARTED, s_linkLostCb := True, s_wplSyncEvent := Some 0\<rparr>"

definition willing_env :: wlan_env where
  "willing_env = \<lparr>r_event_group = True, r_init = True, r_start = True, r_stop = True, r_add_network = True,
     r_remove_network = True, r_start_network = True, r_stop_network = True, r_dhcp_start = True, r_scan = True,
     r_connect = True, r_disconnect = True, r_connection_state = Some WLAN_CONNECTED, r_address = None,
     r_uap_address = None, r_uap_network = network_zero\<rparr>"

text \<open>A report of success from an earlier attempt does not make an attempt that fails look successful.\<close>

theorem past_events_are_ignored_witness:
  "map_option fst (WPL_Join willing_env ''home'' [Reason WLAN_REASON_NETWORK_NOT_FOUND, Reason WLAN_REASON_USER_DISCONNECT]
     (started\<lparr>s_wplSyncEvent := Some (EVENT_BIT WPL_EVENT_SUCCESS)\<rparr>)) = Some WPLRET_NOT_FOUND"
proof -
  let ?es = "[Reason WLAN_REASON_NETWORK_NOT_FOUND, Reason WLAN_REASON_USER_DISCONNECT]"
  have r: "rel_option same_outcome (WPL_Join willing_env ''home'' ?es started)
      (WPL_Join willing_env ''home'' ?es (started\<lparr>s_wplSyncEvent := Some (EVENT_BIT WPL_EVENT_SUCCESS)\<rparr>))"
    using past_events_are_ignored[of started 0] by (simp add: started_def)
  have "map_option fst (WPL_Join willing_env ''home'' ?es started) = Some WPLRET_NOT_FOUND"
    by (simp add: WPL_Join_def WPL_Leave_def started_def wpl_boot_def willing_env_def bad_label_def clear_bits_def wait_bits.simps deliver_def
        wlan_event_callback_def set_bits_def call_link_cb_def wpl_do_def join_result_def has_bit_def group_defs)
  then show ?thesis using r by (auto elim!: option.rel_cases same_outcomeE)
qed

text \<open>
  \<open>WPL_Stop_AP\<close> clears the group of the start instead of its own, so it does depend on them: a report
  of the past makes it remove the network without waiting for the stop.
\<close>

lemma stop_ap_trusts_a_past_event:
  assumes "s_wplState s = WPL_STARTED" "s_wplUapActivated s" "s_wplSyncEvent s = Some (EVENT_BIT WPL_EVENT_UAP_STOPPED)"
    "r_stop_network env" "r_remove_network env"
  shows "\<exists>s'. WPL_Stop_AP env es s = Some (WPLRET_SUCCESS, es, s') \<and> \<not> s_wplUapActivated s'"
    and "WPL_Stop_AP env [] (s\<lparr>s_wplSyncEvent := Some 0\<rparr>) = None"
  using assms
  by (simp_all add: WPL_Stop_AP_def clear_bits_def wpl_do_def wait_bits.simps has_bit_def group_defs Let_def)

section \<open>Well-formed states\<close>

text \<open>
  Once initialized there is an event group, and once started there is a callback, which the driver's
  callback calls without a test.
\<close>

definition wpl_ok :: "wpl \<Rightarrow> bool" where
  "wpl_ok s \<longleftrightarrow> (s_wplState s \<noteq> WPL_NOT_INITIALIZED \<longrightarrow> s_wplSyncEvent s \<noteq> None) \<and>
     (s_wplState s = WPL_STARTED \<longrightarrow> s_linkLostCb s) \<and>
     (s_wplStaConnected s \<or> s_wplUapActivated s \<longrightarrow> s_wplState s \<noteq> WPL_NOT_INITIALIZED \<and> s_linkLostCb s)"

text \<open>What every delivery, and so every wait, keeps.\<close>

definition frame :: "wpl \<Rightarrow> wpl_state_t \<times> bool \<times> bool \<times> bool \<times> bool" where
  "frame s = (s_wplState s, s_wplStaConnected s, s_wplUapActivated s, s_linkLostCb s, s_wplSyncEvent s = None)"

lemma wpl_ok_frame: "frame t = frame s \<Longrightarrow> wpl_ok t = wpl_ok s"
  by (simp add: wpl_ok_def frame_def)

lemma frame_do [simp]: "frame (wpl_do c s) = frame s"
  by (simp add: frame_def wpl_do_def)

lemma frame_set_bits: "set_bits b s = Some t \<Longrightarrow> frame t = frame s"
  by (auto simp: set_bits_def frame_def split: bind_splits)

lemma frame_clear_bits: "clear_bits b s = Some t \<Longrightarrow> frame t = frame s"
  by (auto simp: clear_bits_def frame_def split: bind_splits)

lemma event_callbackE:
  assumes "wlan_event_callback r s = Some t"
  obtains u where "(if s_wplState s \<noteq> WPL_NOT_INITIALIZED \<and> WPL_map_event r \<noteq> WPL_EVENT_UNUSED
      then set_bits (EVENT_BIT (WPL_map_event r)) s else Some s) = Some u"
    "u = t \<or> (\<exists>b. call_link_cb b u = Some t)"
  using assms unfolding wlan_event_callback_def bind_eq_Some_conv by (cases r) auto

lemma frame_deliver:
  assumes "deliver e s = Some t"
  shows "frame t = frame s"
proof -
  have cb: "call_link_cb b s = Some t \<Longrightarrow> frame t = frame s" for b s t
    by (auto simp: call_link_cb_def split: if_splits)
  have ev: "frame t = frame s" if "wlan_event_callback r s = Some t" for r
  proof -
    obtain u where u: "(if s_wplState s \<noteq> WPL_NOT_INITIALIZED \<and> WPL_map_event r \<noteq> WPL_EVENT_UNUSED
          then set_bits (EVENT_BIT (WPL_map_event r)) s else Some s) = Some u"
      and t: "u = t \<or> (\<exists>b. call_link_cb b u = Some t)"
      using \<open>wlan_event_callback r s = Some t\<close> by (rule event_callbackE)
    have "frame u = frame s" using u by (auto split: if_splits dest: frame_set_bits)
    then show ?thesis using t cb by metis
  qed
  have "frame (s\<lparr>ssids_json := j\<rparr>) = frame s" for j by (simp add: frame_def)
  then have "WLP_process_results m rs s = Some t \<Longrightarrow> frame t = frame s" for m rs
    using frame_set_bits by (auto simp: WLP_process_results_def Let_def split: if_splits bind_splits)
  then show ?thesis using assms ev by (cases e) (auto simp: deliver_def)
qed

lemma frame_wait_bits: "wait_bits g es s = Some (b, fs, t) \<Longrightarrow> frame t = frame s"
proof (induction g es s rule: wait_bits.induct)
  case (1 g es s)
  obtain x where x: "s_wplSyncEvent s = Some x"
    using 1(2) by (auto simp: wait_bits.simps[of g es] split: option.splits)
  show ?case
  proof (cases "x AND g = 0")
    case True
    then obtain e es' u where u: "es = e # es'" "deliver e s = Some u" "wait_bits g es' u = Some (b, fs, t)"
      using 1(2) x by (auto simp: wait_bits.simps[of g es] split: list.splits option.splits)
    then show ?thesis using 1(1)[OF x] True frame_deliver[of e s u] by simp
  next
    case False
    then show ?thesis using 1(2) x by (auto simp: wait_bits.simps[of g es] frame_def)
  qed
qed

lemma frame_request: "request g h c a v es s = Some (r, fs, t) \<Longrightarrow> frame t = frame s"
  unfolding request_def
  by (auto split: bind_splits if_splits dest!: frame_clear_bits frame_wait_bits)

lemma wpl_ok_Init: "wpl_ok s \<Longrightarrow> wpl_ok (snd (WPL_Init env s))"
  by (auto simp: WPL_Init_def wpl_ok_def wpl_do_def Let_def)

lemma wpl_ok_Stop: "wpl_ok s \<Longrightarrow> wpl_ok (snd (WPL_Stop env s))"
  by (auto simp: WPL_Stop_def wpl_ok_def wpl_do_def Let_def)

lemma wpl_ok_same_calls: "wpl_ok (wpl_do c s) = wpl_ok s"
  by (rule wpl_ok_frame) simp

lemma wpl_ok_added: "wpl_ok s \<Longrightarrow> wpl_ok (snd (WPL_AddNetworkWithSecurity env ssid pw l sec s))"
  by (simp add: WPL_AddNetworkWithSecurity_def wpl_ok_same_calls Let_def)

lemma wpl_ok_removed: "wpl_ok s \<Longrightarrow> wpl_ok (snd (WPL_RemoveNetwork env l s))"
  by (simp add: WPL_RemoveNetwork_def wpl_ok_same_calls Let_def)

lemma wpl_ok_Start:
  assumes "wpl_ok s" "WPL_Start env True es s = Some (r, fs, t)"
  shows "wpl_ok t"
  using assms
  by (auto simp: Start_request wpl_ok_def frame_def split: if_splits bind_splits dest!: frame_request)

lemma wpl_ok_left: "wpl_ok s \<Longrightarrow> wpl_ok (s\<lparr>s_wplStaConnected := False\<rparr>)"
  by (simp add: wpl_ok_def)

lemma wpl_ok_Leave:
  assumes "wpl_ok s" "WPL_Leave env es s = Some (r, fs, t)"
  shows "wpl_ok t"
  using assms
  by (auto simp: Leave_request Let_def split: if_splits bind_splits dest!: frame_request
      intro!: wpl_ok_left dest: wpl_ok_frame)

lemma wpl_ok_Join:
  assumes "wpl_ok s" "WPL_Join env l es s = Some (r, fs, t)"
  shows "wpl_ok t"
proof (cases "bad_label l \<or> s_wplState s \<noteq> WPL_STARTED \<or> s_wplStaConnected s")
  case False
  then obtain r' es' u where q: "request WPL_SYNC_CONNECT_GROUP WPL_SYNC_CONNECT_GROUP (Wlan_connect l) (r_connect env) join_result es s = Some (r', es', u)"
    and k: "(if \<not> r_connect env then Some (r', es', u)
       else if r' = WPLRET_SUCCESS then Some (r', es', u\<lparr>s_wplStaConnected := True\<rparr>)
       else WPL_Leave env es' u \<bind> (\<lambda>(_, es, s). Some (r', es, s))) = Some (r, fs, t)"
    using assms(2) by (auto simp: Join_request bind_eq_Some_conv)
  have f: "frame u = frame s" using q by (rule frame_request)
  then have u: "wpl_ok u" "s_wplState u = WPL_STARTED" using assms(1) False wpl_ok_frame[OF f] by (simp_all add: frame_def)
  then have c: "wpl_ok (u\<lparr>s_wplStaConnected := True\<rparr>)" by (simp add: wpl_ok_def)
  consider "t = u" | "t = u\<lparr>s_wplStaConnected := True\<rparr>" | q gs where "WPL_Leave env es' u = Some (q, gs, t)"
    using k by (simp add: bind_eq_Some_conv split: if_splits) blast+
  then show ?thesis using u c wpl_ok_Leave by cases simp_all
qed (use assms in \<open>simp add: Join_request split: if_splits\<close>)

lemma wpl_ok_activated: "wpl_ok s \<Longrightarrow> s_wplState s = WPL_STARTED \<Longrightarrow> wpl_ok (s\<lparr>s_wplUapActivated := b\<rparr>)"
  by (auto simp: wpl_ok_def)

lemma wpl_ok_Start_AP:
  assumes "wpl_ok s" "WPL_Start_AP env ssid pw chan es s = Some (r, fs, t)"
  shows "wpl_ok t"
proof (cases "bad_ssid ssid \<or> bad_password pw \<or> s_wplState s \<noteq> WPL_STARTED \<or> s_wplUapActivated s \<or> \<not> r_add_network env")
  case False
  let ?net = "uap_network env ssid pw chan"
  obtain r' es' u where q: "request WPL_SYNC_UAP_START_GROUP WPL_SYNC_UAP_START_GROUP (Wlan_start_network (net_name ?net)) (r_start_network env)
        start_ap_verdict es (wpl_do (Wlan_add_network ?net) s) = Some (r', es', u)"
    and k: "start_ap_rest env (net_name ?net) (r', es', u) = Some (r, fs, t)"
    using assms(2) False by (auto simp: Start_AP_request Let_def bind_eq_Some_conv)
  have f: "frame u = frame s" using frame_request[OF q] by simp
  have u: "wpl_ok u" "s_wplState u = WPL_STARTED" using assms(1) False wpl_ok_frame[OF f] f by (simp_all add: frame_def)
  have d: "wpl_ok (wpl_do c u)" "s_wplState (wpl_do c u) = WPL_STARTED" for c
    using u by (simp_all add: wpl_ok_same_calls) (simp add: wpl_do_def)
  consider c where "t = wpl_do c u" | c c' c'' where "t = wpl_do c (wpl_do c' (wpl_do c'' u))"
    | c where "t = (wpl_do c u)\<lparr>s_wplUapActivated := True\<rparr>"
    using k by (simp add: start_ap_rest_def split: if_splits) blast+
  then show ?thesis using d by cases (simp_all add: wpl_ok_same_calls wpl_ok_activated)
qed (use assms in \<open>auto simp: Start_AP_request Let_def wpl_ok_same_calls split: if_splits\<close>)

lemma wpl_ok_Scan:
  assumes "wpl_ok s" "WPL_Scan env es s = Some (r, fs, t)"
  shows "wpl_ok t"
  using assms
  by (auto simp: WPL_Scan_def Let_def wpl_ok_same_calls bind_eq_Some_conv split: if_splits
      dest!: frame_wait_bits wpl_ok_frame)

definition stop_ap_verdict :: "u32 \<Rightarrow> wpl_ret_t" where
  "stop_ap_verdict b = (if has_bit b WPL_EVENT_UAP_STOPPED then WPLRET_SUCCESS
     else if has_bit b WPL_EVENT_UAP_STOP_FAILED then WPLRET_FAIL else WPLRET_TIMEOUT)"

definition stop_ap_rest :: "wlan_env \<Rightarrow> wpl_ret_t \<times> wlan_event list \<times> wpl \<Rightarrow> (wpl_ret_t \<times> wlan_event list \<times> wpl) option" where
  "stop_ap_rest env = (\<lambda>(r, es, s).
     Some (if r \<noteq> WPLRET_SUCCESS then (r, es, s)
           else if \<not> r_remove_network env then (WPLRET_FAIL, es, wpl_do (Wlan_remove_network UAP_NETWORK_NAME) s)
           else (WPLRET_SUCCESS, es, (wpl_do (Wlan_remove_network UAP_NETWORK_NAME) s)\<lparr>s_wplUapActivated := False\<rparr>)))"

lemma Stop_AP_request:
  "WPL_Stop_AP env es s =
     (if s_wplState s \<noteq> WPL_STARTED \<or> \<not> s_wplUapActivated s then Some (WPLRET_NOT_READY, es, s)
      else request WPL_SYNC_UAP_START_GROUP WPL_SYNC_UAP_STOP_GROUP (Wlan_stop_network UAP_NETWORK_NAME) (r_stop_network env)
          stop_ap_verdict es (wpl_do Dhcp_server_stop s)
        \<bind> stop_ap_rest env)"
  by (auto simp: WPL_Stop_AP_def request_def stop_ap_rest_def stop_ap_verdict_def Let_def split: bind_splits)

lemma wpl_ok_Stop_AP:
  assumes "wpl_ok s" "WPL_Stop_AP env es s = Some (r, fs, t)"
  shows "wpl_ok t"
proof (cases "s_wplState s \<noteq> WPL_STARTED \<or> \<not> s_wplUapActivated s")
  case False
  then obtain r' es' v where q: "request WPL_SYNC_UAP_START_GROUP WPL_SYNC_UAP_STOP_GROUP (Wlan_stop_network UAP_NETWORK_NAME)
      (r_stop_network env) stop_ap_verdict es (wpl_do Dhcp_server_stop s) = Some (r', es', v)"
    and k: "stop_ap_rest env (r', es', v) = Some (r, fs, t)"
    using assms(2) by (auto simp: Stop_AP_request bind_eq_Some_conv)
  have f: "frame v = frame s" using frame_request[OF q] by simp
  have v: "wpl_ok v" "s_wplState v = WPL_STARTED" using assms(1) False wpl_ok_frame[OF f] f by (simp_all add: frame_def)
  have d: "wpl_ok (wpl_do c v)" "s_wplState (wpl_do c v) = WPL_STARTED" for c
    using v by (simp_all add: wpl_ok_same_calls) (simp add: wpl_do_def)
  consider "t = v" | c where "t = wpl_do c v" | c where "t = (wpl_do c v)\<lparr>s_wplUapActivated := False\<rparr>"
    using k by (simp add: stop_ap_rest_def split: if_splits) blast+
  then show ?thesis using d v by cases (simp_all add: wpl_ok_activated)
qed (use assms in \<open>simp add: Stop_AP_request split: if_splits\<close>)

lemma event_callback_handled:
  assumes "wpl_ok s"
  shows "\<exists>t. wlan_event_callback r s = Some t"
proof -
  have set_bits: "\<exists>t. (if s_wplState s \<noteq> WPL_NOT_INITIALIZED \<and> WPL_map_event r \<noteq> WPL_EVENT_UNUSED
      then set_bits (EVENT_BIT (WPL_map_event r)) s else Some s) = Some t \<and> frame t = frame s"
    using assms frame_set_bits by (cases "s_wplSyncEvent s") (auto simp: set_bits_def wpl_ok_def frame_def)
  have "\<exists>t. call_link_cb b u = Some t" if "frame u = frame s" for b u
    using that assms by (auto simp: call_link_cb_def wpl_ok_def frame_def)
  then show ?thesis
    using set_bits unfolding wlan_event_callback_def bind_eq_Some_conv by (cases r) auto
qed

text \<open>
  The states the layer can be in, when it is started with a callback: any operation, and any report of
  the driver, in any order.
\<close>

inductive wpl_reachable :: "wpl \<Rightarrow> bool" where
  boot: "wpl_reachable wpl_boot"
| init: "wpl_reachable s \<Longrightarrow> wpl_reachable (snd (WPL_Init env s))"
| start: "wpl_reachable s \<Longrightarrow> WPL_Start env True es s = Some (r, fs, t) \<Longrightarrow> wpl_reachable t"
| stop: "wpl_reachable s \<Longrightarrow> wpl_reachable (snd (WPL_Stop env s))"
| start_ap: "wpl_reachable s \<Longrightarrow> WPL_Start_AP env ssid pw chan es s = Some (r, fs, t) \<Longrightarrow> wpl_reachable t"
| stop_ap: "wpl_reachable s \<Longrightarrow> WPL_Stop_AP env es s = Some (r, fs, t) \<Longrightarrow> wpl_reachable t"
| scan: "wpl_reachable s \<Longrightarrow> WPL_Scan env es s = Some (j, fs, t) \<Longrightarrow> wpl_reachable t"
| add: "wpl_reachable s \<Longrightarrow> wpl_reachable (snd (WPL_AddNetworkWithSecurity env ssid pw l sec s))"
| remove: "wpl_reachable s \<Longrightarrow> wpl_reachable (snd (WPL_RemoveNetwork env l s))"
| join: "wpl_reachable s \<Longrightarrow> WPL_Join env l es s = Some (r, fs, t) \<Longrightarrow> wpl_reachable t"
| leave: "wpl_reachable s \<Longrightarrow> WPL_Leave env es s = Some (r, fs, t) \<Longrightarrow> wpl_reachable t"
| report: "wpl_reachable s \<Longrightarrow> deliver e s = Some t \<Longrightarrow> wpl_reachable t"

lemma reachable_wpl_ok: "wpl_reachable s \<Longrightarrow> wpl_ok s"
proof (induction rule: wpl_reachable.induct)
  case boot
  then show ?case by (simp add: wpl_ok_def wpl_boot_def)
next
  case (report s e t)
  then show ?case using wpl_ok_frame frame_deliver by blast
qed (blast intro: wpl_ok_Init wpl_ok_Start wpl_ok_Stop wpl_ok_Start_AP wpl_ok_Stop_AP wpl_ok_Scan wpl_ok_added
    wpl_ok_removed wpl_ok_Join wpl_ok_Leave)+

text \<open>
  (C22) When the layer is started with a callback, every state it can reach is well formed: there is an
  event group once it is initialized, and a callback once it is started, so that the driver's callback
  can handle every report, the loss of the link included, without using a null handle.
\<close>

theorem driver_reports_are_handled:
  assumes "wpl_reachable s"
  shows "wpl_ok s \<and> (\<exists>t. wlan_event_callback r s = Some t \<and> wpl_reachable t)"
proof -
  have ok: "wpl_ok s" using assms by (rule reachable_wpl_ok)
  then obtain t where "wlan_event_callback r s = Some t" using event_callback_handled by blast
  moreover from this have "wpl_reachable t" using report[OF assms, of "Reason r" t] by (simp add: deliver_def)
  ultimately show ?thesis using ok by blast
qed

theorem driver_reports_are_handled_witness:
  "wpl_ok (snd (WPL_Init willing_env wpl_boot)) \<and>
     (\<exists>t. wlan_event_callback WLAN_REASON_LINK_LOST (snd (WPL_Init willing_env wpl_boot)) = Some t \<and> wpl_reachable t)"
  by (rule driver_reports_are_handled[OF wpl_reachable.init[OF wpl_reachable.boot]])

text \<open>Started without a callback, the layer uses the null pointer when the link is lost.\<close>

lemma lost_link_without_callback:
  "s_wplStaConnected s \<Longrightarrow> \<not> s_linkLostCb s \<Longrightarrow> wlan_event_callback WLAN_REASON_LINK_LOST s = None"
  by (simp add: wlan_event_callback_def call_link_cb_def)

end
