(* ===== verification/Connectivity_Props.thy ===== *)
theory Connectivity_Props
  imports Connectivity WPL_Props
begin

text \<open>
  The connectivity task: how the reports of the link reach its state, the Unix time, the
  synchronization, the states it can be in, the start and the detection of a lost network.
\<close>

section \<open>Reports of the link\<close>

lemma link_reports_do [simp]: "link_reports w (wpl_do k w) = (case k of Link_lost_cb b \<Rightarrow> [b] | _ \<Rightarrow> [])"
  by (simp add: link_reports_def wpl_do_def map_filter_simps split: wlan_call.splits)

lemma link_reports_same [simp]: "wpl_calls w' = wpl_calls w \<Longrightarrow> link_reports w w' = []"
  by (simp add: link_reports_def map_filter_simps)

lemma link_reports_same_calls:
  "wpl_calls v' = wpl_calls w' \<Longrightarrow> wpl_calls v = wpl_calls w \<Longrightarrow> link_reports v v' = link_reports w w'"
  by (simp add: link_reports_def)

lemma set_state_same [simp]: "s_connectionState (prvConnectivity_SetState st c) = st"
  by (simp add: prvConnectivity_SetState_def)

lemma set_state_fields [simp]:
  "conn_wpl (prvConnectivity_SetState st c) = conn_wpl c"
  "s_unixTimeBase (prvConnectivity_SetState st c) = s_unixTimeBase c"
  "ping_fails (prvConnectivity_SetState st c) = ping_fails c"
  "conn_calls (prvConnectivity_SetState st c) = conn_calls c"
  "evse_wifi_credentials (prvConnectivity_SetState st c) = evse_wifi_credentials c"
  by (simp_all add: prvConnectivity_SetState_def)

lemma set_state_IPv4:
  "s_IPv4 (prvConnectivity_SetState st c) =
     (if st = EVSE_Network_NetworkDisconnected \<and> s_connectionState c \<noteq> st then [] else s_IPv4 c)"
  by (auto simp: prvConnectivity_SetState_def)

text \<open>What a report does while the station is connected.\<close>

lemma driver_report_connected:
  assumes "wpl_ok (conn_wpl c)" "s_wplStaConnected (conn_wpl c)" "r = WLAN_REASON_LINK_LOST \<or> r = WLAN_REASON_SUCCESS"
  shows "\<exists>w. wlan_event_callback r (conn_wpl c) = Some w \<and> frame w = frame (conn_wpl c) \<and>
     driver_report r c = Some (LinkStatusChangeCallback (r = WLAN_REASON_SUCCESS) (c\<lparr>conn_wpl := w\<rparr>))"
proof -
  let ?s = "conn_wpl c"
  obtain b where b: "s_wplSyncEvent ?s = Some b" "s_linkLostCb ?s" "s_wplState ?s \<noteq> WPL_NOT_INITIALIZED"
    using assms(1,2) by (auto simp: wpl_ok_def)
  obtain u where u: "wlan_event_callback r ?s = Some (wpl_do (Link_lost_cb (r = WLAN_REASON_SUCCESS)) u)"
    "wpl_calls u = wpl_calls ?s" "frame u = frame ?s"
    using assms(2,3) b by (auto simp: wlan_event_callback_def set_bits_def call_link_cb_def frame_def)
  let ?w = "wpl_do (Link_lost_cb (r = WLAN_REASON_SUCCESS)) u"
  have "link_reports ?s ?w = [r = WLAN_REASON_SUCCESS]"
    using link_reports_same_calls[OF refl u(2)[symmetric], of ?w] by simp
  then show ?thesis using u by (simp add: driver_report_def update_wpl_def)
qed

text \<open>
  (C25) The reports of the link arrive inverted: the Wi-Fi layer calls back with true when the
  connection is there again and with false when it is lost, and the callback of the task takes true
  for lost. So a lost link puts the task in the state of a fresh connection, with the old address, and a
  connection that is re-established puts it in the disconnected state, without an address, where the
  next turn tells the OCPP task that the network is down.
\<close>

theorem link_reports_are_inverted:
  assumes "wpl_ok (conn_wpl c)" "s_wplStaConnected (conn_wpl c)" "s_connectionState c = EVSE_Network_NetworkConnected"
  shows "(\<exists>c1. driver_report WLAN_REASON_LINK_LOST c = Some c1 \<and>
            s_connectionState c1 = EVSE_Network_APConnected \<and> EVSE_Connectivity_GetIPv4 c1 = EVSE_Connectivity_GetIPv4 c)
    \<and> (\<exists>c2. driver_report WLAN_REASON_SUCCESS c = Some c2 \<and>
            s_connectionState c2 = EVSE_Network_NetworkDisconnected \<and> EVSE_Connectivity_GetIPv4 c2 = None \<and>
            (\<exists>c3. connectivity_pass env c2 = Some (Goes_on c3) \<and>
               Ocpp_network_down \<in> set (drop (length (conn_calls c)) (conn_calls c3))))"
proof -
  obtain w where lost: "driver_report WLAN_REASON_LINK_LOST c = Some (LinkStatusChangeCallback False (c\<lparr>conn_wpl := w\<rparr>))"
    using driver_report_connected[OF assms(1,2), of WLAN_REASON_LINK_LOST] by auto
  obtain v where again: "driver_report WLAN_REASON_SUCCESS c = Some (LinkStatusChangeCallback True (c\<lparr>conn_wpl := v\<rparr>))"
    using driver_report_connected[OF assms(1,2), of WLAN_REASON_SUCCESS] by auto
  let ?c2 = "LinkStatusChangeCallback True (c\<lparr>conn_wpl := v\<rparr>)"
  have c2: "s_connectionState ?c2 = EVSE_Network_NetworkDisconnected" "s_IPv4 ?c2 = []" "conn_calls ?c2 = conn_calls c"
    using assms(3) by (simp_all add: LinkStatusChangeCallback_def set_state_IPv4)
  have "\<exists>c3. connectivity_pass env ?c2 = Some (Goes_on c3) \<and> Ocpp_network_down \<in> set (drop (length (conn_calls c)) (conn_calls c3))"
    using c2 by (auto simp: connectivity_pass_def EVSE_Connectivity_CheckNetwork_def conn_do_def Let_def)
  then show ?thesis using lost again c2 assms(3)
    by (simp add: LinkStatusChangeCallback_def EVSE_Connectivity_GetIPv4_def set_state_IPv4)
qed

definition connected_sample :: conn where
  "connected_sample = conn_boot\<lparr>conn_wpl := started\<lparr>s_wplStaConnected := True\<rparr>, s_IPv4 := ''10.0.0.7'',
     s_connectionState := EVSE_Network_NetworkConnected\<rparr>"

definition quiet_env :: conn_env where
  "quiet_env = \<lparr>WIFI_SSID = ''home'', WIFI_PASS = ''password'', e_wlan = willing_env,
     e_start_events = [Reason WLAN_REASON_INITIALIZED], e_attempts = [(willing_env, [Reason WLAN_REASON_SUCCESS])],
     e_address = Some ''10.0.0.7'', e_dns = (\<lambda>i. i = 1), e_time = (\<lambda>i j. if i = 0 \<and> j = 3 then Some (1700000000, 5000) else None),
     e_socket = 1, e_ping_send = True, e_ping_recv = False\<rparr>"

theorem link_reports_are_inverted_witness:
  "\<exists>c1. driver_report WLAN_REASON_LINK_LOST connected_sample = Some c1 \<and> s_connectionState c1 = EVSE_Network_APConnected"
  using link_reports_are_inverted[of connected_sample quiet_env]
  by (auto simp: connected_sample_def started_def wpl_ok_def)

section \<open>Unix time\<close>

lemma seconds_since_boot: "EVSE_GetSecondsSinceBoot False 0 t = t div 1000"
  by (simp add: EVSE_GetSecondsSinceBoot_def EVSE_GetMsSinceBoot_def)

lemma ticks_to_seconds_mono: "(t1 :: u32) \<le> t2 \<Longrightarrow> t1 div 1000 \<le> t2 div 1000"
  by (simp add: word_le_nat_alt unat_div div_le_mono)

text \<open>
  The Unix time: a time set at one tick and read at a later one, before the 32-bit tick count
  wraps, has advanced by exactly the seconds between them; when the tick count wraps, after 49.7 days,
  the time falls back by all of its 4294967 seconds.
\<close>

theorem unix_time_roundtrip:
  "(t1 \<le> t2 \<longrightarrow> EVSE_Connectivity_GetUnixTime t2 (EVSE_Connectivity_SetUnixTime t1 sec c) =
      sec + of_nat (unat t2 div 1000 - unat t1 div 1000))
   \<and> EVSE_Connectivity_GetUnixTime 0 c = EVSE_Connectivity_GetUnixTime (- 1) c - 4294967"
proof -
  have "EVSE_Connectivity_GetUnixTime t2 (EVSE_Connectivity_SetUnixTime t1 sec c) = sec + (t2 div 1000 - t1 div 1000)"
    by (simp add: EVSE_Connectivity_GetUnixTime_def EVSE_Connectivity_SetUnixTime_def seconds_since_boot)
  moreover have "t2 div 1000 - t1 div 1000 = of_nat (unat t2 div 1000 - unat t1 div 1000)" if "t1 \<le> t2"
  proof -
    have "unat (t2 div 1000 - t1 div 1000) = unat t2 div 1000 - unat t1 div 1000"
      using unat_sub[OF ticks_to_seconds_mono[OF that]] by (simp add: unat_div)
    then have "of_nat (unat (t2 div 1000 - t1 div 1000)) = (of_nat (unat t2 div 1000 - unat t1 div 1000) :: u32)" by (rule arg_cong)
    then show ?thesis by simp
  qed
  moreover have "(- 1 :: u32) div 1000 = 4294967" "(0 :: u32) div 1000 = 0" by code_simp+
  ultimately show ?thesis
    by (auto simp: EVSE_Connectivity_GetUnixTime_def seconds_since_boot)
qed

theorem unix_time_roundtrip_witness:
  "EVSE_Connectivity_GetUnixTime 65400 (EVSE_Connectivity_SetUnixTime 5000 1700000000 conn_boot) = 1700000060"
  using unix_time_roundtrip[of 5000 65400 1700000000 conn_boot] by simp

section \<open>Synchronization\<close>

text \<open>The time the task has been delayed for, in milliseconds.\<close>

definition delayed :: "conn \<Rightarrow> nat" where
  "delayed c = sum_list (map (\<lambda>k. case k of Delay n \<Rightarrow> n | _ \<Rightarrow> 0) (conn_calls c))"

lemma delayed_do [simp]: "delayed (conn_do k c) = delayed c + (case k of Delay n \<Rightarrow> n | _ \<Rightarrow> 0)"
  by (simp add: delayed_def conn_do_def)

lemma delayed_set_state [simp]: "delayed (prvConnectivity_SetState st c) = delayed c"
  by (simp add: delayed_def)

lemma conn_do_fields [simp]:
  "s_unixTimeBase (conn_do k c) = s_unixTimeBase c" "s_connectionState (conn_do k c) = s_connectionState c"
  "conn_wpl (conn_do k c) = conn_wpl c" "s_IPv4 (conn_do k c) = s_IPv4 c" "ping_fails (conn_do k c) = ping_fails c"
  "evse_wifi_credentials (conn_do k c) = evse_wifi_credentials c"
  by (simp_all add: conn_do_def)

text \<open>What the loops leave alone.\<close>

definition core :: "conn \<Rightarrow> wpl \<times> string \<times> evse_wifi_cred_t \<times> u8 \<times> connectionState_t" where
  "core c = (conn_wpl c, s_IPv4 c, evse_wifi_credentials c, ping_fails c, s_connectionState c)"

lemma core_do [simp]: "core (conn_do k c) = core c"
  by (simp add: core_def)

lemma core_unix_time [simp]: "core (EVSE_Connectivity_SetUnixTime t sec c) = core c"
  by (simp add: core_def EVSE_Connectivity_SetUnixTime_def)

lemma delayed_unix_time [simp]: "delayed (EVSE_Connectivity_SetUnixTime t sec c) = delayed c"
  by (simp add: delayed_def EVSE_Connectivity_SetUnixTime_def)

text \<open>A time that arrives is not taken for one when it equals the seconds since the boot.\<close>

definition time_arrives :: "conn_env \<Rightarrow> nat \<Rightarrow> nat \<Rightarrow> bool" where
  "time_arrives env i j = (case e_time env i j of None \<Rightarrow> False | Some (sec, t) \<Rightarrow> sec \<noteq> t div 1000)"

lemma ex_from_step:
  "(\<exists>i. (n :: nat) \<le> i \<and> i < m \<and> P i) \<longleftrightarrow> n < m \<and> (P n \<or> (\<exists>i. Suc n \<le> i \<and> i < m \<and> P i))"
proof -
  have "n \<le> i \<longleftrightarrow> i = n \<or> Suc n \<le> i" for i by auto
  moreover have "n < m" if "Suc n \<le> i" "i < m" for i using that by simp
  ultimately show ?thesis by metis
qed

lemma dns_loop_outcome:
  assumes "unat t \<le> 9" "dns_loop env t r c = (t', r', c')"
  shows "core c' = core c \<and> s_unixTimeBase c' = s_unixTimeBase c \<and> delayed c' \<le> delayed c + 200 * (9 - unat t) \<and>
    (if \<exists>i. unat t \<le> i \<and> i < 9 \<and> e_dns env i then t' = 0 \<and> r' = 0 else t' = 9 \<and> (r' = r \<or> r' = 1))"
  using assms
proof (induction env t r c rule: dns_loop.induct)
  case (1 env t r c)
  show ?case
  proof (cases "t < 9")
    case False
    then have "t = 9" using 1(2) by (simp add: word_less_nat_alt word_unat_eq_iff)
    then show ?thesis using 1(3) by (auto simp: dns_loop.simps[of env 9])
  next
    case True
    then have n: "unat t < 9" "unat (t + 1) = Suc (unat t)" by (simp_all add: word_less_nat_alt unat_word_ariths)
    show ?thesis
    proof (cases "e_dns env (unat t)")
      case True
      then show ?thesis using 1(3) \<open>t < 9\<close> n by (auto simp: dns_loop.simps[of env t])
    next
      case False
      then have e: "dns_loop env (t + 1) 1 (conn_do (Delay 200) (conn_do Dns_query c)) = (t', r', c')"
        using 1(3) True by (simp add: dns_loop.simps[of env t])
      show ?thesis
        using 1(1)[OF True refl False _ e] n False
        by (subst ex_from_step) (auto simp: split: if_splits)
    qed
  qed
qed

lemma update_loop_outcome:
  assumes "unat u \<le> 10"
  shows "core (update_loop env t u c) = core c \<and> delayed (update_loop env t u c) \<le> delayed c + 200 * (10 - unat u) \<and>
    (s_unixTimeBase c \<noteq> 0 \<longrightarrow> update_loop env t u c = c) \<and>
    (s_unixTimeBase c = 0 \<longrightarrow>
      (s_unixTimeBase (update_loop env t u c) \<noteq> 0 \<longleftrightarrow> (\<exists>j. unat u \<le> j \<and> j < 10 \<and> time_arrives env (unat t) j)))"
  using assms
proof (induction env t u c rule: update_loop.induct)
  case (1 env t u c)
  show ?case
  proof (cases "u < 10 \<and> s_unixTimeBase c = 0")
    case False
    then have "u = 10" if "s_unixTimeBase c = 0" using that 1(2) by (simp add: word_less_nat_alt word_unat_eq_iff)
    then show ?thesis using False by (auto simp: update_loop.simps[of env t u] update_loop.simps[of env t 10])
  next
    case True
    then have n: "unat u < 10" "unat (u + 1) = Suc (unat u)" by (simp_all add: word_less_nat_alt unat_word_ariths)
    define d where "d = conn_do (Delay 200) c"
    define c' where "c' = (case e_time env (unat t) (unat u) of None \<Rightarrow> d | Some (sec, ticks) \<Rightarrow> EVSE_Connectivity_SetUnixTime ticks sec d)"
    have u: "update_loop env t u c = update_loop env t (u + 1) c'"
      unfolding c'_def d_def using True by (simp add: update_loop.simps[of env t u c] Let_def)
    have c': "core c' = core c" "delayed c' = delayed c + 200"
      by (simp_all add: c'_def d_def split: option.splits prod.splits)
    have b: "s_unixTimeBase c' \<noteq> 0 \<longleftrightarrow> time_arrives env (unat t) (unat u)"
      using True by (auto simp: c'_def d_def time_arrives_def EVSE_Connectivity_SetUnixTime_def seconds_since_boot split: option.splits)
    note IH = 1(1)[OF True refl c'_def[unfolded d_def]]
    show ?thesis
      using IH n c' b True unfolding u
      by (subst ex_from_step) auto
  qed
qed

lemma sync_loop_outcome:
  assumes "unat t \<le> 9" "sync_loop env t r c = (t', r', c')"
  shows "core c' = core c \<and> delayed c' \<le> delayed c + 2000 * (9 - unat t) \<and>
    (if unat t < 9 \<and> (s_unixTimeBase c \<noteq> 0 \<or> (\<exists>i. unat t \<le> i \<and> i < 9 \<and> (\<exists>j < 10. time_arrives env i j)))
     then t' = 0 \<and> r' = 0 \<and> s_unixTimeBase c' \<noteq> 0
     else t' = 9 \<and> r' = r \<and> s_unixTimeBase c' = s_unixTimeBase c) \<and>
    (s_unixTimeBase c \<noteq> 0 \<longrightarrow> s_unixTimeBase c' = s_unixTimeBase c \<and> delayed c' = delayed c)"
  using assms
proof (induction env t r c rule: sync_loop.induct)
  case (1 env t r c)
  show ?case
  proof (cases "t < 9")
    case False
    then have "t = 9" using 1(2) by (simp add: word_less_nat_alt word_unat_eq_iff)
    then show ?thesis using 1(3) by (auto simp: sync_loop.simps[of env 9])
  next
    case True
    then have n: "unat t < 9" "unat (t + 1) = Suc (unat t)" by (simp_all add: word_less_nat_alt unat_word_ariths)
    define d where "d = update_loop env t 0 (conn_do Sntp_init c)"
    have d: "core d = core c" "delayed d \<le> delayed c + 2000"
      "s_unixTimeBase c \<noteq> 0 \<longrightarrow> s_unixTimeBase d = s_unixTimeBase c \<and> delayed d = delayed c"
      "s_unixTimeBase c = 0 \<longrightarrow> (s_unixTimeBase d \<noteq> 0 \<longleftrightarrow> (\<exists>j < 10. time_arrives env (unat t) j))"
      using update_loop_outcome[of 0 env t "conn_do Sntp_init c"] by (auto simp: d_def)
    have s: "sync_loop env t r c = (if s_unixTimeBase d \<noteq> 0 then (0, 0, conn_do Sntp_stop d)
        else sync_loop env (t + 1) r (conn_do Sntp_stop d))"
      using True by (simp add: sync_loop.simps[of env t] Let_def d_def)
    show ?thesis
    proof (cases "s_unixTimeBase d = 0")
      case False
      then show ?thesis using 1(3) s d n by (auto simp: le_less)
    next
      case z: True
      then have c: "s_unixTimeBase c = 0" "\<not> (\<exists>j < 10. time_arrives env (unat t) j)" using d by auto
      have e: "sync_loop env (t + 1) r (conn_do Sntp_stop d) = (t', r', c')" using 1(3) s z by simp
      note IH = 1(1)[OF True refl _ _ e[unfolded d_def]]
      show ?thesis
        using IH n d z c unfolding d_def by (subst ex_from_step) (auto split: if_splits)
    qed
  qed
qed

lemma SNTP_Connection_outcome:
  "(if (\<exists>i < 9. e_dns env i) \<and> (s_unixTimeBase c \<noteq> 0 \<or> (\<exists>i < 9. \<exists>j < 10. time_arrives env i j))
    then \<exists>c'. SNTP_Connection env c = Goes_on c' \<and> s_connectionState c' = EVSE_Network_OCPP_Init \<and>
       s_unixTimeBase c' \<noteq> 0 \<and> (s_unixTimeBase c \<noteq> 0 \<longrightarrow> s_unixTimeBase c' = s_unixTimeBase c) \<and>
       conn_wpl c' = conn_wpl c \<and> delayed c' \<le> delayed c + 19800
    else \<exists>c'. SNTP_Connection env c = Error_loop c' \<and> s_connectionState c' = EVSE_Network_SNTPError \<and>
       s_unixTimeBase c' = s_unixTimeBase c \<and> conn_wpl c' = conn_wpl c \<and> delayed c' \<le> delayed c + 19800)"
proof -
  let ?c = "prvConnectivity_SetState EVSE_Network_SNTPRequest c"
  obtain t r d where dns: "dns_loop env 0 0 ?c = (t, r, d)" by (cases "dns_loop env 0 0 ?c")
  obtain t' r' c' where sync: "sync_loop env t r d = (t', r', c')" by (cases "sync_loop env t r d")
  note D = dns_loop_outcome[OF _ dns, simplified]
  have t: "unat t \<le> 9" using D by (auto split: if_splits)
  note S = sync_loop_outcome[OF t sync]
  have out: "SNTP_Connection env c = (if (if t' = 9 then - 3 else r') \<noteq> 0
      then Error_loop (prvConnectivity_SetState EVSE_Network_SNTPError c')
      else Goes_on (prvConnectivity_SetState EVSE_Network_OCPP_Init c'))"
    using dns sync by (simp add: SNTP_Connection_def Let_def)
  have w: "conn_wpl c' = conn_wpl c" using D S by (simp add: core_def)
  have dl: "delayed c' \<le> delayed c + 19800"
    using D S by (auto split: if_splits)
  show ?thesis
  proof (cases "\<exists>i < 9. e_dns env i")
    case True
    then have "t = 0" "r = 0" using D by auto
    then show ?thesis using S out w dl D True by (auto split: if_splits)
  next
    case False
    then have "t = 9" using D by auto
    then show ?thesis using S out w dl D False by (auto split: if_splits)
  qed
qed

text \<open>
  The synchronization ends after at most 19.8 seconds of delay. It succeeds, and the task goes on to
  start OCPP with a time, exactly when one of nine queries resolves the name of the server and either
  a time is already known or one arrives in one of the ten waits of one of nine attempts; otherwise the
  task enters its error loop. Once a time is known the task does not wait for the server again.
\<close>

theorem synchronization_outcome:
  "(if (\<exists>i < 9. e_dns env i) \<and> (s_unixTimeBase c \<noteq> 0 \<or> (\<exists>i < 9. \<exists>j < 10. time_arrives env i j))
    then \<exists>c'. SNTP_Connection env c = Goes_on c' \<and> s_connectionState c' = EVSE_Network_OCPP_Init \<and>
       s_unixTimeBase c' \<noteq> 0 \<and> (s_unixTimeBase c \<noteq> 0 \<longrightarrow> s_unixTimeBase c' = s_unixTimeBase c) \<and>
       conn_wpl c' = conn_wpl c \<and> delayed c' \<le> delayed c + 19800
    else \<exists>c'. SNTP_Connection env c = Error_loop c' \<and> s_connectionState c' = EVSE_Network_SNTPError \<and>
       s_unixTimeBase c' = s_unixTimeBase c \<and> conn_wpl c' = conn_wpl c \<and> delayed c' \<le> delayed c + 19800)"
  by (rule SNTP_Connection_outcome)

theorem synchronization_outcome_witness:
  "\<exists>c'. SNTP_Connection quiet_env conn_boot = Goes_on c' \<and> s_connectionState c' = EVSE_Network_OCPP_Init \<and>
     s_unixTimeBase c' \<noteq> 0 \<and> delayed c' \<le> 19800"
proof -
  have "\<exists>i < 9. e_dns quiet_env i" by (rule exI[of _ 1]) (simp add: quiet_env_def)
  moreover have "\<exists>i < 9. \<exists>j < 10. time_arrives quiet_env i j"
    by (rule exI[of _ 0], simp, rule exI[of _ 3]) (simp add: quiet_env_def time_arrives_def)
  ultimately show ?thesis using synchronization_outcome[of quiet_env conn_boot]
    by (auto simp: delayed_def conn_boot_def)
qed

section \<open>Steps that make no report\<close>

definition quiet :: "wpl \<Rightarrow> wpl \<Rightarrow> bool" where
  "quiet s t \<longleftrightarrow> (\<exists>ks. wpl_calls t = wpl_calls s @ ks \<and> (\<forall>b. Link_lost_cb b \<notin> set ks))"

lemma quiet_refl [simp, intro]: "quiet s s"
  by (simp add: quiet_def)

lemma quiet_trans [trans]: "quiet s t \<Longrightarrow> quiet t u \<Longrightarrow> quiet s u"
  by (auto simp: quiet_def)

lemma quiet_do [intro]: "quiet s t \<Longrightarrow> \<forall>b. k \<noteq> Link_lost_cb b \<Longrightarrow> quiet s (wpl_do k t)"
  by (auto simp: quiet_def wpl_do_def)

lemma quiet_same: "wpl_calls t = wpl_calls s \<Longrightarrow> quiet s t"
  by (simp add: quiet_def)

lemma quiet_cong: "wpl_calls t = wpl_calls t' \<Longrightarrow> quiet s t = quiet s t'"
  by (simp add: quiet_def)

lemma quiet_no_reports:
  assumes "quiet s t"
  shows "link_reports s t = []"
proof -
  obtain ks where ks: "wpl_calls t = wpl_calls s @ ks" "\<forall>b. Link_lost_cb b \<notin> set ks"
    using assms by (auto simp: quiet_def)
  have "List.map_filter (\<lambda>k. case k of Link_lost_cb b \<Rightarrow> Some b | _ \<Rightarrow> None) ks = []"
    using ks(2) by (induction ks) (auto simp: map_filter_simps split: wlan_call.splits)
  then show ?thesis using ks(1) by (simp add: link_reports_def)
qed

lemma quiet_bits:
  "set_bits b s = Some t \<Longrightarrow> quiet s t" "clear_bits b s = Some t \<Longrightarrow> quiet s t"
  by (auto simp: set_bits_def clear_bits_def bind_eq_Some_conv intro!: quiet_same)

lemma quiet_deliver:
  assumes "\<not> s_wplStaConnected s" "deliver e s = Some t"
  shows "quiet s t"
proof (cases e)
  case (Reason r)
  obtain u where u: "(if s_wplState s \<noteq> WPL_NOT_INITIALIZED \<and> WPL_map_event r \<noteq> WPL_EVENT_UNUSED
        then set_bits (EVENT_BIT (WPL_map_event r)) s else Some s) = Some u"
    and t: "u = t \<or> (\<exists>b. call_link_cb b u = Some t)"
    by (rule event_callbackE) (use assms(2) Reason in \<open>simp add: deliver_def\<close>)
  have "frame u = frame s" using u by (auto split: if_splits dest: frame_set_bits)
  then have "s_wplStaConnected u = s_wplStaConnected s" by (simp add: frame_def)
  moreover have "quiet s u" using u by (auto split: if_splits dest: quiet_bits)
  ultimately show ?thesis using t assms(1) by (auto simp: call_link_cb_def)
next
  case (Scan_results m rs)
  then show ?thesis
    using assms(2) by (auto simp: deliver_def WLP_process_results_def Let_def bind_eq_Some_conv quiet_def
        split: if_splits dest!: quiet_bits)
qed

lemma quiet_wait_bits: "wait_bits g es s = Some (b, fs, t) \<Longrightarrow> \<not> s_wplStaConnected s \<Longrightarrow> quiet s t"
proof (induction g es s rule: wait_bits.induct)
  case (1 g es s)
  obtain x where x: "s_wplSyncEvent s = Some x"
    using 1(2) by (auto simp: wait_bits.simps[of g es] split: option.splits)
  show ?case
  proof (cases "x AND g = 0")
    case True
    then obtain e es' u where u: "es = e # es'" "deliver e s = Some u" "wait_bits g es' u = Some (b, fs, t)"
      using 1(2) x by (auto simp: wait_bits.simps[of g es] split: list.splits option.splits)
    have "\<not> s_wplStaConnected u" using frame_deliver[OF u(2)] 1(3) by (simp add: frame_def)
    then have "quiet u t" using 1(1)[OF x] True u by simp
    with quiet_deliver[OF 1(3) u(2)] show ?thesis by (rule quiet_trans)
  next
    case False
    then show ?thesis using 1(2) x by (auto simp: wait_bits.simps[of g es] intro!: quiet_same)
  qed
qed

lemma quiet_request:
  assumes "request g h k a v es s = Some (r, fs, t)" "\<not> s_wplStaConnected s" "\<forall>b. k \<noteq> Link_lost_cb b"
  shows "quiet s t"
proof -
  obtain u where u: "clear_bits g s = Some u"
    and w: "t = wpl_do k u \<or> (\<exists>b. wait_bits h es (wpl_do k u) = Some (b, fs, t))"
    using assms(1) by (auto simp: request_def bind_eq_Some_conv split: if_splits)
  have q: "quiet s (wpl_do k u)" using quiet_bits(2)[OF u] assms(3) by blast
  have n: "\<not> s_wplStaConnected (wpl_do k u)" using frame_clear_bits[OF u] assms(2) by (simp add: frame_def wpl_do_def)
  show ?thesis using w q by (elim disjE exE) (auto dest: quiet_wait_bits[OF _ n] intro: quiet_trans)
qed

text \<open>
  The operations the task uses, as it uses them: no report is made, and what they leave.
\<close>

lemma WPL_Start_frame:
  assumes "WPL_Start env True es s = Some (r, fs, t)" "\<not> s_wplStaConnected s"
  shows "quiet s t \<and> \<not> s_wplStaConnected t \<and> s_wplUapActivated t = s_wplUapActivated s \<and> (r = WPLRET_SUCCESS \<longrightarrow> s_wplState t = WPL_STARTED)"
proof (cases "s_wplState s = WPL_INITIALIZED")
  case True
  then obtain u r' where q: "request WPL_SYNC_INIT_GROUP WPL_SYNC_INIT_GROUP Wlan_start (r_start env) start_verdict es s = Some (r', fs, u)"
    and t: "r = r'" "t = (if r' = WPLRET_SUCCESS then u\<lparr>s_linkLostCb := True, s_wplState := WPL_STARTED\<rparr> else u)"
    using assms(1) by (auto simp: Start_request bind_eq_Some_conv)
  have "quiet s u" using quiet_request[OF q assms(2)] by simp
  moreover have "frame u = frame s" using q by (rule frame_request)
  moreover have "quiet s t = quiet s u" using t by (intro quiet_cong) simp
  ultimately show ?thesis using t assms(2) by (auto simp: frame_def)
qed (use assms in \<open>auto simp: Start_request\<close>)

lemma WPL_Leave_frame:
  assumes "WPL_Leave env es s = Some (r, fs, t)" "\<not> s_wplStaConnected s"
  shows "quiet s t \<and> \<not> s_wplStaConnected t \<and> s_wplState t = s_wplState s"
proof -
  have l: "quiet s (u\<lparr>s_wplStaConnected := False\<rparr>) = quiet s u" for s u by (rule quiet_cong) simp
  consider "t = s\<lparr>s_wplStaConnected := False\<rparr>"
    | u where "request WPL_SYNC_DISCONNECT_GROUP WPL_SYNC_DISCONNECT_GROUP Wlan_disconnect (r_disconnect env) leave_verdict es s = Some (r, fs, u)"
        "t = u\<lparr>s_wplStaConnected := False\<rparr>"
    using assms(1) by (auto simp: Leave_request Let_def bind_eq_Some_conv split: if_splits)
  then show ?thesis
  proof cases
    case 2
    then show ?thesis using quiet_request[OF 2(1) assms(2)] frame_request[OF 2(1)] by (simp add: l frame_def)
  qed (simp add: l)
qed

lemma WPL_Join_frame:
  assumes "WPL_Join env l es s = Some (r, fs, t)" "\<not> s_wplStaConnected s"
  shows "quiet s t \<and> s_wplState t = s_wplState s \<and> (s_wplStaConnected t \<longleftrightarrow> r = WPLRET_SUCCESS)"
proof (cases "bad_label l \<or> s_wplState s \<noteq> WPL_STARTED")
  case False
  then obtain r' es' u where q: "request WPL_SYNC_CONNECT_GROUP WPL_SYNC_CONNECT_GROUP (Wlan_connect l) (r_connect env) join_result es s = Some (r', es', u)"
    and k: "(if \<not> r_connect env then Some (r', es', u)
       else if r' = WPLRET_SUCCESS then Some (r', es', u\<lparr>s_wplStaConnected := True\<rparr>)
       else WPL_Leave env es' u \<bind> (\<lambda>(_, es, s). Some (r', es, s))) = Some (r, fs, t)"
    using assms by (auto simp: Join_request bind_eq_Some_conv)
  have u: "quiet s u" "\<not> s_wplStaConnected u" "s_wplState u = s_wplState s"
    using quiet_request[OF q assms(2)] frame_request[OF q] assms(2) by (simp_all add: frame_def)
  have fail: "r' = WPLRET_FAIL" if "\<not> r_connect env" using q that by (auto simp: request_def bind_eq_Some_conv)
  have l: "quiet s (u\<lparr>s_wplStaConnected := True\<rparr>) = quiet s u" by (rule quiet_cong) simp
  show ?thesis
  proof (cases "r_connect env \<and> r' \<noteq> WPLRET_SUCCESS")
    case True
    then obtain x gs where lv: "WPL_Leave env es' u = Some (x, fs, t)" "r = r'" using k by (auto simp: bind_eq_Some_conv)
    show ?thesis using WPL_Leave_frame[OF lv(1) u(2)] u True lv(2) quiet_trans by auto
  next
    case False
    then show ?thesis using k u l fail by (auto split: if_splits)
  qed
qed (use assms in \<open>auto simp: Join_request split: if_splits\<close>)

section \<open>States of the task\<close>

text \<open>
  The states a turn can find, with how far the Wi-Fi layer is in each; a number of failed pings that
  is below the limit; no address while disconnected.
\<close>

definition phase_ok :: "connectionState_t \<Rightarrow> wpl \<Rightarrow> bool" where
  "phase_ok st w =
     (case st of
        EVSE_Network_NotConnected \<Rightarrow> s_wplState w = WPL_NOT_INITIALIZED \<and> \<not> s_wplStaConnected w
      | EVSE_Network_InitComunicationModule \<Rightarrow> s_wplState w = WPL_INITIALIZED \<and> \<not> s_wplStaConnected w
      | EVSE_Network_InitCommunicationStack \<Rightarrow> s_wplState w = WPL_STARTED \<and> \<not> s_wplStaConnected w
      | EVSE_Network_APConnected \<Rightarrow> s_wplState w = WPL_STARTED \<and> s_wplStaConnected w
      | EVSE_Network_DHCPRequest \<Rightarrow> s_wplState w = WPL_STARTED \<and> s_wplStaConnected w
      | EVSE_Network_OCPP_Init \<Rightarrow> s_wplState w = WPL_STARTED \<and> s_wplStaConnected w
      | EVSE_Network_NetworkConnected \<Rightarrow> s_wplState w = WPL_STARTED \<and> s_wplStaConnected w
      | EVSE_Network_NetworkDisconnected \<Rightarrow> s_wplState w = WPL_STARTED \<and> s_wplStaConnected w
      | _ \<Rightarrow> False)"

definition conn_ok :: "conn \<Rightarrow> bool" where
  "conn_ok c \<longleftrightarrow> wpl_ok (conn_wpl c) \<and> phase_ok (s_connectionState c) (conn_wpl c) \<and> ping_fails c \<le> 4 \<and>
     (s_connectionState c = EVSE_Network_NetworkDisconnected \<longrightarrow> s_IPv4 c = [])"

lemma conn_ok_boot: "conn_ok conn_boot"
  by (simp add: conn_ok_def conn_boot_def wpl_ok_def wpl_boot_def phase_ok_def)

lemma phase_ok_frame: "frame w' = frame w \<Longrightarrow> phase_ok st w' = phase_ok st w"
  by (simp add: phase_ok_def frame_def split: connectionState_t.splits)

lemma update_wpl_quiet: "quiet (conn_wpl c) w \<Longrightarrow> update_wpl w c = c\<lparr>conn_wpl := w\<rparr>"
  by (simp add: update_wpl_def quiet_no_reports)

lemma conn_ok_do [simp]: "conn_ok (conn_do k c) = conn_ok c"
  by (simp add: conn_ok_def)

lemma conn_ok_set_state:
  assumes "conn_ok c" "phase_ok st (conn_wpl c)"
  shows "conn_ok (prvConnectivity_SetState st c)"
  using assms by (auto simp: conn_ok_def set_state_IPv4)

lemma conn_ok_callback:
  assumes "conn_ok c" "s_wplState (conn_wpl c) = WPL_STARTED" "s_wplStaConnected (conn_wpl c)"
  shows "conn_ok (LinkStatusChangeCallback b c)"
  using assms by (simp add: LinkStatusChangeCallback_def conn_ok_set_state phase_ok_def)

lemma connected_started:
  assumes "conn_ok c" "s_wplStaConnected (conn_wpl c)"
  shows "s_wplState (conn_wpl c) = WPL_STARTED"
  using assms by (auto simp: conn_ok_def phase_ok_def split: connectionState_t.splits)

lemma conn_ok_report:
  assumes "conn_ok c" "driver_report r c = Some c'"
  shows "conn_ok c'"
proof -
  obtain w where w: "wlan_event_callback r (conn_wpl c) = Some w" "c' = update_wpl w c"
    using assms(2) by (auto simp: driver_report_def bind_eq_Some_conv)
  have d: "deliver (Reason r) (conn_wpl c) = Some w" using w(1) by (simp add: deliver_def)
  have f: "frame w = frame (conn_wpl c)" using d by (rule frame_deliver)
  have ok: "conn_ok (c\<lparr>conn_wpl := w\<rparr>)"
    using assms(1) wpl_ok_frame[OF f] phase_ok_frame[OF f] by (simp add: conn_ok_def)
  show ?thesis
  proof (cases "s_wplStaConnected (conn_wpl c)")
    case False
    then have "c' = c\<lparr>conn_wpl := w\<rparr>" using quiet_deliver[OF _ d] w(2) update_wpl_quiet by blast
    then show ?thesis using ok by simp
  next
    case True
    then have n: "s_wplState w = WPL_STARTED" "s_wplStaConnected w" using f connected_started[OF assms(1)] by (auto simp: frame_def)
    have "conn_ok (fold LinkStatusChangeCallback bs d) \<and> conn_wpl (fold LinkStatusChangeCallback bs d) = w"
      if "conn_ok d" "conn_wpl d = w" for bs d
      using that
    proof (induction bs arbitrary: d)
      case (Cons b bs)
      have "conn_wpl (LinkStatusChangeCallback b d) = w" using Cons.prems by (simp add: LinkStatusChangeCallback_def)
      then show ?case using Cons conn_ok_callback[of d b] n by simp
    qed simp
    then show ?thesis using w(2) ok by (simp add: update_wpl_def)
  qed
qed

lemma Init_frame:
  assumes "WPL_Init env s = (r, t)" "\<not> s_wplStaConnected s"
  shows "quiet s t \<and> \<not> s_wplStaConnected t \<and> (r = WPLRET_SUCCESS \<longrightarrow> s_wplState t = WPL_INITIALIZED)"
  using assms by (auto simp: WPL_Init_def Let_def quiet_def wpl_do_def split: if_splits)

lemma AddNetwork_frame:
  assumes "WPL_AddNetwork env ssid pw l s = (r, t)"
  shows "quiet s t \<and> frame t = frame s"
  using assms by (auto simp: WPL_AddNetwork_def WPL_AddNetworkWithSecurity_def Let_def split: if_splits)

lemma update_wpl_fields:
  "quiet (conn_wpl c) w \<Longrightarrow> conn_wpl (update_wpl w c) = w \<and> ping_fails (update_wpl w c) = ping_fails c \<and>
     s_IPv4 (update_wpl w c) = s_IPv4 c \<and> s_connectionState (update_wpl w c) = s_connectionState c"
  by (simp add: update_wpl_quiet)

lemma module_init_ok:
  assumes "conn_ok c" "s_connectionState c = EVSE_Network_NotConnected" "ConnectivityModule_Init env c = Goes_on c'"
  shows "conn_ok c'"
proof -
  obtain r w where i: "WPL_Init (e_wlan env) (conn_wpl c) = (r, w)" by (cases "WPL_Init (e_wlan env) (conn_wpl c)")
  have n: "\<not> s_wplStaConnected (conn_wpl c)" using assms by (simp add: conn_ok_def phase_ok_def)
  note f = Init_frame[OF i n]
  have "r = WPLRET_SUCCESS" "c' = update_wpl w (prvConnectivity_SetState EVSE_Network_InitComunicationModule c)"
    using assms(3) i by (auto simp: ConnectivityModule_Init_def Let_def split: if_splits)
  moreover have "wpl_ok w" using wpl_ok_Init[of "conn_wpl c" "e_wlan env"] i assms(1) by (simp add: conn_ok_def)
  ultimately show ?thesis
    using f assms(1,2) by (simp add: conn_ok_def update_wpl_quiet phase_ok_def)
qed

lemma stack_init_ok:
  assumes "conn_ok c" "s_connectionState c = EVSE_Network_InitComunicationModule" "ConnectivityStack_Init env c = Some (Goes_on c')"
  shows "conn_ok c'"
proof -
  obtain r fs w where i: "WPL_Start (e_wlan env) True (e_start_events env) (conn_wpl c) = Some (r, fs, w)"
    and r: "r = WPLRET_SUCCESS" "c' = ping_setup env (update_wpl w (prvConnectivity_SetState EVSE_Network_InitCommunicationStack c))"
    using assms(3) by (auto simp: ConnectivityStack_Init_def Let_def bind_eq_Some_conv split: if_splits)
  have n: "\<not> s_wplStaConnected (conn_wpl c)" using assms by (simp add: conn_ok_def phase_ok_def)
  have "wpl_ok w" using wpl_ok_Start[OF _ i] assms(1) by (simp add: conn_ok_def)
  then show ?thesis
    using WPL_Start_frame[OF i n] r assms(1,2)
    by (simp add: conn_ok_def update_wpl_quiet phase_ok_def ping_setup_def conn_do_def)
qed

lemma join_loop_ok:
  assumes "join_loop l as c = Some c'" "wpl_ok (conn_wpl c)" "s_wplState (conn_wpl c) = WPL_STARTED" "\<not> s_wplStaConnected (conn_wpl c)"
  shows "wpl_ok (conn_wpl c') \<and> s_wplState (conn_wpl c') = WPL_STARTED \<and> s_wplStaConnected (conn_wpl c') \<and>
    ping_fails c' = ping_fails c \<and> s_IPv4 c' = s_IPv4 c"
  using assms
proof (induction l as c rule: join_loop.induct)
  case (2 l we es as c)
  obtain r fs w where j: "WPL_Join we l es (conn_wpl c) = Some (r, fs, w)"
    using 2(2) by (auto simp: bind_eq_Some_conv)
  have f: "quiet (conn_wpl c) w" "s_wplState w = WPL_STARTED" "s_wplStaConnected w \<longleftrightarrow> r = WPLRET_SUCCESS"
    using WPL_Join_frame[OF j 2(5)] 2(4) by simp_all
  have ok: "wpl_ok w" using wpl_ok_Join[OF 2(3) j] .
  note u = update_wpl_fields[OF f(1)]
  show ?case
  proof (cases "r = WPLRET_SUCCESS")
    case True
    then show ?thesis using 2(2) j u f ok by simp
  next
    case False
    let ?d = "conn_do (Delay 1000) (prvConnectivity_SetState EVSE_Network_APConnectError (update_wpl w c))"
    have "join_loop l as ?d = Some c'" using 2(2) j False by simp
    then show ?thesis using 2(1)[OF j refl refl refl False] u f ok False
      by (simp add: set_state_IPv4)
  qed
qed simp

lemma ap_connect_ok:
  assumes "conn_ok c" "s_connectionState c = EVSE_Network_InitCommunicationStack" "ConnectivityAP_Connect env c = Some (Goes_on c')"
  shows "conn_ok c' \<and> s_connectionState c' = EVSE_Network_APConnected"
proof -
  let ?d = "prvConnectivity_SetState EVSE_Network_APConnectTry c"
  let ?e = "?d\<lparr>evse_wifi_credentials := WiFi_LoadPredefinedCredentials env (evse_wifi_credentials ?d)\<rparr>"
  obtain r w where a: "WPL_AddNetwork (e_wlan env) (ssid_name (evse_wifi_credentials ?e)) (pass_name (evse_wifi_credentials ?e))
      (WIFI_SSID env) (conn_wpl c) = (r, w)" by fastforce
  obtain b where j: "join_loop (WIFI_SSID env) (e_attempts env) (update_wpl w ?e) = Some b"
    and c': "c' = prvConnectivity_SetState EVSE_Network_APConnected b"
    using assms(3) a by (auto simp: ConnectivityAP_Connect_def Let_def bind_eq_Some_conv split: if_splits)
  have f: "quiet (conn_wpl ?e) w" "frame w = frame (conn_wpl c)" using AddNetwork_frame[OF a] by simp_all
  note u = update_wpl_fields[OF f(1)]
  have "s_wplState w = WPL_STARTED" "\<not> s_wplStaConnected w" "wpl_ok w"
    using assms(1,2) f(2) wpl_ok_frame[OF f(2)] by (simp_all add: conn_ok_def phase_ok_def frame_def)
  then show ?thesis
    using join_loop_ok[OF j] u assms(1) c' by (simp add: conn_ok_def phase_ok_def set_state_IPv4)
qed

lemma dhcp_ok:
  assumes "conn_ok c" "s_wplState (conn_wpl c) = WPL_STARTED" "s_wplStaConnected (conn_wpl c)"
  shows "conn_ok (DHCP_StartClient env c)"
  using assms by (simp add: DHCP_StartClient_def conn_ok_def phase_ok_def set_state_IPv4 Let_def split: option.splits)

lemma check_network_ok:
  assumes "conn_ok c" "s_connectionState c = EVSE_Network_NetworkConnected \<or> s_connectionState c = EVSE_Network_NetworkDisconnected"
  shows "conn_ok (EVSE_Connectivity_CheckNetwork env c)"
proof -
  have p: "phase_ok st (conn_wpl c)" if "st = EVSE_Network_APConnected \<or> st = EVSE_Network_NetworkDisconnected" for st
    using assms that by (auto simp: conn_ok_def phase_ok_def)
  have s: "conn_ok (c\<lparr>ping_fails := n\<rparr>)" if "n \<le> 4" for n using assms(1) that by (simp add: conn_ok_def)
  have "sint (n + 1) > 4 \<or> n + 1 \<le> 4" if "n \<le> 4" for n :: u8
  proof -
    have "n = 0 \<or> n = 1 \<or> n = 2 \<or> n = 3 \<or> n = 4"
      using that by (simp add: word_le_nat_alt word_unat_eq_iff) arith
    then show ?thesis by auto
  qed
  then have "sint (ping_fails c + 1) > 4 \<or> ping_fails c + 1 \<le> 4" using assms(1) by (simp add: conn_ok_def)
  then show ?thesis
    using assms(1) p s
    by (auto simp: EVSE_Connectivity_CheckNetwork_def Let_def conn_do_def conn_ok_def set_state_IPv4)
qed

lemma sntp_core:
  assumes "SNTP_Connection env c = Goes_on c'"
  shows "\<exists>e. core e = core (prvConnectivity_SetState EVSE_Network_SNTPRequest c) \<and>
    c' = prvConnectivity_SetState EVSE_Network_OCPP_Init e"
proof -
  let ?c = "prvConnectivity_SetState EVSE_Network_SNTPRequest c"
  obtain t r d where dns: "dns_loop env 0 0 ?c = (t, r, d)" by (cases "dns_loop env 0 0 ?c")
  obtain t' r' e where sync: "sync_loop env t r d = (t', r', e)" by (cases "sync_loop env t r d")
  note D = dns_loop_outcome[OF _ dns, simplified]
  have t: "unat t \<le> 9" using D by (auto split: if_splits)
  have "core e = core ?c" using D sync_loop_outcome[OF t sync] by simp
  moreover have "c' = prvConnectivity_SetState EVSE_Network_OCPP_Init e"
    using assms dns sync by (simp add: SNTP_Connection_def Let_def split: if_splits)
  ultimately show ?thesis by blast
qed

lemma sntp_ok:
  assumes "conn_ok c" "s_connectionState c = EVSE_Network_DHCPRequest" "SNTP_Connection env c = Goes_on c'"
  shows "conn_ok c'"
  using sntp_core[OF assms(3)] assms(1,2) by (auto simp: conn_ok_def core_def set_state_IPv4 phase_ok_def)

lemma pass_ok:
  assumes "conn_ok c" "connectivity_pass env c = Some (Goes_on c')"
  shows "conn_ok c'"
proof -
  have phase: "phase_ok (s_connectionState c) (conn_wpl c)" using assms(1) by (simp add: conn_ok_def)
  show ?thesis
  proof (cases "s_connectionState c")
    case EVSE_Network_InitCommunicationStack
    then obtain r where r: "ConnectivityAP_Connect env c = Some r"
      "and_then r (\<lambda>c. Some (Goes_on (DHCP_StartClient env c))) = Some (Goes_on c')"
      using assms(2) by (auto simp: connectivity_pass_def bind_eq_Some_conv)
    then obtain b where b: "r = Goes_on b" "c' = DHCP_StartClient env b" by (cases r) auto
    have "conn_ok b" "s_connectionState b = EVSE_Network_APConnected"
      using ap_connect_ok[OF assms(1) EVSE_Network_InitCommunicationStack] r(1) b(1) by simp_all
    then show ?thesis unfolding b(2) by (intro dhcp_ok) (simp_all add: conn_ok_def phase_ok_def)
  qed (use assms phase in \<open>auto simp: connectivity_pass_def phase_ok_def
      intro!: conn_ok_set_state check_network_ok intro: module_init_ok stack_init_ok dhcp_ok sntp_ok\<close>)
qed

text \<open>The states of the task: turns, reports of the driver and times set by lwIP, in any order.\<close>

inductive conn_reachable :: "conn \<Rightarrow> bool" where
  boot: "conn_reachable conn_boot"
| turn: "conn_reachable c \<Longrightarrow> connectivity_pass env c = Some (Goes_on c') \<Longrightarrow> conn_reachable c'"
| report: "conn_reachable c \<Longrightarrow> driver_report r c = Some c' \<Longrightarrow> conn_reachable c'"
| time: "conn_reachable c \<Longrightarrow> conn_reachable (EVSE_Connectivity_SetUnixTime ticks sec c)"

lemma reachable_conn_ok: "conn_reachable c \<Longrightarrow> conn_ok c"
proof (induction rule: conn_reachable.induct)
  case (time c ticks sec)
  then show ?case by (simp add: conn_ok_def EVSE_Connectivity_SetUnixTime_def)
qed (auto intro: conn_ok_boot pass_ok conn_ok_report)

text \<open>
  Whatever the driver reports and when, every turn finds the task in one of eight states, each with
  the Wi-Fi layer as far as the state needs it, with at most four failed pings counted and without an
  address while disconnected. No turn uses a null handle, and every turn outside the start of the stack
  and the attempts to join returns or enters the error loop.
\<close>

theorem connectivity_states:
  assumes "conn_reachable c"
  shows "wpl_ok (conn_wpl c) \<and> phase_ok (s_connectionState c) (conn_wpl c) \<and> ping_fails c \<le> 4 \<and>
    (s_connectionState c = EVSE_Network_NetworkDisconnected \<longrightarrow> EVSE_Connectivity_GetIPv4 c = None) \<and>
    (\<exists>c'. driver_report r c = Some c' \<and> conn_reachable c') \<and>
    (s_connectionState c \<noteq> EVSE_Network_InitComunicationModule \<and> s_connectionState c \<noteq> EVSE_Network_InitCommunicationStack
      \<longrightarrow> connectivity_pass env c \<noteq> None)"
proof -
  have ok: "conn_ok c" using assms by (rule reachable_conn_ok)
  then obtain w where "wlan_event_callback r (conn_wpl c) = Some w" using event_callback_handled by (auto simp: conn_ok_def)
  then have "driver_report r c = Some (update_wpl w c)" by (simp add: driver_report_def)
  then have "\<exists>c'. driver_report r c = Some c' \<and> conn_reachable c'" using conn_reachable.report[OF assms] by blast
  moreover have "connectivity_pass env c \<noteq> None"
    if "s_connectionState c \<noteq> EVSE_Network_InitComunicationModule" "s_connectionState c \<noteq> EVSE_Network_InitCommunicationStack"
    using that by (simp add: connectivity_pass_def split: connectionState_t.splits)
  ultimately show ?thesis using ok by (auto simp: conn_ok_def EVSE_Connectivity_GetIPv4_def)
qed

theorem connectivity_states_witness:
  "wpl_ok (conn_wpl conn_boot) \<and> phase_ok EVSE_Network_NotConnected (conn_wpl conn_boot) \<and>
     connectivity_pass quiet_env conn_boot \<noteq> None"
  using connectivity_states[OF conn_reachable.boot, of WLAN_REASON_LINK_LOST quiet_env]
  by (simp add: conn_boot_def)

section \<open>Start\<close>

fun turns :: "nat \<Rightarrow> conn_env \<Rightarrow> conn \<Rightarrow> conn_outcome option" where
  "turns 0 env c = Some (Goes_on c)"
| "turns (Suc n) env c = do { r \<leftarrow> connectivity_pass env c; and_then r (turns n env) }"

text \<open>
  An attempt to join that fails: the driver refuses to connect, or it reports one of the four failures, and then
  the layer leaves, which ends at once (the driver says that it is not connected, cannot say, or
  refuses to disconnect) or with the report of the disconnection.
\<close>

definition failed_attempt :: "wlan_env \<times> wlan_event list \<Rightarrow> bool" where
  "failed_attempt = (\<lambda>(we, es). \<not> r_connect we \<or>
     (\<exists>r \<in> {WLAN_REASON_CONNECT_FAILED, WLAN_REASON_NETWORK_NOT_FOUND, WLAN_REASON_NETWORK_AUTH_FAILED,
            WLAN_REASON_ADDRESS_FAILED}.
        if r_connection_state we = None \<or> r_connection_state we = Some WLAN_DISCONNECTED \<or> \<not> r_disconnect we
        then es = [Reason r] else es = [Reason r, Reason WLAN_REASON_USER_DISCONNECT]))"

lemma agree_zero:
  "s_wplSyncEvent s = Some b \<Longrightarrow> agree 0 s (s\<lparr>s_wplSyncEvent := Some 0\<rparr>)"
  by (auto simp: agree_def)

lemmas join_run_defs = WPL_Join_def WPL_Leave_def clear_bits_def wait_bits.simps deliver_def wlan_event_callback_def
  set_bits_def call_link_cb_def wpl_do_def join_result_def has_bit_def group_defs

lemma join_refused:
  assumes "s_wplSyncEvent s = Some b" "s_wplState s = WPL_STARTED" "\<not> s_wplStaConnected s" "\<not> bad_label l" "\<not> r_connect we"
  shows "\<exists>r fs t. WPL_Join we l es s = Some (r, fs, t) \<and> r \<noteq> WPLRET_SUCCESS"
  using assms by (simp add: WPL_Join_def clear_bits_def)

lemma join_fails:
  assumes "s_wplSyncEvent s = Some b" "s_wplState s = WPL_STARTED" "\<not> s_wplStaConnected s" "\<not> bad_label l"
    "failed_attempt (we, es)"
  shows "\<exists>r fs t. WPL_Join we l es s = Some (r, fs, t) \<and> r \<noteq> WPLRET_SUCCESS"
proof (cases "r_connect we")
  case True
  let ?s = "s\<lparr>s_wplSyncEvent := Some 0\<rparr>"
  have "\<exists>r fs t. WPL_Join we l es ?s = Some (r, fs, t) \<and> r \<noteq> WPLRET_SUCCESS"
    using assms(2-5) True
    by (cases "r_connection_state we = None \<or> r_connection_state we = Some WLAN_DISCONNECTED \<or> \<not> r_disconnect we")
      (auto simp: failed_attempt_def join_run_defs)
  then obtain r fs t where "WPL_Join we l es ?s = Some (r, fs, t)" "r \<noteq> WPLRET_SUCCESS" by blast
  then show ?thesis using agree_Join[OF agree_zero[OF assms(1)], of we l es]
    by (auto elim!: option.rel_cases same_outcomeE)
qed (use join_refused[OF assms(1-4)] in blast)

lemma join_success:
  assumes "s_wplSyncEvent s = Some b" "s_wplState s = WPL_STARTED" "\<not> s_wplStaConnected s" "\<not> bad_label l" "r_connect we"
  shows "\<exists>t. WPL_Join we l [Reason WLAN_REASON_SUCCESS] s = Some (WPLRET_SUCCESS, [], t)"
proof -
  let ?s = "s\<lparr>s_wplSyncEvent := Some 0\<rparr>"
  have "map_option (\<lambda>(r, es, t). (r, es)) (WPL_Join we l [Reason WLAN_REASON_SUCCESS] ?s) = Some (WPLRET_SUCCESS, [])"
    using assms by (simp add: join_run_defs)
  then show ?thesis using agree_Join[OF agree_zero[OF assms(1)], of we l "[Reason WLAN_REASON_SUCCESS]"]
    by (auto elim!: option.rel_cases same_outcomeE)
qed

lemma join_loop_succeeds:
  assumes "wpl_ok (conn_wpl c)" "s_wplState (conn_wpl c) = WPL_STARTED" "\<not> s_wplStaConnected (conn_wpl c)" "\<not> bad_label l"
    "\<forall>a \<in> set fails. failed_attempt a" "r_connect we"
  shows "\<exists>c'. join_loop l (fails @ [(we, [Reason WLAN_REASON_SUCCESS])]) c = Some c' \<and>
    evse_wifi_credentials c' = evse_wifi_credentials c"
  using assms
proof (induction fails arbitrary: c)
  case Nil
  obtain b where b: "s_wplSyncEvent (conn_wpl c) = Some b" using Nil(1,2) by (auto simp: wpl_ok_def)
  obtain t where j: "WPL_Join we l [Reason WLAN_REASON_SUCCESS] (conn_wpl c) = Some (WPLRET_SUCCESS, [], t)"
    using join_success[OF b Nil(2,3,4,6)] by blast
  then show ?case using update_wpl_quiet[of c t] WPL_Join_frame[OF j Nil(3)] by simp
next
  case (Cons e fails)
  obtain b where b: "s_wplSyncEvent (conn_wpl c) = Some b" using Cons(2,3) by (auto simp: wpl_ok_def)
  obtain we' es where e: "e = (we', es)" by (cases e)
  have fa: "failed_attempt (we', es)" using Cons(6) e by simp
  obtain r fs t where j: "WPL_Join we' l es (conn_wpl c) = Some (r, fs, t)" "r \<noteq> WPLRET_SUCCESS"
    using join_fails[OF b Cons(3,4,5) fa] by blast
  let ?d = "conn_do (Delay 1000) (prvConnectivity_SetState EVSE_Network_APConnectError (update_wpl t c))"
  have f: "quiet (conn_wpl c) t" "s_wplState t = WPL_STARTED" "\<not> s_wplStaConnected t"
    using WPL_Join_frame[OF j(1) Cons(4)] Cons(3) j(2) by simp_all
  have d: "conn_wpl ?d = t" "evse_wifi_credentials ?d = evse_wifi_credentials c"
    using update_wpl_quiet[OF f(1)] by (simp_all add: conn_do_def)
  have "wpl_ok t" using wpl_ok_Join[OF Cons(2) j(1)] .
  then show ?case
    using Cons.IH[of ?d] Cons.prems(4,5,6) f d j by (simp add: e)
qed

text \<open>What has to hold outside for the task to reach the network: the driver starts, the credentials
  fit, the network is found after some attempts, and a time arrives.\<close>

definition network_available :: "conn_env \<Rightarrow> bool" where
  "network_available env \<longleftrightarrow>
     r_event_group (e_wlan env) \<and> r_init (e_wlan env) \<and> r_start (e_wlan env) \<and> r_add_network (e_wlan env) \<and>
     e_start_events env = [Reason WLAN_REASON_INITIALIZED] \<and>
     WIFI_SSID env \<noteq> [] \<and> length (WIFI_SSID env) < 32 \<and> 8 \<le> length (WIFI_PASS env) \<and> length (WIFI_PASS env) < 64 \<and>
     (\<exists>a. e_address env = Some a \<and> a \<noteq> []) \<and> (\<exists>i < 9. e_dns env i) \<and> (\<exists>i < 9. \<exists>j < 10. time_arrives env i j)"

lemma start_runs:
  assumes "s_wplState s = WPL_INITIALIZED" "s_wplSyncEvent s = Some b" "r_start we"
  shows "\<exists>t. WPL_Start we True [Reason WLAN_REASON_INITIALIZED] s = Some (WPLRET_SUCCESS, [], t)"
proof -
  let ?s = "s\<lparr>s_wplSyncEvent := Some 0\<rparr>"
  have "map_option (\<lambda>(r, es, t). (r, es)) (WPL_Start we True [Reason WLAN_REASON_INITIALIZED] ?s) = Some (WPLRET_SUCCESS, [])"
    using assms by (simp add: WPL_Start_def join_run_defs)
  then show ?thesis using agree_Start[OF agree_zero[OF assms(2)], of we True "[Reason WLAN_REASON_INITIALIZED]"]
    by (auto elim!: option.rel_cases same_outcomeE)
qed

lemma turn_module_init:
  assumes "conn_ok c" "s_connectionState c = EVSE_Network_NotConnected" "network_available env"
  shows "\<exists>c'. connectivity_pass env c = Some (Goes_on c') \<and> s_connectionState c' = EVSE_Network_InitComunicationModule \<and>
    evse_wifi_credentials c' = evse_wifi_credentials c"
proof -
  have s: "s_wplState (conn_wpl c) = WPL_NOT_INITIALIZED" "\<not> s_wplStaConnected (conn_wpl c)"
    using assms(1,2) by (simp_all add: conn_ok_def phase_ok_def)
  obtain w where w: "WPL_Init (e_wlan env) (conn_wpl c) = (WPLRET_SUCCESS, w)"
    using s(1) assms(3) by (cases "s_wplSyncEvent (conn_wpl c)") (simp_all add: WPL_Init_def network_available_def Let_def)
  have "quiet (conn_wpl c) w" using Init_frame[OF w s(2)] by simp
  then show ?thesis
    using w assms(2) by (simp add: connectivity_pass_def ConnectivityModule_Init_def Let_def update_wpl_quiet)
qed

lemma turn_stack_init:
  assumes "conn_ok c" "s_connectionState c = EVSE_Network_InitComunicationModule" "network_available env"
  shows "\<exists>c'. connectivity_pass env c = Some (Goes_on c') \<and> s_connectionState c' = EVSE_Network_InitCommunicationStack"
proof -
  have s: "s_wplState (conn_wpl c) = WPL_INITIALIZED" "\<not> s_wplStaConnected (conn_wpl c)"
    using assms(1,2) by (simp_all add: conn_ok_def phase_ok_def)
  obtain b where b: "s_wplSyncEvent (conn_wpl c) = Some b" using assms(1) s by (auto simp: conn_ok_def wpl_ok_def)
  obtain t where t: "WPL_Start (e_wlan env) True (e_start_events env) (conn_wpl c) = Some (WPLRET_SUCCESS, [], t)"
    using start_runs[OF s(1) b, of "e_wlan env"] assms(3) by (auto simp: network_available_def)
  have "quiet (conn_wpl c) t" using WPL_Start_frame[OF t s(2)] by simp
  then show ?thesis
    using t assms(2)
    by (simp add: connectivity_pass_def ConnectivityStack_Init_def Let_def update_wpl_quiet ping_setup_def conn_do_def)
qed

lemma DHCP_fields [simp]:
  "s_connectionState (DHCP_StartClient env c) = EVSE_Network_DHCPRequest"
  "evse_wifi_credentials (DHCP_StartClient env c) = evse_wifi_credentials c"
  "e_address env = Some a \<Longrightarrow> s_IPv4 (DHCP_StartClient env c) = a"
  by (simp_all add: DHCP_StartClient_def Let_def split: option.splits)

lemma turn_join:
  assumes "conn_ok c" "s_connectionState c = EVSE_Network_InitCommunicationStack" "network_available env"
    "e_attempts env = fails @ [(we, [Reason WLAN_REASON_SUCCESS])]"
    "\<forall>a \<in> set fails. failed_attempt a" "r_connect we"
  shows "\<exists>c'. connectivity_pass env c = Some (Goes_on c') \<and> s_connectionState c' = EVSE_Network_DHCPRequest \<and>
    Some (s_IPv4 c') = e_address env \<and> ssid_name (evse_wifi_credentials c') = WIFI_SSID env"
proof -
  have s: "s_wplState (conn_wpl c) = WPL_STARTED" "\<not> s_wplStaConnected (conn_wpl c)" "wpl_ok (conn_wpl c)"
    using assms(1,2) by (simp_all add: conn_ok_def phase_ok_def)
  let ?d = "prvConnectivity_SetState EVSE_Network_APConnectTry c"
  let ?e = "?d\<lparr>evse_wifi_credentials := WiFi_LoadPredefinedCredentials env (evse_wifi_credentials ?d)\<rparr>"
  have cred: "ssid_name (evse_wifi_credentials ?e) = WIFI_SSID env" "pass_name (evse_wifi_credentials ?e) = WIFI_PASS env"
    using assms(3) by (auto simp: WiFi_LoadPredefinedCredentials_def network_available_def Let_def)
  obtain w where w: "WPL_AddNetwork (e_wlan env) (WIFI_SSID env) (WIFI_PASS env) (WIFI_SSID env) (conn_wpl c) = (WPLRET_SUCCESS, w)"
    using s assms(3)
    by (auto simp: WPL_AddNetwork_def WPL_AddNetworkWithSecurity_def network_available_def bad_label_def bad_ssid_def bad_password_def Let_def)
  have f: "quiet (conn_wpl ?e) w" "frame w = frame (conn_wpl c)" using AddNetwork_frame[OF w] by simp_all
  let ?f = "update_wpl w ?e"
  have l: "\<not> bad_label (WIFI_SSID env)" using assms(3) by (simp add: network_available_def bad_label_def)
  obtain b where b: "join_loop (WIFI_SSID env) (e_attempts env) ?f = Some b" "evse_wifi_credentials b = evse_wifi_credentials ?e"
    using join_loop_succeeds[of ?f "WIFI_SSID env" fails we] update_wpl_quiet[OF f(1)] f(2) s wpl_ok_frame[OF f(2)] l assms(4,5,6)
    by (auto simp: frame_def)
  have "ConnectivityAP_Connect env c = Some (Goes_on (prvConnectivity_SetState EVSE_Network_APConnected b))"
    using b w cred by (simp add: ConnectivityAP_Connect_def Let_def)
  then show ?thesis using assms(2,3) b(2) cred by (auto simp: connectivity_pass_def network_available_def)
qed


text \<open>Attempts that are refused, fail to authenticate and do not find the network, and one that succeeds.\<close>

definition failing_attempts :: "(wlan_env \<times> wlan_event list) list" where
  "failing_attempts =
     [(willing_env\<lparr>r_connect := False\<rparr>, []),
      (willing_env\<lparr>r_connection_state := Some WLAN_ASSOCIATED, r_disconnect := True\<rparr>,
        [Reason WLAN_REASON_NETWORK_AUTH_FAILED, Reason WLAN_REASON_USER_DISCONNECT]),
      (willing_env\<lparr>r_connection_state := Some WLAN_DISCONNECTED\<rparr>, [Reason WLAN_REASON_NETWORK_NOT_FOUND])]"


section \<open>Loss of the network\<close>

lemma turns_add: "turns (m + n) env c = turns m env c \<bind> (\<lambda>r. and_then r (turns n env))"
proof (induction m arbitrary: c)
  case (Suc m)
  have "and_then r (turns (m + n) env) = and_then r (turns m env) \<bind> (\<lambda>r. and_then r (turns n env))" for r
    by (cases r) (simp_all add: Suc.IH)
  then show ?case by (cases "connectivity_pass env c") simp_all
qed simp

definition ping_env :: "bool \<Rightarrow> bool \<Rightarrow> conn_env \<Rightarrow> bool" where
  "ping_env sent answered env \<longleftrightarrow> e_ping_send env = sent \<and> e_ping_recv env = answered"

lemma failed_ping_turn:
  assumes "s_connectionState c = EVSE_Network_NetworkConnected" "ping_fails c = of_nat n" "n < 5" "ping_env True False env"
  shows "\<exists>c'. connectivity_pass env c = Some (Goes_on c') \<and>
    (if n = 4 then s_connectionState c' = EVSE_Network_NetworkDisconnected \<and> s_IPv4 c' = [] \<and> ping_fails c' = 0
     else s_connectionState c' = EVSE_Network_NetworkConnected \<and> ping_fails c' = of_nat (Suc n))"
proof -
  have "n = 0 \<or> n = 1 \<or> n = 2 \<or> n = 3 \<or> n = 4" using assms(3) by arith
  then show ?thesis using assms(1,2,4)
    by (auto simp: connectivity_pass_def EVSE_Connectivity_CheckNetwork_def Let_def conn_do_def ping_env_def set_state_IPv4)
qed

lemma failed_ping_turns:
  assumes "s_connectionState c = EVSE_Network_NetworkConnected" "ping_fails c = of_nat n" "n + k \<le> 4" "ping_env True False env"
  shows "\<exists>c'. turns k env c = Some (Goes_on c') \<and> s_connectionState c' = EVSE_Network_NetworkConnected \<and> ping_fails c' = of_nat (n + k)"
  using assms
proof (induction k arbitrary: c n)
  case (Suc k)
  then obtain d where d: "connectivity_pass env c = Some (Goes_on d)" "s_connectionState d = EVSE_Network_NetworkConnected"
    "ping_fails d = of_nat (Suc n)"
    using failed_ping_turn[of c n env] by auto
  then show ?case using Suc.IH[of d "Suc n"] Suc.prems by auto
qed simp

lemma unsent_ping_turns:
  assumes "s_connectionState c = EVSE_Network_NetworkConnected" "e_ping_send env = False"
  shows "\<exists>c'. turns k env c = Some (Goes_on c') \<and> s_connectionState c' = EVSE_Network_NetworkConnected"
  using assms
proof (induction k arbitrary: c)
  case (Suc k)
  obtain d where "connectivity_pass env c = Some (Goes_on d)" "s_connectionState d = EVSE_Network_NetworkConnected"
    using Suc.prems by (simp add: connectivity_pass_def EVSE_Connectivity_CheckNetwork_def Let_def)
  then show ?case using Suc.IH[of d] Suc.prems(2) by auto
qed simp

text \<open>
  (C26) A network that no longer answers is noticed by the fifth turn, not before: the task is then
  disconnected, without an address, and the turn after tells the OCPP task. A ping that cannot be sent is
  not counted as one that fails, so while none can be sent the task takes the network for connected
  for ever.
\<close>

theorem lost_network_detection:
  assumes "s_connectionState c = EVSE_Network_NetworkConnected" "ping_fails c = 0" "ping_env True False env" "ping_env False a env'"
  shows "(\<forall>k \<le> 4. \<exists>c'. turns k env c = Some (Goes_on c') \<and> EVSE_Connectivity_IsConnectedToInternet c') \<and>
    (\<exists>c'. turns 5 env c = Some (Goes_on c') \<and> s_connectionState c' = EVSE_Network_NetworkDisconnected \<and>
       EVSE_Connectivity_GetIPv4 c' = None \<and>
       (\<exists>c''. turns 6 env c = Some (Goes_on c'') \<and>
          Ocpp_network_down \<in> set (drop (length (conn_calls c')) (conn_calls c'')))) \<and>
    (\<forall>k. \<exists>c'. turns k env' c = Some (Goes_on c') \<and> EVSE_Connectivity_IsConnectedToInternet c')"
proof (intro conjI allI impI)
  fix k :: nat
  assume "k \<le> 4"
  then show "\<exists>c'. turns k env c = Some (Goes_on c') \<and> EVSE_Connectivity_IsConnectedToInternet c'"
    using failed_ping_turns[of c 0 k env] assms by (auto simp: EVSE_Connectivity_IsConnectedToInternet_def)
next
  obtain d where d: "turns 4 env c = Some (Goes_on d)" "s_connectionState d = EVSE_Network_NetworkConnected" "ping_fails d = of_nat 4"
    using failed_ping_turns[of c 0 4 env] assms by auto
  obtain e where e: "connectivity_pass env d = Some (Goes_on e)" "s_connectionState e = EVSE_Network_NetworkDisconnected" "s_IPv4 e = []"
    using failed_ping_turn[of d 4 env] d assms(3) by auto
  obtain f where f: "connectivity_pass env e = Some (Goes_on f)" "Ocpp_network_down \<in> set (drop (length (conn_calls e)) (conn_calls f))"
    using e(2) by (auto simp: connectivity_pass_def EVSE_Connectivity_CheckNetwork_def conn_do_def Let_def)
  have t5: "turns 5 env c = Some (Goes_on e)" using turns_add[of 4 1 env c] d(1) e(1) by simp
  moreover have "turns 6 env c = Some (Goes_on f)" using turns_add[of 5 1 env c] t5 f(1) by simp
  ultimately show "\<exists>c'. turns 5 env c = Some (Goes_on c') \<and> s_connectionState c' = EVSE_Network_NetworkDisconnected \<and>
       EVSE_Connectivity_GetIPv4 c' = None \<and>
       (\<exists>c''. turns 6 env c = Some (Goes_on c'') \<and> Ocpp_network_down \<in> set (drop (length (conn_calls c')) (conn_calls c'')))"
    using e f by (auto simp: EVSE_Connectivity_GetIPv4_def)
next
  fix k
  show "\<exists>c'. turns k env' c = Some (Goes_on c') \<and> EVSE_Connectivity_IsConnectedToInternet c'"
    using unsent_ping_turns[OF assms(1), of env' k] assms(4) by (simp add: ping_env_def EVSE_Connectivity_IsConnectedToInternet_def)
qed

theorem lost_network_detection_witness:
  "\<exists>c'. turns 5 quiet_env connected_sample = Some (Goes_on c') \<and> s_connectionState c' = EVSE_Network_NetworkDisconnected"
  using lost_network_detection[of connected_sample quiet_env False "quiet_env\<lparr>e_ping_send := False\<rparr>"]
  by (auto simp: connected_sample_def conn_boot_def quiet_env_def ping_env_def)

end
