(* ===== verification/Meter_Config.thy ===== *)
theory Meter_Config
  imports C_Float "HOL-Library.Monad_Syntax"
begin

text \<open>
  The calibration of the meter, \<open>source/meterconfig.c\<close>: the configuration, the collection of offsets and
  measurements and the calculation of the calibration data. The structure has the same fields three
  times, once for each phase; here they are a record of their own. Doubles are binary64 values and
  \<open>atan2\<close> of the C library is an argument. The routines that read and write the flash are empty.
\<close>

section \<open>Configuration\<close>

record cal_phase =
  urms_cal :: cfloat
  urms_msr :: cfloat
  irms_cal :: cfloat
  irms_msr :: cfloat
  angle_cal :: cfloat
  angle_msr :: cfloat
  P_msr :: cfloat
  Q_msr :: cfloat
  i_msrmax :: int
  i_msrmin :: int
  angle :: int
  i_offset :: int
  i_gain :: cfloat
  u_gain :: cfloat

record tCONFIG_FLASH_DATA =
  cfg_id :: u16
  tarif :: u16
  wh_idx :: u16
  varh_idx :: u16
  vrefh :: u16
  vrefl :: u16
  phase1 :: cal_phase
  phase2 :: cal_phase
  phase3 :: cal_phase
  cfg_flag :: u16

definition dbl :: "rat \<Rightarrow> cfloat" where
  "dbl r = fl_round f64 r"

definition nvm_phase :: cal_phase where
  "nvm_phase = \<lparr>urms_cal = dbl 230, urms_msr = Fin 0, irms_cal = dbl 5, irms_msr = Fin 0,
     angle_cal = dbl (785398163 / 1000000000), angle_msr = Fin 0, P_msr = Fin 0, Q_msr = Fin 0, i_msrmax = 0, i_msrmin = 0,
     angle = 0, i_offset = 0, i_gain = dbl 1, u_gain = dbl 1\<rparr>"

definition nvmcfg :: tCONFIG_FLASH_DATA where
  "nvmcfg = \<lparr>cfg_id = 95, tarif = 1, wh_idx = 5, varh_idx = 5, vrefh = 48, vrefl = 3,
     phase1 = nvm_phase, phase2 = nvm_phase, phase3 = nvm_phase, cfg_flag = 0xFFFF\<rparr>"

definition CONFIG_ReadFromNV :: "tCONFIG_FLASH_DATA \<Rightarrow> tCONFIG_FLASH_DATA" where
  "CONFIG_ReadFromNV ptr = ptr"

definition CONFIG_SaveToNV :: "tCONFIG_FLASH_DATA \<Rightarrow> u16 \<Rightarrow> tCONFIG_FLASH_DATA" where
  "CONFIG_SaveToNV ptr flag = ptr"

text \<open>
  The start of the metrology task: every byte of the configuration is set to 0xFF (so its flag is
  0xFFFF, whatever the other fields then read), the flash is read over it, and the default is taken when the
  flag is still 0xFFFF.
\<close>

definition metrology_load_config :: "tCONFIG_FLASH_DATA \<Rightarrow> tCONFIG_FLASH_DATA" where
  "metrology_load_config ramcfg =
     (let ramcfg = CONFIG_ReadFromNV (ramcfg\<lparr>cfg_flag := 0xFFFF\<rparr>)
      in if cfg_flag ramcfg = 0xFFFF then nvmcfg else ramcfg)"

section \<open>Collection\<close>

definition update_phase :: "int \<Rightarrow> cal_phase \<Rightarrow> cal_phase" where
  "update_phase i p =
     (let p = (if i_msrmax p < i then p\<lparr>i_msrmax := i\<rparr> else p)
      in if i_msrmin p > i then p\<lparr>i_msrmin := i\<rparr> else p)"

definition CONFIG_UpdateOffsets :: "tCONFIG_FLASH_DATA \<Rightarrow> int \<Rightarrow> int \<Rightarrow> int \<Rightarrow> tCONFIG_FLASH_DATA" where
  "CONFIG_UpdateOffsets ptr i1 i2 i3 =
     (if cfg_flag ptr = 0xFFF5
      then ptr\<lparr>phase1 := update_phase i1 (phase1 ptr), phase2 := update_phase i2 (phase2 ptr),
             phase3 := update_phase i3 (phase3 ptr)\<rparr>
      else ptr)"

text \<open>A measurement of a phase: voltage, current, active and reactive power.\<close>

type_synonym phase_msr = "cfloat \<times> cfloat \<times> cfloat \<times> cfloat"

definition store_msr :: "phase_msr \<Rightarrow> cal_phase \<Rightarrow> cal_phase" where
  "store_msr = (\<lambda>(urms, irms, w, var) p. p\<lparr>urms_msr := urms, irms_msr := irms, P_msr := w, Q_msr := var\<rparr>)"

abbreviation (input) TIMEOUT_IN_SEC_10 :: int where "TIMEOUT_IN_SEC_10 \<equiv> 10 * 4"

definition CONFIG_PreProcessing ::
    "phase_msr \<Rightarrow> phase_msr \<Rightarrow> phase_msr \<Rightarrow> tCONFIG_FLASH_DATA \<times> int \<Rightarrow> tCONFIG_FLASH_DATA \<times> int" where
  "CONFIG_PreProcessing m1 m2 m3 = (\<lambda>(ptr, timeout).
     if cfg_flag ptr = 0xFFF5
     then let ptr = ptr\<lparr>phase1 := store_msr m1 (phase1 ptr), phase2 := store_msr m2 (phase2 ptr),
                     phase3 := store_msr m3 (phase3 ptr)\<rparr>
          in (if timeout > TIMEOUT_IN_SEC_10 then ptr\<lparr>cfg_flag := 0xFFA4\<rparr> else ptr, timeout + 1)
     else (ptr, timeout))"

section \<open>Calculation\<close>

definition fl_ge :: "cfloat \<Rightarrow> cfloat \<Rightarrow> bool" where
  "fl_ge a b \<longleftrightarrow> fl_le b a"

definition cal_condition :: "cal_phase \<Rightarrow> bool" where
  "cal_condition p \<longleftrightarrow>
     fl_ge (irms_msr p) (fl_mul f64 (irms_cal p) (dbl (9 / 10))) \<and>
     fl_le (irms_msr p) (fl_mul f64 (irms_cal p) (dbl (11 / 10))) \<and>
     fl_ge (urms_msr p) (urms_cal p) \<and> fl_ge (irms_msr p) (irms_cal p)"

text \<open>
  The offset is the sum of two 32-bit integers, undefined when it overflows, shifted right; the angle is
  converted to a 32-bit integer, undefined when it does not fit.
\<close>

definition int32_ok :: "int \<Rightarrow> bool" where
  "int32_ok i \<longleftrightarrow> - (2 ^ 31) \<le> i \<and> i < 2 ^ 31"

definition cal_offset :: "cal_phase \<Rightarrow> int option" where
  "cal_offset p = (let s = i_msrmax p + i_msrmin p in if int32_ok s then Some (s div 2) else None)"

definition fl_to_int32 :: "cfloat \<Rightarrow> int option" where
  "fl_to_int32 x = (case x of Fin r \<Rightarrow> if int32_ok (rtrunc r) then Some (rtrunc r) else None | _ \<Rightarrow> None)"

abbreviation (input) PI_LITERAL :: rat where "PI_LITERAL \<equiv> 31415926535897932384626433832795 / 10 ^ 31"

definition cal_phase_data :: "(cfloat \<Rightarrow> cfloat \<Rightarrow> cfloat) \<Rightarrow> cal_phase \<Rightarrow> cal_phase option" where
  "cal_phase_data atan2 p =
     do {
       offset \<leftarrow> cal_offset p;
       let p = p\<lparr>i_offset := offset, u_gain := fl_div f64 (urms_cal p) (urms_msr p), i_gain := fl_div f64 (irms_cal p) (irms_msr p)\<rparr>;
       let p = p\<lparr>angle_msr := fl_sub f64 (atan2 (Q_msr p) (P_msr p)) (angle_cal p)\<rparr>;
       a \<leftarrow> fl_to_int32 (fl_div f64 (fl_mul f64 (angle_msr p) (Fin 180000)) (dbl PI_LITERAL));
       Some (p\<lparr>angle := a\<rparr>)
     }"

definition CONFIG_CalcCalibData ::
    "(cfloat \<Rightarrow> cfloat \<Rightarrow> cfloat) \<Rightarrow> tCONFIG_FLASH_DATA \<Rightarrow> (bool \<times> tCONFIG_FLASH_DATA) option" where
  "CONFIG_CalcCalibData atan2 ptr =
     (if cfg_flag ptr = 0xFFA5
      then if cal_condition (phase1 ptr) \<and> cal_condition (phase2 ptr) \<and> cal_condition (phase3 ptr)
           then do {
             p1 \<leftarrow> cal_phase_data atan2 (phase1 ptr);
             p2 \<leftarrow> cal_phase_data atan2 (phase2 ptr);
             p3 \<leftarrow> cal_phase_data atan2 (phase3 ptr);
             Some (True, ptr\<lparr>phase1 := p1, phase2 := p2, phase3 := p3, cfg_flag := 0xA5A5\<rparr>)
           }
           else Some (False, ptr\<lparr>cfg_flag := 0xFFF5\<rparr>)
      else Some (False, ptr))"

section \<open>Any sequence of calls\<close>

datatype config_call = Update_offsets int int int | Pre_processing phase_msr phase_msr phase_msr | Calc_calib_data

fun config_step :: "(cfloat \<Rightarrow> cfloat \<Rightarrow> cfloat) \<Rightarrow> config_call \<Rightarrow> tCONFIG_FLASH_DATA \<times> int \<Rightarrow> (tCONFIG_FLASH_DATA \<times> int) option" where
  "config_step atan2 (Update_offsets i1 i2 i3) (c, t) = Some (CONFIG_UpdateOffsets c i1 i2 i3, t)"
| "config_step atan2 (Pre_processing m1 m2 m3) s = Some (CONFIG_PreProcessing m1 m2 m3 s)"
| "config_step atan2 Calc_calib_data (c, t) = map_option (\<lambda>(_, c). (c, t)) (CONFIG_CalcCalibData atan2 c)"

fun config_run :: "(cfloat \<Rightarrow> cfloat \<Rightarrow> cfloat) \<Rightarrow> config_call list \<Rightarrow> tCONFIG_FLASH_DATA \<times> int \<Rightarrow> (tCONFIG_FLASH_DATA \<times> int) option" where
  "config_run atan2 [] s = Some s"
| "config_run atan2 (k # ks) s = config_step atan2 k s \<bind> config_run atan2 ks"

text \<open>The calibration data of a phase, which the calculation writes.\<close>

definition cal_data :: "cal_phase \<Rightarrow> int \<times> int \<times> cfloat \<times> cfloat" where
  "cal_data p = (angle p, i_offset p, i_gain p, u_gain p)"

definition all_cal_data :: "tCONFIG_FLASH_DATA \<Rightarrow> (int \<times> int \<times> cfloat \<times> cfloat) list" where
  "all_cal_data c = map cal_data [phase1 c, phase2 c, phase3 c]"

definition collecting :: "u16 \<Rightarrow> bool" where
  "collecting f \<longleftrightarrow> f = 0xFFFF \<or> f = 0xFFF5 \<or> f = 0xFFA4"

lemma cal_data_update [simp]: "cal_data (update_phase i p) = cal_data p"
  by (simp add: cal_data_def update_phase_def Let_def)

lemma cal_data_store [simp]: "cal_data (store_msr m p) = cal_data p"
  by (simp add: cal_data_def store_msr_def split: prod.splits)

lemma config_step_keeps:
  assumes "collecting (cfg_flag (fst s))"
  shows "\<exists>s'. config_step atan2 k s = Some s' \<and> collecting (cfg_flag (fst s')) \<and> all_cal_data (fst s') = all_cal_data (fst s)"
  using assms
  by (cases k; cases s)
     (auto simp: collecting_def all_cal_data_def CONFIG_UpdateOffsets_def CONFIG_PreProcessing_def CONFIG_CalcCalibData_def Let_def)

lemma config_run_keeps:
  assumes "collecting (cfg_flag (fst s))"
  shows "\<exists>s'. config_run atan2 ks s = Some s' \<and> collecting (cfg_flag (fst s')) \<and> all_cal_data (fst s') = all_cal_data (fst s)"
  using assms
proof (induction ks arbitrary: s)
  case (Cons k ks)
  obtain s' where "config_step atan2 k s = Some s'" "collecting (cfg_flag (fst s'))" "all_cal_data (fst s') = all_cal_data (fst s)"
    using config_step_keeps[OF Cons.prems] by blast
  then show ?case using Cons.IH[of s'] by simp
qed simp

text \<open>
  The calibration never completes: from the configuration loaded at the start, and also once the
  collection was switched on, no sequence of calls ever computes calibration data. The collection ends
  with the flag 0xFFA4, and the calculation waits for 0xFFA5, which nothing writes; so every calculation
  fails and gains, offsets and angles keep their defaults.
\<close>

theorem calibration_never_completes:
  assumes "c = metrology_load_config r \<or> c = (metrology_load_config r)\<lparr>cfg_flag := 0xFFF5\<rparr>"
  shows "\<exists>c' t'. config_run atan2 ks (c, 0) = Some (c', t') \<and> CONFIG_CalcCalibData atan2 c' = Some (False, c') \<and>
    all_cal_data c' = all_cal_data nvmcfg"
proof -
  have "collecting (cfg_flag c)" "all_cal_data c = all_cal_data nvmcfg"
    using assms by (auto simp: metrology_load_config_def CONFIG_ReadFromNV_def collecting_def nvmcfg_def all_cal_data_def)
  then obtain c' t' where "config_run atan2 ks (c, 0) = Some (c', t')" "collecting (cfg_flag c')" "all_cal_data c' = all_cal_data nvmcfg"
    using config_run_keeps[of "(c, 0)" atan2 ks] by auto
  then show ?thesis by (auto simp: collecting_def CONFIG_CalcCalibData_def)
qed

theorem calibration_never_completes_witness:
  "\<exists>c' t'. config_run (\<lambda>y x. Fin 0) (replicate 50 (Pre_processing (Fin 230, Fin 5, Fin 0, Fin 0) (Fin 230, Fin 5, Fin 0, Fin 0) (Fin 230, Fin 5, Fin 0, Fin 0)))
      (nvmcfg\<lparr>cfg_flag := 0xFFF5\<rparr>, 0) = Some (c', t') \<and> all_cal_data c' = all_cal_data nvmcfg"
  using calibration_never_completes[of "nvmcfg\<lparr>cfg_flag := 0xFFF5\<rparr>" nvmcfg "\<lambda>y x. Fin 0"
      "replicate 50 (Pre_processing (Fin 230, Fin 5, Fin 0, Fin 0) (Fin 230, Fin 5, Fin 0, Fin 0) (Fin 230, Fin 5, Fin 0, Fin 0))"]
  by (auto simp: metrology_load_config_def CONFIG_ReadFromNV_def nvmcfg_def)

section \<open>What the collection and the calculation are for\<close>

text \<open>The extremes cover every sample of the collection.\<close>

lemma update_phase_extremes:
  "i_msrmax (update_phase i p) = max (i_msrmax p) i" "i_msrmin (update_phase i p) = min (i_msrmin p) i"
  by (auto simp: update_phase_def Let_def)

lemma collected_extremes:
  "i_msrmax (fold update_phase is p) = fold max is (i_msrmax p)" "i_msrmin (fold update_phase is p) = fold min is (i_msrmin p)"
proof (induction "is" arbitrary: p)
  case (Cons i "is")
  {
    case 1
    then show ?case using Cons(1)[of "update_phase i p"] by (simp add: update_phase_extremes max.commute)
  next
    case 2
    then show ?case using Cons(2)[of "update_phase i p"] by (simp add: update_phase_extremes min.commute)
  }
qed simp_all

text \<open>
  Where the calculation succeeds, the measured values are at least the preset ones, so that the gains are
  at most one, and not at least one as the comment in the code says.
\<close>

lemma fl_div_le_one:
  assumes "fl_le (Fin a) x" "0 < a"
  shows "fl_le (fl_div f64 (Fin a) x) (Fin 1)"
proof (cases x)
  case (Fin b)
  then have b: "0 < b" "a / b \<le> 1" using assms by simp_all
  have "fl_le (fl_round f64 (a / b)) (fl_round f64 1)" using b(2) by (intro fl_round_mono) simp_all
  moreover have "fl_round f64 1 = Fin 1" using rnd_f64_int[of 1] by (intro fl_round_Fin) (simp_all add: f64_def power_int_def)
  ultimately show ?thesis using Fin b by simp
qed (use assms in simp_all)

lemma cal_phase_data_gains:
  "cal_phase_data atan2 q = Some q' \<Longrightarrow>
     u_gain q' = fl_div f64 (urms_cal q) (urms_msr q) \<and> i_gain q' = fl_div f64 (irms_cal q) (irms_msr q)"
  by (auto simp: cal_phase_data_def Let_def bind_eq_Some_conv)

lemma calibration_gains_at_most_one:
  assumes "CONFIG_CalcCalibData atan2 c = Some (True, c')" "p = phase1 \<or> p = phase2 \<or> p = phase3"
    "urms_cal (p c) = Fin u" "0 < u" "irms_cal (p c) = Fin i" "0 < i"
  shows "fl_le (u_gain (p c')) (Fin 1) \<and> fl_le (i_gain (p c')) (Fin 1)"
proof -
  have c: "cal_condition (p c)" and d: "cal_phase_data atan2 (p c) = Some (p c')"
    using assms(1,2) by (auto simp: CONFIG_CalcCalibData_def bind_eq_Some_conv split: if_splits)
  have "u_gain (p c') = fl_div f64 (Fin u) (urms_msr (p c))" "i_gain (p c') = fl_div f64 (Fin i) (irms_msr (p c))"
    using cal_phase_data_gains[OF d] assms(3,5) by simp_all
  then show ?thesis using c assms(3-6) by (simp add: cal_condition_def fl_ge_def fl_div_le_one)
qed

end
