(* ===== verification/AFE_Dma.thy ===== *)
theory AFE_Dma
  imports EVSE_Prelude
begin

unbundle bit_operations_syntax

text \<open>
  The transfers of the front end driver (\<open>source/ext_afe_mkm.c\<close>): the rings of DMA descriptors that
  move a command, the six samples and their checksum in both directions, and the start-up. A
  descriptor says how many items it moves, from where to where, whether it raises the interrupt, whether it
  clears the trigger and which descriptor follows; the lemmas run the rings item by item.
\<close>

section \<open>Descriptors\<close>

text \<open>The registers and buffers the transfers name; a buffer has a number of cells.\<close>

datatype dma_place = FIFORD | FIFOWR | masterRxCommand | masterRxData | masterRxCRC | spiTxData nat

datatype dma_id = Rx_command | Rx_data | Rx_data_crc | Tx_command | Tx_data | Tx_data_crc

record dma_xfer =
  x_reload :: bool
  x_clrTrig :: bool
  x_intA :: bool
  x_intB :: bool
  x_width :: nat
  x_srcInc :: nat
  x_dstInc :: nat
  x_bytes :: nat

record dma_desc =
  d_xfer :: dma_xfer
  d_src :: dma_place
  d_dst :: dma_place
  d_next :: dma_id

definition DMA_CHANNEL_XFER :: "bool \<Rightarrow> bool \<Rightarrow> bool \<Rightarrow> bool \<Rightarrow> nat \<Rightarrow> nat \<Rightarrow> nat \<Rightarrow> nat \<Rightarrow> dma_xfer" where
  "DMA_CHANNEL_XFER reload clrTrig intA intB width srcInc dstInc bytes =
     \<lparr>x_reload = reload, x_clrTrig = clrTrig, x_intA = intA, x_intB = intB, x_width = width, x_srcInc = srcInc,
      x_dstInc = dstInc, x_bytes = bytes\<rparr>"

abbreviation (input) COMMAND_SIZE :: nat where "COMMAND_SIZE \<equiv> 2"
abbreviation (input) CRC_SIZE :: nat where "CRC_SIZE \<equiv> 2"
abbreviation (input) TRANSFER_SIZE :: nat where "TRANSFER_SIZE \<equiv> 12"
abbreviation (input) BUFFER_SIZE :: nat where "BUFFER_SIZE \<equiv> 12"

text \<open>The number of cells of a place, and of bytes of a cell; a register is one cell.\<close>

fun place_cells :: "dma_place \<Rightarrow> nat" where
  "place_cells masterRxCommand = 2"
| "place_cells masterRxData = BUFFER_SIZE"
| "place_cells masterRxCRC = 2"
| "place_cells _ = 1"

record afe_dma =
  dma_desc_of :: "dma_id \<Rightarrow> dma_desc option"
  rx_start :: "dma_id option"
  tx_start :: "dma_id option"
  transferSize :: nat
  rxRemainingBytes :: nat
  bytesPerFrame :: nat
  lastwordBytes :: nat
  rxInProgress :: bool

definition dma_zero :: afe_dma where
  "dma_zero = \<lparr>dma_desc_of = (\<lambda>_. None), rx_start = None, tx_start = None, transferSize = 0, rxRemainingBytes = 0,
     bytesPerFrame = 0, lastwordBytes = 0, rxInProgress = False\<rparr>"

definition DMA_SetupDescriptor :: "dma_id \<Rightarrow> dma_xfer \<Rightarrow> dma_place \<Rightarrow> dma_place \<Rightarrow> dma_id \<Rightarrow> afe_dma \<Rightarrow> afe_dma" where
  "DMA_SetupDescriptor i x src dst next d =
     d\<lparr>dma_desc_of := (dma_desc_of d)(i \<mapsto> \<lparr>d_xfer = x, d_src = src, d_dst = dst, d_next = next\<rparr>)\<rparr>"

section \<open>Set-up of the transfer\<close>

text \<open>What the caller gives: the size, whether the two buffers are given, and the flag for the frame.\<close>

record spi_transfer =
  xf_dataSize :: nat
  xf_txData :: bool
  xf_rxData :: bool
  xf_frameAssert :: bool

definition AFE_SPIMasterTransferDMACustom :: "bool \<Rightarrow> spi_transfer \<Rightarrow> afe_dma \<Rightarrow> status_t \<times> afe_dma" where
  "AFE_SPIMasterTransferDMACustom more_than_8_bits xfer d =
     (let frame = (if more_than_8_bits then 2 else 1);
          d = d\<lparr>bytesPerFrame := frame, lastwordBytes := (if xf_frameAssert xfer then frame else 0)\<rparr>
      in if xf_dataSize xfer = 0 \<or> \<not> xf_rxData xfer \<or> \<not> xf_txData xfer then (kStatus_InvalidArgument, d)
         else
           let d = d\<lparr>transferSize := xf_dataSize xfer, rxRemainingBytes := xf_dataSize xfer\<rparr>;
               d = DMA_SetupDescriptor Rx_command (DMA_CHANNEL_XFER True False False False 2 0 1 (2 * COMMAND_SIZE))
                     FIFORD masterRxCommand Rx_data d;
               d = DMA_SetupDescriptor Rx_data (DMA_CHANNEL_XFER True False False False 2 0 1 (2 * TRANSFER_SIZE))
                     FIFORD masterRxData Rx_data_crc d;
               d = DMA_SetupDescriptor Rx_data_crc (DMA_CHANNEL_XFER True False True False 2 0 1 (2 * CRC_SIZE))
                     FIFORD masterRxCRC Rx_command d;
               d = d\<lparr>rx_start := Some Rx_command, rxInProgress := True\<rparr>;
               d = DMA_SetupDescriptor Tx_command (DMA_CHANNEL_XFER True False False False 4 0 0 (4 * COMMAND_SIZE))
                     (spiTxData 1) FIFOWR Tx_data d;
               d = DMA_SetupDescriptor Tx_data (DMA_CHANNEL_XFER True False False False 4 0 0 (4 * TRANSFER_SIZE))
                     (spiTxData 1) FIFOWR Tx_data_crc d;
               d = DMA_SetupDescriptor Tx_data_crc (DMA_CHANNEL_XFER True True False False 4 0 0 (4 * CRC_SIZE))
                     (spiTxData 1) FIFOWR Tx_command d
           in (kStatus_Success, d\<lparr>tx_start := Some Tx_command\<rparr>))"

definition AFE_SPIMasterStartDMATransfer :: "afe_dma \<Rightarrow> afe_dma" where
  "AFE_SPIMasterStartDMATransfer d =
     snd (AFE_SPIMasterTransferDMACustom True
       \<lparr>xf_dataSize = 2 * BUFFER_SIZE, xf_txData = True, xf_rxData = True, xf_frameAssert = True\<rparr> d)"

text \<open>The two words the transmitting side can send; the argument is the control part, which the driver's constants give.\<close>

definition spiTxWords :: "u32 \<Rightarrow> u32 list" where
  "spiTxWords ctrl = [ctrl, 0b0101100000000110 OR ctrl]"

text \<open>
  The start: the initialization of the SPI ends in an endless loop when it fails; then the transfer of the
  first frame is awaited. The list says, for each poll, whether it has completed; \<open>None\<close> is a start
  that does not end.
\<close>

fun await_transfer :: "bool list \<Rightarrow> nat \<Rightarrow> nat option" where
  "await_transfer [] delays = None"
| "await_transfer (done # ps) delays = (if done then Some delays else await_transfer ps (delays + 1))"

definition AFE_Init :: "bool \<Rightarrow> bool list \<Rightarrow> afe_dma \<Rightarrow> (nat \<times> afe_dma) option" where
  "AFE_Init spi_ok polls d =
     (if \<not> spi_ok then None
      else let d = AFE_SPIMasterStartDMATransfer d
           in map_option (\<lambda>n. (n, d)) (await_transfer polls 0))"

section \<open>Running a ring\<close>

text \<open>One item: the cells it is moved from and to. A descriptor moves its items and names the next.\<close>

definition desc_items :: "dma_desc \<Rightarrow> ((dma_place \<times> nat) \<times> (dma_place \<times> nat)) list" where
  "desc_items d = map (\<lambda>k. ((d_src d, k * x_srcInc (d_xfer d)), (d_dst d, k * x_dstInc (d_xfer d))))
     [0..<x_bytes (d_xfer d) div x_width (d_xfer d)]"

text \<open>The items of a frame, up to the descriptor that stops it, with the number of interrupts.\<close>

fun run_ring :: "nat \<Rightarrow> (dma_id \<Rightarrow> dma_desc option) \<Rightarrow> dma_id
    \<Rightarrow> (((dma_place \<times> nat) \<times> (dma_place \<times> nat)) list \<times> nat list \<times> dma_id) option" where
  "run_ring 0 D i = Some ([], [], i)"
| "run_ring (Suc n) D i =
     (case D i of None \<Rightarrow> None
      | Some d \<Rightarrow>
          map_option (\<lambda>(items, ints, j). (desc_items d @ items,
              (if x_intA (d_xfer d) then [length (desc_items d)] else []) @ map (\<lambda>k. length (desc_items d) + k) ints, j))
            (run_ring n D (d_next d)))"

definition in_place :: "dma_place \<times> nat \<Rightarrow> bool" where
  "in_place c \<longleftrightarrow> snd c < place_cells (fst c)"

lemma started_descriptors:
  fixes d :: afe_dma
  defines "D \<equiv> dma_desc_of (AFE_SPIMasterStartDMATransfer d)"
  shows "D Rx_command = Some \<lparr>d_xfer = \<lparr>x_reload = True, x_clrTrig = False, x_intA = False, x_intB = False, x_width = 2, x_srcInc = 0, x_dstInc = 1, x_bytes = 4\<rparr>,
      d_src = FIFORD, d_dst = masterRxCommand, d_next = Rx_data\<rparr>"
    and "D Rx_data = Some \<lparr>d_xfer = \<lparr>x_reload = True, x_clrTrig = False, x_intA = False, x_intB = False, x_width = 2, x_srcInc = 0, x_dstInc = 1, x_bytes = 24\<rparr>,
      d_src = FIFORD, d_dst = masterRxData, d_next = Rx_data_crc\<rparr>"
    and "D Rx_data_crc = Some \<lparr>d_xfer = \<lparr>x_reload = True, x_clrTrig = False, x_intA = True, x_intB = False, x_width = 2, x_srcInc = 0, x_dstInc = 1, x_bytes = 4\<rparr>,
      d_src = FIFORD, d_dst = masterRxCRC, d_next = Rx_command\<rparr>"
    and "D Tx_command = Some \<lparr>d_xfer = \<lparr>x_reload = True, x_clrTrig = False, x_intA = False, x_intB = False, x_width = 4, x_srcInc = 0, x_dstInc = 0, x_bytes = 8\<rparr>,
      d_src = spiTxData 1, d_dst = FIFOWR, d_next = Tx_data\<rparr>"
    and "D Tx_data = Some \<lparr>d_xfer = \<lparr>x_reload = True, x_clrTrig = False, x_intA = False, x_intB = False, x_width = 4, x_srcInc = 0, x_dstInc = 0, x_bytes = 48\<rparr>,
      d_src = spiTxData 1, d_dst = FIFOWR, d_next = Tx_data_crc\<rparr>"
    and "D Tx_data_crc = Some \<lparr>d_xfer = \<lparr>x_reload = True, x_clrTrig = True, x_intA = False, x_intB = False, x_width = 4, x_srcInc = 0, x_dstInc = 0, x_bytes = 8\<rparr>,
      d_src = spiTxData 1, d_dst = FIFOWR, d_next = Tx_command\<rparr>"
  unfolding D_def
  by (simp_all add: AFE_SPIMasterStartDMATransfer_def AFE_SPIMasterTransferDMACustom_def DMA_SetupDescriptor_def
      DMA_CHANNEL_XFER_def Let_def)

text \<open>
  A frame is one turn of both rings. Both move 16 items and come back to their beginning, so that
  what is received stays aligned with what is sent; no item leaves its buffer; the only interrupt of a
  frame is after its last item, when the twelve halves of the samples and the two of the checksum
  are complete; and only the last descriptor of the sending ring clears the trigger, so that a trigger
  starts one frame.
\<close>

lemma frame_of_rings:
  fixes d :: afe_dma
  defines "D \<equiv> dma_desc_of (AFE_SPIMasterStartDMATransfer d)"
  shows "run_ring 3 D Rx_command =
      Some (map (\<lambda>k. ((FIFORD, 0), (masterRxCommand, k))) [0..<2] @ map (\<lambda>k. ((FIFORD, 0), (masterRxData, k))) [0..<12] @
            map (\<lambda>k. ((FIFORD, 0), (masterRxCRC, k))) [0..<2], [16], Rx_command)"
    and "run_ring 3 D Tx_command = Some (replicate 16 ((spiTxData 1, 0), (FIFOWR, 0)), [], Tx_command)"
proof -
  have three: "(3 :: nat) = Suc (Suc (Suc 0))" by simp
  show "run_ring 3 D Rx_command =
      Some (map (\<lambda>k. ((FIFORD, 0), (masterRxCommand, k))) [0..<2] @ map (\<lambda>k. ((FIFORD, 0), (masterRxData, k))) [0..<12] @
            map (\<lambda>k. ((FIFORD, 0), (masterRxCRC, k))) [0..<2], [16], Rx_command)"
    unfolding D_def three by (simp add: started_descriptors desc_items_def)
  have "replicate 2 x @ replicate 12 x @ replicate 2 x = replicate 16 x" for x :: "(dma_place \<times> nat) \<times> (dma_place \<times> nat)"
    by (simp only: replicate_add[symmetric]) simp
  then show "run_ring 3 D Tx_command = Some (replicate 16 ((spiTxData 1, 0), (FIFOWR, 0)), [], Tx_command)"
    unfolding D_def three by (simp add: started_descriptors desc_items_def map_replicate_const)
qed

lemma received_in_bounds:
  fixes d :: afe_dma
  defines "D \<equiv> dma_desc_of (AFE_SPIMasterStartDMATransfer d)"
  assumes "run_ring 3 D Rx_command = Some (items, ints, j)"
  shows "\<forall>(src, dst) \<in> set items. in_place src \<and> in_place dst"
  using assms(2) frame_of_rings(1)[of d] unfolding D_def
  by (auto simp: in_place_def)

lemma one_frame_per_trigger:
  fixes d :: afe_dma
  defines "D \<equiv> dma_desc_of (AFE_SPIMasterStartDMATransfer d)"
  shows "D i = Some e \<Longrightarrow> x_clrTrig (d_xfer e) \<longleftrightarrow> i = Tx_data_crc"
  unfolding D_def
  by (cases i) (auto simp: started_descriptors)

text \<open>The command word is sent with every item; the word for the samples, without it, is never sent.\<close>

lemma dummy_word_is_never_sent:
  fixes d :: afe_dma
  defines "D \<equiv> dma_desc_of (AFE_SPIMasterStartDMATransfer d)"
  shows "D i = Some e \<Longrightarrow> d_src e \<noteq> spiTxData 0"
  unfolding D_def
  by (cases i) (auto simp: started_descriptors)

text \<open>The start ends exactly when the SPI can be initialized and the first frame arrives.\<close>

lemma start_ends: "AFE_Init spi_ok polls d \<noteq> None \<longleftrightarrow> spi_ok \<and> True \<in> set polls"
proof -
  have "await_transfer ps n \<noteq> None \<longleftrightarrow> True \<in> set ps" for ps n
    by (induction ps n rule: await_transfer.induct) auto
  then show ?thesis by (simp add: AFE_Init_def Let_def)
qed

end
