(* ===== verification/ISO15118.thy ===== *)
theory ISO15118
  imports EVSE_Types "HOL-Library.Monad_Syntax"
begin

text \<open>
  The bridge to the ISO 15118 stack, \<open>source/charging_protocol/ISO15118.c\<close>, for the charging station.
  The stack is not part of the repository: its answers are the argument \<open>stack\<close>, where \<open>None\<close> is a
  getter that leaves its variable as it was, and the calls that change it are logged. The build of
  this repository switches the stack off and keeps the getters of the state.
\<close>

section \<open>State\<close>

datatype evse_iso15118_state_t =
    EVSE_ISO15118_NotEnable | EVSE_ISO15118_InitStack | EVSE_ISO15118_FWDownload | EVSE_ISO15118_WaitConnect
  | EVSE_ISO15118_SLACStart | EVSE_ISO15118_SLACSucces | EVSE_ISO15118_SLACFailed | EVSE_ISO15118_AuthWait
  | EVSE_ISO15118_AuthFailed | EVSE_ISO15118_V2GRunnig | EVSE_ISO15118_LAST

datatype vehicle_auth_methods_t = VehicleAuth_EIM | VehicleAuth_PnC | VehicleAuth_None | LAST_AUTH_METHOD

datatype V2G_status_t = NOT_CONNECTED | DEMO | LAST_V2G_STATUS

datatype iso_call =
    UI_stack_status | UI_requested_power | Stx_change_direction | Stx_stop_charging | Stx_start_charging
  | Stx_set_max_current cfloat | Stx_set_payment vehicle_auth_methods_t | Stx_nfc "u8 list" | Stx_init | Stx_tick

record iso15118 =
  power_requests_cntr :: u32
  vehicle_auth_method :: vehicle_auth_methods_t
  V2G_status :: V2G_status_t
  s_currentState :: evse_iso15118_state_t
  iso_calls :: "iso_call list"

definition iso_boot :: iso15118 where
  "iso_boot = \<lparr>power_requests_cntr = 0, vehicle_auth_method = LAST_AUTH_METHOD, V2G_status = NOT_CONNECTED,
     s_currentState = EVSE_ISO15118_NotEnable, iso_calls = []\<rparr>"

definition iso_do :: "iso_call \<Rightarrow> iso15118 \<Rightarrow> iso15118" where
  "iso_do k s = s\<lparr>iso_calls := iso_calls s @ [k]\<rparr>"

text \<open>What the stack answers.\<close>

datatype V2GCPS_STATE = V2GCPS_STATE_A | V2GCPS_STATE_B | V2GCPS_STATE_C | V2GCPS_STATE_D | V2GCPS_STATE_E
  | V2GCPS_STATE_F | V2GCPS_STATE_UNKNOWN

record v2g_stack =
  stx_direction :: "u8 option"
  stx_cp :: V2GCPS_STATE
  stx_charging :: "bool option"
  stx_current :: "cfloat option"
  stx_total_energy :: "cfloat option"
  stx_energy_hlc :: "cfloat option"
  stx_elapsed :: "64 word option"
  stx_eamount :: "cfloat option"
  stx_remaining :: "64 word option"
  stx_auth :: "bool option"

fun iso15118AuthStateToString :: "vehicle_auth_methods_t \<Rightarrow> string" where
  "iso15118AuthStateToString VehicleAuth_EIM = ''EIM''"
| "iso15118AuthStateToString VehicleAuth_PnC = ''PnC''"
| "iso15118AuthStateToString VehicleAuth_None = ''''"
| "iso15118AuthStateToString LAST_AUTH_METHOD = ''''"

fun iso15118StateToString :: "evse_iso15118_state_t \<Rightarrow> string option" where
  "iso15118StateToString EVSE_ISO15118_NotEnable = Some ''ISO15118 not activated''"
| "iso15118StateToString EVSE_ISO15118_InitStack = Some ''ISO15118 init''"
| "iso15118StateToString EVSE_ISO15118_FWDownload = Some ''Firmware download''"
| "iso15118StateToString EVSE_ISO15118_WaitConnect = Some ''Wait car''"
| "iso15118StateToString EVSE_ISO15118_SLACStart = Some ''SLAC in progress''"
| "iso15118StateToString EVSE_ISO15118_SLACFailed = Some ''SLAC failed''"
| "iso15118StateToString EVSE_ISO15118_SLACSucces = Some ''SLAC Success''"
| "iso15118StateToString EVSE_ISO15118_AuthWait = Some ''Wait for auth''"
| "iso15118StateToString EVSE_ISO15118_AuthFailed = Some ''Auth failed''"
| "iso15118StateToString EVSE_ISO15118_V2GRunnig = Some ''Demo running''"
| "iso15118StateToString EVSE_ISO15118_LAST = None"

section \<open>Getters and setters\<close>

definition getEnergyDeliveryStatus :: "u32 \<Rightarrow> u32 \<Rightarrow> u8" where
  "getEnergyDeliveryStatus requested delivered =
     (let percentage = (if 0 < requested \<and> 0 < delivered \<and> delivered \<le> requested
                        then ucast ((delivered * 100) div requested) else 0)
      in if delivered > requested then 100 else percentage)"

text \<open>\<open>None\<close> is the null pointer.\<close>

definition EVSE_ISO15118_GetStringFromState :: "evse_iso15118_state_t \<Rightarrow> string option" where
  "EVSE_ISO15118_GetStringFromState state = iso15118StateToString state"

definition EVSE_ISO15118_GetState :: "iso15118 \<Rightarrow> evse_iso15118_state_t" where
  "EVSE_ISO15118_GetState s = s_currentState s"

definition before_AuthWait :: "evse_iso15118_state_t \<Rightarrow> bool" where
  "before_AuthWait st \<longleftrightarrow> st \<in> {EVSE_ISO15118_NotEnable, EVSE_ISO15118_InitStack, EVSE_ISO15118_FWDownload,
     EVSE_ISO15118_WaitConnect, EVSE_ISO15118_SLACStart, EVSE_ISO15118_SLACSucces, EVSE_ISO15118_SLACFailed}"

definition EVSE_ISO15118_GetVehicleAuthMethod :: "iso15118 \<Rightarrow> vehicle_auth_methods_t" where
  "EVSE_ISO15118_GetVehicleAuthMethod s =
     (if before_AuthWait (s_currentState s) then VehicleAuth_None else vehicle_auth_method s)"

definition EVSE_ISO15118_GetVehicleAuthMethodString :: "iso15118 \<Rightarrow> string" where
  "EVSE_ISO15118_GetVehicleAuthMethodString s = iso15118AuthStateToString (EVSE_ISO15118_GetVehicleAuthMethod s)"

definition EVSE_ISO15118_GetEnergyDirection :: "v2g_stack \<Rightarrow> charging_directions_t" where
  "EVSE_ISO15118_GetEnergyDirection stack =
     (case stx_direction stack of
        Some d \<Rightarrow> if d = 0 then EVSE_G2V else if d = 1 then EVSE_V2G else EVSE_NoChargingDirection
      | None \<Rightarrow> EVSE_NoChargingDirection)"

definition EVSE_ISO15118_ChangeEnergyDirection :: "iso15118 \<Rightarrow> iso15118" where
  "EVSE_ISO15118_ChangeEnergyDirection s = iso_do Stx_change_direction s"

definition EVSE_ISO15118_SetV2GStatus :: "V2G_status_t \<Rightarrow> iso15118 \<Rightarrow> iso15118" where
  "EVSE_ISO15118_SetV2GStatus status s = (if V2G_status s \<noteq> status then s\<lparr>V2G_status := status\<rparr> else s)"

definition EVSE_ISO15118_GetV2GStatus :: "iso15118 \<Rightarrow> V2G_status_t" where
  "EVSE_ISO15118_GetV2GStatus s = V2G_status s"

definition EVSE_ISO15118_SetState :: "evse_iso15118_state_t \<Rightarrow> iso15118 \<Rightarrow> iso15118" where
  "EVSE_ISO15118_SetState state s =
     (if state \<noteq> s_currentState s
      then let s = EVSE_ISO15118_SetV2GStatus (if state = EVSE_ISO15118_V2GRunnig then DEMO else NOT_CONNECTED) s
           in iso_do UI_stack_status (s\<lparr>s_currentState := state\<rparr>)
      else s)"

definition EVSE_ISO15118_SetVehicleAuthMethod :: "vehicle_auth_methods_t \<Rightarrow> iso15118 \<Rightarrow> iso15118" where
  "EVSE_ISO15118_SetVehicleAuthMethod auth_method s = s\<lparr>vehicle_auth_method := auth_method\<rparr>"

definition EVSE_ISO15118_SetPowerReqCntr :: "u32 \<Rightarrow> iso15118 \<Rightarrow> iso15118" where
  "EVSE_ISO15118_SetPowerReqCntr cntr s =
     (if power_requests_cntr s \<noteq> cntr then iso_do UI_requested_power (s\<lparr>power_requests_cntr := cntr\<rparr>) else s)"

definition EVSE_ISO15118_IncrementPowerReqCntr :: "iso15118 \<Rightarrow> iso15118" where
  "EVSE_ISO15118_IncrementPowerReqCntr s = EVSE_ISO15118_SetPowerReqCntr (power_requests_cntr s + 1) s"

definition EVSE_ISO15118_GetPowerRequestsCntr :: "iso15118 \<Rightarrow> u32" where
  "EVSE_ISO15118_GetPowerRequestsCntr s = power_requests_cntr s"

text \<open>The pointer is \<open>None\<close> when it is null.\<close>

definition EVSE_ISO15118_isCharging :: "v2g_stack \<Rightarrow> bool option \<Rightarrow> bool option" where
  "EVSE_ISO15118_isCharging stack bCharging =
     (case bCharging of None \<Rightarrow> None | Some b \<Rightarrow> Some (case stx_charging stack of None \<Rightarrow> b | Some c \<Rightarrow> c))"

definition EVSE_ISO15118_StopCharging :: "bool \<Rightarrow> iso15118 \<Rightarrow> iso15118" where
  "EVSE_ISO15118_StopCharging bCharging s = (if bCharging then iso_do Stx_stop_charging s else s)"

definition EVSE_ISO15118_SetMaxCurrent :: "u32 \<Rightarrow> iso15118 \<Rightarrow> iso15118" where
  "EVSE_ISO15118_SetMaxCurrent max_current s = iso_do (Stx_set_max_current (fl_of_int f32 (uint max_current))) s"

definition EVSE_ISO15118_GetCpStateString :: "v2g_stack \<Rightarrow> char" where
  "EVSE_ISO15118_GetCpStateString stack =
     (case stx_cp stack of
        V2GCPS_STATE_A \<Rightarrow> CHR ''A'' | V2GCPS_STATE_B \<Rightarrow> CHR ''B'' | V2GCPS_STATE_C \<Rightarrow> CHR ''C''
      | V2GCPS_STATE_D \<Rightarrow> CHR ''D'' | V2GCPS_STATE_E \<Rightarrow> CHR ''E'' | V2GCPS_STATE_F \<Rightarrow> CHR ''F''
      | V2GCPS_STATE_UNKNOWN \<Rightarrow> CHR ''A'')"

section \<open>Vehicle data\<close>

fun fl_abs :: "cfloat \<Rightarrow> cfloat" where
  "fl_abs (Fin a) = Fin \<bar>a\<bar>"
| "fl_abs (Inf s) = Inf False"
| "fl_abs NaN = NaN"

definition fl_to_u32 :: "cfloat \<Rightarrow> u32 option" where
  "fl_to_u32 x = map_option word_of_int (fl_to_uint 32 x)"

text \<open>
  The getters share one variable for the doubles and one for the 64-bit integers: a getter that writes
  nothing leaves the value of the one before it. \<open>None\<close> is a conversion that is undefined.
\<close>

definition got :: "'a option \<Rightarrow> 'a \<Rightarrow> 'a" where
  "got answer var = (case answer of None \<Rightarrow> var | Some x \<Rightarrow> x)"

definition EVSE_ISO15118_GetVehicleData :: "v2g_stack \<Rightarrow> vehicle_data_t \<Rightarrow> vehicle_data_t option" where
  "EVSE_ISO15118_GetVehicleData stack v =
     do {
       let d = fl_abs (got (stx_current stack) (Fin 0));
       let v = v\<lparr>chargeCurrent := fl_conv f32 d\<rparr>;
       let d = fl_abs (got (stx_total_energy stack) d);
       e \<leftarrow> fl_to_u32 d;
       let v = v\<lparr>deliveredEnergy := e\<rparr>;
       let d = fl_abs (got (stx_energy_hlc stack) d);
       e \<leftarrow> fl_to_u32 d;
       let v = v\<lparr>deliveredEnergyHLC := e\<rparr>;
       let u = got (stx_elapsed stack) 0;
       let v = v\<lparr>elapsedTime := ucast u\<rparr>;
       let d = fl_abs (got (stx_eamount stack) d);
       e \<leftarrow> fl_to_u32 d;
       let v = v\<lparr>requestedEnergy := e\<rparr>;
       let u = got (stx_remaining stack) u;
       let v = v\<lparr>timeToCharge := ucast u, vehicleAuth := got (stx_auth stack) (vehicleAuth v)\<rparr>;
       Some (v\<lparr>energyDeliveryStatus := getEnergyDeliveryStatus (requestedEnergy v) (deliveredEnergyHLC v)\<rparr>)
     }"

section \<open>Calls\<close>

definition EVSE_ISO15118_Init :: "iso15118 \<Rightarrow> iso15118" where
  "EVSE_ISO15118_Init s = iso_do Stx_init s"

definition EVSE_ISO15118_Loop :: "bool option \<Rightarrow> iso15118 \<Rightarrow> bool option \<times> iso15118" where
  "EVSE_ISO15118_Loop stopCharging s = (map_option (\<lambda>_. False) stopCharging, iso_do Stx_tick s)"

definition EVSE_ISO15118_SetPaymentMethod :: "vehicle_auth_methods_t \<Rightarrow> iso15118 \<Rightarrow> iso15118" where
  "EVSE_ISO15118_SetPaymentMethod method s = iso_do (Stx_set_payment method) s"

definition EVSE_ISO15118_StartCharging :: "iso15118 \<Rightarrow> iso15118" where
  "EVSE_ISO15118_StartCharging s = iso_do Stx_start_charging s"

definition EVSE_ISO15118_SetNFCAuthentication :: "u8 list \<Rightarrow> iso15118 \<Rightarrow> iso15118" where
  "EVSE_ISO15118_SetNFCAuthentication cardUID s = iso_do (Stx_nfc cardUID) s"

section \<open>Facts\<close>

text \<open>The percentage never exceeds 100, also when the product wraps.\<close>

lemma mul100_div_le: "0 < r \<Longrightarrow> d \<le> r \<Longrightarrow> unat ((d * 100) div (r :: u32)) \<le> 100"
proof -
  assume r: "0 < r" and d: "d \<le> r"
  have "unat (d * 100) \<le> unat d * 100" by (simp add: unat_word_ariths)
  then have "unat (d * 100) div unat r \<le> (unat d * 100) div unat r" by (rule div_le_mono)
  also have "\<dots> \<le> (unat r * 100) div unat r" using d by (intro div_le_mono) (simp add: word_le_nat_alt)
  also have "\<dots> = 100" using r by (simp add: word_less_nat_alt)
  finally show ?thesis by (simp add: unat_div)
qed

lemma energy_status_at_most_100: "getEnergyDeliveryStatus r d \<le> 100"
proof (cases "0 < r \<and> 0 < d \<and> d \<le> r")
  case True
  then have "unat ((d * 100) div r) \<le> 100" by (intro mul100_div_le) auto
  then show ?thesis using True
    by (simp add: getEnergyDeliveryStatus_def word_le_nat_alt unsigned_ucast_eq take_bit_eq_mod)
qed (auto simp: getEnergyDeliveryStatus_def)

text \<open>It is exact below 42949673 units of energy; from there on the product wraps.\<close>

lemma energy_status_exact:
  assumes "0 < r" "d \<le> r" "unat d \<le> 42949672"
  shows "unat (getEnergyDeliveryStatus r d) = (unat d * 100) div unat r"
proof -
  have w: "unat (d * 100) = unat d * 100" using assms(3) by (simp add: unat_word_ariths)
  have le: "unat ((d * 100) div r) \<le> 100" using assms(1,2) by (rule mul100_div_le)
  show ?thesis
  proof (cases "d = 0")
    case False
    then have "getEnergyDeliveryStatus r d = ucast ((d * 100) div r)"
      using assms by (simp add: getEnergyDeliveryStatus_def word_gt_0 leD)
    then show ?thesis using le w by (simp add: unsigned_ucast_eq take_bit_eq_mod unat_div)
  qed (use assms in \<open>simp add: getEnergyDeliveryStatus_def\<close>)
qed

lemma energy_status_wraps: "getEnergyDeliveryStatus 42949673 42949673 = 0"
  by (simp add: getEnergyDeliveryStatus_def)

text \<open>The demonstration status follows the state, as long as it is set through it.\<close>

definition demo_follows :: "iso15118 \<Rightarrow> bool" where
  "demo_follows s \<longleftrightarrow> V2G_status s = (if s_currentState s = EVSE_ISO15118_V2GRunnig then DEMO else NOT_CONNECTED)"

lemma demo_follows_state: "demo_follows iso_boot" "demo_follows s \<Longrightarrow> demo_follows (EVSE_ISO15118_SetState st s)"
  by (auto simp: demo_follows_def iso_boot_def EVSE_ISO15118_SetState_def EVSE_ISO15118_SetV2GStatus_def iso_do_def Let_def)

text \<open>The method is reported only from the state that waits for the authorization on.\<close>

lemma auth_method_hidden: "before_AuthWait (s_currentState s) \<Longrightarrow> EVSE_ISO15118_GetVehicleAuthMethodString s = ''''"
  by (simp add: EVSE_ISO15118_GetVehicleAuthMethodString_def EVSE_ISO15118_GetVehicleAuthMethod_def)

text \<open>
  A getter of the energy that writes nothing makes the function report the charge current as the
  delivered energy, because the variable and not the result of the getter is used.
\<close>

lemma current_reported_as_energy:
  assumes "stx_current stack = Some (Fin 16)" "stx_total_energy stack = None" "stx_energy_hlc stack = None" "stx_eamount stack = None"
  shows "\<exists>w. EVSE_ISO15118_GetVehicleData stack v = Some w \<and> deliveredEnergy w = 16 \<and> requestedEnergy w = 16"
  using assms rtrunc_of_int[of 16] by (simp add: EVSE_ISO15118_GetVehicleData_def Let_def got_def fl_to_u32_def)

end
