(* ===== verification/Spec2Isabelle.thy ===== *)
theory Spec2Isabelle
  imports Ocpp_System Component_States_Props Console_Format Message_Queue_Timers Websocket_View Connectivity_Manager_Props J1772_Behaviour Pilot_Windows Charging_Protocol_Props Mflash_Torn Generic_List Connectivity_Props Meter_Config AFE_Dma ISO15118
begin

text \<open>
  Verification of the charging firmware of the NXP RW612 electric vehicle supply equipment
  (\<open>src/RW612 EVSE\<close>; paths below are relative to it).

  \<^bold>\<open>The program.\<close> The firmware is a set of FreeRTOS tasks. The charging task
  (\<open>source/EVSE_ChargingProtocol.c\<close>) runs one pass of the SAE J1772 / IEC 61851 state machine
  (\<open>source/charging_protocol/IEC61851.c\<close>) at a time; the state machine reads the control pilot and drives
  the contactor and the pilot's duty cycle through a table of functions, which the low level handlers
  (\<open>source/EVSE_LowLevel_Handles.c\<close>) fill with calls on the control pilot driver
  (\<open>source/ControlPilot_Process.c\<close>). The front end driver (\<open>source/ext_afe_mkm.c\<close>) receives samples of the
  six channels by DMA and hands them to the metrology task (\<open>source/EVSE_Metrology.c\<close>), whose
  configuration is \<open>source/meterconfig.c\<close>. The connectivity task (\<open>source/EVSE_Connectivity.c\<close>) brings up
  Wi-Fi through the platform layer (\<open>edgefast_wifi/source/wpl_nxp.c\<close>), gets the time and starts the OCPP task
  (\<open>source/EVSE_Ocpp.cpp\<close>), which reports vehicles and charging to the management system (CSMS) over a charge
  point object of the OCPP library, asks it for authorizations, and carries out its requests. Files
  are kept by the flash file system (\<open>flash/mflash\<close>); lists of the SDK
  (\<open>component/lists/fsl_component_generic_list.c\<close>) are used by the OS abstraction (\<open>component/osa\<close>).

  \<^bold>\<open>Modelling.\<close> Each module's static variables are a record, each function a HOL function on it, and an
  enumeration a datatype. Calls on hardware, kernel, driver and libraries are values appended to a log of the
  record, their answers arguments of the functions. Integers are words of their width, \<open>float\<close> and
  \<open>double\<close> are the IEEE formats of \<open>C_Float\<close>, rounded as the hardware does. \<open>None\<close> stands for what C leaves
  undefined (an access out of bounds, a null pointer, a conversion that does not fit) and for a call that
  does not return; every theory says which. Output on the console is left out.

  \<^bold>\<open>Theories\<close>, by the component they model:
  \<^item> \<open>EVSE_Prelude\<close>, \<open>C_Float\<close>, \<open>EVSE_Types\<close>: machine integers, floating point, and the types of
    \<open>EVSE_ChargingProtocol.h\<close> that several modules share.
  \<^item> \<open>J1772_Duty\<close> (current to duty cycle and back), \<open>J1772\<close> (state, entry actions, accessors), \<open>J1772_Loop\<close> (one
    pass, one definition per case of the switch): \<open>IEC61851.c\<close>. \<open>J1772_Safety\<close> has the reachable states
    and their invariant; \<open>J1772_Properties\<close> and \<open>J1772_Behaviour\<close> the theorems: when the contactor may be
    closed and what opens it, who has to agree, the transitions as a table that every pass refines, the meter, the
    duty cycle sent to the hardware.
  \<^item> \<open>Control_Pilot\<close>, \<open>Pilot_Windows\<close>, \<open>Low_Level\<close>: the driver's timer and converter arithmetic, the windows of
    the pilot states, and the handlers. \<open>Low_Level\<close> runs the state machine's log on the handlers, through the
    locale \<open>charging_hal\<close>, interpreted on them.
  \<^item> \<open>Charging_Protocol\<close>, \<open>Charging_Protocol_Props\<close>: the charging task, its events, buttons and wait for the low
    level; the guarantees of the state machine carry over to every interleaving of turns, events and calls.
  \<^item> \<open>AFE\<close>, \<open>AFE_Dma\<close>: the receive callback, and the rings of DMA descriptors it relies on (frames of equal length
    in both directions, inside their buffers, one interrupt and one trigger a frame). \<open>Metrology\<close>,
    \<open>Metrology_Props\<close>, \<open>Metrology_Buffers\<close>: the task with its double buffer; the locale \<open>sample_sink\<close> is the
    contract of a buffer hand-over, interpreted on the module. \<open>Meter_Config\<close>: the calibration.
  \<^item> \<open>EVSE_Time\<close>: clock, formatting of times and the set-up of the logging task (\<open>source/EVSE_Utils.c\<close>), and the time hook
    \<open>source/ocpp_system_time.c\<close>.
  \<^item> \<open>Mflash_Drv\<close> (the board's flash driver), \<open>Mflash_Nor\<close> (the locale \<open>mflash_driver\<close>, the contract of
    \<open>mflash_common.h\<close>; the locale \<open>nor_flash\<close>, what the driver needs of the flash device; the sublocale that shows
    that the driver on such a device keeps the contract; and its interpretation on a NOR device),
    \<open>Mflash_File\<close> (the file system), \<open>Mflash_Area\<close>, \<open>Mflash_Save\<close>, \<open>Mflash_Props\<close> (saving, for every driver that
    keeps the contract), \<open>Mflash_Board\<close>, \<open>Mflash_Sample\<close> (the theorems on the board's driver, and a concrete
    file system for their witnesses), \<open>Mflash_Torn\<close> (a save whose last transfer is torn). Of a page whose transfer
    fails any number of bytes may have been programmed.
  \<^item> \<open>Generic_List\<close>: the linked list on an explicit store, refining operations on lists.
  \<^item> \<open>WPL\<close>, \<open>WPL_Props\<close>: the Wi-Fi layer. What the driver reports during a wait is a list of events. The locale
    \<open>sync_group\<close> is the contract of an operation that clears a group of event bits and waits for it, interpreted on
    the four operations that keep it; \<open>wpl_reachable\<close> are the states under any operations and reports.
  \<^item> \<open>Connectivity\<close>, \<open>Connectivity_Props\<close>: the connectivity task on top of \<open>WPL\<close>, whose reports of the link run
    its callback; \<open>conn_reachable\<close> are its states under turns, reports and times set by the network.
  \<^item> \<open>Ocpp_Transactions\<close> (\<open>source/transaction_handler.cpp\<close>: when a transaction starts and stops),
    \<open>Ocpp_Meter\<close> (\<open>source/conversions.cpp\<close>: meter values), \<open>Ocpp_State\<close>, \<open>Ocpp_Task\<close>, \<open>Ocpp_Callbacks\<close> (the state
    and accessors, the passes of the loop with one definition per event, and the callbacks of
    \<open>source/EVSE_Ocpp.cpp\<close>). A C++ exception or a null pointer is a value of \<open>ocpp_error\<close>. \<open>Ocpp_Session\<close> has the
    abstract session, the protocol of the calls on the charge point and the reachable states \<open>ocpp_reachable\<close>;
    \<open>Ocpp_Props\<close> and \<open>Ocpp_Messages\<close> the theorems: every pass refines the session, what is lost without a
    connection, meter values and messages.
  \<^item> \<open>Ocpp_System\<close>: the charging task and the OCPP task composed. The events in the log of one are delivered to
    the other, whose commands and answers go back; \<open>evse_reachable\<close> are the states under any interleaving of
    turns and messages of the CSMS. A closed contactor needs an acceptance of the CSMS.
  \<^item> \<open>Component_States\<close>, \<open>Component_States_Cache\<close>, \<open>Component_States_Props\<close>: the operational states of the
    station, its chargers and connectors (\<open>ocpp/v2/component_state_manager.cpp\<close>, with \<open>ocpp/v2/connector.cpp\<close> and
    the stubs of \<open>ocpp/v2/database_handler.cpp\<close>): what a change reports to the firmware and what is notified to
    the CSMS, with the caches that decide it. The locale \<open>connector_port\<close> is what a connector relies on,
    interpreted on the manager. The callbacks of the firmware only print.
  \<^item> \<open>Logging\<close>: the messages of \<open>configPRINTF\<close> (\<open>aws_iot/logging/logging.c\<close>), their buffers, and the logging task;
    \<open>Console_Format\<close>: what becomes on the console of the text received from the CSMS.
  \<^item> \<open>Ocpp_Timepoint\<close>, \<open>Steady_Timer\<close>: the times of the library, broken into fields (\<open>ocpp/OcppTimepoint.hpp\<close>, the class
    \<open>DateTime\<close>), and its timers on those of the kernel (\<open>ocpp/freertos_steady_timer.hpp\<close>).
  \<^item> \<open>Message_Queue\<close>, \<open>Message_Queue_Ops\<close>: the queue of the messages to the CSMS
    (\<open>ocpp/include/ocpp/common/message_queue.hpp\<close>) with its worker, timers, retries, pauses and dispatcher. What the connection
    answers is an argument, what is sent and resolved a log. \<open>Message_Queue_Inv\<close> and \<open>Message_Queue_Reach\<close> have the
    states \<open>mq_reachable\<close> under any operations and their invariant; \<open>Message_Queue_Props\<close> what it guarantees (order, no
    loss, bounded repetition), \<open>Message_Queue_Limits\<close> where it fails, and \<open>Message_Queue_Timers\<close> that its null
    pointer needs the race of a timer with an answer or a refusal (\<open>receive\<close> gives up the lock before it handles one, so
    that this is a step of its own).
  \<^item> \<open>ISO15118\<close>: the bridge to the ISO 15118 stack, which the build switches off.
  \<^item> \<open>Ocpp_Uri\<close>: the address of the CSMS (\<open>ocpp/include/websocketpp_utils/uri.hpp\<close>,
    \<open>ocpp/common/websocket/websocket_uri.cpp\<close>), with the round trip of printing and parsing; \<open>Base64\<close> the coding
    of its password.
  \<^item> \<open>Websocket\<close>, \<open>Websocket_Client\<close>: the connection to the CSMS (\<open>ocpp/common/websocket/websocket_base.cpp\<close>,
    \<open>websocket_libwebsockets.cpp\<close>). The thread of the client is a step machine; a record \<open>client_env\<close> says which
    callbacks the library makes in a step, and an operation that waits for the thread gets the steps that happen
    meanwhile. \<open>Websocket_Props\<close> bounds attempts and delays, \<open>Websocket_Reach\<close> shows that what is reported as sent was
    written, \<open>Websocket_View\<close> that the callbacks tell the application whether the connection stands.
  \<^item> \<open>Connectivity_Manager\<close>: profile, object and timer of the connection (\<open>ocpp/v2/connectivity_manager.cpp\<close>);
    \<open>Connectivity_Manager_Props\<close> that a connection that stops is tried again while the charge point wants one.

  \<^bold>\<open>Loops.\<close> Loops with a bound in the code (polls of the low level, queries and synchronizations of the
  time, the size check of the message queue) are recursions with a termination proof; those that end because of the data they work on (the walks
  of the linked list, the sectors and pages of a save, the wait for the flash device) are
  \<open>partial_function (option)\<close>, and the theorems show that they return. No fuel is chosen. Loops that wait for the outside take the answers as a list: \<open>wait_bits\<close> the events delivered,
  \<open>join_loop\<close> the attempts, \<open>await_transfer\<close> the polls; they are \<open>None\<close> when the list ends first, and the
  theorems that an operation returns say what the list has to hold. \<open>run_ring\<close> and \<open>turns\<close> are a number of steps.

  \<^bold>\<open>Concurrency.\<close> A turn of a task, an interrupt and a callback are atomic steps; their interleavings are
  the sequences of steps of the reachable states. Within a wait, the events of the other side are interleaved
  explicitly. Preemption inside a function is modelled where it gives up its lock (\<open>receive\<close> of the message queue),
  otherwise not.

  \<^bold>\<open>Not modelled.\<close> Of the OCPP task the construction of the library's objects before its loop and the callbacks that
  only print or answer a constant; to it the library is the log of the calls made on it and the messages it delivers. Of the library itself the times, timers, component states, the message
  queue and the connection are modelled, the functional blocks, the device model and the database are not. The vehicle side of \<open>ISO15118.c\<close> is compiled only for another product. Power
  management (\<open>lpm.c\<close>), the hooks of the kernel, the main program, pins, clocks and start-up only call
  drivers or print. FreeRTOS, lwIP, mbedTLS, libwebsockets, the Wi-Fi driver, the peripheral drivers and the
  metering library are third-party or vendor code: what the modules use of them is an argument, a log entry or a
  hypothesis of a locale.
\<close>

end
